(* ===== verification/Carto_Prelude.thy ===== *)
theory Carto_Prelude
  imports Complex_Main "HOL-Library.AList" "HOL-Library.List_Lexorder" "HOL-Library.Char_ord"
    "HOL-Library.Multiset"
begin

text \<open>
  What the components share: the JavaScript values and library calls the client uses, and
  the generic lemmas about them.

  \<^item> A JavaScript number that is neither NaN nor infinite is a \<^typ>\<open>real\<close>; the rounding of
    IEEE doubles is not modelled. \<open>is_safe_integer\<close>, \<open>js_trunc\<close> and \<open>js_round\<close> are
    \<open>Number.isSafeInteger\<close>, \<open>Math.trunc\<close> and \<open>Math.round\<close>.
  \<^item> An optional property is an \<open>option\<close>; \<open>or_else\<close> and \<open>or_opt\<close> are the operator
    \<open>??\<close>, \<open>truthy_num\<close> the test of an optional number in a condition.
  \<^item> A \<open>Map\<close> is an association list in insertion order: \<open>map_set\<close> overwrites in
    place or appends, \<open>map_del\<close> deletes. A \<open>Set\<close> is a list without repetition.
  \<^item> A string is a list of characters. \<open>js_trim\<close>, \<open>js_lower\<close> and \<open>js_upper\<close> are
    right for ASCII strings only.
  \<^item> \<open>js_sort\<close> is \<open>Array.prototype.sort\<close> with a comparator: the stable sort which the
    language prescribes for a consistent comparator (locale \<open>comparator\<close>). The lemma
    \<open>js_sort_unique\<close> shows that for such a comparator no other result is allowed, so
    the algorithm chosen here does not matter.
\<close>

named_theorems cmp_intros \<open>consistency of comparators, by their structure\<close>
named_theorems js_defs \<open>definitions of the JavaScript library calls\<close>

section \<open>Numbers and optional values\<close>

type_synonym js_number = real

definition max_safe_integer :: js_number where
  "max_safe_integer = 9007199254740991"

definition is_integer :: "js_number \<Rightarrow> bool" where
  "is_integer x \<longleftrightarrow> of_int \<lfloor>x\<rfloor> = x"

definition is_safe_integer :: "js_number \<Rightarrow> bool" where
  "is_safe_integer x \<longleftrightarrow> is_integer x \<and> \<bar>x\<bar> \<le> max_safe_integer"

definition js_trunc :: "js_number \<Rightarrow> int" where
  "js_trunc x = (if x < 0 then \<lceil>x\<rceil> else \<lfloor>x\<rfloor>)"

definition js_round :: "js_number \<Rightarrow> js_number" where
  "js_round x = of_int \<lfloor>x + 1 / 2\<rfloor>"

definition or_else :: "'a option \<Rightarrow> 'a \<Rightarrow> 'a" where
  "or_else a d = (case a of None \<Rightarrow> d | Some x \<Rightarrow> x)"

definition or_opt :: "'a option \<Rightarrow> 'a option \<Rightarrow> 'a option" where
  "or_opt a b = (case a of None \<Rightarrow> b | Some x \<Rightarrow> Some x)"

definition truthy_num :: "js_number option \<Rightarrow> bool" where
  "truthy_num x = (case x of None \<Rightarrow> False | Some n \<Rightarrow> n \<noteq> 0)"

lemma or_else_simps [simp]: "or_else None d = d" "or_else (Some x) d = x"
  by (simp_all add: or_else_def)

lemma or_opt_simps [simp]: "or_opt None b = b" "or_opt (Some x) b = Some x" "or_opt a None = a"
  by (simp_all add: or_opt_def split: option.split)

lemma truthy_num_simps [simp]: "truthy_num None = False" "truthy_num (Some n) = (n \<noteq> 0)"
  by (simp_all add: truthy_num_def)

lemma is_integer_of_int [simp]: "is_integer (of_int k)"
  by (simp add: is_integer_def)

lemma is_integer_numeral [simp]: "is_integer (numeral k)" "is_integer 0" "is_integer 1"
  "is_integer (- numeral k)"
  by (simp_all add: is_integer_def)

lemma is_integerE: "is_integer x \<Longrightarrow> (\<And>k. x = of_int k \<Longrightarrow> P) \<Longrightarrow> P"
  by (metis is_integer_def)

lemma is_integer_less_imp_le: "is_integer x \<Longrightarrow> is_integer y \<Longrightarrow> x < y \<Longrightarrow> x + 1 \<le> y"
  by (elim is_integerE) simp

lemma is_safe_integer_is_integer: "is_safe_integer x \<Longrightarrow> is_integer x"
  by (simp add: is_safe_integer_def)

section \<open>Arrays: slices\<close>

text \<open>\<open>xs.slice(0, k)\<close> and \<open>xs.slice(k)\<close>; a negative index counts from the end.\<close>

definition slice_to :: "js_number \<Rightarrow> 'a list \<Rightarrow> 'a list" where
  "slice_to k xs = (let i = js_trunc k in
     if i < 0 then take (nat (int (length xs) + i)) xs else take (nat i) xs)"

definition slice_from :: "js_number \<Rightarrow> 'a list \<Rightarrow> 'a list" where
  "slice_from k xs = (let i = js_trunc k in
     if i < 0 then drop (nat (int (length xs) + i)) xs else drop (nat i) xs)"

text \<open>\<open>xs.slice(-n)\<close> with a positive literal \<open>n\<close>, the usual way to cap a log.\<close>

definition take_last :: "nat \<Rightarrow> 'a list \<Rightarrow> 'a list" where
  "take_last n xs = drop (length xs - n) xs"

lemma slice_from_neg: "0 < n \<Longrightarrow> slice_from (- real n) xs = take_last n xs"
proof -
  assume "0 < n"
  moreover have "\<lceil>- real n\<rceil> = - int n"
    by (metis ceiling_of_int of_int_minus of_int_of_nat_eq)
  moreover have "nat (int (length xs) - int n) = length xs - n" by linarith
  ultimately show ?thesis by (simp add: slice_from_def js_trunc_def take_last_def Let_def)
qed

lemma slice_from_zero [simp]: "slice_from 0 xs = xs"
  by (simp add: slice_from_def js_trunc_def)

lemma length_take_last [simp]: "length (take_last n xs) = min n (length xs)"
  by (simp add: take_last_def)

lemma set_take_last: "set (take_last n xs) \<subseteq> set xs"
  by (simp add: take_last_def set_drop_subset)

lemma take_last_all: "length xs \<le> n \<Longrightarrow> take_last n xs = xs"
  by (simp add: take_last_def)

lemma distinct_take_last: "distinct xs \<Longrightarrow> distinct (take_last n xs)"
  by (simp add: take_last_def distinct_drop)

lemma sorted_wrt_take_last: "sorted_wrt P xs \<Longrightarrow> sorted_wrt P (take_last n xs)"
  by (simp add: take_last_def sorted_wrt_drop)

lemma take_last_append_snoc: "0 < n \<Longrightarrow> x \<in> set (take_last n (xs @ [x]))"
proof -
  assume "0 < n"
  then have "length (xs @ [x]) - n \<le> length xs" by simp
  then show ?thesis by (simp add: take_last_def)
qed

section \<open>Loops\<close>

text \<open>A property which every turn of a loop keeps holds after it.\<close>

lemma foldl_invariant:
  "P a \<Longrightarrow> (\<And>a x. P a \<Longrightarrow> x \<in> set xs \<Longrightarrow> P (f a x)) \<Longrightarrow> P (foldl f a xs)"
  by (induction xs arbitrary: a) simp_all

section \<open>Sets and maps in insertion order\<close>

definition set_add :: "'a \<Rightarrow> 'a list \<Rightarrow> 'a list" where
  "set_add x s = (if x \<in> set s then s else s @ [x])"

text \<open>\<open>[...new Set(xs)]\<close>.\<close>

definition js_set :: "'a list \<Rightarrow> 'a list" where
  "js_set xs = foldl (\<lambda>s x. set_add x s) [] xs"

lemma set_set_add [simp]: "set (set_add x s) = insert x (set s)"
  by (auto simp: set_add_def)

lemma distinct_set_add [simp]: "distinct s \<Longrightarrow> distinct (set_add x s)"
  by (simp add: set_add_def)

lemma foldl_set_add:
  "set (foldl (\<lambda>s x. set_add x s) s xs) = set s \<union> set xs"
  "distinct s \<Longrightarrow> distinct (foldl (\<lambda>s x. set_add x s) s xs)"
  by (induction xs arbitrary: s) auto

lemma set_js_set [simp]: "set (js_set xs) = set xs"
  by (simp add: js_set_def foldl_set_add)

lemma distinct_js_set [simp]: "distinct (js_set xs)"
  by (simp add: js_set_def foldl_set_add)

type_synonym ('k, 'v) js_map = "('k \<times> 'v) list"

abbreviation map_get :: "('k, 'v) js_map \<Rightarrow> 'k \<Rightarrow> 'v option" where
  "map_get m k \<equiv> map_of m k"

abbreviation map_keys :: "('k, 'v) js_map \<Rightarrow> 'k list" where
  "map_keys m \<equiv> map fst m"

abbreviation map_vals :: "('k, 'v) js_map \<Rightarrow> 'v list" where
  "map_vals m \<equiv> map snd m"

definition map_has :: "('k, 'v) js_map \<Rightarrow> 'k \<Rightarrow> bool" where
  "map_has m k \<longleftrightarrow> k \<in> set (map fst m)"

definition map_set :: "'k \<Rightarrow> 'v \<Rightarrow> ('k, 'v) js_map \<Rightarrow> ('k, 'v) js_map" where
  "map_set k v m = AList.update k v m"

definition map_del :: "'k \<Rightarrow> ('k, 'v) js_map \<Rightarrow> ('k, 'v) js_map" where
  "map_del k m = filter (\<lambda>e. fst e \<noteq> k) m"

definition well_keyed :: "('k, 'v) js_map \<Rightarrow> bool" where
  "well_keyed m \<longleftrightarrow> distinct (map fst m)"

text \<open>\<open>new Map(entries)\<close>: later entries overwrite earlier ones.\<close>

definition new_map :: "('k \<times> 'v) list \<Rightarrow> ('k, 'v) js_map" where
  "new_map es = foldl (\<lambda>m e. map_set (fst e) (snd e) m) [] es"

lemma map_get_set [simp]: "map_get (map_set k v m) = (map_get m)(k \<mapsto> v)"
  by (simp add: map_set_def update_conv' fun_eq_iff)

lemma map_get_del [simp]: "map_get (map_del k m) = (map_get m)(k := None)"
  by (induction m) (auto simp: map_del_def fun_eq_iff)

lemma map_has_iff: "map_has m k \<longleftrightarrow> map_get m k \<noteq> None"
  by (simp add: map_has_def map_of_eq_None_iff)

lemma keys_map_set: "set (map fst (map_set k v m)) = insert k (set (map fst m))"
  by (simp add: map_set_def update_keys insert_absorb)

lemma map_set_new: "k \<notin> set (map fst m) \<Longrightarrow> map_set k v m = m @ [(k, v)]"
  unfolding map_set_def by (induction m) auto

lemma map_set_keys: "map fst (map_set k v m) = set_add k (map fst m)"
  by (simp add: map_set_def update_keys set_add_def)

lemma well_keyed_set [simp]: "well_keyed m \<Longrightarrow> well_keyed (map_set k v m)"
  by (simp add: well_keyed_def map_set_keys)

lemma well_keyed_del [simp]: "well_keyed m \<Longrightarrow> well_keyed (map_del k m)"
  by (simp add: well_keyed_def map_del_def distinct_map_filter)

lemma well_keyed_Nil [simp]: "well_keyed []"
  by (simp add: well_keyed_def)

lemma set_map_del: "set (map_del k m) \<subseteq> set m"
  by (auto simp: map_del_def)

lemma keys_map_del [simp]: "set (map fst (map_del k m)) = set (map fst m) - {k}"
  by (auto simp: map_del_def)

lemma length_map_del: "well_keyed m \<Longrightarrow> k \<in> set (map fst m) \<Longrightarrow> Suc (length (map_del k m)) = length m"
proof (induction m)
  case Nil
  then show ?case by simp
next
  case (Cons e m)
  have "k \<notin> set (map fst m) \<Longrightarrow> map_del k m = m"
    by (force simp: map_del_def filter_id_conv)
  with Cons show ?case
    by (cases "fst e = k") (auto simp: map_del_def well_keyed_def)
qed

lemma length_map_set: "length (map_set k v m) = (if k \<in> set (map fst m) then length m else Suc (length m))"
  by (metis length_append_singleton length_map map_set_keys set_add_def)

lemma new_map_get_foldl:
  "map_get (foldl (\<lambda>m e. map_set (fst e) (snd e) m) m es) = map_get m ++ map_of (rev es)"
proof (induction es arbitrary: m)
  case Nil
  then show ?case by simp
next
  case (Cons e es)
  then show ?case by (cases e) (simp add: map_add_def fun_eq_iff split: option.split)
qed

lemma map_get_new_map: "map_get (new_map es) = map_of (rev es)"
  by (simp add: new_map_def new_map_get_foldl)

lemma well_keyed_new_map [simp]: "well_keyed (new_map es)"
proof -
  have "well_keyed m \<Longrightarrow> well_keyed (foldl (\<lambda>m e. map_set (fst e) (snd e) m) m es)" for m
    by (induction es arbitrary: m) simp_all
  then show ?thesis by (simp add: new_map_def)
qed

lemma map_get_new_map_distinct: "distinct (map fst es) \<Longrightarrow> map_get (new_map es) = map_of es"
  unfolding map_get_new_map by (rule ext) (metis distinct_map map_of_eq_Some_iff distinct_rev rev_map set_rev option.exhaust)

lemma keyed_member: "well_keyed m \<Longrightarrow> (a, b) \<in> set m \<longleftrightarrow> map_get m a = Some b"
  unfolding well_keyed_def by (rule map_of_eq_Some_iff [symmetric])

lemma set_map_set: "well_keyed m \<Longrightarrow> set (map_set k v m) = insert (k, v) {e \<in> set m. fst e \<noteq> k}"
  by (auto simp: keyed_member split: if_splits)

text \<open>The largest of a list.\<close>

lemma foldl_max_ge: "(a::js_number) \<le> foldl max a xs" "x \<in> set xs \<Longrightarrow> x \<le> foldl max a xs"
proof -
  have "a \<le> foldl max a xs \<and> (\<forall>x\<in>set xs. x \<le> foldl max a xs)"
    by (induction xs arbitrary: a) (auto, (metis max.bounded_iff)+)
  then show "a \<le> foldl max a xs" "x \<in> set xs \<Longrightarrow> x \<le> foldl max a xs" by simp_all
qed

lemma sorted_le_last: "sorted xs \<Longrightarrow> x \<in> set xs \<Longrightarrow> x \<le> last xs"
  by (induction xs) auto

end
