(* ===== verification/Js_Sort.thy ===== *)
theory Js_Sort
  imports Carto_Prelude
begin

text \<open>
  \<open>Array.prototype.sort\<close> with a comparator, and the comparators the client builds: a
  difference of numbers, \<open>localeCompare\<close>, and such comparisons chained with \<open>||\<close>. The
  locale \<open>comparator\<close> is the contract under which the language defines the result of a
  sort; \<open>cmp_intros\<close> derives it from the structure of a comparator.
\<close>

section \<open>The sort\<close>

fun insert_by :: "('a \<Rightarrow> 'a \<Rightarrow> js_number) \<Rightarrow> 'a \<Rightarrow> 'a list \<Rightarrow> 'a list" where
  "insert_by cmp x [] = [x]"
| "insert_by cmp x (y # ys) = (if cmp x y \<le> 0 then x # y # ys else y # insert_by cmp x ys)"

definition js_sort :: "('a \<Rightarrow> 'a \<Rightarrow> js_number) \<Rightarrow> 'a list \<Rightarrow> 'a list" where
  "js_sort cmp xs = foldr (insert_by cmp) xs []"

lemma js_sort_simps [simp]: "js_sort cmp [] = []" "js_sort cmp (x # xs) = insert_by cmp x (js_sort cmp xs)"
  by (simp_all add: js_sort_def)

lemma mset_insert_by [simp]: "mset (insert_by cmp x xs) = add_mset x (mset xs)"
  by (induction xs) auto

lemma mset_js_sort [simp]: "mset (js_sort cmp xs) = mset xs"
  by (induction xs) auto

lemma set_js_sort [simp]: "set (js_sort cmp xs) = set xs"
  by (metis mset_js_sort set_mset_mset)

lemma length_js_sort [simp]: "length (js_sort cmp xs) = length xs"
  by (metis mset_js_sort size_mset)

lemma distinct_map_js_sort [simp]: "distinct (map f (js_sort cmp xs)) = distinct (map f xs)"
  by (metis mset_js_sort mset_map mset_eq_imp_distinct_iff)

lemma js_sort_Nil_iff [simp]: "js_sort cmp xs = [] \<longleftrightarrow> xs = []"
  by (metis length_0_conv length_js_sort)

section \<open>Consistent comparators\<close>

locale comparator =
  fixes cmp :: "'a \<Rightarrow> 'a \<Rightarrow> js_number"
  assumes flip: "cmp x y < 0 \<longleftrightarrow> 0 < cmp y x"
    and trans_le: "cmp x y \<le> 0 \<Longrightarrow> cmp y z \<le> 0 \<Longrightarrow> cmp x z \<le> 0"
begin

lemma refl [simp]: "cmp x x = 0"
  using flip [of x x] by linarith

lemma not_le_flip: "\<not> cmp x y \<le> 0 \<Longrightarrow> cmp y x \<le> 0"
  using flip [of y x] by linarith

lemma antisym_eq: "cmp x y \<le> 0 \<Longrightarrow> cmp y x \<le> 0 \<Longrightarrow> cmp y x = 0"
  by (metis flip not_less order.order_iff_strict)

lemma eq_flip: "cmp x y = 0 \<longleftrightarrow> cmp y x = 0"
  using flip [of y x] flip [of x y] by linarith

lemma eq_trans: "cmp x y = 0 \<Longrightarrow> cmp y z = 0 \<Longrightarrow> cmp x z = 0"
  using trans_le [of x y z] trans_le [of z y x] eq_flip [of x y] eq_flip [of y z] flip [of x z] flip [of z x]
  by linarith

lemma sorted_insert_by:
  "sorted_wrt (\<lambda>a b. cmp a b \<le> 0) xs \<Longrightarrow> sorted_wrt (\<lambda>a b. cmp a b \<le> 0) (insert_by cmp x xs)"
proof (induction xs)
  case Nil
  then show ?case by simp
next
  case (Cons y ys)
  have s: "set (insert_by cmp x ys) = insert x (set ys)"
    by (metis mset_insert_by set_mset_mset set_mset_add_mset_insert)
  from Cons show ?case by (auto simp: s intro: trans_le dest: not_le_flip)
qed

lemma sorted_js_sort: "sorted_wrt (\<lambda>a b. cmp a b \<le> 0) (js_sort cmp xs)"
  by (induction xs) (auto intro: sorted_insert_by)

lemma filter_insert_by:
  "filter (\<lambda>a. cmp a z = 0) (insert_by cmp x xs) = filter (\<lambda>a. cmp a z = 0) (x # xs)"
proof (induction xs)
  case Nil
  then show ?case by simp
next
  case (Cons y ys)
  have "cmp x z = 0 \<Longrightarrow> cmp y z = 0 \<Longrightarrow> cmp x y = 0"
    using eq_trans [of x z y] eq_flip [of y z] by simp
  with Cons show ?case by auto
qed

text \<open>Stability: elements that compare equal keep their order.\<close>

lemma js_sort_stable: "filter (\<lambda>a. cmp a z = 0) (js_sort cmp xs) = filter (\<lambda>a. cmp a z = 0) xs"
  by (induction xs) (auto simp: filter_insert_by)

lemma sorted_stable_eq:
  assumes "sorted_wrt (\<lambda>a b. cmp a b \<le> 0) xs" and "sorted_wrt (\<lambda>a b. cmp a b \<le> 0) ys"
    and "\<And>z. filter (\<lambda>a. cmp a z = 0) xs = filter (\<lambda>a. cmp a z = 0) ys"
  shows "xs = ys"
  using assms
proof (induction xs arbitrary: ys)
  case Nil
  show ?case
  proof (cases ys)
    case (Cons y ys')
    then show ?thesis using Nil.prems(3) [of y] by simp
  qed simp
next
  case (Cons x xs)
  have fx: "x # filter (\<lambda>a. cmp a x = 0) xs = filter (\<lambda>a. cmp a x = 0) ys"
    using Cons.prems(3) [of x] by simp
  then have "x \<in> set (filter (\<lambda>a. cmp a x = 0) ys)" by (metis list.set_intros(1))
  then have "x \<in> set ys" by simp
  then obtain y ys' where ys: "ys = y # ys'" by (cases ys) auto
  have "y \<in> set (filter (\<lambda>a. cmp a y = 0) (x # xs))"
    by (subst Cons.prems(3)) (simp add: ys)
  then have "y \<in> set (x # xs)" by (auto split: if_splits)
  then have "cmp x y \<le> 0" using Cons.prems(1) by auto
  moreover have "cmp y x \<le> 0" using Cons.prems(2) \<open>x \<in> set ys\<close> ys by auto
  ultimately have "cmp y x = 0" by (rule antisym_eq)
  with fx ys have [simp]: "y = x" by simp
  have "filter (\<lambda>a. cmp a z = 0) xs = filter (\<lambda>a. cmp a z = 0) ys'" for z
    using Cons.prems(3) [of z] ys by (auto split: if_splits)
  then show ?case using Cons.IH [of ys'] Cons.prems(1,2) ys by simp
qed

text \<open>A sorted, stable rearrangement is the one \<open>js_sort\<close> computes.\<close>

lemma js_sort_unique:
  assumes "sorted_wrt (\<lambda>a b. cmp a b \<le> 0) ys"
    and "\<And>z. filter (\<lambda>a. cmp a z = 0) ys = filter (\<lambda>a. cmp a z = 0) xs"
  shows "ys = js_sort cmp xs"
proof (rule sorted_stable_eq)
  show "sorted_wrt (\<lambda>a b. cmp a b \<le> 0) (js_sort cmp xs)" by (rule sorted_js_sort)
  show "filter (\<lambda>a. cmp a z = 0) ys = filter (\<lambda>a. cmp a z = 0) (js_sort cmp xs)" for z
    by (simp only: js_sort_stable assms(2))
qed (rule assms(1))

lemma js_sort_id: "sorted_wrt (\<lambda>a b. cmp a b \<le> 0) xs \<Longrightarrow> js_sort cmp xs = xs"
  using js_sort_unique [of xs xs] by simp

lemma filter_js_sort: "filter P (js_sort cmp xs) = js_sort cmp (filter P xs)"
proof (rule js_sort_unique)
  show "sorted_wrt (\<lambda>a b. cmp a b \<le> 0) (filter P (js_sort cmp xs))"
    by (rule sorted_wrt_filter [OF sorted_js_sort])
  show "filter (\<lambda>a. cmp a z = 0) (filter P (js_sort cmp xs)) = filter (\<lambda>a. cmp a z = 0) (filter P xs)" for z
  proof -
    have "filter (\<lambda>a. cmp a z = 0) (filter P (js_sort cmp xs)) = filter P (filter (\<lambda>a. cmp a z = 0) (js_sort cmp xs))"
      by (simp add: conj_commute)
    also have "\<dots> = filter P (filter (\<lambda>a. cmp a z = 0) xs)"
      by (simp only: js_sort_stable)
    finally show ?thesis by (simp add: conj_commute)
  qed
qed

end

section \<open>Building comparators\<close>

text \<open>\<open>f(a) - f(b)\<close>, the reverse, and \<open>c1(a, b) || c2(a, b)\<close>.\<close>

definition by_asc :: "('a \<Rightarrow> js_number) \<Rightarrow> 'a \<Rightarrow> 'a \<Rightarrow> js_number" where
  "by_asc f a b = f a - f b"

definition by_desc :: "('a \<Rightarrow> js_number) \<Rightarrow> 'a \<Rightarrow> 'a \<Rightarrow> js_number" where
  "by_desc f a b = f b - f a"

definition then_by :: "('a \<Rightarrow> 'a \<Rightarrow> js_number) \<Rightarrow> ('a \<Rightarrow> 'a \<Rightarrow> js_number) \<Rightarrow> 'a \<Rightarrow> 'a \<Rightarrow> js_number" where
  "then_by c1 c2 a b = (if c1 a b \<noteq> 0 then c1 a b else c2 a b)"

definition by_key :: "('k \<Rightarrow> 'k \<Rightarrow> js_number) \<Rightarrow> ('a \<Rightarrow> 'k) \<Rightarrow> 'a \<Rightarrow> 'a \<Rightarrow> js_number" where
  "by_key c f a b = c (f a) (f b)"

lemma comparator_by_asc [cmp_intros]: "comparator (by_asc f)"
  by unfold_locales (auto simp: by_asc_def)

lemma comparator_by_desc [cmp_intros]: "comparator (by_desc f)"
  by unfold_locales (auto simp: by_desc_def)

lemma comparator_by_key [cmp_intros]: "comparator c \<Longrightarrow> comparator (by_key c f)"
  unfolding comparator_def by_key_def by blast

lemma comparatorD:
  assumes "comparator c"
  shows "c x y < 0 \<longleftrightarrow> 0 < c y x" and "c x y = 0 \<longleftrightarrow> c y x = 0"
    and "c x y \<le> 0 \<Longrightarrow> c y z \<le> 0 \<Longrightarrow> c x z \<le> 0"
    and "c x y < 0 \<Longrightarrow> c y z \<le> 0 \<Longrightarrow> c x z < 0"
    and "c x y \<le> 0 \<Longrightarrow> c y z < 0 \<Longrightarrow> c x z < 0"
    and "c x y = 0 \<Longrightarrow> c y z = 0 \<Longrightarrow> c x z = 0"
proof -
  note c = comparator.flip [OF assms] comparator.trans_le [OF assms]
  show "c x y < 0 \<longleftrightarrow> 0 < c y x" by (rule c(1))
  show "c x y = 0 \<longleftrightarrow> c y x = 0" by (rule comparator.eq_flip [OF assms])
  show "c x y \<le> 0 \<Longrightarrow> c y z \<le> 0 \<Longrightarrow> c x z \<le> 0" by (rule c(2))
  show "c x y < 0 \<Longrightarrow> c y z \<le> 0 \<Longrightarrow> c x z < 0"
    using c(1) [of x y] c(1) [of x z] c(1) [of z x] c(2) [of y z x] by linarith
  show "c x y \<le> 0 \<Longrightarrow> c y z < 0 \<Longrightarrow> c x z < 0"
    using c(1) [of y z] c(1) [of x z] c(1) [of z x] c(2) [of z x y] by linarith
  show "c x y = 0 \<Longrightarrow> c y z = 0 \<Longrightarrow> c x z = 0" by (rule comparator.eq_trans [OF assms])
qed

lemma then_by_le_iff: "then_by c1 c2 x y \<le> 0 \<longleftrightarrow> c1 x y < 0 \<or> c1 x y = 0 \<and> c2 x y \<le> 0"
  by (auto simp: then_by_def)

lemma comparator_then_by [cmp_intros]:
  assumes "comparator c1" and "comparator c2"
  shows "comparator (then_by c1 c2)"
proof
  fix x y
  show "then_by c1 c2 x y < 0 \<longleftrightarrow> 0 < then_by c1 c2 y x"
    using comparatorD(1,2) [OF assms(1), of x y] comparatorD(1) [OF assms(2), of x y]
    by (auto simp: then_by_def)
next
  fix x y z
  assume "then_by c1 c2 x y \<le> 0" and "then_by c1 c2 y z \<le> 0"
  then show "then_by c1 c2 x z \<le> 0"
    unfolding then_by_le_iff
    using comparatorD(3-6) [OF assms(1), of x y z] comparatorD(3) [OF assms(2), of x y z]
    by auto
qed

text \<open>
  \<open>localeCompare\<close> depends on the collation of the host; the language only requires it to
  be consistent. The models take it as an argument \<open>lc\<close>, and what they need is that
  \<open>lc\<close> is a comparator of strings.
\<close>

locale collation = lc: comparator lc for lc :: "string \<Rightarrow> string \<Rightarrow> js_number"
begin

lemma by_label: "comparator (by_key lc f)"
  by (rule comparator_by_key) (rule lc.comparator_axioms)

end

text \<open>The order by code units (the default order of \<open>sort()\<close>) is one such collation.\<close>

definition code_unit_compare :: "string \<Rightarrow> string \<Rightarrow> js_number" where
  "code_unit_compare a b = (if a < b then - 1 else if b < a then 1 else 0)"

interpretation code_units: collation code_unit_compare
  by unfold_locales (auto simp: code_unit_compare_def split: if_splits)

text \<open>\<open>xs.sort()\<close> on strings, and \<open>[...new Set(xs)].sort()\<close>.\<close>

definition sort_strings :: "string list \<Rightarrow> string list" where
  "sort_strings xs = js_sort code_unit_compare xs"

lemma set_sort_strings [simp]: "set (sort_strings xs) = set xs"
  by (simp add: sort_strings_def)

lemma distinct_sort_strings [simp]: "distinct (sort_strings xs) = distinct xs"
  using distinct_map_js_sort [of id] by (simp add: sort_strings_def)

lemma sorted_sort_strings: "sorted (sort_strings xs)"
  using code_units.lc.sorted_js_sort [of xs]
  by (auto simp: sort_strings_def code_unit_compare_def split: if_splits
      elim!: sorted_wrt_mono_rel [rotated])

lemma sort_strings_eq_iff:
  assumes "distinct xs" and "distinct ys"
  shows "sort_strings xs = sort_strings ys \<longleftrightarrow> set xs = set ys"
  using assms sorted_distinct_set_unique [OF sorted_sort_strings _ sorted_sort_strings, of xs ys]
  by (metis distinct_sort_strings set_sort_strings)

section \<open>The host's sort\<close>

text \<open>
  For a comparator that is not consistent on the elements of the array the language leaves the
  order to the host. Code that sorts with such a comparator is modelled over an arbitrary
  \<open>srt\<close> with this contract: the result is a permutation, and where the comparator agrees
  on the array with a consistent one it is the sorted, stable result.
\<close>

lemma insert_by_cong:
  "(\<And>y. y \<in> set xs \<Longrightarrow> c x y = d x y) \<Longrightarrow> insert_by c x xs = insert_by d x xs"
  by (induction xs) auto

lemma js_sort_cong:
  "(\<And>x y. x \<in> set xs \<Longrightarrow> y \<in> set xs \<Longrightarrow> c x y = d x y) \<Longrightarrow> js_sort c xs = js_sort d xs"
proof (induction xs)
  case (Cons x xs)
  then have "js_sort c xs = js_sort d xs" by simp
  moreover have "insert_by c x (js_sort d xs) = insert_by d x (js_sort d xs)"
    by (rule insert_by_cong) (use Cons.prems in auto)
  ultimately show ?case by simp
qed simp

locale host_sort =
  fixes srt :: "('a \<Rightarrow> 'a \<Rightarrow> js_number) \<Rightarrow> 'a list \<Rightarrow> 'a list"
  assumes perm: "mset (srt c xs) = mset xs"
    and consistent: "comparator d \<Longrightarrow> (\<And>x y. x \<in> set xs \<Longrightarrow> y \<in> set xs \<Longrightarrow> c x y = d x y) \<Longrightarrow>
      srt c xs = js_sort d xs"
begin

lemma set_srt [simp]: "set (srt c xs) = set xs"
  by (metis perm set_mset_mset)

lemma length_srt [simp]: "length (srt c xs) = length xs"
  by (metis perm size_mset)

lemma srt_comparator: "comparator c \<Longrightarrow> srt c xs = js_sort c xs"
  by (rule consistent) simp_all

lemma srt_Nil_iff [simp]: "srt c xs = [] \<longleftrightarrow> xs = []"
  by (metis length_0_conv length_srt)

end

interpretation stable: host_sort js_sort
  by unfold_locales (simp, blast intro: js_sort_cong)

end
