(* ===== verification/Carto_Strings.thy ===== *)
theory Carto_Strings
  imports Carto_Prelude "HOL-Library.Sublist"
begin

text \<open>
  The string methods the client uses: \<open>trim\<close>, \<open>toLowerCase\<close>, \<open>toUpperCase\<close>,
  \<open>startsWith\<close>, \<open>includes\<close>, \<open>join\<close>, \<open>replaceAll\<close> of one character and \<open>String(n)\<close> of a natural
  number. The case methods and \<open>trim\<close> are right for ASCII strings only; the labels, identifiers and
  keywords the modelled code passes to them are ASCII, save for user-typed queries.
\<close>

definition is_space :: "char \<Rightarrow> bool" where
  "is_space c = (of_char c \<in> {9, 10, 11, 12, 13, 32::nat})"

definition trim_start :: "string \<Rightarrow> string" where
  "trim_start s = dropWhile is_space s"

definition trim_end :: "string \<Rightarrow> string" where
  "trim_end s = rev (dropWhile is_space (rev s))"

definition js_trim :: "string \<Rightarrow> string" where
  "js_trim s = trim_end (trim_start s)"

definition lower_char :: "char \<Rightarrow> char" where
  "lower_char c = (let n = of_char c :: nat in if 65 \<le> n \<and> n \<le> 90 then char_of (n + 32) else c)"

definition upper_char :: "char \<Rightarrow> char" where
  "upper_char c = (let n = of_char c :: nat in if 97 \<le> n \<and> n \<le> 122 then char_of (n - 32) else c)"

definition js_lower :: "string \<Rightarrow> string" where
  "js_lower s = map lower_char s"

definition js_upper :: "string \<Rightarrow> string" where
  "js_upper s = map upper_char s"

fun starts_with :: "string \<Rightarrow> string \<Rightarrow> bool" where
  "starts_with s [] = True"
| "starts_with [] (p # ps) = False"
| "starts_with (c # cs) (p # ps) = (c = p \<and> starts_with cs ps)"

fun str_includes :: "string \<Rightarrow> string \<Rightarrow> bool" where
  "str_includes [] needle = (needle = [])"
| "str_includes (c # cs) needle = (starts_with (c # cs) needle \<or> str_includes cs needle)"

fun join :: "string \<Rightarrow> string list \<Rightarrow> string" where
  "join sep [] = []"
| "join sep [x] = x"
| "join sep (x # y # ys) = x @ sep @ join sep (y # ys)"

definition replace_char :: "char \<Rightarrow> char \<Rightarrow> string \<Rightarrow> string" where
  "replace_char a b s = map (\<lambda>c. if c = a then b else c) s"

fun show_nat :: "nat \<Rightarrow> string" where
  "show_nat n = (if n < 10 then [char_of (48 + n)] else show_nat (n div 10) @ [char_of (48 + n mod 10)])"

declare show_nat.simps [simp del]

lemma starts_with_iff: "starts_with s p \<longleftrightarrow> prefix p s"
  by (induction s p rule: starts_with.induct) auto

lemma str_includes_iff: "str_includes s needle \<longleftrightarrow> sublist needle s"
  by (induction s) (auto simp: starts_with_iff sublist_Cons_right)

lemma lower_char_idem [simp]: "lower_char (lower_char c) = lower_char c"
proof -
  have "of_char c < (256::nat)" by simp
  then show ?thesis by (auto simp: lower_char_def Let_def)
qed

lemma upper_char_idem [simp]: "upper_char (upper_char c) = upper_char c"
  by (auto simp: upper_char_def Let_def)

lemma js_lower_idem [simp]: "js_lower (js_lower s) = js_lower s"
  by (simp add: js_lower_def)

lemma js_upper_idem [simp]: "js_upper (js_upper s) = js_upper s"
  by (simp add: js_upper_def)

lemma js_lower_Nil_iff [simp]: "js_lower s = [] \<longleftrightarrow> s = []"
  by (simp add: js_lower_def)

lemma dropWhile_idem_hd: "xs = [] \<or> \<not> P (hd xs) \<Longrightarrow> dropWhile P xs = xs"
  by (cases xs) auto

lemma trim_end_hd: "s \<noteq> [] \<Longrightarrow> \<not> is_space (hd s) \<Longrightarrow> trim_end s \<noteq> [] \<and> hd (trim_end s) = hd s"
proof -
  assume s: "s \<noteq> []" "\<not> is_space (hd s)"
  then obtain c cs where c: "s = c # cs" "\<not> is_space c" by (cases s) auto
  then have "dropWhile is_space (rev cs @ [c]) = dropWhile is_space (rev cs) @ [c]"
    by (induction "rev cs") (auto simp: dropWhile_append3 dropWhile_append)
  then show ?thesis by (simp add: trim_end_def c(1))
qed

lemma js_trim_idem [simp]: "js_trim (js_trim s) = js_trim s"
proof -
  have t: "trim_start (trim_end (trim_start s)) = trim_end (trim_start s)"
  proof (cases "trim_start s = []")
    case True
    show ?thesis unfolding True by (simp add: trim_end_def trim_start_def)
  next
    case False
    then have "\<not> is_space (hd (trim_start s))" by (simp add: trim_start_def hd_dropWhile)
    from trim_end_hd [OF False this] \<open>\<not> is_space (hd (trim_start s))\<close> show ?thesis
      unfolding trim_start_def [of "trim_end _"] by (intro dropWhile_idem_hd) simp
  qed
  have e: "trim_end (trim_end x) = trim_end x" for x by (simp add: trim_end_def)
  show ?thesis by (simp add: js_trim_def t e)
qed

lemma js_trim_Nil [simp]: "js_trim [] = []"
  by (simp add: js_trim_def trim_start_def trim_end_def)

end
