(* ===== verification/Carto_Types.thy ===== *)
theory Carto_Types
  imports Carto_Prelude
begin

text \<open>
  The wire types of \<open>web/src/types.ts\<close>, one record or datatype per interface. A record
  field has the name of the property after a prefix for its interface (\<open>id\<close> of a
  \<open>PublicRoute\<close> is \<open>rt_id\<close>), since Isabelle field names are global; an optional property
  (\<open>x?: t\<close>) is an \<open>option\<close>, and \<open>Record<string, t>\<close> an insertion-ordered map.
  \<open>PublicEvent\<close> and \<open>PublicLiveEnvelope\<close> are tagged unions: the tag and the data that
  depend on it are one datatype (\<open>event_body\<close>, \<open>envelope_kind\<close>), the properties all
  alternatives share are fields.
\<close>

section \<open>Nodes, routes and locations\<close>

datatype NodeRole = Companion | Repeater | RoomServer | Sensor | UnknownRole

fun role_name :: "NodeRole \<Rightarrow> string" where
  "role_name Companion = ''companion''"
| "role_name Repeater = ''repeater''"
| "role_name RoomServer = ''room_server''"
| "role_name Sensor = ''sensor''"
| "role_name UnknownRole = ''unknown''"

record PublicNode =
  pn_seq :: "js_number option"
  pn_id :: string
  pn_label :: string
  pn_role :: NodeRole
  pn_isObserver :: "bool option"
  pn_latitude :: js_number
  pn_longitude :: js_number
  pn_lastSeen :: js_number
  pn_firstSeen :: js_number
  pn_iatasHeardIn :: "string list"
  pn_regionsHeardIn :: "string list option"
  pn_activityCount :: js_number

record PublicRouteEndpoint =
  ep_nodeId :: string
  ep_label :: string
  ep_lat :: js_number
  ep_lng :: js_number
  ep_pathHash3 :: "string option"

record PublicRouteSegment =
  sg_routeId :: string
  sg_from :: PublicRouteEndpoint
  sg_to :: PublicRouteEndpoint
  sg_distanceKm :: js_number

record PublicRoute =
  rt_id :: string
  rt_from :: PublicRouteEndpoint
  rt_to :: PublicRouteEndpoint
  rt_distanceKm :: js_number
  rt_packetCount :: js_number
  rt_lastHeard :: js_number
  rt_frequencyBucket :: js_number
  rt_payloadTypeNames :: "string list"

datatype PublicAnimationState = AnimRoute | AnimObserver | AnimUnmapped

datatype PublicResolutionBucket =
    Routed | ObserverOnly | UnresolvedPath | MissingLocation | RfGated | DistanceGated | NotMapSafe

record PublicObserverLocation =
  ol_label :: string
  ol_iata :: "string option"
  ol_region :: "string option"
  ol_lat :: js_number
  ol_lng :: js_number

record PublicMessageAnchor =
  ma_kind :: string
  ma_nodeId :: "string option"
  ma_label :: string
  ma_lat :: js_number
  ma_lng :: js_number

section \<open>Activity, bursts, pulses and packet paths\<close>

record PublicActivity =
  pa_id :: string
  pa_kind :: string
  pa_payloadTypeName :: string
  pa_routeTypeName :: "string option"
  pa_iata :: "string option"
  pa_region :: "string option"
  pa_heardAt :: js_number
  pa_receivedAt :: "js_number option"
  pa_displayAt :: "js_number option"
  pa_seq :: "js_number option"
  pa_hopCount :: js_number
  pa_hasRoute :: bool
  pa_animationState :: PublicAnimationState
  pa_resolutionBucket :: PublicResolutionBucket
  pa_observerLocation :: "PublicObserverLocation option"
  pa_routeIds :: "string list option"
  pa_endpointLabels :: "string list option"
  pa_messageSender :: "string option"
  pa_messageText :: "string option"
  pa_messageAnchor :: "PublicMessageAnchor option"

record PublicObserverBurst =
  ob_id :: string
  ob_payloadTypeName :: string
  ob_heardAt :: js_number
  ob_receivedAt :: "js_number option"
  ob_displayAt :: "js_number option"
  ob_seq :: "js_number option"
  ob_location :: PublicObserverLocation
  ob_messageSender :: "string option"
  ob_messageText :: "string option"
  ob_messageAnchor :: "PublicMessageAnchor option"

datatype PacketAnimationStyle = Comet | Pulse | Minimal

record ReplayOptions =
  ro_force :: "bool option"
  ro_travelDurationMs :: "js_number option"
  ro_brightness :: "js_number option"
  ro_trailScale :: "js_number option"
  ro_animationStyle :: "PacketAnimationStyle option"

record PublicRoutePulse =
  rp_id :: string
  rp_iata :: "string option"
  rp_region :: "string option"
  rp_payloadTypeName :: string
  rp_messageSender :: "string option"
  rp_messageText :: "string option"
  rp_messageAnchor :: "PublicMessageAnchor option"
  rp_heardAt :: js_number
  rp_receivedAt :: "js_number option"
  rp_displayAt :: "js_number option"
  rp_seq :: "js_number option"
  rp_segments :: "PublicRouteSegment list"
  rp_replayOptions :: "ReplayOptions option"

record PublicPacketPath =
  pp_id :: string
  pp_at :: js_number
  pp_iata :: "string option"
  pp_region :: "string option"
  pp_payloadTypeName :: string
  pp_messageSender :: "string option"
  pp_messageText :: "string option"
  pp_hopCount :: js_number
  pp_segmentCount :: js_number
  pp_distanceKm :: js_number
  pp_routeIds :: "string list"
  pp_endpointLabels :: "string list"
  pp_segments :: "PublicRouteSegment list"

section \<open>Statistics and snapshots\<close>

record PublicStats =
  st_packets :: js_number
  st_activeNodes :: js_number
  st_activeRoutes :: js_number
  st_mqttConnected :: bool
  st_mqttMessages :: js_number
  st_wsClients :: js_number
  st_serverTime :: js_number
  st_latestSeq :: "js_number option"
  st_resolutionBuckets :: "(string, (string, js_number) js_map) js_map option"
  st_excludedIatas :: "(string, js_number) js_map option"
  st_excludedRegions :: "(string, js_number) js_map option"

record MapBounds =
  mb_minLat :: js_number
  mb_maxLat :: js_number
  mb_minLng :: js_number
  mb_maxLng :: js_number

record PublicMapConfig =
  mc_regionPreset :: "string option"
  mc_defaultRegion :: "string option"
  mc_defaultCenter :: "(js_number \<times> js_number) option"
  mc_defaultZoom :: "js_number option"
  mc_bounds :: "MapBounds option"

text \<open>
  \<open>stats\<close> is not optional in the interface, but the reducer reads it with \<open>?.\<close> and
  \<open>??\<close> since the snapshot is unchecked JSON; the same holds for \<open>nodes\<close>, \<open>routes\<close> and
  \<open>recentActivity\<close>.
\<close>

record PublicLiveState =
  ls_serverTime :: js_number
  ls_map :: "PublicMapConfig option"
  ls_stats :: "PublicStats option"
  ls_nodes :: "PublicNode list option"
  ls_routes :: "PublicRoute list option"
  ls_recentPulses :: "PublicRoutePulse list option"
  ls_recentActivity :: "PublicActivity list option"

record PublicMapCluster =
  mp_id :: string
  mp_latitude :: js_number
  mp_longitude :: js_number
  mp_count :: js_number
  mp_activityCount :: "js_number option"
  mp_lastSeen :: "js_number option"
  mp_region :: "string option"

record RuntimeHealth =
  rh_ok :: "bool option"
  rh_ready :: "bool option"
  rh_reasons :: "string list option"
  rh_version :: "string option"
  rh_gitSha :: "string option"
  rh_buildTime :: "string option"
  rh_dbReady :: "bool option"
  rh_staticReady :: "bool option"
  rh_publicStateReady :: "bool option"
  rh_mqttSessionReady :: "bool option"
  rh_datasetState :: "string option"
  rh_datasetStartedAt :: "js_number option"
  rh_storagePressureState :: "string option"
  rh_primaryIngestState :: "string option"
  rh_liveProjectionState :: "string option"
  rh_primaryQueueOldestAgeMs :: "js_number option"
  rh_liveProjectionOldestAgeMs :: "js_number option"
  rh_lastBroadcastLatencyMs :: "js_number option"

record PublicBootstrapResponse =
  br_serverTime :: js_number
  br_map :: "PublicMapConfig option"
  br_stats :: PublicStats
  br_latestSeq :: js_number
  br_health :: RuntimeHealth
  br_clusters :: "PublicMapCluster list"
  br_recentActivity :: "PublicActivity list"

section \<open>Events and live envelopes\<close>

datatype event_body =
    EvActivity PublicActivity
  | EvRoutePulse PublicRoutePulse
  | EvNodeUpdate PublicNode
  | EvOther string \<comment> \<open>any other \<open>type\<close>; its data is never read\<close>

record PublicEvent =
  ev_seq :: js_number
  ev_body :: event_body
  ev_at :: js_number
  ev_receivedAt :: "js_number option"
  ev_iata :: "string option"
  ev_region :: "string option"
  ev_payloadTypeName :: "string option"
  ev_message :: "bool option"
  ev_routeIds :: "string list option"
  ev_nodeIds :: "string list option"

record PublicEventsResponse =
  er_serverTime :: js_number
  er_oldestSeq :: js_number
  er_latestSeq :: js_number
  er_resetRequired :: bool
  er_events :: "PublicEvent list"
  er_nextCursor :: "js_number option" \<comment> \<open>the number the string denotes; \<open>None\<close> when absent or no numeral\<close>

datatype envelope_kind =
    Hello "js_number option" "js_number option" string \<comment> \<open>\<open>fromSeq\<close>, \<open>toSeq\<close>, \<open>connectionId\<close>\<close>
  | Pong
  | Lagged "js_number option" "js_number option" js_number js_number
      \<comment> \<open>\<open>fromSeq\<close>, \<open>toSeq\<close>, \<open>droppedCount\<close>, \<open>since\<close>\<close>
  | NodeUpdate PublicNode
  | Activity PublicActivity
  | RoutePulse PublicRoutePulse

record PublicLiveEnvelope =
  le_kind :: envelope_kind
  le_seq :: "js_number option"
  le_latestSeq :: "js_number option"
  le_serverTime :: "js_number option"
  le_receivedAt :: "js_number option"
  le_displayAt :: "js_number option"

text \<open>The test \<open>message.type === 'event'\<close>.\<close>

fun is_event :: "envelope_kind \<Rightarrow> bool" where
  "is_event (Hello _ _ _) = False"
| "is_event Pong = False"
| "is_event (Lagged _ _ _ _) = False"
| "is_event (NodeUpdate _) = True"
| "is_event (Activity _) = True"
| "is_event (RoutePulse _) = True"

end
