(* ===== verification/Carto_Samples.thy ===== *)
theory Carto_Samples
  imports Carto_Types
begin

text \<open>Concrete nodes, routes, pulses and envelopes, at which the witnesses apply the properties.\<close>

definition sample_node :: "string \<Rightarrow> PublicNode" where
  "sample_node i = \<lparr>pn_seq = None, pn_id = i, pn_label = i, pn_role = Repeater, pn_isObserver = None,
     pn_latitude = 45, pn_longitude = - 75, pn_lastSeen = 1000, pn_firstSeen = 1000,
     pn_iatasHeardIn = [''YOW''], pn_regionsHeardIn = None, pn_activityCount = 1\<rparr>"

definition sample_endpoint :: "string \<Rightarrow> PublicRouteEndpoint" where
  "sample_endpoint i = \<lparr>ep_nodeId = i, ep_label = i, ep_lat = 45, ep_lng = - 75, ep_pathHash3 = None\<rparr>"

definition sample_route :: "string \<Rightarrow> string \<Rightarrow> string \<Rightarrow> PublicRoute" where
  "sample_route r a b = \<lparr>rt_id = r, rt_from = sample_endpoint a, rt_to = sample_endpoint b,
     rt_distanceKm = 10, rt_packetCount = 3, rt_lastHeard = 1000, rt_frequencyBucket = 0,
     rt_payloadTypeNames = [''ADVERT'']\<rparr>"

definition sample_segment :: "string \<Rightarrow> string \<Rightarrow> string \<Rightarrow> PublicRouteSegment" where
  "sample_segment r a b = \<lparr>sg_routeId = r, sg_from = sample_endpoint a, sg_to = sample_endpoint b,
     sg_distanceKm = 10\<rparr>"

definition sample_pulse :: "string \<Rightarrow> PublicRouteSegment list \<Rightarrow> PublicRoutePulse" where
  "sample_pulse i segs = \<lparr>rp_id = i, rp_iata = None, rp_region = None, rp_payloadTypeName = ''ADVERT'',
     rp_messageSender = None, rp_messageText = None, rp_messageAnchor = None, rp_heardAt = 2000,
     rp_receivedAt = None, rp_displayAt = None, rp_seq = None, rp_segments = segs, rp_replayOptions = None\<rparr>"

definition sample_activity :: "string \<Rightarrow> PublicActivity" where
  "sample_activity i = \<lparr>pa_id = i, pa_kind = ''packet'', pa_payloadTypeName = ''ADVERT'',
     pa_routeTypeName = None, pa_iata = None, pa_region = None, pa_heardAt = 2000, pa_receivedAt = None,
     pa_displayAt = None, pa_seq = None, pa_hopCount = 1, pa_hasRoute = False,
     pa_animationState = AnimUnmapped, pa_resolutionBucket = Routed, pa_observerLocation = None,
     pa_routeIds = None, pa_endpointLabels = None, pa_messageSender = None, pa_messageText = None,
     pa_messageAnchor = None\<rparr>"

definition sample_envelope :: "envelope_kind \<Rightarrow> js_number option \<Rightarrow> js_number \<Rightarrow> PublicLiveEnvelope" where
  "sample_envelope k s t = \<lparr>le_kind = k, le_seq = s, le_latestSeq = None, le_serverTime = None,
     le_receivedAt = Some t, le_displayAt = None\<rparr>"

text \<open>A durable and a fallback node update, received at time \<open>t\<close>.\<close>

definition durable_at :: "js_number \<Rightarrow> js_number \<Rightarrow> PublicLiveEnvelope" where
  "durable_at s t = sample_envelope (NodeUpdate (sample_node ''n1'')) (Some s) t"

definition fallback_at :: "js_number \<Rightarrow> PublicLiveEnvelope" where
  "fallback_at t = sample_envelope (NodeUpdate (sample_node ''n1'')) None t"

lemmas sample_defs = sample_node_def sample_endpoint_def sample_route_def sample_segment_def
  sample_pulse_def sample_activity_def sample_envelope_def durable_at_def fallback_at_def

end
