(* ===== verification/App_State.thy ===== *)
theory App_State
  imports Js_Sort Carto_Strings Carto_Samples
begin

text \<open>
  \<open>web/src/state.ts\<close>: the reducer of the client. A snapshot becomes an \<open>AppState\<close>, envelopes
  and recovered events update it. \<open>Math.log1p(x)\<close> is \<open>ln (1 + x)\<close>. The record \<open>PartialStats\<close> holds
  the properties which the calls of \<open>refreshStats\<close> pass.
\<close>

section \<open>State\<close>

definition ROUTE_TRACE_WINDOW_MS :: js_number where "ROUTE_TRACE_WINDOW_MS = 15 * 60000"
definition ROUTE_TRACE_BIN_COUNT :: nat where "ROUTE_TRACE_BIN_COUNT = 12"
definition PACKET_RATE_WINDOW_MS :: js_number where "PACKET_RATE_WINDOW_MS = 60000"
definition OBSERVER_BURST_WINDOW_MS :: js_number where "OBSERVER_BURST_WINDOW_MS = 15 * 60000"
definition ROUTE_BUCKET_REBALANCE_FACTOR :: js_number where "ROUTE_BUCKET_REBALANCE_FACTOR = 125 / 100"
definition ROUTE_VISUAL_FRESH_MS :: js_number where "ROUTE_VISUAL_FRESH_MS = 15 * 60000"

record RouteTraceHit =
  th_routeId :: string
  th_heardAt :: js_number
  th_payloadTypeName :: string
  th_from :: PublicRouteEndpoint
  th_to :: PublicRouteEndpoint
  th_distanceKm :: js_number

record RouteActivitySummary =
  ra_routeId :: string
  ra_total :: js_number
  ra_latestHeard :: js_number
  ra_bins :: "js_number list"

record LiveCoverageStats =
  lc_receivedPerMinute :: nat
  lc_routeAnimatedPerMinute :: nat
  lc_observerBurstPerMinute :: nat
  lc_unmappedPerMinute :: nat
  lc_lastPacketAgeMs :: "js_number option"

record AppState =
  as_nodes :: "PublicNode list"
  as_routes :: "PublicRoute list"
  as_activity :: "PublicActivity list"
  as_pulses :: "PublicRoutePulse list"
  as_observerBursts :: "PublicObserverBurst list"
  as_routeTraces :: "RouteTraceHit list"
  as_stats :: "PublicStats option"
  as_serverTime :: js_number
  as_latestSeq :: js_number
  as_seenSeqs :: "js_number list"
  as_routeIndex :: "(string, nat) js_map"
  as_routeMaxPacketCount :: js_number
  as_routeTopologyRevision :: js_number
  as_routeTrafficRevision :: js_number
  as_routeVisualRevision :: js_number

definition emptyState :: AppState where
  "emptyState = \<lparr>as_nodes = [], as_routes = [], as_activity = [], as_pulses = [], as_observerBursts = [],
     as_routeTraces = [], as_stats = None, as_serverTime = 0, as_latestSeq = 0, as_seenSeqs = [],
     as_routeIndex = [], as_routeMaxPacketCount = 1, as_routeTopologyRevision = 0,
     as_routeTrafficRevision = 0, as_routeVisualRevision = 0\<rparr>"

section \<open>Routes: buckets and index\<close>

definition log1p :: "js_number \<Rightarrow> js_number" where
  "log1p x = ln (1 + x)"

definition frequencyBucket :: "js_number \<Rightarrow> js_number \<Rightarrow> js_number" where
  "frequencyBucket cnt maxCount =
     (if maxCount \<le> 1 then 0
      else max 0 (min 4 (js_round ((log1p cnt / log1p (maxCount + 1)) * 4))))"

definition maxRoutePacketCount :: "PublicRoute list \<Rightarrow> js_number" where
  "maxRoutePacketCount routes = foldl max 1 (map rt_packetCount routes)"

definition normalizeRouteBuckets :: "PublicRoute list \<Rightarrow> PublicRoute list" where
  "normalizeRouteBuckets routes =
     (let mx = foldl max 1 (map rt_packetCount routes)
      in map (\<lambda>route. route\<lparr>rt_frequencyBucket := frequencyBucket (rt_packetCount route) mx,
            rt_payloadTypeNames := sort_strings (js_set (rt_payloadTypeNames route))\<rparr>) routes)"

definition indexRoutes :: "PublicRoute list \<Rightarrow> (string, nat) js_map" where
  "indexRoutes routes = new_map (zip (map rt_id routes) [0..<length routes])"

definition mergeCurrentEntities :: "('a \<Rightarrow> string) \<Rightarrow> 'a list \<Rightarrow> 'a list \<Rightarrow> 'a list" where
  "mergeCurrentEntities ident current snapshot =
     snd (foldl (\<lambda>(seen, merged) item.
         if ident item \<in> set seen then (seen, merged)
         else (set_add (ident item) seen, merged @ [item])) ([], []) (current @ snapshot))"

section \<open>Traces, bursts and rates\<close>

definition pruneRouteTraces :: "RouteTraceHit list \<Rightarrow> js_number \<Rightarrow> RouteTraceHit list" where
  "pruneRouteTraces routeTraces now =
     (let cutoff = now - ROUTE_TRACE_WINDOW_MS in filter (\<lambda>t. cutoff \<le> th_heardAt t) routeTraces)"

definition addRouteTraceHits :: "RouteTraceHit list \<Rightarrow> PublicRoutePulse \<Rightarrow> js_number \<Rightarrow> RouteTraceHit list" where
  "addRouteTraceHits routeTraces pulse now =
     (let nxt = routeTraces @ map (\<lambda>s. \<lparr>th_routeId = sg_routeId s, th_heardAt = rp_heardAt pulse,
            th_payloadTypeName = rp_payloadTypeName pulse, th_from = sg_from s, th_to = sg_to s,
            th_distanceKm = sg_distanceKm s\<rparr>) (rp_segments pulse)
      in take_last 2000 (pruneRouteTraces nxt now))"

definition summarizeStep :: "js_number \<Rightarrow> (string, RouteActivitySummary) js_map \<Rightarrow> RouteTraceHit \<Rightarrow>
    (string, RouteActivitySummary) js_map" where
  "summarizeStep cutoff summaries trace =
     (if th_heardAt trace < cutoff then summaries
      else let binSize = ROUTE_TRACE_WINDOW_MS / real ROUTE_TRACE_BIN_COUNT;
               summary = or_else (map_get summaries (th_routeId trace))
                 \<lparr>ra_routeId = th_routeId trace, ra_total = 0, ra_latestHeard = 0,
                  ra_bins = replicate ROUTE_TRACE_BIN_COUNT 0\<rparr>;
               bin = nat (max 0 (min (int ROUTE_TRACE_BIN_COUNT - 1) \<lfloor>(th_heardAt trace - cutoff) / binSize\<rfloor>))
           in map_set (th_routeId trace)
                (summary\<lparr>ra_total := ra_total summary + 1,
                   ra_latestHeard := max (ra_latestHeard summary) (th_heardAt trace),
                   ra_bins := (ra_bins summary)[bin := ra_bins summary ! bin + 1]\<rparr>) summaries)"

definition summarizeRouteActivity :: "RouteTraceHit list \<Rightarrow> js_number \<Rightarrow> (string, RouteActivitySummary) js_map" where
  "summarizeRouteActivity routeTraces now =
     (let cutoff = now - ROUTE_TRACE_WINDOW_MS in foldl (summarizeStep cutoff) [] routeTraces)"

definition isPacketActivity :: "PublicActivity \<Rightarrow> bool" where
  "isPacketActivity item = (pa_kind item = ''packet'' \<or> pa_kind item = ''route'')"

definition currentPacketRatePerMinute :: "PublicActivity list \<Rightarrow> js_number \<Rightarrow> nat" where
  "currentPacketRatePerMinute activity now =
     (let cutoff = now - PACKET_RATE_WINDOW_MS
      in length (filter (\<lambda>item. isPacketActivity item \<and> cutoff \<le> pa_heardAt item) activity))"

definition liveCoverageStats :: "PublicActivity list \<Rightarrow> js_number \<Rightarrow> LiveCoverageStats" where
  "liveCoverageStats activity now =
     (let cutoff = now - PACKET_RATE_WINDOW_MS;
          recent = filter (\<lambda>item. isPacketActivity item \<and> cutoff \<le> pa_heardAt item) activity;
          lastPacketAt = foldl (\<lambda>latest item. max latest (pa_heardAt item)) 0 (filter isPacketActivity activity)
      in \<lparr>lc_receivedPerMinute = length recent,
          lc_routeAnimatedPerMinute = length (filter (\<lambda>item. pa_animationState item = AnimRoute) recent),
          lc_observerBurstPerMinute = length (filter (\<lambda>item. pa_animationState item = AnimObserver) recent),
          lc_unmappedPerMinute = length (filter (\<lambda>item. pa_animationState item = AnimUnmapped) recent),
          lc_lastPacketAgeMs = (if 0 < lastPacketAt then Some (max 0 (now - lastPacketAt)) else None)\<rparr>)"

definition pruneObserverBursts :: "PublicObserverBurst list \<Rightarrow> js_number \<Rightarrow> PublicObserverBurst list" where
  "pruneObserverBursts observerBursts now =
     (let cutoff = now - OBSERVER_BURST_WINDOW_MS in filter (\<lambda>b. cutoff \<le> ob_heardAt b) observerBursts)"

definition addObserverBurst :: "PublicObserverBurst list \<Rightarrow> PublicActivity \<Rightarrow> js_number \<Rightarrow> PublicObserverBurst list" where
  "addObserverBurst observerBursts activity now =
     (case (pa_animationState activity, pa_observerLocation activity) of
        (AnimObserver, Some location) \<Rightarrow>
          take_last 2000 (pruneObserverBursts (observerBursts @
            [\<lparr>ob_id = ''observer-'' @ pa_id activity, ob_payloadTypeName = pa_payloadTypeName activity,
              ob_heardAt = pa_heardAt activity, ob_receivedAt = pa_receivedAt activity,
              ob_displayAt = pa_displayAt activity, ob_seq = pa_seq activity, ob_location = location,
              ob_messageSender = pa_messageSender activity, ob_messageText = pa_messageText activity,
              ob_messageAnchor = pa_messageAnchor activity\<rparr>]) now)
      | _ \<Rightarrow> pruneObserverBursts observerBursts now)"

section \<open>Statistics and sequences\<close>

record PartialStats =
  ps_packets :: "js_number option"
  ps_activeNodes :: "js_number option"
  ps_activeRoutes :: "js_number option"
  ps_serverTime :: "js_number option"
  ps_latestSeq :: "js_number option"

definition no_stats :: PartialStats where
  "no_stats = \<lparr>ps_packets = None, ps_activeNodes = None, ps_activeRoutes = None, ps_serverTime = None,
     ps_latestSeq = None\<rparr>"

definition refreshStats :: "PublicStats option \<Rightarrow> PartialStats \<Rightarrow> PublicStats option" where
  "refreshStats stats nxt =
     (case stats of None \<Rightarrow> None
      | Some s \<Rightarrow> Some (s\<lparr>st_packets := or_else (ps_packets nxt) (st_packets s),
          st_activeNodes := or_else (ps_activeNodes nxt) (st_activeNodes s),
          st_activeRoutes := or_else (ps_activeRoutes nxt) (st_activeRoutes s),
          st_serverTime := or_else (ps_serverTime nxt) (st_serverTime s),
          st_latestSeq := or_opt (ps_latestSeq nxt) (st_latestSeq s)\<rparr>))"

definition withLatestSeq :: "AppState \<Rightarrow> js_number option \<Rightarrow> AppState" where
  "withLatestSeq state seq =
     (case seq of None \<Rightarrow> state
      | Some s \<Rightarrow> if s = 0 \<or> s \<le> as_latestSeq state then state
          else state\<lparr>as_latestSeq := s,
            as_stats := or_opt (refreshStats (as_stats state) (no_stats\<lparr>ps_latestSeq := Some s\<rparr>)) (as_stats state)\<rparr>)"

definition rememberSeq :: "AppState \<Rightarrow> js_number option \<Rightarrow> AppState" where
  "rememberSeq state seq =
     (case seq of None \<Rightarrow> state
      | Some s \<Rightarrow> if s = 0 \<or> s \<le> 0 \<or> s \<in> set (as_seenSeqs state) then state
          else state\<lparr>as_seenSeqs := take_last 1000 (as_seenSeqs state @ [s])\<rparr>)"

text \<open>\<open>message.seq && state.seenSeqs.includes(message.seq)\<close>.\<close>

definition seenBefore :: "AppState \<Rightarrow> js_number option \<Rightarrow> bool" where
  "seenBefore state seq = (case seq of None \<Rightarrow> False | Some s \<Rightarrow> s \<noteq> 0 \<and> s \<in> set (as_seenSeqs state))"

text \<open>\<open>withEnvelopeTiming\<close> on the data of an activity and on a pulse.\<close>

definition withActivityTiming :: "PublicActivity \<Rightarrow> PublicLiveEnvelope \<Rightarrow> PublicActivity" where
  "withActivityTiming data message =
     (let receivedAt = or_opt (le_receivedAt message) (or_opt (le_serverTime message) (pa_receivedAt data))
      in data\<lparr>pa_receivedAt := receivedAt, pa_displayAt := or_opt receivedAt (pa_displayAt data),
           pa_seq := or_opt (le_seq message) (pa_seq data)\<rparr>)"

definition withPulseTiming :: "PublicRoutePulse \<Rightarrow> PublicLiveEnvelope \<Rightarrow> PublicRoutePulse" where
  "withPulseTiming data message =
     (let receivedAt = or_opt (le_receivedAt message) (or_opt (le_serverTime message) (rp_receivedAt data))
      in data\<lparr>rp_receivedAt := receivedAt, rp_displayAt := or_opt receivedAt (rp_displayAt data),
           rp_seq := or_opt (le_seq message) (rp_seq data)\<rparr>)"

section \<open>Traffic on the routes\<close>

record TouchedRoute =
  tr_segment :: PublicRouteSegment
  tr_hits :: js_number
  tr_lastHeard :: js_number
  tr_payloadTypeNames :: "string list"

definition touchSegment :: "PublicRoutePulse \<Rightarrow> (string, TouchedRoute) js_map \<Rightarrow> PublicRouteSegment \<Rightarrow>
    (string, TouchedRoute) js_map" where
  "touchSegment pulse touched segment =
     map_set (sg_routeId segment)
       (case map_get touched (sg_routeId segment) of
          Some existing \<Rightarrow> existing\<lparr>tr_hits := tr_hits existing + 1,
            tr_lastHeard := max (tr_lastHeard existing) (rp_heardAt pulse),
            tr_payloadTypeNames := set_add (rp_payloadTypeName pulse) (tr_payloadTypeNames existing)\<rparr>
        | None \<Rightarrow> \<lparr>tr_segment = segment, tr_hits = 1, tr_lastHeard = rp_heardAt pulse,
            tr_payloadTypeNames = [rp_payloadTypeName pulse]\<rparr>)
       touched"

definition touchedRoutes :: "PublicRoutePulse list \<Rightarrow> (string, TouchedRoute) js_map" where
  "touchedRoutes pulses = foldl (\<lambda>t pulse. foldl (touchSegment pulse) t (rp_segments pulse)) [] pulses"

text \<open>The variables of the two loops of \<open>upsertPulseRoutesBatch\<close> and their bodies.\<close>

record RouteBatch =
  rb_next :: "PublicRoute list"
  rb_index :: "(string, nat) js_map"
  rb_touched :: "(string, TouchedRoute) js_map"
  rb_maxAfter :: js_number
  rb_changed :: bool
  rb_visualChanged :: bool

definition updateRouteStep :: "PublicRoute list \<Rightarrow> (string, nat) js_map \<Rightarrow> js_number \<Rightarrow> RouteBatch \<Rightarrow>
    string \<times> TouchedRoute \<Rightarrow> RouteBatch" where
  "updateRouteStep routes routeIndex maxBefore b e =
     (let routeID = fst e; update = snd e in
      case map_get routeIndex routeID of None \<Rightarrow> b
      | Some index \<Rightarrow>
          if length routes \<le> index then b
          else let route = routes ! index;
                   packetCount = rt_packetCount route + tr_hits update;
                   payloadTypeNames = sort_strings (js_set (rt_payloadTypeNames route @ tr_payloadTypeNames update));
                   nextBucket = frequencyBucket packetCount maxBefore
               in b\<lparr>rb_next := (rb_next b)[index := route\<lparr>rt_packetCount := packetCount,
                      rt_lastHeard := max (rt_lastHeard route) (tr_lastHeard update),
                      rt_frequencyBucket := nextBucket, rt_payloadTypeNames := payloadTypeNames\<rparr>],
                    rb_touched := map_del routeID (rb_touched b),
                    rb_maxAfter := max (rb_maxAfter b) packetCount,
                    rb_changed := True,
                    rb_visualChanged := rb_visualChanged b \<or> nextBucket \<noteq> rt_frequencyBucket route \<or>
                      rt_lastHeard route < tr_lastHeard update - ROUTE_VISUAL_FRESH_MS\<rparr>)"

definition addRouteStep :: "js_number \<Rightarrow> RouteBatch \<Rightarrow> TouchedRoute \<Rightarrow> RouteBatch" where
  "addRouteStep maxBefore b u =
     (let route = \<lparr>rt_id = sg_routeId (tr_segment u), rt_from = sg_from (tr_segment u),
            rt_to = sg_to (tr_segment u), rt_distanceKm = sg_distanceKm (tr_segment u),
            rt_packetCount = tr_hits u, rt_lastHeard = tr_lastHeard u,
            rt_frequencyBucket = frequencyBucket (tr_hits u) (max maxBefore (tr_hits u)),
            rt_payloadTypeNames = sort_strings (tr_payloadTypeNames u)\<rparr>
      in b\<lparr>rb_index := map_set (rt_id route) (length (rb_next b)) (rb_index b),
           rb_next := rb_next b @ [route],
           rb_maxAfter := max (rb_maxAfter b) (tr_hits u)\<rparr>)"

record RouteBatchUpdate =
  bu_routes :: "PublicRoute list"
  bu_routeIndex :: "(string, nat) js_map"
  bu_maxPacketCount :: js_number
  bu_topologyChanged :: bool
  bu_visualChanged :: bool

definition updateExisting :: "PublicRoute list \<Rightarrow> (string, nat) js_map \<Rightarrow> js_number \<Rightarrow>
    (string, TouchedRoute) js_map \<Rightarrow> RouteBatch" where
  "updateExisting routes routeIndex maxBefore touched =
     foldl (updateRouteStep routes routeIndex maxBefore)
       \<lparr>rb_next = routes, rb_index = routeIndex, rb_touched = touched, rb_maxAfter = maxBefore,
        rb_changed = False, rb_visualChanged = False\<rparr> touched"

definition addMissing :: "js_number \<Rightarrow> RouteBatch \<Rightarrow> RouteBatch" where
  "addMissing maxBefore b =
     (if rb_touched b \<noteq> []
      then foldl (addRouteStep maxBefore) (b\<lparr>rb_changed := True, rb_visualChanged := True\<rparr>) (map_vals (rb_touched b))
      else b)"

definition upsertPulseRoutesBatch :: "PublicRoute list \<Rightarrow> (string, nat) js_map \<Rightarrow> js_number \<Rightarrow>
    PublicRoutePulse list \<Rightarrow> RouteBatchUpdate" where
  "upsertPulseRoutesBatch routes routeIndex maxPacketCount pulses =
     (let touched = touchedRoutes pulses;
          maxBefore = max 1 maxPacketCount;
          b1 = updateExisting routes routeIndex maxBefore touched;
          topologyChanged = (rb_touched b1 \<noteq> []);
          b2 = addMissing maxBefore b1;
          rebalance = maxBefore * ROUTE_BUCKET_REBALANCE_FACTOR < rb_maxAfter b2
      in if touched = [] then
           \<lparr>bu_routes = routes, bu_routeIndex = routeIndex, bu_maxPacketCount = maxPacketCount,
            bu_topologyChanged = False, bu_visualChanged = False\<rparr>
         else if \<not> rb_changed b2 then
           \<lparr>bu_routes = routes, bu_routeIndex = routeIndex, bu_maxPacketCount = rb_maxAfter b2,
            bu_topologyChanged = False, bu_visualChanged = False\<rparr>
         else
           \<lparr>bu_routes = (if rebalance then normalizeRouteBuckets (rb_next b2) else rb_next b2),
            bu_routeIndex = rb_index b2, bu_maxPacketCount = rb_maxAfter b2,
            bu_topologyChanged = topologyChanged, bu_visualChanged = rb_visualChanged b2 \<or> rebalance\<rparr>)"

section \<open>Snapshots\<close>

definition snapshot_latestSeq :: "PublicLiveState \<Rightarrow> js_number" where
  "snapshot_latestSeq state = or_else (case ls_stats state of None \<Rightarrow> None | Some s \<Rightarrow> st_latestSeq s) 0"

text \<open>\<open>num\<close> is the host's \<open>String(n)\<close> of a number.\<close>

definition publicLiveStateSignature :: "(js_number \<Rightarrow> string) \<Rightarrow> PublicLiveState \<Rightarrow> string" where
  "publicLiveStateSignature num state =
     (let nodes = or_else (ls_nodes state) [];
          routes = or_else (ls_routes state) [];
          activity = or_else (ls_recentActivity state) [];
          pulses = or_else (ls_recentPulses state) []
      in join '':'' [num (ls_serverTime state), num (snapshot_latestSeq state),
           num (or_else (map_option st_packets (ls_stats state)) 0),
           num (real (length nodes)), num (real (length routes)), num (real (length activity)),
           num (real (length pulses)),
           (case nodes of [] \<Rightarrow> [] | x # _ \<Rightarrow> pn_id x), (case routes of [] \<Rightarrow> [] | x # _ \<Rightarrow> rt_id x),
           (case activity of [] \<Rightarrow> [] | x # _ \<Rightarrow> pa_id x), (case pulses of [] \<Rightarrow> [] | x # _ \<Rightarrow> rp_id x)])"

definition initialAppState :: "PublicLiveState \<Rightarrow> AppState" where
  "initialAppState state =
     (let serverTime = ls_serverTime state;
          routes = normalizeRouteBuckets (or_else (ls_routes state) [])
      in \<lparr>as_nodes = or_else (ls_nodes state) [], as_routes = routes,
          as_activity = or_else (ls_recentActivity state) [], as_pulses = [], as_observerBursts = [],
          as_routeTraces = foldl (\<lambda>traces pulse. addRouteTraceHits traces pulse serverTime) []
            (or_else (ls_recentPulses state) []),
          as_stats = ls_stats state, as_serverTime = serverTime,
          as_latestSeq = snapshot_latestSeq state, as_seenSeqs = [],
          as_routeIndex = indexRoutes routes, as_routeMaxPacketCount = maxRoutePacketCount routes,
          as_routeTopologyRevision = 1, as_routeTrafficRevision = 1, as_routeVisualRevision = 1\<rparr>)"

definition hydrateSnapshotTopology :: "AppState \<Rightarrow> PublicLiveState \<Rightarrow> AppState" where
  "hydrateSnapshotTopology current snapshot =
     (let routes = mergeCurrentEntities rt_id (as_routes current)
            (normalizeRouteBuckets (or_else (ls_routes snapshot) []));
          topologyChanged = (length routes \<noteq> length (as_routes current))
      in current\<lparr>as_nodes := mergeCurrentEntities pn_id (as_nodes current) (or_else (ls_nodes snapshot) []),
           as_routes := routes,
           as_routeIndex := (if topologyChanged then indexRoutes routes else as_routeIndex current),
           as_routeMaxPacketCount := max (as_routeMaxPacketCount current) (maxRoutePacketCount routes),
           as_routeTopologyRevision := as_routeTopologyRevision current + (if topologyChanged then 1 else 0),
           as_routeVisualRevision := as_routeVisualRevision current + (if topologyChanged then 1 else 0),
           as_stats := or_opt (as_stats current) (ls_stats snapshot),
           as_serverTime := max (as_serverTime current) (ls_serverTime snapshot),
           as_latestSeq := max (as_latestSeq current) (snapshot_latestSeq snapshot)\<rparr>)"

definition hydrateSnapshotPulses :: "PublicRoutePulse list \<Rightarrow> js_number \<Rightarrow> PublicRoutePulse list" where
  "hydrateSnapshotPulses pulses serverTime = []"

definition hydrateSnapshotObserverBursts :: "PublicActivity list \<Rightarrow> js_number \<Rightarrow> PublicObserverBurst list" where
  "hydrateSnapshotObserverBursts activity serverTime = []"

section \<open>Envelopes and recovered events\<close>

text \<open>The closure \<open>mark\<close> of \<open>applyNonRouteEnvelope\<close>.\<close>

definition markEnvelope :: "PublicLiveEnvelope \<Rightarrow> AppState \<Rightarrow> AppState" where
  "markEnvelope message nxt =
     rememberSeq (withLatestSeq nxt (or_opt (or_opt (le_latestSeq message) (le_seq message)) (Some (as_latestSeq nxt))))
       (le_seq message)"

definition applyNonRouteEnvelope :: "AppState \<Rightarrow> PublicLiveEnvelope \<Rightarrow> bool \<Rightarrow> AppState" where
  "applyNonRouteEnvelope state message animate =
     (if \<not> is_event (le_kind message) then
        withLatestSeq state (or_opt (or_opt (le_latestSeq message) (le_seq message)) (Some (as_latestSeq state)))
      else if seenBefore state (le_seq message) then
        withLatestSeq state (or_opt (le_latestSeq message) (le_seq message))
      else case le_kind message of
        NodeUpdate node \<Rightarrow>
          (let nodes = node # filter (\<lambda>item. pn_id item \<noteq> pn_id node) (as_nodes state)
           in markEnvelope message (state\<lparr>as_nodes := nodes,
                as_stats := refreshStats (as_stats state) (no_stats\<lparr>ps_activeNodes := Some (real (length nodes))\<rparr>)\<rparr>))
      | Activity data \<Rightarrow>
          (let activity = withActivityTiming data message in
           if pa_id activity \<in> set (map pa_id (as_activity state)) then markEnvelope message state
           else let packets = (if isPacketActivity activity
                      then Some (or_else (map_option st_packets (as_stats state)) 0 + 1)
                      else map_option st_packets (as_stats state));
                    serverTime = max (as_serverTime state) (or_else (le_serverTime message) (pa_heardAt activity))
                in markEnvelope message (state\<lparr>
                     as_activity := take 240 (activity # as_activity state),
                     as_observerBursts := (if animate then addObserverBurst (as_observerBursts state) activity serverTime
                       else as_observerBursts state),
                     as_stats := refreshStats (as_stats state) (no_stats\<lparr>ps_packets := packets,
                       ps_serverTime := Some (max (or_else (map_option st_serverTime (as_stats state)) 0) serverTime)\<rparr>),
                     as_serverTime := serverTime\<rparr>))
      | _ \<Rightarrow> state)"

text \<open>The loop of \<open>applyPublicEnvelopes\<close>: the state, the ids of the pulses and the accepted pulses.\<close>

type_synonym envelope_loop = "AppState \<times> string list \<times> PublicRoutePulse list"

definition applyEnvelopeStep :: "bool \<Rightarrow> envelope_loop \<Rightarrow> PublicLiveEnvelope \<Rightarrow> envelope_loop" where
  "applyEnvelopeStep animate loop message =
     (case loop of (nxt, pulseIDs, accepted) \<Rightarrow>
        (case le_kind message of
           RoutePulse data \<Rightarrow>
             if seenBefore nxt (le_seq message) then
               (withLatestSeq nxt (or_opt (le_latestSeq message) (le_seq message)), pulseIDs, accepted)
             else let pulse = withPulseTiming data message in
               if rp_id pulse \<in> set pulseIDs then
                 (rememberSeq (withLatestSeq nxt (or_opt (le_latestSeq message) (le_seq message))) (le_seq message),
                  pulseIDs, accepted)
               else let serverTime = max (as_serverTime nxt) (or_else (le_serverTime message) (rp_heardAt pulse))
                 in (rememberSeq (withLatestSeq (nxt\<lparr>
                        as_pulses := (if animate then take 2000 (pulse # as_pulses nxt) else as_pulses nxt),
                        as_routeTraces := addRouteTraceHits (as_routeTraces nxt) pulse serverTime,
                        as_serverTime := serverTime\<rparr>)
                      (or_opt (or_opt (le_latestSeq message) (le_seq message)) (Some (as_latestSeq nxt))))
                      (le_seq message),
                     set_add (rp_id pulse) pulseIDs, accepted @ [pulse])
         | _ \<Rightarrow> (applyNonRouteEnvelope nxt message animate, pulseIDs, accepted)))"

text \<open>What follows the loop when a pulse was accepted.\<close>

definition applyRouteUpdate :: "AppState \<Rightarrow> PublicRoutePulse list \<Rightarrow> AppState" where
  "applyRouteUpdate nxt accepted =
     (let u = upsertPulseRoutesBatch (as_routes nxt) (as_routeIndex nxt) (as_routeMaxPacketCount nxt) accepted
      in nxt\<lparr>as_routes := bu_routes u, as_routeIndex := bu_routeIndex u,
           as_routeMaxPacketCount := bu_maxPacketCount u,
           as_routeTopologyRevision := as_routeTopologyRevision nxt + (if bu_topologyChanged u then 1 else 0),
           as_routeTrafficRevision := as_routeTrafficRevision nxt + 1,
           as_routeVisualRevision := as_routeVisualRevision nxt + (if bu_topologyChanged u then 1 else 0),
           as_stats := refreshStats (as_stats nxt) (no_stats\<lparr>
             ps_activeRoutes := Some (real (length (bu_routes u))),
             ps_serverTime := Some (max (or_else (map_option st_serverTime (as_stats nxt)) 0) (as_serverTime nxt))\<rparr>)\<rparr>)"

definition applyPublicEnvelopes :: "AppState \<Rightarrow> PublicLiveEnvelope list \<Rightarrow> bool option \<Rightarrow> AppState" where
  "applyPublicEnvelopes state messages animateOption =
     (let animate = (animateOption \<noteq> Some False)
      in case foldl (applyEnvelopeStep animate) (state, js_set (map rp_id (as_pulses state)), []) messages of
        (nxt, pulseIDs, accepted) \<Rightarrow> if accepted = [] then nxt else applyRouteUpdate nxt accepted)"

definition applyPublicEnvelope :: "AppState \<Rightarrow> PublicLiveEnvelope \<Rightarrow> AppState" where
  "applyPublicEnvelope state message = applyPublicEnvelopes state [message] (Some True)"

text \<open>The envelope which \<open>applyPublicEvent\<close> and \<open>applyPublicEvents\<close> build, for the three known types.\<close>

definition eventEnvelope :: "PublicEvent \<Rightarrow> PublicLiveEnvelope option" where
  "eventEnvelope event =
     (let received = or_else (ev_receivedAt event) (ev_at event);
          envelope = (\<lambda>k. Some \<lparr>le_kind = k, le_seq = Some (ev_seq event), le_latestSeq = Some (ev_seq event),
             le_serverTime = Some received, le_receivedAt = Some received, le_displayAt = Some received\<rparr>)
      in case ev_body event of EvActivity a \<Rightarrow> envelope (Activity a) | EvRoutePulse p \<Rightarrow> envelope (RoutePulse p)
         | EvNodeUpdate n \<Rightarrow> envelope (NodeUpdate n) | EvOther _ \<Rightarrow> None)"

definition applyPublicEvent :: "AppState \<Rightarrow> PublicEvent \<Rightarrow> AppState" where
  "applyPublicEvent state event =
     (case eventEnvelope event of
        None \<Rightarrow> withLatestSeq state (Some (ev_seq event))
      | Some e \<Rightarrow> applyPublicEnvelopes state [e] (Some False))"

definition applyPublicEvents :: "AppState \<Rightarrow> PublicEvent list \<Rightarrow> AppState" where
  "applyPublicEvents state events =
     foldl (\<lambda>nxt event. if eventEnvelope event = None then withLatestSeq nxt (Some (ev_seq event)) else nxt)
       (applyPublicEnvelopes state (List.map_filter eventEnvelope events) (Some False)) events"

section \<open>Search\<close>

definition filterNodes :: "PublicNode list \<Rightarrow> string \<Rightarrow> PublicNode list" where
  "filterNodes nodes query =
     (let needle = js_lower (js_trim query)
      in if needle = [] then nodes
         else filter (\<lambda>node. list_ex (\<lambda>value. str_includes (js_lower value) needle)
            (pn_label node # role_name (pn_role node) # pn_iatasHeardIn node)) nodes)"

definition filterRoutes :: "PublicRoute list \<Rightarrow> string list \<Rightarrow> string \<Rightarrow> PublicRoute list" where
  "filterRoutes routes visibleNodeIDs query =
     (if js_trim query = [] then routes
      else filter (\<lambda>route. ep_nodeId (rt_from route) \<in> set visibleNodeIDs \<or>
          ep_nodeId (rt_to route) \<in> set visibleNodeIDs \<or>
          str_includes (js_lower (ep_label (rt_from route))) (js_lower query) \<or>
          str_includes (js_lower (ep_label (rt_to route))) (js_lower query)) routes)"

end
