(* ===== verification/App_Traffic.thy ===== *)
theory App_Traffic
  imports App_State
begin

text \<open>
  The routes of the reducer (\<open>web/src/state.ts\<close>, \<open>upsertPulseRoutesBatch\<close> and its helpers): the
  index maps every route id to its position, traffic is counted exactly once, and the maximum and
  the buckets stay bounds of the counts.
\<close>

section \<open>Well-formed routes\<close>

definition index_ok :: "PublicRoute list \<Rightarrow> (string, nat) js_map \<Rightarrow> bool" where
  "index_ok routes idx \<longleftrightarrow> distinct (map rt_id routes) \<and>
     map_get idx = map_of (zip (map rt_id routes) [0..<length routes])"

definition bucket_ok :: "js_number \<Rightarrow> bool" where
  "bucket_ok b \<longleftrightarrow> is_integer b \<and> 0 \<le> b \<and> b \<le> 4"

definition routes_ok :: "PublicRoute list \<Rightarrow> (string, nat) js_map \<Rightarrow> js_number \<Rightarrow> bool" where
  "routes_ok routes idx mx \<longleftrightarrow> index_ok routes idx \<and> 1 \<le> mx \<and>
     (\<forall>r\<in>set routes. rt_packetCount r \<le> mx \<and> bucket_ok (rt_frequencyBucket r))"

text \<open>The packets counted for a route id (0 when it is unknown), and the segments of pulses on it.\<close>

definition route_count :: "PublicRoute list \<Rightarrow> string \<Rightarrow> js_number" where
  "route_count routes r = or_else (map_of (map (\<lambda>x. (rt_id x, rt_packetCount x)) routes) r) 0"

definition pulse_segments :: "PublicRoutePulse list \<Rightarrow> PublicRouteSegment list" where
  "pulse_segments pulses = concat (map rp_segments pulses)"

definition segment_hits :: "PublicRouteSegment list \<Rightarrow> string \<Rightarrow> nat" where
  "segment_hits segs r = length (filter (\<lambda>s. sg_routeId s = r) segs)"

lemma map_fst_index: "map fst (zip (map rt_id routes) [0..<length routes]) = map rt_id routes"
  by (simp add: map_fst_zip)

lemma index_get:
  assumes "index_ok routes idx"
  shows "map_get idx r = Some i \<longleftrightarrow> i < length routes \<and> rt_id (routes ! i) = r"
proof -
  have "distinct (map fst (zip (map rt_id routes) [0..<length routes]))"
    using assms unfolding map_fst_index by (simp add: index_ok_def)
  then have "map_get idx r = Some i \<longleftrightarrow> (r, i) \<in> set (zip (map rt_id routes) [0..<length routes])"
    using assms by (simp add: index_ok_def map_of_eq_Some_iff)
  also have "\<dots> \<longleftrightarrow> i < length routes \<and> rt_id (routes ! i) = r"
    by (auto simp: in_set_zip intro!: exI [of _ i])
  finally show ?thesis .
qed

lemma index_None: "index_ok routes idx \<Longrightarrow> map_get idx r = None \<longleftrightarrow> r \<notin> rt_id ` set routes"
  unfolding index_ok_def by (metis map_fst_index map_of_eq_None_iff set_map)

lemma index_ok_same_ids: "index_ok routes idx \<Longrightarrow> map rt_id routes' = map rt_id routes \<Longrightarrow> index_ok routes' idx"
  by (metis index_ok_def length_map)

lemma index_ok_append:
  assumes "index_ok routes idx" and "rt_id r \<notin> rt_id ` set routes"
  shows "index_ok (routes @ [r]) (map_set (rt_id r) (length routes) idx)"
proof -
  let ?zs = "zip (map rt_id routes) [0..<length routes]"
  have "map_of ?zs (rt_id r) = None"
    unfolding map_of_eq_None_iff set_map [symmetric] map_fst_index using assms(2) by simp
  then have "[rt_id r \<mapsto> length routes] ++ map_of ?zs = map_of ?zs ++ [rt_id r \<mapsto> length routes]"
    by (intro map_add_comm) (auto simp: domIff)
  then have "map_of (zip (map rt_id routes @ [rt_id r]) ([0..<length routes] @ [length routes])) =
      (map_of ?zs)(rt_id r \<mapsto> length routes)"
    by simp
  then show ?thesis using assms by (simp add: index_ok_def fun_eq_iff)
qed

lemma index_ok_indexRoutes: "distinct (map rt_id routes) \<Longrightarrow> index_ok routes (indexRoutes routes)"
  by (simp add: index_ok_def indexRoutes_def map_get_new_map_distinct)

section \<open>Buckets and the maximum\<close>

lemma frequencyBucket_ok: "bucket_ok (frequencyBucket c m)"
  by (simp add: frequencyBucket_def bucket_ok_def js_round_def max_def min_def)

lemma maxRoutePacketCount_ge:
  "1 \<le> maxRoutePacketCount routes" "r \<in> set routes \<Longrightarrow> rt_packetCount r \<le> maxRoutePacketCount routes"
  unfolding maxRoutePacketCount_def by (rule foldl_max_ge, rule foldl_max_ge) simp

lemma normalize_fields:
  "map rt_id (normalizeRouteBuckets routes) = map rt_id routes"
  "map rt_packetCount (normalizeRouteBuckets routes) = map rt_packetCount routes"
  by (simp_all add: normalizeRouteBuckets_def Let_def)

lemma normalize_buckets: "r \<in> set (normalizeRouteBuckets routes) \<Longrightarrow> bucket_ok (rt_frequencyBucket r)"
  by (auto simp: normalizeRouteBuckets_def Let_def frequencyBucket_ok)

lemma maxRoute_normalize [simp]: "maxRoutePacketCount (normalizeRouteBuckets routes) = maxRoutePacketCount routes"
  by (simp add: maxRoutePacketCount_def normalize_fields)

lemma map_zip_fields: "map (\<lambda>x. (f x, g x)) xs = zip (map f xs) (map g xs)"
  by (induction xs) simp_all

lemma route_count_fields:
  "map rt_id a = map rt_id b \<Longrightarrow> map rt_packetCount a = map rt_packetCount b \<Longrightarrow> route_count a = route_count b"
  by (simp add: route_count_def map_zip_fields fun_eq_iff)

section \<open>The routes touched by the pulses\<close>

definition touched_ok :: "(string, TouchedRoute) js_map \<Rightarrow> PublicRouteSegment list \<Rightarrow> bool" where
  "touched_ok t segs \<longleftrightarrow> well_keyed t \<and>
     (\<forall>r. case map_get t r of None \<Rightarrow> segment_hits segs r = 0
        | Some u \<Rightarrow> sg_routeId (tr_segment u) = r \<and> tr_hits u = real (segment_hits segs r) \<and> 0 < segment_hits segs r)"

lemma segment_hits_snoc:
  "segment_hits (segs @ [s]) r = (if sg_routeId s = r then Suc (segment_hits segs r) else segment_hits segs r)"
  by (simp add: segment_hits_def)

lemma touched_ok_step:
  assumes "touched_ok t segs"
  shows "touched_ok (touchSegment p t s) (segs @ [s])"
  unfolding touched_ok_def
proof (intro conjI allI)
  show "well_keyed (touchSegment p t s)" using assms by (simp add: touched_ok_def touchSegment_def)
  fix r
  from assms have "case map_get t r of None \<Rightarrow> segment_hits segs r = 0
      | Some u \<Rightarrow> sg_routeId (tr_segment u) = r \<and> tr_hits u = real (segment_hits segs r) \<and> 0 < segment_hits segs r"
    by (simp add: touched_ok_def)
  then show "case map_get (touchSegment p t s) r of None \<Rightarrow> segment_hits (segs @ [s]) r = 0
      | Some u \<Rightarrow> sg_routeId (tr_segment u) = r \<and> tr_hits u = real (segment_hits (segs @ [s]) r) \<and>
          0 < segment_hits (segs @ [s]) r"
    by (cases "sg_routeId s = r"; cases "map_get t r") (simp_all add: touchSegment_def segment_hits_snoc)
qed

lemma touched_ok_pulse: "touched_ok t segs \<Longrightarrow> touched_ok (foldl (touchSegment p) t ss) (segs @ ss)"
proof (induction ss arbitrary: t segs)
  case (Cons s ss)
  from Cons.IH [OF touched_ok_step [OF Cons.prems]] show ?case by simp
qed simp

lemma touched_ok_foldl:
  "touched_ok t segs \<Longrightarrow>
   touched_ok (foldl (\<lambda>t pulse. foldl (touchSegment pulse) t (rp_segments pulse)) t ps) (segs @ pulse_segments ps)"
proof (induction ps arbitrary: t segs)
  case (Cons p ps)
  from Cons.IH [OF touched_ok_pulse [OF Cons.prems, of p "rp_segments p"]]
  show ?case by (simp add: pulse_segments_def)
qed (simp add: pulse_segments_def)

lemma touched_ok_pulses: "touched_ok (touchedRoutes ps) (pulse_segments ps)"
  unfolding touchedRoutes_def
  using touched_ok_foldl [of "[]" "[]" ps] by (simp add: touched_ok_def segment_hits_def)

lemma touched_hits:
  "case map_get (touchedRoutes ps) r of None \<Rightarrow> segment_hits (pulse_segments ps) r = 0
     | Some u \<Rightarrow> sg_routeId (tr_segment u) = r \<and> tr_hits u = real (segment_hits (pulse_segments ps) r) \<and>
         0 < segment_hits (pulse_segments ps) r"
  using touched_ok_pulses [of ps] by (simp add: touched_ok_def)

section \<open>The first loop: routes that exist\<close>

definition updated_route :: "js_number \<Rightarrow> PublicRoute \<Rightarrow> TouchedRoute \<Rightarrow> PublicRoute" where
  "updated_route maxBefore route u = route\<lparr>rt_packetCount := rt_packetCount route + tr_hits u,
     rt_lastHeard := max (rt_lastHeard route) (tr_lastHeard u),
     rt_frequencyBucket := frequencyBucket (rt_packetCount route + tr_hits u) maxBefore,
     rt_payloadTypeNames := sort_strings (js_set (rt_payloadTypeNames route @ tr_payloadTypeNames u))\<rparr>"

definition update_with :: "js_number \<Rightarrow> (string, TouchedRoute) js_map \<Rightarrow> PublicRoute \<Rightarrow> PublicRoute" where
  "update_with mb es route = (case map_get es (rt_id route) of None \<Rightarrow> route | Some u \<Rightarrow> updated_route mb route u)"

lemma update_with_id [simp]: "rt_id (update_with mb es r) = rt_id r"
  by (simp add: update_with_def updated_route_def split: option.split)

definition loop1_inv :: "PublicRoute list \<Rightarrow> (string, nat) js_map \<Rightarrow> js_number \<Rightarrow> (string, TouchedRoute) js_map \<Rightarrow>
    (string, TouchedRoute) js_map \<Rightarrow> RouteBatch \<Rightarrow> bool" where
  "loop1_inv routes idx mb touched es b \<longleftrightarrow>
     rb_next b = map (update_with mb es) routes \<and> rb_index b = idx \<and>
     rb_touched b = filter (\<lambda>e. fst e \<in> fst ` set es \<longrightarrow> fst e \<notin> rt_id ` set routes) touched \<and>
     mb \<le> rb_maxAfter b \<and>
     (\<forall>r\<in>set routes. rt_packetCount r \<le> mb \<longrightarrow> rt_packetCount (update_with mb es r) \<le> rb_maxAfter b) \<and>
     (rb_changed b \<longleftrightarrow> (\<exists>e\<in>set es. fst e \<in> rt_id ` set routes))"

lemma update_with_snoc_other:
  "rt_id r \<noteq> fst e \<Longrightarrow> update_with mb (es @ [e]) r = update_with mb es r"
  by (cases e) (simp add: update_with_def map_add_def split: option.split)

lemma update_with_snoc_same:
  "rt_id r = fst e \<Longrightarrow> fst e \<notin> fst ` set es \<Longrightarrow> update_with mb (es @ [e]) r = updated_route mb r (snd e)"
  using map_of_eq_None_iff [of es "fst e"] by (cases e) (auto simp: update_with_def map_add_def)

lemma loop1_step:
  assumes "loop1_inv routes idx mb touched es b" and "index_ok routes idx" and "fst e \<notin> fst ` set es"
  shows "loop1_inv routes idx mb touched (es @ [e]) (updateRouteStep routes idx mb b e)"
proof (cases "map_get idx (fst e)")
  case None
  then have n: "fst e \<notin> rt_id ` set routes" using index_None [OF assms(2)] by simp
  then have same: "r \<in> set routes \<Longrightarrow> update_with mb (es @ [e]) r = update_with mb es r" for r
    using n by (metis imageI update_with_snoc_other)
  have eq: "updateRouteStep routes idx mb b e = b" using None by (simp add: updateRouteStep_def Let_def)
  have n': "x \<in> set routes \<Longrightarrow> rt_id x = fst e \<Longrightarrow> False" for x using n by (metis imageI)
  show ?thesis unfolding eq using assms(1) same
    by (auto simp: loop1_inv_def intro!: filter_cong dest: n')
next
  case (Some i)
  then have i: "i < length routes" "rt_id (routes ! i) = fst e" using index_get [OF assms(2)] by auto
  let ?r = "routes ! i"
  have uniq: "j < length routes \<Longrightarrow> rt_id (routes ! j) = fst e \<Longrightarrow> j = i" for j
    using assms(2) i by (metis distinct_conv_nth index_ok_def length_map nth_map)
  have upd: "update_with mb (es @ [e]) ?r = updated_route mb ?r (snd e)"
    by (rule update_with_snoc_same [OF i(2) assms(3)])
  have nxt: "map (update_with mb (es @ [e])) routes = (map (update_with mb es) routes)[i := updated_route mb ?r (snd e)]"
  proof (rule nth_equalityI)
    fix j assume "j < length (map (update_with mb (es @ [e])) routes)"
    then have j: "j < length routes" by simp
    show "map (update_with mb (es @ [e])) routes ! j =
        (map (update_with mb es) routes)[i := updated_route mb ?r (snd e)] ! j"
      using j upd uniq [OF j] update_with_snoc_other [of "routes ! j" e mb es]
      by (cases "j = i") (auto simp: i(1))
  qed simp
  have mem: "fst e \<in> rt_id ` set routes" using i(2) nth_mem [OF i(1)] by (metis imageI)
  have touched: "map_del (fst e) (filter (\<lambda>x. fst x \<in> fst ` set es \<longrightarrow> fst x \<notin> rt_id ` set routes) touched) =
      filter (\<lambda>x. fst x \<in> fst ` set (es @ [e]) \<longrightarrow> fst x \<notin> rt_id ` set routes) touched"
    using mem by (auto simp: map_del_def intro!: filter_cong)
  have ex: "\<exists>x\<in>set (es @ [e]). fst x \<in> rt_id ` set routes" using mem by simp
  let ?b = "updateRouteStep routes idx mb b e"
  have b: "rb_next ?b = (rb_next b)[i := updated_route mb ?r (snd e)]" "rb_index ?b = rb_index b"
    "rb_touched ?b = map_del (fst e) (rb_touched b)" "rb_changed ?b"
    "rb_maxAfter ?b = max (rb_maxAfter b) (rt_packetCount ?r + tr_hits (snd e))"
    using Some i(1) by (simp_all add: updateRouteStep_def Let_def updated_route_def)
  have "rt_packetCount (update_with mb (es @ [e]) r) \<le> rb_maxAfter ?b"
    if r: "r \<in> set routes" "rt_packetCount r \<le> mb" for r
  proof (cases "rt_id r = fst e")
    case True
    with r(1) have "r = ?r" by (metis in_set_conv_nth uniq)
    then show ?thesis using upd by (simp add: b(5) updated_route_def)
  next
    case False
    then show ?thesis using r assms(1) by (simp add: update_with_snoc_other loop1_inv_def b(5) le_max_iff_disj)
  qed
  then show ?thesis using assms(1) ex
    by (simp add: loop1_inv_def b nxt touched le_max_iff_disj del: set_append map_append)
qed

lemma loop1:
  assumes "index_ok routes idx" and "well_keyed touched"
  shows "loop1_inv routes idx mb touched touched (foldl (updateRouteStep routes idx mb)
    \<lparr>rb_next = routes, rb_index = idx, rb_touched = touched, rb_maxAfter = mb,
     rb_changed = False, rb_visualChanged = False\<rparr> touched)"
proof -
  have "distinct (map fst es) \<Longrightarrow> loop1_inv routes idx mb touched es (foldl (updateRouteStep routes idx mb)
    \<lparr>rb_next = routes, rb_index = idx, rb_touched = touched, rb_maxAfter = mb,
     rb_changed = False, rb_visualChanged = False\<rparr> es)" for es
  proof (induction es rule: rev_induct)
    case Nil
    have "update_with mb [] = id" by (simp add: update_with_def fun_eq_iff)
    then show ?case by (simp add: loop1_inv_def)
  next
    case (snoc e es)
    then show ?case using loop1_step [OF _ assms(1)] by simp
  qed
  then show ?thesis using assms(2) by (simp add: well_keyed_def)
qed

section \<open>The second loop: new routes\<close>

definition new_route :: "js_number \<Rightarrow> TouchedRoute \<Rightarrow> PublicRoute" where
  "new_route maxBefore u = \<lparr>rt_id = sg_routeId (tr_segment u), rt_from = sg_from (tr_segment u),
     rt_to = sg_to (tr_segment u), rt_distanceKm = sg_distanceKm (tr_segment u),
     rt_packetCount = tr_hits u, rt_lastHeard = tr_lastHeard u,
     rt_frequencyBucket = frequencyBucket (tr_hits u) (max maxBefore (tr_hits u)),
     rt_payloadTypeNames = sort_strings (tr_payloadTypeNames u)\<rparr>"

lemma addRouteStep_eq:
  "addRouteStep mb b u = b\<lparr>rb_index := map_set (sg_routeId (tr_segment u)) (length (rb_next b)) (rb_index b),
     rb_next := rb_next b @ [new_route mb u], rb_maxAfter := max (rb_maxAfter b) (tr_hits u)\<rparr>"
  by (simp add: addRouteStep_def new_route_def)

lemma loop2:
  fixes mb :: js_number and b :: RouteBatch and us :: "TouchedRoute list"
  assumes "index_ok (rb_next b) (rb_index b)" and "distinct (map (\<lambda>u. sg_routeId (tr_segment u)) us)"
    and "(\<lambda>u. sg_routeId (tr_segment u)) ` set us \<inter> rt_id ` set (rb_next b) = {}"
  defines "b' \<equiv> foldl (addRouteStep mb) b us"
  shows "rb_next b' = rb_next b @ map (new_route mb) us \<and> index_ok (rb_next b') (rb_index b') \<and>
    rb_maxAfter b \<le> rb_maxAfter b' \<and> (\<forall>u\<in>set us. tr_hits u \<le> rb_maxAfter b') \<and>
    rb_changed b' = rb_changed b"
  using assms(1-3) unfolding b'_def
proof (induction us arbitrary: b)
  case (Cons u us)
  let ?b = "addRouteStep mb b u"
  have i: "index_ok (rb_next ?b) (rb_index ?b)"
    using index_ok_append [of "rb_next b" "rb_index b" "new_route mb u"] Cons.prems
    by (simp add: addRouteStep_eq new_route_def)
  have d: "(\<lambda>u. sg_routeId (tr_segment u)) ` set us \<inter> rt_id ` set (rb_next ?b) = {}"
    using Cons.prems(2,3) by (auto simp: addRouteStep_eq new_route_def)
  have m: "rb_next ?b = rb_next b @ [new_route mb u]" "rb_maxAfter b \<le> rb_maxAfter ?b"
    "tr_hits u \<le> rb_maxAfter ?b" "rb_changed ?b = rb_changed b"
    by (simp_all add: addRouteStep_eq)
  have "distinct (map (\<lambda>u. sg_routeId (tr_segment u)) us)" using Cons.prems(2) by simp
  from Cons.IH [OF i this d] m show ?case by auto
qed simp

lemma addMissing_ok:
  fixes mb :: js_number and b :: RouteBatch
  defines "us \<equiv> map_vals (rb_touched b)" and "b' \<equiv> addMissing mb b"
  assumes "index_ok (rb_next b) (rb_index b)" and "distinct (map (\<lambda>u. sg_routeId (tr_segment u)) us)"
    and "(\<lambda>u. sg_routeId (tr_segment u)) ` set us \<inter> rt_id ` set (rb_next b) = {}"
  shows "rb_next b' = rb_next b @ map (new_route mb) us \<and> index_ok (rb_next b') (rb_index b') \<and>
    rb_maxAfter b \<le> rb_maxAfter b' \<and> (\<forall>u\<in>set us. tr_hits u \<le> rb_maxAfter b') \<and>
    (rb_changed b' \<longleftrightarrow> us \<noteq> [] \<or> rb_changed b)"
proof (cases "us = []")
  case True
  then show ?thesis using assms(3) by (simp add: b'_def us_def addMissing_def)
next
  case False
  then have eq: "b' = foldl (addRouteStep mb) (b\<lparr>rb_changed := True, rb_visualChanged := True\<rparr>) us"
    by (simp add: b'_def us_def addMissing_def)
  show ?thesis unfolding eq
    using loop2 [of "b\<lparr>rb_changed := True, rb_visualChanged := True\<rparr>" us mb] assms(3-5) False by auto
qed

section \<open>The whole batch\<close>

text \<open>What \<open>upsertPulseRoutesBatch\<close> computes before the rebalancing of the buckets.\<close>

definition batch_routes :: "PublicRoute list \<Rightarrow> js_number \<Rightarrow> (string, TouchedRoute) js_map \<Rightarrow> PublicRoute list" where
  "batch_routes routes mb touched = map (update_with mb touched) routes @
     map (new_route mb \<circ> snd) (filter (\<lambda>e. fst e \<notin> rt_id ` set routes) touched)"

lemma touched_fst:
  "e \<in> set (touchedRoutes ps) \<Longrightarrow> sg_routeId (tr_segment (snd e)) = fst e \<and>
     tr_hits (snd e) = real (segment_hits (pulse_segments ps) (fst e))"
  using touched_hits [of ps "fst e"] touched_ok_pulses [of ps]
  by (cases e) (auto simp: touched_ok_def well_keyed_def dest!: map_of_is_SomeI)

lemma upsert_batch:
  fixes routes :: "PublicRoute list" and ps :: "PublicRoutePulse list" and mx :: js_number
  assumes "index_ok routes idx"
  defines "u \<equiv> upsertPulseRoutesBatch routes idx mx ps"
    and "bs \<equiv> batch_routes routes (max 1 mx) (touchedRoutes ps)"
  assumes "touchedRoutes ps \<noteq> []"
  shows "(bu_routes u = bs \<or> bu_routes u = normalizeRouteBuckets bs) \<and> index_ok bs (bu_routeIndex u) \<and>
    max 1 mx \<le> bu_maxPacketCount u \<and>
    ((\<forall>r\<in>set routes. rt_packetCount r \<le> mx) \<longrightarrow> (\<forall>r\<in>set bs. rt_packetCount r \<le> bu_maxPacketCount u)) \<and>
    (bu_topologyChanged u \<longleftrightarrow> length bs \<noteq> length routes)"
proof -
  let ?t = "touchedRoutes ps" and ?mb = "max 1 mx"
  let ?new = "filter (\<lambda>e. fst e \<notin> rt_id ` set routes) ?t"
  define b1 where "b1 = updateExisting routes idx ?mb ?t"
  define b2 where "b2 = addMissing ?mb b1"
  have wk: "well_keyed ?t" using touched_ok_pulses [of ps] by (simp add: touched_ok_def)
  note L1 = loop1 [OF assms(1) wk, of ?mb, folded updateExisting_def b1_def, unfolded loop1_inv_def]
  have t1: "rb_touched b1 = ?new" using L1 by (auto intro!: filter_cong)
  have n1: "rb_next b1 = map (update_with ?mb ?t) routes" "rb_index b1 = idx" using L1 by simp_all
  have ids: "map (\<lambda>u. sg_routeId (tr_segment u)) (map_vals ?new) = map fst ?new"
    by (auto dest: touched_fst)
  have i1: "index_ok (rb_next b1) (rb_index b1)"
    by (rule index_ok_same_ids [OF assms(1), folded n1(2)]) (simp add: n1 comp_def)
  have d: "distinct (map (\<lambda>u. sg_routeId (tr_segment u)) (map_vals ?new))"
    unfolding ids using wk by (simp add: well_keyed_def distinct_map_filter)
  have "set (map fst ?new) \<inter> rt_id ` set (rb_next b1) = {}" by (auto simp: n1)
  then have x: "(\<lambda>u. sg_routeId (tr_segment u)) ` set (map_vals ?new) \<inter> rt_id ` set (rb_next b1) = {}"
    by (metis ids set_map)
  note L2 = addMissing_ok [of b1 ?mb, unfolded t1, folded b2_def, OF i1 d x]
  have bs: "rb_next b2 = bs" using L2 n1 by (simp add: bs_def batch_routes_def)
  have ch: "rb_changed b2"
  proof (cases "?new = []")
    case True
    then have "\<exists>e\<in>set ?t. fst e \<in> rt_id ` set routes" using assms(4) by (cases ?t) (auto simp: filter_empty_conv)
    then show ?thesis using L1 L2 by simp
  qed (use L2 in simp)
  have full: "u = (if ?t = [] then
         \<lparr>bu_routes = routes, bu_routeIndex = idx, bu_maxPacketCount = mx,
          bu_topologyChanged = False, bu_visualChanged = False\<rparr>
       else if \<not> rb_changed b2 then
         \<lparr>bu_routes = routes, bu_routeIndex = idx, bu_maxPacketCount = rb_maxAfter b2,
          bu_topologyChanged = False, bu_visualChanged = False\<rparr>
       else
         \<lparr>bu_routes = (if ?mb * ROUTE_BUCKET_REBALANCE_FACTOR < rb_maxAfter b2
            then normalizeRouteBuckets (rb_next b2) else rb_next b2),
          bu_routeIndex = rb_index b2, bu_maxPacketCount = rb_maxAfter b2,
          bu_topologyChanged = (rb_touched b1 \<noteq> []),
          bu_visualChanged = rb_visualChanged b2 \<or> ?mb * ROUTE_BUCKET_REBALANCE_FACTOR < rb_maxAfter b2\<rparr>)"
    unfolding u_def upsertPulseRoutesBatch_def b1_def b2_def Let_def by (rule refl)
  have u: "bu_routes u = (if ?mb * ROUTE_BUCKET_REBALANCE_FACTOR < rb_maxAfter b2 then normalizeRouteBuckets bs else bs)"
    "bu_routeIndex u = rb_index b2" "bu_maxPacketCount u = rb_maxAfter b2" "bu_topologyChanged u = (rb_touched b1 \<noteq> [])"
    using assms(4) ch bs by (simp_all only: full simp_thms if_False RouteBatchUpdate.select_convs)
  have "\<forall>r\<in>set bs. rt_packetCount r \<le> rb_maxAfter b2" if mx: "\<forall>r\<in>set routes. rt_packetCount r \<le> mx"
  proof
    fix r assume "r \<in> set bs"
    then consider r' where "r' \<in> set routes" "r = update_with ?mb ?t r'"
      | v where "v \<in> set (map_vals ?new)" "r = new_route ?mb v"
      unfolding bs [symmetric] using L2 n1 by auto
    then show "rt_packetCount r \<le> rb_maxAfter b2"
    proof cases
      case 1
      have "rt_packetCount r' \<le> ?mb" using mx 1 by (simp add: le_max_iff_disj)
      then show ?thesis using L1 L2 1 by fastforce
    next
      case 2
      have "tr_hits v \<le> rb_maxAfter b2" using L2 2(1) by blast
      then show ?thesis by (simp add: 2(2) new_route_def)
    qed
  qed
  then show ?thesis using L1 L2 u bs t1 by (auto simp: bs_def batch_routes_def)
qed

lemma route_count_mem: "distinct (map rt_id routes) \<Longrightarrow> x \<in> set routes \<Longrightarrow> route_count routes (rt_id x) = rt_packetCount x"
proof -
  assume d: "distinct (map rt_id routes)" and x: "x \<in> set routes"
  have "map fst (map (\<lambda>x. (rt_id x, rt_packetCount x)) routes) = map rt_id routes" by simp
  then have "map_of (map (\<lambda>x. (rt_id x, rt_packetCount x)) routes) (rt_id x) = Some (rt_packetCount x)"
    using d x by (intro map_of_is_SomeI) (metis, force)
  then show ?thesis by (simp add: route_count_def)
qed

lemma route_count_none: "r \<notin> rt_id ` set routes \<Longrightarrow> route_count routes r = 0"
proof -
  assume "r \<notin> rt_id ` set routes"
  then have "map_of (map (\<lambda>x. (rt_id x, rt_packetCount x)) routes) r = None"
    by (simp add: map_of_eq_None_iff image_comp comp_def)
  then show ?thesis by (simp add: route_count_def)
qed

lemma batch_ids:
  "rt_id ` set (batch_routes routes mb (touchedRoutes ps)) \<subseteq> rt_id ` set routes \<union> fst ` set (touchedRoutes ps)"
proof
  fix r assume "r \<in> rt_id ` set (batch_routes routes mb (touchedRoutes ps))"
  then consider x where "x \<in> set routes" "r = rt_id x"
    | e where "e \<in> set (touchedRoutes ps)" "r = sg_routeId (tr_segment (snd e))"
    by (auto simp: batch_routes_def new_route_def)
  then show "r \<in> rt_id ` set routes \<union> fst ` set (touchedRoutes ps)"
    by cases (use touched_fst in \<open>blast, metis UnI2 imageI\<close>)
qed

lemma batch_count:
  assumes "distinct (map rt_id routes)" and "distinct (map rt_id (batch_routes routes mb (touchedRoutes ps)))"
  shows "route_count (batch_routes routes mb (touchedRoutes ps)) r =
    route_count routes r + real (segment_hits (pulse_segments ps) r)"
proof -
  let ?t = "touchedRoutes ps" and ?bs = "batch_routes routes mb (touchedRoutes ps)"
  note hits = touched_hits [of ps r]
  show ?thesis
  proof (cases "r \<in> rt_id ` set routes")
    case True
    then obtain x where x: "x \<in> set routes" "r = rt_id x" by blast
    have "update_with mb ?t x \<in> set ?bs" using x(1) by (simp add: batch_routes_def)
    from route_count_mem [OF assms(2) this] have "route_count ?bs r = rt_packetCount (update_with mb ?t x)"
      by (simp add: x(2))
    moreover have "rt_packetCount (update_with mb ?t x) = rt_packetCount x + real (segment_hits (pulse_segments ps) r)"
      using hits by (cases "map_get ?t r") (simp_all add: x(2) update_with_def updated_route_def)
    ultimately show ?thesis using route_count_mem [OF assms(1) x(1)] x(2) by simp
  next
    case False
    show ?thesis
    proof (cases "map_get ?t r")
      case None
      then have "r \<notin> fst ` set ?t" by (simp add: map_of_eq_None_iff)
      then have "r \<notin> rt_id ` set ?bs" using False batch_ids [of routes mb ps] by blast
      then show ?thesis using False None hits by (simp add: route_count_none)
    next
      case (Some u)
      then have u: "(r, u) \<in> set ?t" by (rule map_of_SomeD)
      then have "new_route mb u \<in> set ?bs" using False by (force simp: batch_routes_def)
      from route_count_mem [OF assms(2) this] show ?thesis
        using False Some hits by (simp add: new_route_def route_count_none)
    qed
  qed
qed

lemma batch_buckets:
  assumes "\<forall>r\<in>set routes. bucket_ok (rt_frequencyBucket r)" and "r \<in> set (batch_routes routes mb t)"
  shows "bucket_ok (rt_frequencyBucket r)"
  using assms
  by (auto simp: batch_routes_def update_with_def updated_route_def new_route_def frequencyBucket_ok split: option.splits)

lemma touched_Nil: "touchedRoutes ps = [] \<Longrightarrow> segment_hits (pulse_segments ps) r = 0"
  using touched_hits [of ps r] by simp

lemma routes_ok_normalize: "routes_ok routes idx mx \<Longrightarrow> routes_ok (normalizeRouteBuckets routes) idx mx"
  using normalize_buckets [of _ routes]
  by (auto simp: routes_ok_def normalize_fields(1) intro: index_ok_same_ids [OF _ normalize_fields(1)])
    (auto simp: normalizeRouteBuckets_def Let_def)

lemma upsert_ok:
  fixes ps :: "PublicRoutePulse list"
  assumes "routes_ok routes idx mx"
  defines "u \<equiv> upsertPulseRoutesBatch routes idx mx ps"
  shows "routes_ok (bu_routes u) (bu_routeIndex u) (bu_maxPacketCount u) \<and>
    route_count (bu_routes u) r = route_count routes r + real (segment_hits (pulse_segments ps) r)"
proof (cases "touchedRoutes ps = []")
  case True
  then show ?thesis using assms(1) touched_Nil [OF True] by (simp add: u_def upsertPulseRoutesBatch_def Let_def)
next
  case False
  let ?bs = "batch_routes routes (max 1 mx) (touchedRoutes ps)"
  have R: "index_ok routes idx" "1 \<le> mx" "\<forall>r\<in>set routes. rt_packetCount r \<le> mx"
    "\<forall>r\<in>set routes. bucket_ok (rt_frequencyBucket r)"
    using assms(1) by (simp_all add: routes_ok_def)
  note U = upsert_batch [OF R(1) False, of mx, folded u_def]
  then have ok: "routes_ok ?bs (bu_routeIndex u) (bu_maxPacketCount u)"
    using R batch_buckets [OF R(4)] by (auto simp: routes_ok_def)
  then have n: "routes_ok (normalizeRouteBuckets ?bs) (bu_routeIndex u) (bu_maxPacketCount u)"
    by (rule routes_ok_normalize)
  have "route_count ?bs r = route_count routes r + real (segment_hits (pulse_segments ps) r)"
    using ok R(1) by (intro batch_count) (simp_all add: routes_ok_def index_ok_def)
  moreover have "route_count (normalizeRouteBuckets ?bs) = route_count ?bs"
    by (rule route_count_fields) (simp_all add: normalize_fields)
  ultimately show ?thesis using U ok n by auto
qed

section \<open>Properties\<close>

text \<open>
  C5. Traffic is counted exactly once: for well-formed routes, a batch of pulses raises the packet
  count of every route id by the number of segments of the batch on it (a new route starts from 0),
  whether the route existed, is created, or the buckets are rebalanced; and the routes stay
  well-formed: ids distinct, the index maps every id to its position, the maximum bounds the
  counts, every bucket is an integer from 0 to 4.
\<close>

theorem upsert_counts_traffic:
  fixes ps :: "PublicRoutePulse list"
  assumes "routes_ok routes idx mx"
  defines "u \<equiv> upsertPulseRoutesBatch routes idx mx ps"
  shows "routes_ok (bu_routes u) (bu_routeIndex u) (bu_maxPacketCount u) \<and>
    route_count (bu_routes u) r = route_count routes r + real (segment_hits (pulse_segments ps) r)"
  unfolding u_def by (rule upsert_ok [OF assms(1)])

lemma sample_routes_ok:
  "routes_ok [sample_route ''r1'' ''a'' ''b''] (indexRoutes [sample_route ''r1'' ''a'' ''b'']) 3"
  using index_ok_indexRoutes [of "[sample_route ''r1'' ''a'' ''b'']"]
  by (simp add: routes_ok_def bucket_ok_def sample_defs)

theorem upsert_counts_traffic_witness:
  "route_count (bu_routes (upsertPulseRoutesBatch [sample_route ''r1'' ''a'' ''b'']
      (indexRoutes [sample_route ''r1'' ''a'' ''b'']) 3
      [sample_pulse ''p1'' [sample_segment ''r1'' ''a'' ''b'', sample_segment ''r2'' ''b'' ''c''],
       sample_pulse ''p2'' [sample_segment ''r1'' ''a'' ''b'']])) ''r1'' = 5"
  using upsert_counts_traffic [OF sample_routes_ok, where r = "''r1''" and
      ps = "[sample_pulse ''p1'' [sample_segment ''r1'' ''a'' ''b'', sample_segment ''r2'' ''b'' ''c''],
       sample_pulse ''p2'' [sample_segment ''r1'' ''a'' ''b'']]"]
  by (simp add: pulse_segments_def segment_hits_def route_count_def sample_defs)

lemma log1p_mono: "0 \<le> x \<Longrightarrow> x \<le> y \<Longrightarrow> log1p x \<le> log1p y"
  by (simp add: log1p_def)

text \<open>
  The frequency bucket of a route is an integer from 0 to 4 for every count and maximum, it does
  not decrease when the count grows, and a route without packets is in bucket 0.
\<close>

lemma frequency_bucket_scale:
  "bucket_ok (frequencyBucket n m) \<and> frequencyBucket 0 m = 0 \<and>
   frequencyBucket (max 0 n) m \<le> frequencyBucket (max 0 n + max 0 d) m"
proof -
  have "frequencyBucket (max 0 n) m \<le> frequencyBucket (max 0 n + max 0 d) m"
  proof (cases "m \<le> 1")
    case False
    then have "0 < log1p (m + 1)" by (simp add: log1p_def)
    moreover have "log1p (max 0 n) \<le> log1p (max 0 n + max 0 d)" by (rule log1p_mono) simp_all
    ultimately have "log1p (max 0 n) / log1p (m + 1) * 4 \<le> log1p (max 0 n + max 0 d) / log1p (m + 1) * 4"
      by (simp add: divide_right_mono)
    then have "js_round (log1p (max 0 n) / log1p (m + 1) * 4) \<le> js_round (log1p (max 0 n + max 0 d) / log1p (m + 1) * 4)"
      by (simp add: js_round_def floor_mono)
    then show ?thesis using False by (auto simp: frequencyBucket_def max_def min_def)
  qed (simp add: frequencyBucket_def)
  moreover have "frequencyBucket 0 m = 0" by (simp add: frequencyBucket_def log1p_def js_round_def)
  ultimately show ?thesis using frequencyBucket_ok by blast
qed

end
