(* ===== verification/App_Reducer.thy ===== *)
theory App_Reducer
  imports App_Traffic
begin

text \<open>
  The reducer as a whole (\<open>web/src/state.ts\<close>): the invariant of \<open>AppState\<close> and that every
  operation keeps it, what a redelivered message does, and that the option \<open>animate\<close> touches
  nothing but the motion.
\<close>

section \<open>Frames of the small updates\<close>

lemma withLatestSeq_frame [simp]:
  "as_nodes (withLatestSeq s q) = as_nodes s" "as_routes (withLatestSeq s q) = as_routes s"
  "as_activity (withLatestSeq s q) = as_activity s" "as_pulses (withLatestSeq s q) = as_pulses s"
  "as_observerBursts (withLatestSeq s q) = as_observerBursts s"
  "as_routeTraces (withLatestSeq s q) = as_routeTraces s" "as_serverTime (withLatestSeq s q) = as_serverTime s"
  "as_seenSeqs (withLatestSeq s q) = as_seenSeqs s" "as_routeIndex (withLatestSeq s q) = as_routeIndex s"
  "as_routeMaxPacketCount (withLatestSeq s q) = as_routeMaxPacketCount s"
  by (simp_all add: withLatestSeq_def split: option.split)

lemma rememberSeq_frame [simp]:
  "as_nodes (rememberSeq s q) = as_nodes s" "as_routes (rememberSeq s q) = as_routes s"
  "as_activity (rememberSeq s q) = as_activity s" "as_pulses (rememberSeq s q) = as_pulses s"
  "as_observerBursts (rememberSeq s q) = as_observerBursts s"
  "as_routeTraces (rememberSeq s q) = as_routeTraces s" "as_serverTime (rememberSeq s q) = as_serverTime s"
  "as_stats (rememberSeq s q) = as_stats s" "as_latestSeq (rememberSeq s q) = as_latestSeq s"
  "as_routeIndex (rememberSeq s q) = as_routeIndex s"
  "as_routeMaxPacketCount (rememberSeq s q) = as_routeMaxPacketCount s"
  by (simp_all add: rememberSeq_def split: option.split)

lemma withLatestSeq_latest:
  "as_latestSeq (withLatestSeq s q) =
     (case q of None \<Rightarrow> as_latestSeq s | Some n \<Rightarrow> if n = 0 then as_latestSeq s else max (as_latestSeq s) n)"
  by (auto simp: withLatestSeq_def max_def split: option.split)

lemma withLatestSeq_mono: "as_latestSeq s \<le> as_latestSeq (withLatestSeq s q)"
  by (simp add: withLatestSeq_latest split: option.split)

lemma withLatestSeq_idem: "n \<le> as_latestSeq s \<Longrightarrow> withLatestSeq s (Some n) = s"
  by (simp add: withLatestSeq_def)

section \<open>The invariant\<close>

definition seqs_ok :: "js_number list \<Rightarrow> bool" where
  "seqs_ok seqs \<longleftrightarrow> distinct seqs \<and> length seqs \<le> 1000 \<and> set seqs \<subseteq> {0<..}"

definition app_ok :: "AppState \<Rightarrow> bool" where
  "app_ok s \<longleftrightarrow> routes_ok (as_routes s) (as_routeIndex s) (as_routeMaxPacketCount s) \<and>
     distinct (map pn_id (as_nodes s)) \<and> distinct (map pa_id (as_activity s)) \<and>
     distinct (map rp_id (as_pulses s)) \<and> length (as_pulses s) \<le> 2000 \<and>
     length (as_routeTraces s) \<le> 2000 \<and> length (as_observerBursts s) \<le> 2000 \<and> seqs_ok (as_seenSeqs s)"

lemma seqs_ok_remember: "seqs_ok (as_seenSeqs s) \<Longrightarrow> seqs_ok (as_seenSeqs (rememberSeq s q))"
proof (cases q)
  case (Some n)
  assume ok: "seqs_ok (as_seenSeqs s)"
  show ?thesis
  proof (cases "n \<le> 0 \<or> n \<in> set (as_seenSeqs s)")
    case True
    then show ?thesis using ok Some by (auto simp: rememberSeq_def)
  next
    case False
    then have "seqs_ok (take_last 1000 (as_seenSeqs s @ [n]))"
      using ok set_take_last [of 1000 "as_seenSeqs s @ [n]"]
      by (auto simp: seqs_ok_def intro!: distinct_take_last)
    then show ?thesis using False Some by (simp add: rememberSeq_def)
  qed
qed (simp add: rememberSeq_def)

lemma app_ok_withLatestSeq [intro]: "app_ok s \<Longrightarrow> app_ok (withLatestSeq s q)"
  by (simp add: app_ok_def)

lemma app_ok_rememberSeq [intro]: "app_ok s \<Longrightarrow> app_ok (rememberSeq s q)"
  using seqs_ok_remember [of s q] by (simp add: app_ok_def)

lemma app_ok_mark [intro]: "app_ok s \<Longrightarrow> app_ok (markEnvelope m s)"
  unfolding markEnvelope_def by (intro app_ok_rememberSeq app_ok_withLatestSeq)

lemma length_addRouteTraceHits: "length (addRouteTraceHits t p now) \<le> 2000"
  by (simp add: addRouteTraceHits_def Let_def)

lemma length_addObserverBurst: "length b \<le> 2000 \<Longrightarrow> length (addObserverBurst b a now) \<le> 2000"
proof -
  assume "length b \<le> 2000"
  then have "length (pruneObserverBursts b now) \<le> 2000"
    unfolding pruneObserverBursts_def Let_def by (rule le_trans [OF length_filter_le])
  then show ?thesis
    by (auto simp: addObserverBurst_def split: PublicAnimationState.split option.split)
qed

lemma withActivityTiming_id [simp]: "pa_id (withActivityTiming a m) = pa_id a"
  by (simp add: withActivityTiming_def Let_def)

lemma withPulseTiming_id [simp]: "rp_id (withPulseTiming p m) = rp_id p"
  "rp_segments (withPulseTiming p m) = rp_segments p"
  by (simp_all add: withPulseTiming_def Let_def)

lemma distinct_map_take: "distinct (map f xs) \<Longrightarrow> distinct (map f (take n xs))"
  by (metis distinct_take take_map)

lemma app_ok_nonRoute: "app_ok s \<Longrightarrow> app_ok (applyNonRouteEnvelope s m animate)"
proof (cases "is_event (le_kind m) \<and> \<not> seenBefore s (le_seq m)")
  case False
  assume "app_ok s"
  then show ?thesis using False by (auto simp: applyNonRouteEnvelope_def)
next
  case True
  assume ok: "app_ok s"
  show ?thesis
  proof (cases "le_kind m")
    case (NodeUpdate n)
    have "distinct (map pn_id (n # filter (\<lambda>i. pn_id i \<noteq> pn_id n) (as_nodes s)))"
      using ok by (auto simp: app_ok_def distinct_map_filter)
    then show ?thesis using True NodeUpdate ok
      by (simp add: applyNonRouteEnvelope_def Let_def) (rule app_ok_mark, simp add: app_ok_def)
  next
    case (Activity a)
    show ?thesis
    proof (cases "pa_id a \<in> set (map pa_id (as_activity s))")
      case dup: True
      then show ?thesis using True Activity ok by (auto simp: applyNonRouteEnvelope_def Let_def)
    next
      case new: False
      have "distinct (map pa_id (take 240 (withActivityTiming a m # as_activity s)))"
        by (rule distinct_map_take) (use ok new in \<open>simp add: app_ok_def\<close>)
      then have A: "app_ok (s\<lparr>as_activity := take 240 (withActivityTiming a m # as_activity s),
          as_observerBursts := b, as_stats := st, as_serverTime := t\<rparr>)" if "length b \<le> 2000" for b st t
        using ok that by (simp add: app_ok_def del: take_Cons_numeral)
      have b: "length (if animate then addObserverBurst (as_observerBursts s) (withActivityTiming a m) t
          else as_observerBursts s) \<le> 2000" for t
        using ok length_addObserverBurst by (simp add: app_ok_def)
      show ?thesis using True Activity new
        unfolding applyNonRouteEnvelope_def Let_def
        by (simp only: if_False if_True envelope_kind.case withActivityTiming_id not_True_eq_False simp_thms)
          (rule app_ok_mark, rule A, rule b)
    qed
  qed (use True ok in \<open>simp_all add: applyNonRouteEnvelope_def\<close>)
qed

text \<open>The loop of \<open>applyPublicEnvelopes\<close>: the set of pulse ids contains those of the state.\<close>

definition loop_ok :: "envelope_loop \<Rightarrow> bool" where
  "loop_ok l = (case l of (s, ids, accepted) \<Rightarrow> app_ok s \<and> set (map rp_id (as_pulses s)) \<subseteq> set ids)"

lemma as_pulses_nonRoute [simp]: "as_pulses (applyNonRouteEnvelope s m animate) = as_pulses s"
  by (simp add: applyNonRouteEnvelope_def markEnvelope_def Let_def split: envelope_kind.split)

lemma loop_ok_step: "loop_ok l \<Longrightarrow> loop_ok (applyEnvelopeStep animate l m)"
proof -
  assume ok: "loop_ok l"
  obtain s ids acc where l: "l = (s, ids, acc)" by (cases l)
  have s: "app_ok s" and ids: "set (map rp_id (as_pulses s)) \<subseteq> set ids"
    using ok by (simp_all add: l loop_ok_def)
  show ?thesis
  proof (cases "\<exists>p. le_kind m = RoutePulse p \<and> \<not> seenBefore s (le_seq m) \<and> rp_id p \<notin> set ids")
    case False
    then show ?thesis using s ids app_ok_nonRoute [OF s]
      by (auto simp: l applyEnvelopeStep_def loop_ok_def Let_def split: envelope_kind.split)
  next
    case True
    then obtain p where p: "le_kind m = RoutePulse p" "\<not> seenBefore s (le_seq m)" "rp_id p \<notin> set ids" by blast
    let ?ps = "take 2000 (withPulseTiming p m # as_pulses s)"
    have "distinct (map rp_id ?ps)"
      by (rule distinct_map_take) (use s p(3) ids in \<open>auto simp: app_ok_def\<close>)
    moreover have "set (map rp_id ?ps) \<subseteq> insert (rp_id p) (set ids)"
      using ids by (auto dest!: in_set_takeD)
    moreover have "length ?ps \<le> 2000" by simp
    ultimately show ?thesis using s ids p length_addRouteTraceHits
      by (cases animate) (auto simp: l applyEnvelopeStep_def loop_ok_def Let_def app_ok_def
          simp del: take_Suc_Cons intro!: seqs_ok_remember)
  qed
qed

lemma loop_ok_foldl: "loop_ok l \<Longrightarrow> loop_ok (foldl (applyEnvelopeStep animate) l ms)"
  by (rule foldl_invariant [of loop_ok]) (auto intro: loop_ok_step)

lemma app_ok_routeUpdate: "app_ok s \<Longrightarrow> app_ok (applyRouteUpdate s acc)"
  unfolding app_ok_def applyRouteUpdate_def Let_def by (simp add: upsert_ok [THEN conjunct1])

lemma app_ok_envelopes: "app_ok s \<Longrightarrow> app_ok (applyPublicEnvelopes s ms opt)"
proof -
  assume "app_ok s"
  then have "loop_ok (s, js_set (map rp_id (as_pulses s)), [])" by (simp add: loop_ok_def)
  from loop_ok_foldl [OF this, of "opt \<noteq> Some False" ms] show ?thesis
    by (auto simp: applyPublicEnvelopes_def loop_ok_def split: prod.split intro: app_ok_routeUpdate)
qed

lemma app_ok_events: "app_ok s \<Longrightarrow> app_ok (applyPublicEvents s es)"
proof -
  have "app_ok s \<Longrightarrow> app_ok (foldl (\<lambda>nxt e. if P e then withLatestSeq nxt (f e) else nxt) s xs)"
    for s P f and xs :: "PublicEvent list"
    by (induction xs arbitrary: s) (simp_all add: app_ok_withLatestSeq)
  then show "app_ok s \<Longrightarrow> ?thesis" unfolding applyPublicEvents_def by (simp add: app_ok_envelopes)
qed

section \<open>Snapshots\<close>

text \<open>What a snapshot has to promise: distinct ids.\<close>

definition snapshot_ok :: "PublicLiveState \<Rightarrow> bool" where
  "snapshot_ok l \<longleftrightarrow> distinct (map pn_id (or_else (ls_nodes l) [])) \<and>
     distinct (map rt_id (or_else (ls_routes l) [])) \<and> distinct (map pa_id (or_else (ls_recentActivity l) []))"

lemma length_initial_traces: "length t \<le> 2000 \<Longrightarrow> length (foldl (\<lambda>t p. addRouteTraceHits t p now) t ps) \<le> 2000"
  by (induction ps arbitrary: t) (auto simp: length_addRouteTraceHits)

lemma normalized_routes_ok:
  assumes "distinct (map rt_id rs)"
  shows "routes_ok (normalizeRouteBuckets rs) (indexRoutes (normalizeRouteBuckets rs)) (maxRoutePacketCount rs)"
  using index_ok_indexRoutes [of "normalizeRouteBuckets rs"] assms normalize_buckets [of _ rs]
    maxRoutePacketCount_ge(2) [of _ "normalizeRouteBuckets rs"] maxRoutePacketCount_ge(1) [of rs]
  by (simp add: routes_ok_def normalize_fields)

lemma app_ok_initial: "snapshot_ok l \<Longrightarrow> app_ok (initialAppState l)"
  using normalized_routes_ok [of "or_else (ls_routes l) []"]
    length_initial_traces [of "[]" "ls_serverTime l" "or_else (ls_recentPulses l) []"]
  by (simp add: snapshot_ok_def app_ok_def initialAppState_def Let_def seqs_ok_def)

text \<open>\<open>mergeCurrentEntities\<close> keeps the current entities and appends the snapshot's new ones.\<close>

fun fresh_by :: "('a \<Rightarrow> string) \<Rightarrow> string set \<Rightarrow> 'a list \<Rightarrow> 'a list" where
  "fresh_by f seen [] = []"
| "fresh_by f seen (x # xs) = (if f x \<in> seen then fresh_by f seen xs else x # fresh_by f (insert (f x) seen) xs)"

lemma merge_eq_foldl:
  "snd (foldl (\<lambda>(seen, merged) item. if f item \<in> set seen then (seen, merged)
      else (set_add (f item) seen, merged @ [item])) (seen, m) xs) = m @ fresh_by f (set seen) xs"
  by (induction xs arbitrary: seen m) auto

lemma fresh_by_append: "fresh_by f seen (xs @ ys) = fresh_by f seen xs @ fresh_by f (seen \<union> f ` set xs) ys"
  by (induction xs arbitrary: seen) (auto simp: insert_absorb)

lemma fresh_by_id: "distinct (map f xs) \<Longrightarrow> f ` set xs \<inter> seen = {} \<Longrightarrow> fresh_by f seen xs = xs"
  by (induction xs arbitrary: seen) auto

lemma fresh_by_distinct: "distinct (map f (fresh_by f seen xs)) \<and> f ` set (fresh_by f seen xs) = f ` set xs - seen"
  by (induction xs arbitrary: seen) (auto 4 3)

lemma fresh_by_subset: "set (fresh_by f seen xs) \<subseteq> set xs"
  by (induction xs arbitrary: seen) (simp_all, blast+)

lemma merge_eq:
  "distinct (map f cur) \<Longrightarrow> mergeCurrentEntities f cur snp = cur @ fresh_by f (f ` set cur) snp"
  unfolding mergeCurrentEntities_def merge_eq_foldl by (simp add: fresh_by_append fresh_by_id)

lemma distinct_merge: "distinct (map f cur) \<Longrightarrow> distinct (map f (mergeCurrentEntities f cur snp))"
  using fresh_by_distinct [of f "f ` set cur" snp] by (auto simp: merge_eq)

lemma fresh_by_Nil_ids: "fresh_by f seen xs = [] \<longleftrightarrow> f ` set xs \<subseteq> seen"
  by (induction xs arbitrary: seen) auto

lemma app_ok_hydrate:
  assumes "app_ok s"
  shows "app_ok (hydrateSnapshotTopology s l)"
proof -
  let ?n = "normalizeRouteBuckets (or_else (ls_routes l) [])"
  let ?rs = "mergeCurrentEntities rt_id (as_routes s) ?n"
  have d: "distinct (map rt_id (as_routes s))" "index_ok (as_routes s) (as_routeIndex s)"
    using assms by (simp_all add: app_ok_def routes_ok_def index_ok_def)
  have rs: "?rs = as_routes s @ fresh_by rt_id (rt_id ` set (as_routes s)) ?n" by (rule merge_eq [OF d(1)])
  have "index_ok ?rs (if length ?rs \<noteq> length (as_routes s) then indexRoutes ?rs else as_routeIndex s)"
    using index_ok_indexRoutes [OF distinct_merge [OF d(1), of ?n]] d(2) by (auto simp: rs)
  moreover have "bucket_ok (rt_frequencyBucket r)" if "r \<in> set ?rs" for r
    using that assms normalize_buckets fresh_by_subset by (fastforce simp: rs app_ok_def routes_ok_def)
  ultimately have "routes_ok ?rs (if length ?rs \<noteq> length (as_routes s) then indexRoutes ?rs else as_routeIndex s)
      (max (as_routeMaxPacketCount s) (maxRoutePacketCount ?rs))"
    using maxRoutePacketCount_ge(2) [of _ ?rs] maxRoutePacketCount_ge(1) [of ?rs]
    by (auto simp: routes_ok_def le_max_iff_disj)
  then show ?thesis
    using assms distinct_merge [of pn_id "as_nodes s"] by (simp add: app_ok_def hydrateSnapshotTopology_def Let_def)
qed

section \<open>The latest sequence\<close>

text \<open>The sequence an envelope reports, 0 when it reports none.\<close>

definition envelope_latest :: "PublicLiveEnvelope \<Rightarrow> js_number" where
  "envelope_latest m = or_else (or_opt (le_latestSeq m) (le_seq m)) 0"

lemma or_opt_assoc: "or_opt (or_opt a b) c = or_opt a (or_opt b c)"
  by (simp add: or_opt_def split: option.split)

lemma latest_withLatestSeq:
  "max 0 (as_latestSeq (withLatestSeq s q)) = max (max 0 (as_latestSeq s)) (or_else q 0)"
  by (auto simp: withLatestSeq_latest split: option.split)

lemma latest_default:
  "max 0 (as_latestSeq (withLatestSeq s (or_opt q (Some (as_latestSeq s))))) = max (max 0 (as_latestSeq s)) (or_else q 0)"
  unfolding latest_withLatestSeq by (cases q) simp_all

lemma latest_mark:
  "max 0 (as_latestSeq (markEnvelope m s)) = max (max 0 (as_latestSeq s)) (envelope_latest m)"
  by (simp add: markEnvelope_def latest_default envelope_latest_def)

lemma latest_nonRoute:
  assumes "\<And>p. le_kind m \<noteq> RoutePulse p"
  shows "max 0 (as_latestSeq (applyNonRouteEnvelope s m animate)) = max (max 0 (as_latestSeq s)) (envelope_latest m)"
proof (cases "is_event (le_kind m) \<and> \<not> seenBefore s (le_seq m)")
  case True
  then show ?thesis using assms
    by (cases "le_kind m") (auto simp: applyNonRouteEnvelope_def Let_def latest_mark)
next
  case False
  show ?thesis
  proof (cases "is_event (le_kind m)")
    case True
    then show ?thesis using False
      by (simp add: applyNonRouteEnvelope_def latest_withLatestSeq envelope_latest_def)
  next
    case False
    then show ?thesis unfolding envelope_latest_def latest_default [symmetric]
      by (simp add: applyNonRouteEnvelope_def)
  qed
qed

lemma latest_le_with: "as_latestSeq s = as_latestSeq t \<Longrightarrow> as_latestSeq s \<le> as_latestSeq (withLatestSeq t q)"
  using withLatestSeq_mono [of t q] by simp

lemma latest_step_mono: "as_latestSeq (fst l) \<le> as_latestSeq (fst (applyEnvelopeStep animate l m))"
  by (cases l) (auto simp: applyEnvelopeStep_def applyNonRouteEnvelope_def markEnvelope_def Let_def
      intro!: latest_le_with split: envelope_kind.split)

lemma latest_step:
  "max 0 (as_latestSeq (fst (applyEnvelopeStep animate (s, ids, acc) m))) =
     max (max 0 (as_latestSeq s)) (envelope_latest m)"
proof (cases "\<exists>p. le_kind m = RoutePulse p")
  case True
  then obtain p where p: "le_kind m = RoutePulse p" by blast
  have d: "max 0 (as_latestSeq (withLatestSeq (s\<lparr>as_pulses := x, as_routeTraces := y, as_serverTime := z\<rparr>)
      (or_opt (or_opt (le_latestSeq m) (le_seq m)) (Some (as_latestSeq s))))) =
      max (max 0 (as_latestSeq s)) (envelope_latest m)" for x y z
    using latest_default [of "s\<lparr>as_pulses := x, as_routeTraces := y, as_serverTime := z\<rparr>"]
    by (simp add: envelope_latest_def)
  show ?thesis using p d
    by (simp add: applyEnvelopeStep_def Let_def latest_withLatestSeq envelope_latest_def)
next
  case False
  then have "applyEnvelopeStep animate (s, ids, acc) m = (applyNonRouteEnvelope s m animate, ids, acc)"
    by (cases "le_kind m") (simp_all add: applyEnvelopeStep_def)
  then show ?thesis using latest_nonRoute False by simp
qed

lemma Max_insert_max:
  "finite A \<Longrightarrow> Max (insert (max a b) A) = Max (insert b (insert a A))" for a b :: js_number
  by (cases "A = {}") (simp_all add: max.commute max.left_commute)

lemma latest_foldl:
  "max 0 (as_latestSeq (fst (foldl (applyEnvelopeStep animate) l ms))) =
     Max (insert (max 0 (as_latestSeq (fst l))) (envelope_latest ` set ms))"
proof (induction ms arbitrary: l)
  case (Cons m ms)
  have "max 0 (as_latestSeq (fst (applyEnvelopeStep animate l m))) =
      max (max 0 (as_latestSeq (fst l))) (envelope_latest m)"
    by (cases l) (simp only: latest_step fst_conv)
  with Cons.IH [of "applyEnvelopeStep animate l m"] show ?case
    by (simp only: foldl_Cons list.set image_insert insert_commute Max_insert_max finite_imageI finite_set)
qed simp

lemma as_latestSeq_routeUpdate [simp]: "as_latestSeq (applyRouteUpdate s acc) = as_latestSeq s"
  "as_seenSeqs (applyRouteUpdate s acc) = as_seenSeqs s"
  by (simp_all add: applyRouteUpdate_def Let_def)

section \<open>Redelivery\<close>

text \<open>The envelope was applied: its sequence is remembered and reported.\<close>

definition settled :: "AppState \<Rightarrow> PublicLiveEnvelope \<Rightarrow> bool" where
  "settled s m \<longleftrightarrow> is_event (le_kind m) \<and> seenBefore s (le_seq m) \<and> envelope_latest m \<le> as_latestSeq s"

lemma withLatest_settled: "settled s m \<Longrightarrow> withLatestSeq s (or_opt (le_latestSeq m) (le_seq m)) = s"
  by (auto simp: settled_def envelope_latest_def withLatestSeq_def split: option.split)

lemma step_settled: "settled s m \<Longrightarrow> applyEnvelopeStep animate (s, ids, acc) m = (s, ids, acc)"
  using withLatest_settled [of s m]
  by (auto simp: settled_def applyEnvelopeStep_def applyNonRouteEnvelope_def split: envelope_kind.split)

lemma envelopes_settled: "(\<And>m. m \<in> set ms \<Longrightarrow> settled s m) \<Longrightarrow> applyPublicEnvelopes s ms opt = s"
proof -
  assume a: "\<And>m. m \<in> set ms \<Longrightarrow> settled s m"
  have "foldl (applyEnvelopeStep an) (s, ids, acc) ms = (s, ids, acc)" for an ids acc
    using a by (induction ms) (simp_all add: step_settled)
  then show ?thesis by (simp add: applyPublicEnvelopes_def)
qed

lemma seen_remember: "0 < n \<Longrightarrow> n \<in> set (as_seenSeqs (rememberSeq s (Some n)))"
  using take_last_append_snoc [of 1000 n "as_seenSeqs s"] by (simp add: rememberSeq_def)

lemma seen_step:
  assumes "is_event (le_kind m)" and "le_seq m = Some n" and "0 < n"
  shows "n \<in> set (as_seenSeqs (fst (applyEnvelopeStep animate (s, ids, acc) m)))"
  using assms seen_remember [OF assms(3)]
  by (cases "le_kind m")
    (auto simp: applyEnvelopeStep_def applyNonRouteEnvelope_def markEnvelope_def Let_def seenBefore_def)

lemma applyEnvelopes_single:
  "as_seenSeqs (applyPublicEnvelopes s [m] opt) =
     as_seenSeqs (fst (applyEnvelopeStep (opt \<noteq> Some False) (s, js_set (map rp_id (as_pulses s)), []) m))"
  by (simp add: applyPublicEnvelopes_def split: prod.split)

lemma latest_envelopes:
  "max 0 (as_latestSeq (applyPublicEnvelopes s ms opt)) =
     Max (insert (max 0 (as_latestSeq s)) (envelope_latest ` set ms))"
proof -
  let ?l = "foldl (applyEnvelopeStep (opt \<noteq> Some False)) (s, js_set (map rp_id (as_pulses s)), []) ms"
  have "as_latestSeq (applyPublicEnvelopes s ms opt) = as_latestSeq (fst ?l)"
    by (cases ?l) (simp add: applyPublicEnvelopes_def)
  then show ?thesis using latest_foldl [of "opt \<noteq> Some False" "(s, js_set (map rp_id (as_pulses s)), [])" ms] by simp
qed

lemma latest_envelopes_mono: "as_latestSeq s \<le> as_latestSeq (applyPublicEnvelopes s ms opt)"
proof -
  let ?l = "foldl (applyEnvelopeStep (opt \<noteq> Some False)) (s, js_set (map rp_id (as_pulses s)), []) ms"
  have "as_latestSeq s \<le> as_latestSeq (fst ?l)"
    by (rule foldl_invariant [of "\<lambda>l. as_latestSeq s \<le> as_latestSeq (fst l)"])
      (auto intro: order_trans [OF _ latest_step_mono])
  then show ?thesis by (cases ?l) (simp add: applyPublicEnvelopes_def)
qed

lemma settled_after:
  assumes "is_event (le_kind m)" and "le_seq m = Some n" and "0 < n" and "0 \<le> as_latestSeq s"
  shows "settled (applyPublicEnvelopes s [m] opt) m"
proof -
  let ?s = "applyPublicEnvelopes s [m] opt"
  have "n \<in> set (as_seenSeqs ?s)" unfolding applyEnvelopes_single by (rule seen_step [OF assms(1-3)])
  moreover have "envelope_latest m \<le> max 0 (as_latestSeq ?s)"
    using latest_envelopes [of s "[m]" opt] by simp
  moreover have "as_latestSeq s \<le> as_latestSeq ?s" by (rule latest_envelopes_mono)
  ultimately show ?thesis using assms by (simp add: settled_def seenBefore_def)
qed

section \<open>Motion\<close>

text \<open>The state without the motion of the map.\<close>

definition still :: "AppState \<Rightarrow> AppState" where
  "still s = s\<lparr>as_pulses := [], as_observerBursts := []\<rparr>"

lemma still_eqI:
  "still s = still t \<longleftrightarrow> as_nodes s = as_nodes t \<and> as_routes s = as_routes t \<and> as_activity s = as_activity t \<and>
     as_routeTraces s = as_routeTraces t \<and> as_stats s = as_stats t \<and> as_serverTime s = as_serverTime t \<and>
     as_latestSeq s = as_latestSeq t \<and> as_seenSeqs s = as_seenSeqs t \<and> as_routeIndex s = as_routeIndex t \<and>
     as_routeMaxPacketCount s = as_routeMaxPacketCount t \<and>
     as_routeTopologyRevision s = as_routeTopologyRevision t \<and>
     as_routeTrafficRevision s = as_routeTrafficRevision t \<and> as_routeVisualRevision s = as_routeVisualRevision t \<and>
     AppState.more s = AppState.more t"
  by (cases s; cases t) (auto simp: still_def)

lemma still_withLatestSeq: "still s = still t \<Longrightarrow> still (withLatestSeq s q) = still (withLatestSeq t q)"
  by (auto simp: still_eqI withLatestSeq_def split: option.split)

lemma still_rememberSeq: "still s = still t \<Longrightarrow> still (rememberSeq s q) = still (rememberSeq t q)"
  by (auto simp: still_eqI rememberSeq_def split: option.split)

lemma still_mark: "still s = still t \<Longrightarrow> still (markEnvelope m s) = still (markEnvelope m t)"
  unfolding markEnvelope_def
  by (rule still_rememberSeq) (metis still_withLatestSeq still_eqI)

lemma still_nonRoute:
  assumes "still s = still t"
  shows "still (applyNonRouteEnvelope s m a) = still (applyNonRouteEnvelope t m b)"
proof -
  note eq = assms [unfolded still_eqI]
  have seen: "seenBefore s (le_seq m) = seenBefore t (le_seq m)" using eq by (simp add: seenBefore_def split: option.split)
  show ?thesis
  proof (cases "is_event (le_kind m) \<and> \<not> seenBefore t (le_seq m)")
    case True
    then show ?thesis using eq assms seen
      by (cases "le_kind m")
        (auto simp: applyNonRouteEnvelope_def Let_def simp del: take_Cons_numeral intro!: still_mark, auto simp: still_eqI)
  next
    case False
    then show ?thesis using eq assms seen
      by (auto simp: applyNonRouteEnvelope_def intro!: still_withLatestSeq)
  qed
qed

lemma still_step:
  assumes "still s = still t"
  shows "\<exists>s' t' ids' acc'. applyEnvelopeStep a (s, ids, acc) m = (s', ids', acc') \<and>
    applyEnvelopeStep b (t, ids, acc) m = (t', ids', acc') \<and> still s' = still t'"
proof (cases "\<exists>p. le_kind m = RoutePulse p")
  case False
  then show ?thesis using still_nonRoute [OF assms, of m a b]
    by (cases "le_kind m") (simp_all add: applyEnvelopeStep_def)
next
  case True
  note eq = assms [unfolded still_eqI]
  have seen: "seenBefore s (le_seq m) = seenBefore t (le_seq m)" using eq by (simp add: seenBefore_def split: option.split)
  from True obtain p where p: "le_kind m = RoutePulse p" by blast
  show ?thesis using eq seen p assms
    by (auto simp: applyEnvelopeStep_def Let_def simp del: take_Cons_numeral
        intro!: still_rememberSeq still_withLatestSeq) (auto simp: still_eqI)
qed

lemma still_foldl:
  "still s = still t \<Longrightarrow>
   \<exists>s' t' ids' acc'. foldl (applyEnvelopeStep a) (s, ids, acc) ms = (s', ids', acc') \<and>
     foldl (applyEnvelopeStep b) (t, ids, acc) ms = (t', ids', acc') \<and> still s' = still t'"
proof (induction ms arbitrary: s t ids acc)
  case (Cons m ms)
  from still_step [OF Cons.prems, of a ids acc m b] obtain s' t' ids' acc' where
    "applyEnvelopeStep a (s, ids, acc) m = (s', ids', acc')"
    "applyEnvelopeStep b (t, ids, acc) m = (t', ids', acc')" "still s' = still t'"
    by blast
  with Cons.IH [of s' t' ids' acc'] show ?case by simp
qed simp

lemma still_routeUpdate: "still s = still t \<Longrightarrow> still (applyRouteUpdate s acc) = still (applyRouteUpdate t acc)"
  by (auto simp: still_eqI applyRouteUpdate_def Let_def)

lemma still_envelopes: "still (applyPublicEnvelopes s ms a) = still (applyPublicEnvelopes s ms b)"
proof -
  obtain s' t' ids acc where
    "foldl (applyEnvelopeStep (a \<noteq> Some False)) (s, js_set (map rp_id (as_pulses s)), []) ms = (s', ids, acc)"
    "foldl (applyEnvelopeStep (b \<noteq> Some False)) (s, js_set (map rp_id (as_pulses s)), []) ms = (t', ids, acc)"
    "still s' = still t'"
    using still_foldl [of s s "a \<noteq> Some False" "js_set (map rp_id (as_pulses s))" "[]" ms "b \<noteq> Some False"] by blast
  then show ?thesis using still_routeUpdate [of s' t' acc] by (simp add: applyPublicEnvelopes_def)
qed

text \<open>Without \<open>animate\<close> pulses and bursts stay as they are.\<close>

lemma motion_step:
  "as_pulses (fst (applyEnvelopeStep False l m)) = as_pulses (fst l) \<and>
   as_observerBursts (fst (applyEnvelopeStep False l m)) = as_observerBursts (fst l)"
  by (cases l) (auto simp: applyEnvelopeStep_def applyNonRouteEnvelope_def markEnvelope_def Let_def split: envelope_kind.split)

lemma motion_envelopes:
  "as_pulses (applyPublicEnvelopes s ms (Some False)) = as_pulses s \<and>
   as_observerBursts (applyPublicEnvelopes s ms (Some False)) = as_observerBursts s"
proof -
  let ?l = "foldl (applyEnvelopeStep False) (s, js_set (map rp_id (as_pulses s)), []) ms"
  have "as_pulses (fst ?l) = as_pulses s \<and> as_observerBursts (fst ?l) = as_observerBursts s"
    by (rule foldl_invariant [of "\<lambda>l. as_pulses (fst l) = as_pulses s \<and> as_observerBursts (fst l) = as_observerBursts s"])
      (simp_all add: motion_step)
  then show ?thesis by (cases ?l) (simp add: applyPublicEnvelopes_def applyRouteUpdate_def Let_def)
qed

section \<open>Activity per route\<close>

definition trace_hits :: "js_number \<Rightarrow> RouteTraceHit list \<Rightarrow> string \<Rightarrow> RouteTraceHit list" where
  "trace_hits cutoff traces r = filter (\<lambda>t. th_routeId t = r \<and> cutoff \<le> th_heardAt t) traces"

definition summary_ok :: "js_number \<Rightarrow> RouteTraceHit list \<Rightarrow> string \<Rightarrow> RouteActivitySummary \<Rightarrow> bool" where
  "summary_ok cutoff traces r u \<longleftrightarrow> ra_routeId u = r \<and> trace_hits cutoff traces r \<noteq> [] \<and>
     ra_total u = real (length (trace_hits cutoff traces r)) \<and>
     ra_latestHeard u = foldl max 0 (map th_heardAt (trace_hits cutoff traces r)) \<and>
     length (ra_bins u) = ROUTE_TRACE_BIN_COUNT \<and> sum_list (ra_bins u) = ra_total u"

definition summaries_ok :: "js_number \<Rightarrow> RouteTraceHit list \<Rightarrow> (string, RouteActivitySummary) js_map \<Rightarrow> bool" where
  "summaries_ok cutoff traces m \<longleftrightarrow>
     (\<forall>r. case map_get m r of None \<Rightarrow> trace_hits cutoff traces r = [] | Some u \<Rightarrow> summary_ok cutoff traces r u)"

lemma trace_hits_snoc: "trace_hits c (ts @ [t]) r =
    trace_hits c ts r @ (if th_routeId t = r \<and> c \<le> th_heardAt t then [t] else [])"
  by (simp add: trace_hits_def)

lemma sum_list_bump: "k < length xs \<Longrightarrow> sum_list (xs[k := xs ! k + 1]) = sum_list xs + (1 :: js_number)"
  by (induction xs arbitrary: k) (auto split: nat.split)

lemma summaries_step:
  assumes "summaries_ok c ts m"
  shows "summaries_ok c (ts @ [t]) (summarizeStep c m t)"
  unfolding summaries_ok_def
proof
  fix r
  let ?bin = "nat (max 0 (min (int ROUTE_TRACE_BIN_COUNT - 1)
      \<lfloor>(th_heardAt t - c) / (ROUTE_TRACE_WINDOW_MS / real ROUTE_TRACE_BIN_COUNT)\<rfloor>))"
  have bin: "?bin < ROUTE_TRACE_BIN_COUNT" by (simp add: ROUTE_TRACE_BIN_COUNT_def)
  have old: "case map_get m r of None \<Rightarrow> trace_hits c ts r = [] | Some u \<Rightarrow> summary_ok c ts r u"
    using assms by (simp add: summaries_ok_def)
  show "case map_get (summarizeStep c m t) r of None \<Rightarrow> trace_hits c (ts @ [t]) r = []
      | Some u \<Rightarrow> summary_ok c (ts @ [t]) r u"
  proof (cases "th_routeId t = r \<and> c \<le> th_heardAt t")
    case False
    then have "map_get (summarizeStep c m t) r = map_get m r" by (auto simp: summarizeStep_def Let_def)
    moreover have "trace_hits c (ts @ [t]) r = trace_hits c ts r" using False by (auto simp: trace_hits_snoc)
    then have "summary_ok c (ts @ [t]) r = summary_ok c ts r" by (simp add: summary_ok_def fun_eq_iff)
    ultimately show ?thesis using old \<open>trace_hits c (ts @ [t]) r = trace_hits c ts r\<close>
      by (cases "map_get m r") simp_all
  next
    case True
    let ?u = "or_else (map_get m r) \<lparr>ra_routeId = r, ra_total = 0, ra_latestHeard = 0,
        ra_bins = replicate ROUTE_TRACE_BIN_COUNT 0\<rparr>"
    have u: "ra_routeId ?u = r" "ra_total ?u = real (length (trace_hits c ts r))"
      "ra_latestHeard ?u = foldl max 0 (map th_heardAt (trace_hits c ts r))"
      "length (ra_bins ?u) = ROUTE_TRACE_BIN_COUNT" "sum_list (ra_bins ?u) = ra_total ?u"
      using old by (auto simp: summary_ok_def sum_list_replicate split: option.splits)
    have "map_get (summarizeStep c m t) r = Some (?u\<lparr>ra_total := ra_total ?u + 1,
        ra_latestHeard := max (ra_latestHeard ?u) (th_heardAt t),
        ra_bins := (ra_bins ?u)[?bin := ra_bins ?u ! ?bin + 1]\<rparr>)"
      using True by (simp add: summarizeStep_def Let_def)
    moreover have "sum_list ((ra_bins ?u)[?bin := ra_bins ?u ! ?bin + 1]) = ra_total ?u + 1"
      unfolding u(5) [symmetric] by (rule sum_list_bump) (unfold u(4), rule bin)
    ultimately show ?thesis using True u by (simp add: summary_ok_def trace_hits_snoc)
  qed
qed

lemma summaries_foldl: "summaries_ok c ts (foldl (summarizeStep c) [] ts)"
proof (induction ts rule: rev_induct)
  case Nil
  show ?case by (simp add: summaries_ok_def trace_hits_def)
next
  case (snoc t ts)
  then show ?case using summaries_step by simp
qed

section \<open>Properties\<close>

text \<open>The states the client can reach: the empty state, snapshots, and every operation on them.\<close>

inductive app_reachable :: "AppState \<Rightarrow> bool" where
  empty: "app_reachable emptyState"
| snapshot: "snapshot_ok l \<Longrightarrow> app_reachable (initialAppState l)"
| hydrate: "app_reachable s \<Longrightarrow> app_reachable (hydrateSnapshotTopology s l)"
| envelopes: "app_reachable s \<Longrightarrow> app_reachable (applyPublicEnvelopes s ms opt)"
| events: "app_reachable s \<Longrightarrow> app_reachable (applyPublicEvents s es)"

lemma app_ok_empty: "app_ok emptyState"
  by (simp add: app_ok_def emptyState_def routes_ok_def index_ok_def seqs_ok_def)

text \<open>
  C4. Every reachable state is well-formed: route, node, activity and pulse ids are distinct, the
  index of the routes maps every id to its position, the maximum bounds every packet count, buckets
  are integers from 0 to 4, the pulses, traces and bursts are at most 2000, and the remembered
  sequences are distinct, positive and at most 1000.
\<close>

theorem app_state_invariant:
  assumes "app_reachable s"
  shows "app_ok s"
  using assms
  by induction (simp_all add: app_ok_empty app_ok_initial app_ok_hydrate app_ok_envelopes app_ok_events)

theorem app_state_invariant_witness:
  "app_ok (applyPublicEnvelopes emptyState
     [sample_envelope (RoutePulse (sample_pulse ''p1'' [sample_segment ''r1'' ''a'' ''b''])) (Some 7) 5] None)"
  by (rule app_state_invariant) (intro app_reachable.intros)

text \<open>
  Redelivery is harmless: applying a durable event (a positive \<open>seq\<close>) a second time, whatever
  its kind and whether or not it is animated, leaves the state exactly as the first application left
  it, so packets are not counted twice.
\<close>

lemma redelivered_event_noop:
  assumes "is_event (le_kind m)" and "le_seq m = Some n" and "0 < n" and "0 \<le> as_latestSeq s"
  shows "applyPublicEnvelopes (applyPublicEnvelopes s [m] opt) [m] opt' = applyPublicEnvelopes s [m] opt"
  using settled_after [OF assms, of opt] by (intro envelopes_settled) simp

lemma redelivered_event_noop_witness:
  "applyPublicEnvelopes (applyPublicEnvelopes emptyState
       [sample_envelope (RoutePulse (sample_pulse ''p1'' [sample_segment ''r1'' ''a'' ''b''])) (Some 7) 5] None)
       [sample_envelope (RoutePulse (sample_pulse ''p1'' [sample_segment ''r1'' ''a'' ''b''])) (Some 7) 5] (Some False) =
   applyPublicEnvelopes emptyState
       [sample_envelope (RoutePulse (sample_pulse ''p1'' [sample_segment ''r1'' ''a'' ''b''])) (Some 7) 5] None"
  by (rule redelivered_event_noop [where n = 7]) (simp_all add: sample_envelope_def emptyState_def)

text \<open>
  Motion is separate from state: recovering a batch without animation gives the same state as
  animating it, apart from the pulses and observer bursts, and those it leaves untouched.
\<close>

lemma motion_is_separate:
  "still (applyPublicEnvelopes s ms (Some False)) = still (applyPublicEnvelopes s ms (Some True)) \<and>
   as_pulses (applyPublicEnvelopes s ms (Some False)) = as_pulses s \<and>
   as_observerBursts (applyPublicEnvelopes s ms (Some False)) = as_observerBursts s"
  using still_envelopes [of s ms "Some False" "Some True"] motion_envelopes by blast

text \<open>
  The latest sequence never goes back, and after a batch it is the largest of the old one and
  those the envelopes report (hellos, pongs and lag notices included).
\<close>

lemma latest_sequence_tracks:
  "as_latestSeq s \<le> as_latestSeq (applyPublicEnvelopes s ms opt) \<and>
   max 0 (as_latestSeq (applyPublicEnvelopes s ms opt)) =
     Max (insert (max 0 (as_latestSeq s)) (envelope_latest ` set ms))"
  using latest_envelopes_mono latest_envelopes by blast

text \<open>
  Hydrating the topology from a snapshot keeps what the stream already delivered: for entities
  with distinct ids the current ones stay first, in order and unchanged, the snapshot only adds
  those whose id is new, and the result again has distinct ids, covering both.
\<close>

lemma merge_keeps_current:
  assumes "distinct (map f cur)"
  shows "\<exists>new. mergeCurrentEntities f cur snp = cur @ new \<and> set new \<subseteq> set snp \<and>
    distinct (map f (cur @ new)) \<and> f ` set (cur @ new) = f ` set cur \<union> f ` set snp"
  using distinct_merge [OF assms, of snp] fresh_by_distinct [of f "f ` set cur" snp]
    fresh_by_subset [of f "f ` set cur" snp] unfolding merge_eq [OF assms]
  by (intro exI [of _ "fresh_by f (f ` set cur) snp"]) auto

lemma merge_keeps_current_witness:
  "mergeCurrentEntities rt_id [sample_route ''r1'' ''a'' ''b''] [sample_route ''r1'' ''x'' ''y'', sample_route ''r2'' ''b'' ''c''] \<noteq> []"
  using merge_keeps_current [of rt_id "[sample_route ''r1'' ''a'' ''b'']"
      "[sample_route ''r1'' ''x'' ''y'', sample_route ''r2'' ''b'' ''c'']"] by auto

text \<open>
  The activity summary of a route counts exactly its traces in the window: a route has a summary
  when it has such a trace, its total is their number, its twelve bins add up to the total, and
  \<open>latestHeard\<close> is the latest of them.
\<close>

lemma route_summary_exact:
  "summaries_ok (now - ROUTE_TRACE_WINDOW_MS) traces (summarizeRouteActivity traces now)"
  by (simp add: summarizeRouteActivity_def Let_def summaries_foldl)

text \<open>
  The two searches treat a query with surrounding spaces differently: the nodes are matched
  against the trimmed query, the labels of the routes against the query as typed, so a route whose
  label contains the word is not found.
\<close>

lemma route_search_not_trimmed:
  "filterNodes [sample_node ''ridge''] ''ridge '' = [sample_node ''ridge''] \<and>
   filterRoutes [sample_route ''r1'' ''ridge'' ''b''] [] ''ridge '' = [] \<and>
   filterRoutes [sample_route ''r1'' ''ridge'' ''b''] [] ''ridge'' = [sample_route ''r1'' ''ridge'' ''b'']"
  by (simp add: filterNodes_def filterRoutes_def sample_defs js_trim_def trim_start_def trim_end_def is_space_def
      js_lower_def lower_char_def Let_def)

end
