(* ===== verification/Bootstrap_Hydration.thy ===== *)
theory Bootstrap_Hydration
  imports App_State
begin

text \<open>
  \<open>web/src/bootstrapHydration.ts\<close>: the first hydration of the client. The callbacks are arbitrary
  functions on the state \<open>'w\<close> of the client that may fail (\<open>Inl\<close>); the task given to
  \<open>deferState\<close> is returned to it as a function.
\<close>

definition bootstrapToLiveState :: "PublicBootstrapResponse \<Rightarrow> PublicLiveState" where
  "bootstrapToLiveState bootstrap =
     \<lparr>ls_serverTime = br_serverTime bootstrap, ls_map = br_map bootstrap,
      ls_stats = Some ((br_stats bootstrap)\<lparr>st_latestSeq := Some (br_latestSeq bootstrap)\<rparr>),
      ls_nodes = Some [], ls_routes = Some [], ls_recentPulses = Some [],
      ls_recentActivity = Some (br_recentActivity bootstrap)\<rparr>"

definition publicStateSnapshotIsCurrent :: "js_number \<Rightarrow> PublicLiveState \<Rightarrow> bool" where
  "publicStateSnapshotIsCurrent currentSeq snapshot \<longleftrightarrow> max 0 currentSeq \<le> snapshot_latestSeq snapshot"

type_synonym ('w, 'a) action = "'w \<Rightarrow> (string + 'a) \<times> 'w"

datatype hydration = FromBootstrap | FromState

record ('w, 'b, 's) HydrationOptions =
  ho_fetchBootstrap :: "('w, 'b) action"
  ho_fetchState :: "('w, 's) action"
  ho_applyBootstrap :: "'b \<Rightarrow> ('w, unit) action"
  ho_applyState :: "'s \<Rightarrow> ('w, unit) action"
  ho_deferState :: "('w, unit) action \<Rightarrow> ('w, unit) action"
  ho_onDeferredStateError :: "string \<Rightarrow> ('w, unit) action"

text \<open>\<open>options.applyState(await options.fetchState())\<close>.\<close>

definition fetchAndApplyState :: "('w, 'b, 's) HydrationOptions \<Rightarrow> ('w, unit) action" where
  "fetchAndApplyState options w =
     (case ho_fetchState options w of
        (Inl e, w) \<Rightarrow> (Inl e, w) | (Inr s, w) \<Rightarrow> ho_applyState options s w)"

definition deferredTask :: "('w, 'b, 's) HydrationOptions \<Rightarrow> ('w, unit) action" where
  "deferredTask options w =
     (case fetchAndApplyState options w of
        (Inl e, w) \<Rightarrow> ho_onDeferredStateError options e w | (Inr _, w) \<Rightarrow> (Inr (), w))"

definition startBootstrapFirstHydration :: "('w, 'b, 's) HydrationOptions \<Rightarrow> ('w, hydration) action" where
  "startBootstrapFirstHydration options w =
     (let fallback = (\<lambda>w. case fetchAndApplyState options w of
              (Inl e, w) \<Rightarrow> (Inl e, w) | (Inr _, w) \<Rightarrow> (Inr FromState, w))
      in case ho_fetchBootstrap options w of
           (Inl e, w) \<Rightarrow> fallback w
         | (Inr b, w) \<Rightarrow> (case ho_applyBootstrap options b w of
             (Inl e, w) \<Rightarrow> fallback w
           | (Inr _, w) \<Rightarrow> (case ho_deferState options (deferredTask options) w of
               (Inl e, w) \<Rightarrow> fallback w
             | (Inr _, w) \<Rightarrow> (Inr FromBootstrap, w))))"

lemma bootstrap_snapshot_seq [simp]:
  "snapshot_latestSeq (bootstrapToLiveState b) = br_latestSeq b"
  by (simp add: snapshot_latestSeq_def bootstrapToLiveState_def)

lemma bootstrap_no_entities:
  "ls_nodes (bootstrapToLiveState b) = Some []" "ls_routes (bootstrapToLiveState b) = Some []"
  by (simp_all add: bootstrapToLiveState_def)

lemma deferred_error_is_caught:
  assumes "\<And>e w. fst (ho_onDeferredStateError options e w) = Inr ()"
  shows "fst (deferredTask options w) = Inr ()"
  using assms by (auto simp: deferredTask_def split: prod.split sum.split)

end
