(* ===== verification/Live_Cursor.thy ===== *)
theory Live_Cursor
  imports Carto_Types "HOL-Library.Sublist"
begin

text \<open>
  \<open>web/src/liveCursor.ts\<close>: the durable sequence cursor of the live stream. An envelope with
  a positive safe integer \<open>seq\<close> is durable, one without \<open>seq\<close> (or with 0) is a best-effort
  fallback, any other is invalid. The lemmas show that the batches taken from the stream carry
  strictly increasing durable cursors, that batching does not matter and that a redelivery is
  dropped.
\<close>

section \<open>Operations\<close>

datatype LiveEnvelopeSequence = Durable js_number | Fallback | Invalid

record IncreasingLiveEnvelopeBatch =
  ib_accepted :: "PublicLiveEnvelope list"
  ib_cursor :: js_number
  ib_invalid :: bool
  ib_nonMonotonic :: bool

definition classifyLiveEnvelopeSequence :: "PublicLiveEnvelope \<Rightarrow> LiveEnvelopeSequence" where
  "classifyLiveEnvelopeSequence message =
     (case le_seq message of
        None \<Rightarrow> Fallback
      | Some value \<Rightarrow>
          if value = 0 then Fallback
          else if is_safe_integer value \<and> 0 < value then Durable value
          else Invalid)"

text \<open>One turn of the loop of \<open>takeIncreasingLiveEnvelopes\<close>.\<close>

definition takeStep :: "IncreasingLiveEnvelopeBatch \<Rightarrow> PublicLiveEnvelope \<Rightarrow> IncreasingLiveEnvelopeBatch" where
  "takeStep b message =
     (case classifyLiveEnvelopeSequence message of
        Invalid \<Rightarrow> b\<lparr>ib_invalid := True\<rparr>
      | Fallback \<Rightarrow> b\<lparr>ib_accepted := ib_accepted b @ [message]\<rparr>
      | Durable seq \<Rightarrow>
          if seq = ib_cursor b then b
          else if seq < ib_cursor b then b\<lparr>ib_nonMonotonic := True\<rparr>
          else b\<lparr>ib_accepted := ib_accepted b @ [message], ib_cursor := seq\<rparr>)"

definition takeIncreasingLiveEnvelopes :: "PublicLiveEnvelope list \<Rightarrow> js_number \<Rightarrow> IncreasingLiveEnvelopeBatch" where
  "takeIncreasingLiveEnvelopes messages afterSeq =
     foldl takeStep
       \<lparr>ib_accepted = [], ib_cursor = max 0 afterSeq, ib_invalid = False, ib_nonMonotonic = False\<rparr>
       messages"

definition retainLiveEnvelopesAfterCursor :: "PublicLiveEnvelope list \<Rightarrow> js_number \<Rightarrow> PublicLiveEnvelope list" where
  "retainLiveEnvelopesAfterCursor messages cursor =
     filter (\<lambda>message. case classifyLiveEnvelopeSequence message of
         Fallback \<Rightarrow> True | Durable seq \<Rightarrow> cursor < seq | Invalid \<Rightarrow> False) messages"

definition shouldQueueDurableLiveSequence :: "js_number \<Rightarrow> js_number \<Rightarrow> js_number \<Rightarrow> bool" where
  "shouldQueueDurableLiveSequence seq lastAppliedSeq lastQueuedSeq \<longleftrightarrow>
     is_safe_integer seq \<and> max 0 (max lastAppliedSeq lastQueuedSeq) < seq"

definition validSequence :: "js_number \<Rightarrow> js_number" where
  "validSequence value = (if is_safe_integer value \<and> 0 < value then value else 0)"

definition liveCursorResetTarget :: "js_number \<Rightarrow> js_number \<Rightarrow> js_number \<Rightarrow> js_number" where
  "liveCursorResetTarget serverLatestSeq priorAppliedSeq latestInboundSeq =
     (let serverLatest = validSequence serverLatestSeq;
          priorApplied = validSequence priorAppliedSeq;
          latestInbound = validSequence latestInboundSeq
      in if serverLatest < priorApplied \<and> priorApplied \<le> latestInbound then serverLatest
         else max serverLatest latestInbound)"

definition helloRequiresCursorResetProbe :: "js_number \<Rightarrow> js_number \<Rightarrow> bool" where
  "helloRequiresCursorResetProbe helloSeq lastAppliedSeq =
     (let applied = validSequence lastAppliedSeq in 0 < applied \<and> validSequence helloSeq < applied)"

section \<open>The durable cursors of a list of envelopes\<close>

fun durables :: "PublicLiveEnvelope list \<Rightarrow> js_number list" where
  "durables [] = []"
| "durables (m # ms) =
     (case classifyLiveEnvelopeSequence m of Durable s \<Rightarrow> s # durables ms | _ \<Rightarrow> durables ms)"

definition is_fallback :: "PublicLiveEnvelope \<Rightarrow> bool" where
  "is_fallback m \<longleftrightarrow> classifyLiveEnvelopeSequence m = Fallback"

lemma classify_Durable:
  "classifyLiveEnvelopeSequence m = Durable s \<longleftrightarrow> le_seq m = Some s \<and> is_safe_integer s \<and> 0 < s"
  by (auto simp: classifyLiveEnvelopeSequence_def split: option.splits)

lemma durables_append [simp]: "durables (xs @ ys) = durables xs @ durables ys"
  by (induction xs) (auto split: LiveEnvelopeSequence.splits)

lemma set_durables: "s \<in> set (durables ms) \<longleftrightarrow> (\<exists>m\<in>set ms. classifyLiveEnvelopeSequence m = Durable s)"
  by (induction ms) (auto split: LiveEnvelopeSequence.splits)

lemma durables_positive: "s \<in> set (durables ms) \<Longrightarrow> 0 < s \<and> is_safe_integer s"
  by (auto simp: set_durables classify_Durable)

lemma durables_retain:
  "durables (retainLiveEnvelopesAfterCursor ms c) = filter (\<lambda>s. c < s) (durables ms)"
  by (induction ms) (auto simp: retainLiveEnvelopesAfterCursor_def split: LiveEnvelopeSequence.splits)

lemma retain_fallbacks: "filter is_fallback (retainLiveEnvelopesAfterCursor ms c) = filter is_fallback ms"
  by (induction ms)
    (auto simp: retainLiveEnvelopesAfterCursor_def is_fallback_def split: LiveEnvelopeSequence.splits)

section \<open>The loop invariant\<close>

definition take_inv :: "js_number \<Rightarrow> IncreasingLiveEnvelopeBatch \<Rightarrow> bool" where
  "take_inv a b \<longleftrightarrow>
     sorted_wrt (<) (durables (ib_accepted b)) \<and>
     (\<forall>s\<in>set (durables (ib_accepted b)). a < s \<and> s \<le> ib_cursor b) \<and>
     ib_cursor b = (if durables (ib_accepted b) = [] then a else last (durables (ib_accepted b)))"

lemma take_inv_step: "take_inv a b \<Longrightarrow> a \<le> ib_cursor b \<Longrightarrow>
    take_inv a (takeStep b m) \<and> a \<le> ib_cursor (takeStep b m)"
  by (auto simp: take_inv_def takeStep_def sorted_wrt_append split: LiveEnvelopeSequence.splits)

lemma take_inv_foldl: "take_inv a b \<Longrightarrow> a \<le> ib_cursor b \<Longrightarrow>
    take_inv a (foldl takeStep b ms) \<and> a \<le> ib_cursor (foldl takeStep b ms)"
  by (induction ms arbitrary: b) (auto dest: take_inv_step)

lemma take_inv_take: "take_inv (max 0 a) (takeIncreasingLiveEnvelopes ms a)"
  unfolding takeIncreasingLiveEnvelopes_def
  by (rule take_inv_foldl [THEN conjunct1]) (simp_all add: take_inv_def)

lemma take_cursor_ge: "max 0 a \<le> ib_cursor (takeIncreasingLiveEnvelopes ms a)"
proof -
  have "take_inv (max 0 a)
      \<lparr>ib_accepted = [], ib_cursor = max 0 a, ib_invalid = False, ib_nonMonotonic = False\<rparr>"
    by (simp add: take_inv_def)
  then show ?thesis
    unfolding takeIncreasingLiveEnvelopes_def by (rule take_inv_foldl [THEN conjunct2]) simp
qed

lemma cursor_foldl_ge: "ib_cursor b \<le> ib_cursor (foldl takeStep b ms)"
proof (induction ms arbitrary: b)
  case (Cons m ms)
  have "ib_cursor b \<le> ib_cursor (takeStep b m)"
    by (simp add: takeStep_def split: LiveEnvelopeSequence.split)
  then show ?case using Cons.IH [of "takeStep b m"] by simp
qed simp

lemma cursor_foldl_durable:
  "s \<in> set (durables ms) \<Longrightarrow> s \<le> ib_cursor (foldl takeStep b ms)"
proof (induction ms arbitrary: b)
  case (Cons m ms)
  show ?case
  proof (cases "s \<in> set (durables ms)")
    case True
    then show ?thesis using Cons.IH by simp
  next
    case False
    with Cons.prems have "classifyLiveEnvelopeSequence m = Durable s"
      by (auto split: LiveEnvelopeSequence.splits)
    then have "s \<le> ib_cursor (takeStep b m)" by (simp add: takeStep_def)
    also have "\<dots> \<le> ib_cursor (foldl takeStep (takeStep b m) ms)" by (rule cursor_foldl_ge)
    finally show ?thesis by simp
  qed
qed simp

lemma takeStep_subseq: "\<exists>zs. ib_accepted (foldl takeStep b ms) = ib_accepted b @ zs \<and> subseq zs ms \<and>
    filter is_fallback zs = filter is_fallback ms"
proof (induction ms arbitrary: b)
  case (Cons m ms)
  obtain zs where zs: "ib_accepted (foldl takeStep (takeStep b m) ms) = ib_accepted (takeStep b m) @ zs"
    "subseq zs ms" "filter is_fallback zs = filter is_fallback ms"
    using Cons.IH by blast
  have "ib_accepted (takeStep b m) = ib_accepted b \<and> \<not> is_fallback m \<or>
      ib_accepted (takeStep b m) = ib_accepted b @ [m]"
    by (simp add: takeStep_def is_fallback_def split: LiveEnvelopeSequence.split)
  then consider "ib_accepted (takeStep b m) = ib_accepted b" "\<not> is_fallback m"
    | "ib_accepted (takeStep b m) = ib_accepted b @ [m]"
    by blast
  then show ?case
  proof cases
    case 1
    with zs show ?thesis by (intro exI [of _ zs]) (auto intro: list_emb_Cons)
  next
    case 2
    with zs show ?thesis by (intro exI [of _ "m # zs"]) simp
  qed
qed simp

text \<open>The accepted list only depends on the cursor, and the accepted prefix is kept.\<close>

lemma foldl_takeStep_shift:
  "ib_cursor b = ib_cursor c \<Longrightarrow>
   ib_cursor (foldl takeStep b ms) = ib_cursor (foldl takeStep c ms) \<and>
   (\<exists>zs. ib_accepted (foldl takeStep b ms) = ib_accepted b @ zs \<and>
         ib_accepted (foldl takeStep c ms) = ib_accepted c @ zs)"
proof (induction ms arbitrary: b c)
  case (Cons m ms)
  have eq: "ib_cursor (takeStep b m) = ib_cursor (takeStep c m)"
    using Cons.prems by (simp add: takeStep_def split: LiveEnvelopeSequence.split)
  have "\<exists>ws. ib_accepted (takeStep b m) = ib_accepted b @ ws \<and> ib_accepted (takeStep c m) = ib_accepted c @ ws"
    using Cons.prems by (simp add: takeStep_def split: LiveEnvelopeSequence.split)
  with Cons.IH [OF eq] show ?case by (metis append.assoc foldl_Cons)
qed simp

lemma foldl_takeStep_below:
  "(\<And>s. s \<in> set (durables ms) \<Longrightarrow> s \<le> ib_cursor b) \<Longrightarrow>
   ib_accepted (foldl takeStep b ms) = ib_accepted b @ filter is_fallback ms \<and>
   ib_cursor (foldl takeStep b ms) = ib_cursor b"
proof (induction ms arbitrary: b)
  case (Cons m ms)
  have c: "ib_cursor (takeStep b m) = ib_cursor b"
    and a: "ib_accepted (takeStep b m) = ib_accepted b @ (if is_fallback m then [m] else [])"
    using Cons.prems
    by (cases "classifyLiveEnvelopeSequence m"; force simp: takeStep_def is_fallback_def)+
  have "s \<in> set (durables ms) \<Longrightarrow> s \<le> ib_cursor (takeStep b m)" for s
    using Cons.prems [of s] by (auto simp: c split: LiveEnvelopeSequence.split)
  from Cons.IH [OF this] show ?case by (simp add: a c)
qed simp

lemma foldl_takeStep_invalid:
  "ib_invalid (foldl takeStep b ms) \<longleftrightarrow>
   ib_invalid b \<or> (\<exists>m\<in>set ms. classifyLiveEnvelopeSequence m = Invalid)"
proof (induction ms arbitrary: b)
  case (Cons m ms)
  have "ib_invalid (takeStep b m) \<longleftrightarrow> ib_invalid b \<or> classifyLiveEnvelopeSequence m = Invalid"
    by (simp add: takeStep_def split: LiveEnvelopeSequence.split)
  with Cons show ?case by auto
qed simp

lemma subseq_set: "subseq xs ys \<Longrightarrow> x \<in> set xs \<Longrightarrow> x \<in> set ys"
  by (elim list_emb_set) auto

lemma durables_subseq: "subseq xs ys \<Longrightarrow> set (durables xs) \<subseteq> set (durables ys)"
  by (auto simp: set_durables) (metis subseq_set)

section \<open>Properties\<close>

text \<open>
  A batch taken from the stream after cursor \<open>a\<close> is a subsequence of the messages with
  every fallback envelope in it; its durable cursors are strictly increasing and above \<open>a\<close>;
  the new cursor is the largest durable cursor seen (at least \<open>a\<close>); and the batch is flagged
  invalid exactly when a message has an invalid \<open>seq\<close>.
\<close>

lemma take_increasing_batch:
  "subseq (ib_accepted (takeIncreasingLiveEnvelopes ms a)) ms \<and>
   filter is_fallback (ib_accepted (takeIncreasingLiveEnvelopes ms a)) = filter is_fallback ms \<and>
   sorted_wrt (<) (durables (ib_accepted (takeIncreasingLiveEnvelopes ms a))) \<and>
   set (durables (ib_accepted (takeIncreasingLiveEnvelopes ms a))) \<subseteq> {max 0 a<..} \<and>
   ib_cursor (takeIncreasingLiveEnvelopes ms a) = Max (insert (max 0 a) (set (durables ms))) \<and>
   (ib_invalid (takeIncreasingLiveEnvelopes ms a) \<longleftrightarrow>
      (\<exists>m\<in>set ms. classifyLiveEnvelopeSequence m = Invalid))"
proof -
  let ?b = "takeIncreasingLiveEnvelopes ms a"
  note inv = take_inv_take [of a ms, unfolded take_inv_def]
  obtain zs where zs: "ib_accepted ?b = zs" "subseq zs ms" "filter is_fallback zs = filter is_fallback ms"
    using takeStep_subseq [of "\<lparr>ib_accepted = [], ib_cursor = max 0 a, ib_invalid = False, ib_nonMonotonic = False\<rparr>" ms]
    unfolding takeIncreasingLiveEnvelopes_def by auto
  have "s \<in> set (durables ms) \<Longrightarrow> s \<le> ib_cursor ?b" for s
    unfolding takeIncreasingLiveEnvelopes_def by (rule cursor_foldl_durable)
  moreover have "ib_cursor ?b \<in> insert (max 0 a) (set (durables ms))"
    using inv durables_subseq [OF zs(2)] zs(1) last_in_set [of "durables zs"]
    by (auto split: if_splits simp del: last_in_set)
  ultimately have "ib_cursor ?b = Max (insert (max 0 a) (set (durables ms)))"
    using take_cursor_ge [of a ms] by (intro Max_eqI [symmetric]) auto
  moreover have "ib_invalid ?b \<longleftrightarrow> (\<exists>m\<in>set ms. classifyLiveEnvelopeSequence m = Invalid)"
    by (simp add: takeIncreasingLiveEnvelopes_def foldl_takeStep_invalid)
  ultimately show ?thesis using inv zs by auto
qed

text \<open>
  Batching does not matter: taking a stream in two batches, the second one after the cursor
  the first one left, accepts the same envelopes and leaves the same cursor as taking it at once.
\<close>

lemma take_increasing_append:
  "ib_accepted (takeIncreasingLiveEnvelopes (xs @ ys) a) =
     ib_accepted (takeIncreasingLiveEnvelopes xs a) @
     ib_accepted (takeIncreasingLiveEnvelopes ys (ib_cursor (takeIncreasingLiveEnvelopes xs a))) \<and>
   ib_cursor (takeIncreasingLiveEnvelopes (xs @ ys) a) =
     ib_cursor (takeIncreasingLiveEnvelopes ys (ib_cursor (takeIncreasingLiveEnvelopes xs a)))"
proof -
  let ?x = "takeIncreasingLiveEnvelopes xs a"
  let ?c = "\<lparr>ib_accepted = [], ib_cursor = max 0 (ib_cursor ?x), ib_invalid = False, ib_nonMonotonic = False\<rparr>"
  have "takeIncreasingLiveEnvelopes (xs @ ys) a = foldl takeStep ?x ys"
    by (simp add: takeIncreasingLiveEnvelopes_def)
  moreover have "ib_cursor ?x = ib_cursor ?c" using take_cursor_ge [of a xs] by simp
  ultimately show ?thesis
    using foldl_takeStep_shift [of ?x ?c ys] by (auto simp: takeIncreasingLiveEnvelopes_def [of ys])
qed

text \<open>
  A redelivered batch is dropped: taking the same messages again after the cursor they left
  accepts no durable envelope (only the fallback ones, which have no cursor), and the cursor stays.
\<close>

lemma take_increasing_redelivery:
  "ib_accepted (takeIncreasingLiveEnvelopes ms (ib_cursor (takeIncreasingLiveEnvelopes ms a))) =
     filter is_fallback ms \<and>
   ib_cursor (takeIncreasingLiveEnvelopes ms (ib_cursor (takeIncreasingLiveEnvelopes ms a))) =
     ib_cursor (takeIncreasingLiveEnvelopes ms a)"
proof -
  let ?x = "takeIncreasingLiveEnvelopes ms a"
  let ?c = "\<lparr>ib_accepted = [], ib_cursor = max 0 (ib_cursor ?x), ib_invalid = False, ib_nonMonotonic = False\<rparr>"
  have "s \<in> set (durables ms) \<Longrightarrow> s \<le> ib_cursor ?x" for s
    unfolding takeIncreasingLiveEnvelopes_def by (rule cursor_foldl_durable)
  then show ?thesis
    using foldl_takeStep_below [of ms ?c] take_cursor_ge [of a ms]
    by (simp add: takeIncreasingLiveEnvelopes_def [of ms "ib_cursor ?x"])
qed

text \<open>
  Rebasing after a reset: the target is a valid sequence or 0 and never below the server's
  cursor; when the server has not regressed it is not below any inbound cursor either, and when it
  has, the target lies in the new epoch, below the cursor applied before.
\<close>

lemma reset_target_epoch:
  "liveCursorResetTarget s p i \<in> {validSequence s, validSequence i} \<and>
   validSequence s \<le> liveCursorResetTarget s p i \<and>
   (if validSequence s < validSequence p then liveCursorResetTarget s p i < validSequence p
    else liveCursorResetTarget s p i = max (validSequence s) (validSequence i))"
  by (auto simp: liveCursorResetTarget_def Let_def)

end
