(* ===== verification/Live_Pacing.thy ===== *)
theory Live_Pacing
  imports Js_Sort Live_Cursor Carto_Samples
begin

text \<open>
  \<open>web/src/livePacing.ts\<close>: the bounded queue between the socket and the animation frame that
  applies the envelopes. The sort is the host's (\<open>srt\<close>, locale \<open>host_sort\<close>), since the
  comparator of this file is not consistent (\<open>live_order_inconsistent\<close>): two durable
  envelopes compare by sequence, any other pair by time.
\<close>

section \<open>Operations\<close>

definition LIVE_ENVELOPE_MAX_BATCH_SIZE :: js_number where
  "LIVE_ENVELOPE_MAX_BATCH_SIZE = 256"

definition LIVE_ENVELOPE_MAX_PENDING :: js_number where
  "LIVE_ENVELOPE_MAX_PENDING = 4096"

record DueLiveEnvelopes =
  due :: "PublicLiveEnvelope list"
  pending :: "PublicLiveEnvelope list"

definition liveEnvelopeDisplayAt :: "PublicLiveEnvelope \<Rightarrow> js_number" where
  "liveEnvelopeDisplayAt message =
     or_else (or_opt (le_receivedAt message) (or_opt (le_serverTime message) (le_displayAt message))) 0"

definition durableSequence :: "js_number option \<Rightarrow> js_number" where
  "durableSequence value =
     (case value of None \<Rightarrow> 0 | Some v \<Rightarrow> if is_safe_integer v \<and> 0 < v then v else 0)"

definition compareLiveEnvelopes :: "PublicLiveEnvelope \<Rightarrow> PublicLiveEnvelope \<Rightarrow> js_number" where
  "compareLiveEnvelopes a b =
     (let aSeq = durableSequence (le_seq a);
          bSeq = durableSequence (le_seq b)
      in if 0 < aSeq \<and> 0 < bSeq then aSeq - bSeq
         else let d = liveEnvelopeDisplayAt a - liveEnvelopeDisplayAt b
              in if d \<noteq> 0 then d else aSeq - bSeq)"

type_synonym sorter = "(PublicLiveEnvelope \<Rightarrow> PublicLiveEnvelope \<Rightarrow> js_number) \<Rightarrow>
  PublicLiveEnvelope list \<Rightarrow> PublicLiveEnvelope list"

definition sortLiveEnvelopes :: "sorter \<Rightarrow> PublicLiveEnvelope list \<Rightarrow> PublicLiveEnvelope list" where
  "sortLiveEnvelopes srt messages = srt compareLiveEnvelopes messages"

definition capLiveEnvelopeQueue :: "sorter \<Rightarrow> PublicLiveEnvelope list \<Rightarrow> js_number \<Rightarrow> PublicLiveEnvelope list" where
  "capLiveEnvelopeQueue srt messages limit =
     (if real (length messages) \<le> limit then messages
      else slice_from (- max 0 limit) (sortLiveEnvelopes srt messages))"

definition takeDueLiveEnvelopes :: "sorter \<Rightarrow> PublicLiveEnvelope list \<Rightarrow> js_number \<Rightarrow> DueLiveEnvelopes" where
  "takeDueLiveEnvelopes srt messages maxBatchSize =
     (let ordered = sortLiveEnvelopes srt messages;
          n = max 1 (of_int \<lfloor>maxBatchSize\<rfloor>)
      in \<lparr>due = slice_to n ordered, pending = slice_from n ordered\<rparr>)"

definition nextLiveEnvelopeDelayMs :: "PublicLiveEnvelope list \<Rightarrow> js_number option" where
  "nextLiveEnvelopeDelayMs messages = (if messages = [] then None else Some 0)"

section \<open>Lemmas\<close>

lemma slice_to_nonneg: "0 \<le> k \<Longrightarrow> slice_to (of_int k) xs = take (nat k) xs"
  by (simp add: slice_to_def js_trunc_def)

lemma slice_from_nonneg: "0 \<le> k \<Longrightarrow> slice_from (of_int k) xs = drop (nat k) xs"
  by (simp add: slice_from_def js_trunc_def)

lemma takeDue_eq:
  "takeDueLiveEnvelopes srt ms n =
     \<lparr>due = take (nat (max 1 \<lfloor>n\<rfloor>)) (sortLiveEnvelopes srt ms),
      pending = drop (nat (max 1 \<lfloor>n\<rfloor>)) (sortLiveEnvelopes srt ms)\<rparr>"
proof -
  have "max 1 (of_int \<lfloor>n\<rfloor>) = real_of_int (max 1 \<lfloor>n\<rfloor>)" by linarith
  then show ?thesis
    unfolding takeDueLiveEnvelopes_def Let_def by (simp only: slice_to_nonneg slice_from_nonneg)
qed

lemma durableSequence_classify:
  "durableSequence (le_seq m) = (case classifyLiveEnvelopeSequence m of Durable s \<Rightarrow> s | _ \<Rightarrow> 0)"
  by (auto simp: durableSequence_def classifyLiveEnvelopeSequence_def split: option.split)

definition all_durable :: "PublicLiveEnvelope list \<Rightarrow> bool" where
  "all_durable ms \<longleftrightarrow> (\<forall>m\<in>set ms. \<exists>s. classifyLiveEnvelopeSequence m = Durable s)"

lemma compare_durable:
  assumes "classifyLiveEnvelopeSequence a = Durable s" and "classifyLiveEnvelopeSequence b = Durable t"
  shows "compareLiveEnvelopes a b = by_asc (\<lambda>m. durableSequence (le_seq m)) a b"
proof -
  have "durableSequence (le_seq a) = s" "durableSequence (le_seq b) = t"
    using assms by (simp_all add: durableSequence_classify)
  moreover have "0 < s" "0 < t" using assms by (simp_all add: classify_Durable)
  ultimately show ?thesis by (simp add: compareLiveEnvelopes_def by_asc_def)
qed

lemma durables_all_durable:
  "all_durable ms \<Longrightarrow> durables ms = map (\<lambda>m. durableSequence (le_seq m)) ms"
  by (induction ms) (auto simp: all_durable_def durableSequence_classify)

lemma sort_all_durable:
  assumes "host_sort srt" and "all_durable ms"
  shows "sortLiveEnvelopes srt ms = js_sort (by_asc (\<lambda>m. durableSequence (le_seq m))) ms"
  unfolding sortLiveEnvelopes_def
proof (rule host_sort.consistent [OF assms(1) comparator_by_asc])
  fix x y
  assume "x \<in> set ms" and "y \<in> set ms"
  then show "compareLiveEnvelopes x y = by_asc (\<lambda>m. durableSequence (le_seq m)) x y"
    using assms(2) unfolding all_durable_def by (metis compare_durable)
qed

lemma take_due_mset:
  assumes "host_sort srt"
  shows "mset (due (takeDueLiveEnvelopes srt ms n)) + mset (pending (takeDueLiveEnvelopes srt ms n)) = mset ms"
  using host_sort.perm [OF assms, of compareLiveEnvelopes ms]
  by (simp add: takeDue_eq sortLiveEnvelopes_def flip: mset_append)

section \<open>Properties\<close>

text \<open>
  Taking what is due neither loses nor duplicates an envelope, whatever the host's sort does
  with the inconsistent comparator; the batch has the requested size (at least one) as long as the
  queue lasts, so a queue that is not empty always makes progress.
\<close>

lemma take_due_partition:
  assumes "host_sort srt"
  shows "mset (due (takeDueLiveEnvelopes srt ms n)) + mset (pending (takeDueLiveEnvelopes srt ms n)) = mset ms \<and>
    length (due (takeDueLiveEnvelopes srt ms n)) = min (nat (max 1 \<lfloor>n\<rfloor>)) (length ms) \<and>
    (due (takeDueLiveEnvelopes srt ms n) = [] \<longleftrightarrow> ms = [])"
proof -
  have p: "mset (sortLiveEnvelopes srt ms) = mset ms" and l: "length (sortLiveEnvelopes srt ms) = length ms"
    unfolding sortLiveEnvelopes_def
    by (rule host_sort.perm [OF assms], rule host_sort.length_srt [OF assms])
  have "mset (due (takeDueLiveEnvelopes srt ms n)) + mset (pending (takeDueLiveEnvelopes srt ms n)) = mset ms"
    by (simp add: takeDue_eq p flip: mset_append)
  moreover have "0 < nat (max 1 \<lfloor>n\<rfloor>)" by simp
  ultimately show ?thesis by (auto simp: takeDue_eq l)
qed

lemma take_due_partition_witness:
  "due (takeDueLiveEnvelopes js_sort [durable_at 1 5, fallback_at 4] 1) \<noteq> []"
  using take_due_partition [OF stable.host_sort_axioms, of "[durable_at 1 5, fallback_at 4]" 1] by simp

text \<open>
  On a queue of durable envelopes the batches are in cursor order: what is due is sorted by
  sequence and no envelope that stays pending has a smaller sequence than one that is due.
\<close>

lemma take_due_durable_order:
  assumes "host_sort srt" and "all_durable ms"
  shows "sorted (durables (due (takeDueLiveEnvelopes srt ms n)) @ durables (pending (takeDueLiveEnvelopes srt ms n)))"
proof -
  let ?f = "\<lambda>m. durableSequence (le_seq m)"
  let ?o = "sortLiveEnvelopes srt ms"
  have o: "?o = js_sort (by_asc ?f) ms" by (rule sort_all_durable [OF assms])
  have "all_durable ?o" using assms(2) by (simp add: o all_durable_def)
  then have "durables ?o = map ?f ?o" by (rule durables_all_durable)
  moreover have "sorted (map ?f ?o)"
    using comparator.sorted_js_sort [OF comparator_by_asc, of ?f ms]
    by (simp add: o sorted_map by_asc_def)
  ultimately have "sorted (durables ?o)" by simp
  then show ?thesis by (simp add: takeDue_eq flip: durables_append)
qed

lemma take_due_durable_order_witness:
  "all_durable [durable_at 2 5, durable_at 1 9] \<and>
   sorted (durables (due (takeDueLiveEnvelopes js_sort [durable_at 2 5, durable_at 1 9] 256)) @
     durables (pending (takeDueLiveEnvelopes js_sort [durable_at 2 5, durable_at 1 9] 256)))"
proof -
  have d: "all_durable [durable_at 2 5, durable_at 1 9]"
    by (simp add: all_durable_def classify_Durable sample_defs is_safe_integer_def max_safe_integer_def)
  show ?thesis using d take_due_durable_order [OF stable.host_sort_axioms d, of 256] by simp
qed

text \<open>
  The queue cap: a queue within the limit is unchanged, and above a limit of at least one the
  result is a part of the queue of exactly that length.
\<close>

lemma cap_queue_bound:
  assumes "host_sort srt" and "0 < n"
  shows "length (capLiveEnvelopeQueue srt ms (real n)) = min n (length ms) \<and>
    mset (capLiveEnvelopeQueue srt ms (real n)) \<subseteq># mset ms"
proof -
  have "mset (sortLiveEnvelopes srt ms) = mset ms" and l: "length (sortLiveEnvelopes srt ms) = length ms"
    unfolding sortLiveEnvelopes_def
    by (rule host_sort.perm [OF assms(1)], rule host_sort.length_srt [OF assms(1)])
  moreover have "mset (take_last n (sortLiveEnvelopes srt ms)) \<subseteq># mset (sortLiveEnvelopes srt ms)"
    by (metis take_last_def append_take_drop_id mset_append mset_subset_eq_add_right)
  ultimately show ?thesis
    using assms(2) by (simp add: capLiveEnvelopeQueue_def slice_from_neg min_def)
qed

lemma cap_queue_bound_witness:
  "length (capLiveEnvelopeQueue js_sort [durable_at 1 5, fallback_at 4] (real 1)) = 1"
  using cap_queue_bound [OF stable.host_sort_axioms, of 1 "[durable_at 1 5, fallback_at 4]"] by simp

text \<open>
  A limit of zero is no limit: \<open>slice(-0)\<close> is the whole array, so a queue of any length is
  returned entire (a permutation of it) instead of being emptied.
\<close>

lemma cap_queue_zero:
  assumes "host_sort srt"
  shows "mset (capLiveEnvelopeQueue srt ms 0) = mset ms"
  using host_sort.perm [OF assms] by (simp add: capLiveEnvelopeQueue_def sortLiveEnvelopes_def)

lemma cap_queue_zero_witness:
  "mset (capLiveEnvelopeQueue js_sort [durable_at 1 5, fallback_at 4] 0) = mset [durable_at 1 5, fallback_at 4]"
  by (rule cap_queue_zero [OF stable.host_sort_axioms])

text \<open>
  The comparator of the queue is not transitive, and a durable envelope can be lost by it: for
  the queue \<open>1, fallback, 2\<close> with times 10, 7, 5 the order \<open>2, fallback, 1\<close> is a permutation in
  which every neighbour is in comparator order, and taking the increasing envelopes from it drops
  cursor 1 for good, since the batch cursor is 2 afterwards.
\<close>

lemma live_order_inconsistent:
  "compareLiveEnvelopes (durable_at 1 10) (durable_at 2 5) < 0 \<and>
   compareLiveEnvelopes (durable_at 2 5) (fallback_at 7) < 0 \<and>
   compareLiveEnvelopes (fallback_at 7) (durable_at 1 10) < 0 \<and>
   durables (ib_accepted (takeIncreasingLiveEnvelopes [durable_at 2 5, fallback_at 7, durable_at 1 10] 0)) = [2] \<and>
   ib_cursor (takeIncreasingLiveEnvelopes [durable_at 2 5, fallback_at 7, durable_at 1 10] 0) = 2"
  by (simp add: compareLiveEnvelopes_def durableSequence_def liveEnvelopeDisplayAt_def sample_defs
      is_safe_integer_def max_safe_integer_def takeIncreasingLiveEnvelopes_def takeStep_def
      classifyLiveEnvelopeSequence_def)

end
