(* ===== verification/Event_Recovery.thy ===== *)
theory Event_Recovery
  imports Js_Sort Carto_Samples
begin

text \<open>
  \<open>web/src/eventRecovery.ts\<close>: recovering the retained events page by page after a cursor. The
  server is an arbitrary function \<open>fetchPage\<close> of the number of the page (it may answer
  differently each time, or fail: \<open>Inl\<close>), \<open>isActive\<close> an arbitrary function of the number of
  pages read. The result is the list of pages given to \<open>applyPage\<close>, in order, and the outcome of
  the promise. The loop needs no fuel: every turn moves the cursor to a larger safe integer.
\<close>

section \<open>Operations\<close>

datatype PublicEventRecoveryStatus = CaughtUp | Empty | ResetRequired | UnrecoverableGap | Cancelled

record PublicEventRecoveryResult =
  rr_status :: PublicEventRecoveryStatus
  rr_cursor :: js_number
  rr_latestSeq :: js_number
  rr_pages :: nat

definition finiteSequence :: "js_number option \<Rightarrow> js_number" where
  "finiteSequence value = (let parsed = or_else value 0
     in if is_safe_integer parsed \<and> 0 < parsed then parsed else 0)"

definition newEvents :: "PublicEvent list \<Rightarrow> js_number \<Rightarrow> PublicEvent list" where
  "newEvents events cursor =
     js_sort (by_asc ev_seq) (filter (\<lambda>e. cursor < finiteSequence (Some (ev_seq e))) events)"

definition nextRecoveryCursor :: "PublicEvent list \<Rightarrow> PublicEventsResponse \<Rightarrow> js_number" where
  "nextRecoveryCursor events response =
     max (finiteSequence (if events = [] then None else Some (ev_seq (last events))))
         (finiteSequence (er_nextCursor response))"

lemma finiteSequence_bounds: "0 \<le> finiteSequence v \<and> finiteSequence v \<le> max_safe_integer \<and> is_integer (finiteSequence v)"
  by (auto simp: finiteSequence_def is_safe_integer_def max_safe_integer_def Let_def)

lemma newEvents_above: "e \<in> set (newEvents events c) \<Longrightarrow> c < finiteSequence (Some (ev_seq e))"
  by (simp add: newEvents_def)

lemma nextRecoveryCursor_bounds:
  "nextRecoveryCursor es r \<le> max_safe_integer" "is_integer (nextRecoveryCursor es r)"
  using finiteSequence_bounds by (auto simp: nextRecoveryCursor_def max_def)

lemma nextRecoveryCursor_above:
  "newEvents events c \<noteq> [] \<Longrightarrow> c < nextRecoveryCursor (newEvents events c) r"
  using newEvents_above [OF last_in_set, of events c] by (auto simp: nextRecoveryCursor_def)

type_synonym fetch_page = "nat \<Rightarrow> js_number \<Rightarrow> js_number \<Rightarrow> string + PublicEventsResponse"

function recoverLoop :: "fetch_page \<Rightarrow> (nat \<Rightarrow> bool) \<Rightarrow> js_number \<Rightarrow> js_number \<Rightarrow> js_number \<Rightarrow> nat \<Rightarrow>
    PublicEvent list list \<Rightarrow> PublicEvent list list \<times> (string + PublicEventRecoveryResult)" where
  "recoverLoop fetchPage isActive limit cursor latestSeq pages applied =
     (if \<not> isActive pages
      then (applied, Inr \<lparr>rr_status = Cancelled, rr_cursor = cursor, rr_latestSeq = latestSeq, rr_pages = pages\<rparr>)
      else case fetchPage pages cursor limit of
        Inl err \<Rightarrow> (applied, Inl err)
      | Inr response \<Rightarrow>
          let responseLatestSeq = finiteSequence (Some (er_latestSeq response));
              latest = max latestSeq responseLatestSeq;
              events = newEvents (er_events response) cursor;
              nextCursor = nextRecoveryCursor events response
          in if er_resetRequired response then
               (applied, Inr \<lparr>rr_status = (if responseLatestSeq = 0 \<and> cursor = 0 then Empty else ResetRequired),
                  rr_cursor = cursor, rr_latestSeq = responseLatestSeq, rr_pages = Suc pages\<rparr>)
             else if events = [] then
               (applied, Inr \<lparr>rr_status = (if latest \<le> cursor then (if cursor = 0 then Empty else CaughtUp)
                    else UnrecoverableGap),
                  rr_cursor = cursor, rr_latestSeq = latest, rr_pages = Suc pages\<rparr>)
             else if nextCursor \<le> cursor then
               (applied @ [events], Inr \<lparr>rr_status = UnrecoverableGap, rr_cursor = cursor,
                  rr_latestSeq = latest, rr_pages = Suc pages\<rparr>)
             else if latest \<le> nextCursor then
               (applied @ [events], Inr \<lparr>rr_status = CaughtUp, rr_cursor = nextCursor,
                  rr_latestSeq = latest, rr_pages = Suc pages\<rparr>)
             else recoverLoop fetchPage isActive limit nextCursor latest (Suc pages) (applied @ [events]))"
  by pat_completeness auto
termination
proof (relation "measure (\<lambda>(f, a, l, cursor, t, p, ap). nat (\<lfloor>max_safe_integer\<rfloor> - \<lfloor>cursor\<rfloor>))", goal_cases)
  case 1
  show ?case by simp
next
  case (2 f a limit cursor latestSeq pages applied response responseLatest latest events nextCursor)
  then have lt: "cursor < nextCursor" by simp
  have le: "nextCursor \<le> max_safe_integer" and int: "is_integer nextCursor"
    using 2 nextRecoveryCursor_bounds by simp_all
  from int obtain k where k: "nextCursor = of_int k" by (rule is_integerE)
  have "\<lfloor>cursor\<rfloor> < k" using lt k by linarith
  moreover have "k \<le> \<lfloor>max_safe_integer\<rfloor>" using le k by linarith
  ultimately show ?case using k by simp
qed

declare recoverLoop.simps [simp del]

definition recoverPublicEventPages :: "js_number \<Rightarrow> js_number option \<Rightarrow> js_number \<Rightarrow> fetch_page \<Rightarrow>
    (nat \<Rightarrow> bool) \<Rightarrow> PublicEvent list list \<times> (string + PublicEventRecoveryResult)" where
  "recoverPublicEventPages afterSeq targetSeq limit fetchPage isActive =
     (let cursor = max 0 (of_int \<lfloor>afterSeq\<rfloor>);
          latestSeq = max cursor (finiteSequence targetSeq)
      in if targetSeq \<noteq> None \<and> latestSeq \<le> cursor
         then ([], Inr \<lparr>rr_status = (if cursor = 0 then Empty else CaughtUp), rr_cursor = cursor,
                 rr_latestSeq = latestSeq, rr_pages = 0\<rparr>)
         else recoverLoop fetchPage isActive limit cursor latestSeq 0 [])"

text \<open>
  One turn of the loop as a function of the response: the events given to \<open>applyPage\<close>, and either
  the result or the cursor and the latest sequence of the next turn. The client that interleaves the
  recovery with other events (\<open>Live_Flow\<close>) runs the loop turn by turn.
\<close>

definition recoverTurn :: "js_number \<Rightarrow> js_number \<Rightarrow> nat \<Rightarrow> PublicEventsResponse \<Rightarrow>
    PublicEvent list option \<times> (PublicEventRecoveryResult + js_number \<times> js_number)" where
  "recoverTurn cursor latestSeq pages response =
     (let responseLatestSeq = finiteSequence (Some (er_latestSeq response));
          latest = max latestSeq responseLatestSeq;
          events = newEvents (er_events response) cursor;
          nextCursor = nextRecoveryCursor events response;
          result = (\<lambda>st c l. Inl \<lparr>rr_status = st, rr_cursor = c, rr_latestSeq = l, rr_pages = Suc pages\<rparr>)
      in if er_resetRequired response then
           (None, result (if responseLatestSeq = 0 \<and> cursor = 0 then Empty else ResetRequired) cursor responseLatestSeq)
         else if events = [] then
           (None, result (if latest \<le> cursor then (if cursor = 0 then Empty else CaughtUp) else UnrecoverableGap)
              cursor latest)
         else if nextCursor \<le> cursor then (Some events, result UnrecoverableGap cursor latest)
         else if latest \<le> nextCursor then (Some events, result CaughtUp nextCursor latest)
         else (Some events, Inr (nextCursor, latest)))"

lemma recoverLoop_turn:
  "recoverLoop f a lmt c t p ap =
    (if \<not> a p then (ap, Inr \<lparr>rr_status = Cancelled, rr_cursor = c, rr_latestSeq = t, rr_pages = p\<rparr>)
     else case f p c lmt of Inl err \<Rightarrow> (ap, Inl err)
     | Inr resp \<Rightarrow> (case recoverTurn c t p resp of (es, out) \<Rightarrow>
         let ap' = (case es of None \<Rightarrow> ap | Some e \<Rightarrow> ap @ [e])
         in case out of Inl res \<Rightarrow> (ap', Inr res) | Inr (c', t') \<Rightarrow> recoverLoop f a lmt c' t' (Suc p) ap'))"
  unfolding recoverLoop.simps [of f a lmt c t p ap]
  by (simp add: recoverTurn_def Let_def split: sum.split)

section \<open>Order of the applied events\<close>

text \<open>
  What the loop has applied so far: the events carry increasing sequences above the starting
  cursor and not above the current one.
\<close>

definition applied_ok :: "js_number \<Rightarrow> js_number \<Rightarrow> PublicEvent list list \<Rightarrow> bool" where
  "applied_ok c0 c pages \<longleftrightarrow> c0 \<le> c \<and> sorted (map ev_seq (concat pages)) \<and>
     set (map ev_seq (concat pages)) \<subseteq> {c0<..c}"

lemma ev_seq_finite: "c < finiteSequence (Some (ev_seq e)) \<Longrightarrow> 0 \<le> c \<Longrightarrow> finiteSequence (Some (ev_seq e)) = ev_seq e"
  by (auto simp: finiteSequence_def Let_def split: if_splits)

lemma sorted_newEvents: "sorted (map ev_seq (newEvents es c))"
  using comparator.sorted_js_sort [OF comparator_by_asc, of ev_seq]
  by (simp add: newEvents_def sorted_map by_asc_def)

lemma newEvents_le_next:
  assumes "0 \<le> c" and "newEvents es c \<noteq> []"
  shows "set (map ev_seq (newEvents es c)) \<subseteq> {c<..nextRecoveryCursor (newEvents es c) r}"
proof
  fix s
  assume s: "s \<in> set (map ev_seq (newEvents es c))"
  then obtain e where e: "e \<in> set (newEvents es c)" "s = ev_seq e" by auto
  have "c < s" using newEvents_above [OF e(1)] ev_seq_finite [OF newEvents_above [OF e(1)] assms(1)] e(2) by simp
  moreover have "s \<le> last (map ev_seq (newEvents es c))"
    by (rule sorted_le_last [OF sorted_newEvents s])
  moreover have "last (map ev_seq (newEvents es c)) \<le> nextRecoveryCursor (newEvents es c) r"
    using ev_seq_finite [OF newEvents_above [OF last_in_set [OF assms(2)]] assms(1)] assms(2)
    by (simp add: nextRecoveryCursor_def last_map)
  ultimately show "s \<in> {c<..nextRecoveryCursor (newEvents es c) r}" by simp
qed

lemma applied_ok_step:
  assumes "applied_ok c0 c pages" and "0 \<le> c" and "newEvents es c \<noteq> []"
  shows "applied_ok c0 (nextRecoveryCursor (newEvents es c) r) (pages @ [newEvents es c])"
proof -
  let ?n = "nextRecoveryCursor (newEvents es c) r"
  define P N where "P = map ev_seq (concat pages)" and "N = map ev_seq (newEvents es c)"
  have P: "c0 \<le> c" "sorted P" "set P \<subseteq> {c0<..c}"
    using assms(1) by (simp_all add: applied_ok_def P_def)
  have N: "sorted N" "set N \<subseteq> {c<..?n}"
    unfolding N_def by (rule sorted_newEvents, rule newEvents_le_next [OF assms(2,3)])
  have lt: "c < ?n" by (rule nextRecoveryCursor_above [OF assms(3)])
  have "x \<le> y" if "x \<in> set P" "y \<in> set N" for x y
    using subsetD [OF P(3) that(1)] subsetD [OF N(2) that(2)] by simp
  then have "sorted (P @ N)" using P(2) N(1) by (simp add: sorted_append)
  moreover have "set (P @ N) \<subseteq> {c0<..?n}"
  proof
    fix x assume "x \<in> set (P @ N)"
    then consider "x \<in> {c0<..c}" | "x \<in> {c<..?n}" using P(3) N(2) by auto
    then show "x \<in> {c0<..?n}" using lt P(1) by cases auto
  qed
  ultimately show ?thesis using P(1) lt by (simp add: applied_ok_def P_def N_def)
qed

section \<open>The loop\<close>

definition page_ends :: "fetch_page \<Rightarrow> (nat \<Rightarrow> bool) \<Rightarrow> js_number \<Rightarrow> js_number \<Rightarrow> nat \<Rightarrow> bool" where
  "page_ends f a lmt c p \<longleftrightarrow> \<not> a p \<or>
     (case f p c lmt of Inl e \<Rightarrow> True
      | Inr resp \<Rightarrow> er_resetRequired resp \<or> newEvents (er_events resp) c = [])"

text \<open>What the outcome promises about the cursor, for every way the loop ends.\<close>

definition outcome_ok :: "js_number \<Rightarrow> (string + PublicEventRecoveryResult) \<Rightarrow> bool" where
  "outcome_ok c r = (case r of Inl e \<Rightarrow> True
     | Inr res \<Rightarrow> rr_cursor res = c \<and>
        (case rr_status res of CaughtUp \<Rightarrow> rr_latestSeq res \<le> c \<and> c \<noteq> 0
         | Empty \<Rightarrow> c = 0 \<and> rr_latestSeq res \<le> 0
         | UnrecoverableGap \<Rightarrow> c < rr_latestSeq res
         | _ \<Rightarrow> True))"

lemma recoverLoop_page:
  assumes "\<not> page_ends f a lmt c p" and "f p c lmt = Inr resp"
  shows "recoverLoop f a lmt c t p ap =
    (let es = newEvents (er_events resp) c; l = max t (finiteSequence (Some (er_latestSeq resp)));
         n = nextRecoveryCursor es resp
     in if l \<le> n then (ap @ [es], Inr \<lparr>rr_status = CaughtUp, rr_cursor = n, rr_latestSeq = l, rr_pages = Suc p\<rparr>)
        else recoverLoop f a lmt n l (Suc p) (ap @ [es]))"
proof -
  have "newEvents (er_events resp) c \<noteq> []" using assms by (simp add: page_ends_def)
  from nextRecoveryCursor_above [OF this, of resp] show ?thesis
    using assms by (simp add: recoverLoop.simps [of f a lmt c t p ap] Let_def page_ends_def)
qed

lemma recoverLoop_stop:
  assumes "page_ends f a lmt c p" and "0 \<le> c"
  shows "fst (recoverLoop f a lmt c t p ap) = ap \<and> outcome_ok c (snd (recoverLoop f a lmt c t p ap))"
proof (cases "a p \<and> (\<exists>resp. f p c lmt = Inr resp)")
  case False
  then show ?thesis
    by (cases "f p c lmt") (auto simp: recoverLoop.simps [of f a lmt c t p ap] outcome_ok_def)
next
  case True
  then obtain resp where resp: "a p" "f p c lmt = Inr resp" by blast
  then have g: "er_resetRequired resp \<or> newEvents (er_events resp) c = []"
    using assms(1) by (simp add: page_ends_def)
  show ?thesis
  proof (cases "er_resetRequired resp")
    case True
    then show ?thesis using resp by (simp add: recoverLoop.simps [of f a lmt c t p ap] Let_def outcome_ok_def)
  next
    case False
    then show ?thesis using resp g
      by (simp add: recoverLoop.simps [of f a lmt c t p ap] Let_def outcome_ok_def not_le less_max_iff_disj)
  qed
qed

lemma recoverLoop_ok:
  assumes "applied_ok c0 c ap" and "0 \<le> c0"
  shows "\<exists>c'. applied_ok c0 c' (fst (recoverLoop f a lmt c t p ap)) \<and>
    outcome_ok c' (snd (recoverLoop f a lmt c t p ap))"
  using assms(1)
proof (induction f a lmt c t p ap rule: recoverLoop.induct)
  case (1 f a lmt c t p ap)
  have c: "0 \<le> c" using "1.prems" assms(2) by (simp add: applied_ok_def)
  show ?case
  proof (cases "page_ends f a lmt c p")
    case True
    with recoverLoop_stop [OF True c, of t ap] "1.prems" show ?thesis by auto
  next
    case False
    then obtain resp where resp: "f p c lmt = Inr resp" by (auto simp: page_ends_def split: sum.splits)
    have g: "a p" "\<not> er_resetRequired resp" "newEvents (er_events resp) c \<noteq> []"
      using False resp by (simp_all add: page_ends_def)
    let ?es = "newEvents (er_events resp) c"
    let ?l = "max t (finiteSequence (Some (er_latestSeq resp)))"
    let ?n = "nextRecoveryCursor ?es resp"
    have ok: "applied_ok c0 ?n (ap @ [?es])" by (rule applied_ok_step [OF "1.prems" c g(3)])
    have n: "c < ?n" by (rule nextRecoveryCursor_above [OF g(3)])
    show ?thesis
    proof (cases "?l \<le> ?n")
      case True
      then show ?thesis using recoverLoop_page [OF False resp, of t ap] ok n c
        by (intro exI [of _ ?n]) (simp add: Let_def outcome_ok_def)
    next
      case l: False
      have "\<exists>c'. applied_ok c0 c' (fst (recoverLoop f a lmt ?n ?l (Suc p) (ap @ [?es]))) \<and>
          outcome_ok c' (snd (recoverLoop f a lmt ?n ?l (Suc p) (ap @ [?es])))"
        by (rule "1.IH" [OF _ resp refl refl refl refl]) (use g n l ok in auto)
      then show ?thesis unfolding recoverLoop_page [OF False resp] Let_def if_not_P [OF l] .
    qed
  qed
qed

section \<open>An honest server\<close>

text \<open>
  The log of retained events, in the order of their sequences, and a server that answers each page
  from it: the first \<open>limit\<close> events after the cursor and the sequence of the last event.
\<close>

definition retained_log :: "PublicEvent list \<Rightarrow> bool" where
  "retained_log L \<longleftrightarrow> sorted_wrt (<) (map ev_seq L) \<and>
     (\<forall>e\<in>set L. 0 < ev_seq e \<and> is_safe_integer (ev_seq e))"

definition log_latest :: "PublicEvent list \<Rightarrow> js_number" where
  "log_latest L = (if L = [] then 0 else ev_seq (last L))"

definition log_page :: "PublicEvent list \<Rightarrow> fetch_page" where
  "log_page L p c l = (let es = take (nat \<lfloor>l\<rfloor>) (filter (\<lambda>e. c < ev_seq e) L)
     in Inr \<lparr>er_serverTime = 0, er_oldestSeq = (if L = [] then 0 else ev_seq (hd L)),
          er_latestSeq = log_latest L, er_resetRequired = False, er_events = es,
          er_nextCursor = Some (if es = [] then c else ev_seq (last es))\<rparr>)"

lemma log_seq: "retained_log L \<Longrightarrow> e \<in> set L \<Longrightarrow> finiteSequence (Some (ev_seq e)) = ev_seq e"
  by (simp add: retained_log_def finiteSequence_def)

lemma log_latest_ge: "retained_log L \<Longrightarrow> e \<in> set L \<Longrightarrow> ev_seq e \<le> log_latest L"
  using sorted_le_last [of "map ev_seq L" "ev_seq e"]
  by (auto simp: retained_log_def log_latest_def last_map strict_sorted_imp_sorted)

lemma log_latest_seq: "retained_log L \<Longrightarrow> finiteSequence (Some (log_latest L)) = log_latest L"
  using log_seq [of L "last L"] by (auto simp: log_latest_def) (simp add: finiteSequence_def)

lemma take_filter_le_last:
  assumes "sorted_wrt (<) (map ev_seq M)" and "take k M \<noteq> []"
  shows "filter (\<lambda>e. ev_seq e \<le> ev_seq (last (take k M))) M = take k M"
proof -
  let ?n = "ev_seq (last (take k M))"
  have s: "sorted_wrt (<) (map ev_seq (take k M) @ map ev_seq (drop k M))"
    using assms(1) by (metis append_take_drop_id map_append)
  then have "e \<in> set (take k M) \<Longrightarrow> ev_seq e \<le> ?n" for e
    using sorted_le_last [of "map ev_seq (take k M)" "ev_seq e"] assms(2)
    by (simp add: sorted_wrt_append last_map strict_sorted_imp_sorted del: take_eq_Nil)
  moreover have "e \<in> set (drop k M) \<Longrightarrow> ?n < ev_seq e" for e
    using s last_in_set [OF assms(2)] by (auto simp: sorted_wrt_append)
  ultimately have "filter (\<lambda>e. ev_seq e \<le> ?n) (take k M) = take k M"
    and "filter (\<lambda>e. ev_seq e \<le> ?n) (drop k M) = []"
    by (force simp: filter_id_conv filter_empty_conv not_le)+
  then show ?thesis by (metis append_take_drop_id append_Nil2 filter_append)
qed

lemma sorted_filter_split:
  assumes "sorted_wrt (<) (map ev_seq L)" and "c0 \<le> c" and "c \<le> n"
  shows "filter (\<lambda>e. c0 < ev_seq e \<and> ev_seq e \<le> n) L =
    filter (\<lambda>e. c0 < ev_seq e \<and> ev_seq e \<le> c) L @ filter (\<lambda>e. c < ev_seq e \<and> ev_seq e \<le> n) L"
  using assms(1)
proof (induction L)
  case (Cons e L)
  have "ev_seq e > c \<Longrightarrow> filter (\<lambda>e. c0 < ev_seq e \<and> ev_seq e \<le> c) L = []"
    using Cons.prems by (force simp: filter_empty_conv)
  then show ?case using Cons assms(2,3) by auto
qed simp

lemma newEvents_log_page:
  assumes "retained_log L"
  shows "newEvents (take k (filter (\<lambda>e. c < ev_seq e) L)) c = take k (filter (\<lambda>e. c < ev_seq e) L)"
proof -
  let ?M = "take k (filter (\<lambda>e. c < ev_seq e) L)"
  have "\<forall>e\<in>set ?M. c < finiteSequence (Some (ev_seq e))"
    using log_seq [OF assms] by (auto dest: in_set_takeD)
  moreover have "sorted_wrt (\<lambda>a b. ev_seq a < ev_seq b) ?M"
    using assms by (intro sorted_wrt_take sorted_wrt_filter) (simp add: retained_log_def sorted_wrt_map)
  then have "sorted_wrt (\<lambda>a b. by_asc ev_seq a b \<le> 0) ?M"
    by (rule sorted_wrt_mono_rel [rotated]) (simp add: by_asc_def)
  from comparator.js_sort_id [OF comparator_by_asc this]
  have "js_sort (by_asc ev_seq) ?M = ?M" .
  ultimately show ?thesis by (simp add: newEvents_def filter_id_conv)
qed

lemma recoverLoop_complete:
  assumes "retained_log L" and "1 \<le> k" and "0 \<le> c0" and "f = log_page L" and "a = (\<lambda>_. True)" and "lmt = k"
    and "c0 \<le> c" and "c \<le> max c0 (log_latest L)" and "c0 \<le> t" and "t \<le> max c0 (log_latest L)"
    and "concat ap = filter (\<lambda>e. c0 < ev_seq e \<and> ev_seq e \<le> c) L"
  shows "concat (fst (recoverLoop f a lmt c t p ap)) = filter (\<lambda>e. c0 < ev_seq e) L \<and>
    (\<exists>n. snd (recoverLoop f a lmt c t p ap) = Inr \<lparr>
       rr_status = (if max c0 (log_latest L) = 0 then Empty else CaughtUp),
       rr_cursor = max c0 (log_latest L), rr_latestSeq = max c0 (log_latest L), rr_pages = n\<rparr>)"
  using assms(4-)
proof (induction f a lmt c t p ap rule: recoverLoop.induct)
  case (1 f a lmt c t p ap)
  let ?F = "filter (\<lambda>e. c < ev_seq e) L"
  let ?M = "take (nat \<lfloor>k\<rfloor>) ?F"
  let ?mx = "max c0 (log_latest L)"
  note P = "1.prems"
  have upto: "filter (\<lambda>e. c0 < ev_seq e \<and> ev_seq e \<le> m) L = filter (\<lambda>e. c0 < ev_seq e) L" if "log_latest L \<le> m" for m
    using log_latest_ge [OF assms(1)] that by (intro filter_cong) force+
  have l: "max t (finiteSequence (Some (log_latest L))) = ?mx"
    using P(6,7) by (simp add: log_latest_seq [OF assms(1)] max_def split: if_splits)
  obtain resp where resp: "f p c lmt = Inr resp" and es: "er_events resp = ?M"
    and r: "er_latestSeq resp = log_latest L" "\<not> er_resetRequired resp"
      "er_nextCursor resp = Some (if ?M = [] then c else ev_seq (last ?M))"
    using P(1,3) by (simp add: log_page_def Let_def)
  have new: "newEvents (er_events resp) c = ?M" unfolding es by (rule newEvents_log_page [OF assms(1)])
  show ?case
  proof (cases "?M = []")
    case True
    then have "?F = []" using assms(2) by (simp add: le_floor_iff)
    then have "log_latest L \<le> c" using P(4) assms(3) last_in_set [of L]
      by (force simp: log_latest_def filter_empty_conv not_less)
    then have c: "c = ?mx" "log_latest L \<le> c" using P(4,5) by simp_all
    have ne: "newEvents (er_events resp) c = []" unfolding new by (rule True)
    have "recoverLoop f a lmt c t p ap =
        (ap, Inr \<lparr>rr_status = (if ?mx \<le> c then (if c = 0 then Empty else CaughtUp) else UnrecoverableGap),
           rr_cursor = c, rr_latestSeq = ?mx, rr_pages = Suc p\<rparr>)"
      using P(2) resp r(2) ne unfolding recoverLoop.simps [of f a lmt c t p ap]
      by (simp add: Let_def r(1) l del: max.bounded_iff)
    then show ?thesis unfolding c(1) [symmetric] using P(8) upto [OF c(2)] by simp
  next
    case False
    let ?n = "nextRecoveryCursor ?M resp"
    have ends: "\<not> page_ends f a lmt c p" using P(2) resp r(2) new False by (simp add: page_ends_def)
    have lastM: "last ?M \<in> set L" "c < ev_seq (last ?M)"
      using in_set_takeD [OF last_in_set [OF False]] by auto
    then have n: "?n = ev_seq (last ?M)" using False r(3) log_seq [OF assms(1)] by (simp add: nextRecoveryCursor_def)
    have nle: "?n \<le> log_latest L" unfolding n by (rule log_latest_ge [OF assms(1) lastM(1)])
    have sL: "sorted_wrt (<) (map ev_seq L)" using assms(1) by (simp add: retained_log_def)
    then have "sorted_wrt (<) (map ev_seq ?F)" by (simp add: sorted_wrt_map sorted_wrt_filter)
    from take_filter_le_last [OF this False] have "filter (\<lambda>e. c < ev_seq e \<and> ev_seq e \<le> ?n) L = ?M"
      by (simp add: n conj_commute)
    then have ap: "concat (ap @ [?M]) = filter (\<lambda>e. c0 < ev_seq e \<and> ev_seq e \<le> ?n) L"
      using sorted_filter_split [OF sL P(4), of ?n] lastM(2) n P(8) by simp
    note eq = recoverLoop_page [OF ends resp, of t ap, unfolded new r(1) l Let_def]
    show ?thesis
    proof (cases "?mx \<le> ?n")
      case True
      then have m: "?mx = ?n" "log_latest L \<le> ?n" "?n \<noteq> 0" using nle lastM(2) n P(4) assms(3) by simp_all
      then show ?thesis unfolding eq if_P [OF True] using ap upto [OF m(2)] by simp
    next
      case lt: False
      show ?thesis unfolding eq if_not_P [OF lt]
        by (rule "1.IH" [OF _ resp refl refl refl refl, unfolded r(1) l new])
          (use P lastM n nle lt False ap in \<open>auto simp: r(1,2) l new\<close>)
    qed
  qed
qed

section \<open>The number of requests\<close>

lemma recoverLoop_pages:
  assumes "is_integer c" and "p = length ap"
  shows "case recoverLoop f a lmt c t p ap of (ap', Inl e) \<Rightarrow> True
    | (ap', Inr r) \<Rightarrow> length ap' \<le> rr_pages r \<and> rr_pages r \<le> Suc (length ap') \<and>
        real (length ap') - real p \<le> rr_cursor r - c \<and> rr_cursor r \<le> max c max_safe_integer"
  using assms
proof (induction f a lmt c t p ap rule: recoverLoop.induct)
  case (1 f a lmt c t p ap)
  show ?case
  proof (cases "page_ends f a lmt c p")
    case True
    then show ?thesis unfolding recoverLoop.simps [of f a lmt c t p ap] using "1.prems"
      by (cases "f p c lmt") (auto simp: page_ends_def Let_def)
  next
    case False
    then obtain resp where resp: "f p c lmt = Inr resp" by (auto simp: page_ends_def split: sum.splits)
    have g: "a p" "\<not> er_resetRequired resp" "newEvents (er_events resp) c \<noteq> []"
      using False resp by (simp_all add: page_ends_def)
    let ?es = "newEvents (er_events resp) c"
    let ?l = "max t (finiteSequence (Some (er_latestSeq resp)))"
    let ?n = "nextRecoveryCursor ?es resp"
    have n: "c < ?n" by (rule nextRecoveryCursor_above [OF g(3)])
    have step: "c + 1 \<le> ?n" "?n \<le> max_safe_integer" "is_integer ?n"
      using is_integer_less_imp_le [OF "1.prems"(1) nextRecoveryCursor_bounds(2) n] nextRecoveryCursor_bounds by auto
    show ?thesis
    proof (cases "?l \<le> ?n")
      case True
      then show ?thesis using recoverLoop_page [OF False resp, of t ap] "1.prems"(2) step by (simp add: Let_def)
    next
      case l: False
      have "case recoverLoop f a lmt ?n ?l (Suc p) (ap @ [?es]) of (ap', Inl e) \<Rightarrow> True
        | (ap', Inr r) \<Rightarrow> length ap' \<le> rr_pages r \<and> rr_pages r \<le> Suc (length ap') \<and>
            real (length ap') - real (Suc p) \<le> rr_cursor r - ?n \<and> rr_cursor r \<le> max ?n max_safe_integer"
        by (rule "1.IH" [OF _ resp refl refl refl refl]) (use g n l step "1.prems"(2) in auto)
      then show ?thesis unfolding recoverLoop_page [OF False resp] Let_def if_not_P [OF l]
        using step by (auto split: prod.splits sum.splits)
    qed
  qed
qed

section \<open>Properties\<close>

text \<open>
  Whatever the server answers and whenever the caller cancels, the events handed to
  \<open>applyPage\<close> are in the order of their sequences, above the starting cursor and not above the
  cursor reported; \<open>caught-up\<close> and \<open>empty\<close> are only reported when nothing newer is known,
  \<open>unrecoverable-gap\<close> only when something newer is.
\<close>

lemma recover_pages_order:
  "\<exists>c. applied_ok (max 0 (of_int \<lfloor>after\<rfloor>)) c (fst (recoverPublicEventPages after target k f active)) \<and>
     outcome_ok c (snd (recoverPublicEventPages after target k f active))"
proof -
  let ?c = "max 0 (of_int \<lfloor>after\<rfloor>) :: js_number"
  have ok: "applied_ok ?c ?c []" by (simp add: applied_ok_def)
  show ?thesis
  proof (cases "target \<noteq> None \<and> max ?c (finiteSequence target) \<le> ?c")
    case True
    then show ?thesis using ok
      by (intro exI [of _ ?c]) (simp add: recoverPublicEventPages_def outcome_ok_def Let_def)
  next
    case False
    then have eq: "recoverPublicEventPages after target k f active =
        recoverLoop f active k ?c (max ?c (finiteSequence target)) 0 []"
      unfolding recoverPublicEventPages_def Let_def by (rule if_not_P)
    show ?thesis unfolding eq by (rule recoverLoop_ok [OF ok]) simp
  qed
qed


definition sample_event :: "js_number \<Rightarrow> PublicEvent" where
  "sample_event s = \<lparr>ev_seq = s, ev_body = EvNodeUpdate (sample_node ''n1''), ev_at = 1000, ev_receivedAt = None,
     ev_iata = None, ev_region = None, ev_payloadTypeName = None, ev_message = None, ev_routeIds = None,
     ev_nodeIds = None\<rparr>"


text \<open>
  C27. The recovery ends within a bounded number of requests, whatever the server answers: every applied page moves the
  cursor by at least one, at most one page more is fetched, and the cursor never passes the largest safe integer.
\<close>

theorem recover_pages_bounded:
  "case recoverPublicEventPages afterSeq targetSeq limit fetchPage isActive of (applied, Inl e) \<Rightarrow> True
   | (applied, Inr r) \<Rightarrow> length applied \<le> rr_pages r \<and> rr_pages r \<le> Suc (length applied) \<and>
       real (length applied) \<le> rr_cursor r - max 0 (of_int \<lfloor>afterSeq\<rfloor>) \<and>
       rr_cursor r \<le> max (max 0 (of_int \<lfloor>afterSeq\<rfloor>)) max_safe_integer"
proof -
  have "is_integer (max 0 (of_int \<lfloor>afterSeq\<rfloor>))" by (simp add: max_def)
  from recoverLoop_pages [OF this, of 0 "[]" fetchPage isActive limit "max (max 0 (of_int \<lfloor>afterSeq\<rfloor>)) (finiteSequence targetSeq)"]
  show ?thesis by (simp add: recoverPublicEventPages_def Let_def split: prod.splits sum.splits)
qed
end
