(* ===== verification/Live_Flow.thy ===== *)
theory Live_Flow
  imports App_Reducer Bootstrap_Hydration Live_Pacing Event_Recovery
begin

text \<open>
  The live flow of \<open>web/src/App.tsx\<close> (\<open>applyPublicSnapshot\<close> and the effects that hydrate the
  state and connect the socket): refs and closure variables are the fields of one record \<open>Flow\<close>,
  and every callback that the browser runs (a socket message, an animation frame, a response, a
  timer) is an input of \<open>flow_step\<close>. A callback and the promise continuations it releases run to
  completion before the next one. Updater functions passed to \<open>setState\<close> are applied at once, so
  \<open>state\<close> and \<open>stateRef\<close> are one field; the effect which React runs after a render is the input
  \<open>Rendered\<close>. The host's sort \<open>srt\<close> and number formatting \<open>num\<close> are parameters.
\<close>

section \<open>State\<close>

text \<open>A recovery that awaits a page: the variables of \<open>recover\<close> and of \<open>recoverPublicEventPages\<close>.\<close>

record Recovery =
  rv_requestedTarget :: "js_number option"
  rv_generation :: js_number
  rv_cursor :: js_number
  rv_latestSeq :: js_number
  rv_pages :: nat

record Flow =
  fl_state :: AppState
  fl_latestObservedSeq :: js_number
  fl_latestInboundSeq :: js_number
  fl_lastAppliedEventSeq :: js_number
  fl_lastQueuedEventSeq :: js_number
  fl_eventCursorGeneration :: js_number
  fl_cursorEpochResetActive :: bool
  fl_lastSnapshotSignature :: string
  fl_pendingMessages :: "PublicLiveEnvelope list"
  fl_flushScheduled :: bool \<comment> \<open>\<open>flushMessagesFrameRef.current !== null\<close>\<close>
  fl_active :: bool
  fl_recoveryInFlight :: bool
  fl_recovery :: "Recovery option"
  fl_queuedRecoveryTarget :: js_number
  fl_queuedRecoveryPoll :: bool
  fl_recoveryRetryTimer :: bool
  fl_stateRefreshRetryTimer :: bool
  fl_stateRefreshInFlight :: bool
  fl_stateRefreshFloor :: js_number
  fl_stateRefreshIsCursorReset :: bool
  fl_resetRecoveryActive :: bool
  fl_socketStatus :: string
  fl_fullStateHydrated :: bool
  fl_publicMapConfig :: "PublicMapConfig option"
  fl_bootstrapClusters :: "PublicMapCluster list"
  fl_initialNodesReceived :: bool
  fl_nodeLoadFailed :: bool
  fl_topologySeqFloor :: js_number
  fl_hydrationRetryTimer :: bool
  fl_hydrationRetryAttempt :: nat

definition initialFlow :: Flow where
  "initialFlow = \<lparr>fl_state = emptyState, fl_latestObservedSeq = 0, fl_latestInboundSeq = 0,
     fl_lastAppliedEventSeq = 0, fl_lastQueuedEventSeq = 0, fl_eventCursorGeneration = 0,
     fl_cursorEpochResetActive = False, fl_lastSnapshotSignature = '''', fl_pendingMessages = [],
     fl_flushScheduled = False, fl_active = True, fl_recoveryInFlight = False, fl_recovery = None,
     fl_queuedRecoveryTarget = 0, fl_queuedRecoveryPoll = False, fl_recoveryRetryTimer = False,
     fl_stateRefreshRetryTimer = False, fl_stateRefreshInFlight = False, fl_stateRefreshFloor = 0,
     fl_stateRefreshIsCursorReset = False, fl_resetRecoveryActive = False, fl_socketStatus = ''starting'',
     fl_fullStateHydrated = False, fl_publicMapConfig = None, fl_bootstrapClusters = [],
     fl_initialNodesReceived = False, fl_nodeLoadFailed = False, fl_topologySeqFloor = 0,
     fl_hydrationRetryTimer = False, fl_hydrationRetryAttempt = 0\<rparr>"

definition publicSequence :: "js_number option \<Rightarrow> js_number" where
  "publicSequence value =
     (case value of None \<Rightarrow> 0 | Some v \<Rightarrow> if is_safe_integer v \<and> 0 < v then v else 0)"

definition snapshotSeq :: "PublicLiveState \<Rightarrow> js_number" where
  "snapshotSeq liveState = publicSequence (case ls_stats liveState of None \<Rightarrow> None | Some s \<Rightarrow> st_latestSeq s)"

definition setAppState :: "(AppState \<Rightarrow> AppState) \<Rightarrow> Flow \<Rightarrow> Flow" where
  "setAppState g f = f\<lparr>fl_state := g (fl_state f)\<rparr>"

text \<open>The effect on \<open>state\<close>.\<close>

definition rendered :: "Flow \<Rightarrow> Flow" where
  "rendered f = (if fl_cursorEpochResetActive f then f
     else f\<lparr>fl_latestObservedSeq := max (fl_latestObservedSeq f) (publicSequence (Some (as_latestSeq (fl_state f))))\<rparr>)"

section \<open>Snapshots\<close>

definition applyPublicSnapshot :: "(js_number \<Rightarrow> string) \<Rightarrow> PublicLiveState \<Rightarrow> js_number option \<Rightarrow> Flow \<Rightarrow> bool \<times> Flow" where
  "applyPublicSnapshot num liveState recoveryFloor f =
     (let requiredSeq = (case recoveryFloor of
            None \<Rightarrow> max (publicSequence (Some (as_latestSeq (fl_state f)))) (fl_latestObservedSeq f)
          | Some minimumSeq \<Rightarrow> max 0 minimumSeq);
          signature = publicLiveStateSignature num liveState;
          seq = snapshotSeq liveState;
          old = fl_state f
      in if \<not> publicStateSnapshotIsCurrent requiredSeq liveState then (False, f)
         else if recoveryFloor = None \<and> signature = fl_lastSnapshotSignature f then (False, f)
         else (True, f\<lparr>fl_lastSnapshotSignature := signature,
           fl_latestObservedSeq := max (fl_latestObservedSeq f) seq,
           fl_latestInboundSeq := max (fl_latestInboundSeq f) seq,
           fl_eventCursorGeneration := fl_eventCursorGeneration f + 1,
           fl_flushScheduled := False, fl_pendingMessages := [],
           fl_state := (initialAppState liveState)\<lparr>
             as_routeTopologyRevision := as_routeTopologyRevision old + 1,
             as_routeTrafficRevision := as_routeTrafficRevision old + 1,
             as_routeVisualRevision := as_routeVisualRevision old + 1\<rparr>,
           fl_lastAppliedEventSeq := seq, fl_lastQueuedEventSeq := seq\<rparr>))"

text \<open>The effect that hydrates the state; its retries are the input \<open>HydrationTimer\<close>.\<close>

definition reportStateHydrationError :: "Flow \<Rightarrow> Flow" where
  "reportStateHydrationError f = (if \<not> fl_active f then f
     else f\<lparr>fl_socketStatus := ''state-error'', fl_nodeLoadFailed := True\<rparr>)"

definition scheduleCurrentStateRetry :: "Flow \<Rightarrow> Flow" where
  "scheduleCurrentStateRetry f =
     (if \<not> fl_active f \<or> fl_hydrationRetryTimer f then f
      else if 8 \<le> fl_hydrationRetryAttempt f then reportStateHydrationError f
      else f\<lparr>fl_hydrationRetryAttempt := Suc (fl_hydrationRetryAttempt f), fl_hydrationRetryTimer := True\<rparr>)"

definition applyFullState :: "(js_number \<Rightarrow> string) \<Rightarrow> bool \<Rightarrow> PublicLiveState \<Rightarrow> Flow \<Rightarrow> Flow" where
  "applyFullState num fromNetwork liveState f =
     (if \<not> fl_active f then f
      else if fromNetwork \<and> snapshotSeq liveState < fl_topologySeqFloor f then scheduleCurrentStateRetry f
      else let f1 = f\<lparr>fl_hydrationRetryAttempt := 0, fl_fullStateHydrated := True\<rparr>;
               (applied, f2) = applyPublicSnapshot num liveState None f1;
               f3 = (if applied then f2 else setAppState (\<lambda>s. hydrateSnapshotTopology s liveState) f2);
               f4 = f3\<lparr>fl_publicMapConfig := ls_map liveState,
                 fl_initialNodesReceived := (or_else (ls_nodes liveState) [] \<noteq> []), fl_nodeLoadFailed := False\<rparr>
           in if fromNetwork then f4 else f4\<lparr>fl_socketStatus := ''offline-cache''\<rparr>)"

definition applyBootstrap :: "(js_number \<Rightarrow> string) \<Rightarrow> PublicBootstrapResponse \<Rightarrow> Flow \<Rightarrow> Flow" where
  "applyBootstrap num bootstrap f =
     (if \<not> fl_active f then f
      else let f1 = f\<lparr>fl_topologySeqFloor := max (fl_topologySeqFloor f) (publicSequence (Some (br_latestSeq bootstrap))),
                 fl_publicMapConfig := br_map bootstrap, fl_bootstrapClusters := br_clusters bootstrap\<rparr>;
               f2 = (if as_latestSeq (fl_state f1) \<le> br_latestSeq bootstrap
                 then snd (applyPublicSnapshot num (bootstrapToLiveState bootstrap) None f1) else f1)
           in f2\<lparr>fl_nodeLoadFailed := False\<rparr>)"

section \<open>Refreshing the whole state\<close>

definition scheduleStateRefresh :: "Flow \<Rightarrow> Flow" where
  "scheduleStateRefresh f =
     (if fl_stateRefreshRetryTimer f \<or> \<not> fl_active f then f else f\<lparr>fl_stateRefreshRetryTimer := True\<rparr>)"

text \<open>Up to the call of \<open>fetchPublicState\<close>; its answer is the input \<open>StateArrived\<close>.\<close>

definition refreshState :: "js_number \<Rightarrow> bool \<Rightarrow> Flow \<Rightarrow> Flow" where
  "refreshState minimumSeq resetCursorEpoch f =
     (let f1 = (if resetCursorEpoch
            then f\<lparr>fl_stateRefreshFloor := max 0 minimumSeq, fl_stateRefreshIsCursorReset := True\<rparr>
            else if \<not> fl_stateRefreshIsCursorReset f
            then f\<lparr>fl_stateRefreshFloor := max (fl_stateRefreshFloor f) minimumSeq\<rparr>
            else f);
          f2 = f1\<lparr>fl_resetRecoveryActive := fl_stateRefreshIsCursorReset f1 \<or> 0 < fl_stateRefreshFloor f1\<rparr>
      in if fl_stateRefreshInFlight f2 then scheduleStateRefresh f2
         else f2\<lparr>fl_stateRefreshInFlight := True\<rparr>)"

section \<open>Recovery\<close>

definition maxSeq :: "js_number \<Rightarrow> PublicLiveEnvelope list \<Rightarrow> js_number" where
  "maxSeq start messages = foldl max start (map (\<lambda>m. publicSequence (le_seq m)) messages)"

text \<open>\<open>applyPage\<close>.\<close>

definition applyPage :: "js_number \<Rightarrow> PublicEvent list \<Rightarrow> Flow \<Rightarrow> Flow" where
  "applyPage recoveryGeneration events f =
     (if \<not> fl_active f \<or> recoveryGeneration \<noteq> fl_eventCursorGeneration f then f
      else let unapplied = js_sort (by_asc ev_seq)
                 (filter (\<lambda>e. fl_lastAppliedEventSeq f < publicSequence (Some (ev_seq e))) events)
           in if unapplied = [] then f
              else let confirmedCursor = ev_seq (last unapplied);
                       kept = retainLiveEnvelopesAfterCursor (fl_pendingMessages f) confirmedCursor
                   in setAppState (\<lambda>s. applyPublicEvents s unapplied)
                        (f\<lparr>fl_lastAppliedEventSeq := confirmedCursor, fl_pendingMessages := kept,
                           fl_lastQueuedEventSeq := maxSeq confirmedCursor kept\<rparr>))"

text \<open>The rest of the loop body of \<open>recover\<close> for a result that is no reset.\<close>

definition settleResult :: "js_number \<Rightarrow> PublicEventRecoveryResult \<Rightarrow> Flow \<Rightarrow> Flow" where
  "settleResult now result f =
     (let f1 = (if rr_status result = CaughtUp then
            let applied = max (fl_lastAppliedEventSeq f) (rr_cursor result);
                kept = retainLiveEnvelopesAfterCursor (fl_pendingMessages f) applied
            in f\<lparr>fl_lastAppliedEventSeq := applied, fl_pendingMessages := kept,
                 fl_lastQueuedEventSeq := maxSeq applied kept\<rparr>
          else f);
          f2 = f1\<lparr>fl_latestObservedSeq := max (fl_latestObservedSeq f1) (rr_latestSeq result)\<rparr>
      in if rr_status result = Empty then
           setAppState (\<lambda>s. applyPublicEnvelope s \<lparr>le_kind = Hello None None ''empty-recovery'', le_seq = Some 0,
             le_latestSeq = Some 0, le_serverTime = Some now, le_receivedAt = None, le_displayAt = None\<rparr>) f2
         else f2)"

text \<open>The body for \<open>reset-required\<close> and \<open>unrecoverable-gap\<close>, which returns from \<open>recover\<close>.\<close>

definition resetCursorEpoch :: "PublicEventRecoveryResult \<Rightarrow> Flow \<Rightarrow> Flow" where
  "resetCursorEpoch result f =
     (let resetTarget = liveCursorResetTarget (rr_latestSeq result) (fl_lastAppliedEventSeq f) (fl_latestInboundSeq f)
      in refreshState resetTarget True
           (f\<lparr>fl_cursorEpochResetActive := True, fl_latestObservedSeq := resetTarget,
              fl_latestInboundSeq := resetTarget, fl_queuedRecoveryTarget := resetTarget,
              fl_queuedRecoveryPoll := False, fl_pendingMessages := [],
              fl_lastQueuedEventSeq := resetTarget, fl_flushScheduled := False,
              fl_resetRecoveryActive := True\<rparr>))"

definition recoveryWanted :: "Flow \<Rightarrow> bool" where
  "recoveryWanted f \<longleftrightarrow> fl_active f \<and> (fl_queuedRecoveryPoll f \<or> fl_lastAppliedEventSeq f < fl_queuedRecoveryTarget f)"

text \<open>
  The loop of \<open>recover\<close> from its head up to the next awaited page. \<open>recoverPublicEventPages\<close> returns
  without fetching when the target is not above the cursor. When the loop ends its condition is
  false, so the \<open>finally\<close> handler only resets \<open>recoveryInFlight\<close>.
\<close>

lemma settleResult_queue [simp]:
  "fl_queuedRecoveryTarget (settleResult now r f) = fl_queuedRecoveryTarget f"
  "fl_queuedRecoveryPoll (settleResult now r f) = fl_queuedRecoveryPoll f"
  "fl_active (settleResult now r f) = fl_active f"
  by (simp_all add: settleResult_def setAppState_def Let_def)

function recoverHead :: "js_number \<Rightarrow> Flow \<Rightarrow> Flow" where
  "recoverHead now f =
     (if recoveryWanted f then
        let target = (if 0 < fl_queuedRecoveryTarget f then Some (fl_queuedRecoveryTarget f) else None);
            f1 = f\<lparr>fl_queuedRecoveryTarget := 0, fl_queuedRecoveryPoll := False\<rparr>;
            cursor = max 0 (of_int \<lfloor>fl_lastAppliedEventSeq f\<rfloor>);
            latestSeq = max cursor (finiteSequence target)
        in if target \<noteq> None \<and> latestSeq \<le> cursor then
             recoverHead now (settleResult now \<lparr>rr_status = (if cursor = 0 then Empty else CaughtUp),
               rr_cursor = cursor, rr_latestSeq = latestSeq, rr_pages = 0\<rparr> f1)
           else f1\<lparr>fl_recovery := Some \<lparr>rv_requestedTarget = target,
               rv_generation = fl_eventCursorGeneration f, rv_cursor = cursor, rv_latestSeq = latestSeq,
               rv_pages = 0\<rparr>\<rparr>
      else f\<lparr>fl_recoveryInFlight := False\<rparr>)"
  by pat_completeness auto
termination
  by (relation "measure (\<lambda>(now, f). if 0 < fl_queuedRecoveryTarget f then 1 else 0)") (auto split: if_splits)

declare recoverHead.simps [simp del]

definition backfillOrRefresh :: "js_number \<Rightarrow> js_number option \<Rightarrow> Flow \<Rightarrow> Flow" where
  "backfillOrRefresh now latestSeq f =
     (let recoveryTarget = publicSequence latestSeq;
          f1 = (if 0 < recoveryTarget
            then f\<lparr>fl_queuedRecoveryTarget := max (fl_queuedRecoveryTarget f) recoveryTarget\<rparr>
            else f\<lparr>fl_queuedRecoveryPoll := True\<rparr>)
      in if fl_recoveryInFlight f1 \<or> fl_resetRecoveryActive f1 then f1
         else recoverHead now (f1\<lparr>fl_recoveryRetryTimer := False, fl_recoveryInFlight := True\<rparr>))"

text \<open>After \<open>recoverPublicEventPages\<close> returned, and after it threw.\<close>

definition recoverReturned :: "js_number \<Rightarrow> Recovery \<Rightarrow> PublicEventRecoveryResult \<Rightarrow> Flow \<Rightarrow> Flow" where
  "recoverReturned now rv result f =
     (let f1 = f\<lparr>fl_recovery := None\<rparr>
      in if rv_generation rv \<noteq> fl_eventCursorGeneration f1 then
           recoverHead now (f1\<lparr>fl_queuedRecoveryTarget :=
             max (fl_queuedRecoveryTarget f1) (or_else (rv_requestedTarget rv) (fl_latestObservedSeq f1))\<rparr>)
         else if rr_status result = ResetRequired \<or> rr_status result = UnrecoverableGap then
           (resetCursorEpoch result f1)\<lparr>fl_recoveryInFlight := False\<rparr>
         else recoverHead now (settleResult now result f1))"

definition recoverThrew :: "Recovery \<Rightarrow> Flow \<Rightarrow> Flow" where
  "recoverThrew rv f =
     (let f1 = f\<lparr>fl_recovery := None\<rparr>;
          f2 = (case rv_requestedTarget rv of
              Some t \<Rightarrow> f1\<lparr>fl_queuedRecoveryTarget := max (fl_queuedRecoveryTarget f1) t\<rparr>
            | None \<Rightarrow> f1\<lparr>fl_queuedRecoveryPoll := True\<rparr>);
          f3 = (if fl_active f2 \<and> fl_socketStatus f2 \<noteq> ''live'' then f2\<lparr>fl_socketStatus := ''polling''\<rparr> else f2);
          f4 = (if fl_active f3 \<and> \<not> fl_recoveryRetryTimer f3 then f3\<lparr>fl_recoveryRetryTimer := True\<rparr> else f3)
      in f4\<lparr>fl_recoveryInFlight := False\<rparr>)"

definition pageArrived :: "js_number \<Rightarrow> string + PublicEventsResponse \<Rightarrow> Flow \<Rightarrow> Flow" where
  "pageArrived now answer f =
     (case fl_recovery f of None \<Rightarrow> f
      | Some rv \<Rightarrow>
          (case answer of Inl err \<Rightarrow> recoverThrew rv f
           | Inr response \<Rightarrow>
               (case recoverTurn (rv_cursor rv) (rv_latestSeq rv) (rv_pages rv) response of (events, out) \<Rightarrow>
                  let f1 = (case events of None \<Rightarrow> f | Some es \<Rightarrow> applyPage (rv_generation rv) es f)
                  in case out of
                       Inl result \<Rightarrow> recoverReturned now rv result f1
                     | Inr (cursor, latestSeq) \<Rightarrow>
                         if fl_active f1
                         then f1\<lparr>fl_recovery := Some (rv\<lparr>rv_cursor := cursor, rv_latestSeq := latestSeq,
                           rv_pages := Suc (rv_pages rv)\<rparr>)\<rparr>
                         else recoverReturned now rv \<lparr>rr_status = Cancelled, rr_cursor = cursor,
                           rr_latestSeq = latestSeq, rr_pages = Suc (rv_pages rv)\<rparr> f1)))"

definition stateArrived :: "js_number \<Rightarrow> (js_number \<Rightarrow> string) \<Rightarrow> string + PublicLiveState \<Rightarrow> Flow \<Rightarrow> Flow" where
  "stateArrived now num answer f =
     (if \<not> fl_stateRefreshInFlight f then f
      else let f' = (case answer of
          Inl err \<Rightarrow> if \<not> fl_active f then f
            else let f1 = f\<lparr>fl_socketStatus := ''state-error''\<rparr>;
                     f2 = (if fl_initialNodesReceived f1 then f1 else f1\<lparr>fl_nodeLoadFailed := True\<rparr>)
                 in scheduleStateRefresh f2
        | Inr liveState \<Rightarrow> if \<not> fl_active f then f
            else if snapshotSeq liveState < fl_stateRefreshFloor f then scheduleStateRefresh f
            else let f1 = f\<lparr>fl_fullStateHydrated := True\<rparr>;
                     (applied, f2) = applyPublicSnapshot num liveState (Some (fl_stateRefreshFloor f1)) f1
                 in if \<not> applied then scheduleStateRefresh f2
                    else let f3 = f2\<lparr>fl_publicMapConfig := ls_map liveState\<rparr>;
                             f4 = (if or_else (ls_nodes liveState) [] \<noteq> []
                               then f3\<lparr>fl_initialNodesReceived := True, fl_nodeLoadFailed := False\<rparr> else f3);
                             f5 = f4\<lparr>fl_stateRefreshFloor := 0, fl_stateRefreshIsCursorReset := False,
                               fl_resetRecoveryActive := False, fl_cursorEpochResetActive := False\<rparr>
                         in backfillOrRefresh now (Some (fl_latestObservedSeq f5)) f5)
        in f'\<lparr>fl_stateRefreshInFlight := False\<rparr>)"

section \<open>Messages\<close>

definition scheduleMessagesFlush :: "Flow \<Rightarrow> Flow" where
  "scheduleMessagesFlush f =
     (if fl_flushScheduled f \<or> fl_pendingMessages f = [] then f else f\<lparr>fl_flushScheduled := True\<rparr>)"

text \<open>The queue is dropped and the events are fetched instead.\<close>

definition dropQueue :: "Flow \<Rightarrow> Flow" where
  "dropQueue f = f\<lparr>fl_pendingMessages := [], fl_lastQueuedEventSeq := fl_lastAppliedEventSeq f\<rparr>"

definition someTarget :: "js_number \<Rightarrow> js_number option" where
  "someTarget target = (if 0 < target then Some target else None)"

definition messageTarget :: "PublicLiveEnvelope \<Rightarrow> js_number" where
  "messageTarget m = (if publicSequence (le_latestSeq m) \<noteq> 0 then publicSequence (le_latestSeq m)
     else publicSequence (le_seq m))"

definition flushMessages :: "sorter \<Rightarrow> js_number \<Rightarrow> Flow \<Rightarrow> Flow" where
  "flushMessages srt now f0 =
     (let f = f0\<lparr>fl_flushScheduled := False\<rparr>
      in if \<not> fl_active f \<or> fl_pendingMessages f = [] then f
         else let d = takeDueLiveEnvelopes srt (fl_pendingMessages f) LIVE_ENVELOPE_MAX_BATCH_SIZE;
                  batch = takeIncreasingLiveEnvelopes (due d) (fl_lastAppliedEventSeq f)
              in if ib_invalid batch then
                   backfillOrRefresh now (someTarget (foldl max (fl_latestObservedSeq f)
                       (map messageTarget (due d) @ map messageTarget (pending d)))) (dropQueue f)
                 else let f1 = (if ib_accepted batch = [] then f
                            else setAppState (\<lambda>s. applyPublicEnvelopes s (ib_accepted batch) (Some True))
                              (f\<lparr>fl_lastAppliedEventSeq := ib_cursor batch\<rparr>));
                          f2 = f1\<lparr>fl_pendingMessages :=
                            retainLiveEnvelopesAfterCursor (pending d) (fl_lastAppliedEventSeq f1)\<rparr>
                      in scheduleMessagesFlush f2)"

definition enqueueMessage :: "sorter \<Rightarrow> js_number \<Rightarrow> PublicLiveEnvelope \<Rightarrow> Flow \<Rightarrow> Flow" where
  "enqueueMessage srt now message f =
     (if \<not> is_event (le_kind message) then f
      else let sequence = classifyLiveEnvelopeSequence message;
               recoveryTarget = max (case sequence of Durable s \<Rightarrow> s | _ \<Rightarrow> 0) (publicSequence (le_latestSeq message));
               nextPending = fl_pendingMessages f @ [message];
               cappedPending = capLiveEnvelopeQueue srt nextPending LIVE_ENVELOPE_MAX_PENDING;
               queued = (if length cappedPending \<noteq> length nextPending
                 then backfillOrRefresh now (someTarget recoveryTarget) (dropQueue f)
                 else scheduleMessagesFlush (f\<lparr>fl_pendingMessages := cappedPending,
                   fl_lastQueuedEventSeq := (case sequence of Durable s \<Rightarrow> s | _ \<Rightarrow> fl_lastQueuedEventSeq f)\<rparr>))
           in case sequence of
                Invalid \<Rightarrow> backfillOrRefresh now (someTarget recoveryTarget) (dropQueue f)
              | Durable seq \<Rightarrow>
                  if fl_resetRecoveryActive f then backfillOrRefresh now (someTarget recoveryTarget) f
                  else if \<not> shouldQueueDurableLiveSequence seq (fl_lastAppliedEventSeq f) (fl_lastQueuedEventSeq f)
                  then f
                  else queued
              | Fallback \<Rightarrow> queued)"

definition socketMessage :: "sorter \<Rightarrow> js_number \<Rightarrow> PublicLiveEnvelope \<Rightarrow> Flow \<Rightarrow> Flow" where
  "socketMessage srt now message f =
     (let observedSeq = max (publicSequence (le_latestSeq message)) (publicSequence (le_seq message));
          inbound = (case le_kind message of Hello _ _ _ \<Rightarrow> observedSeq
            | _ \<Rightarrow> if 0 < observedSeq then max (fl_latestInboundSeq f) observedSeq else fl_latestInboundSeq f);
          f1 = f\<lparr>fl_latestInboundSeq := inbound,
                 fl_latestObservedSeq := max (fl_latestObservedSeq f) observedSeq\<rparr>
      in case le_kind message of
           Hello _ _ _ \<Rightarrow>
             (let f2 = setAppState (\<lambda>s. applyPublicEnvelope s message) f1;
                  resetProbe = helloRequiresCursorResetProbe observedSeq (fl_lastAppliedEventSeq f2)
              in backfillOrRefresh now (if resetProbe then None else someTarget observedSeq) f2)
         | Pong \<Rightarrow> setAppState (\<lambda>s. applyPublicEnvelope s message) f1
         | Lagged _ toSeq _ _ \<Rightarrow>
             (let f2 = setAppState (\<lambda>s. applyPublicEnvelope s message) ((dropQueue f1)\<lparr>fl_flushScheduled := False\<rparr>)
              in backfillOrRefresh now (someTarget (max observedSeq (publicSequence toSeq))) f2)
         | _ \<Rightarrow> enqueueMessage srt now message f1)"

section \<open>The flow\<close>

datatype flow_input =
    SocketMessage PublicLiveEnvelope
  | SocketStatus string
  | Frame
  | Rendered
  | PageArrived "string + PublicEventsResponse"
  | StateArrived "string + PublicLiveState"
  | RecoveryTimer
  | RefreshTimer
  | Resume
  | BootstrapArrived PublicBootstrapResponse
  | FullStateArrived bool PublicLiveState
  | HydrationTimer
  | HydrationFailed
  | Unmount

definition unmount :: "Flow \<Rightarrow> Flow" where
  "unmount f = (dropQueue f)\<lparr>fl_active := False, fl_recoveryRetryTimer := False,
     fl_stateRefreshRetryTimer := False, fl_hydrationRetryTimer := False, fl_flushScheduled := False\<rparr>"

text \<open>\<open>now\<close> is the clock at the input; a timer or frame that is not armed does not fire.\<close>

fun flow_step :: "sorter \<Rightarrow> (js_number \<Rightarrow> string) \<Rightarrow> js_number \<Rightarrow> flow_input \<Rightarrow> Flow \<Rightarrow> Flow" where
  "flow_step srt num now (SocketMessage m) f = (if fl_active f then socketMessage srt now m f else f)"
| "flow_step srt num now (SocketStatus st) f = (if fl_active f then f\<lparr>fl_socketStatus := st\<rparr> else f)"
| "flow_step srt num now Frame f = (if fl_flushScheduled f then flushMessages srt now f else f)"
| "flow_step srt num now Rendered f = rendered f"
| "flow_step srt num now (PageArrived r) f = pageArrived now r f"
| "flow_step srt num now (StateArrived r) f = stateArrived now num r f"
| "flow_step srt num now RecoveryTimer f =
     (if fl_recoveryRetryTimer f
      then backfillOrRefresh now (someTarget (fl_queuedRecoveryTarget f)) (f\<lparr>fl_recoveryRetryTimer := False\<rparr>) else f)"
| "flow_step srt num now RefreshTimer f =
     (if fl_stateRefreshRetryTimer f
      then refreshState (fl_stateRefreshFloor f) False (f\<lparr>fl_stateRefreshRetryTimer := False\<rparr>) else f)"
| "flow_step srt num now Resume f = (if fl_active f then backfillOrRefresh now None f else f)"
| "flow_step srt num now (BootstrapArrived b) f = applyBootstrap num b f"
| "flow_step srt num now (FullStateArrived fromNetwork l) f = applyFullState num fromNetwork l f"
| "flow_step srt num now HydrationTimer f = f\<lparr>fl_hydrationRetryTimer := False\<rparr>"
| "flow_step srt num now HydrationFailed f = reportStateHydrationError f"
| "flow_step srt num now Unmount f = unmount f"

end
