(* ===== verification/Live_Flow_Safety.thy ===== *)
theory Live_Flow_Safety
  imports Live_Flow
begin

text \<open>
  Safety of the live flow: the queue of pending envelopes stays bounded, valid and above the applied
  cursor, the flags of the recovery agree with what is awaited, and the cursor of applied events
  only moves forward between two snapshots.
\<close>

section \<open>Durable sequences of a queue\<close>

definition is_durable :: "PublicLiveEnvelope \<Rightarrow> bool" where
  "is_durable m \<longleftrightarrow> (\<exists>s. classifyLiveEnvelopeSequence m = Durable s)"

lemma durables_filter: "durables ms = map (\<lambda>m. publicSequence (le_seq m)) (filter is_durable ms)"
proof (induction ms)
  case (Cons m ms)
  have "classifyLiveEnvelopeSequence m = Durable s \<Longrightarrow> publicSequence (le_seq m) = s" for s
    by (simp add: classify_Durable publicSequence_def)
  with Cons show ?case by (cases "classifyLiveEnvelopeSequence m") (simp_all add: is_durable_def)
qed simp

lemma mset_durables: "mset xs = mset ys \<Longrightarrow> mset (durables xs) = mset (durables ys)"
  by (simp add: durables_filter)

lemma durable_public: "s \<in> set (durables ms) \<Longrightarrow> \<exists>m\<in>set ms. publicSequence (le_seq m) = s"
  by (auto simp: durables_filter)

lemma maxSeq_ge: "c \<le> maxSeq c ms" "m \<in> set ms \<Longrightarrow> publicSequence (le_seq m) \<le> maxSeq c ms"
  unfolding maxSeq_def by (rule foldl_max_ge, rule foldl_max_ge) simp

section \<open>The queue\<close>

definition queue_ok :: "Flow \<Rightarrow> bool" where
  "queue_ok f \<longleftrightarrow> length (fl_pendingMessages f) \<le> 4096 \<and>
     (\<forall>m\<in>set (fl_pendingMessages f). classifyLiveEnvelopeSequence m \<noteq> Invalid) \<and>
     distinct (durables (fl_pendingMessages f)) \<and>
     set (durables (fl_pendingMessages f)) \<subseteq> {fl_lastAppliedEventSeq f<..fl_lastQueuedEventSeq f} \<and>
     (fl_pendingMessages f \<noteq> [] \<longrightarrow> fl_flushScheduled f \<and> fl_active f)"

definition same_queue :: "Flow \<Rightarrow> Flow \<Rightarrow> bool" where
  "same_queue f g \<longleftrightarrow> fl_pendingMessages g = fl_pendingMessages f \<and>
     fl_lastAppliedEventSeq g = fl_lastAppliedEventSeq f \<and> fl_lastQueuedEventSeq g = fl_lastQueuedEventSeq f \<and>
     fl_flushScheduled g = fl_flushScheduled f \<and> fl_active g = fl_active f"

lemma queue_ok_same: "same_queue f g \<Longrightarrow> queue_ok f \<Longrightarrow> queue_ok g"
  by (simp add: same_queue_def queue_ok_def)

lemma queue_ok_empty: "fl_pendingMessages f = [] \<Longrightarrow> queue_ok f"
  by (simp add: queue_ok_def)

lemma set_retain: "set (retainLiveEnvelopesAfterCursor ms c) \<subseteq> set ms"
  by (auto simp: retainLiveEnvelopesAfterCursor_def)

lemma length_retain: "length (retainLiveEnvelopesAfterCursor ms c) \<le> length ms"
  by (simp add: retainLiveEnvelopesAfterCursor_def)

lemma queue_ok_retain:
  assumes "queue_ok f" and "fl_pendingMessages g = retainLiveEnvelopesAfterCursor (fl_pendingMessages f) c"
    and "fl_lastAppliedEventSeq g = c" and "fl_lastQueuedEventSeq g = maxSeq c (fl_pendingMessages g)"
    and "fl_flushScheduled g = fl_flushScheduled f" and "fl_active g = fl_active f"
  shows "queue_ok g"
proof -
  let ?k = "retainLiveEnvelopesAfterCursor (fl_pendingMessages f) c"
  have d: "durables ?k = filter (\<lambda>s. c < s) (durables (fl_pendingMessages f))" by (rule durables_retain)
  have "set (durables ?k) \<subseteq> {c<..maxSeq c ?k}"
  proof
    fix s assume s: "s \<in> set (durables ?k)"
    then obtain m where "m \<in> set ?k" "publicSequence (le_seq m) = s" using durable_public by blast
    then have "s \<le> maxSeq c ?k" using maxSeq_ge(2) by blast
    then show "s \<in> {c<..maxSeq c ?k}" using s d by simp
  qed
  moreover have "distinct (durables ?k)" using assms(1) by (simp add: d queue_ok_def)
  moreover have "?k \<noteq> [] \<longrightarrow> fl_flushScheduled f \<and> fl_active f"
    using assms(1) by (auto simp: queue_ok_def retainLiveEnvelopesAfterCursor_def)
  ultimately show ?thesis
    using assms set_retain [of "fl_pendingMessages f" c] length_retain [of "fl_pendingMessages f" c]
    by (auto simp: queue_ok_def)
qed

section \<open>Operations on the queue\<close>

lemma settleResult_frame [simp]:
  "fl_eventCursorGeneration (settleResult now r f) = fl_eventCursorGeneration f"
  "fl_recoveryInFlight (settleResult now r f) = fl_recoveryInFlight f"
  "fl_recovery (settleResult now r f) = fl_recovery f"
  "fl_resetRecoveryActive (settleResult now r f) = fl_resetRecoveryActive f"
  "fl_recoveryRetryTimer (settleResult now r f) = fl_recoveryRetryTimer f"
  "fl_stateRefreshInFlight (settleResult now r f) = fl_stateRefreshInFlight f"
  "fl_stateRefreshRetryTimer (settleResult now r f) = fl_stateRefreshRetryTimer f"
  "fl_stateRefreshFloor (settleResult now r f) = fl_stateRefreshFloor f"
  "fl_stateRefreshIsCursorReset (settleResult now r f) = fl_stateRefreshIsCursorReset f"
  by (simp_all add: settleResult_def setAppState_def Let_def)

lemma queue_ok_settle: "queue_ok f \<Longrightarrow> queue_ok (settleResult now r f)"
proof (cases "rr_status r = CaughtUp")
  case True
  assume "queue_ok f"
  then show ?thesis
    by (rule queue_ok_retain [where c = "max (fl_lastAppliedEventSeq f) (rr_cursor r)"])
      (simp_all add: settleResult_def True setAppState_def Let_def)
next
  case False
  assume "queue_ok f"
  then show ?thesis
    by (rule queue_ok_same [rotated]) (simp add: settleResult_def False setAppState_def Let_def same_queue_def)
qed

lemma applied_settle: "fl_lastAppliedEventSeq f \<le> fl_lastAppliedEventSeq (settleResult now r f)"
  by (simp add: settleResult_def setAppState_def Let_def)

text \<open>What holds of every turn of \<open>recoverHead\<close> holds after it.\<close>

lemma recoverHead_induct:
  assumes "P f" and "\<And>g. P g \<Longrightarrow> P (g\<lparr>fl_queuedRecoveryTarget := 0, fl_queuedRecoveryPoll := False\<rparr>)"
    and "\<And>g r. P g \<Longrightarrow> P (settleResult now r g)"
    and "\<And>g rv. P g \<Longrightarrow> Q (g\<lparr>fl_recovery := Some rv\<rparr>)"
    and "\<And>g. P g \<Longrightarrow> \<not> recoveryWanted g \<Longrightarrow> Q (g\<lparr>fl_recoveryInFlight := False\<rparr>)"
  shows "Q (recoverHead now f)"
  using assms(1,3)
proof (induction now f rule: recoverHead.induct)
  case (1 now' f)
  let ?target = "if 0 < fl_queuedRecoveryTarget f then Some (fl_queuedRecoveryTarget f) else None"
  let ?cursor = "max 0 (of_int \<lfloor>fl_lastAppliedEventSeq f\<rfloor>) :: js_number"
  let ?f1 = "f\<lparr>fl_queuedRecoveryTarget := 0, fl_queuedRecoveryPoll := False\<rparr>"
  have P1: "P ?f1" by (rule assms(2) [OF "1.prems"(1)])
  show ?case
  proof (cases "recoveryWanted f")
    case False
    then show ?thesis using assms(5) [OF "1.prems"(1)] by (simp add: recoverHead.simps [of now' f])
  next
    case wanted: True
    show ?thesis
    proof (cases "?target \<noteq> None \<and> max ?cursor (finiteSequence ?target) \<le> ?cursor")
      case False
      then show ?thesis using wanted assms(4) [OF P1]
        unfolding recoverHead.simps [of now' f] Let_def by (simp only: if_True if_False simp_thms)
    next
      case True
      let ?r = "\<lparr>rr_status = (if ?cursor = 0 then Empty else CaughtUp), rr_cursor = ?cursor,
        rr_latestSeq = max ?cursor (finiteSequence ?target), rr_pages = 0\<rparr>"
      have "Q (recoverHead now' (settleResult now' ?r ?f1))"
        by (rule "1.IH" [OF wanted refl refl refl refl True]) (use "1.prems"(2) P1 in auto)
      then show ?thesis using wanted True
        unfolding recoverHead.simps [of now' f] Let_def by (simp only: if_True if_False simp_thms)
    qed
  qed
qed

lemma queue_ok_recoverHead: "queue_ok f \<Longrightarrow> queue_ok (recoverHead now f)"
  by (rule recoverHead_induct [where P = queue_ok])
    (auto intro: queue_ok_settle queue_ok_same [rotated] simp: same_queue_def)

lemma applied_recoverHead: "c \<le> fl_lastAppliedEventSeq f \<Longrightarrow> c \<le> fl_lastAppliedEventSeq (recoverHead now f)"
  by (rule recoverHead_induct [where P = "\<lambda>g. c \<le> fl_lastAppliedEventSeq g"])
    (auto intro: order_trans [OF _ applied_settle])

lemma recoverHead_frame [simp]:
  "fl_eventCursorGeneration (recoverHead now f) = fl_eventCursorGeneration f"
  "fl_active (recoverHead now f) = fl_active f"
  "fl_resetRecoveryActive (recoverHead now f) = fl_resetRecoveryActive f"
  "fl_recoveryRetryTimer (recoverHead now f) = fl_recoveryRetryTimer f"
  "fl_stateRefreshInFlight (recoverHead now f) = fl_stateRefreshInFlight f"
  "fl_stateRefreshRetryTimer (recoverHead now f) = fl_stateRefreshRetryTimer f"
  "fl_stateRefreshFloor (recoverHead now f) = fl_stateRefreshFloor f"
  "fl_stateRefreshIsCursorReset (recoverHead now f) = fl_stateRefreshIsCursorReset f"
  by (rule recoverHead_induct [where P = "\<lambda>g. _ g = _ f"]; simp)+

text \<open>The recovery is in flight exactly when it awaits a page.\<close>

definition flight_ok :: "Flow \<Rightarrow> bool" where
  "flight_ok f \<longleftrightarrow> (fl_recoveryInFlight f \<longleftrightarrow> fl_recovery f \<noteq> None)"

lemma flight_ok_recoverHead: "fl_recoveryInFlight f \<Longrightarrow> fl_recovery f = None \<Longrightarrow> flight_ok (recoverHead now f)"
  by (rule recoverHead_induct [where P = "\<lambda>g. fl_recoveryInFlight g \<and> fl_recovery g = None"])
    (auto simp: flight_ok_def)

section \<open>The invariant\<close>

definition flow_safe :: "Flow \<Rightarrow> bool" where
  "flow_safe f \<longleftrightarrow> queue_ok f \<and> flight_ok f \<and> 0 \<le> fl_lastAppliedEventSeq f \<and>
     (fl_resetRecoveryActive f \<longleftrightarrow> fl_stateRefreshIsCursorReset f \<or> 0 < fl_stateRefreshFloor f)"

lemma flow_safe_recoverHead:
  "queue_ok f \<Longrightarrow> 0 \<le> fl_lastAppliedEventSeq f \<Longrightarrow> fl_recoveryInFlight f \<Longrightarrow> fl_recovery f = None \<Longrightarrow>
   (fl_resetRecoveryActive f \<longleftrightarrow> fl_stateRefreshIsCursorReset f \<or> 0 < fl_stateRefreshFloor f) \<Longrightarrow>
   flow_safe (recoverHead now f)"
  by (simp add: flow_safe_def queue_ok_recoverHead flight_ok_recoverHead applied_recoverHead)

lemma flow_safe_backfill: "flow_safe f \<Longrightarrow> flow_safe (backfillOrRefresh now t f)"
proof -
  assume safe: "flow_safe f"
  define f1 where "f1 = (if 0 < publicSequence t
    then f\<lparr>fl_queuedRecoveryTarget := max (fl_queuedRecoveryTarget f) (publicSequence t)\<rparr>
    else f\<lparr>fl_queuedRecoveryPoll := True\<rparr>)"
  have s1: "flow_safe f1" "fl_recovery f1 = fl_recovery f" "fl_recoveryInFlight f1 = fl_recoveryInFlight f"
    using safe by (auto simp: f1_def flow_safe_def queue_ok_def flight_ok_def)
  have eq: "backfillOrRefresh now t f = (if fl_recoveryInFlight f1 \<or> fl_resetRecoveryActive f1 then f1
      else recoverHead now (f1\<lparr>fl_recoveryRetryTimer := False, fl_recoveryInFlight := True\<rparr>))"
    unfolding backfillOrRefresh_def f1_def Let_def by (rule refl)
  show ?thesis
  proof (cases "fl_recoveryInFlight f1 \<or> fl_resetRecoveryActive f1")
    case True
    then show ?thesis using s1 by (simp add: eq)
  next
    case False
    then have "fl_recovery f1 = None" using s1(1) by (auto simp: flow_safe_def flight_ok_def)
    then have "flow_safe (recoverHead now (f1\<lparr>fl_recoveryRetryTimer := False, fl_recoveryInFlight := True\<rparr>))"
      using s1(1) by (intro flow_safe_recoverHead) (auto simp: flow_safe_def queue_ok_def)
    then show ?thesis using False by (simp add: eq)
  qed
qed

lemma flow_safe_dropQueue: "flow_safe f \<Longrightarrow> flow_safe (dropQueue f)"
  by (simp add: flow_safe_def queue_ok_def dropQueue_def flight_ok_def)

text \<open>Updates of fields the invariant does not read.\<close>

definition same_safe :: "Flow \<Rightarrow> Flow \<Rightarrow> bool" where
  "same_safe f g \<longleftrightarrow> same_queue f g \<and> fl_recoveryInFlight g = fl_recoveryInFlight f \<and>
     fl_recovery g = fl_recovery f \<and> fl_resetRecoveryActive g = fl_resetRecoveryActive f \<and>
     fl_stateRefreshIsCursorReset g = fl_stateRefreshIsCursorReset f \<and>
     fl_stateRefreshFloor g = fl_stateRefreshFloor f \<and>
     fl_eventCursorGeneration g = fl_eventCursorGeneration f"

lemmas same_defs = same_safe_def same_queue_def

lemma flow_safe_same: "same_safe f g \<Longrightarrow> flow_safe f \<Longrightarrow> flow_safe g"
  using queue_ok_same [of f g] by (auto simp: same_defs flow_safe_def flight_ok_def)

lemma same_safe_setAppState: "same_safe f (setAppState h f)"
  by (simp add: same_defs setAppState_def)

lemma same_safe_rendered: "same_safe f (rendered f)"
  by (simp add: same_defs rendered_def)

lemma same_safe_scheduleStateRefresh: "same_safe f (scheduleStateRefresh f)"
  by (simp add: same_defs scheduleStateRefresh_def)

lemma same_safe_report: "same_safe f (reportStateHydrationError f)"
  by (simp add: same_defs reportStateHydrationError_def)

lemma same_safe_scheduleCurrent: "same_safe f (scheduleCurrentStateRetry f)"
  using same_safe_report [of f] by (simp add: same_defs scheduleCurrentStateRetry_def)

lemmas same_safe_intros = same_safe_setAppState same_safe_rendered same_safe_scheduleStateRefresh
  same_safe_report same_safe_scheduleCurrent

section \<open>Recovered pages\<close>

lemma public_ev_seq: "c < publicSequence (Some (ev_seq e)) \<Longrightarrow> 0 \<le> c \<Longrightarrow> publicSequence (Some (ev_seq e)) = ev_seq e"
  by (simp add: publicSequence_def split: if_splits)

text \<open>The events which \<open>applyPage\<close> gives to the reducer.\<close>

definition unappliedEvents :: "js_number \<Rightarrow> PublicEvent list \<Rightarrow> PublicEvent list" where
  "unappliedEvents c events = js_sort (by_asc ev_seq) (filter (\<lambda>e. c < publicSequence (Some (ev_seq e))) events)"

lemma unapplied_above: "0 \<le> c \<Longrightarrow> e \<in> set (unappliedEvents c events) \<Longrightarrow> c < ev_seq e"
  using public_ev_seq [of c e] by (auto simp: unappliedEvents_def)

lemma unapplied_sorted: "sorted (map ev_seq (unappliedEvents c events))"
  using comparator.sorted_js_sort [OF comparator_by_asc, of ev_seq]
  by (simp add: unappliedEvents_def sorted_map by_asc_def)

lemma applyPage_cases:
  obtains (skipped) "applyPage gen events f = f"
      "\<not> fl_active f \<or> gen \<noteq> fl_eventCursorGeneration f \<or> unappliedEvents (fl_lastAppliedEventSeq f) events = []"
  | (applied) es c kept where "es = unappliedEvents (fl_lastAppliedEventSeq f) events" "es \<noteq> []"
      "c = ev_seq (last es)" "kept = retainLiveEnvelopesAfterCursor (fl_pendingMessages f) c"
      "fl_active f" "gen = fl_eventCursorGeneration f"
      "applyPage gen events f = setAppState (\<lambda>s. applyPublicEvents s es)
        (f\<lparr>fl_lastAppliedEventSeq := c, fl_pendingMessages := kept, fl_lastQueuedEventSeq := maxSeq c kept\<rparr>)"
proof (cases "\<not> fl_active f \<or> gen \<noteq> fl_eventCursorGeneration f \<or> unappliedEvents (fl_lastAppliedEventSeq f) events = []")
  case True
  then show ?thesis using skipped by (auto simp: applyPage_def Let_def unappliedEvents_def)
next
  case False
  then show ?thesis
    by (intro applied [OF refl _ refl refl]) (simp_all add: applyPage_def Let_def unappliedEvents_def)
qed

lemma applyPage_frame [simp]:
  "fl_recovery (applyPage gen es f) = fl_recovery f" "fl_recoveryInFlight (applyPage gen es f) = fl_recoveryInFlight f"
  "fl_eventCursorGeneration (applyPage gen es f) = fl_eventCursorGeneration f"
  "fl_active (applyPage gen es f) = fl_active f"
  "fl_resetRecoveryActive (applyPage gen es f) = fl_resetRecoveryActive f"
  "fl_recoveryRetryTimer (applyPage gen es f) = fl_recoveryRetryTimer f"
  "fl_queuedRecoveryTarget (applyPage gen es f) = fl_queuedRecoveryTarget f"
  "fl_queuedRecoveryPoll (applyPage gen es f) = fl_queuedRecoveryPoll f"
  "fl_stateRefreshInFlight (applyPage gen es f) = fl_stateRefreshInFlight f"
  "fl_stateRefreshRetryTimer (applyPage gen es f) = fl_stateRefreshRetryTimer f"
  "fl_stateRefreshFloor (applyPage gen es f) = fl_stateRefreshFloor f"
  "fl_stateRefreshIsCursorReset (applyPage gen es f) = fl_stateRefreshIsCursorReset f"
  by (simp_all add: applyPage_def setAppState_def Let_def)

lemma applyPage_applied:
  assumes "0 \<le> fl_lastAppliedEventSeq f"
  shows "fl_lastAppliedEventSeq f \<le> fl_lastAppliedEventSeq (applyPage gen es f)"
proof (cases rule: applyPage_cases [of gen es f])
  case (applied us c kept)
  then have "fl_lastAppliedEventSeq f < c" using unapplied_above [OF assms, of "last us" es] by simp
  then show ?thesis by (simp add: applied(7) setAppState_def)
qed simp

lemma queue_ok_applyPage: "queue_ok f \<Longrightarrow> queue_ok (applyPage gen es f)"
proof (cases rule: applyPage_cases [of gen es f])
  case (applied us c kept)
  assume "queue_ok f"
  then show ?thesis unfolding applied(7)
    by (rule queue_ok_retain [where c = c]) (simp_all add: applied(4) setAppState_def)
qed simp

lemma flow_safe_applyPage: "flow_safe f \<Longrightarrow> flow_safe (applyPage gen es f)"
  using applyPage_applied [of f gen es] by (simp add: flow_safe_def queue_ok_applyPage flight_ok_def)

section \<open>Refresh and reset\<close>

lemma refreshState_frame [simp]:
  "fl_pendingMessages (refreshState m r f) = fl_pendingMessages f"
  "fl_lastAppliedEventSeq (refreshState m r f) = fl_lastAppliedEventSeq f"
  "fl_lastQueuedEventSeq (refreshState m r f) = fl_lastQueuedEventSeq f"
  "fl_flushScheduled (refreshState m r f) = fl_flushScheduled f"
  "fl_recovery (refreshState m r f) = fl_recovery f"
  "fl_recoveryInFlight (refreshState m r f) = fl_recoveryInFlight f"
  "fl_eventCursorGeneration (refreshState m r f) = fl_eventCursorGeneration f"
  "fl_active (refreshState m r f) = fl_active f"
  "fl_queuedRecoveryTarget (refreshState m r f) = fl_queuedRecoveryTarget f"
  "fl_queuedRecoveryPoll (refreshState m r f) = fl_queuedRecoveryPoll f"
  "fl_recoveryRetryTimer (refreshState m r f) = fl_recoveryRetryTimer f"
  by (simp_all add: refreshState_def scheduleStateRefresh_def Let_def)

lemma refreshState_reset: "fl_resetRecoveryActive (refreshState m r f) \<longleftrightarrow>
    fl_stateRefreshIsCursorReset (refreshState m r f) \<or> 0 < fl_stateRefreshFloor (refreshState m r f)"
  by (simp add: refreshState_def scheduleStateRefresh_def Let_def)

lemma flow_safe_refreshState: "flow_safe f \<Longrightarrow> flow_safe (refreshState m r f)"
  using queue_ok_same [of f "refreshState m r f"]
  by (simp add: flow_safe_def flight_ok_def refreshState_reset same_queue_def)

lemma resetCursorEpoch_frame [simp]:
  "fl_pendingMessages (resetCursorEpoch r f) = []" "fl_recovery (resetCursorEpoch r f) = fl_recovery f"
  "fl_lastAppliedEventSeq (resetCursorEpoch r f) = fl_lastAppliedEventSeq f"
  "fl_eventCursorGeneration (resetCursorEpoch r f) = fl_eventCursorGeneration f"
  "fl_active (resetCursorEpoch r f) = fl_active f"
  "fl_recoveryRetryTimer (resetCursorEpoch r f) = fl_recoveryRetryTimer f"
  by (simp_all add: resetCursorEpoch_def Let_def)

lemma resetCursorEpoch_reset: "fl_resetRecoveryActive (resetCursorEpoch r f)"
  "fl_stateRefreshIsCursorReset (resetCursorEpoch r f)"
  by (simp_all add: resetCursorEpoch_def Let_def refreshState_def scheduleStateRefresh_def)

lemma flow_safe_recoverReturned:
  assumes "flow_safe f" and "fl_recovery f \<noteq> None"
  shows "flow_safe (recoverReturned now rv r f)"
proof -
  let ?f1 = "f\<lparr>fl_recovery := None\<rparr>"
  have fl: "fl_recoveryInFlight f" "0 \<le> fl_lastAppliedEventSeq f" "queue_ok f"
    "fl_resetRecoveryActive f \<longleftrightarrow> fl_stateRefreshIsCursorReset f \<or> 0 < fl_stateRefreshFloor f"
    using assms by (auto simp: flow_safe_def flight_ok_def)
  have q: "queue_ok (?f1\<lparr>fl_queuedRecoveryTarget := t\<rparr>)" "queue_ok ?f1" for t
    using fl(3) by (simp_all add: queue_ok_def)
  have s: "flow_safe (recoverHead now (settleResult now r ?f1))"
    using fl q by (intro flow_safe_recoverHead)
      (auto intro: queue_ok_settle order_trans [OF _ applied_settle])
  have t: "flow_safe (recoverHead now (?f1\<lparr>fl_queuedRecoveryTarget := t\<rparr>))" for t
    using fl q by (intro flow_safe_recoverHead) auto
  have "flow_safe ((resetCursorEpoch r ?f1)\<lparr>fl_recoveryInFlight := False\<rparr>)"
    using fl(2) resetCursorEpoch_reset by (simp add: flow_safe_def queue_ok_def flight_ok_def)
  then show ?thesis using s t by (simp add: recoverReturned_def Let_def)
qed

lemma flow_safe_recoverThrew: "flow_safe f \<Longrightarrow> flow_safe (recoverThrew rv f)"
proof -
  assume a: "flow_safe f"
  have "queue_ok f \<Longrightarrow> queue_ok (recoverThrew rv f)"
    by (rule queue_ok_same [of f]) (auto simp: recoverThrew_def same_queue_def Let_def split: option.split)
  with a show ?thesis
    by (auto simp: flow_safe_def flight_ok_def recoverThrew_def Let_def split: option.splits)
qed

lemma flow_safe_pageArrived: "flow_safe f \<Longrightarrow> flow_safe (pageArrived now r f)"
proof (cases "fl_recovery f")
  case (Some rv)
  assume a: "flow_safe f"
  show ?thesis
  proof (cases r)
    case (Inl err)
    then show ?thesis using Some a by (simp add: pageArrived_def flow_safe_recoverThrew)
  next
    case (Inr resp)
    obtain es out where t: "recoverTurn (rv_cursor rv) (rv_latestSeq rv) (rv_pages rv) resp = (es, out)"
      by fastforce
    let ?f1 = "case es of None \<Rightarrow> f | Some e \<Rightarrow> applyPage (rv_generation rv) e f"
    have f1: "flow_safe ?f1" "fl_recovery ?f1 \<noteq> None"
      using a Some by (simp_all add: flow_safe_applyPage split: option.split)
    have "flow_safe (?f1\<lparr>fl_recovery := Some x\<rparr>)" for x
      using f1 by (auto simp: flow_safe_def flight_ok_def queue_ok_def)
    then show ?thesis
      using f1 Inr Some t by (auto simp: pageArrived_def Let_def intro: flow_safe_recoverReturned split: sum.split)
  qed
qed (simp add: pageArrived_def)

section \<open>Snapshots\<close>

lemma applyPublicSnapshot_cases:
  obtains (refused) "applyPublicSnapshot num l m f = (False, f)"
  | (accepted) g where "applyPublicSnapshot num l m f = (True, g)" "fl_pendingMessages g = []"
      "fl_lastAppliedEventSeq g = snapshotSeq l" "fl_lastQueuedEventSeq g = snapshotSeq l"
      "fl_recovery g = fl_recovery f" "fl_recoveryInFlight g = fl_recoveryInFlight f"
      "fl_eventCursorGeneration g = fl_eventCursorGeneration f + 1" "fl_active g = fl_active f"
      "fl_resetRecoveryActive g = fl_resetRecoveryActive f" "fl_recoveryRetryTimer g = fl_recoveryRetryTimer f"
      "fl_queuedRecoveryTarget g = fl_queuedRecoveryTarget f" "fl_queuedRecoveryPoll g = fl_queuedRecoveryPoll f"
      "fl_stateRefreshInFlight g = fl_stateRefreshInFlight f"
      "fl_stateRefreshRetryTimer g = fl_stateRefreshRetryTimer f"
      "fl_stateRefreshFloor g = fl_stateRefreshFloor f"
      "fl_stateRefreshIsCursorReset g = fl_stateRefreshIsCursorReset f"
proof (cases "fst (applyPublicSnapshot num l m f)")
  case True
  show ?thesis
    by (rule accepted [of "snd (applyPublicSnapshot num l m f)"])
      (use True in \<open>auto simp: applyPublicSnapshot_def Let_def split: if_splits\<close>)
next
  case False
  then show ?thesis
    by (intro refused) (auto simp: applyPublicSnapshot_def Let_def split: if_splits)
qed

lemma publicSequence_nonneg: "0 \<le> publicSequence v"
  by (simp add: publicSequence_def split: option.split)

lemma snapshotSeq_nonneg: "0 \<le> snapshotSeq l"
  by (simp add: snapshotSeq_def publicSequence_nonneg)

lemma flow_safe_snapshot: "flow_safe f \<Longrightarrow> flow_safe (snd (applyPublicSnapshot num l m f))"
  by (cases rule: applyPublicSnapshot_cases [of num l m f])
    (simp_all add: flow_safe_def queue_ok_empty flight_ok_def snapshotSeq_nonneg)

lemma flow_safe_update_hydration:
  "flow_safe f \<Longrightarrow> flow_safe (f\<lparr>fl_hydrationRetryAttempt := a, fl_fullStateHydrated := b\<rparr>)"
  "flow_safe f \<Longrightarrow> flow_safe (f\<lparr>fl_publicMapConfig := c, fl_initialNodesReceived := b, fl_nodeLoadFailed := d\<rparr>)"
  "flow_safe f \<Longrightarrow> flow_safe (f\<lparr>fl_publicMapConfig := c, fl_initialNodesReceived := b\<rparr>)"
  "flow_safe f \<Longrightarrow> flow_safe (f\<lparr>fl_socketStatus := st\<rparr>)"
  "flow_safe f \<Longrightarrow> flow_safe (f\<lparr>fl_nodeLoadFailed := d\<rparr>)"
  "flow_safe f \<Longrightarrow> flow_safe (f\<lparr>fl_fullStateHydrated := b\<rparr>)"
  "flow_safe f \<Longrightarrow> flow_safe (f\<lparr>fl_stateRefreshInFlight := b\<rparr>)"
  "flow_safe f \<Longrightarrow> flow_safe (f\<lparr>fl_hydrationRetryTimer := b\<rparr>)"
  "flow_safe f \<Longrightarrow> flow_safe (f\<lparr>fl_flushScheduled := True\<rparr>)"
  "flow_safe f \<Longrightarrow> flow_safe (f\<lparr>fl_recoveryRetryTimer := b\<rparr>)"
  "flow_safe f \<Longrightarrow> flow_safe (f\<lparr>fl_stateRefreshRetryTimer := b\<rparr>)"
  "flow_safe f \<Longrightarrow> flow_safe (f\<lparr>fl_topologySeqFloor := x, fl_publicMapConfig := c, fl_bootstrapClusters := cl\<rparr>)"
  "flow_safe f \<Longrightarrow> flow_safe (f\<lparr>fl_latestInboundSeq := x, fl_latestObservedSeq := y\<rparr>)"
  "flow_safe f \<Longrightarrow> flow_safe (f\<lparr>fl_latestObservedSeq := y\<rparr>)"
  by (simp_all add: flow_safe_def queue_ok_def flight_ok_def)

lemmas flow_safe_intros = flow_safe_update_hydration flow_safe_snapshot flow_safe_backfill flow_safe_dropQueue
  same_safe_intros [THEN flow_safe_same]

lemma flow_safe_applyFullState: "flow_safe f \<Longrightarrow> flow_safe (applyFullState num n l f)"
proof -
  assume a: "flow_safe f"
  let ?r = "applyPublicSnapshot num l None (f\<lparr>fl_hydrationRetryAttempt := 0, fl_fullStateHydrated := True\<rparr>)"
  have "flow_safe (snd ?r)" by (intro flow_safe_intros a)
  then show ?thesis using a
    by (cases ?r) (auto simp: applyFullState_def Let_def intro!: flow_safe_intros)
qed

lemma flow_safe_applyBootstrap: "flow_safe f \<Longrightarrow> flow_safe (applyBootstrap num b f)"
  by (auto simp: applyBootstrap_def Let_def intro!: flow_safe_intros)

lemma flow_safe_clear_reset:
  "queue_ok f \<Longrightarrow> flight_ok f \<Longrightarrow> 0 \<le> fl_lastAppliedEventSeq f \<Longrightarrow>
   flow_safe (f\<lparr>fl_stateRefreshFloor := 0, fl_stateRefreshIsCursorReset := False, fl_resetRecoveryActive := False,
     fl_cursorEpochResetActive := False\<rparr>)"
  by (simp add: flow_safe_def queue_ok_def flight_ok_def)

text \<open>The answer of the server when it is accepted by \<open>refreshState\<close>.\<close>

definition stateAccepted :: "js_number \<Rightarrow> PublicLiveState \<Rightarrow> Flow \<Rightarrow> Flow" where
  "stateAccepted now liveState f2 =
     (let f3 = f2\<lparr>fl_publicMapConfig := ls_map liveState\<rparr>;
          f4 = (if or_else (ls_nodes liveState) [] \<noteq> []
            then f3\<lparr>fl_initialNodesReceived := True, fl_nodeLoadFailed := False\<rparr> else f3);
          f5 = f4\<lparr>fl_stateRefreshFloor := 0, fl_stateRefreshIsCursorReset := False,
            fl_resetRecoveryActive := False, fl_cursorEpochResetActive := False\<rparr>
      in backfillOrRefresh now (Some (fl_latestObservedSeq f5)) f5)"

lemma stateArrived_cases:
  obtains (idle) "\<not> fl_stateRefreshInFlight f" "stateArrived now num r f = f"
  | (inactive) "fl_stateRefreshInFlight f" "\<not> fl_active f"
      "stateArrived now num r f = f\<lparr>fl_stateRefreshInFlight := False\<rparr>"
  | (again) g where "fl_stateRefreshInFlight f" "fl_active f" "same_safe f g" "fl_active g"
      "fl_stateRefreshRetryTimer g = fl_stateRefreshRetryTimer f" "fl_queuedRecoveryTarget g = fl_queuedRecoveryTarget f"
      "fl_queuedRecoveryPoll g = fl_queuedRecoveryPoll f" "fl_recoveryRetryTimer g = fl_recoveryRetryTimer f"
      "stateArrived now num r f = (scheduleStateRefresh g)\<lparr>fl_stateRefreshInFlight := False\<rparr>"
  | (accepted) l g where "fl_stateRefreshInFlight f" "fl_active f" "r = Inr l"
      "applyPublicSnapshot num l (Some (fl_stateRefreshFloor f)) (f\<lparr>fl_fullStateHydrated := True\<rparr>) = (True, g)"
      "stateArrived now num r f = (stateAccepted now l g)\<lparr>fl_stateRefreshInFlight := False\<rparr>"
proof (cases "fl_stateRefreshInFlight f \<and> fl_active f")
  case False
  then show ?thesis using idle inactive by (cases r) (auto simp: stateArrived_def Let_def)
next
  case True
  then have t: "fl_stateRefreshInFlight f" "fl_active f" by simp_all
  show ?thesis
  proof (cases r)
    case (Inl err)
    show ?thesis
      by (rule again [of "if fl_initialNodesReceived f then f\<lparr>fl_socketStatus := ''state-error''\<rparr>
          else f\<lparr>fl_socketStatus := ''state-error'', fl_nodeLoadFailed := True\<rparr>"])
        (use t Inl in \<open>auto simp: stateArrived_def Let_def same_defs\<close>)
  next
    case (Inr l)
    let ?p = "applyPublicSnapshot num l (Some (fl_stateRefreshFloor f)) (f\<lparr>fl_fullStateHydrated := True\<rparr>)"
    show ?thesis
    proof (cases "snapshotSeq l < fl_stateRefreshFloor f")
      case True
      show ?thesis by (rule again [of f]) (use t Inr True in \<open>auto simp: stateArrived_def same_defs\<close>)
    next
      case False
      note ge = this
      show ?thesis
      proof (cases rule: applyPublicSnapshot_cases [of num l "Some (fl_stateRefreshFloor f)" "f\<lparr>fl_fullStateHydrated := True\<rparr>"])
        case refused
        show ?thesis by (rule again [of "f\<lparr>fl_fullStateHydrated := True\<rparr>"])
          (use t Inr ge refused in \<open>auto simp: stateArrived_def Let_def same_defs\<close>)
      next
        case (accepted g)
        show ?thesis
          by (rule that(4) [OF t Inr accepted(1)])
            (use t Inr ge accepted(1) in \<open>simp add: stateArrived_def Let_def stateAccepted_def\<close>)
      qed
    qed
  qed
qed

lemma flow_safe_stateAccepted:
  "queue_ok g \<Longrightarrow> flight_ok g \<Longrightarrow> 0 \<le> fl_lastAppliedEventSeq g \<Longrightarrow> flow_safe (stateAccepted now l g)"
  unfolding stateAccepted_def Let_def
  by (rule flow_safe_backfill, rule flow_safe_clear_reset) (simp_all add: queue_ok_def flight_ok_def)

lemma flow_safe_stateArrived: "flow_safe f \<Longrightarrow> flow_safe (stateArrived now num r f)"
proof -
  assume a: "flow_safe f"
  show ?thesis
  proof (cases rule: stateArrived_cases [of f now num r])
    case (again g)
    have "flow_safe g" by (rule flow_safe_same [OF again(3) a])
    then show ?thesis by (auto simp: again(9) intro!: flow_safe_intros)
  next
    case (accepted l g)
    have "flow_safe g"
      using flow_safe_snapshot [of "f\<lparr>fl_fullStateHydrated := True\<rparr>" num l "Some (fl_stateRefreshFloor f)"] a
        flow_safe_update_hydration(6) [OF a] accepted(4) by simp
    then show ?thesis
      by (auto simp: accepted(5) flow_safe_def [of g] intro!: flow_safe_intros flow_safe_stateAccepted)
  qed (use a in \<open>auto intro!: flow_safe_intros\<close>)
qed

section \<open>Messages\<close>

lemma flow_safe_scheduleFlush: "flow_safe (f\<lparr>fl_flushScheduled := True\<rparr>) \<Longrightarrow> flow_safe (scheduleMessagesFlush f)"
  by (auto simp: scheduleMessagesFlush_def flow_safe_def queue_ok_def flight_ok_def)

lemma cap_within:
  "length ms \<le> 4096 \<Longrightarrow> capLiveEnvelopeQueue srt ms LIVE_ENVELOPE_MAX_PENDING = ms"
  by (simp add: capLiveEnvelopeQueue_def LIVE_ENVELOPE_MAX_PENDING_def)

lemma cap_length:
  assumes "host_sort srt" and "4096 < length ms"
  shows "length (capLiveEnvelopeQueue srt ms LIVE_ENVELOPE_MAX_PENDING) \<noteq> length ms"
proof -
  have l: "LIVE_ENVELOPE_MAX_PENDING = real 4096" by (simp add: LIVE_ENVELOPE_MAX_PENDING_def)
  have "length (sortLiveEnvelopes srt ms) = length ms"
    unfolding sortLiveEnvelopes_def by (rule host_sort.length_srt [OF assms(1)])
  then have "length (capLiveEnvelopeQueue srt ms (real 4096)) \<le> 4096"
    using assms(2) slice_from_neg [of 4096 "sortLiveEnvelopes srt ms"]
    by (simp add: capLiveEnvelopeQueue_def)
  then show ?thesis using assms(2) unfolding l by simp
qed

text \<open>Queueing an envelope that is not invalid and, when durable, beyond what is queued.\<close>

lemma flow_safe_queue:
  assumes "flow_safe f" and "fl_active f" and "classifyLiveEnvelopeSequence m \<noteq> Invalid"
    and "\<And>s. classifyLiveEnvelopeSequence m = Durable s \<Longrightarrow>
      fl_lastAppliedEventSeq f < s \<and> fl_lastQueuedEventSeq f < s"
    and "length (fl_pendingMessages f @ [m]) \<le> 4096"
  shows "flow_safe (scheduleMessagesFlush (f\<lparr>fl_pendingMessages := fl_pendingMessages f @ [m],
    fl_lastQueuedEventSeq := (case classifyLiveEnvelopeSequence m of Durable s \<Rightarrow> s | _ \<Rightarrow> fl_lastQueuedEventSeq f)\<rparr>))"
proof (rule flow_safe_scheduleFlush)
  let ?p = "fl_pendingMessages f"
  have q: "distinct (durables ?p)" "set (durables ?p) \<subseteq> {fl_lastAppliedEventSeq f<..fl_lastQueuedEventSeq f}"
    "\<forall>m\<in>set ?p. classifyLiveEnvelopeSequence m \<noteq> Invalid"
    using assms(1) by (simp_all add: flow_safe_def queue_ok_def)
  let ?g = "f\<lparr>fl_pendingMessages := ?p @ [m],
    fl_lastQueuedEventSeq := (case classifyLiveEnvelopeSequence m of Durable s \<Rightarrow> s | _ \<Rightarrow> fl_lastQueuedEventSeq f),
    fl_flushScheduled := True\<rparr>"
  have "queue_ok ?g"
  proof (cases "classifyLiveEnvelopeSequence m")
    case (Durable s)
    then have "fl_lastAppliedEventSeq f < s" "fl_lastQueuedEventSeq f < s" using assms(4) by simp_all
    then show ?thesis using q Durable assms(2,5) unfolding queue_ok_def by (force simp: subset_iff)
  next
    case Fallback
    then show ?thesis using q assms(2,5) by (simp add: queue_ok_def)
  qed (use assms(3) in simp)
  then show "flow_safe ?g" using assms(1) by (simp add: flow_safe_def flight_ok_def)
qed

lemma flow_safe_enqueue:
  assumes "host_sort srt" and "flow_safe f" and "fl_active f"
  shows "flow_safe (enqueueMessage srt now m f)"
proof -
  let ?p = "fl_pendingMessages f @ [m]"
  let ?c = "capLiveEnvelopeQueue srt ?p LIVE_ENVELOPE_MAX_PENDING"
  have drop: "flow_safe (backfillOrRefresh now t (dropQueue f))" for t
    by (intro flow_safe_intros assms(2))
  have queued: "flow_safe (if length ?c \<noteq> length ?p then backfillOrRefresh now t (dropQueue f)
      else scheduleMessagesFlush (f\<lparr>fl_pendingMessages := ?c,
        fl_lastQueuedEventSeq := (case classifyLiveEnvelopeSequence m of Durable s \<Rightarrow> s | _ \<Rightarrow> fl_lastQueuedEventSeq f)\<rparr>))"
    if "classifyLiveEnvelopeSequence m \<noteq> Invalid"
      and "\<And>s. classifyLiveEnvelopeSequence m = Durable s \<Longrightarrow>
        fl_lastAppliedEventSeq f < s \<and> fl_lastQueuedEventSeq f < s" for t
  proof (cases "length ?p \<le> 4096")
    case True
    have "?c = ?p" by (rule cap_within [OF True])
    then show ?thesis using flow_safe_queue [OF assms(2,3) that True] by simp
  next
    case False
    then have "length ?c \<noteq> length ?p" by (intro cap_length [OF assms(1)]) simp
    then show ?thesis using drop by simp
  qed
  show ?thesis
  proof (cases "classifyLiveEnvelopeSequence m")
    case (Durable s)
    have b: "flow_safe (backfillOrRefresh now t f)" for t by (rule flow_safe_backfill [OF assms(2)])
    show ?thesis using queued b assms(2) Durable
      by (auto simp: enqueueMessage_def Let_def shouldQueueDurableLiveSequence_def)
  next
    case Fallback
    then show ?thesis using queued [of "someTarget (max 0 (publicSequence (le_latestSeq m)))"] assms(2)
      by (simp add: enqueueMessage_def Let_def split: if_splits)
  next
    case Invalid
    then show ?thesis using drop assms(2) by (simp add: enqueueMessage_def Let_def)
  qed
qed

lemma due_pending_sets:
  assumes "host_sort srt"
  shows "mset (due (takeDueLiveEnvelopes srt ms n) @ pending (takeDueLiveEnvelopes srt ms n)) = mset ms"
  using take_due_mset [OF assms, of ms n] by simp

lemma flush_split:
  assumes "host_sort srt" and "queue_ok f"
  defines "d \<equiv> takeDueLiveEnvelopes srt (fl_pendingMessages f) LIVE_ENVELOPE_MAX_BATCH_SIZE"
  shows "set (due d) \<union> set (pending d) = set (fl_pendingMessages f)"
    and "length (pending d) \<le> 4096"
    and "distinct (durables (pending d))"
    and "set (durables (due d)) \<union> set (durables (pending d)) \<subseteq> {fl_lastAppliedEventSeq f<..fl_lastQueuedEventSeq f}"
    and "\<not> ib_invalid (takeIncreasingLiveEnvelopes (due d) c)"
proof -
  have m: "mset (due d @ pending d) = mset (fl_pendingMessages f)"
    unfolding d_def by (rule due_pending_sets [OF assms(1)])
  show s: "set (due d) \<union> set (pending d) = set (fl_pendingMessages f)"
    using m by (metis set_append set_mset_mset)
  have "length (due d @ pending d) = length (fl_pendingMessages f)" using m by (metis size_mset)
  then show "length (pending d) \<le> 4096" using assms(2) by (simp add: queue_ok_def)
  have md: "mset (durables (due d) @ durables (pending d)) = mset (durables (fl_pendingMessages f))"
    using mset_durables [OF m] by simp
  then have "distinct (durables (due d) @ durables (pending d))"
    using assms(2) by (metis mset_eq_imp_distinct_iff queue_ok_def)
  then show "distinct (durables (pending d))" by simp
  have "set (durables (due d)) \<union> set (durables (pending d)) = set (durables (fl_pendingMessages f))"
    using md by (metis set_append set_mset_mset)
  then show "set (durables (due d)) \<union> set (durables (pending d)) \<subseteq> {fl_lastAppliedEventSeq f<..fl_lastQueuedEventSeq f}"
    using assms(2) by (simp add: queue_ok_def)
  show "\<not> ib_invalid (takeIncreasingLiveEnvelopes (due d) c)"
    using assms(2) s unfolding queue_ok_def takeIncreasingLiveEnvelopes_def foldl_takeStep_invalid by auto
qed

text \<open>A flush: the queue never holds an invalid envelope, so the batch is never flagged.\<close>

definition flushed :: "sorter \<Rightarrow> Flow \<Rightarrow> Flow" where
  "flushed srt f =
     (let d = takeDueLiveEnvelopes srt (fl_pendingMessages f) LIVE_ENVELOPE_MAX_BATCH_SIZE;
          batch = takeIncreasingLiveEnvelopes (due d) (fl_lastAppliedEventSeq f);
          f1 = (if ib_accepted batch = [] then f
             else setAppState (\<lambda>s. applyPublicEnvelopes s (ib_accepted batch) (Some True))
               (f\<lparr>fl_lastAppliedEventSeq := ib_cursor batch\<rparr>))
      in f1\<lparr>fl_pendingMessages := retainLiveEnvelopesAfterCursor (pending d) (fl_lastAppliedEventSeq f1)\<rparr>)"

lemma flushMessages_eq:
  assumes "host_sort srt" and "queue_ok f"
  shows "flushMessages srt now f =
    (if \<not> fl_active f \<or> fl_pendingMessages f = [] then f\<lparr>fl_flushScheduled := False\<rparr>
     else scheduleMessagesFlush (flushed srt (f\<lparr>fl_flushScheduled := False\<rparr>)))"
  using flush_split(5) [OF assms]
  by (simp add: flushMessages_def flushed_def Let_def)

lemma flush_cursor:
  assumes "host_sort srt" and "queue_ok f" and "0 \<le> fl_lastAppliedEventSeq f"
  defines "d \<equiv> takeDueLiveEnvelopes srt (fl_pendingMessages f) LIVE_ENVELOPE_MAX_BATCH_SIZE"
  defines "b \<equiv> takeIncreasingLiveEnvelopes (due d) (fl_lastAppliedEventSeq f)"
  shows "fl_lastAppliedEventSeq (flushed srt f) = ib_cursor b"
    and "fl_lastAppliedEventSeq f \<le> ib_cursor b"
    and "sorted_wrt (<) (durables (ib_accepted b))"
    and "set (durables (ib_accepted b)) \<subseteq> {fl_lastAppliedEventSeq f<..ib_cursor b}"
proof -
  have inv: "take_inv (fl_lastAppliedEventSeq f) b"
    using take_inv_take [of "fl_lastAppliedEventSeq f" "due d"] assms(3) by (simp add: b_def)
  then show "sorted_wrt (<) (durables (ib_accepted b))"
    and "set (durables (ib_accepted b)) \<subseteq> {fl_lastAppliedEventSeq f<..ib_cursor b}"
    by (auto simp: take_inv_def)
  show "fl_lastAppliedEventSeq f \<le> ib_cursor b"
    using take_cursor_ge [of "fl_lastAppliedEventSeq f" "due d"] assms(3) by (simp add: b_def)
  have "ib_accepted b = [] \<Longrightarrow> ib_cursor b = fl_lastAppliedEventSeq f"
    using inv by (simp add: take_inv_def)
  then show "fl_lastAppliedEventSeq (flushed srt f) = ib_cursor b"
    by (simp add: flushed_def Let_def setAppState_def flip: d_def b_def)
qed

lemma flow_safe_flushed:
  assumes "host_sort srt" and "flow_safe f" and "fl_active f"
  shows "flow_safe ((flushed srt f)\<lparr>fl_flushScheduled := True\<rparr>)"
proof -
  have q: "queue_ok f" and z: "0 \<le> fl_lastAppliedEventSeq f" using assms(2) by (simp_all add: flow_safe_def)
  let ?d = "takeDueLiveEnvelopes srt (fl_pendingMessages f) LIVE_ENVELOPE_MAX_BATCH_SIZE"
  let ?g = "flushed srt f"
  note d = flush_split [OF assms(1) q]
  have p: "fl_pendingMessages ?g = retainLiveEnvelopesAfterCursor (pending ?d) (fl_lastAppliedEventSeq ?g)"
    by (simp add: flushed_def Let_def)
  have fr: "fl_lastQueuedEventSeq ?g = fl_lastQueuedEventSeq f" "fl_recovery ?g = fl_recovery f"
    "fl_recoveryInFlight ?g = fl_recoveryInFlight f" "fl_resetRecoveryActive ?g = fl_resetRecoveryActive f"
    "fl_stateRefreshIsCursorReset ?g = fl_stateRefreshIsCursorReset f" "fl_stateRefreshFloor ?g = fl_stateRefreshFloor f"
    "fl_active ?g = fl_active f"
    by (simp_all add: flushed_def Let_def setAppState_def)
  have "durables (fl_pendingMessages ?g) = filter (\<lambda>s. fl_lastAppliedEventSeq ?g < s) (durables (pending ?d))"
    unfolding p by (rule durables_retain)
  then have "distinct (durables (fl_pendingMessages ?g))"
    "set (durables (fl_pendingMessages ?g)) \<subseteq> {fl_lastAppliedEventSeq ?g<..fl_lastQueuedEventSeq ?g}"
    using d(3,4) fr(1) by auto
  moreover have "length (fl_pendingMessages ?g) \<le> 4096" unfolding p by (rule le_trans [OF length_retain d(2)])
  moreover have "\<forall>m\<in>set (fl_pendingMessages ?g). classifyLiveEnvelopeSequence m \<noteq> Invalid"
    using set_retain [of "pending ?d"] d(1) q unfolding p queue_ok_def by blast
  moreover have "0 \<le> fl_lastAppliedEventSeq ?g" using flush_cursor(1,2) [OF assms(1) q z] z by simp
  ultimately show ?thesis using assms(2,3) fr by (simp add: flow_safe_def queue_ok_def flight_ok_def)
qed

lemma flushed_scheduled: "flushed srt (f\<lparr>fl_flushScheduled := b\<rparr>) = (flushed srt f)\<lparr>fl_flushScheduled := b\<rparr>"
  by (simp add: flushed_def Let_def setAppState_def)

lemma flow_safe_flush:
  assumes "host_sort srt" and "flow_safe f"
  shows "flow_safe (flushMessages srt now f)"
proof -
  have q: "queue_ok f" using assms(2) by (simp add: flow_safe_def)
  show ?thesis
  proof (cases "\<not> fl_active f \<or> fl_pendingMessages f = []")
    case True
    then have "fl_pendingMessages f = []" using q unfolding queue_ok_def by blast
    then have "flow_safe (f\<lparr>fl_flushScheduled := False\<rparr>)"
      using assms(2) by (simp add: flow_safe_def queue_ok_def flight_ok_def)
    then show ?thesis using flushMessages_eq [OF assms(1) q, of now] True by simp
  next
    case False
    then have "flow_safe ((flushed srt f)\<lparr>fl_flushScheduled := True\<rparr>)"
      by (intro flow_safe_flushed [OF assms]) simp
    then have "flow_safe (scheduleMessagesFlush (flushed srt (f\<lparr>fl_flushScheduled := False\<rparr>)))"
      unfolding flushed_scheduled by (intro flow_safe_scheduleFlush) simp
    then show ?thesis using flushMessages_eq [OF assms(1) q, of now] False by simp
  qed
qed

lemma flow_safe_dropFlush: "flow_safe f \<Longrightarrow> flow_safe ((dropQueue f)\<lparr>fl_flushScheduled := b\<rparr>)"
  by (simp add: flow_safe_def queue_ok_def dropQueue_def flight_ok_def)

lemma flow_safe_socketMessage:
  assumes "host_sort srt" and "flow_safe f" and "fl_active f"
  shows "flow_safe (socketMessage srt now m f)"
proof -
  have i: "flow_safe (f\<lparr>fl_latestInboundSeq := x, fl_latestObservedSeq := y\<rparr>)" for x y
    by (intro flow_safe_intros assms(2))
  have e: "flow_safe (enqueueMessage srt now m (f\<lparr>fl_latestInboundSeq := x, fl_latestObservedSeq := y\<rparr>))" for x y
    by (rule flow_safe_enqueue [OF assms(1) i]) (simp add: assms(3))
  show ?thesis
    using e by (cases "le_kind m")
      (auto simp: socketMessage_def Let_def intro!: assms(2) flow_safe_intros flow_safe_dropFlush i)
qed

lemma flow_safe_unmount: "flow_safe f \<Longrightarrow> flow_safe (unmount f)"
  by (simp add: flow_safe_def queue_ok_def dropQueue_def flight_ok_def unmount_def)

lemma flow_safe_step:
  assumes "host_sort srt" and "flow_safe f"
  shows "flow_safe (flow_step srt num now i f)"
  by (cases i; simp only: flow_step.simps split: if_split; intro conjI impI assms flow_safe_flush
      flow_safe_socketMessage flow_safe_pageArrived flow_safe_stateArrived flow_safe_applyBootstrap
      flow_safe_applyFullState flow_safe_unmount flow_safe_refreshState flow_safe_intros; assumption?)

lemma flow_safe_initial: "flow_safe initialFlow"
  by (simp add: flow_safe_def queue_ok_def flight_ok_def initialFlow_def)

definition flow_run :: "sorter \<Rightarrow> (js_number \<Rightarrow> string) \<Rightarrow> (js_number \<times> flow_input) list \<Rightarrow> Flow \<Rightarrow> Flow" where
  "flow_run srt num inputs f = foldl (\<lambda>f (now, i). flow_step srt num now i f) f inputs"

lemma flow_safe_run: "host_sort srt \<Longrightarrow> flow_safe f \<Longrightarrow> flow_safe (flow_run srt num is f)"
  unfolding flow_run_def by (rule foldl_invariant [of flow_safe]) (auto intro: flow_safe_step)

section \<open>The applied cursor\<close>

text \<open>Between two snapshots (generations) the cursor only moves forward.\<close>

definition forward :: "Flow \<Rightarrow> Flow \<Rightarrow> bool" where
  "forward f g \<longleftrightarrow> fl_eventCursorGeneration f \<le> fl_eventCursorGeneration g \<and>
     (fl_eventCursorGeneration g = fl_eventCursorGeneration f \<longrightarrow>
        fl_lastAppliedEventSeq f \<le> fl_lastAppliedEventSeq g)"

lemma forward_refl [simp]: "forward f f"
  by (simp add: forward_def)

lemma forward_trans: "forward f g \<Longrightarrow> forward g h \<Longrightarrow> forward f h"
  by (auto simp: forward_def)

lemma forward_same: "fl_eventCursorGeneration g = fl_eventCursorGeneration f \<Longrightarrow>
    fl_lastAppliedEventSeq f \<le> fl_lastAppliedEventSeq g \<Longrightarrow> forward f g"
  by (simp add: forward_def)

lemma backfill_frame [simp]:
  "fl_eventCursorGeneration (backfillOrRefresh now t f) = fl_eventCursorGeneration f"
  "fl_active (backfillOrRefresh now t f) = fl_active f"
  "fl_resetRecoveryActive (backfillOrRefresh now t f) = fl_resetRecoveryActive f"
  "fl_stateRefreshInFlight (backfillOrRefresh now t f) = fl_stateRefreshInFlight f"
  "fl_stateRefreshRetryTimer (backfillOrRefresh now t f) = fl_stateRefreshRetryTimer f"
  by (simp_all add: backfillOrRefresh_def Let_def)

lemma applied_backfill: "fl_lastAppliedEventSeq f \<le> fl_lastAppliedEventSeq (backfillOrRefresh now t f)"
  by (auto simp: backfillOrRefresh_def Let_def intro: applied_recoverHead)

lemma forward_backfill: "forward f g \<Longrightarrow> forward f (backfillOrRefresh now t g)"
  by (rule forward_trans) (auto intro: forward_same applied_backfill)

lemma recoverReturned_frame [simp]:
  "fl_eventCursorGeneration (recoverReturned now rv r f) = fl_eventCursorGeneration f"
  "fl_active (recoverReturned now rv r f) = fl_active f"
  "fl_recoveryRetryTimer (recoverReturned now rv r f) = fl_recoveryRetryTimer f"
  by (simp_all add: recoverReturned_def Let_def)

lemma applied_recoverReturned: "fl_lastAppliedEventSeq f \<le> fl_lastAppliedEventSeq (recoverReturned now rv r f)"
proof -
  have "fl_lastAppliedEventSeq f \<le> fl_lastAppliedEventSeq (recoverHead now (settleResult now r (f\<lparr>fl_recovery := None\<rparr>)))"
    using applied_settle [of "f\<lparr>fl_recovery := None\<rparr>" now r] by (intro applied_recoverHead) simp
  then show ?thesis by (auto simp: recoverReturned_def Let_def intro: applied_recoverHead)
qed

lemma recoverThrew_frame [simp]:
  "fl_eventCursorGeneration (recoverThrew rv f) = fl_eventCursorGeneration f"
  "fl_lastAppliedEventSeq (recoverThrew rv f) = fl_lastAppliedEventSeq f"
  "fl_active (recoverThrew rv f) = fl_active f"
  by (simp_all add: recoverThrew_def Let_def split: option.split)

text \<open>The sequences that a step gives to the reducer.\<close>

definition flow_applied :: "sorter \<Rightarrow> flow_input \<Rightarrow> Flow \<Rightarrow> js_number list" where
  "flow_applied srt i f =
     (case i of
        Frame \<Rightarrow> if fl_flushScheduled f \<and> fl_active f then
            durables (ib_accepted (takeIncreasingLiveEnvelopes
              (due (takeDueLiveEnvelopes srt (fl_pendingMessages f) LIVE_ENVELOPE_MAX_BATCH_SIZE))
              (fl_lastAppliedEventSeq f))) else []
      | PageArrived (Inr response) \<Rightarrow>
          (case fl_recovery f of None \<Rightarrow> []
           | Some rv \<Rightarrow> (case fst (recoverTurn (rv_cursor rv) (rv_latestSeq rv) (rv_pages rv) response) of
               None \<Rightarrow> []
             | Some es \<Rightarrow> if fl_active f \<and> rv_generation rv = fl_eventCursorGeneration f
                 then map ev_seq (unappliedEvents (fl_lastAppliedEventSeq f) es) else []))
      | _ \<Rightarrow> [])"

lemma applied_page:
  assumes "0 \<le> fl_lastAppliedEventSeq f" and "fl_active f" and "gen = fl_eventCursorGeneration f"
  shows "set (map ev_seq (unappliedEvents (fl_lastAppliedEventSeq f) es)) \<subseteq>
    {fl_lastAppliedEventSeq f<..fl_lastAppliedEventSeq (applyPage gen es f)}"
proof (cases rule: applyPage_cases [of gen es f])
  case skipped
  then show ?thesis using assms(2,3) by simp
next
  case (applied us c kept)
  let ?s = "map ev_seq (unappliedEvents (fl_lastAppliedEventSeq f) es)"
  have "s \<le> c" if "s \<in> set ?s" for s
    using sorted_le_last [OF unapplied_sorted that] applied(1-3) by (simp add: last_map)
  then show ?thesis using unapplied_above [OF assms(1)] by (auto simp: applied(7) setAppState_def)
qed

lemma pageArrived_applied:
  assumes "0 \<le> fl_lastAppliedEventSeq f"
  shows "forward f (pageArrived now r f) \<and> sorted (flow_applied srt (PageArrived r) f) \<and>
    set (flow_applied srt (PageArrived r) f) \<subseteq> {fl_lastAppliedEventSeq f<..fl_lastAppliedEventSeq (pageArrived now r f)}"
proof (cases "fl_recovery f")
  case None
  then show ?thesis by (cases r) (simp_all add: pageArrived_def flow_applied_def)
next
  case (Some rv)
  show ?thesis
  proof (cases r)
    case (Inl e)
    then show ?thesis using Some by (simp add: pageArrived_def flow_applied_def forward_same)
  next
    case (Inr resp)
    obtain es out where t: "recoverTurn (rv_cursor rv) (rv_latestSeq rv) (rv_pages rv) resp = (es, out)"
      by fastforce
    let ?f1 = "case es of None \<Rightarrow> f | Some e \<Rightarrow> applyPage (rv_generation rv) e f"
    have g1: "fl_eventCursorGeneration ?f1 = fl_eventCursorGeneration f" by (simp split: option.split)
    have a1: "fl_lastAppliedEventSeq f \<le> fl_lastAppliedEventSeq ?f1"
      using applyPage_applied [OF assms] by (simp split: option.split)
    have g2: "fl_eventCursorGeneration (pageArrived now r f) = fl_eventCursorGeneration f"
      and a2: "fl_lastAppliedEventSeq ?f1 \<le> fl_lastAppliedEventSeq (pageArrived now r f)"
      using Inr Some t g1 applied_recoverReturned
      by (auto simp: pageArrived_def Let_def split: sum.split)
    have l: "flow_applied srt (PageArrived r) f = (case es of None \<Rightarrow> []
        | Some e \<Rightarrow> if fl_active f \<and> rv_generation rv = fl_eventCursorGeneration f
            then map ev_seq (unappliedEvents (fl_lastAppliedEventSeq f) e) else [])"
      using Inr Some t by (simp add: flow_applied_def)
    have "set (flow_applied srt (PageArrived r) f) \<subseteq> {fl_lastAppliedEventSeq f<..fl_lastAppliedEventSeq ?f1}"
    proof (cases es)
      case (Some e)
      show ?thesis
      proof (cases "fl_active f \<and> rv_generation rv = fl_eventCursorGeneration f")
        case True
        then show ?thesis using applied_page [OF assms, of "rv_generation rv" e] Some by (simp add: l)
      next
        case False
        then show ?thesis using Some by (auto simp: l)
      qed
    qed (simp add: l)
    then have "set (flow_applied srt (PageArrived r) f) \<subseteq>
        {fl_lastAppliedEventSeq f<..fl_lastAppliedEventSeq (pageArrived now r f)}"
      using a2 by fastforce
    moreover have "sorted (flow_applied srt (PageArrived r) f)"
      using unapplied_sorted unfolding l by (simp split: option.split)
    ultimately show ?thesis using g2 a1 a2 by (auto intro: forward_same)
  qed
qed

lemma sorted_strict: "sorted_wrt (<) xs \<Longrightarrow> sorted (xs :: js_number list)"
  by (rule strict_sorted_imp_sorted)

lemma scheduleFlush_frame [simp]:
  "fl_lastAppliedEventSeq (scheduleMessagesFlush f) = fl_lastAppliedEventSeq f"
  "fl_eventCursorGeneration (scheduleMessagesFlush f) = fl_eventCursorGeneration f"
  by (simp_all add: scheduleMessagesFlush_def)

lemma flush_applied:
  assumes "host_sort srt" and "flow_safe f" and "fl_flushScheduled f"
  shows "forward f (flushMessages srt now f) \<and> sorted (flow_applied srt Frame f) \<and>
    set (flow_applied srt Frame f) \<subseteq> {fl_lastAppliedEventSeq f<..fl_lastAppliedEventSeq (flushMessages srt now f)}"
proof -
  have q: "queue_ok f" "0 \<le> fl_lastAppliedEventSeq f" using assms(2) by (simp_all add: flow_safe_def)
  show ?thesis
  proof (cases "fl_active f \<and> fl_pendingMessages f \<noteq> []")
    case False
    have "fl_pendingMessages f = []" if "fl_active f" using False that by simp
    moreover have "durables (ib_accepted (takeIncreasingLiveEnvelopes (due (takeDueLiveEnvelopes srt [] n)) c)) = []" for n c
      using take_due_mset [OF assms(1), of "[]" n] by (simp add: takeIncreasingLiveEnvelopes_def)
    ultimately show ?thesis using False assms(3) flushMessages_eq [OF assms(1) q(1), of now]
      by (auto simp: flow_applied_def forward_def)
  next
    case True
    have eq: "flushMessages srt now f = scheduleMessagesFlush (flushed srt (f\<lparr>fl_flushScheduled := False\<rparr>))"
      using flushMessages_eq [OF assms(1) q(1), of now] True by simp
    have g: "fl_eventCursorGeneration (flushed srt f) = fl_eventCursorGeneration f"
      by (simp add: flushed_def Let_def setAppState_def)
    note c = flush_cursor [OF assms(1) q]
    show ?thesis using c sorted_strict [OF c(3)] g True assms(3)
      by (simp add: eq flushed_scheduled flow_applied_def forward_def)
  qed
qed

lemma forward_snapshot: "forward f (snd (applyPublicSnapshot num l m f))"
  by (cases rule: applyPublicSnapshot_cases [of num l m f]) (simp_all add: forward_def)

lemma forward_same_safe: "same_safe f g \<Longrightarrow> forward f g"
  by (simp add: same_defs forward_def)

lemma forward_dropQueue [simp]: "forward f (dropQueue f)" "forward f ((dropQueue f)\<lparr>fl_flushScheduled := b\<rparr>)"
  by (simp_all add: dropQueue_def forward_def)

lemma forward_enqueue: "forward f (enqueueMessage srt now m f)"
proof (cases "classifyLiveEnvelopeSequence m")
  case (Durable s)
  then show ?thesis
    by (simp add: enqueueMessage_def Let_def forward_backfill) (simp add: forward_def)
next
  case Fallback
  then show ?thesis
    by (simp add: enqueueMessage_def Let_def forward_backfill) (simp add: forward_def)
next
  case Invalid
  then show ?thesis by (simp add: enqueueMessage_def Let_def forward_backfill)
qed

lemma forward_socketMessage: "forward f (socketMessage srt now m f)"
proof -
  have i: "forward f (f\<lparr>fl_latestInboundSeq := x, fl_latestObservedSeq := y\<rparr>)" for x y
    by (simp add: forward_def)
  have e: "forward f (enqueueMessage srt now m (f\<lparr>fl_latestInboundSeq := x, fl_latestObservedSeq := y\<rparr>))" for x y
    by (rule forward_trans [OF i forward_enqueue])
  have h: "forward f (backfillOrRefresh now t (setAppState h g))" if "forward f g" for t h g
    by (rule forward_backfill, rule forward_trans [OF that]) (simp add: forward_def setAppState_def)
  have d: "forward f ((dropQueue (f\<lparr>fl_latestInboundSeq := x, fl_latestObservedSeq := y\<rparr>))\<lparr>fl_flushScheduled := b\<rparr>)" for x y b
    by (simp add: forward_def dropQueue_def)
  have p: "forward f (setAppState h (f\<lparr>fl_latestInboundSeq := x, fl_latestObservedSeq := y\<rparr>))" for h x y
    by (simp add: forward_def setAppState_def)
  show ?thesis unfolding socketMessage_def Let_def
    by (cases "le_kind m"; simp only: envelope_kind.case; intro e h d i p)
qed

lemma forward_stateArrived: "forward f (stateArrived now num r f)"
proof (cases rule: stateArrived_cases [of f now num r])
  case (again g)
  then show ?thesis by (simp add: same_defs forward_def scheduleStateRefresh_def)
next
  case (accepted l g)
  have g: "forward f g"
    using forward_snapshot [of "f\<lparr>fl_fullStateHydrated := True\<rparr>" num l "Some (fl_stateRefreshFloor f)"] accepted(4)
    by (simp add: forward_def)
  have "forward g (stateAccepted now l g)"
    unfolding stateAccepted_def Let_def by (rule forward_backfill) (simp add: forward_def)
  from forward_trans [OF g this] show ?thesis by (simp add: accepted(5) forward_def)
qed (simp_all add: forward_def)

lemma forward_applyFullState: "forward f (applyFullState num n l f)"
proof -
  let ?f1 = "f\<lparr>fl_hydrationRetryAttempt := 0, fl_fullStateHydrated := True\<rparr>"
  have g: "forward f (snd (applyPublicSnapshot num l None ?f1))"
    by (rule forward_trans [OF _ forward_snapshot]) (simp add: forward_def)
  show ?thesis
    by (cases "applyPublicSnapshot num l None ?f1")
      (use g in \<open>auto simp: applyFullState_def Let_def forward_def setAppState_def scheduleCurrentStateRetry_def
        reportStateHydrationError_def\<close>)
qed

lemma forward_applyBootstrap: "forward f (applyBootstrap num b f)"
proof -
  have "forward f (snd (applyPublicSnapshot num (bootstrapToLiveState b) None
      (f\<lparr>fl_topologySeqFloor := x, fl_publicMapConfig := c, fl_bootstrapClusters := cl\<rparr>)))" for x c cl
    by (rule forward_trans [OF _ forward_snapshot]) (simp add: forward_def)
  then show ?thesis by (auto simp: applyBootstrap_def Let_def forward_def)
qed

text \<open>One step: the cursor moves forward and covers exactly what the step applied.\<close>

definition step_ok :: "Flow \<Rightarrow> Flow \<Rightarrow> js_number list \<Rightarrow> bool" where
  "step_ok f g applied \<longleftrightarrow> forward f g \<and> sorted applied \<and>
     set applied \<subseteq> {fl_lastAppliedEventSeq f<..} \<and>
     (fl_eventCursorGeneration g = fl_eventCursorGeneration f \<longrightarrow> set applied \<subseteq> {..fl_lastAppliedEventSeq g})"

lemma step_okI:
  "forward f g \<and> sorted xs \<and> set xs \<subseteq> {fl_lastAppliedEventSeq f<..fl_lastAppliedEventSeq g} \<Longrightarrow> step_ok f g xs"
  unfolding step_ok_def by (simp add: subset_iff)

lemma step_ok_step:
  assumes "host_sort srt" and "flow_safe f"
  shows "step_ok f (flow_step srt num now i f) (flow_applied srt i f)"
proof -
  have z: "0 \<le> fl_lastAppliedEventSeq f" using assms(2) by (simp add: flow_safe_def)
  have [simp]: "forward f (refreshState m b (f\<lparr>fl_stateRefreshRetryTimer := False\<rparr>))" for m b
    by (simp add: forward_def)
  have [simp]: "forward f (unmount f)" "forward f (f\<lparr>fl_socketStatus := st\<rparr>)" "forward f (f\<lparr>fl_hydrationRetryTimer := False\<rparr>)" for st
    by (simp_all add: forward_def unmount_def dropQueue_def)
  have [simp]: "forward f (backfillOrRefresh now t (f\<lparr>fl_recoveryRetryTimer := False\<rparr>))"
    "forward f (backfillOrRefresh now t f)" for t
    by (rule forward_backfill, simp add: forward_def)+
  have o: "step_ok f (flow_step srt num now i f) []" if "\<And>r. i \<noteq> PageArrived r" "i \<noteq> Frame"
    using that
    by (cases i) (auto simp: step_ok_def forward_socketMessage forward_stateArrived forward_applyFullState
        forward_applyBootstrap forward_same_safe [OF same_safe_rendered] forward_same_safe [OF same_safe_report])
  show ?thesis
  proof (cases i)
    case Frame
    show ?thesis
    proof (cases "fl_flushScheduled f")
      case True
      then show ?thesis using step_okI [OF flush_applied [OF assms True, of now]] Frame by simp
    qed (simp add: Frame flow_applied_def step_ok_def)
  next
    case (PageArrived r)
    then show ?thesis using step_okI [OF pageArrived_applied [OF z, of now r srt]] by simp
  qed (use o in \<open>simp_all add: flow_applied_def\<close>)
qed

end
