(* ===== verification/Live_Flow_Progress.thy ===== *)
theory Live_Flow_Progress
  imports Live_Flow_Safety
begin

text \<open>
  Runs of the live flow: events reach the reducer in order, a wanted recovery always has something
  that will carry it on, and the defect by which an untargeted recovery is dropped.
\<close>

section \<open>Runs\<close>

fun flow_log :: "sorter \<Rightarrow> (js_number \<Rightarrow> string) \<Rightarrow> (js_number \<times> flow_input) list \<Rightarrow> Flow \<Rightarrow> js_number list" where
  "flow_log srt num [] f = []"
| "flow_log srt num ((now, i) # is) f = flow_applied srt i f @ flow_log srt num is (flow_step srt num now i f)"

lemma flow_run_Cons [simp]: "flow_run srt num ((now, i) # is) f = flow_run srt num is (flow_step srt num now i f)"
  by (simp add: flow_run_def)

lemma flow_run_Nil [simp]: "flow_run srt num [] f = f"
  by (simp add: flow_run_def)

lemma step_ok_trans:
  assumes "step_ok f g xs" and "step_ok g h ys"
    and "fl_eventCursorGeneration h = fl_eventCursorGeneration f"
  shows "step_ok f h (xs @ ys)"
proof -
  have g: "fl_eventCursorGeneration g = fl_eventCursorGeneration f"
    using assms by (simp add: step_ok_def forward_def)
  have le: "fl_lastAppliedEventSeq f \<le> fl_lastAppliedEventSeq g" "fl_lastAppliedEventSeq g \<le> fl_lastAppliedEventSeq h"
    using assms g by (simp_all add: step_ok_def forward_def)
  have x: "set xs \<subseteq> {fl_lastAppliedEventSeq f<..fl_lastAppliedEventSeq g}"
    and y: "set ys \<subseteq> {fl_lastAppliedEventSeq g<..fl_lastAppliedEventSeq h}"
    using assms g by (auto simp: step_ok_def)
  have "a \<le> b" if "a \<in> set xs" "b \<in> set ys" for a b
    using subsetD [OF x that(1)] subsetD [OF y that(2)] by simp
  then have s: "sorted (xs @ ys)" using assms by (simp add: sorted_append step_ok_def)
  have "set (xs @ ys) \<subseteq> {fl_lastAppliedEventSeq f<..fl_lastAppliedEventSeq h}"
  proof
    fix a assume "a \<in> set (xs @ ys)"
    then consider "a \<in> {fl_lastAppliedEventSeq f<..fl_lastAppliedEventSeq g}"
      | "a \<in> {fl_lastAppliedEventSeq g<..fl_lastAppliedEventSeq h}" using x y by auto
    then show "a \<in> {fl_lastAppliedEventSeq f<..fl_lastAppliedEventSeq h}" using le by cases auto
  qed
  moreover have "forward f h" using assms(1,2) forward_trans by (auto simp: step_ok_def)
  ultimately show ?thesis using s by (intro step_okI) simp
qed

lemma forward_run: "host_sort srt \<Longrightarrow> flow_safe f \<Longrightarrow> forward f (flow_run srt num is f)"
proof (induction "is" arbitrary: f)
  case (Cons x "is")
  obtain now i where x: "x = (now, i)" by fastforce
  have "forward f (flow_step srt num now i f)" using step_ok_step [OF Cons.prems] by (simp add: step_ok_def)
  then show ?case
    using Cons.IH [OF Cons.prems(1) flow_safe_step [OF Cons.prems]] forward_trans by (simp add: x)
qed simp

lemma flow_log_ok:
  assumes "host_sort srt" and "flow_safe f"
    and "fl_eventCursorGeneration (flow_run srt num is f) = fl_eventCursorGeneration f"
  shows "step_ok f (flow_run srt num is f) (flow_log srt num is f)"
  using assms(2,3)
proof (induction "is" arbitrary: f)
  case Nil
  then show ?case by (simp add: step_ok_def)
next
  case (Cons x "is")
  obtain now i where x: "x = (now, i)" by fastforce
  let ?g = "flow_step srt num now i f"
  have g: "flow_safe ?g" by (rule flow_safe_step [OF assms(1) Cons.prems(1)])
  have s: "step_ok f ?g (flow_applied srt i f)" by (rule step_ok_step [OF assms(1) Cons.prems(1)])
  have "fl_eventCursorGeneration (flow_run srt num is ?g) = fl_eventCursorGeneration ?g"
    using s forward_run [OF assms(1) g, of num "is"] Cons.prems(2) by (simp add: x step_ok_def forward_def)
  from step_ok_trans [OF s Cons.IH [OF g this]] Cons.prems(2) show ?case by (simp add: x)
qed

section \<open>Progress\<close>

definition flow_live :: "Flow \<Rightarrow> bool" where
  "flow_live f \<longleftrightarrow>
     (recoveryWanted f \<longrightarrow> fl_recoveryInFlight f \<or> fl_resetRecoveryActive f \<or> fl_recoveryRetryTimer f) \<and>
     (fl_active f \<and> fl_resetRecoveryActive f \<longrightarrow> fl_stateRefreshInFlight f \<or> fl_stateRefreshRetryTimer f)"

definition refresh_live :: "Flow \<Rightarrow> bool" where
  "refresh_live f \<longleftrightarrow> (fl_active f \<and> fl_resetRecoveryActive f \<longrightarrow> fl_stateRefreshInFlight f \<or> fl_stateRefreshRetryTimer f)"

lemma recoverHead_wanted:
  "fl_recoveryInFlight f \<Longrightarrow> recoveryWanted (recoverHead now f) \<Longrightarrow> fl_recoveryInFlight (recoverHead now f)"
proof -
  assume a: "fl_recoveryInFlight f"
  have "recoveryWanted (recoverHead now f) \<longrightarrow> fl_recoveryInFlight (recoverHead now f)"
    by (rule recoverHead_induct [where P = fl_recoveryInFlight]) (use a in \<open>simp_all add: recoveryWanted_def\<close>)
  then show "recoveryWanted (recoverHead now f) \<Longrightarrow> ?thesis" by simp
qed

lemma flow_live_backfill: "refresh_live f \<Longrightarrow> flow_live (backfillOrRefresh now t f)"
proof -
  assume r: "refresh_live f"
  have "recoveryWanted (backfillOrRefresh now t f) \<longrightarrow>
      fl_recoveryInFlight (backfillOrRefresh now t f) \<or> fl_resetRecoveryActive (backfillOrRefresh now t f)"
    by (auto simp: backfillOrRefresh_def Let_def intro: recoverHead_wanted)
  then show ?thesis using r by (auto simp: flow_live_def refresh_live_def)
qed

lemma flow_live_refresh: "flow_live f \<Longrightarrow> refresh_live f"
  by (simp add: flow_live_def refresh_live_def)

text \<open>Updates that keep the queue of requests and do not move the cursor back.\<close>

definition same_live :: "Flow \<Rightarrow> Flow \<Rightarrow> bool" where
  "same_live f g \<longleftrightarrow> fl_active g = fl_active f \<and> fl_queuedRecoveryTarget g = fl_queuedRecoveryTarget f \<and>
     fl_queuedRecoveryPoll g = fl_queuedRecoveryPoll f \<and> fl_recoveryInFlight g = fl_recoveryInFlight f \<and>
     fl_resetRecoveryActive g = fl_resetRecoveryActive f \<and> fl_recoveryRetryTimer g = fl_recoveryRetryTimer f \<and>
     fl_stateRefreshInFlight g = fl_stateRefreshInFlight f \<and>
     fl_stateRefreshRetryTimer g = fl_stateRefreshRetryTimer f \<and>
     fl_lastAppliedEventSeq f \<le> fl_lastAppliedEventSeq g"

lemma flow_live_same: "same_live f g \<Longrightarrow> flow_live f \<Longrightarrow> flow_live g"
  by (auto simp: same_live_def flow_live_def recoveryWanted_def)

lemma same_live_dropQueue: "same_live f (dropQueue f)"
  by (simp add: same_live_def dropQueue_def)

lemma flow_live_enqueue: "flow_live f \<Longrightarrow> flow_live (enqueueMessage srt now m f)"
proof -
  assume a: "flow_live f"
  have b: "flow_live (backfillOrRefresh now t (dropQueue f))" "flow_live (backfillOrRefresh now t f)" for t
    using flow_live_same [OF same_live_dropQueue a] a by (simp_all add: flow_live_backfill flow_live_refresh)
  have s: "flow_live (scheduleMessagesFlush (f\<lparr>fl_pendingMessages := p, fl_lastQueuedEventSeq := q\<rparr>))"
    "flow_live (scheduleMessagesFlush (f\<lparr>fl_pendingMessages := p\<rparr>))" for p q
    by (rule flow_live_same [OF _ a], simp add: same_live_def scheduleMessagesFlush_def)+
  show ?thesis using a b s
    by (cases "classifyLiveEnvelopeSequence m") (simp_all add: enqueueMessage_def Let_def)
qed

lemma flow_live_socketMessage: "flow_live f \<Longrightarrow> flow_live (socketMessage srt now m f)"
proof -
  assume a: "flow_live f"
  let ?i = "\<lambda>x y. f\<lparr>fl_latestInboundSeq := x, fl_latestObservedSeq := y\<rparr>"
  have e: "flow_live (enqueueMessage srt now m (?i x y))" for x y
    by (rule flow_live_enqueue, rule flow_live_same [OF _ a]) (simp add: same_live_def)
  have h: "flow_live (backfillOrRefresh now t (setAppState h (?i x y)))" for t h x y
    by (rule flow_live_backfill, rule flow_live_refresh, rule flow_live_same [OF _ a])
      (simp add: same_live_def setAppState_def)
  have d: "flow_live (backfillOrRefresh now t (setAppState h ((dropQueue (?i x y))\<lparr>fl_flushScheduled := b\<rparr>)))" for t h x y b
    by (rule flow_live_backfill, rule flow_live_refresh, rule flow_live_same [OF _ a])
      (simp add: same_live_def setAppState_def dropQueue_def)
  have p: "flow_live (setAppState h (?i x y))" for h x y
    by (rule flow_live_same [OF _ a]) (simp add: same_live_def setAppState_def)
  show ?thesis unfolding socketMessage_def Let_def
    by (cases "le_kind m"; simp only: envelope_kind.case; intro e h d p)
qed

lemma flow_live_recoverHead: "fl_recoveryInFlight f \<Longrightarrow> refresh_live f \<Longrightarrow> flow_live (recoverHead now f)"
  using recoverHead_wanted [of f now] by (auto simp: flow_live_def refresh_live_def)

lemma refreshState_live: "refresh_live (refreshState m b f)"
  by (simp add: refresh_live_def refreshState_def scheduleStateRefresh_def Let_def)

lemma resetCursorEpoch_live: "flow_live ((resetCursorEpoch r f)\<lparr>fl_recoveryInFlight := b\<rparr>)"
proof -
  have "refresh_live (resetCursorEpoch r f)"
    unfolding resetCursorEpoch_def Let_def by (rule refreshState_live)
  then show ?thesis using resetCursorEpoch_reset(1) [of r f] by (simp add: flow_live_def refresh_live_def)
qed

lemma flow_live_recoverReturned:
  assumes "fl_recoveryInFlight f" and "refresh_live f"
  shows "flow_live (recoverReturned now rv r f)"
proof -
  have "flow_live (recoverHead now (settleResult now r (f\<lparr>fl_recovery := None\<rparr>)))"
    "flow_live (recoverHead now (f\<lparr>fl_recovery := None, fl_queuedRecoveryTarget := t\<rparr>))" for t
    using assms by (auto intro!: flow_live_recoverHead simp: refresh_live_def)
  then show ?thesis using resetCursorEpoch_live by (simp add: recoverReturned_def Let_def)
qed

lemma flow_live_recoverThrew: "flow_live f \<Longrightarrow> flow_live (recoverThrew rv f)"
  by (auto simp: flow_live_def recoverThrew_def recoveryWanted_def Let_def split: option.split)

lemma flow_live_pageArrived:
  assumes "flow_safe f" and "flow_live f"
  shows "flow_live (pageArrived now r f)"
proof (cases "fl_recovery f")
  case (Some rv)
  have fl: "fl_recoveryInFlight f" using assms(1) Some by (simp add: flow_safe_def flight_ok_def)
  show ?thesis
  proof (cases r)
    case (Inl e)
    then show ?thesis using Some assms(2) by (simp add: pageArrived_def flow_live_recoverThrew)
  next
    case (Inr resp)
    obtain es out where t: "recoverTurn (rv_cursor rv) (rv_latestSeq rv) (rv_pages rv) resp = (es, out)"
      by fastforce
    let ?f1 = "case es of None \<Rightarrow> f | Some e \<Rightarrow> applyPage (rv_generation rv) e f"
    have z: "0 \<le> fl_lastAppliedEventSeq f" using assms(1) by (simp add: flow_safe_def)
    have "same_live f ?f1"
      using applyPage_applied [OF z] by (simp add: same_live_def split: option.split)
    then have l1: "flow_live ?f1" "fl_recoveryInFlight ?f1" "refresh_live ?f1"
      using flow_live_same assms(2) fl by (auto simp: same_live_def flow_live_refresh)
    then have "flow_live (?f1\<lparr>fl_recovery := x\<rparr>)" for x
      by (simp add: flow_live_def recoveryWanted_def)
    then show ?thesis
      using l1 Inr Some t by (auto simp: pageArrived_def Let_def intro: flow_live_recoverReturned split: sum.split)
  qed
qed (simp add: pageArrived_def assms)

lemma flow_live_stateArrived:
  assumes "flow_live f"
  shows "flow_live (stateArrived now num r f)"
proof (cases rule: stateArrived_cases [of f now num r])
  case idle
  then show ?thesis using assms by simp
next
  case inactive
  then show ?thesis by (simp add: flow_live_def recoveryWanted_def)
next
  case (again g)
  then show ?thesis using assms
    by (auto simp: same_defs flow_live_def recoveryWanted_def scheduleStateRefresh_def)
next
  case (accepted l g)
  let ?h = "stateAccepted now l g"
  have "flow_live ?h" "\<not> fl_resetRecoveryActive ?h"
    unfolding stateAccepted_def Let_def by (rule flow_live_backfill) (simp_all add: refresh_live_def)
  then show ?thesis by (simp add: accepted(5) flow_live_def recoveryWanted_def)
qed

lemma flow_live_refreshTimer:
  assumes "flow_safe f" and "flow_live f"
  shows "flow_live (refreshState (fl_stateRefreshFloor f) False (f\<lparr>fl_stateRefreshRetryTimer := False\<rparr>))"
proof -
  let ?g = "refreshState (fl_stateRefreshFloor f) False (f\<lparr>fl_stateRefreshRetryTimer := False\<rparr>)"
  have "fl_resetRecoveryActive ?g = fl_resetRecoveryActive f"
    using assms(1) by (simp add: refreshState_def scheduleStateRefresh_def Let_def flow_safe_def)
  then show ?thesis using assms(2) refreshState_live [of "fl_stateRefreshFloor f" False]
    by (simp add: flow_live_def recoveryWanted_def refresh_live_def)
qed

text \<open>
  The assumption about the environment: the hydration never moves the applied cursor back within
  the step, that is, it does not accept a snapshot older than the events applied. (An older one
  passes the test of \<open>applyPublicSnapshot\<close> only when the cursor had outrun every sequence observed.)
\<close>

definition hydrates_forward :: "(js_number \<Rightarrow> string) \<Rightarrow> flow_input \<Rightarrow> Flow \<Rightarrow> bool" where
  "hydrates_forward num i f =
     (case i of
        BootstrapArrived b \<Rightarrow> fl_lastAppliedEventSeq f \<le> fl_lastAppliedEventSeq (applyBootstrap num b f)
      | FullStateArrived n l \<Rightarrow> fl_lastAppliedEventSeq f \<le> fl_lastAppliedEventSeq (applyFullState num n l f)
      | _ \<Rightarrow> True)"

lemma snapshot_other_frame:
  "fl_active (snd (applyPublicSnapshot num l m f)) = fl_active f"
  "fl_queuedRecoveryTarget (snd (applyPublicSnapshot num l m f)) = fl_queuedRecoveryTarget f"
  "fl_queuedRecoveryPoll (snd (applyPublicSnapshot num l m f)) = fl_queuedRecoveryPoll f"
  "fl_recoveryInFlight (snd (applyPublicSnapshot num l m f)) = fl_recoveryInFlight f"
  "fl_resetRecoveryActive (snd (applyPublicSnapshot num l m f)) = fl_resetRecoveryActive f"
  "fl_recoveryRetryTimer (snd (applyPublicSnapshot num l m f)) = fl_recoveryRetryTimer f"
  "fl_stateRefreshInFlight (snd (applyPublicSnapshot num l m f)) = fl_stateRefreshInFlight f"
  "fl_stateRefreshRetryTimer (snd (applyPublicSnapshot num l m f)) = fl_stateRefreshRetryTimer f"
  by (cases rule: applyPublicSnapshot_cases [of num l m f]; simp)+

lemma flow_live_hydrate:
  assumes "flow_live f"
  shows "fl_lastAppliedEventSeq f \<le> fl_lastAppliedEventSeq (applyBootstrap num b f) \<Longrightarrow>
      flow_live (applyBootstrap num b f)"
    and "fl_lastAppliedEventSeq f \<le> fl_lastAppliedEventSeq (applyFullState num n l f) \<Longrightarrow>
      flow_live (applyFullState num n l f)"
proof -
  assume "fl_lastAppliedEventSeq f \<le> fl_lastAppliedEventSeq (applyBootstrap num b f)"
  then have "same_live f (applyBootstrap num b f)"
    unfolding same_live_def by (simp add: applyBootstrap_def Let_def snapshot_other_frame)
  then show "flow_live (applyBootstrap num b f)" by (rule flow_live_same [OF _ assms])
next
  assume le: "fl_lastAppliedEventSeq f \<le> fl_lastAppliedEventSeq (applyFullState num n l f)"
  let ?f1 = "f\<lparr>fl_hydrationRetryAttempt := 0, fl_fullStateHydrated := True\<rparr>"
  obtain a g where g: "applyPublicSnapshot num l None ?f1 = (a, g)" by fastforce
  note fr = snapshot_other_frame [of num l None ?f1, unfolded g snd_conv]
  have "same_live f (applyFullState num n l f)"
    using le fr unfolding same_live_def
    by (auto simp: applyFullState_def Let_def g setAppState_def scheduleCurrentStateRetry_def reportStateHydrationError_def)
  then show "flow_live (applyFullState num n l f)" by (rule flow_live_same [OF _ assms])
qed

lemma flow_live_flush:
  assumes "host_sort srt" and "flow_safe f" and "flow_live f" and "fl_flushScheduled f"
  shows "flow_live (flushMessages srt now f)"
proof -
  have q: "queue_ok f" using assms(2) by (simp add: flow_safe_def)
  have a: "fl_lastAppliedEventSeq f \<le> fl_lastAppliedEventSeq (flushMessages srt now f)"
    using flush_applied [OF assms(1,2,4), of now] flushMessages_eq [OF assms(1) q, of now]
    by (auto simp: forward_def flushed_def scheduleMessagesFlush_def setAppState_def Let_def split: if_splits)
  have "same_live f (flushMessages srt now f)"
    using a unfolding same_live_def flushMessages_eq [OF assms(1) q, of now]
    by (simp add: flushed_def scheduleMessagesFlush_def setAppState_def Let_def)
  then show ?thesis by (rule flow_live_same [OF _ assms(3)])
qed

lemma flow_live_step:
  assumes "host_sort srt" and "flow_safe f" and "flow_live f" and "hydrates_forward num i f"
  shows "flow_live (flow_step srt num now i f)"
proof (cases i)
  case Frame
  then show ?thesis using assms flow_live_flush by simp
next
  case Rendered
  have "same_live f (rendered f)" by (simp add: same_live_def rendered_def)
  then show ?thesis using flow_live_same assms(3) Rendered by simp
next
  case RecoveryTimer
  have "refresh_live (f\<lparr>fl_recoveryRetryTimer := False\<rparr>)"
    using assms(3) by (simp add: flow_live_def refresh_live_def)
  then show ?thesis using RecoveryTimer assms(3) flow_live_backfill by simp
next
  case HydrationFailed
  have "same_live f (reportStateHydrationError f)" by (simp add: same_live_def reportStateHydrationError_def)
  then show ?thesis using flow_live_same assms(3) HydrationFailed by simp
next
  case Unmount
  then show ?thesis by (simp add: flow_live_def recoveryWanted_def unmount_def)
next
  case (SocketStatus st)
  have "same_live f (f\<lparr>fl_socketStatus := st\<rparr>)" by (simp add: same_live_def)
  then show ?thesis using flow_live_same assms(3) SocketStatus by simp
next
  case HydrationTimer
  have "same_live f (f\<lparr>fl_hydrationRetryTimer := False\<rparr>)" by (simp add: same_live_def)
  then show ?thesis using flow_live_same assms(3) HydrationTimer by simp
qed (use assms in \<open>simp_all add: flow_live_socketMessage flow_live_pageArrived flow_live_stateArrived
    flow_live_refreshTimer flow_live_backfill flow_live_refresh flow_live_hydrate hydrates_forward_def\<close>)

lemma flow_live_initial: "flow_live initialFlow"
  by (simp add: flow_live_def initialFlow_def recoveryWanted_def)

inductive flow_reachable :: "sorter \<Rightarrow> (js_number \<Rightarrow> string) \<Rightarrow> Flow \<Rightarrow> bool" for srt num where
  start: "flow_reachable srt num initialFlow"
| step: "flow_reachable srt num f \<Longrightarrow> hydrates_forward num i f \<Longrightarrow>
    flow_reachable srt num (flow_step srt num now i f)"

lemma reachable_ok: "flow_reachable srt num f \<Longrightarrow> host_sort srt \<Longrightarrow> flow_safe f \<and> flow_live f"
  by (induction rule: flow_reachable.induct)
    (auto intro: flow_safe_initial flow_live_initial flow_safe_step flow_live_step)

section \<open>Properties\<close>

text \<open>
  C2. Safety of every run of the live flow, whatever arrives and whatever the host's sort does with
  the inconsistent comparator: the queue of pending envelopes has at most 4096 entries, none of them
  with an invalid sequence; their durable sequences are distinct, above the applied cursor and not
  above the queued one; a queue that is not empty has a frame scheduled to flush it and a mounted
  client; and a recovery is in flight exactly when a page is awaited.
\<close>

theorem live_flow_safety:
  assumes "host_sort srt"
  shows "queue_ok (flow_run srt num inputs initialFlow) \<and> flight_ok (flow_run srt num inputs initialFlow)"
  using flow_safe_run [OF assms flow_safe_initial, of num inputs] by (simp add: flow_safe_def)

theorem live_flow_safety_witness:
  "queue_ok (flow_run js_sort (\<lambda>_. ''0'') [(0, SocketMessage (durable_at 3 5)), (1, Frame), (2, Resume)] initialFlow)"
  using live_flow_safety [OF stable.host_sort_axioms] by blast


text \<open>A message with cursor 3 arrives and the next frame applies it.\<close>

definition sample_inputs :: "(js_number \<times> flow_input) list" where
  "sample_inputs = [(0, SocketMessage (durable_at 3 5)), (1, Frame)]"

lemma sample_run:
  "fl_eventCursorGeneration (flow_run js_sort (\<lambda>_. ''0'') sample_inputs initialFlow) = 0 \<and>
   flow_log js_sort (\<lambda>_. ''0'') sample_inputs initialFlow = [3]"
proof -
  let ?m = "durable_at 3 5"
  have c: "classifyLiveEnvelopeSequence ?m = Durable 3" "le_kind ?m = NodeUpdate (sample_node ''n1'')"
    "le_seq ?m = Some 3" "le_latestSeq ?m = None"
    by (simp_all add: classify_Durable sample_defs is_safe_integer_def max_safe_integer_def)
  let ?f = "initialFlow\<lparr>fl_latestInboundSeq := 3, fl_latestObservedSeq := 3, fl_pendingMessages := [?m],
      fl_lastQueuedEventSeq := 3, fl_flushScheduled := True\<rparr>"
  have f: "flow_step js_sort num 0 (SocketMessage ?m) initialFlow = ?f" for num
    by (simp add: socketMessage_def enqueueMessage_def c initialFlow_def publicSequence_def is_safe_integer_def
        max_safe_integer_def shouldQueueDurableLiveSequence_def capLiveEnvelopeQueue_def
        LIVE_ENVELOPE_MAX_PENDING_def scheduleMessagesFlush_def)
  have d: "takeDueLiveEnvelopes js_sort [?m] LIVE_ENVELOPE_MAX_BATCH_SIZE = \<lparr>due = [?m], pending = []\<rparr>"
    by (simp add: takeDue_eq sortLiveEnvelopes_def LIVE_ENVELOPE_MAX_BATCH_SIZE_def)
  have b: "takeIncreasingLiveEnvelopes [?m] 0 =
      \<lparr>ib_accepted = [?m], ib_cursor = 3, ib_invalid = False, ib_nonMonotonic = False\<rparr>"
    by (simp add: takeIncreasingLiveEnvelopes_def takeStep_def c)
  define g where "g = flow_step js_sort (\<lambda>_. ''0'') 0 (SocketMessage ?m) initialFlow"
  have g: "fl_pendingMessages g = [?m]" "fl_lastAppliedEventSeq g = 0" "fl_flushScheduled g" "fl_active g"
    "fl_eventCursorGeneration g = 0"
    unfolding g_def f by (simp_all add: initialFlow_def)
  have "fl_eventCursorGeneration (flushMessages js_sort 1 g) = 0"
    by (simp add: flushMessages_def g d b setAppState_def scheduleMessagesFlush_def retainLiveEnvelopesAfterCursor_def)
  moreover have "flow_applied js_sort Frame g = [3]" by (simp add: flow_applied_def g d b c)
  moreover have "flow_applied js_sort (SocketMessage ?m) initialFlow = []" by (simp add: flow_applied_def)
  ultimately show ?thesis by (simp add: sample_inputs_def g(3) flip: g_def del: flow_step.simps(1))
qed




text \<open>A flow at rest: mounted, caught up to \<open>n\<close>, nothing queued and nothing in flight.\<close>

definition at_rest :: "js_number \<Rightarrow> Flow \<Rightarrow> bool" where
  "at_rest n f \<longleftrightarrow> is_safe_integer n \<and> 0 < n \<and> fl_active f \<and> fl_lastAppliedEventSeq f = n \<and>
     fl_queuedRecoveryTarget f = 0 \<and> \<not> fl_queuedRecoveryPoll f \<and> \<not> fl_recoveryInFlight f \<and>
     fl_recovery f = None \<and> \<not> fl_resetRecoveryActive f \<and> \<not> fl_recoveryRetryTimer f"

definition hello_at :: "js_number \<Rightarrow> PublicLiveEnvelope" where
  "hello_at n = sample_envelope (Hello None None ''c1'') (Some n) 0"

lemma hello_leaves_target:
  assumes "at_rest n f"
  shows "\<exists>g. flow_step srt num now (SocketMessage (hello_at n)) f = g \<and> fl_active g \<and>
    fl_lastAppliedEventSeq g = n \<and> fl_queuedRecoveryTarget g = n \<and> \<not> fl_queuedRecoveryPoll g \<and>
    \<not> fl_recoveryInFlight g \<and> fl_recovery g = None \<and> \<not> fl_resetRecoveryActive g \<and> \<not> fl_recoveryRetryTimer g"
  using assms
  by (simp add: at_rest_def socketMessage_def hello_at_def sample_envelope_def publicSequence_def Let_def
      helloRequiresCursorResetProbe_def validSequence_def someTarget_def backfillOrRefresh_def setAppState_def
      recoverHead.simps recoveryWanted_def)

lemma floor_safe: "is_safe_integer n \<Longrightarrow> of_int \<lfloor>n\<rfloor> = n"
  by (simp add: is_safe_integer_def is_integer_def)

lemma untargeted_dropped:
  assumes "fl_active g" and "fl_lastAppliedEventSeq g = n" and "fl_queuedRecoveryTarget g = n"
    and "\<not> fl_queuedRecoveryPoll g" and "\<not> fl_recoveryInFlight g" and "fl_recovery g = None"
    and "\<not> fl_resetRecoveryActive g" and "is_safe_integer n" and "0 < n"
  shows "\<exists>h. flow_step srt num now Resume g = h \<and> fl_recovery h = None \<and> \<not> fl_recoveryInFlight h \<and>
    \<not> fl_queuedRecoveryPoll h \<and> fl_queuedRecoveryTarget h = 0 \<and> fl_lastAppliedEventSeq h = n"
proof -
  let ?h0 = "g\<lparr>fl_queuedRecoveryPoll := True, fl_recoveryRetryTimer := False, fl_recoveryInFlight := True\<rparr>"
  let ?r = "\<lparr>rr_status = CaughtUp, rr_cursor = n, rr_latestSeq = n, rr_pages = 0\<rparr>"
  let ?s = "settleResult now ?r (?h0\<lparr>fl_queuedRecoveryTarget := 0, fl_queuedRecoveryPoll := False\<rparr>)"
  have fin: "finiteSequence (Some n) = n" using assms(8,9) by (simp add: finiteSequence_def)
  have applied: "fl_lastAppliedEventSeq ?s = n" using assms(2) by (simp add: settleResult_def setAppState_def Let_def)
  have fl: "max 0 (of_int \<lfloor>n\<rfloor>) = n" unfolding floor_safe [OF assms(8)] using assms(9) by simp
  have "recoverHead now ?h0 = recoverHead now ?s"
    using assms fin by (subst recoverHead.simps) (simp add: recoveryWanted_def Let_def fl)
  also have "\<dots> = ?s\<lparr>fl_recoveryInFlight := False\<rparr>"
    using applied assms(9) by (subst recoverHead.simps) (simp add: recoveryWanted_def)
  finally have "flow_step srt num now Resume g = ?s\<lparr>fl_recoveryInFlight := False\<rparr>"
    using assms by (simp add: backfillOrRefresh_def publicSequence_def Let_def)
  then show ?thesis using applied assms(6) by simp
qed

text \<open>
  An untargeted recovery can be dropped without fetching anything. A client at rest that resumes
  starts a recovery; but when a hello that reports exactly the applied cursor came before, the target
  which that hello left in \<open>queuedRecoveryTarget\<close> makes the recovery of the resume return at once:
  no page is fetched, nothing is in flight and the request is forgotten. (The comment at the
  call of \<open>rehydrate\<close> says that an untargeted recovery polls after the applied cursor.)
\<close>

lemma resume_poll_dropped:
  assumes "at_rest n f"
  shows "fl_recovery (flow_step srt num now Resume f) \<noteq> None \<and>
    fl_recovery (flow_step srt num now' Resume (flow_step srt num now (SocketMessage (hello_at n)) f)) = None \<and>
    \<not> recoveryWanted (flow_step srt num now' Resume (flow_step srt num now (SocketMessage (hello_at n)) f))"
proof -
  have n: "is_safe_integer n" "0 < n" using assms by (simp_all add: at_rest_def)
  have "fl_recovery (flow_step srt num now Resume f) \<noteq> None"
    using assms by (simp add: at_rest_def backfillOrRefresh_def publicSequence_def Let_def recoverHead.simps recoveryWanted_def)
  moreover obtain g where g: "flow_step srt num now (SocketMessage (hello_at n)) f = g" "fl_active g"
    "fl_lastAppliedEventSeq g = n" "fl_queuedRecoveryTarget g = n" "\<not> fl_queuedRecoveryPoll g"
    "\<not> fl_recoveryInFlight g" "fl_recovery g = None" "\<not> fl_resetRecoveryActive g"
    using hello_leaves_target [OF assms, of srt num now] by blast
  obtain h where "flow_step srt num now' Resume g = h" "fl_recovery h = None" "\<not> fl_queuedRecoveryPoll h"
    "fl_queuedRecoveryTarget h = 0" "fl_lastAppliedEventSeq h = n"
    using untargeted_dropped [OF g(2-8) n, of srt num now'] by blast
  ultimately show ?thesis using g(1) n by (simp add: recoveryWanted_def)
qed

lemma resume_poll_dropped_witness:
  "fl_recovery (flow_step js_sort (\<lambda>_. ''0'') 0 Resume (flow_step js_sort (\<lambda>_. ''0'') 0
     (SocketMessage (hello_at 7)) (initialFlow\<lparr>fl_lastAppliedEventSeq := 7\<rparr>))) = None"
proof -
  have "at_rest 7 (initialFlow\<lparr>fl_lastAppliedEventSeq := 7\<rparr>)"
    by (simp add: at_rest_def initialFlow_def is_safe_integer_def max_safe_integer_def)
  from resume_poll_dropped [OF this] show ?thesis by blast
qed

end
