(* ===== verification/Public_Socket.thy ===== *)
theory Public_Socket
  imports Carto_Strings Carto_Types
begin

text \<open>
  \<open>web/src/ws.ts\<close>: the socket with reconnects, a ping interval and a liveness timeout. The browser
  is modelled by the sockets it has created with their ready states and by the intervals that run,
  so that a handler which forgets one is visible. Inputs are the events of a socket (by number),
  the timers and \<open>close\<close>; whether a constructor or a \<open>send\<close> throws and the random number of a
  reconnect are part of the input. The outputs are the calls of \<open>onStatus\<close>, \<open>onMessage\<close> and
  \<open>onOpen\<close>.
\<close>

section \<open>Delays and flags\<close>

definition WS_RECONNECT_BASE_MS :: js_number where "WS_RECONNECT_BASE_MS = 800"
definition WS_RECONNECT_MAX_MS :: js_number where "WS_RECONNECT_MAX_MS = 15000"
definition WS_RECONNECT_JITTER_MS :: js_number where "WS_RECONNECT_JITTER_MS = 500"

definition reconnectDelayMs :: "js_number \<Rightarrow> js_number \<Rightarrow> js_number" where
  "reconnectDelayMs attempts random =
     (let attempt = max 0 \<lfloor>attempts\<rfloor>;
          backoff = min WS_RECONNECT_MAX_MS (WS_RECONNECT_BASE_MS * 2 ^ nat (min attempt 5))
      in backoff + of_int \<lfloor>random * WS_RECONNECT_JITTER_MS\<rfloor>)"

definition publicSocketSubscriptionsEnabled :: "(string \<Rightarrow> string option) \<Rightarrow> bool" where
  "publicSocketSubscriptionsEnabled env =
     (js_lower (or_else (env ''VITE_PUBLIC_WS_SUBSCRIPTIONS_ENABLED'') []) = ''true'')"

section \<open>State\<close>

datatype ReadyState = CONNECTING | OPEN | CLOSING | CLOSED

datatype ws_output = Status string | Deliver PublicLiveEnvelope | Opened

record PublicSocket =
  ws_sockets :: "ReadyState list" \<comment> \<open>the sockets created so far, by number\<close>
  ws_intervals :: nat \<comment> \<open>the ping intervals that run in the browser\<close>
  ws_socket :: "nat option"
  ws_closed :: bool
  ws_retryTimer :: bool
  ws_pingTimer :: bool
  ws_livenessTimer :: bool
  ws_attempts :: nat
  ws_delay :: js_number \<comment> \<open>the delay of the last reconnect that was scheduled\<close>
  ws_output :: "ws_output list"

definition onStatus :: "string \<Rightarrow> PublicSocket \<Rightarrow> PublicSocket" where
  "onStatus s w = w\<lparr>ws_output := ws_output w @ [Status s]\<rparr>"

definition clearPingTimer :: "PublicSocket \<Rightarrow> PublicSocket" where
  "clearPingTimer w = (if ws_pingTimer w then w\<lparr>ws_pingTimer := False, ws_intervals := ws_intervals w - 1\<rparr> else w)"

definition clearLivenessTimer :: "PublicSocket \<Rightarrow> PublicSocket" where
  "clearLivenessTimer w = w\<lparr>ws_livenessTimer := False\<rparr>"

definition resetLivenessTimer :: "PublicSocket \<Rightarrow> PublicSocket" where
  "resetLivenessTimer w = (let w1 = clearLivenessTimer w
     in if ws_closed w1 then w1 else w1\<lparr>ws_livenessTimer := True\<rparr>)"

text \<open>\<open>socket.close()\<close>: a closed socket stays closed, any other starts to close.\<close>

definition closeSocket :: "nat option \<Rightarrow> PublicSocket \<Rightarrow> PublicSocket" where
  "closeSocket s w =
     (case s of None \<Rightarrow> w
      | Some i \<Rightarrow> if i < length (ws_sockets w) \<and> ws_sockets w ! i \<noteq> CLOSED
          then w\<lparr>ws_sockets := (ws_sockets w)[i := CLOSING]\<rparr> else w)"

definition scheduleReconnect :: "js_number \<Rightarrow> PublicSocket \<Rightarrow> PublicSocket" where
  "scheduleReconnect random w =
     (if ws_closed w \<or> ws_retryTimer w then w
      else let w1 = onStatus ''recovering'' w;
               w2 = w1\<lparr>ws_attempts := ws_attempts w1 + 1\<rparr>
           in w2\<lparr>ws_retryTimer := True, ws_delay := reconnectDelayMs (real (ws_attempts w2)) random\<rparr>)"

section \<open>Handlers\<close>

definition livenessExpired :: "js_number \<Rightarrow> PublicSocket \<Rightarrow> PublicSocket" where
  "livenessExpired random w =
     (let w1 = onStatus ''stale'' (w\<lparr>ws_livenessTimer := False\<rparr>);
          staleSocket = ws_socket w1
      in scheduleReconnect random (closeSocket staleSocket (w1\<lparr>ws_socket := None\<rparr>)))"

definition handleSendFailure :: "js_number \<Rightarrow> PublicSocket \<Rightarrow> PublicSocket" where
  "handleSendFailure random w =
     (let w1 = onStatus ''error'' (clearLivenessTimer (clearPingTimer w));
          activeSocket = ws_socket w1
      in scheduleReconnect random (closeSocket activeSocket (w1\<lparr>ws_socket := None\<rparr>)))"

definition sendJSON :: "bool \<Rightarrow> js_number \<Rightarrow> PublicSocket \<Rightarrow> bool \<times> PublicSocket" where
  "sendJSON sendThrows random w =
     (case ws_socket w of None \<Rightarrow> (False, w)
      | Some i \<Rightarrow> if ws_sockets w ! i \<noteq> OPEN then (False, w)
          else if sendThrows then (False, handleSendFailure random w) else (True, w))"

definition connect :: "bool \<Rightarrow> js_number \<Rightarrow> PublicSocket \<Rightarrow> PublicSocket" where
  "connect constructorThrows random w =
     (if ws_closed w then w
      else let w1 = onStatus (if ws_attempts w = 0 then ''connecting'' else ''recovering'') w
           in if constructorThrows then scheduleReconnect random (onStatus ''error'' w1)
              else w1\<lparr>ws_sockets := ws_sockets w1 @ [CONNECTING], ws_socket := Some (length (ws_sockets w1))\<rparr>)"

text \<open>The listeners of a socket, after the browser has set its ready state.\<close>

definition handleOpen :: "bool \<Rightarrow> bool \<Rightarrow> js_number \<Rightarrow> PublicSocket \<Rightarrow> PublicSocket" where
  "handleOpen subscriptions sendThrows random w =
     (let w1 = onStatus ''live'' (w\<lparr>ws_attempts := 0\<rparr>);
          w2 = resetLivenessTimer (w1\<lparr>ws_output := ws_output w1 @ [Opened]\<rparr>);
          (sent, w3) = (if subscriptions then sendJSON sendThrows random w2 else (True, w2))
      in if subscriptions \<and> \<not> sent then w3
         else w3\<lparr>ws_pingTimer := True, ws_intervals := ws_intervals w3 + 1\<rparr>)"

definition handleClose :: "js_number \<Rightarrow> PublicSocket \<Rightarrow> PublicSocket" where
  "handleClose random w =
     (let w1 = clearLivenessTimer (clearPingTimer w)
      in if ws_closed w1 then onStatus ''closed'' w1 else scheduleReconnect random w1)"

definition handleMessage :: "PublicLiveEnvelope option \<Rightarrow> PublicSocket \<Rightarrow> PublicSocket" where
  "handleMessage parsed w =
     (let w1 = resetLivenessTimer w
      in case parsed of None \<Rightarrow> onStatus ''bad-message'' w1
         | Some m \<Rightarrow> w1\<lparr>ws_output := ws_output w1 @ [Deliver m]\<rparr>)"

definition closePublicSocket :: "PublicSocket \<Rightarrow> PublicSocket" where
  "closePublicSocket w =
     (let w1 = w\<lparr>ws_closed := True, ws_retryTimer := False\<rparr>
      in closeSocket (ws_socket w1) (clearLivenessTimer (clearPingTimer w1)))"

definition connectPublicSocket :: "bool \<Rightarrow> js_number \<Rightarrow> PublicSocket" where
  "connectPublicSocket constructorThrows random =
     connect constructorThrows random \<lparr>ws_sockets = [], ws_intervals = 0, ws_socket = None, ws_closed = False,
       ws_retryTimer = False, ws_pingTimer = False, ws_livenessTimer = False, ws_attempts = 0,
       ws_delay = 0, ws_output = []\<rparr>"

section \<open>Steps\<close>

datatype ws_input =
    SocketOpened nat
  | SocketClosed nat
  | SocketFailed nat
  | SocketReceived nat "PublicLiveEnvelope option"
  | PingInterval
  | LivenessTimer
  | RetryTimer
  | CloseCall

record ws_env =
  we_subscriptions :: bool
  we_constructorThrows :: bool
  we_sendThrows :: bool
  we_random :: js_number

text \<open>Events the browser does not raise (of a socket in another state, of a timer not armed) do nothing.\<close>

fun ws_step :: "ws_env \<Rightarrow> ws_input \<Rightarrow> PublicSocket \<Rightarrow> PublicSocket" where
  "ws_step e (SocketOpened i) w =
     (if i < length (ws_sockets w) \<and> ws_sockets w ! i = CONNECTING
      then handleOpen (we_subscriptions e) (we_sendThrows e) (we_random e)
        (w\<lparr>ws_sockets := (ws_sockets w)[i := OPEN]\<rparr>) else w)"
| "ws_step e (SocketClosed i) w =
     (if i < length (ws_sockets w) \<and> ws_sockets w ! i \<noteq> CLOSED
      then handleClose (we_random e) (w\<lparr>ws_sockets := (ws_sockets w)[i := CLOSED]\<rparr>) else w)"
| "ws_step e (SocketFailed i) w = (if i < length (ws_sockets w) then onStatus ''error'' w else w)"
| "ws_step e (SocketReceived i m) w =
     (if i < length (ws_sockets w) \<and> ws_sockets w ! i = OPEN then handleMessage m w else w)"
| "ws_step e PingInterval w =
     (if 0 < ws_intervals w then snd (sendJSON (we_sendThrows e) (we_random e) w) else w)"
| "ws_step e LivenessTimer w = (if ws_livenessTimer w then livenessExpired (we_random e) w else w)"
| "ws_step e RetryTimer w =
     (if ws_retryTimer w then connect (we_constructorThrows e) (we_random e) (w\<lparr>ws_retryTimer := False\<rparr>) else w)"
| "ws_step e CloseCall w = closePublicSocket w"

definition ws_run :: "(ws_env \<times> ws_input) list \<Rightarrow> PublicSocket \<Rightarrow> PublicSocket" where
  "ws_run inputs w = foldl (\<lambda>w (e, i). ws_step e i w) w inputs"

section \<open>The connection is never given up\<close>

text \<open>
  A reconnect is scheduled, or there is a current socket which the browser has not closed; and the
  number of a socket is always one that was created.
\<close>

fun ws_good :: "nat option \<Rightarrow> bool \<Rightarrow> bool \<Rightarrow> ReadyState list \<Rightarrow> bool" where
  "ws_good None c t ss \<longleftrightarrow> c \<or> t"
| "ws_good (Some i) c t ss \<longleftrightarrow> i < length ss \<and> (c \<or> t \<or> ss ! i \<noteq> CLOSED)"

definition ws_ok :: "PublicSocket \<Rightarrow> bool" where
  "ws_ok w \<longleftrightarrow> ws_good (ws_socket w) (ws_closed w) (ws_retryTimer w) (ws_sockets w)"

lemma ws_good_weaken: "ws_good s c t ss \<Longrightarrow> (c \<longrightarrow> c') \<Longrightarrow> (t \<longrightarrow> t' \<or> c') \<Longrightarrow> ws_good s c' t' ss"
  by (cases s) auto

lemma ws_good_update:
  "ws_good s c t ss \<Longrightarrow> (c \<or> t \<or> x \<noteq> CLOSED) \<Longrightarrow> ws_good s c t (ss[k := x])"
  by (cases s; cases "k < length ss") (auto simp: nth_list_update list_update_beyond)

lemma closeSocket_good: "ws_good s c t (ws_sockets w) \<Longrightarrow> ws_good s c t (ws_sockets (closeSocket k w))"
  by (cases k) (auto simp: closeSocket_def intro: ws_good_update)

lemma ws_frames [simp]:
  "ws_socket (onStatus s w) = ws_socket w" "ws_closed (onStatus s w) = ws_closed w"
  "ws_retryTimer (onStatus s w) = ws_retryTimer w" "ws_sockets (onStatus s w) = ws_sockets w"
  "ws_socket (clearPingTimer w) = ws_socket w" "ws_closed (clearPingTimer w) = ws_closed w"
  "ws_retryTimer (clearPingTimer w) = ws_retryTimer w" "ws_sockets (clearPingTimer w) = ws_sockets w"
  "ws_socket (clearLivenessTimer w) = ws_socket w" "ws_closed (clearLivenessTimer w) = ws_closed w"
  "ws_retryTimer (clearLivenessTimer w) = ws_retryTimer w" "ws_sockets (clearLivenessTimer w) = ws_sockets w"
  "ws_socket (resetLivenessTimer w) = ws_socket w" "ws_closed (resetLivenessTimer w) = ws_closed w"
  "ws_retryTimer (resetLivenessTimer w) = ws_retryTimer w" "ws_sockets (resetLivenessTimer w) = ws_sockets w"
  "ws_socket (closeSocket k w) = ws_socket w" "ws_closed (closeSocket k w) = ws_closed w"
  "ws_retryTimer (closeSocket k w) = ws_retryTimer w" "length (ws_sockets (closeSocket k w)) = length (ws_sockets w)"
  by (simp_all add: onStatus_def clearPingTimer_def clearLivenessTimer_def resetLivenessTimer_def
      closeSocket_def Let_def split: option.split)

lemma scheduleReconnect_frames [simp]:
  "ws_socket (scheduleReconnect r w) = ws_socket w" "ws_closed (scheduleReconnect r w) = ws_closed w"
  "ws_sockets (scheduleReconnect r w) = ws_sockets w"
  "ws_retryTimer (scheduleReconnect r w) = (\<not> ws_closed w \<or> ws_retryTimer w)"
  by (auto simp: scheduleReconnect_def Let_def)

lemma closeSocket_not_closed:
  "i < length (ws_sockets w) \<Longrightarrow> ws_sockets w ! i \<noteq> CLOSED \<Longrightarrow> ws_sockets (closeSocket s w) ! i \<noteq> CLOSED"
  by (cases s) (auto simp: closeSocket_def nth_list_update)

lemma ws_ok_sendFailure: "ws_ok (handleSendFailure r w)"
  by (simp add: ws_ok_def handleSendFailure_def Let_def)

lemma ws_ok_sendJSON: "ws_ok w \<Longrightarrow> ws_ok (snd (sendJSON b r w))"
  by (auto simp: sendJSON_def ws_ok_sendFailure split: option.split)

lemma ws_ok_connect:
  assumes "ws_good (ws_socket w) (ws_closed w) True (ws_sockets w)"
  shows "ws_ok (connect b r w)"
  using assms by (cases "ws_socket w") (auto simp: connect_def ws_ok_def Let_def)

lemma ws_ok_intervals: "ws_ok w \<Longrightarrow> ws_ok (w\<lparr>ws_pingTimer := b, ws_intervals := n\<rparr>)"
  by (simp add: ws_ok_def)

lemma ws_ok_handleOpen: "ws_ok w \<Longrightarrow> ws_ok (handleOpen sub b r w)"
proof -
  assume w: "ws_ok w"
  let ?w2 = "resetLivenessTimer ((onStatus ''live'' (w\<lparr>ws_attempts := 0\<rparr>))\<lparr>ws_output :=
      ws_output (onStatus ''live'' (w\<lparr>ws_attempts := 0\<rparr>)) @ [Opened]\<rparr>)"
  have w2: "ws_ok ?w2" using w by (simp add: ws_ok_def)
  obtain s w3 where s: "sendJSON b r ?w2 = (s, w3)" by fastforce
  then have "ws_ok w3" using ws_ok_sendJSON [OF w2, of b r] by simp
  then show ?thesis using w2 s by (auto simp: handleOpen_def Let_def intro!: ws_ok_intervals)
qed

lemma ws_ok_closed:
  assumes "ws_ok w" "i < length (ws_sockets w)"
  shows "ws_ok (handleClose r (w\<lparr>ws_sockets := (ws_sockets w)[i := CLOSED]\<rparr>))"
  using assms by (cases "ws_socket w") (auto simp: handleClose_def ws_ok_def Let_def)

lemma ws_ok_step: "ws_ok w \<Longrightarrow> ws_ok (ws_step e i w)"
proof (cases i)
  case (SocketOpened k)
  assume w: "ws_ok w"
  have "ws_ok (w\<lparr>ws_sockets := (ws_sockets w)[k := OPEN]\<rparr>)"
    using w by (simp add: ws_ok_def ws_good_update)
  then show ?thesis using w SocketOpened ws_ok_handleOpen by simp
next
  case CloseCall
  assume "ws_ok w"
  then have "ws_good (ws_socket w) True False (ws_sockets w)"
    unfolding ws_ok_def by (rule ws_good_weaken) simp_all
  then show ?thesis using CloseCall
    by (simp add: ws_ok_def closePublicSocket_def Let_def closeSocket_good)
next
  case RetryTimer
  assume w: "ws_ok w"
  then have "ws_good (ws_socket w) (ws_closed w) True (ws_sockets w)"
    unfolding ws_ok_def by (rule ws_good_weaken) simp_all
  then show ?thesis using w RetryTimer by (simp add: ws_ok_connect)
next
  case (SocketReceived k m)
  assume "ws_ok w"
  then show ?thesis using SocketReceived by (simp add: ws_ok_def handleMessage_def Let_def split: option.split)
next
  case LivenessTimer
  assume "ws_ok w"
  then show ?thesis using LivenessTimer by (simp add: ws_ok_def livenessExpired_def Let_def)
next
  case PingInterval
  assume "ws_ok w"
  then show ?thesis using PingInterval ws_ok_sendJSON by simp
qed (auto simp: ws_ok_closed ws_ok_def [of "onStatus s w" for s] simp flip: ws_ok_def)

lemma ws_ok_run: "ws_ok w \<Longrightarrow> ws_ok (ws_run inputs w)"
  unfolding ws_run_def by (rule foldl_invariant [of ws_ok]) (auto intro: ws_ok_step)

section \<open>Properties\<close>

text \<open>
  C12. The connection is never given up: after any sequence of socket events, timers, constructors and
  sends that throw, until \<open>close\<close> is called either a reconnect timer is armed or the current socket
  is one that the browser has not closed.
\<close>

theorem socket_never_given_up:
  fixes inputs throws random
  defines "w \<equiv> ws_run inputs (connectPublicSocket throws random)"
  shows "ws_closed w \<or> ws_retryTimer w \<or>
    (\<exists>i. ws_socket w = Some i \<and> i < length (ws_sockets w) \<and> ws_sockets w ! i \<noteq> CLOSED)"
proof -
  have "ws_ok (connectPublicSocket throws random)"
    unfolding connectPublicSocket_def by (rule ws_ok_connect) simp
  then have "ws_ok w" unfolding w_def by (rule ws_ok_run)
  then show ?thesis by (cases "ws_socket w") (auto simp: ws_ok_def)
qed

text \<open>
  The delay before a reconnect is at least the base of 800 ms and below 15.5 s for every number of
  attempts and every random number in [0, 1), and without the jitter it does not decrease with the
  number of attempts.
\<close>

lemma reconnect_delay_bounds:
  assumes "0 \<le> r" and "r < 1"
  shows "800 \<le> reconnectDelayMs n r \<and> reconnectDelayMs n r < 15500 \<and>
    reconnectDelayMs n 0 \<le> reconnectDelayMs (n + max 0 d) 0"
proof -
  let ?a = "nat (min (max 0 \<lfloor>n\<rfloor>) 5)"
  have j: "0 \<le> \<lfloor>r * 500\<rfloor>" "\<lfloor>r * 500\<rfloor> < 500" using assms by (simp_all add: floor_less_iff)
  have m: "?a \<le> nat (min (max 0 \<lfloor>n + max 0 d\<rfloor>) 5)"
    by (intro nat_mono min.mono max.mono floor_mono) simp_all
  have e: "(2::real) ^ ?a \<le> 2 ^ nat (min (max 0 \<lfloor>n + max 0 d\<rfloor>) 5)" by (rule power_increasing [OF m]) simp
  have mono: "min 15000 (800 * 2 ^ ?a) \<le> min 15000 (800 * (2::real) ^ nat (min (max 0 \<lfloor>n + max 0 d\<rfloor>) 5))"
    by (rule min.mono [OF order_refl mult_left_mono [OF e]]) simp
  have "(1::real) \<le> 2 ^ ?a" by simp
  then have base: "800 \<le> min 15000 (800 * (2::real) ^ ?a)" by (intro min.boundedI) simp_all
  have top: "min 15000 (800 * (2::real) ^ ?a) \<le> 15000" by (rule min.cobounded1)
  have d: "reconnectDelayMs k s = min 15000 (800 * 2 ^ nat (min (max 0 \<lfloor>k\<rfloor>) 5)) + of_int \<lfloor>s * 500\<rfloor>" for k s
    unfolding reconnectDelayMs_def Let_def WS_RECONNECT_MAX_MS_def WS_RECONNECT_BASE_MS_def
      WS_RECONNECT_JITTER_MS_def ..
  have "0 \<le> real_of_int \<lfloor>r * 500\<rfloor>" "real_of_int \<lfloor>r * 500\<rfloor> < 500" using j by linarith+
  then show ?thesis using base top mono unfolding d by (intro conjI) linarith+
qed

lemma reconnect_delay_bounds_witness:
  "800 \<le> reconnectDelayMs 3 (1 / 2) \<and> reconnectDelayMs 3 (1 / 2) < 15500 \<and> reconnectDelayMs 3 0 \<le> reconnectDelayMs 4 0"
  using reconnect_delay_bounds [of "1 / 2" 3 1] by simp

definition calm :: ws_env where
  "calm = \<lparr>we_subscriptions = False, we_constructorThrows = False, we_sendThrows = False, we_random = 0\<rparr>"

definition late_close :: "(ws_env \<times> ws_input) list" where
  "late_close = map (Pair calm) [SocketOpened 0, LivenessTimer, RetryTimer, SocketOpened 1, SocketClosed 0, RetryTimer]"

text \<open>
  The late \<open>close\<close> event of a socket that the liveness timeout has replaced tears down its
  successor: the events below (open, silence, reconnect, open, close of the first socket, reconnect)
  leave two sockets that are not closed with no ping interval of the second one's under control,
  and after \<open>close\<close> the second socket still is open and its messages still are delivered.
\<close>

lemma late_close_leaks_socket:
  "ws_sockets (ws_run late_close (connectPublicSocket False 0)) = [CLOSED, OPEN, CONNECTING] \<and>
   ws_livenessTimer (ws_run late_close (connectPublicSocket False 0)) = False \<and>
   ws_intervals (ws_run late_close (connectPublicSocket False 0)) = 1 \<and>
   ws_pingTimer (ws_run late_close (connectPublicSocket False 0)) = False \<and>
   ws_sockets (ws_run (late_close @ [(calm, CloseCall)]) (connectPublicSocket False 0)) = [CLOSED, OPEN, CLOSING] \<and>
   last (ws_output (ws_run (late_close @ [(calm, CloseCall), (calm, SocketReceived 1 (Some m))])
     (connectPublicSocket False 0))) = Deliver m"
  by (simp add: late_close_def calm_def ws_run_def connectPublicSocket_def connect_def handleOpen_def
      livenessExpired_def handleClose_def closePublicSocket_def closeSocket_def scheduleReconnect_def
      handleMessage_def onStatus_def clearPingTimer_def clearLivenessTimer_def resetLivenessTimer_def Let_def)

end
