(* ===== verification/Resume_Recovery.thy ===== *)
theory Resume_Recovery
  imports Carto_Prelude Carto_Types
begin

text \<open>
  \<open>web/src/resumeRecovery.ts\<close>: the page lifecycle signals coalesced into one refresh for each suspend
  cycle. A step handles one event of the document or the window, the end of a refresh, or the disposal.
  The answers of \<open>shouldRehydrate\<close> and of the clock are part of the input; the document's \<open>hidden\<close> flag
  is set by the \<open>visibilitychange\<close> that reports it. The microtask that calls \<open>rehydrate\<close> belongs to the
  event that starts it, and the calls are recorded with the cycle they are for.
\<close>

section \<open>State and operations\<close>

record Resume =
  rs_hidden :: bool
  rs_disposed :: bool
  rs_suspended :: bool
  rs_cycle :: nat
  rs_startedCycle :: nat
  rs_queuedCycle :: nat
  rs_inFlight :: bool
  rs_lastResumeAt :: "js_number option" \<comment> \<open>\<open>None\<close> for minus infinity\<close>
  rs_refreshes :: "nat list" \<comment> \<open>the cycles for which \<open>rehydrate\<close> was called\<close>
  rs_onSuspends :: nat \<comment> \<open>calls of \<open>onSuspend\<close>\<close>

definition installResumeRecovery :: "bool \<Rightarrow> Resume" where
  "installResumeRecovery hidden =
     \<lparr>rs_hidden = hidden, rs_disposed = False, rs_suspended = hidden, rs_cycle = (if hidden then 1 else 0),
      rs_startedCycle = 0, rs_queuedCycle = 0, rs_inFlight = False, rs_lastResumeAt = None,
      rs_refreshes = [], rs_onSuspends = 0\<rparr>"

definition startCycle :: "nat \<Rightarrow> Resume \<Rightarrow> Resume" where
  "startCycle targetCycle s =
     (if rs_disposed s \<or> targetCycle \<le> rs_startedCycle s then s
      else if rs_inFlight s then s\<lparr>rs_queuedCycle := max (rs_queuedCycle s) targetCycle\<rparr>
      else s\<lparr>rs_startedCycle := targetCycle, rs_inFlight := True,
             rs_refreshes := rs_refreshes s @ [targetCycle]\<rparr>)"

definition refreshSettled :: "bool \<Rightarrow> Resume \<Rightarrow> Resume" where
  "refreshSettled shouldRehydrate s =
     (let s1 = s\<lparr>rs_inFlight := False\<rparr>
      in if rs_disposed s1 \<or> rs_hidden s1 \<or> \<not> shouldRehydrate then s1
         else if rs_startedCycle s1 < rs_queuedCycle s1
           then startCycle (rs_queuedCycle s1) (s1\<lparr>rs_queuedCycle := 0\<rparr>)
         else s1)"

definition markSuspended :: "Resume \<Rightarrow> Resume" where
  "markSuspended s =
     (let s1 = (if \<not> rs_suspended s
                then s\<lparr>rs_cycle := rs_cycle s + 1, rs_onSuspends := rs_onSuspends s + 1\<rparr> else s)
      in s1\<lparr>rs_suspended := True\<rparr>)"

definition withinDedupe :: "js_number option \<Rightarrow> js_number \<Rightarrow> js_number \<Rightarrow> bool" where
  "withinDedupe lastResumeAt resumedAt forceDedupeMs =
     (case lastResumeAt of None \<Rightarrow> False | Some l \<Rightarrow> resumedAt - l < forceDedupeMs)"

definition resume :: "js_number \<Rightarrow> bool \<Rightarrow> bool \<Rightarrow> js_number \<Rightarrow> Resume \<Rightarrow> Resume" where
  "resume forceDedupeMs force shouldRehydrate resumedAt s =
     (if rs_disposed s \<or> rs_hidden s \<or> \<not> shouldRehydrate then s
      else if force \<and> \<not> rs_suspended s \<and> withinDedupe (rs_lastResumeAt s) resumedAt forceDedupeMs then s
      else if \<not> force \<and> \<not> rs_suspended s then s
      else let s1 = (if force \<and> \<not> rs_suspended s then s\<lparr>rs_cycle := rs_cycle s + 1\<rparr> else s)
           in startCycle (rs_cycle s1) (s1\<lparr>rs_lastResumeAt := Some resumedAt, rs_suspended := False\<rparr>))"

datatype resume_input =
    VisibilityChange bool
  | Freeze
  | PageResume
  | PageHide
  | PageShow bool
  | WindowBlur
  | WindowFocus
  | RefreshSettled
  | Dispose

record resume_env =
  re_should :: bool
  re_now :: js_number

text \<open>After the disposal no listener is left; the end of a refresh that runs still arrives.\<close>

fun resume_step :: "js_number \<Rightarrow> resume_env \<Rightarrow> resume_input \<Rightarrow> Resume \<Rightarrow> Resume" where
  "resume_step d e (VisibilityChange h) s =
     (let s1 = s\<lparr>rs_hidden := h\<rparr>
      in if rs_disposed s then s1 else if h then markSuspended s1 else resume d False (re_should e) (re_now e) s1)"
| "resume_step d e Freeze s = (if rs_disposed s then s else markSuspended s)"
| "resume_step d e PageResume s = resume d True (re_should e) (re_now e) s"
| "resume_step d e PageHide s = (if rs_disposed s then s else markSuspended s)"
| "resume_step d e (PageShow persisted) s = resume d persisted (re_should e) (re_now e) s"
| "resume_step d e WindowBlur s = (if rs_disposed s then s else markSuspended s)"
| "resume_step d e WindowFocus s = resume d False (re_should e) (re_now e) s"
| "resume_step d e RefreshSettled s = (if rs_inFlight s then refreshSettled (re_should e) s else s)"
| "resume_step d e Dispose s = s\<lparr>rs_disposed := True\<rparr>"

definition resume_run :: "js_number \<Rightarrow> (resume_env \<times> resume_input) list \<Rightarrow> Resume \<Rightarrow> Resume" where
  "resume_run d inputs s = foldl (\<lambda>s (e, i). resume_step d e i s) s inputs"

section \<open>Invariant\<close>

text \<open>
  The refreshes are for strictly increasing cycles, the last one for \<open>rs_startedCycle\<close>; a hidden document
  is suspended; and, as long as \<open>shouldRehydrate\<close> has always answered yes (\<open>willing\<close>), a page that is not
  suspended has its cycle started or queued behind the refresh that runs.
\<close>

definition resume_ok :: "bool \<Rightarrow> Resume \<Rightarrow> bool" where
  "resume_ok willing s \<longleftrightarrow>
     rs_startedCycle s \<le> rs_cycle s \<and> rs_queuedCycle s \<le> rs_cycle s \<and>
     sorted_wrt (<) (rs_refreshes s) \<and> (\<forall>c \<in> set (rs_refreshes s). 0 < c \<and> c \<le> rs_startedCycle s) \<and>
     (\<not> rs_disposed s \<longrightarrow> rs_hidden s \<longrightarrow> rs_suspended s) \<and>
     (willing \<longrightarrow> \<not> rs_disposed s \<longrightarrow> \<not> rs_suspended s \<longrightarrow>
        rs_startedCycle s = rs_cycle s \<or> rs_inFlight s \<and> rs_queuedCycle s = rs_cycle s)"

lemma resume_ok_install: "resume_ok b (installResumeRecovery h)"
  by (simp add: resume_ok_def installResumeRecovery_def)

lemma resume_ok_markSuspended: "resume_ok b s \<Longrightarrow> resume_ok b (markSuspended s)"
  by (auto simp: resume_ok_def markSuspended_def Let_def)

lemma resume_ok_resume: "resume_ok b s \<Longrightarrow> resume_ok (b \<and> w) (resume d f w t s)"
  by (force simp: resume_ok_def resume_def startCycle_def Let_def sorted_wrt_append)

lemma resume_ok_settled: "resume_ok b s \<Longrightarrow> resume_ok (b \<and> w) (refreshSettled w s)"
  by (force simp: resume_ok_def refreshSettled_def startCycle_def Let_def sorted_wrt_append)

lemma resume_ok_weaken: "resume_ok b s \<Longrightarrow> resume_ok (b \<and> w) s"
  by (simp add: resume_ok_def)

lemma resume_ok_hidden: "resume_ok b s \<Longrightarrow> rs_disposed s \<or> rs_suspended s \<or> \<not> h \<Longrightarrow> resume_ok b (s\<lparr>rs_hidden := h\<rparr>)"
  by (auto simp: resume_ok_def)

lemma resume_ok_step: "resume_ok b s \<Longrightarrow> resume_ok (b \<and> re_should e) (resume_step d e i s)"
proof (cases i)
  case (VisibilityChange h)
  assume s: "resume_ok b s"
  show ?thesis
  proof (cases h)
    case True
    have "rs_disposed s \<Longrightarrow> resume_ok b (s\<lparr>rs_hidden := h\<rparr>)"
      and "\<not> rs_disposed s \<Longrightarrow> resume_ok b (markSuspended (s\<lparr>rs_hidden := h\<rparr>))"
      using s by (auto simp: resume_ok_def markSuspended_def Let_def)
    then show ?thesis using VisibilityChange True by (simp add: Let_def resume_ok_weaken)
  next
    case False
    have "resume_ok b (s\<lparr>rs_hidden := False\<rparr>)" using s by (rule resume_ok_hidden) simp
    then show ?thesis using VisibilityChange False
      by (simp add: Let_def resume_ok_weaken resume_ok_resume)
  qed
next
  case Dispose
  assume "resume_ok b s"
  then show ?thesis using Dispose by (simp add: resume_ok_def)
qed (simp_all add: resume_ok_weaken resume_ok_resume resume_ok_markSuspended resume_ok_settled)

lemma resume_ok_run:
  "resume_ok b s \<Longrightarrow> resume_ok (b \<and> (\<forall>(e, i) \<in> set inputs. re_should e)) (resume_run d inputs s)"
proof (induction inputs arbitrary: s b)
  case Nil
  then show ?case by (simp add: resume_run_def)
next
  case (Cons x inputs)
  obtain e i where x: "x = (e, i)" by (cases x)
  have "resume_ok (b \<and> re_should e) (resume_step d e i s)" using Cons.prems by (rule resume_ok_step)
  from Cons.IH [OF this] show ?case by (simp add: x resume_run_def)
qed

lemma resume_step_disposed:
  "rs_disposed s \<Longrightarrow> rs_disposed (resume_step d e i s) \<and> rs_refreshes (resume_step d e i s) = rs_refreshes s"
  by (cases i) (simp_all add: resume_def refreshSettled_def Let_def)

lemma resume_run_disposed:
  "rs_disposed s \<Longrightarrow> rs_refreshes (resume_run d inputs s) = rs_refreshes s"
  using foldl_invariant [of "\<lambda>t. rs_disposed t \<and> rs_refreshes t = rs_refreshes s" s inputs "\<lambda>s (e, i). resume_step d e i s"]
  by (auto simp: resume_run_def resume_step_disposed)

section \<open>Properties\<close>

text \<open>
  Whatever the lifecycle signals, at most one refresh is made for each suspend cycle: the refreshes
  are for strictly increasing cycles, none for a cycle that has not been counted; and no refresh is
  made after the disposal, even when one was queued.
\<close>

lemma one_refresh_per_cycle:
  fixes d inputs rest hidden e
  defines "s \<equiv> resume_run d inputs (installResumeRecovery hidden)"
  shows "sorted_wrt (<) (rs_refreshes s) \<and> set (rs_refreshes s) \<subseteq> {1..rs_cycle s} \<and>
    rs_refreshes (resume_run d rest (resume_step d e Dispose s)) = rs_refreshes s"
proof -
  have "resume_ok (True \<and> (\<forall>(e, i) \<in> set inputs. re_should e)) s"
    unfolding s_def by (rule resume_ok_run [OF resume_ok_install])
  then show ?thesis by (force simp: resume_ok_def resume_run_disposed)
qed

text \<open>
  C13. No cycle is lost: when \<open>shouldRehydrate\<close> has always answered yes, a page that is mounted and not
  suspended has refreshed its current cycle, or a refresh runs behind which that cycle is queued, and
  the end of that refresh starts it.
\<close>

theorem no_cycle_lost:
  fixes d inputs hidden
  defines "s \<equiv> resume_run d inputs (installResumeRecovery hidden)"
  assumes "\<forall>(e, i) \<in> set inputs. re_should e"
    and "\<not> rs_disposed s" and "\<not> rs_suspended s"
  shows "rs_startedCycle s = rs_cycle s \<or>
    rs_inFlight s \<and> rs_queuedCycle s = rs_cycle s \<and>
      rs_startedCycle (refreshSettled True s) = rs_cycle s \<and> rs_inFlight (refreshSettled True s)"
proof -
  have "resume_ok (True \<and> (\<forall>(e, i) \<in> set inputs. re_should e)) s"
    unfolding s_def by (rule resume_ok_run [OF resume_ok_install])
  then show ?thesis using assms(2-)
    by (auto simp: resume_ok_def refreshSettled_def startCycle_def Let_def)
qed

theorem no_cycle_lost_witness:
  "rs_startedCycle (refreshSettled True (resume_run 1000
     (map (Pair \<lparr>re_should = True, re_now = 0\<rparr>) [VisibilityChange False, WindowBlur, WindowFocus])
     (installResumeRecovery True))) = 2"
  using no_cycle_lost [of "map (Pair \<lparr>re_should = True, re_now = 0\<rparr>) [VisibilityChange False, WindowBlur, WindowFocus]" 1000 True]
  by (simp add: resume_run_def installResumeRecovery_def resume_def markSuspended_def startCycle_def
      withinDedupe_def Let_def)

end
