(* ===== verification/Connectivity.thy ===== *)
theory Connectivity
  imports Carto_Types Carto_Strings Js_Sort
begin

text \<open>
  \<open>web/src/connectivity.ts\<close>: the graph of the nodes and routes, the direct neighbourhood of a node, the
  search for the best path to every node that can be reached, and the phonebook made of it. The
  comparators take the collation \<open>lc\<close> of \<open>localeCompare\<close> as a parameter. The search loop is a function
  with a termination proof: a queued path is extended only to nodes it has not visited.
\<close>

section \<open>Data\<close>

record GraphEdge =
  ge_route :: PublicRoute
  ge_fromNodeID :: string
  ge_toNodeID :: string

record ConnectivityGraph =
  cg_nodesByID :: "(string, PublicNode) js_map"
  cg_routesByID :: "(string, PublicRoute) js_map"
  cg_adjacency :: "(string, GraphEdge list) js_map"
  cg_pathHash3ByNodeID :: "(string, string) js_map"

record DirectConnectivity =
  dc_routeIDs :: "string list"
  dc_nodeIDs :: "string list"
  dc_routes :: "PublicRoute list"
  dc_nodes :: "PublicNode list"

record ReachableNode =
  rn_node :: PublicNode
  rn_hopCount :: nat
  rn_pathRouteIDs :: "string list"
  rn_pathNodeIDs :: "string list"
  rn_totalDistanceKm :: js_number
  rn_strongestRoutePacketCount :: js_number
  rn_totalRoutePackets :: js_number
  rn_lastHeard :: js_number
  rn_endpointLabels :: "string list"
  rn_pathHash3 :: "string list"
  rn_meshcorePath3 :: string

record PhonebookGroup =
  pg_hopCount :: nat
  pg_nodes :: "ReachableNode list"

datatype PhonebookSortMode = BestFirst | ShortestFirst | BusiestFirst | NearestFirst | RecentFirst

record PhonebookFilterOptions =
  po_query :: "string option"
  po_maxDistanceKm :: "js_number option"
  po_sortMode :: "PhonebookSortMode option"

record HighlightedPath =
  hp_targetNodeID :: string
  hp_routeIDs :: "string list"
  hp_nodeIDs :: "string list"

record PathCandidate =
  pc_nodeID :: string
  pc_hopCount :: nat
  pc_routeIDs :: "string list"
  pc_nodeIDs :: "string list"
  pc_totalDistanceKm :: js_number
  pc_strongestRoutePacketCount :: js_number
  pc_totalRoutePackets :: js_number
  pc_lastHeard :: js_number
  pc_endpointLabels :: "string list"
  pc_pathHash3 :: "string list"

section \<open>Comparators\<close>

definition compareRoutesByActivity :: "(string \<Rightarrow> string \<Rightarrow> js_number) \<Rightarrow> PublicRoute \<Rightarrow> PublicRoute \<Rightarrow> js_number" where
  "compareRoutesByActivity lc = then_by (by_desc rt_packetCount) (then_by (by_desc rt_lastHeard) (by_key lc rt_id))"

definition compareGraphEdges :: "(string \<Rightarrow> string \<Rightarrow> js_number) \<Rightarrow> GraphEdge \<Rightarrow> GraphEdge \<Rightarrow> js_number" where
  "compareGraphEdges lc = by_key (compareRoutesByActivity lc) ge_route"

definition compareNodesByActivity :: "(string \<Rightarrow> string \<Rightarrow> js_number) \<Rightarrow> PublicNode \<Rightarrow> PublicNode \<Rightarrow> js_number" where
  "compareNodesByActivity lc = then_by (by_desc pn_activityCount) (then_by (by_desc pn_lastSeen) (by_key lc pn_label))"

definition comparePathCandidates :: "(string \<Rightarrow> string \<Rightarrow> js_number) \<Rightarrow> PathCandidate \<Rightarrow> PathCandidate \<Rightarrow> js_number" where
  "comparePathCandidates lc =
     then_by (by_asc (real o pc_hopCount)) (then_by (by_desc pc_strongestRoutePacketCount)
       (then_by (by_desc pc_lastHeard) (then_by (by_desc pc_totalRoutePackets)
         (then_by (by_asc pc_totalDistanceKm) (by_key lc pc_nodeID)))))"

definition compareBest :: "(string \<Rightarrow> string \<Rightarrow> js_number) \<Rightarrow> ReachableNode \<Rightarrow> ReachableNode \<Rightarrow> js_number" where
  "compareBest lc =
     then_by (by_asc (real o rn_hopCount)) (then_by (by_desc rn_strongestRoutePacketCount)
       (then_by (by_desc rn_totalRoutePackets) (then_by (by_desc rn_lastHeard)
         (then_by (by_asc rn_totalDistanceKm) (then_by (by_desc (pn_activityCount o rn_node))
           (by_key lc (pn_label o rn_node)))))))"

fun compareReachableNodes ::
  "(string \<Rightarrow> string \<Rightarrow> js_number) \<Rightarrow> PhonebookSortMode \<Rightarrow> ReachableNode \<Rightarrow> ReachableNode \<Rightarrow> js_number" where
  "compareReachableNodes lc ShortestFirst =
     then_by (by_asc (real o rn_hopCount)) (then_by (by_asc rn_totalDistanceKm) (compareBest lc))"
| "compareReachableNodes lc BusiestFirst =
     then_by (by_desc rn_totalRoutePackets) (then_by (by_desc rn_strongestRoutePacketCount) (compareBest lc))"
| "compareReachableNodes lc NearestFirst =
     then_by (by_asc rn_totalDistanceKm) (then_by (by_asc (real o rn_hopCount)) (compareBest lc))"
| "compareReachableNodes lc RecentFirst =
     then_by (by_desc rn_lastHeard) (then_by (by_asc (real o rn_hopCount)) (compareBest lc))"
| "compareReachableNodes lc BestFirst = compareBest lc"

section \<open>Building the graph\<close>

definition is_hex6 :: "string \<Rightarrow> bool" where
  "is_hex6 s \<longleftrightarrow> length s = 6 \<and> list_all (\<lambda>c. let n = of_char c :: nat in 48 \<le> n \<and> n \<le> 57 \<or> 65 \<le> n \<and> n \<le> 70) s"

definition normalizePathHash3 :: "string option \<Rightarrow> string" where
  "normalizePathHash3 v = (let normalized = js_upper (js_trim (or_else v [])) in if is_hex6 normalized then normalized else [])"

definition registerPathHash3 :: "string \<Rightarrow> string option \<Rightarrow> (string, string) js_map \<Rightarrow> (string, string) js_map" where
  "registerPathHash3 nodeID v m =
     (let normalized = normalizePathHash3 v
      in if normalized \<noteq> [] \<and> \<not> map_has m nodeID then map_set nodeID normalized m else m)"

definition appendEdge :: "string \<Rightarrow> GraphEdge \<Rightarrow> (string, GraphEdge list) js_map \<Rightarrow> (string, GraphEdge list) js_map" where
  "appendEdge nodeID edge adjacency = map_set nodeID (or_else (map_get adjacency nodeID) [] @ [edge]) adjacency"

definition addRoute :: "ConnectivityGraph \<Rightarrow> PublicRoute \<Rightarrow> ConnectivityGraph" where
  "addRoute g route =
     (let from = ep_nodeId (rt_from route); to = ep_nodeId (rt_to route)
      in if \<not> map_has (cg_nodesByID g) from \<or> \<not> map_has (cg_nodesByID g) to then g
         else g\<lparr>cg_pathHash3ByNodeID := registerPathHash3 to (ep_pathHash3 (rt_to route))
                  (registerPathHash3 from (ep_pathHash3 (rt_from route)) (cg_pathHash3ByNodeID g)),
                cg_routesByID := map_set (rt_id route) route (cg_routesByID g),
                cg_adjacency := appendEdge to \<lparr>ge_route = route, ge_fromNodeID = to, ge_toNodeID = from\<rparr>
                  (appendEdge from \<lparr>ge_route = route, ge_fromNodeID = from, ge_toNodeID = to\<rparr> (cg_adjacency g))\<rparr>)"

definition buildConnectivityGraph ::
  "(string \<Rightarrow> string \<Rightarrow> js_number) \<Rightarrow> PublicNode list \<Rightarrow> PublicRoute list \<Rightarrow> ConnectivityGraph" where
  "buildConnectivityGraph lc nodes routes =
     (let g = foldl addRoute \<lparr>cg_nodesByID = new_map (map (\<lambda>node. (pn_id node, node)) nodes), cg_routesByID = [],
            cg_adjacency = [], cg_pathHash3ByNodeID = []\<rparr> routes
      in g\<lparr>cg_adjacency := map (\<lambda>(k, edges). (k, js_sort (compareGraphEdges lc) edges)) (cg_adjacency g)\<rparr>)"

definition edges_of :: "ConnectivityGraph \<Rightarrow> string \<Rightarrow> GraphEdge list" where
  "edges_of graph nodeID = or_else (map_get (cg_adjacency graph) nodeID) []"

text \<open>\<open>if (!selectedNodeID)\<close>: no selection is null or the empty string.\<close>

definition selected :: "string option \<Rightarrow> string option" where
  "selected nodeID = (case nodeID of Some (c # cs) \<Rightarrow> Some (c # cs) | _ \<Rightarrow> None)"

definition directConnectivity ::
  "(string \<Rightarrow> string \<Rightarrow> js_number) \<Rightarrow> ConnectivityGraph \<Rightarrow> string option \<Rightarrow> DirectConnectivity" where
  "directConnectivity lc graph selectedNodeID =
     (case selected selectedNodeID of
        None \<Rightarrow> \<lparr>dc_routeIDs = [], dc_nodeIDs = [], dc_routes = [], dc_nodes = []\<rparr>
      | Some nodeID \<Rightarrow>
          let edges = edges_of graph nodeID;
              routeIDs = js_set (map (rt_id o ge_route) edges);
              nodeIDs = js_set (map ge_toNodeID edges)
          in \<lparr>dc_routeIDs = routeIDs, dc_nodeIDs = nodeIDs,
              dc_routes = js_sort (compareRoutesByActivity lc) (List.map_filter (map_get (cg_routesByID graph)) routeIDs),
              dc_nodes = js_sort (compareNodesByActivity lc) (List.map_filter (map_get (cg_nodesByID graph)) nodeIDs)\<rparr>)"

section \<open>The search for paths\<close>

definition startCandidate :: "string \<Rightarrow> PathCandidate" where
  "startCandidate nodeID = \<lparr>pc_nodeID = nodeID, pc_hopCount = 0, pc_routeIDs = [], pc_nodeIDs = [nodeID],
     pc_totalDistanceKm = 0, pc_strongestRoutePacketCount = 0, pc_totalRoutePackets = 0, pc_lastHeard = 0,
     pc_endpointLabels = [], pc_pathHash3 = []\<rparr>"

definition extendPath :: "ConnectivityGraph \<Rightarrow> PathCandidate \<Rightarrow> GraphEdge \<Rightarrow> PathCandidate" where
  "extendPath graph current edge =
     (let route = ge_route edge
      in \<lparr>pc_nodeID = ge_toNodeID edge, pc_hopCount = pc_hopCount current + 1,
          pc_routeIDs = pc_routeIDs current @ [rt_id route], pc_nodeIDs = pc_nodeIDs current @ [ge_toNodeID edge],
          pc_totalDistanceKm = pc_totalDistanceKm current + rt_distanceKm route,
          pc_strongestRoutePacketCount = max (pc_strongestRoutePacketCount current) (rt_packetCount route),
          pc_totalRoutePackets = pc_totalRoutePackets current + rt_packetCount route,
          pc_lastHeard = max (pc_lastHeard current) (rt_lastHeard route),
          pc_endpointLabels = pc_endpointLabels current
            @ [if ep_nodeId (rt_from route) = ge_fromNodeID edge then ep_label (rt_to route) else ep_label (rt_from route)],
          pc_pathHash3 = pc_pathHash3 current @ [or_else (map_get (cg_pathHash3ByNodeID graph) (ge_toNodeID edge)) []]\<rparr>)"

type_synonym search = "PathCandidate list \<times> (string, PathCandidate) js_map"

definition relaxEdge ::
  "(string \<Rightarrow> string \<Rightarrow> js_number) \<Rightarrow> ConnectivityGraph \<Rightarrow> PathCandidate \<Rightarrow> search \<Rightarrow> GraphEdge \<Rightarrow> search" where
  "relaxEdge lc graph current qb edge =
     (let (queue, best) = qb
      in if ge_toNodeID edge \<in> set (pc_nodeIDs current) then (queue, best)
         else let next = extendPath graph current edge; existing = map_get best (pc_nodeID next)
              in if existing = None \<or> comparePathCandidates lc next (the existing) < 0
                 then (js_sort (comparePathCandidates lc) (queue @ [next]), map_set (pc_nodeID next) next best)
                 else (queue, best))"

definition relaxEdges ::
  "(string \<Rightarrow> string \<Rightarrow> js_number) \<Rightarrow> ConnectivityGraph \<Rightarrow> PathCandidate \<Rightarrow> GraphEdge list \<Rightarrow> search \<Rightarrow> search" where
  "relaxEdges lc graph current edges qb = foldl (relaxEdge lc graph current) qb edges"

text \<open>
  A queued path weighs (1 + number of edges) to the power of the targets it has not visited; the paths that
  extend it weigh less together.
\<close>

definition targets :: "ConnectivityGraph \<Rightarrow> string set" where
  "targets graph = (\<Union>(k, edges) \<in> set (cg_adjacency graph). ge_toNodeID ` set edges)"

definition edge_total :: "ConnectivityGraph \<Rightarrow> nat" where
  "edge_total graph = sum_list (map (length o snd) (cg_adjacency graph))"

definition weight :: "ConnectivityGraph \<Rightarrow> PathCandidate \<Rightarrow> nat" where
  "weight graph c = Suc (edge_total graph) ^ card (targets graph - set (pc_nodeIDs c))"

definition queue_weight :: "ConnectivityGraph \<Rightarrow> PathCandidate list \<Rightarrow> nat" where
  "queue_weight graph queue = sum_list (map (weight graph) queue)"

lemma finite_targets [simp]: "finite (targets graph)"
  by (auto simp: targets_def)

lemma edges_of_targets: "e \<in> set (edges_of graph u) \<Longrightarrow> ge_toNodeID e \<in> targets graph"
  by (cases "map_get (cg_adjacency graph) u") (force simp: edges_of_def targets_def dest: map_of_SomeD)+

lemma length_edges_of: "length (edges_of graph u) \<le> edge_total graph"
proof (cases "map_get (cg_adjacency graph) u")
  case (Some es)
  then have "length es \<in> set (map (length o snd) (cg_adjacency graph))" by (force dest: map_of_SomeD)
  then show ?thesis using Some by (simp add: edges_of_def edge_total_def member_le_sum_list)
qed (simp add: edges_of_def)

lemma queue_weight_sort [simp]: "queue_weight graph (js_sort c q) = queue_weight graph q"
  unfolding queue_weight_def by (metis mset_js_sort mset_map sum_mset_sum_list)

lemma weight_extend:
  assumes "ge_toNodeID e \<notin> set (pc_nodeIDs c)" and "ge_toNodeID e \<in> targets graph"
  shows "Suc (edge_total graph) * weight graph (extendPath graph c e) \<le> weight graph c"
proof -
  let ?A = "targets graph - set (pc_nodeIDs c)"
  have "targets graph - set (pc_nodeIDs (extendPath graph c e)) = ?A - {ge_toNodeID e}"
    by (auto simp: extendPath_def Let_def)
  moreover have "Suc (card (?A - {ge_toNodeID e})) = card ?A"
    using assms by (intro card_Suc_Diff1) auto
  ultimately show ?thesis unfolding weight_def by (metis order_refl power_Suc)
qed

lemma relaxEdge_weight:
  assumes "ge_toNodeID e \<in> targets graph"
  shows "Suc (edge_total graph) * queue_weight graph (fst (relaxEdge lc graph c (q, b) e))
    \<le> Suc (edge_total graph) * queue_weight graph q + weight graph c"
proof (cases "ge_toNodeID e \<in> set (pc_nodeIDs c)")
  case True
  then show ?thesis by (simp add: relaxEdge_def)
next
  case False
  from weight_extend [OF False assms] have
    "Suc (edge_total graph) * queue_weight graph (q @ [extendPath graph c e])
      \<le> Suc (edge_total graph) * queue_weight graph q + weight graph c"
    by (simp add: queue_weight_def algebra_simps)
  moreover have "Suc (edge_total graph) * queue_weight graph q
      \<le> Suc (edge_total graph) * queue_weight graph q + weight graph c" by simp
  ultimately show ?thesis using False
    by (simp only: relaxEdge_def Let_def split: if_split prod.split) (auto simp del: mult_Suc)
qed

lemma relaxEdges_weight:
  assumes "\<forall>e \<in> set es. ge_toNodeID e \<in> targets graph"
  shows "Suc (edge_total graph) * queue_weight graph (fst (relaxEdges lc graph c es (q, b)))
    \<le> Suc (edge_total graph) * queue_weight graph q + length es * weight graph c"
  using assms
proof (induction es arbitrary: q b)
  case Nil
  then show ?case by (simp add: relaxEdges_def)
next
  case (Cons e es)
  obtain q1 b1 where r: "relaxEdge lc graph c (q, b) e = (q1, b1)" by fastforce
  have "Suc (edge_total graph) * queue_weight graph q1 \<le> Suc (edge_total graph) * queue_weight graph q + weight graph c"
    using relaxEdge_weight [of e graph lc c q b] Cons.prems r by simp
  moreover have "Suc (edge_total graph) * queue_weight graph (fst (relaxEdges lc graph c es (q1, b1)))
      \<le> Suc (edge_total graph) * queue_weight graph q1 + length es * weight graph c"
    using Cons by simp
  ultimately show ?case by (simp add: relaxEdges_def r del: mult_Suc) (simp add: add_mult_distrib)
qed

function searchPaths ::
  "(string \<Rightarrow> string \<Rightarrow> js_number) \<Rightarrow> ConnectivityGraph \<Rightarrow> PathCandidate list \<Rightarrow> (string, PathCandidate) js_map
    \<Rightarrow> (string, PathCandidate) js_map" where
  "searchPaths lc graph [] best = best"
| "searchPaths lc graph (current # queue) best =
     searchPaths lc graph
       (fst (relaxEdges lc graph current (edges_of graph (pc_nodeID current)) (queue, best)))
       (snd (relaxEdges lc graph current (edges_of graph (pc_nodeID current)) (queue, best)))"
  by pat_completeness auto
termination
proof (relation "measure (\<lambda>(lc, graph, queue, best). queue_weight graph queue)", goal_cases)
  case (2 lc graph c q b)
  let ?es = "edges_of graph (pc_nodeID c)"
  let ?q = "fst (relaxEdges lc graph c ?es (q, b))"
  let ?D = "edge_total graph"
  have "Suc ?D * queue_weight graph ?q \<le> Suc ?D * queue_weight graph q + length ?es * weight graph c"
    by (rule relaxEdges_weight) (simp add: edges_of_targets)
  also have "\<dots> \<le> Suc ?D * queue_weight graph q + ?D * weight graph c"
    by (simp add: length_edges_of)
  also have "\<dots> < Suc ?D * (queue_weight graph q + weight graph c)"
    by (simp add: weight_def algebra_simps)
  finally have "queue_weight graph ?q < queue_weight graph q + weight graph c"
    by (rule mult_less_cancel1 [THEN iffD1, THEN conjunct2])
  then show ?case by (cases "relaxEdges lc graph c ?es (q, b)") (simp add: queue_weight_def)
qed simp

definition reachablePaths ::
  "(string \<Rightarrow> string \<Rightarrow> js_number) \<Rightarrow> ConnectivityGraph \<Rightarrow> string \<Rightarrow> (string, PathCandidate) js_map" where
  "reachablePaths lc graph selectedNodeID =
     searchPaths lc graph [startCandidate selectedNodeID] [(selectedNodeID, startCandidate selectedNodeID)]"

section \<open>The phonebook\<close>

definition meshcorePath3 :: "string list \<Rightarrow> string" where
  "meshcorePath3 hashes = join '','' (filter (\<lambda>s. s \<noteq> []) (map (\<lambda>s. normalizePathHash3 (Some s)) hashes))"

definition reachableNode :: "PublicNode \<Rightarrow> PathCandidate \<Rightarrow> ReachableNode" where
  "reachableNode node path = \<lparr>rn_node = node, rn_hopCount = pc_hopCount path, rn_pathRouteIDs = pc_routeIDs path,
     rn_pathNodeIDs = pc_nodeIDs path, rn_totalDistanceKm = pc_totalDistanceKm path,
     rn_strongestRoutePacketCount = pc_strongestRoutePacketCount path,
     rn_totalRoutePackets = pc_totalRoutePackets path, rn_lastHeard = pc_lastHeard path,
     rn_endpointLabels = pc_endpointLabels path, rn_pathHash3 = pc_pathHash3 path,
     rn_meshcorePath3 = meshcorePath3 (pc_pathHash3 path)\<rparr>"

definition phonebookSearchFields :: "ReachableNode \<Rightarrow> string list" where
  "phonebookSearchFields item = filter (\<lambda>s. s \<noteq> [])
     ([pn_id (rn_node item), pn_label (rn_node item), role_name (pn_role (rn_node item)), rn_meshcorePath3 item]
      @ pn_iatasHeardIn (rn_node item) @ rn_endpointLabels item)"

definition phonebookItemMatches :: "ReachableNode \<Rightarrow> PhonebookFilterOptions \<Rightarrow> bool" where
  "phonebookItemMatches item options =
     (if truthy_num (po_maxDistanceKm options) \<and> the (po_maxDistanceKm options) < rn_totalDistanceKm item then False
      else let query = js_lower (js_trim (or_else (po_query options) []))
           in query = [] \<or> list_ex (\<lambda>v. str_includes (js_lower v) query) (phonebookSearchFields item))"

definition addToGroup ::
  "ConnectivityGraph \<Rightarrow> string \<Rightarrow> PhonebookFilterOptions \<Rightarrow> (nat, ReachableNode list) js_map \<Rightarrow> PathCandidate
    \<Rightarrow> (nat, ReachableNode list) js_map" where
  "addToGroup graph selectedNodeID options groups path =
     (if pc_nodeID path = selectedNodeID then groups
      else case map_get (cg_nodesByID graph) (pc_nodeID path) of None \<Rightarrow> groups
        | Some node \<Rightarrow> let item = reachableNode node path
            in if \<not> phonebookItemMatches item options then groups
               else map_set (pc_hopCount path) (or_else (map_get groups (pc_hopCount path)) [] @ [item]) groups)"

definition phonebookGroupsForNode ::
  "(string \<Rightarrow> string \<Rightarrow> js_number) \<Rightarrow> ConnectivityGraph \<Rightarrow> string option \<Rightarrow> PhonebookFilterOptions \<Rightarrow> PhonebookGroup list" where
  "phonebookGroupsForNode lc graph selectedNodeID options =
     (case selected selectedNodeID of None \<Rightarrow> []
      | Some nodeID \<Rightarrow>
          if \<not> map_has (cg_nodesByID graph) nodeID then []
          else let groups = foldl (addToGroup graph nodeID options) [] (map_vals (reachablePaths lc graph nodeID));
                   sortMode = or_else (po_sortMode options) BestFirst
               in map (\<lambda>(hopCount, nodes). \<lparr>pg_hopCount = hopCount,
                    pg_nodes = js_sort (compareReachableNodes lc sortMode) nodes\<rparr>)
                    (js_sort (by_asc (real o fst)) groups))"

definition highlightedPathForTarget :: "PhonebookGroup list \<Rightarrow> string option \<Rightarrow> HighlightedPath option" where
  "highlightedPathForTarget groups target =
     (case selected target of None \<Rightarrow> None
      | Some targetNodeID \<Rightarrow>
          case List.find (\<lambda>item. pn_id (rn_node item) = targetNodeID) (concat (map pg_nodes groups)) of
            None \<Rightarrow> None
          | Some found \<Rightarrow> Some \<lparr>hp_targetNodeID = targetNodeID, hp_routeIDs = rn_pathRouteIDs found,
              hp_nodeIDs = rn_pathNodeIDs found\<rparr>)"

definition shortestPathBetween ::
  "(string \<Rightarrow> string \<Rightarrow> js_number) \<Rightarrow> ConnectivityGraph \<Rightarrow> string option \<Rightarrow> string option \<Rightarrow> ReachableNode option" where
  "shortestPathBetween lc graph source target =
     (case (selected source, selected target) of
        (Some sourceNodeID, Some targetNodeID) \<Rightarrow>
          if sourceNodeID = targetNodeID \<or> \<not> map_has (cg_nodesByID graph) sourceNodeID
            \<or> \<not> map_has (cg_nodesByID graph) targetNodeID then None
          else (case (map_get (reachablePaths lc graph sourceNodeID) targetNodeID, map_get (cg_nodesByID graph) targetNodeID) of
                  (Some path, Some node) \<Rightarrow> Some (reachableNode node path)
                | _ \<Rightarrow> None)
      | _ \<Rightarrow> None)"

end
