(* ===== verification/Connectivity_Correct.thy ===== *)
theory Connectivity_Correct
  imports Connectivity Carto_Samples
begin

text \<open>
  The search of \<open>reachablePaths\<close> finds a path to exactly the nodes that can be reached, with the least
  number of hops, whatever the collation and the weights; the phonebook lists these nodes, each in the
  group of its distance; and the graph has exactly the links of the routes between known nodes.
\<close>

section \<open>Walks\<close>

text \<open>\<open>walk g s es v\<close>: the edges \<open>es\<close> lead from \<open>s\<close> to \<open>v\<close>.\<close>

inductive walk :: "ConnectivityGraph \<Rightarrow> string \<Rightarrow> GraphEdge list \<Rightarrow> string \<Rightarrow> bool" for g s where
  walk_Nil: "walk g s [] s"
| walk_snoc: "walk g s es u \<Longrightarrow> e \<in> set (edges_of g u) \<Longrightarrow> walk g s (es @ [e]) (ge_toNodeID e)"

definition candidate :: "ConnectivityGraph \<Rightarrow> string \<Rightarrow> GraphEdge list \<Rightarrow> PathCandidate" where
  "candidate g s es = foldl (extendPath g) (startCandidate s) es"

lemma candidate_snoc: "candidate g s (es @ [e]) = extendPath g (candidate g s es) e"
  by (simp add: candidate_def)

lemma candidate_fields:
  "pc_hopCount (candidate g s es) = length es"
  "pc_routeIDs (candidate g s es) = map (rt_id o ge_route) es"
  "pc_nodeIDs (candidate g s es) = s # map ge_toNodeID es"
  "pc_totalDistanceKm (candidate g s es) = sum_list (map (rt_distanceKm o ge_route) es)"
  "pc_totalRoutePackets (candidate g s es) = sum_list (map (rt_packetCount o ge_route) es)"
  by (induction es rule: rev_induct)
    (simp_all add: candidate_snoc, simp_all add: candidate_def startCandidate_def extendPath_def Let_def)

lemma candidate_node: "walk g s es v \<Longrightarrow> pc_nodeID (candidate g s es) = v"
  by (erule walk.cases)
    (simp_all add: candidate_snoc extendPath_def Let_def, simp add: candidate_def startCandidate_def)

lemma walk_last: "walk g s es v \<Longrightarrow> last (s # map ge_toNodeID es) = v"
  by (erule walk.cases) auto

section \<open>The invariant of the search\<close>

definition is_path :: "ConnectivityGraph \<Rightarrow> string \<Rightarrow> PathCandidate \<Rightarrow> bool" where
  "is_path g s c \<longleftrightarrow> (\<exists>es. walk g s es (pc_nodeID c) \<and> c = candidate g s es \<and> distinct (pc_nodeIDs c))"

text \<open>\<open>covers b v n\<close>: a path with at most \<open>n\<close> hops to \<open>v\<close> is known.\<close>

definition covers :: "(string, PathCandidate) js_map \<Rightarrow> string \<Rightarrow> nat \<Rightarrow> bool" where
  "covers b v n \<longleftrightarrow> (\<exists>c. map_get b v = Some c \<and> pc_hopCount c \<le> n)"

definition closed_at :: "ConnectivityGraph \<Rightarrow> (string, PathCandidate) js_map \<Rightarrow> PathCandidate \<Rightarrow> GraphEdge list \<Rightarrow> bool" where
  "closed_at g b c es \<longleftrightarrow> (\<forall>e \<in> set es. covers b (ge_toNodeID e) (pc_hopCount c + 1))"

definition search_ok ::
  "ConnectivityGraph \<Rightarrow> string \<Rightarrow> PathCandidate set \<Rightarrow> PathCandidate list \<Rightarrow> (string, PathCandidate) js_map \<Rightarrow> bool" where
  "search_ok g s cur q b \<longleftrightarrow>
     well_keyed b \<and> map_get b s = Some (startCandidate s) \<and>
     (\<forall>v c. map_get b v = Some c \<longrightarrow> pc_nodeID c = v \<and> is_path g s c \<and>
        (c \<in> cur \<or> c \<in> set q \<or> closed_at g b c (edges_of g v))) \<and>
     (\<forall>c \<in> set q \<union> cur. is_path g s c) \<and>
     (\<forall>c \<in> set q \<union> cur. \<forall>i < length (pc_nodeIDs c). covers b (pc_nodeIDs c ! i) i)"

definition improves :: "(string, PathCandidate) js_map \<Rightarrow> (string, PathCandidate) js_map \<Rightarrow> bool" where
  "improves b b' \<longleftrightarrow> (\<forall>v n. covers b v n \<longrightarrow> covers b' v n)"

lemma compare_hops: "comparePathCandidates lc x y < 0 \<Longrightarrow> pc_hopCount x \<le> pc_hopCount y"
  by (auto simp: comparePathCandidates_def then_by_def by_asc_def split: if_splits)

lemma improves_set:
  assumes "map_get b v = None \<or> comparePathCandidates lc c (the (map_get b v)) < 0"
  shows "improves b (map_set v c b)"
  using assms by (auto simp: improves_def covers_def dest: compare_hops)

lemma improves_closed: "improves b b' \<Longrightarrow> closed_at g b c es \<Longrightarrow> closed_at g b' c es"
  by (auto simp: improves_def closed_at_def)

lemma is_path_extend:
  assumes "is_path g s c" and "e \<in> set (edges_of g (pc_nodeID c))" and "ge_toNodeID e \<notin> set (pc_nodeIDs c)"
  shows "is_path g s (extendPath g c e)"
proof -
  obtain es where es: "walk g s es (pc_nodeID c)" "c = candidate g s es" "distinct (pc_nodeIDs c)"
    using assms(1) by (auto simp: is_path_def)
  have "walk g s (es @ [e]) (ge_toNodeID e)" by (rule walk_snoc [OF es(1) assms(2)])
  moreover have "extendPath g c e = candidate g s (es @ [e])" by (simp add: es(2) candidate_snoc)
  moreover have "distinct (pc_nodeIDs (extendPath g c e))" "pc_nodeID (extendPath g c e) = ge_toNodeID e"
    using es(3) assms(3) by (simp_all add: extendPath_def Let_def)
  ultimately show ?thesis unfolding is_path_def by metis
qed

lemma is_path_length: "is_path g s c \<Longrightarrow> length (pc_nodeIDs c) = Suc (pc_hopCount c) \<and> pc_nodeIDs c ! 0 = s"
  by (auto simp: is_path_def candidate_fields)

text \<open>One edge: what was known stays, and the edge's end is covered afterwards.\<close>

lemma relaxEdge_ok:
  assumes ok: "search_ok g s {c} q b" and e: "e \<in> set (edges_of g (pc_nodeID c))"
    and r: "relaxEdge lc g c (q, b) e = (q', b')"
  shows "search_ok g s {c} q' b' \<and> improves b b' \<and> covers b' (ge_toNodeID e) (pc_hopCount c + 1)"
proof (cases "ge_toNodeID e \<in> set (pc_nodeIDs c)")
  case True
  then obtain i where i: "i < length (pc_nodeIDs c)" "pc_nodeIDs c ! i = ge_toNodeID e"
    by (auto simp: in_set_conv_nth)
  then have "covers b (ge_toNodeID e) i" using ok by (auto simp: search_ok_def)
  moreover have "i \<le> pc_hopCount c" using ok i(1) is_path_length [of g s c] by (auto simp: search_ok_def)
  ultimately have "covers b (ge_toNodeID e) (pc_hopCount c + 1)" by (auto simp: covers_def)
  moreover have "q' = q" "b' = b" using r True by (simp_all add: relaxEdge_def)
  ultimately show ?thesis using ok by (simp add: improves_def)
next
  case False
  let ?n = "extendPath g c e" and ?v = "ge_toNodeID e"
  have n: "pc_nodeID ?n = ?v" "pc_hopCount ?n = pc_hopCount c + 1" "pc_nodeIDs ?n = pc_nodeIDs c @ [?v]"
    by (simp_all add: extendPath_def Let_def)
  have p: "is_path g s c" using ok by (simp add: search_ok_def)
  show ?thesis
  proof (cases "map_get b ?v = None \<or> comparePathCandidates lc ?n (the (map_get b ?v)) < 0")
    case better: True
    then have q': "q' = js_sort (comparePathCandidates lc) (q @ [?n])" and b': "b' = map_set ?v ?n b"
      using r False by (simp_all add: relaxEdge_def Let_def n(1))
    have imp: "improves b b'" unfolding b' by (rule improves_set [OF better])
    have cov: "covers b' ?v (pc_hopCount c + 1)" by (simp add: b' covers_def n(2))
    have path: "is_path g s ?n" by (rule is_path_extend [OF p e False])
    have "?v \<noteq> s" using False is_path_length [OF p] by (metis nth_mem zero_less_Suc)
    then have start: "map_get b' s = Some (startCandidate s)" using ok by (simp add: b' search_ok_def)
    have "\<forall>i < length (pc_nodeIDs c). covers b' (pc_nodeIDs c ! i) i"
      using ok imp by (simp add: search_ok_def improves_def)
    then have new: "\<forall>i < length (pc_nodeIDs ?n). covers b' (pc_nodeIDs ?n ! i) i"
      using cov is_path_length [OF p] by (auto simp: n(3) nth_append less_Suc_eq)
    have "search_ok g s {c} q' b'"
      unfolding search_ok_def
    proof (intro conjI allI impI ballI)
      show "well_keyed b'" using ok by (simp add: b' search_ok_def)
      show "map_get b' s = Some (startCandidate s)" by (rule start)
    next
      fix v d assume "map_get b' v = Some d"
      then have d: "v = ?v \<and> d = ?n \<or> v \<noteq> ?v \<and> map_get b v = Some d" by (auto simp: b' split: if_splits)
      then show "pc_nodeID d = v" using ok n(1) by (auto simp: search_ok_def)
      show "is_path g s d" using d ok path by (auto simp: search_ok_def)
      have "v \<noteq> ?v \<Longrightarrow> d \<in> {c} \<or> d \<in> set q \<or> closed_at g b d (edges_of g v)"
        using d ok by (auto simp: search_ok_def)
      then show "d \<in> {c} \<or> d \<in> set q' \<or> closed_at g b' d (edges_of g v)"
        using d improves_closed [OF imp] by (auto simp: q')
    next
      fix d assume d: "d \<in> set q' \<union> {c}"
      then show "is_path g s d" using ok path by (auto simp: q' search_ok_def)
      fix i assume "i < length (pc_nodeIDs d)"
      then show "covers b' (pc_nodeIDs d ! i) i"
        using d new ok imp by (auto simp: q' search_ok_def improves_def)
    qed
    then show ?thesis using imp cov by simp
  next
    case worse: False
    then obtain x where x: "map_get b ?v = Some x" "\<not> comparePathCandidates lc ?n x < 0" by auto
    have "pc_hopCount x \<le> pc_hopCount ?n"
      using x(2) by (auto simp: comparePathCandidates_def then_by_def by_asc_def split: if_splits)
    then have "covers b ?v (pc_hopCount c + 1)" using x(1) n(2) by (simp add: covers_def)
    moreover have "q' = q" "b' = b" using r False worse by (simp_all add: relaxEdge_def Let_def n(1))
    ultimately show ?thesis using ok by (simp add: improves_def)
  qed
qed

lemma relaxEdges_ok:
  assumes "search_ok g s {c} q b" and "set es \<subseteq> set (edges_of g (pc_nodeID c))"
    and "relaxEdges lc g c es (q, b) = (q', b')"
  shows "search_ok g s {c} q' b' \<and> improves b b' \<and> closed_at g b' c es"
  using assms
proof (induction es arbitrary: q b)
  case Nil
  then show ?case by (simp add: relaxEdges_def improves_def closed_at_def)
next
  case (Cons e es)
  obtain q1 b1 where r: "relaxEdge lc g c (q, b) e = (q1, b1)" by fastforce
  have s1: "search_ok g s {c} q1 b1 \<and> improves b b1 \<and> covers b1 (ge_toNodeID e) (pc_hopCount c + 1)"
    by (rule relaxEdge_ok [OF Cons.prems(1) _ r]) (use Cons.prems(2) in simp)
  have s2: "search_ok g s {c} q' b' \<and> improves b1 b' \<and> closed_at g b' c es"
    using s1 Cons.prems r by (intro Cons.IH) (simp_all add: relaxEdges_def)
  then show ?case using s1 by (auto simp: improves_def closed_at_def)
qed

lemma searchPaths_ok:
  assumes "search_ok g s {} q b"
  shows "search_ok g s {} [] (searchPaths lc g q b)"
  using assms
proof (induction lc g q b rule: searchPaths.induct)
  case (1 lc g b)
  then show ?case by simp
next
  case (2 lc g c q b)
  let ?es = "edges_of g (pc_nodeID c)"
  obtain q' b' where r: "relaxEdges lc g c ?es (q, b) = (q', b')" by fastforce
  have "search_ok g s {c} q b" using "2.prems" by (auto simp: search_ok_def)
  from relaxEdges_ok [OF this order_refl r] have ok: "search_ok g s {c} q' b'" and cl: "closed_at g b' c ?es"
    by simp_all
  have "search_ok g s {} q' b'" using ok cl unfolding search_ok_def by auto
  then show ?case using "2.IH" r by simp
qed

lemma reachablePaths_ok: "search_ok g s {} [] (reachablePaths lc g s)"
proof -
  have p: "is_path g s (startCandidate s)"
    unfolding is_path_def by (rule exI [of _ "[]"]) (simp add: walk_Nil candidate_def startCandidate_def)
  have "search_ok g s {} [startCandidate s] [(s, startCandidate s)]"
    using p by (auto simp: search_ok_def well_keyed_def covers_def startCandidate_def)
  then show ?thesis unfolding reachablePaths_def by (rule searchPaths_ok)
qed

lemma reachablePaths_keyed: "well_keyed (reachablePaths lc g s)"
  using reachablePaths_ok by (simp add: search_ok_def)

lemma reachablePaths_start: "map_get (reachablePaths lc g s) s = Some (startCandidate s)"
  using reachablePaths_ok by (simp add: search_ok_def)

lemma reachablePaths_sound:
  "map_get (reachablePaths lc g s) v = Some c \<Longrightarrow> pc_nodeID c = v \<and> is_path g s c"
  using reachablePaths_ok by (auto simp: search_ok_def)

lemma reachablePaths_complete: "walk g s es v \<Longrightarrow> covers (reachablePaths lc g s) v (length es)"
proof (induction rule: walk.induct)
  case walk_Nil
  then show ?case by (simp add: covers_def reachablePaths_start startCandidate_def)
next
  case (walk_snoc es u e)
  let ?b = "reachablePaths lc g s"
  obtain c where c: "map_get ?b u = Some c" "pc_hopCount c \<le> length es"
    using walk_snoc.IH by (auto simp: covers_def)
  then have "closed_at g ?b c (edges_of g u)" using reachablePaths_ok [of g s lc] by (auto simp: search_ok_def)
  then have "covers ?b (ge_toNodeID e) (pc_hopCount c + 1)" using walk_snoc.hyps by (simp add: closed_at_def)
  then show ?case using c(2) by (auto simp: covers_def)
qed

section \<open>The graph of the routes\<close>

abbreviation from_id :: "PublicRoute \<Rightarrow> string" where "from_id r \<equiv> ep_nodeId (rt_from r)"
abbreviation to_id :: "PublicRoute \<Rightarrow> string" where "to_id r \<equiv> ep_nodeId (rt_to r)"

text \<open>\<open>joins nodes r u v\<close>: the route joins the known nodes \<open>u\<close> and \<open>v\<close>, in either direction.\<close>

definition joins :: "PublicNode list \<Rightarrow> PublicRoute \<Rightarrow> string \<Rightarrow> string \<Rightarrow> bool" where
  "joins nodes r u v \<longleftrightarrow> from_id r \<in> pn_id ` set nodes \<and> to_id r \<in> pn_id ` set nodes \<and>
     (u = from_id r \<and> v = to_id r \<or> u = to_id r \<and> v = from_id r)"

definition links :: "PublicNode list \<Rightarrow> PublicRoute list \<Rightarrow> (string \<times> string) set" where
  "links nodes routes = {(u, v). \<exists>r \<in> set routes. joins nodes r u v}"

lemma edges_of_appendEdge:
  "or_else (map_get (appendEdge k e m) u) [] = (if u = k then or_else (map_get m u) [] @ [e] else or_else (map_get m u) [])"
  by (simp add: appendEdge_def)

lemma addRoute_nodes [simp]: "cg_nodesByID (addRoute g r) = cg_nodesByID g"
  by (simp add: addRoute_def Let_def)

lemma addRoute_edges:
  "set (edges_of (addRoute g r) u) = set (edges_of g u) \<union>
     (if map_has (cg_nodesByID g) (from_id r) \<and> map_has (cg_nodesByID g) (to_id r)
      then {e. e = \<lparr>ge_route = r, ge_fromNodeID = from_id r, ge_toNodeID = to_id r\<rparr> \<and> u = from_id r \<or>
               e = \<lparr>ge_route = r, ge_fromNodeID = to_id r, ge_toNodeID = from_id r\<rparr> \<and> u = to_id r}
      else {})"
  by (auto simp: addRoute_def Let_def edges_of_def edges_of_appendEdge)

lemma addRoutes_nodes [simp]: "cg_nodesByID (foldl addRoute g routes) = cg_nodesByID g"
  by (induction routes arbitrary: g) simp_all

lemma addRoutes_edges:
  "e \<in> set (edges_of (foldl addRoute g routes) u) \<longleftrightarrow> e \<in> set (edges_of g u) \<or>
     (\<exists>r \<in> set routes. map_has (cg_nodesByID g) (from_id r) \<and> map_has (cg_nodesByID g) (to_id r) \<and>
        (e = \<lparr>ge_route = r, ge_fromNodeID = from_id r, ge_toNodeID = to_id r\<rparr> \<and> u = from_id r \<or>
         e = \<lparr>ge_route = r, ge_fromNodeID = to_id r, ge_toNodeID = from_id r\<rparr> \<and> u = to_id r))"
  by (induction routes arbitrary: g) (auto simp: addRoute_edges split: if_splits)

lemma edges_of_sorted:
  "set (or_else (map_get (map (\<lambda>(k, es). (k, js_sort c es)) m) u) []) = set (or_else (map_get m u) [])"
  by (cases "map_get m u") (simp_all add: map_of_map)

lemma build_nodes: "map_get (cg_nodesByID (buildConnectivityGraph lc nodes routes)) v =
    map_of (rev (map (\<lambda>n. (pn_id n, n)) nodes)) v"
  by (simp add: buildConnectivityGraph_def Let_def map_get_new_map)

lemma build_node_id: "map_get (cg_nodesByID (buildConnectivityGraph lc nodes routes)) v = Some n \<Longrightarrow> pn_id n = v"
  by (auto simp: build_nodes dest!: map_of_SomeD)

lemma build_has: "map_has (cg_nodesByID (buildConnectivityGraph lc nodes routes)) v \<longleftrightarrow> v \<in> pn_id ` set nodes"
  unfolding map_has_iff build_nodes map_of_eq_None_iff not_not by (force simp: image_iff)

lemma build_edges:
  "e \<in> set (edges_of (buildConnectivityGraph lc nodes routes) u) \<longleftrightarrow>
     ge_route e \<in> set routes \<and> ge_fromNodeID e = u \<and> joins nodes (ge_route e) u (ge_toNodeID e)"
proof -
  let ?g0 = "\<lparr>cg_nodesByID = new_map (map (\<lambda>node. (pn_id node, node)) nodes), cg_routesByID = [],
            cg_adjacency = [], cg_pathHash3ByNodeID = []\<rparr>"
  have h: "map_has (new_map (map (\<lambda>n. (pn_id n, n)) nodes)) v \<longleftrightarrow> v \<in> pn_id ` set nodes" for v
    using build_has [of lc nodes routes v] by (simp add: buildConnectivityGraph_def Let_def)
  have "set (edges_of (buildConnectivityGraph lc nodes routes) u) = set (edges_of (foldl addRoute ?g0 routes) u)"
    by (simp add: buildConnectivityGraph_def Let_def edges_of_def edges_of_sorted)
  moreover have "edges_of ?g0 u = []" by (simp add: edges_of_def)
  ultimately show ?thesis by (cases e) (auto simp: addRoutes_edges h joins_def)
qed

lemma walk_links: "walk (buildConnectivityGraph lc nodes routes) s es v \<Longrightarrow> (s, v) \<in> links nodes routes ^^ length es"
  by (induction rule: walk.induct) (auto simp: links_def build_edges intro!: relcompI)

lemma links_walk:
  "(s, v) \<in> links nodes routes ^^ n \<Longrightarrow> \<exists>es. walk (buildConnectivityGraph lc nodes routes) s es v \<and> length es = n"
proof (induction n arbitrary: v)
  case 0
  then show ?case by (auto intro: walk_Nil)
next
  case (Suc n)
  then obtain u where u: "(s, u) \<in> links nodes routes ^^ n" "(u, v) \<in> links nodes routes" by auto
  from Suc.IH [OF u(1)] obtain es where es: "walk (buildConnectivityGraph lc nodes routes) s es u" "length es = n" by auto
  obtain r where r: "r \<in> set routes" "joins nodes r u v" using u(2) by (auto simp: links_def)
  let ?e = "\<lparr>ge_route = r, ge_fromNodeID = u, ge_toNodeID = v\<rparr>"
  have "?e \<in> set (edges_of (buildConnectivityGraph lc nodes routes) u)"
    unfolding build_edges using r by simp
  from walk_snoc [OF es(1) this] show ?case using es(2) by (intro exI [of _ "es @ [?e]"]) simp
qed

section \<open>Paths of routes\<close>

text \<open>
  \<open>route_path nodes routes s v item\<close>: the item describes a simple path of routes from \<open>s\<close> to \<open>v\<close>, with
  its routes, nodes, hops, distance and packets.
\<close>

definition route_path :: "PublicNode list \<Rightarrow> PublicRoute list \<Rightarrow> string \<Rightarrow> string \<Rightarrow> ReachableNode \<Rightarrow> bool" where
  "route_path nodes routes s v item \<longleftrightarrow>
     (\<exists>rs. set rs \<subseteq> set routes \<and> length rs = rn_hopCount item \<and> rn_pathRouteIDs item = map rt_id rs \<and>
        rn_totalDistanceKm item = sum_list (map rt_distanceKm rs) \<and>
        rn_totalRoutePackets item = sum_list (map rt_packetCount rs) \<and>
        length (rn_pathNodeIDs item) = Suc (rn_hopCount item) \<and> distinct (rn_pathNodeIDs item) \<and>
        rn_pathNodeIDs item ! 0 = s \<and> rn_pathNodeIDs item ! rn_hopCount item = v \<and>
        (\<forall>i < rn_hopCount item. joins nodes (rs ! i) (rn_pathNodeIDs item ! i) (rn_pathNodeIDs item ! Suc i)))"

lemma walk_joins:
  "walk (buildConnectivityGraph lc nodes routes) s es v \<Longrightarrow>
     set (map ge_route es) \<subseteq> set routes \<and> (s # map ge_toNodeID es) ! length es = v \<and>
     (\<forall>i < length es. joins nodes (ge_route (es ! i)) ((s # map ge_toNodeID es) ! i) (ge_toNodeID (es ! i)))"
proof (induction rule: walk.induct)
  case walk_Nil
  then show ?case by simp
next
  case (walk_snoc es u e)
  let ?ns = "s # map ge_toNodeID es"
  have e: "ge_route e \<in> set routes" "joins nodes (ge_route e) u (ge_toNodeID e)"
    using walk_snoc.hyps by (simp_all add: build_edges)
  have nth: "(s # map ge_toNodeID es @ [x]) ! i = ?ns ! i" if "i < Suc (length es)" for i x
    using that by (cases i) (simp_all add: nth_append)
  have "joins nodes (ge_route ((es @ [e]) ! i)) (?ns ! i) (ge_toNodeID ((es @ [e]) ! i))"
    if "i < Suc (length es)" for i
    using that walk_snoc.IH e(2) by (cases "i = length es") (simp_all add: nth_append less_Suc_eq)
  then show ?case using walk_snoc.IH e(1) by (simp add: nth) (simp add: nth_append)
qed

lemma route_path_walk:
  assumes w: "walk (buildConnectivityGraph lc nodes routes) s es v" and d: "distinct (s # map ge_toNodeID es)"
  shows "route_path nodes routes s v (reachableNode n (candidate (buildConnectivityGraph lc nodes routes) s es))"
  using walk_joins [OF w] d unfolding route_path_def
  by (intro exI [of _ "map ge_route es"]) (simp add: reachableNode_def candidate_fields comp_def)

lemma route_path_candidate:
  assumes "is_path (buildConnectivityGraph lc nodes routes) s c"
  shows "route_path nodes routes s (pc_nodeID c) (reachableNode n c)"
proof -
  obtain es where es: "walk (buildConnectivityGraph lc nodes routes) s es (pc_nodeID c)"
      "c = candidate (buildConnectivityGraph lc nodes routes) s es" "distinct (pc_nodeIDs c)"
    using assms by (auto simp: is_path_def)
  from es(3) have "distinct (s # map ge_toNodeID es)" by (simp only: es(2) candidate_fields)
  from route_path_walk [OF es(1) this, of n] show ?thesis by (simp flip: es(2))
qed

lemma least_hops:
  assumes "map_get (reachablePaths lc (buildConnectivityGraph lc nodes routes) s) v = Some c"
  shows "(s, v) \<in> links nodes routes ^^ pc_hopCount c \<and> (\<forall>n. (s, v) \<in> links nodes routes ^^ n \<longrightarrow> pc_hopCount c \<le> n)"
proof (intro conjI allI impI)
  let ?g = "buildConnectivityGraph lc nodes routes"
  obtain es where "walk ?g s es v" "c = candidate ?g s es"
    using reachablePaths_sound [OF assms] by (auto simp: is_path_def)
  then show "(s, v) \<in> links nodes routes ^^ pc_hopCount c" by (simp add: candidate_fields walk_links)
next
  fix n assume "(s, v) \<in> links nodes routes ^^ n"
  from links_walk [OF this, of lc] obtain es where w: "walk (buildConnectivityGraph lc nodes routes) s es v" "length es = n"
    by blast
  show "pc_hopCount c \<le> n" using reachablePaths_complete [OF w(1), of lc] w(2) assms by (auto simp: covers_def)
qed

lemma reachable_iff:
  "(s, v) \<in> (links nodes routes)\<^sup>* \<longleftrightarrow> map_get (reachablePaths lc (buildConnectivityGraph lc nodes routes) s) v \<noteq> None"
proof
  assume "(s, v) \<in> (links nodes routes)\<^sup>*"
  then obtain n where "(s, v) \<in> links nodes routes ^^ n" by (auto simp: rtrancl_power)
  from links_walk [OF this, of lc] show "map_get (reachablePaths lc (buildConnectivityGraph lc nodes routes) s) v \<noteq> None"
    using reachablePaths_complete [of _ s _ v lc] by (auto simp: covers_def)
next
  assume "map_get (reachablePaths lc (buildConnectivityGraph lc nodes routes) s) v \<noteq> None"
  then show "(s, v) \<in> (links nodes routes)\<^sup>*" using least_hops by (fastforce simp: rtrancl_power)
qed

lemma selected_Some [simp]: "v \<noteq> [] \<Longrightarrow> selected (Some v) = Some v"
  by (cases v) (simp_all add: selected_def)

section \<open>The groups of the phonebook\<close>

definition phonebook_item ::
  "ConnectivityGraph \<Rightarrow> string \<Rightarrow> PhonebookFilterOptions \<Rightarrow> PathCandidate \<Rightarrow> ReachableNode option" where
  "phonebook_item g s options path =
     (if pc_nodeID path = s then None
      else case map_get (cg_nodesByID g) (pc_nodeID path) of None \<Rightarrow> None
        | Some node \<Rightarrow> if phonebookItemMatches (reachableNode node path) options then Some (reachableNode node path) else None)"

lemma phonebook_item_hops: "phonebook_item g s options path = Some item \<Longrightarrow> rn_hopCount item = pc_hopCount path"
  by (auto simp: phonebook_item_def reachableNode_def split: if_splits option.splits)

lemma addToGroup_item:
  "addToGroup g s options groups path =
     (case phonebook_item g s options path of None \<Rightarrow> groups
      | Some item \<Rightarrow> map_set (rn_hopCount item) (or_else (map_get groups (rn_hopCount item)) [] @ [item]) groups)"
  by (simp add: addToGroup_def phonebook_item_def Let_def reachableNode_def split: option.split)

lemma groups_spec:
  "well_keyed groups \<Longrightarrow> well_keyed (foldl (addToGroup g s options) groups ps) \<and>
     (\<forall>h item. item \<in> set (or_else (map_get (foldl (addToGroup g s options) groups ps) h) []) \<longleftrightarrow>
        item \<in> set (or_else (map_get groups h) []) \<or> rn_hopCount item = h \<and> (\<exists>p \<in> set ps. phonebook_item g s options p = Some item))"
proof (induction ps arbitrary: groups)
  case Nil
  then show ?case by simp
next
  case (Cons p ps)
  show ?case
  proof (cases "phonebook_item g s options p")
    case None
    then show ?thesis using Cons by (simp add: addToGroup_item)
  next
    case (Some i)
    let ?g = "map_set (rn_hopCount i) (or_else (map_get groups (rn_hopCount i)) [] @ [i]) groups"
    have "well_keyed ?g" using Cons.prems by simp
    moreover have "item \<in> set (or_else (map_get ?g h) []) \<longleftrightarrow>
        item \<in> set (or_else (map_get groups h) []) \<or> item = i \<and> rn_hopCount i = h" for h item by auto
    ultimately show ?thesis using Cons.IH [of ?g] Some by (auto simp: addToGroup_item)
  qed
qed

lemma in_group_iff:
  assumes "well_keyed groups"
  shows "(\<exists>xs. (h, xs) \<in> set groups \<and> item \<in> set xs) \<longleftrightarrow> item \<in> set (or_else (map_get groups h) [])"
proof -
  have "(h, xs) \<in> set groups \<longleftrightarrow> map_get groups h = Some xs" for xs
    using assms by (simp add: well_keyed_def map_of_eq_Some_iff)
  then show ?thesis by (cases "map_get groups h") auto
qed

lemma sort_groups_strict:
  assumes "well_keyed groups"
  shows "sorted_wrt (<) (map fst (js_sort (by_asc (real o fst)) (groups :: (nat \<times> 'a) list)))"
proof -
  have "sorted (map fst (js_sort (by_asc (real o fst)) groups))"
    using comparator.sorted_js_sort [OF comparator_by_asc, of "real o fst" groups]
    by (simp add: sorted_wrt_map by_asc_def)
  moreover have "distinct (map fst (js_sort (by_asc (real o fst)) groups))"
    using assms by (simp add: well_keyed_def)
  ultimately show ?thesis by (simp add: strict_sorted_iff)
qed

lemma phonebook_item_iff:
  fixes s nodes routes lc options item
  assumes "s \<in> pn_id ` set nodes" and "[] \<notin> pn_id ` set nodes"
  defines "g \<equiv> buildConnectivityGraph lc nodes routes"
  shows "(\<exists>p \<in> set (map_vals (reachablePaths lc g s)). phonebook_item g s options p = Some item) \<longleftrightarrow>
      shortestPathBetween lc g (Some s) (Some (pn_id (rn_node item))) = Some item \<and> phonebookItemMatches item options"
proof
  let ?b = "reachablePaths lc g s"
  have s: "s \<noteq> []" "map_has (cg_nodesByID g) s" using assms(1,2) unfolding g_def build_has by blast+
  assume "\<exists>p \<in> set (map_vals ?b). phonebook_item g s options p = Some item"
  then obtain v p where "(v, p) \<in> set ?b" and i: "phonebook_item g s options p = Some item" by force
  then have p: "map_get ?b v = Some p" using reachablePaths_keyed [of lc g s] by (simp add: well_keyed_def)
  have v: "pc_nodeID p = v" using reachablePaths_sound [OF p] by simp
  obtain n where n: "map_get (cg_nodesByID g) v = Some n" "v \<noteq> s" "item = reachableNode n p"
      "phonebookItemMatches item options"
    using i v by (auto simp: phonebook_item_def split: if_splits option.splits)
  have h: "map_has (cg_nodesByID g) v" using n(1) by (simp add: map_has_iff)
  then have "v \<noteq> []" using assms(2) unfolding g_def build_has by blast
  moreover have "pn_id n = v" using n(1) unfolding g_def by (rule build_node_id)
  moreover note h
  ultimately show "shortestPathBetween lc g (Some s) (Some (pn_id (rn_node item))) = Some item \<and> phonebookItemMatches item options"
    using n p s by (simp add: shortestPathBetween_def) (simp add: reachableNode_def)
next
  let ?b = "reachablePaths lc g s"
  have s: "s \<noteq> []" "map_has (cg_nodesByID g) s" using assms(1,2) unfolding g_def build_has by blast+
  assume a: "shortestPathBetween lc g (Some s) (Some (pn_id (rn_node item))) = Some item \<and> phonebookItemMatches item options"
  define v where "v = pn_id (rn_node item)"
  have "v \<noteq> []" using a by (auto simp: shortestPathBetween_def selected_def v_def split: list.splits)
  then obtain p n where p: "map_get ?b v = Some p" "map_get (cg_nodesByID g) v = Some n" "item = reachableNode n p" "v \<noteq> s"
    using a s by (auto simp: shortestPathBetween_def simp flip: v_def split: if_splits option.splits)
  have "pc_nodeID p = v" using reachablePaths_sound [OF p(1)] by simp
  then have "phonebook_item g s options p = Some item" using p a by (simp add: phonebook_item_def)
  moreover have "p \<in> set (map_vals ?b)" using map_of_SomeD [OF p(1)] by force
  ultimately show "\<exists>p \<in> set (map_vals ?b). phonebook_item g s options p = Some item" by blast
qed

section \<open>Properties\<close>

text \<open>
  C14. The plotted path between two known nodes is a shortest one: when a path is returned it is a simple path
  of routes between known nodes from the source to the target, described by its routes, nodes, distance
  and packets, and no path has fewer hops; when none is returned, the target cannot be reached.
\<close>

theorem shortest_path_correct:
  assumes "s \<noteq> []" and "t \<noteq> []" and "s \<noteq> t" and "s \<in> pn_id ` set nodes" and "t \<in> pn_id ` set nodes"
  shows "case shortestPathBetween lc (buildConnectivityGraph lc nodes routes) (Some s) (Some t) of
      None \<Rightarrow> (s, t) \<notin> (links nodes routes)\<^sup>*
    | Some p \<Rightarrow> pn_id (rn_node p) = t \<and> route_path nodes routes s t p \<and>
        (\<forall>n. (s, t) \<in> links nodes routes ^^ n \<longrightarrow> rn_hopCount p \<le> n)"
proof -
  let ?g = "buildConnectivityGraph lc nodes routes"
  obtain n where n: "map_get (cg_nodesByID ?g) t = Some n"
    using assms(5) build_has [of lc nodes routes t] by (auto simp: map_has_iff)
  have p: "shortestPathBetween lc ?g (Some s) (Some t) = map_option (reachableNode n) (map_get (reachablePaths lc ?g s) t)"
    using assms n by (simp add: shortestPathBetween_def build_has split: option.split)
  show ?thesis
  proof (cases "map_get (reachablePaths lc ?g s) t")
    case None
    then show ?thesis using reachable_iff [of s t nodes routes lc] by (simp add: p)
  next
    case (Some c)
    have "route_path nodes routes s t (reachableNode n c)"
      using reachablePaths_sound [OF Some] route_path_candidate [of lc nodes routes s c n] by simp
    then show ?thesis using least_hops [OF Some] build_node_id [OF n]
      by (simp add: p Some) (simp add: reachableNode_def)
  qed
qed

theorem shortest_path_correct_witness:
  "case shortestPathBetween code_unit_compare (buildConnectivityGraph code_unit_compare
      [sample_node ''a'', sample_node ''b''] [sample_route ''r'' ''a'' ''b'']) (Some ''a'') (Some ''b'') of
      None \<Rightarrow> (''a'', ''b'') \<notin> (links [sample_node ''a'', sample_node ''b''] [sample_route ''r'' ''a'' ''b''])\<^sup>*
    | Some p \<Rightarrow> pn_id (rn_node p) = ''b'' \<and> route_path [sample_node ''a'', sample_node ''b''] [sample_route ''r'' ''a'' ''b''] ''a'' ''b'' p \<and>
        (\<forall>n. (''a'', ''b'') \<in> links [sample_node ''a'', sample_node ''b''] [sample_route ''r'' ''a'' ''b''] ^^ n \<longrightarrow> rn_hopCount p \<le> n)"
  by (rule shortest_path_correct) (simp_all add: sample_defs)

text \<open>
  The phonebook of a known node, under any filter and any order, has one group for each distance, in
  order of the distance, and an entry is listed in the group of a distance exactly when it is the plotted
  path to its node, has that many hops and matches the filter.
\<close>

lemma phonebook_lists_paths:
  fixes s nodes routes lc options h item
  assumes "s \<in> pn_id ` set nodes" and "[] \<notin> pn_id ` set nodes"
  defines "g \<equiv> buildConnectivityGraph lc nodes routes"
  shows "sorted_wrt (<) (map pg_hopCount (phonebookGroupsForNode lc g (Some s) options)) \<and>
    (\<exists>group \<in> set (phonebookGroupsForNode lc g (Some s) options). pg_hopCount group = h \<and> item \<in> set (pg_nodes group)) =
      (shortestPathBetween lc g (Some s) (Some (pn_id (rn_node item))) = Some item \<and> rn_hopCount item = h \<and>
       phonebookItemMatches item options)"
proof -
  let ?b = "reachablePaths lc g s"
  let ?G = "foldl (addToGroup g s options) [] (map_vals ?b)"
  have s: "s \<noteq> []" "map_has (cg_nodesByID g) s" using assms(1,2) unfolding g_def build_has by blast+
  have spec: "well_keyed ?G" "\<And>h item. item \<in> set (or_else (map_get ?G h) []) \<longleftrightarrow>
        rn_hopCount item = h \<and> (\<exists>p \<in> set (map_vals ?b). phonebook_item g s options p = Some item)"
    using groups_spec [of "[]" g s options "map_vals ?b"] by simp_all
  have P: "phonebookGroupsForNode lc g (Some s) options = map (\<lambda>(hopCount, nodes). \<lparr>pg_hopCount = hopCount,
      pg_nodes = js_sort (compareReachableNodes lc (or_else (po_sortMode options) BestFirst)) nodes\<rparr>)
      (js_sort (by_asc (real o fst)) ?G)"
    using s by (simp add: phonebookGroupsForNode_def Let_def)
  have "(\<exists>group \<in> set (phonebookGroupsForNode lc g (Some s) options). pg_hopCount group = h \<and> item \<in> set (pg_nodes group))
      \<longleftrightarrow> (\<exists>xs. (h, xs) \<in> set ?G \<and> item \<in> set xs)"
    by (simp add: P case_prod_beta) (metis fst_conv snd_conv prod.collapse)
  also have "\<dots> \<longleftrightarrow> rn_hopCount item = h \<and> (\<exists>p \<in> set (map_vals ?b). phonebook_item g s options p = Some item)"
    using spec by (simp add: in_group_iff)
  also have "(\<exists>p \<in> set (map_vals ?b). phonebook_item g s options p = Some item) \<longleftrightarrow>
      shortestPathBetween lc g (Some s) (Some (pn_id (rn_node item))) = Some item \<and> phonebookItemMatches item options"
    unfolding g_def by (rule phonebook_item_iff [OF assms(1,2)])
  finally have "(\<exists>group \<in> set (phonebookGroupsForNode lc g (Some s) options). pg_hopCount group = h \<and> item \<in> set (pg_nodes group)) =
      (shortestPathBetween lc g (Some s) (Some (pn_id (rn_node item))) = Some item \<and> rn_hopCount item = h \<and>
       phonebookItemMatches item options)" by blast
  moreover have "sorted_wrt (<) (map pg_hopCount (phonebookGroupsForNode lc g (Some s) options))"
    using sort_groups_strict [OF spec(1)] by (simp add: P comp_def case_prod_beta)
  ultimately show ?thesis by blast
qed

lemma phonebook_lists_paths_witness:
  "sorted_wrt (<) (map pg_hopCount (phonebookGroupsForNode code_unit_compare (buildConnectivityGraph code_unit_compare
      [sample_node ''a'', sample_node ''b''] [sample_route ''r'' ''a'' ''b'']) (Some ''a'')
      \<lparr>po_query = None, po_maxDistanceKm = None, po_sortMode = None\<rparr>))"
  using phonebook_lists_paths [of "''a''" "[sample_node ''a'', sample_node ''b'']" code_unit_compare
      "[sample_route ''r'' ''a'' ''b'']" "\<lparr>po_query = None, po_maxDistanceKm = None, po_sortMode = None\<rparr>" 1 undefined]
  by (simp add: sample_defs)

end
