(* ===== verification/Js_Value.thy ===== *)
theory Js_Value
  imports Carto_Strings
begin

text \<open>
  Values of unknown type, as \<open>JSON.parse\<close> and untyped callers produce them, and the conversions the
  client applies to them: doubles with the values that are not finite, \<open>Number(string)\<close>, the property
  access on a record, \<open>toFixed(2)\<close> and \<open>String(n)\<close> of an integer. The digits of a number are read
  exactly; a magnitude that rounds past the largest double is infinite.
\<close>

section \<open>Values\<close>

datatype js_double = Fin real | PosInf | NegInf | NotANumber

fun double_less :: "js_double \<Rightarrow> js_double \<Rightarrow> bool" where
  "double_less (Fin a) (Fin b) = (a < b)"
| "double_less (Fin a) PosInf = True"
| "double_less NegInf (Fin b) = True"
| "double_less NegInf PosInf = True"
| "double_less _ _ = False"

datatype js_value =
    JUndefined
  | JNull
  | JBool bool
  | JNumber js_double
  | JString string
  | JArray "js_value list"
  | JObject "(string \<times> js_value) list"

fun isRecord :: "js_value \<Rightarrow> bool" where
  "isRecord (JArray xs) = True"
| "isRecord (JObject ps) = True"
| "isRecord _ = False"

fun get_prop :: "js_value \<Rightarrow> string \<Rightarrow> js_value" where
  "get_prop (JObject ps) k = or_else (map_of ps k) JUndefined"
| "get_prop _ k = JUndefined"

fun has_prop :: "js_value \<Rightarrow> string \<Rightarrow> bool" where
  "has_prop (JObject ps) k = (map_of ps k \<noteq> None)"
| "has_prop _ k = False"

definition record_or_empty :: "js_value \<Rightarrow> js_value" where
  "record_or_empty v = (if isRecord v then v else JObject [])"

lemma record_or_empty_object [simp]: "record_or_empty (JObject ps) = JObject ps"
  by (simp add: record_or_empty_def)

section \<open>\<open>Number(string)\<close>\<close>

definition digit_val :: "char \<Rightarrow> nat option" where
  "digit_val c = (let n = of_char c :: nat in
     if 48 \<le> n \<and> n \<le> 57 then Some (n - 48)
     else if 97 \<le> n \<and> n \<le> 122 then Some (n - 87)
     else if 65 \<le> n \<and> n \<le> 90 then Some (n - 55) else None)"

definition is_digit :: "nat \<Rightarrow> char \<Rightarrow> bool" where
  "is_digit radix c = (case digit_val c of None \<Rightarrow> False | Some d \<Rightarrow> d < radix)"

definition digits_val :: "nat \<Rightarrow> string \<Rightarrow> nat" where
  "digits_val radix s = foldl (\<lambda>a c. a * radix + or_else (digit_val c) 0) 0 s"

definition double_of :: "real \<Rightarrow> js_double" where
  "double_of x = (if x < 2 ^ 1024 - 2 ^ 970 then Fin x else PosInf)"

fun double_neg :: "js_double \<Rightarrow> js_double" where
  "double_neg (Fin x) = Fin (- x)"
| "double_neg PosInf = NegInf"
| "double_neg NegInf = PosInf"
| "double_neg NotANumber = NotANumber"

text \<open>The exponent part: nothing, or \<open>e\<close> with an optional sign and digits up to the end.\<close>

definition parse_exponent :: "string \<Rightarrow> int option" where
  "parse_exponent s =
     (case s of [] \<Rightarrow> Some 0
      | c # cs \<Rightarrow>
         if c \<noteq> CHR ''e'' \<and> c \<noteq> CHR ''E'' then None
         else let negative = (cs \<noteq> [] \<and> hd cs = CHR ''-'');
                  ds = (if cs \<noteq> [] \<and> (hd cs = CHR ''-'' \<or> hd cs = CHR ''+'') then tl cs else cs)
              in if ds \<noteq> [] \<and> list_all (is_digit 10) ds
                 then Some (if negative then - int (digits_val 10 ds) else int (digits_val 10 ds)) else None)"

definition scale10 :: "real \<Rightarrow> int \<Rightarrow> real" where
  "scale10 x e = (if 0 \<le> e then x * 10 ^ nat e else x / 10 ^ nat (- e))"

definition parse_decimal :: "string \<Rightarrow> js_double" where
  "parse_decimal s =
     (if s = ''Infinity'' then PosInf
      else let whole = takeWhile (is_digit 10) s; r1 = dropWhile (is_digit 10) s;
               dot = (r1 \<noteq> [] \<and> hd r1 = CHR ''.'');
               frac = (if dot then takeWhile (is_digit 10) (tl r1) else []);
               r2 = (if dot then dropWhile (is_digit 10) (tl r1) else r1)
           in if whole = [] \<and> frac = [] then NotANumber
              else case parse_exponent r2 of None \<Rightarrow> NotANumber
                | Some e \<Rightarrow> double_of (scale10 (real (digits_val 10 whole)
                    + real (digits_val 10 frac) / 10 ^ length frac) e))"

definition parse_radix :: "nat \<Rightarrow> string \<Rightarrow> js_double" where
  "parse_radix radix s =
     (if s \<noteq> [] \<and> list_all (is_digit radix) s then double_of (real (digits_val radix s)) else NotANumber)"

definition js_to_number :: "string \<Rightarrow> js_double" where
  "js_to_number str =
     (let s = js_trim str; p = js_lower (take 2 s)
      in if s = [] then Fin 0
         else if p = ''0x'' then parse_radix 16 (drop 2 s)
         else if p = ''0o'' then parse_radix 8 (drop 2 s)
         else if p = ''0b'' then parse_radix 2 (drop 2 s)
         else if hd s = CHR ''-'' then double_neg (parse_decimal (tl s))
         else if hd s = CHR ''+'' then parse_decimal (tl s)
         else parse_decimal s)"

section \<open>\<open>toFixed(2)\<close> and integers as strings\<close>

definition digit_char :: "nat \<Rightarrow> char" where
  "digit_char d = char_of (48 + d)"

definition fixed2_nat :: "nat \<Rightarrow> string" where
  "fixed2_nat n = show_nat (n div 100) @ ''.'' @ [digit_char (n mod 100 div 10), digit_char (n mod 10)]"

definition to_fixed2 :: "real \<Rightarrow> string" where
  "to_fixed2 x = (if x < 0 then ''-'' @ fixed2_nat (nat \<lfloor>- x * 100 + 1 / 2\<rfloor>)
                  else fixed2_nat (nat \<lfloor>x * 100 + 1 / 2\<rfloor>))"

definition show_int :: "int \<Rightarrow> string" where
  "show_int k = (if k < 0 then ''-'' @ show_nat (nat (- k)) else show_nat (nat k))"

lemma digit_val_digit: "(d::nat) < 10 \<Longrightarrow> digit_val (char_of (48 + d)) = Some d"
  by (simp add: digit_val_def)

lemma is_digit_digit: "(d::nat) < 10 \<Longrightarrow> is_digit 10 (char_of (48 + d))"
  by (simp add: is_digit_def digit_val_digit)

lemma show_nat_digits: "list_all (is_digit 10) (show_nat n)"
  by (induction n rule: show_nat.induct) (subst show_nat.simps, auto simp: is_digit_digit)

lemma show_nat_not_Nil [simp]: "show_nat n \<noteq> []"
  by (subst show_nat.simps) simp

lemma digits_val_show_nat: "digits_val 10 (show_nat n) = n"
proof (induction n rule: show_nat.induct)
  case (1 n)
  then show ?case
    by (subst show_nat.simps) (auto simp: digits_val_def digit_val_digit)
qed

lemma show_nat_inj: "show_nat m = show_nat n \<Longrightarrow> m = n"
  by (metis digits_val_show_nat)

end
