(* ===== verification/Worker_Clients.thy ===== *)
theory Worker_Clients
  imports Js_Value "HOL-Library.Sublist"
begin

text \<open>
  \<open>web/src/workers/geojsonWorkerClient.ts\<close> and \<open>workers/netgraphWorkerClient.ts\<close>: requests numbered and sent to
  a worker, their answers matched by id, and answers that a later request of the same type has overtaken
  rejected. The two clients differ in what a request is filed under: its type, or nothing; the net graph's
  \<open>latestID\<close> is the entry of the only type \<open>()\<close>. The worker is the environment: it may answer any message with any
  id, any number of times and in any order, or fail. A promise is settled by an entry of the list of
  settlements; a promise that the language settles a second time would have two.
\<close>

section \<open>State\<close>

datatype outcome = Resolved | RejectedWorker | RejectedStale | RejectedAll | RejectedDisposed

record 't WorkerClient =
  wc_prefix :: string
  wc_nextID :: nat
  wc_disposed :: bool
  wc_latestIDByType :: "('t, string) js_map"
  wc_pending :: "(string, 't) js_map"
  wc_posted :: "(string \<times> 't) list" \<comment> \<open>the requests sent, in order\<close>
  wc_settled :: "(string \<times> outcome) list" \<comment> \<open>the promises settled, in order\<close>

definition newClient :: "string \<Rightarrow> 't WorkerClient" where
  "newClient p = \<lparr>wc_prefix = p, wc_nextID = 0, wc_disposed = False, wc_latestIDByType = [], wc_pending = [],
     wc_posted = [], wc_settled = []\<rparr>"

definition createBrowserGeoJSONClient :: "string WorkerClient" where
  "createBrowserGeoJSONClient = newClient ''geojson-''"

definition createBrowserNetGraphClient :: "unit WorkerClient" where
  "createBrowserNetGraphClient = newClient ''netgraph-''"

definition requestID :: "string \<Rightarrow> nat \<Rightarrow> string" where
  "requestID p n = p @ show_nat n"

section \<open>Operations\<close>

definition rejectAll :: "outcome \<Rightarrow> 't WorkerClient \<Rightarrow> 't WorkerClient" where
  "rejectAll reason c = c\<lparr>wc_settled := wc_settled c @ map (\<lambda>(k, t). (k, reason)) (wc_pending c), wc_pending := []\<rparr>"

text \<open>A request of a disposed client is rejected at once: \<open>None\<close>.\<close>

definition clientRequest :: "'t \<Rightarrow> 't WorkerClient \<Rightarrow> string option \<times> 't WorkerClient" where
  "clientRequest t c =
     (if wc_disposed c then (None, c)
      else let n = wc_nextID c + 1; k = requestID (wc_prefix c) n
           in (Some k, c\<lparr>wc_nextID := n, wc_latestIDByType := map_set t k (wc_latestIDByType c),
                wc_pending := map_set k t (wc_pending c), wc_posted := wc_posted c @ [(k, t)]\<rparr>))"

text \<open>A message: its id, when it is a string, and whether it reports an error.\<close>

definition workerMessage :: "string option \<Rightarrow> bool \<Rightarrow> 't WorkerClient \<Rightarrow> 't WorkerClient" where
  "workerMessage dataID failed c =
     (let k = or_else dataID []
      in case map_get (wc_pending c) k of None \<Rightarrow> c
        | Some t \<Rightarrow>
            let c1 = c\<lparr>wc_pending := map_del k (wc_pending c)\<rparr>
            in if failed then c1\<lparr>wc_settled := wc_settled c1 @ [(k, RejectedWorker)]\<rparr>
               else if Some k \<noteq> map_get (wc_latestIDByType c1) t
                 then c1\<lparr>wc_settled := wc_settled c1 @ [(k, RejectedStale)]\<rparr>
               else c1\<lparr>wc_settled := wc_settled c1 @ [(k, Resolved)]\<rparr>)"

definition disposeClient :: "'t WorkerClient \<Rightarrow> 't WorkerClient" where
  "disposeClient c = rejectAll RejectedDisposed (c\<lparr>wc_disposed := True\<rparr>)"

datatype 't client_input =
    Request 't
  | WorkerMessage "string option" bool
  | WorkerFailed
  | WorkerMessageError
  | DisposeClient

fun client_step :: "'t WorkerClient \<Rightarrow> 't client_input \<Rightarrow> 't WorkerClient" where
  "client_step c (Request t) = snd (clientRequest t c)"
| "client_step c (WorkerMessage dataID failed) = workerMessage dataID failed c"
| "client_step c WorkerFailed = rejectAll RejectedAll c"
| "client_step c WorkerMessageError = rejectAll RejectedAll c"
| "client_step c DisposeClient = disposeClient c"

text \<open>The clients without a worker answer at once, through a handler that should keep the id.\<close>

record MainThreadClient =
  mt_nextID :: nat
  mt_disposed :: bool

datatype 'r main_result = MainResponse 'r | MainStale | MainDisposed

definition mainThreadRequest ::
  "string \<Rightarrow> (string \<Rightarrow> string \<times> 'r) \<Rightarrow> MainThreadClient \<Rightarrow> 'r main_result \<times> MainThreadClient" where
  "mainThreadRequest p handler c =
     (if mt_disposed c then (MainDisposed, c)
      else let n = mt_nextID c + 1; k = requestID p n; (responseID, response) = handler k
           in (if responseID \<noteq> k then MainStale else MainResponse response, c\<lparr>mt_nextID := n\<rparr>))"

definition geoJSONSignature :: "(js_double \<Rightarrow> string) \<Rightarrow> js_value list \<Rightarrow> string" where
  "geoJSONSignature num parts = join ''|'' (map (\<lambda>part. case part of
       JString s \<Rightarrow> s
     | JNumber x \<Rightarrow> num x
     | JBool b \<Rightarrow> if b then ''true'' else ''false''
     | JArray xs \<Rightarrow> show_nat (length xs)
     | JObject ps \<Rightarrow> show_nat (length ps)
     | _ \<Rightarrow> []) parts)"

section \<open>Invariant\<close>

text \<open>
  Every request is pending or settled, exactly once; the ids are those of the numbers up to \<open>wc_nextID\<close>, the
  latest id of a type is that of its last request; and of the resolved requests of a type the ids are in
  the order of the requests.
\<close>

definition last_of_type :: "'t \<Rightarrow> (string \<times> 't) list \<Rightarrow> string option" where
  "last_of_type t posted = map_of (rev (map (\<lambda>(k, u). (u, k)) posted)) t"

definition request_ids :: "string \<Rightarrow> nat \<Rightarrow> string list" where
  "request_ids p n = map (requestID p) [1..<Suc n]"

definition client_ok :: "'t WorkerClient \<Rightarrow> bool" where
  "client_ok c \<longleftrightarrow>
     map fst (wc_posted c) = request_ids (wc_prefix c) (wc_nextID c) \<and>
     well_keyed (wc_pending c) \<and> set (wc_pending c) \<subseteq> set (wc_posted c) \<and>
     distinct (map fst (wc_settled c)) \<and>
     set (map fst (wc_settled c)) \<inter> set (map fst (wc_pending c)) = {} \<and>
     set (map fst (wc_settled c)) \<union> set (map fst (wc_pending c)) = set (map fst (wc_posted c)) \<and>
     (\<forall>t. map_get (wc_latestIDByType c) t = last_of_type t (wc_posted c)) \<and>
     (wc_disposed c \<longrightarrow> wc_pending c = [])"

lemma requestID_inj [simp]: "requestID p m = requestID p n \<longleftrightarrow> m = n"
  by (auto simp: requestID_def dest: show_nat_inj)

lemma request_ids_simps [simp]:
  "request_ids p 0 = []" "request_ids p (Suc n) = request_ids p n @ [requestID p (Suc n)]"
  by (simp_all add: request_ids_def)

lemma request_ids_fresh: "n < m \<Longrightarrow> requestID p m \<notin> set (request_ids p n)"
  by (auto simp: request_ids_def simp del: upt_Suc)

lemma request_ids_distinct [simp]: "distinct (request_ids p n)"
  by (induction n) (simp_all add: request_ids_fresh)

lemma client_ok_new: "client_ok (newClient p)"
  by (simp add: client_ok_def newClient_def last_of_type_def)

lemma rejectAll_keys: "map fst (map (\<lambda>(k, t). (k, r)) m) = map fst m"
  by (simp add: comp_def case_prod_beta)

lemma rejectAll_ok: "client_ok c \<Longrightarrow> client_ok (rejectAll r c)"
  unfolding client_ok_def
  by (simp add: rejectAll_def rejectAll_keys well_keyed_def del: set_map map_map)

lemma dispose_ok: "client_ok c \<Longrightarrow> client_ok (disposeClient c)"
  unfolding client_ok_def
  by (simp add: disposeClient_def rejectAll_def rejectAll_keys well_keyed_def del: set_map map_map)

lemma request_ok:
  assumes "client_ok c"
  shows "client_ok (snd (clientRequest t c))"
proof (cases "wc_disposed c")
  case True
  then show ?thesis using assms by (simp add: clientRequest_def)
next
  case False
  let ?k = "requestID (wc_prefix c) (Suc (wc_nextID c))"
  have fresh: "?k \<notin> set (map fst (wc_posted c))"
    using assms by (simp add: client_ok_def request_ids_fresh del: set_map)
  then have "?k \<notin> set (map fst (wc_pending c))" "?k \<notin> set (map fst (wc_settled c))"
    using assms by (auto simp: client_ok_def simp del: set_map)
  then have p: "map_set ?k t (wc_pending c) = wc_pending c @ [(?k, t)]" by (intro map_set_new)
  have ids: "set (request_ids (wc_prefix c) (wc_nextID c)) = fst ` set (wc_posted c)"
    using assms by (metis client_ok_def set_map)
  show ?thesis using assms False \<open>?k \<notin> set (map fst (wc_pending c))\<close> \<open>?k \<notin> set (map fst (wc_settled c))\<close>
    by (auto simp: clientRequest_def client_ok_def Let_def p well_keyed_def last_of_type_def map_add_def ids)
qed

lemma message_ok:
  assumes "client_ok c"
  shows "client_ok (workerMessage d f c)"
proof (cases "map_get (wc_pending c) (or_else d [])")
  case None
  then show ?thesis using assms by (simp add: workerMessage_def Let_def)
next
  case (Some t)
  let ?k = "or_else d []"
  have "?k \<in> set (map fst (wc_pending c))" using Some by (force dest: map_of_SomeD)
  moreover have "set (map_del ?k (wc_pending c)) \<subseteq> set (wc_pending c)" by (rule set_map_del)
  ultimately have "client_ok (c\<lparr>wc_pending := map_del ?k (wc_pending c), wc_settled := wc_settled c @ [(?k, r)]\<rparr>)" for r
    using assms unfolding client_ok_def
    by (auto simp: insert_absorb simp del: set_map keys_map_del) (auto simp: map_del_def)
  then show ?thesis using Some by (simp add: workerMessage_def Let_def)
qed

lemma client_step_ok: "client_ok c \<Longrightarrow> client_ok (client_step c x)"
  by (cases x) (simp_all add: request_ok message_ok rejectAll_ok dispose_ok)

lemma client_run_ok: "client_ok (foldl client_step (newClient p) inputs)"
  by (rule foldl_invariant) (simp_all add: client_ok_new client_step_ok)

section \<open>Order of the answers\<close>

text \<open>
  \<open>answered t c\<close>: the ids of the resolved requests of type \<open>t\<close>, in the order in which they were resolved.
  They are in the order of the requests, and no pending request of the type comes after the last but the
  latest one.
\<close>

definition of_type :: "'t \<Rightarrow> 't WorkerClient \<Rightarrow> string list" where
  "of_type t c = map fst (filter (\<lambda>(k, u). u = t) (wc_posted c))"

definition answered :: "'t \<Rightarrow> 't WorkerClient \<Rightarrow> string list" where
  "answered t c = filter (\<lambda>k. k \<in> set (of_type t c)) (map fst (filter (\<lambda>(k, r). r = Resolved) (wc_settled c)))"

definition in_order :: "'t WorkerClient \<Rightarrow> bool" where
  "in_order c \<longleftrightarrow> (\<forall>t. subseq (answered t c) (of_type t c))"

lemma last_of_type_last: "last_of_type t (wc_posted c) = (if of_type t c = [] then None else Some (last (of_type t c)))"
proof -
  have "last_of_type t xs = (let ys = map fst (filter (\<lambda>(k, u). u = t) xs) in if ys = [] then None else Some (last ys))" for xs
    by (induction xs rule: rev_induct) (auto simp: last_of_type_def Let_def map_add_def)
  then show ?thesis by (simp add: of_type_def Let_def)
qed

lemma subseq_resolve:
  assumes "subseq xs ys" and "ys \<noteq> []" and "last ys \<notin> set xs"
  shows "subseq (xs @ [last ys]) ys"
proof -
  have "subseq xs (butlast ys @ [last ys])" using assms(1,2) by simp
  then obtain a b where ab: "xs = a @ b" "subseq a (butlast ys)" "subseq b [last ys]" by (rule subseq_appendE)
  have "b = []" using ab(1,3) assms(3) by (cases b) (auto dest: subseq_Cons')
  then have "subseq (xs @ [last ys]) (butlast ys @ [last ys])" using ab by simp
  then show ?thesis using assms(2) by simp
qed

lemma of_type_posted: "k \<in> set (of_type t c) \<longleftrightarrow> (k, t) \<in> set (wc_posted c)"
  by (force simp: of_type_def)

lemma in_order_request:
  assumes "client_ok c" and "in_order c"
  shows "in_order (snd (clientRequest t c))"
proof (cases "wc_disposed c")
  case True
  then show ?thesis using assms by (simp add: clientRequest_def)
next
  case False
  let ?k = "requestID (wc_prefix c) (Suc (wc_nextID c))" and ?c = "snd (clientRequest t c)"
  have "?k \<notin> set (map fst (wc_posted c))"
    using assms(1) by (simp add: client_ok_def request_ids_fresh del: set_map)
  then have k: "?k \<notin> fst ` set (wc_settled c)" using assms(1) by (auto simp: client_ok_def)
  have t: "of_type u ?c = of_type u c @ (if u = t then [?k] else [])" for u
    using False by (simp add: of_type_def clientRequest_def Let_def)
  have "answered u ?c = answered u c" for u
    unfolding answered_def t using False k
    by (intro filter_cong) (force simp: clientRequest_def Let_def)+
  then show ?thesis using assms(2) by (auto simp: in_order_def t)
qed

lemma in_order_message:
  assumes "client_ok c" and "in_order c"
  shows "in_order (workerMessage d f c)"
proof (cases "map_get (wc_pending c) (or_else d [])")
  case None
  then show ?thesis using assms(2) by (simp add: workerMessage_def Let_def)
next
  case (Some t)
  let ?k = "or_else d []"
  let ?c = "\<lambda>r. c\<lparr>wc_pending := map_del ?k (wc_pending c), wc_settled := wc_settled c @ [(?k, r)]\<rparr>"
  have p: "(?k, t) \<in> set (wc_pending c)" using Some by (rule map_of_SomeD)
  then have "?k \<in> set (map fst (wc_pending c))" by force
  then have "?k \<notin> set (map fst (wc_settled c))" using assms(1) unfolding client_ok_def by blast
  then have k: "?k \<notin> fst ` set (wc_settled c)" by simp
  have post: "(?k, t) \<in> set (wc_posted c)" using p assms(1) by (auto simp: client_ok_def)
  have d: "distinct (map fst (wc_posted c))" using assms(1) by (simp add: client_ok_def)
  have uniq: "(?k, u) \<in> set (wc_posted c) \<longleftrightarrow> u = t" for u
    using post eq_key_imp_eq_value [OF d, of ?k u t] by blast
  have o: "of_type u (?c r) = of_type u c" for u r by (simp add: of_type_def)
  have a: "answered u (?c r) = answered u c @ (if r = Resolved \<and> u = t then [?k] else [])" for u r
    by (auto simp: answered_def o of_type_posted uniq)
  have "subseq (answered t c @ [?k]) (of_type t c)" if l: "Some ?k = map_get (wc_latestIDByType c) t"
  proof -
    have "?k = last (of_type t c)" "of_type t c \<noteq> []"
      using l assms(1) by (auto simp: client_ok_def last_of_type_last split: if_splits)
    moreover have "?k \<notin> set (answered t c)" using k by (force simp: answered_def)
    ultimately show ?thesis using subseq_resolve [of "answered t c" "of_type t c"] assms(2)
      by (simp add: in_order_def)
  qed
  then have "r = Resolved \<longrightarrow> Some ?k = map_get (wc_latestIDByType c) t \<Longrightarrow> in_order (?c r)" for r
    using assms(2) by (auto simp: in_order_def o a)
  then show ?thesis using Some by (simp add: workerMessage_def Let_def)
qed

lemma in_order_rejectAll: "r \<noteq> Resolved \<Longrightarrow> in_order c \<Longrightarrow> in_order (rejectAll r c)"
  by (simp add: in_order_def answered_def of_type_def rejectAll_def filter_map comp_def case_prod_beta)

lemma in_order_step: "client_ok c \<Longrightarrow> in_order c \<Longrightarrow> in_order (client_step c x)"
  by (cases x) (simp_all add: in_order_request in_order_message in_order_rejectAll disposeClient_def,
    rule in_order_rejectAll, simp_all add: in_order_def answered_def of_type_def)

lemma client_run_in_order: "in_order (foldl client_step (newClient p) inputs)"
proof -
  have "client_ok (foldl client_step (newClient p) inputs) \<and> in_order (foldl client_step (newClient p) inputs)"
    by (rule foldl_invariant)
      (simp_all add: client_ok_new client_step_ok in_order_step, simp add: in_order_def answered_def newClient_def)
  then show ?thesis by simp
qed

section \<open>Properties\<close>

text \<open>
  Whatever the worker answers, every request of a client is settled at most once and none is lost: after
  any sequence of requests, messages, failures and the disposal, the settled and the pending ids are
  disjoint and are together the ids of the requests, which are all different; and after the disposal
  every request is settled and a further one is rejected at once.
\<close>

lemma requests_settle_once:
  fixes inputs p t
  defines "c \<equiv> foldl client_step (newClient p) inputs"
  shows "distinct (map fst (wc_posted c)) \<and> distinct (map fst (wc_settled c)) \<and>
    set (map fst (wc_settled c)) \<inter> set (map fst (wc_pending c)) = {} \<and>
    set (map fst (wc_settled c)) \<union> set (map fst (wc_pending c)) = set (map fst (wc_posted c)) \<and>
    set (map fst (wc_settled (disposeClient c))) = set (map fst (wc_posted c)) \<and>
    fst (clientRequest t (disposeClient c)) = None"
proof -
  have c: "client_ok c" unfolding c_def by (rule client_run_ok)
  have "client_ok (disposeClient c)" by (rule dispose_ok [OF c])
  then have "set (map fst (wc_settled (disposeClient c))) \<union> set (map fst (wc_pending (disposeClient c)))
      = set (map fst (wc_posted (disposeClient c)))"
    unfolding client_ok_def by blast
  then have "set (map fst (wc_settled (disposeClient c))) = set (map fst (wc_posted c))"
    by (simp add: disposeClient_def rejectAll_def)
  moreover have "distinct (map fst (wc_posted c))" using c by (simp add: client_ok_def)
  moreover have "fst (clientRequest t (disposeClient c)) = None"
    by (simp add: disposeClient_def rejectAll_def clientRequest_def)
  ultimately show ?thesis using c unfolding client_ok_def by blast
qed

text \<open>
  Answers never go back: of each type, the requests that are resolved are resolved in the order in which
  they were made, each once, however the worker orders, repeats or drops its messages.
\<close>

lemma answers_in_order:
  "subseq (answered t (foldl client_step (newClient p) inputs)) (of_type t (foldl client_step (newClient p) inputs))"
  by (rule spec [OF client_run_in_order [unfolded in_order_def]])

end
