(* ===== verification/Js_Coerce.thy ===== *)
theory Js_Coerce
  imports Js_Value "HOL-Library.Monad_Syntax"
begin

text \<open>
  \<open>String(v)\<close> and \<open>Number(v)\<close> of any value that \<open>JSON.parse\<close> can produce, and the helpers of
  \<open>web/src/api.ts\<close> built on them. Both conversions may throw a \<open>TypeError\<close>: a plain object is converted by
  its inherited \<open>toString\<close>, which an own property of that name hides (a JSON value is never callable).
  A result is an option whose \<open>None\<close> is the error; \<open>null\<close> and \<open>undefined\<close> results are a second option.
  \<open>num\<close> is \<open>String\<close> of a number.
\<close>

section \<open>Conversions\<close>

fun js_String :: "(js_double \<Rightarrow> string) \<Rightarrow> js_value \<Rightarrow> string option" where
  "js_String num JUndefined = Some ''undefined''"
| "js_String num JNull = Some ''null''"
| "js_String num (JBool b) = Some (if b then ''true'' else ''false'')"
| "js_String num (JNumber d) = Some (num d)"
| "js_String num (JString s) = Some s"
| "js_String num (JArray xs) = map_option (join '','')
     (those (map (\<lambda>x. if x = JNull \<or> x = JUndefined then Some [] else js_String num x) xs))"
| "js_String num (JObject ps) = (if map_of ps ''toString'' = None then Some ''[object Object]'' else None)"

fun js_Number :: "(js_double \<Rightarrow> string) \<Rightarrow> js_value \<Rightarrow> js_double option" where
  "js_Number num JUndefined = Some NotANumber"
| "js_Number num JNull = Some (Fin 0)"
| "js_Number num (JBool b) = Some (Fin (if b then 1 else 0))"
| "js_Number num (JNumber d) = Some d"
| "js_Number num (JString s) = Some (js_to_number s)"
| "js_Number num (JArray xs) = map_option js_to_number (js_String num (JArray xs))"
| "js_Number num (JObject ps) = (if map_of ps ''toString'' = None then Some NotANumber else None)"

fun finite_or :: "js_number \<Rightarrow> js_double \<Rightarrow> js_number" where
  "finite_or fallback (Fin x) = x"
| "finite_or fallback _ = fallback"

fun finite_option :: "js_double \<Rightarrow> js_number option" where
  "finite_option (Fin x) = Some x"
| "finite_option _ = None"

text \<open>\<open>v ?? w\<close> and \<open>!value || typeof value !== 'object'\<close> on a parsed value.\<close>

definition nullish :: "js_value \<Rightarrow> bool" where
  "nullish v \<longleftrightarrow> v = JNull \<or> v = JUndefined"

definition coalesce :: "js_value \<Rightarrow> js_value \<Rightarrow> js_value" where
  "coalesce v w = (if nullish v then w else v)"

section \<open>The helpers of the sanitizers\<close>

definition sanitizeString :: "(js_double \<Rightarrow> string) \<Rightarrow> js_value \<Rightarrow> string \<Rightarrow> string option" where
  "sanitizeString num v fallback =
     map_option (\<lambda>s. let next = js_trim s in if next \<noteq> [] then next else fallback)
       (js_String num (coalesce v (JString [])))"

fun sanitizeStringOrUndefined :: "(js_double \<Rightarrow> string) \<Rightarrow> js_value \<Rightarrow> string option" where
  "sanitizeStringOrUndefined num (JString s) = (if js_trim s \<noteq> [] then Some (js_trim s) else None)"
| "sanitizeStringOrUndefined num (JNumber (Fin x)) = Some (num (Fin x))"
| "sanitizeStringOrUndefined num _ = None"

definition sanitizeNumber :: "(js_double \<Rightarrow> string) \<Rightarrow> js_value \<Rightarrow> js_number \<Rightarrow> js_number option" where
  "sanitizeNumber num v fallback = map_option (finite_or fallback) (js_Number num v)"

definition sanitizeOptionalNumber :: "(js_double \<Rightarrow> string) \<Rightarrow> js_value \<Rightarrow> js_number option option" where
  "sanitizeOptionalNumber num v = map_option finite_option (js_Number num v)"

fun listed :: "(js_double \<Rightarrow> string) \<Rightarrow> js_value \<Rightarrow> string option" where
  "listed num (JString s) = Some s"
| "listed num (JNumber (Fin x)) = Some (num (Fin x))"
| "listed num (JBool b) = Some (if b then ''true'' else ''false'')"
| "listed num _ = None"

fun safeStringList :: "(js_double \<Rightarrow> string) \<Rightarrow> js_value \<Rightarrow> string list" where
  "safeStringList num (JArray xs) = List.map_filter (listed num) xs"
| "safeStringList num _ = []"

fun safeStringNumber :: "js_value \<Rightarrow> js_number option" where
  "safeStringNumber (JNumber d) = finite_option d"
| "safeStringNumber (JString s) = (if js_trim s \<noteq> [] then finite_option (js_to_number s) else None)"
| "safeStringNumber _ = None"

definition isTrue :: "js_value \<Rightarrow> bool" where
  "isTrue v \<longleftrightarrow> v = JBool True"

text \<open>
  \<open>Array.isArray(v) ? v.map(f).filter(Boolean) : []\<close>. An element that throws makes the whole conversion throw.
\<close>

fun sanitizeArray :: "(js_value \<Rightarrow> 'a option option) \<Rightarrow> js_value \<Rightarrow> 'a list option" where
  "sanitizeArray f (JArray xs) = map_option (List.map_filter (\<lambda>x. x)) (those (map f xs))"
| "sanitizeArray f _ = Some []"

text \<open>
  An object with string keys that is filled by assignment: \<open>out['__proto__'] = v\<close> sets no own property,
  so that key never shows in \<open>Object.entries\<close>.
\<close>

definition obj_put :: "string \<Rightarrow> 'a \<Rightarrow> (string, 'a) js_map \<Rightarrow> (string, 'a) js_map" where
  "obj_put k v m = (if k = ''__proto__'' then m else map_set k v m)"

text \<open>\<open>Object.entries(v)\<close> of an object; the entries of an array have its indices as keys.\<close>

fun js_entries :: "js_value \<Rightarrow> (string \<times> js_value) list" where
  "js_entries (JObject ps) = ps"
| "js_entries (JArray xs) = map (\<lambda>(i, x). (show_nat i, x)) (List.enumerate 0 xs)"
| "js_entries _ = []"

definition nonempty_map :: "('k, 'v) js_map \<Rightarrow> ('k, 'v) js_map option" where
  "nonempty_map m = (if m = [] then None else Some m)"

definition sanitizeStringNumberMap :: "js_value \<Rightarrow> (string, js_number) js_map option" where
  "sanitizeStringNumberMap v =
     (if \<not> isRecord v then None
      else nonempty_map (foldl (\<lambda>out (key, count).
        case safeStringNumber count of None \<Rightarrow> out | Some n \<Rightarrow> obj_put key n out) [] (js_entries v)))"

definition sanitizeNestedNumberMap :: "js_value \<Rightarrow> (string, (string, js_number) js_map) js_map option" where
  "sanitizeNestedNumberMap v =
     (if \<not> isRecord v then None
      else nonempty_map (foldl (\<lambda>out (bucket, rawBucket).
        case sanitizeStringNumberMap rawBucket of None \<Rightarrow> out | Some clean \<Rightarrow> obj_put bucket clean out) [] (js_entries v)))"

section \<open>Values that convert\<close>

text \<open>No object inside the value has an own \<open>toString\<close>: then no conversion of a part of it throws.\<close>

fun convertible :: "js_value \<Rightarrow> bool" where
  "convertible (JArray xs) = list_all convertible xs"
| "convertible (JObject ps) = (map_of ps ''toString'' = None \<and> list_all (\<lambda>p. convertible (snd p)) ps)"
| "convertible _ = True"

lemma those_Some: "(\<And>x. x \<in> set xs \<Longrightarrow> f x \<noteq> None) \<Longrightarrow> those (map f xs) = Some (map (the o f) xs)"
  by (induction xs) (auto, force)

lemma those_total: "(\<And>x. x \<in> set xs \<Longrightarrow> f x \<noteq> None) \<Longrightarrow> \<exists>ys. those (map f xs) = Some ys"
  using those_Some by blast

lemma those_map_Some [simp]: "those (map (\<lambda>x. Some (f x)) xs) = Some (map f xs)"
  by (induction xs) auto

lemma those_members: "those xs = Some ys \<Longrightarrow> y \<in> set ys \<Longrightarrow> Some y \<in> set xs"
  by (induction xs arbitrary: ys) (auto split: option.splits)

lemma js_String_convertible: "convertible v \<Longrightarrow> \<exists>s. js_String num v = Some s"
proof (induction v rule: convertible.induct)
  case (1 xs)
  then have "\<exists>ys. those (map (\<lambda>x. if x = JNull \<or> x = JUndefined then Some [] else js_String num x) xs) = Some ys"
    by (intro those_total) (auto simp: list_all_iff)
  then show ?case by auto
qed auto

lemma js_Number_convertible: "convertible v \<Longrightarrow> \<exists>d. js_Number num v = Some d"
proof (cases v)
  case (JArray xs)
  assume "convertible v"
  then show ?thesis using js_String_convertible [of v num] JArray by auto
qed auto

lemma convertible_prop: "convertible v \<Longrightarrow> convertible (get_prop v k)"
  by (cases v; cases "map_of (case v of JObject ps \<Rightarrow> ps | _ \<Rightarrow> []) k") (auto simp: list_all_iff dest!: map_of_SomeD)

lemma sanitizeString_convertible: "convertible v \<Longrightarrow> \<exists>s. sanitizeString num v fb = Some s"
  using js_String_convertible [of "coalesce v (JString [])" num] by (auto simp: sanitizeString_def coalesce_def)

lemma sanitizeNumber_convertible: "convertible v \<Longrightarrow> \<exists>x. sanitizeNumber num v fb = Some x"
  using js_Number_convertible [of v num] by (auto simp: sanitizeNumber_def)

lemma sanitizeOptionalNumber_convertible: "convertible v \<Longrightarrow> \<exists>x. sanitizeOptionalNumber num v = Some x"
  using js_Number_convertible [of v num] by (auto simp: sanitizeOptionalNumber_def)

end
