(* ===== verification/Api_Sanitize.thy ===== *)
theory Api_Sanitize
  imports Js_Coerce Carto_Types
begin

text \<open>
  The sanitizers of \<open>web/src/api.ts\<close>: what the client makes of the JSON of the state, event, viewport and
  bootstrap endpoints. A result is \<open>None\<close> when a conversion throws; an item that is dropped is \<open>Some None\<close>.
  \<open>num\<close> is \<open>String\<close> of a number and \<open>now\<close> the clock, which is read as one value during a response.
\<close>

section \<open>Parts\<close>

definition PublicAnimationState_of :: "string \<Rightarrow> PublicAnimationState" where
  "PublicAnimationState_of s = (if s = ''route'' then AnimRoute else if s = ''observer'' then AnimObserver else AnimUnmapped)"

definition sanitizeAnimationState :: "(js_double \<Rightarrow> string) \<Rightarrow> js_value \<Rightarrow> PublicAnimationState option" where
  "sanitizeAnimationState num v = map_option PublicAnimationState_of (sanitizeString num v [])"

definition sanitizeResolutionBucket :: "(js_double \<Rightarrow> string) \<Rightarrow> js_value \<Rightarrow> PublicResolutionBucket option" where
  "sanitizeResolutionBucket num v = map_option (\<lambda>safe.
     if safe = ''routed'' then Routed else if safe = ''observer_only'' then ObserverOnly
     else if safe = ''unresolved_path'' then UnresolvedPath else if safe = ''missing_location'' then MissingLocation
     else if safe = ''rf_gated'' then RfGated else if safe = ''distance_gated'' then DistanceGated
     else NotMapSafe) (sanitizeString num v [])"

definition normalizeNodeRole :: "(js_double \<Rightarrow> string) \<Rightarrow> js_value \<Rightarrow> NodeRole option" where
  "normalizeNodeRole num v = map_option (\<lambda>s. let next = js_lower s in
     if next = ''companion'' then Companion else if next = ''repeater'' then Repeater
     else if next = ''room_server'' then RoomServer else if next = ''sensor'' then Sensor else UnknownRole)
     (sanitizeString num v [])"

definition sanitizeActivityKind :: "(js_double \<Rightarrow> string) \<Rightarrow> js_value \<Rightarrow> string option" where
  "sanitizeActivityKind num v = map_option (\<lambda>safe. if safe = ''packet'' \<or> safe = ''route'' then safe else ''packet'')
     (sanitizeString num v [])"

definition sanitizePublicRouteEndpoint :: "(js_double \<Rightarrow> string) \<Rightarrow> js_value \<Rightarrow> PublicRouteEndpoint option option" where
  "sanitizePublicRouteEndpoint num v =
     (if \<not> isRecord v then Some None
      else do {
        nodeId \<leftarrow> sanitizeString num (get_prop v ''nodeId'') [];
        if nodeId = [] then Some None else do {
          lat \<leftarrow> sanitizeNumber num (get_prop v ''lat'') 0;
          lng \<leftarrow> sanitizeNumber num (get_prop v ''lng'') 0;
          label \<leftarrow> sanitizeString num (get_prop v ''label'') nodeId;
          Some (Some \<lparr>ep_nodeId = nodeId, ep_label = label, ep_lat = lat, ep_lng = lng,
            ep_pathHash3 = sanitizeStringOrUndefined num (get_prop v ''pathHash3'')\<rparr>) } })"

definition sanitizePublicStateSegment :: "(js_double \<Rightarrow> string) \<Rightarrow> js_value \<Rightarrow> PublicRouteSegment option option" where
  "sanitizePublicStateSegment num v =
     (if \<not> isRecord v then Some None
      else do {
        routeId \<leftarrow> sanitizeString num (get_prop v ''routeId'') [];
        from \<leftarrow> sanitizePublicRouteEndpoint num (get_prop v ''from'');
        to \<leftarrow> sanitizePublicRouteEndpoint num (get_prop v ''to'');
        case (from, to) of
          (Some from, Some to) \<Rightarrow>
            if routeId = [] then Some None else do {
              distanceKm \<leftarrow> sanitizeNumber num (get_prop v ''distanceKm'') 0;
              Some (Some \<lparr>sg_routeId = routeId, sg_from = from, sg_to = to, sg_distanceKm = distanceKm\<rparr>) }
        | _ \<Rightarrow> Some None })"

definition sanitizePublicMessageAnchor :: "(js_double \<Rightarrow> string) \<Rightarrow> js_value \<Rightarrow> PublicMessageAnchor option option" where
  "sanitizePublicMessageAnchor num v =
     (if \<not> isRecord v then Some None
      else do {
        label \<leftarrow> sanitizeString num (get_prop v ''label'') [];
        if label = [] then Some None else do {
          kind \<leftarrow> sanitizeString num (get_prop v ''kind'') [];
          lat \<leftarrow> sanitizeNumber num (get_prop v ''lat'') 0;
          lng \<leftarrow> sanitizeNumber num (get_prop v ''lng'') 0;
          Some (Some \<lparr>ma_kind = kind, ma_nodeId = sanitizeStringOrUndefined num (get_prop v ''nodeId''),
            ma_label = label, ma_lat = lat, ma_lng = lng\<rparr>) } })"

definition sanitizePublicObserverLocation :: "(js_double \<Rightarrow> string) \<Rightarrow> js_value \<Rightarrow> PublicObserverLocation option option" where
  "sanitizePublicObserverLocation num v =
     (if \<not> isRecord v then Some None
      else do {
        label \<leftarrow> sanitizeString num (get_prop v ''label'') [];
        if label = [] then Some None else do {
          lat \<leftarrow> sanitizeNumber num (get_prop v ''lat'') 0;
          lng \<leftarrow> sanitizeNumber num (get_prop v ''lng'') 0;
          Some (Some \<lparr>ol_label = label, ol_iata = sanitizeStringOrUndefined num (get_prop v ''iata''),
            ol_region = sanitizeStringOrUndefined num (get_prop v ''region''), ol_lat = lat, ol_lng = lng\<rparr>) } })"

definition animationStyle_of :: "string \<Rightarrow> PacketAnimationStyle option" where
  "animationStyle_of style = (if style = ''comet'' then Some Comet else if style = ''pulse'' then Some Pulse
     else if style = ''minimal'' then Some Minimal else None)"

fun bool_or_undefined :: "js_value \<Rightarrow> bool option" where
  "bool_or_undefined (JBool b) = Some b"
| "bool_or_undefined _ = None"

definition sanitizeRouteReplayOptions :: "(js_double \<Rightarrow> string) \<Rightarrow> js_value \<Rightarrow> ReplayOptions option option" where
  "sanitizeRouteReplayOptions num v =
     (if \<not> isRecord v then Some None
      else do {
        style \<leftarrow> sanitizeString num (get_prop v ''animationStyle'') [];
        travelDurationMs \<leftarrow> sanitizeOptionalNumber num (get_prop v ''travelDurationMs'');
        brightness \<leftarrow> sanitizeOptionalNumber num (get_prop v ''brightness'');
        trailScale \<leftarrow> sanitizeOptionalNumber num (get_prop v ''trailScale'');
        Some (Some \<lparr>ro_force = bool_or_undefined (get_prop v ''force''), ro_travelDurationMs = travelDurationMs,
          ro_brightness = brightness, ro_trailScale = trailScale, ro_animationStyle = animationStyle_of style\<rparr>) })"

section \<open>Nodes, routes, pulses and activity\<close>

definition sanitizePublicStateNode :: "(js_double \<Rightarrow> string) \<Rightarrow> js_number \<Rightarrow> js_value \<Rightarrow> PublicNode option option" where
  "sanitizePublicStateNode num now v =
     (if \<not> isRecord v then Some None
      else do {
        i \<leftarrow> sanitizeString num (get_prop v ''id'') [];
        if i = [] then Some None else do {
          label \<leftarrow> sanitizeString num (get_prop v ''label'') i;
          role \<leftarrow> normalizeNodeRole num (get_prop v ''role'');
          latitude \<leftarrow> sanitizeNumber num (get_prop v ''latitude'') 0;
          longitude \<leftarrow> sanitizeNumber num (get_prop v ''longitude'') 0;
          lastSeen \<leftarrow> sanitizeNumber num (get_prop v ''lastSeen'') now;
          firstSeen \<leftarrow> sanitizeNumber num (get_prop v ''firstSeen'') 0;
          activityCount \<leftarrow> sanitizeNumber num (get_prop v ''activityCount'') 0;
          Some (Some \<lparr>pn_seq = None, pn_id = i, pn_label = label, pn_role = role,
            pn_isObserver = Some (isTrue (get_prop v ''isObserver'')), pn_latitude = latitude, pn_longitude = longitude,
            pn_lastSeen = lastSeen, pn_firstSeen = firstSeen, pn_iatasHeardIn = safeStringList num (get_prop v ''iatasHeardIn''),
            pn_regionsHeardIn = Some (safeStringList num (get_prop v ''regionsHeardIn'')),
            pn_activityCount = activityCount\<rparr>) } })"

definition sanitizePublicStateRoute :: "(js_double \<Rightarrow> string) \<Rightarrow> js_value \<Rightarrow> PublicRoute option option" where
  "sanitizePublicStateRoute num v =
     (if \<not> isRecord v then Some None
      else do {
        i \<leftarrow> sanitizeString num (get_prop v ''id'') [];
        from \<leftarrow> sanitizePublicRouteEndpoint num (get_prop v ''from'');
        to \<leftarrow> sanitizePublicRouteEndpoint num (get_prop v ''to'');
        case (from, to) of
          (Some from, Some to) \<Rightarrow>
            if i = [] then Some None else do {
              distanceKm \<leftarrow> sanitizeNumber num (get_prop v ''distanceKm'') 0;
              packetCount \<leftarrow> sanitizeNumber num (get_prop v ''packetCount'') 0;
              lastHeard \<leftarrow> sanitizeNumber num (get_prop v ''lastHeard'') 0;
              frequencyBucket \<leftarrow> sanitizeNumber num (get_prop v ''frequencyBucket'') 0;
              Some (Some \<lparr>rt_id = i, rt_from = from, rt_to = to, rt_distanceKm = distanceKm, rt_packetCount = packetCount,
                rt_lastHeard = lastHeard, rt_frequencyBucket = frequencyBucket,
                rt_payloadTypeNames = safeStringList num (get_prop v ''payloadTypeNames'')\<rparr>) }
        | _ \<Rightarrow> Some None })"

definition sanitizePublicStatePulse :: "(js_double \<Rightarrow> string) \<Rightarrow> js_number \<Rightarrow> js_value \<Rightarrow> PublicRoutePulse option option" where
  "sanitizePublicStatePulse num now v =
     (if \<not> isRecord v then Some None
      else do {
        i \<leftarrow> sanitizeString num (get_prop v ''id'') [];
        if i = [] then Some None else do {
          heardAt \<leftarrow> sanitizeNumber num (get_prop v ''heardAt'') now;
          payloadTypeName \<leftarrow> sanitizeString num (get_prop v ''payloadTypeName'') ''Message'';
          messageAnchor \<leftarrow> sanitizePublicMessageAnchor num (get_prop v ''messageAnchor'');
          receivedAt \<leftarrow> sanitizeNumber num (get_prop v ''receivedAt'') heardAt;
          displayAt \<leftarrow> sanitizeNumber num (get_prop v ''displayAt'') heardAt;
          seq \<leftarrow> sanitizeNumber num (get_prop v ''seq'') 0;
          segments \<leftarrow> sanitizeArray (sanitizePublicStateSegment num) (get_prop v ''segments'');
          replayOptions \<leftarrow> sanitizeRouteReplayOptions num (get_prop v ''replayOptions'');
          Some (Some \<lparr>rp_id = i, rp_iata = sanitizeStringOrUndefined num (get_prop v ''iata''),
            rp_region = sanitizeStringOrUndefined num (get_prop v ''region''), rp_payloadTypeName = payloadTypeName,
            rp_messageSender = sanitizeStringOrUndefined num (get_prop v ''messageSender''),
            rp_messageText = sanitizeStringOrUndefined num (get_prop v ''messageText''), rp_messageAnchor = messageAnchor,
            rp_heardAt = heardAt, rp_receivedAt = Some receivedAt, rp_displayAt = Some displayAt, rp_seq = Some seq,
            rp_segments = segments, rp_replayOptions = replayOptions\<rparr>) } })"

definition sanitizePublicStateActivity :: "(js_double \<Rightarrow> string) \<Rightarrow> js_number \<Rightarrow> js_value \<Rightarrow> PublicActivity option option" where
  "sanitizePublicStateActivity num now v =
     (if \<not> isRecord v then Some None
      else do {
        i \<leftarrow> sanitizeString num (get_prop v ''id'') [];
        if i = [] then Some None else do {
          heardAt \<leftarrow> sanitizeNumber num (get_prop v ''heardAt'') now;
          kind \<leftarrow> sanitizeActivityKind num (get_prop v ''kind'');
          payloadTypeName \<leftarrow> sanitizeString num (get_prop v ''payloadTypeName'') ''Message'';
          receivedAt \<leftarrow> sanitizeNumber num (get_prop v ''receivedAt'') heardAt;
          displayAt \<leftarrow> sanitizeNumber num (get_prop v ''displayAt'') heardAt;
          seq \<leftarrow> sanitizeNumber num (get_prop v ''seq'') 0;
          hopCount \<leftarrow> sanitizeNumber num (get_prop v ''hopCount'') 0;
          animationState \<leftarrow> sanitizeAnimationState num (get_prop v ''animationState'');
          resolutionBucket \<leftarrow> sanitizeResolutionBucket num (get_prop v ''resolutionBucket'');
          observerLocation \<leftarrow> sanitizePublicObserverLocation num (get_prop v ''observerLocation'');
          messageAnchor \<leftarrow> sanitizePublicMessageAnchor num (get_prop v ''messageAnchor'');
          Some (Some \<lparr>pa_id = i, pa_kind = kind, pa_payloadTypeName = payloadTypeName,
            pa_routeTypeName = sanitizeStringOrUndefined num (get_prop v ''routeTypeName''),
            pa_iata = sanitizeStringOrUndefined num (get_prop v ''iata''),
            pa_region = sanitizeStringOrUndefined num (get_prop v ''region''),
            pa_heardAt = heardAt, pa_receivedAt = Some receivedAt, pa_displayAt = Some displayAt, pa_seq = Some seq,
            pa_hopCount = hopCount, pa_hasRoute = isTrue (get_prop v ''hasRoute''), pa_animationState = animationState,
            pa_resolutionBucket = resolutionBucket, pa_observerLocation = observerLocation,
            pa_routeIds = Some (safeStringList num (get_prop v ''routeIds'')),
            pa_endpointLabels = Some (safeStringList num (get_prop v ''endpointLabels'')),
            pa_messageSender = sanitizeStringOrUndefined num (get_prop v ''messageSender''),
            pa_messageText = sanitizeStringOrUndefined num (get_prop v ''messageText''),
            pa_messageAnchor = messageAnchor\<rparr>) } })"

section \<open>The map configuration and the statistics\<close>

definition sanitizeNumericTuple :: "(js_double \<Rightarrow> string) \<Rightarrow> js_value \<Rightarrow> (js_number \<times> js_number) option option" where
  "sanitizeNumericTuple num v =
     (case v of
        JArray (a # b # _) \<Rightarrow> do {
          lat \<leftarrow> sanitizeNumber num a 0;
          lng \<leftarrow> sanitizeNumber num b 0;
          Some (Some (lat, lng)) }
      | _ \<Rightarrow> Some None)"

definition sanitizePublicBounds :: "(js_double \<Rightarrow> string) \<Rightarrow> js_value \<Rightarrow> MapBounds option option" where
  "sanitizePublicBounds num v =
     (if \<not> isRecord v then Some None
      else do {
        minLat \<leftarrow> sanitizeNumber num (get_prop v ''minLat'') 0;
        maxLat \<leftarrow> sanitizeNumber num (get_prop v ''maxLat'') 0;
        minLng \<leftarrow> sanitizeNumber num (get_prop v ''minLng'') 0;
        maxLng \<leftarrow> sanitizeNumber num (get_prop v ''maxLng'') 0;
        Some (Some \<lparr>mb_minLat = minLat, mb_maxLat = maxLat, mb_minLng = minLng, mb_maxLng = maxLng\<rparr>) })"

definition sanitizePublicMapConfig :: "(js_double \<Rightarrow> string) \<Rightarrow> js_value \<Rightarrow> PublicMapConfig option option" where
  "sanitizePublicMapConfig num v =
     (if \<not> isRecord v then Some None
      else do {
        defaultCenter \<leftarrow> sanitizeNumericTuple num (get_prop v ''defaultCenter'');
        defaultZoom \<leftarrow> sanitizeOptionalNumber num (get_prop v ''defaultZoom'');
        bounds \<leftarrow> sanitizePublicBounds num (get_prop v ''bounds'');
        Some (Some \<lparr>mc_regionPreset = sanitizeStringOrUndefined num (get_prop v ''regionPreset''),
          mc_defaultRegion = sanitizeStringOrUndefined num (get_prop v ''defaultRegion''),
          mc_defaultCenter = defaultCenter, mc_defaultZoom = defaultZoom, mc_bounds = bounds\<rparr>) })"

definition defaultPublicStats :: PublicStats where
  "defaultPublicStats = \<lparr>st_packets = 0, st_activeNodes = 0, st_activeRoutes = 0, st_mqttConnected = False,
     st_mqttMessages = 0, st_wsClients = 0, st_serverTime = 0, st_latestSeq = None, st_resolutionBuckets = None,
     st_excludedIatas = None, st_excludedRegions = None\<rparr>"

definition sanitizePublicStats :: "(js_double \<Rightarrow> string) \<Rightarrow> js_number \<Rightarrow> js_value \<Rightarrow> PublicStats option" where
  "sanitizePublicStats num now v =
     (if \<not> isRecord v then Some defaultPublicStats
      else do {
        packets \<leftarrow> sanitizeNumber num (get_prop v ''packets'') 0;
        activeNodes \<leftarrow> sanitizeNumber num (get_prop v ''activeNodes'') 0;
        activeRoutes \<leftarrow> sanitizeNumber num (get_prop v ''activeRoutes'') 0;
        mqttMessages \<leftarrow> sanitizeNumber num (get_prop v ''mqttMessages'') 0;
        wsClients \<leftarrow> sanitizeNumber num (get_prop v ''wsClients'') 0;
        serverTime \<leftarrow> sanitizeNumber num (get_prop v ''serverTime'') now;
        latestSeq \<leftarrow> sanitizeOptionalNumber num (get_prop v ''latestSeq'');
        Some \<lparr>st_packets = packets, st_activeNodes = activeNodes, st_activeRoutes = activeRoutes,
          st_mqttConnected = isTrue (get_prop v ''mqttConnected''), st_mqttMessages = mqttMessages, st_wsClients = wsClients,
          st_serverTime = serverTime, st_latestSeq = latestSeq,
          st_resolutionBuckets = sanitizeNestedNumberMap (get_prop v ''resolutionBuckets''),
          st_excludedIatas = sanitizeStringNumberMap (get_prop v ''excludedIatas''),
          st_excludedRegions = sanitizeStringNumberMap (get_prop v ''excludedRegions'')\<rparr> })"

section \<open>Responses\<close>

definition sanitizePublicState :: "(js_double \<Rightarrow> string) \<Rightarrow> js_number \<Rightarrow> js_value \<Rightarrow> PublicLiveState option" where
  "sanitizePublicState num now response = do {
     nodes \<leftarrow> sanitizeArray (sanitizePublicStateNode num now) (get_prop response ''nodes'');
     routes \<leftarrow> sanitizeArray (sanitizePublicStateRoute num) (get_prop response ''routes'');
     recentPulses \<leftarrow> sanitizeArray (sanitizePublicStatePulse num now) (get_prop response ''recentPulses'');
     recentActivity \<leftarrow> sanitizeArray (sanitizePublicStateActivity num now) (get_prop response ''recentActivity'');
     serverTime \<leftarrow> sanitizeNumber num (get_prop response ''serverTime'') now;
     mapConfig \<leftarrow> sanitizePublicMapConfig num (get_prop response ''map'');
     stats \<leftarrow> sanitizePublicStats num now (get_prop response ''stats'');
     Some \<lparr>ls_serverTime = serverTime, ls_map = mapConfig, ls_stats = Some stats, ls_nodes = Some nodes,
       ls_routes = Some routes, ls_recentPulses = Some recentPulses, ls_recentActivity = Some recentActivity\<rparr> }"

definition sanitizePublicMapCluster :: "(js_double \<Rightarrow> string) \<Rightarrow> js_value \<Rightarrow> PublicMapCluster option option" where
  "sanitizePublicMapCluster num v =
     (if \<not> isRecord v then Some None
      else do {
        i \<leftarrow> sanitizeString num (get_prop v ''id'') [];
        latitude \<leftarrow> sanitizeOptionalNumber num (coalesce (get_prop v ''latitude'') (get_prop v ''lat''));
        longitude \<leftarrow> sanitizeOptionalNumber num (coalesce (get_prop v ''longitude'') (get_prop v ''lng''));
        clusterCount \<leftarrow> sanitizeNumber num (get_prop v ''count'') 0;
        case (latitude, longitude) of
          (Some latitude, Some longitude) \<Rightarrow>
            if i = [] \<or> clusterCount \<le> 0 then Some None else do {
              activityCount \<leftarrow> sanitizeOptionalNumber num (get_prop v ''activityCount'');
              lastSeen \<leftarrow> sanitizeOptionalNumber num (get_prop v ''lastSeen'');
              Some (Some \<lparr>mp_id = i, mp_latitude = latitude, mp_longitude = longitude, mp_count = clusterCount,
                mp_activityCount = activityCount, mp_lastSeen = lastSeen,
                mp_region = sanitizeStringOrUndefined num (get_prop v ''region'')\<rparr>) }
        | _ \<Rightarrow> Some None })"

definition event_of :: "PublicEvent \<Rightarrow> event_body option \<Rightarrow> PublicEvent option" where
  "event_of e data = map_option (\<lambda>body. e\<lparr>ev_body := body\<rparr>) data"

definition sanitizePublicEvent :: "(js_double \<Rightarrow> string) \<Rightarrow> js_number \<Rightarrow> js_value \<Rightarrow> PublicEvent option option" where
  "sanitizePublicEvent num now v =
     (if \<not> isRecord v then Some None
      else do {
        seq \<leftarrow> sanitizeNumber num (get_prop v ''seq'') 0;
        type \<leftarrow> sanitizeString num (get_prop v ''type'') [];
        if seq \<le> 0 \<or> type = [] then Some None else do {
          at' \<leftarrow> sanitizeNumber num (get_prop v ''at'') now;
          receivedAt \<leftarrow> sanitizeOptionalNumber num (get_prop v ''receivedAt'');
          let base = \<lparr>ev_seq = seq, ev_body = EvOther type, ev_at = at', ev_receivedAt = receivedAt,
            ev_iata = sanitizeStringOrUndefined num (get_prop v ''iata''),
            ev_region = sanitizeStringOrUndefined num (get_prop v ''region''),
            ev_payloadTypeName = sanitizeStringOrUndefined num (get_prop v ''payloadTypeName''),
            ev_message = Some (isTrue (get_prop v ''message'')),
            ev_routeIds = Some (safeStringList num (get_prop v ''routeIds'')),
            ev_nodeIds = Some (safeStringList num (get_prop v ''nodeIds''))\<rparr>;
          if type = ''activity'' then do {
            data \<leftarrow> sanitizePublicStateActivity num now (get_prop v ''data'');
            Some (event_of base (map_option EvActivity data)) }
          else if type = ''routePulse'' then do {
            data \<leftarrow> sanitizePublicStatePulse num now (get_prop v ''data'');
            Some (event_of base (map_option EvRoutePulse data)) }
          else if type = ''nodeUpdate'' then do {
            data \<leftarrow> sanitizePublicStateNode num now (get_prop v ''data'');
            Some (event_of base (map_option EvNodeUpdate data)) }
          else Some (Some base) } })"

definition numeral_of :: "string option \<Rightarrow> js_number option" where
  "numeral_of s = (case s of None \<Rightarrow> None | Some t \<Rightarrow> finite_option (js_to_number t))"

definition sanitizePublicEventsResponse :: "(js_double \<Rightarrow> string) \<Rightarrow> js_number \<Rightarrow> js_value \<Rightarrow> PublicEventsResponse option" where
  "sanitizePublicEventsResponse num now response = do {
     events \<leftarrow> sanitizeArray (sanitizePublicEvent num now) (get_prop response ''events'');
     serverTime \<leftarrow> sanitizeNumber num (get_prop response ''serverTime'') now;
     oldestSeq \<leftarrow> sanitizeNumber num (get_prop response ''oldestSeq'') (case events of [] \<Rightarrow> 0 | e # _ \<Rightarrow> ev_seq e);
     latestSeq \<leftarrow> sanitizeNumber num (get_prop response ''latestSeq'') (foldl (\<lambda>latest e. max latest (ev_seq e)) 0 events);
     Some \<lparr>er_serverTime = serverTime, er_oldestSeq = oldestSeq, er_latestSeq = latestSeq,
       er_resetRequired = isTrue (get_prop response ''resetRequired''), er_events = events,
       er_nextCursor = numeral_of (sanitizeStringOrUndefined num (get_prop response ''nextCursor''))\<rparr> }"

record PublicViewportResponse =
  vp_serverTime :: js_number
  vp_latestSeq :: "js_number option"
  vp_nodes :: "PublicNode list"
  vp_routes :: "PublicRoute list"
  vp_clusters :: "PublicMapCluster list"
  vp_events :: "PublicEvent list"
  vp_bbox :: "js_number list option"
  vp_zoom :: "js_number option"
  vp_includes :: "string list"

definition sanitizePublicViewportResponse :: "(js_double \<Rightarrow> string) \<Rightarrow> js_number \<Rightarrow> js_value \<Rightarrow> PublicViewportResponse option" where
  "sanitizePublicViewportResponse num now response = do {
     nodes \<leftarrow> sanitizeArray (sanitizePublicStateNode num now) (get_prop response ''nodes'');
     routes \<leftarrow> sanitizeArray (sanitizePublicStateRoute num) (get_prop response ''routes'');
     events \<leftarrow> sanitizeArray (sanitizePublicEvent num now) (get_prop response ''events'');
     clusters \<leftarrow> sanitizeArray (sanitizePublicMapCluster num) (get_prop response ''clusters'');
     serverTime \<leftarrow> sanitizeNumber num (get_prop response ''serverTime'') now;
     latestSeq \<leftarrow> sanitizeOptionalNumber num (get_prop response ''latestSeq'');
     bbox \<leftarrow> (case get_prop response ''bbox'' of
         JArray xs \<Rightarrow> map_option (\<lambda>ns. Some (take 4 ns)) (those (map (\<lambda>x. sanitizeNumber num x 0) xs))
       | _ \<Rightarrow> Some None);
     zoom \<leftarrow> sanitizeOptionalNumber num (get_prop response ''zoom'');
     Some \<lparr>vp_serverTime = serverTime, vp_latestSeq = latestSeq, vp_nodes = nodes, vp_routes = routes,
       vp_clusters = clusters, vp_events = events, vp_bbox = bbox, vp_zoom = zoom,
       vp_includes = safeStringList num (get_prop response ''includes'')\<rparr> }"

text \<open>The health is passed through unchecked: \<open>cast\<close> reads it as a \<open>RuntimeHealth\<close>.\<close>

definition sanitizePublicBootstrapResponse ::
  "(js_double \<Rightarrow> string) \<Rightarrow> (js_value \<Rightarrow> RuntimeHealth) \<Rightarrow> js_number \<Rightarrow> js_value \<Rightarrow> PublicBootstrapResponse option" where
  "sanitizePublicBootstrapResponse num cast now response = do {
     clusters \<leftarrow> sanitizeArray (sanitizePublicMapCluster num) (get_prop response ''clusters'');
     recentActivity \<leftarrow> sanitizeArray (sanitizePublicStateActivity num now) (get_prop response ''recentActivity'');
     serverTime \<leftarrow> sanitizeNumber num (get_prop response ''serverTime'') now;
     mapConfig \<leftarrow> sanitizePublicMapConfig num (get_prop response ''map'');
     stats \<leftarrow> sanitizePublicStats num now (get_prop response ''stats'');
     latestSeq \<leftarrow> sanitizeNumber num (get_prop response ''latestSeq'') 0;
     Some \<lparr>br_serverTime = serverTime, br_map = mapConfig, br_stats = stats, br_latestSeq = latestSeq,
       br_health = cast (if isRecord (get_prop response ''health'') then get_prop response ''health'' else JObject []),
       br_clusters = clusters, br_recentActivity = recentActivity\<rparr> }"

end
