(* ===== verification/Api_Panels.thy ===== *)
theory Api_Panels
  imports Api_Sanitize
begin

text \<open>
  The sanitizers of \<open>web/src/api.ts\<close> for the endpoints of the panels: packets, chat and propagation.
\<close>

section \<open>Windows and packets\<close>

record PublicHistoryWindow =
  hw_from :: js_number
  hw_to :: js_number
  hw_count :: js_number

record PublicPacketScan =
  sn_eventsScanned :: js_number
  sn_scanLimit :: js_number
  sn_filtered :: bool
  sn_partial :: bool

record PublicPacketsResponse =
  pk_serverTime :: js_number
  pk_packets :: "PublicPacketPath list"
  pk_nextCursor :: "string option"
  pk_window :: PublicHistoryWindow
  pk_scan :: "PublicPacketScan option"

definition sanitizeHistoryWindow :: "(js_double \<Rightarrow> string) \<Rightarrow> js_value \<Rightarrow> PublicHistoryWindow option" where
  "sanitizeHistoryWindow num v =
     (if \<not> isRecord v then Some \<lparr>hw_from = 0, hw_to = 0, hw_count = 0\<rparr>
      else do {
        from \<leftarrow> sanitizeNumber num (get_prop v ''from'') 0;
        to \<leftarrow> sanitizeNumber num (get_prop v ''to'') 0;
        total \<leftarrow> sanitizeNumber num (get_prop v ''count'') 0;
        Some \<lparr>hw_from = from, hw_to = to, hw_count = total\<rparr> })"

definition sanitizePacketsWindow :: "(js_double \<Rightarrow> string) \<Rightarrow> js_value \<Rightarrow> PublicHistoryWindow option" where
  "sanitizePacketsWindow num v = sanitizeHistoryWindow num v"

definition sanitizeChatWindow :: "(js_double \<Rightarrow> string) \<Rightarrow> js_value \<Rightarrow> PublicHistoryWindow option" where
  "sanitizeChatWindow num v = sanitizeHistoryWindow num v"

definition sanitizePublicPacketEndpoint :: "(js_double \<Rightarrow> string) \<Rightarrow> js_value \<Rightarrow> PublicRouteEndpoint option option" where
  "sanitizePublicPacketEndpoint num v =
     (if \<not> isRecord v then Some None
      else do {
        nodeId \<leftarrow> sanitizeString num (get_prop v ''nodeId'') [];
        if nodeId = [] then Some None else do {
          label \<leftarrow> sanitizeString num (get_prop v ''label'') nodeId;
          lat \<leftarrow> sanitizeNumber num (get_prop v ''lat'') 0;
          lng \<leftarrow> sanitizeNumber num (get_prop v ''lng'') 0;
          Some (Some \<lparr>ep_nodeId = nodeId, ep_label = label, ep_lat = lat, ep_lng = lng,
            ep_pathHash3 = sanitizeStringOrUndefined num (get_prop v ''pathHash3'')\<rparr>) } })"

definition sanitizePublicPacketSegment :: "(js_double \<Rightarrow> string) \<Rightarrow> js_value \<Rightarrow> PublicRouteSegment option option" where
  "sanitizePublicPacketSegment num v =
     (if \<not> isRecord v then Some None
      else do {
        routeId \<leftarrow> sanitizeString num (get_prop v ''routeId'') [];
        from \<leftarrow> sanitizePublicPacketEndpoint num (get_prop v ''from'');
        to \<leftarrow> sanitizePublicPacketEndpoint num (get_prop v ''to'');
        case (from, to) of
          (Some from, Some to) \<Rightarrow>
            if routeId = [] then Some None else do {
              distanceKm \<leftarrow> sanitizeNumber num (get_prop v ''distanceKm'') 0;
              Some (Some \<lparr>sg_routeId = routeId, sg_from = from, sg_to = to, sg_distanceKm = distanceKm\<rparr>) }
        | _ \<Rightarrow> Some None })"

definition sanitizePublicPacket :: "(js_double \<Rightarrow> string) \<Rightarrow> js_value \<Rightarrow> PublicPacketPath option option" where
  "sanitizePublicPacket num v =
     (if \<not> isRecord v then Some None
      else do {
        segments \<leftarrow> sanitizeArray (sanitizePublicPacketSegment num) (get_prop v ''segments'');
        segmentCount \<leftarrow> sanitizeNumber num (get_prop v ''segmentCount'') (real (length segments));
        i \<leftarrow> sanitizeString num (get_prop v ''id'') [];
        if i = [] then Some None else do {
          at' \<leftarrow> sanitizeNumber num (get_prop v ''at'') 0;
          payloadTypeName \<leftarrow> sanitizeString num (get_prop v ''payloadTypeName'') ''Message'';
          hopCount \<leftarrow> sanitizeNumber num (get_prop v ''hopCount'') 0;
          segmentCount \<leftarrow> sanitizeNumber num (get_prop v ''segmentCount'') segmentCount;
          distanceKm \<leftarrow> sanitizeNumber num (get_prop v ''distanceKm'') 0;
          Some (Some \<lparr>pp_id = i, pp_at = at', pp_iata = sanitizeStringOrUndefined num (get_prop v ''iata''),
            pp_region = sanitizeStringOrUndefined num (get_prop v ''region''), pp_payloadTypeName = payloadTypeName,
            pp_messageSender = sanitizeStringOrUndefined num (get_prop v ''messageSender''),
            pp_messageText = sanitizeStringOrUndefined num (get_prop v ''messageText''), pp_hopCount = hopCount,
            pp_segmentCount = segmentCount, pp_distanceKm = distanceKm,
            pp_routeIds = safeStringList num (get_prop v ''routeIds''),
            pp_endpointLabels = safeStringList num (get_prop v ''endpointLabels''), pp_segments = segments\<rparr>) } })"

text \<open>\<open>if (response.scan)\<close>: a scan is read when it is a truthy value, of whatever type.\<close>

fun truthy :: "js_value \<Rightarrow> bool" where
  "truthy JUndefined = False"
| "truthy JNull = False"
| "truthy (JBool b) = b"
| "truthy (JNumber d) = (d \<noteq> Fin 0 \<and> d \<noteq> NotANumber)"
| "truthy (JString s) = (s \<noteq> [])"
| "truthy _ = True"

definition sanitizePublicPacketsResponse :: "(js_double \<Rightarrow> string) \<Rightarrow> js_number \<Rightarrow> js_value \<Rightarrow> PublicPacketsResponse option" where
  "sanitizePublicPacketsResponse num now response = do {
     packets \<leftarrow> sanitizeArray (sanitizePublicPacket num) (get_prop response ''packets'');
     window \<leftarrow> sanitizePacketsWindow num (get_prop response ''window'');
     serverTime \<leftarrow> sanitizeNumber num (get_prop response ''serverTime'') now;
     scan \<leftarrow> (let s = get_prop response ''scan'' in
       if \<not> truthy s then Some None else do {
         eventsScanned \<leftarrow> sanitizeNumber num (get_prop s ''eventsScanned'') 0;
         scanLimit \<leftarrow> sanitizeNumber num (get_prop s ''scanLimit'') 0;
         Some (Some \<lparr>sn_eventsScanned = eventsScanned, sn_scanLimit = scanLimit,
           sn_filtered = isTrue (get_prop s ''filtered''), sn_partial = isTrue (get_prop s ''partial'')\<rparr>) });
     Some \<lparr>pk_serverTime = serverTime, pk_packets = packets,
       pk_nextCursor = sanitizeStringOrUndefined num (get_prop response ''nextCursor''), pk_window = window, pk_scan = scan\<rparr> }"

section \<open>Chat\<close>

record PublicChatMessage =
  cm_id :: string
  cm_at :: js_number
  cm_region :: "string option"
  cm_iata :: "string option"
  cm_sender :: "string option"
  cm_text :: string
  cm_channelLabel :: "string option"
  cm_payloadTypeName :: string
  cm_source :: "string option"
  cm_anchor :: "PublicMessageAnchor option"
  cm_routeIds :: "string list option"
  cm_endpointLabels :: "string list option"

record PublicChatResponse =
  cr_serverTime :: js_number
  cr_messages :: "PublicChatMessage list"
  cr_nextCursor :: "string option"
  cr_window :: PublicHistoryWindow

definition sanitizePublicChatMessage :: "(js_double \<Rightarrow> string) \<Rightarrow> js_value \<Rightarrow> PublicChatMessage option option" where
  "sanitizePublicChatMessage num v =
     (if \<not> isRecord v then Some None
      else do {
        messageText \<leftarrow> sanitizeString num (get_prop v ''text'') [];
        if messageText = [] then Some None else do {
          rawId \<leftarrow> sanitizeString num (get_prop v ''id'') [];
          at' \<leftarrow> sanitizeNumber num (get_prop v ''at'') 0;
          if rawId = [] then Some None else do {
            sender \<leftarrow> sanitizeString num (get_prop v ''sender'') ''Unknown'';
            channelLabel \<leftarrow> sanitizeString num (get_prop v ''channelLabel'') ''Public'';
            payloadTypeName \<leftarrow> sanitizeString num (get_prop v ''payloadTypeName'') ''Message'';
            anchor \<leftarrow> sanitizePublicMessageAnchor num (get_prop v ''anchor'');
            Some (Some \<lparr>cm_id = rawId, cm_at = at', cm_region = sanitizeStringOrUndefined num (get_prop v ''region''),
              cm_iata = sanitizeStringOrUndefined num (get_prop v ''iata''), cm_sender = Some sender, cm_text = messageText,
              cm_channelLabel = Some channelLabel, cm_payloadTypeName = payloadTypeName,
              cm_source = sanitizeStringOrUndefined num (get_prop v ''source''), cm_anchor = anchor,
              cm_routeIds = Some (safeStringList num (get_prop v ''routeIds'')),
              cm_endpointLabels = Some (safeStringList num (get_prop v ''endpointLabels''))\<rparr>) } } })"

definition sanitizePublicChatResponse :: "(js_double \<Rightarrow> string) \<Rightarrow> js_number \<Rightarrow> js_value \<Rightarrow> PublicChatResponse option" where
  "sanitizePublicChatResponse num now response = do {
     messages \<leftarrow> sanitizeArray (sanitizePublicChatMessage num) (get_prop response ''messages'');
     serverTime \<leftarrow> sanitizeNumber num (get_prop response ''serverTime'') now;
     window \<leftarrow> sanitizeChatWindow num (get_prop response ''window'');
     Some \<lparr>cr_serverTime = serverTime, cr_messages = messages,
       cr_nextCursor = sanitizeStringOrUndefined num (get_prop response ''nextCursor''), cr_window = window\<rparr> }"

section \<open>Propagation\<close>

record PublicPropagationWeatherSummary =
  pw_source :: string
  pw_model :: "string option"
  pw_sampleTime :: js_number
  pw_fetchedAt :: js_number
  pw_temperatureC :: js_number
  pw_dewPointC :: js_number
  pw_relativeHumidityPct :: js_number
  pw_pressureHPa :: js_number
  pw_cloudCoverPct :: js_number
  pw_visibilityM :: "js_number option"
  pw_windSpeedKmh :: js_number
  pw_inversionProxy :: string

record PublicPropagationSolarSummary =
  ps_kpIndex :: js_number
  ps_kpLabel :: string
  ps_solarFluxSfu :: js_number
  ps_solarFluxLabel :: string
  ps_geomagActivity :: string
  ps_fetchedAt :: js_number

record PublicPropagationReplayWindow =
  rw_from :: js_number
  rw_to :: js_number

record PublicPropagationEvent =
  pe_id :: string
  pe_at :: js_number
  pe_classification :: string
  pe_confidence :: string
  pe_score :: js_number
  pe_distanceKm :: js_number
  pe_region :: "string option"
  pe_routeIds :: "string list"
  pe_endpointLabels :: "string list"
  pe_segments :: "PublicRouteSegment list"
  pe_reasons :: "string list"
  pe_weather :: "PublicPropagationWeatherSummary option"
  pe_solar :: "PublicPropagationSolarSummary option"
  pe_replayWindow :: PublicPropagationReplayWindow

record PublicPropagationConditions =
  cd_serverTime :: js_number
  cd_eventCount :: js_number
  cd_latestEvent :: "PublicPropagationEvent option"
  cd_weather :: "PublicPropagationWeatherSummary option"
  cd_solar :: "PublicPropagationSolarSummary option"
  cd_sourceStatus :: string

record PublicPropagationResponse =
  pr_serverTime :: js_number
  pr_conditions :: PublicPropagationConditions
  pr_events :: "PublicPropagationEvent list"
  pr_nextCursor :: "string option"
  pr_window :: PublicHistoryWindow

definition sanitizePublicPropagationWeather ::
  "(js_double \<Rightarrow> string) \<Rightarrow> js_value \<Rightarrow> PublicPropagationWeatherSummary option option" where
  "sanitizePublicPropagationWeather num v =
     (if \<not> isRecord v then Some None
      else do {
        source \<leftarrow> sanitizeString num (get_prop v ''source'') [];
        if source = [] then Some None else do {
          sampleTime \<leftarrow> sanitizeNumber num (get_prop v ''sampleTime'') 0;
          fetchedAt \<leftarrow> sanitizeNumber num (get_prop v ''fetchedAt'') 0;
          temperatureC \<leftarrow> sanitizeNumber num (get_prop v ''temperatureC'') 0;
          dewPointC \<leftarrow> sanitizeNumber num (get_prop v ''dewPointC'') 0;
          relativeHumidityPct \<leftarrow> sanitizeNumber num (get_prop v ''relativeHumidityPct'') 0;
          pressureHPa \<leftarrow> sanitizeNumber num (get_prop v ''pressureHPa'') 0;
          cloudCoverPct \<leftarrow> sanitizeNumber num (get_prop v ''cloudCoverPct'') 0;
          visibilityM \<leftarrow> sanitizeOptionalNumber num (get_prop v ''visibilityM'');
          windSpeedKmh \<leftarrow> sanitizeNumber num (get_prop v ''windSpeedKmh'') 0;
          inversionProxy \<leftarrow> sanitizeString num (get_prop v ''inversionProxy'') ''unknown'';
          Some (Some \<lparr>pw_source = source, pw_model = sanitizeStringOrUndefined num (get_prop v ''model''),
            pw_sampleTime = sampleTime, pw_fetchedAt = fetchedAt, pw_temperatureC = temperatureC, pw_dewPointC = dewPointC,
            pw_relativeHumidityPct = relativeHumidityPct, pw_pressureHPa = pressureHPa, pw_cloudCoverPct = cloudCoverPct,
            pw_visibilityM = visibilityM, pw_windSpeedKmh = windSpeedKmh, pw_inversionProxy = inversionProxy\<rparr>) } })"

definition sanitizePublicPropagationSolar ::
  "(js_double \<Rightarrow> string) \<Rightarrow> js_value \<Rightarrow> PublicPropagationSolarSummary option option" where
  "sanitizePublicPropagationSolar num v =
     (if \<not> isRecord v then Some None
      else do {
        kpIndex \<leftarrow> sanitizeNumber num (get_prop v ''kpIndex'') 0;
        kpLabel \<leftarrow> sanitizeString num (get_prop v ''kpLabel'') ''quiet'';
        solarFluxSfu \<leftarrow> sanitizeNumber num (get_prop v ''solarFluxSfu'') 0;
        solarFluxLabel \<leftarrow> sanitizeString num (get_prop v ''solarFluxLabel'') ''unknown'';
        geomagActivity \<leftarrow> sanitizeString num (get_prop v ''geomagActivity'') ''unknown'';
        fetchedAt \<leftarrow> sanitizeNumber num (get_prop v ''fetchedAt'') 0;
        Some (Some \<lparr>ps_kpIndex = kpIndex, ps_kpLabel = kpLabel, ps_solarFluxSfu = solarFluxSfu,
          ps_solarFluxLabel = solarFluxLabel, ps_geomagActivity = geomagActivity, ps_fetchedAt = fetchedAt\<rparr>) })"

definition sanitizePropagationReplayWindow ::
  "(js_double \<Rightarrow> string) \<Rightarrow> js_value \<Rightarrow> js_number \<Rightarrow> PublicPropagationReplayWindow option" where
  "sanitizePropagationReplayWindow num v t =
     (if \<not> isRecord v then Some \<lparr>rw_from = max 0 (t - 15 * 60000), rw_to = t + 15 * 60000\<rparr>
      else do {
        from \<leftarrow> sanitizeNumber num (get_prop v ''from'') (max 0 (t - 15 * 60000));
        to \<leftarrow> sanitizeNumber num (get_prop v ''to'') (t + 15 * 60000);
        Some \<lparr>rw_from = from, rw_to = to\<rparr> })"

definition sanitizePublicPropagationEvent ::
  "(js_double \<Rightarrow> string) \<Rightarrow> js_value \<Rightarrow> PublicPropagationEvent option option" where
  "sanitizePublicPropagationEvent num v =
     (if \<not> isRecord v then Some None
      else do {
        i \<leftarrow> sanitizeString num (get_prop v ''id'') [];
        if i = [] then Some None else do {
          segments \<leftarrow> sanitizeArray (sanitizePublicStateSegment num) (get_prop v ''segments'');
          at' \<leftarrow> sanitizeNumber num (get_prop v ''at'') 0;
          classification \<leftarrow> sanitizeString num (get_prop v ''classification'') ''long_distance_event'';
          confidence \<leftarrow> sanitizeString num (get_prop v ''confidence'') ''low'';
          score \<leftarrow> sanitizeNumber num (get_prop v ''score'') 0;
          distanceKm \<leftarrow> sanitizeNumber num (get_prop v ''distanceKm'') 0;
          weather \<leftarrow> sanitizePublicPropagationWeather num (get_prop v ''weather'');
          solar \<leftarrow> sanitizePublicPropagationSolar num (get_prop v ''solar'');
          replayWindow \<leftarrow> sanitizePropagationReplayWindow num (get_prop v ''replayWindow'') at';
          Some (Some \<lparr>pe_id = i, pe_at = at', pe_classification = classification, pe_confidence = confidence,
            pe_score = score, pe_distanceKm = distanceKm, pe_region = sanitizeStringOrUndefined num (get_prop v ''region''),
            pe_routeIds = safeStringList num (get_prop v ''routeIds''),
            pe_endpointLabels = safeStringList num (get_prop v ''endpointLabels''), pe_segments = segments,
            pe_reasons = take 8 (safeStringList num (get_prop v ''reasons'')), pe_weather = weather, pe_solar = solar,
            pe_replayWindow = replayWindow\<rparr>) } })"

definition sanitizePublicPropagationConditions ::
  "(js_double \<Rightarrow> string) \<Rightarrow> js_number \<Rightarrow> js_value \<Rightarrow> PublicPropagationEvent list \<Rightarrow> PublicPropagationConditions option" where
  "sanitizePublicPropagationConditions num now v events = do {
     let item = record_or_empty v;
     latest \<leftarrow> sanitizePublicPropagationEvent num (get_prop item ''latestEvent'');
     serverTime \<leftarrow> sanitizeNumber num (get_prop item ''serverTime'') now;
     eventCount \<leftarrow> sanitizeNumber num (get_prop item ''eventCount'') (real (length events));
     weather \<leftarrow> sanitizePublicPropagationWeather num (get_prop item ''weather'');
     solar \<leftarrow> sanitizePublicPropagationSolar num (get_prop item ''solar'');
     sourceStatus \<leftarrow> sanitizeString num (get_prop item ''sourceStatus'') (if events \<noteq> [] then ''active'' else ''quiet'');
     Some \<lparr>cd_serverTime = serverTime, cd_eventCount = eventCount,
       cd_latestEvent = or_opt latest (case events of [] \<Rightarrow> None | e # _ \<Rightarrow> Some e),
       cd_weather = weather, cd_solar = solar, cd_sourceStatus = sourceStatus\<rparr> }"

definition sanitizePublicPropagationResponse ::
  "(js_double \<Rightarrow> string) \<Rightarrow> js_number \<Rightarrow> js_value \<Rightarrow> PublicPropagationResponse option" where
  "sanitizePublicPropagationResponse num now response = do {
     events \<leftarrow> sanitizeArray (sanitizePublicPropagationEvent num) (get_prop response ''events'');
     serverTime \<leftarrow> sanitizeNumber num (get_prop response ''serverTime'') now;
     conditions \<leftarrow> sanitizePublicPropagationConditions num now (get_prop response ''conditions'') events;
     window \<leftarrow> sanitizeHistoryWindow num (get_prop response ''window'');
     Some \<lparr>pr_serverTime = serverTime, pr_conditions = conditions, pr_events = events,
       pr_nextCursor = sanitizeStringOrUndefined num (get_prop response ''nextCursor''), pr_window = window\<rparr> }"

end
