(* ===== verification/Api_Requests.thy ===== *)
theory Api_Requests
  imports Api_Panels
begin

text \<open>
  The requests of \<open>web/src/api.ts\<close>: the query strings, the fetch with its timeout, and the copy of the last
  state in \<open>localStorage\<close> with which the client starts when the network fails.
\<close>

section \<open>\<open>URLSearchParams\<close>\<close>

type_synonym params = "(string \<times> string) list"

definition hex_char :: "nat \<Rightarrow> char" where
  "hex_char d = (if d < 10 then char_of (48 + d) else char_of (55 + d))"

definition is_plain :: "char \<Rightarrow> bool" where
  "is_plain c = (let n = of_char c :: nat in
     48 \<le> n \<and> n \<le> 57 \<or> 65 \<le> n \<and> n \<le> 90 \<or> 97 \<le> n \<and> n \<le> 122 \<or> c \<in> {CHR ''*'', CHR ''-'', CHR ''.'', CHR ''_''})"

definition encode_char :: "char \<Rightarrow> string" where
  "encode_char c = (if c = CHR '' '' then ''+'' else if is_plain c then [c]
     else [CHR ''%'', hex_char (of_char c div 16), hex_char (of_char c mod 16)])"

definition url_encode :: "string \<Rightarrow> string" where
  "url_encode s = concat (map encode_char s)"

definition params_toString :: "params \<Rightarrow> string" where
  "params_toString ps = join ''&'' (map (\<lambda>(k, v). url_encode k @ ''='' @ url_encode v) ps)"

definition round_str :: "js_number \<Rightarrow> string" where
  "round_str x = show_int \<lfloor>x + 1 / 2\<rfloor>"

text \<open>\<open>if (v !== undefined) params.set(k, f(v))\<close> and \<open>if (s) params.set(k, s)\<close>.\<close>

definition set_opt :: "string \<Rightarrow> ('a \<Rightarrow> string) \<Rightarrow> 'a option \<Rightarrow> params \<Rightarrow> params" where
  "set_opt k f v ps = (case v of None \<Rightarrow> ps | Some x \<Rightarrow> map_set k (f x) ps)"

definition set_str :: "string \<Rightarrow> string option \<Rightarrow> params \<Rightarrow> params" where
  "set_str k v ps = (if or_else v [] \<noteq> [] then map_set k (the v) ps else ps)"

definition set_true :: "string \<Rightarrow> bool option \<Rightarrow> params \<Rightarrow> params" where
  "set_true k v ps = (if v = Some True then map_set k ''true'' ps else ps)"

section \<open>Query strings\<close>

record PublicHistoryParams =
  hp_from :: js_number
  hp_to :: js_number
  hp_limit :: "js_number option"
  hp_cursor :: "string option"

record PublicPacketsParams = PublicHistoryParams +
  kp_iata :: "string option"
  kp_region :: "string option"
  kp_payload :: "string option"
  kp_minHops :: "js_number option"
  kp_messageOnly :: "bool option"
  kp_q :: "string option"

record PublicPropagationParams = PublicHistoryParams +
  ap_iata :: "string option"
  ap_region :: "string option"

record PublicChatParams = PublicHistoryParams +
  cp_iata :: "string option"
  cp_region :: "string option"
  cp_channel :: "string option"
  cp_q :: "string option"

record PublicEventsParams =
  qe_afterSeq :: "js_number option"
  qe_from :: "js_number option"
  qe_to :: "js_number option"
  qe_limit :: "js_number option"
  qe_region :: "string option"
  qe_payload :: "string option"
  qe_event :: "string option"
  qe_messageOnly :: "bool option"

record PublicHistorySummaryParams =
  qs_from :: js_number
  qs_to :: js_number
  qs_bucketMs :: "js_number option"

record PublicViewportParams =
  qv_bbox :: "js_number list"
  qv_zoom :: "js_number option"
  qv_include :: "string list option"
  qv_sinceSeq :: "js_number option"

record PublicLOSProfileParams =
  ql_aLat :: "js_number option"
  ql_aLng :: "js_number option"
  ql_bLat :: "js_number option"
  ql_bLng :: "js_number option"
  ql_nodeA :: "string option"
  ql_nodeB :: "string option"
  ql_frequencyMhz :: "js_number option"
  ql_antennaHeightAM :: "js_number option"
  ql_antennaHeightBM :: "js_number option"

text \<open>The query of a request; \<open>None\<close> for a parameter that is undefined.\<close>

definition window_params :: "'a PublicHistoryParams_scheme \<Rightarrow> params" where
  "window_params p = set_str ''cursor'' (hp_cursor p) (set_opt ''limit'' round_str (hp_limit p)
     [(''from'', round_str (hp_from p)), (''to'', round_str (hp_to p))])"

text \<open>\<open>if (region || iata) params.set('region', region ?? iata ?? '')\<close>\<close>

definition set_region :: "string option \<Rightarrow> string option \<Rightarrow> params \<Rightarrow> params" where
  "set_region region iata ps =
     (if or_else region [] \<noteq> [] \<or> or_else iata [] \<noteq> [] then map_set ''region'' (or_else (or_opt region iata) []) ps else ps)"

definition with_suffix :: "string \<Rightarrow> params \<Rightarrow> string" where
  "with_suffix path ps = (if params_toString ps \<noteq> [] then path @ ''?'' @ params_toString ps else path)"

definition historyParams :: "PublicHistoryParams \<Rightarrow> params" where
  "historyParams p = window_params p"

definition packetsParams :: "PublicPacketsParams \<Rightarrow> params" where
  "packetsParams p =
     set_str ''q'' (kp_q p) (set_true ''messageOnly'' (kp_messageOnly p)
       ((case kp_minHops p of Some h \<Rightarrow> if h > 0 then map_set ''minHops'' (round_str h) else (\<lambda>ps. ps) | None \<Rightarrow> (\<lambda>ps. ps))
         (set_str ''payload'' (kp_payload p) (set_region (kp_region p) (kp_iata p) (window_params p)))))"

definition propagationParams :: "PublicPropagationParams \<Rightarrow> params" where
  "propagationParams p = set_region (ap_region p) (ap_iata p) (window_params p)"

definition chatParams :: "PublicChatParams \<Rightarrow> params" where
  "chatParams p =
     set_str ''q'' (cp_q p) (set_str ''channel'' (cp_channel p) (set_str ''iata'' (cp_iata p)
       (set_str ''iata'' (cp_region p) (set_str ''region'' (cp_region p) (window_params p)))))"

definition eventsParams :: "PublicEventsParams \<Rightarrow> params" where
  "eventsParams p =
     set_true ''messageOnly'' (qe_messageOnly p) (set_str ''event'' (qe_event p) (set_str ''payload'' (qe_payload p)
       (set_str ''region'' (qe_region p) (set_opt ''limit'' round_str (qe_limit p) (set_opt ''to'' round_str (qe_to p)
         (set_opt ''from'' round_str (qe_from p)
           (set_opt ''afterSeq'' (\<lambda>s. show_int (max 0 \<lfloor>s + 1 / 2\<rfloor>)) (qe_afterSeq p) [])))))))"

definition summaryParams :: "PublicHistorySummaryParams \<Rightarrow> params" where
  "summaryParams p = set_opt ''bucketMs'' round_str (qs_bucketMs p)
     [(''from'', round_str (qs_from p)), (''to'', round_str (qs_to p))]"

definition viewportParams :: "(js_double \<Rightarrow> string) \<Rightarrow> PublicViewportParams \<Rightarrow> params" where
  "viewportParams num p =
     set_opt ''sinceSeq'' round_str (qv_sinceSeq p)
       ((if or_else (qv_include p) [] \<noteq> [] then map_set ''include'' (join '','' (or_else (qv_include p) [])) else (\<lambda>ps. ps))
         (set_opt ''zoom'' (\<lambda>z. num (Fin z)) (qv_zoom p) [(''bbox'', join '','' (map (\<lambda>x. num (Fin x)) (qv_bbox p)))]))"

definition losParams :: "(js_double \<Rightarrow> string) \<Rightarrow> PublicLOSProfileParams \<Rightarrow> params" where
  "losParams num p =
     set_str ''nodeB'' (ql_nodeB p) (set_str ''nodeA'' (ql_nodeA p)
       (foldl (\<lambda>ps (k, v). set_opt k (\<lambda>x. num (Fin x)) v ps) []
         [(''aLat'', ql_aLat p), (''aLng'', ql_aLng p), (''bLat'', ql_bLat p), (''bLng'', ql_bLng p),
          (''frequencyMhz'', ql_frequencyMhz p), (''antennaHeightAM'', ql_antennaHeightAM p),
          (''antennaHeightBM'', ql_antennaHeightBM p)]))"

definition coverageParams :: "string option \<Rightarrow> params" where
  "coverageParams region = set_str ''region'' region []"

definition eventsURL :: "PublicEventsParams \<Rightarrow> string" where
  "eventsURL p = with_suffix ''/api/v1/public/events'' (eventsParams p)"

definition coverageURL :: "string option \<Rightarrow> string" where
  "coverageURL region = with_suffix ''/api/v1/public/coverage'' (coverageParams region)"

definition packetsURL :: "PublicPacketsParams \<Rightarrow> string" where
  "packetsURL p = ''/api/v1/public/packets?'' @ params_toString (packetsParams p)"

section \<open>Fetching JSON\<close>

definition JSON_REQUEST_TIMEOUT_MS :: js_number where "JSON_REQUEST_TIMEOUT_MS = 10000"
definition PUBLIC_HISTORY_REQUEST_TIMEOUT_MS :: js_number where "PUBLIC_HISTORY_REQUEST_TIMEOUT_MS = 15000"
definition PUBLIC_STATE_CACHE_MAX_AGE_MS :: js_number where "PUBLIC_STATE_CACHE_MAX_AGE_MS = 5 * 60000"
definition PUBLIC_STATE_CACHE_WRITE_INTERVAL_MS :: js_number where "PUBLIC_STATE_CACHE_WRITE_INTERVAL_MS = 60000"

datatype fetch_error = NetworkError | HttpError nat | InvalidJSON | TimeoutError | AbortError | SanitizeError

text \<open>
  What the network does with a request, and when: the response and its body arrive after \<open>settled\<close>
  milliseconds, with the parsed body, which is \<open>None\<close> when it is no JSON.
\<close>

datatype transport = Fails | Responds nat "js_value option"

record exchange =
  ex_settled :: js_number
  ex_transport :: transport
  ex_abortedAt :: "js_number option"  \<comment> \<open>when the caller's signal aborts, if ever\<close>

text \<open>
  The signal of a request aborts with the timeout or with the caller's signal, whichever comes first; a fetch
  whose signal aborts before the body has arrived is rejected.
\<close>

definition withRequestTimeout :: "js_number \<Rightarrow> exchange \<Rightarrow> fetch_error option" where
  "withRequestTimeout timeoutMs ex =
     (case ex_abortedAt ex of
        Some t \<Rightarrow> if t \<le> ex_settled ex \<and> t \<le> timeoutMs then Some AbortError
          else if timeoutMs \<le> ex_settled ex then Some TimeoutError else None
      | None \<Rightarrow> if timeoutMs \<le> ex_settled ex then Some TimeoutError else None)"

definition getJSON :: "js_number \<Rightarrow> exchange \<Rightarrow> fetch_error + js_value" where
  "getJSON timeoutMs ex =
     (case withRequestTimeout timeoutMs ex of
        Some e \<Rightarrow> Inl e
      | None \<Rightarrow> case ex_transport ex of
            Fails \<Rightarrow> Inl NetworkError
          | Responds status body \<Rightarrow>
              if \<not> (200 \<le> status \<and> status < 300) then Inl (HttpError status)
              else case body of None \<Rightarrow> Inl InvalidJSON | Some v \<Rightarrow> Inr v)"

definition getReadinessJSON :: "exchange \<Rightarrow> fetch_error + js_value" where
  "getReadinessJSON ex =
     (case withRequestTimeout JSON_REQUEST_TIMEOUT_MS ex of
        Some e \<Rightarrow> Inl e
      | None \<Rightarrow> case ex_transport ex of
            Fails \<Rightarrow> Inl NetworkError
          | Responds status body \<Rightarrow>
              if \<not> (200 \<le> status \<and> status < 300) \<and> status \<noteq> 503 then Inl (HttpError status)
              else case body of None \<Rightarrow> Inl InvalidJSON | Some v \<Rightarrow> Inr v)"

definition sanitized :: "(js_value \<Rightarrow> 'a option) \<Rightarrow> fetch_error + js_value \<Rightarrow> fetch_error + 'a" where
  "sanitized f r = (case r of Inl e \<Rightarrow> Inl e | Inr v \<Rightarrow> (case f v of None \<Rightarrow> Inl SanitizeError | Some x \<Rightarrow> Inr x))"

definition fetchPublicEvents :: "(js_double \<Rightarrow> string) \<Rightarrow> js_number \<Rightarrow> exchange \<Rightarrow> fetch_error + PublicEventsResponse" where
  "fetchPublicEvents num now ex = sanitized (sanitizePublicEventsResponse num now) (getJSON JSON_REQUEST_TIMEOUT_MS ex)"

definition fetchPublicPackets :: "(js_double \<Rightarrow> string) \<Rightarrow> js_number \<Rightarrow> exchange \<Rightarrow> fetch_error + PublicPacketsResponse" where
  "fetchPublicPackets num now ex = sanitized (sanitizePublicPacketsResponse num now) (getJSON JSON_REQUEST_TIMEOUT_MS ex)"

definition fetchPublicChat :: "(js_double \<Rightarrow> string) \<Rightarrow> js_number \<Rightarrow> exchange \<Rightarrow> fetch_error + PublicChatResponse" where
  "fetchPublicChat num now ex = sanitized (sanitizePublicChatResponse num now) (getJSON JSON_REQUEST_TIMEOUT_MS ex)"

definition fetchPublicPropagation :: "(js_double \<Rightarrow> string) \<Rightarrow> js_number \<Rightarrow> exchange \<Rightarrow> fetch_error + PublicPropagationResponse" where
  "fetchPublicPropagation num now ex = sanitized (sanitizePublicPropagationResponse num now) (getJSON JSON_REQUEST_TIMEOUT_MS ex)"

definition fetchPublicViewport :: "(js_double \<Rightarrow> string) \<Rightarrow> js_number \<Rightarrow> exchange \<Rightarrow> fetch_error + PublicViewportResponse" where
  "fetchPublicViewport num now ex = sanitized (sanitizePublicViewportResponse num now) (getJSON JSON_REQUEST_TIMEOUT_MS ex)"

definition fetchPublicHistory :: "exchange \<Rightarrow> fetch_error + js_value" where
  "fetchPublicHistory ex = getJSON PUBLIC_HISTORY_REQUEST_TIMEOUT_MS ex"

definition fetchPublicBootstrap ::
  "(js_double \<Rightarrow> string) \<Rightarrow> (js_value \<Rightarrow> RuntimeHealth) \<Rightarrow> js_number \<Rightarrow> exchange \<Rightarrow> fetch_error + PublicBootstrapResponse" where
  "fetchPublicBootstrap num cast now ex =
     sanitized (sanitizePublicBootstrapResponse num cast now) (getJSON JSON_REQUEST_TIMEOUT_MS ex)"

end
