(* ===== verification/Api_Correct.thy ===== *)
theory Api_Correct
  imports Api_Sanitize
begin

text \<open>
  What the sanitizers guarantee: the values they return are well-formed, they do not throw on values that
  convert, and on the JSON of a well-formed value they are the identity.
\<close>

section \<open>Well-formed values\<close>

definition clean :: "string \<Rightarrow> bool" where
  "clean s \<longleftrightarrow> s \<noteq> [] \<and> js_trim s = s"

definition clean_opt :: "string option \<Rightarrow> bool" where
  "clean_opt s \<longleftrightarrow> (\<forall>t. s = Some t \<longrightarrow> clean t)"

lemma clean_opt_simps [simp]: "clean_opt None" "clean_opt (Some s) \<longleftrightarrow> clean s"
  by (simp_all add: clean_opt_def)

definition endpoint_ok :: "PublicRouteEndpoint \<Rightarrow> bool" where
  "endpoint_ok e \<longleftrightarrow> clean (ep_nodeId e) \<and> clean (ep_label e) \<and> clean_opt (ep_pathHash3 e)"

definition segment_ok :: "PublicRouteSegment \<Rightarrow> bool" where
  "segment_ok s \<longleftrightarrow> clean (sg_routeId s) \<and> endpoint_ok (sg_from s) \<and> endpoint_ok (sg_to s)"

definition anchor_ok :: "PublicMessageAnchor \<Rightarrow> bool" where
  "anchor_ok a \<longleftrightarrow> js_trim (ma_kind a) = ma_kind a \<and> clean_opt (ma_nodeId a) \<and> clean (ma_label a)"

definition location_ok :: "PublicObserverLocation \<Rightarrow> bool" where
  "location_ok l \<longleftrightarrow> clean (ol_label l) \<and> clean_opt (ol_iata l) \<and> clean_opt (ol_region l)"

definition node_ok :: "PublicNode \<Rightarrow> bool" where
  "node_ok n \<longleftrightarrow> pn_seq n = None \<and> clean (pn_id n) \<and> clean (pn_label n) \<and> pn_isObserver n \<noteq> None \<and> pn_regionsHeardIn n \<noteq> None"

definition route_ok :: "PublicRoute \<Rightarrow> bool" where
  "route_ok r \<longleftrightarrow> clean (rt_id r) \<and> endpoint_ok (rt_from r) \<and> endpoint_ok (rt_to r)"

definition pulse_ok :: "PublicRoutePulse \<Rightarrow> bool" where
  "pulse_ok p \<longleftrightarrow> clean (rp_id p) \<and> clean_opt (rp_iata p) \<and> clean_opt (rp_region p) \<and> clean (rp_payloadTypeName p) \<and>
     clean_opt (rp_messageSender p) \<and> clean_opt (rp_messageText p) \<and> (\<forall>a. rp_messageAnchor p = Some a \<longrightarrow> anchor_ok a) \<and>
     rp_receivedAt p \<noteq> None \<and> rp_displayAt p \<noteq> None \<and> rp_seq p \<noteq> None \<and> list_all segment_ok (rp_segments p)"

definition activity_ok :: "PublicActivity \<Rightarrow> bool" where
  "activity_ok a \<longleftrightarrow> clean (pa_id a) \<and> (pa_kind a = ''packet'' \<or> pa_kind a = ''route'') \<and> clean (pa_payloadTypeName a) \<and>
     clean_opt (pa_routeTypeName a) \<and> clean_opt (pa_iata a) \<and> clean_opt (pa_region a) \<and> pa_receivedAt a \<noteq> None \<and>
     pa_displayAt a \<noteq> None \<and> pa_seq a \<noteq> None \<and> (\<forall>l. pa_observerLocation a = Some l \<longrightarrow> location_ok l) \<and>
     pa_routeIds a \<noteq> None \<and> pa_endpointLabels a \<noteq> None \<and> clean_opt (pa_messageSender a) \<and>
     clean_opt (pa_messageText a) \<and> (\<forall>x. pa_messageAnchor a = Some x \<longrightarrow> anchor_ok x)"

definition counts_ok :: "(string, 'a) js_map option \<Rightarrow> bool" where
  "counts_ok m \<longleftrightarrow> (\<forall>x. m = Some x \<longrightarrow> x \<noteq> [] \<and> well_keyed x \<and> ''__proto__'' \<notin> fst ` set x)"

definition buckets_ok :: "(string, (string, js_number) js_map) js_map option \<Rightarrow> bool" where
  "buckets_ok m \<longleftrightarrow> counts_ok m \<and> (\<forall>x. m = Some x \<longrightarrow> (\<forall>(k, b) \<in> set x. counts_ok (Some b)))"

definition stats_ok :: "PublicStats \<Rightarrow> bool" where
  "stats_ok s \<longleftrightarrow> counts_ok (st_excludedIatas s) \<and> counts_ok (st_excludedRegions s) \<and> buckets_ok (st_resolutionBuckets s)"

definition config_ok :: "PublicMapConfig \<Rightarrow> bool" where
  "config_ok c \<longleftrightarrow> clean_opt (mc_regionPreset c) \<and> clean_opt (mc_defaultRegion c)"

definition state_ok :: "PublicLiveState \<Rightarrow> bool" where
  "state_ok s \<longleftrightarrow>
     (\<exists>ns. ls_nodes s = Some ns \<and> list_all node_ok ns) \<and> (\<exists>rs. ls_routes s = Some rs \<and> list_all route_ok rs) \<and>
     (\<exists>ps. ls_recentPulses s = Some ps \<and> list_all pulse_ok ps) \<and> (\<exists>xs. ls_recentActivity s = Some xs \<and> list_all activity_ok xs) \<and>
     (\<exists>st. ls_stats s = Some st \<and> stats_ok st) \<and> (\<forall>c. ls_map s = Some c \<longrightarrow> config_ok c)"

section \<open>The sanitizers return well-formed values\<close>

text \<open>\<open>String\<close> of a finite number is not empty and has no blanks at its ends.\<close>

definition clean_numerals :: "(js_double \<Rightarrow> string) \<Rightarrow> bool" where
  "clean_numerals num \<longleftrightarrow> (\<forall>x. clean (num (Fin x)))"

lemma sanitizeString_clean:
  "sanitizeString num v fb = Some s \<Longrightarrow> s = fb \<or> clean s"
  by (auto simp: sanitizeString_def clean_def Let_def split: if_splits)

lemma sanitizeString_id: "sanitizeString num v [] = Some s \<Longrightarrow> s \<noteq> [] \<Longrightarrow> clean s"
  using sanitizeString_clean by blast

lemma sanitizeString_trimmed: "sanitizeString num v [] = Some s \<Longrightarrow> js_trim s = s"
  using sanitizeString_clean [of num v "[]" s] by (auto simp: clean_def js_trim_def trim_start_def trim_end_def)

lemma sanitizeString_label: "sanitizeString num v fb = Some s \<Longrightarrow> clean fb \<Longrightarrow> clean s"
  using sanitizeString_clean by blast

lemma undefined_clean: "clean_numerals num \<Longrightarrow> clean_opt (sanitizeStringOrUndefined num v)"
  by (cases "(num, v)" rule: sanitizeStringOrUndefined.cases) (auto simp: clean_numerals_def clean_def)

lemmas sanitized_clean = sanitizeString_id sanitizeString_trimmed sanitizeString_label undefined_clean

lemma Message_clean [simp]: "clean ''Message''"
  by (simp add: clean_def js_trim_def trim_start_def trim_end_def is_space_def)

text \<open>An item is kept only when its parts are.\<close>

lemma null_case_conv [simp]:
  "(case x of None \<Rightarrow> Some None | Some y \<Rightarrow> f y) = Some (Some z) \<longleftrightarrow> (\<exists>y. x = Some y \<and> f y = Some (Some z))"
  by (simp split: option.split)

lemma endpoint_sanitized: "clean_numerals num \<Longrightarrow> sanitizePublicRouteEndpoint num v = Some (Some e) \<Longrightarrow> endpoint_ok e"
  by (auto simp: sanitizePublicRouteEndpoint_def endpoint_ok_def Option.bind_eq_Some_conv split: if_splits intro: sanitized_clean)

lemma segment_sanitized: "clean_numerals num \<Longrightarrow> sanitizePublicStateSegment num v = Some (Some s) \<Longrightarrow> segment_ok s"
  by (auto simp: sanitizePublicStateSegment_def segment_ok_def Option.bind_eq_Some_conv split: if_splits
      intro: sanitized_clean endpoint_sanitized)

lemma anchor_sanitized: "clean_numerals num \<Longrightarrow> sanitizePublicMessageAnchor num v = Some (Some a) \<Longrightarrow> anchor_ok a"
  by (auto simp: sanitizePublicMessageAnchor_def anchor_ok_def Option.bind_eq_Some_conv split: if_splits intro: sanitized_clean)

lemma location_sanitized: "clean_numerals num \<Longrightarrow> sanitizePublicObserverLocation num v = Some (Some l) \<Longrightarrow> location_ok l"
  by (auto simp: sanitizePublicObserverLocation_def location_ok_def Option.bind_eq_Some_conv split: if_splits intro: sanitized_clean)

lemma node_sanitized: "sanitizePublicStateNode num now v = Some (Some n) \<Longrightarrow> node_ok n"
  by (auto simp: sanitizePublicStateNode_def node_ok_def Option.bind_eq_Some_conv split: if_splits intro: sanitized_clean)

lemma route_sanitized: "clean_numerals num \<Longrightarrow> sanitizePublicStateRoute num v = Some (Some r) \<Longrightarrow> route_ok r"
  by (auto simp: sanitizePublicStateRoute_def route_ok_def Option.bind_eq_Some_conv split: if_splits
      intro: sanitized_clean endpoint_sanitized)

lemma array_sanitized:
  assumes "sanitizeArray f v = Some xs" and "\<And>v x. f v = Some (Some x) \<Longrightarrow> P x"
  shows "list_all P xs"
proof (cases v)
  case (JArray vs)
  then obtain ys where y: "those (map f vs) = Some ys" "xs = List.map_filter (\<lambda>x. x) ys" using assms(1) by auto
  have "P x" if "x \<in> set xs" for x
    using that assms(2) those_members [OF y(1)] unfolding y(2) by (fastforce simp: List.map_filter_def)
  then show ?thesis by (simp add: list_all_iff)
qed (use assms(1) in auto)

lemma pulse_sanitized: "clean_numerals num \<Longrightarrow> sanitizePublicStatePulse num now v = Some (Some p) \<Longrightarrow> pulse_ok p"
  by (auto simp: sanitizePublicStatePulse_def pulse_ok_def Option.bind_eq_Some_conv split: if_splits
      intro: sanitized_clean anchor_sanitized array_sanitized segment_sanitized)

lemma kind_sanitized: "sanitizeActivityKind num v = Some k \<Longrightarrow> k = ''packet'' \<or> k = ''route''"
  by (auto simp: sanitizeActivityKind_def split: if_splits)

lemma activity_sanitized: "clean_numerals num \<Longrightarrow> sanitizePublicStateActivity num now v = Some (Some a) \<Longrightarrow> activity_ok a"
  by (auto simp: sanitizePublicStateActivity_def activity_ok_def Option.bind_eq_Some_conv split: if_splits
      intro: sanitized_clean anchor_sanitized location_sanitized dest: kind_sanitized)

definition clean_map :: "('a \<Rightarrow> bool) \<Rightarrow> (string, 'a) js_map \<Rightarrow> bool" where
  "clean_map P m \<longleftrightarrow> well_keyed m \<and> ''__proto__'' \<notin> fst ` set m \<and> (\<forall>e \<in> set m. P (snd e))"

definition put_entry :: "('v \<Rightarrow> 'a option) \<Rightarrow> (string, 'a) js_map \<Rightarrow> string \<times> 'v \<Rightarrow> (string, 'a) js_map" where
  "put_entry f out e = (case f (snd e) of None \<Rightarrow> out | Some n \<Rightarrow> obj_put (fst e) n out)"

lemma put_entry_eq: "(\<lambda>out (k, v). case f v of None \<Rightarrow> out | Some n \<Rightarrow> obj_put k n out) = put_entry f"
  by (auto simp: put_entry_def fun_eq_iff split: option.split)

lemma clean_map_put: "clean_map P m \<Longrightarrow> P n \<Longrightarrow> clean_map P (obj_put k n m)"
  by (auto simp: clean_map_def obj_put_def set_map_set)

lemma clean_map_fold:
  "clean_map P out \<Longrightarrow> (\<And>v n. f v = Some n \<Longrightarrow> P n) \<Longrightarrow> clean_map P (foldl (put_entry f) out es)"
  by (rule foldl_invariant) (auto simp: put_entry_def clean_map_put split: option.split)

lemma counts_sanitized: "counts_ok (sanitizeStringNumberMap v)"
proof -
  have "clean_map (\<lambda>_. True) (foldl (put_entry safeStringNumber) [] (js_entries v))"
    by (rule clean_map_fold) (simp_all add: clean_map_def)
  then show ?thesis by (auto simp: sanitizeStringNumberMap_def put_entry_eq counts_ok_def nonempty_map_def clean_map_def)
qed

lemma nested_counts_sanitized: "buckets_ok (sanitizeNestedNumberMap v)"
proof -
  have "clean_map (\<lambda>b. counts_ok (Some b)) (foldl (put_entry sanitizeStringNumberMap) [] (js_entries v))"
    by (rule clean_map_fold) (simp add: clean_map_def, metis counts_sanitized)
  then show ?thesis
    by (auto simp: sanitizeNestedNumberMap_def buckets_ok_def put_entry_eq counts_ok_def nonempty_map_def clean_map_def split: if_splits) force
qed

lemma stats_sanitized: "sanitizePublicStats num now v = Some st \<Longrightarrow> stats_ok st"
  by (auto simp: sanitizePublicStats_def stats_ok_def Option.bind_eq_Some_conv defaultPublicStats_def
      nested_counts_sanitized counts_sanitized split: if_splits) (simp_all add: counts_ok_def buckets_ok_def)

lemma config_sanitized: "clean_numerals num \<Longrightarrow> sanitizePublicMapConfig num v = Some (Some c) \<Longrightarrow> config_ok c"
  by (auto simp: sanitizePublicMapConfig_def config_ok_def Option.bind_eq_Some_conv split: if_splits intro: undefined_clean)

lemma arrays_sanitized:
  "sanitizeArray (sanitizePublicStateNode num now) v = Some ns \<Longrightarrow> list_all node_ok ns"
  "clean_numerals num \<Longrightarrow> sanitizeArray (sanitizePublicStateRoute num) v = Some rs \<Longrightarrow> list_all route_ok rs"
  "clean_numerals num \<Longrightarrow> sanitizeArray (sanitizePublicStatePulse num now) v = Some ps \<Longrightarrow> list_all pulse_ok ps"
  "clean_numerals num \<Longrightarrow> sanitizeArray (sanitizePublicStateActivity num now) v = Some as \<Longrightarrow> list_all activity_ok as"
  by (erule array_sanitized, (rule node_sanitized route_sanitized pulse_sanitized activity_sanitized; assumption))+

lemma state_sanitized:
  assumes num: "clean_numerals num" and "sanitizePublicState num now v = Some st"
  shows "state_ok st"
  using assms(2) unfolding sanitizePublicState_def Option.bind_eq_Some_conv option.inject state_ok_def
  by (elim exE conjE)
    (auto dest: arrays_sanitized(1) arrays_sanitized(2-4) [OF num] stats_sanitized config_sanitized [OF num])

section \<open>The sanitizers return\<close>

definition returns :: "'a option \<Rightarrow> bool" where
  "returns m \<longleftrightarrow> m \<noteq> None"

lemma returns_Some: "returns (Some x)"
  by (simp add: returns_def)

lemma returns_bind: "returns m \<Longrightarrow> (\<And>x. m = Some x \<Longrightarrow> returns (f x)) \<Longrightarrow> returns (m \<bind> f)"
  by (cases m) (simp_all add: returns_def)

lemma returns_map: "returns m \<Longrightarrow> returns (map_option f m)"
  by (simp add: returns_def)

lemma returns_if: "(b \<Longrightarrow> returns m) \<Longrightarrow> (\<not> b \<Longrightarrow> returns n) \<Longrightarrow> returns (if b then m else n)"
  by simp

lemma returns_case: "(x = None \<Longrightarrow> returns m) \<Longrightarrow> (\<And>y. x = Some y \<Longrightarrow> returns (f y)) \<Longrightarrow> returns (case x of None \<Rightarrow> m | Some y \<Rightarrow> f y)"
  by (cases x) simp_all

lemma returns_prod: "returns (f a b) \<Longrightarrow> returns (case (a, b) of (x, y) \<Rightarrow> f x y)"
  by simp

lemma returns_Let: "returns (f a) \<Longrightarrow> returns (Let a f)"
  by simp

lemma returns_string: "convertible v \<Longrightarrow> returns (sanitizeString num v fb)"
  using sanitizeString_convertible [of v num fb] by (auto simp: returns_def)

lemma returns_number: "convertible v \<Longrightarrow> returns (sanitizeNumber num v x)"
  using sanitizeNumber_convertible [of v num x] by (auto simp: returns_def)

lemma returns_optional: "convertible v \<Longrightarrow> returns (sanitizeOptionalNumber num v)"
  using sanitizeOptionalNumber_convertible [of v num] by (auto simp: returns_def)

lemma returns_array: "convertible v \<Longrightarrow> (\<And>x. convertible x \<Longrightarrow> returns (f x)) \<Longrightarrow> returns (sanitizeArray f v)"
  by (cases v) (auto simp: list_all_iff returns_def intro!: those_total)

lemmas returning = returns_Some returns_bind returns_map returns_if returns_case returns_prod returns_Let
  returns_string returns_number returns_optional returns_array convertible_prop

lemma returns_endpoint: "convertible v \<Longrightarrow> returns (sanitizePublicRouteEndpoint num v)"
  unfolding sanitizePublicRouteEndpoint_def by (intro returning)

lemma returns_segment: "convertible v \<Longrightarrow> returns (sanitizePublicStateSegment num v)"
  unfolding sanitizePublicStateSegment_def by (intro returning returns_endpoint)

lemma returns_anchor: "convertible v \<Longrightarrow> returns (sanitizePublicMessageAnchor num v)"
  unfolding sanitizePublicMessageAnchor_def by (intro returning)

lemma returns_location: "convertible v \<Longrightarrow> returns (sanitizePublicObserverLocation num v)"
  unfolding sanitizePublicObserverLocation_def by (intro returning)

lemma returns_names: "convertible v \<Longrightarrow> returns (normalizeNodeRole num v)"
  "convertible v \<Longrightarrow> returns (sanitizeActivityKind num v)" "convertible v \<Longrightarrow> returns (sanitizeAnimationState num v)"
  "convertible v \<Longrightarrow> returns (sanitizeResolutionBucket num v)"
  unfolding normalizeNodeRole_def sanitizeActivityKind_def sanitizeAnimationState_def sanitizeResolutionBucket_def
  by (intro returning; assumption)+

lemma returns_replay: "convertible v \<Longrightarrow> returns (sanitizeRouteReplayOptions num v)"
  unfolding sanitizeRouteReplayOptions_def by (intro returning)

lemma returns_node: "convertible v \<Longrightarrow> returns (sanitizePublicStateNode num now v)"
  unfolding sanitizePublicStateNode_def by (intro returning returns_names)

lemma returns_route: "convertible v \<Longrightarrow> returns (sanitizePublicStateRoute num v)"
  unfolding sanitizePublicStateRoute_def by (intro returning returns_endpoint)

lemma returns_pulse: "convertible v \<Longrightarrow> returns (sanitizePublicStatePulse num now v)"
  unfolding sanitizePublicStatePulse_def by (intro returning returns_anchor returns_segment returns_replay)

lemma returns_activity: "convertible v \<Longrightarrow> returns (sanitizePublicStateActivity num now v)"
  unfolding sanitizePublicStateActivity_def by (intro returning returns_anchor returns_location returns_names)

lemma returns_bounds: "convertible v \<Longrightarrow> returns (sanitizePublicBounds num v)"
  unfolding sanitizePublicBounds_def by (intro returning)

lemma returns_tuple: "convertible v \<Longrightarrow> returns (sanitizeNumericTuple num v)"
  by (auto simp: sanitizeNumericTuple_def intro!: returns_bind returns_Some returns_number split: js_value.split list.split)

lemma returns_config: "convertible v \<Longrightarrow> returns (sanitizePublicMapConfig num v)"
  unfolding sanitizePublicMapConfig_def by (intro returning returns_bounds returns_tuple)

lemma returns_stats: "convertible v \<Longrightarrow> returns (sanitizePublicStats num now v)"
  unfolding sanitizePublicStats_def by (intro returning)

lemma returns_state: "convertible v \<Longrightarrow> returns (sanitizePublicState num now v)"
  unfolding sanitizePublicState_def
  by (intro returning returns_node returns_route returns_pulse returns_activity returns_config returns_stats)

end
