(* ===== verification/Api_Cache.thy ===== *)
theory Api_Cache
  imports Api_Requests Api_Correct
begin

text \<open>
  The copy of the last state in \<open>localStorage\<close> (\<open>web/src/api.ts\<close>): when it is written, when it is read, and that
  reading it gives the state that was written. What \<open>JSON.stringify\<close> and then \<open>JSON.parse\<close> make of a state is
  its value tree, without the properties that are undefined.
\<close>

section \<open>The JSON of a state\<close>

definition json_object :: "(string \<times> js_value) list \<Rightarrow> js_value" where
  "json_object ps = JObject (filter (\<lambda>p. snd p \<noteq> JUndefined) ps)"

definition json_num :: "js_number \<Rightarrow> js_value" where
  "json_num x = JNumber (Fin x)"

definition json_opt :: "('a \<Rightarrow> js_value) \<Rightarrow> 'a option \<Rightarrow> js_value" where
  "json_opt f x = (case x of None \<Rightarrow> JUndefined | Some y \<Rightarrow> f y)"

definition json_list :: "('a \<Rightarrow> js_value) \<Rightarrow> 'a list \<Rightarrow> js_value" where
  "json_list f xs = JArray (map f xs)"

definition json_map :: "('a \<Rightarrow> js_value) \<Rightarrow> (string, 'a) js_map \<Rightarrow> js_value" where
  "json_map f m = JObject (map (\<lambda>(k, v). (k, f v)) m)"

definition json_endpoint :: "PublicRouteEndpoint \<Rightarrow> js_value" where
  "json_endpoint e = json_object [(''nodeId'', JString (ep_nodeId e)), (''label'', JString (ep_label e)),
     (''lat'', json_num (ep_lat e)), (''lng'', json_num (ep_lng e)), (''pathHash3'', json_opt JString (ep_pathHash3 e))]"

definition json_segment :: "PublicRouteSegment \<Rightarrow> js_value" where
  "json_segment s = json_object [(''routeId'', JString (sg_routeId s)), (''from'', json_endpoint (sg_from s)),
     (''to'', json_endpoint (sg_to s)), (''distanceKm'', json_num (sg_distanceKm s))]"

definition json_anchor :: "PublicMessageAnchor \<Rightarrow> js_value" where
  "json_anchor a = json_object [(''kind'', JString (ma_kind a)), (''nodeId'', json_opt JString (ma_nodeId a)),
     (''label'', JString (ma_label a)), (''lat'', json_num (ma_lat a)), (''lng'', json_num (ma_lng a))]"

definition json_location :: "PublicObserverLocation \<Rightarrow> js_value" where
  "json_location l = json_object [(''label'', JString (ol_label l)), (''iata'', json_opt JString (ol_iata l)),
     (''region'', json_opt JString (ol_region l)), (''lat'', json_num (ol_lat l)), (''lng'', json_num (ol_lng l))]"

fun style_text :: "PacketAnimationStyle \<Rightarrow> string" where
  "style_text Comet = ''comet''"
| "style_text Pulse = ''pulse''"
| "style_text Minimal = ''minimal''"

definition json_replay :: "ReplayOptions \<Rightarrow> js_value" where
  "json_replay r = json_object [(''force'', json_opt JBool (ro_force r)),
     (''travelDurationMs'', json_opt json_num (ro_travelDurationMs r)), (''brightness'', json_opt json_num (ro_brightness r)),
     (''trailScale'', json_opt json_num (ro_trailScale r)),
     (''animationStyle'', json_opt (\<lambda>s. JString (style_text s)) (ro_animationStyle r))]"

definition json_node :: "PublicNode \<Rightarrow> js_value" where
  "json_node n = json_object [(''id'', JString (pn_id n)), (''label'', JString (pn_label n)),
     (''role'', JString (role_name (pn_role n))), (''isObserver'', json_opt JBool (pn_isObserver n)),
     (''latitude'', json_num (pn_latitude n)), (''longitude'', json_num (pn_longitude n)),
     (''lastSeen'', json_num (pn_lastSeen n)), (''firstSeen'', json_num (pn_firstSeen n)),
     (''iatasHeardIn'', json_list JString (pn_iatasHeardIn n)),
     (''regionsHeardIn'', json_opt (json_list JString) (pn_regionsHeardIn n)),
     (''activityCount'', json_num (pn_activityCount n)), (''seq'', json_opt json_num (pn_seq n))]"

definition json_route :: "PublicRoute \<Rightarrow> js_value" where
  "json_route r = json_object [(''id'', JString (rt_id r)), (''from'', json_endpoint (rt_from r)),
     (''to'', json_endpoint (rt_to r)), (''distanceKm'', json_num (rt_distanceKm r)),
     (''packetCount'', json_num (rt_packetCount r)), (''lastHeard'', json_num (rt_lastHeard r)),
     (''frequencyBucket'', json_num (rt_frequencyBucket r)),
     (''payloadTypeNames'', json_list JString (rt_payloadTypeNames r))]"

definition json_pulse :: "PublicRoutePulse \<Rightarrow> js_value" where
  "json_pulse p = json_object [(''id'', JString (rp_id p)), (''iata'', json_opt JString (rp_iata p)),
     (''region'', json_opt JString (rp_region p)), (''payloadTypeName'', JString (rp_payloadTypeName p)),
     (''messageSender'', json_opt JString (rp_messageSender p)), (''messageText'', json_opt JString (rp_messageText p)),
     (''messageAnchor'', json_opt json_anchor (rp_messageAnchor p)), (''heardAt'', json_num (rp_heardAt p)),
     (''receivedAt'', json_opt json_num (rp_receivedAt p)), (''displayAt'', json_opt json_num (rp_displayAt p)),
     (''seq'', json_opt json_num (rp_seq p)), (''segments'', json_list json_segment (rp_segments p)),
     (''replayOptions'', json_opt json_replay (rp_replayOptions p))]"

fun animation_text :: "PublicAnimationState \<Rightarrow> string" where
  "animation_text AnimRoute = ''route''"
| "animation_text AnimObserver = ''observer''"
| "animation_text AnimUnmapped = ''unmapped''"

fun bucket_text :: "PublicResolutionBucket \<Rightarrow> string" where
  "bucket_text Routed = ''routed''"
| "bucket_text ObserverOnly = ''observer_only''"
| "bucket_text UnresolvedPath = ''unresolved_path''"
| "bucket_text MissingLocation = ''missing_location''"
| "bucket_text RfGated = ''rf_gated''"
| "bucket_text DistanceGated = ''distance_gated''"
| "bucket_text NotMapSafe = ''not_map_safe''"

definition json_activity :: "PublicActivity \<Rightarrow> js_value" where
  "json_activity a = json_object [(''id'', JString (pa_id a)), (''kind'', JString (pa_kind a)),
     (''payloadTypeName'', JString (pa_payloadTypeName a)), (''routeTypeName'', json_opt JString (pa_routeTypeName a)),
     (''iata'', json_opt JString (pa_iata a)), (''region'', json_opt JString (pa_region a)),
     (''heardAt'', json_num (pa_heardAt a)), (''receivedAt'', json_opt json_num (pa_receivedAt a)),
     (''displayAt'', json_opt json_num (pa_displayAt a)), (''seq'', json_opt json_num (pa_seq a)),
     (''hopCount'', json_num (pa_hopCount a)), (''hasRoute'', JBool (pa_hasRoute a)),
     (''animationState'', JString (animation_text (pa_animationState a))),
     (''resolutionBucket'', JString (bucket_text (pa_resolutionBucket a))),
     (''observerLocation'', json_opt json_location (pa_observerLocation a)),
     (''routeIds'', json_opt (json_list JString) (pa_routeIds a)),
     (''endpointLabels'', json_opt (json_list JString) (pa_endpointLabels a)),
     (''messageSender'', json_opt JString (pa_messageSender a)), (''messageText'', json_opt JString (pa_messageText a)),
     (''messageAnchor'', json_opt json_anchor (pa_messageAnchor a))]"

definition json_bounds :: "MapBounds \<Rightarrow> js_value" where
  "json_bounds b = json_object [(''minLat'', json_num (mb_minLat b)), (''maxLat'', json_num (mb_maxLat b)),
     (''minLng'', json_num (mb_minLng b)), (''maxLng'', json_num (mb_maxLng b))]"

definition json_config :: "PublicMapConfig \<Rightarrow> js_value" where
  "json_config c = json_object [(''regionPreset'', json_opt JString (mc_regionPreset c)),
     (''defaultRegion'', json_opt JString (mc_defaultRegion c)),
     (''defaultCenter'', json_opt (\<lambda>(a, b). JArray [json_num a, json_num b]) (mc_defaultCenter c)),
     (''defaultZoom'', json_opt json_num (mc_defaultZoom c)), (''bounds'', json_opt json_bounds (mc_bounds c))]"

definition json_stats :: "PublicStats \<Rightarrow> js_value" where
  "json_stats s = json_object [(''packets'', json_num (st_packets s)), (''activeNodes'', json_num (st_activeNodes s)),
     (''activeRoutes'', json_num (st_activeRoutes s)), (''mqttConnected'', JBool (st_mqttConnected s)),
     (''mqttMessages'', json_num (st_mqttMessages s)), (''wsClients'', json_num (st_wsClients s)),
     (''serverTime'', json_num (st_serverTime s)), (''latestSeq'', json_opt json_num (st_latestSeq s)),
     (''resolutionBuckets'', json_opt (json_map (json_map json_num)) (st_resolutionBuckets s)),
     (''excludedIatas'', json_opt (json_map json_num) (st_excludedIatas s)),
     (''excludedRegions'', json_opt (json_map json_num) (st_excludedRegions s))]"

definition json_state :: "PublicLiveState \<Rightarrow> js_value" where
  "json_state s = json_object [(''serverTime'', json_num (ls_serverTime s)), (''map'', json_opt json_config (ls_map s)),
     (''nodes'', json_opt (json_list json_node) (ls_nodes s)), (''routes'', json_opt (json_list json_route) (ls_routes s)),
     (''recentPulses'', json_opt (json_list json_pulse) (ls_recentPulses s)),
     (''recentActivity'', json_opt (json_list json_activity) (ls_recentActivity s)),
     (''stats'', json_opt json_stats (ls_stats s))]"

section \<open>Sanitizing the JSON of a well-formed value\<close>

lemma map_of_absent: "\<forall>x \<in> set ps. k \<noteq> fst x \<Longrightarrow> map_of ps k = None"
  by (induction ps) auto

lemma json_object_get: "distinct (map fst ps) \<Longrightarrow> get_prop (json_object ps) k = or_else (map_of ps k) JUndefined"
  unfolding json_object_def
  by (induction ps) (auto simp: map_of_absent image_iff)

lemma isRecord_json [simp]: "isRecord (json_object ps)" "isRecord (json_map f m)" "isRecord (json_list f xs)"
  by (simp_all add: json_object_def json_map_def json_list_def)

lemma sanitize_clean [simp]:
  "clean s \<Longrightarrow> sanitizeString num (JString s) fb = Some s"
  "js_trim s = s \<Longrightarrow> sanitizeString num (JString s) [] = Some s"
  by (auto simp: sanitizeString_def clean_def coalesce_def nullish_def Let_def)

lemma sanitize_num [simp]: "sanitizeNumber num (json_num x) fb = Some x" "sanitizeOptionalNumber num (json_num x) = Some (Some x)"
  by (simp_all add: sanitizeNumber_def sanitizeOptionalNumber_def json_num_def)

lemma sanitize_opt_num [simp]: "sanitizeOptionalNumber num (json_opt json_num x) = Some x"
  by (cases x) (simp_all add: json_opt_def, simp add: sanitizeOptionalNumber_def)

lemma sanitize_some_num [simp]: "x \<noteq> None \<Longrightarrow> sanitizeNumber num (json_opt json_num x) fb = Some (the x)"
  by (auto simp: json_opt_def)

lemma sanitize_opt_string [simp]: "clean_opt x \<Longrightarrow> sanitizeStringOrUndefined num (json_opt JString x) = x"
  by (cases x) (auto simp: json_opt_def clean_def)

lemma sanitize_strings [simp]: "safeStringList num (json_list JString xs) = xs"
  by (simp add: json_list_def List.map_filter_def comp_def)

lemma sanitize_opt_strings [simp]: "x \<noteq> None \<Longrightarrow> safeStringList num (json_opt (json_list JString) x) = the x"
  by (auto simp: json_opt_def)

lemma sanitize_list [simp]:
  "(\<And>x. x \<in> set xs \<Longrightarrow> f (g x) = Some (Some x)) \<Longrightarrow> sanitizeArray f (json_list g xs) = Some xs"
  by (induction xs) (auto simp: json_list_def List.map_filter_def)

lemma isTrue_json [simp]: "isTrue (JBool b) = b" "x \<noteq> None \<Longrightarrow> isTrue (json_opt JBool x) = the x"
  by (auto simp: isTrue_def json_opt_def)

lemma bool_json [simp]: "bool_or_undefined (json_opt JBool x) = x"
  by (cases x) (simp_all add: json_opt_def)

lemma clean_nonempty: "clean s \<Longrightarrow> s \<noteq> []"
  by (simp add: clean_def)

lemma endpoint_back [simp]: "endpoint_ok e \<Longrightarrow> sanitizePublicRouteEndpoint num (json_endpoint e) = Some (Some e)"
  by (simp add: sanitizePublicRouteEndpoint_def json_endpoint_def json_object_get endpoint_ok_def clean_nonempty)

lemma segment_back [simp]: "segment_ok s \<Longrightarrow> sanitizePublicStateSegment num (json_segment s) = Some (Some s)"
  by (simp add: sanitizePublicStateSegment_def json_segment_def json_object_get segment_ok_def clean_nonempty)

lemma anchor_back [simp]: "anchor_ok a \<Longrightarrow> sanitizePublicMessageAnchor num (json_anchor a) = Some (Some a)"
  by (simp add: sanitizePublicMessageAnchor_def json_anchor_def json_object_get anchor_ok_def clean_nonempty)

lemma location_back [simp]: "location_ok l \<Longrightarrow> sanitizePublicObserverLocation num (json_location l) = Some (Some l)"
  by (simp add: sanitizePublicObserverLocation_def json_location_def json_object_get location_ok_def clean_nonempty)

lemma anchors_back [simp]:
  "(\<forall>a. x = Some a \<longrightarrow> anchor_ok a) \<Longrightarrow> sanitizePublicMessageAnchor num (json_opt json_anchor x) = Some x"
  by (cases x) (simp_all add: json_opt_def, simp add: sanitizePublicMessageAnchor_def)

lemma locations_back [simp]:
  "(\<forall>l. x = Some l \<longrightarrow> location_ok l) \<Longrightarrow> sanitizePublicObserverLocation num (json_opt json_location x) = Some x"
  by (cases x) (simp_all add: json_opt_def, simp add: sanitizePublicObserverLocation_def)

lemma keyword_clean [simp]: "clean (role_name r)" "clean (style_text t)" "clean (animation_text a)" "clean (bucket_text b)"
proof -
  note trim = clean_def js_trim_def trim_start_def trim_end_def is_space_def
  show "clean (role_name r)" by (cases r) (simp_all add: trim)
  show "clean (style_text t)" by (cases t) (simp_all add: trim)
  show "clean (animation_text a)" by (cases a) (simp_all add: trim)
  show "clean (bucket_text b)" by (cases b) (simp_all add: trim)
qed

lemma role_back [simp]: "normalizeNodeRole num (JString (role_name r)) = Some r"
  by (simp add: normalizeNodeRole_def) (cases r; simp add: js_lower_def lower_char_def)

lemma kind_back [simp]: "k = ''packet'' \<or> k = ''route'' \<Longrightarrow> sanitizeActivityKind num (JString k) = Some k"
  by (auto simp: sanitizeActivityKind_def sanitizeString_def coalesce_def nullish_def js_trim_def trim_start_def trim_end_def is_space_def)

lemma animation_back [simp]: "sanitizeAnimationState num (JString (animation_text a)) = Some a"
  by (simp add: sanitizeAnimationState_def) (cases a; simp add: PublicAnimationState_of_def)

lemma bucket_back [simp]: "sanitizeResolutionBucket num (JString (bucket_text b)) = Some b"
  by (simp add: sanitizeResolutionBucket_def) (cases b; simp)

lemma replay_back [simp]: "sanitizeRouteReplayOptions num (json_opt json_replay x) = Some x"
proof (cases x)
  case None
  then show ?thesis by (simp add: json_opt_def sanitizeRouteReplayOptions_def)
next
  case (Some r)
  have "sanitizeString num (json_opt (\<lambda>s. JString (style_text s)) t) [] = Some (case t of None \<Rightarrow> [] | Some s \<Rightarrow> style_text s)" for t
    by (cases t) (simp_all add: json_opt_def, simp add: sanitizeString_def coalesce_def nullish_def js_trim_Nil)
  moreover have "animationStyle_of (case t of None \<Rightarrow> [] | Some s \<Rightarrow> style_text s) = t" for t
    by (cases t; cases "the t") (simp_all add: animationStyle_of_def)
  ultimately show ?thesis
    using Some by (simp add: json_opt_def [of json_replay] sanitizeRouteReplayOptions_def json_replay_def json_object_get)
qed

lemma node_back: "node_ok n \<Longrightarrow> sanitizePublicStateNode num now (json_node n) = Some (Some n)"
  by (auto simp: sanitizePublicStateNode_def json_node_def json_object_get node_ok_def clean_nonempty)

lemma route_back: "route_ok r \<Longrightarrow> sanitizePublicStateRoute num (json_route r) = Some (Some r)"
  by (simp add: sanitizePublicStateRoute_def json_route_def json_object_get route_ok_def clean_nonempty)

lemma pulse_back: "pulse_ok p \<Longrightarrow> sanitizePublicStatePulse num now (json_pulse p) = Some (Some p)"
  by (auto simp: sanitizePublicStatePulse_def json_pulse_def json_object_get pulse_ok_def clean_nonempty list_all_iff)

lemma activity_back: "activity_ok a \<Longrightarrow> sanitizePublicStateActivity num now (json_activity a) = Some (Some a)"
  by (auto simp: sanitizePublicStateActivity_def json_activity_def json_object_get activity_ok_def clean_nonempty)

lemma fold_entries_back:
  assumes "\<forall>(k, v) \<in> set m. f (g v) = Some v" and "distinct (map fst (out @ m))" and "''__proto__'' \<notin> fst ` set m"
  shows "foldl (put_entry f) out (map (\<lambda>(k, v). (k, g v)) m) = out @ m"
  using assms
proof (induction m arbitrary: out)
  case (Cons e m)
  obtain k v where e: "e = (k, v)" by fastforce
  have "put_entry f out (k, g v) = out @ [(k, v)]"
    using Cons.prems by (auto simp: e put_entry_def obj_put_def map_set_new map_has_def image_iff)
  then show ?case using Cons.IH [of "out @ [(k, v)]"] Cons.prems by (auto simp: e)
qed simp

lemma counts_back [simp]: "counts_ok m \<Longrightarrow> sanitizeStringNumberMap (json_opt (json_map json_num) m) = m"
  using fold_entries_back [of "the m" safeStringNumber json_num "[]"]
  by (cases m) (auto simp: json_opt_def sanitizeStringNumberMap_def put_entry_eq counts_ok_def well_keyed_def nonempty_map_def
      json_num_def, auto simp: json_map_def json_num_def)

lemma buckets_back [simp]: "buckets_ok m \<Longrightarrow> sanitizeNestedNumberMap (json_opt (json_map (json_map json_num)) m) = m"
proof (cases m)
  case (Some x)
  assume m: "buckets_ok m"
  have "sanitizeStringNumberMap (json_map json_num b) = Some b" if "counts_ok (Some b)" for b
    using counts_back [OF that] by (simp add: json_opt_def)
  then have "foldl (put_entry sanitizeStringNumberMap) [] (map (\<lambda>(k, v). (k, json_map json_num v)) x) = [] @ x"
    using m Some by (intro fold_entries_back) (auto simp: buckets_ok_def counts_ok_def well_keyed_def)
  then show ?thesis using m Some
    by (simp add: json_opt_def sanitizeNestedNumberMap_def put_entry_eq nonempty_map_def buckets_ok_def counts_ok_def json_map_def)
qed (simp add: json_opt_def sanitizeNestedNumberMap_def)

lemma stats_back: "stats_ok s \<Longrightarrow> sanitizePublicStats num now (json_stats s) = Some s"
  by (simp add: sanitizePublicStats_def json_stats_def json_object_get stats_ok_def)

lemma bounds_back [simp]: "sanitizePublicBounds num (json_opt json_bounds x) = Some x"
  by (cases x) (simp_all add: json_opt_def sanitizePublicBounds_def json_bounds_def json_object_get)

lemma center_back [simp]: "sanitizeNumericTuple num (json_opt (\<lambda>(a, b). JArray [json_num a, json_num b]) x) = Some x"
  by (cases x) (auto simp: json_opt_def sanitizeNumericTuple_def)

lemma config_back [simp]:
  "(\<forall>c. x = Some c \<longrightarrow> config_ok c) \<Longrightarrow> sanitizePublicMapConfig num (json_opt json_config x) = Some x"
  by (cases x) (simp_all add: json_opt_def [of json_config] sanitizePublicMapConfig_def json_config_def json_object_get config_ok_def)

lemma state_back: "state_ok s \<Longrightarrow> sanitizePublicState num now (json_state s) = Some s"
  by (auto simp: sanitizePublicState_def json_state_def json_object_get state_ok_def json_opt_def [of "json_list _"]
      json_opt_def [of json_stats] stats_back node_back route_back pulse_back activity_back list_all_iff)

section \<open>The cache\<close>

text \<open>
  The module variables and the item of \<open>localStorage\<close>, as a parsed value (\<open>JUndefined\<close> when there is none). A
  write that is pending holds the state it was called with.
\<close>

record PublicStateCache =
  sc_pending :: "PublicLiveState option"
  sc_lastWriteAt :: js_number
  sc_stored :: js_value

definition emptyCache :: PublicStateCache where
  "emptyCache = \<lparr>sc_pending = None, sc_lastWriteAt = 0, sc_stored = JUndefined\<rparr>"

definition cachePublicStateSnapshot :: "js_number \<Rightarrow> PublicLiveState \<Rightarrow> PublicStateCache \<Rightarrow> PublicStateCache" where
  "cachePublicStateSnapshot now state c =
     (if sc_pending c \<noteq> None \<or> now - sc_lastWriteAt c < PUBLIC_STATE_CACHE_WRITE_INTERVAL_MS then c
      else c\<lparr>sc_pending := Some state\<rparr>)"

text \<open>The idle callback; \<open>stored\<close> tells whether \<open>setItem\<close> accepts the item.\<close>

definition writeSnapshot :: "js_number \<Rightarrow> bool \<Rightarrow> PublicStateCache \<Rightarrow> PublicStateCache" where
  "writeSnapshot now stored c =
     (case sc_pending c of None \<Rightarrow> c
      | Some state \<Rightarrow>
          if stored then \<lparr>sc_pending = None, sc_lastWriteAt = now,
            sc_stored = json_object [(''cachedAt'', json_num now), (''state'', json_state state)]\<rparr>
          else c\<lparr>sc_pending := None\<rparr>)"

datatype PublicStateSource = FromNetwork | FromOfflineCache

record PublicStateFetchResult =
  fr_state :: PublicLiveState
  fr_source :: PublicStateSource
  fr_cachedAt :: "js_number option"

text \<open>An exception while the item is read is caught, and reads as no item.\<close>

definition readCachedPublicStateSnapshot ::
  "(js_double \<Rightarrow> string) \<Rightarrow> js_number \<Rightarrow> js_value \<Rightarrow> PublicStateFetchResult option" where
  "readCachedPublicStateSnapshot num now stored =
     (if nullish stored then None
      else do {
        cachedAt \<leftarrow> sanitizeNumber num (get_prop stored ''cachedAt'') 0;
        if cachedAt \<le> 0 \<or> now - cachedAt < 0 \<or> now - cachedAt > PUBLIC_STATE_CACHE_MAX_AGE_MS then None
        else do {
          state \<leftarrow> sanitizePublicState num now (get_prop stored ''state'');
          Some \<lparr>fr_state = state, fr_source = FromOfflineCache, fr_cachedAt = Some cachedAt\<rparr> } })"

definition fetchPublicState ::
  "(js_double \<Rightarrow> string) \<Rightarrow> js_number \<Rightarrow> exchange \<Rightarrow> PublicStateCache \<Rightarrow> (fetch_error + PublicLiveState) \<times> PublicStateCache" where
  "fetchPublicState num now ex c =
     (case sanitized (sanitizePublicState num now) (getJSON JSON_REQUEST_TIMEOUT_MS ex) of
        Inl e \<Rightarrow> (Inl e, c)
      | Inr state \<Rightarrow> (Inr state, cachePublicStateSnapshot now state c))"

definition fetchPublicStateWithFallback ::
  "(js_double \<Rightarrow> string) \<Rightarrow> js_number \<Rightarrow> exchange \<Rightarrow> bool \<Rightarrow> PublicStateCache
    \<Rightarrow> (fetch_error + PublicStateFetchResult) \<times> PublicStateCache" where
  "fetchPublicStateWithFallback num now ex aborted c =
     (case fetchPublicState num now ex c of
        (Inr state, c') \<Rightarrow> (Inr \<lparr>fr_state = state, fr_source = FromNetwork, fr_cachedAt = None\<rparr>, c')
      | (Inl e, c') \<Rightarrow>
          if aborted then (Inl e, c')
          else case readCachedPublicStateSnapshot num now (sc_stored c') of
              Some cached \<Rightarrow> (Inr cached, c')
            | None \<Rightarrow> (Inl e, c'))"

end
