(* ===== verification/Api_Properties.thy ===== *)
theory Api_Properties
  imports Api_Cache
begin

text \<open>
  The properties of \<open>web/src/api.ts\<close>: the type of a sanitized state, the start from the cached state, the rate of
  its writes, and the values on which the sanitizers throw.
\<close>

section \<open>\<open>String\<close> of a number, for the witnesses\<close>

definition integer_num :: "js_double \<Rightarrow> string" where
  "integer_num d = (case d of Fin x \<Rightarrow> show_int \<lfloor>x\<rfloor> | PosInf \<Rightarrow> ''Infinity'' | NegInf \<Rightarrow> ''-Infinity'' | NotANumber \<Rightarrow> ''NaN'')"

lemma no_space_trim: "list_all (\<lambda>c. \<not> is_space c) s \<Longrightarrow> js_trim s = s"
proof -
  have d: "dropWhile is_space t = t" if "list_all (\<lambda>c. \<not> is_space c) t" for t
    using that by (cases t) simp_all
  assume "list_all (\<lambda>c. \<not> is_space c) s"
  then show ?thesis by (simp add: js_trim_def trim_start_def trim_end_def d)
qed

lemma digit_no_space: "is_digit 10 c \<Longrightarrow> \<not> is_space c"
  by (auto simp: is_digit_def digit_val_def is_space_def Let_def split: option.splits if_splits)

lemma show_nat_no_space: "list_all (\<lambda>c. \<not> is_space c) (show_nat n)"
  using show_nat_digits [of n] by (auto simp: list_all_iff dest: digit_no_space)

lemma integer_num_clean: "clean_numerals integer_num"
proof -
  have "list_all (\<lambda>c. \<not> is_space c) (show_int k) \<and> show_int k \<noteq> []" for k
    using show_nat_no_space by (simp add: show_int_def is_space_def)
  then show ?thesis by (simp add: clean_numerals_def integer_num_def clean_def no_space_trim)
qed

section \<open>Types\<close>

text \<open>
  C18. Whatever JSON the state endpoint answers with, as long as none of its objects has a property of its own
  called \<open>toString\<close>, the sanitizer returns a state, and the state has the declared type: every id, label and
  name is non-empty and without surrounding blanks, the kinds and roles are among those declared, the
  optional numbers and lists that later code relies on are present, and the counts have no inherited keys.
\<close>

theorem sanitized_state_type:
  assumes "clean_numerals num" and "convertible response"
  shows "\<exists>state. sanitizePublicState num now response = Some state \<and> state_ok state"
proof -
  obtain state where "sanitizePublicState num now response = Some state"
    using returns_state [OF assms(2)] by (auto simp: returns_def)
  with state_sanitized [OF assms(1)] show ?thesis by blast
qed

definition odd_response :: js_value where
  "odd_response = JObject [(''nodes'', JArray [JNull, JNumber (Fin 3), JObject [(''id'', JNumber (Fin 9)), (''lastSeen'', JNull)]]),
     (''routes'', JString ''none''), (''stats'', JArray [])]"

theorem sanitized_state_type_witness:
  "\<exists>state. sanitizePublicState integer_num 5 odd_response = Some state \<and> state_ok state"
  by (rule sanitized_state_type [OF integer_num_clean]) (simp add: odd_response_def)

section \<open>The cached state\<close>

text \<open>
  C19. A state that was fetched from the network and cached at time \<open>t\<close> is what the client starts with when a
  later fetch fails within five minutes without being aborted: the whole state comes back unchanged, marked as
  offline and with the time it was cached; after five minutes the error of the network is reported.
\<close>

theorem offline_start_restores_state:
  assumes "clean_numerals num" and "PUBLIC_STATE_CACHE_WRITE_INTERVAL_MS \<le> t0" and "0 < t" and "t \<le> now"
    and fetched: "fetchPublicState num t0 ex emptyCache = (Inr state, c)"
    and failed: "getJSON JSON_REQUEST_TIMEOUT_MS ex' = Inl e"
  shows "fst (fetchPublicStateWithFallback num now ex' False (writeSnapshot t True c)) =
    (if now \<le> t + PUBLIC_STATE_CACHE_MAX_AGE_MS
     then Inr \<lparr>fr_state = state, fr_source = FromOfflineCache, fr_cachedAt = Some t\<rparr> else Inl e)"
proof -
  have c: "c = emptyCache\<lparr>sc_pending := Some state\<rparr>" and "\<exists>v. sanitizePublicState num t0 v = Some state"
    using fetched assms(2)
    by (auto simp: fetchPublicState_def sanitized_def cachePublicStateSnapshot_def emptyCache_def split: sum.splits option.splits)
  then have restored: "sanitizePublicState num now (json_state state) = Some state"
    using state_back state_sanitized [OF assms(1)] by blast
  have "fetchPublicState num now ex' d = (Inl e, d)" for d
    by (simp add: fetchPublicState_def sanitized_def failed)
  moreover have "readCachedPublicStateSnapshot num now (sc_stored (writeSnapshot t True c)) =
      (if now \<le> t + PUBLIC_STATE_CACHE_MAX_AGE_MS
       then Some \<lparr>fr_state = state, fr_source = FromOfflineCache, fr_cachedAt = Some t\<rparr> else None)"
    using assms(3,4) restored
    by (simp add: c emptyCache_def writeSnapshot_def readCachedPublicStateSnapshot_def nullish_def json_object_get, simp add: json_object_def)
  ultimately show ?thesis by (simp add: fetchPublicStateWithFallback_def)
qed

definition ok_exchange :: "js_value \<Rightarrow> exchange" where
  "ok_exchange v = \<lparr>ex_settled = 20, ex_transport = Responds 200 (Some v), ex_abortedAt = None\<rparr>"

definition failed_exchange :: exchange where
  "failed_exchange = \<lparr>ex_settled = 20, ex_transport = Fails, ex_abortedAt = None\<rparr>"

theorem offline_start_restores_state_witness:
  "\<exists>state c. fetchPublicState integer_num 100000 (ok_exchange odd_response) emptyCache = (Inr state, c) \<and>
     fst (fetchPublicStateWithFallback integer_num 200000 failed_exchange False (writeSnapshot 100001 True c)) =
       Inr \<lparr>fr_state = state, fr_source = FromOfflineCache, fr_cachedAt = Some 100001\<rparr>"
proof -
  have "getJSON JSON_REQUEST_TIMEOUT_MS (ok_exchange odd_response) = Inr odd_response"
    by (simp add: getJSON_def withRequestTimeout_def ok_exchange_def JSON_REQUEST_TIMEOUT_MS_def)
  moreover obtain state where "sanitizePublicState integer_num 100000 odd_response = Some state"
    using returns_state [of odd_response integer_num 100000] by (auto simp: odd_response_def returns_def)
  ultimately obtain c where f: "fetchPublicState integer_num 100000 (ok_exchange odd_response) emptyCache = (Inr state, c)"
    by (simp add: fetchPublicState_def sanitized_def)
  have "getJSON JSON_REQUEST_TIMEOUT_MS failed_exchange = Inl NetworkError"
    by (simp add: getJSON_def withRequestTimeout_def failed_exchange_def JSON_REQUEST_TIMEOUT_MS_def)
  from offline_start_restores_state [OF integer_num_clean _ _ _ f this, of 100001 200000] f show ?thesis
    by (simp add: PUBLIC_STATE_CACHE_WRITE_INTERVAL_MS_def PUBLIC_STATE_CACHE_MAX_AGE_MS_def)
qed

section \<open>How often the cache is written\<close>

datatype cache_call = Fetched PublicLiveState | IdleCallback bool

fun cache_step :: "PublicStateCache \<Rightarrow> js_number \<times> cache_call \<Rightarrow> PublicStateCache" where
  "cache_step c (now, Fetched state) = cachePublicStateSnapshot now state c"
| "cache_step c (now, IdleCallback stored) = writeSnapshot now stored c"

definition writes :: "PublicStateCache \<Rightarrow> js_number \<times> cache_call \<Rightarrow> bool" where
  "writes c call \<longleftrightarrow> sc_pending c \<noteq> None \<and> snd call = IdleCallback True"

lemma cache_run_lastWrite:
  assumes "sorted (map fst calls)" and "\<forall>x \<in> set calls. fst x \<le> now"
  defines "c \<equiv> foldl cache_step emptyCache calls"
  shows "sc_pending c \<noteq> None \<longrightarrow> sc_lastWriteAt c + PUBLIC_STATE_CACHE_WRITE_INTERVAL_MS \<le> now"
  using assms(1,2) unfolding c_def
proof (induction calls arbitrary: now rule: rev_induct)
  case (snoc x calls)
  obtain t call where x: "x = (t, call)" by fastforce
  have t: "t \<le> now" "sorted (map fst calls)" "\<forall>y \<in> set calls. fst y \<le> t"
    using snoc.prems by (auto simp: x sorted_append)
  show ?case
    using snoc.IH [OF t(2,3)] t(1)
    by (cases call) (auto simp: x cachePublicStateSnapshot_def writeSnapshot_def split: option.split)
qed (simp add: emptyCache_def)

lemma cache_writes_apart:
  assumes "sorted (map fst (calls @ [call]))" and "writes (foldl cache_step emptyCache calls) call"
  shows "sc_lastWriteAt (foldl cache_step emptyCache calls) + PUBLIC_STATE_CACHE_WRITE_INTERVAL_MS \<le> fst call"
  using cache_run_lastWrite [of calls "fst call"] assms by (auto simp: writes_def sorted_append)

section \<open>Values on which the sanitizers throw\<close>

text \<open>
  An object with a property of its own called \<open>toString\<close> in place of the id of one node makes the sanitizer
  of the whole response throw, so that the fetch is rejected and every other item of the response is lost,
  where every other malformed item is dropped on its own.
\<close>

lemma one_id_rejects_the_response:
  assumes "map_of response ''nodes'' = Some (JArray xs)" and "JObject node \<in> set xs"
    and "map_of node ''id'' = Some (JObject ps)" and "map_of ps ''toString'' \<noteq> None"
    and "getJSON JSON_REQUEST_TIMEOUT_MS ex = Inr (JObject response)"
  shows "fetchPublicState num now ex c = (Inl SanitizeError, c)"
proof -
  have "sanitizePublicStateNode num now (JObject node) = None"
    using assms(3,4) by (auto simp: sanitizePublicStateNode_def sanitizeString_def coalesce_def nullish_def)
  then have "those (map (sanitizePublicStateNode num now) xs) = None"
    using assms(2) by (induction xs) (auto split: option.split)
  then show ?thesis
    using assms(1,5) by (simp add: fetchPublicState_def sanitized_def sanitizePublicState_def)
qed

lemma one_id_rejects_the_response_witness:
  "let good = JObject [(''id'', JString ''n1'')]; bad = JObject [(''id'', JObject [(''toString'', JNumber (Fin 1))])]
   in fetchPublicState integer_num 5 (ok_exchange (JObject [(''nodes'', JArray [good, bad])])) emptyCache = (Inl SanitizeError, emptyCache)"
  unfolding Let_def
  by (rule one_id_rejects_the_response [where response = "[(''nodes'', JArray [JObject [(''id'', JString ''n1'')],
          JObject [(''id'', JObject [(''toString'', JNumber (Fin 1))])]])]"
        and xs = "[JObject [(''id'', JString ''n1'')], JObject [(''id'', JObject [(''toString'', JNumber (Fin 1))])]]" and ps = "[(''toString'', JNumber (Fin 1))]"
        and node = "[(''id'', JObject [(''toString'', JNumber (Fin 1))])]"])
    (simp_all add: getJSON_def withRequestTimeout_def ok_exchange_def JSON_REQUEST_TIMEOUT_MS_def)

text \<open>The fallback of a number stands for a missing value, but not for the JSON value of a missing one.\<close>

lemma null_number_is_zero:
  "sanitizeNumber num JNull fallback = Some 0" "sanitizeOptionalNumber num JNull = Some (Some 0)"
  "sanitizeNumber num JUndefined fallback = Some fallback" "sanitizeOptionalNumber num JUndefined = Some None"
  by (simp_all add: sanitizeNumber_def sanitizeOptionalNumber_def)

text \<open>An empty region hides the airport code it should fall back to, and the request is not filtered.\<close>

lemma empty_region_hides_iata:
  assumes "kp_region p = Some []" and "kp_iata p = Some (c # cs)"
  shows "map_get (packetsParams p) ''region'' = Some []"
  using assms
  by (auto simp: packetsParams_def set_region_def set_str_def set_true_def or_opt_def split: option.split)

end
