(* ===== verification/Service_Worker.thy ===== *)
theory Service_Worker
  imports Api_Properties
begin

text \<open>
  The service worker (\<open>web/public/sw.js\<close>): its caches, its events and its answers to the fetches of the page. The
  network and the quota of the storage are inputs: a fetch gives a response or rejects (\<open>None\<close>), a \<open>put\<close> is accepted
  or rejects.
\<close>

section \<open>Requests, responses and caches\<close>

record SwRequest =
  sr_method :: string
  sr_origin :: string
  sr_pathname :: string
  sr_search :: string
  sr_navigate :: bool

record SwResponse =
  sw_status :: nat
  sw_text :: string

text \<open>Only requests to the origin of the worker are cached, so the path and the query identify them.\<close>

type_synonym sw_key = "string \<times> string"
type_synonym sw_cache = "(sw_key, SwResponse) js_map"
type_synonym sw_caches = "(string, sw_cache) js_map"

definition request_key :: "SwRequest \<Rightarrow> sw_key" where
  "request_key r = (sr_pathname r, sr_search r)"

definition response_ok :: "SwResponse \<Rightarrow> bool" where
  "response_ok r \<longleftrightarrow> 200 \<le> sw_status r \<and> sw_status r < 300"

definition offlineResponse :: SwResponse where
  "offlineResponse = \<lparr>sw_status = 503, sw_text = ''Offline''\<rparr>"

text \<open>\<open>cache.put\<close> replaces an entry and puts it last; \<open>caches.match\<close> searches the caches in the order of their creation.\<close>

definition cache_put :: "sw_key \<Rightarrow> SwResponse \<Rightarrow> sw_cache \<Rightarrow> sw_cache" where
  "cache_put k r c = map_del k c @ [(k, r)]"

definition open_cache :: "string \<Rightarrow> sw_caches \<Rightarrow> sw_cache" where
  "open_cache name caches = or_else (map_get caches name) []"

fun caches_match :: "sw_caches \<Rightarrow> sw_key \<Rightarrow> SwResponse option" where
  "caches_match [] k = None"
| "caches_match ((name, c) # caches) k = or_opt (map_get c k) (caches_match caches k)"

section \<open>Names\<close>

definition is_release_char :: "char \<Rightarrow> bool" where
  "is_release_char c = (let n = of_char c :: nat in
     48 \<le> n \<and> n \<le> 57 \<or> 65 \<le> n \<and> n \<le> 90 \<or> 97 \<le> n \<and> n \<le> 122 \<or> c \<in> {CHR ''.'', CHR ''_'', CHR ''-''})"

definition release_id :: "string option \<Rightarrow> string option \<Rightarrow> string" where
  "release_id version sha =
     (let named = (\<lambda>x. if or_else x [] = [] then ''dev'' else the x)
      in map (\<lambda>c. if is_release_char c then c else CHR ''-'') (named version @ ''-'' @ named sha))"

definition CACHE_PREFIX :: string where "CACHE_PREFIX = ''mc-cartolive''"
definition SNAPSHOT_URL :: string where "SNAPSHOT_URL = ''/api/v1/public/state''"
definition RUNTIME_CACHE_LIMIT :: nat where "RUNTIME_CACHE_LIMIT = 72"
definition APP_SHELL_URLS :: "sw_key list" where "APP_SHELL_URLS = [(''/'', []), (''/index.html'', [])]"

definition SHELL_CACHE :: "string \<Rightarrow> string" where "SHELL_CACHE release = CACHE_PREFIX @ ''-shell-'' @ release"
definition RUNTIME_CACHE :: "string \<Rightarrow> string" where "RUNTIME_CACHE release = CACHE_PREFIX @ ''-runtime-'' @ release"
definition SNAPSHOT_CACHE :: "string \<Rightarrow> string" where "SNAPSHOT_CACHE release = CACHE_PREFIX @ ''-snapshot-'' @ release"

section \<open>Installing and activating\<close>

text \<open>\<open>cache.addAll\<close>: all requests must succeed, or nothing is stored and the installation fails.\<close>

definition sw_install :: "string \<Rightarrow> (sw_key \<Rightarrow> SwResponse option) \<Rightarrow> sw_caches \<Rightarrow> sw_caches option" where
  "sw_install release network caches =
     (if list_all (\<lambda>k. case network k of None \<Rightarrow> False | Some r \<Rightarrow> response_ok r) APP_SHELL_URLS
      then Some (map_set (SHELL_CACHE release)
        (foldl (\<lambda>c k. cache_put k (the (network k)) c) (open_cache (SHELL_CACHE release) caches) APP_SHELL_URLS) caches)
      else None)"

definition sw_activate :: "string \<Rightarrow> sw_caches \<Rightarrow> sw_caches" where
  "sw_activate release caches =
     filter (\<lambda>(name, c). \<not> (starts_with name CACHE_PREFIX \<and> name \<notin> {SHELL_CACHE release, RUNTIME_CACHE release, SNAPSHOT_CACHE release})) caches"

section \<open>Fetches\<close>

definition shouldBypassCache :: "string \<Rightarrow> SwRequest \<Rightarrow> bool" where
  "shouldBypassCache origin r \<longleftrightarrow>
     sr_method r \<noteq> ''GET'' \<or> sr_origin r \<noteq> origin \<or> (sr_search r \<noteq> [] \<and> \<not> sr_navigate r) \<or>
     (starts_with (sr_pathname r) ''/api/'' \<and> sr_pathname r \<noteq> SNAPSHOT_URL) \<or>
     sr_pathname r \<in> {''/healthz'', ''/readyz'', ''/metrics''} \<or> starts_with (sr_pathname r) ''/ws''"

text \<open>What \<open>putBounded\<close> deletes once it has the keys of the cache.\<close>

definition overflow_keys :: "sw_cache \<Rightarrow> sw_key list" where
  "overflow_keys c = take (length c - RUNTIME_CACHE_LIMIT) (map_keys c)"

text \<open>Whether it resolves, and the caches; the cache is created by \<open>caches.open\<close> even when the \<open>put\<close> rejects.\<close>

definition putBounded :: "string \<Rightarrow> string \<Rightarrow> sw_key \<Rightarrow> SwResponse \<Rightarrow> bool \<Rightarrow> sw_caches \<Rightarrow> bool \<times> sw_caches" where
  "putBounded release name k r stored caches =
     (let c = open_cache name caches
      in if \<not> stored then (False, map_set name c caches)
         else let c1 = cache_put k r c;
                  c2 = (if name \<noteq> RUNTIME_CACHE release then c1 else foldl (\<lambda>c k. map_del k c) c1 (overflow_keys c1))
              in (True, map_set name c2 caches))"

definition cacheFirst :: "string \<Rightarrow> SwRequest \<Rightarrow> string \<Rightarrow> SwResponse option \<Rightarrow> bool \<Rightarrow> sw_caches \<Rightarrow> SwResponse \<times> sw_caches" where
  "cacheFirst release request name network stored caches =
     (case caches_match caches (request_key request) of Some cached \<Rightarrow> (cached, caches)
      | None \<Rightarrow> case network of None \<Rightarrow> (offlineResponse, caches)
        | Some response \<Rightarrow>
            if \<not> response_ok response then (response, caches)
            else case putBounded release name (request_key request) response stored caches of (resolved, caches') \<Rightarrow>
              (if resolved then response else offlineResponse, caches'))"

definition offline_answer :: "SwRequest \<Rightarrow> sw_key option \<Rightarrow> sw_caches \<Rightarrow> SwResponse" where
  "offline_answer request fallbackURL caches =
     or_else (or_opt (caches_match caches (request_key request))
       (case fallbackURL of None \<Rightarrow> None | Some k \<Rightarrow> caches_match caches k)) offlineResponse"

definition networkFirst ::
  "string \<Rightarrow> SwRequest \<Rightarrow> string \<Rightarrow> sw_key option \<Rightarrow> SwResponse option \<Rightarrow> bool \<Rightarrow> sw_caches \<Rightarrow> SwResponse \<times> sw_caches" where
  "networkFirst release request name fallbackURL network stored caches =
     (case network of None \<Rightarrow> (offline_answer request fallbackURL caches, caches)
      | Some response \<Rightarrow>
          if \<not> response_ok response then (response, caches)
          else case putBounded release name (request_key request) response stored caches of (resolved, caches') \<Rightarrow>
            (if resolved then response else offline_answer request fallbackURL caches', caches'))"

text \<open>The answer to the page, \<open>None\<close> when its fetch rejects.\<close>

definition sw_fetch ::
  "string \<Rightarrow> string \<Rightarrow> SwRequest \<Rightarrow> SwResponse option \<Rightarrow> bool \<Rightarrow> sw_caches \<Rightarrow> SwResponse option \<times> sw_caches" where
  "sw_fetch release origin request network stored caches =
     (if shouldBypassCache origin request then (network, caches)
      else apfst Some
        (if sr_pathname request = SNAPSHOT_URL then networkFirst release request (SNAPSHOT_CACHE release) None network stored caches
         else if sr_navigate request
           then networkFirst release request (SHELL_CACHE release) (Some (''/index.html'', [])) network stored caches
         else cacheFirst release request (RUNTIME_CACHE release) network stored caches))"

section \<open>Offline\<close>

lemma caches_match_SomeI:
  "(name, c) \<in> set caches \<Longrightarrow> map_get c k \<noteq> None \<Longrightarrow> caches_match caches k \<noteq> None"
  by (induction caches k rule: caches_match.induct) (auto simp: or_opt_def split: option.splits)

lemma cache_put_get [simp]: "map_get (cache_put k r c) j = (if j = k then Some r else map_get c j)"
  by (auto simp: cache_put_def map_add_def split: option.splits)

lemma cache_names [simp]:
  "SHELL_CACHE release \<noteq> RUNTIME_CACHE release" "SHELL_CACHE release \<noteq> SNAPSHOT_CACHE release"
  "RUNTIME_CACHE release \<noteq> SNAPSHOT_CACHE release" "RUNTIME_CACHE release \<noteq> SHELL_CACHE release"
  "SNAPSHOT_CACHE release \<noteq> SHELL_CACHE release" "SNAPSHOT_CACHE release \<noteq> RUNTIME_CACHE release"
  by (simp_all add: SHELL_CACHE_def RUNTIME_CACHE_def SNAPSHOT_CACHE_def)

text \<open>
  The invariant of an installed worker: a cache occurs once, every stored response is a good one, and the shell cache of
  the release holds the page.
\<close>

definition all_good :: "sw_cache \<Rightarrow> bool" where
  "all_good c \<longleftrightarrow> (\<forall>(k, r) \<in> set c. response_ok r)"

definition sw_ok :: "string \<Rightarrow> sw_caches \<Rightarrow> bool" where
  "sw_ok release caches \<longleftrightarrow> well_keyed caches \<and> (\<forall>(name, c) \<in> set caches. all_good c) \<and>
     map_get (open_cache (SHELL_CACHE release) caches) (''/index.html'', []) \<noteq> None"

lemma all_good_put: "all_good c \<Longrightarrow> response_ok r \<Longrightarrow> all_good (cache_put k r c)"
  by (auto simp: all_good_def cache_put_def map_del_def)

lemma all_good_trim: "all_good c \<Longrightarrow> all_good (foldl (\<lambda>c k. map_del k c) c ks)"
  by (rule foldl_invariant [where P = all_good]) (auto simp: all_good_def map_del_def)

lemma all_good_open: "\<forall>(name, c) \<in> set caches. all_good c \<Longrightarrow> all_good (open_cache name caches)"
  by (cases "map_get caches name") (auto simp: open_cache_def all_good_def [of "[]"] dest: map_of_SomeD)

lemma good_set:
  assumes "well_keyed caches" "\<forall>(name, c) \<in> set caches. all_good c" "all_good c"
  shows "well_keyed (map_set name c caches) \<and> (\<forall>(name, c) \<in> set (map_set name c caches). all_good c)"
  using assms by (auto simp: set_map_set)

lemma set_ok:
  assumes "sw_ok release caches" "all_good c"
    and "name = SHELL_CACHE release \<Longrightarrow> map_get c (''/index.html'', []) \<noteq> None"
  shows "sw_ok release (map_set name c caches)"
  using assms good_set [of caches c name] unfolding sw_ok_def by (auto simp: open_cache_def)

lemma put_ok:
  assumes "sw_ok release caches" "response_ok r"
  shows "sw_ok release (snd (putBounded release name k r stored caches))"
proof -
  have good: "all_good (open_cache name caches)" using assms(1) by (auto simp: sw_ok_def intro: all_good_open)
  have shell: "name = SHELL_CACHE release \<Longrightarrow> map_get (open_cache name caches) (''/index.html'', []) \<noteq> None"
    using assms(1) by (auto simp: sw_ok_def)
  show ?thesis
    using good all_good_put [OF good assms(2), of k] shell
    by (auto simp: putBounded_def Let_def intro!: set_ok [OF assms(1)] all_good_trim)
qed

lemma networkFirst_ok:
  assumes "sw_ok release caches"
  shows "sw_ok release (snd (networkFirst release request name fallback network stored caches))"
  using put_ok [OF assms] by (auto simp: networkFirst_def assms case_prod_beta split: option.split)

lemma cacheFirst_ok:
  assumes "sw_ok release caches"
  shows "sw_ok release (snd (cacheFirst release request name network stored caches))"
  using put_ok [OF assms] by (auto simp: cacheFirst_def assms case_prod_beta split: option.split)

lemma fetch_ok:
  assumes "sw_ok release caches"
  shows "sw_ok release (snd (sw_fetch release origin request network stored caches))"
  by (simp add: sw_fetch_def assms networkFirst_ok cacheFirst_ok)

lemma map_get_filter_key: "map_get (filter (\<lambda>(k, v). P k) m) k = (if P k then map_get m k else None)"
  by (induction m) auto

lemma activate_ok: "sw_ok release caches \<Longrightarrow> sw_ok release (sw_activate release caches)"
  by (auto simp: sw_ok_def sw_activate_def open_cache_def map_get_filter_key well_keyed_def distinct_map_filter
      dest: distinct_map_filter)

lemma install_ok:
  assumes "sw_install release network [] = Some caches"
  shows "sw_ok release caches"
  using assms
  by (auto simp: sw_install_def APP_SHELL_URLS_def sw_ok_def open_cache_def map_set_def all_good_def cache_put_def map_del_def well_keyed_def
      split: if_splits option.splits)

text \<open>What happens to a worker after its installation; a fetch comes with what the network and the storage do.\<close>

datatype sw_event = FetchEvent SwRequest "SwResponse option" bool | ActivateEvent

fun sw_step :: "string \<Rightarrow> string \<Rightarrow> sw_caches \<Rightarrow> sw_event \<Rightarrow> sw_caches" where
  "sw_step release origin caches (FetchEvent request network stored) = snd (sw_fetch release origin request network stored caches)"
| "sw_step release origin caches ActivateEvent = sw_activate release caches"

lemma steps_ok: "sw_ok release caches \<Longrightarrow> sw_ok release (foldl (sw_step release origin) caches events)"
proof (rule foldl_invariant [where P = "sw_ok release"])
  fix caches e
  assume "sw_ok release caches"
  then show "sw_ok release (sw_step release origin caches e)" by (cases e) (simp_all add: fetch_ok activate_ok)
qed

lemma match_good: "sw_ok release caches \<Longrightarrow> caches_match caches k = Some r \<Longrightarrow> response_ok r"
proof -
  have "caches_match caches k = Some r \<Longrightarrow> \<exists>(name, c) \<in> set caches. map_get c k = Some r" for caches
    by (induction caches) (auto simp: or_opt_def split: option.splits)
  then show "sw_ok release caches \<Longrightarrow> caches_match caches k = Some r \<Longrightarrow> response_ok r"
    by (fastforce simp: sw_ok_def all_good_def dest: map_of_SomeD)
qed

text \<open>
  C28. An installed client starts offline: whatever was fetched, stored or refused in between, a navigation that the
  worker answers gets a good page when the network is gone, never the error response.
\<close>

theorem offline_navigation_served:
  assumes "sw_install release installed [] = Some caches"
    and "\<not> shouldBypassCache origin request" and "sr_navigate request" and "sr_pathname request \<noteq> SNAPSHOT_URL"
  shows "case fst (sw_fetch release origin request None stored (foldl (sw_step release origin) caches events)) of
    None \<Rightarrow> False | Some r \<Rightarrow> response_ok r"
proof -
  let ?c = "foldl (sw_step release origin) caches events"
  have ok: "sw_ok release ?c" by (rule steps_ok [OF install_ok [OF assms(1)]])
  obtain c where "map_get ?c (SHELL_CACHE release) = Some c" "map_get c (''/index.html'', []) \<noteq> None"
    using ok by (cases "map_get ?c (SHELL_CACHE release)") (auto simp: sw_ok_def open_cache_def)
  then obtain page where page: "caches_match ?c (''/index.html'', []) = Some page"
    using caches_match_SomeI [OF map_of_SomeD] by blast
  show ?thesis using assms(2-4) match_good [OF ok page] match_good [OF ok]
    by (auto simp: sw_fetch_def networkFirst_def offline_answer_def page or_opt_def split: option.splits)
qed

definition page_request :: SwRequest where
  "page_request = \<lparr>sr_method = ''GET'', sr_origin = ''https://map'', sr_pathname = ''/'', sr_search = ''?lat=45'', sr_navigate = True\<rparr>"

theorem offline_navigation_served_witness:
  "case sw_install ''1'' (\<lambda>k. Some \<lparr>sw_status = 200, sw_text = ''page''\<rparr>) [] of None \<Rightarrow> False
   | Some caches \<Rightarrow> (case fst (sw_fetch ''1'' ''https://map'' page_request None True
        (foldl (sw_step ''1'' ''https://map'') caches [FetchEvent page_request (Some \<lparr>sw_status = 500, sw_text = []\<rparr>) True, ActivateEvent])) of
          None \<Rightarrow> False | Some r \<Rightarrow> response_ok r)"
proof -
  obtain caches where c: "sw_install ''1'' (\<lambda>k. Some \<lparr>sw_status = 200, sw_text = ''page''\<rparr>) [] = Some caches"
    by (simp add: sw_install_def APP_SHELL_URLS_def response_ok_def)
  have "\<not> shouldBypassCache ''https://map'' page_request"
    by (simp add: shouldBypassCache_def page_request_def)
  moreover have "sr_navigate page_request" "sr_pathname page_request \<noteq> SNAPSHOT_URL"
    by (simp_all add: page_request_def SNAPSHOT_URL_def)
  ultimately show ?thesis unfolding c option.case by (rule offline_navigation_served [OF c])
qed

section \<open>The size of the runtime cache\<close>

text \<open>
  The answers are asynchronous: between the \<open>put\<close> of a response and the deletions it leads to, other requests put theirs.
  A run has the requests that have put and not yet read the keys, and the deletions that are under way.
\<close>

record RuntimeRun =
  rr_cache :: sw_cache
  rr_waiting :: nat
  rr_deleting :: "sw_key list"

datatype runtime_event = PutEvent sw_key SwResponse | KeysEvent | DeleteEvent nat

fun runtime_step :: "RuntimeRun \<Rightarrow> runtime_event \<Rightarrow> RuntimeRun" where
  "runtime_step s (PutEvent k r) = s\<lparr>rr_cache := cache_put k r (rr_cache s), rr_waiting := Suc (rr_waiting s)\<rparr>"
| "runtime_step s KeysEvent =
     (case rr_waiting s of 0 \<Rightarrow> s
      | Suc n \<Rightarrow> s\<lparr>rr_waiting := n, rr_deleting := rr_deleting s @ overflow_keys (rr_cache s)\<rparr>)"
| "runtime_step s (DeleteEvent i) =
     (if i < length (rr_deleting s)
      then s\<lparr>rr_cache := map_del (rr_deleting s ! i) (rr_cache s), rr_deleting := take i (rr_deleting s) @ drop (Suc i) (rr_deleting s)\<rparr>
      else s)"

definition emptyRuntime :: RuntimeRun where
  "emptyRuntime = \<lparr>rr_cache = [], rr_waiting = 0, rr_deleting = []\<rparr>"

text \<open>The entries that no deletion is under way for are within the limit, but for the requests that have not read the keys.\<close>

definition kept_keys :: "RuntimeRun \<Rightarrow> sw_key set" where
  "kept_keys s = set (map_keys (rr_cache s)) - set (rr_deleting s)"

definition runtime_ok :: "RuntimeRun \<Rightarrow> bool" where
  "runtime_ok s \<longleftrightarrow> well_keyed (rr_cache s) \<and> card (kept_keys s) \<le> RUNTIME_CACHE_LIMIT + rr_waiting s"

lemma keys_cache_put: "set (map_keys (cache_put k r c)) = insert k (set (map_keys c))"
  by (auto simp: cache_put_def map_del_def)

lemma well_keyed_put [simp]: "well_keyed c \<Longrightarrow> well_keyed (cache_put k r c)"
  by (auto simp: cache_put_def well_keyed_def map_del_def distinct_map_filter)

lemma kept_keys_after:
  assumes "well_keyed c"
  shows "card (set (map_keys c) - (D \<union> set (overflow_keys c))) \<le> RUNTIME_CACHE_LIMIT"
proof -
  have "set (map_keys c) - set (overflow_keys c) \<subseteq> set (drop (length c - RUNTIME_CACHE_LIMIT) (map_keys c))"
    unfolding overflow_keys_def by (metis Diff_subset_conv append_take_drop_id set_append subset_refl)
  then have "card (set (map_keys c) - (D \<union> set (overflow_keys c))) \<le> card (set (drop (length c - RUNTIME_CACHE_LIMIT) (map_keys c)))"
    by (intro card_mono) auto
  also have "\<dots> \<le> length (drop (length c - RUNTIME_CACHE_LIMIT) (map_keys c))" by (rule card_length)
  finally show ?thesis by simp
qed

lemma runtime_step_ok: "runtime_ok s \<Longrightarrow> runtime_ok (runtime_step s e)"
proof (cases e)
  case (PutEvent k r)
  assume ok: "runtime_ok s"
  have "kept_keys (runtime_step s e) \<subseteq> insert k (kept_keys s)"
    using keys_cache_put [of k r "rr_cache s"] unfolding PutEvent kept_keys_def by auto
  then have "card (kept_keys (runtime_step s e)) \<le> card (insert k (kept_keys s))" by (intro card_mono) (auto simp: kept_keys_def)
  then show ?thesis using ok card_insert_le_m1 [of _ "kept_keys s" k] 
    by (auto simp: runtime_ok_def PutEvent kept_keys_def card_insert_if split: if_splits)
next
  case KeysEvent
  assume "runtime_ok s"
  then show ?thesis
    using kept_keys_after [of "rr_cache s" "set (rr_deleting s)"]
    by (cases "rr_waiting s") (auto simp: KeysEvent runtime_ok_def kept_keys_def)
next
  case (DeleteEvent i)
  assume ok: "runtime_ok s"
  show ?thesis
  proof (cases "i < length (rr_deleting s)")
    case True
    have "set (rr_deleting s) \<subseteq> insert (rr_deleting s ! i) (set (take i (rr_deleting s) @ drop (Suc i) (rr_deleting s)))"
      by (metis True append_Cons id_take_nth_drop insert_is_Un list.simps(15) set_append subset_refl sup_left_commute)
    then have "kept_keys (runtime_step s e) \<subseteq> kept_keys s" using True keys_map_del [of "rr_deleting s ! i" "rr_cache s"] unfolding DeleteEvent kept_keys_def by auto
    then have "card (kept_keys (runtime_step s e)) \<le> card (kept_keys s)" by (intro card_mono) (auto simp: kept_keys_def)
    then show ?thesis using ok True by (auto simp: runtime_ok_def DeleteEvent)
  qed (use ok in \<open>simp add: DeleteEvent\<close>)
qed

text \<open>
  C29. The runtime cache is bounded under every interleaving of the requests that fill it: it never has more entries than
  72, one more for each request between its put and its look at the keys, and the deletions under way; when all have
  settled it has at most 72.
\<close>

theorem runtime_cache_bounded:
  "case foldl runtime_step emptyRuntime events of s \<Rightarrow>
     length (rr_cache s) \<le> RUNTIME_CACHE_LIMIT + rr_waiting s + length (rr_deleting s)"
proof -
  define s where "s = foldl runtime_step emptyRuntime events"
  have "runtime_ok s" unfolding s_def
    by (rule foldl_invariant [where P = runtime_ok]) (auto simp: runtime_step_ok, simp add: runtime_ok_def emptyRuntime_def kept_keys_def)
  then have "card (set (map_keys (rr_cache s))) = length (rr_cache s)" and "card (kept_keys s) \<le> RUNTIME_CACHE_LIMIT + rr_waiting s"
    using distinct_card [of "map_keys (rr_cache s)"] by (simp_all add: runtime_ok_def well_keyed_def del: set_map)
  moreover have "card (set (map_keys (rr_cache s))) \<le> card (kept_keys s \<union> set (rr_deleting s))"
    by (intro card_mono) (auto simp: kept_keys_def)
  moreover have "\<dots> \<le> card (kept_keys s) + length (rr_deleting s)"
    using card_Un_le [of "kept_keys s" "set (rr_deleting s)"] card_length [of "rr_deleting s"] by linarith
  ultimately show ?thesis by (simp add: s_def)
qed

section \<open>The state of the server\<close>

lemma match_after_set: "caches_match caches k = None \<Longrightarrow> caches_match (map_set name c caches) k = map_get c k"
  by (induction caches) (auto simp: map_set_def or_opt_def split: option.splits if_splits)

definition state_request :: "string \<Rightarrow> SwRequest" where
  "state_request origin = \<lparr>sr_method = ''GET'', sr_origin = origin, sr_pathname = SNAPSHOT_URL, sr_search = [], sr_navigate = False\<rparr>"

text \<open>
  What the client's request for the state becomes when the worker answers it after \<open>settled\<close> milliseconds; \<open>parse\<close> is
  \<open>JSON.parse\<close>.
\<close>

definition worker_exchange ::
  "(string \<Rightarrow> js_value option) \<Rightarrow> string \<Rightarrow> string \<Rightarrow> SwResponse option \<Rightarrow> bool \<Rightarrow> js_number \<Rightarrow> sw_caches \<Rightarrow> exchange" where
  "worker_exchange parse release origin network stored settled caches =
     \<lparr>ex_settled = settled,
      ex_transport = (case fst (sw_fetch release origin (state_request origin) network stored caches) of
        None \<Rightarrow> Fails | Some r \<Rightarrow> Responds (sw_status r) (parse (sw_text r))),
      ex_abortedAt = None\<rparr>"

lemma state_not_bypassed [simp]: "\<not> shouldBypassCache origin (state_request origin)"
  by (simp add: shouldBypassCache_def state_request_def SNAPSHOT_URL_def)

lemma state_key [simp]: "request_key (state_request origin) = (SNAPSHOT_URL, [])"
  by (simp add: request_key_def state_request_def)

lemma state_fetch: "sw_fetch release origin (state_request origin) network stored caches =
    apfst Some (networkFirst release (state_request origin) (SNAPSHOT_CACHE release) None network stored caches)"
  by (simp add: sw_fetch_def, simp add: state_request_def)



text \<open>
  When the storage refuses a response (its quota is used up), the worker drops the response that it has and answers as if
  the client were offline.
\<close>

lemma full_storage_hides_response:
  assumes "\<not> shouldBypassCache origin request" and "sr_pathname request \<noteq> SNAPSHOT_URL" and "\<not> sr_navigate request"
    and "caches_match caches (request_key request) = None" and "response_ok response"
  shows "fst (sw_fetch release origin request (Some response) False caches) = Some offlineResponse"
  using assms by (simp add: sw_fetch_def cacheFirst_def putBounded_def Let_def)

text \<open>
  Only the runtime cache is trimmed: every navigation with a query of its own, such as a shared view, leaves another copy
  of the page in the shell cache.
\<close>

lemma shell_cache_grows:
  assumes "\<not> shouldBypassCache origin request" and "sr_navigate request" and "sr_pathname request \<noteq> SNAPSHOT_URL"
    and "response_ok r" and "request_key request \<notin> set (map_keys (open_cache (SHELL_CACHE release) caches))"
  shows "length (open_cache (SHELL_CACHE release) (snd (sw_fetch release origin request (Some r) True caches))) =
    Suc (length (open_cache (SHELL_CACHE release) caches))"
proof -
  let ?c = "open_cache (SHELL_CACHE release) caches"
  have "map_del (request_key request) ?c = ?c" using assms(5) by (force simp: map_del_def filter_id_conv)
  then have "length (cache_put (request_key request) r ?c) = Suc (length ?c)" by (simp add: cache_put_def)
  then show ?thesis using assms(1-4)
    by (simp add: sw_fetch_def networkFirst_def putBounded_def Let_def open_cache_def)
qed

end
