(* ===== verification/Worker_Updates.thy ===== *)
theory Worker_Updates
  imports Service_Worker
begin

text \<open>
  The page's side of the service worker (\<open>serviceWorker.ts\<close>) and the recovery of a panel whose code does not load
  (\<open>lazyWithReload.ts\<close>). The variables of the module, the session storage, the caches and the reloads of a session are one
  record; the calls and the events of the browser are steps.
\<close>

section \<open>State\<close>

text \<open>
  The session storage may be missing, or throw when it is touched, or be read but refuse to be written (a full quota);
  otherwise it holds the keys that were set.
\<close>

datatype SessionStorage = NoStorage | BlockedStorage | FullStorage "string list" | StorageItems "string list"

record SwClient =
  cl_version :: string
  cl_sha :: string
  cl_pendingWaitingWorker :: "nat option"
  cl_activationRequested :: bool
  cl_listening :: bool \<comment> \<open>\<open>controllerListenerTarget\<close> is the container\<close>
  cl_timers :: nat \<comment> \<open>timeouts of activations that have not fired\<close>
  cl_updateEvents :: nat
  cl_messages :: "nat list" \<comment> \<open>the workers that were told to activate\<close>
  cl_storage :: SessionStorage
  cl_caches :: sw_caches
  cl_reloads :: "string list" \<comment> \<open>the keys of the reloads of the session\<close>

definition LEGACY_CACHE_PREFIX :: string where "LEGACY_CACHE_PREFIX = ''mc-cartolive''"

definition SW_CLEANUP_RELOAD_KEY :: "SwClient \<Rightarrow> string" where
  "SW_CLEANUP_RELOAD_KEY s = ''mc-cartolive-sw-cleanup-reload-'' @ cl_version s"

definition short_sha :: "string \<Rightarrow> string" where
  "short_sha sha = (if take 12 sha = [] then ''dev'' else take 12 sha)"

definition SW_ACTIVATION_RELOAD_KEY :: "SwClient \<Rightarrow> string" where
  "SW_ACTIVATION_RELOAD_KEY s = ''mc-cartolive-sw-activation-'' @ cl_version s @ ''-'' @ short_sha (cl_sha s)"

definition lazy_key :: "string \<Rightarrow> SwClient \<Rightarrow> string" where
  "lazy_key name s = ''mc-cartolive-lazy-reload-'' @ name @ ''-'' @ cl_version s"

section \<open>Operations\<close>

definition reloadOnce :: "string \<Rightarrow> SwClient \<Rightarrow> bool \<times> SwClient" where
  "reloadOnce key s =
     (case cl_storage s of
        StorageItems items \<Rightarrow>
          if key \<in> set items then (False, s)
          else (True, s\<lparr>cl_storage := StorageItems (items @ [key]), cl_reloads := cl_reloads s @ [key]\<rparr>)
      | FullStorage items \<Rightarrow> if key \<in> set items then (False, s) else (True, s\<lparr>cl_reloads := cl_reloads s @ [key]\<rparr>)
      | _ \<Rightarrow> (True, s\<lparr>cl_reloads := cl_reloads s @ [key]\<rparr>))"

definition notifyUpdateReady :: "nat \<Rightarrow> SwClient \<Rightarrow> SwClient" where
  "notifyUpdateReady worker s = s\<lparr>cl_pendingWaitingWorker := Some worker, cl_updateEvents := cl_updateEvents s + 1\<rparr>"

definition waitingServiceWorkerUpdateAvailable :: "SwClient \<Rightarrow> bool" where
  "waitingServiceWorkerUpdateAvailable s \<longleftrightarrow> cl_pendingWaitingWorker s \<noteq> None"

text \<open>The registration resolved, with a worker that waits or none; then the state changes of a worker being installed.\<close>

definition watchForServiceWorkerUpdate :: "nat option \<Rightarrow> bool \<Rightarrow> SwClient \<Rightarrow> SwClient" where
  "watchForServiceWorkerUpdate waiting controlled s =
     (case waiting of Some worker \<Rightarrow> if controlled then notifyUpdateReady worker s else s | None \<Rightarrow> s)"

definition workerStateChanged :: "nat \<Rightarrow> bool \<Rightarrow> nat option \<Rightarrow> bool \<Rightarrow> SwClient \<Rightarrow> SwClient" where
  "workerStateChanged worker installed waiting controlled s =
     (if \<not> installed \<or> \<not> controlled then s else notifyUpdateReady (or_else waiting worker) s)"

text \<open>\<open>registration?.waiting ?? pendingWaitingWorker\<close>; \<open>posted\<close> tells whether \<open>postMessage\<close> returns.\<close>

definition activateWaitingServiceWorker :: "nat option \<Rightarrow> bool \<Rightarrow> SwClient \<Rightarrow> bool \<times> SwClient" where
  "activateWaitingServiceWorker waiting posted s =
     (case or_opt waiting (cl_pendingWaitingWorker s) of None \<Rightarrow> (False, s)
      | Some worker \<Rightarrow>
          if posted
          then (True, s\<lparr>cl_pendingWaitingWorker := Some worker, cl_activationRequested := True,
                 cl_messages := cl_messages s @ [worker], cl_timers := cl_timers s + 1\<rparr>)
          else (False, s\<lparr>cl_pendingWaitingWorker := None, cl_activationRequested := False\<rparr>))"

definition finishActivation :: "SwClient \<Rightarrow> SwClient" where
  "finishActivation s =
     (if \<not> cl_activationRequested s then s
      else snd (reloadOnce (SW_ACTIVATION_RELOAD_KEY s) (s\<lparr>cl_activationRequested := False, cl_pendingWaitingWorker := None\<rparr>)))"

definition activationTimerFires :: "SwClient \<Rightarrow> SwClient" where
  "activationTimerFires s = (if cl_timers s = 0 then s else finishActivation (s\<lparr>cl_timers := cl_timers s - 1\<rparr>))"

definition bindExplicitActivationReload :: "SwClient \<Rightarrow> SwClient" where
  "bindExplicitActivationReload s = s\<lparr>cl_listening := True\<rparr>"

definition controllerChanged :: "SwClient \<Rightarrow> SwClient" where
  "controllerChanged s = (if cl_listening s then finishActivation s else s)"

definition clearLegacyCaches :: "SwClient \<Rightarrow> string list \<times> SwClient" where
  "clearLegacyCaches s =
     (filter (\<lambda>name. starts_with name LEGACY_CACHE_PREFIX) (map_keys (cl_caches s)),
      s\<lparr>cl_caches := filter (\<lambda>(name, c). \<not> starts_with name LEGACY_CACHE_PREFIX) (cl_caches s)\<rparr>)"

definition cleanupLegacyServiceWorkers :: "bool \<Rightarrow> SwClient \<Rightarrow> SwClient" where
  "cleanupLegacyServiceWorkers controlled s =
     (let s1 = snd (clearLegacyCaches s) in if controlled then snd (reloadOnce (SW_CLEANUP_RELOAD_KEY s1) s1) else s1)"

text \<open>\<open>configureServiceWorker\<close>, when the page has loaded.\<close>

definition configureServiceWorker :: "bool \<Rightarrow> bool \<Rightarrow> SwClient \<Rightarrow> SwClient" where
  "configureServiceWorker enabled controlled s =
     (if enabled then bindExplicitActivationReload s else cleanupLegacyServiceWorkers controlled s)"

definition serviceWorkerScriptURL :: "string \<Rightarrow> string \<Rightarrow> string" where
  "serviceWorkerScriptURL version sha =
     ''/sw.js?'' @ params_toString [(''version'', if version = [] then ''dev'' else version), (''sha'', take 12 (if sha = [] then ''dev'' else sha))]"

text \<open>
  The catch of \<open>loadLazyModuleWithRetry\<close>: what is thrown to the boundary of the panel, the error of the import or the one of
  the session storage. \<open>cleared\<close> tells whether the caches can be cleared.
\<close>

datatype lazy_error = ImportError | StorageError

text \<open>\<open>sessionStorage?.getItem(key)\<close>, when it returns.\<close>

definition item_set :: "SessionStorage \<Rightarrow> string \<Rightarrow> bool" where
  "item_set storage key = (case storage of StorageItems items \<Rightarrow> key \<in> set items | FullStorage items \<Rightarrow> key \<in> set items | _ \<Rightarrow> False)"

definition lazyImportFailed :: "string \<Rightarrow> bool \<Rightarrow> SwClient \<Rightarrow> lazy_error \<times> SwClient" where
  "lazyImportFailed name cleared s =
     (if cl_storage s = BlockedStorage then (StorageError, s)
      else if item_set (cl_storage s) (lazy_key name s) then (ImportError, s)
      else (ImportError, snd (reloadOnce (lazy_key name s) (if cleared then snd (clearLegacyCaches s) else s))))"

section \<open>A session\<close>

text \<open>A loaded page starts with fresh variables and perhaps another build; the storage, the caches and the history remain.\<close>

definition pageLoaded :: "string \<Rightarrow> string \<Rightarrow> SwClient \<Rightarrow> SwClient" where
  "pageLoaded version sha s =
     s\<lparr>cl_version := version, cl_sha := sha, cl_pendingWaitingWorker := None, cl_activationRequested := False, cl_listening := False,
       cl_timers := 0\<rparr>"

definition newSession :: "SessionStorage \<Rightarrow> sw_caches \<Rightarrow> SwClient" where
  "newSession storage caches =
     \<lparr>cl_version = [], cl_sha = [], cl_pendingWaitingWorker = None, cl_activationRequested = False, cl_listening = False, cl_timers = 0,
      cl_updateEvents = 0, cl_messages = [], cl_storage = storage, cl_caches = caches, cl_reloads = []\<rparr>"

datatype client_event =
    PageLoad string string
  | Configure bool bool
  | Registered "nat option" bool
  | StateChange nat bool "nat option" bool
  | Activate "nat option" bool
  | ActivationTimer
  | ControllerChange
  | LazyFailure string bool

fun client_event_step :: "SwClient \<Rightarrow> client_event \<Rightarrow> SwClient" where
  "client_event_step s (PageLoad version sha) = pageLoaded version sha s"
| "client_event_step s (Configure enabled controlled) = configureServiceWorker enabled controlled s"
| "client_event_step s (Registered waiting controlled) = watchForServiceWorkerUpdate waiting controlled s"
| "client_event_step s (StateChange worker installed waiting controlled) = workerStateChanged worker installed waiting controlled s"
| "client_event_step s (Activate waiting posted) = snd (activateWaitingServiceWorker waiting posted s)"
| "client_event_step s ActivationTimer = activationTimerFires s"
| "client_event_step s ControllerChange = controllerChanged s"
| "client_event_step s (LazyFailure name cleared) = snd (lazyImportFailed name cleared s)"

definition reloads_recorded :: "SwClient \<Rightarrow> bool" where
  "reloads_recorded s \<longleftrightarrow> (case cl_storage s of StorageItems items \<Rightarrow> distinct (cl_reloads s) \<and> set (cl_reloads s) \<subseteq> set items | _ \<Rightarrow> False)"

lemma reload_recorded: "reloads_recorded s \<Longrightarrow> reloads_recorded (snd (reloadOnce key s))"
  by (auto simp: reloads_recorded_def reloadOnce_def split: SessionStorage.splits)

lemma same_record: "reloads_recorded s \<Longrightarrow> cl_storage s' = cl_storage s \<Longrightarrow> cl_reloads s' = cl_reloads s \<Longrightarrow> reloads_recorded s'"
  by (cases "cl_storage s") (simp_all add: reloads_recorded_def)

lemma activation_recorded: "reloads_recorded s \<Longrightarrow> reloads_recorded (finishActivation s)"
  by (auto simp: finishActivation_def intro!: reload_recorded elim: same_record)

lemma clear_recorded: "reloads_recorded s \<Longrightarrow> reloads_recorded (snd (clearLegacyCaches s))"
  by (erule same_record) (simp_all add: clearLegacyCaches_def)

lemma event_recorded: "reloads_recorded s \<Longrightarrow> reloads_recorded (client_event_step s e)"
proof (cases e)
  case (Configure enabled controlled)
  assume "reloads_recorded s"
  then show ?thesis using clear_recorded reload_recorded
    by (auto simp: Configure configureServiceWorker_def bindExplicitActivationReload_def cleanupLegacyServiceWorkers_def Let_def elim: same_record)
next
  case (LazyFailure name cleared)
  assume "reloads_recorded s"
  then show ?thesis using clear_recorded reload_recorded
    by (auto simp: LazyFailure lazyImportFailed_def)
next
  case ActivationTimer
  assume "reloads_recorded s"
  then have "reloads_recorded (s\<lparr>cl_timers := cl_timers s - 1\<rparr>)" by (rule same_record) simp_all
  then show ?thesis using \<open>reloads_recorded s\<close> by (simp add: ActivationTimer activationTimerFires_def activation_recorded)
next
  case ControllerChange
  assume "reloads_recorded s"
  then show ?thesis by (simp add: ControllerChange controllerChanged_def activation_recorded)
qed (auto simp: pageLoaded_def watchForServiceWorkerUpdate_def workerStateChanged_def activateWaitingServiceWorker_def notifyUpdateReady_def
    split: option.split elim: same_record)

text \<open>
  C31. The page never gets into a loop of reloads: with a session storage, whatever workers are installed, activated or
  fail, whichever panels do not load and however often the page comes back, no reason reloads the page twice in a
  session.
\<close>

theorem no_reload_loop:
  "distinct (cl_reloads (foldl client_event_step (newSession (StorageItems items) caches) events))"
proof -
  have "reloads_recorded (foldl client_event_step (newSession (StorageItems items) caches) events)"
    by (rule foldl_invariant [where P = reloads_recorded]) (simp_all add: event_recorded, simp add: reloads_recorded_def newSession_def)
  then show ?thesis by (auto simp: reloads_recorded_def split: SessionStorage.splits)
qed

text \<open>Without a request of the user a change of the controller does not reload the page.\<close>

lemma only_requested_activation_reloads:
  "\<not> cl_activationRequested s \<Longrightarrow> controllerChanged s = s \<and> cl_reloads (activationTimerFires s) = cl_reloads s"
  by (simp add: controllerChanged_def activationTimerFires_def finishActivation_def)

text \<open>
  \<open>reloadOnce\<close> reloads when the session storage is blocked, but \<open>loadLazyModuleWithRetry\<close> reads the storage before it gets
  there: the panel reports the error of the storage instead of its own, and there is no reload.
\<close>

lemma blocked_storage_no_recovery:
  "cl_storage s = BlockedStorage \<Longrightarrow>
     lazyImportFailed name cleared s = (StorageError, s) \<and> fst (reloadOnce (lazy_key name s) s)"
  by (simp add: lazyImportFailed_def reloadOnce_def)

text \<open>
  The loop that the session storage excludes is there without it: while it is missing or refuses to be written, a panel
  whose code does not load reloads the page each time it is opened.
\<close>

lemma unrecorded_reloads_repeat:
  assumes "cl_storage s = NoStorage \<or> cl_storage s = FullStorage items \<and> lazy_key name s \<notin> set items"
  shows "cl_reloads (((\<lambda>s. client_event_step (pageLoaded (cl_version s) (cl_sha s) s) (LazyFailure name cleared)) ^^ n) s)
    = cl_reloads s @ replicate n (lazy_key name s)"
proof -
  let ?f = "\<lambda>s. client_event_step (pageLoaded (cl_version s) (cl_sha s) s) (LazyFailure name cleared)"
  have step: "cl_reloads (?f t) = cl_reloads t @ [lazy_key name t] \<and> cl_storage (?f t) = cl_storage t \<and> cl_version (?f t) = cl_version t"
    if "cl_storage t = cl_storage s" "cl_version t = cl_version s" for t
    using assms that
    by (auto simp: lazyImportFailed_def item_set_def reloadOnce_def pageLoaded_def clearLegacyCaches_def lazy_key_def)
  have "cl_reloads ((?f ^^ n) s) = cl_reloads s @ replicate n (lazy_key name s) \<and> cl_storage ((?f ^^ n) s) = cl_storage s
    \<and> cl_version ((?f ^^ n) s) = cl_version s"
  proof (induction n)
    case (Suc n)
    then show ?case using step [of "(?f ^^ n) s"] by (simp add: replicate_append_same lazy_key_def)
  qed simp
  then show ?thesis by blast
qed

section \<open>Losing the page\<close>

text \<open>The names of the worker's own caches all have the prefix that the page takes for a legacy one.\<close>

definition own_caches :: "sw_caches \<Rightarrow> bool" where
  "own_caches caches \<longleftrightarrow> list_all (\<lambda>(name, c). starts_with name CACHE_PREFIX) caches"

lemma cleared_own: "own_caches caches \<Longrightarrow> filter (\<lambda>(name, c). \<not> starts_with name LEGACY_CACHE_PREFIX) caches = []"
  by (auto simp: own_caches_def list_all_iff filter_empty_conv LEGACY_CACHE_PREFIX_def CACHE_PREFIX_def)

text \<open>
  C32. Opening a panel while offline loses the application: its code does not load, so the page clears the caches as
  legacy ones, those of the running worker with them, and reloads itself; the worker then has no page to answer with, and
  the navigation that it would have served offline gets the error response.
\<close>

theorem offline_panel_loses_page:
  assumes "cl_storage s = StorageItems items" and "lazy_key name s \<notin> set items" and "own_caches (cl_caches s)"
    and "\<not> shouldBypassCache origin request" and "sr_navigate request"
  defines "after \<equiv> snd (lazyImportFailed name True s)"
  shows "cl_reloads after = cl_reloads s @ [lazy_key name s] \<and>
    fst (sw_fetch release origin request None stored (cl_caches after)) = Some offlineResponse"
proof -
  have after: "after = s\<lparr>cl_caches := [], cl_storage := StorageItems (items @ [lazy_key name s]), cl_reloads := cl_reloads s @ [lazy_key name s]\<rparr>"
    using assms(1,2) cleared_own [OF assms(3)]
    by (simp add: after_def lazyImportFailed_def reloadOnce_def clearLegacyCaches_def lazy_key_def item_set_def)
  then show ?thesis using assms(4,5)
    by (auto simp: sw_fetch_def networkFirst_def cacheFirst_def offline_answer_def split: option.split)
qed

theorem offline_panel_loses_page_witness:
  "case sw_install ''1'' (\<lambda>k. Some \<lparr>sw_status = 200, sw_text = ''page''\<rparr>) [] of None \<Rightarrow> False
   | Some caches \<Rightarrow> fst (sw_fetch ''1'' ''https://map'' page_request None True
       (cl_caches (snd (lazyImportFailed ''ChatPanel'' True (newSession (StorageItems []) caches))))) = Some offlineResponse"
proof -
  obtain caches where c: "sw_install ''1'' (\<lambda>k. Some \<lparr>sw_status = 200, sw_text = ''page''\<rparr>) [] = Some caches"
    by (simp add: sw_install_def APP_SHELL_URLS_def response_ok_def)
  then have own: "own_caches (cl_caches (newSession (StorageItems []) caches))"
    by (auto simp: sw_install_def own_caches_def map_set_def SHELL_CACHE_def newSession_def starts_with_iff split: if_splits)
  have "\<not> shouldBypassCache ''https://map'' page_request" "sr_navigate page_request"
    by (simp_all add: shouldBypassCache_def page_request_def)
  from offline_panel_loses_page [OF _ _ own this, where items = "[]" and name = "''ChatPanel''"] show ?thesis
    by (simp add: c newSession_def)
qed

end
