(* ===== verification/Map_Geo.thy ===== *)
theory Map_Geo
  imports Carto_Types Carto_Strings
begin

text \<open>
  The small decisions every layer of the map shares: which places can be drawn (\<open>map/geo.ts\<close>), the zoom at which
  clusters give way to single nodes (\<open>map/zoomMode.ts\<close>), the strength of a route's line (\<open>map/routeStyles.ts\<close>)
  and \<open>lib/clamp.ts\<close>. Numbers are finite, so the tests \<open>Number.isFinite\<close> hold.
\<close>

definition WORLD_MAP_BOUNDS :: MapBounds where
  "WORLD_MAP_BOUNDS = \<lparr>mb_minLat = -85, mb_maxLat = 85, mb_minLng = -180, mb_maxLng = 180\<rparr>"

definition isMappableLatLng :: "js_number \<Rightarrow> js_number \<Rightarrow> bool" where
  "isMappableLatLng lat lng \<longleftrightarrow>
     lat \<noteq> 0 \<and> lng \<noteq> 0 \<and> mb_minLat WORLD_MAP_BOUNDS \<le> lat \<and> lat \<le> mb_maxLat WORLD_MAP_BOUNDS \<and>
     mb_minLng WORLD_MAP_BOUNDS \<le> lng \<and> lng \<le> mb_maxLng WORLD_MAP_BOUNDS"

definition isMappableNode :: "PublicNode \<Rightarrow> bool" where
  "isMappableNode node = isMappableLatLng (pn_latitude node) (pn_longitude node)"

definition isMappableEndpoint :: "PublicRouteEndpoint \<Rightarrow> bool" where
  "isMappableEndpoint endpoint = isMappableLatLng (ep_lat endpoint) (ep_lng endpoint)"

definition clamp :: "js_number \<Rightarrow> js_number \<Rightarrow> js_number \<Rightarrow> js_number" where
  "clamp value lo hi = min hi (max lo value)"

text \<open>
  The helpers \<open>clampRange\<close> and \<open>clamp\<close> of the other files take the bounds in the other order of \<open>min\<close> and
  \<open>max\<close>: where the bounds cross the lower one wins.
\<close>

definition clampRange :: "js_number \<Rightarrow> js_number \<Rightarrow> js_number \<Rightarrow> js_number" where
  "clampRange value lo hi = max lo (min hi value)"

lemma clamp_eq_clampRange: "lo \<le> hi \<Longrightarrow> clamp value lo hi = clampRange value lo hi"
  by (auto simp: clamp_def clampRange_def)

lemma clampRange_within: "lo \<le> hi \<Longrightarrow> lo \<le> clampRange value lo hi \<and> clampRange value lo hi \<le> hi"
  by (auto simp: clampRange_def)

lemma clampRange_id [simp]: "lo \<le> value \<Longrightarrow> value \<le> hi \<Longrightarrow> clampRange value lo hi = value"
  by (auto simp: clampRange_def)

text \<open>The remainder \<open>a % b\<close>, which has the sign of \<open>a\<close>.\<close>

definition js_rem :: "js_number \<Rightarrow> js_number \<Rightarrow> js_number" where
  "js_rem a b = a - b * of_int (js_trunc (a / b))"

section \<open>Zoom and lines\<close>

definition NODE_CLUSTER_MAX_ZOOM :: js_number where "NODE_CLUSTER_MAX_ZOOM = 7"
definition DETAIL_MIN_ZOOM :: js_number where "DETAIL_MIN_ZOOM = NODE_CLUSTER_MAX_ZOOM + 8 / 100"

datatype MapVisualMode = ClusterMode | DetailMode

definition visualModeForZoom :: "js_number \<Rightarrow> MapVisualMode" where
  "visualModeForZoom zoom = (if zoom < DETAIL_MIN_ZOOM then ClusterMode else DetailMode)"

definition isClusterZoom :: "js_number \<Rightarrow> bool" where
  "isClusterZoom zoom = (visualModeForZoom zoom = ClusterMode)"

definition isDetailZoom :: "js_number \<Rightarrow> bool" where
  "isDetailZoom zoom = (visualModeForZoom zoom = DetailMode)"

record RouteRenderState =
  rr_selected :: bool
  rr_path :: bool
  rr_connected :: bool
  rr_dimmed :: bool

definition routeLineOpacity :: "RouteRenderState \<Rightarrow> js_number" where
  "routeLineOpacity state =
     (if rr_selected state then 78 / 100 else if rr_path state then 9 / 10 else if rr_connected state then 7 / 10
      else if rr_dimmed state then 75 / 1000 else 2 / 10)"

definition routeLineWidth :: "RouteRenderState \<Rightarrow> js_number" where
  "routeLineWidth state =
     (if rr_selected state then 34 / 10 else if rr_path state then 38 / 10 else if rr_connected state then 28 / 10
      else 115 / 100)"

end
