(* ===== verification/Js_Format.thy ===== *)
theory Js_Format
  imports Js_Value
begin

text \<open>
  \<open>Number.prototype.toFixed(k)\<close> on finite numbers below \<open>1e21\<close>: the nearest decimal with \<open>k\<close> digits after the
  point, ties away from zero, the sign kept even where the digits are zero (\<open>(-0.001).toFixed(2)\<close> is
  \<open>"-0.00"\<close>). The scaled integer of a number is \<open>fixed_int\<close>; \<open>fixed_text\<close> writes one.
\<close>

fun frac_digits :: "nat \<Rightarrow> nat \<Rightarrow> string" where
  "frac_digits 0 n = []"
| "frac_digits (Suc k) n = digit_char (n div 10 ^ k mod 10) # frac_digits k n"

definition fixed_text :: "nat \<Rightarrow> nat \<Rightarrow> string" where
  "fixed_text k n = show_nat (n div 10 ^ k) @ (if k = 0 then [] else ''.'' @ frac_digits k n)"

definition fixed_int :: "nat \<Rightarrow> real \<Rightarrow> nat" where
  "fixed_int k x = nat \<lfloor>\<bar>x\<bar> * 10 ^ k + 1 / 2\<rfloor>"

definition to_fixed :: "nat \<Rightarrow> real \<Rightarrow> string" where
  "to_fixed k x = (if x < 0 then ''-'' else []) @ fixed_text k (fixed_int k x)"

lemma length_frac_digits [simp]: "length (frac_digits k n) = k"
  by (induction k) auto

lemma frac_digits_are_digits: "list_all (is_digit 10) (frac_digits k n)"
  by (induction k) (auto simp: digit_char_def is_digit_digit)

lemma foldl_frac_digits:
  "foldl (\<lambda>a c. a * 10 + or_else (digit_val c) 0) a (frac_digits k n) = a * 10 ^ k + n mod 10 ^ k"
proof (induction k arbitrary: a)
  case (Suc k)
  have "n mod 10 ^ Suc k = 10 ^ k * (n div 10 ^ k mod 10) + n mod 10 ^ k"
    using mod_mult2_eq [of n "10 ^ k" 10] by (simp add: mult.commute)
  moreover have "foldl (\<lambda>a c. a * 10 + or_else (digit_val c) 0) a (frac_digits (Suc k) n)
      = (a * 10 + n div 10 ^ k mod 10) * 10 ^ k + n mod 10 ^ k"
    by (simp add: Suc digit_char_def digit_val_digit)
  ultimately show ?case by (simp add: algebra_simps)
qed simp

lemma digits_val_frac_digits [simp]: "digits_val 10 (frac_digits k n) = n mod 10 ^ k"
  by (simp add: digits_val_def foldl_frac_digits)

lemma fixed_int_error: "\<bar>real (fixed_int k x) / 10 ^ k - \<bar>x\<bar>\<bar> \<le> 1 / (2 * 10 ^ k)"
proof -
  let ?y = "\<bar>x\<bar> * 10 ^ k + 1 / 2"
  have "0 \<le> \<lfloor>?y\<rfloor>" by (simp add: add_nonneg_nonneg)
  then have "real (fixed_int k x) = of_int \<lfloor>?y\<rfloor>" by (simp add: fixed_int_def)
  moreover have "of_int \<lfloor>?y\<rfloor> \<le> ?y" "?y < of_int \<lfloor>?y\<rfloor> + 1" by linarith+
  ultimately have "\<bar>real (fixed_int k x) - \<bar>x\<bar> * 10 ^ k\<bar> \<le> 1 / 2" by linarith
  moreover have "real (fixed_int k x) / 10 ^ k - \<bar>x\<bar> = (real (fixed_int k x) - \<bar>x\<bar> * 10 ^ k) / 10 ^ k"
    by (simp add: field_simps)
  ultimately show ?thesis by (simp add: abs_divide field_simps)
qed

end
