(* ===== verification/Net_Graph.thy ===== *)
theory Net_Graph
  imports Carto_Types Carto_Samples Carto_Strings Js_Sort Js_Value
begin

text \<open>
  \<open>web/src/netgraph.ts\<close>: the graph of the net-graph view, built from the nodes and the routes, with its
  selections, its search and the comets and glows of live traffic. The inputs have the declared types: the
  defences against values of other types (\<open>Array.isArray\<close>, \<open>Number(value)\<close>, a missing endpoint) reduce to the
  trimming of strings, the fallbacks for empty ones and the defaults of optional properties, and coordinates
  are always finite.
\<close>

section \<open>Data\<close>

record NetGraphNode =
  gn_id :: string
  gn_label :: string
  gn_role :: string
  gn_isObserver :: bool
  gn_lat :: js_number
  gn_lng :: js_number
  gn_lastSeen :: js_number
  gn_firstSeen :: js_number
  gn_iatasHeardIn :: "string list"
  gn_activityCount :: js_number
  gn_degree :: nat
  gn_routeIDs :: "string list"

record NetGraphEdge =
  gd_id :: string
  gd_sourceID :: string
  gd_targetID :: string
  gd_sourceLabel :: string
  gd_targetLabel :: string
  gd_distanceKm :: js_number
  gd_packetCount :: js_number
  gd_lastHeard :: js_number
  gd_payloadTypeNames :: "string list"

record NetGraphData =
  ng_nodes :: "NetGraphNode list"
  ng_edges :: "NetGraphEdge list"
  ng_nodeByID :: "(string, NetGraphNode) js_map"
  ng_edgeByID :: "(string, NetGraphEdge) js_map"

record NetGraphComet =
  gc_id :: string
  gc_edgeID :: string
  gc_sourceID :: string
  gc_targetID :: string
  gc_payloadTypeName :: string
  gc_startedAt :: js_number
  gc_durationMs :: js_number

record NetGraphGlow =
  gg_id :: string
  gg_nodeID :: string
  gg_payloadTypeName :: string
  gg_startedAt :: js_number
  gg_durationMs :: js_number

record NetGraphSelection =
  gs_nodeIDs :: "string list"
  gs_edgeIDs :: "string list"

definition DEFAULT_COMET_DURATION_MS :: js_number where "DEFAULT_COMET_DURATION_MS = 2400"
definition DEFAULT_GLOW_DURATION_MS :: js_number where "DEFAULT_GLOW_DURATION_MS = 3600"

section \<open>Normalization\<close>

definition or_str :: "string \<Rightarrow> string \<Rightarrow> string" where
  "or_str a b = (if a \<noteq> [] then a else b)"

definition safeText :: "string option \<Rightarrow> string \<Rightarrow> string" where
  "safeText v fallback = (case v of None \<Rightarrow> fallback | Some s \<Rightarrow> or_str (js_trim s) fallback)"

definition safeStringArray :: "string list \<Rightarrow> string list" where
  "safeStringArray values = filter (\<lambda>s. s \<noteq> []) (map (\<lambda>v. safeText (Some v) []) values)"

definition safePayloadTypeNames :: "string list \<Rightarrow> string list" where
  "safePayloadTypeNames values =
     (if values = [] then [''unknown'']
      else let next = filter (\<lambda>s. s \<noteq> []) (map js_trim values) in if next = [] then [''unknown''] else js_set next)"

definition normalizePublicNode :: "PublicNode \<Rightarrow> PublicNode option" where
  "normalizePublicNode node =
     (let i = safeText (Some (pn_id node)) []
      in if i = [] then None
         else Some (node\<lparr>pn_id := i, pn_label := safeText (Some (pn_label node)) i,
           pn_isObserver := Some (pn_isObserver node = Some True),
           pn_iatasHeardIn := map js_upper (safeStringArray (pn_iatasHeardIn node)),
           pn_regionsHeardIn := Some (safeStringArray (or_else (pn_regionsHeardIn node) []))\<rparr>))"

definition normalizeRouteEndpoint :: "PublicRouteEndpoint \<Rightarrow> PublicRouteEndpoint option" where
  "normalizeRouteEndpoint endpoint =
     (let nodeId = safeText (Some (ep_nodeId endpoint)) []
      in if nodeId = [] then None
         else Some (endpoint\<lparr>ep_nodeId := nodeId, ep_label := safeText (Some (ep_label endpoint)) nodeId,
           ep_pathHash3 := Some (safeText (ep_pathHash3 endpoint) [])\<rparr>))"

definition normalizePublicRoute :: "PublicRoute \<Rightarrow> PublicRoute option" where
  "normalizePublicRoute route =
     (let i = safeText (Some (rt_id route)) []
      in case (normalizeRouteEndpoint (rt_from route), normalizeRouteEndpoint (rt_to route)) of
           (Some from, Some to) \<Rightarrow>
             if i = [] then None
             else Some (route\<lparr>rt_id := i, rt_from := from, rt_to := to,
               rt_payloadTypeNames := safePayloadTypeNames (rt_payloadTypeNames route)\<rparr>)
         | _ \<Rightarrow> None)"

definition normalizePublicRouteSegment :: "PublicRouteSegment \<Rightarrow> PublicRouteSegment option" where
  "normalizePublicRouteSegment segment =
     (let routeId = safeText (Some (sg_routeId segment)) []
      in case (normalizeRouteEndpoint (sg_from segment), normalizeRouteEndpoint (sg_to segment)) of
           (Some from, Some to) \<Rightarrow>
             if routeId = [] then None else Some (segment\<lparr>sg_routeId := routeId, sg_from := from, sg_to := to\<rparr>)
         | _ \<Rightarrow> None)"

section \<open>Building\<close>

definition nodeFromDefaults :: "string \<Rightarrow> NetGraphNode" where
  "nodeFromDefaults fallbackID = \<lparr>gn_id = fallbackID, gn_label = fallbackID, gn_role = ''unknown'', gn_isObserver = False,
     gn_lat = 0, gn_lng = 0, gn_lastSeen = 0, gn_firstSeen = 0, gn_iatasHeardIn = [], gn_activityCount = 0,
     gn_degree = 0, gn_routeIDs = []\<rparr>"

definition netGraphNodeFromRouteEndpoint ::
  "string \<Rightarrow> string \<Rightarrow> js_number \<Rightarrow> js_number \<Rightarrow> PublicNode option \<Rightarrow> NetGraphNode" where
  "netGraphNodeFromRouteEndpoint nodeID label lat lng node =
     (let safeID = safeText (Some nodeID) []
      in if safeID = [] then nodeFromDefaults ''unknown''
         else \<lparr>gn_id = safeID,
           gn_label = safeText (Some (or_str (or_else (map_option pn_label node) []) (or_str label safeID))) [],
           gn_role = or_else (map_option (role_name o pn_role) node) ''unknown'',
           gn_isObserver = (case node of None \<Rightarrow> False | Some n \<Rightarrow> pn_isObserver n = Some True),
           gn_lat = or_else (map_option pn_latitude node) lat, gn_lng = or_else (map_option pn_longitude node) lng,
           gn_lastSeen = or_else (map_option pn_lastSeen node) 0, gn_firstSeen = or_else (map_option pn_firstSeen node) 0,
           gn_iatasHeardIn = sort_strings (js_set (or_else (map_option pn_iatasHeardIn node) [])),
           gn_activityCount = or_else (map_option pn_activityCount node) 0, gn_degree = 0, gn_routeIDs = []\<rparr>)"

definition addRouteForNode :: "string \<Rightarrow> string \<Rightarrow> (string, string list) js_map \<Rightarrow> (string, string list) js_map" where
  "addRouteForNode nodeID routeID m = map_set nodeID (set_add routeID (or_else (map_get m nodeID) [])) m"

record GraphDraft =
  dr_nodes :: "(string, NetGraphNode) js_map"
  dr_routeIDs :: "(string, string list) js_map"
  dr_edges :: "(string, NetGraphEdge) js_map"

definition edgeOfRoute :: "PublicRoute \<Rightarrow> NetGraphEdge" where
  "edgeOfRoute r = \<lparr>gd_id = rt_id r, gd_sourceID = ep_nodeId (rt_from r), gd_targetID = ep_nodeId (rt_to r),
     gd_sourceLabel = ep_label (rt_from r), gd_targetLabel = ep_label (rt_to r), gd_distanceKm = rt_distanceKm r,
     gd_packetCount = rt_packetCount r, gd_lastHeard = rt_lastHeard r,
     gd_payloadTypeNames = sort_strings (js_set (rt_payloadTypeNames r))\<rparr>"

definition draftNode :: "(string, PublicNode) js_map \<Rightarrow> PublicRouteEndpoint \<Rightarrow> NetGraphNode" where
  "draftNode publicNodes e = netGraphNodeFromRouteEndpoint (ep_nodeId e) (ep_label e) (ep_lat e) (ep_lng e)
     (map_get publicNodes (ep_nodeId e))"

definition draftRoute :: "(string, PublicNode) js_map \<Rightarrow> GraphDraft \<Rightarrow> PublicRoute \<Rightarrow> GraphDraft" where
  "draftRoute publicNodes d route =
     (case normalizePublicRoute route of None \<Rightarrow> d
      | Some r \<Rightarrow>
          let from = ep_nodeId (rt_from r); to = ep_nodeId (rt_to r)
          in if from = to then d
             else if map_has (dr_edges d) (rt_id r) then d
             else d\<lparr>dr_nodes := map_set to (draftNode publicNodes (rt_to r))
                      (map_set from (draftNode publicNodes (rt_from r)) (dr_nodes d)),
                    dr_routeIDs := addRouteForNode to (rt_id r) (addRouteForNode from (rt_id r) (dr_routeIDs d)),
                    dr_edges := map_set (rt_id route) (edgeOfRoute r) (dr_edges d)\<rparr>)"

definition finishNode :: "(string, string list) js_map \<Rightarrow> NetGraphNode \<Rightarrow> NetGraphNode" where
  "finishNode routeIDsByNode node =
     (let routeIDs = sort_strings (or_else (map_get routeIDsByNode (gn_id node)) [])
      in node\<lparr>gn_degree := length routeIDs, gn_routeIDs := routeIDs\<rparr>)"

definition compareGraphNodes :: "(string \<Rightarrow> string \<Rightarrow> js_number) \<Rightarrow> NetGraphNode \<Rightarrow> NetGraphNode \<Rightarrow> js_number" where
  "compareGraphNodes lc = then_by (by_desc (real o gn_degree)) (then_by (by_desc gn_activityCount) (by_key lc gn_label))"

definition graphData :: "NetGraphNode list \<Rightarrow> NetGraphEdge list \<Rightarrow> NetGraphData" where
  "graphData nodes edges = \<lparr>ng_nodes = nodes, ng_edges = edges, ng_nodeByID = new_map (map (\<lambda>n. (gn_id n, n)) nodes),
     ng_edgeByID = new_map (map (\<lambda>e. (gd_id e, e)) edges)\<rparr>"

definition graphDraft :: "PublicNode list \<Rightarrow> PublicRoute list \<Rightarrow> GraphDraft" where
  "graphDraft nodes routes =
     (let publicNodes = new_map (map (\<lambda>n. (pn_id n, n)) (List.map_filter normalizePublicNode nodes))
      in foldl (draftRoute publicNodes) \<lparr>dr_nodes = [], dr_routeIDs = [], dr_edges = []\<rparr> routes)"

definition buildNetGraphData ::
  "(string \<Rightarrow> string \<Rightarrow> js_number) \<Rightarrow> PublicNode list \<Rightarrow> PublicRoute list \<Rightarrow> NetGraphData" where
  "buildNetGraphData lc nodes routes =
     (let d = graphDraft nodes routes
      in graphData
           (js_sort (compareGraphNodes lc)
             (filter (\<lambda>n. 0 < gn_degree n) (map (finishNode (dr_routeIDs d)) (map_vals (dr_nodes d)))))
           (js_sort (then_by (by_desc gd_packetCount) (by_desc gd_lastHeard)) (map_vals (dr_edges d))))"

section \<open>Selections and search\<close>

definition addEdgeEnds :: "NetGraphData \<Rightarrow> string list \<Rightarrow> string \<Rightarrow> string list" where
  "addEdgeEnds graph nodeIDs edgeID =
     (case map_get (ng_edgeByID graph) edgeID of None \<Rightarrow> nodeIDs
      | Some edge \<Rightarrow> set_add (gd_targetID edge) (set_add (gd_sourceID edge) nodeIDs))"

definition selectionForNode :: "NetGraphData \<Rightarrow> string \<Rightarrow> NetGraphSelection" where
  "selectionForNode graph nodeID =
     (let node = map_get (ng_nodeByID graph) nodeID;
          edgeIDs = js_set (or_else (map_option gn_routeIDs node) []);
          nodeIDs = (case node of None \<Rightarrow> [] | Some n \<Rightarrow> [gn_id n])
      in \<lparr>gs_nodeIDs = foldl (addEdgeEnds graph) nodeIDs edgeIDs, gs_edgeIDs = edgeIDs\<rparr>)"

definition selectedNeighborhood :: "NetGraphData \<Rightarrow> string \<Rightarrow> NetGraphData" where
  "selectedNeighborhood graph nodeID =
     (case map_get (ng_nodeByID graph) nodeID of None \<Rightarrow> graphData [] []
      | Some node \<Rightarrow>
          let selection = selectionForNode graph nodeID
          in graphData (filter (\<lambda>item. gn_id item \<in> set (gs_nodeIDs selection)) (ng_nodes graph))
               (filter (\<lambda>edge. gd_id edge \<in> set (gs_edgeIDs selection) \<and> gd_sourceID edge \<in> set (gs_nodeIDs selection)
                  \<and> gd_targetID edge \<in> set (gs_nodeIDs selection)) (ng_edges graph)))"

definition selectionForEdge :: "NetGraphData \<Rightarrow> string \<Rightarrow> NetGraphSelection" where
  "selectionForEdge graph edgeID =
     (case map_get (ng_edgeByID graph) edgeID of None \<Rightarrow> \<lparr>gs_nodeIDs = [], gs_edgeIDs = []\<rparr>
      | Some edge \<Rightarrow> \<lparr>gs_nodeIDs = js_set [gd_sourceID edge, gd_targetID edge], gs_edgeIDs = [gd_id edge]\<rparr>)"

definition field_matches :: "string \<Rightarrow> string \<Rightarrow> bool" where
  "field_matches needle field = str_includes (js_lower (safeText (Some field) [])) needle"

definition graphSearchMatches :: "NetGraphData \<Rightarrow> string \<Rightarrow> string list" where
  "graphSearchMatches graph query =
     (let needle = js_lower (safeText (Some query) [])
      in if needle = [] then []
         else let m1 = foldl (\<lambda>m node. if list_ex (field_matches needle)
                      ([gn_label node, gn_role node] @ gn_iatasHeardIn node @ gn_routeIDs node)
                    then set_add (gn_id node) m else m) [] (ng_nodes graph)
              in foldl (\<lambda>m edge. if list_ex (field_matches needle)
                      ([gd_id edge, gd_sourceLabel edge, gd_targetLabel edge] @ gd_payloadTypeNames edge)
                    then set_add (gd_targetID edge) (set_add (gd_sourceID edge) m) else m) m1 (ng_edges graph))"

section \<open>Live traffic\<close>

definition edgeForEndpoints :: "NetGraphData \<Rightarrow> string \<Rightarrow> string \<Rightarrow> NetGraphEdge option" where
  "edgeForEndpoints graph sourceID targetID =
     find (\<lambda>edge. gd_sourceID edge = sourceID \<and> gd_targetID edge = targetID \<or>
       gd_sourceID edge = targetID \<and> gd_targetID edge = sourceID) (ng_edges graph)"

definition cometOfSegment ::
  "PublicRoutePulse \<Rightarrow> NetGraphData \<Rightarrow> js_number \<Rightarrow> nat \<times> PublicRouteSegment \<Rightarrow> NetGraphComet option" where
  "cometOfSegment pulse graph now entry =
     (case normalizePublicRouteSegment (snd entry) of None \<Rightarrow> None
      | Some s \<Rightarrow>
          case or_opt (map_get (ng_edgeByID graph) (sg_routeId s))
                 (edgeForEndpoints graph (ep_nodeId (sg_from s)) (ep_nodeId (sg_to s))) of
            None \<Rightarrow> None
          | Some edge \<Rightarrow> Some \<lparr>gc_id = rp_id pulse @ '':'' @ gd_id edge @ '':'' @ show_nat (fst entry), gc_edgeID = gd_id edge,
              gc_sourceID = gd_sourceID edge, gc_targetID = gd_targetID edge,
              gc_payloadTypeName = safeText (Some (rp_payloadTypeName pulse)) [],
              gc_startedAt = now + real (fst entry) * 120, gc_durationMs = DEFAULT_COMET_DURATION_MS\<rparr>)"

definition routePulseToGraphComets :: "PublicRoutePulse \<Rightarrow> NetGraphData \<Rightarrow> js_number \<Rightarrow> NetGraphComet list" where
  "routePulseToGraphComets pulse graph now =
     List.map_filter (cometOfSegment pulse graph now) (List.enumerate 0 (rp_segments pulse))"

definition to_fixed3 :: "real \<Rightarrow> string" where
  "to_fixed3 x = (let f = \<lambda>n. show_nat (n div 1000) @ ''.'' @
       [digit_char (n mod 1000 div 100), digit_char (n mod 100 div 10), digit_char (n mod 10)]
     in if x < 0 then ''-'' @ f (nat \<lfloor>- x * 1000 + 1 / 2\<rfloor>) else f (nat \<lfloor>x * 1000 + 1 / 2\<rfloor>))"

definition observerMatchKey :: "string \<Rightarrow> js_number \<Rightarrow> js_number \<Rightarrow> string" where
  "observerMatchKey label lat lng = js_lower (safeText (Some label) []) @ ''|'' @ to_fixed3 lat @ ''|'' @ to_fixed3 lng"

definition nodeByObserverLocation :: "NetGraphData \<Rightarrow> string \<Rightarrow> js_number \<Rightarrow> js_number \<Rightarrow> NetGraphNode option" where
  "nodeByObserverLocation graph label lat lng =
     (let key = observerMatchKey label lat lng
      in find (\<lambda>node. observerMatchKey (gn_label node) (gn_lat node) (gn_lng node) = key) (ng_nodes graph))"

definition observerActivityToGraphGlow :: "PublicActivity \<Rightarrow> NetGraphData \<Rightarrow> js_number \<Rightarrow> NetGraphGlow option" where
  "observerActivityToGraphGlow activity graph now =
     (case pa_observerLocation activity of None \<Rightarrow> None
      | Some loc \<Rightarrow>
          if pa_animationState activity \<noteq> AnimObserver then None
          else let anchorNodeID = safeText (Option.bind (pa_messageAnchor activity) ma_nodeId) [];
                   byAnchor = (if anchorNodeID \<noteq> [] then map_get (ng_nodeByID graph) anchorNodeID else None)
               in case or_opt byAnchor (nodeByObserverLocation graph (ol_label loc) (ol_lat loc) (ol_lng loc)) of
                    None \<Rightarrow> None
                  | Some node \<Rightarrow> Some \<lparr>gg_id = ''observer:'' @ pa_id activity @ '':'' @ gn_id node, gg_nodeID = gn_id node,
                      gg_payloadTypeName = pa_payloadTypeName activity, gg_startedAt = now,
                      gg_durationMs = DEFAULT_GLOW_DURATION_MS\<rparr>)"

end
