(* ===== verification/Net_Graph_Prepared.thy ===== *)
theory Net_Graph_Prepared
  imports Net_Graph Js_Value "HOL-Library.Word"
begin

unbundle bit_operations_syntax

text \<open>
  \<open>web/src/netgraphPrepared.ts\<close>: the graph with a position for every node and a curve for every edge, its spatial
  indexes and the hit tests of the pointer. Coordinates are exact numbers; an argument \<open>graph | null\<close> is an
  option. A prepared graph has no \<open>prepMs\<close> and \<open>layoutMs\<close>, which are timings of the clock.
\<close>

section \<open>Data\<close>

record Point =
  px :: js_number
  py :: js_number

record NetGraphPreviousPosition =
  po_id :: string
  po_x :: js_number
  po_y :: js_number
  po_vx :: "js_number option"
  po_vy :: "js_number option"

record PreparedNetGraphNode = NetGraphNode +
  gx_x :: js_number
  gx_y :: js_number
  gx_seedX :: js_number
  gx_seedY :: js_number
  gx_componentID :: nat
  gx_componentX :: js_number
  gx_componentY :: js_number
  gx_radius :: js_number
  gx_color :: string
  gx_shape :: string
  gx_searchText :: string

record PreparedNetGraphEdge = NetGraphEdge +
  ex_sourceIndex :: nat
  ex_targetIndex :: nat
  ex_laneOffset :: js_number
  ex_laneCount :: nat
  ex_controlX :: js_number
  ex_controlY :: js_number
  ex_minX :: js_number
  ex_minY :: js_number
  ex_maxX :: js_number
  ex_maxY :: js_number
  ex_width :: js_number
  ex_color :: string
  ex_searchText :: string

record WorldBounds =
  wb_minX :: js_number
  wb_minY :: js_number
  wb_maxX :: js_number
  wb_maxY :: js_number

record NetGraphSpatialIndex =
  si_cellSize :: js_number
  si_buckets :: "(string, nat list) js_map"

record PreparedNetGraph =
  gp_nodes :: "PreparedNetGraphNode list"
  gp_edges :: "PreparedNetGraphEdge list"
  gp_nodeIndexByID :: "(string, nat) js_map"
  gp_edgeIndexByID :: "(string, nat) js_map"
  gp_nodeSpatialIndex :: NetGraphSpatialIndex
  gp_edgeSpatialIndex :: NetGraphSpatialIndex
  gp_topologySignature :: string
  gp_totalNodes :: nat
  gp_totalEdges :: nat
  gp_visibleNodes :: nat
  gp_visibleEdges :: nat
  gp_layoutTicks :: nat
  gp_layoutReused :: bool

record NetGraphSettlePlan =
  sp_ticks :: nat
  sp_alpha :: js_number
  sp_restart :: bool

record GraphTransform =
  gt_x :: js_number
  gt_y :: js_number
  gt_k :: js_number

record 'a NetGraphHitResult =
  hr_item :: "'a option"
  hr_candidates :: nat

definition NETGRAPH_INITIAL_SETTLE_TICKS :: nat where "NETGRAPH_INITIAL_SETTLE_TICKS = 90"
definition NETGRAPH_MAJOR_SETTLE_TICKS :: nat where "NETGRAPH_MAJOR_SETTLE_TICKS = 48"
definition NETGRAPH_INCREMENTAL_SETTLE_TICKS :: nat where "NETGRAPH_INCREMENTAL_SETTLE_TICKS = 16"
definition SPATIAL_CELL_SIZE :: js_number where "SPATIAL_CELL_SIZE = 128"

definition netGraphSettlePlan :: "nat \<Rightarrow> nat \<Rightarrow> nat \<Rightarrow> bool \<Rightarrow> NetGraphSettlePlan" where
  "netGraphSettlePlan previousNodeCount currentNodeCount changedNodeCount layoutPaused =
     (if layoutPaused then \<lparr>sp_ticks = 0, sp_alpha = 0, sp_restart = False\<rparr>
      else if previousNodeCount = 0 then \<lparr>sp_ticks = NETGRAPH_INITIAL_SETTLE_TICKS, sp_alpha = 0.18, sp_restart = True\<rparr>
      else let denominator = max (max previousNodeCount currentNodeCount) 1;
               changeRatio = real changedNodeCount / real denominator
           in if 0.18 \<le> changeRatio then \<lparr>sp_ticks = NETGRAPH_MAJOR_SETTLE_TICKS, sp_alpha = 0.12, sp_restart = True\<rparr>
              else \<lparr>sp_ticks = NETGRAPH_INCREMENTAL_SETTLE_TICKS, sp_alpha = 0.06, sp_restart = True\<rparr>)"

definition preparedNodeSearchText :: "'a NetGraphNode_scheme \<Rightarrow> string" where
  "preparedNodeSearchText node = js_lower (join '' '' ([gn_id node, gn_label node, gn_role node] @ gn_iatasHeardIn node @ gn_routeIDs node))"

definition preparedEdgeSearchText :: "'a NetGraphEdge_scheme \<Rightarrow> string" where
  "preparedEdgeSearchText edge = js_lower (join '' '' ([gd_id edge, gd_sourceLabel edge, gd_targetLabel edge] @ gd_payloadTypeNames edge))"

section \<open>The spatial index\<close>

definition cellKey :: "int \<Rightarrow> int \<Rightarrow> string" where
  "cellKey x y = show_int x @ '':'' @ show_int y"

definition cell_of :: "js_number \<Rightarrow> js_number \<Rightarrow> int" where
  "cell_of cellSize v = \<lfloor>v / cellSize\<rfloor>"

text \<open>The cells of a box, in the order of the two loops.\<close>

definition cells_of :: "js_number \<Rightarrow> WorldBounds \<Rightarrow> string list" where
  "cells_of cellSize b =
     concat (map (\<lambda>cellY. map (\<lambda>cellX. cellKey cellX cellY) [cell_of cellSize (wb_minX b)..cell_of cellSize (wb_maxX b)])
       [cell_of cellSize (wb_minY b)..cell_of cellSize (wb_maxY b)])"

definition addIndexToBounds ::
  "js_number \<Rightarrow> WorldBounds \<Rightarrow> nat \<Rightarrow> (string, nat list) js_map \<Rightarrow> (string, nat list) js_map" where
  "addIndexToBounds cellSize bounds index buckets =
     foldl (\<lambda>b key. map_set key (or_else (map_get b key) [] @ [index]) b) buckets (cells_of cellSize bounds)"

definition node_box :: "PreparedNetGraphNode \<Rightarrow> WorldBounds" where
  "node_box n = \<lparr>wb_minX = gx_x n - gx_radius n, wb_minY = gx_y n - gx_radius n,
     wb_maxX = gx_x n + gx_radius n, wb_maxY = gx_y n + gx_radius n\<rparr>"

definition edge_box :: "PreparedNetGraphEdge \<Rightarrow> WorldBounds" where
  "edge_box e = \<lparr>wb_minX = ex_minX e, wb_minY = ex_minY e, wb_maxX = ex_maxX e, wb_maxY = ex_maxY e\<rparr>"

definition spatialIndex :: "js_number \<Rightarrow> WorldBounds list \<Rightarrow> NetGraphSpatialIndex" where
  "spatialIndex cellSize boxes = \<lparr>si_cellSize = cellSize,
     si_buckets = foldl (\<lambda>b (index, box). addIndexToBounds cellSize box index b) [] (List.enumerate 0 boxes)\<rparr>"

definition createNodeSpatialIndex :: "PreparedNetGraphNode list \<Rightarrow> NetGraphSpatialIndex" where
  "createNodeSpatialIndex nodes = spatialIndex SPATIAL_CELL_SIZE (map node_box nodes)"

definition createEdgeSpatialIndex :: "PreparedNetGraphEdge list \<Rightarrow> NetGraphSpatialIndex" where
  "createEdgeSpatialIndex edges = spatialIndex SPATIAL_CELL_SIZE (map edge_box edges)"

definition querySpatialIndex :: "NetGraphSpatialIndex \<Rightarrow> WorldBounds \<Rightarrow> nat list" where
  "querySpatialIndex index bounds =
     js_set (concat (map (\<lambda>key. or_else (map_get (si_buckets index) key) []) (cells_of (si_cellSize index) bounds)))"

definition index_by :: "('a \<Rightarrow> string) \<Rightarrow> 'a list \<Rightarrow> (string, nat) js_map" where
  "index_by f xs = new_map (map (\<lambda>(i, x). (f x, i)) (List.enumerate 0 xs))"

definition rebuildPreparedNetGraphIndexes :: "PreparedNetGraph \<Rightarrow> PreparedNetGraph" where
  "rebuildPreparedNetGraphIndexes graph = graph\<lparr>
     gp_nodeIndexByID := index_by gn_id (gp_nodes graph), gp_edgeIndexByID := index_by gd_id (gp_edges graph),
     gp_nodeSpatialIndex := createNodeSpatialIndex (gp_nodes graph),
     gp_edgeSpatialIndex := createEdgeSpatialIndex (gp_edges graph)\<rparr>"

section \<open>Curves\<close>

definition js_hypot :: "js_number \<Rightarrow> js_number \<Rightarrow> js_number" where
  "js_hypot x y = sqrt (x\<^sup>2 + y\<^sup>2)"

definition edgeDirectionSign :: "'a NetGraphEdge_scheme \<Rightarrow> js_number" where
  "edgeDirectionSign edge = (if code_unit_compare (gd_sourceID edge) (gd_targetID edge) \<le> 0 then 1 else - 1)"

text \<open>\<open>stableHash\<close>: 32-bit FNV-1a.\<close>

definition stableHash :: "string \<Rightarrow> 32 word" where
  "stableHash value = foldl (\<lambda>hash c. (hash XOR word_of_nat (of_char c)) * 16777619) 2166136261 value"

definition fallbackEdgeBend :: "string \<Rightarrow> js_number \<Rightarrow> js_number" where
  "fallbackEdgeBend edgeID baseBend =
     (let bendSeed = real (unat (stableHash edgeID) mod 1000) / 999 - 0.5
      in sgn (if bendSeed \<noteq> 0 then bendSeed else 1) * baseBend * (0.45 + \<bar>bendSeed\<bar>))"

definition preparedEdgeControlPoint :: "PreparedNetGraphNode \<Rightarrow> PreparedNetGraphNode \<Rightarrow> PreparedNetGraphEdge \<Rightarrow> Point" where
  "preparedEdgeControlPoint source target edge =
     (let dx = gx_x target - gx_x source; dy = gx_y target - gx_y source;
          len = max 1 (js_hypot dx dy);
          baseBend = min 58 (max 10 (len * 0.075));
          bend = (if ex_laneCount edge > 1 then ex_laneOffset edge * baseBend * 0.9 * edgeDirectionSign edge
            else fallbackEdgeBend (gd_id edge) baseBend)
      in \<lparr>px = (gx_x source + gx_x target) / 2 + (- dy / len) * bend, py = (gx_y source + gx_y target) / 2 + (dx / len) * bend\<rparr>)"

definition refreshEdge :: "PreparedNetGraph \<Rightarrow> PreparedNetGraphEdge \<Rightarrow> PreparedNetGraphEdge" where
  "refreshEdge graph edge =
     (if ex_sourceIndex edge < length (gp_nodes graph) \<and> ex_targetIndex edge < length (gp_nodes graph) then
        let source = gp_nodes graph ! ex_sourceIndex edge; target = gp_nodes graph ! ex_targetIndex edge;
            control = preparedEdgeControlPoint source target edge; padding = max 16 (ex_width edge + 10)
        in edge\<lparr>ex_controlX := px control, ex_controlY := py control,
             ex_minX := min (min (gx_x source) (gx_x target)) (px control) - padding,
             ex_minY := min (min (gx_y source) (gx_y target)) (py control) - padding,
             ex_maxX := max (max (gx_x source) (gx_x target)) (px control) + padding,
             ex_maxY := max (max (gx_y source) (gx_y target)) (py control) + padding\<rparr>
      else edge)"

definition refreshPreparedEdgeGeometry :: "PreparedNetGraph \<Rightarrow> PreparedNetGraph" where
  "refreshPreparedEdgeGeometry graph =
     rebuildPreparedNetGraphIndexes (graph\<lparr>gp_edges := map (refreshEdge graph) (gp_edges graph)\<rparr>)"

definition clamp01 :: "js_number \<Rightarrow> js_number" where
  "clamp01 t = max 0 (min 1 t)"

definition pointOnPreparedEdge ::
  "PreparedNetGraphNode \<Rightarrow> PreparedNetGraphNode \<Rightarrow> PreparedNetGraphEdge \<Rightarrow> js_number \<Rightarrow> Point" where
  "pointOnPreparedEdge source target edge progress =
     (let t = clamp01 progress; oneMinus = 1 - t
      in \<lparr>px = oneMinus * oneMinus * gx_x source + 2 * oneMinus * t * ex_controlX edge + t * t * gx_x target,
          py = oneMinus * oneMinus * gx_y source + 2 * oneMinus * t * ex_controlY edge + t * t * gx_y target\<rparr>)"

definition distanceToSegment :: "Point \<Rightarrow> Point \<Rightarrow> Point \<Rightarrow> js_number" where
  "distanceToSegment point source target =
     (let dx = px target - px source; dy = py target - py source; len = dx * dx + dy * dy
      in if len = 0 then js_hypot (px point - px source) (py point - py source)
         else let t = clamp01 (((px point - px source) * dx + (py point - py source) * dy) / len)
              in js_hypot (px point - (px source + t * dx)) (py point - (py source + t * dy)))"

definition curve_points :: "PreparedNetGraphNode \<Rightarrow> PreparedNetGraphNode \<Rightarrow> PreparedNetGraphEdge \<Rightarrow> Point list" where
  "curve_points source target edge = map (\<lambda>step. pointOnPreparedEdge source target edge (real step / 10)) [0..<11]"

fun polyline_distances :: "Point \<Rightarrow> Point list \<Rightarrow> js_number list" where
  "polyline_distances p (a # b # ps) = distanceToSegment p a b # polyline_distances p (b # ps)"
| "polyline_distances p _ = []"

definition distanceToPreparedEdge ::
  "Point \<Rightarrow> PreparedNetGraphNode \<Rightarrow> PreparedNetGraphNode \<Rightarrow> PreparedNetGraphEdge \<Rightarrow> js_number" where
  "distanceToPreparedEdge point source target edge = Min (set (polyline_distances point (curve_points source target edge)))"

section \<open>Hit tests\<close>

text \<open>
  The loop over the candidates keeps the first one of the smallest distance within reach; \<open>None\<close> is a distance
  of \<open>Infinity\<close>.
\<close>

definition closer :: "('a \<times> js_number) option \<Rightarrow> ('a \<times> js_number) option \<Rightarrow> ('a \<times> js_number) option" where
  "closer best found =
     (case found of None \<Rightarrow> best
      | Some (x, d) \<Rightarrow> case best of None \<Rightarrow> found | Some (y, e) \<Rightarrow> if d < e then found else best)"

definition nearest :: "(nat \<Rightarrow> ('a \<times> js_number) option) \<Rightarrow> nat list \<Rightarrow> ('a \<times> js_number) option" where
  "nearest hit candidates = foldl (\<lambda>best index. closer best (hit index)) None candidates"

definition around :: "Point \<Rightarrow> js_number \<Rightarrow> WorldBounds" where
  "around p d = \<lparr>wb_minX = px p - d, wb_minY = py p - d, wb_maxX = px p + d, wb_maxY = py p + d\<rparr>"

definition nodeAllowance :: "js_number \<Rightarrow> js_number" where
  "nodeAllowance scale = 8 / max 0.001 scale"

definition edgeThreshold :: "js_number \<Rightarrow> js_number" where
  "edgeThreshold scale = 14 / max 0.001 scale"

definition nodeHit :: "PreparedNetGraph \<Rightarrow> Point \<Rightarrow> js_number \<Rightarrow> nat \<Rightarrow> (PreparedNetGraphNode \<times> js_number) option" where
  "nodeHit graph point allowance index =
     (if index < length (gp_nodes graph) then
        let node = gp_nodes graph ! index; distance = js_hypot (px point - gx_x node) (py point - gx_y node)
        in if distance \<le> gx_radius node + allowance then Some (node, distance) else None
      else None)"

definition preparedHitNode :: "PreparedNetGraph option \<Rightarrow> Point \<Rightarrow> js_number \<Rightarrow> PreparedNetGraphNode NetGraphHitResult" where
  "preparedHitNode graph point scale =
     (case graph of None \<Rightarrow> \<lparr>hr_item = None, hr_candidates = 0\<rparr>
      | Some g \<Rightarrow>
          let allowance = nodeAllowance scale;
              candidates = querySpatialIndex (gp_nodeSpatialIndex g) (around point (allowance + 18))
          in \<lparr>hr_item = map_option fst (nearest (nodeHit g point allowance) candidates), hr_candidates = length candidates\<rparr>)"

definition edgeHit :: "PreparedNetGraph \<Rightarrow> Point \<Rightarrow> js_number \<Rightarrow> nat \<Rightarrow> (PreparedNetGraphEdge \<times> js_number) option" where
  "edgeHit graph point threshold index =
     (if index < length (gp_edges graph) then
        let edge = gp_edges graph ! index
        in if ex_sourceIndex edge < length (gp_nodes graph) \<and> ex_targetIndex edge < length (gp_nodes graph) then
             let distance = distanceToPreparedEdge point (gp_nodes graph ! ex_sourceIndex edge) (gp_nodes graph ! ex_targetIndex edge) edge
             in if distance \<le> threshold then Some (edge, distance) else None
           else None
      else None)"

definition preparedHitEdge :: "PreparedNetGraph option \<Rightarrow> Point \<Rightarrow> js_number \<Rightarrow> PreparedNetGraphEdge NetGraphHitResult" where
  "preparedHitEdge graph point scale =
     (case graph of None \<Rightarrow> \<lparr>hr_item = None, hr_candidates = 0\<rparr>
      | Some g \<Rightarrow>
          let threshold = edgeThreshold scale;
              candidates = querySpatialIndex (gp_edgeSpatialIndex g) (around point threshold)
          in \<lparr>hr_item = map_option fst (nearest (edgeHit g point threshold) candidates), hr_candidates = length candidates\<rparr>)"

definition viewportWorldBounds :: "GraphTransform \<Rightarrow> js_number \<Rightarrow> js_number \<Rightarrow> js_number \<Rightarrow> WorldBounds" where
  "viewportWorldBounds transform width height padding =
     (let k = max 0.001 (gt_k transform)
      in \<lparr>wb_minX = (0 - gt_x transform) / k - padding, wb_minY = (0 - gt_y transform) / k - padding,
          wb_maxX = (width - gt_x transform) / k + padding, wb_maxY = (height - gt_y transform) / k + padding\<rparr>)"

definition edgeIntersectsBounds :: "PreparedNetGraphEdge \<Rightarrow> WorldBounds \<Rightarrow> bool" where
  "edgeIntersectsBounds edge b \<longleftrightarrow>
     wb_minX b \<le> ex_maxX edge \<and> ex_minX edge \<le> wb_maxX b \<and> wb_minY b \<le> ex_maxY edge \<and> ex_minY edge \<le> wb_maxY b"

definition nodeIntersectsBounds :: "PreparedNetGraphNode \<Rightarrow> WorldBounds \<Rightarrow> bool" where
  "nodeIntersectsBounds node b \<longleftrightarrow>
     wb_minX b \<le> gx_x node + gx_radius node \<and> gx_x node - gx_radius node \<le> wb_maxX b \<and>
     wb_minY b \<le> gx_y node + gx_radius node \<and> gx_y node - gx_radius node \<le> wb_maxY b"

section \<open>Search, selections and lookups\<close>

definition lookup_index :: "'a list \<Rightarrow> (string, nat) js_map \<Rightarrow> string \<Rightarrow> 'a option" where
  "lookup_index xs index i =
     (case map_get index i of None \<Rightarrow> None | Some k \<Rightarrow> if k < length xs then Some (xs ! k) else None)"

definition preparedNodeByID :: "PreparedNetGraph option \<Rightarrow> string \<Rightarrow> PreparedNetGraphNode option" where
  "preparedNodeByID graph nodeID =
     (case graph of None \<Rightarrow> None | Some g \<Rightarrow> lookup_index (gp_nodes g) (gp_nodeIndexByID g) nodeID)"

definition preparedEdgeByID :: "PreparedNetGraph option \<Rightarrow> string \<Rightarrow> PreparedNetGraphEdge option" where
  "preparedEdgeByID graph edgeID =
     (case graph of None \<Rightarrow> None | Some g \<Rightarrow> lookup_index (gp_edges g) (gp_edgeIndexByID g) edgeID)"

definition preparedSearchMatches :: "PreparedNetGraph option \<Rightarrow> string \<Rightarrow> string list" where
  "preparedSearchMatches graph query =
     (let needle = js_lower (js_trim query)
      in case graph of None \<Rightarrow> []
         | Some g \<Rightarrow>
             if needle = [] then []
             else foldl (\<lambda>m edge. if str_includes (ex_searchText edge) needle
                      then set_add (gd_targetID edge) (set_add (gd_sourceID edge) m) else m)
                    (foldl (\<lambda>m node. if str_includes (gx_searchText node) needle then set_add (gn_id node) m else m) [] (gp_nodes g))
                    (gp_edges g))"

definition addPreparedEdgeEnds :: "PreparedNetGraph \<Rightarrow> string list \<Rightarrow> string \<Rightarrow> string list" where
  "addPreparedEdgeEnds g nodeIDs edgeID =
     (case preparedEdgeByID (Some g) edgeID of None \<Rightarrow> nodeIDs
      | Some edge \<Rightarrow> set_add (gd_targetID edge) (set_add (gd_sourceID edge) nodeIDs))"

definition selectionForPreparedNode :: "PreparedNetGraph option \<Rightarrow> string \<Rightarrow> NetGraphSelection" where
  "selectionForPreparedNode graph nodeID =
     (let node = preparedNodeByID graph nodeID;
          edgeIDs = js_set (or_else (map_option gn_routeIDs node) []);
          nodeIDs = (case node of None \<Rightarrow> [] | Some n \<Rightarrow> [gn_id n])
      in case graph of None \<Rightarrow> \<lparr>gs_nodeIDs = nodeIDs, gs_edgeIDs = edgeIDs\<rparr>
         | Some g \<Rightarrow> \<lparr>gs_nodeIDs = foldl (addPreparedEdgeEnds g) nodeIDs edgeIDs, gs_edgeIDs = edgeIDs\<rparr>)"

definition selectionForPreparedEdge :: "PreparedNetGraph option \<Rightarrow> string \<Rightarrow> NetGraphSelection" where
  "selectionForPreparedEdge graph edgeID =
     (case preparedEdgeByID graph edgeID of None \<Rightarrow> \<lparr>gs_nodeIDs = [], gs_edgeIDs = []\<rparr>
      | Some edge \<Rightarrow> \<lparr>gs_nodeIDs = js_set [gd_sourceID edge, gd_targetID edge], gs_edgeIDs = [gd_id edge]\<rparr>)"

definition preparedPositions :: "PreparedNetGraph option \<Rightarrow> NetGraphPreviousPosition list" where
  "preparedPositions graph =
     (case graph of None \<Rightarrow> []
      | Some g \<Rightarrow> map (\<lambda>node. \<lparr>po_id = gn_id node, po_x = gx_x node, po_y = gx_y node, po_vx = None, po_vy = None\<rparr>) (gp_nodes g))"

definition preparedGraphToData :: "PreparedNetGraph option \<Rightarrow> NetGraphData" where
  "preparedGraphToData graph =
     (case graph of None \<Rightarrow> graphData [] []
      | Some g \<Rightarrow> graphData (map NetGraphNode.truncate (gp_nodes g)) (map NetGraphEdge.truncate (gp_edges g)))"

end
