(* ===== verification/Route_Arcs.thy ===== *)
theory Route_Arcs
  imports Map_Geo Js_Format Net_Graph_Prepared
begin

text \<open>
  \<open>web/src/map/routeArcs.ts\<close>, \<open>map/terrainProfile.ts\<close> and \<open>map/elevationProfile.ts\<close>: the arc of a route as
  samples, a point and a trail on it, the line of sight under it, and the elevations along it. Numbers are finite,
  with the functions of \<open>Math\<close> as those of the reals. The elevation of the terrain and the pixels of a tile are
  arguments; a tile that cannot be read has none.
\<close>

section \<open>Arcs\<close>

record ArcEndpoint =
  ae_lat :: js_number
  ae_lng :: js_number

record ArcSample =
  ar_lng :: js_number
  ar_lat :: js_number
  ar_altitudeMeters :: js_number
  ar_progress :: js_number

record ArcOptions =
  ao_distanceKm :: "js_number option"
  ao_minSamples :: "nat option"
  ao_maxSamples :: "nat option"
  ao_heightScale :: "js_number option"

definition arcDistance :: "js_number \<Rightarrow> ArcOptions" where
  "arcDistance km = \<lparr>ao_distanceKm = Some km, ao_minSamples = None, ao_maxSamples = None, ao_heightScale = None\<rparr>"

definition ARC_MIN_HEIGHT_M :: js_number where "ARC_MIN_HEIGHT_M = 180"
definition ARC_MAX_HEIGHT_M :: js_number where "ARC_MAX_HEIGHT_M = 18000"
definition ARC_DEFAULT_MIN_SAMPLES :: nat where "ARC_DEFAULT_MIN_SAMPLES = 8"
definition ARC_DEFAULT_MAX_SAMPLES :: nat where "ARC_DEFAULT_MAX_SAMPLES = 34"

definition interpolate :: "js_number \<Rightarrow> js_number \<Rightarrow> js_number \<Rightarrow> js_number" where
  "interpolate a b progress = a + (b - a) * progress"

definition degToRad :: "js_number \<Rightarrow> js_number" where
  "degToRad value = value * pi / 180"

text \<open>\<open>Math.atan2(y, x)\<close>.\<close>

definition js_atan2 :: "js_number \<Rightarrow> js_number \<Rightarrow> js_number" where
  "js_atan2 y x = Arg (Complex x y)"

definition haversineKm :: "ArcEndpoint \<Rightarrow> ArcEndpoint \<Rightarrow> js_number" where
  "haversineKm p q =
     (let dLat = degToRad (ae_lat q - ae_lat p); dLng = degToRad (ae_lng q - ae_lng p);
          lat1 = degToRad (ae_lat p); lat2 = degToRad (ae_lat q);
          a = (sin (dLat / 2))\<^sup>2 + cos lat1 * cos lat2 * (sin (dLng / 2))\<^sup>2
      in 6371 * 2 * js_atan2 (sqrt a) (sqrt (1 - a)))"

definition routeEndpointDistanceKm :: "ArcEndpoint \<Rightarrow> ArcEndpoint \<Rightarrow> js_number" where
  "routeEndpointDistanceKm p q = haversineKm p q"

definition routeArcHeightMeters :: "js_number \<Rightarrow> js_number \<Rightarrow> js_number" where
  "routeArcHeightMeters distanceKm heightScale =
     (let distance = max 0 distanceKm; base = ARC_MIN_HEIGHT_M + sqrt distance * 420 + distance * 12
      in js_round (clampRange (base * clampRange heightScale (2 / 10) 2) ARC_MIN_HEIGHT_M ARC_MAX_HEIGHT_M))"

definition routeArcSampleCount :: "js_number \<Rightarrow> nat \<Rightarrow> nat \<Rightarrow> nat" where
  "routeArcSampleCount distanceKm minSamples maxSamples =
     (let distance = max 0 distanceKm
      in nat \<lfloor>js_round (clampRange (8 + sqrt distance * (16 / 10)) (real minSamples) (real maxSamples))\<rfloor>)"

definition arcSample :: "ArcEndpoint \<Rightarrow> ArcEndpoint \<Rightarrow> js_number \<Rightarrow> nat \<Rightarrow> nat \<Rightarrow> ArcSample" where
  "arcSample p q height samples index =
     (let progress = (if samples \<le> 1 then 1 else real index / (real samples - 1)); bend = sin (progress * pi)
      in \<lparr>ar_lng = interpolate (ae_lng p) (ae_lng q) progress, ar_lat = interpolate (ae_lat p) (ae_lat q) progress,
          ar_altitudeMeters = height * bend, ar_progress = progress\<rparr>)"

definition sampleRouteArc :: "ArcEndpoint \<Rightarrow> ArcEndpoint \<Rightarrow> ArcOptions \<Rightarrow> ArcSample list" where
  "sampleRouteArc p q options =
     (let distanceKm = or_else (ao_distanceKm options) (haversineKm p q);
          samples = routeArcSampleCount distanceKm (or_else (ao_minSamples options) ARC_DEFAULT_MIN_SAMPLES)
            (or_else (ao_maxSamples options) ARC_DEFAULT_MAX_SAMPLES);
          height = routeArcHeightMeters distanceKm (or_else (ao_heightScale options) 1)
      in map (arcSample p q height samples) [0..<samples])"

definition routeArcCoordinates :: "ArcEndpoint \<Rightarrow> ArcEndpoint \<Rightarrow> ArcOptions \<Rightarrow> (js_number \<times> js_number) list" where
  "routeArcCoordinates p q options = map (\<lambda>s. (ar_lng s, ar_lat s)) (sampleRouteArc p q options)"

definition arcEnd :: "PublicRouteEndpoint \<Rightarrow> ArcEndpoint" where
  "arcEnd e = \<lparr>ae_lat = ep_lat e, ae_lng = ep_lng e\<rparr>"

text \<open>\<open>{ distanceKm: segment.distanceKm, ...options }\<close>.\<close>

definition routeSegmentArcCoordinates :: "PublicRouteSegment \<Rightarrow> ArcOptions \<Rightarrow> (js_number \<times> js_number) list" where
  "routeSegmentArcCoordinates segment options =
     routeArcCoordinates (arcEnd (sg_from segment)) (arcEnd (sg_to segment))
       (options\<lparr>ao_distanceKm := or_opt (ao_distanceKm options) (Some (sg_distanceKm segment))\<rparr>)"

definition arcPointAt :: "ArcSample list \<Rightarrow> js_number \<Rightarrow> ArcSample option" where
  "arcPointAt samples progress =
     (if samples = [] then None
      else if length samples = 1 then Some (samples ! 0)
      else let clamped = clampRange progress 0 1; scaled = clamped * (real (length samples) - 1);
               index = min (length samples - 2) (nat \<lfloor>scaled\<rfloor>); local = scaled - real index;
               a = samples ! index; b = samples ! (index + 1)
           in Some \<lparr>ar_lng = interpolate (ar_lng a) (ar_lng b) local, ar_lat = interpolate (ar_lat a) (ar_lat b) local,
                ar_altitudeMeters = interpolate (ar_altitudeMeters a) (ar_altitudeMeters b) local, ar_progress = clamped\<rparr>)"

definition option_list :: "'a option \<Rightarrow> 'a list" where
  "option_list x = (case x of None \<Rightarrow> [] | Some y \<Rightarrow> [y])"

definition arcTrailSamples :: "ArcSample list \<Rightarrow> js_number \<Rightarrow> js_number \<Rightarrow> ArcSample list" where
  "arcTrailSamples samples headProgress trailProgress =
     (if samples = [] then []
      else let head = clampRange headProgress 0 1;
               tail = clampRange (head - max (15 / 1000) trailProgress) 0 head
           in option_list (arcPointAt samples tail) @
              filter (\<lambda>s. tail < ar_progress s \<and> ar_progress s < head) samples @
              option_list (arcPointAt samples head))"

definition publicEndpointKey :: "PublicRouteEndpoint \<Rightarrow> string" where
  "publicEndpointKey endpoint =
     (if ep_nodeId endpoint \<noteq> [] then ep_nodeId endpoint
      else ep_label endpoint @ ''|'' @ to_fixed 5 (ep_lat endpoint) @ ''|'' @ to_fixed 5 (ep_lng endpoint))"

section \<open>Line of sight\<close>

record LOSResult =
  lo_clear :: bool
  lo_confidence :: js_number
  lo_minClearanceMeters :: js_number
  lo_maxObstructionMeters :: js_number
  lo_fresnelRadiusMeters :: js_number
  lo_frequencyGHz :: js_number

definition FRESNEL_FREQ :: js_number where "FRESNEL_FREQ = 915 / 1000"
definition LOS_SAMPLES :: nat where "LOS_SAMPLES = 24"
definition FRESNEL_FACTOR :: js_number where "FRESNEL_FACTOR = 6 / 10"

definition fresnel :: "js_number \<Rightarrow> js_number \<Rightarrow> js_number" where
  "fresnel d f = (if d \<le> 0 \<or> f \<le> 0 then 0 else sqrt (3 / 10 / f * d * 1000 / 2))"

definition losClearance :: "js_number \<Rightarrow> js_number \<Rightarrow> (js_number \<Rightarrow> js_number \<Rightarrow> js_number option) \<Rightarrow> ArcSample \<Rightarrow> js_number" where
  "losClearance distKm freq terrain a =
     (let te = or_else (terrain (ar_lng a) (ar_lat a)) 0; de = distKm * min (ar_progress a) (1 - ar_progress a);
          fr = fresnel (de * 2) freq * FRESNEL_FACTOR
      in ar_altitudeMeters a - te - fr)"

text \<open>The loop over the samples: the smallest clearance (none yet at the start), the largest obstruction, the blocked samples.\<close>

definition losStep :: "js_number option \<times> js_number \<times> nat \<Rightarrow> js_number \<Rightarrow> js_number option \<times> js_number \<times> nat" where
  "losStep acc cl =
     (let (minClear, maxObst, blocked) = acc
      in (Some (case minClear of None \<Rightarrow> cl | Some m \<Rightarrow> if cl < m then cl else m),
          if cl < 0 then max maxObst (- cl) else maxObst, if cl < 0 then blocked + 1 else blocked))"

definition computeLineOfSight :: "PublicRouteSegment \<Rightarrow> (js_number \<Rightarrow> js_number \<Rightarrow> js_number option) \<Rightarrow> js_number \<Rightarrow> LOSResult" where
  "computeLineOfSight segment terrain freq =
     (let p = arcEnd (sg_from segment); q = arcEnd (sg_to segment);
          distKm = (if 0 < sg_distanceKm segment then sg_distanceKm segment else routeEndpointDistanceKm p q)
      in if distKm \<le> 1 / 100
         then \<lparr>lo_clear = True, lo_confidence = 1, lo_minClearanceMeters = 0, lo_maxObstructionMeters = 0,
               lo_fresnelRadiusMeters = 0, lo_frequencyGHz = freq\<rparr>
         else let arc = sampleRouteArc p q \<lparr>ao_distanceKm = Some distKm, ao_minSamples = Some LOS_SAMPLES,
                    ao_maxSamples = Some LOS_SAMPLES, ao_heightScale = None\<rparr>;
                  fRad = fresnel (distKm * ar_progress (arc ! (length arc div 2))) freq;
                  (minClear, maxObst, blocked) = foldl losStep (None, 0, 0) (map (losClearance distKm freq terrain) arc);
                  clear = (blocked = 0);
                  confidence = (if clear
                    then clamp (6 / 10 + 4 / 10 * min 1 (or_else minClear 0 / max 1 (fRad * 3))) 0 1
                    else clamp (1 - real blocked / real (length arc)) 0 1)
              in \<lparr>lo_clear = clear, lo_confidence = confidence, lo_minClearanceMeters = or_else minClear 0,
                  lo_maxObstructionMeters = maxObst, lo_fresnelRadiusMeters = fRad, lo_frequencyGHz = freq\<rparr>)"

definition routeLOSColor :: "LOSResult \<Rightarrow> string \<times> js_number" where
  "routeLOSColor los =
     (if lo_clear los
      then if 85 / 100 < lo_confidence los then (''#22c55e'', 68 / 100)
           else if 6 / 10 < lo_confidence los then (''#84cc16'', 58 / 100) else (''#eab308'', 48 / 100)
      else if 5 / 10 < lo_confidence los then (''#f97316'', 44 / 100) else (''#ef4444'', 32 / 100))"

section \<open>Elevations\<close>

definition SAMPLE_ZOOM :: nat where "SAMPLE_ZOOM = 12"
definition TILE_SIZE :: int where "TILE_SIZE = 256"

definition elevationToMeters :: "nat \<times> nat \<times> nat \<Rightarrow> js_number" where
  "elevationToMeters pixel = (let (r, g, b) = pixel in real r * 256 + real g + real b / 256 - 32768)"

definition lngLatToTile :: "js_number \<Rightarrow> js_number \<Rightarrow> nat \<Rightarrow> js_number \<times> js_number" where
  "lngLatToTile lng lat zoom =
     (let n = 2 ^ zoom; latRad = lat * pi / 180
      in ((lng + 180) / 360 * n, (1 - ln (tan latRad + 1 / cos latRad) / pi) / 2 * n))"

record TileSample =
  ts_index :: nat
  ts_px :: int
  ts_py :: int

text \<open>The tile a point is on, by its key's two numbers, and the pixel in it.\<close>

definition tileSample :: "js_number \<times> js_number \<Rightarrow> nat \<Rightarrow> (int \<times> int) \<times> TileSample" where
  "tileSample point index =
     (let tile = lngLatToTile (fst point) (snd point) SAMPLE_ZOOM;
          tileX = \<lfloor>fst tile\<rfloor>; tileY = \<lfloor>snd tile\<rfloor>
      in ((tileX, tileY), \<lparr>ts_index = index,
            ts_px = min (TILE_SIZE - 1) (max 0 \<lfloor>(fst tile - of_int tileX) * of_int TILE_SIZE\<rfloor>),
            ts_py = min (TILE_SIZE - 1) (max 0 \<lfloor>(snd tile - of_int tileY) * of_int TILE_SIZE\<rfloor>)\<rparr>))"

definition groupTile ::
  "(int \<times> int, TileSample list) js_map \<Rightarrow> (int \<times> int) \<times> TileSample \<Rightarrow> (int \<times> int, TileSample list) js_map" where
  "groupTile groups entry =
     map_set (fst entry) (or_else (map_get groups (fst entry)) [] @ [snd entry]) groups"

type_synonym tile_image = "int \<Rightarrow> int \<Rightarrow> nat \<times> nat \<times> nat"

definition readTile :: "(int \<times> int \<Rightarrow> tile_image option) \<Rightarrow> js_number list \<Rightarrow> (int \<times> int) \<times> TileSample list \<Rightarrow> js_number list" where
  "readTile tiles elevations tileGroup =
     (case tiles (fst tileGroup) of None \<Rightarrow> elevations
      | Some pixels \<Rightarrow> foldl (\<lambda>es s. es[ts_index s := elevationToMeters (pixels (ts_px s) (ts_py s))]) elevations (snd tileGroup))"

definition samplePoints :: "js_number \<times> js_number \<Rightarrow> js_number \<times> js_number \<Rightarrow> nat \<Rightarrow> (js_number \<times> js_number) list" where
  "samplePoints p q numSamples =
     map (\<lambda>i. let t = real i / max 1 (real numSamples - 1) in (fst p + (fst q - fst p) * t, snd p + (snd q - snd p) * t)) [0..<numSamples]"

text \<open>The tiles arrive in some order \<open>arrival\<close> of the groups.\<close>

definition sampleElevationAlongRoute ::
  "(((int \<times> int) \<times> TileSample list) list \<Rightarrow> ((int \<times> int) \<times> TileSample list) list) \<Rightarrow> (int \<times> int \<Rightarrow> tile_image option) \<Rightarrow>
   js_number \<times> js_number \<Rightarrow> js_number \<times> js_number \<Rightarrow> nat \<Rightarrow> js_number list" where
  "sampleElevationAlongRoute arrival tiles p q requested =
     (let numSamples = (if requested < 2 then 2 else requested);
          points = samplePoints p q numSamples;
          groups = foldl groupTile [] (map (\<lambda>(i, point). tileSample point i) (List.enumerate 0 points))
      in foldl (readTile tiles) (replicate numSamples 0) (arrival groups))"

record ElevationSummary =
  es_min :: js_number
  es_max :: js_number
  es_avg :: js_number
  es_gain :: js_number
  es_loss :: js_number
  es_start :: js_number
  es_end :: js_number

definition summarizeElevation :: "js_number list \<Rightarrow> ElevationSummary" where
  "summarizeElevation elevations =
     (if elevations = [] then \<lparr>es_min = 0, es_max = 0, es_avg = 0, es_gain = 0, es_loss = 0, es_start = 0, es_end = 0\<rparr>
      else let steps = map (\<lambda>(a, b). b - a) (zip elevations (tl elevations))
           in \<lparr>es_min = foldl min (hd elevations) (tl elevations), es_max = foldl max (hd elevations) (tl elevations),
               es_avg = foldl (+) 0 elevations / real (length elevations),
               es_gain = foldl (\<lambda>gain diff. if 0 < diff then gain + diff else gain) 0 steps,
               es_loss = foldl (\<lambda>loss diff. if 0 < diff then loss else loss - diff) 0 steps,
               es_start = hd elevations, es_end = last elevations\<rparr>)"

end
