(* ===== verification/Payload_Visuals.thy ===== *)
theory Payload_Visuals
  imports Js_Sort Carto_Strings "HOL-Library.Word"
begin

text \<open>
  \<open>web/src/payloadVisuals.ts\<close>: the colour, the labels, the priority and the icon of a payload type. The icons
  belong to the asset pack that the build selects; they are an argument \<open>dots\<close> (\<open>routePacketDots\<close>). A field
  of \<open>PayloadVisual\<close> has the prefix \<open>pz\<close>. \<open>netgraphVisualModel.ts\<close> repeats \<open>normalizePayloadType\<close> and
  \<open>stableHash\<close> word by word; its model uses the ones here.
\<close>

section \<open>Names of payload types\<close>

text \<open>\<open>replace(/[p]+/g, r)\<close>: each run of characters that satisfy \<open>p\<close> becomes one \<open>r\<close>.\<close>

function collapse_runs :: "(char \<Rightarrow> bool) \<Rightarrow> char \<Rightarrow> string \<Rightarrow> string" where
  "collapse_runs p r [] = []"
| "collapse_runs p r (c # cs) = (if p c then r # collapse_runs p r (dropWhile p cs) else c # collapse_runs p r cs)"
  by pat_completeness auto
termination
  by (relation "measure (\<lambda>(p, r, cs). length cs)") (auto simp: less_Suc_eq_le length_dropWhile_le)

definition normalizePayloadType :: "string option \<Rightarrow> string" where
  "normalizePayloadType payloadTypeName =
     (let value = collapse_runs (\<lambda>c. is_space c \<or> c = CHR ''-'') CHR ''_'' (js_upper (js_trim (or_else payloadTypeName [])))
      in if value = [] \<or> value = ''UNKNOWN'' then ''OTHER''
         else if value = ''TEXT'' then ''PLAIN_TEXT''
         else if value = ''GROUP'' then ''GROUP_TEXT''
         else if value = ''RETURN_PATH'' \<or> value = ''PATH_RETURN'' \<or> value = ''PATH'' then ''RETURNED_PATH''
         else if value = ''TRACE_ROUTE'' \<or> value = ''TRACEROUTE'' then ''TRACE''
         else if value = ''COMMAND'' \<or> value = ''ADMIN'' \<or> value = ''NAK'' then ''CONTROL''
         else value)"

definition payloadHash :: "string \<Rightarrow> 32 word" where
  "payloadHash value = foldl (\<lambda>hash c. hash * 31 + word_of_nat (of_char c)) 0 value"

text \<open>\<open>s.split(c)\<close>, which gives one empty part for the empty string.\<close>

fun split_on :: "char \<Rightarrow> string \<Rightarrow> string list" where
  "split_on c [] = [[]]"
| "split_on c (x # xs) =
     (if x = c then [] # split_on c xs
      else (case split_on c xs of part # parts \<Rightarrow> (x # part) # parts | [] \<Rightarrow> [[x]]))"

definition is_lower_alnum :: "char \<Rightarrow> bool" where
  "is_lower_alnum c = (let n = of_char c :: nat in 48 \<le> n \<and> n \<le> 57 \<or> 97 \<le> n \<and> n \<le> 122)"

text \<open>\<open>replace(/^-|-$/g, '')\<close>.\<close>

definition strip_dashes :: "string \<Rightarrow> string" where
  "strip_dashes s =
     (let head = (case s of c # cs \<Rightarrow> if c = CHR ''-'' then cs else s | [] \<Rightarrow> [])
      in if head \<noteq> [] \<and> last head = CHR ''-'' then butlast head else head)"

definition slugifyPayload :: "string \<Rightarrow> string" where
  "slugifyPayload payloadTypeName =
     (let slug = strip_dashes (collapse_runs (\<lambda>c. \<not> is_lower_alnum c) CHR ''-'' (js_lower payloadTypeName))
      in if slug = [] then ''other'' else slug)"

definition titleCasePayload :: "string \<Rightarrow> string" where
  "titleCasePayload payloadTypeName =
     join '' '' (map (\<lambda>part. js_upper (take 1 part) @ drop 1 part)
       (filter (\<lambda>part. part \<noteq> []) (split_on CHR ''_'' (js_lower payloadTypeName))))"

definition shortPayloadLabel :: "string \<Rightarrow> string" where
  "shortPayloadLabel payloadTypeName =
     (if payloadTypeName = ''OTHER'' then ''OTH''
      else let parts = filter (\<lambda>part. part \<noteq> []) (split_on CHR ''_'' payloadTypeName)
           in if 1 < length parts then take 3 (concat (map (take 1) parts))
              else take 3 payloadTypeName)"

section \<open>Visuals\<close>

record PayloadVisualDefinition =
  pd_color :: string
  pd_label :: string
  pd_shortLabel :: string
  pd_description :: string
  pd_priority :: nat

record PayloadVisual =
  pz_color :: string
  pz_label :: string
  pz_shortLabel :: string
  pz_className :: string
  pz_description :: string
  pz_priority :: nat
  pz_icon :: "string option"

definition FALLBACK_COLORS :: "string list" where
  "FALLBACK_COLORS =
     [''#e2e8f0'', ''#7dd3fc'', ''#c084fc'', ''#f0abfc'', ''#facc15'', ''#fb7185'', ''#2dd4bf'', ''#a3e635'']"

definition PAYLOAD_VISUALS :: "(string, PayloadVisualDefinition) js_map" where
  "PAYLOAD_VISUALS =
     [(''ADVERT'', \<lparr>pd_color = ''#2dd4bf'', pd_label = ''Advert'', pd_shortLabel = ''ADV'',
        pd_description = ''Node adverts'', pd_priority = 10\<rparr>),
      (''PLAIN_TEXT'', \<lparr>pd_color = ''#38bdf8'', pd_label = ''Plain text'', pd_shortLabel = ''TXT'',
        pd_description = ''Flood text'', pd_priority = 20\<rparr>),
      (''GROUP_TEXT'', \<lparr>pd_color = ''#a78bfa'', pd_label = ''Group text'', pd_shortLabel = ''GRP'',
        pd_description = ''Group flood'', pd_priority = 30\<rparr>),
      (''GROUP_DATA'', \<lparr>pd_color = ''#c084fc'', pd_label = ''Group data'', pd_shortLabel = ''GRP'',
        pd_description = ''Group data'', pd_priority = 31\<rparr>),
      (''TRACE'', \<lparr>pd_color = ''#f59e0b'', pd_label = ''Trace'', pd_shortLabel = ''TRC'',
        pd_description = ''Trace path'', pd_priority = 40\<rparr>),
      (''RETURNED_PATH'', \<lparr>pd_color = ''#facc15'', pd_label = ''Returned path'', pd_shortLabel = ''RET'',
        pd_description = ''Returned path'', pd_priority = 41\<rparr>),
      (''REQUEST'', \<lparr>pd_color = ''#67e8f9'', pd_label = ''Request'', pd_shortLabel = ''REQ'',
        pd_description = ''Request/control'', pd_priority = 50\<rparr>),
      (''RESPONSE'', \<lparr>pd_color = ''#fde047'', pd_label = ''Response'', pd_shortLabel = ''RSP'',
        pd_description = ''Response/control'', pd_priority = 51\<rparr>),
      (''ACK'', \<lparr>pd_color = ''#a3e635'', pd_label = ''Ack'', pd_shortLabel = ''ACK'',
        pd_description = ''Acknowledgement'', pd_priority = 60\<rparr>),
      (''CONTROL'', \<lparr>pd_color = ''#fb7185'', pd_label = ''Control'', pd_shortLabel = ''CTL'',
        pd_description = ''Control traffic'', pd_priority = 70\<rparr>)]"

definition LEGEND_PAYLOADS :: "string list" where
  "LEGEND_PAYLOADS =
     [''ADVERT'', ''PLAIN_TEXT'', ''GROUP_TEXT'', ''TRACE'', ''RETURNED_PATH'', ''ACK'', ''CONTROL'', ''OTHER'']"

definition payloadIcon :: "(string, string) js_map \<Rightarrow> string \<Rightarrow> string option" where
  "payloadIcon dots normalized = or_opt (map_get dots normalized) (map_get dots ''OTHER'')"

definition payloadVisual :: "(string, string) js_map \<Rightarrow> string option \<Rightarrow> PayloadVisual" where
  "payloadVisual dots payloadTypeName =
     (let normalized = normalizePayloadType payloadTypeName
      in case map_get PAYLOAD_VISUALS normalized of
           Some known \<Rightarrow> \<lparr>pz_color = pd_color known, pz_label = pd_label known, pz_shortLabel = pd_shortLabel known,
             pz_className = ''payload-'' @ slugifyPayload normalized, pz_description = pd_description known,
             pz_priority = pd_priority known, pz_icon = payloadIcon dots normalized\<rparr>
         | None \<Rightarrow> \<lparr>pz_color = (if normalized = ''OTHER'' then FALLBACK_COLORS ! 0
               else FALLBACK_COLORS ! (unat (payloadHash normalized) mod length FALLBACK_COLORS)),
             pz_label = (if normalized = ''OTHER'' then ''Other'' else titleCasePayload normalized),
             pz_shortLabel = shortPayloadLabel normalized,
             pz_className = ''payload-'' @ slugifyPayload normalized,
             pz_description = (if normalized = ''OTHER'' then ''Other packets'' else titleCasePayload normalized),
             pz_priority = 900 + unat (payloadHash normalized) mod 100,
             pz_icon = payloadIcon dots normalized\<rparr>)"

text \<open>The colour does not depend on the icons of the asset pack.\<close>

definition payloadColor :: "string option \<Rightarrow> string" where
  "payloadColor payloadTypeName = pz_color (payloadVisual [] payloadTypeName)"

definition payloadLabel :: "(string, string) js_map \<Rightarrow> string option \<Rightarrow> string" where
  "payloadLabel dots payloadTypeName = pz_label (payloadVisual dots payloadTypeName)"

definition payloadLegendVisuals :: "(string, string) js_map \<Rightarrow> PayloadVisual list" where
  "payloadLegendVisuals dots = map (\<lambda>name. payloadVisual dots (Some name)) LEGEND_PAYLOADS"

definition comparePayloadVisuals :: "(string \<Rightarrow> string \<Rightarrow> js_number) \<Rightarrow> PayloadVisual \<Rightarrow> PayloadVisual \<Rightarrow> js_number" where
  "comparePayloadVisuals lc = then_by (by_asc (\<lambda>v. real (pz_priority v))) (by_key lc pz_label)"

definition payloadVisualsFor ::
  "(string \<Rightarrow> string \<Rightarrow> js_number) \<Rightarrow> (string, string) js_map \<Rightarrow> string list option \<Rightarrow> nat \<Rightarrow> PayloadVisual list" where
  "payloadVisualsFor lc dots payloadTypeNames limit =
     (let visuals = map_vals (new_map (map (\<lambda>name. (normalizePayloadType (Some name), payloadVisual dots (Some name)))
            (or_else payloadTypeNames [])))
      in take limit (js_sort (comparePayloadVisuals lc) visuals))"

definition hiddenPayloadCount :: "string list option \<Rightarrow> nat \<Rightarrow> nat" where
  "hiddenPayloadCount payloadTypeNames visibleCount =
     length (js_set (map (\<lambda>name. normalizePayloadType (Some name)) (or_else payloadTypeNames []))) - visibleCount"

section \<open>Chips\<close>

lemma payloadColor_icons [simp]: "pz_color (payloadVisual dots t) = payloadColor t"
  by (simp add: payloadColor_def payloadVisual_def Let_def split: option.split)

lemma payloadColor_not_Nil: "payloadColor t \<noteq> []"
proof -
  have known: "pd_color d \<noteq> []" if "map_of PAYLOAD_VISUALS n = Some d" for n d
    using map_of_SomeD [OF that] by (auto simp: PAYLOAD_VISUALS_def)
  have "c \<noteq> []" if "c \<in> set FALLBACK_COLORS" for c
    using that by (auto simp: FALLBACK_COLORS_def)
  moreover have "0 < length FALLBACK_COLORS" by (simp add: FALLBACK_COLORS_def)
  ultimately have fallback: "FALLBACK_COLORS ! (k mod length FALLBACK_COLORS) \<noteq> []" for k by (simp add: nth_mem)
  show ?thesis
    using known fallback fallback [of 0] by (auto simp: payloadColor_def payloadVisual_def Let_def split: option.split)
qed

lemma length_new_map: "length (new_map es) = length (js_set (map fst es))"
proof -
  have "map fst (foldl (\<lambda>m (k, v). map_set k v m) m es) = foldl (\<lambda>s x. set_add x s) (map fst m) (map fst es)" for m
    by (induction es arbitrary: m) (auto simp: map_set_keys)
  from this [of "[]"] have "map fst (new_map es) = js_set (map fst es)"
    by (simp add: new_map_def js_set_def case_prod_unfold)
  then show ?thesis by (metis length_map)
qed

lemma chips_add_up:
  "length (payloadVisualsFor lc dots names limit) + hiddenPayloadCount names (length (payloadVisualsFor lc dots names limit))
   = card ((normalizePayloadType \<circ> Some) ` set (or_else names []))"
proof -
  let ?ns = "map (\<lambda>name. normalizePayloadType (Some name)) (or_else names [])"
  have "length (js_set ?ns) = card (set (js_set ?ns))" by (simp only: distinct_card [OF distinct_js_set])
  then have d: "length (js_set ?ns) = card ((normalizePayloadType \<circ> Some) ` set (or_else names []))"
    by (simp add: comp_def)
  show ?thesis
    by (simp add: payloadVisualsFor_def hiddenPayloadCount_def Let_def length_new_map comp_def d [unfolded comp_def])
qed

end
