(* ===== verification/Route_Source.thy ===== *)
theory Route_Source
  imports Route_Arcs Js_Sort Payload_Visuals
begin

text \<open>
  \<open>map/nodeFocus.ts\<close>, \<open>map/routeSource.ts\<close> and \<open>map/analysisRoutes.ts\<close>: what the selection brings into focus, the
  features of the routes, of the glow a packet leaves on its routes and of the analysed routes, and the signatures
  by which the map skips an update. A set is a list in insertion order, \<open>num\<close> is \<open>String(x)\<close> on numbers, and a
  colour looked up at an index that is no element is undefined.
\<close>

section \<open>Focus\<close>

record NodeFocus =
  nf_selectedNodeID :: "string option"
  nf_neighbourNodeIDs :: "string list"
  nf_connectedRouteIDs :: "string list"
  nf_neighbourDistanceKmByNodeID :: "(string, js_number) js_map"
  nf_pathNodeIDs :: "string list"
  nf_pathRouteIDs :: "string list"

definition truthy_str :: "string option \<Rightarrow> bool" where
  "truthy_str s \<longleftrightarrow> s \<noteq> None \<and> s \<noteq> Some []"

definition neighbourOf :: "string \<Rightarrow> PublicRoute \<Rightarrow> string" where
  "neighbourOf nodeID route =
     (if ep_nodeId (rt_from route) = nodeID then ep_nodeId (rt_to route)
      else if ep_nodeId (rt_to route) = nodeID then ep_nodeId (rt_from route) else [])"

definition focusRoute :: "string \<Rightarrow> NodeFocus \<Rightarrow> PublicRoute \<Rightarrow> NodeFocus" where
  "focusRoute nodeID focus route =
     (let neighbourID = neighbourOf nodeID route
      in if neighbourID = [] then focus
         else let existing = map_get (nf_neighbourDistanceKmByNodeID focus) neighbourID
              in focus\<lparr>nf_connectedRouteIDs := set_add (rt_id route) (nf_connectedRouteIDs focus),
                   nf_neighbourNodeIDs := set_add neighbourID (nf_neighbourNodeIDs focus),
                   nf_neighbourDistanceKmByNodeID :=
                     (if existing = None \<or> rt_distanceKm route < the existing
                      then map_set neighbourID (rt_distanceKm route) (nf_neighbourDistanceKmByNodeID focus)
                      else nf_neighbourDistanceKmByNodeID focus)\<rparr>)"

definition nodeFocusFromRoutes :: "string option \<Rightarrow> PublicRoute list \<Rightarrow> string list \<Rightarrow> string list \<Rightarrow> NodeFocus" where
  "nodeFocusFromRoutes selectedNodeID routes highlightedPathRouteIDs highlightedPathNodeIDs =
     (let blank = \<lparr>nf_selectedNodeID = None, nf_neighbourNodeIDs = [], nf_connectedRouteIDs = [],
            nf_neighbourDistanceKmByNodeID = [], nf_pathNodeIDs = js_set highlightedPathNodeIDs,
            nf_pathRouteIDs = js_set highlightedPathRouteIDs\<rparr>
      in if \<not> truthy_str selectedNodeID then blank
         else foldl (focusRoute (the selectedNodeID)) (blank\<lparr>nf_selectedNodeID := selectedNodeID\<rparr>) routes)"

definition emptyNodeFocus :: NodeFocus where
  "emptyNodeFocus = nodeFocusFromRoutes None [] [] []"

section \<open>Colours and freshness\<close>

datatype RouteThemeMode = DarkTheme | LightTheme

fun theme_name :: "RouteThemeMode \<Rightarrow> string" where
  "theme_name DarkTheme = ''dark''"
| "theme_name LightTheme = ''light''"

datatype RouteHighlight = SelectedRoute | PathRoute | ConnectedRoute

definition routeColors :: "string list" where
  "routeColors = [''#2563eb'', ''#06b6d4'', ''#2dd4bf'', ''#facc15'', ''#fb7185'']"

definition lightRouteColors :: "string list" where
  "lightRouteColors = [''#1d4ed8'', ''#0f766e'', ''#047857'', ''#b45309'', ''#be123c'']"

definition ROUTE_FRESH_MS :: js_number where "ROUTE_FRESH_MS = 15 * 60000"
definition ROUTE_RECENT_MS :: js_number where "ROUTE_RECENT_MS = 60 * 60000"
definition ROUTE_KNOWN_MS :: js_number where "ROUTE_KNOWN_MS = 6 * 60 * 60000"

definition element_at :: "'a list \<Rightarrow> js_number \<Rightarrow> 'a option" where
  "element_at xs i = (if is_integer i \<and> 0 \<le> i \<and> i < real (length xs) then Some (xs ! nat \<lfloor>i\<rfloor>) else None)"

definition routeColorForBucket :: "js_number \<Rightarrow> RouteThemeMode \<Rightarrow> string option" where
  "routeColorForBucket bucket themeMode =
     (let colors = (if themeMode = LightTheme then lightRouteColors else routeColors)
      in element_at colors (clampRange bucket 0 (real (length colors) - 1)))"

fun routeHighlightColor :: "RouteHighlight \<Rightarrow> RouteThemeMode \<Rightarrow> string" where
  "routeHighlightColor kind LightTheme =
     (if kind = SelectedRoute then ''#0f172a'' else if kind = PathRoute then ''#9a3412'' else ''#0369a1'')"
| "routeHighlightColor kind DarkTheme =
     (if kind = SelectedRoute then ''#f8fafc'' else if kind = PathRoute then ''#facc15'' else ''#67e8f9'')"

definition routeDisplayColor :: "PublicRoute \<Rightarrow> bool \<Rightarrow> bool \<Rightarrow> bool \<Rightarrow> RouteThemeMode \<Rightarrow> string option" where
  "routeDisplayColor route isSelected isPath isConnected themeMode =
     (if isSelected then Some (routeHighlightColor SelectedRoute themeMode)
      else if isPath then Some (routeHighlightColor PathRoute themeMode)
      else if isConnected then Some (routeHighlightColor ConnectedRoute themeMode)
      else routeColorForBucket (rt_frequencyBucket route) themeMode)"

definition routeFreshnessLevel :: "js_number \<Rightarrow> js_number \<Rightarrow> nat" where
  "routeFreshnessLevel lastHeard now =
     (if lastHeard \<le> 0 then 3
      else let age = max 0 (now - lastHeard)
           in if age \<le> ROUTE_FRESH_MS then 0 else if age \<le> ROUTE_RECENT_MS then 1 else if age \<le> ROUTE_KNOWN_MS then 2 else 3)"

definition routeFreshnessOpacity :: "js_number \<Rightarrow> js_number \<Rightarrow> js_number" where
  "routeFreshnessOpacity lastHeard now =
     (let level = routeFreshnessLevel lastHeard now
      in if level = 0 then 1 else if level = 1 then 78 / 100 else if level = 2 then 54 / 100 else 34 / 100)"

definition roundVisual :: "js_number \<Rightarrow> js_number" where
  "roundVisual value = js_round (value * 100) / 100"

definition routeActivityWidth :: "PublicRoute \<Rightarrow> js_number \<Rightarrow> js_number" where
  "routeActivityWidth route now =
     (let bucket = clampRange (rt_frequencyBucket route) 0 4; freshness = routeFreshnessLevel (rt_lastHeard route) now;
          bucketWidth = 155 / 100 + bucket * (62 / 100);
          freshnessScale = [172 / 100, 126 / 100, 82 / 100, 5 / 10] ! freshness
      in roundVisual (bucketWidth * freshnessScale))"

definition routeActivityOpacity :: "PublicRoute \<Rightarrow> js_number \<Rightarrow> js_number" where
  "routeActivityOpacity route now =
     (let bucket = clampRange (rt_frequencyBucket route) 0 4; freshness = routeFreshnessOpacity (rt_lastHeard route) now
      in roundVisual (min (82 / 100) ((28 / 100 + bucket * (12 / 100)) * freshness)))"

definition routePayloadGlowWidth :: "PublicRoute \<Rightarrow> js_number \<Rightarrow> js_number" where
  "routePayloadGlowWidth route now =
     (let bucket = clampRange (rt_frequencyBucket route) 0 4; freshness = routeFreshnessLevel (rt_lastHeard route) now;
          freshnessBoost = (if freshness = 0 then 124 / 100 else if freshness = 1 then 1 else 72 / 100)
      in roundVisual ((8 + bucket * 2) * freshnessBoost))"

section \<open>Features of the routes\<close>

record 'p LineFeature =
  lf_id :: string
  lf_properties :: 'p
  lf_coordinates :: "(js_number \<times> js_number) list"

record RouteProperties =
  rf_id :: string
  rf_color :: "string option"
  rf_selected :: bool
  rf_path :: bool
  rf_connected :: bool
  rf_dimmed :: bool
  rf_freshnessLevel :: nat
  rf_freshnessOpacity :: js_number
  rf_routeWidth :: js_number
  rf_routeOpacity :: js_number

definition hasFocusedRoute :: "string option \<Rightarrow> NodeFocus \<Rightarrow> bool" where
  "hasFocusedRoute selectedRouteID focus \<longleftrightarrow>
     truthy_str selectedRouteID \<or> truthy_str (nf_selectedNodeID focus) \<or> nf_pathRouteIDs focus \<noteq> []"

definition routeLine :: "PublicRoute \<Rightarrow> (js_number \<times> js_number) list" where
  "routeLine route = routeArcCoordinates (arcEnd (rt_from route)) (arcEnd (rt_to route)) (arcDistance (rt_distanceKm route))"

definition routeFeature ::
  "string option \<Rightarrow> NodeFocus \<Rightarrow> js_number \<Rightarrow> RouteThemeMode \<Rightarrow> PublicRoute \<Rightarrow> RouteProperties LineFeature" where
  "routeFeature selectedRouteID focus now themeMode route =
     (let selected = (Some (rt_id route) = selectedRouteID); connected = (rt_id route \<in> set (nf_connectedRouteIDs focus));
          path = (rt_id route \<in> set (nf_pathRouteIDs focus))
      in \<lparr>lf_id = rt_id route,
          lf_properties = \<lparr>rf_id = rt_id route, rf_color = routeDisplayColor route selected path connected themeMode,
            rf_selected = selected, rf_path = path, rf_connected = connected,
            rf_dimmed = hasFocusedRoute selectedRouteID focus \<and> \<not> selected \<and> \<not> path \<and> \<not> connected,
            rf_freshnessLevel = routeFreshnessLevel (rt_lastHeard route) now,
            rf_freshnessOpacity = routeFreshnessOpacity (rt_lastHeard route) now,
            rf_routeWidth = routeActivityWidth route now, rf_routeOpacity = routeActivityOpacity route now\<rparr>,
          lf_coordinates = routeLine route\<rparr>)"

definition mappableRoute :: "PublicRoute \<Rightarrow> bool" where
  "mappableRoute route \<longleftrightarrow> isMappableEndpoint (rt_from route) \<and> isMappableEndpoint (rt_to route)"

definition routesToGeoJSON ::
  "PublicRoute list \<Rightarrow> string option \<Rightarrow> NodeFocus \<Rightarrow> js_number \<Rightarrow> RouteThemeMode \<Rightarrow> RouteProperties LineFeature list" where
  "routesToGeoJSON routes selectedRouteID focus now themeMode =
     map (routeFeature selectedRouteID focus now themeMode) (filter mappableRoute routes)"

definition stableSetSignature :: "string list \<Rightarrow> string" where
  "stableSetSignature values = join '','' (sort_strings values)"

definition routeRenderIdentity :: "(js_number \<Rightarrow> string) \<Rightarrow> js_number \<Rightarrow> PublicRoute \<Rightarrow> string" where
  "routeRenderIdentity num now route = join '':''
     [rt_id route, num (rt_frequencyBucket route), show_nat (routeFreshnessLevel (rt_lastHeard route) now),
      ep_nodeId (rt_from route), num (ep_lat (rt_from route)), num (ep_lng (rt_from route)),
      ep_nodeId (rt_to route), num (ep_lat (rt_to route)), num (ep_lng (rt_to route))]"

definition routeSourceSignature ::
  "(js_number \<Rightarrow> string) \<Rightarrow> PublicRoute list \<Rightarrow> string option \<Rightarrow> NodeFocus \<Rightarrow> js_number \<Rightarrow> string" where
  "routeSourceSignature num routes selectedRouteID focus now = join ''~''
     [or_else selectedRouteID [], or_else (nf_selectedNodeID focus) [], stableSetSignature (nf_connectedRouteIDs focus),
      stableSetSignature (nf_pathRouteIDs focus), join ''|'' (sort_strings (map (routeRenderIdentity num now) routes))]"

definition routeColorSignature :: "(js_number \<Rightarrow> string) \<Rightarrow> PublicRoute list \<Rightarrow> string" where
  "routeColorSignature num routes = join ''|''
     (sort_strings (map (\<lambda>route. rt_id route @ '':'' @ num (clampRange (rt_frequencyBucket route) 0 4)) routes))"

section \<open>The glow of a packet on its routes\<close>

record RoutePayloadGlow =
  rg_color :: string
  rg_startedAt :: js_number
  rg_expiresAt :: js_number

record GlowProperties =
  gp_id :: string
  gp_color :: string
  gp_opacity :: js_number
  gp_glowWidth :: js_number

definition ROUTE_PAYLOAD_GLOW_MS :: js_number where "ROUTE_PAYLOAD_GLOW_MS = 5200"

definition routePayloadGlowIntensity :: "RoutePayloadGlow \<Rightarrow> js_number \<Rightarrow> js_number" where
  "routePayloadGlowIntensity glow now =
     (let duration = max 1 (rg_expiresAt glow - rg_startedAt glow);
          progress = clampRange ((now - rg_startedAt glow) / duration) 0 1
      in (1 - progress) powr (72 / 100))"

definition glowEnded :: "js_number \<Rightarrow> js_number \<Rightarrow> RoutePayloadGlow \<Rightarrow> bool" where
  "glowEnded now minIntensity glow \<longleftrightarrow> rg_expiresAt glow \<le> now \<or> routePayloadGlowIntensity glow now \<le> minIntensity"

text \<open>The glows that are left, and their number.\<close>

definition pruneRoutePayloadGlows ::
  "js_number \<Rightarrow> js_number \<Rightarrow> (string, RoutePayloadGlow) js_map \<Rightarrow> nat \<times> (string, RoutePayloadGlow) js_map" where
  "pruneRoutePayloadGlows now minIntensity glows =
     foldl (\<lambda>(active, left) (routeID, glow).
        if glowEnded now minIntensity glow then (active, map_del routeID left) else (active + 1, left)) (0, glows) glows"

definition glowFeature ::
  "(string, PublicRoute) js_map \<Rightarrow> string option \<Rightarrow> NodeFocus \<Rightarrow> js_number \<Rightarrow> string \<times> RoutePayloadGlow \<Rightarrow> GlowProperties LineFeature list" where
  "glowFeature routeByID selectedRouteID focus now entry =
     (let (routeID, glow) = entry
      in case map_get routeByID routeID of None \<Rightarrow> []
        | Some route \<Rightarrow>
            if \<not> mappableRoute route then []
            else let intensity = routePayloadGlowIntensity glow now
                 in if intensity \<le> 1 / 100 then []
                    else let selected = (Some routeID = selectedRouteID); connected = (routeID \<in> set (nf_connectedRouteIDs focus));
                             path = (routeID \<in> set (nf_pathRouteIDs focus));
                             dimmed = (hasFocusedRoute selectedRouteID focus \<and> \<not> selected \<and> \<not> path \<and> \<not> connected)
                         in [\<lparr>lf_id = routeID,
                              lf_properties = \<lparr>gp_id = routeID, gp_color = rg_color glow,
                                gp_opacity = intensity * (if dimmed then 2 / 10 else 58 / 100),
                                gp_glowWidth = routePayloadGlowWidth route now\<rparr>,
                              lf_coordinates = routeLine route\<rparr>])"

definition routePayloadGlowsToGeoJSON ::
  "PublicRoute list \<Rightarrow> (string, RoutePayloadGlow) js_map \<Rightarrow> string option \<Rightarrow> NodeFocus \<Rightarrow> js_number \<Rightarrow> GlowProperties LineFeature list" where
  "routePayloadGlowsToGeoJSON routes glows selectedRouteID focus now =
     concat (map (glowFeature (new_map (map (\<lambda>route. (rt_id route, route)) routes)) selectedRouteID focus now) glows)"

definition addPulseRoutePayloadGlow ::
  "js_number \<Rightarrow> (string, RoutePayloadGlow) js_map \<Rightarrow> PublicRoutePulse \<Rightarrow> (string, RoutePayloadGlow) js_map" where
  "addPulseRoutePayloadGlow now glows pulse =
     (let color = payloadColor (Some (rp_payloadTypeName pulse));
          routeIDs = js_set (filter (\<lambda>i. i \<noteq> []) (map sg_routeId (rp_segments pulse)))
      in foldl (\<lambda>m routeID. map_set routeID \<lparr>rg_color = color, rg_startedAt = now, rg_expiresAt = now + ROUTE_PAYLOAD_GLOW_MS\<rparr> m)
           glows routeIDs)"

section \<open>The analysed routes\<close>

record AnalysisProperties =
  ap_id :: string
  ap_color :: "string option"
  ap_opacity :: js_number
  ap_glowOpacity :: js_number

definition analysisLine :: "string \<Rightarrow> (js_number \<times> js_number) list \<Rightarrow> string option \<Rightarrow> js_number \<Rightarrow> js_number \<Rightarrow> AnalysisProperties LineFeature" where
  "analysisLine i coordinates color opacity glowOpacity =
     \<lparr>lf_id = i, lf_properties = \<lparr>ap_id = i, ap_color = color, ap_opacity = opacity, ap_glowOpacity = glowOpacity\<rparr>,
      lf_coordinates = coordinates\<rparr>"

definition analysisRouteIDs :: "string option \<Rightarrow> NodeFocus \<Rightarrow> string list" where
  "analysisRouteIDs selectedRouteID focus =
     (let routeIDs = js_set (nf_pathRouteIDs focus @ nf_connectedRouteIDs focus)
      in if truthy_str selectedRouteID then set_add (the selectedRouteID) routeIDs else routeIDs)"

definition analysisRouteFeature :: "string option \<Rightarrow> NodeFocus \<Rightarrow> RouteThemeMode \<Rightarrow> PublicRoute \<Rightarrow> AnalysisProperties LineFeature" where
  "analysisRouteFeature selectedRouteID focus themeMode route =
     (let path = (rt_id route \<in> set (nf_pathRouteIDs focus)); selected = (Some (rt_id route) = selectedRouteID);
          connected = (rt_id route \<in> set (nf_connectedRouteIDs focus))
      in analysisLine (rt_id route) (routeLine route) (routeDisplayColor route selected path connected themeMode)
           (if selected then 96 / 100 else if path then 9 / 10 else 72 / 100)
           (if selected then 34 / 100 else if path then 28 / 100 else 18 / 100))"

definition analysisSegmentFeature :: "RouteThemeMode \<Rightarrow> nat \<times> PublicRouteSegment \<Rightarrow> AnalysisProperties LineFeature" where
  "analysisSegmentFeature themeMode entry =
     (let (index, segment) = entry
      in analysisLine (''packet-'' @ sg_routeId segment @ ''-'' @ show_nat index)
           (routeArcCoordinates (arcEnd (sg_from segment)) (arcEnd (sg_to segment)) (arcDistance (sg_distanceKm segment)))
           (Some (routeHighlightColor PathRoute themeMode)) (94 / 100) (32 / 100))"

definition analysisRoutesToGeoJSON ::
  "PublicRoute list \<Rightarrow> string option \<Rightarrow> NodeFocus \<Rightarrow> PublicRouteSegment list \<Rightarrow> RouteThemeMode \<Rightarrow> AnalysisProperties LineFeature list" where
  "analysisRoutesToGeoJSON routes selectedRouteID focus analysisSegments themeMode =
     map (analysisRouteFeature selectedRouteID focus themeMode)
       (filter (\<lambda>route. rt_id route \<in> set (analysisRouteIDs selectedRouteID focus)) routes) @
     map (analysisSegmentFeature themeMode)
       (filter (\<lambda>(index, segment). isMappableEndpoint (sg_from segment) \<and> isMappableEndpoint (sg_to segment))
         (enumerate 0 analysisSegments))"

definition lineIdentity :: "string \<Rightarrow> PublicRouteEndpoint \<Rightarrow> PublicRouteEndpoint \<Rightarrow> string" where
  "lineIdentity i p q = i @ '':'' @ to_fixed 4 (ep_lat p) @ '','' @ to_fixed 4 (ep_lng p) @ ''>'' @
     to_fixed 4 (ep_lat q) @ '','' @ to_fixed 4 (ep_lng q)"

definition analysisRouteSignature ::
  "PublicRoute list \<Rightarrow> string option \<Rightarrow> NodeFocus \<Rightarrow> PublicRouteSegment list \<Rightarrow> string" where
  "analysisRouteSignature routes selectedRouteID focus analysisSegments =
     or_else selectedRouteID [] @ ''|'' @
     join '';'' (sort_strings (map (\<lambda>route. lineIdentity (rt_id route) (rt_from route) (rt_to route))
       (filter (\<lambda>route. rt_id route \<in> set (analysisRouteIDs selectedRouteID focus)) routes))) @ ''|'' @
     join '';'' (sort_strings (map (\<lambda>segment. lineIdentity (sg_routeId segment) (sg_from segment) (sg_to segment)) analysisSegments))"

end
