(* ===== verification/Style_Registry.thy ===== *)
theory Style_Registry
  imports Js_Value
begin

text \<open>
  \<open>web/src/map/styles/styleRegistry.ts\<close>: the profiles of the base map. Of a profile the properties the
  code computes with are kept; its label, description, source label and style document are only
  displayed.
\<close>

section \<open>Profiles\<close>

datatype MapStyleProfileID =
    ClassicDark
  | ClassicLight
  | OpenFreeMapDark
  | OpenFreeMapLight
  | OpenFreeMapPositron
  | OpenFreeMapLiberty
  | OpenFreeMapFiord
  | OpenFreeMap3D
  | TopoRF
  | NOC
  | OfflinePMTiles
  | FieldOffline
  | Accessibility
  | LowBandwidth

fun profile_name :: "MapStyleProfileID \<Rightarrow> string" where
  "profile_name ClassicDark = ''classic-dark''"
| "profile_name ClassicLight = ''classic-light''"
| "profile_name OpenFreeMapDark = ''openfreemap-dark''"
| "profile_name OpenFreeMapLight = ''openfreemap-light''"
| "profile_name OpenFreeMapPositron = ''openfreemap-positron''"
| "profile_name OpenFreeMapLiberty = ''openfreemap-liberty''"
| "profile_name OpenFreeMapFiord = ''openfreemap-fiord''"
| "profile_name OpenFreeMap3D = ''openfreemap-3d''"
| "profile_name TopoRF = ''topo-rf''"
| "profile_name NOC = ''noc''"
| "profile_name OfflinePMTiles = ''offline-pmtiles''"
| "profile_name FieldOffline = ''field-offline''"
| "profile_name Accessibility = ''accessibility''"
| "profile_name LowBandwidth = ''low-bandwidth''"

datatype BaseMode = BaseRaster | BaseVector | BasePmtiles
datatype ProfileTheme = ThemeDark | ThemeLight | ThemeNoc | ThemeTopo
datatype TerrainPresentation = Flat | Hillshade | Topographic

record MapStyleProfile =
  sp_id :: MapStyleProfileID
  sp_baseMode :: BaseMode
  sp_theme :: ProfileTheme
  sp_defaultPitch :: js_number
  sp_defaultBearing :: js_number
  sp_supportsTerrain :: bool
  sp_terrainDefault :: bool
  sp_terrainPresentation :: TerrainPresentation
  sp_supports3D :: bool
  sp_supportsOffline :: bool
  sp_lowBandwidth :: bool

definition MAP_STYLE_PROFILES :: "MapStyleProfile list" where
  "MAP_STYLE_PROFILES = [
     MapStyleProfile.make ClassicDark BaseRaster ThemeDark 0 0 True False Hillshade False False False,
     MapStyleProfile.make ClassicLight BaseRaster ThemeLight 0 0 True False Hillshade False False False,
     MapStyleProfile.make OpenFreeMapDark BaseVector ThemeDark 50 (-18) True False Hillshade True False False,
     MapStyleProfile.make OpenFreeMapLight BaseVector ThemeLight 50 (-18) True False Hillshade True False False,
     MapStyleProfile.make OpenFreeMapPositron BaseVector ThemeLight 42 (-12) True False Hillshade True False False,
     MapStyleProfile.make OpenFreeMapLiberty BaseVector ThemeLight 46 (-14) True False Hillshade True False False,
     MapStyleProfile.make OpenFreeMapFiord BaseVector ThemeDark 46 (-14) True False Hillshade True False False,
     MapStyleProfile.make OpenFreeMap3D BaseVector ThemeDark 62 (-24) True True Hillshade True False False,
     MapStyleProfile.make TopoRF BaseVector ThemeTopo 38 0 True True Topographic True True False,
     MapStyleProfile.make NOC BaseRaster ThemeNoc 0 0 True False Hillshade False False True,
     MapStyleProfile.make OfflinePMTiles BasePmtiles ThemeTopo 0 0 True False Hillshade False True True,
     MapStyleProfile.make FieldOffline BasePmtiles ThemeTopo 0 0 True False Hillshade False True True,
     MapStyleProfile.make Accessibility BaseRaster ThemeLight 0 0 True False Hillshade False False False,
     MapStyleProfile.make LowBandwidth BaseRaster ThemeDark 0 0 False False Flat False True True]"

section \<open>Operations\<close>

definition mapStyleProfileByID :: "string option \<Rightarrow> MapStyleProfileID \<Rightarrow> MapStyleProfile" where
  "mapStyleProfileByID pid fallback =
     or_else (find (\<lambda>profile. Some (profile_name (sp_id profile)) = pid) MAP_STYLE_PROFILES)
       (the (find (\<lambda>profile. sp_id profile = fallback) MAP_STYLE_PROFILES))"

definition publicStyleProfileIDs :: "MapStyleProfileID list" where
  "publicStyleProfileIDs = map sp_id MAP_STYLE_PROFILES"

text \<open>\<open>indexOf\<close> of an element that is there.\<close>

fun index_of :: "'a \<Rightarrow> 'a list \<Rightarrow> nat" where
  "index_of x [] = 0"
| "index_of x (y # ys) = (if x = y then 0 else Suc (index_of x ys))"

definition nextStyleProfileID :: "string option \<Rightarrow> MapStyleProfileID" where
  "nextStyleProfileID pid =
     (let ids = publicStyleProfileIDs; index = index_of (sp_id (mapStyleProfileByID pid ClassicDark)) ids
      in ids ! ((index + 1) mod length ids))"

definition styleProfileSupports3D :: "string option \<Rightarrow> bool" where
  "styleProfileSupports3D pid = sp_supports3D (mapStyleProfileByID pid ClassicDark)"

section \<open>Lemmas\<close>

lemma profile_name_inj [simp]: "profile_name a = profile_name b \<longleftrightarrow> a = b"
  by (cases a; cases b) simp_all

lemma profile_found: "\<exists>p. find (\<lambda>profile. sp_id profile = i) MAP_STYLE_PROFILES = Some p \<and> sp_id p = i"
  by (cases i) (simp_all add: MAP_STYLE_PROFILES_def MapStyleProfile.defs)

lemma mapStyleProfileByID_name [simp]: "sp_id (mapStyleProfileByID (Some (profile_name i)) f) = i"
proof -
  obtain p where "find (\<lambda>profile. sp_id profile = i) MAP_STYLE_PROFILES = Some p" "sp_id p = i"
    using profile_found by blast
  then show ?thesis by (simp add: mapStyleProfileByID_def)
qed

lemma mapStyleProfileByID_unknown:
  assumes "\<And>i. pid \<noteq> Some (profile_name i)"
  shows "sp_id (mapStyleProfileByID pid f) = f"
proof -
  have "find (\<lambda>profile. Some (profile_name (sp_id profile)) = pid) MAP_STYLE_PROFILES = None"
    using assms by (metis (mono_tags, lifting) find_None_iff2)
  moreover obtain p where "find (\<lambda>profile. sp_id profile = f) MAP_STYLE_PROFILES = Some p" "sp_id p = f"
    using profile_found by blast
  ultimately show ?thesis by (simp add: mapStyleProfileByID_def)
qed

lemma profile_ids: "publicStyleProfileIDs = [ClassicDark, ClassicLight, OpenFreeMapDark, OpenFreeMapLight,
    OpenFreeMapPositron, OpenFreeMapLiberty, OpenFreeMapFiord, OpenFreeMap3D, TopoRF, NOC, OfflinePMTiles,
    FieldOffline, Accessibility, LowBandwidth]"
  by (simp add: publicStyleProfileIDs_def MAP_STYLE_PROFILES_def MapStyleProfile.defs)

lemma next_style_step: "nextStyleProfileID (Some (profile_name i)) =
    publicStyleProfileIDs ! ((index_of i publicStyleProfileIDs + 1) mod length publicStyleProfileIDs)"
  by (simp add: nextStyleProfileID_def Let_def)

text \<open>
  The registry has every profile exactly once, and the key that selects the next profile goes round:
  from any profile, fourteen steps visit each profile once and end where they started.
\<close>

lemma next_style_goes_round:
  "distinct publicStyleProfileIDs \<and> set publicStyleProfileIDs = UNIV \<and>
   (let visit = \<lambda>n. ((\<lambda>i. nextStyleProfileID (Some (profile_name i))) ^^ n) i
    in visit 14 = i \<and> (\<lambda>n. visit n) ` {..<14} = UNIV)"
proof -
  have u: "set publicStyleProfileIDs = UNIV"
    unfolding profile_ids using MapStyleProfileID.exhaust by auto
  have d: "distinct publicStyleProfileIDs" by (simp add: profile_ids)
  let ?n = "\<lambda>i. nextStyleProfileID (Some (profile_name i))"
  have step: "?n ClassicDark = ClassicLight" "?n ClassicLight = OpenFreeMapDark" "?n OpenFreeMapDark = OpenFreeMapLight"
    "?n OpenFreeMapLight = OpenFreeMapPositron" "?n OpenFreeMapPositron = OpenFreeMapLiberty"
    "?n OpenFreeMapLiberty = OpenFreeMapFiord" "?n OpenFreeMapFiord = OpenFreeMap3D" "?n OpenFreeMap3D = TopoRF"
    "?n TopoRF = NOC" "?n NOC = OfflinePMTiles" "?n OfflinePMTiles = FieldOffline" "?n FieldOffline = Accessibility"
    "?n Accessibility = LowBandwidth" "?n LowBandwidth = ClassicDark"
    unfolding next_style_step profile_ids by simp_all
  have s: "{..<14} = {0, 1, 2, 3, 4, 5, 6, 7, 8, 9, 10, 11, 12, 13 :: nat}"
    by (simp add: numeral_eq_Suc lessThan_Suc insert_commute)
  have v: "(?n ^^ 14) i = i" by (cases i) (simp_all add: numeral_eq_Suc step del: profile_name.simps)
  have "(\<lambda>n. (?n ^^ n) i) ` {..<14} = set publicStyleProfileIDs"
    unfolding s profile_ids
    by (cases i) (simp_all add: numeral_eq_Suc step insert_commute del: profile_name.simps)
  then show ?thesis using u d v by (simp add: Let_def)
qed

end
