(* ===== verification/Map_Settings.thy ===== *)
theory Map_Settings
  imports Style_Registry Carto_Types
begin

text \<open>
  \<open>web/src/mapSettings.ts\<close>: the settings of the map, their normalization from values of unknown type, their
  storage with the migrations of older schema versions, and the presets and modes. A string union is a
  datatype with the name of each literal (\<open>mode_name\<close> and so on); the guards \<open>isMapModeID\<close> and so on
  return the literal they recognise. What the browser's storage holds is a value after \<open>JSON.parse\<close>, or
  one of the ways in which there is none. The labels and hints of presets and modes are only displayed.
\<close>

section \<open>Settings\<close>

datatype RenderQuality = Smooth | Balanced | High
datatype NodeModelStyle = RoleTowers | SignalBeacons | MinimalPins
datatype MapModeID = Watch | Explore | Terrain | Studio
datatype MapLayerPresetID = LivePreset | CleanPreset | AnalysisPreset | Preset3D

fun style_name :: "PacketAnimationStyle \<Rightarrow> string" where
  "style_name Comet = ''comet''"
| "style_name Pulse = ''pulse''"
| "style_name Minimal = ''minimal''"

fun quality_name :: "RenderQuality \<Rightarrow> string" where
  "quality_name Smooth = ''smooth''"
| "quality_name Balanced = ''balanced''"
| "quality_name High = ''high''"

fun model_name :: "NodeModelStyle \<Rightarrow> string" where
  "model_name RoleTowers = ''role-towers''"
| "model_name SignalBeacons = ''signal-beacons''"
| "model_name MinimalPins = ''minimal-pins''"

fun mode_name :: "MapModeID \<Rightarrow> string" where
  "mode_name Watch = ''watch''"
| "mode_name Explore = ''explore''"
| "mode_name Terrain = ''terrain''"
| "mode_name Studio = ''studio''"

definition literal_of :: "('a \<Rightarrow> string) \<Rightarrow> 'a list \<Rightarrow> js_value \<Rightarrow> 'a option" where
  "literal_of nm xs v = (case v of JString s \<Rightarrow> find (\<lambda>x. nm x = s) xs | _ \<Rightarrow> None)"

definition isPacketAnimationStyle :: "js_value \<Rightarrow> PacketAnimationStyle option" where
  "isPacketAnimationStyle = literal_of style_name [Comet, Pulse, Minimal]"

definition isRenderQuality :: "js_value \<Rightarrow> RenderQuality option" where
  "isRenderQuality = literal_of quality_name [Smooth, Balanced, High]"

definition isNodeModelStyle :: "js_value \<Rightarrow> NodeModelStyle option" where
  "isNodeModelStyle = literal_of model_name [RoleTowers, SignalBeacons, MinimalPins]"

definition isMapModeID :: "js_value \<Rightarrow> MapModeID option" where
  "isMapModeID = literal_of mode_name [Watch, Explore, Terrain, Studio]"

record MapLayerSettings =
  ly_clusters :: bool
  ly_activityHeatmap :: bool
  ly_nodes :: bool
  ly_nodeLabels :: bool
  ly_routes :: bool
  ly_analysisPaths :: bool
  ly_liveComets :: bool
  ly_packetResidue :: bool
  ly_observerBursts :: bool
  ly_messageBubbles :: bool
  ly_nodeModels3D :: bool
  ly_routeArcs3D :: bool
  ly_packetComets3D :: bool
  ly_buildingExtrusions :: bool
  ly_terrainLOS :: bool
  ly_terrainHeightmap :: bool
  ly_weatherClouds :: bool
  ly_propagationInsights :: bool

record PacketVisualSettings =
  pv_speed :: js_number
  pv_brightness :: js_number
  pv_trail :: js_number
  pv_animationStyle :: PacketAnimationStyle
  pv_showLiveCometsAtAllZooms :: bool
  pv_renderQuality :: RenderQuality

record MapStyleSettings =
  sy_profileID :: MapStyleProfileID
  sy_basemapDim :: js_number
  sy_labelDensity :: js_number
  sy_terrainClarity :: js_number
  sy_buildingOpacity :: js_number
  sy_nodeModelStyle :: NodeModelStyle
  sy_nodeModelScale :: js_number
  sy_nodeAltitudeMeters :: js_number
  sy_routeArcAltitudeScale :: js_number

record MapSettings =
  ms_modeID :: MapModeID
  ms_customized :: bool
  ms_style :: MapStyleSettings
  ms_layers :: MapLayerSettings
  ms_packets :: PacketVisualSettings

record MapLayerPreset =
  lp_id :: MapLayerPresetID
  lp_layers :: MapLayerSettings

text \<open>The partial packet visuals of a mode, applied by object spread.\<close>

record PartialPacketVisuals =
  pp_animationStyle :: "PacketAnimationStyle option"
  pp_showLiveCometsAtAllZooms :: "bool option"
  pp_renderQuality :: "RenderQuality option"

record MapModeDefinition =
  md_id :: MapModeID
  md_profileID :: MapStyleProfileID
  md_layers :: MapLayerSettings
  md_packetVisuals :: "PartialPacketVisuals option"

section \<open>Constants\<close>

definition MAP_SETTINGS_SCHEMA_VERSION :: js_number where "MAP_SETTINGS_SCHEMA_VERSION = 8"

definition DEFAULT_MAP_LAYER_SETTINGS :: MapLayerSettings where
  "DEFAULT_MAP_LAYER_SETTINGS = \<lparr>ly_clusters = True,
     ly_activityHeatmap = True,
     ly_nodes = True,
     ly_nodeLabels = True,
     ly_routes = False,
     ly_analysisPaths = True,
     ly_liveComets = True,
     ly_packetResidue = True,
     ly_observerBursts = True,
     ly_messageBubbles = True,
     ly_nodeModels3D = True,
     ly_routeArcs3D = True,
     ly_packetComets3D = True,
     ly_buildingExtrusions = True,
     ly_terrainLOS = False,
     ly_terrainHeightmap = False,
     ly_weatherClouds = True,
     ly_propagationInsights = False\<rparr>"

definition DEFAULT_PACKET_VISUAL_SETTINGS :: PacketVisualSettings where
  "DEFAULT_PACKET_VISUAL_SETTINGS = \<lparr>pv_speed = 1, pv_brightness = 1, pv_trail = 1, pv_animationStyle = Comet,
     pv_showLiveCometsAtAllZooms = True, pv_renderQuality = Balanced\<rparr>"

definition DEFAULT_MAP_STYLE_SETTINGS :: MapStyleSettings where
  "DEFAULT_MAP_STYLE_SETTINGS = \<lparr>sy_profileID = ClassicDark, sy_basemapDim = 0, sy_labelDensity = 72 / 100,
     sy_terrainClarity = 62, sy_buildingOpacity = 62 / 100, sy_nodeModelStyle = RoleTowers, sy_nodeModelScale = 1,
     sy_nodeAltitudeMeters = 14, sy_routeArcAltitudeScale = 1\<rparr>"

definition DEFAULT_MAP_SETTINGS :: MapSettings where
  "DEFAULT_MAP_SETTINGS = \<lparr>ms_modeID = Watch, ms_customized = False, ms_style = DEFAULT_MAP_STYLE_SETTINGS,
     ms_layers = DEFAULT_MAP_LAYER_SETTINGS, ms_packets = DEFAULT_PACKET_VISUAL_SETTINGS\<rparr>"

definition MAP_LAYER_PRESETS :: "MapLayerPreset list" where
  "MAP_LAYER_PRESETS = [
     \<lparr>lp_id = LivePreset, lp_layers = DEFAULT_MAP_LAYER_SETTINGS\<rparr>,
     \<lparr>lp_id = CleanPreset, lp_layers = DEFAULT_MAP_LAYER_SETTINGS
        \<lparr>ly_activityHeatmap := False, ly_analysisPaths := False, ly_packetResidue := False,
         ly_observerBursts := False, ly_messageBubbles := False, ly_nodeModels3D := False,
         ly_routeArcs3D := False, ly_packetComets3D := False, ly_buildingExtrusions := False,
         ly_terrainHeightmap := False\<rparr>\<rparr>,
     \<lparr>lp_id = AnalysisPreset, lp_layers = DEFAULT_MAP_LAYER_SETTINGS
        \<lparr>ly_routes := True, ly_analysisPaths := True, ly_propagationInsights := True, ly_terrainLOS := True\<rparr>\<rparr>,
     \<lparr>lp_id = Preset3D, lp_layers = DEFAULT_MAP_LAYER_SETTINGS
        \<lparr>ly_routes := True, ly_nodeModels3D := True, ly_routeArcs3D := True, ly_packetComets3D := True,
         ly_buildingExtrusions := True, ly_terrainLOS := True, ly_terrainHeightmap := True\<rparr>\<rparr>]"

definition MAP_MODES :: "MapModeDefinition list" where
  "MAP_MODES = [
     \<lparr>md_id = Watch, md_profileID = ClassicDark, md_layers = DEFAULT_MAP_LAYER_SETTINGS,
      md_packetVisuals = Some \<lparr>pp_animationStyle = None, pp_showLiveCometsAtAllZooms = Some True,
        pp_renderQuality = None\<rparr>\<rparr>,
     \<lparr>md_id = Explore, md_profileID = ClassicDark, md_layers = DEFAULT_MAP_LAYER_SETTINGS
        \<lparr>ly_routes := True, ly_analysisPaths := True, ly_propagationInsights := False, ly_terrainLOS := False,
         ly_terrainHeightmap := False\<rparr>,
      md_packetVisuals = None\<rparr>,
     \<lparr>md_id = Terrain, md_profileID = TopoRF, md_layers = DEFAULT_MAP_LAYER_SETTINGS
        \<lparr>ly_routes := True, ly_activityHeatmap := True, ly_analysisPaths := True, ly_terrainLOS := True,
         ly_terrainHeightmap := True, ly_propagationInsights := True, ly_nodeModels3D := False,
         ly_routeArcs3D := False, ly_packetComets3D := False, ly_buildingExtrusions := False\<rparr>,
      md_packetVisuals = None\<rparr>,
     \<lparr>md_id = Studio, md_profileID = OpenFreeMap3D, md_layers = DEFAULT_MAP_LAYER_SETTINGS
        \<lparr>ly_routes := True, ly_nodeModels3D := True, ly_routeArcs3D := True, ly_packetComets3D := True,
         ly_buildingExtrusions := True, ly_terrainLOS := True, ly_terrainHeightmap := True\<rparr>,
      md_packetVisuals = Some \<lparr>pp_animationStyle = Some Comet, pp_showLiveCometsAtAllZooms = None,
        pp_renderQuality = Some Balanced\<rparr>\<rparr>]"

section \<open>Normalization\<close>

definition boolOrDefault :: "js_value \<Rightarrow> bool \<Rightarrow> bool" where
  "boolOrDefault v fallback = (case v of JBool b \<Rightarrow> b | _ \<Rightarrow> fallback)"

text \<open>\<open>clampNumber\<close> without its fallback: \<open>None\<close> where the code returns the fallback.\<close>

definition clampFinite :: "js_value \<Rightarrow> js_number \<Rightarrow> js_number \<Rightarrow> js_number option" where
  "clampFinite v lo hi =
     (let number = (case v of JNumber x \<Rightarrow> Some x
        | JString s \<Rightarrow> if js_trim s = [] then None else Some (js_to_number s)
        | _ \<Rightarrow> None)
      in case number of Some (Fin x) \<Rightarrow> Some (max lo (min hi x)) | _ \<Rightarrow> None)"

definition clampNumber :: "js_value \<Rightarrow> js_number \<Rightarrow> js_number \<Rightarrow> js_number \<Rightarrow> js_number" where
  "clampNumber v lo hi fallback = or_else (clampFinite v lo hi) fallback"

definition normalizeTerrainClarity :: "js_value \<Rightarrow> js_number" where
  "normalizeTerrainClarity raw =
     (if has_prop raw ''terrainClarity''
      then clampNumber (get_prop raw ''terrainClarity'') 0 100 (sy_terrainClarity DEFAULT_MAP_STYLE_SETTINGS)
      else case clampFinite (get_prop raw ''terrainExaggeration'') (2 / 10) 3 of
          None \<Rightarrow> sy_terrainClarity DEFAULT_MAP_STYLE_SETTINGS
        | Some legacyExaggeration \<Rightarrow>
            clampNumber (JNumber (Fin (((legacyExaggeration - 35 / 100) / (145 / 100)) * 100))) 0 100
              (sy_terrainClarity DEFAULT_MAP_STYLE_SETTINGS))"

definition normalizeStyleSettings :: "js_value \<Rightarrow> MapStyleSettings" where
  "normalizeStyleSettings input = (let raw = record_or_empty input; d = DEFAULT_MAP_STYLE_SETTINGS in
     \<lparr>sy_profileID = sp_id (mapStyleProfileByID
        (case get_prop raw ''profileID'' of JString s \<Rightarrow> Some s | _ \<Rightarrow> None) (sy_profileID d)),
      sy_basemapDim = clampNumber (get_prop raw ''basemapDim'') 0 (78 / 100) (sy_basemapDim d),
      sy_labelDensity = clampNumber (get_prop raw ''labelDensity'') 0 (14 / 10) (sy_labelDensity d),
      sy_terrainClarity = normalizeTerrainClarity raw,
      sy_buildingOpacity = clampNumber (get_prop raw ''buildingOpacity'') 0 1 (sy_buildingOpacity d),
      sy_nodeModelStyle = or_else (isNodeModelStyle (get_prop raw ''nodeModelStyle'')) (sy_nodeModelStyle d),
      sy_nodeModelScale = clampNumber (get_prop raw ''nodeModelScale'') (55 / 100) (18 / 10) (sy_nodeModelScale d),
      sy_nodeAltitudeMeters = clampNumber (get_prop raw ''nodeAltitudeMeters'') 0 120 (sy_nodeAltitudeMeters d),
      sy_routeArcAltitudeScale =
        clampNumber (get_prop raw ''routeArcAltitudeScale'') (35 / 100) (24 / 10) (sy_routeArcAltitudeScale d)\<rparr>)"

definition normalizeLayerSettings :: "js_value \<Rightarrow> MapLayerSettings" where
  "normalizeLayerSettings input = (let raw = record_or_empty input; d = DEFAULT_MAP_LAYER_SETTINGS in
     \<lparr>ly_clusters = boolOrDefault (get_prop raw ''clusters'') (ly_clusters d),
      ly_activityHeatmap = boolOrDefault (get_prop raw ''activityHeatmap'') (ly_activityHeatmap d),
      ly_nodes = boolOrDefault (get_prop raw ''nodes'') (ly_nodes d),
      ly_nodeLabels = boolOrDefault (get_prop raw ''nodeLabels'') (ly_nodeLabels d),
      ly_routes = boolOrDefault (get_prop raw ''routes'') (ly_routes d),
      ly_analysisPaths = boolOrDefault (get_prop raw ''analysisPaths'') (ly_analysisPaths d),
      ly_liveComets = boolOrDefault (get_prop raw ''liveComets'') (ly_liveComets d),
      ly_packetResidue = boolOrDefault (get_prop raw ''packetResidue'') (ly_packetResidue d),
      ly_observerBursts = boolOrDefault (get_prop raw ''observerBursts'') (ly_observerBursts d),
      ly_messageBubbles = boolOrDefault (get_prop raw ''messageBubbles'') (ly_messageBubbles d),
      ly_nodeModels3D = boolOrDefault (get_prop raw ''nodeModels3D'') (ly_nodeModels3D d),
      ly_routeArcs3D = boolOrDefault (get_prop raw ''routeArcs3D'') (ly_routeArcs3D d),
      ly_packetComets3D = boolOrDefault (get_prop raw ''packetComets3D'') (ly_packetComets3D d),
      ly_buildingExtrusions = boolOrDefault (get_prop raw ''buildingExtrusions'') (ly_buildingExtrusions d),
      ly_terrainLOS = boolOrDefault (get_prop raw ''terrainLOS'') (ly_terrainLOS d),
      ly_terrainHeightmap = boolOrDefault (get_prop raw ''terrainHeightmap'') (ly_terrainHeightmap d),
      ly_weatherClouds = boolOrDefault (get_prop raw ''weatherClouds'') (ly_weatherClouds d),
      ly_propagationInsights = boolOrDefault (get_prop raw ''propagationInsights'') (ly_propagationInsights d)\<rparr>)"

definition normalizePacketVisualSettings :: "js_value \<Rightarrow> PacketVisualSettings" where
  "normalizePacketVisualSettings input = (let raw = record_or_empty input; d = DEFAULT_PACKET_VISUAL_SETTINGS in
     \<lparr>pv_speed = clampNumber (get_prop raw ''speed'') (5 / 10) 3 (pv_speed d),
      pv_brightness = clampNumber (get_prop raw ''brightness'') (4 / 10) (16 / 10) (pv_brightness d),
      pv_trail = clampNumber (get_prop raw ''trail'') 0 2 (pv_trail d),
      pv_animationStyle = or_else (isPacketAnimationStyle (get_prop raw ''animationStyle'')) (pv_animationStyle d),
      pv_showLiveCometsAtAllZooms =
        boolOrDefault (get_prop raw ''showLiveCometsAtAllZooms'') (pv_showLiveCometsAtAllZooms d),
      pv_renderQuality = or_else (isRenderQuality (get_prop raw ''renderQuality'')) (pv_renderQuality d)\<rparr>)"

definition normalizeMapSettings :: "js_value \<Rightarrow> MapSettings" where
  "normalizeMapSettings input = (let raw = record_or_empty input in
     \<lparr>ms_modeID = or_else (isMapModeID (get_prop raw ''modeID'')) (ms_modeID DEFAULT_MAP_SETTINGS),
      ms_customized = (get_prop raw ''customized'' = JBool True),
      ms_style = normalizeStyleSettings (get_prop raw ''style''),
      ms_layers = normalizeLayerSettings (get_prop raw ''layers''),
      ms_packets = normalizePacketVisualSettings (get_prop raw ''packets'')\<rparr>)"

text \<open>Settings as the values they are at run time.\<close>

definition layers_value :: "MapLayerSettings \<Rightarrow> js_value" where
  "layers_value s = JObject [
     (''clusters'', JBool (ly_clusters s)),
     (''activityHeatmap'', JBool (ly_activityHeatmap s)),
     (''nodes'', JBool (ly_nodes s)),
     (''nodeLabels'', JBool (ly_nodeLabels s)),
     (''routes'', JBool (ly_routes s)),
     (''analysisPaths'', JBool (ly_analysisPaths s)),
     (''liveComets'', JBool (ly_liveComets s)),
     (''packetResidue'', JBool (ly_packetResidue s)),
     (''observerBursts'', JBool (ly_observerBursts s)),
     (''messageBubbles'', JBool (ly_messageBubbles s)),
     (''nodeModels3D'', JBool (ly_nodeModels3D s)),
     (''routeArcs3D'', JBool (ly_routeArcs3D s)),
     (''packetComets3D'', JBool (ly_packetComets3D s)),
     (''buildingExtrusions'', JBool (ly_buildingExtrusions s)),
     (''terrainLOS'', JBool (ly_terrainLOS s)),
     (''terrainHeightmap'', JBool (ly_terrainHeightmap s)),
     (''weatherClouds'', JBool (ly_weatherClouds s)),
     (''propagationInsights'', JBool (ly_propagationInsights s))]"

definition packets_value :: "PacketVisualSettings \<Rightarrow> js_value" where
  "packets_value s = JObject [(''speed'', JNumber (Fin (pv_speed s))), (''brightness'', JNumber (Fin (pv_brightness s))),
     (''trail'', JNumber (Fin (pv_trail s))), (''animationStyle'', JString (style_name (pv_animationStyle s))),
     (''showLiveCometsAtAllZooms'', JBool (pv_showLiveCometsAtAllZooms s)),
     (''renderQuality'', JString (quality_name (pv_renderQuality s)))]"

definition style_value :: "MapStyleSettings \<Rightarrow> js_value" where
  "style_value s = JObject [(''profileID'', JString (profile_name (sy_profileID s))),
     (''basemapDim'', JNumber (Fin (sy_basemapDim s))), (''labelDensity'', JNumber (Fin (sy_labelDensity s))),
     (''terrainClarity'', JNumber (Fin (sy_terrainClarity s))), (''buildingOpacity'', JNumber (Fin (sy_buildingOpacity s))),
     (''nodeModelStyle'', JString (model_name (sy_nodeModelStyle s))),
     (''nodeModelScale'', JNumber (Fin (sy_nodeModelScale s))),
     (''nodeAltitudeMeters'', JNumber (Fin (sy_nodeAltitudeMeters s))),
     (''routeArcAltitudeScale'', JNumber (Fin (sy_routeArcAltitudeScale s)))]"

definition settings_props :: "MapSettings \<Rightarrow> (string \<times> js_value) list" where
  "settings_props s = [(''modeID'', JString (mode_name (ms_modeID s))), (''customized'', JBool (ms_customized s)),
     (''style'', style_value (ms_style s)), (''layers'', layers_value (ms_layers s)),
     (''packets'', packets_value (ms_packets s))]"

definition renormalize :: "MapSettings \<Rightarrow> MapSettings" where
  "renormalize s = normalizeMapSettings (JObject (settings_props s))"

section \<open>Signatures and modes\<close>

definition layerSettingsSignature :: "MapLayerSettings \<Rightarrow> string" where
  "layerSettingsSignature settings = concat (map (\<lambda>value. if value then ''1'' else ''0'') [
     ly_clusters settings, ly_activityHeatmap settings, ly_nodes settings, ly_nodeLabels settings,
     ly_routes settings, ly_analysisPaths settings, ly_liveComets settings, ly_packetResidue settings,
     ly_observerBursts settings, ly_messageBubbles settings, ly_nodeModels3D settings, ly_routeArcs3D settings,
     ly_packetComets3D settings, ly_buildingExtrusions settings, ly_terrainLOS settings, ly_terrainHeightmap settings,
     ly_weatherClouds settings, ly_propagationInsights settings])"

definition mapStyleSettingsSignature :: "MapStyleSettings \<Rightarrow> string" where
  "mapStyleSettingsSignature s = join '':'' [profile_name (sy_profileID s), to_fixed2 (sy_basemapDim s),
     to_fixed2 (sy_labelDensity s), show_int \<lfloor>js_round (sy_terrainClarity s)\<rfloor>, to_fixed2 (sy_buildingOpacity s),
     model_name (sy_nodeModelStyle s), to_fixed2 (sy_nodeModelScale s),
     show_int \<lfloor>js_round (sy_nodeAltitudeMeters s)\<rfloor>, to_fixed2 (sy_routeArcAltitudeScale s)]"

definition packetVisualSignature :: "PacketVisualSettings \<Rightarrow> string" where
  "packetVisualSignature s = to_fixed2 (pv_speed s) @ '':'' @ to_fixed2 (pv_brightness s) @ '':'' @ to_fixed2 (pv_trail s)
     @ '':'' @ style_name (pv_animationStyle s) @ '':'' @ (if pv_showLiveCometsAtAllZooms s then ''1'' else ''0'')
     @ '':'' @ quality_name (pv_renderQuality s)"

definition mapModeByID :: "string option \<Rightarrow> MapModeID \<Rightarrow> MapModeDefinition" where
  "mapModeByID modeID fallback =
     or_else (find (\<lambda>m. Some (mode_name (md_id m)) = modeID) MAP_MODES)
       (the (find (\<lambda>m. md_id m = fallback) MAP_MODES))"

definition inferMapMode :: "MapSettings \<Rightarrow> MapModeDefinition" where
  "inferMapMode settings =
     (let profileID = sy_profileID (ms_style settings)
      in if profileID = OpenFreeMap3D then mapModeByID (Some ''studio'') Watch
         else if profileID = TopoRF \<or> ly_terrainLOS (ms_layers settings) \<or> ly_propagationInsights (ms_layers settings)
           then mapModeByID (Some ''terrain'') Watch
         else if ly_routes (ms_layers settings) then mapModeByID (Some ''explore'') Watch
         else mapModeByID (Some ''watch'') Watch)"

definition mapModeForSettings :: "MapSettings \<Rightarrow> MapModeDefinition" where
  "mapModeForSettings settings =
     (if \<not> ms_customized settings then mapModeByID (Some (mode_name (ms_modeID settings))) Watch
      else inferMapMode settings)"

definition mapModeExactIDForSettings :: "MapSettings \<Rightarrow> MapModeID option" where
  "mapModeExactIDForSettings settings =
     (let styleID = sy_profileID (ms_style settings); layerSignature = layerSettingsSignature (ms_layers settings)
      in map_option md_id (find (\<lambda>m. md_profileID m = styleID \<and> layerSettingsSignature (md_layers m) = layerSignature)
           MAP_MODES))"

definition mapLayerPresetIDForSettings :: "MapLayerSettings \<Rightarrow> MapLayerPresetID option" where
  "mapLayerPresetIDForSettings settings =
     (let signature = layerSettingsSignature settings
      in map_option lp_id (find (\<lambda>p. layerSettingsSignature (lp_layers p) = signature) MAP_LAYER_PRESETS))"

definition spreadPacketVisuals :: "PacketVisualSettings \<Rightarrow> PartialPacketVisuals option \<Rightarrow> PacketVisualSettings" where
  "spreadPacketVisuals s p = (case p of None \<Rightarrow> s
     | Some q \<Rightarrow> s\<lparr>pv_animationStyle := or_else (pp_animationStyle q) (pv_animationStyle s),
         pv_showLiveCometsAtAllZooms := or_else (pp_showLiveCometsAtAllZooms q) (pv_showLiveCometsAtAllZooms s),
         pv_renderQuality := or_else (pp_renderQuality q) (pv_renderQuality s)\<rparr>)"

definition applyMapLayerPreset :: "MapSettings \<Rightarrow> MapLayerPresetID \<Rightarrow> MapSettings" where
  "applyMapLayerPreset settings presetID =
     (let preset = find (\<lambda>item. lp_id item = presetID) MAP_LAYER_PRESETS
      in renormalize (settings\<lparr>ms_customized := True,
           ms_layers := (case preset of Some p \<Rightarrow> lp_layers p | None \<Rightarrow> ms_layers settings)\<rparr>))"

definition applyMapMode :: "MapSettings \<Rightarrow> MapModeID \<Rightarrow> MapSettings" where
  "applyMapMode settings modeID =
     (let m = mapModeByID (Some (mode_name modeID)) Watch
      in renormalize (settings\<lparr>ms_modeID := md_id m, ms_customized := False,
           ms_style := (ms_style settings)\<lparr>sy_profileID := md_profileID m\<rparr>, ms_layers := md_layers m,
           ms_packets := spreadPacketVisuals (ms_packets settings) (md_packetVisuals m)\<rparr>))"

definition applyMapStyleProfile :: "MapSettings \<Rightarrow> MapStyleProfileID \<Rightarrow> MapSettings" where
  "applyMapStyleProfile settings profileID =
     (let profile = mapStyleProfileByID (Some (profile_name profileID)) ClassicDark;
          n0 = renormalize (settings\<lparr>ms_customized := True,
            ms_style := (ms_style settings)\<lparr>sy_profileID := sp_id profile\<rparr>\<rparr>);
          n1 = n0\<lparr>ms_layers := (ms_layers n0)\<lparr>ly_terrainHeightmap := sp_terrainDefault profile\<rparr>\<rparr>;
          n2 = (if sp_id profile = OpenFreeMap3D
                then n1\<lparr>ms_layers := (ms_layers n1)\<lparr>ly_routes := True, ly_nodeModels3D := True, ly_routeArcs3D := True,
                  ly_packetComets3D := True, ly_buildingExtrusions := True\<rparr>\<rparr>
                else if sp_id profile = TopoRF
                then n1\<lparr>ms_layers := (ms_layers n1)\<lparr>ly_routes := True, ly_terrainLOS := True,
                  ly_propagationInsights := True\<rparr>\<rparr>
                else if sp_lowBandwidth profile
                then n1\<lparr>ms_layers := (ms_layers n1)\<lparr>ly_activityHeatmap := False, ly_packetResidue := False,
                    ly_messageBubbles := False, ly_buildingExtrusions := False, ly_nodeModels3D := False,
                    ly_routeArcs3D := False, ly_packetComets3D := False, ly_weatherClouds := False\<rparr>,
                  ms_packets := (ms_packets n1)\<lparr>pv_renderQuality := Smooth, pv_animationStyle :=
                    (if pv_animationStyle (ms_packets n1) = Minimal then Minimal else Pulse)\<rparr>\<rparr>
                else if sp_id profile = Accessibility
                then n1\<lparr>ms_style := (ms_style n1)\<lparr>sy_basemapDim := 18 / 100, sy_labelDensity := 105 / 100\<rparr>,
                  ms_packets := (ms_packets n1)\<lparr>pv_animationStyle := Minimal, pv_renderQuality := Smooth\<rparr>\<rparr>
                else n1)
      in renormalize n2)"

section \<open>Storage\<close>

text \<open>The blocks of \<open>normalizeStoredMapSettings\<close> in order, one for each version that changed the settings.\<close>

definition migrateBefore2 :: "js_double \<Rightarrow> js_value \<Rightarrow> MapSettings \<Rightarrow> MapSettings" where
  "migrateBefore2 schemaVersion layers s =
     (if double_less schemaVersion (Fin 2)
      then let a = (if get_prop layers ''terrainHeightmap'' \<noteq> JBool False
                    then s\<lparr>ms_layers := (ms_layers s)\<lparr>ly_terrainHeightmap := False\<rparr>\<rparr> else s)
           in if get_prop layers ''propagationInsights'' \<noteq> JBool False
              then a\<lparr>ms_layers := (ms_layers a)\<lparr>ly_propagationInsights := False\<rparr>\<rparr> else a
      else s)"

definition migrateBefore6 :: "js_double \<Rightarrow> MapSettings \<Rightarrow> MapSettings" where
  "migrateBefore6 schemaVersion s =
     (if double_less schemaVersion (Fin 6)
      then let profile = mapStyleProfileByID (Some (profile_name (sy_profileID (ms_style s)))) ClassicDark
           in if \<not> sp_terrainDefault profile
              then s\<lparr>ms_layers := (ms_layers s)\<lparr>ly_terrainHeightmap := False\<rparr>\<rparr> else s
      else s)"

definition migrateBefore7 :: "js_double \<Rightarrow> js_value \<Rightarrow> MapSettings \<Rightarrow> MapSettings" where
  "migrateBefore7 schemaVersion rawModeID s =
     (if double_less schemaVersion (Fin 7) \<or> isMapModeID rawModeID = None
      then let inferred = inferMapMode s; a = s\<lparr>ms_modeID := md_id inferred\<rparr>
           in a\<lparr>ms_customized := (mapModeExactIDForSettings a \<noteq> Some (md_id inferred))\<rparr>
      else s)"

definition migrateBefore8 :: "js_double \<Rightarrow> MapSettings \<Rightarrow> MapSettings" where
  "migrateBefore8 schemaVersion s =
     (if double_less schemaVersion (Fin 8) \<and> ms_modeID s = Watch \<and> \<not> ms_customized s
      then let watch = mapModeByID (Some ''watch'') Watch
           in s\<lparr>ms_layers := md_layers watch,
                ms_packets := spreadPacketVisuals (ms_packets s) (md_packetVisuals watch), ms_customized := False\<rparr>
      else s)"

definition normalizeStoredMapSettings :: "js_value \<Rightarrow> MapSettings" where
  "normalizeStoredMapSettings input =
     (let settings = normalizeMapSettings input;
          raw = record_or_empty input;
          schemaVersion = (case get_prop raw ''schemaVersion'' of JNumber x \<Rightarrow> x | _ \<Rightarrow> Fin 1);
          layers = record_or_empty (get_prop raw ''layers'')
      in migrateBefore8 schemaVersion (migrateBefore7 schemaVersion (get_prop raw ''modeID'')
           (migrateBefore6 schemaVersion (migrateBefore2 schemaVersion layers settings))))"

datatype storage_item = StorageThrows | NoItem | BadJSON | Parsed js_value

definition readStoredMapSettings :: "storage_item \<Rightarrow> MapSettings" where
  "readStoredMapSettings item =
     (case item of Parsed v \<Rightarrow> normalizeStoredMapSettings v | _ \<Rightarrow> DEFAULT_MAP_SETTINGS)"

definition writeStoredMapSettings :: "MapSettings \<Rightarrow> storage_item" where
  "writeStoredMapSettings settings =
     Parsed (JObject ((''schemaVersion'', JNumber (Fin MAP_SETTINGS_SCHEMA_VERSION))
       # settings_props (renormalize settings)))"

end
