(* ===== verification/Packet_Canvas.thy ===== *)
theory Packet_Canvas
  imports Map_Geo Map_Settings Payload_Visuals Js_Coerce Net_Graph_Prepared
begin

text \<open>
  What \<open>web/src/map/packetAnimator.ts\<close> paints: its pure helpers, and each drawing method as the list of the
  calls and assignments it makes on the canvas context, in order (\<open>CanvasOp\<close>). The canvas is the last section:
  its drawing state, the stack of \<open>save\<close> and \<open>restore\<close>, and which assignments it ignores. A colour
  \<open>rgba(r, g, b, a)\<close> is the constructor \<open>Rgba\<close> of its four numbers. \<open>project\<close> and \<open>spriteReady\<close> stand for the
  map and for the loaded images.
\<close>

section \<open>Canvas calls\<close>

datatype Colour = Css string | Rgba nat nat nat js_number

datatype Paint =
    Solid Colour
  | LinearGradient Point Point "(js_number \<times> Colour) list"
  | RadialGradient Point js_number js_number "(js_number \<times> Colour) list" \<comment> \<open>centre, both radii, stops\<close>

datatype EffectSprite = CometHead | PulseRing | ObserverAura | MessageSpark

datatype CanvasOp =
    CtxSave
  | CtxRestore
  | LineCap string
  | LineJoin string
  | Composite string
  | GlobalAlpha js_number
  | StrokeStyle Paint
  | FillStyle Paint
  | LineWidth js_number
  | ShadowBlur js_number
  | ShadowColor Colour
  | BeginPath
  | MoveTo Point
  | LineTo Point
  | Arc Point js_number \<comment> \<open>centre and radius; always the full circle\<close>
  | StrokePath
  | FillPath
  | DrawImage EffectSprite Point js_number \<comment> \<open>upper left corner and size\<close>
  | ClearRect js_number js_number

abbreviation at_point :: "js_number \<Rightarrow> js_number \<Rightarrow> Point" where
  "at_point x y \<equiv> \<lparr>px = x, py = y\<rparr>"

abbreviation css :: "string \<Rightarrow> Paint" where
  "css c \<equiv> Solid (Css c)"

text \<open>\<open>ctx.save(); ...; ctx.restore()\<close>.\<close>

definition saved :: "CanvasOp list \<Rightarrow> CanvasOp list" where
  "saved ops = CtxSave # ops @ [CtxRestore]"

section \<open>Helpers\<close>

definition pointAlongSegment :: "Point \<Rightarrow> Point \<Rightarrow> js_number \<Rightarrow> Point" where
  "pointAlongSegment p q progress =
     (let t = clamp01 progress in at_point (px p + (px q - px p) * t) (py p + (py q - py p) * t))"

definition is_hex_colour :: "string \<Rightarrow> bool" where
  "is_hex_colour c \<longleftrightarrow> length c = 7 \<and> c ! 0 = CHR ''#'' \<and> list_all (is_digit 16) (drop 1 c)"

definition colorWithAlpha :: "string \<Rightarrow> js_number \<Rightarrow> Colour" where
  "colorWithAlpha color alpha =
     (if \<not> is_hex_colour color then Css color
      else Rgba (digits_val 16 (take 2 (drop 1 color))) (digits_val 16 (take 2 (drop 3 color)))
        (digits_val 16 (take 2 (drop 5 color))) (clamp01 alpha))"

text \<open>\<open>Math.log1p\<close>.\<close>

definition log1p :: "js_number \<Rightarrow> js_number" where
  "log1p x = ln (1 + x)"

definition ROUTE_RESIDUE_ALPHA_CAP :: js_number where "ROUTE_RESIDUE_ALPHA_CAP = 12 / 100"
definition OBSERVER_AURA_ALPHA_CAP :: js_number where "OBSERVER_AURA_ALPHA_CAP = 55 / 1000"
definition ROUTE_SPARKLE_WINDOW_MS :: js_number where "ROUTE_SPARKLE_WINDOW_MS = 6500"
definition MAX_ROUTE_SPARKLES_PER_TRACE :: nat where "MAX_ROUTE_SPARKLES_PER_TRACE = 5"

definition routeResidueAlpha :: "nat \<Rightarrow> js_number \<Rightarrow> js_number" where
  "routeResidueAlpha hits fade =
     (if hits = 0 then 0
      else let intensity = min 1 (log1p (real hits) / log1p 18)
           in min ROUTE_RESIDUE_ALPHA_CAP ((22 / 1000 + intensity * (118 / 1000)) * clamp01 fade))"

definition observerAuraAlpha :: "nat \<Rightarrow> js_number \<Rightarrow> js_number" where
  "observerAuraAlpha hits fade =
     (if hits = 0 then 0
      else let intensity = min 1 (log1p (real hits) / log1p 24)
           in min OBSERVER_AURA_ALPHA_CAP ((26 / 1000 + intensity * (108 / 1000)) * clamp01 fade))"

definition routeResidueSparkleCount :: "nat \<Rightarrow> js_number \<Rightarrow> RenderQuality \<Rightarrow> nat" where
  "routeResidueSparkleCount hits ageMs quality =
     (if hits = 0 \<or> ageMs < 0 \<or> ROUTE_SPARKLE_WINDOW_MS < ageMs then 0
      else if quality = Smooth then (if 8 \<le> hits then 1 else 0)
      else let maxSparkles = (if quality = High then MAX_ROUTE_SPARKLES_PER_TRACE else 3)
           in max 1 (min maxSparkles (nat \<lceil>log1p (real hits)\<rceil>)))"

definition routeResidueSparkleAlpha :: "js_number \<Rightarrow> js_number \<Rightarrow> js_number \<Rightarrow> js_number" where
  "routeResidueSparkleAlpha ageMs intensity alpha =
     (if ageMs < 0 \<or> ROUTE_SPARKLE_WINDOW_MS < ageMs \<or> alpha \<le> 0 then 0
      else let fade = 1 - ageMs / ROUTE_SPARKLE_WINDOW_MS
           in js_round (min (72 / 100) (alpha * (58 / 100 + clamp01 intensity * (46 / 100)) * fade) * 1000) / 1000)"

record SegmentProgress =
  sp_segmentIndex :: nat
  sp_localProgress :: js_number

definition sequentialSegmentProgress :: "js_number \<Rightarrow> nat \<Rightarrow> SegmentProgress" where
  "sequentialSegmentProgress progress segmentCount =
     (if segmentCount \<le> 1 then \<lparr>sp_segmentIndex = 0, sp_localProgress = clamp01 progress\<rparr>
      else let clamped = clamp01 progress
           in if 1 \<le> clamped then \<lparr>sp_segmentIndex = segmentCount - 1, sp_localProgress = 1\<rparr>
              else let scaled = clamped * real segmentCount
                   in \<lparr>sp_segmentIndex = min (segmentCount - 1) (nat \<lfloor>scaled\<rfloor>), sp_localProgress = clamp01 (js_rem scaled 1)\<rparr>)"

text \<open>\<open>typeof pointCount === 'number' ? pointCount : Number(pointCount)\<close>; a property of a rendered feature converts.\<close>

definition pointCountNumber :: "(js_double \<Rightarrow> string) \<Rightarrow> js_value \<Rightarrow> js_double" where
  "pointCountNumber num v = or_else (js_Number num v) NotANumber"

definition clusterMaskRadius :: "(js_double \<Rightarrow> string) \<Rightarrow> js_value \<Rightarrow> js_number" where
  "clusterMaskRadius num pointCount =
     (case pointCountNumber num pointCount of
        Fin n \<Rightarrow> if 75 \<le> n then 36 else if 25 \<le> n then 30 else 25
      | _ \<Rightarrow> 25)"

definition interpolateRange :: "js_number \<Rightarrow> js_number \<Rightarrow> js_number \<Rightarrow> js_number \<Rightarrow> js_number \<Rightarrow> js_number" where
  "interpolateRange value inputMin inputMax outputMin outputMax =
     (if inputMax = inputMin then outputMax
      else let progress = (value - inputMin) / (inputMax - inputMin)
           in outputMin + progress * (outputMax - outputMin))"

definition nodeMaskRadius :: "js_value \<Rightarrow> js_number \<Rightarrow> js_number" where
  "nodeMaskRadius selected zoom =
     (let clampedZoom = max 3 (min 12 zoom);
          iconScale = (if clampedZoom \<le> 8 then interpolateRange clampedZoom 3 8 (42 / 100) (78 / 100)
                       else interpolateRange clampedZoom 8 12 (78 / 100) 1);
          iconRadius = 24 * iconScale / 2
      in iconRadius + (if selected = JBool True \<or> selected = JString ''true'' then 4 else 2))"

definition mapFeatureMaskRadius :: "(js_double \<Rightarrow> string) \<Rightarrow> js_value \<Rightarrow> js_number \<Rightarrow> js_number" where
  "mapFeatureMaskRadius num properties zoom =
     (if has_prop properties ''point_count'' then clusterMaskRadius num (get_prop properties ''point_count'')
      else nodeMaskRadius (get_prop properties ''selected'') zoom)"

section \<open>Parts of a drawing\<close>

definition drawEffectSprite :: "(EffectSprite \<Rightarrow> bool) \<Rightarrow> EffectSprite \<Rightarrow> js_number \<Rightarrow> js_number \<Rightarrow> js_number \<Rightarrow> js_number \<Rightarrow> CanvasOp list" where
  "drawEffectSprite spriteReady key x y width alpha =
     (if \<not> spriteReady key \<or> alpha \<le> 0 then []
      else saved [Composite ''lighter'', GlobalAlpha (clamp01 alpha),
        DrawImage key (at_point (x - width / 2) (y - width / 2)) width])"

definition endpointPulse :: "(EffectSprite \<Rightarrow> bool) \<Rightarrow> js_number \<Rightarrow> js_number \<Rightarrow> js_number \<Rightarrow> string \<Rightarrow> js_number \<Rightarrow> CanvasOp list" where
  "endpointPulse spriteReady x y progress color alpha =
     (let radius = 7 + progress * 22
      in drawEffectSprite spriteReady PulseRing x y (radius * (26 / 10)) (alpha * (72 / 100)) @
         [GlobalAlpha ((1 - progress) * alpha), StrokeStyle (css color), LineWidth (24 / 10), ShadowBlur 16,
          ShadowColor (Css color), BeginPath, Arc (at_point x y) radius, StrokePath, ShadowBlur 0])"

definition drawCompletedSegment :: "Point \<Rightarrow> Point \<Rightarrow> string \<Rightarrow> js_number \<Rightarrow> js_number \<Rightarrow> PacketAnimationStyle \<Rightarrow> CanvasOp list" where
  "drawCompletedSegment p q color fade brightness style =
     [GlobalAlpha (max (6 / 100) (fade * (if style = Minimal then 14 / 100 else 26 / 100) * brightness)),
      StrokeStyle (css color), LineWidth (if style = Minimal then 2 else 3),
      ShadowBlur (if style = Minimal then 7 else 16), ShadowColor (Css color),
      BeginPath, MoveTo p, LineTo q, StrokePath, ShadowBlur 0]"

definition drawAfterglowSegment ::
  "Point \<Rightarrow> Point \<Rightarrow> string \<Rightarrow> js_number \<Rightarrow> js_number \<Rightarrow> js_number \<Rightarrow> js_number \<Rightarrow> PacketAnimationStyle \<Rightarrow> CanvasOp list" where
  "drawAfterglowSegment p q color alpha shimmer brightness trailScale style =
     (let styleScale = (if style = Minimal then 45 / 100 else if style = Pulse then 72 / 100 else 1)
      in [GlobalAlpha (alpha * (13 / 100 + shimmer * (13 / 100)) * brightness * trailScale * styleScale),
          StrokeStyle (css color), LineWidth ((28 / 10 + shimmer * (16 / 10)) * (if style = Minimal then 72 / 100 else 1)),
          ShadowBlur ((16 + shimmer * 24) * styleScale), ShadowColor (Css color),
          BeginPath, MoveTo p, LineTo q, StrokePath, ShadowBlur 0])"

definition cometSpark :: "Point \<Rightarrow> Point \<Rightarrow> Point \<Rightarrow> js_number \<Rightarrow> nat \<Rightarrow> CanvasOp list" where
  "cometSpark head n t progress index =
     (let side = (if index mod 2 = 0 then 1 else - 1);
          offset = (4 + real index * (22 / 10)) * side;
          backwards = 7 + real index * 5 + progress * 3
      in [BeginPath,
          MoveTo (at_point (px head - px t * backwards + px n * offset) (py head - py t * backwards + py n * offset)),
          LineTo (at_point (px head - px t * (backwards + 5) + px n * (offset * (14 / 10)))
                           (py head - py t * (backwards + 5) + py n * (offset * (14 / 10)))),
          StrokePath])"

definition drawCometSparks :: "Point \<Rightarrow> Point \<Rightarrow> Point \<Rightarrow> string \<Rightarrow> js_number \<Rightarrow> js_number \<Rightarrow> CanvasOp list" where
  "drawCometSparks head p q color shimmer progress =
     (let dx = px q - px p; dy = py q - py p; len = max 1 (js_hypot dx dy);
          n = at_point (- dy / len) (dx / len); t = at_point (dx / len) (dy / len)
      in saved ([GlobalAlpha (32 / 100 + shimmer * (18 / 100)), StrokeStyle (css color), LineWidth 1, ShadowBlur 12,
          ShadowColor (Css color)] @
         concat (map (cometSpark head n t progress) [0..<3])))"

definition cometLine :: "Point \<Rightarrow> Point \<Rightarrow> CanvasOp list" where
  "cometLine tail head = [BeginPath, MoveTo tail, LineTo head, StrokePath]"

definition drawCometSegment ::
  "(EffectSprite \<Rightarrow> bool) \<Rightarrow> Point \<Rightarrow> Point \<Rightarrow> string \<Rightarrow> js_number \<Rightarrow> js_number \<Rightarrow> js_number \<Rightarrow> js_number \<Rightarrow> PacketAnimationStyle \<Rightarrow> CanvasOp list" where
  "drawCometSegment spriteReady p q color progress shimmer brightness trailScale style =
     (let head = pointAlongSegment p q progress;
          tailFactor = (if style = Minimal then 42 / 100 else if style = Pulse then 68 / 100 else 1);
          tail = pointAlongSegment p q (max 0 (progress - 68 / 1000 * trailScale * tailFactor));
          tail2 = pointAlongSegment p q (max 0 (progress - 16 / 100 * trailScale * tailFactor));
          gradient = LinearGradient tail head [(0, Css ''rgba(255, 255, 255, 0)''), (28 / 100, colorWithAlpha color (56 / 100)),
            (76 / 100, colorWithAlpha color (96 / 100)), (1, Css ''rgba(255, 255, 255, 1)'')];
          bloom = LinearGradient tail2 head [(0, Css ''rgba(255, 255, 255, 0)''), (48 / 100, colorWithAlpha color (32 / 100)),
            (1, colorWithAlpha color (88 / 100))];
          coreTail = pointAlongSegment p q (max 0 (progress - 26 / 1000))
      in [GlobalAlpha ((28 / 100 + shimmer * (12 / 100)) * brightness * (if style = Minimal then 38 / 100 else 1)),
          StrokeStyle bloom,
          LineWidth ((10 + shimmer * 5) * (if style = Minimal then 42 / 100 else if style = Pulse then 72 / 100 else 1)),
          ShadowBlur ((34 + shimmer * 30) * (if style = Minimal then 38 / 100 else 1)), ShadowColor (Css color)] @
         cometLine tail2 head @
         [GlobalAlpha ((92 / 100 + shimmer * (8 / 100)) * brightness), StrokeStyle gradient,
          LineWidth ((38 / 10 + shimmer * (16 / 10)) * (if style = Minimal then 7 / 10 else 1)),
          ShadowBlur ((24 + shimmer * 30) * (if style = Minimal then 5 / 10 else 1)), ShadowColor (Css color)] @
         cometLine tail head @
         [GlobalAlpha (74 / 100 * brightness), StrokeStyle (css ''#ffffff''), LineWidth (115 / 100), ShadowBlur (14 + shimmer * 12)] @
         cometLine coreTail head @
         [GlobalAlpha (min 1 brightness)] @
         drawEffectSprite spriteReady CometHead (px head) (py head)
           ((if style = Minimal then 20 else 32) + shimmer * 12) (42 / 100 * brightness) @
         [FillStyle (css ''#ffffff''), ShadowBlur (26 + shimmer * 28), ShadowColor (Css color), BeginPath,
          Arc head ((if style = Minimal then 29 / 10 else 38 / 10) + shimmer * (14 / 10)), FillPath,
          GlobalAlpha (86 / 100), FillStyle (css color), BeginPath, Arc head (19 / 10), FillPath] @
         (if style \<noteq> Minimal then drawCometSparks head p q color shimmer progress else []) @
         (if style = Pulse then endpointPulse spriteReady (px head) (py head) (35 / 100 + shimmer * (18 / 100)) color (32 / 100 * brightness)
          else []) @
         [ShadowBlur 0])"

definition residueSparkle ::
  "Point \<Rightarrow> Point \<Rightarrow> Point \<Rightarrow> string \<Rightarrow> nat \<Rightarrow> js_number \<Rightarrow> js_number \<Rightarrow> js_number \<Rightarrow> js_number \<Rightarrow> nat \<Rightarrow> CanvasOp list" where
  "residueSparkle p d n color sparkleCount ageMs intensity sparkleAlpha drift index =
     (let phase = (real index + 1) / (real sparkleCount + 1);
          along = js_rem (phase + drift * (18 / 100)) 1;
          side = (if index mod 2 = 0 then 1 else - 1);
          wobble = sin (ageMs / 240 + real index * (17 / 10)) * (35 / 10 + intensity * 5) * side;
          x = px p + px d * along + px n * wobble;
          y = py p + py d * along + py n * wobble;
          radius = 23 / 10 + intensity * (21 / 10) + real (index mod 2) * (7 / 10);
          localAlpha = sparkleAlpha * (72 / 100 + 28 / 100 * sin (ageMs / 180 + real index))
      in [GlobalAlpha (max 0 localAlpha), BeginPath, MoveTo (at_point (x - radius) y), LineTo (at_point (x + radius) y),
          MoveTo (at_point x (y - radius)), LineTo (at_point x (y + radius)), StrokePath,
          GlobalAlpha (localAlpha * (58 / 100)), FillStyle (css color), BeginPath,
          Arc (at_point x y) (12 / 10 + intensity * (8 / 10)), FillPath])"

definition drawRouteResidueSparkles ::
  "RenderQuality \<Rightarrow> Point \<Rightarrow> Point \<Rightarrow> string \<Rightarrow> nat \<Rightarrow> js_number \<Rightarrow> js_number \<Rightarrow> js_number \<Rightarrow> CanvasOp list" where
  "drawRouteResidueSparkles quality p q color hits ageMs intensity alpha =
     (let sparkleCount = routeResidueSparkleCount hits ageMs quality;
          sparkleAlpha = routeResidueSparkleAlpha ageMs intensity alpha
      in if sparkleCount = 0 \<or> sparkleAlpha \<le> 1 / 100 then []
         else let dx = px q - px p; dy = py q - py p; len = max 1 (js_hypot dx dy);
                  n = at_point (- dy / len) (dx / len); drift = js_rem ageMs 1800 / 1800
              in saved ([LineWidth (115 / 100), StrokeStyle (css ''#ffffff''), ShadowBlur (12 + intensity * 16),
                  ShadowColor (Css color)] @
                 concat (map (residueSparkle p (at_point dx dy) n color sparkleCount ageMs intensity sparkleAlpha drift) [0..<sparkleCount])))"

definition sparkleRay :: "Point \<Rightarrow> js_number \<Rightarrow> js_number \<Rightarrow> nat \<Rightarrow> CanvasOp list" where
  "sparkleRay c radius progress index =
     (let angle = pi / 3 * real index + progress * (9 / 10); inner = radius * (45 / 100)
      in [BeginPath, MoveTo (at_point (px c + cos angle * inner) (py c + sin angle * inner)),
          LineTo (at_point (px c + cos angle * radius) (py c + sin angle * radius)), StrokePath])"

definition drawArrivalSparkle :: "(EffectSprite \<Rightarrow> bool) \<Rightarrow> Point \<Rightarrow> string \<Rightarrow> js_number \<Rightarrow> js_number \<Rightarrow> CanvasOp list" where
  "drawArrivalSparkle spriteReady c color progress alpha =
     (let sparkAlpha = alpha * sin (progress * pi) * (92 / 100); radius = 6 + progress * 17
      in if sparkAlpha \<le> 1 / 100 then []
         else saved ([GlobalAlpha sparkAlpha] @
              drawEffectSprite spriteReady MessageSpark (px c) (py c) (26 + progress * 18) (sparkAlpha * (7 / 10)) @
              [StrokeStyle (css ''#ffffff''), LineWidth (135 / 100), ShadowBlur 18, ShadowColor (Css color)] @
              concat (map (sparkleRay c radius progress) [0..<6])))"

section \<open>Overlays\<close>

datatype RelayMode = Launch | Arrival

record RelayOverlay =
  ry_at :: Point
  ry_color :: string
  ry_progress :: js_number
  ry_alpha :: js_number
  ry_mode :: RelayMode

record ObserverOverlay =
  oo_at :: Point
  oo_color :: string
  oo_progress :: js_number
  oo_alpha :: js_number
  oo_label :: string

definition drawRelayOverlay :: "(EffectSprite \<Rightarrow> bool) \<Rightarrow> RelayOverlay \<Rightarrow> CanvasOp list" where
  "drawRelayOverlay spriteReady overlay =
     (let progress = clamp01 (ry_progress overlay); alpha = (1 - progress) * ry_alpha overlay;
          isLaunch = (ry_mode overlay = Launch); c = ry_at overlay; color = ry_color overlay
      in if alpha \<le> 1 / 100 then []
         else [GlobalAlpha alpha, StrokeStyle (css color), LineWidth (if isLaunch then 19 / 10 else 26 / 10),
               ShadowBlur (if isLaunch then 20 else 28), ShadowColor (Css color), BeginPath,
               Arc c ((if isLaunch then 9 else 15) + progress * (if isLaunch then 30 else 38)), StrokePath,
               GlobalAlpha (alpha * (if isLaunch then 46 / 100 else 72 / 100))] @
              (if \<not> isLaunch then drawEffectSprite spriteReady PulseRing (px c) (py c) (26 + progress * 34) (ry_alpha overlay * (36 / 100)) else []) @
              [StrokeStyle (css ''#ffffff''), LineWidth 1, BeginPath,
               Arc c ((if isLaunch then 13 else 21) + progress * (if isLaunch then 22 else 28)), StrokePath,
               GlobalAlpha (ry_alpha overlay * (if isLaunch then 62 / 100 - progress * (22 / 100) else 34 / 100 + progress * (66 / 100))),
               FillStyle (css ''#ffffff''), ShadowBlur (if isLaunch then 18 else 24), ShadowColor (Css color), BeginPath,
               Arc c (if isLaunch then 26 / 10 else 33 / 10), FillPath,
               GlobalAlpha (ry_alpha overlay * (if isLaunch then 22 / 100 + progress * (24 / 100) else 22 / 100 + progress * (42 / 100))),
               FillStyle (css color), BeginPath, Arc c (if isLaunch then 44 / 10 else 52 / 10), FillPath] @
              (if \<not> isLaunch then drawArrivalSparkle spriteReady c color progress (ry_alpha overlay) else []) @
              [ShadowBlur 0])"

definition drawRelayOverlays :: "(EffectSprite \<Rightarrow> bool) \<Rightarrow> RelayOverlay list \<Rightarrow> CanvasOp list" where
  "drawRelayOverlays spriteReady overlays =
     (if overlays = [] then []
      else saved ([LineCap ''round'', LineJoin ''round''] @ concat (map (drawRelayOverlay spriteReady) overlays)))"

definition drawObserverOverlay :: "(EffectSprite \<Rightarrow> bool) \<Rightarrow> ObserverOverlay \<Rightarrow> CanvasOp list" where
  "drawObserverOverlay spriteReady overlay =
     (let progress = clamp01 (oo_progress overlay); pulse = sin (progress * pi);
          alpha = oo_alpha overlay * (36 / 100 + pulse * (42 / 100)); x = px (oo_at overlay); y = py (oo_at overlay)
      in if alpha \<le> 1 / 100 then []
         else [GlobalAlpha alpha] @
              drawEffectSprite spriteReady ObserverAura x y (34 + pulse * 26) (alpha * (5 / 10)) @
              [FillStyle (css ''#ffffff''), ShadowBlur 28, ShadowColor (Css (oo_color overlay)), BeginPath,
               Arc (oo_at overlay) (32 / 10 + pulse * (24 / 10)), FillPath,
               GlobalAlpha (alpha * (72 / 100)), FillStyle (css (oo_color overlay)), BeginPath,
               Arc (oo_at overlay) (68 / 10 + pulse * (42 / 10)), FillPath,
               GlobalAlpha (alpha * (68 / 100)), StrokeStyle (css (oo_color overlay)), LineWidth (145 / 100), ShadowBlur 18,
               BeginPath, MoveTo (at_point x (y - 24 - progress * 28)), LineTo (at_point x (y - 7)), StrokePath,
               GlobalAlpha (alpha * (48 / 100)), StrokeStyle (css ''#ffffff''), BeginPath,
               MoveTo (at_point (x - 15) y), LineTo (at_point (x + 15) y),
               MoveTo (at_point x (y - 15)), LineTo (at_point x (y + 15)), StrokePath, ShadowBlur 0])"

definition drawObserverOverlays :: "(EffectSprite \<Rightarrow> bool) \<Rightarrow> ObserverOverlay list \<Rightarrow> CanvasOp list" where
  "drawObserverOverlays spriteReady overlays =
     (if overlays = [] then []
      else saved (concat (map (drawObserverOverlay spriteReady) overlays)))"

section \<open>The canvas\<close>

text \<open>
  The drawing state that \<open>save\<close> pushes and \<open>restore\<close> pops. The canvas ignores an assignment to
  \<open>globalAlpha\<close> outside \<open>0..1\<close>, to \<open>lineWidth\<close> unless it is positive and to \<open>shadowBlur\<close> below zero, and
  \<open>restore\<close> on an empty stack. Everything painted is logged with the drawing state it was painted in.
\<close>

record CanvasState =
  cv_alpha :: js_number
  cv_composite :: string
  cv_lineCap :: string
  cv_lineJoin :: string
  cv_lineWidth :: js_number
  cv_shadowBlur :: js_number
  cv_shadowColor :: Colour
  cv_stroke :: Paint
  cv_fill :: Paint

type_synonym Canvas = "CanvasState \<times> CanvasState list \<times> (CanvasOp \<times> CanvasState) list"

fun canvas_step :: "CanvasOp \<Rightarrow> Canvas \<Rightarrow> Canvas" where
  "canvas_step CtxSave (s, stack, out) = (s, s # stack, out)"
| "canvas_step CtxRestore (s, [], out) = (s, [], out)"
| "canvas_step CtxRestore (s, s' # stack, out) = (s', stack, out)"
| "canvas_step (GlobalAlpha a) (s, stack, out) = ((if 0 \<le> a \<and> a \<le> 1 then s\<lparr>cv_alpha := a\<rparr> else s), stack, out)"
| "canvas_step (Composite c) (s, stack, out) = (s\<lparr>cv_composite := c\<rparr>, stack, out)"
| "canvas_step (LineCap c) (s, stack, out) = (s\<lparr>cv_lineCap := c\<rparr>, stack, out)"
| "canvas_step (LineJoin c) (s, stack, out) = (s\<lparr>cv_lineJoin := c\<rparr>, stack, out)"
| "canvas_step (LineWidth w) (s, stack, out) = ((if 0 < w then s\<lparr>cv_lineWidth := w\<rparr> else s), stack, out)"
| "canvas_step (ShadowBlur b) (s, stack, out) = ((if 0 \<le> b then s\<lparr>cv_shadowBlur := b\<rparr> else s), stack, out)"
| "canvas_step (ShadowColor c) (s, stack, out) = (s\<lparr>cv_shadowColor := c\<rparr>, stack, out)"
| "canvas_step (StrokeStyle p) (s, stack, out) = (s\<lparr>cv_stroke := p\<rparr>, stack, out)"
| "canvas_step (FillStyle p) (s, stack, out) = (s\<lparr>cv_fill := p\<rparr>, stack, out)"
| "canvas_step op (s, stack, out) = (s, stack, out @ [(op, s)])"

definition canvas_run :: "CanvasOp list \<Rightarrow> Canvas \<Rightarrow> Canvas" where
  "canvas_run ops c = fold canvas_step ops c"

lemma canvas_run_simps [simp]:
  "canvas_run [] c = c" "canvas_run (op # ops) c = canvas_run ops (canvas_step op c)"
  "canvas_run (ops1 @ ops2) c = canvas_run ops2 (canvas_run ops1 c)"
  by (simp_all add: canvas_run_def)

text \<open>
  Calls that leave the stack below them alone (\<open>levelled\<close>), and those that also restore the drawing state
  (\<open>bracketed\<close>).
\<close>

definition levelled :: "CanvasOp list \<Rightarrow> bool" where
  "levelled ops \<longleftrightarrow> (\<forall>s stack out. fst (snd (canvas_run ops (s, stack, out))) = stack)"

definition bracketed :: "CanvasOp list \<Rightarrow> bool" where
  "bracketed ops \<longleftrightarrow> (\<forall>s stack out. \<exists>out'. canvas_run ops (s, stack, out) = (s, stack, out'))"

named_theorems levels

lemma levelled_Nil [levels]: "levelled []"
  by (simp add: levelled_def)

lemma levelled_Cons [levels]: "op \<noteq> CtxSave \<Longrightarrow> op \<noteq> CtxRestore \<Longrightarrow> levelled ops \<Longrightarrow> levelled (op # ops)"
  unfolding levelled_def by (intro allI, cases op) (auto simp: levelled_def split: if_splits)

lemma levelled_append [levels]: "levelled ops1 \<Longrightarrow> levelled ops2 \<Longrightarrow> levelled (ops1 @ ops2)"
  unfolding levelled_def by (intro allI) (metis canvas_run_simps(3) prod.collapse)

lemma levelled_concat [levels]: "(\<And>x. x \<in> set xs \<Longrightarrow> levelled (f x)) \<Longrightarrow> levelled (concat (map f xs))"
  by (induction xs) (auto intro: levels)

lemma levelled_if [levels]: "(b \<Longrightarrow> levelled xs) \<Longrightarrow> (\<not> b \<Longrightarrow> levelled ys) \<Longrightarrow> levelled (if b then xs else ys)"
  by simp

lemma bracketed_levelled: "bracketed ops \<Longrightarrow> levelled ops"
  unfolding bracketed_def levelled_def by (metis fst_conv snd_conv)

lemma bracketed_Nil [levels]: "bracketed []"
  by (simp add: bracketed_def)

lemma bracketed_append [levels]: "bracketed ops1 \<Longrightarrow> bracketed ops2 \<Longrightarrow> bracketed (ops1 @ ops2)"
  unfolding bracketed_def by (metis canvas_run_simps(3))

lemma bracketed_concat [levels]: "(\<And>x. x \<in> set xs \<Longrightarrow> bracketed (f x)) \<Longrightarrow> bracketed (concat (map f xs))"
  by (induction xs) (auto intro: levels)

lemma bracketed_if [levels]: "(b \<Longrightarrow> bracketed xs) \<Longrightarrow> (\<not> b \<Longrightarrow> bracketed ys) \<Longrightarrow> bracketed (if b then xs else ys)"
  by simp

lemma bracketed_ClearRect [levels]: "bracketed ops \<Longrightarrow> bracketed (ClearRect w h # ops)"
  unfolding bracketed_def by simp

lemma bracketed_saved [levels]: "levelled ops \<Longrightarrow> bracketed (saved ops)"
  unfolding bracketed_def
proof (intro allI)
  fix s stack out
  assume "levelled ops"
  then have "fst (snd (canvas_run ops (s, s # stack, out))) = s # stack" by (simp add: levelled_def)
  then obtain s' out' where "canvas_run ops (s, s # stack, out) = (s', s # stack, out')" by (metis prod.collapse)
  then show "\<exists>out'. canvas_run (saved ops) (s, stack, out) = (s, stack, out')" by (simp add: saved_def)
qed

lemma levelled_saved [levels]: "levelled ops \<Longrightarrow> levelled (saved ops)"
  by (rule bracketed_levelled) (rule bracketed_saved)

end
