(* ===== verification/Node_Source.thy ===== *)
theory Node_Source
  imports Route_Source Packet_Canvas
begin

text \<open>
  \<open>map/nodeLabels.ts\<close>, \<open>nodeVisuals.ts\<close>, \<open>map/rfEdges.ts\<close>, \<open>map/nodeSource.ts\<close> and the features of the nodes that
  \<open>CanadaMap.tsx\<close> makes of them. The icons of the asset pack are the argument \<open>icons\<close>. Numbers are finite.
\<close>

section \<open>Labels and ages\<close>

definition NODE_LABEL_MAX_CHARS :: nat where "NODE_LABEL_MAX_CHARS = 18"
definition NODE_ACTIVITY_WINDOW_MS :: js_number where "NODE_ACTIVITY_WINDOW_MS = 60000"
definition NODE_ACTIVITY_GLOW_MS :: js_number where "NODE_ACTIVITY_GLOW_MS = 6500"
definition NODE_ACTIVITY_HOT_COUNT :: nat where "NODE_ACTIVITY_HOT_COUNT = 30"
definition NODE_STALE_GREY_MS :: js_number where "NODE_STALE_GREY_MS = 30 * 60000"
definition NODE_STALE_DARK_GREY_MS :: js_number where "NODE_STALE_DARK_GREY_MS = 60 * 60000"
definition NODE_FRESH_MS :: js_number where "NODE_FRESH_MS = 5 * 60000"
definition NODE_MEDIUM_MS :: js_number where "NODE_MEDIUM_MS = 30 * 60000"

definition compactNodeLabel :: "string \<Rightarrow> nat \<Rightarrow> string" where
  "compactNodeLabel label maxChars =
     (let trimmed = js_trim label
      in if length trimmed \<le> maxChars then trimmed
         else if maxChars \<le> 3 then take maxChars trimmed
         else take (maxChars - 3) trimmed @ ''...'')"

definition nodeMapLabel :: "PublicNode \<Rightarrow> string" where
  "nodeMapLabel node = compactNodeLabel (pn_label node) NODE_LABEL_MAX_CHARS"

definition nodeLastHeardAgeLabel :: "js_number \<Rightarrow> js_number \<Rightarrow> string" where
  "nodeLastHeardAgeLabel lastSeen now =
     (if lastSeen \<le> 0 then ''last unknown''
      else let ageMs = max 0 (now - lastSeen); seconds = nat \<lfloor>ageMs / 1000\<rfloor>; minutes = seconds div 60;
               hours = minutes div 60; days = hours div 24
           in if seconds < 5 then ''last now''
              else if seconds < 60 then ''last '' @ show_nat seconds @ ''s''
              else if minutes < 60 then ''last '' @ show_nat minutes @ ''m''
              else if hours < 24 then ''last '' @ show_nat hours @ ''h''
              else ''last '' @ show_nat days @ ''d'')"

definition nodeActivityHeat :: "nat \<Rightarrow> js_number" where
  "nodeActivityHeat hitCount =
     (if hitCount = 0 then 0 else min 1 (log1p (real hitCount) / log1p (real NODE_ACTIVITY_HOT_COUNT)))"

definition nodeActivityGlow :: "js_number \<Rightarrow> js_number" where
  "nodeActivityGlow ageMs =
     (if ageMs < 0 then 1
      else let progress = clampRange (ageMs / NODE_ACTIVITY_GLOW_MS) 0 1 in (1 - progress) powr (72 / 100))"

definition nodeLabelActivityProgress :: "js_number \<Rightarrow> js_number \<Rightarrow> js_number" where
  "nodeLabelActivityProgress ageMs visibleWindowMs =
     (if ageMs < 0 \<or> visibleWindowMs \<le> 0 then 0
      else let remaining = clampRange (1 - ageMs / visibleWindowMs) 0 1 in remaining powr (68 / 100))"

definition nodeEffectiveActivityAt :: "PublicNode \<Rightarrow> js_number option \<Rightarrow> js_number" where
  "nodeEffectiveActivityAt node meshActivityAt = or_else meshActivityAt (pn_lastSeen node)"

definition nodeStaleLevel :: "PublicNode \<Rightarrow> js_number \<Rightarrow> js_number option \<Rightarrow> nat" where
  "nodeStaleLevel node now meshActivityAt =
     (let activityAt = nodeEffectiveActivityAt node meshActivityAt
      in if activityAt \<le> 0 then 2
         else let ageMs = max 0 (now - activityAt)
              in if NODE_STALE_DARK_GREY_MS \<le> ageMs then 2 else if NODE_STALE_GREY_MS \<le> ageMs then 1 else 0)"

definition nodeFreshLevel :: "PublicNode \<Rightarrow> js_number \<Rightarrow> js_number option \<Rightarrow> nat" where
  "nodeFreshLevel node now meshActivityAt =
     (let activityAt = nodeEffectiveActivityAt node meshActivityAt
      in if activityAt \<le> 0 then 3
         else let ageMs = max 0 (now - activityAt)
              in if ageMs < NODE_FRESH_MS then 0 else if ageMs < NODE_MEDIUM_MS then 1 else 2)"

section \<open>Roles\<close>

datatype NodeIconShape = Diamond | Triangle | Square | Pentagon | Circle | ObserverShape

record NodeRoleVisual =
  nv_key :: string
  nv_role :: string
  nv_label :: string
  nv_icon :: string
  nv_mapImageID :: string
  nv_color :: string
  nv_shape :: NodeIconShape
  nv_legendClass :: "string option"

definition NODE_ROLE_VISUALS :: "(string \<Rightarrow> string) \<Rightarrow> NodeRoleVisual list" where
  "NODE_ROLE_VISUALS icons =
     [\<lparr>nv_key = ''repeater'', nv_role = ''repeater'', nv_label = ''Repeater'', nv_icon = icons ''repeater'',
       nv_mapImageID = ''node-repeater'', nv_color = ''#22c55e'', nv_shape = Diamond, nv_legendClass = None\<rparr>,
      \<lparr>nv_key = ''companion'', nv_role = ''companion'', nv_label = ''Companion'', nv_icon = icons ''companion'',
       nv_mapImageID = ''node-companion'', nv_color = ''#3b82f6'', nv_shape = Triangle, nv_legendClass = None\<rparr>,
      \<lparr>nv_key = ''room'', nv_role = ''room_server'', nv_label = ''Room'', nv_icon = icons ''room'',
       nv_mapImageID = ''node-room_server'', nv_color = ''#a855f7'', nv_shape = Square, nv_legendClass = None\<rparr>,
      \<lparr>nv_key = ''sensor'', nv_role = ''sensor'', nv_label = ''Sensor'', nv_icon = icons ''sensor'',
       nv_mapImageID = ''node-sensor'', nv_color = ''#65a30d'', nv_shape = Pentagon, nv_legendClass = None\<rparr>,
      \<lparr>nv_key = ''other'', nv_role = ''unknown'', nv_label = ''Other'', nv_icon = icons ''unknown'',
       nv_mapImageID = ''node-unknown'', nv_color = ''#64748b'', nv_shape = Circle, nv_legendClass = None\<rparr>]"

definition OBSERVER_NODE_VISUAL :: "(string \<Rightarrow> string) \<Rightarrow> NodeRoleVisual" where
  "OBSERVER_NODE_VISUAL icons =
     \<lparr>nv_key = ''observer'', nv_role = ''observer'', nv_label = ''Observer'', nv_icon = icons ''observer'',
      nv_mapImageID = ''observer-node'', nv_color = ''#f59e0b'', nv_shape = ObserverShape, nv_legendClass = Some ''observer''\<rparr>"

definition nodeRoleVisual :: "(string \<Rightarrow> string) \<Rightarrow> string \<Rightarrow> NodeRoleVisual" where
  "nodeRoleVisual icons role =
     or_else (map_get (new_map (map (\<lambda>visual. (nv_role visual, visual)) (NODE_ROLE_VISUALS icons))) role)
       (last (NODE_ROLE_VISUALS icons))"

definition nodeMapImageID :: "(string \<Rightarrow> string) \<Rightarrow> string \<Rightarrow> string" where
  "nodeMapImageID icons role = nv_mapImageID (nodeRoleVisual icons role)"

definition nodeRoleColor :: "(string \<Rightarrow> string) \<Rightarrow> string \<Rightarrow> string" where
  "nodeRoleColor icons role = nv_color (nodeRoleVisual icons role)"

definition roleClass :: "string \<Rightarrow> string" where
  "roleClass role =
     (if role = ''repeater'' then ''role-repeater'' else if role = ''room_server'' then ''role-room''
      else if role = ''companion'' then ''role-companion'' else if role = ''sensor'' then ''role-sensor''
      else ''role-unknown'')"

definition formatNodeRole :: "string \<Rightarrow> string" where
  "formatNodeRole role =
     (if role = ''room_server'' then ''Room'' else if role = ''repeater'' then ''Repeater''
      else if role = ''companion'' then ''Companion'' else if role = ''sensor'' then ''Sensor'' else ''Unknown'')"

section \<open>Features of the nodes\<close>

record NodeProperties =
  np_id :: string
  np_label :: string
  np_mapLabel :: string
  np_role :: string
  np_color :: string
  np_selected :: bool
  np_neighbor :: bool
  np_path :: bool
  np_focused :: bool
  np_dimmed :: bool
  np_neighborDistanceKm :: "js_number option"
  np_observer :: bool
  np_staleLevel :: nat
  np_freshLevel :: nat

record 'p PointFeature =
  qf_id :: string
  qf_properties :: 'p
  qf_coordinates :: "js_number \<times> js_number"

definition nodeFeatureProperties ::
  "(string \<Rightarrow> string) \<Rightarrow> NodeFocus \<Rightarrow> js_number \<Rightarrow> (string, js_number) js_map \<Rightarrow> PublicNode \<Rightarrow> NodeProperties" where
  "nodeFeatureProperties icons focus labelClock meshActivityAtByNodeID node =
     (let meshActivityAt = map_get meshActivityAtByNodeID (pn_id node);
          selected = (Some (pn_id node) = nf_selectedNodeID focus);
          neighbor = (pn_id node \<in> set (nf_neighbourNodeIDs focus));
          path = (pn_id node \<in> set (nf_pathNodeIDs focus));
          focusActive = (truthy_str (nf_selectedNodeID focus) \<or> nf_pathNodeIDs focus \<noteq> [])
      in \<lparr>np_id = pn_id node, np_label = pn_label node, np_mapLabel = nodeMapLabel node, np_role = role_name (pn_role node),
          np_color = nodeRoleColor icons (role_name (pn_role node)), np_selected = selected, np_neighbor = neighbor, np_path = path,
          np_focused = (selected \<or> neighbor \<or> path), np_dimmed = (focusActive \<and> \<not> selected \<and> \<not> neighbor \<and> \<not> path),
          np_neighborDistanceKm = map_get (nf_neighbourDistanceKmByNodeID focus) (pn_id node),
          np_observer = (pn_isObserver node = Some True), np_staleLevel = nodeStaleLevel node labelClock meshActivityAt,
          np_freshLevel = nodeFreshLevel node labelClock meshActivityAt\<rparr>)"

definition nodesToGeoJSON ::
  "(string \<Rightarrow> string) \<Rightarrow> PublicNode list \<Rightarrow> NodeFocus \<Rightarrow> js_number \<Rightarrow> (string, js_number) js_map \<Rightarrow> NodeProperties PointFeature list" where
  "nodesToGeoJSON icons nodes focus labelClock meshActivityAtByNodeID =
     map (\<lambda>node. \<lparr>qf_id = pn_id node, qf_properties = nodeFeatureProperties icons focus labelClock meshActivityAtByNodeID node,
            qf_coordinates = (pn_longitude node, pn_latitude node)\<rparr>) (filter isMappableNode nodes)"

definition nodeRenderParts :: "NodeFocus \<Rightarrow> js_number \<Rightarrow> (string, js_number) js_map \<Rightarrow> PublicNode \<Rightarrow> string list" where
  "nodeRenderParts focus now meshActivityAtByNodeID node =
     (let selected = (Some (pn_id node) = nf_selectedNodeID focus);
          neighbor = (pn_id node \<in> set (nf_neighbourNodeIDs focus));
          path = (pn_id node \<in> set (nf_pathNodeIDs focus));
          focusActive = (truthy_str (nf_selectedNodeID focus) \<or> nf_pathNodeIDs focus \<noteq> []);
          bit = (\<lambda>b. if b then ''1'' else ''0'')
      in [pn_id node, pn_label node, role_name (pn_role node), bit (pn_isObserver node = Some True),
          to_fixed 5 (pn_latitude node), to_fixed 5 (pn_longitude node), bit selected, bit neighbor, bit path,
          bit (focusActive \<and> \<not> selected \<and> \<not> neighbor \<and> \<not> path),
          show_nat (nodeStaleLevel node now (map_get meshActivityAtByNodeID (pn_id node))),
          show_nat (nodeFreshLevel node now (map_get meshActivityAtByNodeID (pn_id node)))])"

definition nodeRenderIdentity :: "NodeFocus \<Rightarrow> js_number \<Rightarrow> (string, js_number) js_map \<Rightarrow> PublicNode \<Rightarrow> string" where
  "nodeRenderIdentity focus now meshActivityAtByNodeID node = join '':'' (nodeRenderParts focus now meshActivityAtByNodeID node)"

definition nodeSourceSignature :: "PublicNode list \<Rightarrow> NodeFocus \<Rightarrow> js_number \<Rightarrow> (string, js_number) js_map \<Rightarrow> string" where
  "nodeSourceSignature nodes focus now meshActivityAtByNodeID = join ''~''
     [or_else (nf_selectedNodeID focus) [], stableSetSignature (nf_neighbourNodeIDs focus),
      stableSetSignature (nf_pathNodeIDs focus), stableSetSignature (nf_pathRouteIDs focus),
      join ''|'' (sort_strings (map (nodeRenderIdentity focus now meshActivityAtByNodeID) (filter isMappableNode nodes)))]"

section \<open>The signature covers what is drawn\<close>

lemma role_name_inj: "role_name r = role_name r' \<Longrightarrow> r = r'"
  by (cases r; cases r'; simp)

lemma render_parts_cover:
  assumes "nodeRenderParts focus now mesh node = nodeRenderParts focus' now' mesh' node'"
    and "map_get (nf_neighbourDistanceKmByNodeID focus) (pn_id node) = map_get (nf_neighbourDistanceKmByNodeID focus') (pn_id node')"
  shows "nodeFeatureProperties icons focus now mesh node = nodeFeatureProperties icons focus' now' mesh' node'"
    and "to_fixed 5 (pn_latitude node) = to_fixed 5 (pn_latitude node')"
proof -
  have b: "((if x then ''1'' else ''0'') = (if y then ''1'' else ''0'')) = (x = y)" for x y :: bool by simp
  note raw = assms(1) [unfolded nodeRenderParts_def Let_def list.inject b]
  have parts: "pn_id node = pn_id node'" "pn_label node = pn_label node'"
    "(pn_isObserver node = Some True) = (pn_isObserver node' = Some True)"
    "(Some (pn_id node) = nf_selectedNodeID focus) = (Some (pn_id node') = nf_selectedNodeID focus')"
    "(pn_id node \<in> set (nf_neighbourNodeIDs focus)) = (pn_id node' \<in> set (nf_neighbourNodeIDs focus'))"
    "(pn_id node \<in> set (nf_pathNodeIDs focus)) = (pn_id node' \<in> set (nf_pathNodeIDs focus'))"
    using raw by - (elim conjE, assumption)+
  have "role_name (pn_role node) = role_name (pn_role node')" using raw by (elim conjE)
  then have role: "pn_role node = pn_role node'" by (rule role_name_inj)
  have rest: "((truthy_str (nf_selectedNodeID focus) \<or> nf_pathNodeIDs focus \<noteq> []) \<and> Some (pn_id node) \<noteq> nf_selectedNodeID focus \<and>
        pn_id node \<notin> set (nf_neighbourNodeIDs focus) \<and> pn_id node \<notin> set (nf_pathNodeIDs focus)) =
      ((truthy_str (nf_selectedNodeID focus') \<or> nf_pathNodeIDs focus' \<noteq> []) \<and> Some (pn_id node') \<noteq> nf_selectedNodeID focus' \<and>
        pn_id node' \<notin> set (nf_neighbourNodeIDs focus') \<and> pn_id node' \<notin> set (nf_pathNodeIDs focus'))"
    using raw by (elim conjE)
  have "show_nat (nodeStaleLevel node now (map_get mesh (pn_id node))) = show_nat (nodeStaleLevel node' now' (map_get mesh' (pn_id node')))"
    "show_nat (nodeFreshLevel node now (map_get mesh (pn_id node))) = show_nat (nodeFreshLevel node' now' (map_get mesh' (pn_id node')))"
    using raw by - (elim conjE, assumption)+
  then have levels: "nodeStaleLevel node now (map_get mesh (pn_id node)) = nodeStaleLevel node' now' (map_get mesh' (pn_id node'))"
    "nodeFreshLevel node now (map_get mesh (pn_id node)) = nodeFreshLevel node' now' (map_get mesh' (pn_id node'))"
    by (auto dest: show_nat_inj)
  show "nodeFeatureProperties icons focus now mesh node = nodeFeatureProperties icons focus' now' mesh' node'"
    unfolding nodeFeatureProperties_def Let_def nodeMapLabel_def
    by (simp only: rest) (simp only: parts(2-6) role levels assms(2), simp only: parts(1))
  show "to_fixed 5 (pn_latitude node) = to_fixed 5 (pn_latitude node')"
    using raw by (elim conjE)
qed

end
