(* ===== verification/Source_Queue.thy ===== *)
theory Source_Queue
  imports Carto_Strings "HOL-Library.Word"
begin

unbundle bit_operations_syntax

text \<open>
  \<open>web/src/map/sourceDataQueue.ts\<close>: the data of the map's sources, coalesced to one update a frame and
  skipped when the signature of a source has not changed. The state is that of one map: its queue, whether
  it is disposed, and what its sources show. The serialized data and the number of features of a collection
  are the parameters \<open>ser\<close> and \<open>features\<close>; the hash of the signature is computed on 32-bit words, to which
  the bitwise operators of the language truncate.
\<close>

section \<open>Signatures\<close>

definition hash_step :: "32 word \<Rightarrow> char \<Rightarrow> 32 word" where
  "hash_step hash c = (push_bit 5 hash + hash) XOR of_char c"

definition featureCollectionSignature :: "('d \<Rightarrow> string) \<Rightarrow> ('d \<Rightarrow> nat) \<Rightarrow> 'd \<Rightarrow> string" where
  "featureCollectionSignature ser features data =
     show_nat (features data) @ '':'' @ show_nat (unat (foldl hash_step 5381 (ser data)))"

section \<open>The queue of a map\<close>

text \<open>A source that is missing, or what it shows; a source that was just added shows nothing.\<close>

datatype 'd source = Missing | Blank | Shows 'd

record 'd SourceUpdateQueue =
  sq_disposed :: bool
  sq_frame :: bool \<comment> \<open>\<open>frame !== 0\<close>\<close>
  sq_pending :: "(string, 'd) js_map"
  sq_signatures :: "(string, string) js_map"
  sq_sources :: "string \<Rightarrow> 'd source"

definition newMap :: "(string \<Rightarrow> 'd source) \<Rightarrow> 'd SourceUpdateQueue" where
  "newMap sources = \<lparr>sq_disposed = False, sq_frame = False, sq_pending = [], sq_signatures = [], sq_sources = sources\<rparr>"

definition setSourceData ::
  "('d \<Rightarrow> string) \<Rightarrow> string \<Rightarrow> 'd \<Rightarrow> string option \<Rightarrow> 'd SourceUpdateQueue \<Rightarrow> 'd SourceUpdateQueue" where
  "setSourceData signatureOf sourceID data signature q =
     (if sq_disposed q then q
      else let nextSignature = or_else signature (signatureOf data)
           in if map_get (sq_signatures q) sourceID = Some nextSignature then q
              else q\<lparr>sq_signatures := map_set sourceID nextSignature (sq_signatures q),
                     sq_pending := map_set sourceID data (sq_pending q), sq_frame := True\<rparr>)"

definition applySourceData :: "string \<Rightarrow> 'd \<Rightarrow> 'd SourceUpdateQueue \<Rightarrow> bool \<times> 'd SourceUpdateQueue" where
  "applySourceData sourceID data q =
     (if sq_sources q sourceID = Missing then (False, q)
      else (True, q\<lparr>sq_sources := (sq_sources q)(sourceID := Shows data)\<rparr>))"

definition flushEntry :: "'d SourceUpdateQueue \<Rightarrow> string \<times> 'd \<Rightarrow> 'd SourceUpdateQueue" where
  "flushEntry q entry =
     (let (applied, q1) = applySourceData (fst entry) (snd entry) q
      in if \<not> applied then q1\<lparr>sq_signatures := map_del (fst entry) (sq_signatures q1)\<rparr> else q1)"

definition runFrame :: "'d SourceUpdateQueue \<Rightarrow> 'd SourceUpdateQueue" where
  "runFrame q =
     (if sq_disposed q then q
      else foldl flushEntry (q\<lparr>sq_frame := False, sq_pending := []\<rparr>) (sq_pending q))"

definition disposeSourceDataQueue :: "'d SourceUpdateQueue \<Rightarrow> 'd SourceUpdateQueue" where
  "disposeSourceDataQueue q = q\<lparr>sq_disposed := True, sq_frame := False, sq_pending := [], sq_signatures := []\<rparr>"

datatype 'd source_input =
    SetData string 'd "string option"
  | FrameRuns
  | AddSource string
  | ReloadStyle "string list" \<comment> \<open>the sources added again after the style was replaced\<close>
  | DisposeQueue

fun source_step :: "('d \<Rightarrow> string) \<Rightarrow> 'd SourceUpdateQueue \<Rightarrow> 'd source_input \<Rightarrow> 'd SourceUpdateQueue" where
  "source_step sg q (SetData i d s) = setSourceData sg i d s q"
| "source_step sg q FrameRuns = (if sq_frame q then runFrame q else q)"
| "source_step sg q (AddSource i) =
     (if sq_sources q i = Missing then q\<lparr>sq_sources := (sq_sources q)(i := Blank)\<rparr> else q)"
| "source_step sg q (ReloadStyle is) = q\<lparr>sq_sources := (\<lambda>i. if i \<in> set is then Blank else Missing)\<rparr>"
| "source_step sg q DisposeQueue = disposeSourceDataQueue q"

abbreviation source_run :: "('d \<Rightarrow> string) \<Rightarrow> 'd SourceUpdateQueue \<Rightarrow> 'd source_input list \<Rightarrow> 'd SourceUpdateQueue" where
  "source_run sg \<equiv> foldl (source_step sg)"

section \<open>What the map has to show\<close>

text \<open>
  The specification: a map without a queue, on which a source has the data it was given last. The queue
  refines it as long as sources only appear and a signature identifies the data.
\<close>

fun spec_step :: "(string \<Rightarrow> 'd option) \<Rightarrow> 'd source_input \<Rightarrow> string \<Rightarrow> 'd option" where
  "spec_step latest (SetData i d s) = latest(i := Some d)"
| "spec_step latest _ = latest"

fun signed :: "('d \<Rightarrow> string) \<Rightarrow> 'd source_input \<Rightarrow> (string \<times> string \<times> 'd) set" where
  "signed sg (SetData i d s) = {(i, or_else s (sg d), d)}"
| "signed sg _ = {}"

definition identified :: "('d \<Rightarrow> string) \<Rightarrow> 'd source_input list \<Rightarrow> bool" where
  "identified sg inputs \<longleftrightarrow> (\<forall>(i, s, d) \<in> \<Union>(signed sg ` set inputs). \<forall>(j, t, e) \<in> \<Union>(signed sg ` set inputs).
     i = j \<longrightarrow> s = t \<longrightarrow> d = e)"

definition only_adds :: "'d source_input list \<Rightarrow> bool" where
  "only_adds inputs \<longleftrightarrow> (\<forall>x \<in> set inputs. case x of ReloadStyle is \<Rightarrow> False | DisposeQueue \<Rightarrow> False | _ \<Rightarrow> True)"

text \<open>The refinement relation at a source which is there: its data is shown or pending, under its signature.\<close>

definition source_refines ::
  "('d \<Rightarrow> string) \<Rightarrow> (string \<times> string \<times> 'd) set \<Rightarrow> string \<Rightarrow> 'd SourceUpdateQueue \<Rightarrow> (string \<Rightarrow> 'd option) \<Rightarrow> bool" where
  "source_refines sg known i q latest \<longleftrightarrow>
     \<not> sq_disposed q \<and> well_keyed (sq_pending q) \<and> sq_sources q i \<noteq> Missing \<and> (sq_pending q \<noteq> [] \<longrightarrow> sq_frame q) \<and>
     (case latest i of None \<Rightarrow> map_get (sq_signatures q) i = None \<and> map_get (sq_pending q) i = None
      | Some d \<Rightarrow> (\<exists>s. map_get (sq_signatures q) i = Some s \<and> (i, s, d) \<in> known) \<and>
          (map_get (sq_pending q) i = Some d \<or> map_get (sq_pending q) i = None \<and> sq_sources q i = Shows d))"

lemma flush_frames:
  "sq_disposed (foldl flushEntry q es) = sq_disposed q" "sq_frame (foldl flushEntry q es) = sq_frame q"
  "sq_pending (foldl flushEntry q es) = sq_pending q"
  by (induction es arbitrary: q) (simp_all add: flushEntry_def applySourceData_def Let_def)

lemma flush_source:
  "sq_sources q i \<noteq> Missing \<Longrightarrow> distinct (map fst es) \<Longrightarrow>
     sq_sources (foldl flushEntry q es) i = (case map_of es i of None \<Rightarrow> sq_sources q i | Some d \<Rightarrow> Shows d) \<and>
     map_get (sq_signatures (foldl flushEntry q es)) i = map_get (sq_signatures q) i"
proof (induction es arbitrary: q)
  case Nil
  then show ?case by simp
next
  case (Cons e es)
  let ?q = "flushEntry q e"
  have "sq_sources ?q i = (if fst e = i then Shows (snd e) else sq_sources q i)"
    "map_get (sq_signatures ?q) i = map_get (sq_signatures q) i"
    using Cons.prems(1) by (auto simp: flushEntry_def applySourceData_def Let_def)
  moreover have "fst e = i \<Longrightarrow> map_of es i = None" using Cons.prems(2) by (auto simp: map_of_eq_None_iff)
  ultimately show ?case using Cons.IH [of ?q] Cons.prems by (cases e) (auto split: option.split)
qed

lemma source_refines_cong:
  "latest i = latest' i \<Longrightarrow> source_refines sg known i q latest = source_refines sg known i q latest'"
  by (simp add: source_refines_def)

lemma setSourceData_refines:
  assumes r: "source_refines sg known i q latest" and k: "(j, or_else s (sg d), d) \<in> known"
    and u: "\<And>j s d e. (j, s, d) \<in> known \<Longrightarrow> (j, s, e) \<in> known \<Longrightarrow> d = e"
  shows "source_refines sg known i (setSourceData sg j d s q) (latest(j := Some d))"
proof (cases "map_get (sq_signatures q) j = Some (or_else s (sg d))")
  case True
  have "j = i \<Longrightarrow> latest i = Some d" using True r k u by (auto simp: source_refines_def split: option.splits)
  then have "(latest(j := Some d)) i = latest i" by auto
  moreover have "setSourceData sg j d s q = q" using True r by (simp add: setSourceData_def)
  ultimately show ?thesis using r source_refines_cong by metis
next
  case False
  then show ?thesis using r k by (auto simp: source_refines_def setSourceData_def Let_def split: option.splits)
qed

lemma runFrame_refines:
  assumes "source_refines sg known i q latest"
  shows "source_refines sg known i (runFrame q) latest"
    and "\<And>d. latest i = Some d \<Longrightarrow> sq_sources (runFrame q) i = Shows d"
proof -
  have q: "\<not> sq_disposed q" "sq_sources q i \<noteq> Missing" "distinct (map fst (sq_pending q))"
    using assms by (simp_all add: source_refines_def well_keyed_def)
  let ?q = "runFrame q"
  have f: "sq_sources ?q i = (case map_get (sq_pending q) i of None \<Rightarrow> sq_sources q i | Some d \<Rightarrow> Shows d)"
    "map_get (sq_signatures ?q) i = map_get (sq_signatures q) i" "sq_pending ?q = []" "\<not> sq_disposed ?q"
    using flush_source [of "q\<lparr>sq_frame := False, sq_pending := []\<rparr>" i "sq_pending q"] q
    by (simp_all add: runFrame_def flush_frames split: option.split)
  show shown: "sq_sources ?q i = Shows d" if "latest i = Some d" for d
    using assms that unfolding f(1) by (auto simp: source_refines_def)
  show "source_refines sg known i ?q latest"
  proof (cases "latest i")
    case None
    then show ?thesis using assms f(1) f(2-) by (simp add: source_refines_def)
  next
    case (Some d)
    then show ?thesis using assms f(2-) shown [OF Some] by (simp add: source_refines_def)
  qed
qed

lemma source_step_refines:
  assumes r: "source_refines sg known i q latest" and k: "signed sg x \<subseteq> known" and a: "only_adds [x]"
    and u: "\<And>j s d e. (j, s, d) \<in> known \<Longrightarrow> (j, s, e) \<in> known \<Longrightarrow> d = e"
  shows "source_refines sg known i (source_step sg q x) (spec_step latest x)"
proof (cases x)
  case (SetData j d s)
  then show ?thesis using setSourceData_refines [OF r _ u, of j s d] k by simp
next
  case FrameRuns
  then show ?thesis using runFrame_refines(1) [OF r] r by simp
next
  case (AddSource j)
  then show ?thesis using r by (auto simp: source_refines_def split: option.splits)
qed (use a in \<open>simp_all add: only_adds_def\<close>)

lemma source_run_refines:
  assumes "source_refines sg known i q latest" and "\<Union>(signed sg ` set inputs) \<subseteq> known" and "only_adds inputs"
    and "\<And>j s d e. (j, s, d) \<in> known \<Longrightarrow> (j, s, e) \<in> known \<Longrightarrow> d = e"
  shows "source_refines sg known i (source_run sg q inputs) (foldl spec_step latest inputs)"
  using assms(1-3)
proof (induction inputs arbitrary: q latest)
  case (Cons x inputs)
  have "source_refines sg known i (source_step sg q x) (spec_step latest x)"
    using Cons.prems by (intro source_step_refines [OF _ _ _ assms(4)]) (simp_all add: only_adds_def)
  then show ?case using Cons by (simp add: only_adds_def)
qed simp

section \<open>Properties\<close>



text \<open>
  The cache of signatures outlives the sources: when the style is reloaded and the sources are added again,
  data with the signature the source had before is skipped, and the source stays blank through every later
  frame in which its signature does not change.
\<close>

lemma reloaded_source_stays_blank:
  assumes "\<not> sq_disposed q" and "map_get (sq_signatures q) i = Some s" and "sq_pending q = []" and "i \<in> set is"
  shows "sq_sources (source_run sg q (ReloadStyle is # concat (replicate n [SetData i d (Some s), FrameRuns]))) i = Blank"
proof -
  let ?q = "q\<lparr>sq_sources := (\<lambda>i. if i \<in> set is then Blank else Missing)\<rparr>"
  let ?ok = "\<lambda>p :: 'a SourceUpdateQueue. \<not> sq_disposed p \<and> map_get (sq_signatures p) i = Some s \<and> sq_pending p = [] \<and> sq_sources p i = Blank"
  have "?ok (foldl (source_step sg) ?q (concat (replicate n [SetData i d (Some s), FrameRuns])))"
  proof (rule foldl_invariant)
    show "?ok ?q" using assms by simp
    fix p x assume "?ok p" "x \<in> set (concat (replicate n [SetData i d (Some s), FrameRuns]))"
    then show "?ok (source_step sg p x)" by (auto simp: setSourceData_def runFrame_def split: if_splits)
  qed
  then show ?thesis by simp
qed

lemma reloaded_source_stays_blank_witness:
  "sq_sources (source_run (\<lambda>d. d) (source_run (\<lambda>d. d) (newMap (\<lambda>i. Blank)) [SetData ''nodes'' ''a'' (Some ''s''), FrameRuns])
     (ReloadStyle [''nodes''] # concat (replicate 1 [SetData ''nodes'' ''a'' (Some ''s''), FrameRuns]))) ''nodes'' = Blank"
  by (rule reloaded_source_stays_blank)
    (simp_all add: newMap_def setSourceData_def runFrame_def flushEntry_def applySourceData_def map_set_def)

end
