(* ===== verification/Activity_Glow.thy ===== *)
theory Activity_Glow
  imports Node_Source Source_Queue
begin

text \<open>
  \<open>map/activityHeatmap.ts\<close>, \<open>map/clusterActivity.ts\<close> and the activity of the nodes in \<open>CanadaMap.tsx\<close>: the hits of
  the last minute by node with the glow they leave, the features of the heat map, and the glows of the clusters. The
  times \<open>now\<close> and \<open>performanceNow\<close> are of the clock of the page, \<open>epochNow\<close> of the wall clock. The rendered clusters
  near a place, which the map library finds, are an argument.
\<close>

section \<open>Hits and glows of the nodes\<close>

text \<open>\<open>ActivityHeatEntry\<close> is the same record.\<close>

record NodeActivity =
  na_hits :: "js_number list"
  na_lastAt :: js_number

record NodeTelemetry =
  nt_lastSeen :: js_number
  nt_activityCount :: js_number

record NodeGlow =
  ng_glow :: js_number
  ng_heat :: js_number

definition addNodeActivityHit ::
  "string \<Rightarrow> js_number \<Rightarrow> js_number \<Rightarrow> (string, NodeActivity) js_map \<Rightarrow> (string, NodeActivity) js_map" where
  "addNodeActivityHit nodeID now cutoff activities =
     (let hits = (case map_get activities nodeID of None \<Rightarrow> [] | Some existing \<Rightarrow> filter (\<lambda>hitAt. cutoff \<le> hitAt) (na_hits existing))
      in map_set nodeID \<lparr>na_hits = hits @ [now], na_lastAt = now\<rparr> activities)"

definition safeSetNodeFeatureState :: "bool \<Rightarrow> string \<Rightarrow> NodeGlow \<Rightarrow> (string, NodeGlow) js_map \<Rightarrow> (string, NodeGlow) js_map" where
  "safeSetNodeFeatureState hasSource nodeID state states = (if hasSource then map_set nodeID state states else states)"

record ActivityUpdate =
  au_active :: nat
  au_activities :: "(string, NodeActivity) js_map"
  au_states :: "(string, NodeGlow) js_map"

definition activityGlow :: "js_number \<Rightarrow> NodeActivity \<Rightarrow> js_number" where
  "activityGlow now activity = clampRange (nodeActivityGlow (now - na_lastAt activity)) 0 1"

definition updateEntry :: "bool \<Rightarrow> js_number \<Rightarrow> ActivityUpdate \<Rightarrow> string \<times> NodeActivity option \<Rightarrow> ActivityUpdate" where
  "updateEntry hasSource now u entry =
     (case snd entry of None \<Rightarrow> u
      | Some activity \<Rightarrow>
          let nodeID = fst entry; hits = filter (\<lambda>hitAt. now - NODE_ACTIVITY_WINDOW_MS \<le> hitAt) (na_hits activity);
              glow = activityGlow now activity; heat = nodeActivityHeat (length hits) * glow
          in \<lparr>au_active = (if 1 / 100 < glow then au_active u + 1 else au_active u),
              au_activities = (if glow \<le> 0 \<and> hits = [] then map_del nodeID (au_activities u)
                 else map_set nodeID (activity\<lparr>na_hits := hits\<rparr>) (au_activities u)),
              au_states = safeSetNodeFeatureState hasSource nodeID \<lparr>ng_glow = glow, ng_heat = heat\<rparr> (au_states u)\<rparr>)"

definition updateNodeActivityFeatureStates ::
  "bool \<Rightarrow> js_number \<Rightarrow> string list option \<Rightarrow> (string, NodeActivity) js_map \<Rightarrow> (string, NodeGlow) js_map \<Rightarrow> ActivityUpdate" where
  "updateNodeActivityFeatureStates hasSource now nodeIDs activities states =
     (let entries = (case nodeIDs of Some ids \<Rightarrow> map (\<lambda>nodeID. (nodeID, map_get activities nodeID)) ids
                     | None \<Rightarrow> map (\<lambda>(nodeID, activity). (nodeID, Some activity)) activities)
      in foldl (updateEntry hasSource now) \<lparr>au_active = 0, au_activities = activities, au_states = states\<rparr> entries)"

definition pulseNodeIDs :: "PublicRoutePulse \<Rightarrow> string list" where
  "pulseNodeIDs pulse =
     js_set (filter (\<lambda>i. i \<noteq> []) (concat (map (\<lambda>segment. [ep_nodeId (sg_from segment), ep_nodeId (sg_to segment)]) (rp_segments pulse))))"

definition addPulseNodeActivityBatch ::
  "bool \<Rightarrow> js_number \<Rightarrow> PublicRoutePulse list \<Rightarrow> (string, NodeActivity) js_map \<Rightarrow> (string, NodeGlow) js_map \<Rightarrow> ActivityUpdate" where
  "addPulseNodeActivityBatch hasSource now pulses activities states =
     (let ids = concat (map pulseNodeIDs pulses)
      in updateNodeActivityFeatureStates hasSource now (Some (js_set ids))
           (foldl (\<lambda>m nodeID. addNodeActivityHit nodeID now (now - NODE_ACTIVITY_WINDOW_MS) m) activities ids) states)"

definition addPulseNodeMeshActivity :: "PublicRoutePulse \<Rightarrow> (string, js_number) js_map \<Rightarrow> (string, js_number) js_map" where
  "addPulseNodeMeshActivity pulse meshActivity =
     foldl (\<lambda>m nodeID. if nodeID \<noteq> [] then map_set nodeID (rp_heardAt pulse) m else m) meshActivity
       (concat (map (\<lambda>segment. [ep_nodeId (sg_from segment), ep_nodeId (sg_to segment)]) (rp_segments pulse)))"

record ChangedActivity =
  ca_activities :: "(string, NodeActivity) js_map"
  ca_telemetry :: "(string, NodeTelemetry) js_map"
  ca_meshActivity :: "(string, js_number) js_map"
  ca_changed :: bool

definition changedNode :: "js_number \<Rightarrow> ChangedActivity \<Rightarrow> PublicNode \<Rightarrow> ChangedActivity" where
  "changedNode now c node =
     (let previous = map_get (ca_telemetry c) (pn_id node);
          c1 = c\<lparr>ca_telemetry := map_set (pn_id node) \<lparr>nt_lastSeen = pn_lastSeen node, nt_activityCount = pn_activityCount node\<rparr>
                 (ca_telemetry c)\<rparr>
      in case previous of None \<Rightarrow> c1
         | Some t \<Rightarrow>
             if nt_lastSeen t < pn_lastSeen node \<or> nt_activityCount t < pn_activityCount node
             then c1\<lparr>ca_activities := addNodeActivityHit (pn_id node) now (now - NODE_ACTIVITY_WINDOW_MS) (ca_activities c1),
                    ca_meshActivity := map_set (pn_id node) (pn_lastSeen node) (ca_meshActivity c1), ca_changed := True\<rparr>
             else c1)"

text \<open>The second component is the update of the feature states, when a node changed.\<close>

definition addChangedNodeActivity ::
  "bool \<Rightarrow> js_number \<Rightarrow> PublicNode list \<Rightarrow> ChangedActivity \<Rightarrow> (string, NodeGlow) js_map \<Rightarrow> ChangedActivity \<times> (string, NodeGlow) js_map" where
  "addChangedNodeActivity hasSource now nodes c states =
     (let c1 = foldl (changedNode now) (c\<lparr>ca_changed := False\<rparr>) nodes;
          u = updateNodeActivityFeatureStates hasSource now None (ca_activities c1) states
      in if ca_changed c1 then (c1\<lparr>ca_activities := au_activities u\<rparr>, au_states u) else (c1, states))"

definition clearNodeActivityStates ::
  "bool \<Rightarrow> (string, NodeActivity) js_map \<Rightarrow> (string, NodeGlow) js_map \<Rightarrow> (string, NodeActivity) js_map \<times> (string, NodeGlow) js_map" where
  "clearNodeActivityStates hasSource activities states =
     ([], foldl (\<lambda>s nodeID. safeSetNodeFeatureState hasSource nodeID \<lparr>ng_glow = 0, ng_heat = 0\<rparr> s) states (map_keys activities))"

section \<open>Heat map\<close>

definition ACTIVITY_HEATMAP_WINDOW_MS :: js_number where "ACTIVITY_HEATMAP_WINDOW_MS = 15 * 60000"
definition ACTIVITY_HEATMAP_MAX_FEATURES :: nat where "ACTIVITY_HEATMAP_MAX_FEATURES = 420"

record HeatProperties =
  hp_id :: string
  hp_label :: string
  hp_intensity :: js_number
  hp_spark :: js_number
  hp_color :: string

definition activeHeatmapNodes ::
  "PublicNode list \<Rightarrow> (string, NodeActivity) js_map \<Rightarrow> (string, js_number) js_map \<Rightarrow> js_number \<Rightarrow> PublicNode list" where
  "activeHeatmapNodes nodes activities meshActivity epochNow =
     (if nodes = [] then nodes
      else if activities = [] \<and> meshActivity = []
      then filter (\<lambda>node. epochNow - pn_lastSeen node \<le> ACTIVITY_HEATMAP_WINDOW_MS) nodes
      else let activeIDs = js_set (map fst (filter (\<lambda>(i, a). na_hits a \<noteq> [] \<or> 0 < na_lastAt a) activities) @
                 map fst (filter (\<lambda>(i, seenAt). epochNow - seenAt \<le> ACTIVITY_HEATMAP_WINDOW_MS) meshActivity))
           in filter (\<lambda>node. pn_id node \<in> set activeIDs \<or> epochNow - pn_lastSeen node \<le> ACTIVITY_HEATMAP_WINDOW_MS) nodes)"

definition recentHits :: "js_number \<Rightarrow> NodeActivity option \<Rightarrow> js_number list" where
  "recentHits performanceNow activity =
     (case activity of None \<Rightarrow> [] | Some a \<Rightarrow> filter (\<lambda>hitAt. performanceNow - hitAt \<le> NODE_ACTIVITY_WINDOW_MS) (na_hits a))"

definition heatRecency :: "js_number \<Rightarrow> js_number \<Rightarrow> js_number" where
  "heatRecency activityAt epochNow =
     (if activityAt \<le> 0 then 0
      else let ageMs = max 0 (epochNow - activityAt)
           in if ageMs \<le> ACTIVITY_HEATMAP_WINDOW_MS then (1 - ageMs / ACTIVITY_HEATMAP_WINDOW_MS) powr (72 / 100) else 0)"

text \<open>The intensity and the spark.\<close>

definition activityHeatIntensity ::
  "PublicNode \<Rightarrow> NodeActivity option \<Rightarrow> js_number option \<Rightarrow> js_number \<Rightarrow> js_number \<Rightarrow> js_number \<times> js_number" where
  "activityHeatIntensity node activity meshActivityAt epochNow performanceNow =
     (let hits = length (recentHits performanceNow activity); hitHeat = nodeActivityHeat hits;
          hitSpark = (case activity of None \<Rightarrow> 0 | Some a \<Rightarrow> nodeActivityGlow (performanceNow - na_lastAt a));
          recency = heatRecency (or_else meshActivityAt (pn_lastSeen node)) epochNow;
          lifetimeWeight = min 1 (log1p (max 0 (pn_activityCount node)) / log1p 1200);
          recencyHeat = recency * (12 / 100 + lifetimeWeight * (42 / 100));
          burstHeat = hitHeat * (35 / 100 + min 1 (real hits / real NODE_ACTIVITY_HOT_COUNT) * (35 / 100))
      in (clampRange (max recencyHeat burstHeat) 0 1, clampRange (max hitSpark (hitHeat * (45 / 100))) 0 1))"

definition activityHeatColor :: "string \<Rightarrow> bool \<Rightarrow> string" where
  "activityHeatColor role observer =
     (if observer then ''#f59e0b'' else if role = ''companion'' then ''#60a5fa'' else if role = ''room_server'' then ''#a78bfa''
      else if role = ''sensor'' then ''#a3e635'' else ''#34d399'')"

definition activityHeatFeature ::
  "(string, NodeActivity) js_map \<Rightarrow> (string, js_number) js_map \<Rightarrow> js_number \<Rightarrow> js_number \<Rightarrow> PublicNode \<Rightarrow> HeatProperties PointFeature option" where
  "activityHeatFeature activities meshActivity epochNow performanceNow node =
     (let (intensity, spark) = activityHeatIntensity node (map_get activities (pn_id node)) (map_get meshActivity (pn_id node))
            epochNow performanceNow
      in if intensity \<le> 35 / 1000 then None
         else Some \<lparr>qf_id = pn_id node,
                qf_properties = \<lparr>hp_id = pn_id node, hp_label = pn_label node, hp_intensity = intensity, hp_spark = spark,
                  hp_color = activityHeatColor (role_name (pn_role node)) (pn_isObserver node = Some True)\<rparr>,
                qf_coordinates = (pn_longitude node, pn_latitude node)\<rparr>)"

definition activityHeatmapToGeoJSON ::
  "PublicNode list \<Rightarrow> (string, NodeActivity) js_map \<Rightarrow> (string, js_number) js_map \<Rightarrow> js_number \<Rightarrow> js_number \<Rightarrow> nat \<Rightarrow>
   HeatProperties PointFeature list" where
  "activityHeatmapToGeoJSON nodes activities meshActivity epochNow performanceNow maxFeatures =
     take maxFeatures (js_sort (by_desc (\<lambda>f. hp_intensity (qf_properties f)))
       (List.map_filter (activityHeatFeature activities meshActivity epochNow performanceNow)
         (filter isMappableNode (activeHeatmapNodes nodes activities meshActivity epochNow))))"

section \<open>Glows of the clusters\<close>

definition CLUSTER_ACTIVITY_GLOW_MS :: js_number where "CLUSTER_ACTIVITY_GLOW_MS = 5200"

datatype ClusterID = TextID string | NumberID js_number

record ClusterActivityTarget =
  ct_clusterID :: ClusterID
  ct_pointCount :: js_number
  ct_lng :: js_number
  ct_lat :: js_number
  ct_x :: js_number
  ct_y :: js_number

record ClusterActivityGlow =
  cg_id :: string
  cg_clusterID :: ClusterID
  cg_color :: string
  cg_pointCount :: js_number
  cg_lng :: js_number
  cg_lat :: js_number
  cg_startedAt :: js_number
  cg_expiresAt :: js_number

record ClusterProperties =
  cq_id :: string
  cq_color :: string
  cq_intensity :: js_number
  cq_pointCount :: js_number

fun clusterActivityGlowID :: "(js_number \<Rightarrow> string) \<Rightarrow> ClusterID \<Rightarrow> string" where
  "clusterActivityGlowID num (TextID s) = ''cluster-'' @ s"
| "clusterActivityGlowID num (NumberID n) = ''cluster-'' @ num n"

definition nearestClusterTarget :: "ClusterActivityTarget list \<Rightarrow> js_number \<Rightarrow> js_number \<Rightarrow> ClusterActivityTarget option" where
  "nearestClusterTarget targets x y =
     (let dist = (\<lambda>t. sqrt ((ct_x t - x)\<^sup>2 + (ct_y t - y)\<^sup>2))
      in foldl (\<lambda>nearest t. if nearest = None \<or> dist t < dist (the nearest) then Some t else nearest) None targets)"

definition upsertClusterActivityGlow ::
  "(js_number \<Rightarrow> string) \<Rightarrow> ClusterActivityTarget \<Rightarrow> string \<Rightarrow> js_number \<Rightarrow> js_number \<Rightarrow>
   (string, ClusterActivityGlow) js_map \<Rightarrow> (string, ClusterActivityGlow) js_map" where
  "upsertClusterActivityGlow num target payloadTypeName now durationMs glows =
     (let i = clusterActivityGlowID num (ct_clusterID target)
      in map_set i \<lparr>cg_id = i, cg_clusterID = ct_clusterID target, cg_color = payloadColor (Some payloadTypeName),
           cg_pointCount = ct_pointCount target, cg_lng = ct_lng target, cg_lat = ct_lat target,
           cg_startedAt = now, cg_expiresAt = now + durationMs\<rparr> glows)"

definition clusterActivityIntensity :: "ClusterActivityGlow \<Rightarrow> js_number \<Rightarrow> js_number" where
  "clusterActivityIntensity glow now =
     (if cg_expiresAt glow \<le> now then 0
      else let duration = max 1 (cg_expiresAt glow - cg_startedAt glow);
               progress = clampRange ((now - cg_startedAt glow) / duration) 0 1
           in (1 - progress) powr (74 / 100))"

definition pruneClusterActivityGlows ::
  "js_number \<Rightarrow> (string, ClusterActivityGlow) js_map \<Rightarrow> nat \<times> (string, ClusterActivityGlow) js_map" where
  "pruneClusterActivityGlows now glows =
     foldl (\<lambda>(active, left) (i, glow).
        if clusterActivityIntensity glow now \<le> 1 / 100 then (active, map_del i left) else (active + 1, left)) (0, glows) glows"

definition clusterFeature :: "js_number \<Rightarrow> ClusterActivityGlow \<Rightarrow> ClusterProperties PointFeature list" where
  "clusterFeature now glow =
     (let intensity = clusterActivityIntensity glow now
      in if intensity \<le> 1 / 100 then []
         else [\<lparr>qf_id = cg_id glow,
                qf_properties = \<lparr>cq_id = cg_id glow, cq_color = cg_color glow, cq_intensity = intensity, cq_pointCount = cg_pointCount glow\<rparr>,
                qf_coordinates = (cg_lng glow, cg_lat glow)\<rparr>])"

definition clusterActivityGlowsToGeoJSON ::
  "(string, ClusterActivityGlow) js_map \<Rightarrow> js_number \<Rightarrow> ClusterProperties PointFeature list" where
  "clusterActivityGlowsToGeoJSON glows now = concat (map (clusterFeature now) (map_vals glows))"

text \<open>
  The anchors of a batch of pulses, one for each place to four digits; \<open>rendered\<close> gives the clusters the map shows
  around a place with the place's own position on the screen, or nothing when it cannot tell.
\<close>

definition clusterAnchors :: "PublicRoutePulse list \<Rightarrow> (js_number \<times> js_number \<times> string) list" where
  "clusterAnchors pulses =
     map_vals (new_map (concat (map (\<lambda>pulse. concat (map (\<lambda>segment.
        map (\<lambda>e. (to_fixed 4 (ep_lat e) @ ''|'' @ to_fixed 4 (ep_lng e), (ep_lat e, ep_lng e, rp_payloadTypeName pulse)))
          [sg_from segment, sg_to segment]) (rp_segments pulse))) pulses)))"

type_synonym rendered_clusters = "js_number \<Rightarrow> js_number \<Rightarrow> (ClusterActivityTarget list \<times> js_number \<times> js_number) option"

definition resolveRenderedClusterTarget :: "rendered_clusters \<Rightarrow> js_number \<Rightarrow> js_number \<Rightarrow> ClusterActivityTarget option" where
  "resolveRenderedClusterTarget rendered lng lat =
     (case rendered lng lat of None \<Rightarrow> None | Some (candidates, x, y) \<Rightarrow> nearestClusterTarget candidates x y)"

definition addPulseClusterActivityGlowBatch ::
  "(js_number \<Rightarrow> string) \<Rightarrow> rendered_clusters \<Rightarrow> js_number \<Rightarrow> PublicRoutePulse list \<Rightarrow> (string, ClusterActivityGlow) js_map \<Rightarrow>
   bool \<times> (string, ClusterActivityGlow) js_map" where
  "addPulseClusterActivityGlowBatch num rendered now pulses glows =
     foldl (\<lambda>(changed, g) (lat, lng, payloadTypeName).
        case resolveRenderedClusterTarget rendered lng lat of None \<Rightarrow> (changed, g)
        | Some target \<Rightarrow> (True, upsertClusterActivityGlow num target payloadTypeName now CLUSTER_ACTIVITY_GLOW_MS g))
       (False, glows) (clusterAnchors pulses)"

definition addObserverBurstClusterActivityGlow ::
  "(js_number \<Rightarrow> string) \<Rightarrow> rendered_clusters \<Rightarrow> js_number \<Rightarrow> PublicObserverBurst \<Rightarrow> (string, ClusterActivityGlow) js_map \<Rightarrow>
   bool \<times> (string, ClusterActivityGlow) js_map" where
  "addObserverBurstClusterActivityGlow num rendered now burst glows =
     (case resolveRenderedClusterTarget rendered (ol_lng (ob_location burst)) (ol_lat (ob_location burst)) of
        None \<Rightarrow> (False, glows)
      | Some target \<Rightarrow> (True, upsertClusterActivityGlow num target (ob_payloadTypeName burst) now CLUSTER_ACTIVITY_GLOW_MS glows))"

end
