(* ===== verification/Map_Sources.thy ===== *)
theory Map_Sources
  imports Activity_Glow Api_Panels
begin

text \<open>
  What \<open>CanadaMap.tsx\<close> hands to the sources of the map: the update of the nodes, the routes, the heat map, the
  analysed routes and the propagation events, each skipped while its signature stays the same, and the two that a
  worker computes (\<open>workers/geojsonTransforms.ts\<close>), whose answers come later, in any order, or not at all. All go
  through the queue of \<open>Source_Queue\<close>. A list of nodes is kept with a version that stands for its identity.
\<close>

section \<open>The sources\<close>

definition NODE_SOURCE :: string where "NODE_SOURCE = ''public-nodes''"
definition ROUTE_SOURCE :: string where "ROUTE_SOURCE = ''public-routes''"
definition ACTIVITY_HEATMAP_SOURCE :: string where "ACTIVITY_HEATMAP_SOURCE = ''activity-heatmap''"
definition CLUSTER_ACTIVITY_SOURCE :: string where "CLUSTER_ACTIVITY_SOURCE = ''cluster-activity-glows''"
definition ANALYSIS_ROUTE_SOURCE :: string where "ANALYSIS_ROUTE_SOURCE = ''analysis-route-paths''"
definition PROPAGATION_SOURCE :: string where "PROPAGATION_SOURCE = ''propagation-events''"
definition ROUTE_PAYLOAD_GLOW_SOURCE :: string where "ROUTE_PAYLOAD_GLOW_SOURCE = ''route-payload-glows''"

definition ACTIVITY_HEATMAP_REFRESH_MS :: js_number where "ACTIVITY_HEATMAP_REFRESH_MS = 1500"
definition ACTIVITY_HEATMAP_CHANGED_MIN_MS :: js_number where "ACTIVITY_HEATMAP_CHANGED_MIN_MS = 450"

record PropagationProperties =
  pq_id :: string
  pq_routeId :: string
  pq_classification :: string
  pq_confidence :: string
  pq_score :: js_number
  pq_distanceKm :: js_number
  pq_color :: string
  pq_label :: string

datatype MapData =
    NodeData "NodeProperties PointFeature list"
  | RouteData "RouteProperties LineFeature list"
  | HeatData "HeatProperties PointFeature list"
  | ClusterData "ClusterProperties PointFeature list"
  | GlowData "GlowProperties LineFeature list"
  | AnalysisData "AnalysisProperties LineFeature list"
  | PropagationData "PropagationProperties LineFeature list"

section \<open>Propagation events\<close>

definition propagationEventColor :: "PublicPropagationEvent \<Rightarrow> string" where
  "propagationEventColor event =
     (if pe_classification event = ''tropo_possible'' then ''#34d399''
      else if pe_confidence event = ''medium'' then ''#fbbf24'' else ''#fb7185'')"

text \<open>\<open>loc\<close> is \<open>toLocaleString\<close> of a rounded number.\<close>

definition formatDistanceKm :: "(js_number \<Rightarrow> string) \<Rightarrow> js_number \<Rightarrow> string" where
  "formatDistanceKm loc value = (if value \<le> 0 then [] else loc (js_round value) @ '' km'')"

definition propagationEventLabel :: "(js_number \<Rightarrow> string) \<Rightarrow> PublicPropagationEvent \<Rightarrow> string" where
  "propagationEventLabel loc event =
     (let label = (if pe_classification event = ''tropo_possible'' then ''Tropo possible'' else ''Long-distance event'');
          distance = formatDistanceKm loc (pe_distanceKm event)
      in if distance \<noteq> [] then label @ '' '' @ distance else label)"

definition longestPropagationSegmentIndex :: "PublicPropagationEvent \<Rightarrow> nat" where
  "longestPropagationSegmentIndex event =
     fst (foldl (\<lambda>(index, distance) (candidateIndex, segment).
        if distance < sg_distanceKm segment then (candidateIndex, sg_distanceKm segment) else (index, distance))
       (0, -1) (enumerate 0 (pe_segments event)))"

definition propagationFeature :: "(js_number \<Rightarrow> string) \<Rightarrow> PublicPropagationEvent \<Rightarrow> nat \<times> PublicRouteSegment \<Rightarrow> PropagationProperties LineFeature" where
  "propagationFeature loc event entry =
     (let (index, segment) = entry
      in \<lparr>lf_id = pe_id event @ '':'' @ show_nat index,
          lf_properties = \<lparr>pq_id = pe_id event, pq_routeId = sg_routeId segment, pq_classification = pe_classification event,
            pq_confidence = pe_confidence event, pq_score = pe_score event, pq_distanceKm = pe_distanceKm event,
            pq_color = propagationEventColor event,
            pq_label = (if index = longestPropagationSegmentIndex event then propagationEventLabel loc event else [])\<rparr>,
          lf_coordinates = [(ep_lng (sg_from segment), ep_lat (sg_from segment)), (ep_lng (sg_to segment), ep_lat (sg_to segment))]\<rparr>)"

definition propagationEventsToGeoJSON :: "(js_number \<Rightarrow> string) \<Rightarrow> PublicPropagationEvent list \<Rightarrow> PropagationProperties LineFeature list" where
  "propagationEventsToGeoJSON loc events =
     concat (map (\<lambda>event. map (propagationFeature loc event) (enumerate 0 (pe_segments event))) events)"

definition propagationEventsSignature :: "(js_number \<Rightarrow> string) \<Rightarrow> PublicPropagationEvent list \<Rightarrow> string" where
  "propagationEventsSignature num events = join ''|'' (map (\<lambda>event.
     pe_id event @ '':'' @ num (pe_at event) @ '':'' @ pe_classification event @ '':'' @ to_fixed 2 (pe_score event) @ '':'' @
     show_nat (length (pe_segments event))) events)"

section \<open>State\<close>

text \<open>What the code reads from its parameters, and how numbers and data are written.\<close>

record MapEnv =
  me_icons :: "string \<Rightarrow> string"
  me_num :: "js_number \<Rightarrow> string"
  me_loc :: "js_number \<Rightarrow> string"
  me_hash :: "MapData \<Rightarrow> string" \<comment> \<open>\<open>featureCollectionSignature\<close>\<close>

record VersionedNodes =
  vn_version :: nat
  vn_nodes :: "PublicNode list"

record ActivityHeatmapRenderState =
  hr_lastRenderedAt :: js_number
  hr_signature :: string
  hr_version :: nat

text \<open>A request the worker has not answered: what the handlers of its promise close over.\<close>

record HeatJob =
  hj_signature :: string
  hj_nodes :: VersionedNodes
  hj_geojson :: "HeatProperties PointFeature list" \<comment> \<open>computed on the copy that was sent\<close>
  hj_epochNow :: js_number
  hj_now :: js_number

record RouteJob =
  rj_signature :: string
  rj_sourceSignature :: string
  rj_geojson :: "RouteProperties LineFeature list"

record MapSources =
  ms_queue :: "MapData SourceUpdateQueue"
  ms_nodeSignature :: string
  ms_routeSignature :: string
  ms_colorSignature :: string
  ms_analysisSignature :: string
  ms_propagationSignature :: string
  ms_heat :: "ActivityHeatmapRenderState option"
  ms_heatVisible :: bool \<comment> \<open>the layer is there and its visibility is not \<open>none\<close>\<close>
  ms_heatJobs :: "HeatJob list"
  ms_routeJobs :: "RouteJob list"

definition newMapSources :: "MapData SourceUpdateQueue \<Rightarrow> MapSources" where
  "newMapSources q = \<lparr>ms_queue = q, ms_nodeSignature = [], ms_routeSignature = [], ms_colorSignature = [],
     ms_analysisSignature = [], ms_propagationSignature = [], ms_heat = None, ms_heatVisible = True, ms_heatJobs = [], ms_routeJobs = []\<rparr>"

definition hasSource :: "string \<Rightarrow> MapSources \<Rightarrow> bool" where
  "hasSource sourceID s \<longleftrightarrow> sq_sources (ms_queue s) sourceID \<noteq> Missing"

definition putSource :: "MapEnv \<Rightarrow> string \<Rightarrow> MapData \<Rightarrow> string option \<Rightarrow> MapSources \<Rightarrow> MapSources" where
  "putSource env sourceID data signature s = s\<lparr>ms_queue := setSourceData (me_hash env) sourceID data signature (ms_queue s)\<rparr>"

section \<open>Updates\<close>

definition updateNodeRendering ::
  "MapEnv \<Rightarrow> PublicNode list \<Rightarrow> NodeFocus \<Rightarrow> js_number \<Rightarrow> (string, js_number) js_map \<Rightarrow> bool \<Rightarrow> MapSources \<Rightarrow> MapSources" where
  "updateNodeRendering env nodes focus labelClock meshActivity force s =
     (let nextSignature = nodeSourceSignature nodes focus labelClock meshActivity
      in if \<not> force \<and> nextSignature = ms_nodeSignature s then s
         else putSource env NODE_SOURCE (NodeData (nodesToGeoJSON (me_icons env) nodes focus labelClock meshActivity)) (Some nextSignature)
                (s\<lparr>ms_nodeSignature := nextSignature\<rparr>))"

definition activityHeatmapSignature :: "MapEnv \<Rightarrow> (string, NodeActivity) js_map \<Rightarrow> (string, js_number) js_map \<Rightarrow> string" where
  "activityHeatmapSignature env activities meshActivity =
     show_nat (length activities) @ '':'' @ show_nat (sum_list (map (\<lambda>a. length (na_hits a)) (map_vals activities))) @ '':'' @
     me_num env (js_round (foldl (\<lambda>t a. max t (na_lastAt a)) 0 (map_vals activities))) @ '':'' @
     show_nat (length meshActivity) @ '':'' @ me_num env (js_round (foldl max 0 (map_vals meshActivity)))"

definition heatmapDue :: "js_number \<Rightarrow> string \<Rightarrow> nat \<Rightarrow> bool \<Rightarrow> ActivityHeatmapRenderState option \<Rightarrow> bool" where
  "heatmapDue now signature version force previous =
     (case previous of None \<Rightarrow> True
      | Some p \<Rightarrow> force \<or> hr_version p \<noteq> version \<or>
          \<not> (now - hr_lastRenderedAt p < ACTIVITY_HEATMAP_REFRESH_MS \<and> hr_signature p = signature) \<and>
          \<not> now - hr_lastRenderedAt p < ACTIVITY_HEATMAP_CHANGED_MIN_MS)"

definition setActivityHeatmapSource ::
  "MapEnv \<Rightarrow> js_number \<Rightarrow> js_number \<Rightarrow> VersionedNodes \<Rightarrow> (string, NodeActivity) js_map \<Rightarrow> (string, js_number) js_map \<Rightarrow> bool \<Rightarrow>
   MapSources \<Rightarrow> MapSources" where
  "setActivityHeatmapSource env now epochNow nodes activities meshActivity force s =
     (let signature = activityHeatmapSignature env activities meshActivity
      in if \<not> hasSource ACTIVITY_HEATMAP_SOURCE s \<or> \<not> ms_heatVisible s \<or> \<not> heatmapDue now signature (vn_version nodes) force (ms_heat s) then s
         else s\<lparr>ms_heat := Some \<lparr>hr_lastRenderedAt = now, hr_signature = signature, hr_version = vn_version nodes\<rparr>,
                ms_heatJobs := ms_heatJobs s @ [\<lparr>hj_signature = signature, hj_nodes = nodes,
                  hj_geojson = activityHeatmapToGeoJSON (vn_nodes nodes) activities meshActivity epochNow now ACTIVITY_HEATMAP_MAX_FEATURES,
                  hj_epochNow = epochNow, hj_now = now\<rparr>]\<rparr>)"

text \<open>
  The promise of the request at \<open>index\<close> settles. When it is rejected the features are computed on the spot, from the
  activities as they are by then.
\<close>

definition heatmapAnswered ::
  "MapEnv \<Rightarrow> nat \<Rightarrow> bool \<Rightarrow> (string, NodeActivity) js_map \<Rightarrow> (string, js_number) js_map \<Rightarrow> MapSources \<Rightarrow> MapSources" where
  "heatmapAnswered env index resolved activities meshActivity s =
     (if length (ms_heatJobs s) \<le> index then s
      else let job = ms_heatJobs s ! index;
               s1 = s\<lparr>ms_heatJobs := take index (ms_heatJobs s) @ drop (index + 1) (ms_heatJobs s)\<rparr>;
               geojson = (if resolved then hj_geojson job
                 else activityHeatmapToGeoJSON (vn_nodes (hj_nodes job)) activities meshActivity (hj_epochNow job) (hj_now job)
                        ACTIVITY_HEATMAP_MAX_FEATURES)
           in case ms_heat s of None \<Rightarrow> s1
              | Some latest \<Rightarrow>
                  if hr_signature latest \<noteq> hj_signature job \<or> hr_version latest \<noteq> vn_version (hj_nodes job) then s1
                  else putSource env ACTIVITY_HEATMAP_SOURCE (HeatData geojson) (Some (''heatmap:'' @ hj_signature job)) s1)"

text \<open>The second component is what the animator is told, if anything: the colours of the routes.\<close>

definition updateRouteRendering ::
  "MapEnv \<Rightarrow> PublicRoute list \<Rightarrow> string option \<Rightarrow> NodeFocus \<Rightarrow> RouteThemeMode \<Rightarrow> bool \<Rightarrow> js_number \<Rightarrow> MapSources \<Rightarrow>
   MapSources \<times> (string, string option) js_map option" where
  "updateRouteRendering env routes selectedRouteID focus themeMode force now s =
     (let nextRouteSignature = routeSourceSignature (me_num env) routes selectedRouteID focus now;
          s1 = (if force \<or> nextRouteSignature \<noteq> ms_routeSignature s
                then s\<lparr>ms_routeSignature := nextRouteSignature,
                       ms_routeJobs := ms_routeJobs s @ [\<lparr>rj_signature = nextRouteSignature,
                         rj_sourceSignature = ''routes:'' @ theme_name themeMode @ '':'' @ nextRouteSignature,
                         rj_geojson = routesToGeoJSON routes selectedRouteID focus now themeMode\<rparr>]\<rparr>
                else s);
          nextColorSignature = theme_name themeMode @ '':'' @ routeColorSignature (me_num env) routes
      in if force \<or> nextColorSignature \<noteq> ms_colorSignature s1
         then (s1\<lparr>ms_colorSignature := nextColorSignature\<rparr>,
               Some (new_map (map (\<lambda>route. (rt_id route, routeColorForBucket (rt_frequencyBucket route) themeMode)) routes)))
         else (s1, None))"

text \<open>The arguments of the request are not mutated, so the fallback computes what the worker would have.\<close>

definition routesAnswered :: "MapEnv \<Rightarrow> nat \<Rightarrow> MapSources \<Rightarrow> MapSources" where
  "routesAnswered env index s =
     (if length (ms_routeJobs s) \<le> index then s
      else let job = ms_routeJobs s ! index;
               s1 = s\<lparr>ms_routeJobs := take index (ms_routeJobs s) @ drop (index + 1) (ms_routeJobs s)\<rparr>
           in if ms_routeSignature s \<noteq> rj_signature job then s1
              else putSource env ROUTE_SOURCE (RouteData (rj_geojson job)) (Some (rj_sourceSignature job)) s1)"

definition updateAnalysisRouteRendering ::
  "MapEnv \<Rightarrow> PublicRoute list \<Rightarrow> string option \<Rightarrow> NodeFocus \<Rightarrow> PublicRouteSegment list \<Rightarrow> RouteThemeMode \<Rightarrow> bool \<Rightarrow> MapSources \<Rightarrow> MapSources" where
  "updateAnalysisRouteRendering env routes selectedRouteID focus analysisSegments themeMode force s =
     (let signature = theme_name themeMode @ '':'' @ analysisRouteSignature routes selectedRouteID focus analysisSegments
      in if \<not> force \<and> signature = ms_analysisSignature s then s
         else putSource env ANALYSIS_ROUTE_SOURCE
                (AnalysisData (analysisRoutesToGeoJSON routes selectedRouteID focus analysisSegments themeMode)) (Some (''analysis:'' @ signature))
                (s\<lparr>ms_analysisSignature := signature\<rparr>))"

definition updatePropagationRendering :: "MapEnv \<Rightarrow> PublicPropagationEvent list \<Rightarrow> bool \<Rightarrow> MapSources \<Rightarrow> MapSources" where
  "updatePropagationRendering env events force s =
     (let signature = propagationEventsSignature (me_num env) events
      in if \<not> force \<and> signature = ms_propagationSignature s then s
         else putSource env PROPAGATION_SOURCE (PropagationData (propagationEventsToGeoJSON (me_loc env) events))
                (Some (''propagation:'' @ signature)) (s\<lparr>ms_propagationSignature := signature\<rparr>))"

text \<open>The glows have no signature: the queue hashes the features.\<close>

definition setClusterActivityGlowSource ::
  "MapEnv \<Rightarrow> (string, ClusterActivityGlow) js_map \<Rightarrow> js_number \<Rightarrow> MapSources \<Rightarrow> MapSources" where
  "setClusterActivityGlowSource env glows now = putSource env CLUSTER_ACTIVITY_SOURCE (ClusterData (clusterActivityGlowsToGeoJSON glows now)) None"

definition clearClusterActivityGlowStates ::
  "MapEnv \<Rightarrow> MapSources \<Rightarrow> (string, ClusterActivityGlow) js_map \<times> MapSources" where
  "clearClusterActivityGlowStates env s = ([], putSource env CLUSTER_ACTIVITY_SOURCE (ClusterData []) None s)"

definition setRoutePayloadGlowSource ::
  "MapEnv \<Rightarrow> PublicRoute list \<Rightarrow> (string, RoutePayloadGlow) js_map \<Rightarrow> string option \<Rightarrow> NodeFocus \<Rightarrow> js_number \<Rightarrow> MapSources \<Rightarrow>
   nat \<times> (string, RoutePayloadGlow) js_map \<times> MapSources" where
  "setRoutePayloadGlowSource env routes glows selectedRouteID focus now s =
     (let (activeGlowCount, left) = pruneRoutePayloadGlows now (1 / 100) glows
      in (activeGlowCount, left, putSource env ROUTE_PAYLOAD_GLOW_SOURCE
            (GlowData (routePayloadGlowsToGeoJSON routes left selectedRouteID focus now)) None s))"

definition clearRoutePayloadGlowStates :: "MapEnv \<Rightarrow> MapSources \<Rightarrow> (string, RoutePayloadGlow) js_map \<times> MapSources" where
  "clearRoutePayloadGlowStates env s = ([], putSource env ROUTE_PAYLOAD_GLOW_SOURCE (GlowData []) None s)"

end
