(* ===== verification/Map_Sources_Correct.thy ===== *)
theory Map_Sources_Correct
  imports Map_Sources Carto_Samples
begin

text \<open>
  Two ways in which a signature that leaves something out makes the map keep an old picture: the heat map, whose
  periodic refresh is dropped by the queue, and the analysed routes, whose colours do not follow the selection.
\<close>

section \<open>The queue under a known signature\<close>

lemma setSourceData_known:
  "map_get (sq_signatures q) i = Some s \<Longrightarrow> setSourceData sg i d (Some s) q = q"
  by (simp add: setSourceData_def)

lemma putSource_known:
  "map_get (sq_signatures (ms_queue s)) i = Some k \<Longrightarrow> putSource env i d (Some k) s = s"
  by (simp add: putSource_def setSourceData_known)

lemma runFrame_shows:
  assumes "\<not> sq_disposed q" "well_keyed (sq_pending q)" "sq_sources q i \<noteq> Missing" "map_get (sq_pending q) i = Some d"
  shows "sq_sources (runFrame q) i = Shows d" and "map_get (sq_signatures (runFrame q)) i = map_get (sq_signatures q) i"
    and "\<not> sq_disposed (runFrame q)" and "sq_pending (runFrame q) = []"
proof -
  let ?q = "q\<lparr>sq_frame := False, sq_pending := []\<rparr>"
  have "sq_sources ?q i \<noteq> Missing" "distinct (map fst (sq_pending q))" using assms by (simp_all add: well_keyed_def)
  from flush_source [OF this] assms show "sq_sources (runFrame q) i = Shows d"
    "map_get (sq_signatures (runFrame q)) i = map_get (sq_signatures q) i"
    by (simp_all add: runFrame_def)
  show "\<not> sq_disposed (runFrame q)" "sq_pending (runFrame q) = []" using assms by (simp_all add: runFrame_def flush_frames)
qed

section \<open>Heat map\<close>

text \<open>One refresh of the heat map that nothing overtakes: the request, the answer of the worker, the frame.\<close>

definition heat_round ::
  "MapEnv \<Rightarrow> js_number \<Rightarrow> js_number \<Rightarrow> VersionedNodes \<Rightarrow> (string, NodeActivity) js_map \<Rightarrow> (string, js_number) js_map \<Rightarrow>
   MapSources \<Rightarrow> MapSources" where
  "heat_round env now epochNow nodes activities meshActivity s =
     (let s1 = setActivityHeatmapSource env now epochNow nodes activities meshActivity False s;
          s2 = heatmapAnswered env (length (ms_heatJobs s)) True activities meshActivity s1
      in s2\<lparr>ms_queue := runFrame (ms_queue s2)\<rparr>)"

definition heat_ready :: "MapSources \<Rightarrow> bool" where
  "heat_ready s \<longleftrightarrow> \<not> sq_disposed (ms_queue s) \<and> well_keyed (sq_pending (ms_queue s)) \<and>
     sq_sources (ms_queue s) ACTIVITY_HEATMAP_SOURCE = Blank \<and>
     map_get (sq_signatures (ms_queue s)) ACTIVITY_HEATMAP_SOURCE = None \<and> ms_heatVisible s \<and> ms_heat s = None"

lemma heat_requested:
  assumes "hasSource ACTIVITY_HEATMAP_SOURCE s" "ms_heatVisible s"
    "heatmapDue now (activityHeatmapSignature env activities mesh) (vn_version nodes) False (ms_heat s)"
  shows "heatmapAnswered env (length (ms_heatJobs s)) True activities mesh
      (setActivityHeatmapSource env now epochNow nodes activities mesh False s) =
    putSource env ACTIVITY_HEATMAP_SOURCE
      (HeatData (activityHeatmapToGeoJSON (vn_nodes nodes) activities mesh epochNow now ACTIVITY_HEATMAP_MAX_FEATURES))
      (Some (''heatmap:'' @ activityHeatmapSignature env activities mesh))
      (s\<lparr>ms_heat := Some \<lparr>hr_lastRenderedAt = now, hr_signature = activityHeatmapSignature env activities mesh,
         hr_version = vn_version nodes\<rparr>\<rparr>)"
  using assms by (simp add: setActivityHeatmapSource_def heatmapAnswered_def Let_def)

lemma first_round:
  assumes "heat_ready s"
  shows "sq_sources (ms_queue (heat_round env t0 e0 nodes activities mesh s)) ACTIVITY_HEATMAP_SOURCE =
      Shows (HeatData (activityHeatmapToGeoJSON (vn_nodes nodes) activities mesh e0 t0 ACTIVITY_HEATMAP_MAX_FEATURES))"
    and "map_get (sq_signatures (ms_queue (heat_round env t0 e0 nodes activities mesh s))) ACTIVITY_HEATMAP_SOURCE =
      Some (''heatmap:'' @ activityHeatmapSignature env activities mesh)"
    and "ms_heat (heat_round env t0 e0 nodes activities mesh s) =
      Some \<lparr>hr_lastRenderedAt = t0, hr_signature = activityHeatmapSignature env activities mesh, hr_version = vn_version nodes\<rparr>"
    and "ms_heatVisible (heat_round env t0 e0 nodes activities mesh s)"
    and "sq_pending (ms_queue (heat_round env t0 e0 nodes activities mesh s)) = []"
    and "\<not> sq_disposed (ms_queue (heat_round env t0 e0 nodes activities mesh s))"
proof -
  let ?g = "HeatData (activityHeatmapToGeoJSON (vn_nodes nodes) activities mesh e0 t0 ACTIVITY_HEATMAP_MAX_FEATURES)"
  let ?k = "''heatmap:'' @ activityHeatmapSignature env activities mesh"
  let ?q = "setSourceData (me_hash env) ACTIVITY_HEATMAP_SOURCE ?g (Some ?k) (ms_queue s)"
  have r: "heat_round env t0 e0 nodes activities mesh s =
      s\<lparr>ms_heat := Some \<lparr>hr_lastRenderedAt = t0, hr_signature = activityHeatmapSignature env activities mesh,
         hr_version = vn_version nodes\<rparr>, ms_queue := runFrame ?q\<rparr>"
    using assms heat_requested [of s t0 env activities mesh nodes e0]
    by (simp add: heat_round_def heat_ready_def hasSource_def heatmapDue_def Let_def putSource_def)
  have q: "\<not> sq_disposed ?q" "well_keyed (sq_pending ?q)" "sq_sources ?q ACTIVITY_HEATMAP_SOURCE \<noteq> Missing"
    "map_get (sq_pending ?q) ACTIVITY_HEATMAP_SOURCE = Some ?g"
    "map_get (sq_signatures ?q) ACTIVITY_HEATMAP_SOURCE = Some ?k"
    using assms by (simp_all add: heat_ready_def setSourceData_def Let_def)
  note f = runFrame_shows [OF q(1-4)]
  show "sq_sources (ms_queue (heat_round env t0 e0 nodes activities mesh s)) ACTIVITY_HEATMAP_SOURCE = Shows ?g"
    "map_get (sq_signatures (ms_queue (heat_round env t0 e0 nodes activities mesh s))) ACTIVITY_HEATMAP_SOURCE = Some ?k"
    "ms_heat (heat_round env t0 e0 nodes activities mesh s) =
      Some \<lparr>hr_lastRenderedAt = t0, hr_signature = activityHeatmapSignature env activities mesh, hr_version = vn_version nodes\<rparr>"
    "ms_heatVisible (heat_round env t0 e0 nodes activities mesh s)"
    "sq_pending (ms_queue (heat_round env t0 e0 nodes activities mesh s)) = []"
    "\<not> sq_disposed (ms_queue (heat_round env t0 e0 nodes activities mesh s))"
    using f q(5) assms unfolding r by (simp_all add: heat_ready_def)
qed

text \<open>
  The heat map does not cool down by itself: when no node was heard and no packet seen in between, the refresh
  that becomes due 1.5 seconds later computes the picture anew, but hands it to the queue under the signature of the
  first one, and the map goes on showing the first, however much later it is.
\<close>

lemma heatmap_refresh_is_lost:
  assumes "heat_ready s" and "t0 + ACTIVITY_HEATMAP_REFRESH_MS \<le> t1"
  shows "sq_sources (ms_queue (heat_round env t1 e1 nodes activities mesh (heat_round env t0 e0 nodes activities mesh s)))
        ACTIVITY_HEATMAP_SOURCE =
      Shows (HeatData (activityHeatmapToGeoJSON (vn_nodes nodes) activities mesh e0 t0 ACTIVITY_HEATMAP_MAX_FEATURES)) \<and>
    length (ms_heatJobs (setActivityHeatmapSource env t1 e1 nodes activities mesh False (heat_round env t0 e0 nodes activities mesh s))) =
      Suc (length (ms_heatJobs (heat_round env t0 e0 nodes activities mesh s)))"
proof -
  let ?s = "heat_round env t0 e0 nodes activities mesh s"
  note f = first_round [OF assms(1), of env t0 e0 nodes activities mesh]
  have due: "heatmapDue t1 (activityHeatmapSignature env activities mesh) (vn_version nodes) False (ms_heat ?s)"
    using assms(2) unfolding f(3) by (simp add: heatmapDue_def ACTIVITY_HEATMAP_REFRESH_MS_def ACTIVITY_HEATMAP_CHANGED_MIN_MS_def)
  have src: "hasSource ACTIVITY_HEATMAP_SOURCE ?s" using f(1) by (simp add: hasSource_def)
  have q: "ms_queue (heat_round env t1 e1 nodes activities mesh ?s) = runFrame (ms_queue ?s)"
    using heat_requested [OF src f(4) due, of e1] f(2) by (simp add: heat_round_def [of _ t1] Let_def putSource_known)
  have "sq_sources (runFrame (ms_queue ?s)) = sq_sources (ms_queue ?s)"
    using f(5,6) by (simp add: runFrame_def)
  moreover have "length (ms_heatJobs (setActivityHeatmapSource env t1 e1 nodes activities mesh False ?s)) = Suc (length (ms_heatJobs ?s))"
    using src f(4) due by (simp add: setActivityHeatmapSource_def Let_def)
  ultimately show ?thesis using f(1) by (simp only: q)
qed

definition sample_env :: MapEnv where
  "sample_env = \<lparr>me_icons = (\<lambda>_. []), me_num = (\<lambda>_. []), me_loc = (\<lambda>_. []), me_hash = (\<lambda>_. [])\<rparr>"

definition blank_map :: MapSources where
  "blank_map = newMapSources (newMap (\<lambda>_. Blank))"

text \<open>At the witness the node was heard a quarter of an hour before the second picture, which would be empty.\<close>

lemma cold_heatmap: "activityHeatmapToGeoJSON [sample_node ''n''] [] [] (1000 + 900001) 5000 ACTIVITY_HEATMAP_MAX_FEATURES = []"
  by (simp add: activityHeatmapToGeoJSON_def activeHeatmapNodes_def sample_node_def ACTIVITY_HEATMAP_WINDOW_MS_def map_filter_def)

lemma warm_heatmap: "activityHeatmapToGeoJSON [sample_node ''n''] [] [] 1000 1000 ACTIVITY_HEATMAP_MAX_FEATURES \<noteq> []"
proof -
  have w: "0 \<le> log1p (max 0 1) / log1p 1200" by (simp add: log1p_def)
  let ?i = "12 / 100 + min 1 (log1p (max 0 1) / log1p 1200) * (42 / 100)"
  have "12 / 100 \<le> ?i" using w by simp
  moreover have "fst (activityHeatIntensity (sample_node ''n'') None None 1000 1000) = clampRange (max ?i 0) 0 1"
    by (simp add: activityHeatIntensity_def recentHits_def nodeActivityHeat_def heatRecency_def sample_node_def
        ACTIVITY_HEATMAP_WINDOW_MS_def Let_def)
  ultimately have "35 / 1000 < fst (activityHeatIntensity (sample_node ''n'') None None 1000 1000)"
    by (auto simp: clampRange_def max_def min_def)
  then have "activityHeatFeature [] [] 1000 1000 (sample_node ''n'') \<noteq> None"
    by (simp add: activityHeatFeature_def case_prod_beta)
  moreover have "isMappableNode (sample_node ''n'')" by (simp add: isMappableNode_def isMappableLatLng_def WORLD_MAP_BOUNDS_def sample_node_def)
  moreover have "activeHeatmapNodes [sample_node ''n''] [] [] 1000 = [sample_node ''n'']"
    by (simp add: activeHeatmapNodes_def sample_node_def ACTIVITY_HEATMAP_WINDOW_MS_def)
  ultimately show ?thesis
    by (auto simp: activityHeatmapToGeoJSON_def map_filter_def ACTIVITY_HEATMAP_MAX_FEATURES_def)
qed

lemma heatmap_refresh_is_lost_witness:
  "sq_sources (ms_queue (heat_round sample_env 5000 (1000 + 900001) \<lparr>vn_version = 0, vn_nodes = [sample_node ''n'']\<rparr> [] []
       (heat_round sample_env 1000 1000 \<lparr>vn_version = 0, vn_nodes = [sample_node ''n'']\<rparr> [] [] blank_map))) ACTIVITY_HEATMAP_SOURCE \<noteq>
     Shows (HeatData (activityHeatmapToGeoJSON [sample_node ''n''] [] [] (1000 + 900001) 5000 ACTIVITY_HEATMAP_MAX_FEATURES))"
proof -
  have "heat_ready blank_map" by (simp add: heat_ready_def blank_map_def newMapSources_def newMap_def)
  moreover have "(1000 :: js_number) + ACTIVITY_HEATMAP_REFRESH_MS \<le> 5000" by (simp add: ACTIVITY_HEATMAP_REFRESH_MS_def)
  ultimately show ?thesis
    using heatmap_refresh_is_lost [of blank_map 1000 5000 sample_env "1000 + 900001" "\<lparr>vn_version = 0, vn_nodes = [sample_node ''n'']\<rparr>" "[]" "[]" 1000]
      warm_heatmap by (simp only: cold_heatmap VersionedNodes.simps source.inject MapData.inject simp_thms)
qed

section \<open>Analysed routes\<close>

text \<open>
  The signature of the analysed routes names the routes, not why they are analysed: a route that is a neighbour of
  the selected node keeps its colour when it becomes part of the highlighted path.
\<close>

lemma analysis_signature_ignores_kind:
  assumes "set (nf_pathRouteIDs f) \<union> set (nf_connectedRouteIDs f) = set (nf_pathRouteIDs g) \<union> set (nf_connectedRouteIDs g)"
  shows "analysisRouteSignature routes sel f segments = analysisRouteSignature routes sel g segments"
proof -
  have "set (analysisRouteIDs sel f) = set (analysisRouteIDs sel g)"
    using assms by (auto simp: analysisRouteIDs_def Let_def)
  then show ?thesis by (simp add: analysisRouteSignature_def)
qed

lemma analysis_update_skipped:
  assumes "analysisRouteSignature routes sel f segments = analysisRouteSignature routes sel g segments"
  shows "updateAnalysisRouteRendering env routes sel g segments theme False (updateAnalysisRouteRendering env routes sel f segments theme b s) =
    updateAnalysisRouteRendering env routes sel f segments theme b s"
  using assms by (auto simp: updateAnalysisRouteRendering_def putSource_def Let_def)

text \<open>
  Highlighting a path through the only route of the selected node is not drawn: the update with the path in
  focus is skipped, although the feature of the route has another colour and strength with it than without.
\<close>

lemma path_highlight_is_lost:
  assumes "neighbourOf n route \<noteq> []" "n \<noteq> []" "sel \<noteq> Some (rt_id route)"
  shows "case (nodeFocusFromRoutes (Some n) [route] [] [], nodeFocusFromRoutes (Some n) [route] [rt_id route] []) of (before, after) \<Rightarrow>
     updateAnalysisRouteRendering env [route] sel after segments theme False
         (updateAnalysisRouteRendering env [route] sel before segments theme b s) =
       updateAnalysisRouteRendering env [route] sel before segments theme b s \<and>
     analysisRoutesToGeoJSON [route] sel before segments theme \<noteq> analysisRoutesToGeoJSON [route] sel after segments theme"
proof -
  let ?before = "nodeFocusFromRoutes (Some n) [route] [] []" and ?after = "nodeFocusFromRoutes (Some n) [route] [rt_id route] []"
  have f: "nf_pathRouteIDs ?before = []" "nf_connectedRouteIDs ?before = [rt_id route]"
    "nf_pathRouteIDs ?after = [rt_id route]" "nf_connectedRouteIDs ?after = [rt_id route]"
    using assms by (simp_all add: nodeFocusFromRoutes_def truthy_str_def focusRoute_def Let_def set_add_def js_set_def)
  then have "analysisRouteSignature [route] sel ?before segments = analysisRouteSignature [route] sel ?after segments"
    by (intro analysis_signature_ignores_kind) simp
  then have "updateAnalysisRouteRendering env [route] sel ?after segments theme False
        (updateAnalysisRouteRendering env [route] sel ?before segments theme b s) =
      updateAnalysisRouteRendering env [route] sel ?before segments theme b s"
    by (rule analysis_update_skipped)
  moreover have "rt_id route \<in> set (analysisRouteIDs sel ?before)" "rt_id route \<in> set (analysisRouteIDs sel ?after)"
    by (auto simp: analysisRouteIDs_def f Let_def)
  then have "ap_opacity (lf_properties (hd (analysisRoutesToGeoJSON [route] sel ?before segments theme))) = 72 / 100"
    "ap_opacity (lf_properties (hd (analysisRoutesToGeoJSON [route] sel ?after segments theme))) = 9 / 10"
    using assms(3) f by (auto simp: analysisRoutesToGeoJSON_def analysisRouteFeature_def analysisLine_def Let_def)
  then have "analysisRoutesToGeoJSON [route] sel ?before segments theme \<noteq> analysisRoutesToGeoJSON [route] sel ?after segments theme"
    by (intro notI) simp
  ultimately show ?thesis by simp
qed

lemma path_highlight_is_lost_witness:
  "ms_analysisSignature (updateAnalysisRouteRendering sample_env [sample_route ''r'' ''a'' ''b''] None
      (nodeFocusFromRoutes (Some ''a'') [sample_route ''r'' ''a'' ''b''] [''r''] []) [] DarkTheme False
      (updateAnalysisRouteRendering sample_env [sample_route ''r'' ''a'' ''b''] None
         (nodeFocusFromRoutes (Some ''a'') [sample_route ''r'' ''a'' ''b''] [] []) [] DarkTheme False blank_map)) =
   ms_analysisSignature (updateAnalysisRouteRendering sample_env [sample_route ''r'' ''a'' ''b''] None
         (nodeFocusFromRoutes (Some ''a'') [sample_route ''r'' ''a'' ''b''] [] []) [] DarkTheme False blank_map)"
proof -
  have "neighbourOf ''a'' (sample_route ''r'' ''a'' ''b'') \<noteq> []" "rt_id (sample_route ''r'' ''a'' ''b'') = ''r''"
    by (simp_all add: neighbourOf_def sample_route_def sample_endpoint_def)
  then show ?thesis
    using path_highlight_is_lost [of "''a''" "sample_route ''r'' ''a'' ''b''" None sample_env "[]" DarkTheme False blank_map] by simp
qed

end
