(* ===== verification/Live_Visuals.thy ===== *)
theory Live_Visuals
  imports Carto_Types
begin

text \<open>
  The gates and the scheduler between the live state and the motion on the map:
  \<open>web/src/map/animationSafety.ts\<close>, \<open>map/recentIdentityTracker.ts\<close>, \<open>map/liveVisualScheduler.ts\<close> and
  \<open>map/followTraffic.ts\<close>. What \<open>start\<close> and \<open>activeCount\<close> answer is arbitrary: they are functions of the
  number of starts tried so far. The scheduler records, beside its fields, the visuals it has handed to
  \<open>start\<close> for good.
\<close>

section \<open>Age of an event\<close>

definition MAX_ANIMATION_EVENT_AGE_MS :: js_number where "MAX_ANIMATION_EVENT_AGE_MS = 30000"
definition MAX_ANIMATION_EVENT_FUTURE_SKEW_MS :: js_number where "MAX_ANIMATION_EVENT_FUTURE_SKEW_MS = 10000"

definition shouldAnimateLiveEvent :: "js_number \<Rightarrow> js_number \<Rightarrow> bool \<Rightarrow> bool" where
  "shouldAnimateLiveEvent heardAt now documentHidden =
     (if documentHidden then False
      else if heardAt \<le> 0 then False
      else if heardAt - now > MAX_ANIMATION_EVENT_FUTURE_SKEW_MS then False
      else now - heardAt \<le> MAX_ANIMATION_EVENT_AGE_MS)"

section \<open>Recent identities\<close>

record RecentIdentityTracker =
  rit_entries :: "(string, js_number) js_map"
  rit_maxEntries :: nat
  rit_ttlMs :: js_number

definition newTracker :: "js_number \<Rightarrow> js_number \<Rightarrow> RecentIdentityTracker" where
  "newTracker maxEntries ttlMs =
     \<lparr>rit_entries = [], rit_maxEntries = nat (max 1 \<lfloor>maxEntries\<rfloor>), rit_ttlMs = max 1 ttlMs\<rparr>"

text \<open>The loop over the entries stops at the first one that is recent enough.\<close>

definition prune :: "js_number \<Rightarrow> RecentIdentityTracker \<Rightarrow> RecentIdentityTracker" where
  "prune now t = (let cutoff = now - rit_ttlMs t
     in t\<lparr>rit_entries := dropWhile (\<lambda>(key, seenAt). seenAt < cutoff) (rit_entries t)\<rparr>)"

fun evictOldest :: "nat \<Rightarrow> (string, js_number) js_map \<Rightarrow> (string, js_number) js_map" where
  "evictOldest maxEntries [] = []"
| "evictOldest maxEntries (e # es) = (if maxEntries < length (e # es) then evictOldest maxEntries es else e # es)"

definition remember :: "string \<Rightarrow> js_number \<Rightarrow> RecentIdentityTracker \<Rightarrow> bool \<times> RecentIdentityTracker" where
  "remember key now t0 =
     (let t = prune now t0; seenAt = map_get (rit_entries t) key
      in if seenAt \<noteq> None \<and> now - the seenAt \<le> rit_ttlMs t
         then (False, t\<lparr>rit_entries := map_set key now (map_del key (rit_entries t))\<rparr>)
         else (True, t\<lparr>rit_entries := evictOldest (rit_maxEntries t) (map_set key now (map_del key (rit_entries t)))\<rparr>))"

definition rememberFreshLiveIdentity ::
  "string \<Rightarrow> js_number \<Rightarrow> js_number \<Rightarrow> js_number \<Rightarrow> RecentIdentityTracker \<Rightarrow> bool \<times> RecentIdentityTracker" where
  "rememberFreshLiveIdentity key eventAt epochNow monotonicNow t =
     (if \<not> shouldAnimateLiveEvent eventAt epochNow False then (False, t) else remember key monotonicNow t)"

definition remember_all :: "(string \<times> js_number) list \<Rightarrow> RecentIdentityTracker \<Rightarrow> RecentIdentityTracker" where
  "remember_all calls t = foldl (\<lambda>t (key, now). snd (remember key now t)) t calls"

section \<open>The scheduler of live visuals\<close>

definition LIVE_VISUAL_QUEUE_LIMIT :: nat where "LIVE_VISUAL_QUEUE_LIMIT = 1024"
definition LIVE_VISUAL_MAX_STARTS_PER_FRAME :: nat where "LIVE_VISUAL_MAX_STARTS_PER_FRAME = 8"
definition LIVE_VISUAL_DEGRADED_ACTIVE :: nat where "LIVE_VISUAL_DEGRADED_ACTIVE = 48"
definition LIVE_VISUAL_MINIMAL_ACTIVE :: nat where "LIVE_VISUAL_MINIMAL_ACTIVE = 120"

datatype LiveAnimationPressure = NormalPressure | DegradedPressure | MinimalPressure | EmergencyPressure
datatype LiveVisualStartResult = Started | Retry | Ineligible

record 'v SchedulerOptions =
  so_start :: "nat \<Rightarrow> 'v \<Rightarrow> LiveAnimationPressure \<Rightarrow> LiveVisualStartResult"
  so_activeCount :: "nat \<Rightarrow> nat"

record 'v LiveVisualScheduler =
  lv_queue :: "'v list"
  lv_frame :: bool \<comment> \<open>\<open>frameHandle !== 0\<close>\<close>
  lv_recentStarts :: "js_number list"
  lv_attempts :: nat
  lv_settled :: "('v \<times> LiveAnimationPressure \<times> LiveVisualStartResult) list"

definition newScheduler :: "'v LiveVisualScheduler" where
  "newScheduler = \<lparr>lv_queue = [], lv_frame = False, lv_recentStarts = [], lv_attempts = 0, lv_settled = []\<rparr>"

definition pressure :: "'v SchedulerOptions \<Rightarrow> js_number \<Rightarrow> 'v LiveVisualScheduler \<Rightarrow> LiveAnimationPressure \<times> 'v LiveVisualScheduler" where
  "pressure opts now s =
     (let s1 = s\<lparr>lv_recentStarts := filter (\<lambda>startedAt. now - startedAt \<le> 2100) (lv_recentStarts s)\<rparr>;
          active = max (so_activeCount opts (lv_attempts s1)) (length (lv_recentStarts s1))
      in (if active > LIVE_VISUAL_MINIMAL_ACTIVE then MinimalPressure
          else if active > LIVE_VISUAL_DEGRADED_ACTIVE then DegradedPressure else NormalPressure, s1))"

definition startVisual ::
  "'v SchedulerOptions \<Rightarrow> js_number \<Rightarrow> 'v \<Rightarrow> LiveAnimationPressure \<Rightarrow> 'v LiveVisualScheduler
    \<Rightarrow> LiveVisualStartResult \<times> 'v LiveVisualScheduler" where
  "startVisual opts now v p s =
     (let result = so_start opts (lv_attempts s) v p;
          s1 = s\<lparr>lv_attempts := lv_attempts s + 1,
                 lv_settled := (if result = Retry then lv_settled s else lv_settled s @ [(v, p, result)])\<rparr>
      in (result, if result \<noteq> Started then s1 else s1\<lparr>lv_recentStarts := lv_recentStarts s1 @ [now]\<rparr>))"

definition schedule :: "'v LiveVisualScheduler \<Rightarrow> 'v LiveVisualScheduler" where
  "schedule s = (if lv_frame s \<or> lv_queue s = [] then s else s\<lparr>lv_frame := True\<rparr>)"

definition enqueueOne :: "'v SchedulerOptions \<Rightarrow> js_number \<Rightarrow> 'v LiveVisualScheduler \<Rightarrow> 'v \<Rightarrow> 'v LiveVisualScheduler" where
  "enqueueOne opts now s v =
     (let s2 = (if LIVE_VISUAL_QUEUE_LIMIT \<le> length (lv_queue s)
                then case lv_queue s of [] \<Rightarrow> s
                  | oldest # rest \<Rightarrow>
                      let (result, s1) = startVisual opts now oldest EmergencyPressure (s\<lparr>lv_queue := rest\<rparr>)
                      in if result = Retry then s1\<lparr>lv_queue := oldest # lv_queue s1\<rparr> else s1
                else s)
      in s2\<lparr>lv_queue := lv_queue s2 @ [v]\<rparr>)"

definition enqueue :: "'v SchedulerOptions \<Rightarrow> js_number \<Rightarrow> 'v list \<Rightarrow> 'v LiveVisualScheduler \<Rightarrow> 'v LiveVisualScheduler" where
  "enqueue opts now visuals s = schedule (foldl (enqueueOne opts now) s visuals)"

definition clearScheduler :: "'v LiveVisualScheduler \<Rightarrow> 'v LiveVisualScheduler" where
  "clearScheduler s = s\<lparr>lv_queue := [], lv_recentStarts := [], lv_frame := False\<rparr>"

fun drainLoop :: "'v SchedulerOptions \<Rightarrow> js_number \<Rightarrow> nat \<Rightarrow> 'v LiveVisualScheduler \<Rightarrow> 'v LiveVisualScheduler" where
  "drainLoop opts now 0 s = s"
| "drainLoop opts now (Suc n) s =
     (case lv_queue s of [] \<Rightarrow> s
      | v # rest \<Rightarrow>
          let (p, s1) = pressure opts now (s\<lparr>lv_queue := rest\<rparr>);
              (result, s2) = startVisual opts now v p s1
          in if result = Retry then s2\<lparr>lv_queue := v # lv_queue s2\<rparr> else drainLoop opts now n s2)"

definition drainFrame :: "'v SchedulerOptions \<Rightarrow> js_number \<Rightarrow> 'v LiveVisualScheduler \<Rightarrow> 'v LiveVisualScheduler" where
  "drainFrame opts now s0 =
     (let s = s0\<lparr>lv_frame := False\<rparr>
      in if lv_queue s = [] then s
         else schedule (drainLoop opts now (min (length (lv_queue s)) LIVE_VISUAL_MAX_STARTS_PER_FRAME) s))"

datatype 'v scheduler_call = Enqueue js_number "'v list" | Frame js_number

text \<open>The browser runs a frame only when one was requested.\<close>

fun scheduler_step :: "'v SchedulerOptions \<Rightarrow> 'v LiveVisualScheduler \<Rightarrow> 'v scheduler_call \<Rightarrow> 'v LiveVisualScheduler" where
  "scheduler_step opts s (Enqueue now vs) = enqueue opts now vs s"
| "scheduler_step opts s (Frame now) = (if lv_frame s then drainFrame opts now s else s)"

fun enqueued :: "'v scheduler_call \<Rightarrow> 'v list" where
  "enqueued (Enqueue now vs) = vs"
| "enqueued (Frame now) = []"

section \<open>Following the traffic\<close>

datatype FollowReason = FollowImmediate | FollowAccepted | FollowDuplicate | FollowThrottled | FollowCameraBusy

record FollowTrafficState =
  ft_lastAt :: js_number
  ft_lastID :: string

record FollowTrafficDecisionInput =
  fi_id :: string
  fi_now :: js_number
  fi_immediate :: bool
  fi_mapMoving :: bool

record FollowTrafficDecision =
  fd_shouldMove :: bool
  fd_durationMs :: js_number
  fd_reason :: FollowReason

definition FOLLOW_TRAFFIC_MIN_INTERVAL_MS :: js_number where "FOLLOW_TRAFFIC_MIN_INTERVAL_MS = 36000"
definition FOLLOW_TRAFFIC_DURATION_MS :: js_number where "FOLLOW_TRAFFIC_DURATION_MS = 18000"
definition FOLLOW_TRAFFIC_IMMEDIATE_DURATION_MS :: js_number where "FOLLOW_TRAFFIC_IMMEDIATE_DURATION_MS = 9000"
definition FOLLOW_TRAFFIC_MOVING_GRACE_MS :: js_number where "FOLLOW_TRAFFIC_MOVING_GRACE_MS = 7000"

definition followTrafficDecision :: "FollowTrafficState \<Rightarrow> FollowTrafficDecisionInput \<Rightarrow> FollowTrafficDecision" where
  "followTrafficDecision state input =
     (let age = fi_now input - ft_lastAt state
      in if \<not> fi_immediate input \<and> ft_lastID state = fi_id input
         then \<lparr>fd_shouldMove = False, fd_durationMs = FOLLOW_TRAFFIC_DURATION_MS, fd_reason = FollowDuplicate\<rparr>
         else if \<not> fi_immediate input \<and> fi_mapMoving input \<and> age < FOLLOW_TRAFFIC_DURATION_MS + FOLLOW_TRAFFIC_MOVING_GRACE_MS
         then \<lparr>fd_shouldMove = False, fd_durationMs = FOLLOW_TRAFFIC_DURATION_MS, fd_reason = FollowCameraBusy\<rparr>
         else if \<not> fi_immediate input \<and> age < FOLLOW_TRAFFIC_MIN_INTERVAL_MS
         then \<lparr>fd_shouldMove = False, fd_durationMs = FOLLOW_TRAFFIC_DURATION_MS, fd_reason = FollowThrottled\<rparr>
         else \<lparr>fd_shouldMove = True,
               fd_durationMs = (if fi_immediate input then FOLLOW_TRAFFIC_IMMEDIATE_DURATION_MS else FOLLOW_TRAFFIC_DURATION_MS),
               fd_reason = (if fi_immediate input then FollowImmediate else FollowAccepted)\<rparr>)"

section \<open>The scheduler is a queue\<close>

lemma startVisual_frame:
  "startVisual opts now v p s = (r, s') \<Longrightarrow> lv_queue s' = lv_queue s \<and> lv_frame s' = lv_frame s \<and>
     map fst (lv_settled s') = map fst (lv_settled s) @ (if r = Retry then [] else [v])"
  by (cases "so_start opts (lv_attempts s) v p") (auto simp: startVisual_def Let_def)

lemma pressure_frame:
  "pressure opts now s = (p, s') \<Longrightarrow> lv_queue s' = lv_queue s \<and> lv_frame s' = lv_frame s \<and> lv_settled s' = lv_settled s"
  by (auto simp: pressure_def Let_def)

definition history :: "'v LiveVisualScheduler \<Rightarrow> 'v list" where
  "history s = map fst (lv_settled s) @ lv_queue s"

lemma history_frame [simp]: "history (s\<lparr>lv_frame := b\<rparr>) = history s"
  by (simp add: history_def)

lemma schedule_history [simp]: "history (schedule s) = history s"
  by (simp add: schedule_def)

lemma schedule_frame: "lv_queue (schedule s) \<noteq> [] \<longrightarrow> lv_frame (schedule s)"
  by (simp add: schedule_def)

lemma enqueueOne_history [simp]: "history (enqueueOne opts now s v) = history s @ [v]"
proof (cases "LIVE_VISUAL_QUEUE_LIMIT \<le> length (lv_queue s) \<and> lv_queue s \<noteq> []")
  case True
  then obtain old rest where q: "lv_queue s = old # rest" by (cases "lv_queue s") auto
  obtain r s1 where st: "startVisual opts now old EmergencyPressure (s\<lparr>lv_queue := rest\<rparr>) = (r, s1)" by fastforce
  show ?thesis using True startVisual_frame [OF st] by (simp add: enqueueOne_def q st history_def)
next
  case False
  then show ?thesis by (auto simp: enqueueOne_def history_def Let_def split: list.split)
qed

lemma enqueue_all_history: "history (foldl (enqueueOne opts now) s vs) = history s @ vs"
  by (induction vs arbitrary: s) simp_all

lemma drainLoop_history: "history (drainLoop opts now n s) = history s"
proof (induction opts now n s rule: drainLoop.induct)
  case (1 opts now s)
  then show ?case by simp
next
  case (2 opts now n s)
  show ?case
  proof (cases "lv_queue s")
    case Nil
    then show ?thesis by simp
  next
    case (Cons v rest)
    obtain p s1 where p: "pressure opts now (s\<lparr>lv_queue := rest\<rparr>) = (p, s1)" by fastforce
    obtain r s2 where r: "startVisual opts now v p s1 = (r, s2)" by fastforce
    have "history (if r = Retry then s2\<lparr>lv_queue := v # lv_queue s2\<rparr> else s2) = history s"
      using pressure_frame [OF p] startVisual_frame [OF r] Cons by (simp add: history_def)
    then show ?thesis using "2.IH" [OF Cons p [symmetric] refl r [symmetric] refl] Cons p r
      by (cases "r = Retry") simp_all
  qed
qed

lemma scheduler_history: "history (scheduler_step opts s c) = history s @ enqueued c"
  by (cases c) (simp_all add: enqueue_def enqueue_all_history drainFrame_def drainLoop_history Let_def)

lemma scheduler_keeps_visuals_history:
  "history (foldl (scheduler_step opts) newScheduler calls) = concat (map enqueued calls)"
proof -
  have "history (foldl (scheduler_step opts) s calls) = history s @ concat (map enqueued calls)" for s
    by (induction calls arbitrary: s) (simp_all add: scheduler_history)
  then show ?thesis by (simp add: newScheduler_def history_def)
qed

lemma scheduler_frame:
  "(lv_queue s \<noteq> [] \<longrightarrow> lv_frame s) \<Longrightarrow> lv_queue (scheduler_step opts s c) \<noteq> [] \<longrightarrow> lv_frame (scheduler_step opts s c)"
  using schedule_frame by (cases c) (auto simp: enqueue_def drainFrame_def Let_def)

lemma enqueueOne_bound:
  assumes "\<And>n v p. so_start opts n v p \<noteq> Retry" and "length (lv_queue s) \<le> LIVE_VISUAL_QUEUE_LIMIT"
  shows "length (lv_queue (enqueueOne opts now s v)) \<le> LIVE_VISUAL_QUEUE_LIMIT"
proof (cases "LIVE_VISUAL_QUEUE_LIMIT \<le> length (lv_queue s)")
  case True
  then obtain old rest where q: "lv_queue s = old # rest"
    by (cases "lv_queue s") (auto simp: LIVE_VISUAL_QUEUE_LIMIT_def)
  obtain r s1 where st: "startVisual opts now old EmergencyPressure (s\<lparr>lv_queue := rest\<rparr>) = (r, s1)" by fastforce
  have "r \<noteq> Retry" using st assms(1) by (auto simp: startVisual_def Let_def)
  then show ?thesis using True startVisual_frame [OF st] assms(2) by (simp add: enqueueOne_def q st)
next
  case False
  then show ?thesis by (simp add: enqueueOne_def)
qed

lemma enqueue_bound:
  assumes "\<And>n v p. so_start opts n v p \<noteq> Retry" and "length (lv_queue s) \<le> LIVE_VISUAL_QUEUE_LIMIT"
  shows "length (lv_queue (foldl (enqueueOne opts now) s vs)) \<le> LIVE_VISUAL_QUEUE_LIMIT"
  using assms(2) by (induction vs arbitrary: s) (simp_all add: enqueueOne_bound [OF assms(1)])

lemma drainLoop_length: "length (lv_queue (drainLoop opts now n s)) \<le> length (lv_queue s)"
proof (induction opts now n s rule: drainLoop.induct)
  case (1 opts now s)
  then show ?case by simp
next
  case (2 opts now n s)
  show ?case
  proof (cases "lv_queue s")
    case Nil
    then show ?thesis by simp
  next
    case (Cons v rest)
    obtain p s1 where p: "pressure opts now (s\<lparr>lv_queue := rest\<rparr>) = (p, s1)" by fastforce
    obtain r s2 where r: "startVisual opts now v p s1 = (r, s2)" by fastforce
    have "lv_queue s2 = rest" using pressure_frame [OF p] startVisual_frame [OF r] by simp
    then show ?thesis using "2.IH" [OF Cons p [symmetric] refl r [symmetric] refl] Cons p r
      by (cases "r = Retry") simp_all
  qed
qed

lemma scheduler_bound:
  assumes "\<And>n v p. so_start opts n v p \<noteq> Retry" and "length (lv_queue s) \<le> LIVE_VISUAL_QUEUE_LIMIT"
  shows "length (lv_queue (scheduler_step opts s c)) \<le> LIVE_VISUAL_QUEUE_LIMIT"
proof (cases c)
  case (Enqueue now vs)
  then show ?thesis using enqueue_bound [OF assms] by (simp add: enqueue_def schedule_def)
next
  case (Frame now)
  then show ?thesis using assms(2) drainLoop_length [of opts now _ "s\<lparr>lv_frame := False\<rparr>"]
    by (auto simp: drainFrame_def schedule_def Let_def intro: order_trans)
qed

section \<open>The tracker keeps the most recent identities\<close>

text \<open>
  The identities of a sequence of calls in the order of their last call, with its time: the reference the
  tracker is compared with.
\<close>

definition recency :: "(string \<times> js_number) list \<Rightarrow> (string, js_number) js_map" where
  "recency calls = foldl (\<lambda>r (key, now). map_del key r @ [(key, now)]) [] calls"

definition retained :: "nat \<Rightarrow> js_number \<Rightarrow> js_number \<Rightarrow> (string, js_number) js_map \<Rightarrow> (string, js_number) js_map" where
  "retained maxEntries ttl now r = take_last maxEntries (filter (\<lambda>(key, seenAt). now - seenAt \<le> ttl) r)"

definition in_time :: "(string, js_number) js_map \<Rightarrow> js_number \<Rightarrow> bool" where
  "in_time r now \<longleftrightarrow> sorted (map snd r) \<and> (\<forall>t \<in> snd ` set r. t \<le> now)"

lemma recency_snoc: "recency (calls @ [(key, now)]) = map_del key (recency calls) @ [(key, now)]"
  by (simp add: recency_def)

lemma recency_keyed: "well_keyed (recency calls)"
proof (induction calls rule: rev_induct)
  case (snoc c calls)
  then have "well_keyed (map_del k (recency calls))" for k by simp
  moreover have "k \<notin> set (map fst (map_del k (recency calls)))" for k by (simp only: keys_map_del) simp
  ultimately show ?case by (cases c) (simp add: recency_snoc well_keyed_def del: set_map)
qed (simp add: recency_def)

lemma recency_in_time:
  "sorted (map snd calls) \<Longrightarrow> (\<forall>t \<in> snd ` set calls. t \<le> now) \<Longrightarrow> in_time (recency calls) now"
proof (induction calls arbitrary: now rule: rev_induct)
  case Nil
  then show ?case by (simp add: recency_def in_time_def)
next
  case (snoc c calls)
  obtain k t where c: "c = (k, t)" by (cases c)
  have "in_time (recency calls) t" using snoc c by (intro snoc.IH) (auto simp: sorted_append)
  then have "sorted (map snd (map_del k (recency calls)))" "\<forall>x \<in> snd ` set (map_del k (recency calls)). x \<le> t"
    by (auto simp: in_time_def map_del_def sorted_filter)
  then show ?case using snoc.prems c by (force simp: recency_snoc in_time_def sorted_append)
qed

lemma dropWhile_sorted:
  "sorted (map snd r) \<Longrightarrow> dropWhile (\<lambda>(key, seenAt). seenAt < c) r = filter (\<lambda>(key, seenAt). c \<le> seenAt) r"
proof (induction r)
  case (Cons e r)
  obtain k t where e: "e = (k, t)" by (cases e)
  have "c \<le> t \<Longrightarrow> filter (\<lambda>(key, seenAt). c \<le> seenAt) r = r"
    using Cons.prems e by (force simp: filter_id_conv)
  then show ?case using Cons e by auto
qed simp

lemma evictOldest_eq: "evictOldest n xs = take_last n xs"
  by (induction xs) (auto simp: take_last_def Suc_diff_le)

lemma take_last_append: "n \<le> length c \<Longrightarrow> take_last n (a @ c) = take_last n c"
  by (simp add: take_last_def)

lemma take_last_del:
  assumes "well_keyed r"
  shows "take_last n (map_del k (take_last n r) @ [e]) = take_last n (map_del k r @ [e])"
proof -
  define a b where "a = take (length r - n) r" and "b = take_last n r"
  have r: "r = a @ b" by (simp add: a_def b_def take_last_def)
  have del: "map_del k r = map_del k a @ map_del k b" by (simp add: r map_del_def)
  have b: "length b < n \<Longrightarrow> a = []" by (simp add: a_def b_def)
  have "n \<le> length (map_del k b @ [e]) \<or> a = []"
  proof (cases "k \<in> set (map fst b)")
    case True
    have "well_keyed b" using assms by (simp add: r well_keyed_def)
    from length_map_del [OF this True] show ?thesis using b by fastforce
  next
    case False
    then have "map_del k b = b" by (force simp: map_del_def filter_id_conv)
    then show ?thesis using b by fastforce
  qed
  then show ?thesis unfolding del b_def [symmetric]
    by (auto simp: take_last_append map_del_def [of k "[]"])
qed

lemma take_last_filter:
  "sorted (map snd r) \<Longrightarrow>
     filter (\<lambda>(key, seenAt). c \<le> seenAt) (take_last n r) = take_last n (filter (\<lambda>(key, seenAt). c \<le> seenAt) r)"
proof (induction r)
  case (Cons e r)
  obtain k t where e: "e = (k, t)" by (cases e)
  show ?case
  proof (cases "c \<le> t")
    case True
    then have "filter (\<lambda>(key, seenAt). c \<le> seenAt) (e # r) = e # r"
        "filter (\<lambda>(key, seenAt). c \<le> seenAt) (take_last n (e # r)) = take_last n (e # r)"
      using Cons.prems e set_take_last [of n "e # r"] by (force simp: filter_id_conv)+
    then show ?thesis by simp
  next
    case False
    then have f: "filter (\<lambda>(key, seenAt). c \<le> seenAt) (e # r) = filter (\<lambda>(key, seenAt). c \<le> seenAt) r"
      by (simp add: e)
    show ?thesis
    proof (cases "length r < n")
      case True
      then have "length (filter (\<lambda>(key, seenAt). c \<le> seenAt) r) \<le> n"
        by (meson length_filter_le less_imp_le order_trans)
      then show ?thesis using True f by (simp add: take_last_all)
    next
      case False
      then have "take_last n (e # r) = take_last n r" by (simp add: take_last_def Suc_diff_le)
      then show ?thesis using Cons f by simp
    qed
  qed
qed (simp add: take_last_def)

lemma retained_later:
  assumes "sorted (map snd r)" and "T \<le> now"
  shows "dropWhile (\<lambda>(key, seenAt). seenAt < now - ttl) (retained n ttl T r) = retained n ttl now r"
proof -
  let ?f = "\<lambda>t. filter (\<lambda>(key, seenAt). t - ttl \<le> seenAt) r"
  have f: "retained n ttl t r = take_last n (?f t)" for t
    unfolding retained_def by (rule arg_cong [where f = "take_last n"], rule filter_cong) auto
  have s: "sorted (map snd (?f T))" using assms(1) by (simp add: sorted_filter)
  then have "sorted (map snd (take_last n (?f T)))" by (simp add: take_last_def drop_map [symmetric] sorted_wrt_drop)
  then have "dropWhile (\<lambda>(key, seenAt). seenAt < now - ttl) (retained n ttl T r) = take_last n (filter (\<lambda>(key, seenAt). now - ttl \<le> seenAt) (?f T))"
    by (simp add: f dropWhile_sorted take_last_filter [OF s])
  also have "filter (\<lambda>(key, seenAt). now - ttl \<le> seenAt) (?f T) = ?f now"
    using assms(2) by (auto intro!: filter_cong)
  finally show ?thesis by (simp add: f)
qed

lemma remember_retained:
  assumes t: "rit_entries t = retained (rit_maxEntries t) (rit_ttlMs t) T r" and r: "well_keyed r" "sorted (map snd r)"
    and "T \<le> now" and ttl: "0 \<le> rit_ttlMs t" and m: "0 < rit_maxEntries t"
  shows "fst (remember key now t) \<longleftrightarrow> key \<notin> fst ` set (retained (rit_maxEntries t) (rit_ttlMs t) now r)"
    and "snd (remember key now t) = t\<lparr>rit_entries := retained (rit_maxEntries t) (rit_ttlMs t) now (map_del key r @ [(key, now)])\<rparr>"
proof -
  let ?n = "rit_maxEntries t" and ?ttl = "rit_ttlMs t"
  let ?E = "retained ?n ?ttl now r" and ?f = "filter (\<lambda>(key, seenAt). now - seenAt \<le> ?ttl)"
  have p: "rit_entries (prune now t) = ?E" "rit_maxEntries (prune now t) = ?n" "rit_ttlMs (prune now t) = ?ttl"
    using retained_later [OF r(2) assms(4)] by (simp_all add: prune_def t Let_def)
  have old: "map_get ?E key = Some s \<Longrightarrow> now - s \<le> ?ttl" for s
    using set_take_last [of ?n "?f r"] by (auto simp: retained_def dest!: map_of_SomeD)
  have new: "map_set key now (map_del key ?E) = map_del key ?E @ [(key, now)]"
    by (rule map_set_new) (simp only: keys_map_del, simp)
  have wf: "well_keyed (?f r)" using r(1) by (simp add: well_keyed_def distinct_map_filter)
  have "map_del key (?f r) @ [(key, now)] = ?f (map_del key r @ [(key, now)])"
    using ttl by (simp add: map_del_def conj_commute)
  then have all: "take_last ?n (map_del key ?E @ [(key, now)]) = retained ?n ?ttl now (map_del key r @ [(key, now)])"
    by (simp add: retained_def take_last_del [OF wf])
  have mem: "key \<in> fst ` set ?E \<longleftrightarrow> map_get ?E key \<noteq> None" by (simp add: map_of_eq_None_iff)
  show "fst (remember key now t) \<longleftrightarrow> key \<notin> fst ` set ?E"
    unfolding mem using old by (cases "map_get ?E key") (auto simp: remember_def Let_def p)
  have short: "take_last ?n (map_del key ?E @ [(key, now)]) = map_del key ?E @ [(key, now)]" if "map_get ?E key \<noteq> None"
  proof -
    have "key \<in> set (map fst ?E)" using that mem by simp
    moreover have "well_keyed ?E" using wf by (simp add: retained_def well_keyed_def take_last_def drop_map [symmetric])
    ultimately show ?thesis using length_map_del [of ?E key] by (intro take_last_all) (simp add: retained_def)
  qed
  have pr: "(prune now t)\<lparr>rit_entries := es\<rparr> = t\<lparr>rit_entries := es\<rparr>" for es by (simp add: prune_def Let_def)
  show "snd (remember key now t) = t\<lparr>rit_entries := retained ?n ?ttl now (map_del key r @ [(key, now)])\<rparr>"
    using old short by (cases "map_get ?E key") (simp_all add: remember_def Let_def p new evictOldest_eq all pr)
qed

lemma remember_all_retained:
  assumes "sorted (map snd calls)" and "\<forall>s \<in> snd ` set calls. s \<le> now" and "0 \<le> rit_ttlMs t" and "0 < rit_maxEntries t"
    and "rit_entries t = []"
  shows "\<exists>T \<le> now. remember_all calls t = t\<lparr>rit_entries := retained (rit_maxEntries t) (rit_ttlMs t) T (recency calls)\<rparr>"
  using assms(1,2)
proof (induction calls arbitrary: now rule: rev_induct)
  case Nil
  have "retained n ttl now [] = []" for n ttl by (simp add: retained_def take_last_def)
  then show ?case using assms(5) by (auto simp: remember_all_def recency_def)
next
  case (snoc c calls)
  obtain k u where c: "c = (k, u)" by (cases c)
  let ?R = "recency calls"
  have s: "sorted (map snd calls)" "\<forall>x \<in> snd ` set calls. x \<le> u" "u \<le> now"
    using snoc.prems c by (auto simp: sorted_append)
  obtain T where T: "T \<le> u" "remember_all calls t = t\<lparr>rit_entries := retained (rit_maxEntries t) (rit_ttlMs t) T ?R\<rparr>"
    using snoc.IH [OF s(1,2)] by blast
  have "sorted (map snd ?R)" using recency_in_time [OF s(1,2)] by (simp add: in_time_def)
  then have "snd (remember k u (remember_all calls t)) =
      t\<lparr>rit_entries := retained (rit_maxEntries t) (rit_ttlMs t) u (recency (calls @ [c]))\<rparr>"
    using remember_retained(2) [of "remember_all calls t" T ?R u k] T recency_keyed assms(3,4)
    by (simp add: c recency_snoc)
  then show ?case using s(3) by (intro exI [of _ u]) (simp add: remember_all_def c)
qed

section \<open>Properties\<close>

text \<open>
  C16. The scheduler of live visuals is a queue which loses, repeats and reorders nothing: after any sequence
  of enqueues and animation frames, whatever \<open>start\<close> answers, the visuals enqueued are, in order, those
  handed to \<open>start\<close> for good followed by those still waiting; and while visuals wait, a frame is requested.
\<close>

theorem scheduler_keeps_visuals:
  "history (foldl (scheduler_step opts) newScheduler calls) = concat (map enqueued calls) \<and>
   (lv_queue (foldl (scheduler_step opts) newScheduler calls) = [] \<or> lv_frame (foldl (scheduler_step opts) newScheduler calls))"
proof -
  have "lv_queue (foldl (scheduler_step opts) newScheduler calls) \<noteq> [] \<longrightarrow>
      lv_frame (foldl (scheduler_step opts) newScheduler calls)"
    by (rule foldl_invariant) (simp_all add: newScheduler_def scheduler_frame)
  then show ?thesis using scheduler_keeps_visuals_history by blast
qed

text \<open>
  The queue keeps its limit as long as \<open>start\<close> never asks for a retry; when it always does, the limit
  does not hold: every enqueued visual waits, however many there are.
\<close>

lemma scheduler_limit:
  assumes "\<And>n v p. so_start opts n v p \<noteq> Retry" and "\<And>n v p. so_start stuck n v p = Retry"
  shows "length (lv_queue (foldl (scheduler_step opts) newScheduler calls)) \<le> LIVE_VISUAL_QUEUE_LIMIT \<and>
    lv_queue (foldl (scheduler_step stuck) newScheduler calls) = concat (map enqueued calls)"
proof -
  have b: "length (lv_queue (foldl (scheduler_step opts) newScheduler calls)) \<le> LIVE_VISUAL_QUEUE_LIMIT"
    by (rule foldl_invariant [of "\<lambda>s. length (lv_queue s) \<le> LIVE_VISUAL_QUEUE_LIMIT"])
      (simp_all add: scheduler_bound [OF assms(1)] newScheduler_def)
  have st: "startVisual stuck now v p s = (r, s') \<Longrightarrow> r = Retry \<and> lv_settled s' = lv_settled s" for now v p s r s'
    by (auto simp: startVisual_def Let_def assms(2))
  have e1: "lv_settled (enqueueOne stuck now s v) = lv_settled s" for now s v
    using st by (auto simp: enqueueOne_def Let_def split: list.split prod.split)
  have e: "lv_settled (foldl (enqueueOne stuck now) s vs) = lv_settled s" for now s vs
    by (induction vs arbitrary: s) (simp_all add: e1)
  have d: "lv_settled (drainLoop stuck now n s) = lv_settled s" for now n s
  proof (cases n)
    case (Suc k)
    show ?thesis
    proof (cases "lv_queue s")
      case (Cons v rest)
      obtain p s1 where p: "pressure stuck now (s\<lparr>lv_queue := rest\<rparr>) = (p, s1)" by fastforce
      obtain r s2 where r: "startVisual stuck now v p s1 = (r, s2)" by fastforce
      have "lv_settled s1 = lv_settled s" using pressure_frame [of stuck now "s\<lparr>lv_queue := rest\<rparr>"] p by simp
      then show ?thesis using st [OF r] by (simp add: Suc Cons p r)
    qed (simp add: Suc)
  qed simp
  have "lv_settled (scheduler_step stuck s c) = lv_settled s" for s c
    by (cases c) (simp_all add: enqueue_def schedule_def e drainFrame_def d Let_def)
  then have "lv_settled (foldl (scheduler_step stuck) newScheduler calls) = []"
    by (intro foldl_invariant [of "\<lambda>s. lv_settled s = []"]) (simp_all add: newScheduler_def)
  then have "lv_queue (foldl (scheduler_step stuck) newScheduler calls) = concat (map enqueued calls)"
    using scheduler_keeps_visuals_history [of stuck calls] by (simp add: history_def)
  then show ?thesis using b by simp
qed

lemma scheduler_limit_witness:
  "length (lv_queue (scheduler_step \<lparr>so_start = \<lambda>n v p. Retry, so_activeCount = \<lambda>n. 0\<rparr> newScheduler
     (Enqueue 0 (replicate 2000 (0::nat))))) = 2000"
  using scheduler_limit [of "\<lparr>so_start = \<lambda>n v p. Started, so_activeCount = \<lambda>n. 0\<rparr>"
      "\<lparr>so_start = \<lambda>n v p. Retry, so_activeCount = \<lambda>n. 0\<rparr>" "[Enqueue 0 (replicate 2000 (0::nat))]"]
  by simp

text \<open>
  An identity is new exactly when it is not retained: for calls with times that do not decrease, \<open>remember\<close>
  answers true unless the key is among the most recently remembered identities, at most the capacity,
  whose last call is within the time to live.
\<close>

lemma tracker_new_identity:
  assumes "sorted (map snd calls)" and "\<forall>t \<in> snd ` set calls. t \<le> now"
  shows "fst (remember key now (remember_all calls (newTracker maxEntries ttl))) =
    (key \<notin> fst ` set (retained (nat (max 1 \<lfloor>maxEntries\<rfloor>)) (max 1 ttl) now (recency calls)))"
proof -
  let ?t = "newTracker maxEntries ttl"
  have t: "0 \<le> rit_ttlMs ?t" "0 < rit_maxEntries ?t" "rit_entries ?t = []" by (simp_all add: newTracker_def)
  obtain T where "T \<le> now"
      "remember_all calls ?t = ?t\<lparr>rit_entries := retained (rit_maxEntries ?t) (rit_ttlMs ?t) T (recency calls)\<rparr>"
    using remember_all_retained [OF assms t] by blast
  moreover have "sorted (map snd (recency calls))" using recency_in_time [OF assms] by (simp add: in_time_def)
  ultimately show ?thesis
    using remember_retained(1) [of "remember_all calls ?t" T "recency calls" now key] recency_keyed t
    by (simp add: newTracker_def)
qed

lemma tracker_new_identity_witness:
  "\<not> fst (remember ''a'' 5 (remember_all [(''a'', 1), (''b'', 2)] (newTracker 2 10))) \<and>
   fst (remember ''a'' 5 (remember_all [(''a'', 1), (''b'', 2)] (newTracker 1 10)))"
  using tracker_new_identity [of "[(''a'', 1), (''b'', 2)]" 5 "''a''" 2 10]
    tracker_new_identity [of "[(''a'', 1), (''b'', 2)]" 5 "''a''" 1 10]
  by (simp add: retained_def recency_def map_del_def take_last_def)

end
