(* ===== verification/Map_Camera.thy ===== *)
theory Map_Camera
  imports Map_Geo Live_Visuals Carto_Samples Payload_Visuals Node_Source "HOL-Library.Word"
begin

unbundle bit_operations_syntax

text \<open>
  \<open>map/mapCamera.ts\<close>, following the traffic and the message bubbles of \<open>CanadaMap.tsx\<close>. The map is what the code
  asks of it: its sizes, centre and zoom, whether it moves, and its own projection, which has no answer while the
  style is not loaded. What the code tells the camera is a list of moves; the bounds of points are those of the map
  library. Numbers are finite.
\<close>

section \<open>The map and its camera\<close>

record MapHostView =
  hv_canvas :: "js_number \<times> js_number" \<comment> \<open>\<open>clientWidth\<close> and \<open>clientHeight\<close>, here and of the container\<close>
  hv_container :: "js_number \<times> js_number"
  hv_window :: "js_number \<times> js_number"
  hv_center :: "js_number \<times> js_number"
  hv_zoom :: js_number
  hv_moving :: bool
  hv_project :: "js_number \<times> js_number \<Rightarrow> (js_number \<times> js_number) option"

record MapPadding =
  pg_top :: js_number
  pg_right :: js_number
  pg_bottom :: js_number
  pg_left :: js_number

datatype CameraMove =
    StopMove
  | EaseTo "js_number \<times> js_number" js_number js_number \<comment> \<open>centre, zoom and duration\<close>
  | FitBounds "(js_number \<times> js_number) list" MapPadding js_number js_number \<comment> \<open>points, padding, \<open>maxZoom\<close> and duration\<close>

definition falsy_or :: "js_number list \<Rightarrow> js_number" where
  "falsy_or xs = (case filter (\<lambda>x. x \<noteq> 0) xs of [] \<Rightarrow> last xs | x # _ \<Rightarrow> x)"

definition mapViewportSize :: "MapHostView \<Rightarrow> js_number \<times> js_number" where
  "mapViewportSize m =
     (falsy_or [fst (hv_canvas m), fst (hv_container m), fst (hv_window m), 1],
      falsy_or [snd (hv_canvas m), snd (hv_container m), snd (hv_window m), 1])"

definition isFollowPoint :: "js_number \<times> js_number \<Rightarrow> bool" where
  "isFollowPoint point \<longleftrightarrow>
     (let (lng, lat) = point in lat \<noteq> 0 \<and> lng \<noteq> 0 \<and> -85 \<le> lat \<and> lat \<le> 85 \<and> -180 \<le> lng \<and> lng \<le> 180)"

definition uniformPadding :: "js_number \<Rightarrow> MapPadding" where
  "uniformPadding p = \<lparr>pg_top = p, pg_right = p, pg_bottom = p, pg_left = p\<rparr>"

definition fitToNodes :: "PublicNode list \<Rightarrow> js_number \<Rightarrow> CameraMove list" where
  "fitToNodes nodes duration =
     (let points = map (\<lambda>node. (pn_longitude node, pn_latitude node)) (filter isMappableNode nodes)
      in if points = [] then [] else [FitBounds points (uniformPadding 76) (54 / 10) duration])"

definition fitToRoute :: "PublicRoute \<Rightarrow> js_number \<Rightarrow> CameraMove list" where
  "fitToRoute route duration =
     [FitBounds [(ep_lng (rt_from route), ep_lat (rt_from route)), (ep_lng (rt_to route), ep_lat (rt_to route))]
        (uniformPadding 120) (105 / 10) duration]"

definition overviewRoutePadding :: "MapHostView \<Rightarrow> MapPadding" where
  "overviewRoutePadding m =
     (let (width, height) = mapViewportSize m
      in if width < 720 \<or> height < 560 then \<lparr>pg_top = 86, pg_right = 38, pg_bottom = 116, pg_left = 38\<rparr>
         else \<lparr>pg_top = 132, pg_right = 132, pg_bottom = 150, pg_left = 132\<rparr>)"

definition followTrafficPadding :: "MapHostView \<Rightarrow> MapPadding" where
  "followTrafficPadding m =
     (let width = fst (hv_container m)
      in if width \<le> 760 then \<lparr>pg_top = 188, pg_right = 30, pg_bottom = 210, pg_left = 30\<rparr>
         else \<lparr>pg_top = 150, pg_right = min 360 (js_round (width * (24 / 100))), pg_bottom = 84,
                pg_left = min 360 (js_round (width * (24 / 100)))\<rparr>)"

definition segmentEnds :: "PublicRouteSegment \<Rightarrow> (js_number \<times> js_number) list" where
  "segmentEnds segment = [(ep_lng (sg_from segment), ep_lat (sg_from segment)), (ep_lng (sg_to segment), ep_lat (sg_to segment))]"

definition fitToSegments :: "MapHostView \<Rightarrow> PublicRouteSegment list \<Rightarrow> js_number \<Rightarrow> bool \<Rightarrow> CameraMove list" where
  "fitToSegments m segments duration overview =
     (case filter isFollowPoint (concat (map segmentEnds segments)) of
        [] \<Rightarrow> []
      | [p] \<Rightarrow> [EaseTo p (max (hv_zoom m) (84 / 10 - 2 / 10)) duration]
      | points \<Rightarrow> [FitBounds points (if overview then overviewRoutePadding m else followTrafficPadding m)
          (if overview then 88 / 10 else 108 / 10) duration])"

definition easeOutCubic :: "js_number \<Rightarrow> js_number" where
  "easeOutCubic t = 1 - (1 - t) ^ 3"

section \<open>Following the traffic\<close>

definition FOLLOW_TRAFFIC_ROUTE_MAX_ZOOM :: js_number where "FOLLOW_TRAFFIC_ROUTE_MAX_ZOOM = 58 / 10"
definition FOLLOW_TRAFFIC_POINT_ZOOM :: js_number where "FOLLOW_TRAFFIC_POINT_ZOOM = 52 / 10"

definition visualReceivedAt :: "js_number \<Rightarrow> js_number option \<Rightarrow> js_number" where
  "visualReceivedAt heardAt receivedAt = or_else receivedAt heardAt"

definition followTrafficTarget ::
  "MapHostView \<Rightarrow> js_number \<Rightarrow> string \<Rightarrow> (js_number \<times> js_number) list \<Rightarrow> bool \<Rightarrow> FollowTrafficState \<Rightarrow> CameraMove list \<times> FollowTrafficState" where
  "followTrafficTarget m now i points immediate state =
     (let usablePoints = filter isFollowPoint points;
          decision = followTrafficDecision state \<lparr>fi_id = i, fi_now = now, fi_immediate = immediate, fi_mapMoving = hv_moving m\<rparr>
      in if usablePoints = [] \<or> \<not> fd_shouldMove decision then ([], state)
         else ([StopMove,
                if length usablePoints = 1
                then EaseTo (hd usablePoints)
                  (max FOLLOW_TRAFFIC_POINT_ZOOM (min (hv_zoom m) (FOLLOW_TRAFFIC_ROUTE_MAX_ZOOM + 3 / 10))) (fd_durationMs decision)
                else FitBounds usablePoints (followTrafficPadding m) FOLLOW_TRAFFIC_ROUTE_MAX_ZOOM (fd_durationMs decision)],
               \<lparr>ft_lastAt = now, ft_lastID = i\<rparr>))"

definition routePulsePoints :: "PublicRoutePulse \<Rightarrow> (js_number \<times> js_number) list" where
  "routePulsePoints pulse = concat (map segmentEnds (rp_segments pulse))"

definition followTrafficPulse ::
  "MapHostView \<Rightarrow> js_number \<Rightarrow> PublicRoutePulse \<Rightarrow> bool \<Rightarrow> bool \<Rightarrow> FollowTrafficState \<Rightarrow> CameraMove list \<times> FollowTrafficState" where
  "followTrafficPulse m now pulse enabled immediate state =
     (if enabled then followTrafficTarget m now (rp_id pulse) (routePulsePoints pulse) immediate state else ([], state))"

definition followTrafficObserverBurst ::
  "MapHostView \<Rightarrow> js_number \<Rightarrow> PublicObserverBurst \<Rightarrow> bool \<Rightarrow> bool \<Rightarrow> FollowTrafficState \<Rightarrow> CameraMove list \<times> FollowTrafficState" where
  "followTrafficObserverBurst m now burst enabled immediate state =
     (if enabled
      then followTrafficTarget m now (ob_id burst) [(ol_lng (ob_location burst), ol_lat (ob_location burst))] immediate state
      else ([], state))"

text \<open>The effect on \<open>followTraffic\<close>, \<open>pulses\<close> and \<open>observerBursts\<close>: it runs whenever one of the three changes.\<close>

definition followTrafficEffect ::
  "MapHostView \<Rightarrow> js_number \<Rightarrow> bool \<Rightarrow> PublicRoutePulse list \<Rightarrow> PublicObserverBurst list \<Rightarrow> FollowTrafficState \<Rightarrow> CameraMove list \<times> FollowTrafficState" where
  "followTrafficEffect m now followTraffic pulses observerBursts state =
     (if \<not> followTraffic then ([], state)
      else case (pulses, observerBursts) of
          (pulse # _, []) \<Rightarrow> followTrafficPulse m now pulse True True state
        | (pulse # _, burst # _) \<Rightarrow>
            if visualReceivedAt (ob_heardAt burst) (ob_receivedAt burst) \<le> visualReceivedAt (rp_heardAt pulse) (rp_receivedAt pulse)
            then followTrafficPulse m now pulse True True state
            else followTrafficObserverBurst m now burst True True state
        | ([], burst # _) \<Rightarrow> followTrafficObserverBurst m now burst True True state
        | ([], []) \<Rightarrow> ([], state))"

section \<open>Projection\<close>

definition mercatorPoint :: "js_number \<Rightarrow> js_number \<Rightarrow> js_number \<Rightarrow> js_number \<times> js_number" where
  "mercatorPoint lng lat scale =
     (let clampedLat = clampRange lat (- (8505112878 / 10 ^ 8)) (8505112878 / 10 ^ 8); s = sin (clampedLat * pi / 180)
      in ((lng + 180) / 360 * scale, (5 / 10 - ln ((1 + s) / (1 - s)) / (4 * pi)) * scale))"

definition projectLngLat :: "MapHostView \<Rightarrow> js_number \<Rightarrow> js_number \<Rightarrow> js_number \<times> js_number" where
  "projectLngLat m lng lat =
     (case hv_project m (lng, lat) of Some point \<Rightarrow> point
      | None \<Rightarrow>
          let scale = 512 * 2 powr hv_zoom m; projected = mercatorPoint lng lat scale;
              projectedCenter = mercatorPoint (fst (hv_center m)) (snd (hv_center m)) scale; (width, height) = mapViewportSize m
          in (width / 2 + fst projected - fst projectedCenter, height / 2 + snd projected - snd projectedCenter))"

section \<open>Message bubbles\<close>

record MessageBubble =
  mb_id :: string
  mb_sender :: string
  mb_text :: string
  mb_lat :: js_number
  mb_lng :: js_number
  mb_x :: js_number
  mb_y :: js_number
  mb_color :: string
  mb_createdAt :: js_number
  mb_expiresAt :: js_number

definition MESSAGE_BUBBLE_LIFETIME_MS :: js_number where "MESSAGE_BUBBLE_LIFETIME_MS = 7200"
definition MESSAGE_BUBBLE_DEDUPE_MS :: js_number where "MESSAGE_BUBBLE_DEDUPE_MS = 30000"
definition MESSAGE_BUBBLE_IDENTITY_LIMIT :: js_number where "MESSAGE_BUBBLE_IDENTITY_LIMIT = 512"
definition MESSAGE_BUBBLE_MAX_WIDTH_PX :: js_number where "MESSAGE_BUBBLE_MAX_WIDTH_PX = 440"
definition MESSAGE_BUBBLE_EDGE_PADDING_PX :: js_number where "MESSAGE_BUBBLE_EDGE_PADDING_PX = 16"

text \<open>\<open>value.replace(/\s+/g, ' ').trim()\<close>.\<close>

fun collapse_spaces :: "string \<Rightarrow> string" where
  "collapse_spaces [] = []"
| "collapse_spaces (c # cs) =
     (if is_space c then (case cs of [] \<Rightarrow> '' '' | d # _ \<Rightarrow> if is_space d then collapse_spaces cs else CHR '' '' # collapse_spaces cs)
      else c # collapse_spaces cs)"

definition compactMessageText :: "string \<Rightarrow> string" where
  "compactMessageText value = js_trim (collapse_spaces value)"

definition hash_char :: "32 word \<Rightarrow> char \<Rightarrow> 32 word" where
  "hash_char hash c = (hash XOR of_nat (of_char c)) * 16777619"

fun show_hex :: "nat \<Rightarrow> string" where
  "show_hex n = (if n < 16 then [char_of (if n < 10 then 48 + n else 87 + n)]
                 else show_hex (n div 16) @ [char_of (if n mod 16 < 10 then 48 + n mod 16 else 87 + n mod 16)])"

declare show_hex.simps [simp del]

definition hashBubbleText :: "string \<Rightarrow> string" where
  "hashBubbleText value = show_hex (unat (foldl hash_char 2166136261 value))"

definition publicSafeMessage :: "(string, string) js_map \<Rightarrow> string option \<Rightarrow> string \<Rightarrow> string" where
  "publicSafeMessage dots messageText payloadTypeName =
     (let rawText = or_else messageText []
      in if js_trim rawText \<noteq> [] then compactMessageText rawText else payloadLabel dots (Some payloadTypeName) @ '' message'')"

definition shouldShowMessageBubble :: "string option \<Rightarrow> bool" where
  "shouldShowMessageBubble messageText \<longleftrightarrow> js_trim (or_else messageText []) \<noteq> []"

definition publicSafeSender :: "string option \<Rightarrow> string \<Rightarrow> string" where
  "publicSafeSender messageSender fallback =
     (let sender = compactMessageText (or_else messageSender []) in if sender = [] then fallback else sender)"

definition routeEndpointAnchor :: "PublicRouteEndpoint \<Rightarrow> PublicMessageAnchor" where
  "routeEndpointAnchor endpoint =
     \<lparr>ma_kind = ''source'', ma_nodeId = Some (ep_nodeId endpoint), ma_label = ep_label endpoint, ma_lat = ep_lat endpoint, ma_lng = ep_lng endpoint\<rparr>"

definition observerLocationAnchor :: "PublicObserverLocation \<Rightarrow> PublicMessageAnchor" where
  "observerLocationAnchor location =
     \<lparr>ma_kind = ''observer'', ma_nodeId = None, ma_label = ol_label location, ma_lat = ol_lat location, ma_lng = ol_lng location\<rparr>"

definition clampMessageBubbleX :: "js_number \<Rightarrow> js_number \<Rightarrow> js_number" where
  "clampMessageBubbleX viewportWidth x =
     (let usableWidth = max 0 (viewportWidth - MESSAGE_BUBBLE_EDGE_PADDING_PX * 2);
          maxBubbleWidth = min MESSAGE_BUBBLE_MAX_WIDTH_PX usableWidth;
          minX = MESSAGE_BUBBLE_EDGE_PADDING_PX + maxBubbleWidth / 2;
          maxX = viewportWidth - MESSAGE_BUBBLE_EDGE_PADDING_PX - maxBubbleWidth / 2
      in if maxBubbleWidth \<le> 0 then x else if maxX < minX then viewportWidth / 2 else clampRange x minX maxX)"

definition bubbleAt ::
  "MapHostView \<Rightarrow> js_number \<Rightarrow> PublicMessageAnchor \<Rightarrow> js_number \<Rightarrow> string option \<Rightarrow> string \<Rightarrow> string \<Rightarrow> MessageBubble" where
  "bubbleAt m now anchor heardAt messageSender payloadTypeName text =
     (let point = projectLngLat m (ma_lng anchor) (ma_lat anchor)
      in \<lparr>mb_id = ''message-'' @ or_else (ma_nodeId anchor) (ma_label anchor) @ ''-'' @ show_int \<lfloor>heardAt / 10000\<rfloor> @ ''-'' @ hashBubbleText text,
          mb_sender = compactNodeLabel (publicSafeSender messageSender (ma_label anchor)) 28, mb_text = text,
          mb_lat = ma_lat anchor, mb_lng = ma_lng anchor, mb_x = clampMessageBubbleX (fst (mapViewportSize m)) (fst point),
          mb_y = snd point - 14, mb_color = payloadColor (Some payloadTypeName), mb_createdAt = now,
          mb_expiresAt = now + MESSAGE_BUBBLE_LIFETIME_MS\<rparr>)"

definition messageBubbleFromPulse :: "(string, string) js_map \<Rightarrow> MapHostView \<Rightarrow> js_number \<Rightarrow> PublicRoutePulse \<Rightarrow> MessageBubble option" where
  "messageBubbleFromPulse dots m now pulse =
     (case rp_segments pulse of [] \<Rightarrow> None
      | segment # _ \<Rightarrow> Some (bubbleAt m now (or_else (rp_messageAnchor pulse) (routeEndpointAnchor (sg_from segment))) (rp_heardAt pulse)
          (rp_messageSender pulse) (rp_payloadTypeName pulse) (publicSafeMessage dots (rp_messageText pulse) (rp_payloadTypeName pulse))))"

definition messageBubbleFromObserverBurst :: "(string, string) js_map \<Rightarrow> MapHostView \<Rightarrow> js_number \<Rightarrow> PublicObserverBurst \<Rightarrow> MessageBubble" where
  "messageBubbleFromObserverBurst dots m now burst =
     bubbleAt m now (or_else (ob_messageAnchor burst) (observerLocationAnchor (ob_location burst))) (ob_heardAt burst)
       (ob_messageSender burst) (ob_payloadTypeName burst) (publicSafeMessage dots (ob_messageText burst) (ob_payloadTypeName burst))"

definition projectMessageBubbles :: "MapHostView \<Rightarrow> js_number \<Rightarrow> MessageBubble list \<Rightarrow> MessageBubble list" where
  "projectMessageBubbles m now bubbles =
     (let (width, height) = mapViewportSize m
      in filter (\<lambda>bubble. -140 \<le> mb_x bubble \<and> mb_x bubble \<le> width + 140 \<and> -140 \<le> mb_y bubble \<and> mb_y bubble \<le> height + 140)
           (map (\<lambda>bubble. let point = projectLngLat m (mb_lng bubble) (mb_lat bubble)
                  in bubble\<lparr>mb_x := clampMessageBubbleX width (fst point), mb_y := snd point - 14\<rparr>)
             (filter (\<lambda>bubble. now < mb_expiresAt bubble) bubbles)))"

section \<open>Following is not throttled\<close>

lemma followTrafficPulse_immediate:
  assumes "list_ex isFollowPoint (routePulsePoints pulse)"
  shows "StopMove \<in> set (fst (followTrafficPulse m now pulse True True state))"
    and "snd (followTrafficPulse m now pulse True True state) = \<lparr>ft_lastAt = now, ft_lastID = rp_id pulse\<rparr>"
proof -
  have "filter isFollowPoint (routePulsePoints pulse) \<noteq> []" using assms by (auto simp: list_ex_iff filter_empty_conv)
  then show "StopMove \<in> set (fst (followTrafficPulse m now pulse True True state))"
    "snd (followTrafficPulse m now pulse True True state) = \<lparr>ft_lastAt = now, ft_lastID = rp_id pulse\<rparr>"
    by (simp_all add: followTrafficPulse_def followTrafficTarget_def followTrafficDecision_def Let_def)
qed

text \<open>
  Following the traffic is not throttled: the interval of 36 seconds between two moves, the test for the same
  packet and the one for a moving camera hold back a packet that is shown, but the effect that should move the camera
  once, when following is turned on, runs again whenever a packet comes in and moves it every time, even to the
  packet it is already showing.
\<close>

lemma follow_is_not_throttled:
  assumes "list_ex isFollowPoint (routePulsePoints pulse)" and "t' < t + FOLLOW_TRAFFIC_MIN_INTERVAL_MS"
    and "list_ex isFollowPoint (routePulsePoints pulse')"
  shows "case followTrafficEffect m t True (pulse # pulses) [] state of (moves, state1) \<Rightarrow>
     followTrafficPulse m' t' pulse' True False state1 = ([], state1) \<and>
     StopMove \<in> set (fst (followTrafficEffect m' t' True (pulse' # pulse # pulses) [] state1)) \<and>
     StopMove \<in> set (fst (followTrafficEffect m' t' True (pulse # pulses) [] state1))"
proof -
  obtain moves state1 where e: "followTrafficEffect m t True (pulse # pulses) [] state = (moves, state1)" by fastforce
  then have s: "state1 = \<lparr>ft_lastAt = t, ft_lastID = rp_id pulse\<rparr>"
    using followTrafficPulse_immediate(2) [OF assms(1), of m t state] by (simp add: followTrafficEffect_def)
  have "followTrafficPulse m' t' pulse' True False state1 = ([], state1)"
    using assms(2) by (simp add: s followTrafficPulse_def followTrafficTarget_def followTrafficDecision_def Let_def)
  moreover have "StopMove \<in> set (fst (followTrafficEffect m' t' True (pulse' # pulse # pulses) [] state1))"
    "StopMove \<in> set (fst (followTrafficEffect m' t' True (pulse # pulses) [] state1))"
    using followTrafficPulse_immediate(1) assms(1,3) by (simp_all add: followTrafficEffect_def)
  ultimately show ?thesis by (simp add: e)
qed

definition sample_view :: MapHostView where
  "sample_view = \<lparr>hv_canvas = (800, 600), hv_container = (800, 600), hv_window = (800, 600), hv_center = (0, 0), hv_zoom = 8,
     hv_moving = True, hv_project = (\<lambda>_. None)\<rparr>"

lemma follow_is_not_throttled_witness:
  "StopMove \<in> set (fst (followTrafficEffect sample_view 1001 True [sample_pulse ''p'' [sample_segment ''r'' ''a'' ''b'']] []
     (snd (followTrafficEffect sample_view 1000 True [sample_pulse ''p'' [sample_segment ''r'' ''a'' ''b'']] [] \<lparr>ft_lastAt = 0, ft_lastID = []\<rparr>))))"
proof -
  have p: "list_ex isFollowPoint (routePulsePoints (sample_pulse ''p'' [sample_segment ''r'' ''a'' ''b'']))"
    by (simp add: routePulsePoints_def segmentEnds_def isFollowPoint_def sample_defs)
  have "(1001 :: js_number) < 1000 + FOLLOW_TRAFFIC_MIN_INTERVAL_MS" by (simp add: FOLLOW_TRAFFIC_MIN_INTERVAL_MS_def)
  from follow_is_not_throttled [OF p this p, where m = sample_view and m' = sample_view and pulses = "[]" and state = "\<lparr>ft_lastAt = 0, ft_lastID = []\<rparr>"]
  show ?thesis by (simp add: case_prod_beta)
qed

lemma clampMessageBubbleX_within:
  assumes "32 < w"
  shows "MESSAGE_BUBBLE_EDGE_PADDING_PX \<le> clampMessageBubbleX w x" "clampMessageBubbleX w x \<le> w - MESSAGE_BUBBLE_EDGE_PADDING_PX"
  using assms by (auto simp: clampMessageBubbleX_def Let_def MESSAGE_BUBBLE_EDGE_PADDING_PX_def MESSAGE_BUBBLE_MAX_WIDTH_PX_def
      clampRange_def min_def max_def)

end
