(* ===== verification/Packet_Animator.thy ===== *)
theory Packet_Animator
  imports Packet_Canvas Js_Format
begin

text \<open>
  \<open>web/src/map/packetAnimator.ts\<close>: the class \<open>PacketAnimator\<close> as a state machine. \<open>an_raf\<close> and
  \<open>an_idleTimer\<close> are the animation frame and the timer the browser still owes it, \<open>an_listening\<close> and
  \<open>an_pruneInterval\<close> its map listeners and its interval. A frame gives the calls on the canvas and what it
  reports to the diagnostics. The map, the layers it shows, its features and the loaded images at the time of a
  frame are a \<open>MapHost\<close>; the box of the canvas and the pixel ratio of the window are a \<open>CanvasBox\<close>. Numbers are
  finite.
\<close>

section \<open>Constants and helpers\<close>

definition PACKET_SINGLE_HOP_DURATION_MS :: js_number where "PACKET_SINGLE_HOP_DURATION_MS = 2100"
definition PACKET_MAX_TRAVEL_DURATION_MS :: js_number where "PACKET_MAX_TRAVEL_DURATION_MS = 3200"
definition PACKET_AFTERGLOW_MS :: js_number where "PACKET_AFTERGLOW_MS = 1200"
definition TRACE_WINDOW_MS :: js_number where "TRACE_WINDOW_MS = 15 * 60000"
definition OBSERVER_AURA_WINDOW_MS :: js_number where "OBSERVER_AURA_WINDOW_MS = 150000"
definition OBSERVER_BURST_DURATION_MS :: js_number where "OBSERVER_BURST_DURATION_MS = 5200"
definition OBSERVER_BURST_AFTERGLOW_MS :: js_number where "OBSERVER_BURST_AFTERGLOW_MS = 3600"
definition RESIDUE_IDLE_FRAME_INTERVAL_MS :: js_number where "RESIDUE_IDLE_FRAME_INTERVAL_MS = 90"
definition RESIDUE_PRUNE_INTERVAL_MS :: js_number where "RESIDUE_PRUNE_INTERVAL_MS = 1000"
definition MAX_ACTIVE_OBSERVER_BURSTS :: nat where "MAX_ACTIVE_OBSERVER_BURSTS = 24"
definition MAX_OBSERVER_BURSTS_PER_LOCATION :: nat where "MAX_OBSERVER_BURSTS_PER_LOCATION = 1"
definition OBSERVER_BURST_LOCATION_INTERVAL_MS :: js_number where "OBSERVER_BURST_LOCATION_INTERVAL_MS = 4200"

definition packetCanvasDpr :: "RenderQuality \<Rightarrow> js_number" where
  "packetCanvasDpr quality = (if quality = Smooth then 1 else if quality = High then 15 / 10 else 125 / 100)"

definition packetTraceAuraBudget :: "RenderQuality \<Rightarrow> nat" where
  "packetTraceAuraBudget quality = (if quality = Smooth then 90 else if quality = High then 180 else 130)"

definition packetObserverAuraBudget :: "RenderQuality \<Rightarrow> nat" where
  "packetObserverAuraBudget quality = (if quality = Smooth then 60 else if quality = High then 120 else 86)"

definition packetMaskCacheInterval :: "RenderQuality \<Rightarrow> js_number" where
  "packetMaskCacheInterval quality = (if quality = Smooth then 260 else if quality = High then 140 else 190)"

definition packetFrameInterval :: "RenderQuality \<Rightarrow> js_number" where
  "packetFrameInterval quality = (if quality = Smooth then 34 else if quality = High then 16 else 23)"

definition clampDuration :: "js_number \<Rightarrow> js_number" where
  "clampDuration value = max 450 (min 12000 (js_round value))"

definition packetTravelDuration :: "nat \<Rightarrow> js_number \<Rightarrow> js_number" where
  "packetTravelDuration segmentCount speed =
     (let clampedSpeed = clampRange speed (5 / 10) 3;
          base = (if segmentCount \<le> 1 then PACKET_SINGLE_HOP_DURATION_MS
                  else min PACKET_MAX_TRAVEL_DURATION_MS (PACKET_SINGLE_HOP_DURATION_MS + (real segmentCount - 1) * 550))
      in js_round (base / clampedSpeed))"

definition isMappableObserverLocation :: "js_number \<Rightarrow> js_number \<Rightarrow> bool" where
  "isMappableObserverLocation lat lng \<longleftrightarrow> lat \<noteq> 0 \<and> lng \<noteq> 0"

text \<open>\<open>undefined\<close> when the last character is no hexadecimal digit.\<close>

definition routeColorFromID :: "string \<Rightarrow> string option" where
  "routeColorFromID i =
     (if i \<noteq> [] \<and> is_digit 16 (last i)
      then Some ([''#2563eb'', ''#06b6d4'', ''#22c55e'', ''#f97316'', ''#ef4444''] ! (digits_val 16 [last i] mod 5)) else None)"

text \<open>\<open>color || routeColors.get(id) || routeColorFromID(id)\<close>; a missing colour is the empty string.\<close>

definition trace_color :: "(string, string) js_map \<Rightarrow> string \<Rightarrow> string \<Rightarrow> string" where
  "trace_color routeColors color routeId =
     (if color \<noteq> [] then color
      else if or_else (map_get routeColors routeId) [] \<noteq> [] then or_else (map_get routeColors routeId) []
      else or_else (routeColorFromID routeId) [])"

section \<open>Residue\<close>

record LatLng =
  la_lat :: js_number
  la_lng :: js_number

record TraceHit =
  th_routeId :: string
  th_color :: string
  th_from :: LatLng
  th_to :: LatLng
  th_addedAt :: js_number

record TraceAggregate =
  ta_routeId :: string
  ta_color :: string
  ta_from :: LatLng
  ta_to :: LatLng
  ta_count :: nat
  ta_latestAt :: js_number

record ObserverBurstHit =
  bh_key :: string
  bh_color :: string
  bh_location :: LatLng
  bh_addedAt :: js_number

record ObserverBurstAggregate =
  ba_key :: string
  ba_color :: string
  ba_location :: LatLng
  ba_count :: nat
  ba_latestAt :: js_number

definition pruneTraceHits :: "TraceHit list \<Rightarrow> js_number \<Rightarrow> TraceHit list" where
  "pruneTraceHits hits now = (let cutoff = now - TRACE_WINDOW_MS in filter (\<lambda>hit. cutoff \<le> th_addedAt hit) hits)"

definition pruneObserverBurstHits :: "ObserverBurstHit list \<Rightarrow> js_number \<Rightarrow> ObserverBurstHit list" where
  "pruneObserverBurstHits hits now = (let cutoff = now - OBSERVER_AURA_WINDOW_MS in filter (\<lambda>hit. cutoff \<le> bh_addedAt hit) hits)"

definition addTraceHit :: "(string, TraceAggregate) js_map \<Rightarrow> TraceHit \<Rightarrow> (string, TraceAggregate) js_map" where
  "addTraceHit byRoute hit =
     (case map_get byRoute (th_routeId hit) of
        Some existing \<Rightarrow> map_set (th_routeId hit)
          (existing\<lparr>ta_count := ta_count existing + 1, ta_latestAt := max (ta_latestAt existing) (th_addedAt hit)\<rparr>) byRoute
      | None \<Rightarrow> map_set (th_routeId hit)
          \<lparr>ta_routeId = th_routeId hit, ta_color = th_color hit, ta_from = th_from hit, ta_to = th_to hit,
           ta_count = 1, ta_latestAt = th_addedAt hit\<rparr> byRoute)"

definition aggregateTraceHits :: "TraceHit list \<Rightarrow> TraceAggregate list" where
  "aggregateTraceHits hits = map_vals (foldl addTraceHit [] hits)"

definition addObserverBurstHit ::
  "(string, ObserverBurstAggregate) js_map \<Rightarrow> ObserverBurstHit \<Rightarrow> (string, ObserverBurstAggregate) js_map" where
  "addObserverBurstHit byLocation hit =
     (case map_get byLocation (bh_key hit) of
        Some existing \<Rightarrow> map_set (bh_key hit)
          (existing\<lparr>ba_count := ba_count existing + 1, ba_latestAt := max (ba_latestAt existing) (bh_addedAt hit)\<rparr>) byLocation
      | None \<Rightarrow> map_set (bh_key hit)
          \<lparr>ba_key = bh_key hit, ba_color = bh_color hit, ba_location = bh_location hit, ba_count = 1,
           ba_latestAt = bh_addedAt hit\<rparr> byLocation)"

definition aggregateObserverBurstHits :: "ObserverBurstHit list \<Rightarrow> ObserverBurstAggregate list" where
  "aggregateObserverBurstHits hits = map_vals (foldl addObserverBurstHit [] hits)"

definition aggregateScore :: "nat \<Rightarrow> js_number \<Rightarrow> js_number" where
  "aggregateScore hits latestAt = latestAt + log1p (real hits) * 60000"

definition rankTraceAggregates :: "TraceAggregate list \<Rightarrow> TraceAggregate list" where
  "rankTraceAggregates aggregates = js_sort (by_desc (\<lambda>a. aggregateScore (ta_count a) (ta_latestAt a))) aggregates"

definition rankObserverBurstAggregates :: "ObserverBurstAggregate list \<Rightarrow> ObserverBurstAggregate list" where
  "rankObserverBurstAggregates aggregates = js_sort (by_desc (\<lambda>a. aggregateScore (ba_count a) (ba_latestAt a))) aggregates"

definition observerBurstKey :: "PublicObserverBurst \<Rightarrow> string" where
  "observerBurstKey burst = (let l = ob_location burst in
     ol_label l @ ''|'' @ or_else (ol_iata l) [] @ ''|'' @ to_fixed 4 (ol_lat l) @ ''|'' @ to_fixed 4 (ol_lng l))"

definition observerBurstAllowed :: "nat \<Rightarrow> nat \<Rightarrow> js_number option \<Rightarrow> js_number \<Rightarrow> bool" where
  "observerBurstAllowed activeTotal activeForLocation lastLocationAt now =
     (if MAX_ACTIVE_OBSERVER_BURSTS \<le> activeTotal then False
      else if MAX_OBSERVER_BURSTS_PER_LOCATION \<le> activeForLocation then False
      else (case lastLocationAt of
              Some lastAt \<Rightarrow> \<not> now - lastAt < OBSERVER_BURST_LOCATION_INTERVAL_MS
            | None \<Rightarrow> True))"

section \<open>State\<close>

record ActivePulse =
  ap_pulse :: PublicRoutePulse
  ap_segments :: "PublicRouteSegment list"
  ap_color :: string
  ap_started :: js_number
  ap_travelDuration :: js_number
  ap_afterglowDuration :: js_number
  ap_brightness :: js_number
  ap_trailScale :: js_number
  ap_animationStyle :: PacketAnimationStyle
  ap_force :: bool

record ActiveObserverBurst =
  ab_burst :: PublicObserverBurst
  ab_started :: js_number
  ab_duration :: js_number
  ab_afterglowDuration :: js_number
  ab_brightness :: js_number

record ObserverAnimationOptions =
  oa_forceDistinct :: bool
  oa_durationMs :: "js_number option"
  oa_afterglowMs :: "js_number option"
  oa_brightness :: "js_number option"
  oa_residue :: "bool option"

record RenderedPointFeature =
  rf_point :: "(js_number \<times> js_number) option" \<comment> \<open>the coordinates of a geometry of type \<open>Point\<close>\<close>
  rf_properties :: js_value

record MapHost =
  mh_project :: "js_number \<times> js_number \<Rightarrow> Point"
  mh_hasLayer :: "string \<Rightarrow> bool"
  mh_features :: "string list \<Rightarrow> RenderedPointFeature list"
  mh_zoom :: js_number
  mh_spriteReady :: "EffectSprite \<Rightarrow> bool"
  mh_numberText :: "js_double \<Rightarrow> string"

record CanvasBox =
  cb_width :: js_number
  cb_height :: js_number
  cb_devicePixelRatio :: js_number

record PacketAnimator =
  an_pulses :: "ActivePulse list"
  an_traceHits :: "TraceHit list"
  an_observerBursts :: "ActiveObserverBurst list"
  an_observerBurstHits :: "ObserverBurstHit list"
  an_routeColors :: "(string, string) js_map"
  an_raf :: bool
  an_idleTimer :: "js_number option"
  an_paused :: bool
  an_maskLayerIDs :: "string list"
  an_backing :: "js_number \<times> js_number \<times> js_number" \<comment> \<open>width, height and pixel ratio\<close>
  an_display :: "js_number \<times> js_number"
  an_canvasHasContent :: bool
  an_lastRenderedAt :: js_number
  an_forceNextFrame :: bool
  an_lastTracePruneAt :: js_number
  an_lastObserverPruneAt :: js_number
  an_traceAggregates :: "TraceAggregate list"
  an_observerBurstAggregates :: "ObserverBurstAggregate list"
  an_traceAggregatesDirty :: bool
  an_observerAggregatesDirty :: bool
  an_maskFeatures :: "RenderedPointFeature list"
  an_nextMaskRefreshAt :: js_number
  an_observerBurstLastAtByLocation :: "(string, js_number) js_map"
  an_pruneInterval :: bool
  an_listening :: bool
  an_layerSettings :: MapLayerSettings
  an_visualSettings :: PacketVisualSettings
  an_reducedMotion :: bool

abbreviation an_quality :: "PacketAnimator \<Rightarrow> RenderQuality" where
  "an_quality s \<equiv> pv_renderQuality (an_visualSettings s)"

section \<open>Operations\<close>

definition requestFrame :: "js_number \<Rightarrow> PacketAnimator \<Rightarrow> PacketAnimator" where
  "requestFrame delayMs s =
     (if an_raf s then s
      else if 0 < delayMs then (if an_idleTimer s \<noteq> None then s else s\<lparr>an_idleTimer := Some delayMs\<rparr>)
      else s\<lparr>an_idleTimer := None, an_raf := True\<rparr>)"

definition idleTimerFired :: "PacketAnimator \<Rightarrow> PacketAnimator" where
  "idleTimerFired s = requestFrame 0 (s\<lparr>an_idleTimer := None\<rparr>)"

definition handleMapMotion :: "PacketAnimator \<Rightarrow> PacketAnimator" where
  "handleMapMotion s = requestFrame 0 (s\<lparr>an_forceNextFrame := True\<rparr>)"

text \<open>The width, height and pixel ratio of the canvas in its box.\<close>

definition canvasBacking :: "CanvasBox \<Rightarrow> RenderQuality \<Rightarrow> js_number \<times> js_number \<times> js_number" where
  "canvasBacking box quality =
     (let dpr = min (packetCanvasDpr quality) (if cb_devicePixelRatio box = 0 then 1 else cb_devicePixelRatio box)
      in (max 1 (of_int \<lfloor>cb_width box * dpr\<rfloor>), max 1 (of_int \<lfloor>cb_height box * dpr\<rfloor>), dpr))"

definition resize :: "CanvasBox \<Rightarrow> PacketAnimator \<Rightarrow> PacketAnimator" where
  "resize box s =
     (let s1 = s\<lparr>an_display := (max 1 (cb_width box), max 1 (cb_height box))\<rparr>; backing = canvasBacking box (an_quality s)
      in if backing = an_backing s1 then s1
         else requestFrame 0 (s1\<lparr>an_backing := backing, an_nextMaskRefreshAt := 0, an_forceNextFrame := True\<rparr>))"

definition setPaused :: "bool \<Rightarrow> PacketAnimator \<Rightarrow> PacketAnimator" where
  "setPaused paused s =
     (let s1 = s\<lparr>an_paused := paused\<rparr> in if \<not> paused then requestFrame 0 s1 else s1)"

definition setRouteColors :: "(string, string) js_map \<Rightarrow> PacketAnimator \<Rightarrow> PacketAnimator" where
  "setRouteColors colors s = s\<lparr>an_routeColors := colors\<rparr>"

definition setVisualSettings :: "CanvasBox \<Rightarrow> js_value \<Rightarrow> PacketAnimator \<Rightarrow> PacketAnimator" where
  "setVisualSettings box settings s =
     (let previousQuality = an_quality s;
          s1 = s\<lparr>an_visualSettings := normalizePacketVisualSettings settings\<rparr>;
          s2 = (if previousQuality \<noteq> an_quality s1
                then resize box (s1\<lparr>an_nextMaskRefreshAt := 0, an_traceAggregatesDirty := True, an_observerAggregatesDirty := True\<rparr>)
                else s1)
      in requestFrame 0 (s2\<lparr>an_forceNextFrame := True\<rparr>))"

definition setLayerSettings :: "js_value \<Rightarrow> PacketAnimator \<Rightarrow> PacketAnimator" where
  "setLayerSettings settings s =
     (let s1 = s\<lparr>an_layerSettings := normalizeLayerSettings settings, an_forceNextFrame := True\<rparr>;
          s2 = (if \<not> ly_liveComets (an_layerSettings s1) then s1\<lparr>an_pulses := []\<rparr> else s1)
      in requestFrame 0 s2)"

definition activeVisualCount :: "PacketAnimator \<Rightarrow> nat" where
  "activeVisualCount s = length (an_pulses s) + length (an_observerBursts s)"

text \<open>\<open>{ ...pulse.replayOptions, ...options }\<close>, where an absent option is \<open>None\<close>.\<close>

definition spreadOptions :: "ReplayOptions option \<Rightarrow> ReplayOptions \<Rightarrow> ReplayOptions" where
  "spreadOptions replayOptions options =
     (case replayOptions of None \<Rightarrow> options
      | Some r \<Rightarrow> \<lparr>ro_force = or_opt (ro_force options) (ro_force r),
          ro_travelDurationMs = or_opt (ro_travelDurationMs options) (ro_travelDurationMs r),
          ro_brightness = or_opt (ro_brightness options) (ro_brightness r),
          ro_trailScale = or_opt (ro_trailScale options) (ro_trailScale r),
          ro_animationStyle = or_opt (ro_animationStyle options) (ro_animationStyle r)\<rparr>)"

definition validSegments :: "PublicRoutePulse \<Rightarrow> PublicRouteSegment list" where
  "validSegments pulse = filter (\<lambda>segment. isMappableEndpoint (sg_from segment) \<and> isMappableEndpoint (sg_to segment)) (rp_segments pulse)"

definition endpointLatLng :: "PublicRouteEndpoint \<Rightarrow> LatLng" where
  "endpointLatLng e = \<lparr>la_lat = ep_lat e, la_lng = ep_lng e\<rparr>"

definition traceHitOf :: "(string, string) js_map \<Rightarrow> string \<Rightarrow> js_number \<Rightarrow> PublicRouteSegment \<Rightarrow> TraceHit" where
  "traceHitOf routeColors color now segment =
     \<lparr>th_routeId = sg_routeId segment, th_color = trace_color routeColors color (sg_routeId segment),
      th_from = endpointLatLng (sg_from segment), th_to = endpointLatLng (sg_to segment), th_addedAt = now\<rparr>"

definition pushTraceHits :: "TraceHit list \<Rightarrow> PacketAnimator \<Rightarrow> PacketAnimator" where
  "pushTraceHits hits s = s\<lparr>an_traceHits := take_last 4000 (an_traceHits s @ hits), an_traceAggregatesDirty := True\<rparr>"

definition add :: "PublicRoutePulse \<Rightarrow> ReplayOptions \<Rightarrow> js_number \<Rightarrow> PacketAnimator \<Rightarrow> PacketAnimator \<times> bool" where
  "add pulse options now s =
     (let pulseOptions = spreadOptions (rp_replayOptions pulse) options; force = (ro_force pulseOptions = Some True); segments = validSegments pulse
      in if an_paused s \<and> \<not> force \<or> rp_segments pulse = [] \<or> segments = [] then (s, False)
         else let color = payloadColor (Some (rp_payloadTypeName pulse));
                  brightness = clampRange (or_else (ro_brightness pulseOptions) (pv_brightness (an_visualSettings s))) (25 / 100) 2;
                  trailScale = clampRange (or_else (ro_trailScale pulseOptions) (pv_trail (an_visualSettings s))) 0 (25 / 10);
                  animationStyle = or_else (ro_animationStyle pulseOptions) (pv_animationStyle (an_visualSettings s));
                  s1 = (if 0 < trailScale \<and> animationStyle \<noteq> Minimal
                        then pushTraceHits (map (traceHitOf (an_routeColors s) color now) segments) s else s);
                  active = \<lparr>ap_pulse = pulse, ap_segments = segments, ap_color = color, ap_started = now,
                    ap_travelDuration = clampDuration (or_else (ro_travelDurationMs pulseOptions)
                      (packetTravelDuration (length segments) (pv_speed (an_visualSettings s)))),
                    ap_afterglowDuration = PACKET_AFTERGLOW_MS * max (2 / 10) trailScale, ap_brightness = brightness,
                    ap_trailScale = trailScale, ap_animationStyle = animationStyle, ap_force = force\<rparr>
              in (requestFrame 0 (s1\<lparr>an_pulses := an_pulses s1 @ [active]\<rparr>), True))"

definition pulse_live :: "js_number \<Rightarrow> ActivePulse \<Rightarrow> bool" where
  "pulse_live now a \<longleftrightarrow> now - ap_started a < ap_travelDuration a + ap_afterglowDuration a"

definition burst_live :: "js_number \<Rightarrow> ActiveObserverBurst \<Rightarrow> bool" where
  "burst_live now a \<longleftrightarrow> now - ab_started a < ab_duration a + ab_afterglowDuration a"

definition observerHitOf :: "PublicObserverBurst \<Rightarrow> js_number \<Rightarrow> ObserverBurstHit" where
  "observerHitOf burst now =
     \<lparr>bh_key = observerBurstKey burst, bh_color = payloadColor (Some (ob_payloadTypeName burst)),
      bh_location = \<lparr>la_lat = ol_lat (ob_location burst), la_lng = ol_lng (ob_location burst)\<rparr>, bh_addedAt = now\<rparr>"

definition addObserverBurst :: "PublicObserverBurst \<Rightarrow> ObserverAnimationOptions \<Rightarrow> js_number \<Rightarrow> PacketAnimator \<Rightarrow> PacketAnimator \<times> bool" where
  "addObserverBurst burst options now s =
     (if an_paused s \<or> \<not> isMappableObserverLocation (ol_lat (ob_location burst)) (ol_lng (ob_location burst)) then (s, False)
      else let s1 = s\<lparr>an_observerBursts := filter (burst_live now) (an_observerBursts s)\<rparr>;
               locationKey = observerBurstKey burst;
               s2 = (if oa_residue options \<noteq> Some False
                     then s1\<lparr>an_observerBurstHits := take_last 4000 (an_observerBurstHits s1 @ [observerHitOf burst now]),
                             an_observerAggregatesDirty := True\<rparr>
                     else s1);
               activeForLocation = length (filter (\<lambda>a. observerBurstKey (ab_burst a) = locationKey) (an_observerBursts s2))
           in if \<not> oa_forceDistinct options \<and> 0 < activeForLocation then (requestFrame 0 s2, False)
              else if \<not> oa_forceDistinct options \<and>
                \<not> observerBurstAllowed (length (an_observerBursts s2)) activeForLocation
                    (map_get (an_observerBurstLastAtByLocation s2) locationKey) now
              then (requestFrame 0 s2, False)
              else let active = \<lparr>ab_burst = burst, ab_started = now,
                         ab_duration = clampDuration (or_else (oa_durationMs options) OBSERVER_BURST_DURATION_MS),
                         ab_afterglowDuration = clampRange (or_else (oa_afterglowMs options) OBSERVER_BURST_AFTERGLOW_MS) 0 12000,
                         ab_brightness = clampRange (or_else (oa_brightness options) (pv_brightness (an_visualSettings s2))) (25 / 100) 2\<rparr>
                   in (requestFrame 0 (s2\<lparr>an_observerBurstLastAtByLocation := map_set locationKey now (an_observerBurstLastAtByLocation s2),
                         an_observerBursts := an_observerBursts s2 @ [active]\<rparr>), True))"

definition clear :: "PacketAnimator \<Rightarrow> PacketAnimator" where
  "clear s = s\<lparr>an_pulses := [], an_observerBursts := [], an_traceHits := [], an_observerBurstHits := [], an_traceAggregates := [],
     an_observerBurstAggregates := [], an_traceAggregatesDirty := True, an_observerAggregatesDirty := True, an_canvasHasContent := False\<rparr>"

definition destroy :: "PacketAnimator \<Rightarrow> PacketAnimator" where
  "destroy s = clear (s\<lparr>an_raf := False, an_idleTimer := None, an_pruneInterval := False, an_listening := False, an_traceHits := [],
     an_observerBurstHits := [], an_observerBurstLastAtByLocation := []\<rparr>)"

definition pruneBurstLocations :: "js_number \<Rightarrow> PacketAnimator \<Rightarrow> PacketAnimator" where
  "pruneBurstLocations now s =
     (let cutoff = now - OBSERVER_BURST_LOCATION_INTERVAL_MS * 2
      in s\<lparr>an_observerBurstLastAtByLocation := filter (\<lambda>(key, timestamp). \<not> timestamp < cutoff) (an_observerBurstLastAtByLocation s)\<rparr>)"

definition newPacketAnimator :: "string list \<Rightarrow> js_value \<Rightarrow> js_value \<Rightarrow> bool \<Rightarrow> CanvasBox \<Rightarrow> PacketAnimator" where
  "newPacketAnimator maskLayerIDs layerSettings visualSettings reducedMotion box =
     requestFrame 0 (resize box
       \<lparr>an_pulses = [], an_traceHits = [], an_observerBursts = [], an_observerBurstHits = [], an_routeColors = [],
        an_raf = False, an_idleTimer = None, an_paused = False, an_maskLayerIDs = maskLayerIDs, an_backing = (0, 0, 0),
        an_display = (0, 0), an_canvasHasContent = False, an_lastRenderedAt = 0, an_forceNextFrame = True,
        an_lastTracePruneAt = 0, an_lastObserverPruneAt = 0, an_traceAggregates = [], an_observerBurstAggregates = [],
        an_traceAggregatesDirty = True, an_observerAggregatesDirty = True, an_maskFeatures = [], an_nextMaskRefreshAt = 0,
        an_observerBurstLastAtByLocation = [], an_pruneInterval = True, an_listening = True,
        an_layerSettings = normalizeLayerSettings layerSettings, an_visualSettings = normalizePacketVisualSettings visualSettings,
        an_reducedMotion = reducedMotion\<rparr>)"

end
