(* ===== verification/Map_Effects.thy ===== *)
theory Map_Effects
  imports Map_Sources Map_Camera Packet_Animator
begin

text \<open>
  The effects a live packet leaves on the map of \<open>CanadaMap.tsx\<close> and the timers that take them away: the packets
  handed to the animator, the glow of nodes, routes and clusters, the message bubbles, the camera that follows the
  traffic, and the change between clusters and single nodes. A step is one callback: of the scheduler, a frame, a
  timer, the map or an effect of the component. The clocks are read once for each step, \<open>now\<close> the clock of the page
  and \<open>epochNow\<close> the wall clock. The \<open>Ref\<close>s the callbacks read are the record \<open>MapRefs\<close>.
\<close>

section \<open>State\<close>

record MapRefs =
  mr_mounted :: bool \<comment> \<open>\<open>mapRef\<close> and \<open>animatorRef\<close> are set\<close>
  mr_loaded :: bool
  mr_paused :: bool
  mr_pageHidden :: bool
  mr_reducedMotion :: bool
  mr_followTraffic :: bool
  mr_layers :: MapLayerSettings
  mr_nodes :: VersionedNodes
  mr_routes :: "PublicRoute list"
  mr_selectedRouteID :: "string option"
  mr_focus :: NodeFocus

record PendingLivePulseEffect =
  le_pulse :: PublicRoutePulse
  le_pressure :: LiveAnimationPressure
  le_shouldAnimate :: bool

record MapFx =
  fx_refs :: MapRefs
  fx_animator :: PacketAnimator
  fx_pending :: "PendingLivePulseEffect list"
  fx_frame :: bool \<comment> \<open>\<open>livePulseEffectsFrameRef\<close>\<close>
  fx_lastLiveVisualAt :: js_number
  fx_activities :: "(string, NodeActivity) js_map"
  fx_featureStates :: "(string, NodeGlow) js_map"
  fx_telemetry :: "(string, NodeTelemetry) js_map"
  fx_meshActivity :: "(string, js_number) js_map"
  fx_nodeTimer :: bool
  fx_routeGlows :: "(string, RoutePayloadGlow) js_map"
  fx_routeTimer :: bool
  fx_clusterGlows :: "(string, ClusterActivityGlow) js_map"
  fx_clusterTimer :: bool
  fx_mode :: MapVisualMode
  fx_bubbles :: "MessageBubble list"
  fx_bubbleTimers :: "(string, js_number) js_map" \<comment> \<open>the time at which each is due\<close>
  fx_shown :: RecentIdentityTracker
  fx_follow :: FollowTrafficState
  fx_camera :: "CameraMove list"
  fx_sources :: MapSources

text \<open>What a callback finds: the code's parameters, the map, the icons, the rendered clusters and the clocks.\<close>

record FxEnv =
  fe_env :: MapEnv
  fe_dots :: "(string, string) js_map"
  fe_view :: MapHostView
  fe_rendered :: rendered_clusters
  fe_now :: js_number
  fe_epochNow :: js_number

section \<open>Animations\<close>

definition livePulseAnimationOptions :: "LiveAnimationPressure \<Rightarrow> ReplayOptions" where
  "livePulseAnimationOptions p =
     (if p = NormalPressure
      then \<lparr>ro_force = None, ro_travelDurationMs = None, ro_brightness = None, ro_trailScale = None, ro_animationStyle = None\<rparr>
      else \<lparr>ro_force = None, ro_travelDurationMs = Some (if p = DegradedPressure then 900 else 450), ro_brightness = None,
             ro_trailScale = Some 0, ro_animationStyle = Some Minimal\<rparr>)"

definition liveObserverAnimationOptions :: "LiveAnimationPressure \<Rightarrow> ObserverAnimationOptions" where
  "liveObserverAnimationOptions p =
     (if p = NormalPressure
      then \<lparr>oa_forceDistinct = True, oa_durationMs = None, oa_afterglowMs = None, oa_brightness = None, oa_residue = None\<rparr>
      else \<lparr>oa_forceDistinct = True, oa_durationMs = Some (if p = DegradedPressure then 900 else 450), oa_afterglowMs = Some 0,
             oa_brightness = None, oa_residue = Some False\<rparr>)"

definition isClusterMode :: "FxEnv \<Rightarrow> bool" where
  "isClusterMode e = isClusterZoom (hv_zoom (fe_view e))"

definition hasNodeSource :: "MapFx \<Rightarrow> bool" where
  "hasNodeSource s = hasSource NODE_SOURCE (fx_sources s)"

definition showMessageBubble :: "FxEnv \<Rightarrow> MessageBubble \<Rightarrow> MapFx \<Rightarrow> MapFx" where
  "showMessageBubble e bubble s =
     s\<lparr>fx_bubbles := projectMessageBubbles (fe_view e) (fe_now e)
         (take_last 12 (filter (\<lambda>item. mb_id item \<noteq> mb_id bubble) (fx_bubbles s) @ [bubble])),
       fx_bubbleTimers := map_set (mb_id bubble) (fe_now e + MESSAGE_BUBBLE_LIFETIME_MS + 400) (fx_bubbleTimers s)\<rparr>"

text \<open>Shows the bubble when its key was not shown in the last 30 seconds.\<close>

definition offerBubble :: "FxEnv \<Rightarrow> string \<Rightarrow> MessageBubble option \<Rightarrow> MapFx \<Rightarrow> MapFx" where
  "offerBubble e key bubble s =
     (let (isNew, shown) = remember key (fe_now e) (fx_shown s); s1 = s\<lparr>fx_shown := shown\<rparr>
      in case bubble of None \<Rightarrow> s1 | Some b \<Rightarrow> if isNew then showMessageBubble e b s1 else s1)"

definition setHeatmap :: "FxEnv \<Rightarrow> bool \<Rightarrow> MapFx \<Rightarrow> MapFx" where
  "setHeatmap e force s =
     s\<lparr>fx_sources := setActivityHeatmapSource (fe_env e) (fe_now e) (fe_epochNow e) (mr_nodes (fx_refs s)) (fx_activities s)
         (fx_meshActivity s) force (fx_sources s)\<rparr>"

definition applyActivityUpdate :: "ActivityUpdate \<Rightarrow> MapFx \<Rightarrow> MapFx" where
  "applyActivityUpdate u s = s\<lparr>fx_activities := au_activities u, fx_featureStates := au_states u\<rparr>"

definition startNodeActivityTimer :: "MapFx \<Rightarrow> MapFx" where
  "startNodeActivityTimer s = s\<lparr>fx_nodeTimer := True\<rparr>"

section \<open>A live pulse\<close>

definition queueLivePulseEffects :: "PublicRoutePulse \<Rightarrow> LiveAnimationPressure \<Rightarrow> bool \<Rightarrow> MapFx \<Rightarrow> MapFx" where
  "queueLivePulseEffects pulse p shouldAnimate s =
     s\<lparr>fx_pending := fx_pending s @ [\<lparr>le_pulse = pulse, le_pressure = p, le_shouldAnimate = shouldAnimate\<rparr>], fx_frame := True\<rparr>"

definition clearQueuedLivePulseEffects :: "MapFx \<Rightarrow> MapFx" where
  "clearQueuedLivePulseEffects s = s\<lparr>fx_pending := [], fx_frame := False\<rparr>"

definition renderScheduledPulse ::
  "FxEnv \<Rightarrow> PublicRoutePulse \<Rightarrow> LiveAnimationPressure \<Rightarrow> MapFx \<Rightarrow> LiveVisualStartResult \<times> MapFx" where
  "renderScheduledPulse e pulse p s =
     (let r = fx_refs s; shouldAnimate = shouldAnimateLiveEvent (visualReceivedAt (rp_heardAt pulse) (rp_receivedAt pulse)) (fe_epochNow e) (mr_pageHidden r)
      in if mr_paused r \<or> mr_pageHidden r then (Ineligible, s)
         else if \<not> shouldAnimate \<or> \<not> ly_liveComets (mr_layers r) then (Ineligible, s)
         else if \<not> mr_mounted r then (Retry, s)
         else let effectivePressure = (if mr_reducedMotion r then MinimalPressure else p);
                  (animator, added) = add pulse (livePulseAnimationOptions effectivePressure) (fe_now e) (fx_animator s)
              in if \<not> added then (Ineligible, s\<lparr>fx_animator := animator\<rparr>)
                 else (Started, queueLivePulseEffects pulse effectivePressure shouldAnimate
                        (s\<lparr>fx_animator := animator, fx_lastLiveVisualAt := fe_epochNow e\<rparr>)))"

definition followPulse :: "FxEnv \<Rightarrow> PublicRoutePulse \<Rightarrow> MapFx \<Rightarrow> MapFx" where
  "followPulse e pulse s =
     (let (moves, state) = followTrafficPulse (fe_view e) (fe_epochNow e) pulse (mr_followTraffic (fx_refs s)) False (fx_follow s)
      in s\<lparr>fx_camera := fx_camera s @ moves, fx_follow := state\<rparr>)"

definition pulseBubbleKey :: "FxEnv \<Rightarrow> PublicRoutePulse \<Rightarrow> string" where
  "pulseBubbleKey e pulse =
     ''pulse:'' @ (case or_opt (case rp_messageAnchor pulse of None \<Rightarrow> None | Some a \<Rightarrow> ma_nodeId a)
        (case rp_segments pulse of [] \<Rightarrow> None | segment # _ \<Rightarrow> Some (ep_nodeId (sg_from segment))) of None \<Rightarrow> [] | Some anchorId \<Rightarrow> anchorId) @
     '':'' @ hashBubbleText (publicSafeMessage (fe_dots e) (rp_messageText pulse) (rp_payloadTypeName pulse))"

definition bubblePulses :: "FxEnv \<Rightarrow> PublicRoutePulse list \<Rightarrow> MapFx \<Rightarrow> MapFx" where
  "bubblePulses e normalPulses s =
     (case filter (\<lambda>pulse. shouldShowMessageBubble (rp_messageText pulse)) (rev normalPulses) of
        [] \<Rightarrow> s
      | bubblePulse # _ \<Rightarrow>
          if ly_messageBubbles (mr_layers (fx_refs s))
          then offerBubble e (pulseBubbleKey e bubblePulse) (messageBubbleFromPulse (fe_dots e) (fe_view e) (fe_now e) bubblePulse) s
          else s)"

definition markPulses :: "FxEnv \<Rightarrow> PublicRoutePulse list \<Rightarrow> PublicRoutePulse list \<Rightarrow> MapFx \<Rightarrow> MapFx" where
  "markPulses e pulses normalPulses s =
     (let s1 = (if normalPulses \<noteq> []
            then applyActivityUpdate (addPulseNodeActivityBatch (hasNodeSource s) (fe_now e) normalPulses (fx_activities s) (fx_featureStates s)) s
            else s);
          s2 = s1\<lparr>fx_meshActivity := foldl (\<lambda>m pulse. addPulseNodeMeshActivity pulse m) (fx_meshActivity s1) pulses\<rparr>
      in if normalPulses \<noteq> [] \<and> ly_activityHeatmap (mr_layers (fx_refs s2)) then setHeatmap e False s2 else s2)"

definition glowClusters :: "FxEnv \<Rightarrow> PublicRoutePulse list \<Rightarrow> MapFx \<Rightarrow> MapFx" where
  "glowClusters e normalPulses s =
     (if normalPulses \<noteq> [] \<and> ly_observerBursts (mr_layers (fx_refs s))
      then let (changed, glows) = addPulseClusterActivityGlowBatch (me_num (fe_env e)) (fe_rendered e) (fe_now e) normalPulses (fx_clusterGlows s)
           in if changed then s\<lparr>fx_clusterGlows := glows, fx_clusterTimer := True,
                  fx_sources := setClusterActivityGlowSource (fe_env e) glows (fe_now e) (fx_sources s)\<rparr>
              else s\<lparr>fx_clusterGlows := glows\<rparr>
      else s)"

definition publishRouteGlows :: "FxEnv \<Rightarrow> MapFx \<Rightarrow> nat \<times> MapFx" where
  "publishRouteGlows e s =
     (let (active, left, sources) = setRoutePayloadGlowSource (fe_env e) (mr_routes (fx_refs s)) (fx_routeGlows s)
            (mr_selectedRouteID (fx_refs s)) (mr_focus (fx_refs s)) (fe_now e) (fx_sources s)
      in (active, s\<lparr>fx_routeGlows := left, fx_sources := sources\<rparr>))"

definition glowRoutes :: "FxEnv \<Rightarrow> PublicRoutePulse list \<Rightarrow> MapFx \<Rightarrow> MapFx" where
  "glowRoutes e normalPulses s =
     (if normalPulses \<noteq> [] \<and> ly_analysisPaths (mr_layers (fx_refs s))
      then snd (publishRouteGlows e (s\<lparr>fx_routeGlows := foldl (addPulseRoutePayloadGlow (fe_now e)) (fx_routeGlows s) normalPulses\<rparr>))
             \<lparr>fx_routeTimer := True\<rparr>
      else s)"

definition flushLivePulseEffects :: "FxEnv \<Rightarrow> MapFx \<Rightarrow> MapFx" where
  "flushLivePulseEffects e s0 =
     (let pending = fx_pending s0; s = s0\<lparr>fx_frame := False, fx_pending := []\<rparr>;
          pulses = map le_pulse pending;
          normalPulses = map le_pulse (filter (\<lambda>effect. le_pressure effect = NormalPressure \<and> le_shouldAnimate effect) pending)
      in if \<not> mr_mounted (fx_refs s) \<or> pending = [] then s
         else let s1 = markPulses e pulses normalPulses (bubblePulses e normalPulses (followPulse e (last pulses) s))
              in if isClusterMode e then glowClusters e normalPulses s1
                 else startNodeActivityTimer (glowRoutes e normalPulses s1))"

section \<open>A live observer burst\<close>

definition burstBubbleKey :: "FxEnv \<Rightarrow> PublicObserverBurst \<Rightarrow> string" where
  "burstBubbleKey e burst =
     ''burst:'' @ (case ob_messageAnchor burst of None \<Rightarrow> ol_label (ob_location burst) | Some a \<Rightarrow> ma_label a) @
     '':'' @ hashBubbleText (publicSafeMessage (fe_dots e) (ob_messageText burst) (ob_payloadTypeName burst))"

definition followBurst :: "FxEnv \<Rightarrow> PublicObserverBurst \<Rightarrow> MapFx \<Rightarrow> MapFx" where
  "followBurst e burst s =
     (let (moves, state) = followTrafficObserverBurst (fe_view e) (fe_epochNow e) burst (mr_followTraffic (fx_refs s)) False (fx_follow s)
      in s\<lparr>fx_camera := fx_camera s @ moves, fx_follow := state\<rparr>)"

definition bubbleBurst :: "FxEnv \<Rightarrow> PublicObserverBurst \<Rightarrow> bool \<Rightarrow> MapFx \<Rightarrow> MapFx" where
  "bubbleBurst e burst overloaded s =
     (if \<not> overloaded \<and> ly_messageBubbles (mr_layers (fx_refs s)) \<and> shouldShowMessageBubble (ob_messageText burst)
      then offerBubble e (burstBubbleKey e burst) (Some (messageBubbleFromObserverBurst (fe_dots e) (fe_view e) (fe_now e) burst)) s
      else s)"

definition glowBurst :: "FxEnv \<Rightarrow> PublicObserverBurst \<Rightarrow> bool \<Rightarrow> MapFx \<Rightarrow> MapFx" where
  "glowBurst e burst overloaded s =
     (if isClusterMode e \<and> \<not> overloaded
      then let (changed, glows) = addObserverBurstClusterActivityGlow (me_num (fe_env e)) (fe_rendered e) (fe_now e) burst (fx_clusterGlows s)
           in if changed then s\<lparr>fx_clusterGlows := glows, fx_clusterTimer := True,
                  fx_sources := setClusterActivityGlowSource (fe_env e) glows (fe_now e) (fx_sources s)\<rparr>
              else s
      else s)"

definition burstEffects :: "FxEnv \<Rightarrow> PublicObserverBurst \<Rightarrow> bool \<Rightarrow> MapFx \<Rightarrow> MapFx" where
  "burstEffects e burst overloaded s = glowBurst e burst overloaded (bubbleBurst e burst overloaded (followBurst e burst s))"

definition renderScheduledObserverBurst ::
  "FxEnv \<Rightarrow> PublicObserverBurst \<Rightarrow> LiveAnimationPressure \<Rightarrow> MapFx \<Rightarrow> LiveVisualStartResult \<times> MapFx" where
  "renderScheduledObserverBurst e burst p s =
     (let r = fx_refs s; shouldAnimate = shouldAnimateLiveEvent (visualReceivedAt (ob_heardAt burst) (ob_receivedAt burst)) (fe_epochNow e) (mr_pageHidden r)
      in if mr_paused r \<or> mr_pageHidden r then (Ineligible, s)
         else if \<not> shouldAnimate \<or> \<not> ly_observerBursts (mr_layers r) then (Ineligible, s)
         else if \<not> mr_mounted r then (Retry, s)
         else let effectivePressure = (if mr_reducedMotion r then MinimalPressure else p);
                  (animator, added) = addObserverBurst burst (liveObserverAnimationOptions effectivePressure) (fe_now e) (fx_animator s)
              in if \<not> added then (Ineligible, s\<lparr>fx_animator := animator\<rparr>)
                 else (Started, burstEffects e burst (effectivePressure \<noteq> NormalPressure)
                        (s\<lparr>fx_animator := animator, fx_lastLiveVisualAt := fe_epochNow e\<rparr>)))"

section \<open>Timers\<close>

definition routeTimerFires :: "FxEnv \<Rightarrow> MapFx \<Rightarrow> MapFx" where
  "routeTimerFires e s =
     (let (active, s1) = publishRouteGlows e s in if active = 0 then s1\<lparr>fx_routeTimer := False\<rparr> else s1)"

definition clusterTimerFires :: "FxEnv \<Rightarrow> MapFx \<Rightarrow> MapFx" where
  "clusterTimerFires e s =
     (let (active, glows) = pruneClusterActivityGlows (fe_now e) (fx_clusterGlows s);
          s1 = s\<lparr>fx_clusterGlows := glows, fx_sources := setClusterActivityGlowSource (fe_env e) glows (fe_now e) (fx_sources s)\<rparr>
      in if active = 0 then s1\<lparr>fx_clusterTimer := False\<rparr> else s1)"

definition updateNodeStates :: "FxEnv \<Rightarrow> MapFx \<Rightarrow> nat \<times> MapFx" where
  "updateNodeStates e s =
     (let u = updateNodeActivityFeatureStates (hasNodeSource s) (fe_now e) None (fx_activities s) (fx_featureStates s)
      in (au_active u, applyActivityUpdate u s))"

definition nodeTimerFires :: "FxEnv \<Rightarrow> MapFx \<Rightarrow> MapFx" where
  "nodeTimerFires e s =
     (let (active, s1) = updateNodeStates e s; s2 = setHeatmap e False s1
      in if active = 0 then s2\<lparr>fx_nodeTimer := False\<rparr> else s2)"

definition bubbleTimerFires :: "string \<Rightarrow> MapFx \<Rightarrow> MapFx" where
  "bubbleTimerFires i s =
     s\<lparr>fx_bubbleTimers := map_del i (fx_bubbleTimers s), fx_bubbles := filter (\<lambda>item. mb_id item \<noteq> i) (fx_bubbles s)\<rparr>"

text \<open>The interval of half a second, and what a moved map does to the bubbles.\<close>

definition refreshBubbles :: "FxEnv \<Rightarrow> bool \<Rightarrow> MapFx \<Rightarrow> MapFx" where
  "refreshBubbles e clusters s =
     s\<lparr>fx_bubbles := (if clusters \<or> \<not> ly_messageBubbles (mr_layers (fx_refs s)) then []
         else projectMessageBubbles (fe_view e) (fe_now e) (fx_bubbles s))\<rparr>"

section \<open>Modes and resets\<close>

definition clearNodeStates :: "MapFx \<Rightarrow> MapFx" where
  "clearNodeStates s =
     (let (activities, states) = clearNodeActivityStates (hasNodeSource s) (fx_activities s) (fx_featureStates s)
      in s\<lparr>fx_activities := activities, fx_featureStates := states, fx_nodeTimer := False\<rparr>)"

definition clearRouteGlows :: "FxEnv \<Rightarrow> MapFx \<Rightarrow> MapFx" where
  "clearRouteGlows e s =
     (let (glows, sources) = clearRoutePayloadGlowStates (fe_env e) (fx_sources s)
      in s\<lparr>fx_routeGlows := glows, fx_sources := sources, fx_routeTimer := False\<rparr>)"

definition clearClusterGlows :: "FxEnv \<Rightarrow> MapFx \<Rightarrow> MapFx" where
  "clearClusterGlows e s =
     (let (glows, sources) = clearClusterActivityGlowStates (fe_env e) (fx_sources s)
      in s\<lparr>fx_clusterGlows := glows, fx_sources := sources, fx_clusterTimer := False\<rparr>)"

definition clearDetailVisualState :: "FxEnv \<Rightarrow> MapFx \<Rightarrow> MapFx" where
  "clearDetailVisualState e s = clearRouteGlows e (clearNodeStates (s\<lparr>fx_animator := clear (fx_animator s)\<rparr>))"

definition handleVisualModeTransition :: "FxEnv \<Rightarrow> MapFx \<Rightarrow> MapFx" where
  "handleVisualModeTransition e s =
     (let nextMode = visualModeForZoom (hv_zoom (fe_view e)); s1 = s\<lparr>fx_mode := nextMode\<rparr>
      in if nextMode = fx_mode s then s
         else if nextMode = ClusterMode then clearDetailVisualState e s1
         else clearClusterGlows e s1)"

definition updateMapOverlays :: "FxEnv \<Rightarrow> MapFx \<Rightarrow> MapFx" where
  "updateMapOverlays e s =
     (let s1 = handleVisualModeTransition e s in refreshBubbles e (fx_mode s1 = ClusterMode) s1)"

text \<open>The effect on \<open>clearToken\<close>, and the part of the change of the style that touches the effects.\<close>

definition clearAll :: "FxEnv \<Rightarrow> MapFx \<Rightarrow> MapFx" where
  "clearAll e s =
     (let s1 = s\<lparr>fx_animator := clear (fx_animator s)\<rparr>;
          s2 = (if mr_mounted (fx_refs s1) then clearClusterGlows e (clearRouteGlows e (clearNodeStates s1)) else s1)
      in clearQueuedLivePulseEffects (s2\<lparr>fx_shown := (fx_shown s2)\<lparr>rit_entries := []\<rparr>\<rparr>))"

definition restyle :: "FxEnv \<Rightarrow> MapFx \<Rightarrow> MapFx" where
  "restyle e s =
     (let s1 = clearQueuedLivePulseEffects (s\<lparr>fx_refs := (fx_refs s)\<lparr>mr_loaded := False\<rparr>, fx_bubbles := [],
                 fx_animator := clear (fx_animator s),
                 fx_sources := (fx_sources s)\<lparr>ms_nodeSignature := [], ms_routeSignature := [], ms_colorSignature := [], ms_propagationSignature := []\<rparr>\<rparr>)
      in if mr_mounted (fx_refs s) then clearClusterGlows e (clearRouteGlows e (clearNodeStates s1)) else s)"

text \<open>The clean-up of the component.\<close>

definition unmountMap :: "FxEnv \<Rightarrow> MapFx \<Rightarrow> MapFx" where
  "unmountMap e s =
     (let s1 = clearClusterGlows e (clearRouteGlows e (clearNodeStates (clearQueuedLivePulseEffects (s\<lparr>fx_bubbleTimers := []\<rparr>))))
      in s1\<lparr>fx_animator := destroy (fx_animator s1), fx_refs := (fx_refs s1)\<lparr>mr_mounted := False, mr_loaded := False\<rparr>,
           fx_sources := (fx_sources s1)\<lparr>ms_queue := disposeSourceDataQueue (ms_queue (fx_sources s1))\<rparr>\<rparr>)"

text \<open>The effect on the nodes, the focus, the clock of the labels and the setting of the labels.\<close>

definition applyChangedActivity :: "FxEnv \<Rightarrow> MapFx \<Rightarrow> bool \<times> MapFx" where
  "applyChangedActivity e s =
     (let (c, states) = addChangedNodeActivity (hasNodeSource s) (fe_now e) (vn_nodes (mr_nodes (fx_refs s)))
            \<lparr>ca_activities = fx_activities s, ca_telemetry = fx_telemetry s, ca_meshActivity = fx_meshActivity s, ca_changed = False\<rparr>
            (fx_featureStates s)
      in (ca_changed c, s\<lparr>fx_activities := ca_activities c, fx_telemetry := ca_telemetry c, fx_meshActivity := ca_meshActivity c,
            fx_featureStates := states\<rparr>))"

definition nodesEffect :: "FxEnv \<Rightarrow> js_number \<Rightarrow> MapFx \<Rightarrow> MapFx" where
  "nodesEffect e nodeLabelClock s =
     (if \<not> mr_mounted (fx_refs s) then s
      else let r = fx_refs s; heatmapEnabled = ly_activityHeatmap (mr_layers r);
               s1 = (if mr_loaded r
                     then s\<lparr>fx_sources := updateNodeRendering (fe_env e) (vn_nodes (mr_nodes r)) (mr_focus r) nodeLabelClock
                            (fx_meshActivity s) False (fx_sources s)\<rparr>
                     else s);
               s2 = (if mr_loaded r \<and> heatmapEnabled then setHeatmap e False s1 else s1)
           in if isClusterMode e
              then let s3 = clearNodeStates s2 in if mr_loaded r \<and> heatmapEnabled then setHeatmap e False s3 else s3
              else let (changed, s3) = applyChangedActivity e s2;
                       s4 = (if changed then startNodeActivityTimer (if heatmapEnabled then setHeatmap e False s3 else s3) else s3);
                       (active, s5) = updateNodeStates e s4
                   in if 0 < active then startNodeActivityTimer (if heatmapEnabled then setHeatmap e False s5 else s5) else s5)"

text \<open>The effect on the selection, the analysed segments and the topology of the routes.\<close>

definition analysisEffect :: "FxEnv \<Rightarrow> PublicRouteSegment list \<Rightarrow> RouteThemeMode \<Rightarrow> MapFx \<Rightarrow> MapFx" where
  "analysisEffect e analysisSegments themeMode s =
     (let r = fx_refs s
      in if \<not> mr_mounted r \<or> \<not> mr_loaded r then s
         else snd (publishRouteGlows e (s\<lparr>fx_sources := updateAnalysisRouteRendering (fe_env e) (mr_routes r) (mr_selectedRouteID r)
                (mr_focus r) analysisSegments themeMode False (fx_sources s)\<rparr>)))"

section \<open>Steps\<close>

datatype fx_input =
    RenderPulse PublicRoutePulse LiveAnimationPressure
  | RenderBurst PublicObserverBurst LiveAnimationPressure
  | EffectsFrame
  | RouteTimer
  | ClusterTimer
  | NodeTimer
  | BubbleTimer string
  | BubbleInterval
  | MapMoved
  | ClearToken
  | StyleChanged
  | Unmount
  | NodesEffect js_number
  | AnalysisEffect "PublicRouteSegment list" RouteThemeMode
  | HeatAnswer nat bool
  | SourceFrame
  | RefsChange MapRefs

text \<open>A timer that is not running, and a frame that is not requested, do not fire.\<close>

fun fx_step :: "MapFx \<Rightarrow> FxEnv \<times> fx_input \<Rightarrow> MapFx" where
  "fx_step s (e, RenderPulse pulse p) = snd (renderScheduledPulse e pulse p s)"
| "fx_step s (e, RenderBurst burst p) = snd (renderScheduledObserverBurst e burst p s)"
| "fx_step s (e, EffectsFrame) = (if fx_frame s then flushLivePulseEffects e s else s)"
| "fx_step s (e, RouteTimer) = (if fx_routeTimer s then routeTimerFires e s else s)"
| "fx_step s (e, ClusterTimer) = (if fx_clusterTimer s then clusterTimerFires e s else s)"
| "fx_step s (e, NodeTimer) = (if fx_nodeTimer s then nodeTimerFires e s else s)"
| "fx_step s (e, BubbleTimer i) = (if map_has (fx_bubbleTimers s) i then bubbleTimerFires i s else s)"
| "fx_step s (e, BubbleInterval) = (if mr_mounted (fx_refs s) then refreshBubbles e (isClusterMode e) s else s)"
| "fx_step s (e, MapMoved) = updateMapOverlays e s"
| "fx_step s (e, ClearToken) = clearAll e s"
| "fx_step s (e, StyleChanged) = restyle e s"
| "fx_step s (e, Unmount) = (if mr_mounted (fx_refs s) then unmountMap e s else s)"
| "fx_step s (e, NodesEffect clock) = nodesEffect e clock s"
| "fx_step s (e, AnalysisEffect segments theme) = analysisEffect e segments theme s"
| "fx_step s (e, HeatAnswer index resolved) =
     s\<lparr>fx_sources := heatmapAnswered (fe_env e) index resolved (fx_activities s) (fx_meshActivity s) (fx_sources s)\<rparr>"
| "fx_step s (e, SourceFrame) = s\<lparr>fx_sources := (fx_sources s)\<lparr>ms_queue := source_step (me_hash (fe_env e)) (ms_queue (fx_sources s)) FrameRuns\<rparr>\<rparr>"
| "fx_step s (e, RefsChange refs) = s\<lparr>fx_refs := refs\<rparr>"

abbreviation fx_run :: "MapFx \<Rightarrow> (FxEnv \<times> fx_input) list \<Rightarrow> MapFx" where
  "fx_run \<equiv> foldl fx_step"

definition newMapFx :: "MapRefs \<Rightarrow> PacketAnimator \<Rightarrow> MapVisualMode \<Rightarrow> MapSources \<Rightarrow> MapFx" where
  "newMapFx refs animator mode sources =
     \<lparr>fx_refs = refs, fx_animator = animator, fx_pending = [], fx_frame = False, fx_lastLiveVisualAt = 0, fx_activities = [],
      fx_featureStates = [], fx_telemetry = [], fx_meshActivity = [], fx_nodeTimer = False, fx_routeGlows = [], fx_routeTimer = False,
      fx_clusterGlows = [], fx_clusterTimer = False, fx_mode = mode, fx_bubbles = [], fx_bubbleTimers = [],
      fx_shown = newTracker MESSAGE_BUBBLE_IDENTITY_LIMIT MESSAGE_BUBBLE_DEDUPE_MS, fx_follow = \<lparr>ft_lastAt = 0, ft_lastID = []\<rparr>,
      fx_camera = [], fx_sources = sources\<rparr>"

end
