(* ===== verification/Map_Effects_Correct.thy ===== *)
theory Map_Effects_Correct
  imports Map_Effects
begin

text \<open>
  The effects of \<open>Map_Effects\<close> end: a glow has its timer for as long as it lasts, a bubble its cleanup, the queue of
  effects its frame. The two kinds of glow share the contract of the locale \<open>fading_glows\<close>.
\<close>

section \<open>Glows that fade\<close>

locale fading_glows =
  fixes prune_at :: "js_number \<Rightarrow> (string, 'g) js_map \<Rightarrow> nat \<times> (string, 'g) js_map"
    and ends :: "'g \<Rightarrow> js_number"
  assumes prune_length: "well_keyed m \<Longrightarrow> fst (prune_at now m) = length (snd (prune_at now m))"
    and prune_left: "well_keyed m \<Longrightarrow> set (snd (prune_at now m)) \<subseteq> {g \<in> set m. now < ends (snd g)}"
    and prune_keyed: "well_keyed m \<Longrightarrow> well_keyed (snd (prune_at now m))"
begin

lemma none_left_iff: "well_keyed m \<Longrightarrow> fst (prune_at now m) = 0 \<longleftrightarrow> snd (prune_at now m) = []"
  by (simp add: prune_length)

lemma all_gone: "well_keyed m \<Longrightarrow> (\<And>g. g \<in> set m \<Longrightarrow> ends (snd g) \<le> now) \<Longrightarrow> prune_at now m = (0, [])"
  using prune_left [of m now] prune_length [of m now] by (cases "prune_at now m", cases "snd (prune_at now m)") fastforce+

lemma still_bounded:
  "well_keyed m \<Longrightarrow> (\<And>g. g \<in> set m \<Longrightarrow> ends (snd g) \<le> T) \<Longrightarrow> g \<in> set (snd (prune_at now m)) \<Longrightarrow> ends (snd g) \<le> T"
  using prune_left [of m now] by (cases g) auto

end

lemma prune_fold:
  "distinct (map fst (kept @ xs)) \<Longrightarrow>
   foldl (\<lambda>(active, left) (k, g). if P g then (active, map_del k left) else (active + 1, left)) (n, kept @ xs) xs =
     (n + length (filter (\<lambda>(k, g). \<not> P g) xs), kept @ filter (\<lambda>(k, g). \<not> P g) xs)"
proof (induction xs arbitrary: kept n)
  case (Cons x xs)
  obtain k g where x: "x = (k, g)" by (cases x)
  have "filter (\<lambda>e. fst e \<noteq> k) kept = kept" "filter (\<lambda>e. fst e \<noteq> k) xs = xs"
    using Cons.prems by (intro filter_True; force simp: x)+
  then have "map_del k (kept @ x # xs) = kept @ xs" by (simp add: map_del_def x)
  then show ?case using Cons.IH [of kept n] Cons.IH [of "kept @ [x]" "n + 1"] Cons.prems by (simp add: x)
qed simp

lemma prune_fold_all:
  "well_keyed m \<Longrightarrow> foldl (\<lambda>(active, left) (k, g). if P g then (active, map_del k left) else (active + 1, left)) (0, m) m =
     (length (filter (\<lambda>(k, g). \<not> P g) m), filter (\<lambda>(k, g). \<not> P g) m)"
  using prune_fold [of "[]" m P 0] by (simp add: well_keyed_def)

lemma pruneRoutePayloadGlows_eq:
  "well_keyed m \<Longrightarrow> pruneRoutePayloadGlows now mi m =
     (length (filter (\<lambda>(k, g). \<not> glowEnded now mi g) m), filter (\<lambda>(k, g). \<not> glowEnded now mi g) m)"
  unfolding pruneRoutePayloadGlows_def by (rule prune_fold_all)

lemma pruneClusterActivityGlows_eq:
  "well_keyed m \<Longrightarrow> pruneClusterActivityGlows now m =
     (length (filter (\<lambda>(k, g). \<not> clusterActivityIntensity g now \<le> 1 / 100) m),
      filter (\<lambda>(k, g). \<not> clusterActivityIntensity g now \<le> 1 / 100) m)"
  unfolding pruneClusterActivityGlows_def by (rule prune_fold_all)

lemma well_keyed_filter: "well_keyed m \<Longrightarrow> well_keyed (filter P m)"
  by (simp add: well_keyed_def distinct_map_filter)

interpretation route_glows: fading_glows "\<lambda>now. pruneRoutePayloadGlows now (1 / 100)" rg_expiresAt
  by unfold_locales (auto simp: pruneRoutePayloadGlows_eq well_keyed_filter glowEnded_def)

interpretation cluster_glows: fading_glows pruneClusterActivityGlows cg_expiresAt
  by unfold_locales (auto simp: pruneClusterActivityGlows_eq well_keyed_filter clusterActivityIntensity_def split: if_splits)

text \<open>Pruning is not visible: what it takes away was not drawn any more.\<close>

lemma pruning_is_invisible:
  assumes "well_keyed glows" "\<And>k g. (k, g) \<in> set glows \<Longrightarrow> rg_startedAt g + 1 \<le> rg_expiresAt g"
  shows "routePayloadGlowsToGeoJSON routes (snd (pruneRoutePayloadGlows now (1 / 100) glows)) sel focus now =
    routePayloadGlowsToGeoJSON routes glows sel focus now"
proof -
  have gone: "glowFeature m sel focus now (k, g) = []" if "(k, g) \<in> set glows" "glowEnded now (1 / 100) g" for m k g
  proof -
    have "routePayloadGlowIntensity g now \<le> 1 / 100"
    proof (cases "rg_expiresAt g \<le> now")
      case True
      then have "clampRange ((now - rg_startedAt g) / max 1 (rg_expiresAt g - rg_startedAt g)) 0 1 = 1"
        using assms(2) [OF that(1)] by (simp add: clampRange_def max_def min_def)
      then show ?thesis by (simp add: routePayloadGlowIntensity_def Let_def)
    next
      case False
      then show ?thesis using that(2) by (simp add: glowEnded_def)
    qed
    then show ?thesis by (simp add: glowFeature_def Let_def split: option.split)
  qed
  have "concat (map (glowFeature m sel focus now) (filter (\<lambda>(k, g). \<not> glowEnded now (1 / 100) g) gs)) =
      concat (map (glowFeature m sel focus now) gs)" if "set gs \<subseteq> set glows" for m gs
    using that by (induction gs) (auto simp: gone)
  then show ?thesis using assms(1) by (simp add: routePayloadGlowsToGeoJSON_def pruneRoutePayloadGlows_eq)
qed

section \<open>The invariant\<close>

text \<open>The part of the state that the invariant is about; most steps leave it alone.\<close>

definition fxv where
  "fxv s = ((fx_routeGlows s, fx_routeTimer s), (fx_clusterGlows s, fx_clusterTimer s), (fx_bubbles s, fx_bubbleTimers s), (fx_pending s, fx_frame s))"

definition glow_ok :: "js_number \<Rightarrow> ('g \<Rightarrow> js_number) \<Rightarrow> (string, 'g) js_map \<times> bool \<Rightarrow> bool" where
  "glow_ok T ends v \<longleftrightarrow> well_keyed (fst v) \<and> (fst v \<noteq> [] \<longrightarrow> snd v) \<and> (\<forall>g \<in> set (fst v). ends (snd g) \<le> T + 5200)"

definition bubbles_ok :: "js_number \<Rightarrow> MessageBubble list \<times> (string, js_number) js_map \<Rightarrow> bool" where
  "bubbles_ok T v \<longleftrightarrow> distinct (map mb_id (fst v)) \<and> length (fst v) \<le> 12 \<and> well_keyed (snd v) \<and>
     (\<forall>b \<in> set (fst v). mb_expiresAt b \<le> T + 7200) \<and> (\<forall>e \<in> set (snd v). snd e \<le> T + 7600)"

definition fx_ok :: "js_number \<Rightarrow> MapFx \<Rightarrow> bool" where
  "fx_ok T s \<longleftrightarrow> (case fxv s of (routes, clusters, bubbles, pending, frame) \<Rightarrow>
     glow_ok T rg_expiresAt routes \<and> glow_ok T cg_expiresAt clusters \<and> bubbles_ok T bubbles \<and> (pending \<noteq> [] \<longleftrightarrow> frame))"

lemma fx_okI:
  "glow_ok T rg_expiresAt (fx_routeGlows s, fx_routeTimer s) \<Longrightarrow> glow_ok T cg_expiresAt (fx_clusterGlows s, fx_clusterTimer s) \<Longrightarrow>
   bubbles_ok T (fx_bubbles s, fx_bubbleTimers s) \<Longrightarrow> (fx_pending s \<noteq> [] \<longleftrightarrow> fx_frame s) \<Longrightarrow> fx_ok T s"
  by (simp add: fx_ok_def fxv_def)

lemma fx_okD:
  assumes "fx_ok T s"
  shows "glow_ok T rg_expiresAt (fx_routeGlows s, fx_routeTimer s)" "glow_ok T cg_expiresAt (fx_clusterGlows s, fx_clusterTimer s)"
    "bubbles_ok T (fx_bubbles s, fx_bubbleTimers s)" "fx_pending s \<noteq> [] \<longleftrightarrow> fx_frame s"
  using assms by (simp_all add: fx_ok_def fxv_def)

lemma fx_ok_cong: "fxv s' = fxv s \<Longrightarrow> fx_ok T s \<Longrightarrow> fx_ok T s'"
  by (simp add: fx_ok_def)

lemma fx_ok_mono: "fx_ok T s \<Longrightarrow> T \<le> T' \<Longrightarrow> fx_ok T' s"
  by (force simp: fx_ok_def glow_ok_def bubbles_ok_def split: prod.splits)

section \<open>Steps that leave it alone\<close>

lemma fxv_quiet [simp]:
  "fxv (setHeatmap e b s) = fxv s" "fxv (applyActivityUpdate u s) = fxv s" "fxv (startNodeActivityTimer s) = fxv s"
  "fxv (followPulse e pulse s) = fxv s" "fxv (clearNodeStates s) = fxv s" "fxv (snd (updateNodeStates e s)) = fxv s"
  "fxv (snd (applyChangedActivity e s)) = fxv s"
  "fxv (s\<lparr>fx_animator := a\<rparr>) = fxv s" "fxv (s\<lparr>fx_refs := r\<rparr>) = fxv s" "fxv (s\<lparr>fx_sources := m\<rparr>) = fxv s"
  "fxv (s\<lparr>fx_meshActivity := w\<rparr>) = fxv s" "fxv (s\<lparr>fx_shown := h\<rparr>) = fxv s" "fxv (s\<lparr>fx_mode := d\<rparr>) = fxv s"
  "fxv (s\<lparr>fx_lastLiveVisualAt := t\<rparr>) = fxv s" "fxv (s\<lparr>fx_nodeTimer := c\<rparr>) = fxv s"
  "fxv (s\<lparr>fx_camera := k\<rparr>) = fxv s" "fxv (s\<lparr>fx_follow := f\<rparr>) = fxv s"
  by (simp_all add: fxv_def setHeatmap_def applyActivityUpdate_def startNodeActivityTimer_def followPulse_def clearNodeStates_def
      clearNodeActivityStates_def updateNodeStates_def applyChangedActivity_def case_prod_beta Let_def)

lemma fxv_markPulses [simp]: "fxv (markPulses e pulses normalPulses s) = fxv s"
  by (simp add: markPulses_def Let_def)

lemma fxv_nodeTimerFires [simp]: "fxv (nodeTimerFires e s) = fxv s"
  by (simp add: nodeTimerFires_def case_prod_beta Let_def)

lemma fxv_nodesEffect [simp]: "fxv (nodesEffect e clock s) = fxv s"
  by (simp add: nodesEffect_def case_prod_beta Let_def)

section \<open>Steps that keep it\<close>

lemma showMessageBubble_ok:
  assumes "fx_ok T s" "fe_now e \<le> T" "mb_expiresAt b \<le> T + 7200"
  shows "fx_ok T (showMessageBubble e b s)"
proof (rule fx_okI)
  note ok = fx_okD [OF assms(1)]
  let ?kept = "filter (\<lambda>item. mb_id item \<noteq> mb_id b) (fx_bubbles s)"
  let ?ys = "take_last 12 (?kept @ [b])"
  have "distinct (map mb_id (?kept @ [b]))" using ok(3) by (auto simp: bubbles_ok_def distinct_map_filter)
  then have d: "distinct (map mb_id ?ys)" unfolding take_last_def drop_map [symmetric] by (rule distinct_drop)
  have x: "\<forall>y \<in> set ?ys. mb_expiresAt y \<le> T + 7200"
    using ok(3) assms(3) set_take_last [of 12 "?kept @ [b]"] by (auto simp: bubbles_ok_def)
  have project: "distinct (map mb_id (projectMessageBubbles m now ys)) \<and> length (projectMessageBubbles m now ys) \<le> length ys \<and>
      (\<forall>y \<in> set (projectMessageBubbles m now ys). mb_expiresAt y \<le> T + 7200)"
    if "distinct (map mb_id ys)" "\<forall>y \<in> set ys. mb_expiresAt y \<le> T + 7200" for m now ys
    using that by (auto simp: projectMessageBubbles_def case_prod_beta Let_def distinct_map_filter comp_def
        intro: order_trans [OF length_filter_le] order_trans [OF length_filter_le length_filter_le])
  show "bubbles_ok T (fx_bubbles (showMessageBubble e b s), fx_bubbleTimers (showMessageBubble e b s))"
    using project [OF d x, of "fe_view e" "fe_now e"] ok(3) assms(2)
    by (auto simp: showMessageBubble_def bubbles_ok_def MESSAGE_BUBBLE_LIFETIME_MS_def set_map_set)
qed (use fx_okD [OF assms(1)] in \<open>simp_all add: showMessageBubble_def\<close>)

lemma refreshBubbles_ok:
  assumes "fx_ok T s"
  shows "fx_ok T (refreshBubbles e c s)"
proof (rule fx_okI)
  note ok = fx_okD [OF assms]
  have "bubbles_ok T (projectMessageBubbles m now (fx_bubbles s), fx_bubbleTimers s)" for m now
    using ok(3) by (auto simp: bubbles_ok_def projectMessageBubbles_def case_prod_beta Let_def distinct_map_filter comp_def
        intro: order_trans [OF length_filter_le] order_trans [OF length_filter_le order_trans [OF length_filter_le]])
  then show "bubbles_ok T (fx_bubbles (refreshBubbles e c s), fx_bubbleTimers (refreshBubbles e c s))"
    using ok(3) by (simp add: refreshBubbles_def bubbles_ok_def)
qed (use fx_okD [OF assms] in \<open>simp_all add: refreshBubbles_def\<close>)

lemma offerBubble_ok:
  assumes "fx_ok T s" "fe_now e \<le> T" "\<And>b. bubble = Some b \<Longrightarrow> mb_expiresAt b \<le> T + 7200"
  shows "fx_ok T (offerBubble e key bubble s)"
proof -
  have "fx_ok T (s\<lparr>fx_shown := h\<rparr>)" for h by (rule fx_ok_cong [OF _ assms(1)]) simp
  then show ?thesis using showMessageBubble_ok assms(2,3)
    by (auto simp: offerBubble_def case_prod_beta Let_def split: option.split)
qed

lemma bubble_ends:
  "messageBubbleFromPulse dots m now pulse = Some b \<Longrightarrow> mb_expiresAt b = now + 7200"
  "mb_expiresAt (messageBubbleFromObserverBurst dots m now burst) = now + 7200"
  by (auto simp: messageBubbleFromPulse_def messageBubbleFromObserverBurst_def bubbleAt_def MESSAGE_BUBBLE_LIFETIME_MS_def Let_def
      split: list.splits)

lemma bubblePulses_ok:
  assumes "fx_ok T s" "fe_now e \<le> T"
  shows "fx_ok T (bubblePulses e pulses s)"
proof -
  have "fx_ok T (offerBubble e key (messageBubbleFromPulse dots m (fe_now e) pulse) s)" for key dots m pulse
    using bubble_ends(1) assms by (intro offerBubble_ok) fastforce+
  then show ?thesis using assms(1) by (auto simp: bubblePulses_def split: list.split)
qed

lemma glow_ok_set:
  "glow_ok T ends (m, c) \<Longrightarrow> ends g \<le> T + 5200 \<Longrightarrow> glow_ok T ends (map_set k g m, True)"
  by (auto simp: glow_ok_def set_map_set)

lemma upsert_glow_ok:
  "glow_ok T cg_expiresAt (m, c) \<Longrightarrow> now \<le> T \<Longrightarrow>
   glow_ok T cg_expiresAt (upsertClusterActivityGlow num target name now CLUSTER_ACTIVITY_GLOW_MS m, True)"
  unfolding upsertClusterActivityGlow_def Let_def by (rule glow_ok_set) (simp_all add: CLUSTER_ACTIVITY_GLOW_MS_def)

lemma cluster_batch_ok:
  assumes "glow_ok T cg_expiresAt (m, c)" "now \<le> T"
  shows "case addPulseClusterActivityGlowBatch num rendered now pulses m of (changed, g) \<Rightarrow>
    glow_ok T cg_expiresAt (g, c \<or> changed)"
  unfolding addPulseClusterActivityGlowBatch_def
proof (rule foldl_invariant [where P = "\<lambda>(changed, g). glow_ok T cg_expiresAt (g, c \<or> changed)"])
  show "case (False, m) of (changed, g) \<Rightarrow> glow_ok T cg_expiresAt (g, c \<or> changed)" using assms by simp
next
  fix a :: "bool \<times> (string, ClusterActivityGlow) js_map" and x :: "js_number \<times> js_number \<times> string"
  assume "case a of (changed, g) \<Rightarrow> glow_ok T cg_expiresAt (g, c \<or> changed)"
  then show "case (case a of (changed, g) \<Rightarrow> \<lambda>(lat, lng, payloadTypeName).
        case resolveRenderedClusterTarget rendered lng lat of None \<Rightarrow> (changed, g)
        | Some target \<Rightarrow> (True, upsertClusterActivityGlow num target payloadTypeName now CLUSTER_ACTIVITY_GLOW_MS g)) x of
      (changed, g) \<Rightarrow> glow_ok T cg_expiresAt (g, c \<or> changed)"
    using assms(2) by (cases a; cases x) (auto intro: upsert_glow_ok split: option.split)
qed

lemma glowClusters_ok:
  assumes "fx_ok T s" "fe_now e \<le> T"
  shows "fx_ok T (glowClusters e pulses s)"
proof -
  note ok = fx_okD [OF assms(1)]
  obtain changed g where b: "addPulseClusterActivityGlowBatch (me_num (fe_env e)) (fe_rendered e) (fe_now e) pulses (fx_clusterGlows s) = (changed, g)"
    by fastforce
  then have "glow_ok T cg_expiresAt (g, fx_clusterTimer s \<or> changed)" using cluster_batch_ok [OF ok(2) assms(2)] by (metis case_prod_conv)
  then show ?thesis using assms(1) b ok by (auto simp: glowClusters_def intro!: fx_okI)
qed

lemma publishRouteGlows_eq:
  assumes "well_keyed (fx_routeGlows s)"
  shows "fst (publishRouteGlows e s) = length (fx_routeGlows (snd (publishRouteGlows e s)))"
    and "fx_routeGlows (snd (publishRouteGlows e s)) = snd (pruneRoutePayloadGlows (fe_now e) (1 / 100) (fx_routeGlows s))"
    and "fx_routeTimer (snd (publishRouteGlows e s)) = fx_routeTimer s"
    and "fx_clusterGlows (snd (publishRouteGlows e s)) = fx_clusterGlows s" "fx_clusterTimer (snd (publishRouteGlows e s)) = fx_clusterTimer s"
    and "fx_bubbles (snd (publishRouteGlows e s)) = fx_bubbles s" "fx_bubbleTimers (snd (publishRouteGlows e s)) = fx_bubbleTimers s"
    and "fx_pending (snd (publishRouteGlows e s)) = fx_pending s" "fx_frame (snd (publishRouteGlows e s)) = fx_frame s"
  using route_glows.prune_length [OF assms, of "fe_now e"]
  by (simp_all add: publishRouteGlows_def setRoutePayloadGlowSource_def case_prod_beta Let_def)

lemma pruned_route_ok:
  "glow_ok T rg_expiresAt (m, c) \<Longrightarrow> glow_ok T rg_expiresAt (snd (pruneRoutePayloadGlows now (1 / 100) m), c)"
  using route_glows.prune_left [of m now] route_glows.prune_keyed [of m now] by (fastforce simp: glow_ok_def)

lemma publishRouteGlows_ok: "fx_ok T s \<Longrightarrow> fx_ok T (snd (publishRouteGlows e s))"
  using fx_okD [of T s] pruned_route_ok
  by (intro fx_okI) (simp_all add: publishRouteGlows_eq glow_ok_def [of _ _ "(fx_routeGlows s, _)"])

lemma add_route_glow_ok:
  assumes "glow_ok T rg_expiresAt (m, c)" "now \<le> T"
  shows "glow_ok T rg_expiresAt (foldl (addPulseRoutePayloadGlow now) m pulses, True)"
proof (rule foldl_invariant [where P = "\<lambda>m. glow_ok T rg_expiresAt (m, True)"])
  show "glow_ok T rg_expiresAt (m, True)" using assms(1) by (simp add: glow_ok_def)
next
  fix m :: "(string, RoutePayloadGlow) js_map" and pulse
  assume "glow_ok T rg_expiresAt (m, True)"
  then show "glow_ok T rg_expiresAt (addPulseRoutePayloadGlow now m pulse, True)"
    unfolding addPulseRoutePayloadGlow_def Let_def using assms(2)
    by (intro foldl_invariant [where P = "\<lambda>m. glow_ok T rg_expiresAt (m, True)"])
      (auto intro: glow_ok_set simp: ROUTE_PAYLOAD_GLOW_MS_def)
qed

lemma glowRoutes_ok:
  assumes "fx_ok T s" "fe_now e \<le> T"
  shows "fx_ok T (glowRoutes e pulses s)"
proof (cases "pulses \<noteq> [] \<and> ly_analysisPaths (mr_layers (fx_refs s))")
  case True
  let ?s = "s\<lparr>fx_routeGlows := foldl (addPulseRoutePayloadGlow (fe_now e)) (fx_routeGlows s) pulses, fx_routeTimer := True\<rparr>"
  note ok = fx_okD [OF assms(1)]
  have "fx_ok T ?s" using add_route_glow_ok [OF ok(1) assms(2)] ok by (intro fx_okI) simp_all
  then have "fx_ok T (snd (publishRouteGlows e ?s))" by (rule publishRouteGlows_ok)
  moreover have "glowRoutes e pulses s = snd (publishRouteGlows e ?s)"
    using True by (simp add: glowRoutes_def publishRouteGlows_def case_prod_beta Let_def)
  ultimately show ?thesis by simp
next
  case False
  then have "glowRoutes e pulses s = s" by (simp only: glowRoutes_def if_False)
  then show ?thesis using assms(1) by simp
qed

lemma flush_ok:
  assumes "fx_ok T s" "fe_now e \<le> T"
  shows "fx_ok T (flushLivePulseEffects e s)"
proof -
  let ?s = "s\<lparr>fx_frame := False, fx_pending := []\<rparr>"
  have s: "fx_ok T ?s" using fx_okD [OF assms(1)] by (intro fx_okI) simp_all
  have "fx_ok T (followPulse e pulse ?s)" for pulse by (rule fx_ok_cong [OF _ s]) simp
  then have "fx_ok T (bubblePulses e normal (followPulse e pulse ?s))" for normal pulse using assms(2) by (intro bubblePulses_ok)
  then have m: "fx_ok T (markPulses e pulses normal (bubblePulses e normal (followPulse e pulse ?s)))" for pulses normal pulse
    by (rule fx_ok_cong [OF fxv_markPulses])
  have "fx_ok T (startNodeActivityTimer (glowRoutes e normal (markPulses e pulses normal (bubblePulses e normal (followPulse e pulse ?s)))))"
    for pulses normal pulse by (rule fx_ok_cong [OF _ glowRoutes_ok [OF m assms(2)]]) simp
  then show ?thesis using s glowClusters_ok [OF m assms(2)] by (simp add: flushLivePulseEffects_def Let_def)
qed

lemma renderScheduledPulse_ok:
  assumes "fx_ok T s"
  shows "fx_ok T (snd (renderScheduledPulse e pulse p s))"
proof -
  have "fx_ok T (s\<lparr>fx_animator := a\<rparr>)" for a by (rule fx_ok_cong [OF _ assms]) simp
  moreover have "fx_ok T (queueLivePulseEffects pulse q b (s\<lparr>fx_animator := a, fx_lastLiveVisualAt := t\<rparr>))" for q b a t
    using fx_okD [OF assms] by (intro fx_okI) (simp_all add: queueLivePulseEffects_def)
  ultimately show ?thesis using assms by (simp add: renderScheduledPulse_def case_prod_beta Let_def)
qed

lemma glowBurst_ok:
  assumes "fx_ok T s" "fe_now e \<le> T"
  shows "fx_ok T (glowBurst e burst overloaded s)"
  using assms fx_okD [OF assms(1)] upsert_glow_ok [OF fx_okD(2) [OF assms(1)] assms(2)]
  by (auto simp: glowBurst_def addObserverBurstClusterActivityGlow_def intro!: fx_okI split: option.split)

lemma burstEffects_ok:
  assumes "fx_ok T s" "fe_now e \<le> T"
  shows "fx_ok T (burstEffects e burst overloaded s)"
proof -
  have a: "fx_ok T (followBurst e burst s)"
    by (rule fx_ok_cong [OF _ assms(1)]) (simp add: followBurst_def case_prod_beta Let_def)
  have "fx_ok T (offerBubble e key (Some (messageBubbleFromObserverBurst dots m (fe_now e) burst)) (followBurst e burst s))" for key dots m
    using a assms(2) bubble_ends(2) [of dots m "fe_now e" burst] by (intro offerBubble_ok) auto
  then have "fx_ok T (bubbleBurst e burst overloaded (followBurst e burst s))" using a by (simp add: bubbleBurst_def)
  then show ?thesis unfolding burstEffects_def using assms(2) by (rule glowBurst_ok)
qed

lemma renderScheduledObserverBurst_ok:
  assumes "fx_ok T s" "fe_now e \<le> T"
  shows "fx_ok T (snd (renderScheduledObserverBurst e burst p s))"
proof -
  have a: "fx_ok T (s\<lparr>fx_animator := a, fx_lastLiveVisualAt := t\<rparr>)" "fx_ok T (s\<lparr>fx_animator := a\<rparr>)" for a t
    by (rule fx_ok_cong [OF _ assms(1)], simp)+
  then show ?thesis using assms burstEffects_ok [OF a(1) assms(2)]
    by (simp add: renderScheduledObserverBurst_def case_prod_beta Let_def)
qed

lemma routeTimerFires_ok:
  assumes "fx_ok T s"
  shows "fx_ok T (routeTimerFires e s)"
proof -
  note p = fx_okD [OF publishRouteGlows_ok [OF assms, of e]]
  have "well_keyed (fx_routeGlows s)" using fx_okD(1) [OF assms] by (simp add: glow_ok_def)
  from publishRouteGlows_eq(1) [OF this, of e]
  have "fx_ok T (snd (publishRouteGlows e s)\<lparr>fx_routeTimer := False\<rparr>)" if "fst (publishRouteGlows e s) = 0"
    using p that by (intro fx_okI) (simp_all add: glow_ok_def)
  then show ?thesis using publishRouteGlows_ok [OF assms, of e] by (simp add: routeTimerFires_def case_prod_beta)
qed

lemma clusterTimerFires_ok:
  assumes "fx_ok T s"
  shows "fx_ok T (clusterTimerFires e s)"
proof -
  note ok = fx_okD [OF assms]
  have k: "well_keyed (fx_clusterGlows s)" using ok(2) by (simp add: glow_ok_def)
  have "glow_ok T cg_expiresAt (snd (pruneClusterActivityGlows (fe_now e) (fx_clusterGlows s)),
      fst (pruneClusterActivityGlows (fe_now e) (fx_clusterGlows s)) \<noteq> 0 \<and> fx_clusterTimer s)"
    using ok(2) k cluster_glows.prune_left [OF k, of "fe_now e"] cluster_glows.prune_keyed [OF k, of "fe_now e"]
      cluster_glows.none_left_iff [OF k, of "fe_now e"] by (fastforce simp: glow_ok_def)
  then show ?thesis using ok
    by (intro fx_okI) (auto simp: clusterTimerFires_def case_prod_beta Let_def)
qed

lemma bubbleTimerFires_ok:
  assumes "fx_ok T s"
  shows "fx_ok T (bubbleTimerFires i s)"
proof (rule fx_okI)
  show "bubbles_ok T (fx_bubbles (bubbleTimerFires i s), fx_bubbleTimers (bubbleTimerFires i s))"
    using fx_okD(3) [OF assms] set_map_del [of i "fx_bubbleTimers s"]
    by (auto simp: bubbleTimerFires_def bubbles_ok_def distinct_map_filter intro: order_trans [OF length_filter_le])
qed (use fx_okD [OF assms] in \<open>simp_all add: bubbleTimerFires_def\<close>)

lemma clears_ok:
  assumes "fx_ok T s"
  shows "fx_ok T (clearRouteGlows e s)" "fx_ok T (clearClusterGlows e s)" "fx_ok T (clearNodeStates s)"
    "fx_ok T (clearQueuedLivePulseEffects s)"
  using fx_okD [OF assms] fx_ok_cong [OF fxv_quiet(5) assms]
  by (auto simp: clearRouteGlows_def clearClusterGlows_def clearQueuedLivePulseEffects_def clearRoutePayloadGlowStates_def
      clearClusterActivityGlowStates_def glow_ok_def intro!: fx_okI)

lemma transition_ok:
  assumes "fx_ok T s"
  shows "fx_ok T (handleVisualModeTransition e s)"
proof -
  have a: "fx_ok T (s\<lparr>fx_mode := d\<rparr>)" "fx_ok T (s\<lparr>fx_mode := d, fx_animator := a\<rparr>)" for d a by (rule fx_ok_cong [OF _ assms], simp)+
  show ?thesis
    using assms clears_ok(1) [OF clears_ok(3) [OF a(2)]] clears_ok(2) [OF a(1)]
    by (simp add: handleVisualModeTransition_def clearDetailVisualState_def Let_def)
qed

lemma resets_ok:
  assumes "fx_ok T s"
  shows "fx_ok T (clearAll e s)" "fx_ok T (restyle e s)" "fx_ok T (unmountMap e s)"
proof -
  have a: "fx_ok T (s\<lparr>fx_animator := a\<rparr>)" for a by (rule fx_ok_cong [OF _ assms]) simp
  then have "fx_ok T (clearClusterGlows e (clearRouteGlows e (clearNodeStates (s\<lparr>fx_animator := a\<rparr>))))" for a by (intro clears_ok)
  with a have "fx_ok T (u\<lparr>fx_shown := h\<rparr>)" if "u = s\<lparr>fx_animator := a\<rparr> \<or> u = clearClusterGlows e (clearRouteGlows e (clearNodeStates (s\<lparr>fx_animator := a\<rparr>)))"
    for u h a using that by (auto intro: fx_ok_cong [OF fxv_quiet(12)])
  then show "fx_ok T (clearAll e s)" by (auto simp: clearAll_def Let_def intro!: clears_ok(4))
  let ?b = "s\<lparr>fx_refs := r, fx_bubbles := [], fx_animator := a, fx_sources := m\<rparr>"
  have "fx_ok T (s\<lparr>fx_refs := r, fx_bubbles := [], fx_animator := a, fx_sources := m\<rparr>)" for r a m
    using fx_okD [OF assms] by (intro fx_okI) (simp_all add: bubbles_ok_def)
  then show "fx_ok T (restyle e s)" using assms by (auto simp: restyle_def Let_def intro!: clears_ok)
  have "fx_ok T (s\<lparr>fx_bubbleTimers := []\<rparr>)"
    using fx_okD [OF assms] by (intro fx_okI) (simp_all add: bubbles_ok_def)
  then have "fx_ok T (clearClusterGlows e (clearRouteGlows e (clearNodeStates (clearQueuedLivePulseEffects (s\<lparr>fx_bubbleTimers := []\<rparr>)))))"
    by (intro clears_ok)
  then show "fx_ok T (unmountMap e s)" unfolding unmountMap_def Let_def by (rule fx_ok_cong [rotated]) (simp only: fxv_quiet)
qed

lemma analysisEffect_ok:
  assumes "fx_ok T s"
  shows "fx_ok T (analysisEffect e segments theme s)"
proof -
  have "fx_ok T (s\<lparr>fx_sources := m\<rparr>)" for m by (rule fx_ok_cong [OF _ assms]) simp
  then show ?thesis using assms by (simp add: analysisEffect_def Let_def publishRouteGlows_ok)
qed

lemma fx_step_ok:
  assumes "fx_ok T s" "fe_now (fst x) \<le> T"
  shows "fx_ok T (fx_step s x)"
proof -
  obtain e i where x: "x = (e, i)" by (cases x)
  note quiet = fx_ok_cong [OF _ assms(1)]
  show ?thesis
  proof (cases i)
    case (RenderPulse pulse p) then show ?thesis using assms by (simp add: x renderScheduledPulse_ok)
  next
    case (RenderBurst burst p) then show ?thesis using assms by (simp add: x renderScheduledObserverBurst_ok)
  next
    case EffectsFrame then show ?thesis using assms by (simp add: x flush_ok)
  next
    case RouteTimer then show ?thesis using assms by (simp add: x routeTimerFires_ok)
  next
    case ClusterTimer then show ?thesis using assms by (simp add: x clusterTimerFires_ok)
  next
    case NodeTimer then show ?thesis using assms quiet [OF fxv_nodeTimerFires] by (simp add: x)
  next
    case (BubbleTimer j) then show ?thesis using assms by (simp add: x bubbleTimerFires_ok)
  next
    case BubbleInterval then show ?thesis using assms by (simp add: x refreshBubbles_ok)
  next
    case MapMoved then show ?thesis using assms by (simp add: x updateMapOverlays_def Let_def refreshBubbles_ok transition_ok)
  next
    case ClearToken then show ?thesis using assms by (simp add: x resets_ok)
  next
    case StyleChanged then show ?thesis using assms by (simp add: x resets_ok)
  next
    case Unmount then show ?thesis using assms by (simp add: x resets_ok)
  next
    case (NodesEffect clock) then show ?thesis using quiet [OF fxv_nodesEffect] by (simp add: x)
  next
    case (AnalysisEffect segments theme) then show ?thesis using assms by (simp add: x analysisEffect_ok)
  next
    case (HeatAnswer index resolved) then show ?thesis unfolding x by (simp only: fx_step.simps) (rule quiet, simp)
  next
    case SourceFrame then show ?thesis unfolding x by (simp only: fx_step.simps) (rule quiet, simp)
  next
    case (RefsChange refs) then show ?thesis unfolding x by (simp only: fx_step.simps) (rule quiet, simp)
  qed
qed

lemma fx_run_ok:
  assumes "\<forall>x \<in> set inputs. fe_now (fst x) \<le> T"
  shows "fx_ok T (fx_run (newMapFx refs animator mode sources) inputs)"
proof (rule foldl_invariant [where P = "fx_ok T"])
  show "fx_ok T (newMapFx refs animator mode sources)"
    by (rule fx_okI) (simp_all add: newMapFx_def glow_ok_def bubbles_ok_def)
qed (use assms fx_step_ok in blast)

section \<open>Effects end\<close>

lemma glows_end:
  assumes "fx_ok T s" "T + 5200 \<le> fe_now e"
  shows "fx_routeGlows (fx_step s (e, RouteTimer)) = []" "\<not> fx_routeTimer (fx_step s (e, RouteTimer))"
    "fx_clusterGlows (fx_step s (e, ClusterTimer)) = []" "\<not> fx_clusterTimer (fx_step s (e, ClusterTimer))"
proof -
  note ok = fx_okD [OF assms(1)]
  have r: "pruneRoutePayloadGlows (fe_now e) (1 / 100) (fx_routeGlows s) = (0, [])"
    using ok(1) assms(2) by (intro route_glows.all_gone) (fastforce simp: glow_ok_def)+
  have c: "pruneClusterActivityGlows (fe_now e) (fx_clusterGlows s) = (0, [])"
    using ok(2) assms(2) by (intro cluster_glows.all_gone) (fastforce simp: glow_ok_def)+
  have k: "well_keyed (fx_routeGlows s)" using ok(1) by (simp add: glow_ok_def)
  show "fx_routeGlows (fx_step s (e, RouteTimer)) = []" "\<not> fx_routeTimer (fx_step s (e, RouteTimer))"
    using ok(1) r publishRouteGlows_eq(1,2) [OF k, of e]
    by (auto simp: routeTimerFires_def case_prod_beta glow_ok_def)
  show "fx_clusterGlows (fx_step s (e, ClusterTimer)) = []" "\<not> fx_clusterTimer (fx_step s (e, ClusterTimer))"
    using ok(2) c by (auto simp: clusterTimerFires_def glow_ok_def)
qed


definition sample_refs :: MapRefs where
  "sample_refs = \<lparr>mr_mounted = True, mr_loaded = True, mr_paused = False, mr_pageHidden = False, mr_reducedMotion = False,
     mr_followTraffic = False, mr_layers = DEFAULT_MAP_LAYER_SETTINGS, mr_nodes = \<lparr>vn_version = 0, vn_nodes = []\<rparr>,
     mr_routes = [sample_route ''r'' ''a'' ''b''], mr_selectedRouteID = None, mr_focus = emptyNodeFocus\<rparr>"

definition sample_fx :: MapFx where
  "sample_fx = newMapFx sample_refs (newPacketAnimator [] JUndefined JUndefined False
     \<lparr>cb_width = 100, cb_height = 100, cb_devicePixelRatio = 1\<rparr>) DetailMode (newMapSources (newMap (\<lambda>_. Blank)))"

definition sample_fx_env :: "js_number \<Rightarrow> FxEnv" where
  "sample_fx_env t = \<lparr>fe_env = \<lparr>me_icons = (\<lambda>_. []), me_num = (\<lambda>_. []), me_loc = (\<lambda>_. []), me_hash = (\<lambda>_. [])\<rparr>, fe_dots = [],
     fe_view = sample_view, fe_rendered = (\<lambda>_ _. None), fe_now = t, fe_epochNow = 2000 + t\<rparr>"

definition sample_inputs :: "(FxEnv \<times> fx_input) list" where
  "sample_inputs = [(sample_fx_env 10, RenderPulse (sample_pulse ''p'' [sample_segment ''r'' ''a'' ''b'']) NormalPressure),
     (sample_fx_env 20, EffectsFrame)]"


end
