(* ===== verification/Packet_Frame.thy ===== *)
theory Packet_Frame
  imports Packet_Animator
begin

text \<open>
  The frame callback of \<open>PacketAnimator\<close> (\<open>web/src/map/packetAnimator.ts\<close>): what it paints for the pulses, the
  observer bursts, the residue and the mask, how it prunes and reschedules itself, and the class as a step function
  over the calls and callbacks it receives.
\<close>

section \<open>Pulses and bursts\<close>

definition relayOverlaysOf :: "ActivePulse \<Rightarrow> Point \<Rightarrow> Point \<Rightarrow> string \<Rightarrow> js_number \<Rightarrow> RelayOverlay list" where
  "relayOverlaysOf active p q color localProgress =
     (if ap_animationStyle active \<noteq> Minimal \<and> localProgress < 32 / 100
      then [\<lparr>ry_at = p, ry_color = color, ry_progress = localProgress / (32 / 100), ry_alpha = 42 / 100, ry_mode = Launch\<rparr>] else []) @
     (if ap_animationStyle active \<noteq> Minimal \<and> 62 / 100 < localProgress
      then [\<lparr>ry_at = q, ry_color = color, ry_progress = (localProgress - 62 / 100) / (38 / 100), ry_alpha = 56 / 100, ry_mode = Arrival\<rparr>]
      else [])"

definition drawPulseSegment ::
  "MapHost \<Rightarrow> (string, string) js_map \<Rightarrow> ActivePulse \<Rightarrow> js_number \<Rightarrow> nat \<times> PublicRouteSegment \<Rightarrow> CanvasOp list \<times> RelayOverlay list" where
  "drawPulseSegment host routeColors active now indexed =
     (let (index, segment) = indexed;
          elapsed = now - ap_started active;
          travelProgress = min 1 (elapsed / ap_travelDuration active);
          afterglowProgress = max 0 (min 1 ((elapsed - ap_travelDuration active) / ap_afterglowDuration active));
          afterglowAlpha = (if ap_travelDuration active < elapsed then 1 - afterglowProgress else 1);
          segmentState = sequentialSegmentProgress travelProgress (length (ap_segments active));
          color = trace_color routeColors (ap_color active) (sg_routeId segment);
          p = mh_project host (ep_lng (sg_from segment), ep_lat (sg_from segment));
          q = mh_project host (ep_lng (sg_to segment), ep_lat (sg_to segment));
          shimmer = 5 / 10 + 5 / 10 * sin (now / 92 + real index * (17 / 10))
      in if ap_travelDuration active < elapsed
         then (drawAfterglowSegment p q color afterglowAlpha shimmer (ap_brightness active) (ap_trailScale active) (ap_animationStyle active), [])
         else if index < sp_segmentIndex segmentState
         then (drawCompletedSegment p q color (1 - travelProgress) (ap_brightness active) (ap_animationStyle active), [])
         else if index = sp_segmentIndex segmentState
         then (drawCometSegment (mh_spriteReady host) p q color (sp_localProgress segmentState) shimmer (ap_brightness active)
                 (ap_trailScale active) (ap_animationStyle active),
               relayOverlaysOf active p q color (sp_localProgress segmentState))
         else ([], []))"

definition draw :: "MapHost \<Rightarrow> (string, string) js_map \<Rightarrow> js_number \<Rightarrow> ActivePulse \<Rightarrow> CanvasOp list \<times> RelayOverlay list" where
  "draw host routeColors now active =
     (let parts = map (drawPulseSegment host routeColors active now) (List.enumerate 0 (ap_segments active))
      in (saved ([LineCap ''round'', LineJoin ''round''] @ concat (map fst parts)), concat (map snd parts)))"

definition drawObserverBurst :: "MapHost \<Rightarrow> js_number \<Rightarrow> ActiveObserverBurst \<Rightarrow> CanvasOp list \<times> ObserverOverlay list" where
  "drawObserverBurst host now active =
     (let elapsed = now - ab_started active;
          progress = min 1 (elapsed / ab_duration active);
          afterglowProgress = max 0 (min 1 ((elapsed - ab_duration active) / ab_afterglowDuration active));
          location = ob_location (ab_burst active);
          color = payloadColor (Some (ob_payloadTypeName (ab_burst active)));
          point = mh_project host (ol_lng location, ol_lat location);
          alpha = (if ab_duration active < elapsed then 14 / 100 * (1 - afterglowProgress) else 34 / 100) * ab_brightness active
      in if alpha \<le> 1 / 100 then ([], [])
         else let pulse = sin (progress * pi); electric = 58 / 100 + pulse * (24 / 100); outerRadius = 11 + progress * 34;
                  midRadius = 6 + progress * 21; coreRadius = 3 + pulse * (24 / 10);
                  glow = RadialGradient point 0 outerRadius [(0, colorWithAlpha ''#ffffff'' (2 / 10 * alpha)),
                    (24 / 100, colorWithAlpha color (28 / 100 * alpha)), (66 / 100, colorWithAlpha color (1 / 10 * alpha)),
                    (1, Css ''rgba(255, 255, 255, 0)'')]
              in (saved [GlobalAlpha electric, FillStyle glow, BeginPath, Arc point outerRadius, FillPath,
                    GlobalAlpha (alpha * (58 / 100)), StrokeStyle (css color), LineWidth (135 / 100), ShadowBlur 14,
                    ShadowColor (Css color), BeginPath, Arc point midRadius, StrokePath,
                    GlobalAlpha (alpha * (28 / 100)), StrokeStyle (css ''#ffffff''), LineWidth 1, BeginPath, Arc point outerRadius, StrokePath,
                    GlobalAlpha (alpha * (34 / 100 + pulse * (26 / 100))), FillStyle (css ''#ffffff''), ShadowBlur (10 + pulse * 10),
                    BeginPath, Arc point coreRadius, FillPath],
                  [\<lparr>oo_at = point, oo_color = color, oo_progress = progress, oo_alpha = alpha, oo_label = ol_label location\<rparr>]))"

section \<open>Residue\<close>

definition traceAggregatesForFrame :: "PacketAnimator \<Rightarrow> PacketAnimator" where
  "traceAggregatesForFrame s =
     (if an_traceAggregatesDirty s
      then s\<lparr>an_traceAggregates := take (packetTraceAuraBudget (an_quality s)) (rankTraceAggregates (aggregateTraceHits (an_traceHits s))),
             an_traceAggregatesDirty := False\<rparr>
      else s)"

definition observerAggregatesForFrame :: "PacketAnimator \<Rightarrow> PacketAnimator" where
  "observerAggregatesForFrame s =
     (if an_observerAggregatesDirty s
      then s\<lparr>an_observerBurstAggregates := take (packetObserverAuraBudget (an_quality s))
               (rankObserverBurstAggregates (aggregateObserverBurstHits (an_observerBurstHits s))),
             an_observerAggregatesDirty := False\<rparr>
      else s)"

definition traceLine :: "Point \<Rightarrow> Point \<Rightarrow> CanvasOp list" where
  "traceLine p q = [BeginPath, MoveTo p, LineTo q, StrokePath]"

definition drawTrace :: "MapHost \<Rightarrow> PacketVisualSettings \<Rightarrow> js_number \<Rightarrow> TraceAggregate \<Rightarrow> CanvasOp list" where
  "drawTrace host settings now trace =
     (let age = now - ta_latestAt trace;
          fade = max 0 (1 - age / TRACE_WINDOW_MS);
          intensity = min 1 (log1p (real (ta_count trace)) / log1p 18);
          p = mh_project host (la_lng (ta_from trace), la_lat (ta_from trace));
          q = mh_project host (la_lng (ta_to trace), la_lat (ta_to trace));
          alpha = routeResidueAlpha (ta_count trace) fade * pv_brightness settings * pv_trail settings;
          color = ta_color trace
      in if alpha \<le> 2 / 1000 then []
         else [GlobalAlpha (alpha * (44 / 100)), StrokeStyle (css color), LineWidth (7 + intensity * 11), ShadowBlur (24 + intensity * 34),
               ShadowColor (Css color)] @ traceLine p q @
              [GlobalAlpha alpha, StrokeStyle (css color), LineWidth (135 / 100 + intensity * (21 / 10)), ShadowBlur (10 + intensity * 20),
               ShadowColor (Css color)] @ traceLine p q @
              [GlobalAlpha (alpha * (42 / 100)), StrokeStyle (css ''#ffffff''), LineWidth (7 / 10)] @ traceLine p q @
              [ShadowBlur 0] @
              (if age < 4200 \<and> 2 \<le> ta_count trace
               then endpointPulse (mh_spriteReady host) (px q) (py q) (min 1 (age / 4200)) color (11 / 100 + intensity * (16 / 100)) else []) @
              drawRouteResidueSparkles (pv_renderQuality settings) p q color (ta_count trace) age intensity alpha)"

definition drawTraceAura :: "MapHost \<Rightarrow> js_number \<Rightarrow> PacketAnimator \<Rightarrow> PacketAnimator \<times> CanvasOp list" where
  "drawTraceAura host now s =
     (if \<not> ly_packetResidue (an_layerSettings s) \<or> pv_trail (an_visualSettings s) \<le> 0 then (s, [])
      else let s1 = traceAggregatesForFrame s
           in (s1, saved ([LineCap ''round'', LineJoin ''round''] @
                 concat (map (drawTrace host (an_visualSettings s1) now) (an_traceAggregates s1)))))"

definition auraFade :: "js_number \<Rightarrow> ObserverBurstAggregate \<Rightarrow> js_number" where
  "auraFade now burst = max 0 (1 - (now - ba_latestAt burst) / TRACE_WINDOW_MS)"

definition drawAura :: "MapHost \<Rightarrow> PacketVisualSettings \<Rightarrow> js_number \<Rightarrow> ObserverBurstAggregate \<Rightarrow> CanvasOp list" where
  "drawAura host settings now burst =
     (let fade = auraFade now burst;
          intensity = min 1 (log1p (real (ba_count burst)) / log1p 24);
          point = mh_project host (la_lng (ba_location burst), la_lat (ba_location burst));
          radius = 15 + intensity * 38;
          alpha = observerAuraAlpha (ba_count burst) fade * pv_brightness settings;
          color = ba_color burst;
          gradient = RadialGradient point 0 radius [(0, colorWithAlpha color alpha), (42 / 100, colorWithAlpha color (alpha * (42 / 100))),
            (72 / 100, colorWithAlpha color (alpha * (16 / 100))), (1, Css ''rgba(255, 255, 255, 0)'')]
      in [GlobalAlpha (86 / 100), FillStyle gradient, BeginPath, Arc point radius, FillPath] @
         (if 18 / 100 < intensity
          then [GlobalAlpha (alpha * (72 / 100)), StrokeStyle (css color), LineWidth (7 / 10 + intensity * (8 / 10)),
                ShadowBlur (10 + intensity * 12), ShadowColor (Css color), BeginPath, Arc point (8 + intensity * 11), StrokePath]
          else []))"

definition drawObserverAura :: "MapHost \<Rightarrow> js_number \<Rightarrow> PacketAnimator \<Rightarrow> PacketAnimator \<times> CanvasOp list" where
  "drawObserverAura host now s =
     (let s1 = observerAggregatesForFrame s
      in if an_observerBurstAggregates s1 = [] then (s1, [])
         else (s1, saved (concat (map (drawAura host (an_visualSettings s1) now) (an_observerBurstAggregates s1)))))"

section \<open>Mask\<close>

definition maskFeature :: "MapHost \<Rightarrow> RenderedPointFeature \<Rightarrow> CanvasOp list" where
  "maskFeature host feature =
     (case rf_point feature of None \<Rightarrow> []
      | Some coordinates \<Rightarrow>
          let point = mh_project host coordinates;
              radius = mapFeatureMaskRadius (mh_numberText host) (rf_properties feature) (mh_zoom host)
          in [MoveTo (at_point (px point + radius) (py point)), Arc point radius])"

definition maskRenderedMapLayers :: "MapHost \<Rightarrow> js_number \<Rightarrow> PacketAnimator \<Rightarrow> PacketAnimator \<times> CanvasOp list" where
  "maskRenderedMapLayers host now s =
     (let layerIDs = filter (mh_hasLayer host) (an_maskLayerIDs s)
      in if layerIDs = [] then (s, [])
         else let s1 = (if an_nextMaskRefreshAt s \<le> now
                        then s\<lparr>an_maskFeatures := mh_features host layerIDs,
                               an_nextMaskRefreshAt := now + packetMaskCacheInterval (an_quality s)\<rparr>
                        else s);
                  masks = map (maskFeature host) (an_maskFeatures s1)
              in if an_maskFeatures s1 = [] then (s1, [])
                 else (s1, saved ([Composite ''destination-out'', GlobalAlpha 1, FillStyle (css ''#000000''), BeginPath] @ concat masks @
                        (if \<exists>f \<in> set (an_maskFeatures s1). rf_point f \<noteq> None then [FillPath] else []))))"

section \<open>Frame\<close>

definition pruneTraceResidue :: "js_number \<Rightarrow> PacketAnimator \<Rightarrow> PacketAnimator" where
  "pruneTraceResidue now s =
     (if RESIDUE_PRUNE_INTERVAL_MS \<le> now - an_lastTracePruneAt s
      then let next = pruneTraceHits (an_traceHits s) now;
               s1 = (if length next \<noteq> length (an_traceHits s) then s\<lparr>an_traceHits := next, an_traceAggregatesDirty := True\<rparr> else s)
           in s1\<lparr>an_lastTracePruneAt := now\<rparr>
      else s)"

definition pruneObserverResidue :: "js_number \<Rightarrow> PacketAnimator \<Rightarrow> PacketAnimator" where
  "pruneObserverResidue now s =
     (if RESIDUE_PRUNE_INTERVAL_MS \<le> now - an_lastObserverPruneAt s
      then let next = pruneObserverBurstHits (an_observerBurstHits s) now;
               s1 = (if length next \<noteq> length (an_observerBurstHits s)
                     then s\<lparr>an_observerBurstHits := next, an_observerAggregatesDirty := True\<rparr> else s)
           in s1\<lparr>an_lastObserverPruneAt := now\<rparr>
      else s)"

definition pruneResidue :: "js_number \<Rightarrow> PacketAnimator \<Rightarrow> PacketAnimator" where
  "pruneResidue now s = pruneObserverResidue now (pruneTraceResidue now s)"

datatype FrameReport = SkippedFrame | PaintedFrame nat nat "string list"

definition clearCanvas :: "PacketAnimator \<Rightarrow> CanvasOp" where
  "clearCanvas s = ClearRect (fst (an_display s)) (snd (an_display s))"

definition expire :: "js_number \<Rightarrow> PacketAnimator \<Rightarrow> PacketAnimator" where
  "expire now s = s\<lparr>an_pulses := filter (pulse_live now) (an_pulses s), an_observerBursts := filter (burst_live now) (an_observerBursts s)\<rparr>"

definition hasActiveMotion :: "PacketAnimator \<Rightarrow> bool" where
  "hasActiveMotion s \<longleftrightarrow> an_pulses s \<noteq> [] \<or> an_observerBursts s \<noteq> []"

definition hasResidue :: "PacketAnimator \<Rightarrow> bool" where
  "hasResidue s \<longleftrightarrow> an_traceHits s \<noteq> [] \<or> an_observerBurstHits s \<noteq> []"

definition paintFrame :: "MapHost \<Rightarrow> js_number \<Rightarrow> PacketAnimator \<Rightarrow> PacketAnimator \<times> CanvasOp list" where
  "paintFrame host now s =
     (let (s1, trace) = (if an_reducedMotion s then (s, []) else drawTraceAura host now s);
          (s2, aura) = (if an_reducedMotion s1 then (s1, []) else drawObserverAura host now s1);
          pulses = map (draw host (an_routeColors s2) now) (an_pulses s2);
          bursts = map (drawObserverBurst host now) (an_observerBursts s2);
          (s3, mask) = (if hasActiveMotion s2 then maskRenderedMapLayers host now s2 else (s2, []));
          overlays = (if hasActiveMotion s2 \<and> \<not> an_reducedMotion s2
            then drawRelayOverlays (mh_spriteReady host) (concat (map snd pulses)) @
                 drawObserverOverlays (mh_spriteReady host) (concat (map snd bursts)) else [])
      in (s3, clearCanvas s # trace @ aura @ concat (map fst pulses) @ concat (map fst bursts) @ mask @ overlays))"

text \<open>The part of \<open>frame\<close> after the throttle: nothing to show, or a painted frame and the next request.\<close>

definition finishFrame :: "MapHost \<Rightarrow> js_number \<Rightarrow> PacketAnimator \<Rightarrow> PacketAnimator \<times> CanvasOp list \<times> FrameReport" where
  "finishFrame host now s =
     (if \<not> hasActiveMotion s \<and> \<not> hasResidue s
      then (s\<lparr>an_canvasHasContent := False, an_forceNextFrame := False\<rparr>,
            if an_canvasHasContent s then [clearCanvas s] else [], PaintedFrame 0 0 [])
      else let (s1, ops) = paintFrame host now (s\<lparr>an_lastRenderedAt := now, an_forceNextFrame := False\<rparr>);
               s2 = s1\<lparr>an_canvasHasContent := True\<rparr>;
               s3 = (if hasActiveMotion s2 then requestFrame 0 s2
                     else if hasResidue s then requestFrame RESIDUE_IDLE_FRAME_INTERVAL_MS s2 else s2)
           in (s3, ops, PaintedFrame (length (an_pulses s3)) (length (an_observerBursts s3))
                 (map (\<lambda>a. rp_id (ap_pulse a)) (an_pulses s3))))"

definition framePaused :: "PacketAnimator \<Rightarrow> bool" where
  "framePaused s \<longleftrightarrow> an_paused s \<and> \<not> list_ex ap_force (an_pulses s)"

definition frameTooEarly :: "js_number \<Rightarrow> PacketAnimator \<Rightarrow> bool" where
  "frameTooEarly now s \<longleftrightarrow> (let frameAge = now - an_lastRenderedAt s in
     \<not> an_forceNextFrame s \<and> 0 < an_lastRenderedAt s \<and> 0 \<le> frameAge \<and> frameAge < packetFrameInterval (an_quality s))"

definition frame :: "MapHost \<Rightarrow> js_number \<Rightarrow> PacketAnimator \<Rightarrow> PacketAnimator \<times> CanvasOp list \<times> FrameReport" where
  "frame host now s =
     (let s1 = s\<lparr>an_raf := False\<rparr>
      in if framePaused s1 then (s1, [], SkippedFrame)
         else if frameTooEarly now s1
         then (requestFrame (max 1 (packetFrameInterval (an_quality s1) - (now - an_lastRenderedAt s1))) s1, [], SkippedFrame)
         else finishFrame host now (expire now (pruneResidue now s1)))"

section \<open>The class as a step function\<close>

text \<open>
  Everything that can happen to an animator. The callbacks of the browser (\<open>AnimationFrame\<close>, \<open>IdleTimer\<close>,
  \<open>PruneInterval\<close>, \<open>MapMoved\<close>) do nothing unless the animator has them pending or installed.
\<close>

datatype animator_input =
    AnimationFrame MapHost js_number
  | IdleTimer
  | PruneInterval js_number
  | MapMoved
  | Resize CanvasBox
  | SetPaused bool
  | SetRouteColors "(string, string) js_map"
  | SetVisualSettings CanvasBox js_value
  | SetLayerSettings js_value
  | AddPulse PublicRoutePulse ReplayOptions js_number
  | AddObserverBurst PublicObserverBurst ObserverAnimationOptions js_number
  | Clear
  | Destroy

fun animator_step :: "PacketAnimator \<Rightarrow> animator_input \<Rightarrow> PacketAnimator \<times> CanvasOp list" where
  "animator_step s (AnimationFrame host now) =
     (if an_raf s then (let (s', ops, report) = frame host now s in (s', ops)) else (s, []))"
| "animator_step s IdleTimer = ((if an_idleTimer s \<noteq> None then idleTimerFired s else s), [])"
| "animator_step s (PruneInterval now) = ((if an_pruneInterval s then pruneBurstLocations now s else s), [])"
| "animator_step s MapMoved = ((if an_listening s then handleMapMotion s else s), [])"
| "animator_step s (Resize box) = (resize box s, [])"
| "animator_step s (SetPaused paused) = (setPaused paused s, [])"
| "animator_step s (SetRouteColors colors) = (setRouteColors colors s, [])"
| "animator_step s (SetVisualSettings box v) = (setVisualSettings box v s, [])"
| "animator_step s (SetLayerSettings v) = (setLayerSettings v s, [])"
| "animator_step s (AddPulse pulse options now) = (fst (add pulse options now s), [])"
| "animator_step s (AddObserverBurst burst options now) = (fst (addObserverBurst burst options now s), [])"
| "animator_step s Clear = (clear s, [clearCanvas s])"
| "animator_step s Destroy = (destroy s, [clearCanvas s])"

inductive animator_reachable :: "PacketAnimator \<Rightarrow> bool" where
  created: "animator_reachable (newPacketAnimator maskLayerIDs layers visuals reducedMotion box)"
| stepped: "animator_reachable s \<Longrightarrow> animator_reachable (fst (animator_step s i))"

end
