(* ===== verification/Settings_Correct.thy ===== *)
theory Settings_Correct
  imports Map_Settings
begin

text \<open>
  The settings of the map are right: every normalized value is within its bounds, normalization keeps
  valid settings, storage is a round trip, the migrations leave the mode and the layers in agreement,
  and the layer signature identifies the layers, so that presets and modes are recognised.
\<close>

section \<open>Literals\<close>

lemma literal_names [simp]:
  shows "isPacketAnimationStyle (JString (style_name a)) = Some a"
    and "isRenderQuality (JString (quality_name q)) = Some q"
    and "isNodeModelStyle (JString (model_name m)) = Some m"
    and "isMapModeID (JString (mode_name i)) = Some i"
  by (cases a, simp_all add: isPacketAnimationStyle_def literal_of_def)
    (cases q, simp_all add: isRenderQuality_def literal_of_def,
     cases m, simp_all add: isNodeModelStyle_def literal_of_def,
     cases i, simp_all add: isMapModeID_def literal_of_def)

section \<open>Bounds\<close>

definition in_range :: "js_number \<Rightarrow> js_number \<Rightarrow> js_number \<Rightarrow> bool" where
  "in_range lo hi x \<longleftrightarrow> lo \<le> x \<and> x \<le> hi"

definition valid_style :: "MapStyleSettings \<Rightarrow> bool" where
  "valid_style s \<longleftrightarrow> in_range 0 (78 / 100) (sy_basemapDim s) \<and> in_range 0 (14 / 10) (sy_labelDensity s) \<and>
     in_range 0 100 (sy_terrainClarity s) \<and> in_range 0 1 (sy_buildingOpacity s) \<and>
     in_range (55 / 100) (18 / 10) (sy_nodeModelScale s) \<and> in_range 0 120 (sy_nodeAltitudeMeters s) \<and>
     in_range (35 / 100) (24 / 10) (sy_routeArcAltitudeScale s)"

definition valid_packets :: "PacketVisualSettings \<Rightarrow> bool" where
  "valid_packets s \<longleftrightarrow> in_range (5 / 10) 3 (pv_speed s) \<and> in_range (4 / 10) (16 / 10) (pv_brightness s) \<and>
     in_range 0 2 (pv_trail s)"

definition valid_settings :: "MapSettings \<Rightarrow> bool" where
  "valid_settings s \<longleftrightarrow> valid_style (ms_style s) \<and> valid_packets (ms_packets s)"

lemma clampFinite_in_range: "lo \<le> hi \<Longrightarrow> clampFinite v lo hi = Some x \<Longrightarrow> in_range lo hi x"
  by (auto simp: clampFinite_def in_range_def Let_def split: option.splits js_double.splits)

lemma clampNumber_within: "in_range lo hi d \<Longrightarrow> in_range lo hi (clampNumber v lo hi d)"
  using clampFinite_in_range [of lo hi v] by (cases "clampFinite v lo hi") (auto simp: clampNumber_def in_range_def)

lemma clampNumber_fix [simp]: "in_range lo hi x \<Longrightarrow> clampNumber (JNumber (Fin x)) lo hi d = x"
  by (auto simp: clampNumber_def clampFinite_def in_range_def Let_def)

lemma terrainClarity_within: "in_range 0 100 (normalizeTerrainClarity raw)"
proof -
  have d: "in_range 0 100 (sy_terrainClarity DEFAULT_MAP_STYLE_SETTINGS)"
    by (simp add: in_range_def DEFAULT_MAP_STYLE_SETTINGS_def)
  then show ?thesis
    by (auto simp: normalizeTerrainClarity_def intro!: clampNumber_within split: option.split)
qed

lemma valid_normalizeStyle: "valid_style (normalizeStyleSettings v)"
  unfolding valid_style_def normalizeStyleSettings_def Let_def MapStyleSettings.simps
  by (intro conjI clampNumber_within terrainClarity_within) (simp_all add: in_range_def DEFAULT_MAP_STYLE_SETTINGS_def)

lemma valid_normalizePackets: "valid_packets (normalizePacketVisualSettings v)"
  unfolding valid_packets_def normalizePacketVisualSettings_def Let_def PacketVisualSettings.simps
  by (intro conjI clampNumber_within) (simp_all add: in_range_def DEFAULT_PACKET_VISUAL_SETTINGS_def)

lemma valid_normalize: "valid_settings (normalizeMapSettings v)"
  by (simp add: valid_settings_def normalizeMapSettings_def Let_def valid_normalizeStyle valid_normalizePackets)

lemma valid_DEFAULT: "valid_settings DEFAULT_MAP_SETTINGS"
  by (simp add: valid_settings_def valid_style_def valid_packets_def in_range_def DEFAULT_MAP_SETTINGS_def
      DEFAULT_MAP_STYLE_SETTINGS_def DEFAULT_PACKET_VISUAL_SETTINGS_def)

lemma valid_spread [simp]: "valid_packets (spreadPacketVisuals s p) = valid_packets s"
  by (simp add: valid_packets_def spreadPacketVisuals_def split: option.split)

section \<open>Normalization keeps valid settings\<close>

lemma normalizeStyle_value [simp]: "valid_style s \<Longrightarrow> normalizeStyleSettings (style_value s) = s"
  unfolding valid_style_def
  by (simp add: normalizeStyleSettings_def style_value_def Let_def normalizeTerrainClarity_def)

lemma normalizeLayers_value [simp]: "normalizeLayerSettings (layers_value s) = s"
  by (simp add: normalizeLayerSettings_def layers_value_def boolOrDefault_def Let_def)

lemma normalizePackets_value [simp]: "valid_packets s \<Longrightarrow> normalizePacketVisualSettings (packets_value s) = s"
  unfolding valid_packets_def
  by (simp add: normalizePacketVisualSettings_def packets_value_def boolOrDefault_def Let_def)

lemma normalize_props:
  "valid_settings s \<Longrightarrow> normalizeMapSettings (JObject ((''schemaVersion'', x) # settings_props s)) = s"
  "valid_settings s \<Longrightarrow> normalizeMapSettings (JObject (settings_props s)) = s"
  by (simp_all add: valid_settings_def normalizeMapSettings_def settings_props_def Let_def)

lemma renormalize_valid [simp]: "valid_settings s \<Longrightarrow> renormalize s = s"
  by (simp add: renormalize_def normalize_props)

lemma valid_renormalize [simp]: "valid_settings (renormalize s)"
  by (simp add: renormalize_def valid_normalize)

section \<open>Signatures and modes\<close>

lemma bit_string_inj:
  "concat (map (\<lambda>b. if b then ''1'' else ''0'') xs) = concat (map (\<lambda>b. if b then ''1'' else ''0'') ys) \<longleftrightarrow> xs = ys"
  by (induction xs arbitrary: ys; case_tac ys) auto

lemma signature_inj [simp]: "layerSettingsSignature a = layerSettingsSignature b \<longleftrightarrow> a = b"
  unfolding layerSettingsSignature_def bit_string_inj
  by (cases a; cases b) auto

lemma mode_name_inj [simp]: "mode_name a = mode_name b \<longleftrightarrow> a = b"
  by (cases a; cases b) simp_all

lemma mode_by_name [simp]: "md_id (mapModeByID (Some (mode_name m)) f) = m"
  by (cases m) (simp_all add: mapModeByID_def MAP_MODES_def)

lemma mode_exact: "mapModeExactIDForSettings s = Some m \<longleftrightarrow>
    sy_profileID (ms_style s) = md_profileID (mapModeByID (Some (mode_name m)) Watch) \<and>
    ms_layers s = md_layers (mapModeByID (Some (mode_name m)) Watch)"
  by (cases m; cases "ms_layers s") (auto simp: mapModeExactIDForSettings_def mapModeByID_def MAP_MODES_def DEFAULT_MAP_LAYER_SETTINGS_def Let_def)

section \<open>Migrations\<close>

lemma valid_layers_update [simp]:
  "valid_settings (s\<lparr>ms_layers := l\<rparr>) = valid_settings s"
  "valid_settings (s\<lparr>ms_modeID := m\<rparr>) = valid_settings s"
  "valid_settings (s\<lparr>ms_customized := c\<rparr>) = valid_settings s"
  "valid_settings (s\<lparr>ms_packets := spreadPacketVisuals (ms_packets s) q\<rparr>) = valid_settings s"
  by (simp_all add: valid_settings_def)

lemma valid_migrate [simp]:
  "valid_settings (migrateBefore2 v l s) = valid_settings s"
  "valid_settings (migrateBefore6 v s) = valid_settings s"
  "valid_settings (migrateBefore7 v m s) = valid_settings s"
  "valid_settings (migrateBefore8 v s) = valid_settings s"
  by (simp_all add: migrateBefore2_def migrateBefore6_def migrateBefore7_def migrateBefore8_def Let_def)
    (simp add: valid_settings_def)

lemma migrate_current [simp]:
  "migrateBefore2 (Fin 8) l s = s" "migrateBefore6 (Fin 8) s = s"
  "migrateBefore7 (Fin 8) (JString (mode_name m)) s = s" "migrateBefore8 (Fin 8) s = s"
  by (simp_all add: migrateBefore2_def migrateBefore6_def migrateBefore7_def migrateBefore8_def)

lemma mode_exact_migrate:
  fixes x m s
  assumes "double_less x (Fin 7)"
  defines "t \<equiv> migrateBefore8 x (migrateBefore7 x m s)"
  shows "ms_customized t \<longleftrightarrow> mapModeExactIDForSettings t \<noteq> Some (ms_modeID t)"
proof -
  let ?u = "migrateBefore7 x m s"
  have u: "ms_customized ?u \<longleftrightarrow> mapModeExactIDForSettings ?u \<noteq> Some (ms_modeID ?u)"
    using assms(1) by (simp add: migrateBefore7_def Let_def mode_exact)
  show ?thesis
  proof (cases "ms_modeID ?u = Watch \<and> \<not> ms_customized ?u")
    case True
    then have "sy_profileID (ms_style ?u) = md_profileID (mapModeByID (Some (mode_name Watch)) Watch)"
      using u by (simp add: mode_exact del: mode_name.simps)
    moreover have "double_less x (Fin 8)" using assms(1) by (cases x) simp_all
    ultimately have "\<not> ms_customized t" "ms_modeID t = Watch"
        "sy_profileID (ms_style t) = md_profileID (mapModeByID (Some (mode_name Watch)) Watch)"
        "ms_layers t = md_layers (mapModeByID (Some (mode_name Watch)) Watch)"
      using True unfolding t_def migrateBefore8_def Let_def by (simp_all only: if_True conj_assoc simp_thms) simp_all
    then show ?thesis unfolding mode_exact by simp
  next
    case False
    then have "migrateBefore8 x ?u = ?u" by (auto simp: migrateBefore8_def)
    then show ?thesis using u unfolding t_def by simp
  qed
qed

lemma valid_stored: "valid_settings (normalizeStoredMapSettings v)"
  by (simp add: normalizeStoredMapSettings_def Let_def valid_normalize)

lemma valid_read: "valid_settings (readStoredMapSettings item)"
  by (simp add: readStoredMapSettings_def valid_stored valid_DEFAULT split: storage_item.split)

lemma stored_current:
  assumes "valid_settings s"
  shows "normalizeStoredMapSettings
    (JObject ((''schemaVersion'', JNumber (Fin MAP_SETTINGS_SCHEMA_VERSION)) # settings_props s)) = s"
proof -
  let ?o = "JObject ((''schemaVersion'', JNumber (Fin MAP_SETTINGS_SCHEMA_VERSION)) # settings_props s)"
  have v: "get_prop ?o ''schemaVersion'' = JNumber (Fin 8)" by (simp add: MAP_SETTINGS_SCHEMA_VERSION_def)
  have m: "get_prop ?o ''modeID'' = JString (mode_name (ms_modeID s))" by (simp add: settings_props_def)
  show ?thesis
    unfolding normalizeStoredMapSettings_def Let_def record_or_empty_object v m
    by (simp add: normalize_props(1) [OF assms] del: mode_name.simps)
qed

lemma read_write: "readStoredMapSettings (writeStoredMapSettings s) = renormalize s"
  by (simp add: readStoredMapSettings_def writeStoredMapSettings_def stored_current)

section \<open>Properties\<close>

text \<open>
  C11. Whatever the storage holds (nothing, a text that is no JSON, a value of any type, settings of any
  schema version), loading succeeds with settings within their bounds, and saving these settings and
  loading them again gives them back unchanged: no migration is applied twice. Saving arbitrary settings
  and loading them gives their normalization.
\<close>

theorem settings_storage_roundtrip:
  "valid_settings (readStoredMapSettings item) \<and>
   readStoredMapSettings (writeStoredMapSettings (readStoredMapSettings item)) = readStoredMapSettings item \<and>
   readStoredMapSettings (writeStoredMapSettings s) = renormalize s"
  by (simp add: read_write valid_read)

text \<open>
  Settings stored by a schema older than 7 are migrated to settings that are marked customized exactly
  when their profile and layers are not those of the mode they are assigned.
\<close>

lemma migration_marks_customized:
  assumes "get_prop v ''schemaVersion'' = JNumber x" and "double_less x (Fin 7)"
  shows "ms_customized (normalizeStoredMapSettings v) \<longleftrightarrow>
    mapModeExactIDForSettings (normalizeStoredMapSettings v) \<noteq> Some (ms_modeID (normalizeStoredMapSettings v))"
proof -
  have r: "record_or_empty v = v" using assms(1) by (cases v) (simp_all add: record_or_empty_def)
  show ?thesis
    unfolding normalizeStoredMapSettings_def Let_def r assms(1) js_value.case
    by (rule mode_exact_migrate [OF assms(2)])
qed

lemma migration_marks_customized_witness:
  "ms_customized (normalizeStoredMapSettings (JObject [(''schemaVersion'', JNumber (Fin 3))])) \<longleftrightarrow>
    mapModeExactIDForSettings (normalizeStoredMapSettings (JObject [(''schemaVersion'', JNumber (Fin 3))])) \<noteq>
      Some (ms_modeID (normalizeStoredMapSettings (JObject [(''schemaVersion'', JNumber (Fin 3))])))"
  by (rule migration_marks_customized [where x = "Fin 3"]) simp_all

text \<open>
  A mode and a preset are recognised after they are applied: the settings are those of exactly that mode,
  not marked customized, and the layers are those of exactly that preset; two layer settings have the same
  signature only when they are equal.
\<close>

lemma mode_and_preset_recognised:
  "mapModeExactIDForSettings (applyMapMode s m) = Some m \<and> md_id (mapModeForSettings (applyMapMode s m)) = m \<and>
   mapLayerPresetIDForSettings (ms_layers (applyMapLayerPreset s p)) = Some p \<and>
   (layerSettingsSignature a = layerSettingsSignature b) = (a = b)"
proof -
  have n: "ms_layers (renormalize t) = ms_layers t" "ms_modeID (renormalize t) = ms_modeID t"
    "ms_customized (renormalize t) = ms_customized t"
    "sy_profileID (ms_style (renormalize t)) = sy_profileID (ms_style t)" for t
    by (simp_all add: renormalize_def normalizeMapSettings_def settings_props_def Let_def
        normalizeStyleSettings_def style_value_def)
  have "mapLayerPresetIDForSettings (ms_layers (applyMapLayerPreset s p)) = Some p"
    by (cases p) (simp_all add: applyMapLayerPreset_def n MAP_LAYER_PRESETS_def mapLayerPresetIDForSettings_def
        DEFAULT_MAP_LAYER_SETTINGS_def)
  then show ?thesis
    by (simp add: applyMapMode_def n mode_exact mapModeForSettings_def Let_def)
qed

text \<open>
  Selecting a style profile selects that profile, marks the settings customized, shows the height map
  exactly when the profile does by default, and under a profile for low bandwidth turns off every costly
  layer and leaves no comet animation.
\<close>

lemma style_profile_applied:
  fixes s p
  assumes "sp_lowBandwidth (mapStyleProfileByID (Some (profile_name p)) ClassicDark)"
  defines "t \<equiv> applyMapStyleProfile s p"
  shows "sy_profileID (ms_style t) = p \<and> ms_customized t \<and> valid_settings t \<and>
    ly_terrainHeightmap (ms_layers t) = sp_terrainDefault (mapStyleProfileByID (Some (profile_name p)) ClassicDark) \<and>
    \<not> (ly_activityHeatmap (ms_layers t) \<or> ly_packetResidue (ms_layers t) \<or> ly_messageBubbles (ms_layers t) \<or>
       ly_buildingExtrusions (ms_layers t) \<or> ly_nodeModels3D (ms_layers t) \<or> ly_routeArcs3D (ms_layers t) \<or>
       ly_packetComets3D (ms_layers t) \<or> ly_weatherClouds (ms_layers t)) \<and>
    pv_renderQuality (ms_packets t) = Smooth \<and> pv_animationStyle (ms_packets t) \<noteq> Comet"
proof -
  have n: "ms_layers (renormalize t) = ms_layers t" "ms_customized (renormalize t) = ms_customized t"
    "sy_profileID (ms_style (renormalize t)) = sy_profileID (ms_style t)"
    "pv_renderQuality (ms_packets (renormalize t)) = pv_renderQuality (ms_packets t)"
    "pv_animationStyle (ms_packets (renormalize t)) = pv_animationStyle (ms_packets t)" for t
    by (simp_all add: renormalize_def normalizeMapSettings_def settings_props_def Let_def
        normalizeStyleSettings_def style_value_def normalizePacketVisualSettings_def packets_value_def)
  have "p \<noteq> OpenFreeMap3D" "p \<noteq> TopoRF"
    using assms(1) by (auto simp: mapStyleProfileByID_def MAP_STYLE_PROFILES_def MapStyleProfile.defs)
  then show ?thesis
    using assms(1) unfolding t_def applyMapStyleProfile_def Let_def by (simp add: n)
qed

lemma style_profile_applied_witness:
  "pv_renderQuality (ms_packets (applyMapStyleProfile DEFAULT_MAP_SETTINGS LowBandwidth)) = Smooth"
  using style_profile_applied [of LowBandwidth DEFAULT_MAP_SETTINGS]
  by (simp add: mapStyleProfileByID_def MAP_STYLE_PROFILES_def MapStyleProfile.defs)

end
