(* ===== verification/Packet_Animator_Correct.thy ===== *)
theory Packet_Animator_Correct
  imports Packet_Frame Settings_Correct
begin

text \<open>
  The animator of packets: its drawing leaves the canvas as it was, it never stops while there is something to
  animate or to fade, its lists and durations are bounded, and the cached aggregates of the residue are always
  those of its hits.
\<close>

section \<open>Drawing is bracketed\<close>

lemma levelled_parts [levels]:
  shows "levelled (drawEffectSprite ready key x y w a)"
    and "levelled (endpointPulse ready x y p c a)"
    and "levelled (drawCompletedSegment u v c f b st)"
    and "levelled (drawAfterglowSegment u v c al sh b t st)"
    and "levelled (drawCometSparks h u v c sh pr)"
    and "levelled (drawRouteResidueSparkles q u v c n ag i al)"
    and "levelled (drawArrivalSparkle ready h c pr al)"
  unfolding endpointPulse_def drawEffectSprite_def drawCompletedSegment_def drawAfterglowSegment_def drawCometSparks_def
    drawRouteResidueSparkles_def drawArrivalSparkle_def cometSpark_def residueSparkle_def sparkleRay_def Let_def
  by (intro levels; simp)+

lemma levelled_comet [levels]: "levelled (drawCometSegment ready p q c pr sh b t st)"
  unfolding drawCometSegment_def cometLine_def Let_def by (intro levels; simp)

lemma bracketed_overlays [levels]:
  shows "bracketed (drawRelayOverlays ready overlays)" and "bracketed (drawObserverOverlays ready marks)"
  unfolding drawRelayOverlays_def drawRelayOverlay_def drawObserverOverlays_def drawObserverOverlay_def Let_def
  by (intro levels; simp)+

lemma bracketed_draw [levels]: "bracketed (fst (draw host colors now active))"
  unfolding draw_def Let_def fst_conv
proof (intro levels; (simp; fail)?)
  fix x
  assume "x \<in> set (map (drawPulseSegment host colors active now) (List.enumerate 0 (ap_segments active)))"
  then show "levelled (fst x)"
    by (auto simp: drawPulseSegment_def Let_def intro: levels)
qed

lemma bracketed_burst [levels]: "bracketed (fst (drawObserverBurst host now active))"
  unfolding drawObserverBurst_def Let_def by (auto intro!: levels)

lemma bracketed_residue [levels]:
  shows "bracketed (snd (drawTraceAura host now s))" and "bracketed (snd (drawObserverAura host now s))"
    and "bracketed (snd (maskRenderedMapLayers host now s))"
proof -
  have trace: "levelled (drawTrace host v now t)" for v t
    unfolding drawTrace_def traceLine_def Let_def by (intro levels; simp)
  show "bracketed (snd (drawTraceAura host now s))"
    unfolding drawTraceAura_def Let_def by (auto intro!: levels trace)
  have aura: "levelled (drawAura host v now t)" for v t
    unfolding drawAura_def Let_def by (intro levels; simp)
  show "bracketed (snd (drawObserverAura host now s))"
    unfolding drawObserverAura_def Let_def by (auto intro!: levels aura)
  have mask: "levelled (maskFeature host f)" for f
    unfolding maskFeature_def Let_def by (auto intro!: levels split: option.split)
  show "bracketed (snd (maskRenderedMapLayers host now s))"
    unfolding maskRenderedMapLayers_def Let_def
    by (auto intro!: levels mask)
qed

lemma bracketed_paint: "bracketed (snd (paintFrame host now s))"
proof -
  have whole: "bracketed (clearCanvas s # tr @ au @ concat (map fst (map (draw host colors now) ps)) @
      concat (map fst (map (drawObserverBurst host now) bs)) @ mk @
      (if c then drawRelayOverlays r x @ drawObserverOverlays r y else []))"
    if "bracketed tr" "bracketed au" "bracketed mk" for tr au mk colors ps bs c r x y
    unfolding clearCanvas_def map_map by (intro levels that; simp add: levels)
  have guarded: "bracketed (snd (if b then (t, []) else x))" "bracketed (snd (if b then x else (t, [])))"
    if "bracketed (snd x)" for b t and x :: "PacketAnimator \<times> CanvasOp list"
    using that by (simp_all add: levels)
  show ?thesis
    unfolding paintFrame_def Let_def case_prod_unfold snd_conv
    by (intro whole guarded levels)
qed

lemma bracketed_step: "bracketed (snd (animator_step s i))"
proof (cases i)
  case (AnimationFrame host now)
  have "bracketed (fst (snd (finishFrame host now t)))" for t
    unfolding finishFrame_def Let_def case_prod_unfold clearCanvas_def
    using bracketed_paint [of host now] by (simp add: levels)
  then have "bracketed (fst (snd (frame host now s)))"
    by (simp add: frame_def Let_def levels)
  then show ?thesis by (simp add: AnimationFrame case_prod_unfold Let_def levels)
qed (auto simp: clearCanvas_def intro: levels)

section \<open>It keeps running\<close>

text \<open>
  Something is to be shown or taken away: motion, residue or old pixels, while frames are painted at all. Then a
  frame or a timer is pending.
\<close>

definition scheduled :: "PacketAnimator \<Rightarrow> bool" where
  "scheduled s \<longleftrightarrow> an_raf s \<or> an_idleTimer s \<noteq> None"

definition frames_painted :: "PacketAnimator \<Rightarrow> bool" where
  "frames_painted s \<longleftrightarrow> \<not> an_paused s \<or> list_ex ap_force (an_pulses s)"

definition wanted :: "PacketAnimator \<Rightarrow> bool" where
  "wanted s \<longleftrightarrow> frames_painted s \<and> (hasActiveMotion s \<or> hasResidue s \<or> an_canvasHasContent s)"

definition one_callback :: "PacketAnimator \<Rightarrow> bool" where
  "one_callback s \<longleftrightarrow> \<not> (an_raf s \<and> an_idleTimer s \<noteq> None)"

lemma requestFrame_fields [simp]:
  "an_pulses (requestFrame d s) = an_pulses s" "an_traceHits (requestFrame d s) = an_traceHits s"
  "an_observerBursts (requestFrame d s) = an_observerBursts s" "an_observerBurstHits (requestFrame d s) = an_observerBurstHits s"
  "an_paused (requestFrame d s) = an_paused s" "an_canvasHasContent (requestFrame d s) = an_canvasHasContent s"
  "an_traceAggregates (requestFrame d s) = an_traceAggregates s"
  "an_observerBurstAggregates (requestFrame d s) = an_observerBurstAggregates s"
  "an_traceAggregatesDirty (requestFrame d s) = an_traceAggregatesDirty s"
  "an_observerAggregatesDirty (requestFrame d s) = an_observerAggregatesDirty s"
  "an_visualSettings (requestFrame d s) = an_visualSettings s" "an_layerSettings (requestFrame d s) = an_layerSettings s"
  by (simp_all add: requestFrame_def)

lemma scheduled_requestFrame [simp]: "scheduled (requestFrame d s)"
  by (auto simp: requestFrame_def scheduled_def)

lemma one_callback_requestFrame [simp]: "one_callback s \<Longrightarrow> one_callback (requestFrame d s)"
  by (auto simp: requestFrame_def one_callback_def)

lemma resize_cases:
  obtains (same) d where "resize b s = s\<lparr>an_display := d\<rparr>"
  | (changed) d k where
      "resize b s = requestFrame 0 (s\<lparr>an_display := d, an_backing := k, an_nextMaskRefreshAt := 0, an_forceNextFrame := True\<rparr>)"
proof (cases "canvasBacking b (an_quality s) = an_backing s")
  case True
  then show thesis by (intro that(1)) (simp add: resize_def)
next
  case False
  then show thesis by (intro that(2)) (simp add: resize_def)
qed

lemma resize_fields [simp]:
  "an_pulses (resize b s) = an_pulses s" "an_traceHits (resize b s) = an_traceHits s"
  "an_observerBursts (resize b s) = an_observerBursts s" "an_observerBurstHits (resize b s) = an_observerBurstHits s"
  "an_paused (resize b s) = an_paused s" "an_canvasHasContent (resize b s) = an_canvasHasContent s"
  "an_traceAggregates (resize b s) = an_traceAggregates s"
  "an_observerBurstAggregates (resize b s) = an_observerBurstAggregates s"
  "an_traceAggregatesDirty (resize b s) = an_traceAggregatesDirty s"
  "an_observerAggregatesDirty (resize b s) = an_observerAggregatesDirty s"
  "an_visualSettings (resize b s) = an_visualSettings s" "an_layerSettings (resize b s) = an_layerSettings s"
  by (cases rule: resize_cases [of b s]; simp)+

lemma resize_schedule: "scheduled s \<Longrightarrow> scheduled (resize b s)" "one_callback s \<Longrightarrow> one_callback (resize b s)"
  by (cases rule: resize_cases [of b s]; simp add: scheduled_def one_callback_def requestFrame_def)+

lemma aura_fields [simp]:
  "an_pulses (traceAggregatesForFrame s) = an_pulses s" "an_pulses (observerAggregatesForFrame s) = an_pulses s"
  "an_traceHits (traceAggregatesForFrame s) = an_traceHits s" "an_traceHits (observerAggregatesForFrame s) = an_traceHits s"
  "an_observerBursts (traceAggregatesForFrame s) = an_observerBursts s"
  "an_observerBursts (observerAggregatesForFrame s) = an_observerBursts s"
  "an_observerBurstHits (traceAggregatesForFrame s) = an_observerBurstHits s"
  "an_observerBurstHits (observerAggregatesForFrame s) = an_observerBurstHits s"
  "an_raf (traceAggregatesForFrame s) = an_raf s" "an_raf (observerAggregatesForFrame s) = an_raf s"
  "an_idleTimer (traceAggregatesForFrame s) = an_idleTimer s" "an_idleTimer (observerAggregatesForFrame s) = an_idleTimer s"
  "an_visualSettings (traceAggregatesForFrame s) = an_visualSettings s"
  "an_visualSettings (observerAggregatesForFrame s) = an_visualSettings s"
  by (simp_all add: traceAggregatesForFrame_def observerAggregatesForFrame_def)

text \<open>Painting only fills the caches.\<close>

lemma mask_cases:
  obtains (same) "fst (maskRenderedMapLayers h now s) = s"
  | (asked) fs m where "fst (maskRenderedMapLayers h now s) = s\<lparr>an_maskFeatures := fs, an_nextMaskRefreshAt := m\<rparr>"
proof (cases "filter (mh_hasLayer h) (an_maskLayerIDs s) = [] \<or> \<not> an_nextMaskRefreshAt s \<le> now")
  case True
  then show thesis by (intro that(1)) (auto simp: maskRenderedMapLayers_def Let_def)
next
  case False
  then show thesis
    by (intro that(2) [of "now + packetMaskCacheInterval (an_quality s)" "mh_features h (filter (mh_hasLayer h) (an_maskLayerIDs s))"])
      (simp add: maskRenderedMapLayers_def Let_def)
qed

lemma paint_invariant:
  assumes "P s" and "\<And>t. P t \<Longrightarrow> P (traceAggregatesForFrame t)" and "\<And>t. P t \<Longrightarrow> P (observerAggregatesForFrame t)"
    and mask: "\<And>t fs m. P t \<Longrightarrow> P (t\<lparr>an_maskFeatures := fs, an_nextMaskRefreshAt := m\<rparr>)"
  shows "P (fst (paintFrame h now s))"
proof -
  define t where "t = fst (if an_reducedMotion s then (s, []) else drawTraceAura h now s)"
  define u where "u = fst (if an_reducedMotion t then (t, []) else drawObserverAura h now t)"
  have "P t" using assms(1,2) by (simp add: t_def drawTraceAura_def Let_def)
  then have "P u" using assms(3) by (simp add: u_def drawObserverAura_def Let_def)
  moreover have "P (fst (maskRenderedMapLayers h now u))"
    using \<open>P u\<close> mask by (cases rule: mask_cases [of h now u]) simp_all
  moreover have "fst (paintFrame h now s) = (if hasActiveMotion u then fst (maskRenderedMapLayers h now u) else u)"
    unfolding paintFrame_def Let_def case_prod_unfold t_def u_def by simp
  ultimately show ?thesis by simp
qed

lemma paint_fields [simp]:
  "an_pulses (fst (paintFrame h now s)) = an_pulses s" "an_traceHits (fst (paintFrame h now s)) = an_traceHits s"
  "an_observerBursts (fst (paintFrame h now s)) = an_observerBursts s"
  "an_observerBurstHits (fst (paintFrame h now s)) = an_observerBurstHits s"
  "an_raf (fst (paintFrame h now s)) = an_raf s" "an_idleTimer (fst (paintFrame h now s)) = an_idleTimer s"
  "an_visualSettings (fst (paintFrame h now s)) = an_visualSettings s"
  by (rule paint_invariant [where P = "\<lambda>t. an_pulses t = an_pulses s"]
        paint_invariant [where P = "\<lambda>t. an_traceHits t = an_traceHits s"]
        paint_invariant [where P = "\<lambda>t. an_observerBursts t = an_observerBursts s"]
        paint_invariant [where P = "\<lambda>t. an_observerBurstHits t = an_observerBurstHits s"]
        paint_invariant [where P = "\<lambda>t. an_raf t = an_raf s"] paint_invariant [where P = "\<lambda>t. an_idleTimer t = an_idleTimer s"]
        paint_invariant [where P = "\<lambda>t. an_visualSettings t = an_visualSettings s"]; simp)+

lemma prune_fields [simp]:
  "an_raf (pruneResidue now s) = an_raf s" "an_idleTimer (pruneResidue now s) = an_idleTimer s"
  "an_pulses (pruneResidue now s) = an_pulses s" "an_observerBursts (pruneResidue now s) = an_observerBursts s"
  "an_visualSettings (pruneResidue now s) = an_visualSettings s"
  by (simp_all add: pruneResidue_def pruneTraceResidue_def pruneObserverResidue_def Let_def)

text \<open>The ways a frame can go.\<close>

lemma frame_cases:
  obtains (skipped) "fst (frame h now s) = s\<lparr>an_raf := False\<rparr>" "an_paused s" "\<not> list_ex ap_force (an_pulses s)"
  | (throttled) d where "fst (frame h now s) = requestFrame d (s\<lparr>an_raf := False\<rparr>)"
  | (idle) t where "t = expire now (pruneResidue now (s\<lparr>an_raf := False\<rparr>))" "\<not> hasActiveMotion t" "\<not> hasResidue t"
      "fst (frame h now s) = t\<lparr>an_canvasHasContent := False, an_forceNextFrame := False\<rparr>"
  | (painted) t d where "t = expire now (pruneResidue now (s\<lparr>an_raf := False\<rparr>))"
      "fst (frame h now s) = requestFrame d
         (fst (paintFrame h now (t\<lparr>an_lastRenderedAt := now, an_forceNextFrame := False\<rparr>))\<lparr>an_canvasHasContent := True\<rparr>)"
proof -
  define t where "t = expire now (pruneResidue now (s\<lparr>an_raf := False\<rparr>))"
  define u where "u = fst (paintFrame h now (t\<lparr>an_lastRenderedAt := now, an_forceNextFrame := False\<rparr>))\<lparr>an_canvasHasContent := True\<rparr>"
  have "hasActiveMotion u = hasActiveMotion t"
    by (simp add: hasActiveMotion_def u_def)
  then have finish: "fst (finishFrame h now t) =
    (if \<not> hasActiveMotion t \<and> \<not> hasResidue t then t\<lparr>an_canvasHasContent := False, an_forceNextFrame := False\<rparr>
     else requestFrame (if hasActiveMotion t then 0 else RESIDUE_IDLE_FRAME_INTERVAL_MS) u)"
    unfolding finishFrame_def Let_def case_prod_unfold u_def [symmetric] by simp
  let ?s = "s\<lparr>an_raf := False\<rparr>"
  have frame: "framePaused ?s \<Longrightarrow> fst (frame h now s) = ?s"
    "\<not> framePaused ?s \<Longrightarrow> frameTooEarly now ?s \<Longrightarrow> \<exists>d. fst (frame h now s) = requestFrame d ?s"
    "\<not> framePaused ?s \<Longrightarrow> \<not> frameTooEarly now ?s \<Longrightarrow> fst (frame h now s) = fst (finishFrame h now t)"
    unfolding frame_def Let_def t_def by auto
  have paused: "framePaused ?s \<longleftrightarrow> an_paused s \<and> \<not> list_ex ap_force (an_pulses s)" by (simp add: framePaused_def)
  consider "fst (frame h now s) = s\<lparr>an_raf := False\<rparr>" "an_paused s" "\<not> list_ex ap_force (an_pulses s)"
    | d where "fst (frame h now s) = requestFrame d (s\<lparr>an_raf := False\<rparr>)"
    | "fst (frame h now s) = fst (finishFrame h now t)"
    using frame paused by blast
  then show thesis
  proof cases
    case 3
    then show thesis
      using that(3) [of t] that(4) [of t] finish unfolding t_def u_def by (auto split: if_splits)
  qed (use that in blast)+
qed

definition animator_running :: "PacketAnimator \<Rightarrow> bool" where
  "animator_running s \<longleftrightarrow> (wanted s \<longrightarrow> scheduled s) \<and> one_callback s"

lemma running_requestFrame [simp]: "one_callback s \<Longrightarrow> animator_running (requestFrame d s)"
  by (simp add: animator_running_def)

lemma running_frame: "animator_running (fst (frame h now s))" if "one_callback s"
proof (cases rule: frame_cases [of h now s])
  case skipped
  then show ?thesis by (simp add: animator_running_def wanted_def frames_painted_def one_callback_def)
next
  case (throttled d)
  then show ?thesis by (simp add: one_callback_def)
next
  case (idle t)
  have "\<not> wanted (fst (frame h now s))"
    using idle by (simp add: wanted_def hasActiveMotion_def hasResidue_def)
  moreover have "one_callback (fst (frame h now s))"
    using idle by (simp add: one_callback_def expire_def)
  ultimately show ?thesis by (simp add: animator_running_def)
next
  case (painted t d)
  then show ?thesis by (simp add: one_callback_def expire_def)
qed

lemma wanted_cong:
  "an_paused s = an_paused t \<Longrightarrow> an_pulses s = an_pulses t \<Longrightarrow> an_observerBursts s = an_observerBursts t \<Longrightarrow>
   an_traceHits s = an_traceHits t \<Longrightarrow> an_observerBurstHits s = an_observerBurstHits t \<Longrightarrow>
   an_canvasHasContent s = an_canvasHasContent t \<Longrightarrow> wanted s = wanted t"
  by (simp add: wanted_def frames_painted_def hasActiveMotion_def hasResidue_def)

lemma one_callback_fields [simp]:
  "one_callback (s\<lparr>an_forceNextFrame := f\<rparr>) = one_callback s" "one_callback (s\<lparr>an_paused := p\<rparr>) = one_callback s"
  "one_callback (s\<lparr>an_pulses := ps\<rparr>) = one_callback s" "one_callback (s\<lparr>an_observerBursts := bs\<rparr>) = one_callback s"
  "one_callback (s\<lparr>an_visualSettings := v\<rparr>) = one_callback s" "one_callback (s\<lparr>an_layerSettings := l\<rparr>) = one_callback s"
  "one_callback (s\<lparr>an_traceHits := th\<rparr>) = one_callback s" "one_callback (s\<lparr>an_observerBurstHits := bh\<rparr>) = one_callback s"
  "one_callback (s\<lparr>an_traceAggregatesDirty := d\<rparr>) = one_callback s" "one_callback (s\<lparr>an_observerAggregatesDirty := d\<rparr>) = one_callback s"
  "one_callback (s\<lparr>an_nextMaskRefreshAt := m\<rparr>) = one_callback s"
  "one_callback (s\<lparr>an_observerBurstLastAtByLocation := b\<rparr>) = one_callback s" "one_callback (s\<lparr>an_routeColors := c\<rparr>) = one_callback s"
  by (simp_all add: one_callback_def)

lemma running_unchanged:
  assumes "animator_running s" and "wanted t = wanted s" and "an_raf t = an_raf s" and "an_idleTimer t = an_idleTimer s"
  shows "animator_running t"
  using assms by (simp add: animator_running_def scheduled_def one_callback_def)

lemma running_add: "animator_running s \<Longrightarrow> animator_running (fst (add pulse options now s))"
  by (auto simp: add_def Let_def pushTraceHits_def intro!: running_requestFrame) (auto simp: animator_running_def)

lemma running_addObserverBurst: "animator_running s \<Longrightarrow> animator_running (fst (addObserverBurst burst options now s))"
  by (auto simp: addObserverBurst_def Let_def intro!: running_requestFrame) (auto simp: animator_running_def)

lemma running_resize: "animator_running s \<Longrightarrow> animator_running (resize box s)"
proof -
  assume r: "animator_running s"
  have "wanted (resize box s) = wanted s" by (rule wanted_cong) simp_all
  then show ?thesis using r resize_schedule [of s box] by (simp add: animator_running_def)
qed

lemma running_step: "animator_running s \<Longrightarrow> animator_running (fst (animator_step s i))"
proof -
  assume r: "animator_running s"
  then have one: "one_callback s" by (simp add: animator_running_def)
  show ?thesis
  proof (cases i)
    case (AnimationFrame host now)
    then show ?thesis using r running_frame [OF one, of host now] by (simp add: case_prod_unfold Let_def)
  next
    case IdleTimer
    have "one_callback (s\<lparr>an_idleTimer := None\<rparr>)" by (simp add: one_callback_def)
    then show ?thesis using r IdleTimer by (simp add: idleTimerFired_def)
  next
    case (PruneInterval now)
    have "animator_running (pruneBurstLocations now s)"
      by (rule running_unchanged [OF r]) (simp_all add: pruneBurstLocations_def wanted_def frames_painted_def hasActiveMotion_def hasResidue_def)
    then show ?thesis using r PruneInterval by simp
  next
    case (SetPaused p)
    then show ?thesis
      using r one by (simp add: setPaused_def Let_def) (simp add: animator_running_def wanted_def frames_painted_def scheduled_def
          hasActiveMotion_def hasResidue_def)
  next
    case (SetRouteColors c)
    have "animator_running (setRouteColors c s)"
      by (rule running_unchanged [OF r]) (simp_all add: setRouteColors_def wanted_def frames_painted_def hasActiveMotion_def hasResidue_def)
    then show ?thesis using SetRouteColors by simp
  next
    case (SetVisualSettings box v)
    then show ?thesis using one by (simp add: setVisualSettings_def Let_def resize_schedule(2))
  next
    case (Resize box)
    then show ?thesis using r by (simp add: running_resize)
  next
    case Clear
    then show ?thesis
      using one by (simp add: clear_def animator_running_def wanted_def hasActiveMotion_def hasResidue_def) (simp add: one_callback_def)
  next
    case Destroy
    then show ?thesis
      by (simp add: destroy_def clear_def animator_running_def wanted_def hasActiveMotion_def hasResidue_def one_callback_def)
  qed (use r one in \<open>simp_all add: handleMapMotion_def setLayerSettings_def Let_def running_add running_addObserverBurst\<close>)
qed

lemma running_reachable: "animator_reachable s \<Longrightarrow> animator_running s"
proof (induction rule: animator_reachable.induct)
  case (created maskLayerIDs layers visuals reducedMotion box)
  show ?case
    unfolding newPacketAnimator_def by (intro running_requestFrame resize_schedule(2)) (simp add: one_callback_def)
qed (rule running_step)

section \<open>Bounds and cached aggregates\<close>

definition freshTraces :: "PacketAnimator \<Rightarrow> TraceAggregate list" where
  "freshTraces s = take (packetTraceAuraBudget (an_quality s)) (rankTraceAggregates (aggregateTraceHits (an_traceHits s)))"

definition freshAuras :: "PacketAnimator \<Rightarrow> ObserverBurstAggregate list" where
  "freshAuras s = take (packetObserverAuraBudget (an_quality s))
     (rankObserverBurstAggregates (aggregateObserverBurstHits (an_observerBurstHits s)))"

definition caches_current :: "PacketAnimator \<Rightarrow> bool" where
  "caches_current s \<longleftrightarrow> (an_traceAggregatesDirty s \<or> an_traceAggregates s = freshTraces s) \<and>
     (an_observerAggregatesDirty s \<or> an_observerBurstAggregates s = freshAuras s)"

definition valid_pulse :: "ActivePulse \<Rightarrow> bool" where
  "valid_pulse a \<longleftrightarrow> 450 \<le> ap_travelDuration a \<and> ap_travelDuration a \<le> 12000 \<and> 240 \<le> ap_afterglowDuration a \<and>
     ap_afterglowDuration a \<le> 3000 \<and> 25 / 100 \<le> ap_brightness a \<and> ap_brightness a \<le> 2 \<and> ap_segments a \<noteq> [] \<and>
     (\<forall>g \<in> set (ap_segments a). isMappableEndpoint (sg_from g) \<and> isMappableEndpoint (sg_to g))"

definition valid_burst :: "ActiveObserverBurst \<Rightarrow> bool" where
  "valid_burst a \<longleftrightarrow> 450 \<le> ab_duration a \<and> ab_duration a \<le> 12000 \<and> 0 \<le> ab_afterglowDuration a \<and> ab_afterglowDuration a \<le> 12000 \<and>
     25 / 100 \<le> ab_brightness a \<and> ab_brightness a \<le> 2"

definition animator_bounded :: "PacketAnimator \<Rightarrow> bool" where
  "animator_bounded s \<longleftrightarrow> list_all valid_pulse (an_pulses s) \<and> list_all valid_burst (an_observerBursts s) \<and>
     length (an_traceHits s) \<le> 4000 \<and> length (an_observerBurstHits s) \<le> 4000 \<and> valid_packets (an_visualSettings s)"

lemma caches_unchanged:
  "caches_current s \<Longrightarrow> an_traceAggregates t = an_traceAggregates s \<Longrightarrow>
   an_observerBurstAggregates t = an_observerBurstAggregates s \<Longrightarrow> an_traceAggregatesDirty t = an_traceAggregatesDirty s \<Longrightarrow>
   an_observerAggregatesDirty t = an_observerAggregatesDirty s \<Longrightarrow> an_quality t = an_quality s \<Longrightarrow>
   an_traceHits t = an_traceHits s \<Longrightarrow> an_observerBurstHits t = an_observerBurstHits s \<Longrightarrow> caches_current t"
  by (simp add: caches_current_def freshTraces_def freshAuras_def)

lemma bounded_unchanged:
  "animator_bounded s \<Longrightarrow> set (an_pulses t) \<subseteq> set (an_pulses s) \<Longrightarrow> set (an_observerBursts t) \<subseteq> set (an_observerBursts s) \<Longrightarrow>
   length (an_traceHits t) \<le> length (an_traceHits s) \<Longrightarrow> length (an_observerBurstHits t) \<le> length (an_observerBurstHits s) \<Longrightarrow>
   an_visualSettings t = an_visualSettings s \<Longrightarrow> animator_bounded t"
  unfolding animator_bounded_def list_all_iff by auto

definition animator_ok :: "PacketAnimator \<Rightarrow> bool" where
  "animator_ok s \<longleftrightarrow> caches_current s \<and> animator_bounded s"

named_theorems ok_ops

lemma ok_same:
  "animator_ok s \<Longrightarrow> an_traceAggregates t = an_traceAggregates s \<Longrightarrow>
   an_observerBurstAggregates t = an_observerBurstAggregates s \<Longrightarrow> an_traceAggregatesDirty t = an_traceAggregatesDirty s \<Longrightarrow>
   an_observerAggregatesDirty t = an_observerAggregatesDirty s \<Longrightarrow> an_visualSettings t = an_visualSettings s \<Longrightarrow>
   an_traceHits t = an_traceHits s \<Longrightarrow> an_observerBurstHits t = an_observerBurstHits s \<Longrightarrow>
   set (an_pulses t) \<subseteq> set (an_pulses s) \<Longrightarrow> set (an_observerBursts t) \<subseteq> set (an_observerBursts s) \<Longrightarrow> animator_ok t"
  unfolding animator_ok_def by (auto intro: caches_unchanged bounded_unchanged)

lemma ok_requestFrame [ok_ops]: "animator_ok s \<Longrightarrow> animator_ok (requestFrame d s)"
  by (erule ok_same) simp_all

lemma ok_resize [ok_ops]: "animator_ok s \<Longrightarrow> animator_ok (resize b s)"
  by (erule ok_same) simp_all

lemma ok_traceAggregates [ok_ops]: "animator_ok s \<Longrightarrow> animator_ok (traceAggregatesForFrame s)"
  unfolding animator_ok_def
  by (auto simp: traceAggregatesForFrame_def caches_current_def freshTraces_def freshAuras_def elim: bounded_unchanged)

lemma ok_observerAggregates [ok_ops]: "animator_ok s \<Longrightarrow> animator_ok (observerAggregatesForFrame s)"
  unfolding animator_ok_def
  by (auto simp: observerAggregatesForFrame_def caches_current_def freshTraces_def freshAuras_def elim: bounded_unchanged)

lemma ok_paint [ok_ops]: "animator_ok s \<Longrightarrow> animator_ok (fst (paintFrame h now s))"
  by (rule paint_invariant [where P = animator_ok]) (auto intro: ok_ops elim: ok_same)

lemma filter_same_length: "length (filter P xs) = length xs \<Longrightarrow> filter P xs = xs"
  by (metis filter_True length_filter_less less_irrefl)

lemma ok_prune [ok_ops]: "animator_ok s \<Longrightarrow> animator_ok (pruneResidue now s)"
proof -
  have trace: "animator_ok (pruneTraceResidue now s)" if s: "animator_ok s" for s
  proof (cases "length (pruneTraceHits (an_traceHits s) now) = length (an_traceHits s)")
    case True
    then show ?thesis using ok_same [OF s] by (simp add: pruneTraceResidue_def Let_def)
  next
    case False
    then show ?thesis
      using s by (auto simp: pruneTraceResidue_def Let_def animator_ok_def caches_current_def freshAuras_def
          pruneTraceHits_def elim!: bounded_unchanged)
  qed
  have observer: "animator_ok (pruneObserverResidue now s)" if s: "animator_ok s" for s
  proof (cases "length (pruneObserverBurstHits (an_observerBurstHits s) now) = length (an_observerBurstHits s)")
    case True
    then show ?thesis using ok_same [OF s] by (simp add: pruneObserverResidue_def Let_def)
  next
    case False
    then show ?thesis
      using s by (auto simp: pruneObserverResidue_def Let_def animator_ok_def caches_current_def freshTraces_def
          pruneObserverBurstHits_def elim!: bounded_unchanged)
  qed
  assume "animator_ok s"
  then show ?thesis unfolding pruneResidue_def by (intro trace observer)
qed

lemma ok_frame [ok_ops]: "animator_ok (fst (frame h now s))" if "animator_ok s"
proof (cases rule: frame_cases [of h now s])
  case skipped
  then show ?thesis by (auto intro: ok_same [OF that])
next
  case (throttled d)
  have "animator_ok (s\<lparr>an_raf := False\<rparr>)" by (rule ok_same [OF that]) simp_all
  then show ?thesis by (simp add: throttled ok_ops)
next
  case (idle t)
  have "animator_ok (pruneResidue now (s\<lparr>an_raf := False\<rparr>))" by (intro ok_ops) (rule ok_same [OF that]; simp)
  then have "animator_ok t" unfolding idle(1) expire_def by (rule ok_same) auto
  then show ?thesis unfolding idle(4) by (rule ok_same) simp_all
next
  case (painted t d)
  have "animator_ok (pruneResidue now (s\<lparr>an_raf := False\<rparr>))" by (intro ok_ops) (rule ok_same [OF that]; simp)
  then have "animator_ok t" unfolding painted(1) expire_def by (rule ok_same) auto
  then have "animator_ok (t\<lparr>an_lastRenderedAt := now, an_forceNextFrame := False\<rparr>)" by (rule ok_same) simp_all
  then have "animator_ok (fst (paintFrame h now (t\<lparr>an_lastRenderedAt := now, an_forceNextFrame := False\<rparr>)))" by (rule ok_ops)
  then have "animator_ok (fst (paintFrame h now (t\<lparr>an_lastRenderedAt := now, an_forceNextFrame := False\<rparr>))\<lparr>an_canvasHasContent := True\<rparr>)"
    by (rule ok_same) simp_all
  then show ?thesis unfolding painted(2) by (rule ok_ops)
qed

end
