(* ===== verification/Packet_Animator_Properties.thy ===== *)
theory Packet_Animator_Properties
  imports Packet_Animator_Correct Carto_Samples
begin

text \<open>
  What the animator of packets guarantees in every reachable state, the limits on observer bursts, the exactness of
  the residue it draws, the progress along the segments of a pulse, and two defects of its drawing: the aura of an
  observer does not fade out, and a brighter comet has a dimmer line.
\<close>

section \<open>Every operation keeps the invariant\<close>

lemma clampDuration_within: "450 \<le> clampDuration v \<and> clampDuration v \<le> 12000"
  by (auto simp: clampDuration_def)

lemma ok_pushTraceHits: "animator_ok s \<Longrightarrow> animator_ok (pushTraceHits hits s)"
  unfolding animator_ok_def pushTraceHits_def
  by (auto simp: caches_current_def freshAuras_def animator_bounded_def)

lemma ok_addPulse:
  "animator_ok s \<Longrightarrow> valid_pulse a \<Longrightarrow> animator_ok (s\<lparr>an_pulses := an_pulses s @ [a]\<rparr>)"
  unfolding animator_ok_def by (auto simp: caches_current_def freshAuras_def freshTraces_def animator_bounded_def)

lemma ok_addBurst:
  "animator_ok s \<Longrightarrow> valid_burst a \<Longrightarrow>
   animator_ok (s\<lparr>an_observerBurstLastAtByLocation := m, an_observerBursts := an_observerBursts s @ [a]\<rparr>)"
  unfolding animator_ok_def by (auto simp: caches_current_def freshAuras_def freshTraces_def animator_bounded_def)

lemma validSegments_mappable:
  "g \<in> set (validSegments pulse) \<Longrightarrow> isMappableEndpoint (sg_from g) \<and> isMappableEndpoint (sg_to g)"
  by (simp add: validSegments_def)

lemma ok_add: "animator_ok s \<Longrightarrow> animator_ok (fst (add pulse options now s))"
proof -
  assume ok: "animator_ok s"
  let ?o = "spreadOptions (rp_replayOptions pulse) options"
  let ?tr = "clampRange (or_else (ro_trailScale ?o) (pv_trail (an_visualSettings s))) 0 (25 / 10)"
  have tr: "0 \<le> ?tr" "?tr \<le> 25 / 10" using clampRange_within [of 0 "25 / 10"] by auto
  have after: "240 \<le> PACKET_AFTERGLOW_MS * max (2 / 10) ?tr" "PACKET_AFTERGLOW_MS * max (2 / 10) ?tr \<le> 3000"
    using tr by (auto simp: PACKET_AFTERGLOW_MS_def max_def)
  show ?thesis
  proof (cases "an_paused s \<and> ro_force ?o \<noteq> Some True \<or> rp_segments pulse = [] \<or> validSegments pulse = []")
    case True
    then show ?thesis using ok by (simp add: add_def Let_def)
  next
    case False
    then show ?thesis
      using clampDuration_within clampRange_within [of "25 / 100" 2] after validSegments_mappable
      by (auto simp: add_def Let_def valid_pulse_def intro!: ok_ops ok_addPulse ok_pushTraceHits ok)
  qed
qed

lemma ok_addObserverBurst: "animator_ok s \<Longrightarrow> animator_ok (fst (addObserverBurst burst options now s))"
proof -
  assume ok: "animator_ok s"
  define s1 where "s1 = s\<lparr>an_observerBursts := filter (burst_live now) (an_observerBursts s)\<rparr>"
  define s2 where "s2 = (if oa_residue options \<noteq> Some False
    then s1\<lparr>an_observerBurstHits := take_last 4000 (an_observerBurstHits s1 @ [observerHitOf burst now]), an_observerAggregatesDirty := True\<rparr>
    else s1)"
  have "animator_ok s1" unfolding s1_def using ok by (rule ok_same) auto
  then have ok2: "animator_ok s2"
    by (auto simp: s2_def animator_ok_def caches_current_def freshTraces_def animator_bounded_def)
  show ?thesis
    unfolding addObserverBurst_def s1_def [symmetric] Let_def s2_def [symmetric]
    using clampDuration_within clampRange_within [of "25 / 100" 2] clampRange_within [of 0 12000]
    by (auto simp: valid_burst_def intro!: ok_ops ok_addBurst ok2 ok)
qed

lemma ok_setVisualSettings: "animator_ok s \<Longrightarrow> animator_ok (setVisualSettings box v s)"
proof -
  assume ok: "animator_ok s"
  let ?s = "s\<lparr>an_visualSettings := normalizePacketVisualSettings v\<rparr>"
  have "animator_ok (if an_quality s \<noteq> an_quality ?s
      then resize box (?s\<lparr>an_nextMaskRefreshAt := 0, an_traceAggregatesDirty := True, an_observerAggregatesDirty := True\<rparr>) else ?s)"
    (is "animator_ok ?t")
    using ok valid_normalizePackets [of v]
    by (auto simp: animator_ok_def caches_current_def freshTraces_def freshAuras_def animator_bounded_def)
  then have "animator_ok (?t\<lparr>an_forceNextFrame := True\<rparr>)" by (rule ok_same) simp_all
  then show ?thesis unfolding setVisualSettings_def Let_def by (rule ok_ops)
qed

lemma ok_cleared: "animator_ok s \<Longrightarrow> animator_ok (clear s)" "animator_ok s \<Longrightarrow> animator_ok (destroy s)"
  by (simp_all add: clear_def destroy_def animator_ok_def caches_current_def animator_bounded_def)

lemma ok_step: "animator_ok s \<Longrightarrow> animator_ok (fst (animator_step s i))"
proof -
  assume ok: "animator_ok s"
  show ?thesis
  proof (cases i)
    case (AnimationFrame host now)
    then show ?thesis using ok by (simp add: case_prod_unfold Let_def ok_ops)
  next
    case IdleTimer
    have "animator_ok (s\<lparr>an_idleTimer := None\<rparr>)" using ok by (rule ok_same) simp_all
    then show ?thesis using ok IdleTimer by (simp add: idleTimerFired_def ok_ops)
  next
    case (PruneInterval now)
    have "animator_ok (pruneBurstLocations now s)" using ok by (rule ok_same) (simp_all add: pruneBurstLocations_def)
    then show ?thesis using ok PruneInterval by simp
  next
    case MapMoved
    have "animator_ok (s\<lparr>an_forceNextFrame := True\<rparr>)" using ok by (rule ok_same) simp_all
    then show ?thesis using ok MapMoved by (simp add: handleMapMotion_def ok_ops)
  next
    case (SetPaused p)
    have "animator_ok (s\<lparr>an_paused := p\<rparr>)" using ok by (rule ok_same) simp_all
    then show ?thesis using SetPaused by (auto simp: setPaused_def Let_def intro: ok_ops)
  next
    case (SetRouteColors c)
    have "animator_ok (setRouteColors c s)" using ok by (rule ok_same) (simp_all add: setRouteColors_def)
    then show ?thesis using SetRouteColors by simp
  next
    case (SetLayerSettings v)
    let ?s = "s\<lparr>an_layerSettings := normalizeLayerSettings v, an_forceNextFrame := True\<rparr>"
    have "animator_ok ?s" "animator_ok (?s\<lparr>an_pulses := []\<rparr>)" using ok by (rule ok_same; simp)+
    then show ?thesis using SetLayerSettings by (simp add: setLayerSettings_def Let_def ok_ops)
  qed (use ok in \<open>simp_all add: ok_add ok_addObserverBurst ok_setVisualSettings ok_cleared ok_ops\<close>)
qed

lemma ok_reachable: "animator_reachable s \<Longrightarrow> animator_ok s"
proof (induction rule: animator_reachable.induct)
  case (created maskLayerIDs layers visuals reducedMotion box)
  show ?case
    unfolding newPacketAnimator_def
    by (intro ok_ops) (simp add: animator_ok_def caches_current_def animator_bounded_def valid_normalizePackets)
qed (rule ok_step)

section \<open>Aggregates\<close>

text \<open>Both aggregations group hits by a key: the first hit of a key starts its entry, the later ones bump it.\<close>

definition tally_step ::
  "('h \<Rightarrow> 'k) \<Rightarrow> ('h \<Rightarrow> 'a) \<Rightarrow> ('a \<Rightarrow> 'h \<Rightarrow> 'a) \<Rightarrow> ('k, 'a) js_map \<Rightarrow> 'h \<Rightarrow> ('k, 'a) js_map" where
  "tally_step key start bump m h =
     (case map_get m (key h) of Some e \<Rightarrow> map_set (key h) (bump e h) m | None \<Rightarrow> map_set (key h) (start h) m)"

lemma tally_get:
  "map_get (foldl (tally_step key start bump) [] hits) k =
     (case filter (\<lambda>h. key h = k) hits of [] \<Rightarrow> None | h # hs \<Rightarrow> Some (foldl bump (start h) hs))"
proof (induction hits rule: rev_induct)
  case (snoc h hits)
  show ?case
    using snoc by (auto simp: tally_step_def split: option.splits list.splits)
qed simp

lemma tally_keyed: "well_keyed (foldl (tally_step key start bump) [] hits)"
  by (rule foldl_invariant) (auto simp: tally_step_def split: option.split)

definition startTrace :: "TraceHit \<Rightarrow> TraceAggregate" where
  "startTrace hit = \<lparr>ta_routeId = th_routeId hit, ta_color = th_color hit, ta_from = th_from hit, ta_to = th_to hit,
     ta_count = 1, ta_latestAt = th_addedAt hit\<rparr>"

definition bumpTrace :: "TraceAggregate \<Rightarrow> TraceHit \<Rightarrow> TraceAggregate" where
  "bumpTrace e hit = e\<lparr>ta_count := ta_count e + 1, ta_latestAt := max (ta_latestAt e) (th_addedAt hit)\<rparr>"

lemma addTraceHit_tally: "addTraceHit = tally_step th_routeId startTrace bumpTrace"
  by (intro ext) (simp add: addTraceHit_def tally_step_def startTrace_def bumpTrace_def split: option.split)

lemma Max_insert_last: "finite A \<Longrightarrow> A \<noteq> {} \<Longrightarrow> Max (insert x A) = max (Max A) (x :: js_number)"
  by (simp add: max.commute)

lemma bump_traces:
  "ta_routeId (foldl bumpTrace (startTrace h) hs) = th_routeId h \<and> ta_count (foldl bumpTrace (startTrace h) hs) = Suc (length hs) \<and>
   ta_latestAt (foldl bumpTrace (startTrace h) hs) = Max (th_addedAt ` set (h # hs))"
proof (induction hs rule: rev_induct)
  case (snoc x hs)
  have "Max (th_addedAt ` set (h # hs @ [x])) = max (Max (th_addedAt ` set (h # hs))) (th_addedAt x)"
    by (subst Max_insert_last [symmetric]) (auto simp: insert_commute)
  then show ?case using snoc by (simp add: bumpTrace_def)
qed (simp add: startTrace_def)

lemma trace_entry:
  assumes "t \<in> set (aggregateTraceHits hits)"
  shows "0 < ta_count t \<and> ta_count t = length (filter (\<lambda>h. th_routeId h = ta_routeId t) hits) \<and>
    ta_latestAt t = Max (th_addedAt ` {h \<in> set hits. th_routeId h = ta_routeId t})"
proof -
  obtain k where "(k, t) \<in> set (foldl addTraceHit [] hits)" using assms by (auto simp: aggregateTraceHits_def)
  then have "map_get (foldl addTraceHit [] hits) k = Some t"
    using keyed_member [OF tally_keyed [of th_routeId startTrace bumpTrace hits], of k t] by (simp add: addTraceHit_tally)
  then obtain h hs where f: "filter (\<lambda>h. th_routeId h = k) hits = h # hs" and t: "t = foldl bumpTrace (startTrace h) hs"
    by (auto simp: addTraceHit_tally tally_get split: list.splits)
  have "{h \<in> set hits. th_routeId h = k} = set (h # hs)" using arg_cong [OF f, of set] by auto
  moreover have "th_routeId h = k" using arg_cong [OF f, of set] by auto
  ultimately show ?thesis using f bump_traces [of h hs] t by simp
qed

lemma trace_ids:
  "map ta_routeId (aggregateTraceHits hits) = map fst (foldl addTraceHit [] hits)"
proof -
  have "ta_routeId t = k" if "(k, t) \<in> set (foldl addTraceHit [] hits)" for k t
  proof -
    have "map_get (foldl addTraceHit [] hits) k = Some t"
      using that keyed_member [OF tally_keyed [of th_routeId startTrace bumpTrace hits], of k t] by (simp add: addTraceHit_tally)
    then obtain h hs where "filter (\<lambda>h. th_routeId h = k) hits = h # hs" and t: "t = foldl bumpTrace (startTrace h) hs"
      by (auto simp: addTraceHit_tally tally_get split: list.splits)
    then have "th_routeId h = k" by (metis (mono_tags, lifting) list.set_intros(1) mem_Collect_eq set_filter)
    then show ?thesis using bump_traces [of h hs] t by simp
  qed
  then show ?thesis by (auto simp: aggregateTraceHits_def intro!: map_cong)
qed

lemma distinct_trace_ids: "distinct (map ta_routeId (aggregateTraceHits hits))"
  using tally_keyed [of th_routeId startTrace bumpTrace hits] by (simp add: trace_ids addTraceHit_tally well_keyed_def)

lemma trace_id_member: "ta_routeId ` set (aggregateTraceHits hits) = th_routeId ` set hits"
proof -
  have "k \<in> set (map fst (foldl addTraceHit [] hits)) \<longleftrightarrow> k \<in> th_routeId ` set hits" for k
  proof -
    have "k \<in> set (map fst (foldl addTraceHit [] hits)) \<longleftrightarrow> map_get (foldl addTraceHit [] hits) k \<noteq> None"
      by (metis map_of_eq_None_iff list.set_map)
    also have "\<dots> \<longleftrightarrow> filter (\<lambda>h. th_routeId h = k) hits \<noteq> []"
      by (simp add: addTraceHit_tally tally_get split: list.split)
    also have "\<dots> \<longleftrightarrow> k \<in> th_routeId ` set hits" by (auto simp: filter_empty_conv)
    finally show ?thesis .
  qed
  then show ?thesis by (metis (no_types, lifting) list.set_map set_eqI trace_ids)
qed

lemma shown_traces: "caches_current s \<Longrightarrow> an_traceAggregates (traceAggregatesForFrame s) = freshTraces s"
  by (auto simp: traceAggregatesForFrame_def caches_current_def freshTraces_def)

lemma shown_auras: "caches_current s \<Longrightarrow> an_observerBurstAggregates (observerAggregatesForFrame s) = freshAuras s"
  by (auto simp: observerAggregatesForFrame_def caches_current_def freshAuras_def)

lemma fresh_traces_sorted:
  "sorted_wrt (\<lambda>a b. aggregateScore (ta_count b) (ta_latestAt b) \<le> aggregateScore (ta_count a) (ta_latestAt a)) (freshTraces s)"
proof -
  let ?c = "by_desc (\<lambda>a. aggregateScore (ta_count a) (ta_latestAt a))"
  have "sorted_wrt (\<lambda>a b. ?c a b \<le> 0) (rankTraceAggregates (aggregateTraceHits (an_traceHits s)))"
    unfolding rankTraceAggregates_def by (rule comparator.sorted_js_sort) (rule comparator_by_desc)
  then show ?thesis by (simp add: freshTraces_def sorted_wrt_take by_desc_def)
qed

section \<open>Admission of bursts\<close>

definition animator_run :: "PacketAnimator \<Rightarrow> animator_input list \<Rightarrow> PacketAnimator" where
  "animator_run s is = foldl (\<lambda>s i. fst (animator_step s i)) s is"

fun distinct_forced :: "animator_input \<Rightarrow> bool" where
  "distinct_forced (AddObserverBurst burst options now) = oa_forceDistinct options"
| "distinct_forced _ = False"

definition burst_keys :: "PacketAnimator \<Rightarrow> string list" where
  "burst_keys s = map (\<lambda>a. observerBurstKey (ab_burst a)) (an_observerBursts s)"

definition bursts_limited :: "PacketAnimator \<Rightarrow> bool" where
  "bursts_limited s \<longleftrightarrow> distinct (burst_keys s) \<and> length (an_observerBursts s) \<le> 24"

lemma limited_filter: "bursts_limited s \<Longrightarrow> an_observerBursts t = filter P (an_observerBursts s) \<Longrightarrow> bursts_limited t"
  using order_trans [OF length_filter_le [of P "an_observerBursts s"]] by (auto simp: bursts_limited_def burst_keys_def distinct_map_filter)

lemma limited_same: "bursts_limited s \<Longrightarrow> an_observerBursts t = an_observerBursts s \<Longrightarrow> bursts_limited t"
  by (simp add: bursts_limited_def burst_keys_def)

lemma limited_requestFrame: "bursts_limited s \<Longrightarrow> bursts_limited (requestFrame d s)"
  by (erule limited_same) simp

lemma limited_addObserverBurst:
  assumes "bursts_limited s" and "\<not> oa_forceDistinct options"
  shows "bursts_limited (fst (addObserverBurst burst options now s))"
proof -
  define s1 where "s1 = s\<lparr>an_observerBursts := filter (burst_live now) (an_observerBursts s)\<rparr>"
  define s2 where "s2 = (if oa_residue options \<noteq> Some False
    then s1\<lparr>an_observerBurstHits := take_last 4000 (an_observerBurstHits s1 @ [observerHitOf burst now]), an_observerAggregatesDirty := True\<rparr>
    else s1)"
  let ?here = "filter (\<lambda>a. observerBurstKey (ab_burst a) = observerBurstKey burst) (an_observerBursts s2)"
  have l2: "bursts_limited s2" using assms(1) by (rule limited_filter [where P = "burst_live now"]) (simp add: s2_def s1_def)
  have grown: "bursts_limited (s2\<lparr>an_observerBurstLastAtByLocation := m, an_observerBursts := an_observerBursts s2 @ [a]\<rparr>)"
    if "?here = []" "length (an_observerBursts s2) < 24" "ab_burst a = burst" for m a
    using l2 that by (auto simp: bursts_limited_def burst_keys_def filter_empty_conv)
  show ?thesis
    unfolding addObserverBurst_def s1_def [symmetric] Let_def s2_def [symmetric]
    using assms l2
    by (auto simp: observerBurstAllowed_def MAX_ACTIVE_OBSERVER_BURSTS_def intro: limited_same intro!: limited_requestFrame grown
      split: if_splits)
qed

lemma limited_step: "bursts_limited s \<Longrightarrow> \<not> distinct_forced i \<Longrightarrow> bursts_limited (fst (animator_step s i))"
proof -
  assume l: "bursts_limited s" and i: "\<not> distinct_forced i"
  have frame: "bursts_limited (fst (frame h now s))" for h now
  proof (cases rule: frame_cases [of h now s])
    case (painted t d)
    show ?thesis by (rule limited_filter [OF l, of _ "burst_live now"]) (simp add: painted expire_def)
  next
    case (idle t)
    show ?thesis by (rule limited_filter [OF l, of _ "burst_live now"]) (simp add: idle(4), simp add: idle(1) expire_def)
  qed (auto intro: limited_same [OF l])
  have add: "an_observerBursts (fst (add p o' n s)) = an_observerBursts s" for p o' n
    by (simp add: add_def Let_def pushTraceHits_def)
  have stopped: "bursts_limited (clear s)" "bursts_limited (destroy s)"
    by (simp_all add: clear_def destroy_def bursts_limited_def burst_keys_def)
  show ?thesis
    using l i frame add stopped
    by (cases i) (auto simp: case_prod_unfold Let_def limited_addObserverBurst idleTimerFired_def handleMapMotion_def
        setPaused_def setRouteColors_def setVisualSettings_def setLayerSettings_def pruneBurstLocations_def intro: limited_same)
qed

section \<open>Progress, fading and brightness\<close>

text \<open>The comet is on one segment of its pulse, and its place along the whole chain is the progress of its travel.\<close>

lemma progress_is_exact:
  assumes "1 \<le> n"
  shows "sp_segmentIndex (sequentialSegmentProgress p n) < n"
    and "0 \<le> sp_localProgress (sequentialSegmentProgress p n)" and "sp_localProgress (sequentialSegmentProgress p n) \<le> 1"
    and "real (sp_segmentIndex (sequentialSegmentProgress p n)) + sp_localProgress (sequentialSegmentProgress p n) = clamp01 p * real n"
proof -
  define c where "c = clamp01 p"
  define k where "k = nat \<lfloor>c * real n\<rfloor>"
  have c: "0 \<le> c" by (simp add: c_def clamp01_def)
  have inside: "k < n \<and> js_rem (c * real n) 1 = c * real n - real k \<and> 0 \<le> c * real n - real k \<and> c * real n - real k < 1"
    if "c < 1"
  proof -
    have x: "0 \<le> c * real n" "c * real n < real n" using that assms c by auto
    have "real k = of_int \<lfloor>c * real n\<rfloor>" using x by (simp add: k_def)
    moreover have "k < n" using x by (simp add: k_def) linarith
    moreover have "c * real n - of_int \<lfloor>c * real n\<rfloor> < 1" by linarith
    ultimately show ?thesis using x by (simp add: js_rem_def js_trunc_def)
  qed
  have "clamp01 x = x" if "0 \<le> x" "x \<le> 1" for x using that by (simp add: clamp01_def)
  then have "sp_segmentIndex (sequentialSegmentProgress p n) < n \<and> 0 \<le> sp_localProgress (sequentialSegmentProgress p n) \<and>
    sp_localProgress (sequentialSegmentProgress p n) \<le> 1 \<and>
    real (sp_segmentIndex (sequentialSegmentProgress p n)) + sp_localProgress (sequentialSegmentProgress p n) = clamp01 p * real n"
    using assms inside c unfolding sequentialSegmentProgress_def Let_def c_def [symmetric] k_def [symmetric]
    by (cases "c < 1") (auto simp: c_def clamp01_def)
  then show "sp_segmentIndex (sequentialSegmentProgress p n) < n"
    and "0 \<le> sp_localProgress (sequentialSegmentProgress p n)" and "sp_localProgress (sequentialSegmentProgress p n) \<le> 1"
    and "real (sp_segmentIndex (sequentialSegmentProgress p n)) + sp_localProgress (sequentialSegmentProgress p n) = clamp01 p * real n"
    by blast+
qed

text \<open>
  Hits of observer bursts are dropped after \<open>OBSERVER_AURA_WINDOW_MS\<close>, but the aura fades over the six times longer
  window of the routes: a pruned hit still has five sixths of its strength, so auras vanish instead of fading.
\<close>

definition startAura :: "ObserverBurstHit \<Rightarrow> ObserverBurstAggregate" where
  "startAura hit = \<lparr>ba_key = bh_key hit, ba_color = bh_color hit, ba_location = bh_location hit, ba_count = 1,
     ba_latestAt = bh_addedAt hit\<rparr>"

definition bumpAura :: "ObserverBurstAggregate \<Rightarrow> ObserverBurstHit \<Rightarrow> ObserverBurstAggregate" where
  "bumpAura e hit = e\<lparr>ba_count := ba_count e + 1, ba_latestAt := max (ba_latestAt e) (bh_addedAt hit)\<rparr>"

lemma addObserverBurstHit_tally: "addObserverBurstHit = tally_step bh_key startAura bumpAura"
  by (intro ext) (simp add: addObserverBurstHit_def tally_step_def startAura_def bumpAura_def split: option.split)

lemma aura_latest:
  assumes "a \<in> set (aggregateObserverBurstHits hits)"
  obtains h where "h \<in> set hits" and "bh_key h = ba_key a" and "bh_addedAt h \<le> ba_latestAt a"
proof -
  obtain k where "(k, a) \<in> set (foldl addObserverBurstHit [] hits)" using assms by (auto simp: aggregateObserverBurstHits_def)
  then have "map_get (foldl addObserverBurstHit [] hits) k = Some a"
    using keyed_member [OF tally_keyed [of bh_key startAura bumpAura hits], of k a] by (simp add: addObserverBurstHit_tally)
  then obtain h hs where f: "filter (\<lambda>h. bh_key h = k) hits = h # hs" and a: "a = foldl bumpAura (startAura h) hs"
    by (auto simp: addObserverBurstHit_tally tally_get split: list.splits)
  have "bh_addedAt h \<le> ba_latestAt (foldl bumpAura (startAura h) hs) \<and> ba_key (foldl bumpAura (startAura h) hs) = bh_key h" for hs
    by (induction hs rule: rev_induct) (auto simp: startAura_def bumpAura_def)
  moreover have "h \<in> set hits" using arg_cong [OF f, of set] by auto
  ultimately show thesis using that a by metis
qed

lemma aura_never_fades:
  "a \<in> set (aggregateObserverBurstHits (pruneObserverBurstHits hits now)) \<Longrightarrow> 5 / 6 \<le> auraFade now a"
proof -
  assume "a \<in> set (aggregateObserverBurstHits (pruneObserverBurstHits hits now))"
  then obtain h where "h \<in> set (pruneObserverBurstHits hits now)" "bh_addedAt h \<le> ba_latestAt a" by (rule aura_latest)
  then have "now - ba_latestAt a \<le> OBSERVER_AURA_WINDOW_MS" by (simp add: pruneObserverBurstHits_def Let_def)
  then show ?thesis by (simp add: auraFade_def OBSERVER_AURA_WINDOW_MS_def TRACE_WINDOW_MS_def field_simps)
qed

text \<open>The opacities of the lines that were stroked, in order.\<close>

definition stroke_alphas :: "Canvas \<Rightarrow> js_number list" where
  "stroke_alphas c = map (\<lambda>(op, s). cv_alpha s) (filter (\<lambda>(op, s). op = StrokePath) (snd (snd c)))"

lemma canvas_log_grows: "\<exists>more. snd (snd (canvas_run ops c)) = snd (snd c) @ more"
proof (induction ops arbitrary: c)
  case (Cons op ops)
  obtain s stack out where c: "c = (s, stack, out)" by (metis prod.collapse)
  have "\<exists>more. snd (snd (canvas_step op c)) = out @ more"
    unfolding c by (cases op; cases stack) auto
  then show ?case using Cons [of "canvas_step op c"] by (force simp: c)
qed simp

lemma stroke_alphas_grow: "\<exists>more. stroke_alphas (canvas_run ops c) = stroke_alphas c @ more"
  using canvas_log_grows [of ops c] by (auto simp: stroke_alphas_def)

text \<open>
  The canvas ignores an opacity above one. The bright line of a comet sets \<open>(0.92 + shimmer * 0.08) * brightness\<close>
  without capping it, so above a brightness of about 1.09 it keeps the opacity of the bloom before it, which is
  less than two thirds: turning the brightness up makes the line dimmer.
\<close>

lemma comet_strokes:
  assumes "0 \<le> bloom" and "bloom \<le> 1"
    and "bloom = (28 / 100 + shimmer * (12 / 100)) * brightness"
  shows "\<exists>more. stroke_alphas (canvas_run (drawCometSegment ready p q color progress shimmer brightness trail Comet) (s, [], [])) =
    bloom # (let line = (92 / 100 + shimmer * (8 / 100)) * brightness in if 0 \<le> line \<and> line \<le> 1 then line else bloom) # more"
proof -
  let ?line = "(92 / 100 + shimmer * (8 / 100)) * brightness"
  define core where "core = drawCometSegment ready p q color progress shimmer brightness trail Comet"
  obtain pre rest a where core: "core = pre @ rest" and pre: "stroke_alphas (canvas_run pre (s, [], [])) =
      bloom # (if 0 \<le> ?line \<and> ?line \<le> 1 then ?line else bloom) # a"
  proof
    show "core = take 18 core @ drop 18 core" by simp
    show "stroke_alphas (canvas_run (take 18 core) (s, [], [])) = bloom # (if 0 \<le> ?line \<and> ?line \<le> 1 then ?line else bloom) # []"
      using assms(1,2) unfolding core_def drawCometSegment_def cometLine_def Let_def assms(3) [symmetric]
      by (auto simp: stroke_alphas_def assms(3) [symmetric])
  qed
  have "canvas_run core (s, [], []) = canvas_run rest (canvas_run pre (s, [], []))" by (simp add: core)
  then show ?thesis
    using stroke_alphas_grow [of rest "canvas_run pre (s, [], [])"] pre unfolding core_def by (auto simp: Let_def)
qed

section \<open>Properties\<close>

definition sample_box :: CanvasBox where
  "sample_box = \<lparr>cb_width = 800, cb_height = 600, cb_devicePixelRatio = 1\<rparr>"

definition sample_animator :: PacketAnimator where
  "sample_animator = newPacketAnimator [] JUndefined JUndefined False sample_box"

definition no_options :: ReplayOptions where
  "no_options = \<lparr>ro_force = None, ro_travelDurationMs = None, ro_brightness = None, ro_trailScale = None, ro_animationStyle = None\<rparr>"

definition sample_busy :: PacketAnimator where
  "sample_busy = fst (animator_step sample_animator
     (AddPulse (sample_pulse ''p'' [sample_segment ''r'' ''a'' ''b'']) no_options 1000))"

lemma sample_busy_reachable: "animator_reachable sample_busy"
  unfolding sample_busy_def sample_animator_def by (intro animator_reachable.intros)

lemma sample_settings:
  "normalizePacketVisualSettings JUndefined = DEFAULT_PACKET_VISUAL_SETTINGS"
  "an_paused sample_animator = False" "an_visualSettings sample_animator = DEFAULT_PACKET_VISUAL_SETTINGS"
  "an_traceHits sample_animator = []" "an_pulses sample_animator = []" "an_observerBursts sample_animator = []"
  "an_observerBurstHits sample_animator = []"
proof -
  show "normalizePacketVisualSettings JUndefined = DEFAULT_PACKET_VISUAL_SETTINGS"
    by (simp add: normalizePacketVisualSettings_def record_or_empty_def clampNumber_def clampFinite_def boolOrDefault_def Let_def
        isPacketAnimationStyle_def isRenderQuality_def literal_of_def DEFAULT_PACKET_VISUAL_SETTINGS_def)
  then show "an_paused sample_animator = False" "an_visualSettings sample_animator = DEFAULT_PACKET_VISUAL_SETTINGS"
    "an_traceHits sample_animator = []" "an_pulses sample_animator = []" "an_observerBursts sample_animator = []"
    "an_observerBurstHits sample_animator = []"
    by (simp_all add: sample_animator_def newPacketAnimator_def)
qed

lemma sample_busy_fields:
  "an_paused sample_busy = False" "an_raf sample_busy" "an_observerBursts sample_busy = []" "an_observerBurstHits sample_busy = []"
  "map ap_started (an_pulses sample_busy) = [1000]" "map th_addedAt (an_traceHits sample_busy) = [1000]"
  "map th_routeId (an_traceHits sample_busy) = [''r'']"
  "an_forceNextFrame sample_busy" "an_lastTracePruneAt sample_busy = 0" "an_lastObserverPruneAt sample_busy = 0"
proof -
  have v: "validSegments (sample_pulse ''p'' [sample_segment ''r'' ''a'' ''b'']) = [sample_segment ''r'' ''a'' ''b'']"
    by (simp add: validSegments_def sample_defs isMappableEndpoint_def isMappableLatLng_def WORLD_MAP_BOUNDS_def)
  have o': "spreadOptions (rp_replayOptions (sample_pulse ''p'' [sample_segment ''r'' ''a'' ''b''])) no_options =
      \<lparr>ro_force = None, ro_travelDurationMs = None, ro_brightness = None, ro_trailScale = None, ro_animationStyle = None\<rparr>"
    by (simp add: spreadOptions_def sample_defs no_options_def)
  have seg: "rp_segments (sample_pulse ''p'' [sample_segment ''r'' ''a'' ''b'']) = [sample_segment ''r'' ''a'' ''b'']"
    by (simp add: sample_defs)
  have rid: "sg_routeId (sample_segment ''r'' ''a'' ''b'') = ''r''" by (simp add: sample_segment_def)
  have rest: "an_forceNextFrame sample_animator" "an_lastTracePruneAt sample_animator = 0" "an_lastObserverPruneAt sample_animator = 0"
    by (cases rule: resize_cases;
        simp add: sample_animator_def newPacketAnimator_def requestFrame_def resize_def Let_def)+
  show "an_paused sample_busy = False" "an_raf sample_busy" "an_observerBursts sample_busy = []" "an_observerBurstHits sample_busy = []"
    "map ap_started (an_pulses sample_busy) = [1000]" "map th_addedAt (an_traceHits sample_busy) = [1000]"
  "map th_routeId (an_traceHits sample_busy) = [''r'']"
    "an_forceNextFrame sample_busy" "an_lastTracePruneAt sample_busy = 0" "an_lastObserverPruneAt sample_busy = 0"
    using rest
    by (simp_all add: sample_busy_def add_def Let_def v o' seg sample_settings DEFAULT_PACKET_VISUAL_SETTINGS_def
        clampRange_def pushTraceHits_def traceHitOf_def requestFrame_def take_last_def rid)
qed

text \<open>
  C7. In every reachable state of the packet animator, while frames are painted at all (not paused, or a forced
  pulse is active) and there is something to animate, residue to fade or old pixels on the canvas, exactly one
  callback of the browser is pending: an animation frame or the idle timer. The animation neither stops early nor
  runs twice.
\<close>

theorem animator_keeps_drawing:
  assumes "animator_reachable s" and "\<not> an_paused s \<or> list_ex ap_force (an_pulses s)"
    and "hasActiveMotion s \<or> hasResidue s \<or> an_canvasHasContent s"
  shows "an_raf s \<noteq> (an_idleTimer s \<noteq> None)"
  using running_reachable [OF assms(1)] assms(2,3)
  by (auto simp: animator_running_def wanted_def frames_painted_def scheduled_def one_callback_def)

theorem animator_keeps_drawing_witness: "an_raf sample_busy \<noteq> (an_idleTimer sample_busy \<noteq> None)"
proof (rule animator_keeps_drawing [OF sample_busy_reachable])
  show "\<not> an_paused sample_busy \<or> list_ex ap_force (an_pulses sample_busy)" by (simp add: sample_busy_fields)
  show "hasActiveMotion sample_busy \<or> hasResidue sample_busy \<or> an_canvasHasContent sample_busy"
    using sample_busy_fields(5) by (auto simp: hasActiveMotion_def)
qed

text \<open>
  C10. Whatever a step of the animator paints, it leaves the drawing state of the canvas (opacity, composite mode,
  line, shadow and fill styles) and the stack of saved states as it found them, on every path through the drawing
  code: no style and not the erasing mode of the mask leaks into the next drawing.
\<close>

theorem canvas_left_as_found:
  "\<exists>painted. canvas_run (snd (animator_step s i)) (style, stack, before) = (style, stack, before @ painted)"
proof -
  obtain out where run: "canvas_run (snd (animator_step s i)) (style, stack, before) = (style, stack, out)"
    using bracketed_step [of s i] unfolding bracketed_def by blast
  then show ?thesis using canvas_log_grows [of "snd (animator_step s i)" "(style, stack, before)"] by auto
qed

text \<open>
  C9. The residue of routes is exact, cached or not: in every reachable state the aggregates a frame draws are, for
  distinct routes and best score first, the number of hits of their route and the time of its latest hit, and every
  route with hits is drawn when they fit the budget of the render quality.
\<close>

theorem residue_is_exact:
  assumes "animator_reachable s"
  defines "shown \<equiv> an_traceAggregates (traceAggregatesForFrame s)"
  shows "distinct (map ta_routeId shown) \<and> length shown \<le> packetTraceAuraBudget (pv_renderQuality (an_visualSettings s)) \<and>
    sorted_wrt (\<lambda>a b. aggregateScore (ta_count b) (ta_latestAt b) \<le> aggregateScore (ta_count a) (ta_latestAt a)) shown \<and>
    list_all (\<lambda>t. ta_count t = length (filter (\<lambda>h. th_routeId h = ta_routeId t) (an_traceHits s)) \<and> 0 < ta_count t \<and>
      ta_latestAt t = Max (th_addedAt ` {h \<in> set (an_traceHits s). th_routeId h = ta_routeId t})) shown \<and>
    (card (th_routeId ` set (an_traceHits s)) \<le> packetTraceAuraBudget (pv_renderQuality (an_visualSettings s)) \<longrightarrow>
      set (map ta_routeId shown) = th_routeId ` set (an_traceHits s))"
proof -
  let ?all = "aggregateTraceHits (an_traceHits s)"
  have "caches_current s" using ok_reachable [OF assms(1)] by (simp add: animator_ok_def)
  then have shown: "shown = freshTraces s" unfolding shown_def by (rule shown_traces)
  have ranked: "mset (rankTraceAggregates ?all) = mset ?all" by (simp add: rankTraceAggregates_def)
  have "distinct (map ta_routeId (rankTraceAggregates ?all))"
    using distinct_trace_ids [of "an_traceHits s"] by (simp add: rankTraceAggregates_def)
  then have d: "distinct (map ta_routeId shown)" by (simp add: shown freshTraces_def take_map [symmetric])
  have sub: "set shown \<subseteq> set ?all"
    using mset_eq_setD [OF ranked] by (metis freshTraces_def set_take_subset shown)
  have "length ?all = card (th_routeId ` set (an_traceHits s))"
    by (metis distinct_card distinct_trace_ids length_map list.set_map trace_id_member)
  then have all: "set (map ta_routeId shown) = th_routeId ` set (an_traceHits s)"
    if "card (th_routeId ` set (an_traceHits s)) \<le> packetTraceAuraBudget (an_quality s)"
    using that mset_eq_setD [OF ranked] mset_eq_length [OF ranked] trace_id_member [of "an_traceHits s"]
    by (simp add: shown freshTraces_def)
  show ?thesis
    using d all fresh_traces_sorted [of s] sub trace_entry by (auto simp: shown list_all_iff) (simp_all add: freshTraces_def)
qed

theorem residue_is_exact_witness:
  "set (map ta_routeId (an_traceAggregates (traceAggregatesForFrame sample_busy))) = {''r''}"
proof -
  have hits: "th_routeId ` set (an_traceHits sample_busy) = {''r''}"
    using arg_cong [OF sample_busy_fields(7), of set] by simp
  show ?thesis using residue_is_exact [OF sample_busy_reachable] by (simp add: hits packetTraceAuraBudget_def)
qed

text \<open>
  Unless bursts are forced to be distinct, an animator never has more than 24 observer bursts at once and never
  two at one location, whatever calls and callbacks it received in whatever order.
\<close>

lemma bursts_stay_limited:
  fixes maskLayerIDs layers visuals reducedMotion box
  assumes "list_all (\<lambda>i. \<not> distinct_forced i) inputs"
  defines "bursts \<equiv> an_observerBursts (animator_run (newPacketAnimator maskLayerIDs layers visuals reducedMotion box) inputs)"
  shows "length bursts \<le> 24 \<and> distinct (map (\<lambda>a. observerBurstKey (ab_burst a)) bursts)"
proof -
  have "bursts_limited (animator_run s inputs)" if "bursts_limited s" for s
    using assms(1) that unfolding animator_run_def by (induction inputs arbitrary: s) (auto simp: limited_step)
  moreover have "bursts_limited (newPacketAnimator maskLayerIDs layers visuals reducedMotion box)"
    by (simp add: newPacketAnimator_def bursts_limited_def burst_keys_def)
  ultimately show ?thesis by (simp add: bursts_def bursts_limited_def burst_keys_def)
qed

definition sample_burst :: PublicObserverBurst where
  "sample_burst = \<lparr>ob_id = ''o'', ob_payloadTypeName = ''ADVERT'', ob_heardAt = 2000, ob_receivedAt = None, ob_displayAt = None,
     ob_seq = None, ob_location = \<lparr>ol_label = ''YOW'', ol_iata = None, ol_region = None, ol_lat = 45, ol_lng = - 75\<rparr>,
     ob_messageSender = None, ob_messageText = None, ob_messageAnchor = None\<rparr>"

definition no_observer_options :: ObserverAnimationOptions where
  "no_observer_options = \<lparr>oa_forceDistinct = False, oa_durationMs = None, oa_afterglowMs = None, oa_brightness = None, oa_residue = None\<rparr>"

lemma bursts_stay_limited_witness:
  "length (an_observerBursts (animator_run sample_animator
     [AddObserverBurst sample_burst no_observer_options 1000, AddObserverBurst sample_burst no_observer_options 2000])) \<le> 24"
  using bursts_stay_limited [where inputs = "[AddObserverBurst sample_burst no_observer_options 1000,
      AddObserverBurst sample_burst no_observer_options 2000]"]
  by (simp add: sample_animator_def no_observer_options_def)

text \<open>
  C25. The animation ends: a due frame that comes 24 seconds after the last pulse or burst and a quarter of an hour
  after the last hit, with its pruning due, leaves nothing to animate and a blank canvas and schedules no further
  callback.
\<close>

theorem animation_ends:
  fixes host
  assumes "animator_reachable s" and "an_raf s" and "\<not> framePaused s" and "\<not> frameTooEarly now s"
    and "list_all (\<lambda>a. ap_started a + 24000 \<le> now) (an_pulses s)" and "list_all (\<lambda>a. ab_started a + 24000 \<le> now) (an_observerBursts s)"
    and "list_all (\<lambda>h. th_addedAt h + 15 * 60000 < now) (an_traceHits s)" and "list_all (\<lambda>h. bh_addedAt h + 150000 < now) (an_observerBurstHits s)"
    and "an_lastTracePruneAt s + 1000 \<le> now" and "an_lastObserverPruneAt s + 1000 \<le> now"
  defines "ended \<equiv> fst (frame host now s)"
  shows "\<not> hasActiveMotion ended \<and> \<not> hasResidue ended \<and> \<not> an_canvasHasContent ended \<and> \<not> an_raf ended \<and> an_idleTimer ended = None"
proof -
  let ?s = "s\<lparr>an_raf := False\<rparr>"
  define t where "t = expire now (pruneResidue now ?s)"
  have b: "animator_bounded s" using ok_reachable [OF assms(1)] by (simp add: animator_ok_def)
  have "\<not> pulse_live now a" if "a \<in> set (an_pulses s)" for a
    using that b assms(5) by (force simp: animator_bounded_def list_all_iff valid_pulse_def pulse_live_def)
  moreover have "\<not> burst_live now a" if "a \<in> set (an_observerBursts s)" for a
    using that b assms(6) by (force simp: animator_bounded_def list_all_iff valid_burst_def burst_live_def)
  ultimately have still: "\<not> hasActiveMotion t" by (simp add: hasActiveMotion_def t_def expire_def filter_empty_conv)
  have "pruneTraceHits (an_traceHits s) now = []" "pruneObserverBurstHits (an_observerBurstHits s) now = []"
    using assms(7,8) by (auto simp: pruneTraceHits_def pruneObserverBurstHits_def Let_def filter_empty_conv list_all_iff
        TRACE_WINDOW_MS_def OBSERVER_AURA_WINDOW_MS_def)
  then have bare: "\<not> hasResidue t"
    using assms(9,10) by (auto simp: hasResidue_def t_def expire_def pruneResidue_def pruneTraceResidue_def pruneObserverResidue_def
        Let_def RESIDUE_PRUNE_INTERVAL_MS_def)
  have "one_callback s" using running_reachable [OF assms(1)] by (simp add: animator_running_def)
  then have idle: "an_idleTimer t = None" "\<not> an_raf t" using assms(2) by (simp_all add: one_callback_def t_def expire_def)
  have "\<not> framePaused ?s" "\<not> frameTooEarly now ?s" using assms(3,4) by (simp_all add: framePaused_def frameTooEarly_def Let_def)
  then have "ended = t\<lparr>an_canvasHasContent := False, an_forceNextFrame := False\<rparr>"
    using still bare by (simp add: ended_def frame_def Let_def t_def finishFrame_def)
  then show ?thesis using still bare idle by (simp add: hasActiveMotion_def hasResidue_def)
qed

definition sample_host :: MapHost where
  "sample_host = \<lparr>mh_project = (\<lambda>(lng, lat). at_point lng lat), mh_hasLayer = (\<lambda>_. False), mh_features = (\<lambda>_. []), mh_zoom = 5,
     mh_spriteReady = (\<lambda>_. True), mh_numberText = (\<lambda>_. [])\<rparr>"

theorem animation_ends_witness: "\<not> an_raf (fst (frame sample_host 1000000 sample_busy))"
proof -
  have started: "list_all (\<lambda>a. ap_started a + 24000 \<le> 1000000) (an_pulses sample_busy)"
    and added: "list_all (\<lambda>h. th_addedAt h + 15 * 60000 < 1000000) (an_traceHits sample_busy)"
    using sample_busy_fields(5,6) by auto
  show ?thesis
    using animation_ends [OF sample_busy_reachable sample_busy_fields(2), where now = 1000000 and host = sample_host, OF _ _ started _ added]
    by (simp add: sample_busy_fields framePaused_def frameTooEarly_def Let_def)
qed

text \<open>
  Above a brightness of 1.1 the bright line of a comet is painted dimmer than at brightness 1, in every phase of
  its shimmer: the canvas ignores the opacity above one that the code assigns, and the line keeps the opacity of the
  bloom under it.
\<close>

lemma brighter_comet_is_dimmer:
  fixes ready p q color progress trail style
  assumes "0 \<le> shimmer" and "shimmer \<le> 1" and "11 / 10 \<le> brightness" and "brightness \<le> 16 / 10"
  defines "line \<equiv> \<lambda>b. stroke_alphas (canvas_run (drawCometSegment ready p q color progress shimmer b trail Comet) (style, [], [])) ! 1"
  shows "line brightness \<le> 64 / 100 \<and> 92 / 100 \<le> line 1"
proof -
  let ?bloom = "\<lambda>b. (28 / 100 + shimmer * (12 / 100)) * b"
  have unit: "0 \<le> ?bloom 1" "?bloom 1 \<le> 1" using assms(1,2) by auto
  have "?bloom brightness \<le> (4 / 10) * (16 / 10)"
    using assms(1-4) by (intro mult_mono) auto
  then have bright: "0 \<le> ?bloom brightness" "?bloom brightness \<le> 1" "?bloom brightness \<le> 64 / 100"
    using assms(1,3) by auto
  have "92 / 100 * (11 / 10) \<le> (92 / 100 + shimmer * (8 / 100)) * brightness"
    using assms(1,3) by (intro mult_mono) auto
  then have over: "\<not> (92 / 100 + shimmer * (8 / 100)) * brightness \<le> 1" by simp
  have "line brightness = ?bloom brightness"
    using comet_strokes [OF bright(1,2) refl, of ready p q color progress trail style] over by (auto simp: line_def Let_def)
  moreover have "line 1 = 92 / 100 + shimmer * (8 / 100)"
    using comet_strokes [OF unit refl, of ready p q color progress trail style] assms(1,2) by (auto simp: line_def Let_def)
  ultimately show ?thesis using bright(3) assms(1) by simp
qed

lemma brighter_comet_is_dimmer_witness:
  "stroke_alphas (canvas_run (drawCometSegment (\<lambda>_. True) (at_point 0 0) (at_point 10 0) ''#2dd4bf'' (1 / 2) (1 / 2) (16 / 10) 1 Comet)
     (\<lparr>cv_alpha = 1, cv_composite = ''source-over'', cv_lineCap = ''butt'', cv_lineJoin = ''miter'', cv_lineWidth = 1, cv_shadowBlur = 0,
       cv_shadowColor = Css ''#000000'', cv_stroke = css ''#000000'', cv_fill = css ''#000000''\<rparr>, [], [])) ! 1 \<le> 64 / 100"
  by (rule conjunct1 [OF brighter_comet_is_dimmer]) simp_all

end
