(* ===== verification/Net_Graph_Layout.thy ===== *)
theory Net_Graph_Layout
  imports Net_Graph_Prepared
begin

text \<open>
  \<open>web/src/netgraphLayout.ts\<close>: which nodes and edges of the net graph are shown, the lanes of parallel edges, the
  connected components and the positions from which the layout starts. \<open>lc\<close> is \<open>localeCompare\<close>.
\<close>

section \<open>Data and orders\<close>

record VisibleGraphLimits =
  vl_maxNodes :: js_number
  vl_maxEdges :: js_number

record NetGraphSeed =
  se_x :: js_number
  se_y :: js_number
  se_componentID :: nat
  se_componentX :: js_number
  se_componentY :: js_number

record NetGraphEdgeRenderPlan =
  pl_edgeID :: string
  pl_corridorKey :: string
  pl_laneIndex :: nat
  pl_laneCount :: nat
  pl_laneOffset :: js_number

record LayoutCell =
  lc_x :: js_number
  lc_y :: js_number
  lc_width :: js_number
  lc_height :: js_number

definition edgeCorridorKey :: "NetGraphEdge \<Rightarrow> string" where
  "edgeCorridorKey edge =
     (if code_unit_compare (gd_sourceID edge) (gd_targetID edge) \<le> 0 then gd_sourceID edge @ ''|'' @ gd_targetID edge
      else gd_targetID edge @ ''|'' @ gd_sourceID edge)"

definition compareNodesForStableLayout :: "(string \<Rightarrow> string \<Rightarrow> js_number) \<Rightarrow> NetGraphNode \<Rightarrow> NetGraphNode \<Rightarrow> js_number" where
  "compareNodesForStableLayout lc = then_by (by_desc (real o gn_degree)) (then_by (by_key lc gn_label) (by_key lc gn_id))"

definition compareEdgesForStableLayout :: "(string \<Rightarrow> string \<Rightarrow> js_number) \<Rightarrow> NetGraphEdge \<Rightarrow> NetGraphEdge \<Rightarrow> js_number" where
  "compareEdgesForStableLayout lc = then_by (by_key lc edgeCorridorKey) (by_key lc gd_id)"

section \<open>The visible graph\<close>

definition stableVisibleGraph :: "(string \<Rightarrow> string \<Rightarrow> js_number) \<Rightarrow> NetGraphData \<Rightarrow> VisibleGraphLimits \<Rightarrow> NetGraphData" where
  "stableVisibleGraph lc graph limits =
     (let visibleNodes = slice_to (vl_maxNodes limits) (js_sort (compareNodesForStableLayout lc) (ng_nodes graph));
          visibleNodeIDs = js_set (map gn_id visibleNodes);
          visibleEdges = slice_to (vl_maxEdges limits) (js_sort (compareEdgesForStableLayout lc)
            (filter (\<lambda>e. gd_sourceID e \<in> set visibleNodeIDs \<and> gd_targetID e \<in> set visibleNodeIDs) (ng_edges graph)))
      in graphData visibleNodes visibleEdges)"

definition graphTopologySignature :: "NetGraphData \<Rightarrow> string" where
  "graphTopologySignature graph =
     join ''|'' (sort_strings (map gn_id (ng_nodes graph))) @ ''::'' @
     join ''|'' (sort_strings (map (\<lambda>e. gd_id e @ '':'' @ gd_sourceID e @ ''>'' @ gd_targetID e) (ng_edges graph)))"

section \<open>Lanes\<close>

definition corridors :: "NetGraphEdge list \<Rightarrow> (string, NetGraphEdge list) js_map" where
  "corridors edges = foldl (\<lambda>groups edge.
     map_set (edgeCorridorKey edge) (or_else (map_get groups (edgeCorridorKey edge)) [] @ [edge]) groups) [] edges"

definition lane_plan :: "string \<Rightarrow> nat \<Rightarrow> nat \<times> NetGraphEdge \<Rightarrow> NetGraphEdgeRenderPlan" where
  "lane_plan corridorKey laneCount entry = \<lparr>pl_edgeID = gd_id (snd entry), pl_corridorKey = corridorKey,
     pl_laneIndex = fst entry, pl_laneCount = laneCount,
     pl_laneOffset = (if laneCount = 1 then 0 else real (fst entry) - (real laneCount - 1) / 2)\<rparr>"

definition corridor_plans ::
  "(string \<Rightarrow> string \<Rightarrow> js_number) \<Rightarrow> string \<times> NetGraphEdge list \<Rightarrow> NetGraphEdgeRenderPlan list" where
  "corridor_plans lc entry = map (lane_plan (fst entry) (length (snd entry)))
     (List.enumerate 0 (js_sort (compareEdgesForStableLayout lc) (snd entry)))"

definition buildEdgeRenderPlans ::
  "(string \<Rightarrow> string \<Rightarrow> js_number) \<Rightarrow> NetGraphEdge list \<Rightarrow> (string, NetGraphEdgeRenderPlan) js_map" where
  "buildEdgeRenderPlans lc edges =
     new_map (map (\<lambda>p. (pl_edgeID p, p)) (concat (map (corridor_plans lc) (js_sort (by_key lc fst) (corridors edges)))))"

section \<open>Connected components\<close>

type_synonym adjacency = "(string, string list) js_map"

definition link_nodes :: "adjacency \<Rightarrow> string \<Rightarrow> string \<Rightarrow> adjacency" where
  "link_nodes m u v = (case map_get m u of None \<Rightarrow> m | Some vs \<Rightarrow> map_set u (set_add v vs) m)"

definition graphAdjacency :: "NetGraphData \<Rightarrow> adjacency" where
  "graphAdjacency graph =
     foldl (\<lambda>m e. link_nodes (link_nodes m (gd_sourceID e) (gd_targetID e)) (gd_targetID e) (gd_sourceID e))
       (new_map (map (\<lambda>n. (gn_id n, [])) (ng_nodes graph))) (ng_edges graph)"

definition neighbours :: "adjacency \<Rightarrow> string \<Rightarrow> string list" where
  "neighbours m u = or_else (map_get m u) []"

definition all_neighbours :: "adjacency \<Rightarrow> string set" where
  "all_neighbours m = (\<Union>e \<in> set m. set (snd e))"

lemma finite_all_neighbours [simp]: "finite (all_neighbours m)"
  by (simp add: all_neighbours_def)

lemma neighbours_subset: "set (neighbours m u) \<subseteq> all_neighbours m"
  by (cases "map_get m u") (force simp: neighbours_def all_neighbours_def dest: map_of_SomeD)+

text \<open>
  The loop over the growing queue: \<open>queue\<close> holds what is not processed yet. The visited identifiers come first
  in the result, the identifiers of the component second.
\<close>

function searchComponent :: "adjacency \<Rightarrow> string list \<Rightarrow> string list \<Rightarrow> string list \<Rightarrow> string list \<times> string list" where
  "searchComponent m visited [] ids = (visited, ids)"
| "searchComponent m visited (current # queue) ids =
     (let new = filter (\<lambda>next. next \<notin> set visited) (js_set (neighbours m current))
      in searchComponent m (visited @ new) (queue @ new) (ids @ [current]))"
  by pat_completeness auto
termination
proof (relation "measures [\<lambda>(m, visited, queue, ids). card (all_neighbours m - set visited), \<lambda>(m, visited, queue, ids). length queue]",
    goal_cases)
  case (2 m visited current queue ids new)
  show ?case
  proof (cases "new = []")
    case False
    then obtain x where "x \<in> set new" by (cases new) auto
    then have "x \<in> all_neighbours m - set visited" "x \<notin> all_neighbours m - (set visited \<union> set new)"
      using 2 neighbours_subset [of m current] by auto
    then have "card (all_neighbours m - (set visited \<union> set new)) < card (all_neighbours m - set visited)"
      by (intro psubset_card_mono) auto
    then show ?thesis by simp
  qed simp
qed simp

definition componentStep ::
  "NetGraphData \<Rightarrow> adjacency \<Rightarrow> string list \<times> NetGraphNode list list \<Rightarrow> NetGraphNode \<Rightarrow> string list \<times> NetGraphNode list list" where
  "componentStep graph m vc node =
     (let (visited, components) = vc
      in if gn_id node \<in> set visited then (visited, components)
         else let (visited', ids) = searchComponent m (visited @ [gn_id node]) [gn_id node] []
              in (visited', components @ [List.map_filter (map_get (ng_nodeByID graph)) ids]))"

definition compareComponents :: "(string \<Rightarrow> string \<Rightarrow> js_number) \<Rightarrow> NetGraphNode list \<Rightarrow> NetGraphNode list \<Rightarrow> js_number" where
  "compareComponents lc = then_by (by_desc (real o length)) (\<lambda>a b. compareNodesForStableLayout lc (hd a) (hd b))"

definition connectedComponents :: "(string \<Rightarrow> string \<Rightarrow> js_number) \<Rightarrow> NetGraphData \<Rightarrow> NetGraphNode list list" where
  "connectedComponents lc graph =
     js_sort (compareComponents lc) (snd (foldl (componentStep graph (graphAdjacency graph)) ([], []) (ng_nodes graph)))"

section \<open>Starting positions\<close>

record LatLngBounds =
  bb_minLat :: js_number
  bb_maxLat :: js_number
  bb_minLng :: js_number
  bb_maxLng :: js_number
  bb_latSpan :: js_number
  bb_lngSpan :: js_number

definition latLngBounds :: "NetGraphNode list \<Rightarrow> LatLngBounds" where
  "latLngBounds nodes =
     (let lats = set (map gn_lat nodes); lngs = set (map gn_lng nodes)
      in \<lparr>bb_minLat = Min lats, bb_maxLat = Max lats, bb_minLng = Min lngs, bb_maxLng = Max lngs,
          bb_latSpan = Max lats - Min lats, bb_lngSpan = Max lngs - Min lngs\<rparr>)"

definition radialSeed :: "nat \<Rightarrow> nat \<Rightarrow> js_number \<Rightarrow> Point" where
  "radialSeed index amount spread =
     (if amount \<le> 1 then \<lparr>px = 0, py = 0\<rparr>
      else let angle = real index * 2.399963229728653; radius = spread * sqrt ((real index + 0.5) / real amount)
           in \<lparr>px = cos angle * radius, py = sin angle * radius\<rparr>)"

definition compareSlots :: "nat \<times> nat \<times> js_number \<Rightarrow> nat \<times> nat \<times> js_number \<Rightarrow> js_number" where
  "compareSlots = then_by (by_asc (snd o snd)) (then_by (by_asc (real o fst o snd)) (by_asc (real o fst)))"

text \<open>The slots are triples of a column, a row and the distance of the slot from the centre.\<close>

definition packedComponentCells :: "nat \<Rightarrow> js_number \<Rightarrow> js_number \<Rightarrow> LayoutCell list" where
  "packedComponentCells amount width height =
     (if amount = 0 then []
      else let columns = nat (max 1 \<lceil>sqrt (real amount * max 0.72 (width / max height 1))\<rceil>);
               rows = nat (max 1 \<lceil>real amount / real columns\<rceil>);
               usedWidth = width * min 0.72 (if amount \<le> 2 then 0.36 else 0.68);
               usedHeight = height * min 0.7 (if amount \<le> 2 then 0.36 else 0.66);
               cellWidth = usedWidth / real columns; cellHeight = usedHeight / real rows;
               cellSize = max 96 (min (min cellWidth cellHeight) (min width height * 0.24));
               slots = js_sort compareSlots (concat (map (\<lambda>row. map (\<lambda>column.
                 (column, row, js_hypot (real column - (real columns - 1) / 2) (real row - (real rows - 1) / 2))) [0..<columns]) [0..<rows]))
           in map (\<lambda>index.
                let (column, row) = (if index < length slots then (fst (slots ! index), fst (snd (slots ! index)))
                      else (index mod columns, index div columns))
                in \<lparr>lc_x = width / 2 - usedWidth / 2 + (real column + 0.5) * cellWidth,
                    lc_y = height / 2 - usedHeight / 2 + (real row + 0.5) * cellHeight,
                    lc_width = cellSize, lc_height = cellSize\<rparr>) [0..<amount])"

definition component_seeds ::
  "(string \<Rightarrow> string \<Rightarrow> js_number) \<Rightarrow> LayoutCell \<Rightarrow> js_number \<Rightarrow> nat \<Rightarrow> NetGraphNode list \<Rightarrow> (string \<times> NetGraphSeed) list" where
  "component_seeds lc cell spread componentID nodes =
     (let bounds = latLngBounds nodes
      in map (\<lambda>(index, node).
           let ranked = radialSeed index (length nodes) spread;
               hasGeoShape = (bb_latSpan bounds > 0.01 \<or> bb_lngSpan bounds > 0.01);
               geoX = (if hasGeoShape then ((gn_lng node - bb_minLng bounds) / max (bb_lngSpan bounds) 0.01 - 0.5) * spread * 1.8 else px ranked);
               geoY = (if hasGeoShape then ((bb_maxLat bounds - gn_lat node) / max (bb_latSpan bounds) 0.01 - 0.5) * spread * 1.8 else py ranked);
               blend = (if length nodes > 3 \<and> hasGeoShape then 0.32 else 0)
           in (gn_id node, \<lparr>se_x = lc_x cell + geoX * blend + px ranked * (1 - blend),
                se_y = lc_y cell + geoY * blend + py ranked * (1 - blend),
                se_componentID = componentID, se_componentX = lc_x cell, se_componentY = lc_y cell\<rparr>))
         (List.enumerate 0 (js_sort (compareNodesForStableLayout lc) nodes)))"

definition packedSeedLayout ::
  "(string \<Rightarrow> string \<Rightarrow> js_number) \<Rightarrow> NetGraphData \<Rightarrow> js_number \<Rightarrow> js_number \<Rightarrow> (string, NetGraphSeed) js_map" where
  "packedSeedLayout lc graph width height =
     (let components = connectedComponents lc graph
      in if components = [] then []
         else let cells = packedComponentCells (length components) width height;
                  largest = max 1 (length (hd components))
              in new_map (concat (map (\<lambda>(componentID, nodes).
                   let cell = (if componentID < length cells then cells ! componentID
                         else \<lparr>lc_x = width / 2, lc_y = height / 2, lc_width = width * 0.72, lc_height = height * 0.72\<rparr>);
                       spreadBase = (if length components = 1 then min width height * 0.31 else min (lc_width cell) (lc_height cell) * 0.31);
                       spread = max 34 (spreadBase * max 0.52 (sqrt (real (length nodes) / real largest)))
                   in component_seeds lc cell spread componentID nodes) (List.enumerate 0 components))))"

section \<open>Curves between plain points\<close>

text \<open>
  \<open>fnv1a\<close> of \<open>lib/hash.ts\<close> multiplies as doubles: the product is a signed 32-bit integer times 16777619, which is
  rounded to 53 bits (ties to even) before it is cut to 32.
\<close>

fun bit_length :: "nat \<Rightarrow> nat" where
  "bit_length n = (if n = 0 then 0 else Suc (bit_length (n div 2)))"

declare bit_length.simps [simp del]

definition round_double :: "int \<Rightarrow> int" where
  "round_double x =
     (let a = nat \<bar>x\<bar>; k = bit_length a - 53; q = a div 2 ^ k; r = 2 * (a mod 2 ^ k);
          q' = (if r > 2 ^ k \<or> r = 2 ^ k \<and> odd q then q + 1 else q)
      in sgn x * int (q' * 2 ^ k))"

definition fnv1a :: "string \<Rightarrow> 32 word" where
  "fnv1a str = foldl (\<lambda>hash c. word_of_int (round_double (sint (hash XOR word_of_nat (of_char c)) * 16777619))) 0x811c9dc5 str"

definition layoutFallbackEdgeBend :: "string \<Rightarrow> js_number \<Rightarrow> js_number" where
  "layoutFallbackEdgeBend edgeID baseBend =
     (let bendSeed = real (unat (fnv1a edgeID) mod 1000) / 999 - 0.5
      in sgn (if bendSeed \<noteq> 0 then bendSeed else 1) * baseBend * (0.45 + \<bar>bendSeed\<bar>))"

record OptionalPoint =
  op_x :: "js_number option"
  op_y :: "js_number option"

definition edgeControlPoint :: "OptionalPoint \<Rightarrow> OptionalPoint \<Rightarrow> NetGraphEdge \<Rightarrow> NetGraphEdgeRenderPlan option \<Rightarrow> Point" where
  "edgeControlPoint source target edge plan =
     (let x1 = or_else (op_x source) 0; y1 = or_else (op_y source) 0; x2 = or_else (op_x target) 0; y2 = or_else (op_y target) 0;
          dx = x2 - x1; dy = y2 - y1; len = max 1 (js_hypot dx dy); baseBend = min 58 (max 10 (len * 0.075));
          bend = (case plan of
              Some p \<Rightarrow> if pl_laneCount p > 1 then pl_laneOffset p * baseBend * 0.9 * edgeDirectionSign edge
                else layoutFallbackEdgeBend (gd_id edge) baseBend
            | None \<Rightarrow> layoutFallbackEdgeBend (gd_id edge) baseBend)
      in \<lparr>px = (x1 + x2) / 2 + (- dy / len) * bend, py = (y1 + y2) / 2 + (dx / len) * bend\<rparr>)"

definition pointOnEdgeCurve ::
  "OptionalPoint \<Rightarrow> OptionalPoint \<Rightarrow> NetGraphEdge \<Rightarrow> js_number \<Rightarrow> NetGraphEdgeRenderPlan option \<Rightarrow> Point" where
  "pointOnEdgeCurve source target edge progress plan =
     (let control = edgeControlPoint source target edge plan; t = clamp01 progress; oneMinus = 1 - t
      in \<lparr>px = oneMinus * oneMinus * or_else (op_x source) 0 + 2 * oneMinus * t * px control + t * t * or_else (op_x target) 0,
          py = oneMinus * oneMinus * or_else (op_y source) 0 + 2 * oneMinus * t * py control + t * t * or_else (op_y target) 0\<rparr>)"

definition distanceToEdgeCurve ::
  "Point \<Rightarrow> OptionalPoint \<Rightarrow> OptionalPoint \<Rightarrow> NetGraphEdge \<Rightarrow> NetGraphEdgeRenderPlan option \<Rightarrow> js_number" where
  "distanceToEdgeCurve point source target edge plan =
     Min (set (polyline_distances point (map (\<lambda>step. pointOnEdgeCurve source target edge (real step / 18) plan) [0..<19])))"

end
