(* ===== verification/Net_Graph_Transform.thy ===== *)
theory Net_Graph_Transform
  imports Net_Graph_Layout Payload_Visuals
begin

text \<open>
  \<open>web/src/workers/netgraphTransforms.ts\<close> and \<open>web/src/netgraphVisualModel.ts\<close>: the work of the net-graph worker,
  from the nodes and routes to the prepared graph. The force simulation of d3 is a parameter \<open>sim\<close>: from the
  forces, the nodes and the links it was given, and the number of ticks, it gives the position of each node by its
  index; it changes nothing else that the result uses.
\<close>

section \<open>Colours and shapes\<close>

definition NODE_ROLE_RENDER :: "(string, string \<times> string) js_map" where
  "NODE_ROLE_RENDER =
     [(''repeater'', ''#22c55e'', ''diamond''), (''companion'', ''#3b82f6'', ''triangle''), (''room_server'', ''#a855f7'', ''square''),
      (''sensor'', ''#65a30d'', ''pentagon''), (''unknown'', ''#64748b'', ''circle'')]"

definition OBSERVER_RENDER :: "string \<times> string" where
  "OBSERVER_RENDER = (''#f59e0b'', ''observer'')"

definition PAYLOAD_COLORS :: "(string, string) js_map" where
  "PAYLOAD_COLORS =
     [(''ADVERT'', ''#2dd4bf''), (''PLAIN_TEXT'', ''#38bdf8''), (''GROUP_TEXT'', ''#a78bfa''), (''GROUP_DATA'', ''#c084fc''),
      (''TRACE'', ''#f59e0b''), (''RETURNED_PATH'', ''#facc15''), (''REQUEST'', ''#67e8f9''), (''RESPONSE'', ''#fde047''),
      (''ACK'', ''#a3e635''), (''CONTROL'', ''#fb7185''), (''OTHER'', ''#e2e8f0'')]"

definition FALLBACK_PAYLOAD_COLORS :: "string list" where
  "FALLBACK_PAYLOAD_COLORS =
     [''#e2e8f0'', ''#7dd3fc'', ''#c084fc'', ''#f0abfc'', ''#facc15'', ''#fb7185'', ''#2dd4bf'', ''#a3e635'']"

definition node_render :: "string \<Rightarrow> bool \<Rightarrow> string \<times> string" where
  "node_render role isObserver =
     (if isObserver then OBSERVER_RENDER
      else or_else (map_get NODE_ROLE_RENDER role) (''#64748b'', ''circle''))"

definition netGraphNodeColor :: "string \<Rightarrow> bool \<Rightarrow> string" where
  "netGraphNodeColor role isObserver = fst (node_render role isObserver)"

definition netGraphNodeShape :: "string \<Rightarrow> bool \<Rightarrow> string" where
  "netGraphNodeShape role isObserver = snd (node_render role isObserver)"

definition netGraphPayloadColor :: "string option \<Rightarrow> string" where
  "netGraphPayloadColor payloadTypeName =
     (let normalized = normalizePayloadType payloadTypeName
      in or_else (map_get PAYLOAD_COLORS normalized)
           (FALLBACK_PAYLOAD_COLORS ! (unat (payloadHash normalized) mod length FALLBACK_PAYLOAD_COLORS)))"

section \<open>Nodes and links of the simulation\<close>

record SimNode = NetGraphNode +
  sn_x :: js_number
  sn_y :: js_number
  sn_vx :: "js_number option"
  sn_vy :: "js_number option"
  sn_seedX :: js_number
  sn_seedY :: js_number
  sn_componentID :: nat
  sn_componentX :: js_number
  sn_componentY :: js_number
  sn_radius :: js_number

type_synonym SimLink = "NetGraphEdge \<times> NetGraphEdgeRenderPlan"

record NetGraphPrepareInput =
  pi_nodes :: "PublicNode list"
  pi_routes :: "PublicRoute list"
  pi_width :: js_number
  pi_height :: js_number
  pi_maxNodes :: js_number
  pi_maxEdges :: js_number
  pi_previousTopologySignature :: "string option"
  pi_previousPositions :: "NetGraphPreviousPosition list option"
  pi_layoutPaused :: "bool option"

definition js_log1p :: "js_number \<Rightarrow> js_number" where
  "js_log1p x = ln (1 + x)"

definition nodeRadius :: "NetGraphNode \<Rightarrow> js_number" where
  "nodeRadius node = max 4.5 (min 16 (4.5 + sqrt (real (gn_degree node)) * 2.2 + js_log1p (gn_activityCount node) * 0.55 +
     (if gn_isObserver node then 1.5 else 0)))"

definition edgeWidth :: "NetGraphEdge \<Rightarrow> js_number" where
  "edgeWidth edge = max 0.55 (min 1.8 (js_log1p (gd_packetCount edge) * 0.24))"

definition linkDistance :: "NetGraphEdge \<Rightarrow> js_number" where
  "linkDistance edge = max 48 (min 132 (52 + sqrt (max 1 (gd_distanceKm edge)) * 3.5))"

definition stableNodeHash :: "string \<Rightarrow> 32 word" where
  "stableNodeHash value = foldl (\<lambda>hash c. (hash XOR word_of_nat (of_char c)) * 16777619) 2166136261 value"

definition stableNodeAngle :: "string \<Rightarrow> js_number" where
  "stableNodeAngle value = real (unat (stableNodeHash value) mod 3600) / 3600 * pi * 2"

definition simNodeFromGraphNode :: "NetGraphNode \<Rightarrow> NetGraphSeed option \<Rightarrow> SimNode" where
  "simNodeFromGraphNode node seed =
     (let s = or_else seed \<lparr>se_x = 0, se_y = 0, se_componentID = 0, se_componentX = 0, se_componentY = 0\<rparr>
      in NetGraphNode.extend node \<lparr>sn_x = se_x s, sn_y = se_y s, sn_vx = None, sn_vy = None, sn_seedX = se_x s, sn_seedY = se_y s,
           sn_componentID = se_componentID s, sn_componentX = se_componentX s, sn_componentY = se_componentY s,
           sn_radius = nodeRadius node\<rparr>)"

definition neighbor_id :: "string \<Rightarrow> NetGraphEdge \<Rightarrow> string" where
  "neighbor_id nodeID edge = (if gd_sourceID edge = nodeID then gd_targetID edge
     else if gd_targetID edge = nodeID then gd_sourceID edge else [])"

definition known_neighbors :: "string \<Rightarrow> NetGraphData \<Rightarrow> (string, NetGraphPreviousPosition) js_map \<Rightarrow> NetGraphPreviousPosition list" where
  "known_neighbors nodeID graph previousPositions =
     List.map_filter (\<lambda>edge. let neighborID = neighbor_id nodeID edge
       in if neighborID = [] then None else map_get previousPositions neighborID) (ng_edges graph)"

definition seedNodeNearKnownNeighbors ::
  "'a NetGraphNode_scheme \<Rightarrow> NetGraphData \<Rightarrow> (string, NetGraphPreviousPosition) js_map \<Rightarrow> Point option" where
  "seedNodeNearKnownNeighbors node graph previousPositions =
     (let neighbors = known_neighbors (gn_id node) graph previousPositions
      in if neighbors = [] then None
         else let angle = stableNodeAngle (gn_id node); radius = 32 + real (unat (stableNodeHash (gn_id node)) mod 24)
              in Some \<lparr>px = sum_list (map po_x neighbors) / real (length neighbors) + cos angle * radius,
                   py = sum_list (map po_y neighbors) / real (length neighbors) + sin angle * radius\<rparr>)"

text \<open>One turn of the loop that places the nodes; a node is added when it has no previous position.\<close>

definition is_added :: "(string, NetGraphPreviousPosition) js_map \<Rightarrow> 'a NetGraphNode_scheme \<Rightarrow> bool" where
  "is_added previousPositions node \<longleftrightarrow> \<not> map_has previousPositions (gn_id node)"

definition placeNode :: "NetGraphData \<Rightarrow> (string, NetGraphPreviousPosition) js_map \<Rightarrow> SimNode \<Rightarrow> SimNode" where
  "placeNode graph previousPositions node =
     (case map_get previousPositions (gn_id node) of
        Some previous \<Rightarrow> node\<lparr>sn_x := po_x previous, sn_y := po_y previous,
          sn_vx := Some (or_else (po_vx previous) 0), sn_vy := Some (or_else (po_vy previous) 0)\<rparr>
      | None \<Rightarrow> (case seedNodeNearKnownNeighbors node graph previousPositions of
            None \<Rightarrow> node
          | Some p \<Rightarrow> node\<lparr>sn_x := px p, sn_y := py p\<rparr>))"

section \<open>Settling\<close>

text \<open>What the simulation is given: the forces with their parameters.\<close>

record SimulationSetup =
  su_nodes :: "SimNode list"
  su_links :: "SimLink list"
  su_distances :: "js_number list"
  su_linkStrength :: js_number
  su_charges :: "js_number list"
  su_collideRadii :: "js_number list"
  su_collideStrength :: js_number
  su_targetsX :: "js_number list"
  su_targetsY :: "js_number list"
  su_targetStrength :: js_number
  su_centerX :: js_number
  su_centerY :: js_number
  su_centerStrength :: js_number
  su_alphaDecay :: js_number
  su_velocityDecay :: js_number

type_synonym simulation = "SimulationSetup \<Rightarrow> nat \<Rightarrow> nat \<Rightarrow> Point"

definition forceSetup :: "SimNode list \<Rightarrow> SimLink list \<Rightarrow> js_number \<Rightarrow> js_number \<Rightarrow> SimulationSetup" where
  "forceSetup nodes links width height = \<lparr>su_nodes = nodes, su_links = links,
     su_distances = map (linkDistance o fst) links, su_linkStrength = 0.42,
     su_charges = map (\<lambda>n. - 72 - real (min (gn_degree n) 18) * 7) nodes,
     su_collideRadii = map (\<lambda>n. sn_radius n + 14) nodes, su_collideStrength = 0.92,
     su_targetsX = map sn_componentX nodes, su_targetsY = map sn_componentY nodes, su_targetStrength = 0.11,
     su_centerX = width / 2, su_centerY = height / 2, su_centerStrength = 0.018,
     su_alphaDecay = 0.033, su_velocityDecay = 0.46\<rparr>"

record Settled =
  st_nodes :: "SimNode list"
  st_links :: "SimLink list"
  st_layoutTicks :: nat

definition settleVisibleGraph ::
  "(string \<Rightarrow> string \<Rightarrow> js_number) \<Rightarrow> simulation \<Rightarrow> NetGraphData \<Rightarrow> js_number \<Rightarrow> js_number \<Rightarrow>
   (string, NetGraphPreviousPosition) js_map \<Rightarrow> bool \<Rightarrow> bool \<Rightarrow> Settled" where
  "settleVisibleGraph lc sim graph width height previousPositions topologyReused layoutPaused =
     (let safeWidth = max 1 width; safeHeight = max 1 height;
          seedLayout = packedSeedLayout lc graph safeWidth safeHeight;
          simNodes = map (\<lambda>node. placeNode graph previousPositions (simNodeFromGraphNode node (map_get seedLayout (gn_id node)))) (ng_nodes graph);
          addedNodes = length (filter (is_added previousPositions) simNodes);
          removedNodes = length (filter (\<lambda>i. \<not> map_has (ng_nodeByID graph) i) (map fst previousPositions));
          edgeRenderPlans = buildEdgeRenderPlans lc (ng_edges graph);
          nodeIDs = js_set (map gn_id simNodes);
          simLinks = List.map_filter (\<lambda>edge. map_option (Pair edge) (map_get edgeRenderPlans (gd_id edge)))
            (filter (\<lambda>edge. gd_sourceID edge \<in> set nodeIDs \<and> gd_targetID edge \<in> set nodeIDs) (ng_edges graph));
          ticks = (if topologyReused then 0
            else sp_ticks (netGraphSettlePlan (length previousPositions) (length simNodes) (addedNodes + removedNodes) layoutPaused))
      in if ticks = 0 then \<lparr>st_nodes = simNodes, st_links = simLinks, st_layoutTicks = 0\<rparr>
         else let positions = sim (forceSetup simNodes simLinks safeWidth safeHeight) ticks
              in \<lparr>st_nodes = map (\<lambda>(i, n). n\<lparr>sn_x := px (positions i), sn_y := py (positions i)\<rparr>) (List.enumerate 0 simNodes),
                  st_links = simLinks, st_layoutTicks = ticks\<rparr>)"

section \<open>The prepared graph\<close>

text \<open>
  \<open>record[key] = value\<close> on a plain object: an assignment to \<open>__proto__\<close> defines nothing. A read of an inherited
  property gives no index, so a lookup finds exactly the keys that were put.
\<close>

definition record_put :: "string \<Rightarrow> 'v \<Rightarrow> (string, 'v) js_map \<Rightarrow> (string, 'v) js_map" where
  "record_put key v m = (if key = ''__proto__'' then m else map_set key v m)"

definition record_index :: "('a \<Rightarrow> string) \<Rightarrow> 'a list \<Rightarrow> (string, nat) js_map" where
  "record_index f xs = foldl (\<lambda>m (i, x). record_put (f x) i m) [] (List.enumerate 0 xs)"

definition preparedNode :: "SimNode \<Rightarrow> PreparedNetGraphNode" where
  "preparedNode node = NetGraphNode.extend (NetGraphNode.truncate node)
     \<lparr>gx_x = sn_x node, gx_y = sn_y node, gx_seedX = sn_seedX node, gx_seedY = sn_seedY node,
      gx_componentID = sn_componentID node, gx_componentX = sn_componentX node, gx_componentY = sn_componentY node,
      gx_radius = sn_radius node, gx_color = netGraphNodeColor (gn_role node) (gn_isObserver node),
      gx_shape = netGraphNodeShape (gn_role node) (gn_isObserver node), gx_searchText = preparedNodeSearchText node\<rparr>"

definition preparedEdge :: "PreparedNetGraphNode list \<Rightarrow> (string, nat) js_map \<Rightarrow> SimLink \<Rightarrow> PreparedNetGraphEdge option" where
  "preparedEdge nodes nodeIndexByID link =
     (let edge = fst link; plan = snd link
      in case (map_get nodeIndexByID (gd_sourceID edge), map_get nodeIndexByID (gd_targetID edge)) of
           (Some sourceIndex, Some targetIndex) \<Rightarrow>
             if sourceIndex < length nodes \<and> targetIndex < length nodes then
               let source = nodes ! sourceIndex; target = nodes ! targetIndex;
                   width = edgeWidth edge;
                   plain = NetGraphEdge.extend edge \<lparr>ex_sourceIndex = sourceIndex, ex_targetIndex = targetIndex,
                     ex_laneOffset = pl_laneOffset plan, ex_laneCount = pl_laneCount plan, ex_controlX = 0, ex_controlY = 0,
                     ex_minX = 0, ex_minY = 0, ex_maxX = 0, ex_maxY = 0, ex_width = width,
                     ex_color = netGraphPayloadColor (case gd_payloadTypeNames edge of [] \<Rightarrow> None | x # _ \<Rightarrow> Some x),
                     ex_searchText = preparedEdgeSearchText edge\<rparr>;
                   control = preparedEdgeControlPoint source target plain; padding = max 16 (width + 10)
               in Some (plain\<lparr>ex_controlX := px control, ex_controlY := py control,
                    ex_minX := min (min (gx_x source) (gx_x target)) (px control) - padding,
                    ex_minY := min (min (gx_y source) (gx_y target)) (py control) - padding,
                    ex_maxX := max (max (gx_x source) (gx_x target)) (px control) + padding,
                    ex_maxY := max (max (gx_y source) (gx_y target)) (py control) + padding\<rparr>)
             else None
         | _ \<Rightarrow> None)"

definition preparedGraphFromSettledGraph ::
  "NetGraphData \<Rightarrow> NetGraphData \<Rightarrow> string \<Rightarrow> Settled \<Rightarrow> bool \<Rightarrow> PreparedNetGraph" where
  "preparedGraphFromSettledGraph sourceGraph visibleGraph topologySignature settled layoutReused =
     (let nodes = map preparedNode (st_nodes settled);
          nodeIndexByID = record_index gn_id (st_nodes settled);
          edges = List.map_filter (preparedEdge nodes nodeIndexByID) (st_links settled)
      in \<lparr>gp_nodes = nodes, gp_edges = edges, gp_nodeIndexByID = nodeIndexByID, gp_edgeIndexByID = record_index gd_id edges,
          gp_nodeSpatialIndex = createNodeSpatialIndex nodes, gp_edgeSpatialIndex = createEdgeSpatialIndex edges,
          gp_topologySignature = topologySignature, gp_totalNodes = length (ng_nodes sourceGraph),
          gp_totalEdges = length (ng_edges sourceGraph), gp_visibleNodes = length (ng_nodes visibleGraph),
          gp_visibleEdges = length (ng_edges visibleGraph), gp_layoutTicks = st_layoutTicks settled,
          gp_layoutReused = layoutReused\<rparr>)"

definition prepareNetGraph ::
  "(string \<Rightarrow> string \<Rightarrow> js_number) \<Rightarrow> simulation \<Rightarrow> NetGraphPrepareInput \<Rightarrow> PreparedNetGraph" where
  "prepareNetGraph lc sim input =
     (let graph = buildNetGraphData lc (pi_nodes input) (pi_routes input);
          visibleGraph = stableVisibleGraph lc graph \<lparr>vl_maxNodes = pi_maxNodes input, vl_maxEdges = pi_maxEdges input\<rparr>;
          topologySignature = graphTopologySignature visibleGraph;
          previousPositions = new_map (map (\<lambda>p. (po_id p, p)) (or_else (pi_previousPositions input) []));
          topologyReused = (case pi_previousTopologySignature input of None \<Rightarrow> False | Some s \<Rightarrow> s \<noteq> [] \<and> s = topologySignature);
          settled = settleVisibleGraph lc sim visibleGraph (pi_width input) (pi_height input) previousPositions topologyReused
            (pi_layoutPaused input = Some True)
      in preparedGraphFromSettledGraph graph visibleGraph topologySignature settled topologyReused)"

record NetGraphTransformRequest =
  nr_id :: string
  nr_type :: string
  nr_payload :: NetGraphPrepareInput

text \<open>
  The answer of the worker: the identifier of the request with the graph or with the message of the error that a
  request of another type raises.
\<close>

definition transformNetGraph ::
  "(string \<Rightarrow> string \<Rightarrow> js_number) \<Rightarrow> simulation \<Rightarrow> NetGraphTransformRequest \<Rightarrow> string + string \<times> PreparedNetGraph" where
  "transformNetGraph lc sim request =
     (if nr_type request \<noteq> ''prepare'' then Inl (''unsupported netgraph transform: '' @ nr_type request)
      else Inr (nr_id request, prepareNetGraph lc sim (nr_payload request)))"

record NetGraphAnswer =
  na_id :: string
  na_graph :: "PreparedNetGraph option"
  na_error :: "string option"

definition netGraphWorkerMessage ::
  "(string \<Rightarrow> string \<Rightarrow> js_number) \<Rightarrow> simulation \<Rightarrow> NetGraphTransformRequest \<Rightarrow> NetGraphAnswer" where
  "netGraphWorkerMessage lc sim request =
     (case transformNetGraph lc sim request of
        Inl e \<Rightarrow> \<lparr>na_id = nr_id request, na_graph = None, na_error = Some e\<rparr>
      | Inr (i, g) \<Rightarrow> \<lparr>na_id = i, na_graph = Some g, na_error = None\<rparr>)"

end
