(* ===== verification/Net_Graph_Correct.thy ===== *)
theory Net_Graph_Correct
  imports Net_Graph
begin

text \<open>
  The graph of the net-graph view is well-formed when the ids of the routes have no surrounding blanks: ids
  are unique, edges join different nodes of the graph, and the routes and the degree of a node are those
  of its edges. From this the selections follow; without the hypothesis the ids of edges can repeat.
\<close>

section \<open>Drafts\<close>

definition touches :: "NetGraphEdge \<Rightarrow> string \<Rightarrow> bool" where
  "touches e n \<longleftrightarrow> gd_sourceID e = n \<or> gd_targetID e = n"

definition draft_ok :: "GraphDraft \<Rightarrow> bool" where
  "draft_ok d \<longleftrightarrow> well_keyed (dr_nodes d) \<and> well_keyed (dr_edges d) \<and>
     (\<forall>(k, n) \<in> set (dr_nodes d). gn_id n = k) \<and>
     (\<forall>(k, e) \<in> set (dr_edges d). gd_id e = k \<and> gd_sourceID e \<noteq> gd_targetID e \<and>
        gd_sourceID e \<in> set (map fst (dr_nodes d)) \<and> gd_targetID e \<in> set (map fst (dr_nodes d))) \<and>
     (\<forall>n. distinct (or_else (map_get (dr_routeIDs d) n) [])) \<and>
     (\<forall>n r. r \<in> set (or_else (map_get (dr_routeIDs d) n) []) \<longleftrightarrow> (\<exists>e. (r, e) \<in> set (dr_edges d) \<and> touches e n)) \<and>
     (\<forall>n \<in> set (map fst (dr_nodes d)). or_else (map_get (dr_routeIDs d) n) [] \<noteq> [])"

lemma safeText_trimmed [simp]: "safeText (Some (safeText (Some s) [])) [] = safeText (Some s) []"
  by (cases "js_trim s = []") (simp_all add: safeText_def or_str_def)

lemma set_add_not_Nil [simp]: "set_add x s \<noteq> []"
  by (cases s) (simp_all add: set_add_def)

lemma normalized_endpoint:
  "normalizeRouteEndpoint e = Some e' \<Longrightarrow> ep_nodeId e' \<noteq> [] \<and> safeText (Some (ep_nodeId e')) [] = ep_nodeId e'"
  by (auto simp: normalizeRouteEndpoint_def Let_def split: if_splits)

lemma normalized_route:
  "normalizePublicRoute route = Some r \<Longrightarrow> rt_id r = js_trim (rt_id route) \<and> rt_id r \<noteq> [] \<and>
     safeText (Some (ep_nodeId (rt_from r))) [] = ep_nodeId (rt_from r) \<and> ep_nodeId (rt_from r) \<noteq> [] \<and>
     safeText (Some (ep_nodeId (rt_to r))) [] = ep_nodeId (rt_to r) \<and> ep_nodeId (rt_to r) \<noteq> []"
  by (auto simp: normalizePublicRoute_def Let_def safeText_def [of "Some (rt_id route)"] or_str_def
      split: option.splits if_splits dest!: normalized_endpoint)

lemma draftNode_id: "safeText (Some (ep_nodeId e)) [] = ep_nodeId e \<Longrightarrow> ep_nodeId e \<noteq> [] \<Longrightarrow> gn_id (draftNode m e) = ep_nodeId e"
  by (simp add: draftNode_def netGraphNodeFromRouteEndpoint_def Let_def)

lemma addRouteForNode_get:
  "or_else (map_get (addRouteForNode k r m) n) [] =
     (if n = k then set_add r (or_else (map_get m k) []) else or_else (map_get m n) [])"
  by (simp add: addRouteForNode_def)

lemma draftRoute_ok:
  assumes d: "draft_ok d" and t: "js_trim (rt_id route) = rt_id route"
  shows "draft_ok (draftRoute p d route)"
proof (cases "normalizePublicRoute route")
  case None
  then show ?thesis using d by (simp add: draftRoute_def)
next
  case (Some r)
  note r = normalized_route [OF Some]
  have i: "rt_id route = rt_id r" using r t by simp
  let ?f = "ep_nodeId (rt_from r)" and ?t = "ep_nodeId (rt_to r)"
  show ?thesis
  proof (cases "?f = ?t \<or> map_has (dr_edges d) (rt_id r)")
    case True
    then show ?thesis using d Some by (auto simp: draftRoute_def Let_def)
  next
    case False
    let ?e = "edgeOfRoute r"
    let ?d = "draftRoute p d route"
    have new: "rt_id r \<notin> fst ` set (dr_edges d)" using False by (simp add: map_has_def)
    have nodes: "dr_nodes ?d = map_set ?t (draftNode p (rt_to r)) (map_set ?f (draftNode p (rt_from r)) (dr_nodes d))"
      and edges: "dr_edges ?d = dr_edges d @ [(rt_id r, ?e)]"
      and ids: "\<And>n. or_else (map_get (dr_routeIDs ?d) n) [] =
        (if n = ?f \<or> n = ?t then set_add (rt_id r) (or_else (map_get (dr_routeIDs d) n) []) else or_else (map_get (dr_routeIDs d) n) [])"
      using False Some new by (auto simp: draftRoute_def Let_def i addRouteForNode_get map_set_new)
    have keys: "set (map fst (dr_nodes ?d)) = insert ?t (insert ?f (set (map fst (dr_nodes d))))"
      by (simp add: nodes keys_map_set del: set_map)
    have e: "gd_id ?e = rt_id r" "gd_sourceID ?e = ?f" "gd_targetID ?e = ?t" "touches ?e n \<longleftrightarrow> n = ?f \<or> n = ?t" for n
      by (auto simp: edgeOfRoute_def touches_def)
    have wk: "well_keyed (dr_nodes d)" using d by (simp add: draft_ok_def)
    have "\<forall>(k, n) \<in> set (dr_nodes ?d). gn_id n = k"
      using d wk r by (auto simp: draft_ok_def nodes set_map_set draftNode_id)
    moreover have "\<forall>(k, x) \<in> set (dr_edges ?d). gd_id x = k \<and> gd_sourceID x \<noteq> gd_targetID x \<and>
        gd_sourceID x \<in> set (map fst (dr_nodes ?d)) \<and> gd_targetID x \<in> set (map fst (dr_nodes ?d))"
      using d False unfolding keys edges by (auto simp: draft_ok_def e)
    moreover have "\<forall>n r'. r' \<in> set (or_else (map_get (dr_routeIDs ?d) n) []) \<longleftrightarrow> (\<exists>x. (r', x) \<in> set (dr_edges ?d) \<and> touches x n)"
      using d by (auto simp: draft_ok_def ids edges e)
    moreover have "\<forall>n \<in> set (map fst (dr_nodes ?d)). or_else (map_get (dr_routeIDs ?d) n) [] \<noteq> []"
    proof
      fix n assume "n \<in> set (map fst (dr_nodes ?d))"
      then have "n = ?f \<or> n = ?t \<or> n \<in> set (map fst (dr_nodes d))" unfolding keys by blast
      then show "or_else (map_get (dr_routeIDs ?d) n) [] \<noteq> []"
        using d by (auto simp: draft_ok_def ids simp del: set_map)
    qed
    moreover have "well_keyed (dr_edges ?d)" using d new by (simp add: draft_ok_def edges well_keyed_def)
    moreover have "well_keyed (dr_nodes ?d)" by (simp add: nodes wk)
    moreover have "\<forall>n. distinct (or_else (map_get (dr_routeIDs ?d) n) [])" using d by (simp add: draft_ok_def ids)
    ultimately show ?thesis unfolding draft_ok_def by blast
  qed
qed

lemma draft_edge_id: "draft_ok d \<Longrightarrow> (r, e) \<in> set (dr_edges d) \<Longrightarrow> gd_id e = r"
  by (auto simp: draft_ok_def)

lemma graphDraft_ok:
  "\<forall>r \<in> set routes. js_trim (rt_id r) = rt_id r \<Longrightarrow> draft_ok (graphDraft nodes routes)"
  unfolding graphDraft_def Let_def
  by (rule foldl_invariant) (simp_all add: draftRoute_ok, simp add: draft_ok_def)

section \<open>Graphs\<close>

definition graph_ok :: "NetGraphData \<Rightarrow> bool" where
  "graph_ok g \<longleftrightarrow>
     distinct (map gn_id (ng_nodes g)) \<and> distinct (map gd_id (ng_edges g)) \<and>
     (\<forall>e \<in> set (ng_edges g). gd_sourceID e \<noteq> gd_targetID e \<and> gd_sourceID e \<in> gn_id ` set (ng_nodes g) \<and>
        gd_targetID e \<in> gn_id ` set (ng_nodes g)) \<and>
     (\<forall>n \<in> set (ng_nodes g). distinct (gn_routeIDs n) \<and> gn_degree n = length (gn_routeIDs n) \<and> 0 < gn_degree n \<and>
        set (gn_routeIDs n) = gd_id ` {e \<in> set (ng_edges g). touches e (gn_id n)}) \<and>
     (\<forall>k. map_get (ng_nodeByID g) k = find (\<lambda>n. gn_id n = k) (ng_nodes g)) \<and>
     (\<forall>k. map_get (ng_edgeByID g) k = find (\<lambda>e. gd_id e = k) (ng_edges g))"

lemma map_of_find: "map_of (map (\<lambda>x. (f x, x)) xs) k = find (\<lambda>x. f x = k) xs"
  by (induction xs) auto

lemma graphData_find:
  "distinct (map gn_id ns) \<Longrightarrow> map_get (ng_nodeByID (graphData ns es)) k = find (\<lambda>n. gn_id n = k) ns"
  "distinct (map gd_id es) \<Longrightarrow> map_get (ng_edgeByID (graphData ns es)) k = find (\<lambda>e. gd_id e = k) es"
  by (simp_all add: graphData_def map_get_new_map_distinct comp_def map_of_find)

lemma build_ok:
  assumes "\<forall>r \<in> set routes. js_trim (rt_id r) = rt_id r"
  shows "graph_ok (buildNetGraphData lc nodes routes)"
proof -
  define d where "d = graphDraft nodes routes"
  have d: "draft_ok d" unfolding d_def by (rule graphDraft_ok [OF assms])
  let ?fin = "finishNode (dr_routeIDs d)"
  define ns where "ns = js_sort (compareGraphNodes lc) (filter (\<lambda>n. 0 < gn_degree n) (map ?fin (map_vals (dr_nodes d))))"
  define es where "es = js_sort (then_by (by_desc gd_packetCount) (by_desc gd_lastHeard)) (map_vals (dr_edges d))"
  have fin: "gn_id (?fin n) = gn_id n" "gn_routeIDs (?fin n) = sort_strings (or_else (map_get (dr_routeIDs d) (gn_id n)) [])"
      "gn_degree (?fin n) = length (gn_routeIDs (?fin n))" for n
    by (simp_all add: finishNode_def Let_def)
  have nid: "map gn_id (map_vals (dr_nodes d)) = map fst (dr_nodes d)" using d by (auto simp: draft_ok_def)
  have eid: "map gd_id (map_vals (dr_edges d)) = map fst (dr_edges d)" using d by (auto simp: draft_ok_def)
  have pos: "0 < gn_degree (?fin n)" if "n \<in> set (map_vals (dr_nodes d))" for n
  proof -
    have "gn_id n \<in> set (map fst (dr_nodes d))" using that nid by (metis image_eqI set_map)
    then have "or_else (map_get (dr_routeIDs d) (gn_id n)) [] \<noteq> []" using d by (auto simp: draft_ok_def)
    then show ?thesis by (simp add: fin sort_strings_def)
  qed
  then have ns: "ns = js_sort (compareGraphNodes lc) (map ?fin (map_vals (dr_nodes d)))"
    unfolding ns_def by (subst filter_True) auto
  have "map gn_id (map ?fin (map_vals (dr_nodes d))) = map fst (dr_nodes d)"
    unfolding nid [symmetric] by (simp add: fin)
  then have dn: "distinct (map gn_id ns)" using d by (simp add: ns draft_ok_def well_keyed_def del: map_map)
  have de: "distinct (map gd_id es)" using d eid by (simp add: es_def draft_ok_def well_keyed_def del: map_map)
  have ids: "gn_id ` set ns = set (map fst (dr_nodes d))" by (simp add: ns fin image_image flip: nid)
  have sete: "set es = snd ` set (dr_edges d)" by (simp add: es_def)
  have "set (gn_routeIDs n) = gd_id ` {e \<in> set es. touches e (gn_id n)} \<and> distinct (gn_routeIDs n)"
    if nn: "n \<in> set ns" for n
  proof -
    from nn obtain m where m: "n = ?fin m" unfolding ns by auto
    have "set (gn_routeIDs n) = {r. \<exists>e. (r, e) \<in> set (dr_edges d) \<and> touches e (gn_id m)}"
      using d unfolding m fin draft_ok_def by (auto simp del: not_None_eq)
    also have "\<dots> = gd_id ` {e \<in> set es. touches e (gn_id m)}"
      unfolding sete by (force simp: draft_edge_id [OF d])
    finally show ?thesis using d by (simp add: m fin draft_ok_def)
  qed
  moreover have "\<forall>e \<in> set es. gd_sourceID e \<noteq> gd_targetID e \<and> gd_sourceID e \<in> gn_id ` set ns \<and> gd_targetID e \<in> gn_id ` set ns"
    using d unfolding ids sete by (auto simp: draft_ok_def)
  moreover have "\<forall>n \<in> set ns. gn_degree n = length (gn_routeIDs n) \<and> gn_routeIDs n \<noteq> []"
    using pos by (auto simp: ns fin)
  moreover have "buildNetGraphData lc nodes routes = graphData ns es"
    by (simp add: buildNetGraphData_def Let_def ns_def es_def d_def)
  ultimately show ?thesis
    using dn de graphData_find(1) [OF dn] graphData_find(2) [OF de]
    unfolding graph_ok_def by (simp add: graphData_def)
qed

section \<open>Properties\<close>

lemma foldl_addEdgeEnds:
  "set (foldl (addEdgeEnds g) ns es) =
     set ns \<union> {n. \<exists>i \<in> set es. \<exists>e. map_get (ng_edgeByID g) i = Some e \<and> touches e n}"
  by (induction es arbitrary: ns) (auto simp: addEdgeEnds_def touches_def split: option.split)

lemma find_by_key:
  assumes "distinct (map f xs)"
  shows "find (\<lambda>x. f x = k) xs = Some x \<longleftrightarrow> x \<in> set xs \<and> f x = k"
  using assms by (induction xs) (auto simp: image_iff)

lemma graph_edge: "graph_ok g \<Longrightarrow> map_get (ng_edgeByID g) i = Some e \<longleftrightarrow> e \<in> set (ng_edges g) \<and> gd_id e = i"
  by (simp add: graph_ok_def find_by_key)

lemma graph_node: "graph_ok g \<Longrightarrow> map_get (ng_nodeByID g) i = Some n \<longleftrightarrow> n \<in> set (ng_nodes g) \<and> gn_id n = i"
  by (simp add: graph_ok_def find_by_key)

lemma graph_routeIDs:
  "graph_ok g \<Longrightarrow> n \<in> set (ng_nodes g) \<Longrightarrow>
     set (gn_routeIDs n) = gd_id ` {e \<in> set (ng_edges g). touches e (gn_id n)} \<and> distinct (gn_routeIDs n)"
  by (simp add: graph_ok_def)

text \<open>
  C17. For routes whose ids have no surrounding blanks, the graph that is built has unique node and edge ids, no
  edge from a node to itself, both ends of every edge among its nodes, no isolated node, and for every node
  exactly the ids of its edges, each once, as \<open>routeIDs\<close> and their number as \<open>degree\<close>.
\<close>

theorem net_graph_well_formed:
  assumes "\<forall>r \<in> set routes. js_trim (rt_id r) = rt_id r"
  shows "graph_ok (buildNetGraphData lc nodes routes)"
  by (rule build_ok [OF assms])

theorem net_graph_well_formed_witness:
  "graph_ok (buildNetGraphData code_unit_compare [] [sample_route ''r'' ''a'' ''b'', sample_route ''s'' ''b'' ''c''])"
  by (rule net_graph_well_formed) (simp add: sample_defs js_trim_def trim_start_def trim_end_def is_space_def)

text \<open>
  The neighbourhood of a node of a well-formed graph holds exactly the edges at the node and, as nodes, the
  node itself and the other ends of those edges, in the order of the graph.
\<close>

lemma neighborhood_is_exact:
  assumes g: "graph_ok g" and n: "n \<in> set (ng_nodes g)"
  shows "ng_edges (selectedNeighborhood g (gn_id n)) = filter (\<lambda>e. touches e (gn_id n)) (ng_edges g) \<and>
    ng_nodes (selectedNeighborhood g (gn_id n)) =
      filter (\<lambda>m. m = n \<or> (\<exists>e \<in> set (ng_edges g). touches e (gn_id n) \<and> touches e (gn_id m))) (ng_nodes g)"
proof -
  let ?s = "selectionForNode g (gn_id n)"
  have look: "map_get (ng_nodeByID g) (gn_id n) = Some n" using g n by (simp add: graph_node)
  have edges: "set (gs_edgeIDs ?s) = gd_id ` {e \<in> set (ng_edges g). touches e (gn_id n)}"
    using graph_routeIDs [OF g n] by (simp add: selectionForNode_def Let_def look)
  have same_edge: "e = e'" if "e \<in> set (ng_edges g)" "e' \<in> set (ng_edges g)" "gd_id e = gd_id e'" for e e'
    using g that by (auto simp: graph_ok_def distinct_map dest: inj_onD)
  have nodes: "set (gs_nodeIDs ?s) =
      insert (gn_id n) {m. \<exists>e \<in> set (ng_edges g). touches e (gn_id n) \<and> touches e m}"
    using graph_routeIDs [OF g n] by (auto simp: selectionForNode_def Let_def look foldl_addEdgeEnds graph_edge [OF g] dest: same_edge)
  have same_node: "m = n" if "m \<in> set (ng_nodes g)" "gn_id m = gn_id n" for m
    using g n that by (auto simp: graph_ok_def distinct_map dest: inj_onD)
  have e: "gd_id e \<in> set (gs_edgeIDs ?s) \<and> gd_sourceID e \<in> set (gs_nodeIDs ?s) \<and> gd_targetID e \<in> set (gs_nodeIDs ?s)
      \<longleftrightarrow> touches e (gn_id n)" if "e \<in> set (ng_edges g)" for e
    using that same_edge unfolding edges nodes by (force simp: touches_def)
  have m: "gn_id m \<in> set (gs_nodeIDs ?s) \<longleftrightarrow> m = n \<or> (\<exists>e \<in> set (ng_edges g). touches e (gn_id n) \<and> touches e (gn_id m))"
    if "m \<in> set (ng_nodes g)" for m
    using that same_node unfolding nodes by auto
  show ?thesis
    by (simp add: selectedNeighborhood_def look graphData_def Let_def cong: filter_cong) (simp add: e m cong: filter_cong)
qed

lemma sample_routes_trimmed:
  "\<forall>r \<in> set [sample_route ''r'' ''a'' ''b'', sample_route ''s'' ''b'' ''c'']. js_trim (rt_id r) = rt_id r"
  by (simp add: sample_defs js_trim_def trim_start_def trim_end_def is_space_def)

lemma neighborhood_is_exact_witness:
  "let g = buildNetGraphData code_unit_compare [] [sample_route ''r'' ''a'' ''b'', sample_route ''s'' ''b'' ''c'']; n = hd (ng_nodes g)
   in gn_id n = ''b'' \<and> ng_edges (selectedNeighborhood g (gn_id n)) = filter (\<lambda>e. touches e (gn_id n)) (ng_edges g)"
proof -
  define g where "g = buildNetGraphData code_unit_compare [] [sample_route ''r'' ''a'' ''b'', sample_route ''s'' ''b'' ''c'']"
  have e: "map gn_id (ng_nodes g) = [''b'', ''a'', ''c'']" unfolding g_def by code_simp
  have g: "graph_ok g" unfolding g_def by (rule build_ok [OF sample_routes_trimmed])
  obtain n ns where n: "ng_nodes g = n # ns" using e by (cases "ng_nodes g") auto
  then show ?thesis using e neighborhood_is_exact [OF g, of n] unfolding g_def [symmetric] by (simp add: Let_def)
qed

text \<open>The ids of edges repeat when a route id with surrounding blanks comes before its trimmed form.\<close>

lemma padded_route_id_repeats:
  "map gd_id (ng_edges (buildNetGraphData code_unit_compare [] [sample_route '' r'' ''a'' ''b'', sample_route ''r'' ''a'' ''b'']))
     = [''r'', ''r'']"
  by code_simp

end
