(* ===== verification/Net_Graph_Layout_Correct.thy ===== *)
theory Net_Graph_Layout_Correct
  imports Net_Graph_Layout Net_Graph_Correct
begin

text \<open>
  The connected components of the layout are those of the graph, the visible graph is a well-formed part of it,
  the lanes of a corridor are symmetric about its axis, and the two hashes of the curves differ.
\<close>

section \<open>The search of one component\<close>

lemma searchComponent_spec:
  assumes "set visited = V \<union> set ids \<union> set queue" and "distinct (ids @ queue)" and "V \<inter> set (ids @ queue) = {}"
    and "\<And>d. d \<in> set ids \<Longrightarrow> set (neighbours m d) \<subseteq> set visited"
    and "\<And>d. d \<in> set (ids @ queue) \<Longrightarrow> (s, d) \<in> R\<^sup>*" and "\<And>u v. v \<in> set (neighbours m u) \<Longrightarrow> (u, v) \<in> R"
    and "searchComponent m visited queue ids = (visited', ids')"
  shows "set visited' = V \<union> set ids' \<and> distinct ids' \<and> V \<inter> set ids' = {} \<and> set ids \<subseteq> set ids' \<and> set queue \<subseteq> set ids' \<and>
    (\<forall>d \<in> set ids'. set (neighbours m d) \<subseteq> V \<union> set ids' \<and> (s, d) \<in> R\<^sup>*)"
  using assms
proof (induction m visited queue ids rule: searchComponent.induct)
  case (1 m visited ids)
  then show ?case by auto
next
  case (2 m visited current queue ids)
  let ?new = "filter (\<lambda>next. next \<notin> set visited) (js_set (neighbours m current))"
  have cur: "(s, current) \<in> R\<^sup>*" using 2 by simp
  have new: "x \<in> set ?new \<longleftrightarrow> x \<in> set (neighbours m current) \<and> x \<notin> set visited" for x by auto
  have "set visited' = V \<union> set ids' \<and> distinct ids' \<and> V \<inter> set ids' = {} \<and> set (ids @ [current]) \<subseteq> set ids' \<and>
      set (queue @ ?new) \<subseteq> set ids' \<and> (\<forall>d \<in> set ids'. set (neighbours m d) \<subseteq> V \<union> set ids' \<and> (s, d) \<in> R\<^sup>*)"
  proof (rule "2.IH" [OF refl])
    show "set (visited @ ?new) = V \<union> set (ids @ [current]) \<union> set (queue @ ?new)" using "2.prems"(1) by auto
    show "distinct ((ids @ [current]) @ queue @ ?new)" using "2.prems"(1,2) by auto
    show "V \<inter> set ((ids @ [current]) @ queue @ ?new) = {}" using "2.prems"(1,3) by auto
    show "set (neighbours m d) \<subseteq> set (visited @ ?new)" if "d \<in> set (ids @ [current])" for d
      using that "2.prems"(4) by auto
    show "(s, d) \<in> R\<^sup>*" if d: "d \<in> set ((ids @ [current]) @ queue @ ?new)" for d
    proof (cases "d \<in> set ?new")
      case True
      then have "(current, d) \<in> R" using "2.prems"(6) [of d current] by simp
      with cur show ?thesis by simp
    next
      case False
      then show ?thesis using d "2.prems"(5) [of d] by auto
    qed
    show "searchComponent m (visited @ ?new) (queue @ ?new) (ids @ [current]) = (visited', ids')"
      using "2.prems"(7) by (simp add: Let_def)
  qed (use "2.prems"(6) in blast)
  then show ?case by auto
qed

text \<open>Two identifiers are linked when an edge joins them.\<close>

definition linked :: "NetGraphData \<Rightarrow> (string \<times> string) set" where
  "linked g = {(u, v). \<exists>e \<in> set (ng_edges g). gd_sourceID e = u \<and> gd_targetID e = v \<or> gd_sourceID e = v \<and> gd_targetID e = u}"

lemma linked_sym: "(u, v) \<in> linked g \<Longrightarrow> (v, u) \<in> linked g"
  by (auto simp: linked_def)

lemma linked_rtrancl_sym: "(u, v) \<in> (linked g)\<^sup>* \<Longrightarrow> (v, u) \<in> (linked g)\<^sup>*"
  by (rule symD [OF sym_rtrancl]) (auto simp: sym_def linked_sym)

lemma link_nodes_spec:
  "map_has (link_nodes m u v) k = map_has m k"
  "set (neighbours (link_nodes m u v) k) = set (neighbours m k) \<union> (if k = u \<and> map_has m u then {v} else {})"
  by (auto simp: link_nodes_def neighbours_def map_has_iff split: option.split)

lemma adjacency_fold:
  "set (neighbours (foldl (\<lambda>m e. link_nodes (link_nodes m (gd_sourceID e) (gd_targetID e)) (gd_targetID e) (gd_sourceID e)) m es) k) =
     set (neighbours m k) \<union> (if map_has m k
       then {v. \<exists>e \<in> set es. gd_sourceID e = k \<and> gd_targetID e = v \<or> gd_sourceID e = v \<and> gd_targetID e = k} else {})"
  by (induction es arbitrary: m) (auto simp: link_nodes_spec)

lemma map_of_const: "map_of (map (\<lambda>x. (f x, c)) xs) k = (if k \<in> f ` set xs then Some c else None)"
  by (induction xs) auto

lemma adjacency_linked:
  assumes "graph_ok g"
  shows "set (neighbours (graphAdjacency g) k) = {v. (k, v) \<in> linked g}"
proof -
  let ?m = "new_map (map (\<lambda>n. (gn_id n, [])) (ng_nodes g)) :: adjacency"
  have n: "map_get ?m k = (if k \<in> gn_id ` set (ng_nodes g) then Some [] else None)"
  proof -
    have "distinct (map fst (map (\<lambda>n. (gn_id n, [] :: string list)) (ng_nodes g)))"
      using assms by (simp add: graph_ok_def comp_def)
    then have "map_get ?m = map_of (map (\<lambda>n. (gn_id n, [])) (ng_nodes g))"
      by (simp add: map_get_new_map_distinct fun_eq_iff)
    then show ?thesis by (simp add: map_of_const)
  qed
  have "k \<in> gn_id ` set (ng_nodes g)" if "(k, v) \<in> linked g" for v
    using that assms by (auto simp: linked_def graph_ok_def)
  then show ?thesis
    unfolding graphAdjacency_def adjacency_fold by (auto simp: neighbours_def n map_has_iff linked_def)
qed

section \<open>All components\<close>

definition class_of :: "NetGraphData \<Rightarrow> string \<Rightarrow> string set" where
  "class_of g u = {v. (u, v) \<in> (linked g)\<^sup>*}"

lemma class_of_same: "v \<in> class_of g u \<Longrightarrow> class_of g v = class_of g u"
  unfolding class_of_def by (auto dest: linked_rtrancl_sym intro: rtrancl_trans)

lemma class_of_self [simp]: "u \<in> class_of g u"
  by (simp add: class_of_def)

lemma closed_class: "u \<in> A \<Longrightarrow> (\<And>x y. x \<in> A \<Longrightarrow> (x, y) \<in> linked g \<Longrightarrow> y \<in> A) \<Longrightarrow> class_of g u \<subseteq> A"
proof
  fix v assume a: "u \<in> A" "\<And>x y. x \<in> A \<Longrightarrow> (x, y) \<in> linked g \<Longrightarrow> y \<in> A" "v \<in> class_of g u"
  from a(3) have "(u, v) \<in> (linked g)\<^sup>*" by (simp add: class_of_def)
  then show "v \<in> A" by (induction rule: rtrancl_induct) (use a(1,2) in auto)
qed

lemma class_in_nodes:
  assumes "graph_ok g" and "n \<in> set (ng_nodes g)"
  shows "class_of g (gn_id n) \<subseteq> gn_id ` set (ng_nodes g)"
  by (rule closed_class) (use assms in \<open>auto simp: linked_def graph_ok_def\<close>)

definition parts_ok :: "NetGraphData \<Rightarrow> string list \<times> NetGraphNode list list \<Rightarrow> bool" where
  "parts_ok g vc \<longleftrightarrow>
     set (fst vc) = gn_id ` set (concat (snd vc)) \<and> distinct (map gn_id (concat (snd vc))) \<and>
     set (concat (snd vc)) \<subseteq> set (ng_nodes g) \<and>
     (\<forall>c \<in> set (snd vc). c \<noteq> [] \<and> (\<forall>n \<in> set c. gn_id ` set c = class_of g (gn_id n)))"

lemma lookup_ids:
  assumes "graph_ok g" and "set ids \<subseteq> gn_id ` set (ng_nodes g)"
  shows "map gn_id (List.map_filter (map_get (ng_nodeByID g)) ids) = ids \<and>
    set (List.map_filter (map_get (ng_nodeByID g)) ids) \<subseteq> set (ng_nodes g)"
  using assms(2)
proof (induction ids)
  case (Cons i ids)
  then obtain n where "n \<in> set (ng_nodes g)" "gn_id n = i" by auto
  then have "map_get (ng_nodeByID g) i = Some n" using assms(1) by (simp add: graph_node)
  then show ?case using Cons \<open>n \<in> set (ng_nodes g)\<close> \<open>gn_id n = i\<close> by (simp add: map_filter_simps)
qed (simp add: map_filter_simps)

lemma parts_closed:
  assumes "parts_ok g (V, cs)" and "x \<in> set V" and "(x, y) \<in> linked g"
  shows "y \<in> set V"
proof -
  have V: "set V = gn_id ` set (concat cs)" and cs: "\<And>c n. c \<in> set cs \<Longrightarrow> n \<in> set c \<Longrightarrow> gn_id ` set c = class_of g (gn_id n)"
    using assms(1) by (simp_all add: parts_ok_def)
  from assms(2) obtain c n where c: "c \<in> set cs" "n \<in> set c" "gn_id n = x" unfolding V by auto
  then have "y \<in> class_of g (gn_id n)" using assms(3) by (auto simp: class_of_def)
  then have "y \<in> gn_id ` set c" using cs [OF c(1,2)] by simp
  then show ?thesis unfolding V using c(1) by auto
qed

lemma component_class:
  assumes g: "graph_ok g" and p: "parts_ok g (V, cs)" and n: "n \<in> set (ng_nodes g)" and new: "gn_id n \<notin> set V"
    and r: "searchComponent (graphAdjacency g) (V @ [gn_id n]) [gn_id n] [] = (V', ids)"
  shows "set ids = class_of g (gn_id n) \<and> distinct ids \<and> set V' = set V \<union> set ids \<and> set V \<inter> set ids = {}"
proof -
  note s = searchComponent_spec [where V = "set V" and ids = "[]" and queue = "[gn_id n]" and s = "gn_id n" and R = "linked g",
      OF _ _ _ _ _ _ r]
  have spec': "set V' = set V \<union> set ids \<and> distinct ids \<and> set V \<inter> set ids = {} \<and> set [] \<subseteq> set ids \<and>
      set [gn_id n] \<subseteq> set ids \<and>
      (\<forall>d \<in> set ids. set (neighbours (graphAdjacency g) d) \<subseteq> set V \<union> set ids \<and> (gn_id n, d) \<in> (linked g)\<^sup>*)"
    by (rule s) (use new in \<open>simp_all add: adjacency_linked [OF g]\<close>)
  then have spec: "set V' = set V \<union> set ids" "distinct ids" "set V \<inter> set ids = {}" "gn_id n \<in> set ids"
      "\<And>d. d \<in> set ids \<Longrightarrow> set (neighbours (graphAdjacency g) d) \<subseteq> set V \<union> set ids \<and> (gn_id n, d) \<in> (linked g)\<^sup>*"
    by simp_all
  have "class_of g (gn_id n) \<subseteq> set ids"
  proof (rule closed_class [OF spec(4)])
    fix x y assume x: "x \<in> set ids" and xy: "(x, y) \<in> linked g"
    have "y \<in> set V \<union> set ids" using spec(5) [OF x] xy adjacency_linked [OF g] by auto
    moreover have "y \<notin> set V" using parts_closed [OF p _ linked_sym [OF xy]] x spec(3) by auto
    ultimately show "y \<in> set ids" by simp
  qed
  moreover have "set ids \<subseteq> class_of g (gn_id n)" using spec(5) by (auto simp: class_of_def)
  ultimately show ?thesis using spec by blast
qed

lemma parts_step:
  assumes g: "graph_ok g" and p: "parts_ok g vc" and n: "n \<in> set (ng_nodes g)"
  shows "parts_ok g (componentStep g (graphAdjacency g) vc n) \<and>
    gn_id n \<in> set (fst (componentStep g (graphAdjacency g) vc n)) \<and>
    set (fst vc) \<subseteq> set (fst (componentStep g (graphAdjacency g) vc n))"
proof -
  obtain V cs where vc: "vc = (V, cs)" by fastforce
  show ?thesis
  proof (cases "gn_id n \<in> set V")
    case True
    then show ?thesis using p by (simp add: vc componentStep_def)
  next
    case False
    obtain V' ids where r: "searchComponent (graphAdjacency g) (V @ [gn_id n]) [gn_id n] [] = (V', ids)" by fastforce
    let ?c = "List.map_filter (map_get (ng_nodeByID g)) ids"
    note spec = component_class [OF g p [unfolded vc] n False r]
    have c: "map gn_id ?c = ids" "set ?c \<subseteq> set (ng_nodes g)"
      using lookup_ids [OF g, of ids] class_in_nodes [OF g n] spec by auto
    then have ids: "gn_id ` set ?c = set ids" by (metis set_map)
    have i: "gn_id n \<in> set ids" using spec by simp
    have "\<forall>m \<in> set ?c. gn_id ` set ?c = class_of g (gn_id m)"
      using spec ids class_of_same by (metis image_eqI)
    moreover have "?c \<noteq> []" using i c(1) by auto
    moreover have "distinct (map gn_id (concat (cs @ [?c])))"
    proof -
      have "set V = gn_id ` set (concat cs)" "distinct (map gn_id (concat cs))" using p by (simp_all add: parts_ok_def vc)
      moreover have "distinct ids" "set V \<inter> set ids = {}" using spec by blast+
      moreover have "map gn_id (concat (cs @ [?c])) = map gn_id (concat cs) @ ids" by (simp add: c(1))
      ultimately show ?thesis by (simp only: distinct_append set_map)
    qed
    ultimately have "parts_ok g (V', cs @ [?c])" using p spec c(2) ids by (auto simp: parts_ok_def vc)
    then show ?thesis using False spec by (simp add: vc componentStep_def r del: searchComponent.simps)
  qed
qed

lemma parts_fold:
  assumes "graph_ok g" and "set ns \<subseteq> set (ng_nodes g)"
  shows "parts_ok g (foldl (componentStep g (graphAdjacency g)) ([], []) ns) \<and>
    gn_id ` set ns \<subseteq> set (fst (foldl (componentStep g (graphAdjacency g)) ([], []) ns))"
  using assms(2)
proof (induction ns rule: rev_induct)
  case (snoc n ns)
  then show ?case using parts_step [OF assms(1), of "foldl (componentStep g (graphAdjacency g)) ([], []) ns" n] by auto
qed (simp add: parts_ok_def)

text \<open>
  The components of a well-formed graph are its connected components: together they hold every node exactly
  once, none is empty, and a node is in the component of another exactly when a chain of edges joins them.
\<close>

lemma components_are_connected:
  assumes "graph_ok g"
  shows "mset (concat (connectedComponents lc g)) = mset (ng_nodes g) \<and>
    (\<forall>c \<in> set (connectedComponents lc g). c \<noteq> [] \<and>
      (\<forall>n \<in> set c. \<forall>m \<in> set (ng_nodes g). m \<in> set c \<longleftrightarrow> (gn_id n, gn_id m) \<in> (linked g)\<^sup>*))"
proof -
  define r where "r = foldl (componentStep g (graphAdjacency g)) ([], []) (ng_nodes g)"
  have p: "parts_ok g r" and all: "gn_id ` set (ng_nodes g) \<subseteq> set (fst r)"
    using parts_fold [OF assms order_refl] by (simp_all add: r_def)
  have inj: "inj_on gn_id (set (ng_nodes g))" and d: "distinct (ng_nodes g)"
    using assms by (auto simp: graph_ok_def distinct_map)
  have "set (ng_nodes g) = set (concat (snd r))"
  proof
    show "set (ng_nodes g) \<subseteq> set (concat (snd r))"
    proof
      fix n assume n: "n \<in> set (ng_nodes g)"
      then have "gn_id n \<in> gn_id ` set (concat (snd r))" using all p unfolding parts_ok_def by blast
      then obtain m where m: "m \<in> set (concat (snd r))" "gn_id m = gn_id n" by (metis imageE)
      moreover have "m \<in> set (ng_nodes g)" using m(1) p unfolding parts_ok_def by blast
      ultimately show "n \<in> set (concat (snd r))" using inj_onD [OF inj m(2) _ n] by simp
    qed
  qed (use p in \<open>auto simp: parts_ok_def\<close>)
  then have "mset (concat (snd r)) = mset (ng_nodes g)"
    using p d by (intro set_eq_iff_mset_eq_distinct [THEN iffD1]) (auto simp: parts_ok_def distinct_map)
  moreover have "mset (concat (connectedComponents lc g)) = mset (concat (snd r))"
    by (simp add: connectedComponents_def r_def mset_concat flip: sum_mset_sum_list)
  moreover have "m \<in> set c \<longleftrightarrow> (gn_id n, gn_id m) \<in> (linked g)\<^sup>*"
    if c: "c \<in> set (snd r)" and "n \<in> set c" and m: "m \<in> set (ng_nodes g)" for c n m
  proof -
    have "gn_id ` set c = class_of g (gn_id n)" "set c \<subseteq> set (ng_nodes g)" using p that by (auto simp: parts_ok_def)
    then show ?thesis using inj m by (auto simp: class_of_def dest: inj_onD)
  qed
  moreover have "set (connectedComponents lc g) = set (snd r)" by (simp add: connectedComponents_def r_def)
  ultimately show ?thesis using p by (auto simp: parts_ok_def)
qed

lemma sample_graph_ok:
  "graph_ok (buildNetGraphData code_unit_compare [] [sample_route ''r'' ''a'' ''b'', sample_route ''s'' ''b'' ''c''])"
  by (rule build_ok [OF sample_routes_trimmed])

lemma components_are_connected_witness:
  "let g = buildNetGraphData code_unit_compare [] [sample_route ''r'' ''a'' ''b'', sample_route ''s'' ''b'' ''c'']
   in mset (concat (connectedComponents code_unit_compare g)) = mset (ng_nodes g)"
  unfolding Let_def using components_are_connected [OF sample_graph_ok, of code_unit_compare] by (rule conjunct1)

section \<open>Lanes\<close>

text \<open>The corridors group the edges by their key and keep their order.\<close>

lemma corridors_spec:
  "well_keyed (corridors es) \<and>
   map_get (corridors es) k = (let lane = filter (\<lambda>e. edgeCorridorKey e = k) es in if lane = [] then None else Some lane)"
proof (induction es arbitrary: k rule: rev_induct)
  case (snoc e es)
  have step: "corridors (es @ [e]) =
      map_set (edgeCorridorKey e) (or_else (map_get (corridors es) (edgeCorridorKey e)) [] @ [e]) (corridors es)"
    by (simp add: corridors_def)
  show ?case using snoc [of k] unfolding step by (auto simp: Let_def)
qed (simp add: corridors_def)

lemma new_map_member: "map_get (new_map es) k = Some v \<Longrightarrow> (k, v) \<in> set es"
  by (auto simp: map_get_new_map dest: map_of_SomeD)

lemma new_map_has: "(k, v) \<in> set es \<Longrightarrow> \<exists>v'. map_get (new_map es) k = Some v'"
  using map_of_eq_None_iff [of "rev es" k] by (cases "map_of (rev es) k") (force simp: map_get_new_map)+

lemma corridor_plan_member:
  "p \<in> set (corridor_plans lc (k, lane)) \<longleftrightarrow>
     (\<exists>i < length lane. p = lane_plan k (length lane) (i, js_sort (compareEdgesForStableLayout lc) lane ! i))"
  by (simp add: corridor_plans_def image_iff Bex_def in_set_enumerate_eq)

text \<open>
  Edges with unique ids each have a lane: the corridor is the one of the two ends, the lanes of a corridor are
  as many as its edges, and the lane of an edge is its place in the sorted corridor, so no two edges share one;
  the offsets are one apart and symmetric about the axis.
\<close>

lemma edge_lane:
  assumes "distinct (map gd_id edges)" and "e \<in> set edges"
  defines "lane \<equiv> filter (\<lambda>e'. edgeCorridorKey e' = edgeCorridorKey e) edges"
  shows "\<exists>p. map_get (buildEdgeRenderPlans lc edges) (gd_id e) = Some p \<and>
    pl_edgeID p = gd_id e \<and> pl_corridorKey p = edgeCorridorKey e \<and>
    pl_laneCount p = length lane \<and> pl_laneIndex p < length lane \<and>
    js_sort (compareEdgesForStableLayout lc) lane ! pl_laneIndex p = e \<and>
    pl_laneOffset p = real (pl_laneIndex p) - (real (length lane) - 1) / 2"
proof -
  let ?sort = "js_sort (compareEdgesForStableLayout lc)"
  let ?plans = "concat (map (corridor_plans lc) (js_sort (by_key lc fst) (corridors edges)))"
  have entry: "(k, g) \<in> set (corridors edges) \<longleftrightarrow> g \<noteq> [] \<and> g = filter (\<lambda>e. edgeCorridorKey e = k) edges" for k g
    using corridors_spec [of edges k] by (auto simp: keyed_member Let_def)
  have plan: "p \<in> set ?plans \<longleftrightarrow> (\<exists>k g i. (k, g) \<in> set (corridors edges) \<and> i < length g \<and> p = lane_plan k (length g) (i, ?sort g ! i))" for p
    by (force simp: corridor_plan_member)
  have e: "e \<in> set lane" using assms by simp
  then obtain i where i: "i < length lane" "?sort lane ! i = e" by (metis in_set_conv_nth length_js_sort set_js_sort)
  have "(edgeCorridorKey e, lane) \<in> set (corridors edges)" using e by (auto simp: entry lane_def filter_empty_conv)
  then have "lane_plan (edgeCorridorKey e) (length lane) (i, e) \<in> set ?plans" unfolding plan using i by blast
  then have "(gd_id e, lane_plan (edgeCorridorKey e) (length lane) (i, e)) \<in> set (map (\<lambda>p. (pl_edgeID p, p)) ?plans)"
    by (force simp: lane_plan_def)
  then obtain p where p: "map_get (buildEdgeRenderPlans lc edges) (gd_id e) = Some p"
    unfolding buildEdgeRenderPlans_def by (blast dest: new_map_has)
  then have "(gd_id e, p) \<in> set (map (\<lambda>p. (pl_edgeID p, p)) ?plans)"
    unfolding buildEdgeRenderPlans_def by (rule new_map_member)
  then have "p \<in> set ?plans" "pl_edgeID p = gd_id e" by (auto simp del: set_concat)
  then obtain k g j where j: "(k, g) \<in> set (corridors edges)" "j < length g" "p = lane_plan k (length g) (j, ?sort g ! j)"
    "gd_id (?sort g ! j) = gd_id e" unfolding plan by (auto simp: lane_plan_def)
  have "?sort g ! j \<in> set g" using j(2) by (metis length_js_sort nth_mem set_js_sort)
  then have "?sort g ! j \<in> set edges" "edgeCorridorKey (?sort g ! j) = k" using j(1) by (auto simp: entry)
  moreover from this have "?sort g ! j = e" using assms(1,2) j(4) by (auto simp: distinct_map dest: inj_onD)
  ultimately have k: "?sort g ! j = e" "k = edgeCorridorKey e" by simp_all
  then have "g = lane" using j(1) by (simp add: entry lane_def)
  then show ?thesis using p j(2,3) k by (auto simp: lane_plan_def)
qed

lemma sample_edges_distinct:
  "distinct (map gd_id (ng_edges (buildNetGraphData code_unit_compare []
     [sample_route ''r'' ''a'' ''b'', sample_route ''s'' ''b'' ''c'', sample_route ''t'' ''b'' ''a''])))"
  by code_simp

lemma sample_lane:
  "let es = ng_edges (buildNetGraphData code_unit_compare []
        [sample_route ''r'' ''a'' ''b'', sample_route ''s'' ''b'' ''c'', sample_route ''t'' ''b'' ''a'']); e = es ! 2
   in \<exists>p. gd_id e = ''t'' \<and> map_get (buildEdgeRenderPlans code_unit_compare es) (gd_id e) = Some p \<and>
     pl_corridorKey p = ''a|b'' \<and> pl_laneCount p = 2"
proof -
  define es where "es = ng_edges (buildNetGraphData code_unit_compare []
      [sample_route ''r'' ''a'' ''b'', sample_route ''s'' ''b'' ''c'', sample_route ''t'' ''b'' ''a''])"
  have l: "length es = 3" "gd_id (es ! 2) = ''t''" "edgeCorridorKey (es ! 2) = ''a|b''"
      "length (filter (\<lambda>e'. edgeCorridorKey e' = ''a|b'') es) = 2"
    unfolding es_def by code_simp+
  have "es ! 2 \<in> set es" using l(1) by simp
  then show ?thesis
    using edge_lane [OF sample_edges_distinct [folded es_def], of "es ! 2" code_unit_compare] l
    unfolding es_def [symmetric] by (auto simp: Let_def)
qed

section \<open>The visible graph\<close>

lemma set_slice_to: "set (slice_to k xs) \<subseteq> set xs"
  by (auto simp: slice_to_def Let_def dest: in_set_takeD)

lemma distinct_map_slice_to: "distinct (map f xs) \<Longrightarrow> distinct (map f (slice_to k xs))"
  by (simp add: slice_to_def Let_def take_map [symmetric] distinct_take)

text \<open>The visible graph is a part of the graph whose edges join visible nodes.\<close>

definition graph_closed :: "NetGraphData \<Rightarrow> bool" where
  "graph_closed g \<longleftrightarrow> distinct (map gn_id (ng_nodes g)) \<and> distinct (map gd_id (ng_edges g)) \<and>
     (\<forall>e \<in> set (ng_edges g). gd_sourceID e \<in> gn_id ` set (ng_nodes g) \<and> gd_targetID e \<in> gn_id ` set (ng_nodes g))"

lemma visible_graph_is_closed:
  assumes "graph_ok g"
  shows "graph_closed (stableVisibleGraph lc g limits) \<and>
    set (ng_nodes (stableVisibleGraph lc g limits)) \<subseteq> set (ng_nodes g) \<and>
    set (ng_edges (stableVisibleGraph lc g limits)) \<subseteq> set (ng_edges g)"
proof -
  define v where "v = stableVisibleGraph lc g limits"
  have d: "distinct (map gn_id (ng_nodes g))" "distinct (map gd_id (ng_edges g))"
    using assms by (simp_all add: graph_ok_def)
  have "set (ng_edges v) \<subseteq> {e \<in> set (ng_edges g). gd_sourceID e \<in> gn_id ` set (ng_nodes v) \<and> gd_targetID e \<in> gn_id ` set (ng_nodes v)}"
    using set_slice_to by (fastforce simp: v_def stableVisibleGraph_def Let_def graphData_def)
  moreover have "distinct (map gn_id (ng_nodes v)) \<and> distinct (map gd_id (ng_edges v))"
    using d by (simp add: v_def stableVisibleGraph_def Let_def graphData_def distinct_map_slice_to distinct_map_filter)
  moreover have "set (ng_nodes v) \<subseteq> set (ng_nodes g)"
    using set_slice_to by (fastforce simp: v_def stableVisibleGraph_def Let_def graphData_def)
  ultimately show ?thesis unfolding graph_closed_def v_def [symmetric] by blast
qed

lemma slice_to_nat [simp]: "slice_to (real k) xs = take k xs"
  by (simp add: slice_to_def js_trunc_def)

lemma visible_nodes:
  "ng_nodes (stableVisibleGraph lc g \<lparr>vl_maxNodes = real n, vl_maxEdges = real m\<rparr>) =
     take n (js_sort (compareNodesForStableLayout lc) (ng_nodes g))"
  by (simp add: stableVisibleGraph_def Let_def graphData_def)

lemma visible_edges:
  "ng_edges (stableVisibleGraph lc g \<lparr>vl_maxNodes = real n, vl_maxEdges = real m\<rparr>) =
     take m (js_sort (compareEdgesForStableLayout lc) (filter (\<lambda>e.
       gd_sourceID e \<in> gn_id ` set (ng_nodes (stableVisibleGraph lc g \<lparr>vl_maxNodes = real n, vl_maxEdges = real m\<rparr>)) \<and>
       gd_targetID e \<in> gn_id ` set (ng_nodes (stableVisibleGraph lc g \<lparr>vl_maxNodes = real n, vl_maxEdges = real m\<rparr>))) (ng_edges g)))"
  by (simp add: stableVisibleGraph_def Let_def graphData_def)

lemma sorted_take_drop: "sorted_wrt r xs \<Longrightarrow> x \<in> set (take n xs) \<Longrightarrow> y \<in> set (drop n xs) \<Longrightarrow> r x y"
  by (metis append_take_drop_id sorted_wrt_append)

text \<open>
  C22. The visible graph is the busiest part of the graph within the limits: as many nodes as allowed, none of a
  smaller degree than a node left out, at most the allowed number of edges, and those join visible nodes; with
  room for all, every edge between visible nodes is shown.
\<close>

theorem visible_graph_within_limits:
  fixes n m :: nat
  assumes "graph_ok g" and "comparator lc"
  defines "v \<equiv> stableVisibleGraph lc g \<lparr>vl_maxNodes = real n, vl_maxEdges = real m\<rparr>"
  shows "length (ng_nodes v) = min n (length (ng_nodes g)) \<and> length (ng_edges v) \<le> m \<and> graph_closed v \<and>
    (\<forall>a \<in> set (ng_nodes v). \<forall>b \<in> set (ng_nodes g) - set (ng_nodes v). gn_degree b \<le> gn_degree a) \<and>
    (length (ng_edges g) \<le> m \<longrightarrow> set (ng_edges v) = {e \<in> set (ng_edges g).
       gd_sourceID e \<in> gn_id ` set (ng_nodes v) \<and> gd_targetID e \<in> gn_id ` set (ng_nodes v)})"
proof -
  have cmp: "comparator (compareNodesForStableLayout lc)"
    unfolding compareNodesForStableLayout_def by (intro cmp_intros assms(2))
  have "gn_degree b \<le> gn_degree a" if ab: "a \<in> set (ng_nodes v)" "b \<in> set (ng_nodes g)" "b \<notin> set (ng_nodes v)" for a b
  proof -
    let ?ns = "js_sort (compareNodesForStableLayout lc) (ng_nodes g)"
    have "b \<in> set (drop n ?ns)" using ab(2,3) unfolding v_def visible_nodes by (metis UnE append_take_drop_id set_append set_js_sort)
    then have "compareNodesForStableLayout lc a b \<le> 0"
      using sorted_take_drop [OF comparator.sorted_js_sort [OF cmp]] ab(1) unfolding v_def visible_nodes by blast
    then show ?thesis by (auto simp: compareNodesForStableLayout_def then_by_def by_desc_def split: if_splits)
  qed
  moreover have "graph_closed v" using visible_graph_is_closed [OF assms(1)] by (simp add: v_def)
  moreover have "length (ng_nodes v) = min n (length (ng_nodes g))" by (simp add: v_def visible_nodes min.commute)
  moreover have "length (ng_edges v) \<le> m" unfolding v_def by (subst visible_edges) simp
  moreover have "set (ng_edges v) = {e \<in> set (ng_edges g).
       gd_sourceID e \<in> gn_id ` set (ng_nodes v) \<and> gd_targetID e \<in> gn_id ` set (ng_nodes v)}" if "length (ng_edges g) \<le> m"
    unfolding v_def using that by (subst visible_edges) (simp add: take_all le_trans [OF length_filter_le])
  ultimately show ?thesis by blast
qed

theorem visible_graph_within_limits_witness:
  "let g = buildNetGraphData code_unit_compare [] [sample_route ''r'' ''a'' ''b'', sample_route ''s'' ''b'' ''c''];
       v = stableVisibleGraph code_unit_compare g \<lparr>vl_maxNodes = real 1, vl_maxEdges = real 5\<rparr>
   in length (ng_nodes g) = 3 \<and> length (ng_nodes v) = 1 \<and> graph_closed v"
proof -
  have "length (ng_nodes (buildNetGraphData code_unit_compare [] [sample_route ''r'' ''a'' ''b'', sample_route ''s'' ''b'' ''c''])) = 3"
    by code_simp
  then show ?thesis
    unfolding Let_def
    using visible_graph_within_limits [OF sample_graph_ok code_units.lc.comparator_axioms, of 1 5] by simp
qed

section \<open>The two hashes of the curves\<close>

lemma bit_length_simps [simp]:
  "bit_length 0 = 0" "bit_length (Suc 0) = 1"
  "bit_length (numeral (Num.Bit0 n)) = Suc (bit_length (numeral n))"
  "bit_length (numeral (Num.Bit1 n)) = Suc (bit_length (numeral n))"
  by (subst bit_length.simps; simp add: bit_length.simps [of 0])+

text \<open>
  The product of \<open>fnv1a\<close> exceeds what a double holds, so already a single letter hashes to another value
  than with the exact 32-bit product of \<open>stableHash\<close>, and the two modules bend the same edge differently.
\<close>

lemma product_rounds: "round_double (- 35716716255492331) = - 35716716255492332"
  by (simp add: round_double_def)

lemma fnv1a_is_not_stableHash: "fnv1a ''r'' = 4144776980 \<and> stableHash ''r'' = 4144776981"
proof -
  have "sint (0x811c9dc5 XOR 114 :: 32 word) = - 2128831049" by (simp add: sint_uint)
  then show ?thesis by (simp add: fnv1a_def product_rounds stableHash_def)
qed

end
