(* ===== verification/Net_Graph_Hits.thy ===== *)
theory Net_Graph_Hits
  imports Net_Graph_Prepared
begin

text \<open>
  The hit tests of the net graph find what a search through all nodes and all edges finds: the spatial index
  never hides a node or an edge that is within reach of the pointer.
\<close>

section \<open>The spatial index\<close>

definition bucket :: "(string, nat list) js_map \<Rightarrow> string \<Rightarrow> nat set" where
  "bucket b key = set (or_else (map_get b key) [])"

lemma bucket_keys:
  "bucket (foldl (\<lambda>b key. map_set key (or_else (map_get b key) [] @ [i]) b) b keys) k =
     bucket b k \<union> (if k \<in> set keys then {i} else {})"
  by (induction keys arbitrary: b) (auto simp: bucket_def split: if_splits)

lemma bucket_add:
  "bucket (addIndexToBounds c box i b) k = bucket b k \<union> (if k \<in> set (cells_of c box) then {i} else {})"
  by (simp add: addIndexToBounds_def bucket_keys)

lemma indexed_snoc:
  "{i. i < Suc (length xs) \<and> P ((xs @ [x]) ! i)} = {i. i < length xs \<and> P (xs ! i)} \<union> (if P x then {length xs} else {})"
  by (auto simp: nth_append less_Suc_eq)

lemma bucket_index:
  "bucket (si_buckets (spatialIndex c boxes)) k = {i. i < length boxes \<and> k \<in> set (cells_of c (boxes ! i))}"
proof (induction boxes rule: rev_induct)
  case Nil
  then show ?case by (simp add: spatialIndex_def bucket_def)
next
  case (snoc box boxes)
  have "si_buckets (spatialIndex c (boxes @ [box])) = addIndexToBounds c box (length boxes) (si_buckets (spatialIndex c boxes))"
    by (simp add: spatialIndex_def enumerate_append_eq)
  then have "bucket (si_buckets (spatialIndex c (boxes @ [box]))) k =
      bucket (si_buckets (spatialIndex c boxes)) k \<union> (if k \<in> set (cells_of c box) then {length boxes} else {})"
    by (simp add: bucket_add)
  then show ?case using snoc.IH indexed_snoc [where xs = boxes and x = box and P = "\<lambda>b. k \<in> set (cells_of c b)"] by simp
qed

lemma query_index:
  "set (querySpatialIndex (spatialIndex c boxes) b) =
     {i. i < length boxes \<and> set (cells_of c b) \<inter> set (cells_of c (boxes ! i)) \<noteq> {}}"
proof -
  have "si_cellSize (spatialIndex c boxes) = c" by (simp add: spatialIndex_def)
  then have "set (querySpatialIndex (spatialIndex c boxes) b) =
      (\<Union>k \<in> set (cells_of c b). bucket (si_buckets (spatialIndex c boxes)) k)"
    by (auto simp: querySpatialIndex_def bucket_def)
  then show ?thesis by (auto simp: bucket_index)
qed

text \<open>Boxes that overlap share a cell.\<close>

definition overlap :: "WorldBounds \<Rightarrow> WorldBounds \<Rightarrow> bool" where
  "overlap a b \<longleftrightarrow> max (wb_minX a) (wb_minX b) \<le> min (wb_maxX a) (wb_maxX b) \<and>
     max (wb_minY a) (wb_minY b) \<le> min (wb_maxY a) (wb_maxY b)"

lemma cell_mono: "0 < c \<Longrightarrow> u \<le> v \<Longrightarrow> cell_of c u \<le> cell_of c v"
  by (simp add: cell_of_def floor_mono divide_right_mono)

lemma in_cells:
  assumes "0 < c" and "wb_minX b \<le> x" "x \<le> wb_maxX b" "wb_minY b \<le> y" "y \<le> wb_maxY b"
  shows "cellKey (cell_of c x) (cell_of c y) \<in> set (cells_of c b)"
  using assms by (auto simp: cells_of_def cell_mono intro!: bexI [of _ "cell_of c y"] image_eqI)

lemma overlap_share:
  assumes "0 < c" and "overlap a b"
  shows "set (cells_of c a) \<inter> set (cells_of c b) \<noteq> {}"
proof -
  let ?x = "max (wb_minX a) (wb_minX b)" and ?y = "max (wb_minY a) (wb_minY b)"
  have "cellKey (cell_of c ?x) (cell_of c ?y) \<in> set (cells_of c a)"
    using assms by (intro in_cells) (auto simp: overlap_def)
  moreover have "cellKey (cell_of c ?x) (cell_of c ?y) \<in> set (cells_of c b)"
    using assms by (intro in_cells) (auto simp: overlap_def)
  ultimately show ?thesis by blast
qed

section \<open>The nearest candidate\<close>

lemma nearest_snoc: "nearest hit (cs @ [i]) = closer (nearest hit cs) (hit i)"
  by (simp add: nearest_def)

lemma nearest_spec:
  "case nearest hit cs of
     None \<Rightarrow> \<forall>i \<in> set cs. hit i = None
   | Some (x, d) \<Rightarrow> (\<exists>i \<in> set cs. hit i = Some (x, d)) \<and> (\<forall>i \<in> set cs. \<forall>y e. hit i = Some (y, e) \<longrightarrow> d \<le> e)"
proof (induction cs rule: rev_induct)
  case Nil
  then show ?case by (simp add: nearest_def)
next
  case (snoc i cs)
  show ?case
  proof (cases "hit i")
    case None
    then show ?thesis using snoc.IH by (auto simp: nearest_snoc closer_def split: option.splits)
  next
    case (Some f)
    then show ?thesis using snoc.IH
      by (cases "nearest hit cs") (force simp: nearest_snoc closer_def split: prod.splits if_splits)+
  qed
qed

text \<open>
  Whatever is within reach overlaps the box that is queried: then the nearest of the candidates is the nearest
  of all.
\<close>

lemma nearest_of_all:
  assumes "0 < c" and "\<And>i x d. hit i = Some (x, d) \<Longrightarrow> i < length boxes \<and> overlap b (boxes ! i)"
  shows "case nearest hit (querySpatialIndex (spatialIndex c boxes) b) of
     None \<Rightarrow> \<forall>i < length boxes. hit i = None
   | Some (x, d) \<Rightarrow> (\<exists>i < length boxes. hit i = Some (x, d)) \<and> (\<forall>i < length boxes. \<forall>y e. hit i = Some (y, e) \<longrightarrow> d \<le> e)"
proof -
  let ?q = "querySpatialIndex (spatialIndex c boxes) b"
  have found: "i \<in> set ?q" if "hit i = Some z" for i z
    using that assms(2) [of i "fst z" "snd z"] overlap_share [OF assms(1), of b "boxes ! i"] by (simp add: query_index)
  have inside: "i < length boxes" if "i \<in> set ?q" for i
    using that by (simp add: query_index)
  note spec = nearest_spec [where hit = hit and cs = ?q]
  show ?thesis
  proof (cases "nearest hit ?q")
    case None
    with spec have "\<forall>i \<in> set ?q. hit i = None" by simp
    then have "hit i = None" for i using found [of i] by (cases "hit i") auto
    then show ?thesis using None by simp
  next
    case (Some f)
    obtain x d where f: "f = (x, d)" by fastforce
    from spec Some f obtain i where "i \<in> set ?q" "hit i = Some (x, d)" and
      least: "\<And>i y e. i \<in> set ?q \<Longrightarrow> hit i = Some (y, e) \<Longrightarrow> d \<le> e" by auto
    moreover have "d \<le> e" if "hit i = Some (y, e)" for i y e using least [OF found [OF that] that] .
    ultimately show ?thesis using inside [of i] Some f by auto
  qed
qed

section \<open>Nodes\<close>

definition node_distance :: "Point \<Rightarrow> PreparedNetGraphNode \<Rightarrow> js_number" where
  "node_distance p n = js_hypot (px p - gx_x n) (py p - gx_y n)"

lemma hypot_ge: "\<bar>x\<bar> \<le> js_hypot x y" "\<bar>y\<bar> \<le> js_hypot x y"
  unfolding js_hypot_def by (simp_all add: real_sqrt_sum_squares_ge1 real_sqrt_sum_squares_ge2 real_le_rsqrt)

lemma allowance_nonneg: "0 \<le> nodeAllowance s" "0 \<le> edgeThreshold s"
  by (simp_all add: nodeAllowance_def edgeThreshold_def)

lemma node_overlap:
  assumes "node_distance p n \<le> gx_radius n + a" and "0 \<le> gx_radius n" and "0 \<le> a"
  shows "overlap (around p (a + 18)) (node_box n)"
proof -
  have "\<bar>px p - gx_x n\<bar> \<le> gx_radius n + a" "\<bar>py p - gx_y n\<bar> \<le> gx_radius n + a"
    using assms(1) hypot_ge [where x = "px p - gx_x n" and y = "py p - gx_y n"] by (auto simp: node_distance_def)
  then show ?thesis using assms(2,3) by (auto simp: overlap_def around_def node_box_def)
qed

lemma node_hit:
  "nodeHit g p a i = Some (n, d) \<longleftrightarrow>
     i < length (gp_nodes g) \<and> n = gp_nodes g ! i \<and> d = node_distance p n \<and> node_distance p n \<le> gx_radius n + a"
  by (auto simp: nodeHit_def node_distance_def Let_def)

text \<open>
  C20. The node under the pointer is the nearest of all nodes: on a graph whose indexes were rebuilt and whose radii
  are not negative, the hit test answers no node exactly when no node of the graph is within reach, its radius and
  eight pixels, and otherwise a node within reach such that no other node within reach is nearer.
\<close>

theorem hit_node_is_nearest:
  assumes "\<forall>n \<in> set (gp_nodes g). 0 \<le> gx_radius n"
  shows "case hr_item (preparedHitNode (Some (rebuildPreparedNetGraphIndexes g)) p scale) of
      None \<Rightarrow> \<forall>n \<in> set (gp_nodes g). gx_radius n + nodeAllowance scale < node_distance p n
    | Some n \<Rightarrow> n \<in> set (gp_nodes g) \<and> node_distance p n \<le> gx_radius n + nodeAllowance scale \<and>
        (\<forall>m \<in> set (gp_nodes g). node_distance p m \<le> gx_radius m + nodeAllowance scale \<longrightarrow> node_distance p n \<le> node_distance p m)"
proof -
  let ?g = "rebuildPreparedNetGraphIndexes g" and ?a = "nodeAllowance scale" and ?b = "around p (nodeAllowance scale + 18)"
  have g: "gp_nodes ?g = gp_nodes g" "gp_nodeSpatialIndex ?g = spatialIndex SPATIAL_CELL_SIZE (map node_box (gp_nodes g))"
    by (simp_all add: rebuildPreparedNetGraphIndexes_def createNodeSpatialIndex_def)
  have "case nearest (nodeHit ?g p ?a) (querySpatialIndex (spatialIndex SPATIAL_CELL_SIZE (map node_box (gp_nodes g))) ?b) of
      None \<Rightarrow> \<forall>i < length (map node_box (gp_nodes g)). nodeHit ?g p ?a i = None
    | Some (n, d) \<Rightarrow> (\<exists>i < length (map node_box (gp_nodes g)). nodeHit ?g p ?a i = Some (n, d)) \<and>
        (\<forall>i < length (map node_box (gp_nodes g)). \<forall>m e. nodeHit ?g p ?a i = Some (m, e) \<longrightarrow> d \<le> e)"
    using assms allowance_nonneg(1) [of scale]
    by (intro nearest_of_all) (auto simp: node_hit g SPATIAL_CELL_SIZE_def intro: node_overlap)
  then show ?thesis
    unfolding preparedHitNode_def
    by (auto simp: g node_hit all_set_conv_all_nth nodeHit_def node_distance_def not_le Let_def split: option.splits if_splits)
qed

definition sample_prepared_node :: "string \<Rightarrow> js_number \<Rightarrow> js_number \<Rightarrow> PreparedNetGraphNode" where
  "sample_prepared_node i x y = NetGraphNode.extend (nodeFromDefaults i)
     \<lparr>gx_x = x, gx_y = y, gx_seedX = x, gx_seedY = y, gx_componentID = 0, gx_componentX = 0, gx_componentY = 0,
      gx_radius = 6, gx_color = [], gx_shape = [], gx_searchText = i\<rparr>"

definition sample_prepared :: PreparedNetGraph where
  "sample_prepared = \<lparr>gp_nodes = [sample_prepared_node ''a'' 0 0, sample_prepared_node ''b'' 300 0], gp_edges = [],
     gp_nodeIndexByID = [], gp_edgeIndexByID = [], gp_nodeSpatialIndex = \<lparr>si_cellSize = 128, si_buckets = []\<rparr>,
     gp_edgeSpatialIndex = \<lparr>si_cellSize = 128, si_buckets = []\<rparr>, gp_topologySignature = [],
     gp_totalNodes = 2, gp_totalEdges = 0, gp_visibleNodes = 2, gp_visibleEdges = 0, gp_layoutTicks = 0, gp_layoutReused = False\<rparr>"

lemma sample_prepared_radius: "\<forall>n \<in> set (gp_nodes sample_prepared). 0 \<le> gx_radius n"
  by (simp add: sample_prepared_def sample_prepared_node_def NetGraphNode.defs nodeFromDefaults_def)

theorem hit_node_is_nearest_witness:
  "hr_item (preparedHitNode (Some (rebuildPreparedNetGraphIndexes sample_prepared)) \<lparr>px = 301, py = 0\<rparr> 1)
     = Some (sample_prepared_node ''b'' 300 0)"
proof -
  have "node_distance \<lparr>px = 301, py = 0\<rparr> (sample_prepared_node ''a'' 0 0) = 301"
    "node_distance \<lparr>px = 301, py = 0\<rparr> (sample_prepared_node ''b'' 300 0) = 1"
    by (simp_all add: node_distance_def js_hypot_def sample_prepared_node_def NetGraphNode.defs nodeFromDefaults_def)
  then show ?thesis
    using hit_node_is_nearest [OF sample_prepared_radius, where p = "\<lparr>px = 301, py = 0\<rparr>" and scale = 1]
    by (auto simp: sample_prepared_def nodeAllowance_def sample_prepared_node_def NetGraphNode.defs nodeFromDefaults_def
        split: option.splits)
qed

section \<open>Edges\<close>

text \<open>The points of a curve, and of a segment between two of them, lie in the box of its three control points.\<close>

definition in_hull :: "js_number \<Rightarrow> js_number \<Rightarrow> js_number \<Rightarrow> js_number \<Rightarrow> bool" where
  "in_hull a b c v \<longleftrightarrow> min (min a b) c \<le> v \<and> v \<le> max (max a b) c"

lemma hull_bounds: "lo \<le> a \<Longrightarrow> lo \<le> b \<Longrightarrow> 0 \<le> t \<Longrightarrow> t \<le> 1 \<Longrightarrow> (lo::real) \<le> (1 - t) * a + t * b"
  "a \<le> hi \<Longrightarrow> b \<le> hi \<Longrightarrow> 0 \<le> t \<Longrightarrow> t \<le> 1 \<Longrightarrow> (1 - t) * a + t * b \<le> hi"
  using convex_bound_le [of a hi b "1 - t" t] convex_bound_le [of "- a" "- lo" "- b" "1 - t" t] by auto

lemma in_hull_convex:
  assumes "in_hull a b c u" and "in_hull a b c v" and "0 \<le> t" "t \<le> 1"
  shows "in_hull a b c ((1 - t) * u + t * v)"
  using assms hull_bounds unfolding in_hull_def by blast

lemma in_hull_curve:
  assumes "0 \<le> t" "t \<le> 1"
  shows "in_hull a b c ((1 - t) * (1 - t) * a + 2 * (1 - t) * t * c + t * t * b)"
proof -
  have "in_hull a b c ((1 - t) * ((1 - t) * a + t * c) + t * ((1 - t) * c + t * b))"
    by (intro in_hull_convex assms) (auto simp: in_hull_def)
  then show ?thesis by (simp add: algebra_simps)
qed

lemma clamp01_bounds [simp]: "0 \<le> clamp01 t" "clamp01 t \<le> 1"
  by (simp_all add: clamp01_def)

definition point_in :: "PreparedNetGraphNode \<Rightarrow> PreparedNetGraphNode \<Rightarrow> PreparedNetGraphEdge \<Rightarrow> Point \<Rightarrow> bool" where
  "point_in s t e p \<longleftrightarrow> in_hull (gx_x s) (gx_x t) (ex_controlX e) (px p) \<and> in_hull (gx_y s) (gx_y t) (ex_controlY e) (py p)"

lemma curve_in_hull: "point_in s t e (pointOnPreparedEdge s t e progress)"
  unfolding point_in_def pointOnPreparedEdge_def Let_def Point.select_convs
  by (intro conjI in_hull_curve clamp01_bounds)

lemma segment_point:
  assumes "point_in s t e a" and "point_in s t e b"
  shows "\<exists>q. point_in s t e q \<and> distanceToSegment p a b = js_hypot (px p - px q) (py p - py q)"
proof (cases "(px b - px a) * (px b - px a) + (py b - py a) * (py b - py a) = 0")
  case True
  then show ?thesis using assms(1) by (intro exI [of _ a]) (simp add: distanceToSegment_def Let_def)
next
  case False
  define u where "u = clamp01 (((px p - px a) * (px b - px a) + (py p - py a) * (py b - py a)) /
    ((px b - px a) * (px b - px a) + (py b - py a) * (py b - py a)))"
  let ?q = "\<lparr>px = px a + u * (px b - px a), py = py a + u * (py b - py a)\<rparr>"
  have "px a + u * (px b - px a) = (1 - u) * px a + u * px b" "py a + u * (py b - py a) = (1 - u) * py a + u * py b"
    by (simp_all add: algebra_simps)
  then have "point_in s t e ?q"
    using assms in_hull_convex [where t = u] by (simp add: point_in_def u_def)
  then show ?thesis using False by (intro exI [of _ ?q]) (simp add: distanceToSegment_def Let_def u_def)
qed

lemma polyline_point:
  "\<forall>a \<in> set ps. point_in s t e a \<Longrightarrow> d \<in> set (polyline_distances p ps) \<Longrightarrow>
     \<exists>q. point_in s t e q \<and> d = js_hypot (px p - px q) (py p - py q)"
  by (induction p ps rule: polyline_distances.induct) (auto dest: segment_point)

lemma curve_point:
  "\<exists>q. point_in s t e q \<and> distanceToPreparedEdge p s t e = js_hypot (px p - px q) (py p - py q)"
proof -
  have "polyline_distances p (curve_points s t e) \<noteq> []" by (simp add: curve_points_def upt_conv_Cons)
  then have "distanceToPreparedEdge p s t e \<in> set (polyline_distances p (curve_points s t e))"
    unfolding distanceToPreparedEdge_def by (intro Min_in) auto
  then show ?thesis by (rule polyline_point [rotated]) (auto simp: curve_points_def curve_in_hull)
qed

definition ends_in :: "PreparedNetGraph \<Rightarrow> PreparedNetGraphEdge \<Rightarrow> bool" where
  "ends_in g e \<longleftrightarrow> ex_sourceIndex e < length (gp_nodes g) \<and> ex_targetIndex e < length (gp_nodes g)"

definition edge_distance :: "PreparedNetGraph \<Rightarrow> Point \<Rightarrow> PreparedNetGraphEdge \<Rightarrow> js_number" where
  "edge_distance g p e = distanceToPreparedEdge p (gp_nodes g ! ex_sourceIndex e) (gp_nodes g ! ex_targetIndex e) e"

lemma edge_hit:
  "edgeHit g p a i = Some (e, d) \<longleftrightarrow>
     i < length (gp_edges g) \<and> e = gp_edges g ! i \<and> ends_in g e \<and> d = edge_distance g p e \<and> edge_distance g p e \<le> a"
  by (auto simp: edgeHit_def edge_distance_def ends_in_def Let_def)

lemma refreshed_box:
  assumes "ends_in g e" and "point_in (gp_nodes g ! ex_sourceIndex e) (gp_nodes g ! ex_targetIndex e) (refreshEdge g e) q"
  shows "wb_minX (edge_box (refreshEdge g e)) \<le> px q \<and> px q \<le> wb_maxX (edge_box (refreshEdge g e)) \<and>
    wb_minY (edge_box (refreshEdge g e)) \<le> py q \<and> py q \<le> wb_maxY (edge_box (refreshEdge g e))"
proof -
  have "0 \<le> max 16 (ex_width e + 10)" by simp
  then show ?thesis
    using assms unfolding ends_in_def point_in_def in_hull_def
    by (simp add: refreshEdge_def Let_def edge_box_def)
qed

lemma refresh_ends [simp]:
  "ex_sourceIndex (refreshEdge g e) = ex_sourceIndex e" "ex_targetIndex (refreshEdge g e) = ex_targetIndex e"
  "ends_in h (refreshEdge g e) = ends_in h e"
  by (simp_all add: refreshEdge_def Let_def ends_in_def)

lemma edge_overlap:
  assumes "ends_in g e" and "edge_distance g p (refreshEdge g e) \<le> a"
  shows "overlap (around p a) (edge_box (refreshEdge g e))"
proof -
  obtain q where q: "point_in (gp_nodes g ! ex_sourceIndex e) (gp_nodes g ! ex_targetIndex e) (refreshEdge g e) q"
      "edge_distance g p (refreshEdge g e) = js_hypot (px p - px q) (py p - py q)"
    using curve_point [of "gp_nodes g ! ex_sourceIndex e" "gp_nodes g ! ex_targetIndex e" "refreshEdge g e" p]
    by (auto simp: edge_distance_def)
  have "\<bar>px p - px q\<bar> \<le> a" "\<bar>py p - py q\<bar> \<le> a"
    using q(2) assms(2) hypot_ge [where x = "px p - px q" and y = "py p - py q"] by auto
  then show ?thesis
    using refreshed_box [OF assms(1) q(1)] by (auto simp: overlap_def around_def)
qed

text \<open>
  The edge under the pointer is the nearest of all edges: after the geometry of the edges was refreshed, the hit
  test answers no edge exactly when no edge whose ends are in the graph has its curve within the threshold, and
  otherwise an edge within the threshold such that no other is nearer.
\<close>

lemma hit_edge_is_nearest:
  fixes g p scale
  defines "h \<equiv> refreshPreparedEdgeGeometry g"
  shows "case hr_item (preparedHitEdge (Some h) p scale) of
      None \<Rightarrow> \<forall>e \<in> set (gp_edges h). ends_in h e \<longrightarrow> edgeThreshold scale < edge_distance h p e
    | Some e \<Rightarrow> e \<in> set (gp_edges h) \<and> ends_in h e \<and> edge_distance h p e \<le> edgeThreshold scale \<and>
        (\<forall>f \<in> set (gp_edges h). ends_in h f \<longrightarrow> edge_distance h p e \<le> edge_distance h p f)"
proof -
  let ?a = "edgeThreshold scale" and ?b = "around p (edgeThreshold scale)"
  have h: "gp_nodes h = gp_nodes g" "gp_edges h = map (refreshEdge g) (gp_edges g)"
      "gp_edgeSpatialIndex h = spatialIndex SPATIAL_CELL_SIZE (map edge_box (gp_edges h))"
    by (simp_all add: h_def refreshPreparedEdgeGeometry_def rebuildPreparedNetGraphIndexes_def createEdgeSpatialIndex_def)
  have eq: "ends_in h e = ends_in g e" "edge_distance h p e = edge_distance g p e" for e
    by (simp_all add: ends_in_def edge_distance_def h(1))
  have "case nearest (edgeHit h p ?a) (querySpatialIndex (spatialIndex SPATIAL_CELL_SIZE (map edge_box (gp_edges h))) ?b) of
      None \<Rightarrow> \<forall>i < length (map edge_box (gp_edges h)). edgeHit h p ?a i = None
    | Some (e, d) \<Rightarrow> (\<exists>i < length (map edge_box (gp_edges h)). edgeHit h p ?a i = Some (e, d)) \<and>
        (\<forall>i < length (map edge_box (gp_edges h)). \<forall>f c. edgeHit h p ?a i = Some (f, c) \<longrightarrow> d \<le> c)"
    by (rule nearest_of_all) (auto simp: edge_hit eq h(2) SPATIAL_CELL_SIZE_def intro: edge_overlap)
  then show ?thesis
    unfolding preparedHitEdge_def option.case Let_def h(3)
    by (cases "nearest (edgeHit h p ?a) (querySpatialIndex (spatialIndex SPATIAL_CELL_SIZE (map edge_box (gp_edges h))) ?b)")
      (auto simp: edge_hit all_set_conv_all_nth edgeHit_def ends_in_def edge_distance_def not_le Let_def split: if_splits)
qed

end
