(* ===== verification/Net_Graph_Transform_Correct.thy ===== *)
theory Net_Graph_Transform_Correct
  imports Net_Graph_Transform Net_Graph_Layout_Correct Net_Graph_Hits
begin

text \<open>
  What the worker of the net graph answers: the prepared graph is the visible graph with current indexes and
  geometry, so that the hit tests find the nearest of all its nodes and edges, and preparing an unchanged topology
  again keeps the picture.
\<close>

section \<open>Settled nodes and links\<close>

definition moved_to :: "js_number \<Rightarrow> js_number \<Rightarrow> js_number option \<Rightarrow> js_number option \<Rightarrow> SimNode \<Rightarrow> SimNode" where
  "moved_to x y vx vy n = n\<lparr>sn_x := x, sn_y := y, sn_vx := vx, sn_vy := vy\<rparr>"

definition moves :: "SimNode \<Rightarrow> SimNode \<Rightarrow> bool" where
  "moves n m \<longleftrightarrow> (\<exists>x y vx vy. m = moved_to x y vx vy n)"

lemma moved_ids [simp]: "gn_id (moved_to x y vx vy n) = gn_id n" "sn_x (moved_to x y vx vy n) = x" "sn_y (moved_to x y vx vy n) = y"
  "NetGraphNode.truncate (moved_to x y vx vy n) = NetGraphNode.truncate n"
  by (simp_all add: moved_to_def NetGraphNode.defs)

lemma moves_id: "moves n m \<Longrightarrow> gn_id m = gn_id n"
  by (auto simp: moves_def)

lemma moves_refl [simp]: "moves n n"
proof -
  have "n = moved_to (sn_x n) (sn_y n) (sn_vx n) (sn_vy n) n" by (simp add: moved_to_def)
  then show ?thesis unfolding moves_def by blast
qed

lemma moves_updates: "moves n m \<Longrightarrow> moves n (m\<lparr>sn_x := x, sn_y := y\<rparr>)"
  "moves n m \<Longrightarrow> moves n (m\<lparr>sn_x := x, sn_y := y, sn_vx := vx, sn_vy := vy\<rparr>)"
proof -
  have "(moved_to x' y' vx' vy' n)\<lparr>sn_x := x, sn_y := y\<rparr> = moved_to x y vx' vy' n" for x' y' vx' vy'
    by (simp add: moved_to_def)
  then show "moves n m \<Longrightarrow> moves n (m\<lparr>sn_x := x, sn_y := y\<rparr>)" unfolding moves_def by metis
  have "(moved_to x' y' vx' vy' n)\<lparr>sn_x := x, sn_y := y, sn_vx := vx, sn_vy := vy\<rparr> = moved_to x y vx vy n" for x' y' vx' vy'
    by (simp add: moved_to_def)
  then show "moves n m \<Longrightarrow> moves n (m\<lparr>sn_x := x, sn_y := y, sn_vx := vx, sn_vy := vy\<rparr>)" unfolding moves_def by metis
qed

lemma place_moves: "moves n (placeNode g prev n)"
  by (simp add: placeNode_def moves_updates split: option.split)

text \<open>The nodes before they are placed depend on the graph and the size alone.\<close>

definition seeded_nodes :: "(string \<Rightarrow> string \<Rightarrow> js_number) \<Rightarrow> NetGraphData \<Rightarrow> js_number \<Rightarrow> js_number \<Rightarrow> SimNode list" where
  "seeded_nodes lc g w h =
     map (\<lambda>n. simNodeFromGraphNode n (map_get (packedSeedLayout lc g (max 1 w) (max 1 h)) (gn_id n))) (ng_nodes g)"

lemma simNode_truncate [simp]: "NetGraphNode.truncate (simNodeFromGraphNode n s) = n" "gn_id (simNodeFromGraphNode n s) = gn_id n"
  by (simp_all add: simNodeFromGraphNode_def Let_def NetGraphNode.defs)

definition placed_nodes ::
  "(string \<Rightarrow> string \<Rightarrow> js_number) \<Rightarrow> NetGraphData \<Rightarrow> js_number \<Rightarrow> js_number \<Rightarrow> (string, NetGraphPreviousPosition) js_map \<Rightarrow> SimNode list" where
  "placed_nodes lc g w h prev = map (placeNode g prev) (seeded_nodes lc g w h)"

definition moved_by :: "(nat \<Rightarrow> Point) \<Rightarrow> SimNode list \<Rightarrow> SimNode list" where
  "moved_by pos ns = map (\<lambda>(i, n). n\<lparr>sn_x := px (pos i), sn_y := py (pos i)\<rparr>) (List.enumerate 0 ns)"

lemma settle_cases:
  "\<exists>ticks pos links. (reused \<longrightarrow> ticks = 0) \<and> settleVisibleGraph lc sim g w h prev reused paused =
     (if ticks = 0 then \<lparr>st_nodes = placed_nodes lc g w h prev, st_links = links, st_layoutTicks = 0\<rparr>
      else \<lparr>st_nodes = moved_by pos (placed_nodes lc g w h prev), st_links = links, st_layoutTicks = ticks\<rparr>)"
proof -
  have p: "map (\<lambda>n. placeNode g prev (simNodeFromGraphNode n (map_get (packedSeedLayout lc g (max 1 w) (max 1 h)) (gn_id n)))) (ng_nodes g)
      = placed_nodes lc g w h prev" by (simp add: placed_nodes_def seeded_nodes_def)
  show ?thesis unfolding settleVisibleGraph_def Let_def p moved_by_def [symmetric] by (intro exI conjI, rule_tac [2] refl) simp
qed

lemma settle_nodes:
  "st_nodes (settleVisibleGraph lc sim g w h prev reused paused) = placed_nodes lc g w h prev \<or>
   (\<exists>pos. st_nodes (settleVisibleGraph lc sim g w h prev reused paused) = moved_by pos (placed_nodes lc g w h prev))"
  using settle_cases [of reused lc sim g w h prev paused] by (auto split: if_splits)

lemma settle_reused:
  "st_nodes (settleVisibleGraph lc sim g w h prev True paused) = placed_nodes lc g w h prev \<and>
   st_layoutTicks (settleVisibleGraph lc sim g w h prev True paused) = 0"
  using settle_cases [of True lc sim g w h prev paused] by auto

lemma settled_nodes:
  "list_all2 moves (seeded_nodes lc g w h) (st_nodes (settleVisibleGraph lc sim g w h prev reused paused))"
proof -
  have placed: "list_all2 moves (seeded_nodes lc g w h) (placed_nodes lc g w h prev)"
    by (simp add: placed_nodes_def list.rel_map place_moves list.rel_refl)
  have "list_all2 moves ns (moved_by pos ms)" if "list_all2 moves ns ms" for ns ms pos
    using that by (auto simp: moved_by_def list_all2_conv_all_nth nth_enumerate_eq intro!: moves_updates)
  then show ?thesis using placed settle_nodes [of lc sim g w h prev reused paused] by metis
qed

lemma list_all2_map_eq: "list_all2 r xs ys \<Longrightarrow> (\<And>x y. r x y \<Longrightarrow> f y = g x) \<Longrightarrow> map f ys = map g xs"
  by (induction rule: list_all2_induct) auto

lemma settled_ids: "map gn_id (st_nodes (settleVisibleGraph lc sim g w h prev reused paused)) = map gn_id (ng_nodes g)"
proof -
  have "map gn_id (st_nodes (settleVisibleGraph lc sim g w h prev reused paused)) = map gn_id (seeded_nodes lc g w h)"
    by (rule list_all2_map_eq [OF settled_nodes moves_id])
  then show ?thesis by (simp add: seeded_nodes_def comp_def)
qed

lemma plan_exists:
  assumes "graph_closed g" and "e \<in> set (ng_edges g)"
  shows "\<exists>p. map_get (buildEdgeRenderPlans lc (ng_edges g)) (gd_id e) = Some p"
  using edge_lane [of "ng_edges g" e lc] assms by (auto simp: graph_closed_def)

definition planned_links :: "(string \<Rightarrow> string \<Rightarrow> js_number) \<Rightarrow> NetGraphData \<Rightarrow> SimLink list" where
  "planned_links lc g =
     List.map_filter (\<lambda>e. map_option (Pair e) (map_get (buildEdgeRenderPlans lc (ng_edges g)) (gd_id e))) (ng_edges g)"

lemma settled_links:
  assumes "graph_closed g"
  shows "st_links (settleVisibleGraph lc sim g w h prev reused paused) = planned_links lc g"
proof -
  let ?place = "\<lambda>n. placeNode g prev (simNodeFromGraphNode n (map_get (packedSeedLayout lc g (max 1 w) (max 1 h)) (gn_id n)))"
  have "gn_id (?place n) = gn_id n" for n using moves_id [OF place_moves] by simp
  then have "set (js_set (map gn_id (map ?place (ng_nodes g)))) = gn_id ` set (ng_nodes g)" by (simp add: image_image)
  moreover have "filter (\<lambda>e. gd_sourceID e \<in> gn_id ` set (ng_nodes g) \<and> gd_targetID e \<in> gn_id ` set (ng_nodes g)) (ng_edges g) = ng_edges g"
    using assms by (intro filter_True) (simp add: graph_closed_def)
  ultimately show ?thesis unfolding settleVisibleGraph_def Let_def planned_links_def by (simp only: split: if_split) auto
qed

lemma planned_edges:
  assumes "graph_closed g"
  shows "map fst (planned_links lc g) = ng_edges g"
proof -
  have "map fst (List.map_filter (\<lambda>e. map_option (Pair e) (m e)) es) = es" if "\<forall>e \<in> set es. \<exists>p. m e = Some p"
    for m :: "NetGraphEdge \<Rightarrow> NetGraphEdgeRenderPlan option" and es
    using that by (induction es) (auto simp: map_filter_simps)
  then show ?thesis using plan_exists [OF assms] by (simp add: planned_links_def)
qed

section \<open>Indexes of plain objects\<close>

lemma record_index_is_map:
  assumes "''__proto__'' \<notin> f ` set xs"
  shows "record_index f xs = index_by f xs"
proof -
  have "foldl (\<lambda>m (i, x). record_put (f x) i m) a ps = foldl (\<lambda>m e. map_set (fst e) (snd e) m) a (map (\<lambda>(i, x). (f x, i)) ps)"
    if "\<forall>p \<in> set ps. f (snd p) \<noteq> ''__proto__''" for a ps
    using that by (induction ps arbitrary: a) (auto simp: record_put_def)
  moreover have "\<forall>p \<in> set (List.enumerate 0 xs). f (snd p) \<noteq> ''__proto__''"
    using assms by (auto simp: in_set_enumerate_eq) (metis image_eqI nth_mem)
  ultimately show ?thesis by (simp add: record_index_def index_by_def new_map_def)
qed

lemma index_by_get:
  assumes "distinct (map f xs)" and "i < length xs"
  shows "map_get (index_by f xs) (f (xs ! i)) = Some i"
proof -
  have "map fst (map (\<lambda>(i, x). (f x, i)) (List.enumerate 0 xs)) = map f xs"
    using map_map [of f snd "List.enumerate 0 xs"] by (simp add: case_prod_beta comp_def)
  then have "map_get (index_by f xs) = map_of (map (\<lambda>(i, x). (f x, i)) (List.enumerate 0 xs))"
    using assms(1) unfolding index_by_def by (intro map_get_new_map_distinct) simp
  moreover have "(f (xs ! i), i) \<in> set (map (\<lambda>(i, x). (f x, i)) (List.enumerate 0 xs))"
    using assms(2) by (force simp: in_set_enumerate_eq)
  ultimately show ?thesis
    using assms(1) \<open>map fst _ = map f xs\<close> by (metis map_of_eq_Some_iff)
qed

lemma record_index_by_ids:
  "record_index f xs = foldl (\<lambda>m (i, k). record_put k i m) [] (List.enumerate 0 (map f xs))"
proof -
  have "foldl (\<lambda>m (i, x). record_put (f x) i m) a (List.enumerate k xs) =
      foldl (\<lambda>m (i, k). record_put k i m) a (List.enumerate k (map f xs))" for a k
    by (induction xs arbitrary: a k) auto
  then show ?thesis by (simp add: record_index_def)
qed

lemma map_filter_member: "e \<in> set (List.map_filter f xs) \<Longrightarrow> \<exists>x \<in> set xs. f x = Some e"
  by (induction xs) (auto simp: map_filter_simps split: option.splits)

section \<open>Prepared edges\<close>

lemma control_point_inputs:
  "preparedEdgeControlPoint s t (e\<lparr>ex_controlX := a, ex_controlY := b, ex_minX := c, ex_minY := d, ex_maxX := k, ex_maxY := l\<rparr>)
     = preparedEdgeControlPoint s t e"
  by (simp add: preparedEdgeControlPoint_def edgeDirectionSign_def Let_def)

lemma prepared_edge_fresh:
  assumes "preparedEdge (gp_nodes g) idx link = Some e"
  shows "refreshEdge g e = e \<and> ends_in g e \<and> NetGraphEdge.truncate e = fst link \<and>
    map_get idx (gd_sourceID (fst link)) = Some (ex_sourceIndex e) \<and> map_get idx (gd_targetID (fst link)) = Some (ex_targetIndex e)"
proof -
  from assms obtain i j where ij: "map_get idx (gd_sourceID (fst link)) = Some i" "map_get idx (gd_targetID (fst link)) = Some j"
      "i < length (gp_nodes g)" "j < length (gp_nodes g)"
    by (auto simp: preparedEdge_def Let_def split: option.splits if_splits)
  define plain where "plain = NetGraphEdge.extend (fst link) \<lparr>ex_sourceIndex = i, ex_targetIndex = j,
      ex_laneOffset = pl_laneOffset (snd link), ex_laneCount = pl_laneCount (snd link), ex_controlX = 0, ex_controlY = 0,
      ex_minX = 0, ex_minY = 0, ex_maxX = 0, ex_maxY = 0, ex_width = edgeWidth (fst link),
      ex_color = netGraphPayloadColor (case gd_payloadTypeNames (fst link) of [] \<Rightarrow> None | x # _ \<Rightarrow> Some x),
      ex_searchText = preparedEdgeSearchText (fst link)\<rparr>"
  have p: "ex_sourceIndex plain = i" "ex_targetIndex plain = j" "ex_width plain = edgeWidth (fst link)"
      "NetGraphEdge.truncate plain = fst link"
    by (simp_all add: plain_def NetGraphEdge.defs)
  let ?s = "gp_nodes g ! i" and ?t = "gp_nodes g ! j" and ?pad = "max 16 (edgeWidth (fst link) + 10)"
  let ?c = "preparedEdgeControlPoint ?s ?t plain"
  have e: "e = plain\<lparr>ex_controlX := px ?c, ex_controlY := py ?c,
      ex_minX := min (min (gx_x ?s) (gx_x ?t)) (px ?c) - ?pad, ex_minY := min (min (gx_y ?s) (gx_y ?t)) (py ?c) - ?pad,
      ex_maxX := max (max (gx_x ?s) (gx_x ?t)) (px ?c) + ?pad, ex_maxY := max (max (gx_y ?s) (gx_y ?t)) (py ?c) + ?pad\<rparr>"
    using assms ij by (simp add: preparedEdge_def Let_def plain_def)
  have "refreshEdge g e = e"
    unfolding e refreshEdge_def Let_def control_point_inputs using p ij by (simp add: control_point_inputs)
  moreover have "NetGraphEdge.truncate e = NetGraphEdge.truncate plain" "ex_sourceIndex e = i" "ex_targetIndex e = j"
    by (simp_all add: e p NetGraphEdge.defs)
  ultimately show ?thesis using ij p(4) by (simp add: ends_in_def)
qed

lemma prepared_edge_some:
  "map_get idx (gd_sourceID (fst l)) = Some i \<Longrightarrow> i < length nodes \<Longrightarrow>
   map_get idx (gd_targetID (fst l)) = Some j \<Longrightarrow> j < length nodes \<Longrightarrow> \<exists>e. preparedEdge nodes idx l = Some e"
  by (simp add: preparedEdge_def Let_def)

lemma preparedNode_fields [simp]:
  "gn_id (preparedNode n) = gn_id n" "NetGraphNode.truncate (preparedNode n) = NetGraphNode.truncate n"
  "gx_x (preparedNode n) = sn_x n" "gx_y (preparedNode n) = sn_y n" "gx_radius (preparedNode n) = sn_radius n"
  by (simp_all add: preparedNode_def NetGraphNode.defs)

section \<open>Preparing\<close>

definition visible_of :: "(string \<Rightarrow> string \<Rightarrow> js_number) \<Rightarrow> NetGraphPrepareInput \<Rightarrow> NetGraphData" where
  "visible_of lc input = stableVisibleGraph lc (buildNetGraphData lc (pi_nodes input) (pi_routes input))
     \<lparr>vl_maxNodes = pi_maxNodes input, vl_maxEdges = pi_maxEdges input\<rparr>"

definition trimmed_routes :: "NetGraphPrepareInput \<Rightarrow> bool" where
  "trimmed_routes input \<longleftrightarrow> (\<forall>r \<in> set (pi_routes input). js_trim (rt_id r) = rt_id r)"

lemma visible_closed: "trimmed_routes input \<Longrightarrow> graph_closed (visible_of lc input)"
  unfolding visible_of_def trimmed_routes_def by (intro visible_graph_is_closed [THEN conjunct1] build_ok)

definition prepare_settled ::
  "(string \<Rightarrow> string \<Rightarrow> js_number) \<Rightarrow> simulation \<Rightarrow> NetGraphPrepareInput \<Rightarrow> bool \<Rightarrow> Settled" where
  "prepare_settled lc sim input reused = settleVisibleGraph lc sim (visible_of lc input) (pi_width input) (pi_height input)
     (new_map (map (\<lambda>p. (po_id p, p)) (or_else (pi_previousPositions input) []))) reused (pi_layoutPaused input = Some True)"

definition reuses_topology :: "(string \<Rightarrow> string \<Rightarrow> js_number) \<Rightarrow> NetGraphPrepareInput \<Rightarrow> bool" where
  "reuses_topology lc input \<longleftrightarrow> (case pi_previousTopologySignature input of None \<Rightarrow> False
     | Some s \<Rightarrow> s \<noteq> [] \<and> s = graphTopologySignature (visible_of lc input))"

lemma prepare_unfold:
  "prepareNetGraph lc sim input = preparedGraphFromSettledGraph (buildNetGraphData lc (pi_nodes input) (pi_routes input))
     (visible_of lc input) (graphTopologySignature (visible_of lc input))
     (prepare_settled lc sim input (reuses_topology lc input)) (reuses_topology lc input)"
  unfolding prepareNetGraph_def visible_of_def prepare_settled_def reuses_topology_def Let_def by (rule refl)

lemma prepared_nodes: "gp_nodes (prepareNetGraph lc sim input) = map preparedNode (st_nodes (prepare_settled lc sim input (reuses_topology lc input)))"
  by (simp add: prepare_unfold preparedGraphFromSettledGraph_def Let_def)

lemma prepared_ids: "map gn_id (gp_nodes (prepareNetGraph lc sim input)) = map gn_id (ng_nodes (visible_of lc input))"
  unfolding prepared_nodes by (simp add: comp_def prepare_settled_def settled_ids)

lemma prepared_index:
  "gp_nodeIndexByID (prepareNetGraph lc sim input) = record_index gn_id (gp_nodes (prepareNetGraph lc sim input))"
  by (simp add: prepare_unfold preparedGraphFromSettledGraph_def Let_def record_index_by_ids comp_def)

lemma prepared_edges:
  assumes "trimmed_routes input"
  shows "gp_edges (prepareNetGraph lc sim input) =
    List.map_filter (preparedEdge (gp_nodes (prepareNetGraph lc sim input)) (gp_nodeIndexByID (prepareNetGraph lc sim input)))
      (planned_links lc (visible_of lc input))"
  by (simp add: prepare_unfold preparedGraphFromSettledGraph_def Let_def prepare_settled_def settled_links [OF visible_closed [OF assms]])

lemma prepared_rest:
  "gp_edgeIndexByID (prepareNetGraph lc sim input) = record_index gd_id (gp_edges (prepareNetGraph lc sim input))"
  "gp_nodeSpatialIndex (prepareNetGraph lc sim input) = createNodeSpatialIndex (gp_nodes (prepareNetGraph lc sim input))"
  "gp_edgeSpatialIndex (prepareNetGraph lc sim input) = createEdgeSpatialIndex (gp_edges (prepareNetGraph lc sim input))"
  by (simp_all add: prepare_unfold preparedGraphFromSettledGraph_def Let_def)

text \<open>No node and no edge is called \<open>__proto__\<close>, the one key that a plain object does not take.\<close>

definition plain_ids :: "NetGraphData \<Rightarrow> bool" where
  "plain_ids g \<longleftrightarrow> ''__proto__'' \<notin> gn_id ` set (ng_nodes g) \<and> ''__proto__'' \<notin> gd_id ` set (ng_edges g)"

lemma prepared_node_ids: "gn_id ` set (gp_nodes (prepareNetGraph lc sim input)) = gn_id ` set (ng_nodes (visible_of lc input))"
  using arg_cong [OF prepared_ids, of set] by simp

lemma prepared_node_found:
  assumes "trimmed_routes input" and "plain_ids (visible_of lc input)" and "i < length (gp_nodes (prepareNetGraph lc sim input))"
  shows "map_get (gp_nodeIndexByID (prepareNetGraph lc sim input)) (gn_id (gp_nodes (prepareNetGraph lc sim input) ! i)) = Some i"
proof -
  have "distinct (map gn_id (gp_nodes (prepareNetGraph lc sim input)))"
    unfolding prepared_ids using visible_closed [OF assms(1)] by (simp add: graph_closed_def)
  then show ?thesis
    using assms(2,3) by (simp add: prepared_index record_index_is_map plain_ids_def prepared_node_ids index_by_get)
qed

lemma closed_ends:
  assumes "graph_closed g" and "e \<in> set (ng_edges g)"
  shows "gd_sourceID e \<in> gn_id ` set (ng_nodes g)" "gd_targetID e \<in> gn_id ` set (ng_nodes g)"
  using assms by (simp_all add: graph_closed_def)

lemma planned_edge: "graph_closed g \<Longrightarrow> l \<in> set (planned_links lc g) \<Longrightarrow> fst l \<in> set (ng_edges g)"
  by (metis planned_edges image_eqI set_map)

text \<open>The visible nodes are in the index of the prepared graph.\<close>

lemma prepared_index_finds:
  fixes sim :: simulation and lc :: "string \<Rightarrow> string \<Rightarrow> js_number"
  assumes "trimmed_routes input" and "plain_ids (visible_of lc input)" and "k \<in> gn_id ` set (ng_nodes (visible_of lc input))"
  defines "g \<equiv> prepareNetGraph lc sim input"
  shows "\<exists>i < length (gp_nodes g). gn_id (gp_nodes g ! i) = k \<and> map_get (gp_nodeIndexByID g) k = Some i"
proof -
  have "k \<in> gn_id ` set (gp_nodes g)" using assms(3) by (simp add: prepared_node_ids g_def)
  then show ?thesis using prepared_node_found [OF assms(1,2)] by (auto simp: in_set_conv_nth g_def)
qed

lemma prepared_edge_ends:
  fixes sim :: simulation and lc :: "string \<Rightarrow> string \<Rightarrow> js_number"
  assumes "trimmed_routes input" and "plain_ids (visible_of lc input)" and "e \<in> set (gp_edges (prepareNetGraph lc sim input))"
  defines "g \<equiv> prepareNetGraph lc sim input"
  shows "refreshEdge g e = e \<and> ends_in g e \<and> gn_id (gp_nodes g ! ex_sourceIndex e) = gd_sourceID e \<and>
    gn_id (gp_nodes g ! ex_targetIndex e) = gd_targetID e"
proof -
  note closed = visible_closed [OF assms(1), of lc]
  obtain l where l: "l \<in> set (planned_links lc (visible_of lc input))" "preparedEdge (gp_nodes g) (gp_nodeIndexByID g) l = Some e"
    using map_filter_member [OF assms(3) [unfolded prepared_edges [OF assms(1)]]] by (auto simp: g_def)
  note p = prepared_edge_fresh [OF l(2)]
  have same: "gd_sourceID (fst l) = gd_sourceID e" "gd_targetID (fst l) = gd_targetID e"
    using p by (metis NetGraphEdge.select_convs(2,3) NetGraphEdge.truncate_def)+
  note ends = closed_ends [OF closed planned_edge [OF closed l(1)], unfolded same]
  then show ?thesis
    using p same prepared_index_finds [OF assms(1,2) ends(1), of sim] prepared_index_finds [OF assms(1,2) ends(2), of sim]
    by (auto simp: g_def)
qed

lemma map_filter_all:
  assumes "\<forall>l \<in> set ls. \<exists>e. f l = Some e \<and> h e = k l"
  shows "map h (List.map_filter f ls) = map k ls"
  using assms by (induction ls) (auto simp: map_filter_simps)

lemma prepared_edges_visible:
  assumes "trimmed_routes input" and "plain_ids (visible_of lc input)"
  shows "map NetGraphEdge.truncate (gp_edges (prepareNetGraph lc sim input)) = ng_edges (visible_of lc input)"
proof -
  let ?g = "prepareNetGraph lc sim input"
  note closed = visible_closed [OF assms(1), of lc]
  have "\<exists>e. preparedEdge (gp_nodes ?g) (gp_nodeIndexByID ?g) l = Some e" if l: "l \<in> set (planned_links lc (visible_of lc input))" for l
  proof -
    note ends = closed_ends [OF closed planned_edge [OF closed l]]
    show ?thesis
      using prepared_index_finds [OF assms ends(1), of sim] prepared_index_finds [OF assms ends(2), of sim] prepared_edge_some by blast
  qed
  then show ?thesis
    unfolding prepared_edges [OF assms(1)] planned_edges [OF closed, of lc, symmetric]
    using prepared_edge_fresh by (intro map_filter_all) blast
qed

lemma prepared_nodes_visible:
  "map NetGraphNode.truncate (gp_nodes (prepareNetGraph lc sim input)) = ng_nodes (visible_of lc input)"
proof -
  have "map (NetGraphNode.truncate o preparedNode) (st_nodes (prepare_settled lc sim input (reuses_topology lc input)))
      = map NetGraphNode.truncate (seeded_nodes lc (visible_of lc input) (pi_width input) (pi_height input))"
    unfolding prepare_settled_def by (rule list_all2_map_eq [OF settled_nodes]) (auto simp: moves_def)
  then show ?thesis by (simp add: prepared_nodes seeded_nodes_def comp_def)
qed

lemma prepared_is_current:
  fixes sim :: simulation and lc :: "string \<Rightarrow> string \<Rightarrow> js_number"
  assumes "trimmed_routes input" and "plain_ids (visible_of lc input)"
  defines "g \<equiv> prepareNetGraph lc sim input"
  shows "refreshPreparedEdgeGeometry g = g"
proof -
  have "map (refreshEdge g) (gp_edges g) = gp_edges g"
    using prepared_edge_ends [OF assms(1,2), where sim = sim, folded g_def] by (intro map_idI) simp
  moreover have "gd_id ` set (gp_edges g) = gd_id ` set (ng_edges (visible_of lc input))"
    unfolding prepared_edges_visible [OF assms(1,2), of sim, symmetric] g_def by (simp add: image_image NetGraphEdge.defs)
  then have "index_by gn_id (gp_nodes g) = gp_nodeIndexByID g" "index_by gd_id (gp_edges g) = gp_edgeIndexByID g"
    using assms(2) by (simp_all add: g_def plain_ids_def prepared_node_ids prepared_index prepared_rest record_index_is_map)
  ultimately show ?thesis
    by (simp add: refreshPreparedEdgeGeometry_def rebuildPreparedNetGraphIndexes_def g_def prepared_rest)
qed

text \<open>
  C23. The worker answers the visible graph, ready to use: for routes with trimmed ids, unless an id is \<open>__proto__\<close>,
  the nodes and the edges are the visible ones in their order, the geometry and the indexes are current (refreshing
  them changes nothing, so the hit tests find the nearest of all), every node is found by its id, and the ends of
  every edge are the nodes of its two ids.
\<close>

theorem prepared_graph_is_ready:
  fixes sim :: simulation and lc :: "string \<Rightarrow> string \<Rightarrow> js_number"
  assumes "trimmed_routes input" and "plain_ids (visible_of lc input)"
  defines "g \<equiv> prepareNetGraph lc sim input"
  shows "map NetGraphNode.truncate (gp_nodes g) = ng_nodes (visible_of lc input) \<and>
    map NetGraphEdge.truncate (gp_edges g) = ng_edges (visible_of lc input) \<and>
    refreshPreparedEdgeGeometry g = g \<and>
    (\<forall>n \<in> set (gp_nodes g). preparedNodeByID (Some g) (gn_id n) = Some n) \<and>
    (\<forall>e \<in> set (gp_edges g). ends_in g e \<and> gn_id (gp_nodes g ! ex_sourceIndex e) = gd_sourceID e \<and>
       gn_id (gp_nodes g ! ex_targetIndex e) = gd_targetID e)"
proof -
  have "preparedNodeByID (Some g) (gn_id n) = Some n" if "n \<in> set (gp_nodes g)" for n
    using that prepared_node_found [OF assms(1,2)]
    by (auto simp: preparedNodeByID_def lookup_index_def in_set_conv_nth g_def)
  then show ?thesis
    using prepared_edge_ends [OF assms(1,2), where sim = sim] prepared_nodes_visible prepared_edges_visible [OF assms(1,2)]
      prepared_is_current [OF assms(1,2)] by (simp add: g_def)
qed

definition sample_input :: NetGraphPrepareInput where
  "sample_input = \<lparr>pi_nodes = [], pi_routes = [sample_route ''r'' ''a'' ''b'', sample_route ''s'' ''b'' ''c''], pi_width = 800,
     pi_height = 600, pi_maxNodes = 2, pi_maxEdges = 10, pi_previousTopologySignature = None, pi_previousPositions = None,
     pi_layoutPaused = None\<rparr>"

lemma sample_trimmed: "trimmed_routes sample_input"
  using sample_routes_trimmed by (simp add: trimmed_routes_def sample_input_def)

lemma sample_visible:
  "map gn_id (ng_nodes (visible_of code_unit_compare sample_input)) = [''b'', ''a''] \<and>
   map gd_id (ng_edges (visible_of code_unit_compare sample_input)) = [''r'']"
proof -
  have "pi_maxNodes sample_input = real 2" "pi_maxEdges sample_input = real 10" by (simp_all add: sample_input_def)
  then show ?thesis
    unfolding visible_of_def stableVisibleGraph_def Let_def VisibleGraphLimits.simps slice_to_nat
    by (simp only: slice_to_nat) code_simp
qed

lemma sample_plain: "plain_ids (visible_of code_unit_compare sample_input)"
proof -
  have "set (map gn_id (ng_nodes (visible_of code_unit_compare sample_input))) = {''a'', ''b''}"
    "set (map gd_id (ng_edges (visible_of code_unit_compare sample_input))) = {''r''}"
    by (simp_all only: sample_visible) auto
  then show ?thesis by (simp add: plain_ids_def)
qed

theorem prepared_graph_is_ready_witness:
  "refreshPreparedEdgeGeometry (prepareNetGraph code_unit_compare (\<lambda>s ticks i. \<lparr>px = real i, py = 0\<rparr>) sample_input)
     = prepareNetGraph code_unit_compare (\<lambda>s ticks i. \<lparr>px = real i, py = 0\<rparr>) sample_input"
  using prepared_graph_is_ready [OF sample_trimmed sample_plain] by blast

section \<open>Preparing again\<close>

lemma placed_back:
  assumes "moves n m" and "map_get prev (gn_id n) = Some p" and "po_x p = sn_x m" and "po_y p = sn_y m"
  shows "preparedNode (placeNode g prev n) = preparedNode m"
  using assms
  by (auto simp: placeNode_def moves_def moved_to_def preparedNode_def preparedNodeSearchText_def NetGraphNode.defs)

lemma prepared_again:
  assumes "map preparedNode (st_nodes s') = map preparedNode (st_nodes s)" and "st_links s' = st_links s" and "st_layoutTicks s' = 0"
  shows "preparedGraphFromSettledGraph a v sig s' True =
    (preparedGraphFromSettledGraph a v sig s r)\<lparr>gp_layoutTicks := 0, gp_layoutReused := True\<rparr>"
proof -
  have "map gn_id (st_nodes s') = map gn_id (st_nodes s)"
    using arg_cong [OF assms(1), of "map gn_id"] by (simp add: comp_def)
  then show ?thesis
    by (simp add: preparedGraphFromSettledGraph_def Let_def assms record_index_by_ids)
qed

text \<open>The positions that are handed back are those of the nodes.\<close>

lemma positions_get:
  assumes "distinct (map gn_id ns)" and "n \<in> set ns"
  shows "map_get (new_map (map (\<lambda>p. (po_id p, p)) (map (\<lambda>n. \<lparr>po_id = gn_id n, po_x = gx_x n, po_y = gx_y n, po_vx = None, po_vy = None\<rparr>) ns)))
      (gn_id n) = Some \<lparr>po_id = gn_id n, po_x = gx_x n, po_y = gx_y n, po_vx = None, po_vy = None\<rparr>"
proof -
  let ?es = "map (\<lambda>p. (po_id p, p)) (map (\<lambda>n. \<lparr>po_id = gn_id n, po_x = gx_x n, po_y = gx_y n, po_vx = None, po_vy = None\<rparr>) ns)"
  have d: "distinct (map fst ?es)" using assms(1) by (simp add: comp_def)
  have "(gn_id n, \<lparr>po_id = gn_id n, po_x = gx_x n, po_y = gx_y n, po_vx = None, po_vy = None\<rparr>) \<in> set ?es" using assms(2) by auto
  then show ?thesis unfolding map_get_new_map_distinct [OF d] by (rule map_of_is_SomeI [OF d])
qed

definition next_input :: "PreparedNetGraph \<Rightarrow> NetGraphPrepareInput \<Rightarrow> NetGraphPrepareInput" where
  "next_input g input = input\<lparr>pi_previousTopologySignature := Some (gp_topologySignature g),
     pi_previousPositions := Some (preparedPositions (Some g))\<rparr>"

lemma next_input_same:
  "visible_of lc (next_input g input) = visible_of lc input" "pi_width (next_input g input) = pi_width input"
  "pi_height (next_input g input) = pi_height input" "pi_nodes (next_input g input) = pi_nodes input"
  "pi_routes (next_input g input) = pi_routes input"
  by (simp_all add: next_input_def visible_of_def)

lemma signature_not_empty [simp]: "graphTopologySignature g \<noteq> []"
  by (simp add: graphTopologySignature_def)

lemma prepared_signature: "gp_topologySignature (prepareNetGraph lc sim input) = graphTopologySignature (visible_of lc input)"
  by (simp add: prepare_unfold preparedGraphFromSettledGraph_def Let_def)

lemma next_input_reuses: "reuses_topology lc (next_input (prepareNetGraph lc sim input) input)"
proof -
  have "pi_previousTopologySignature (next_input (prepareNetGraph lc sim input) input) = Some (graphTopologySignature (visible_of lc input))"
    by (simp add: next_input_def prepared_signature)
  then show ?thesis by (simp add: reuses_topology_def next_input_same)
qed

text \<open>
  C24. An unchanged topology keeps its picture: preparing the same nodes and routes again with the signature and the
  positions of a prepared graph gives the same graph, nodes where they were, without a tick of the simulation,
  whatever the simulation does.
\<close>

theorem prepare_again_keeps_the_picture:
  fixes sim :: simulation and lc :: "string \<Rightarrow> string \<Rightarrow> js_number"
  assumes "trimmed_routes input"
  defines "g \<equiv> prepareNetGraph lc sim input"
  shows "prepareNetGraph lc sim' (next_input g input) = g\<lparr>gp_layoutTicks := 0, gp_layoutReused := True\<rparr>"
proof -
  let ?V = "visible_of lc input" and ?prev = "new_map (map (\<lambda>p. (po_id p, p)) (preparedPositions (Some g)))"
  let ?ns = "seeded_nodes lc ?V (pi_width input) (pi_height input)"
  let ?s = "prepare_settled lc sim input (reuses_topology lc input)"
  let ?s' = "prepare_settled lc sim' (next_input g input) True"
  note closed = visible_closed [OF assms(1), of lc]
  have reuse: "reuses_topology lc (next_input g input)" unfolding g_def by (rule next_input_reuses)
  have s': "st_nodes ?s' = map (placeNode ?V ?prev) ?ns" "st_layoutTicks ?s' = 0"
    using settle_reused by (simp_all add: prepare_settled_def next_input_same placed_nodes_def) (simp_all add: next_input_def)
  have "list_all2 moves ?ns (st_nodes ?s)" unfolding prepare_settled_def by (rule settled_nodes)
  moreover have "preparedNode (placeNode ?V ?prev n) = preparedNode m" if m: "moves n m" "m \<in> set (st_nodes ?s)" for n m
  proof (rule placed_back [OF m(1)])
    have "distinct (map gn_id (gp_nodes g))"
      using closed unfolding g_def prepared_ids by (simp add: graph_closed_def)
    moreover have "preparedNode m \<in> set (gp_nodes g)" using m(2) by (simp add: g_def prepared_nodes)
    ultimately show "map_get ?prev (gn_id n) = Some \<lparr>po_id = gn_id n, po_x = sn_x m, po_y = sn_y m, po_vx = None, po_vy = None\<rparr>"
      using positions_get [of "gp_nodes g" "preparedNode m"] moves_id [OF m(1)] by (simp add: preparedPositions_def)
  qed simp_all
  ultimately have nodes: "map preparedNode (st_nodes ?s') = map preparedNode (st_nodes ?s)"
    unfolding s' by (auto simp: list_all2_conv_all_nth intro: nth_equalityI)
  have links: "st_links ?s' = st_links ?s" by (simp add: prepare_settled_def next_input_same settled_links [OF closed])
  have g: "g = preparedGraphFromSettledGraph (buildNetGraphData lc (pi_nodes input) (pi_routes input)) ?V
      (graphTopologySignature ?V) ?s (reuses_topology lc input)"
    unfolding g_def by (rule prepare_unfold)
  have "prepareNetGraph lc sim' (next_input g input) =
      preparedGraphFromSettledGraph (buildNetGraphData lc (pi_nodes input) (pi_routes input)) ?V (graphTopologySignature ?V) ?s' True"
    using reuse by (simp add: prepare_unfold next_input_same)
  then show ?thesis using prepared_again [OF nodes links s'(2)] g by metis
qed

theorem prepare_again_keeps_the_picture_witness:
  "gp_nodes (prepareNetGraph code_unit_compare (\<lambda>s ticks i. \<lparr>px = 0, py = 0\<rparr>)
      (next_input (prepareNetGraph code_unit_compare (\<lambda>s ticks i. \<lparr>px = real i, py = 7\<rparr>) sample_input) sample_input))
     = gp_nodes (prepareNetGraph code_unit_compare (\<lambda>s ticks i. \<lparr>px = real i, py = 7\<rparr>) sample_input)"
  unfolding prepare_again_keeps_the_picture [OF sample_trimmed] by simp

end
