(* ===== verification/Packet_Lists.thy ===== *)
theory Packet_Lists
  imports Js_Sort Carto_Strings Js_Value Carto_Samples
begin

text \<open>
  The lists of packets, messages and routes the panels show: \<open>packets.ts\<close>, \<open>lib/dedupePackets.ts\<close>, \<open>routeTools.ts\<close>,
  \<open>routeQuality.ts\<close> and \<open>lib/formatRelative.ts\<close>. The packets are those the sanitizers of \<open>api.ts\<close> produce, with all
  lists and endpoints present. \<open>num\<close> is \<open>String(x)\<close> on numbers and \<open>lc\<close> the collation of the browser.
\<close>

section \<open>Filters\<close>

record PacketFilters =
  pf_query :: string
  pf_iata :: string
  pf_payload :: string
  pf_minHops :: js_number
  pf_messageOnly :: bool

definition DEFAULT_PACKET_FILTERS :: PacketFilters where
  "DEFAULT_PACKET_FILTERS = \<lparr>pf_query = [], pf_iata = [], pf_payload = [], pf_minHops = 0, pf_messageOnly = False\<rparr>"

definition packetSearchFields :: "PublicPacketPath \<Rightarrow> string list" where
  "packetSearchFields packet = filter (\<lambda>s. s \<noteq> [])
     ([pp_id packet, or_else (pp_region packet) [], or_else (pp_iata packet) [], pp_payloadTypeName packet,
       or_else (pp_messageSender packet) [], or_else (pp_messageText packet) []] @ pp_endpointLabels packet @ pp_routeIds packet @
      concat (map (\<lambda>segment. [ep_label (sg_from segment), ep_label (sg_to segment), or_else (ep_pathHash3 (sg_from segment)) [],
        or_else (ep_pathHash3 (sg_to segment)) []]) (pp_segments packet)))"

definition packetRegion :: "PublicPacketPath \<Rightarrow> string" where
  "packetRegion packet = or_else (or_opt (pp_region packet) (pp_iata packet)) []"

definition packetMatchesFilters :: "PublicPacketPath \<Rightarrow> PacketFilters \<Rightarrow> bool" where
  "packetMatchesFilters packet filters =
     (let query = js_lower (js_trim (pf_query filters))
      in if pf_iata filters \<noteq> [] \<and> js_upper (packetRegion packet) \<noteq> js_upper (pf_iata filters) then False
         else if pf_payload filters \<noteq> [] \<and> js_upper (pp_payloadTypeName packet) \<noteq> js_upper (pf_payload filters) then False
         else if 0 < pf_minHops filters \<and> pp_hopCount packet < pf_minHops filters then False
         else if pf_messageOnly filters \<and> js_trim (or_else (pp_messageText packet) []) = [] then False
         else if query = [] then True
         else list_ex (\<lambda>field. str_includes (js_lower field) query) (packetSearchFields packet))"

definition filterPackets :: "PublicPacketPath list \<Rightarrow> PacketFilters \<Rightarrow> PublicPacketPath list" where
  "filterPackets packets filters = filter (\<lambda>packet. packetMatchesFilters packet filters) packets"

section \<open>Packets and pulses\<close>

definition packetToPulse :: "(js_number \<Rightarrow> string) \<Rightarrow> PublicPacketPath \<Rightarrow> js_number \<Rightarrow> ReplayOptions option \<Rightarrow> PublicRoutePulse" where
  "packetToPulse num packet now replayOptions =
     \<lparr>rp_id = pp_id packet @ ''-replay-'' @ num now, rp_iata = pp_iata packet, rp_region = or_opt (pp_region packet) (pp_iata packet),
      rp_payloadTypeName = pp_payloadTypeName packet, rp_messageSender = pp_messageSender packet, rp_messageText = pp_messageText packet,
      rp_messageAnchor = None, rp_heardAt = pp_at packet, rp_receivedAt = Some now, rp_displayAt = Some now, rp_seq = None,
      rp_segments = pp_segments packet, rp_replayOptions = replayOptions\<rparr>"

definition livePacketKey :: "(js_number \<Rightarrow> string) \<Rightarrow> js_number \<Rightarrow> string \<Rightarrow> string list \<Rightarrow> string" where
  "livePacketKey num heardAt payloadTypeName routeIds = num heardAt @ '':'' @ payloadTypeName @ '':'' @ join ''|'' routeIds"

definition seqOrId :: "(js_number \<Rightarrow> string) \<Rightarrow> js_number option \<Rightarrow> string \<Rightarrow> string" where
  "seqOrId num s i = (case s of None \<Rightarrow> i | Some n \<Rightarrow> num n)"

definition pulseRouteIds :: "PublicRoutePulse \<Rightarrow> string list" where
  "pulseRouteIds pulse = map sg_routeId (rp_segments pulse)"

definition livePacketOfPulse :: "(js_number \<Rightarrow> string) \<Rightarrow> PublicRoutePulse \<Rightarrow> PublicPacketPath" where
  "livePacketOfPulse num pulse =
     \<lparr>pp_id = ''live-pulse:'' @ seqOrId num (rp_seq pulse) (rp_id pulse), pp_at = rp_heardAt pulse, pp_iata = rp_iata pulse,
      pp_region = rp_region pulse, pp_payloadTypeName = rp_payloadTypeName pulse, pp_messageSender = rp_messageSender pulse,
      pp_messageText = rp_messageText pulse, pp_hopCount = real (length (rp_segments pulse)),
      pp_segmentCount = real (length (rp_segments pulse)),
      pp_distanceKm = foldl (\<lambda>t segment. t + max 0 (sg_distanceKm segment)) 0 (rp_segments pulse), pp_routeIds = pulseRouteIds pulse,
      pp_endpointLabels = filter (\<lambda>s. s \<noteq> []) (ep_label (sg_from (hd (rp_segments pulse))) # map (\<lambda>segment. ep_label (sg_to segment)) (rp_segments pulse)),
      pp_segments = rp_segments pulse\<rparr>"

definition livePacketOfActivity :: "(js_number \<Rightarrow> string) \<Rightarrow> PublicActivity \<Rightarrow> PublicPacketPath" where
  "livePacketOfActivity num item =
     \<lparr>pp_id = ''live-activity:'' @ seqOrId num (pa_seq item) (pa_id item), pp_at = pa_heardAt item, pp_iata = pa_iata item,
      pp_region = pa_region item, pp_payloadTypeName = pa_payloadTypeName item, pp_messageSender = pa_messageSender item,
      pp_messageText = pa_messageText item, pp_hopCount = max 0 (pa_hopCount item), pp_segmentCount = 0, pp_distanceKm = 0,
      pp_routeIds = or_else (pa_routeIds item) [], pp_endpointLabels = or_else (pa_endpointLabels item) [], pp_segments = []\<rparr>"

definition livePacketsFromActivity :: "(js_number \<Rightarrow> string) \<Rightarrow> PublicActivity list \<Rightarrow> PublicRoutePulse list \<Rightarrow> PublicPacketPath list" where
  "livePacketsFromActivity num activity pulses =
     (let routed = filter (\<lambda>pulse. rp_segments pulse \<noteq> []) pulses;
          pulseKeys = js_set (map (\<lambda>pulse. livePacketKey num (rp_heardAt pulse) (rp_payloadTypeName pulse) (pulseRouteIds pulse)) routed);
          others = filter (\<lambda>item. (pa_kind item = ''packet'' \<or> pa_kind item = ''route'') \<and>
            livePacketKey num (pa_heardAt item) (pa_payloadTypeName item) (or_else (pa_routeIds item) []) \<notin> set pulseKeys) activity
      in js_sort (by_desc pp_at) (map (livePacketOfPulse num) routed @ map (livePacketOfActivity num) others))"

definition packetRouteIDs :: "PublicPacketPath option \<Rightarrow> string list" where
  "packetRouteIDs packet = js_set (case packet of None \<Rightarrow> [] | Some p \<Rightarrow> pp_routeIds p)"

definition packetNodeIDs :: "PublicPacketPath option \<Rightarrow> string list" where
  "packetNodeIDs packet = js_set (filter (\<lambda>i. i \<noteq> []) (concat (map (\<lambda>segment. [ep_nodeId (sg_from segment), ep_nodeId (sg_to segment)])
     (case packet of None \<Rightarrow> [] | Some p \<Rightarrow> pp_segments p))))"

definition packetEndpointSummary :: "PublicPacketPath \<Rightarrow> string" where
  "packetEndpointSummary packet =
     (case pp_endpointLabels packet of [] \<Rightarrow> ''Unknown path'' | [label] \<Rightarrow> label
      | first # rest \<Rightarrow> first @ '' -> '' @ last rest)"

definition packetWindowForScope :: "js_number \<Rightarrow> js_number \<Rightarrow> js_number \<times> js_number" where
  "packetWindowForScope now scopeMs = (let upTo = max 0 (js_round now) in (max 0 (upTo - scopeMs), upTo))"

definition packetSignature :: "(js_number \<Rightarrow> string) \<Rightarrow> PublicPacketPath \<Rightarrow> string" where
  "packetSignature num packet = num (pp_at packet) @ '':'' @ pp_payloadTypeName packet @ '':'' @ join ''|'' (pp_routeIds packet) @ '':'' @
     join ''|'' (pp_endpointLabels packet) @ '':'' @ num (pp_segmentCount packet)"

record DedupeState =
  dd_seen :: "string list"
  dd_liveSignatures :: "string list"
  dd_output :: "PublicPacketPath list"

definition isLivePacket :: "PublicPacketPath \<Rightarrow> bool" where
  "isLivePacket packet = starts_with (pp_id packet) ''live-''"

definition packetKey :: "(js_number \<Rightarrow> string) \<Rightarrow> PublicPacketPath \<Rightarrow> string" where
  "packetKey num packet = (if isLivePacket packet then ''live:'' @ pp_id packet else ''history:'' @ packetSignature num packet)"

definition dedupeStep :: "(js_number \<Rightarrow> string) \<Rightarrow> DedupeState \<Rightarrow> PublicPacketPath \<Rightarrow> DedupeState" where
  "dedupeStep num s packet =
     (let signature = packetSignature num packet; live = isLivePacket packet; key = packetKey num packet
      in if \<not> live \<and> signature \<in> set (dd_liveSignatures s) then s
         else if key \<in> set (dd_seen s) then s
         else s\<lparr>dd_seen := set_add key (dd_seen s),
                dd_liveSignatures := (if live then set_add signature (dd_liveSignatures s) else dd_liveSignatures s),
                dd_output := dd_output s @ [packet]\<rparr>)"

definition dedupePackets :: "(js_number \<Rightarrow> string) \<Rightarrow> PublicPacketPath list \<Rightarrow> PublicPacketPath list" where
  "dedupePackets num packets = dd_output (foldl (dedupeStep num) \<lparr>dd_seen = [], dd_liveSignatures = [], dd_output = []\<rparr> packets)"

section \<open>Routes and messages\<close>

record MapPoint =
  xy_lat :: js_number
  xy_lng :: js_number

record RouteBounds =
  bo_north :: js_number
  bo_south :: js_number
  bo_east :: js_number
  bo_west :: js_number

record NodeMessageHistoryItem =
  mh_id :: string
  mh_heardAt :: js_number
  mh_sender :: string
  mh_text :: string
  mh_payloadTypeName :: string
  mh_routeLabels :: "string list"

definition boundsFromPoints :: "MapPoint \<Rightarrow> MapPoint \<Rightarrow> RouteBounds" where
  "boundsFromPoints a b =
     \<lparr>bo_north = max (xy_lat a) (xy_lat b), bo_south = min (xy_lat a) (xy_lat b), bo_east = max (xy_lng a) (xy_lng b),
      bo_west = min (xy_lng a) (xy_lng b)\<rparr>"

definition orientation :: "MapPoint \<Rightarrow> MapPoint \<Rightarrow> MapPoint \<Rightarrow> nat" where
  "orientation a b c =
     (let value = (xy_lng b - xy_lng a) * (xy_lat c - xy_lat a) - (xy_lat b - xy_lat a) * (xy_lng c - xy_lng a)
      in if \<bar>value\<bar> < 1 / 10 ^ 10 then 0 else if 0 < value then 1 else 2)"

definition segmentsIntersect :: "MapPoint \<Rightarrow> MapPoint \<Rightarrow> MapPoint \<Rightarrow> MapPoint \<Rightarrow> bool" where
  "segmentsIntersect a b c d \<longleftrightarrow> orientation a b c \<noteq> orientation a b d \<and> orientation c d a \<noteq> orientation c d b"

definition pointInBounds :: "MapPoint \<Rightarrow> RouteBounds \<Rightarrow> bool" where
  "pointInBounds point bounds \<longleftrightarrow> bo_south bounds \<le> xy_lat point \<and> xy_lat point \<le> bo_north bounds \<and>
     bo_west bounds \<le> xy_lng point \<and> xy_lng point \<le> bo_east bounds"

definition boundsCorners :: "RouteBounds \<Rightarrow> MapPoint list" where
  "boundsCorners bounds =
     [\<lparr>xy_lat = bo_south bounds, xy_lng = bo_west bounds\<rparr>, \<lparr>xy_lat = bo_south bounds, xy_lng = bo_east bounds\<rparr>,
      \<lparr>xy_lat = bo_north bounds, xy_lng = bo_east bounds\<rparr>, \<lparr>xy_lat = bo_north bounds, xy_lng = bo_west bounds\<rparr>]"

definition routeIntersectsBounds :: "PublicRoute \<Rightarrow> RouteBounds \<Rightarrow> bool" where
  "routeIntersectsBounds route bounds =
     (let a = \<lparr>xy_lat = ep_lat (rt_from route), xy_lng = ep_lng (rt_from route)\<rparr>;
          b = \<lparr>xy_lat = ep_lat (rt_to route), xy_lng = ep_lng (rt_to route)\<rparr>; corners = boundsCorners bounds
      in if pointInBounds a bounds \<or> pointInBounds b bounds then True
         else if max (xy_lat a) (xy_lat b) < bo_south bounds \<or> bo_north bounds < min (xy_lat a) (xy_lat b) then False
         else if max (xy_lng a) (xy_lng b) < bo_west bounds \<or> bo_east bounds < min (xy_lng a) (xy_lng b) then False
         else list_ex (\<lambda>index. segmentsIntersect a b (corners ! index) (corners ! ((index + 1) mod length corners))) [0..<length corners])"

definition routesInBounds :: "(string \<Rightarrow> string \<Rightarrow> js_number) \<Rightarrow> PublicRoute list \<Rightarrow> RouteBounds \<Rightarrow> PublicRoute list" where
  "routesInBounds lc routes bounds =
     js_sort (then_by (then_by (by_desc rt_packetCount) (by_desc rt_lastHeard)) (by_key lc rt_id))
       (filter (\<lambda>route. routeIntersectsBounds route bounds) routes)"

definition routeNodeIDs :: "PublicRoute list \<Rightarrow> string list" where
  "routeNodeIDs routes = js_set (concat (map (\<lambda>route. [ep_nodeId (rt_from route), ep_nodeId (rt_to route)]) routes))"

definition messageTouchesNode :: "PublicActivity \<Rightarrow> PublicNode \<Rightarrow> string list \<Rightarrow> bool" where
  "messageTouchesNode item node directRouteIDs \<longleftrightarrow>
     (case pa_messageAnchor item of None \<Rightarrow> False | Some anchor \<Rightarrow> ma_nodeId anchor = Some (pn_id node)) \<or>
     list_ex (\<lambda>routeID. routeID \<in> set directRouteIDs) (or_else (pa_routeIds item) []) \<or>
     (case pa_observerLocation item of None \<Rightarrow> False
      | Some loc \<Rightarrow> \<bar>ol_lat loc - pn_latitude node\<bar> < 1 / 10000 \<and> \<bar>ol_lng loc - pn_longitude node\<bar> < 1 / 10000)"

definition routeLabelsForActivity :: "PublicActivity \<Rightarrow> (string, PublicRoute) js_map \<Rightarrow> string list" where
  "routeLabelsForActivity item routeByID =
     take 3 (List.map_filter (\<lambda>routeID. case map_get routeByID routeID of None \<Rightarrow> None
        | Some route \<Rightarrow> Some (ep_label (rt_from route) @ '' -> '' @ ep_label (rt_to route))) (or_else (pa_routeIds item) []))"

definition messageItem :: "(string, PublicRoute) js_map \<Rightarrow> PublicActivity \<Rightarrow> NodeMessageHistoryItem" where
  "messageItem routeByID item =
     (let sender = js_trim (or_else (pa_messageSender item) []);
          label = (case pa_messageAnchor item of None \<Rightarrow> [] | Some anchor \<Rightarrow> ma_label anchor)
      in \<lparr>mh_id = pa_id item, mh_heardAt = pa_heardAt item,
          mh_sender = (if sender \<noteq> [] then sender else if label \<noteq> [] then label else ''Unknown''),
          mh_text = js_trim (or_else (pa_messageText item) []), mh_payloadTypeName = pa_payloadTypeName item,
          mh_routeLabels = routeLabelsForActivity item routeByID\<rparr>)"

definition messageHistoryForNode ::
  "PublicNode option \<Rightarrow> PublicRoute list \<Rightarrow> PublicActivity list \<Rightarrow> nat \<Rightarrow> NodeMessageHistoryItem list" where
  "messageHistoryForNode nodeOpt routes activity limit =
     (case nodeOpt of None \<Rightarrow> []
      | Some node \<Rightarrow>
          let routeByID = new_map (map (\<lambda>route. (rt_id route, route)) routes);
              directRouteIDs = js_set (map rt_id (filter (\<lambda>route. ep_nodeId (rt_from route) = pn_id node \<or> ep_nodeId (rt_to route) = pn_id node) routes))
          in take limit (js_sort (by_desc mh_heardAt) (map (messageItem routeByID)
               (filter (\<lambda>item. messageTouchesNode item node directRouteIDs)
                 (filter (\<lambda>item. js_trim (or_else (pa_messageText item) []) \<noteq> []) activity)))))"

datatype AgeBucket = FreshAge | RecentAge | StaleAge
datatype DistanceBucket = LocalDistance | RegionalDistance | LongDistance
datatype TrafficBucket = QuietTraffic | ActiveTraffic | BusyTraffic

record PublicRouteQuality =
  qy_ageBucket :: AgeBucket
  qy_distanceBucket :: DistanceBucket
  qy_trafficBucket :: TrafficBucket

definition publicRouteQuality :: "PublicRoute \<Rightarrow> js_number \<Rightarrow> PublicRouteQuality" where
  "publicRouteQuality route now =
     (let ageMs = max 0 (now - rt_lastHeard route)
      in \<lparr>qy_ageBucket = (if ageMs \<le> 10 * 60000 then FreshAge else if ageMs \<le> 2 * 60 * 60000 then RecentAge else StaleAge),
          qy_distanceBucket = (if rt_distanceKm route < 50 then LocalDistance else if rt_distanceKm route < 250 then RegionalDistance else LongDistance),
          qy_trafficBucket = (if 50 \<le> rt_packetCount route then BusyTraffic else if 10 \<le> rt_packetCount route then ActiveTraffic else QuietTraffic)\<rparr>)"

definition upper_hex6 :: "string \<Rightarrow> bool" where
  "upper_hex6 s \<longleftrightarrow> length s = 6 \<and> list_all (\<lambda>c. let n = of_char c :: nat in 48 \<le> n \<and> n \<le> 57 \<or> 65 \<le> n \<and> n \<le> 70) s"

definition routePathPrefixBucket :: "PublicRoute \<Rightarrow> string" where
  "routePathPrefixBucket route =
     (let values = filter (\<lambda>v. v \<noteq> []) (map (\<lambda>e. or_else (ep_pathHash3 e) []) [rt_from route, rt_to route])
      in if length values = 2 \<and> list_all upper_hex6 values then ''3-byte'' else if values \<noteq> [] then ''partial'' else ''unknown'')"

definition formatRelative :: "js_number \<Rightarrow> js_number \<Rightarrow> string" where
  "formatRelative timestamp now =
     (let seconds = nat (max 1 \<lfloor>(now - timestamp) / 1000\<rfloor>); minutes = seconds div 60; hours = minutes div 60; days = hours div 24
      in if seconds < 60 then show_nat seconds @ ''s ago'' else if minutes < 60 then show_nat minutes @ ''m ago''
         else if hours < 24 then show_nat hours @ ''h ago'' else show_nat days @ ''d ago'')"

section \<open>Duplicates\<close>

text \<open>
  What the loop keeps: the packets with a key not seen before, unless they are copies of a live packet that came
  earlier. \<open>kept_after seen\<close> is that list for the packets that follow.
\<close>

fun kept_after :: "(js_number \<Rightarrow> string) \<Rightarrow> string set \<Rightarrow> string set \<Rightarrow> PublicPacketPath list \<Rightarrow> PublicPacketPath list" where
  "kept_after num seen live [] = []"
| "kept_after num seen live (p # ps) =
     (if \<not> isLivePacket p \<and> packetSignature num p \<in> live \<or> packetKey num p \<in> seen then kept_after num seen live ps
      else p # kept_after num (insert (packetKey num p) seen)
             (if isLivePacket p then insert (packetSignature num p) live else live) ps)"

lemma dedupe_fold:
  "dd_output (foldl (dedupeStep num) s ps) = dd_output s @ kept_after num (set (dd_seen s)) (set (dd_liveSignatures s)) ps"
  by (induction ps arbitrary: s) (auto simp: dedupeStep_def Let_def)

lemma dedupePackets_eq: "dedupePackets num ps = kept_after num {} {} ps"
  by (simp add: dedupePackets_def dedupe_fold)

lemma kept_after_keys: "p \<in> set (kept_after num seen live ps) \<Longrightarrow> p \<in> set ps \<and> packetKey num p \<notin> seen"
  by (induction ps arbitrary: seen live) (auto split: if_splits)

lemma kept_after_distinct: "distinct (map (packetKey num) (kept_after num seen live ps))"
  by (induction ps arbitrary: seen live) (auto dest: kept_after_keys)

lemma kept_after_idem: "kept_after num seen live (kept_after num seen live ps) = kept_after num seen live ps"
  by (induction ps arbitrary: seen live) auto

lemma kept_after_covers:
  "p \<in> set ps \<Longrightarrow> packetKey num p \<in> seen \<or> packetSignature num p \<in> live \<or>
     (\<exists>q \<in> set (kept_after num seen live ps). packetKey num q = packetKey num p \<or> isLivePacket q \<and> packetSignature num q = packetSignature num p)"
proof (induction ps arbitrary: seen live)
  case (Cons x xs)
  show ?case
  proof (cases "p = x")
    case True
    then show ?thesis by auto
  next
    case False
    then have p: "p \<in> set xs" using Cons.prems by simp
    show ?thesis
    proof (cases "\<not> isLivePacket x \<and> packetSignature num x \<in> live \<or> packetKey num x \<in> seen")
      case True
      then show ?thesis using Cons.IH [OF p, of seen live] by auto
    next
      case new: False
      let ?live = "if isLivePacket x then insert (packetSignature num x) live else live"
      show ?thesis using Cons.IH [OF p, of "insert (packetKey num x) seen" ?live] new by (auto split: if_splits)
    qed
  qed
qed simp

lemma kept_after_subseq: "subseq (kept_after num seen live ps) ps"
  by (induction ps arbitrary: seen live) auto

text \<open>
  The packet lists show every packet once: what is left is in the order of the input, with no two entries of one
  key; every packet of the input has an entry with its own key, or one of the live copy of the same packet; and a
  second pass changes nothing.
\<close>

lemma dedupe_shows_each_once:
  "distinct (map (packetKey num) (dedupePackets num ps)) \<and> subseq (dedupePackets num ps) ps \<and>
   (\<forall>p \<in> set ps. \<exists>q \<in> set (dedupePackets num ps). packetKey num q = packetKey num p \<or>
      isLivePacket q \<and> packetSignature num q = packetSignature num p) \<and>
   dedupePackets num (dedupePackets num ps) = dedupePackets num ps"
  using kept_after_covers [of _ ps num "{}" "{}"]
  by (simp add: dedupePackets_eq kept_after_distinct kept_after_idem kept_after_subseq)

lemma dedupe_shows_each_once_witness:
  "dedupePackets (\<lambda>_. []) (dedupePackets (\<lambda>_. []) [livePacketOfActivity (\<lambda>_. []) (sample_activity ''a'')]) =
   dedupePackets (\<lambda>_. []) [livePacketOfActivity (\<lambda>_. []) (sample_activity ''a'')]"
  using dedupe_shows_each_once [of "\<lambda>_. []" "[livePacketOfActivity (\<lambda>_. []) (sample_activity ''a'')]"] by (elim conjE)

end
