(* ===== verification/Map_Selection.thy ===== *)
theory Map_Selection
  imports Connectivity App_State Packet_Lists
begin

text \<open>
  \<open>selection.ts\<close> and \<open>hooks/useMapSelection.ts\<close>: what is selected on the map, of which there is one thing at a time, and
  what is highlighted because of it. The text of the search is the one the debounced hook hands on. \<open>lc\<close> is the
  collation of the browser; the graph is the one memoized by the hook, so an argument.
\<close>

section \<open>State\<close>

record SelectionState =
  ss_selectedNodeID :: "string option"
  ss_selectedRouteID :: "string option"
  ss_highlightedPathTargetID :: "string option"

datatype PlotResult =
    PathPlot PublicNode PublicNode "ReachableNode option"
  | AreaPlot RouteBounds "PublicRoute list"

text \<open>The state of the hook.\<close>

record MapSelection =
  sl_selection :: SelectionState
  sl_packet :: "PublicPacketPath option"

section \<open>Operations\<close>

definition emptySelection :: SelectionState where
  "emptySelection = \<lparr>ss_selectedNodeID = None, ss_selectedRouteID = None, ss_highlightedPathTargetID = None\<rparr>"

definition selectNodeSelection :: "string \<Rightarrow> SelectionState" where
  "selectNodeSelection nodeID = \<lparr>ss_selectedNodeID = Some nodeID, ss_selectedRouteID = None, ss_highlightedPathTargetID = None\<rparr>"

definition selectRouteSelection :: "string \<Rightarrow> SelectionState" where
  "selectRouteSelection routeID = \<lparr>ss_selectedNodeID = None, ss_selectedRouteID = Some routeID, ss_highlightedPathTargetID = None\<rparr>"

definition selectPathTargetSelection :: "SelectionState \<Rightarrow> string \<Rightarrow> SelectionState" where
  "selectPathTargetSelection current targetNodeID =
     \<lparr>ss_selectedNodeID = ss_selectedNodeID current, ss_selectedRouteID = None, ss_highlightedPathTargetID = Some targetNodeID\<rparr>"

definition initialMapSelection :: "string option \<Rightarrow> string option \<Rightarrow> MapSelection" where
  "initialMapSelection initialNodeID initialRouteID =
     \<lparr>sl_selection = \<lparr>ss_selectedNodeID = initialNodeID, ss_selectedRouteID = initialRouteID, ss_highlightedPathTargetID = None\<rparr>,
      sl_packet = None\<rparr>"

definition clearResolvedSelection :: "MapSelection \<Rightarrow> MapSelection" where
  "clearResolvedSelection s = s\<lparr>sl_selection := emptySelection\<rparr>"

definition clearMapSelection :: "MapSelection \<Rightarrow> MapSelection" where
  "clearMapSelection s = clearResolvedSelection (s\<lparr>sl_packet := None\<rparr>)"

definition selectNode :: "string \<Rightarrow> MapSelection \<Rightarrow> MapSelection" where
  "selectNode nodeID s = s\<lparr>sl_packet := None, sl_selection := selectNodeSelection nodeID\<rparr>"

definition selectRoute :: "string \<Rightarrow> MapSelection \<Rightarrow> MapSelection" where
  "selectRoute routeID s = s\<lparr>sl_packet := None, sl_selection := selectRouteSelection routeID\<rparr>"

definition selectPhonebookPath :: "string \<Rightarrow> MapSelection \<Rightarrow> MapSelection" where
  "selectPhonebookPath nodeID s = s\<lparr>sl_packet := None, sl_selection := selectPathTargetSelection (sl_selection s) nodeID\<rparr>"

definition selectPacket :: "PublicPacketPath \<Rightarrow> MapSelection \<Rightarrow> MapSelection" where
  "selectPacket packet s = clearResolvedSelection (s\<lparr>sl_packet := Some packet\<rparr>)"

datatype selection_call =
    ClearSelection | ClearResolved | SelectNode string | SelectRoute string | SelectPath string | SelectPacket PublicPacketPath

fun selection_step :: "MapSelection \<Rightarrow> selection_call \<Rightarrow> MapSelection" where
  "selection_step s ClearSelection = clearMapSelection s"
| "selection_step s ClearResolved = clearResolvedSelection s"
| "selection_step s (SelectNode nodeID) = selectNode nodeID s"
| "selection_step s (SelectRoute routeID) = selectRoute routeID s"
| "selection_step s (SelectPath nodeID) = selectPhonebookPath nodeID s"
| "selection_step s (SelectPacket packet) = selectPacket packet s"

section \<open>What the hook derives\<close>

record SelectionView =
  vw_visibleNodes :: "PublicNode list"
  vw_visibleRoutes :: "PublicRoute list"
  vw_routeViewRevision :: string
  vw_selectedNode :: "PublicNode option"
  vw_selectedRoute :: "PublicRoute option"
  vw_connectivity :: DirectConnectivity
  vw_phonebook :: "PhonebookGroup list"
  vw_selectedPath :: "ReachableNode option"
  vw_pathRouteIDs :: "string list"
  vw_pathNodeIDs :: "string list"
  vw_messages :: "NodeMessageHistoryItem list"

definition plotHighlightedRouteIDs :: "PlotResult option \<Rightarrow> string list" where
  "plotHighlightedRouteIDs plotResult =
     (case plotResult of None \<Rightarrow> []
      | Some (PathPlot source target path) \<Rightarrow> js_set (case path of None \<Rightarrow> [] | Some p \<Rightarrow> rn_pathRouteIDs p)
      | Some (AreaPlot bounds routes) \<Rightarrow> js_set (map rt_id routes))"

definition plotHighlightedNodeIDs :: "PlotResult option \<Rightarrow> string list" where
  "plotHighlightedNodeIDs plotResult =
     (case plotResult of None \<Rightarrow> []
      | Some (PathPlot source target path) \<Rightarrow> js_set (case path of None \<Rightarrow> [] | Some p \<Rightarrow> rn_pathNodeIDs p)
      | Some (AreaPlot bounds routes) \<Rightarrow> routeNodeIDs routes)"

definition routeViewRevision :: "(js_number \<Rightarrow> string) \<Rightarrow> js_number \<Rightarrow> string \<Rightarrow> PublicRoute list \<Rightarrow> string" where
  "routeViewRevision num topologyRevision debouncedQuery visibleRoutes =
     (if debouncedQuery \<noteq> [] then num topologyRevision @ '':'' @ debouncedQuery @ '':'' @ join '','' (map rt_id visibleRoutes)
      else num topologyRevision)"

definition no_phonebook_filter :: PhonebookFilterOptions where
  "no_phonebook_filter = \<lparr>po_query = None, po_maxDistanceKm = None, po_sortMode = None\<rparr>"

definition useMapSelection ::
  "(string \<Rightarrow> string \<Rightarrow> js_number) \<Rightarrow> (js_number \<Rightarrow> string) \<Rightarrow> PublicNode list \<Rightarrow> PublicRoute list \<Rightarrow> PublicActivity list \<Rightarrow> js_number \<Rightarrow>
   string \<Rightarrow> ConnectivityGraph \<Rightarrow> PlotResult option \<Rightarrow> MapSelection \<Rightarrow> SelectionView" where
  "useMapSelection lc num nodes routes activity topologyRevision debouncedQuery graph plotResult s =
     (let sel = sl_selection s; visibleNodes = filterNodes nodes debouncedQuery;
          visibleRoutes = filterRoutes routes (js_set (map pn_id visibleNodes)) debouncedQuery;
          selectedNode = (case ss_selectedNodeID sel of None \<Rightarrow> None | Some i \<Rightarrow> List.find (\<lambda>node. pn_id node = i) nodes);
          groups = phonebookGroupsForNode lc graph (ss_selectedNodeID sel) no_phonebook_filter;
          path = highlightedPathForTarget groups (ss_highlightedPathTargetID sel)
      in \<lparr>vw_visibleNodes = visibleNodes, vw_visibleRoutes = visibleRoutes,
          vw_routeViewRevision = routeViewRevision num topologyRevision debouncedQuery visibleRoutes, vw_selectedNode = selectedNode,
          vw_selectedRoute = (case ss_selectedRouteID sel of None \<Rightarrow> None | Some i \<Rightarrow> List.find (\<lambda>route. rt_id route = i) routes),
          vw_connectivity = directConnectivity lc graph (ss_selectedNodeID sel), vw_phonebook = groups,
          vw_selectedPath = (case ss_highlightedPathTargetID sel of None \<Rightarrow> None
             | Some i \<Rightarrow> List.find (\<lambda>item. pn_id (rn_node item) = i) (concat (map pg_nodes groups))),
          vw_pathRouteIDs = js_set ((case path of None \<Rightarrow> [] | Some p \<Rightarrow> hp_routeIDs p) @ plotHighlightedRouteIDs plotResult @
             packetRouteIDs (sl_packet s)),
          vw_pathNodeIDs = js_set ((case path of None \<Rightarrow> [] | Some p \<Rightarrow> hp_nodeIDs p) @ plotHighlightedNodeIDs plotResult @
             packetNodeIDs (sl_packet s)),
          vw_messages = messageHistoryForNode selectedNode visibleRoutes activity 80\<rparr>)"

section \<open>One selection at a time\<close>

definition exclusive_selection :: "MapSelection \<Rightarrow> bool" where
  "exclusive_selection s \<longleftrightarrow>
     (ss_selectedRouteID (sl_selection s) = None \<or>
        ss_selectedNodeID (sl_selection s) = None \<and> ss_highlightedPathTargetID (sl_selection s) = None \<and> sl_packet s = None) \<and>
     (sl_packet s = None \<or> sl_selection s = emptySelection)"

lemmas selection_step_defs = clearMapSelection_def clearResolvedSelection_def selectNode_def selectRoute_def selectPhonebookPath_def
  selectPacket_def emptySelection_def selectNodeSelection_def selectRouteSelection_def selectPathTargetSelection_def

lemma selection_step_exclusive: "exclusive_selection (selection_step s c)" if "exclusive_selection s"
  using that by (cases c) (auto simp: exclusive_selection_def selection_step_defs)

lemma selection_run_exclusive:
  assumes "initialNodeID = None \<or> initialRouteID = None"
  shows "exclusive_selection (foldl selection_step (initialMapSelection initialNodeID initialRouteID) calls)"
proof (rule foldl_invariant [where P = exclusive_selection])
  show "exclusive_selection (initialMapSelection initialNodeID initialRouteID)"
    using assms by (auto simp: exclusive_selection_def initialMapSelection_def emptySelection_def)
qed (rule selection_step_exclusive)

end
