(* ===== verification/Lab_Waterfall.thy ===== *)
theory Lab_Waterfall
  imports Payload_Visuals Map_Geo Carto_Samples "HOL-Library.Word"
begin

unbundle bit_operations_syntax

text \<open>
  \<open>lab.ts\<close>, \<open>labWaterfall.ts\<close> and the synthesizer of \<open>components/LabPanel.tsx\<close>: the events of the lab, their metrics
  and lanes, the drops that are drawn and the voices that are played. Numbers are finite; \<open>lc\<close> is the collation of
  the browser and \<open>dots\<close> the icons of the asset pack.
\<close>

section \<open>Events\<close>

datatype LabKind = RoutedLab | ObserverLab | UnmappedLab
datatype LabSource = ActivitySource | RoutePulseSource

fun lab_kind_name :: "LabKind \<Rightarrow> string" where
  "lab_kind_name RoutedLab = ''routed''"
| "lab_kind_name ObserverLab = ''observer''"
| "lab_kind_name UnmappedLab = ''unmapped''"

fun lab_source_name :: "LabSource \<Rightarrow> string" where
  "lab_source_name ActivitySource = ''activity''"
| "lab_source_name RoutePulseSource = ''routePulse''"

record LabPoint =
  lp_lat :: js_number
  lp_lng :: js_number
  lp_label :: string

record LabEvent =
  lv_id :: string
  lv_source :: LabSource
  lv_kind :: LabKind
  lv_at :: js_number
  lv_displayAt :: js_number
  lv_payloadTypeName :: string
  lv_payloadLabel :: string
  lv_color :: string
  lv_region :: string
  lv_iata :: string
  lv_hopCount :: js_number
  lv_segmentCount :: nat
  lv_distanceKm :: js_number
  lv_routeIds :: "string list"
  lv_endpointLabels :: "string list"
  lv_points :: "LabPoint list"
  lv_messageSender :: "string option"
  lv_messageText :: "string option"

record LabPayloadMix =
  lm_payloadTypeName :: string
  lm_label :: string
  lm_color :: string
  lm_count :: nat

record LabMetrics =
  lx_eventCount :: nat
  lx_packetRatePerMinute :: js_number
  lx_routedPerMinute :: nat
  lx_observerPerMinute :: nat
  lx_unmappedPerMinute :: nat
  lx_liveEnergy :: js_number
  lx_averageHopCount :: js_number
  lx_longestDistanceKm :: js_number
  lx_activeRegionCount :: nat
  lx_activeRegions :: "string list"
  lx_payloadMix :: "LabPayloadMix list"
  lx_messageCount :: nat

record LabWaterfallLane =
  la_payloadTypeName :: string
  la_label :: string
  la_color :: string
  la_count :: nat
  la_routed :: nat
  la_observer :: nat
  la_messages :: nat
  la_energy :: js_number

definition LAB_EVENT_LIMIT :: nat where "LAB_EVENT_LIMIT = 360"
definition LAB_WINDOW_MS :: js_number where "LAB_WINDOW_MS = 60000"
definition ACTIVE_REGION_LIMIT :: nat where "ACTIVE_REGION_LIMIT = 6"
definition LAB_EXPERIMENT_PATH_PREFIX :: string where "LAB_EXPERIMENT_PATH_PREFIX = ''#/lab/''"
definition WATERFALL_LAB_PATH :: string where "WATERFALL_LAB_PATH = ''#/lab/waterfall''"

definition canonicalLabHash :: "string \<Rightarrow> string option" where
  "canonicalLabHash hash =
     (if hash = ''#/lab'' \<or> hash = WATERFALL_LAB_PATH then Some WATERFALL_LAB_PATH
      else if \<not> starts_with hash LAB_EXPERIMENT_PATH_PREFIX then None else Some WATERFALL_LAB_PATH)"

definition isLegacyLabExperimentHash :: "string \<Rightarrow> bool" where
  "isLegacyLabExperimentHash hash \<longleftrightarrow> starts_with hash LAB_EXPERIMENT_PATH_PREFIX \<and> hash \<noteq> WATERFALL_LAB_PATH"

definition safeText :: "string option \<Rightarrow> string" where
  "safeText value = js_trim (or_else value [])"

definition safeOptionalText :: "string option \<Rightarrow> string option" where
  "safeOptionalText value = (let text = safeText value in if text = [] then None else Some text)"

definition uniqueStrings :: "string list \<Rightarrow> string list" where
  "uniqueStrings values = js_set (filter (\<lambda>s. s \<noteq> []) (map (\<lambda>v. safeText (Some v)) values))"

definition first_text :: "string list \<Rightarrow> string" where
  "first_text xs = (case filter (\<lambda>x. x \<noteq> []) xs of [] \<Rightarrow> last xs | x # _ \<Rightarrow> x)"

definition endpointToPoint :: "PublicRouteEndpoint \<Rightarrow> LabPoint" where
  "endpointToPoint e =
     \<lparr>lp_lat = ep_lat e, lp_lng = ep_lng e, lp_label = safeText (Some (first_text [ep_label e, ep_nodeId e, ''node'']))\<rparr>"

definition messageAnchorToPoint :: "PublicMessageAnchor \<Rightarrow> LabPoint" where
  "messageAnchorToPoint a =
     \<lparr>lp_lat = ma_lat a, lp_lng = ma_lng a,
      lp_label = safeText (Some (first_text [ma_label a, or_else (ma_nodeId a) [], ma_kind a, ''message'']))\<rparr>"

definition observerLocationToPoint :: "PublicObserverLocation \<Rightarrow> LabPoint" where
  "observerLocationToPoint l =
     \<lparr>lp_lat = ol_lat l, lp_lng = ol_lng l,
      lp_label = safeText (Some (first_text [ol_label l, or_else (ol_iata l) [], or_else (ol_region l) [], ''observer'']))\<rparr>"

definition routePulseToLabEvent :: "(string, string) js_map \<Rightarrow> PublicRoutePulse \<Rightarrow> LabEvent" where
  "routePulseToLabEvent dots pulse =
     (let visual = payloadVisual dots (Some (rp_payloadTypeName pulse)); segments = rp_segments pulse
      in \<lparr>lv_id = rp_id pulse, lv_source = RoutePulseSource, lv_kind = RoutedLab, lv_at = rp_heardAt pulse,
          lv_displayAt = or_else (or_opt (rp_displayAt pulse) (rp_receivedAt pulse)) (rp_heardAt pulse),
          lv_payloadTypeName = normalizePayloadType (Some (rp_payloadTypeName pulse)), lv_payloadLabel = pz_label visual,
          lv_color = pz_color visual, lv_region = safeText (rp_region pulse), lv_iata = safeText (rp_iata pulse),
          lv_hopCount = max 1 (real (length segments) + 1), lv_segmentCount = length segments,
          lv_distanceKm = foldl (\<lambda>t segment. t + sg_distanceKm segment) 0 segments,
          lv_routeIds = uniqueStrings (map sg_routeId segments),
          lv_endpointLabels = uniqueStrings (concat (map (\<lambda>segment. [ep_label (sg_from segment), ep_label (sg_to segment)]) segments)),
          lv_points = concat (map (\<lambda>(index, segment). if index = 0
             then [endpointToPoint (sg_from segment), endpointToPoint (sg_to segment)] else [endpointToPoint (sg_to segment)])
             (enumerate 0 segments)),
          lv_messageSender = safeOptionalText (rp_messageSender pulse), lv_messageText = safeOptionalText (rp_messageText pulse)\<rparr>)"

definition activityToLabEvent :: "(string, string) js_map \<Rightarrow> PublicActivity \<Rightarrow> LabEvent" where
  "activityToLabEvent dots activity =
     (let visual = payloadVisual dots (Some (pa_payloadTypeName activity));
          kind = (if pa_animationState activity = AnimRoute \<or> pa_hasRoute activity then RoutedLab
            else if pa_animationState activity = AnimObserver then ObserverLab else UnmappedLab)
      in \<lparr>lv_id = pa_id activity, lv_source = ActivitySource, lv_kind = kind, lv_at = pa_heardAt activity,
          lv_displayAt = or_else (or_opt (pa_displayAt activity) (pa_receivedAt activity)) (pa_heardAt activity),
          lv_payloadTypeName = normalizePayloadType (Some (pa_payloadTypeName activity)), lv_payloadLabel = pz_label visual,
          lv_color = pz_color visual, lv_region = safeText (pa_region activity), lv_iata = safeText (pa_iata activity),
          lv_hopCount = max 0 (pa_hopCount activity), lv_segmentCount = length (or_else (pa_routeIds activity) []), lv_distanceKm = 0,
          lv_routeIds = uniqueStrings (or_else (pa_routeIds activity) []),
          lv_endpointLabels = uniqueStrings (or_else (pa_endpointLabels activity) []),
          lv_points = (case pa_messageAnchor activity of None \<Rightarrow> [] | Some a \<Rightarrow> [messageAnchorToPoint a]) @
             (case pa_observerLocation activity of None \<Rightarrow> [] | Some l \<Rightarrow> [observerLocationToPoint l]),
          lv_messageSender = safeOptionalText (pa_messageSender activity), lv_messageText = safeOptionalText (pa_messageText activity)\<rparr>)"

definition labEventKey :: "LabEvent \<Rightarrow> string" where
  "labEventKey event = lab_source_name (lv_source event) @ '':'' @ lv_id event"

definition labEventsFromState ::
  "(string \<Rightarrow> string \<Rightarrow> js_number) \<Rightarrow> (string, string) js_map \<Rightarrow> PublicActivity list \<Rightarrow> PublicRoutePulse list \<Rightarrow> nat \<Rightarrow> LabEvent list" where
  "labEventsFromState lc dots activity pulses limit =
     (let events = map (routePulseToLabEvent dots) pulses @ map (activityToLabEvent dots) activity;
          byKey = new_map (map (\<lambda>event. (labEventKey event, event)) events)
      in take (max 1 limit) (js_sort (then_by (then_by (by_desc lv_displayAt) (by_desc lv_at)) (by_key lc lv_id))
           (filter (\<lambda>event. 0 < lv_at event) (map_vals byKey))))"

section \<open>Metrics\<close>

definition recentLabEvents :: "LabEvent list \<Rightarrow> js_number \<Rightarrow> js_number \<Rightarrow> LabEvent list" where
  "recentLabEvents events now windowMs =
     (let start = now - max 5000 windowMs in filter (\<lambda>event. start \<le> lv_displayAt event \<and> lv_displayAt event \<le> now + 5000) events)"

definition payloadMixForEvents ::
  "(string \<Rightarrow> string \<Rightarrow> js_number) \<Rightarrow> (string, string) js_map \<Rightarrow> LabEvent list \<Rightarrow> nat \<Rightarrow> LabPayloadMix list" where
  "payloadMixForEvents lc dots events limit =
     (let mix = foldl (\<lambda>m event.
            let payloadTypeName = normalizePayloadType (Some (lv_payloadTypeName event)); visual = payloadVisual dots (Some payloadTypeName);
                current = or_else (map_get m payloadTypeName) \<lparr>lm_payloadTypeName = payloadTypeName, lm_label = pz_shortLabel visual,
                  lm_color = pz_color visual, lm_count = 0\<rparr>
            in map_set payloadTypeName (current\<lparr>lm_count := lm_count current + 1\<rparr>) m) [] events
      in take (max 1 limit) (js_sort (then_by (by_desc (\<lambda>x. real (lm_count x))) (by_key lc lm_payloadTypeName)) (map_vals mix)))"

definition clamp01 :: "js_number \<Rightarrow> js_number" where
  "clamp01 value = clamp value 0 1"

definition eventRegion :: "LabEvent \<Rightarrow> string" where
  "eventRegion event = (if lv_region event \<noteq> [] then lv_region event else lv_iata event)"

definition labMetrics ::
  "(string \<Rightarrow> string \<Rightarrow> js_number) \<Rightarrow> (string, string) js_map \<Rightarrow> LabEvent list \<Rightarrow> js_number \<Rightarrow> js_number \<Rightarrow> LabMetrics" where
  "labMetrics lc dots events now windowMs =
     (let recent = recentLabEvents events now windowMs;
          regions = take ACTIVE_REGION_LIMIT (js_sort lc (js_set (filter (\<lambda>r. r \<noteq> []) (map eventRegion recent))));
          hopTotal = foldl (\<lambda>t event. t + lv_hopCount event) 0 recent;
          kinds = (\<lambda>k. length (filter (\<lambda>event. lv_kind event = k) recent));
          messageCount = length (filter (\<lambda>event. lv_messageText event \<noteq> None) recent);
          density = real (length recent) / max 16 (windowMs / 3000)
      in \<lparr>lx_eventCount = length events, lx_packetRatePerMinute = js_round (real (length recent) * (60000 / max 1 windowMs)),
          lx_routedPerMinute = kinds RoutedLab, lx_observerPerMinute = kinds ObserverLab, lx_unmappedPerMinute = kinds UnmappedLab,
          lx_liveEnergy = clamp01 (density + real (kinds RoutedLab) / 42 + real (kinds ObserverLab) / 58 + real messageCount / 28),
          lx_averageHopCount = (if recent \<noteq> [] then hopTotal / real (length recent) else 0),
          lx_longestDistanceKm = foldl (\<lambda>m event. max m (lv_distanceKm event)) 0 recent,
          lx_activeRegionCount = length regions, lx_activeRegions = regions,
          lx_payloadMix = payloadMixForEvents lc dots (if recent \<noteq> [] then recent else events) 9, lx_messageCount = messageCount\<rparr>)"

definition eventIntensity :: "LabEvent \<Rightarrow> js_number" where
  "eventIntensity event = clamp01 (2 / 10 + min (34 / 100) (lv_distanceKm event / 1500) + min (22 / 100) (lv_hopCount event / 18) +
     (case lv_kind event of RoutedLab \<Rightarrow> 18 / 100 | ObserverLab \<Rightarrow> 8 / 100 | UnmappedLab \<Rightarrow> 0) +
     (if lv_messageText event \<noteq> None then 12 / 100 else 0))"

definition lab_freshness :: "js_number \<Rightarrow> js_number \<Rightarrow> js_number" where
  "lab_freshness displayedAt now = (if displayedAt \<le> 0 then 0 else clamp01 (1 - max 0 (now - displayedAt) / LAB_WINDOW_MS))"

definition laneStep :: "(string, string) js_map \<Rightarrow> js_number \<Rightarrow> (string, LabWaterfallLane) js_map \<Rightarrow> LabEvent \<Rightarrow> (string, LabWaterfallLane) js_map" where
  "laneStep dots now lanes event =
     (let payloadTypeName = normalizePayloadType (Some (lv_payloadTypeName event)); visual = payloadVisual dots (Some payloadTypeName);
          lane = or_else (map_get lanes payloadTypeName) \<lparr>la_payloadTypeName = payloadTypeName, la_label = pz_shortLabel visual,
            la_color = pz_color visual, la_count = 0, la_routed = 0, la_observer = 0, la_messages = 0, la_energy = 0\<rparr>
      in map_set payloadTypeName (lane\<lparr>la_count := la_count lane + 1,
           la_routed := (if lv_kind event = RoutedLab then la_routed lane + 1 else la_routed lane),
           la_observer := (if lv_kind event = ObserverLab then la_observer lane + 1 else la_observer lane),
           la_messages := (if lv_messageText event \<noteq> None then la_messages lane + 1 else la_messages lane),
           la_energy := la_energy lane + eventIntensity event * lab_freshness (lv_displayAt event) now\<rparr>) lanes)"

definition waterfallLanes ::
  "(string \<Rightarrow> string \<Rightarrow> js_number) \<Rightarrow> (string, string) js_map \<Rightarrow> LabEvent list \<Rightarrow> js_number \<Rightarrow> js_number \<Rightarrow> nat \<Rightarrow> LabWaterfallLane list" where
  "waterfallLanes lc dots events now windowMs limit =
     (let recent = recentLabEvents events now windowMs; lanes = foldl (laneStep dots now) [] (if recent \<noteq> [] then recent else events)
      in take (max 1 limit) (js_sort (then_by (then_by (by_desc (\<lambda>l. real (la_count l))) (by_desc la_energy)) (by_key lc la_payloadTypeName))
           (map (\<lambda>lane. lane\<lparr>la_energy := clamp01 (la_energy lane / max 1 (real (la_count lane) / 2))\<rparr>) (map_vals lanes))))"

definition filterLabEventsByPayload :: "LabEvent list \<Rightarrow> string \<Rightarrow> LabEvent list" where
  "filterLabEventsByPayload events payloadTypeName =
     (if payloadTypeName = [] \<or> payloadTypeName = ''all'' then events
      else filter (\<lambda>event. normalizePayloadType (Some (lv_payloadTypeName event)) = normalizePayloadType (Some payloadTypeName)) events)"

section \<open>Sound of an event\<close>

definition stableHash :: "string \<Rightarrow> 32 word" where
  "stableHash value = foldl (\<lambda>hash c. hash * 31 + of_nat (of_char c)) 0 value"

definition eventPitchHz :: "LabEvent \<Rightarrow> js_number" where
  "eventPitchHz event =
     (let payload = normalizePayloadType (Some (lv_payloadTypeName event));
          root = 17461 / 100 + real (unat (stableHash payload) mod 9) * (2125 / 100);
          hopLift = min 10 (max 0 (lv_hopCount event)) * 16;
          distanceLift = log 10 (max 1 (lv_distanceKm event + 1)) * 58;
          kindShift = (case lv_kind event of ObserverLab \<Rightarrow> -42 | UnmappedLab \<Rightarrow> -78 | RoutedLab \<Rightarrow> 0);
          messageLift = (if lv_messageText event \<noteq> None then 72 else 0)
      in js_round (max 72 (min 1760 (root + hopLift + distanceLift + kindShift + messageLift))))"

definition eventStereoPan :: "LabEvent \<Rightarrow> js_number" where
  "eventStereoPan event =
     (case lv_points event of p # _ \<Rightarrow> clamp ((lp_lng p + 141) / 90 - 1) (- (9 / 10)) (9 / 10)
      | [] \<Rightarrow> clamp (real (unat (stableHash (if eventRegion event \<noteq> [] then eventRegion event else ''center'')) mod 200) / 100 - 1)
          (- (75 / 100)) (75 / 100))"

section \<open>Waterfall\<close>

record WaterfallRenderBudget =
  wb_dpr :: js_number
  wb_fps :: js_number
  wb_frameMs :: js_number
  wb_maxDrops :: nat
  wb_maxAmbientStreaks :: nat
  wb_maxImpactRings :: nat
  wb_mobile :: bool

record WaterfallPreparedDrop =
  wd_key :: string
  wd_event :: LabEvent
  wd_laneIndex :: nat
  wd_seed :: "32 word"
  wd_intensity :: js_number
  wd_color :: string

datatype WaterfallSynthVoiceKind = BassVoice | PluckVoice | HatVoice

record WaterfallSynthVoice =
  wv_key :: string
  wv_kind :: WaterfallSynthVoiceKind
  wv_frequency :: js_number
  wv_pan :: js_number
  wv_gain :: js_number
  wv_duration :: js_number
  wv_offsetSeconds :: js_number

record WaterfallSynthPlan =
  wp_tempo :: js_number
  wp_secondsPerStep :: js_number
  wp_voices :: "WaterfallSynthVoice list"

definition WATERFALL_MIN_TEMPO :: js_number where "WATERFALL_MIN_TEMPO = 82"
definition WATERFALL_MAX_TEMPO :: js_number where "WATERFALL_MAX_TEMPO = 124"
definition WATERFALL_MAX_VOICES_PER_STEP :: js_number where "WATERFALL_MAX_VOICES_PER_STEP = 4"
definition WATERFALL_MAX_VOICES_PER_SECOND :: js_number where "WATERFALL_MAX_VOICES_PER_SECOND = 16"

definition PENTATONIC_MINOR_OFFSETS :: "js_number list" where
  "PENTATONIC_MINOR_OFFSETS = [0, 3, 5, 7, 10, 12, 15, 17, 19, 22]"

definition waterfallRenderBudget :: "js_number \<Rightarrow> js_number \<Rightarrow> js_number \<Rightarrow> bool \<Rightarrow> WaterfallRenderBudget" where
  "waterfallRenderBudget width height devicePixelRatio reducedMotion =
     (let mobile = (width < 720 \<or> height < 520); fps = (if reducedMotion then 12 else 30)
      in \<lparr>wb_dpr = (if reducedMotion \<or> mobile then 1 else clamp devicePixelRatio 1 (125 / 100)), wb_fps = fps, wb_frameMs = 1000 / fps,
          wb_maxDrops = (if mobile then 72 else 120), wb_maxAmbientStreaks = (if mobile then 18 else 36),
          wb_maxImpactRings = (if mobile then 4 else 8), wb_mobile = mobile\<rparr>)"

definition shouldRenderWaterfallFrame :: "js_number \<Rightarrow> js_number \<Rightarrow> WaterfallRenderBudget \<Rightarrow> bool" where
  "shouldRenderWaterfallFrame clock lastPaintClock budget \<longleftrightarrow> lastPaintClock \<le> 0 \<or> wb_frameMs budget - 1 \<le> clock - lastPaintClock"

definition waterfallAmbientCount :: "LabWaterfallLane list \<Rightarrow> js_number \<Rightarrow> WaterfallRenderBudget \<Rightarrow> js_number" where
  "waterfallAmbientCount lanes density budget =
     max 4 (min (real (wb_maxAmbientStreaks budget)) (js_round ((14 + real (length lanes) * 4) * clamp density (25 / 100) (12 / 10))))"

definition by_display :: "(string \<Rightarrow> string \<Rightarrow> js_number) \<Rightarrow> LabEvent \<Rightarrow> LabEvent \<Rightarrow> js_number" where
  "by_display lc = then_by (by_asc lv_displayAt) (by_key lc lv_id)"

definition prepareWaterfallDrops ::
  "(string \<Rightarrow> string \<Rightarrow> js_number) \<Rightarrow> LabEvent list \<Rightarrow> LabWaterfallLane list \<Rightarrow> js_number \<Rightarrow> WaterfallRenderBudget \<Rightarrow> WaterfallPreparedDrop list" where
  "prepareWaterfallDrops lc events lanes density budget =
     (let laneMap = new_map (map (\<lambda>(index, lane). (la_payloadTypeName lane, index)) (enumerate 0 lanes)); laneCount = max 1 (length lanes);
          dropLimit = max 12 (min (real (wb_maxDrops budget)) (js_round (real (wb_maxDrops budget) * clamp density (25 / 100) 1)))
      in map (\<lambda>event. \<lparr>wd_key = labEventKey event, wd_event = event,
                wd_laneIndex = or_else (map_get laneMap (lv_payloadTypeName event)) (unat (stableHash (lv_payloadTypeName event)) mod laneCount),
                wd_seed = stableHash (labEventKey event), wd_intensity = eventIntensity event,
                wd_color = (if lv_color event \<noteq> [] then lv_color event else ''#22d3ee'')\<rparr>)
           (slice_from (- dropLimit) (js_sort (by_display lc) events)))"

definition waterfallTempo :: "js_number \<Rightarrow> js_number \<Rightarrow> js_number" where
  "waterfallTempo liveEnergy rhythm =
     js_round (WATERFALL_MIN_TEMPO + (clamp liveEnergy 0 1 * (72 / 100) + clamp rhythm 0 1 * (28 / 100)) * (WATERFALL_MAX_TEMPO - WATERFALL_MIN_TEMPO))"

definition midiToHz :: "js_number \<Rightarrow> js_number" where
  "midiToHz midi = js_round (440 * 2 powr ((midi - 69) / 12))"

definition synthVoiceForEvent :: "LabEvent \<Rightarrow> nat \<Rightarrow> js_number \<Rightarrow> WaterfallSynthVoice" where
  "synthVoiceForEvent event index secondsPerStep =
     (let intensity = eventIntensity event; basePitch = eventPitchHz event;
          scaleIndex = unat (stableHash (lv_payloadTypeName event @ '':'' @ lab_kind_name (lv_kind event))) mod length PENTATONIC_MINOR_OFFSETS;
          octave = (if lv_kind event = RoutedLab then -12 else if lv_messageText event \<noteq> None then 12 else 0);
          frequency = midiToHz (50 + PENTATONIC_MINOR_OFFSETS ! scaleIndex + octave + min 12 (max 0 (lv_hopCount event)));
          baseKind = (case lv_kind event of ObserverLab \<Rightarrow> HatVoice | RoutedLab \<Rightarrow> BassVoice | UnmappedLab \<Rightarrow> PluckVoice);
          kind = (if lv_messageText event \<noteq> None then PluckVoice else baseKind)
      in \<lparr>wv_key = labEventKey event, wv_kind = kind,
          wv_frequency = (if kind = HatVoice then min 3200 (max 900 (basePitch * (22 / 10))) else frequency),
          wv_pan = eventStereoPan event, wv_gain = 25 / 1000 + intensity * (55 / 1000),
          wv_duration = (case kind of BassVoice \<Rightarrow> 42 / 100 + intensity * (22 / 100) | HatVoice \<Rightarrow> 55 / 1000 + intensity * (35 / 1000)
             | PluckVoice \<Rightarrow> 18 / 100 + intensity * (16 / 100)),
          wv_offsetSeconds = real index * secondsPerStep\<rparr>)"

text \<open>\<open>slice(-limit)\<close>: with a limit of 0 it is \<open>slice(-0)\<close>, the whole list.\<close>

definition planWaterfallSynthVoices ::
  "(string \<Rightarrow> string \<Rightarrow> js_number) \<Rightarrow> LabEvent list \<Rightarrow> js_number \<Rightarrow> js_number \<Rightarrow> js_number \<Rightarrow> WaterfallSynthPlan" where
  "planWaterfallSynthVoices lc events liveEnergy rhythm availableVoicesThisSecond =
     (let tempo = waterfallTempo liveEnergy rhythm; secondsPerStep = 60 / tempo / 2;
          limit = max 0 (min (min WATERFALL_MAX_VOICES_PER_STEP WATERFALL_MAX_VOICES_PER_SECOND) availableVoicesThisSecond)
      in \<lparr>wp_tempo = tempo, wp_secondsPerStep = secondsPerStep,
          wp_voices = map (\<lambda>(index, event). synthVoiceForEvent event index secondsPerStep)
            (enumerate 0 (slice_from (- limit) (js_sort (by_display lc) events)))\<rparr>)"

section \<open>Synthesizer\<close>

text \<open>The refs of the panel: the keys that were played, in insertion order, and the times of the voices.\<close>

record WaterfallSynth =
  sy_seen :: "string list"
  sy_voiceTimes :: "js_number list"

record SynthInput =
  si_now :: js_number
  si_running :: bool \<comment> \<open>enabled, with a running audio context\<close>
  si_events :: "LabEvent list"
  si_liveEnergy :: js_number
  si_rhythm :: js_number

definition synthEffect :: "(string \<Rightarrow> string \<Rightarrow> js_number) \<Rightarrow> WaterfallSynth \<Rightarrow> SynthInput \<Rightarrow> WaterfallSynth \<times> WaterfallSynthVoice list" where
  "synthEffect lc s input =
     (if \<not> si_running input then (s, [])
      else let now = si_now input; times = filter (\<lambda>timestamp. now - timestamp < 1000) (sy_voiceTimes s);
               available = WATERFALL_MAX_VOICES_PER_SECOND - real (length times);
               fresh = take_last 16 (js_sort (by_asc lv_displayAt)
                 (filter (\<lambda>event. now - 8000 \<le> lv_displayAt event \<and> labEventKey event \<notin> set (sy_seen s)) (si_events input)));
               voices = wp_voices (planWaterfallSynthVoices lc fresh (si_liveEnergy input) (si_rhythm input) available);
               seen = foldl (\<lambda>keys voice. set_add (wv_key voice) keys) (sy_seen s) voices
           in if available \<le> 0 then (s\<lparr>sy_voiceTimes := times\<rparr>, [])
              else (\<lparr>sy_seen = (if 900 < length seen then take_last 420 seen else seen),
                     sy_voiceTimes = times @ replicate (length voices) now\<rparr>, voices))"

definition newWaterfallSynth :: WaterfallSynth where
  "newWaterfallSynth = \<lparr>sy_seen = [], sy_voiceTimes = []\<rparr>"

text \<open>What is played, with the time of the effect that plays it.\<close>

fun synth_history ::
  "(string \<Rightarrow> string \<Rightarrow> js_number) \<Rightarrow> WaterfallSynth \<Rightarrow> SynthInput list \<Rightarrow> (js_number \<times> WaterfallSynthVoice) list" where
  "synth_history lc s [] = []"
| "synth_history lc s (input # rest) =
     (case synthEffect lc s input of (s', voices) \<Rightarrow> map (\<lambda>v. (si_now input, v)) voices @ synth_history lc s' rest)"

abbreviation in_second :: "js_number \<Rightarrow> js_number \<Rightarrow> bool" where
  "in_second t v \<equiv> t - 1000 < v \<and> v \<le> t"

lemma plan_voices_length:
  assumes "is_integer available" "0 < available"
  shows "length (wp_voices (planWaterfallSynthVoices lc events energy rhythm available)) \<le> nat \<lfloor>min 4 available\<rfloor>"
proof -
  obtain k where k: "available = of_int k" using assms(1) by (elim is_integerE)
  then have "0 < k" using assms(2) by simp
  define n where "n = min 4 (nat k)"
  have n: "0 < n" using \<open>0 < k\<close> by (simp add: n_def)
  have "max 0 (min (min WATERFALL_MAX_VOICES_PER_STEP WATERFALL_MAX_VOICES_PER_SECOND) available) = real n"
    using \<open>0 < k\<close> by (auto simp: k n_def WATERFALL_MAX_VOICES_PER_STEP_def WATERFALL_MAX_VOICES_PER_SECOND_def min_def max_def)
  moreover have "nat \<lfloor>min 4 available\<rfloor> = n" using \<open>0 < k\<close> by (auto simp: k n_def min_def)
  ultimately show ?thesis by (simp add: planWaterfallSynthVoices_def Let_def slice_from_neg n)
qed

section \<open>The number of voices in a second\<close>

lemma take_last_length: "length (take_last n xs) \<le> n"
  by (simp add: take_last_def)

definition played_in :: "js_number \<Rightarrow> js_number list \<Rightarrow> nat" where
  "played_in t ts = length (filter (in_second t) ts)"

lemma played_in_append [simp]: "played_in t (xs @ ys) = played_in t xs + played_in t ys"
  by (simp add: played_in_def)

lemma played_in_le: "played_in t ts \<le> length ts"
  by (simp add: played_in_def)

lemma played_in_later: "(\<And>v. v \<in> set ts \<Longrightarrow> t < v) \<Longrightarrow> played_in t ts = 0"
  by (force simp: played_in_def filter_empty_conv)

text \<open>What the effect keeps of the times is all that a later second can count.\<close>

lemma played_in_recent: "now \<le> t \<Longrightarrow> played_in t (filter (\<lambda>v. now - v < 1000) ts) = played_in t ts"
  by (auto simp: played_in_def filter_filter intro!: arg_cong [where f = length] filter_cong)

lemma played_in_filter: "played_in t (filter P ts) \<le> played_in t ts"
  by (induction ts) (auto simp: played_in_def)

lemma synthEffect_times:
  assumes "synthEffect lc s input = (s', voices)"
  shows "(s' = s \<and> voices = []) \<or>
    (sy_voiceTimes s' = filter (\<lambda>v. si_now input - v < 1000) (sy_voiceTimes s) @ replicate (length voices) (si_now input) \<and>
      (length voices = 0 \<or> length (sy_voiceTimes s') \<le> 16))"
proof -
  define ts where "ts = filter (\<lambda>v. si_now input - v < 1000) (sy_voiceTimes s)"
  define available where "available = WATERFALL_MAX_VOICES_PER_SECOND - real (length ts)"
  have k: "available = of_int (16 - int (length ts))" by (simp add: available_def WATERFALL_MAX_VOICES_PER_SECOND_def)
  then have "is_integer available" by (simp only: is_integer_def floor_of_int)
  then have few: "0 < available \<Longrightarrow> length (wp_voices (planWaterfallSynthVoices lc events e r available)) \<le> nat \<lfloor>min 4 available\<rfloor>" for events e r
    by (rule plan_voices_length)
  have "nat \<lfloor>min 4 available\<rfloor> \<le> 16 - length ts"
    using nat_mono [OF floor_mono [of "min 4 available" available]] by (simp only: k floor_of_int min.cobounded2 simp_thms) simp
  define played where "played = wp_voices (planWaterfallSynthVoices lc (take_last 16 (js_sort (by_asc lv_displayAt)
    (filter (\<lambda>event. si_now input - 8000 \<le> lv_displayAt event \<and> labEventKey event \<notin> set (sy_seen s)) (si_events input))))
    (si_liveEnergy input) (si_rhythm input) available)"
  have "length ts + length played \<le> 16" if "\<not> WATERFALL_MAX_VOICES_PER_SECOND \<le> real (length ts)"
  proof -
    have "length played \<le> 16 - length ts"
      unfolding played_def by (rule order_trans [OF few \<open>nat \<lfloor>min 4 available\<rfloor> \<le> 16 - length ts\<close>]) (use that in \<open>simp add: available_def\<close>)
    moreover have "length ts \<le> 16" using that by (simp add: WATERFALL_MAX_VOICES_PER_SECOND_def)
    ultimately show ?thesis by linarith
  qed
  then show ?thesis using assms
    by (auto simp: synthEffect_def Let_def simp flip: ts_def available_def played_def split: if_splits)
qed

lemma synth_history_later:
  "sorted (map si_now inputs) \<Longrightarrow> \<forall>input \<in> set inputs. now \<le> si_now input \<Longrightarrow>
     v \<in> set (map fst (synth_history lc s inputs)) \<Longrightarrow> now \<le> v"
  by (induction inputs arbitrary: s) (auto split: prod.splits)

lemma synth_history_bound:
  assumes "sorted (map si_now inputs)" "\<And>t. played_in t (sy_voiceTimes s) \<le> 16"
  shows "played_in t (sy_voiceTimes s @ map fst (synth_history lc s inputs)) \<le> 16"
  using assms
proof (induction inputs arbitrary: s)
  case Nil then show ?case by simp
next
  case (Cons input inputs)
  obtain s' voices where e: "synthEffect lc s input = (s', voices)" by fastforce
  let ?hist = "map fst (synth_history lc s' inputs)"
  have sorted: "sorted (map si_now inputs)" "\<forall>i \<in> set inputs. si_now input \<le> si_now i" using Cons.prems(1) by auto
  show ?case using synthEffect_times [OF e]
  proof (elim disjE)
    assume "s' = s \<and> voices = []"
    then show ?thesis using Cons.IH [OF sorted(1) Cons.prems(2)] e by simp
  next
    assume effect: "sy_voiceTimes s' = filter (\<lambda>v. si_now input - v < 1000) (sy_voiceTimes s) @ replicate (length voices) (si_now input) \<and>
      (length voices = 0 \<or> length (sy_voiceTimes s') \<le> 16)"
    note times = conjunct1 [OF effect] and few = conjunct2 [OF effect]
    have "played_in u (sy_voiceTimes s') \<le> 16" for u
      using few
    proof
      assume "length voices = 0"
      then show ?thesis using order_trans [OF played_in_filter Cons.prems(2)] by (simp add: times)
    next
      assume "length (sy_voiceTimes s') \<le> 16"
      then show ?thesis using played_in_le [of u "sy_voiceTimes s'"] by simp
    qed
    note IH = Cons.IH [OF sorted(1) this]
    show ?thesis
    proof (cases "si_now input \<le> t")
      case True
      then show ?thesis using IH by (simp add: e times played_in_recent comp_def map_replicate_const)
    next
      case False
      then have "played_in t (map fst (synth_history lc s (input # inputs))) = 0"
        by (intro played_in_later)
          (use synth_history_later [OF sorted, of _ lc s'] in \<open>fastforce simp: e\<close>)
      then show ?thesis using Cons.prems(2) [of t] by simp
    qed
  qed
qed


definition sample_synth_inputs :: "SynthInput list" where
  "sample_synth_inputs = map (\<lambda>(now, i). \<lparr>si_now = now, si_running = True,
     si_events = [activityToLabEvent [] (sample_activity i)], si_liveEnergy = 0, si_rhythm = 0\<rparr>) [(10000, ''a''), (10500, ''b'')]"


end
