(* ===== verification/Workspace_Navigation.thy ===== *)
theory Workspace_Navigation
  imports Lab_Waterfall
begin

text \<open>
  \<open>hooks/useWorkspaceNavigation.ts\<close>: which workspace is open, driven by the hash of the location. The state is
  \<open>Workspace\<close>: the hash, the flags of the hook and the number of \<open>hashchange\<close> events which the browser still has to
  deliver. Assigning \<open>location.hash\<close> changes the hash and queues an event, but only where the hash differs;
  \<open>history.pushState\<close> and \<open>replaceState\<close> queue none. A traversal of the history, a link or a typed address is
  \<open>browse\<close> with any hash. \<open>onWorkspaceRouteOpened\<close>, which is \<open>closeWorkspaceMenus\<close> of \<open>App.tsx\<close>, closes the four menus.
\<close>

section \<open>State\<close>

datatype PacketsPanelMode = Expanded | CompactTray
datatype WorkspacePresentation = Side | Fullscreen
datatype LabExperimentID = Waterfall

definition DEFAULT_LAB_EXPERIMENT_ID :: LabExperimentID where "DEFAULT_LAB_EXPERIMENT_ID = Waterfall"

definition labExperimentPath :: "LabExperimentID \<Rightarrow> string" where "labExperimentPath experimentID = WATERFALL_LAB_PATH"

definition labExperimentIDFromHash :: "string \<Rightarrow> LabExperimentID" where "labExperimentIDFromHash hash = DEFAULT_LAB_EXPERIMENT_ID"

record WorkspaceMenus =
  wm_palette :: bool
  wm_panels :: bool
  wm_mapSettings :: bool
  wm_mobileControls :: bool

record Workspace =
  wn_hash :: string
  wn_pending :: nat
  wn_packetsOpen :: bool
  wn_netGraphOpen :: bool
  wn_chatOpen :: bool
  wn_labOpen :: bool
  wn_labExperimentID :: LabExperimentID
  wn_setupOpen :: bool
  wn_nodeListOpen :: bool
  wn_packetsPanelMode :: PacketsPanelMode
  wn_presentation :: WorkspacePresentation
  wn_menus :: WorkspaceMenus

section \<open>The location\<close>

definition assignHash :: "string \<Rightarrow> Workspace \<Rightarrow> Workspace" where
  "assignHash hash w = (if wn_hash w = hash then w else w\<lparr>wn_hash := hash, wn_pending := wn_pending w + 1\<rparr>)"

definition pushNoHash :: "Workspace \<Rightarrow> Workspace" where
  "pushNoHash w = w\<lparr>wn_hash := []\<rparr>"

definition clearHashRoute :: "string \<Rightarrow> Workspace \<Rightarrow> Workspace" where
  "clearHashRoute hash w = (if wn_hash w \<noteq> hash then w else pushNoHash w)"

definition isLabRoute :: "string \<Rightarrow> bool" where
  "isLabRoute hash \<longleftrightarrow> hash = ''#/lab'' \<or> starts_with hash ''#/lab/''"

section \<open>The hook\<close>

definition closeWorkspaceMenus :: "Workspace \<Rightarrow> Workspace" where
  "closeWorkspaceMenus w =
     w\<lparr>wn_menus := \<lparr>wm_palette = False, wm_panels = False, wm_mapSettings = False, wm_mobileControls = False\<rparr>\<rparr>"

text \<open>The hash after \<open>#/perf\<close> has been dropped and a lab route has got its canonical form.\<close>

definition routed_hash :: "string \<Rightarrow> string" where
  "routed_hash hash =
     (let hash = (if hash = ''#/perf'' then [] else hash)
      in case canonicalLabHash hash of Some canonical \<Rightarrow> canonical | None \<Rightarrow> hash)"

definition updateRoute :: "Workspace \<Rightarrow> Workspace" where
  "updateRoute w =
     (let hash = routed_hash (wn_hash w);
          nextPacketsOpen = (hash = ''#/packets''); nextNetGraphOpen = (hash = ''#/netgraph''); nextChatOpen = (hash = ''#/chat'');
          nextLabOpen = isLabRoute hash; nextSetupOpen = (hash = ''#/setup''); nextNodeListOpen = (hash = ''#/nodes'');
          w1 = w\<lparr>wn_hash := hash,
                 wn_packetsOpen := nextPacketsOpen, wn_netGraphOpen := nextNetGraphOpen, wn_chatOpen := nextChatOpen,
                 wn_labOpen := nextLabOpen,
                 wn_labExperimentID := (if nextLabOpen then labExperimentIDFromHash hash else DEFAULT_LAB_EXPERIMENT_ID),
                 wn_setupOpen := nextSetupOpen, wn_nodeListOpen := nextNodeListOpen,
                 wn_presentation := (if nextLabOpen \<or> nextNodeListOpen then Fullscreen
                                     else if nextPacketsOpen \<or> nextChatOpen then Side else wn_presentation w)\<rparr>;
          w2 = (if nextPacketsOpen \<or> nextNetGraphOpen \<or> nextChatOpen \<or> nextLabOpen \<or> nextSetupOpen \<or> nextNodeListOpen
                then closeWorkspaceMenus w1 else w1)
      in if nextPacketsOpen then w2\<lparr>wn_packetsPanelMode := Expanded\<rparr> else w2)"

definition mountWorkspace :: "string \<Rightarrow> Workspace" where
  "mountWorkspace hash =
     updateRoute
       \<lparr>wn_hash = hash, wn_pending = 0, wn_packetsOpen = (hash = ''#/packets''), wn_netGraphOpen = (hash = ''#/netgraph''),
        wn_chatOpen = (hash = ''#/chat''), wn_labOpen = isLabRoute hash,
        wn_labExperimentID = (if isLabRoute hash then labExperimentIDFromHash hash else DEFAULT_LAB_EXPERIMENT_ID),
        wn_setupOpen = (hash = ''#/setup''), wn_nodeListOpen = (hash = ''#/nodes''), wn_packetsPanelMode = Expanded,
        wn_presentation = Side,
        wn_menus = \<lparr>wm_palette = False, wm_panels = False, wm_mapSettings = False, wm_mobileControls = False\<rparr>\<rparr>"

definition hashChanged :: "Workspace \<Rightarrow> Workspace" where
  "hashChanged w = (if wn_pending w = 0 then w else updateRoute (w\<lparr>wn_pending := wn_pending w - 1\<rparr>))"

definition closePackets :: "Workspace \<Rightarrow> Workspace" where
  "closePackets w = (clearHashRoute ''#/packets'' w)\<lparr>wn_packetsOpen := False, wn_packetsPanelMode := Expanded\<rparr>"

definition closeNetGraph :: "Workspace \<Rightarrow> Workspace" where
  "closeNetGraph w = (clearHashRoute ''#/netgraph'' w)\<lparr>wn_netGraphOpen := False\<rparr>"

definition closeChat :: "Workspace \<Rightarrow> Workspace" where
  "closeChat w = (clearHashRoute ''#/chat'' w)\<lparr>wn_chatOpen := False\<rparr>"

definition closeLab :: "Workspace \<Rightarrow> Workspace" where
  "closeLab w =
     (if isLabRoute (wn_hash w) then pushNoHash w else w)\<lparr>wn_labOpen := False, wn_labExperimentID := DEFAULT_LAB_EXPERIMENT_ID\<rparr>"

definition closeSetup :: "Workspace \<Rightarrow> Workspace" where
  "closeSetup w = (clearHashRoute ''#/setup'' w)\<lparr>wn_setupOpen := False\<rparr>"

definition closeNodeList :: "Workspace \<Rightarrow> Workspace" where
  "closeNodeList w = (clearHashRoute ''#/nodes'' w)\<lparr>wn_nodeListOpen := False\<rparr>"

definition closeAllWorkspaceSurfaces :: "Workspace \<Rightarrow> Workspace" where
  "closeAllWorkspaceSurfaces w =
     (if wn_hash w = [] then w else pushNoHash w)
       \<lparr>wn_packetsOpen := False, wn_netGraphOpen := False, wn_chatOpen := False, wn_labOpen := False, wn_setupOpen := False,
        wn_nodeListOpen := False, wn_packetsPanelMode := Expanded\<rparr>"

definition openPackets :: "Workspace \<Rightarrow> Workspace" where "openPackets = assignHash ''#/packets''"
definition openChat :: "Workspace \<Rightarrow> Workspace" where "openChat = assignHash ''#/chat''"
definition openNodeList :: "Workspace \<Rightarrow> Workspace" where "openNodeList = assignHash ''#/nodes''"

definition selectLabExperiment :: "LabExperimentID \<Rightarrow> Workspace \<Rightarrow> Workspace" where
  "selectLabExperiment experimentID = assignHash (labExperimentPath experimentID)"

section \<open>The page uses the hook\<close>

text \<open>
  What the callbacks of \<open>App.tsx\<close> do to the workspace: \<open>focusPacketPath\<close> closes the packets and clears their hash,
  \<open>replayPacketPath\<close> leaves them open as a tray without a hash, the two callbacks of a propagation event close them and
  leave the hash alone.
\<close>

definition focusPacketNavigation :: "Workspace \<Rightarrow> Workspace" where
  "focusPacketNavigation w =
     clearHashRoute ''#/packets'' (w\<lparr>wn_packetsOpen := False, wn_packetsPanelMode := Expanded\<rparr>)"

definition replayPacketNavigation :: "Workspace \<Rightarrow> Workspace" where
  "replayPacketNavigation w =
     clearHashRoute ''#/packets'' (w\<lparr>wn_packetsOpen := True, wn_packetsPanelMode := CompactTray\<rparr>)"

definition propagationNavigation :: "Workspace \<Rightarrow> Workspace" where
  "propagationNavigation w = w\<lparr>wn_packetsOpen := False, wn_packetsPanelMode := Expanded\<rparr>"

datatype navigation_event =
    HashChanged
  | Browse string
  | OpenPackets | OpenChat | OpenNodeList | SelectLab LabExperimentID
  | ClosePackets | CloseNetGraph | CloseChat | CloseLab | CloseSetup | CloseNodeList | CloseAll
  | FocusPacket | ReplayPacket | FocusPropagation
  | SetMenus WorkspaceMenus
  | SetPresentation WorkspacePresentation
  | SetPacketsMode PacketsPanelMode

fun navigation_step :: "Workspace \<Rightarrow> navigation_event \<Rightarrow> Workspace" where
  "navigation_step w HashChanged = hashChanged w"
| "navigation_step w (Browse hash) = assignHash hash w"
| "navigation_step w OpenPackets = openPackets w"
| "navigation_step w OpenChat = openChat w"
| "navigation_step w OpenNodeList = openNodeList w"
| "navigation_step w (SelectLab experimentID) = selectLabExperiment experimentID w"
| "navigation_step w ClosePackets = closePackets w"
| "navigation_step w CloseNetGraph = closeNetGraph w"
| "navigation_step w CloseChat = closeChat w"
| "navigation_step w CloseLab = closeLab w"
| "navigation_step w CloseSetup = closeSetup w"
| "navigation_step w CloseNodeList = closeNodeList w"
| "navigation_step w CloseAll = closeAllWorkspaceSurfaces w"
| "navigation_step w FocusPacket = focusPacketNavigation w"
| "navigation_step w ReplayPacket = replayPacketNavigation w"
| "navigation_step w FocusPropagation = propagationNavigation w"
| "navigation_step w (SetMenus menus) = w\<lparr>wn_menus := menus\<rparr>"
| "navigation_step w (SetPresentation presentation) = w\<lparr>wn_presentation := presentation\<rparr>"
| "navigation_step w (SetPacketsMode mode) = w\<lparr>wn_packetsPanelMode := mode\<rparr>"

section \<open>The open workspace is the one of the hash\<close>

text \<open>
  What the hash says is what is open. The packets may also be open without a hash (the tray of a replay), and after a
  propagation event they may be closed with one; all other flags follow the hash exactly.
\<close>

definition follows_hash :: "Workspace \<Rightarrow> bool" where
  "follows_hash w \<longleftrightarrow>
     wn_netGraphOpen w = (wn_hash w = ''#/netgraph'') \<and> wn_chatOpen w = (wn_hash w = ''#/chat'')
     \<and> wn_labOpen w = (wn_hash w = WATERFALL_LAB_PATH) \<and> wn_setupOpen w = (wn_hash w = ''#/setup'')
     \<and> wn_nodeListOpen w = (wn_hash w = ''#/nodes'') \<and> (isLabRoute (wn_hash w) \<longrightarrow> wn_hash w = WATERFALL_LAB_PATH)"

lemma option_choice: "S b \<Longrightarrow> h = a \<or> S h \<longleftrightarrow> (if h = a \<or> h = b then Some b else if \<not> S h then None else Some b) \<noteq> None"
  by auto

lemma lab_route_canonical: "isLabRoute hash \<longleftrightarrow> canonicalLabHash hash \<noteq> None"
  unfolding isLabRoute_def canonicalLabHash_def LAB_EXPERIMENT_PATH_PREFIX_def
  by (rule option_choice) (simp add: WATERFALL_LAB_PATH_def)

lemma option_only: "(if p then Some b else if q then None else Some b) = Some x \<Longrightarrow> x = b"
  by (simp split: if_split_asm)

lemma canonical_is_path: "canonicalLabHash hash = Some path \<Longrightarrow> path = WATERFALL_LAB_PATH"
  unfolding canonicalLabHash_def by (drule option_only) simp

lemma lab_path_is_route: "isLabRoute WATERFALL_LAB_PATH"
  by (simp add: isLabRoute_def WATERFALL_LAB_PATH_def)

lemma other_routes [simp]:
  "\<not> isLabRoute []" "\<not> isLabRoute ''#/packets''" "\<not> isLabRoute ''#/netgraph''" "\<not> isLabRoute ''#/chat''"
  "\<not> isLabRoute ''#/setup''" "\<not> isLabRoute ''#/nodes''"
  by (simp_all add: isLabRoute_def)

lemma routed_lab: "isLabRoute (routed_hash hash) \<longleftrightarrow> routed_hash hash = WATERFALL_LAB_PATH"
proof
  assume lab: "isLabRoute (routed_hash hash)"
  obtain h where h: "routed_hash hash = (case canonicalLabHash h of Some path \<Rightarrow> path | None \<Rightarrow> h)"
    unfolding routed_hash_def Let_def by blast
  show "routed_hash hash = WATERFALL_LAB_PATH"
  proof (cases "canonicalLabHash h")
    case None
    with h lab have "isLabRoute h" by simp
    with None show ?thesis unfolding lab_route_canonical by (rule notE [rotated])
  next
    case (Some path)
    with h show ?thesis by (simp add: canonical_is_path)
  qed
qed (simp add: lab_path_is_route)

lemma lab_path_distinct [simp]:
  "WATERFALL_LAB_PATH \<noteq> []" "WATERFALL_LAB_PATH \<noteq> ''#/packets''" "WATERFALL_LAB_PATH \<noteq> ''#/netgraph''"
  "WATERFALL_LAB_PATH \<noteq> ''#/chat''" "WATERFALL_LAB_PATH \<noteq> ''#/setup''" "WATERFALL_LAB_PATH \<noteq> ''#/nodes''"
  by (simp_all add: WATERFALL_LAB_PATH_def)

lemmas lab_path_distinct_sym [simp] = lab_path_distinct [symmetric]

lemma update_follows: "follows_hash (updateRoute w)"
  using routed_lab [of "wn_hash w"]
  by (simp add: updateRoute_def closeWorkspaceMenus_def follows_hash_def Let_def)

lemma update_packets: "wn_packetsOpen (updateRoute w) = (wn_hash (updateRoute w) = ''#/packets'')"
  by (simp add: updateRoute_def closeWorkspaceMenus_def Let_def)

lemma update_pending [simp]: "wn_pending (updateRoute w) = wn_pending w"
  by (simp add: updateRoute_def closeWorkspaceMenus_def Let_def)

text \<open>When no event is outstanding, the flags follow the hash; unless a propagation event was shown, so do the packets.\<close>

definition navigation_ok :: "Workspace \<Rightarrow> bool" where
  "navigation_ok w \<longleftrightarrow> wn_pending w = 0 \<longrightarrow> follows_hash w"

definition packets_reachable :: "Workspace \<Rightarrow> bool" where
  "packets_reachable w \<longleftrightarrow> wn_pending w = 0 \<longrightarrow> wn_hash w = ''#/packets'' \<longrightarrow> wn_packetsOpen w"

lemma follows_keep:
  "follows_hash w \<Longrightarrow> wn_hash w' = wn_hash w \<Longrightarrow> wn_netGraphOpen w' = wn_netGraphOpen w \<Longrightarrow> wn_chatOpen w' = wn_chatOpen w \<Longrightarrow>
     wn_labOpen w' = wn_labOpen w \<Longrightarrow> wn_setupOpen w' = wn_setupOpen w \<Longrightarrow> wn_nodeListOpen w' = wn_nodeListOpen w \<Longrightarrow> follows_hash w'"
  by (simp add: follows_hash_def)

lemmas navigation_closes =
  closePackets_def closeNetGraph_def closeChat_def closeLab_def closeSetup_def closeNodeList_def closeAllWorkspaceSurfaces_def
  focusPacketNavigation_def replayPacketNavigation_def propagationNavigation_def clearHashRoute_def pushNoHash_def

lemmas navigation_opens = assignHash_def openPackets_def openChat_def openNodeList_def selectLabExperiment_def

lemma navigation_ok_step: "navigation_ok w \<Longrightarrow> navigation_ok (navigation_step w e)"
proof (cases e)
  case HashChanged
  assume "navigation_ok w"
  then show ?thesis by (simp add: HashChanged navigation_ok_def hashChanged_def update_follows)
next
  case CloseLab
  assume "navigation_ok w"
  then show ?thesis by (auto simp: CloseLab navigation_ok_def follows_hash_def closeLab_def pushNoHash_def lab_path_is_route)
qed (auto simp: navigation_ok_def follows_hash_def navigation_closes navigation_opens)

lemma packets_reachable_step: "e \<noteq> FocusPropagation \<Longrightarrow> packets_reachable w \<Longrightarrow> packets_reachable (navigation_step w e)"
proof (cases e)
  case (SelectLab experimentID)
  then show "packets_reachable w \<Longrightarrow> ?thesis" by (auto simp: packets_reachable_def navigation_opens)
qed (auto simp: packets_reachable_def hashChanged_def update_packets navigation_closes navigation_opens)

lemma navigation_run:
  "navigation_ok (foldl navigation_step (mountWorkspace hash) events)"
  "FocusPropagation \<notin> set events \<Longrightarrow> packets_reachable (foldl navigation_step (mountWorkspace hash) events)"
proof -
  show "navigation_ok (foldl navigation_step (mountWorkspace hash) events)"
    by (rule foldl_invariant) (simp_all add: navigation_ok_step, simp add: navigation_ok_def mountWorkspace_def update_follows)
next
  assume no: "FocusPropagation \<notin> set events"
  show "packets_reachable (foldl navigation_step (mountWorkspace hash) events)"
  proof (rule foldl_invariant)
    show "packets_reachable (mountWorkspace hash)" by (simp add: packets_reachable_def mountWorkspace_def update_packets)
  next
    fix a x
    assume "packets_reachable a" and "x \<in> set events"
    with no show "packets_reachable (navigation_step a x)" by (intro packets_reachable_step) blast+
  qed
qed


text \<open>The packets, an old lab route, and the node list, which is closed again.\<close>

definition sample_navigation :: "navigation_event list" where
  "sample_navigation = [OpenPackets, HashChanged, ReplayPacket, Browse ''#/lab/dj'', HashChanged, OpenNodeList, HashChanged, CloseNodeList]"

lemmas navigation_eval =
  mountWorkspace_def updateRoute_def routed_hash_def closeWorkspaceMenus_def hashChanged_def canonicalLabHash_def
  LAB_EXPERIMENT_PATH_PREFIX_def WATERFALL_LAB_PATH_def isLabRoute_def labExperimentIDFromHash_def Let_def
  navigation_closes navigation_opens


section \<open>The packets after a propagation event\<close>

lemma update_keeps_packets: "wn_hash w = ''#/packets'' \<Longrightarrow> wn_hash (updateRoute w) = ''#/packets''"
  by (simp add: updateRoute_def closeWorkspaceMenus_def routed_hash_def canonicalLabHash_def LAB_EXPERIMENT_PATH_PREFIX_def
      WATERFALL_LAB_PATH_def Let_def)

lemma packets_open: "packets_reachable w \<Longrightarrow> wn_pending w = 0 \<Longrightarrow> wn_packetsOpen (hashChanged (openPackets w))"
  by (simp add: packets_reachable_def hashChanged_def navigation_opens update_packets update_keeps_packets)

text \<open>
  C34. After a propagation event is shown (or replayed) while the packets are open, their hash stays without the panel, and
  then their buttons are dead: assigning the hash which the location already has delivers no event, so however often the
  packets are opened they stay closed.
\<close>

theorem packets_stay_closed_after_propagation:
  assumes "wn_hash w = ''#/packets''" and "wn_pending w = 0"
    and "set events \<subseteq> {OpenPackets, HashChanged, FocusPropagation}"
  shows "\<not> wn_packetsOpen (foldl navigation_step (propagationNavigation w) events)"
proof -
  define stuck where "stuck w \<longleftrightarrow> wn_hash w = ''#/packets'' \<and> wn_pending w = 0 \<and> \<not> wn_packetsOpen w" for w :: Workspace
  have "stuck (foldl navigation_step (propagationNavigation w) events)"
  proof (rule foldl_invariant)
    show "stuck (propagationNavigation w)" using assms by (simp add: stuck_def propagationNavigation_def)
  next
    fix a e
    assume "stuck a" and "e \<in> set events"
    with assms(3) show "stuck (navigation_step a e)"
      by (auto simp: stuck_def navigation_opens hashChanged_def propagationNavigation_def)
  qed
  then show ?thesis by (simp add: stuck_def)
qed

text \<open>The page opens with the packets; an event is shown; the button is pressed twice.\<close>

theorem packets_stay_closed_after_propagation_witness:
  "wn_packetsOpen (mountWorkspace ''#/packets'')
   \<and> \<not> wn_packetsOpen (foldl navigation_step (propagationNavigation (mountWorkspace ''#/packets'')) [OpenPackets, HashChanged, OpenPackets])"
proof -
  have "wn_hash (mountWorkspace ''#/packets'') = ''#/packets''" "wn_pending (mountWorkspace ''#/packets'') = 0"
    "wn_packetsOpen (mountWorkspace ''#/packets'')"
    by (simp_all add: navigation_eval)
  then show ?thesis
    using packets_stay_closed_after_propagation [of "mountWorkspace ''#/packets''" "[OpenPackets, HashChanged, OpenPackets]"] by simp
qed

end
