(* ===== verification/Route_Gif.thy ===== *)
theory Route_Gif
  imports Packet_Lists Js_Format Map_Geo Carto_Samples
begin

text \<open>
  The parts of \<open>src/web/src/routeGifExport.ts\<close> which do not draw: the points and hops of a route, the progress of a frame,
  and \<open>createRouteMapGifBlob\<close>, whose loop captures the frames one by one. Capturing a frame is the argument \<open>capture\<close>,
  which answers the size of the image or \<open>None\<close> when it throws; the encoder is a list of the frames written. The lemmas
  show that the frames run from the start to the end of the route without going back, and what the callback of the
  progress hears.
\<close>

definition ROUTE_GIF_WIDTH :: js_number where "ROUTE_GIF_WIDTH = 960"
definition ROUTE_GIF_HEIGHT :: js_number where "ROUTE_GIF_HEIGHT = 540"
definition ROUTE_GIF_FRAMES :: js_number where "ROUTE_GIF_FRAMES = 60"
definition ROUTE_GIF_FPS :: js_number where "ROUTE_GIF_FPS = 12"

section \<open>Points and hops\<close>

record RouteGifPoint =
  gp_lat :: js_number
  gp_lng :: js_number
  gp_label :: string
  gp_nodeId :: string

record RouteGifHopDetail =
  hd_index :: nat
  hd_from :: string
  hd_to :: string
  hd_distance :: string

definition endpoint_name :: "PublicRouteEndpoint \<Rightarrow> string" where
  "endpoint_name e =
     (if ep_label e \<noteq> [] then ep_label e
      else if or_else (ep_pathHash3 e) [] \<noteq> [] then or_else (ep_pathHash3 e) [] else ''Node'')"

definition sameEndpoint :: "RouteGifPoint \<Rightarrow> PublicRouteEndpoint \<Rightarrow> bool" where
  "sameEndpoint left right \<longleftrightarrow>
     gp_nodeId left \<noteq> [] \<and> ep_nodeId right \<noteq> [] \<and> gp_nodeId left = ep_nodeId right
     \<or> \<bar>gp_lat left - ep_lat right\<bar> < 1 / 1000000 \<and> \<bar>gp_lng left - ep_lng right\<bar> < 1 / 1000000"

definition appendEndpoint :: "RouteGifPoint list \<Rightarrow> PublicRouteEndpoint \<Rightarrow> RouteGifPoint list" where
  "appendEndpoint points endpoint =
     (if points \<noteq> [] \<and> sameEndpoint (last points) endpoint then points
      else points @ [\<lparr>gp_lat = ep_lat endpoint, gp_lng = ep_lng endpoint, gp_label = endpoint_name endpoint,
                      gp_nodeId = ep_nodeId endpoint\<rparr>])"

definition routeGifRoutePoints :: "PublicRouteSegment list \<Rightarrow> RouteGifPoint list" where
  "routeGifRoutePoints segments =
     foldl (\<lambda>points segment. appendEndpoint (appendEndpoint points (sg_from segment)) (sg_to segment)) [] segments"

definition distance_text :: "js_number \<Rightarrow> string" where
  "distance_text distanceKm = to_fixed (if 100 \<le> distanceKm then 0 else 1) distanceKm @ '' km''"

definition routeGifHopDetails :: "PublicRouteSegment list \<Rightarrow> RouteGifHopDetail list" where
  "routeGifHopDetails segments =
     map (\<lambda>(index, segment).
       \<lparr>hd_index = index + 1, hd_from = endpoint_name (sg_from segment), hd_to = endpoint_name (sg_to segment),
        hd_distance = distance_text (sg_distanceKm segment)\<rparr>) (zip [0..<length segments] segments)"

definition truncateText :: "string \<Rightarrow> nat \<Rightarrow> string" where
  "truncateText text limit = (if length text \<le> limit then text else take (limit - 3) text @ ''...'')"

section \<open>The frames\<close>

definition routeGifFrameProgress :: "js_number \<Rightarrow> js_number \<Rightarrow> js_number" where
  "routeGifFrameProgress frameIndex frameCount =
     (if frameCount \<le> 1 then 1
      else let raw = (frameIndex - 2) / max 1 (frameCount - 2 - 3 - 1);
               clamped = clamp raw 0 1
           in clamped * clamped * (3 - 2 * clamped))"

definition routeGifAnimationDurationMs :: "js_number \<Rightarrow> js_number \<Rightarrow> js_number" where
  "routeGifAnimationDurationMs frames fps = js_round (max 1 (frames - 1) * 1000 / max 1 fps)"

record RouteGifExportOptions =
  go_width :: "js_number option"
  go_height :: "js_number option"
  go_frames :: "js_number option"
  go_fps :: "js_number option"

definition gif_width :: "RouteGifExportOptions \<Rightarrow> js_number" where
  "gif_width options = max 2 (min ROUTE_GIF_WIDTH (js_round (or_else (go_width options) ROUTE_GIF_WIDTH)))"

definition gif_height :: "RouteGifExportOptions \<Rightarrow> js_number" where
  "gif_height options = max 2 (min ROUTE_GIF_HEIGHT (js_round (or_else (go_height options) ROUTE_GIF_HEIGHT)))"

definition gif_frames :: "RouteGifExportOptions \<Rightarrow> js_number" where
  "gif_frames options = max 2 (min ROUTE_GIF_FRAMES (js_round (or_else (go_frames options) ROUTE_GIF_FRAMES)))"

definition gif_fps :: "RouteGifExportOptions \<Rightarrow> js_number" where
  "gif_fps options = max 1 (min ROUTE_GIF_FPS (js_round (or_else (go_fps options) ROUTE_GIF_FPS)))"

record RouteGifFrame =
  gf_index :: nat
  gf_progress :: js_number
  gf_width :: js_number
  gf_height :: js_number
  gf_delay :: js_number

datatype gif_error = TooFewPoints | CaptureFailed | WrongFrameSize

text \<open>The loop from frame \<open>i\<close>: what has been written, and what \<open>onProgress\<close> has heard.\<close>

function gif_loop ::
  "(nat \<Rightarrow> js_number \<Rightarrow> (js_number \<times> js_number) option) \<Rightarrow> RouteGifExportOptions \<Rightarrow> nat \<Rightarrow> RouteGifFrame list \<Rightarrow> js_number list
     \<Rightarrow> (gif_error + RouteGifFrame list) \<times> js_number list" where
  "gif_loop capture options i written heard =
     (if \<not> real i < gif_frames options then (Inr written, heard)
      else let progress = routeGifFrameProgress (real i) (gif_frames options)
           in case capture i progress of
                None \<Rightarrow> (Inl CaptureFailed, heard)
              | Some (w, h) \<Rightarrow>
                  if w \<noteq> gif_width options \<or> h \<noteq> gif_height options then (Inl WrongFrameSize, heard)
                  else gif_loop capture options (i + 1)
                         (written @ [\<lparr>gf_index = i, gf_progress = progress, gf_width = w, gf_height = h,
                                      gf_delay = js_round (1000 / gif_fps options)\<rparr>])
                         (heard @ [real (i + 1) / gif_frames options]))"
  by pat_completeness auto

termination
proof (relation "measure (\<lambda>(capture, options, i, written, heard). nat \<lceil>gif_frames options\<rceil> - i)")
  fix capture options i written heard progress and p :: "js_number \<times> js_number" and w h
  assume "\<not> \<not> real i < gif_frames options"
  then have "i < nat \<lceil>gif_frames options\<rceil>" by linarith
  then show "((capture, options, i + 1, written @ [\<lparr>gf_index = i, gf_progress = progress, gf_width = w, gf_height = h,
      gf_delay = js_round (1000 / gif_fps options)\<rparr>], heard @ [real (i + 1) / gif_frames options]),
     (capture, options, i, written, heard)) \<in> measure (\<lambda>(capture, options, i, written, heard). nat \<lceil>gif_frames options\<rceil> - i)"
    by simp
qed simp

declare gif_loop.simps [simp del]

definition createRouteMapGifBlob ::
  "PublicRouteSegment list \<Rightarrow> (nat \<Rightarrow> js_number \<Rightarrow> (js_number \<times> js_number) option) \<Rightarrow> RouteGifExportOptions
     \<Rightarrow> (gif_error + RouteGifFrame list) \<times> js_number list" where
  "createRouteMapGifBlob segments capture options =
     (if length (routeGifRoutePoints segments) < 2 then (Inl TooFewPoints, []) else gif_loop capture options 0 [] [])"

section \<open>The film runs forward\<close>

lemma smooth_step_mono: "0 \<le> x \<Longrightarrow> x \<le> y \<Longrightarrow> y \<le> 1 \<Longrightarrow> x * x * (3 - 2 * x) \<le> y * y * (3 - 2 * (y::real))"
proof -
  assume xy: "0 \<le> x" "x \<le> y" "y \<le> 1"
  have "y * y * (3 - 2 * y) - x * x * (3 - 2 * x) = (y - x) * (3 * (x + y) - 2 * (x * x + x * y + y * y))"
    by (simp add: algebra_simps)
  moreover have "0 \<le> x * (1 - x)" "0 \<le> y * (1 - y)" "0 \<le> x * (1 - y)" "0 \<le> y * (1 - x)" using xy by simp_all
  then have "0 \<le> 3 * (x + y) - 2 * (x * x + x * y + y * y)" using xy by (simp add: algebra_simps)
  ultimately show ?thesis using xy by (metis diff_ge_0_iff_ge zero_le_mult_iff)
qed

lemma clamp_unit: "0 \<le> clamp x 0 1" "clamp x 0 1 \<le> 1" "x \<le> y \<Longrightarrow> clamp x 0 1 \<le> clamp y 0 1"
  by (auto simp: clamp_def)

lemma frame_progress_mono: "i \<le> j \<Longrightarrow> routeGifFrameProgress i n \<le> routeGifFrameProgress j n"
proof (cases "n \<le> 1")
  case False
  assume "i \<le> j"
  then have "(i - 2) / max 1 (n - 2 - 3 - 1) \<le> (j - 2) / max 1 (n - 2 - 3 - 1)" by (intro divide_right_mono) simp_all
  then show ?thesis using False by (simp add: routeGifFrameProgress_def Let_def smooth_step_mono clamp_unit)
qed (simp add: routeGifFrameProgress_def)

lemma frame_progress_unit: "0 \<le> routeGifFrameProgress i n" "routeGifFrameProgress i n \<le> 1"
  using smooth_step_mono [of 0 "clamp ((i - 2) / max 1 (n - 2 - 3 - 1)) 0 1"]
    smooth_step_mono [of "clamp ((i - 2) / max 1 (n - 2 - 3 - 1)) 0 1" 1] clamp_unit
  by (simp_all add: routeGifFrameProgress_def Let_def)

lemma frame_progress_ends: "7 \<le> n \<Longrightarrow> routeGifFrameProgress 0 n = 0" "7 \<le> n \<Longrightarrow> n - 4 \<le> i \<Longrightarrow> routeGifFrameProgress i n = 1"
proof -
  assume "7 \<le> n"
  then have "max 1 (n - 2 - 3 - 1) = n - 6" by simp
  then show "routeGifFrameProgress 0 n = 0" using \<open>7 \<le> n\<close>
    by (simp add: routeGifFrameProgress_def clamp_def Let_def max_def divide_le_0_iff)
  assume "n - 4 \<le> i"
  then have "1 \<le> (i - 2) / (n - 6)" using \<open>7 \<le> n\<close> by (simp add: le_divide_eq)
  then have "clamp ((i - 2) / (n - 6)) 0 1 = 1" by (simp add: clamp_def)
  then show "routeGifFrameProgress i n = 1" using \<open>7 \<le> n\<close> \<open>max 1 (n - 2 - 3 - 1) = n - 6\<close>
    by (simp add: routeGifFrameProgress_def Let_def)
qed

lemma default_frames: "gif_frames \<lparr>go_width = a, go_height = b, go_frames = Some ROUTE_GIF_FRAMES, go_fps = c\<rparr> = 60"
  by (simp add: gif_frames_def ROUTE_GIF_FRAMES_def js_round_def)

lemma default_duration: "routeGifAnimationDurationMs ROUTE_GIF_FRAMES ROUTE_GIF_FPS = 4917"
  by (simp add: routeGifAnimationDurationMs_def ROUTE_GIF_FRAMES_def ROUTE_GIF_FPS_def js_round_def)

section \<open>The loop\<close>

text \<open>A frame as the loop writes it.\<close>

definition gif_frame :: "RouteGifExportOptions \<Rightarrow> nat \<Rightarrow> RouteGifFrame" where
  "gif_frame options i =
     \<lparr>gf_index = i, gf_progress = routeGifFrameProgress (real i) (gif_frames options), gf_width = gif_width options,
      gf_height = gif_height options, gf_delay = js_round (1000 / gif_fps options)\<rparr>"

lemma gif_frames_nat: obtains n where "gif_frames options = real n" "2 \<le> n" "n \<le> 60"
proof -
  obtain i where i: "js_round (or_else (go_frames options) 60) = of_int i" by (simp add: js_round_def)
  have "gif_frames options = max 2 (min 60 (of_int i))" unfolding gif_frames_def ROUTE_GIF_FRAMES_def i ..
  then have "gif_frames options = of_int (max 2 (min 60 i))" by simp
  then have "gif_frames options = real (nat (max 2 (min 60 i)))" by simp
  moreover have "2 \<le> nat (max 2 (min 60 i))" "nat (max 2 (min 60 i)) \<le> 60" by auto
  ultimately show ?thesis by (rule that)
qed

lemma gif_loop_writes:
  assumes "gif_frames options = real n"
  shows "gif_loop capture options i written heard = (Inr frames, hs) \<Longrightarrow> i \<le> n \<Longrightarrow>
     frames = written @ map (gif_frame options) [i..<n] \<and> hs = heard @ map (\<lambda>i. real (i + 1) / real n) [i..<n]"
  using assms
proof (induction capture options i written heard rule: gif_loop.induct)
  case (1 capture options i written heard)
  show ?case
  proof (cases "i < n")
    case True
    then have step: "[i..<n] = i # [i + 1..<n]" by (simp add: upt_conv_Cons)
    obtain w h where c: "capture i (routeGifFrameProgress (real i) (gif_frames options)) = Some (w, h)"
      "w = gif_width options" "h = gif_height options"
      using "1.prems" True by (subst (asm) gif_loop.simps) (auto simp: Let_def split: option.splits if_splits)
    then have "gif_loop capture options (i + 1) (written @ [gif_frame options i]) (heard @ [real (i + 1) / gif_frames options])
        = (Inr frames, hs)"
      using "1.prems" True by (subst (asm) gif_loop.simps) (simp add: gif_frame_def Let_def)
    then show ?thesis using "1.IH" [OF _ refl c(1) refl] "1.prems" True c step by (simp add: gif_frame_def)
  next
    case False
    with "1.prems" show ?thesis by (subst (asm) gif_loop.simps) simp
  qed
qed

text \<open>
  A film that is made shows the whole route and runs forward: it has the frames of the options, in order, each of the
  size of the options; the progress starts at 0, never goes back and is 1 in the last frame; and the listener has heard
  the share of every frame, last that all is done.
\<close>

lemma route_film_runs_forward:
  assumes "createRouteMapGifBlob segments capture options = (Inr frames, heard)"
  shows "map gf_index frames = [0..<nat \<lfloor>gif_frames options\<rfloor>]
    \<and> list_all (\<lambda>f. gf_width f = gif_width options \<and> gf_height f = gif_height options) frames
    \<and> sorted (map gf_progress frames) \<and> sorted heard \<and> length heard = length frames \<and> last heard = 1
    \<and> (7 \<le> gif_frames options \<longrightarrow> gf_progress (hd frames) = 0 \<and> gf_progress (last frames) = 1)"
proof -
  obtain n where n: "gif_frames options = real n" "2 \<le> n" "n \<le> 60" by (rule gif_frames_nat)
  have "gif_loop capture options 0 [] [] = (Inr frames, heard)"
    using assms by (simp add: createRouteMapGifBlob_def split: if_splits)
  from gif_loop_writes [OF n(1) this] have f: "frames = map (gif_frame options) [0..<n]"
    and h: "heard = map (\<lambda>i. real (i + 1) / real n) [0..<n]" by simp_all
  have "sorted (map gf_progress frames)"
    unfolding f map_map sorted_map by (rule sorted_wrt_mono_rel [OF _ sorted_upt]) (simp add: gif_frame_def frame_progress_mono)
  moreover have "sorted heard"
    unfolding h sorted_map by (rule sorted_wrt_mono_rel [OF _ sorted_upt]) (simp add: divide_right_mono)
  moreover have "last heard = 1" using n by (simp add: h last_map)
  moreover have "gf_progress (hd frames) = 0 \<and> gf_progress (last frames) = 1" if "7 \<le> gif_frames options"
    using n that frame_progress_ends(1) [of "real n"] frame_progress_ends(2) [of "real n" "real (n - 1)"]
    by (simp add: f hd_map last_map gif_frame_def)
  moreover have "map gf_index frames = [0..<n]" unfolding f by (simp add: gif_frame_def comp_def)
  moreover have "list_all (\<lambda>f. gf_width f = gif_width options \<and> gf_height f = gif_height options) frames"
    by (simp add: f gif_frame_def list_all_iff)
  ultimately show ?thesis using n f h by simp
qed

text \<open>A film of seven frames over a hop of one degree.\<close>

definition sample_hop :: PublicRouteSegment where
  "sample_hop = (sample_segment ''r'' ''a'' ''b'')\<lparr>sg_to := (sample_endpoint ''b'')\<lparr>ep_lat := 46\<rparr>\<rparr>"

definition sample_options :: RouteGifExportOptions where
  "sample_options = \<lparr>go_width = Some 960, go_height = Some 540, go_frames = Some 7, go_fps = Some 12\<rparr>"

lemma sample_option_values: "gif_width sample_options = 960" "gif_height sample_options = 540" "gif_frames sample_options = 7"
  by (simp_all add: gif_width_def gif_height_def gif_frames_def sample_options_def ROUTE_GIF_WIDTH_def ROUTE_GIF_HEIGHT_def
      ROUTE_GIF_FRAMES_def js_round_def)

lemma sample_film:
  "createRouteMapGifBlob [sample_hop] (\<lambda>i progress. Some (960, 540)) sample_options
     = (Inr (map (gif_frame sample_options) [0..<7]), map (\<lambda>i. real (i + 1) / 7) [0..<7])"
proof -
  have points: "\<not> length (routeGifRoutePoints [sample_hop]) < 2"
    by (simp add: routeGifRoutePoints_def appendEndpoint_def sameEndpoint_def sample_hop_def sample_segment_def sample_endpoint_def)
  have "gif_loop (\<lambda>i progress. Some (960, 540)) sample_options 0 [] []
      = (Inr (map (gif_frame sample_options) [0..<7]), map (\<lambda>i. real (i + 1) / 7) [0..<7])"
    by (simp add: gif_loop.simps sample_option_values gif_frame_def upt_conv_Cons Let_def)
  then show ?thesis using points by (simp add: createRouteMapGifBlob_def)
qed

lemma route_film_runs_forward_witness:
  "createRouteMapGifBlob [sample_hop] (\<lambda>i progress. Some (960, 540)) sample_options
     = (Inr (map (gif_frame sample_options) [0..<7]), map (\<lambda>i. real (i + 1) / 7) [0..<7])
   \<and> sorted (map gf_progress (map (gif_frame sample_options) [0..<7])) \<and> gf_progress (last (map (gif_frame sample_options) [0..<7])) = 1"
  using route_film_runs_forward [OF sample_film] sample_film sample_option_values by simp

end
