(* ===== verification/Dashboard.thy ===== *)
theory Dashboard
  imports Map_Selection Workspace_Navigation Route_Gif Map_Settings Api_Panels
begin

text \<open>
  The callbacks of \<open>PublicDashboardApp\<close> in \<open>src/web/src/App.tsx\<close> between the feed and the map: pausing, with the ownership
  of \<open>pauseOwnership.ts\<close>; the actions sent to the map and their tokens; replays; the plot of routes; the keyboard; and
  the export of a route as a film with its limits. One record, \<open>Dashboard\<close>, holds what they share. A callback reads the
  values of the last rendering, which are those of the record. \<open>now\<close> is \<open>Date.now()\<close>, \<open>num\<close> writes a number, \<open>lc\<close> is the
  collation of the browser; the nodes, the routes and the graph are those of the rendering.

  A packet arrives at \<open>exportSelectedPacketGif\<close> in an optional argument. The button passes the callback to \<open>onClick\<close>, so
  that what arrives is the event of the click: \<open>ClickEvent\<close>, an object without the fields of a packet.
\<close>

section \<open>Pauses with an owner\<close>

record OwnedPauseSession =
  op_restorePaused :: bool
  op_userOverrodePause :: bool

definition beginOwnedPause :: "bool \<Rightarrow> OwnedPauseSession" where
  "beginOwnedPause paused = \<lparr>op_restorePaused = paused, op_userOverrodePause = False\<rparr>"

definition markOwnedPauseUserOverride :: "OwnedPauseSession option \<Rightarrow> OwnedPauseSession option" where
  "markOwnedPauseUserOverride session = map_option (\<lambda>s. s\<lparr>op_userOverrodePause := True\<rparr>) session"

definition pausedAfterOwnedPause :: "OwnedPauseSession option \<Rightarrow> bool \<Rightarrow> bool" where
  "pausedAfterOwnedPause session currentPaused =
     (case session of None \<Rightarrow> currentPaused | Some s \<Rightarrow> if op_userOverrodePause s then currentPaused else op_restorePaused s)"

section \<open>State\<close>

datatype MapAction =
    ResetAction nat
  | LatestRouteAction nat
  | RouteAction nat string
  | NodeAction nat string
  | RegionAction nat string js_number js_number
  | PacketAction nat "PublicRouteSegment list"
  | PacketReplayAction nat "PublicRouteSegment list" PublicRoutePulse js_number js_number bool

fun action_token :: "MapAction \<Rightarrow> nat" where
  "action_token (ResetAction token) = token"
| "action_token (LatestRouteAction token) = token"
| "action_token (RouteAction token routeID) = token"
| "action_token (NodeAction token nodeID) = token"
| "action_token (RegionAction token label latitude longitude) = token"
| "action_token (PacketAction token segments) = token"
| "action_token (PacketReplayAction token segments pulse settleMs travelDurationMs forceCanvas) = token"

datatype PlotMode = PlotOff | PlotNode | PlotArea

datatype RouteGifExportStatus = GifIdle | GifRendering | GifDone | GifError

datatype ExportArgument = NoArgument | PacketArgument PublicPacketPath | ClickEvent

datatype ExportPacket = RealPacket PublicPacketPath | EventAsPacket

record GifExportRequest =
  gr_token :: nat
  gr_packet :: ExportPacket
  gr_pulse :: "PublicRoutePulse option"
  gr_settleMs :: js_number
  gr_travelDurationMs :: js_number

record Dashboard =
  db_workspace :: Workspace
  db_selection :: MapSelection
  db_propagationOpen :: bool
  db_shortcutHelpOpen :: bool
  db_commandPaletteOpen :: bool
  db_paused :: bool
  db_pauseSession :: "OwnedPauseSession option"
  db_followTraffic :: bool
  db_plotMode :: PlotMode
  db_plotFirstNodeID :: "string option"
  db_plotAreaFirstPoint :: "MapPoint option"
  db_plotResult :: "PlotResult option"
  db_actionToken :: nat
  db_mapAction :: "MapAction option"
  db_packets :: PacketVisualSettings
  db_gifStatus :: RouteGifExportStatus
  db_gifProgress :: js_number
  db_gifRemaining :: nat
  db_gifShownCooldown :: js_number
  db_gifTimestamps :: "js_number list"
  db_gifCooldownUntil :: js_number
  db_gifRequest :: "GifExportRequest option"
  db_downloads :: "ExportPacket list"
  db_toasts :: "string list"

definition GIF_EXPORT_MAX_PER_WINDOW :: nat where "GIF_EXPORT_MAX_PER_WINDOW = 5"
definition GIF_EXPORT_WINDOW_MS :: js_number where "GIF_EXPORT_WINDOW_MS = 10 * 60000"
definition GIF_EXPORT_COOLDOWN_MS :: js_number where "GIF_EXPORT_COOLDOWN_MS = 30000"

definition initialDashboard :: "string \<Rightarrow> string option \<Rightarrow> string option \<Rightarrow> PacketVisualSettings \<Rightarrow> Dashboard" where
  "initialDashboard hash node route packets =
     \<lparr>db_workspace = mountWorkspace hash, db_selection = initialMapSelection node route, db_propagationOpen = False,
      db_shortcutHelpOpen = False, db_commandPaletteOpen = False, db_paused = False, db_pauseSession = None,
      db_followTraffic = False, db_plotMode = PlotOff, db_plotFirstNodeID = None, db_plotAreaFirstPoint = None,
      db_plotResult = None, db_actionToken = 0, db_mapAction = None, db_packets = packets, db_gifStatus = GifIdle,
      db_gifProgress = 0, db_gifRemaining = 5, db_gifShownCooldown = 0, db_gifTimestamps = [], db_gifCooldownUntil = 0,
      db_gifRequest = None, db_downloads = [], db_toasts = []\<rparr>"

definition toast :: "string \<Rightarrow> Dashboard \<Rightarrow> Dashboard" where
  "toast title s = s\<lparr>db_toasts := db_toasts s @ [title]\<rparr>"

section \<open>Pausing\<close>

definition markPauseUserOverride :: "Dashboard \<Rightarrow> Dashboard" where
  "markPauseUserOverride s = s\<lparr>db_pauseSession := markOwnedPauseUserOverride (db_pauseSession s)\<rparr>"

definition finishGifExportPause :: "Dashboard \<Rightarrow> Dashboard" where
  "finishGifExportPause s = s\<lparr>db_pauseSession := None, db_paused := pausedAfterOwnedPause (db_pauseSession s) (db_paused s)\<rparr>"

definition togglePausedByUser :: "Dashboard \<Rightarrow> Dashboard" where
  "togglePausedByUser s = (markPauseUserOverride s)\<lparr>db_paused := \<not> db_paused s\<rparr>"

section \<open>Actions of the map\<close>

datatype map_command = CommandReset | CommandLatestRoute | CommandRoute | CommandNode

text \<open>\<open>const token = actionTokenRef.current + 1; actionTokenRef.current = token; setMapAction(...)\<close>.\<close>

definition send_action :: "(nat \<Rightarrow> MapAction) \<Rightarrow> Dashboard \<Rightarrow> Dashboard" where
  "send_action action s = (let token = db_actionToken s + 1 in s\<lparr>db_actionToken := token, db_mapAction := Some (action token)\<rparr>)"

definition dispatchMapAction :: "map_command \<Rightarrow> string option \<Rightarrow> Dashboard \<Rightarrow> Dashboard" where
  "dispatchMapAction command value s =
     (let text = or_else value []
      in send_action (\<lambda>token.
           if command = CommandRoute \<and> text \<noteq> [] then RouteAction token text
           else if command = CommandNode \<and> text \<noteq> [] then NodeAction token text
           else if command = CommandLatestRoute then LatestRouteAction token
           else ResetAction token) s)"

definition focusPublicRegion :: "string \<Rightarrow> js_number \<Rightarrow> js_number \<Rightarrow> Dashboard \<Rightarrow> Dashboard" where
  "focusPublicRegion label latitude longitude s =
     send_action (\<lambda>token. RegionAction token label latitude longitude) (s\<lparr>db_selection := clearMapSelection (db_selection s)\<rparr>)"

definition selectNodeFromList :: "string \<Rightarrow> Dashboard \<Rightarrow> Dashboard" where
  "selectNodeFromList nodeID s =
     s\<lparr>db_selection := selectNode nodeID (db_selection s), db_workspace := closeNodeList (db_workspace s)\<rparr>"

definition selectRouteOnMap :: "string \<Rightarrow> Dashboard \<Rightarrow> Dashboard" where
  "selectRouteOnMap routeID s =
     dispatchMapAction CommandRoute (Some routeID) (s\<lparr>db_selection := selectRoute routeID (db_selection s)\<rparr>)"

definition focusPacketPath :: "PublicPacketPath \<Rightarrow> Dashboard \<Rightarrow> Dashboard" where
  "focusPacketPath packet s =
     send_action (\<lambda>token. PacketAction token (pp_segments packet))
       (s\<lparr>db_selection := selectPacket packet (db_selection s), db_workspace := focusPacketNavigation (db_workspace s)\<rparr>)"

fun cinematicPacketReplayDuration :: "js_number \<Rightarrow> js_double \<Rightarrow> js_number" where
  "cinematicPacketReplayDuration segmentCount speed =
     (let safeSpeed = (case speed of Fin x \<Rightarrow> max (1 / 2) (min 3 x) | _ \<Rightarrow> 1);
          hopBonus = min 3000 (max 0 (segmentCount - 4) * 420)
      in js_round ((6000 + hopBonus) / safeSpeed))"

declare cinematicPacketReplayDuration.simps [simp del]

definition stop_plot :: "Dashboard \<Rightarrow> Dashboard" where
  "stop_plot s = s\<lparr>db_plotMode := PlotOff, db_plotFirstNodeID := None, db_plotAreaFirstPoint := None\<rparr>"

definition replay_options :: "js_number \<Rightarrow> js_number \<Rightarrow> js_number \<Rightarrow> PacketVisualSettings \<Rightarrow> ReplayOptions" where
  "replay_options travelDurationMs brightness trailScale packets =
     \<lparr>ro_force = Some True, ro_travelDurationMs = Some travelDurationMs, ro_brightness = Some brightness,
      ro_trailScale = Some trailScale, ro_animationStyle = Some (pv_animationStyle packets)\<rparr>"

definition replayPacketPath ::
  "(js_number \<Rightarrow> string) \<Rightarrow> js_number \<Rightarrow> PublicPacketPath \<Rightarrow> js_double option \<Rightarrow> bool \<Rightarrow> Dashboard \<Rightarrow> Dashboard" where
  "replayPacketPath num now packet speedOverride forceCanvas s =
     (let packets = db_packets s;
          travelDurationMs = cinematicPacketReplayDuration (pp_segmentCount packet) (or_else speedOverride (Fin (pv_speed packets)));
          pulse = packetToPulse num packet now (Some (replay_options travelDurationMs (pv_brightness packets) (pv_trail packets) packets))
      in send_action (\<lambda>token. PacketReplayAction token (pp_segments packet) pulse 650 travelDurationMs forceCanvas)
           ((stop_plot s)\<lparr>db_followTraffic := False, db_selection := selectPacket packet (db_selection s),
                          db_workspace := replayPacketNavigation (db_workspace s)\<rparr>))"

definition focusPropagationEvent :: "PublicPropagationEvent \<Rightarrow> Dashboard \<Rightarrow> Dashboard" where
  "focusPropagationEvent event s =
     send_action (\<lambda>token. PacketAction token (pe_segments event))
       (s\<lparr>db_propagationOpen := True, db_workspace := propagationNavigation (db_workspace s),
          db_selection := clearResolvedSelection (db_selection s)\<rparr>)"

definition propagation_pulse :: "js_number \<Rightarrow> PublicPropagationEvent \<Rightarrow> js_number \<Rightarrow> PacketVisualSettings \<Rightarrow> nat \<Rightarrow> PublicRoutePulse" where
  "propagation_pulse now event travelDurationMs packets token =
     \<lparr>rp_id = ''propagation:'' @ pe_id event @ '':'' @ show_nat token, rp_iata = None, rp_region = pe_region event,
      rp_payloadTypeName = (if pe_classification event = ''tropo_possible'' then ''Tropo possible'' else ''Long-distance event''),
      rp_messageSender = None, rp_messageText = None, rp_messageAnchor = None, rp_heardAt = pe_at event, rp_receivedAt = Some now,
      rp_displayAt = Some now, rp_seq = None, rp_segments = pe_segments event,
      rp_replayOptions = Some (replay_options travelDurationMs (max (115 / 100) (pv_brightness packets))
                                 (max (11 / 10) (pv_trail packets)) packets)\<rparr>"

definition replayPropagationEvent :: "js_number \<Rightarrow> PublicPropagationEvent \<Rightarrow> Dashboard \<Rightarrow> Dashboard" where
  "replayPropagationEvent now event s =
     (let packets = db_packets s;
          travelDurationMs = cinematicPacketReplayDuration (real (length (pe_segments event))) (Fin (pv_speed packets))
      in send_action (\<lambda>token. PacketReplayAction token (pe_segments event) (propagation_pulse now event travelDurationMs packets token)
                                650 travelDurationMs False)
           ((stop_plot s)\<lparr>db_followTraffic := False, db_propagationOpen := True,
                          db_workspace := propagationNavigation (db_workspace s),
                          db_selection := clearResolvedSelection (db_selection s)\<rparr>))"

definition openMapHome :: "Dashboard \<Rightarrow> Dashboard" where
  "openMapHome s =
     (let w = closeAllWorkspaceSurfaces (db_workspace s)
      in s\<lparr>db_workspace := w\<lparr>wn_menus := (wn_menus w)\<lparr>wm_mapSettings := False, wm_mobileControls := False\<rparr>\<rparr>,
           db_propagationOpen := False, db_shortcutHelpOpen := False, db_commandPaletteOpen := False\<rparr>)"

definition toggleFollowRecent :: "Dashboard \<Rightarrow> Dashboard" where
  "toggleFollowRecent s =
     (if db_followTraffic s then toast ''Follow off'' (s\<lparr>db_followTraffic := False\<rparr>)
      else toast ''Following recent activity'' (dispatchMapAction CommandLatestRoute None (s\<lparr>db_followTraffic := True\<rparr>)))"

section \<open>Plotting\<close>

definition startNodePlot :: "Dashboard \<Rightarrow> Dashboard" where
  "startNodePlot s = s\<lparr>db_plotMode := PlotNode, db_plotFirstNodeID := None, db_plotAreaFirstPoint := None, db_plotResult := None\<rparr>"

definition startAreaPlot :: "Dashboard \<Rightarrow> Dashboard" where
  "startAreaPlot s = s\<lparr>db_plotMode := PlotArea, db_plotFirstNodeID := None, db_plotAreaFirstPoint := None, db_plotResult := None\<rparr>"

definition clearPlotRoutes :: "Dashboard \<Rightarrow> Dashboard" where
  "clearPlotRoutes s = s\<lparr>db_plotMode := PlotOff, db_plotFirstNodeID := None, db_plotAreaFirstPoint := None, db_plotResult := None\<rparr>"

definition handlePlotNodePick ::
  "(string \<Rightarrow> string \<Rightarrow> js_number) \<Rightarrow> PublicNode list \<Rightarrow> ConnectivityGraph \<Rightarrow> string \<Rightarrow> Dashboard \<Rightarrow> Dashboard" where
  "handlePlotNodePick lc nodes graph nodeID s =
     (if db_plotMode s \<noteq> PlotNode then s
      else if or_else (db_plotFirstNodeID s) [] = [] then s\<lparr>db_plotFirstNodeID := Some nodeID\<rparr>
      else if db_plotFirstNodeID s = Some nodeID then s
      else case (find (\<lambda>node. Some (pn_id node) = db_plotFirstNodeID s) nodes, find (\<lambda>node. pn_id node = nodeID) nodes) of
             (Some source, Some target) \<Rightarrow>
               s\<lparr>db_plotResult := Some (PathPlot source target (shortestPathBetween lc graph (Some (pn_id source)) (Some (pn_id target)))),
                 db_plotMode := PlotOff, db_plotFirstNodeID := None\<rparr>
           | _ \<Rightarrow> s)"

definition handlePlotMapPoint :: "(string \<Rightarrow> string \<Rightarrow> js_number) \<Rightarrow> PublicRoute list \<Rightarrow> MapPoint \<Rightarrow> Dashboard \<Rightarrow> Dashboard" where
  "handlePlotMapPoint lc visibleRoutes point s =
     (if db_plotMode s \<noteq> PlotArea then s
      else case db_plotAreaFirstPoint s of
             None \<Rightarrow> s\<lparr>db_plotAreaFirstPoint := Some point\<rparr>
           | Some first \<Rightarrow>
               let bounds = boundsFromPoints first point
               in s\<lparr>db_plotResult := Some (AreaPlot bounds (routesInBounds lc visibleRoutes bounds)), db_plotMode := PlotOff,
                    db_plotAreaFirstPoint := None\<rparr>)"

section \<open>The keyboard\<close>

record KeyPress =
  kp_code :: string
  kp_key :: string
  kp_ctrl :: bool
  kp_meta :: bool
  kp_editing :: bool

text \<open>
  \<open>kp_editing\<close>: the target is an input, a text area or editable. The command palette returns before the other tests; a
  space typed into a text returns too.
\<close>

definition handleKeyDown :: "KeyPress \<Rightarrow> Dashboard \<Rightarrow> Dashboard" where
  "handleKeyDown e s =
     (if (kp_ctrl e \<or> kp_meta e) \<and> kp_code e = ''KeyK'' then s\<lparr>db_commandPaletteOpen := True\<rparr>
      else let s1 = (if kp_key e = ''Escape'' then clearPlotRoutes (s\<lparr>db_selection := clearMapSelection (db_selection s)\<rparr>) else s)
           in if kp_code e = ''Space'' \<and> kp_editing e then s1
              else let s2 = (if kp_code e = ''Space'' then togglePausedByUser s1 else s1);
                       s3 = (if kp_code e = ''KeyL'' then s2\<lparr>db_followTraffic := \<not> db_followTraffic s2\<rparr> else s2)
                   in if kp_key e = ''?'' \<and> \<not> kp_ctrl e \<and> \<not> kp_meta e then s3\<lparr>db_shortcutHelpOpen := True\<rparr> else s3)"

section \<open>Exporting a film\<close>

text \<open>\<open>packetOverride ?? selectedPacket\<close>.\<close>

definition export_packet :: "ExportArgument \<Rightarrow> Dashboard \<Rightarrow> ExportPacket option" where
  "export_packet argument s =
     (case argument of
        PacketArgument packet \<Rightarrow> Some (RealPacket packet)
      | ClickEvent \<Rightarrow> Some EventAsPacket
      | NoArgument \<Rightarrow> map_option RealPacket (sl_packet (db_selection s)))"

definition gif_recent :: "js_number \<Rightarrow> js_number list \<Rightarrow> js_number list" where
  "gif_recent now timestamps = filter (\<lambda>t. now - GIF_EXPORT_WINDOW_MS < t) timestamps"

text \<open>The pulse of the film; of an event only undefined fields would be copied.\<close>

definition export_pulse :: "(js_number \<Rightarrow> string) \<Rightarrow> js_number \<Rightarrow> PacketVisualSettings \<Rightarrow> ExportPacket \<Rightarrow> PublicRoutePulse option" where
  "export_pulse num now packets packet =
     (case packet of
        RealPacket p \<Rightarrow>
          Some (packetToPulse num p now (Some (replay_options (routeGifAnimationDurationMs ROUTE_GIF_FRAMES ROUTE_GIF_FPS)
            (max (135 / 100) (pv_brightness packets)) (max (12 / 10) (pv_trail packets)) packets)))
      | EventAsPacket \<Rightarrow> None)"

definition exportSelectedPacketGif ::
  "(js_number \<Rightarrow> string) \<Rightarrow> js_number \<Rightarrow> ExportArgument \<Rightarrow> Dashboard \<Rightarrow> Dashboard" where
  "exportSelectedPacketGif num now argument s =
     (case export_packet argument s of
        None \<Rightarrow> s
      | Some packet \<Rightarrow>
          if db_gifStatus s = GifRendering \<or> now < db_gifCooldownUntil s then s
          else let recent = gif_recent now (db_gifTimestamps s)
               in if GIF_EXPORT_MAX_PER_WINDOW \<le> length recent
                  then toast ''GIF limit reached'' (s\<lparr>db_gifTimestamps := recent, db_gifStatus := GifError, db_gifProgress := 0\<rparr>)
                  else let timestamps = recent @ [now];
                           token = db_actionToken s + 1
                       in s\<lparr>db_gifTimestamps := timestamps,
                            db_gifCooldownUntil := now + GIF_EXPORT_COOLDOWN_MS,
                            db_followTraffic := False,
                            db_pauseSession := Some (beginOwnedPause (db_paused s)),
                            db_paused := True,
                            db_gifStatus := GifRendering,
                            db_gifProgress := 2 / 100,
                            db_gifRemaining := GIF_EXPORT_MAX_PER_WINDOW - length (gif_recent now timestamps),
                            db_gifShownCooldown := now + GIF_EXPORT_COOLDOWN_MS,
                            db_actionToken := token,
                            db_gifRequest := Some \<lparr>gr_token = token, gr_packet = packet,
                                                   gr_pulse = export_pulse num now (db_packets s) packet, gr_settleMs = 650,
                                                   gr_travelDurationMs = routeGifAnimationDurationMs ROUTE_GIF_FRAMES ROUTE_GIF_FPS\<rparr>\<rparr>)"

definition gifProgressed :: "js_number \<Rightarrow> Dashboard \<Rightarrow> Dashboard" where
  "gifProgressed progress s = (if db_gifRequest s = None then s else s\<lparr>db_gifProgress := progress\<rparr>)"

definition gifCompleted :: "Dashboard \<Rightarrow> Dashboard" where
  "gifCompleted s =
     (case db_gifRequest s of
        None \<Rightarrow> s
      | Some request \<Rightarrow>
          toast ''Route GIF exported''
            ((finishGifExportPause (s\<lparr>db_downloads := db_downloads s @ [gr_packet request], db_gifRequest := None\<rparr>))
               \<lparr>db_gifStatus := GifDone, db_gifProgress := 1\<rparr>))"

definition gifFailed :: "js_number \<Rightarrow> Dashboard \<Rightarrow> Dashboard" where
  "gifFailed now s =
     (case db_gifRequest s of
        None \<Rightarrow> s
      | Some request \<Rightarrow>
          let timestamps = butlast (db_gifTimestamps s)
          in toast ''GIF export failed''
               ((finishGifExportPause (s\<lparr>db_gifTimestamps := timestamps, db_gifRequest := None\<rparr>))
                  \<lparr>db_gifStatus := GifError, db_gifProgress := 0,
                    db_gifRemaining := GIF_EXPORT_MAX_PER_WINDOW - length (gif_recent now timestamps)\<rparr>))"

text \<open>The timers which put the button back, and the effect of another selected packet.\<close>

definition gifStatusTimer :: "RouteGifExportStatus \<Rightarrow> Dashboard \<Rightarrow> Dashboard" where
  "gifStatusTimer status s = (if db_gifStatus s = status then s\<lparr>db_gifStatus := GifIdle, db_gifProgress := 0\<rparr> else s)"

definition selectedPacketChanged :: "Dashboard \<Rightarrow> Dashboard" where
  "selectedPacketChanged s = (if db_gifStatus s = GifRendering then s else s\<lparr>db_gifStatus := GifIdle, db_gifProgress := 0\<rparr>)"

text \<open>
  The effect of \<open>CanadaMap.tsx\<close> on a request: without a map, its canvas and an animator it fails; the analysis route, the
  camera and \<open>createRouteMapGifBlob\<close> iterate over the segments, which throws where there are none to iterate over; else the
  film is made or not (\<open>capture\<close>).
\<close>

fun export_segments :: "ExportPacket \<Rightarrow> PublicRouteSegment list option" where
  "export_segments (RealPacket packet) = Some (pp_segments packet)"
| "export_segments EventAsPacket = None"

definition gif_export_options :: RouteGifExportOptions where
  "gif_export_options =
     \<lparr>go_width = Some ROUTE_GIF_WIDTH, go_height = Some ROUTE_GIF_HEIGHT, go_frames = Some ROUTE_GIF_FRAMES,
      go_fps = Some ROUTE_GIF_FPS\<rparr>"

definition runGifExport ::
  "bool \<Rightarrow> (nat \<Rightarrow> js_number \<Rightarrow> (js_number \<times> js_number) option) \<Rightarrow> js_number \<Rightarrow> Dashboard \<Rightarrow> Dashboard" where
  "runGifExport mapReady capture now s =
     (case db_gifRequest s of
        None \<Rightarrow> s
      | Some request \<Rightarrow>
          if \<not> mapReady then gifFailed now s
          else case export_segments (gr_packet request) of
                 None \<Rightarrow> gifFailed now (gifProgressed (3 / 100) s)
               | Some segments \<Rightarrow>
                   (case createRouteMapGifBlob segments capture gif_export_options of
                      (Inr frames, heard) \<Rightarrow>
                        gifCompleted (foldl (\<lambda>s progress. gifProgressed (1 / 10 + progress * (88 / 100)) s) (gifProgressed (1 / 10) s) heard)
                    | (Inl error, heard) \<Rightarrow>
                        gifFailed now (foldl (\<lambda>s progress. gifProgressed (1 / 10 + progress * (88 / 100)) s) (gifProgressed (1 / 10) s) heard)))"

end
