(* ===== verification/Dashboard_Correct.thy ===== *)
theory Dashboard_Correct
  imports Dashboard
begin

text \<open>
  The events of the dashboard and what holds over any sequence of them: how often films can be made, that an export gives
  the pause back, that no film ever comes from the button, and what typing does.
\<close>

section \<open>Events\<close>

datatype dashboard_event =
    TogglePause
  | Dispatch map_command "string option"
  | FocusRegion string js_number js_number
  | PickFromList string
  | RouteChosen string
  | FocusPath PublicPacketPath
  | ReplayPath js_number PublicPacketPath "js_double option" bool
  | ShowPropagation PublicPropagationEvent
  | ReplayPropagation js_number PublicPropagationEvent
  | MapHome
  | ToggleFollow
  | StartNodes
  | StartArea
  | ClearPlot
  | PickNode "PublicNode list" ConnectivityGraph string
  | PickPoint "PublicRoute list" MapPoint
  | KeyDown KeyPress
  | Export js_number ExportArgument
  | MapRuns bool "nat \<Rightarrow> js_number \<Rightarrow> (js_number \<times> js_number) option" js_number
  | DoneTimer
  | ErrorTimer
  | PacketChanged
  | Navigate navigation_event
  | Select selection_call

fun dashboard_step ::
  "(js_number \<Rightarrow> string) \<Rightarrow> (string \<Rightarrow> string \<Rightarrow> js_number) \<Rightarrow> Dashboard \<Rightarrow> dashboard_event \<Rightarrow> Dashboard" where
  "dashboard_step num lc s TogglePause = togglePausedByUser s"
| "dashboard_step num lc s (Dispatch command value) = dispatchMapAction command value s"
| "dashboard_step num lc s (FocusRegion label latitude longitude) = focusPublicRegion label latitude longitude s"
| "dashboard_step num lc s (PickFromList nodeID) = selectNodeFromList nodeID s"
| "dashboard_step num lc s (RouteChosen routeID) = selectRouteOnMap routeID s"
| "dashboard_step num lc s (FocusPath packet) = focusPacketPath packet s"
| "dashboard_step num lc s (ReplayPath now packet speed force) = replayPacketPath num now packet speed force s"
| "dashboard_step num lc s (ShowPropagation event) = focusPropagationEvent event s"
| "dashboard_step num lc s (ReplayPropagation now event) = replayPropagationEvent now event s"
| "dashboard_step num lc s MapHome = openMapHome s"
| "dashboard_step num lc s ToggleFollow = toggleFollowRecent s"
| "dashboard_step num lc s StartNodes = startNodePlot s"
| "dashboard_step num lc s StartArea = startAreaPlot s"
| "dashboard_step num lc s ClearPlot = clearPlotRoutes s"
| "dashboard_step num lc s (PickNode nodes graph nodeID) = handlePlotNodePick lc nodes graph nodeID s"
| "dashboard_step num lc s (PickPoint routes point) = handlePlotMapPoint lc routes point s"
| "dashboard_step num lc s (KeyDown key) = handleKeyDown key s"
| "dashboard_step num lc s (Export now argument) = exportSelectedPacketGif num now argument s"
| "dashboard_step num lc s (MapRuns ready capture now) = runGifExport ready capture now s"
| "dashboard_step num lc s DoneTimer = gifStatusTimer GifDone s"
| "dashboard_step num lc s ErrorTimer = gifStatusTimer GifError s"
| "dashboard_step num lc s PacketChanged = selectedPacketChanged s"
| "dashboard_step num lc s (Navigate event) = s\<lparr>db_workspace := navigation_step (db_workspace s) event\<rparr>"
| "dashboard_step num lc s (Select call) = s\<lparr>db_selection := selection_step (db_selection s) call\<rparr>"

lemmas dashboard_defs =
  togglePausedByUser_def markPauseUserOverride_def dispatchMapAction_def send_action_def focusPublicRegion_def
  selectNodeFromList_def selectRouteOnMap_def focusPacketPath_def replayPacketPath_def stop_plot_def focusPropagationEvent_def
  replayPropagationEvent_def openMapHome_def toggleFollowRecent_def toast_def startNodePlot_def startAreaPlot_def clearPlotRoutes_def
  gifStatusTimer_def selectedPacketChanged_def Let_def

text \<open>Only an export, the run of the map and the two timers touch the export itself.\<close>

definition gif_view :: "Dashboard \<Rightarrow> js_number list \<times> js_number \<times> GifExportRequest option \<times> ExportPacket list" where
  "gif_view s = (db_gifTimestamps s, db_gifCooldownUntil s, db_gifRequest s, db_downloads s)"

definition film_event :: "dashboard_event \<Rightarrow> bool" where
  "film_event e \<longleftrightarrow> (case e of Export now argument \<Rightarrow> True | MapRuns ready capture now \<Rightarrow> True | _ \<Rightarrow> False)"

lemma pick_frame [simp]:
  "db_gifTimestamps (handlePlotNodePick lc nodes graph nodeID s) = db_gifTimestamps s"
  "db_gifCooldownUntil (handlePlotNodePick lc nodes graph nodeID s) = db_gifCooldownUntil s"
  "db_gifRequest (handlePlotNodePick lc nodes graph nodeID s) = db_gifRequest s"
  "db_downloads (handlePlotNodePick lc nodes graph nodeID s) = db_downloads s"
  "db_gifStatus (handlePlotNodePick lc nodes graph nodeID s) = db_gifStatus s"
  "db_paused (handlePlotNodePick lc nodes graph nodeID s) = db_paused s"
  "db_pauseSession (handlePlotNodePick lc nodes graph nodeID s) = db_pauseSession s"
  by (auto simp: handlePlotNodePick_def split: option.split)

lemma pick_point_frame [simp]:
  "db_gifTimestamps (handlePlotMapPoint lc routes point s) = db_gifTimestamps s"
  "db_gifCooldownUntil (handlePlotMapPoint lc routes point s) = db_gifCooldownUntil s"
  "db_gifRequest (handlePlotMapPoint lc routes point s) = db_gifRequest s"
  "db_downloads (handlePlotMapPoint lc routes point s) = db_downloads s"
  "db_gifStatus (handlePlotMapPoint lc routes point s) = db_gifStatus s"
  "db_paused (handlePlotMapPoint lc routes point s) = db_paused s"
  "db_pauseSession (handlePlotMapPoint lc routes point s) = db_pauseSession s"
  by (simp_all add: handlePlotMapPoint_def Let_def split: option.split)

text \<open>The space bar outside of a text toggles the pause, unless it opens the palette.\<close>

definition key_toggles :: "KeyPress \<Rightarrow> bool" where
  "key_toggles key \<longleftrightarrow> kp_code key = ''Space'' \<and> \<not> kp_editing key"

lemma key_frame [simp]:
  "db_gifTimestamps (handleKeyDown key s) = db_gifTimestamps s"
  "db_gifCooldownUntil (handleKeyDown key s) = db_gifCooldownUntil s"
  "db_gifRequest (handleKeyDown key s) = db_gifRequest s"
  "db_downloads (handleKeyDown key s) = db_downloads s"
  "db_gifStatus (handleKeyDown key s) = db_gifStatus s"
  "db_paused (handleKeyDown key s) = (db_paused s \<noteq> key_toggles key)"
  "db_pauseSession (handleKeyDown key s) = (if key_toggles key then markOwnedPauseUserOverride (db_pauseSession s) else db_pauseSession s)"
  by (auto simp: handleKeyDown_def key_toggles_def clearPlotRoutes_def togglePausedByUser_def markPauseUserOverride_def Let_def)

lemma film_frame: "\<not> film_event e \<Longrightarrow> gif_view (dashboard_step num lc s e) = gif_view s"
  by (cases e) (simp_all add: film_event_def dashboard_defs gif_view_def)

text \<open>Which events are the user's own toggles.\<close>

fun user_toggles :: "dashboard_event \<Rightarrow> bool" where
  "user_toggles TogglePause = True"
| "user_toggles (KeyDown key) = key_toggles key"
| "user_toggles _ = False"

lemma pause_frame:
  "\<not> film_event e \<Longrightarrow> db_paused (dashboard_step num lc s e) = (db_paused s \<noteq> user_toggles e)"
  "\<not> film_event e \<Longrightarrow> db_pauseSession (dashboard_step num lc s e)
     = (if user_toggles e then markOwnedPauseUserOverride (db_pauseSession s) else db_pauseSession s)"
  "\<not> film_event e \<Longrightarrow> (db_gifStatus (dashboard_step num lc s e) = GifRendering) = (db_gifStatus s = GifRendering)"
  by (cases e; simp add: film_event_def dashboard_defs)+

section \<open>One export at a time\<close>

lemma progress_fold:
  "db_gifRequest s \<noteq> None \<Longrightarrow> \<exists>p. foldl (\<lambda>s progress. gifProgressed (f progress) s) s xs = s\<lparr>db_gifProgress := p\<rparr>"
proof (induction xs arbitrary: s)
  case Nil
  show ?case by (intro exI [of _ "db_gifProgress s"]) simp
next
  case (Cons x xs)
  have first: "gifProgressed (f x) s = s\<lparr>db_gifProgress := f x\<rparr>" using Cons.prems by (auto simp: gifProgressed_def)
  with Cons.prems have "db_gifRequest (gifProgressed (f x) s) \<noteq> None" by simp
  from Cons.IH [OF this] show ?case by (auto simp: first)
qed

text \<open>A run of the map fails, or it completes the film of a packet.\<close>

lemma run_cases:
  assumes "db_gifRequest s = Some request"
  obtains p where "runGifExport ready capture now s = gifFailed now (s\<lparr>db_gifProgress := p\<rparr>)"
  | p packet where "runGifExport ready capture now s = gifCompleted (s\<lparr>db_gifProgress := p\<rparr>)" "gr_packet request = RealPacket packet"
proof (cases "ready \<and> export_segments (gr_packet request) \<noteq> None")
  case False
  show ?thesis
  proof (cases ready)
    case True
    then show ?thesis using False assms by (intro that(1) [of "3 / 100"]) (simp add: runGifExport_def gifProgressed_def)
  next
    case unready: False
    then show ?thesis using assms by (intro that(1) [of "db_gifProgress s"]) (simp add: runGifExport_def)
  qed
next
  case True
  then obtain packet where packet: "gr_packet request = RealPacket packet" by (cases "gr_packet request") auto
  let ?s1 = "gifProgressed (1 / 10) s"
  have s1: "?s1 = s\<lparr>db_gifProgress := 1 / 10\<rparr>" "db_gifRequest ?s1 \<noteq> None" using assms by (simp_all add: gifProgressed_def)
  obtain result heard where blob: "createRouteMapGifBlob (pp_segments packet) capture gif_export_options = (result, heard)" by fastforce
  obtain p where "foldl (\<lambda>s progress. gifProgressed (1 / 10 + progress * (88 / 100)) s) ?s1 heard = ?s1\<lparr>db_gifProgress := p\<rparr>"
    using progress_fold [OF s1(2), of "\<lambda>progress. 1 / 10 + progress * (88 / 100)"] by blast
  then have p: "foldl (\<lambda>s progress. gifProgressed (1 / 10 + progress * (88 / 100)) s) ?s1 heard = s\<lparr>db_gifProgress := p\<rparr>"
    by (simp add: s1)
  show ?thesis
  proof (cases result)
    case (Inl error)
    then have "runGifExport ready capture now s = gifFailed now (s\<lparr>db_gifProgress := p\<rparr>)"
      using True assms packet blob p by (simp add: runGifExport_def)
    then show ?thesis by (rule that(1))
  next
    case (Inr frames)
    then have "runGifExport ready capture now s = gifCompleted (s\<lparr>db_gifProgress := p\<rparr>)"
      using True assms packet blob p by (simp add: runGifExport_def)
    then show ?thesis using packet by (rule that(2))
  qed
qed

lemma run_without_request: "db_gifRequest s = None \<Longrightarrow> runGifExport ready capture now s = s"
  by (simp add: runGifExport_def)

lemmas export_ends = gifFailed_def gifCompleted_def finishGifExportPause_def toast_def Let_def

definition film_ok :: "Dashboard \<Rightarrow> bool" where
  "film_ok s \<longleftrightarrow> (db_gifRequest s \<noteq> None) = (db_gifStatus s = GifRendering) \<and> (db_gifRequest s \<noteq> None \<longrightarrow> db_gifTimestamps s \<noteq> [])"

lemma export_cases:
  obtains (refused) "exportSelectedPacketGif num now argument s = s"
  | (limited) "GIF_EXPORT_MAX_PER_WINDOW \<le> length (gif_recent now (db_gifTimestamps s))" "db_gifStatus s \<noteq> GifRendering"
      "exportSelectedPacketGif num now argument s
         = toast ''GIF limit reached'' (s\<lparr>db_gifTimestamps := gif_recent now (db_gifTimestamps s), db_gifStatus := GifError, db_gifProgress := 0\<rparr>)"
  | (accepted) packet where "length (gif_recent now (db_gifTimestamps s)) < GIF_EXPORT_MAX_PER_WINDOW" "db_gifStatus s \<noteq> GifRendering"
      "db_gifCooldownUntil s \<le> now" "export_packet argument s = Some packet"
      "db_gifTimestamps (exportSelectedPacketGif num now argument s) = gif_recent now (db_gifTimestamps s) @ [now]"
      "db_gifCooldownUntil (exportSelectedPacketGif num now argument s) = now + GIF_EXPORT_COOLDOWN_MS"
      "db_gifStatus (exportSelectedPacketGif num now argument s) = GifRendering"
      "db_pauseSession (exportSelectedPacketGif num now argument s) = Some (beginOwnedPause (db_paused s))"
      "db_paused (exportSelectedPacketGif num now argument s)"
      "map_option gr_packet (db_gifRequest (exportSelectedPacketGif num now argument s)) = Some packet"
      "db_downloads (exportSelectedPacketGif num now argument s) = db_downloads s"
proof (cases "export_packet argument s")
  case None
  then show ?thesis by (intro refused) (simp add: exportSelectedPacketGif_def)
next
  case (Some packet)
  show ?thesis
  proof (cases "db_gifStatus s = GifRendering \<or> now < db_gifCooldownUntil s")
    case True
    then show ?thesis using Some by (intro refused) (simp add: exportSelectedPacketGif_def)
  next
    case free: False
    show ?thesis
    proof (cases "GIF_EXPORT_MAX_PER_WINDOW \<le> length (gif_recent now (db_gifTimestamps s))")
      case True
      then show ?thesis using Some free by (intro limited) (simp_all add: exportSelectedPacketGif_def)
    next
      case False
      then show ?thesis using Some free by (intro accepted [of packet]) (simp_all add: exportSelectedPacketGif_def Let_def)
    qed
  qed
qed

lemma film_ok_step: "film_ok s \<Longrightarrow> film_ok (dashboard_step num lc s e)"
proof (cases "film_event e")
  case False
  assume "film_ok s"
  moreover have "db_gifRequest (dashboard_step num lc s e) = db_gifRequest s" "db_gifTimestamps (dashboard_step num lc s e) = db_gifTimestamps s"
    using film_frame [OF False, of num lc s] by (simp_all add: gif_view_def)
  ultimately show ?thesis using pause_frame(3) [OF False] by (simp add: film_ok_def)
next
  case True
  assume ok: "film_ok s"
  show ?thesis
  proof (cases e)
    case (Export now argument)
    show ?thesis unfolding Export dashboard_step.simps
      by (rule export_cases [where num = num and now = now and argument = argument and s = s]) (use ok in \<open>auto simp: film_ok_def toast_def\<close>)
  next
    case (MapRuns ready capture now)
    show ?thesis
    proof (cases "db_gifRequest s")
      case None
      then show ?thesis using ok by (simp add: MapRuns run_without_request)
    next
      case (Some request)
      then show ?thesis unfolding MapRuns dashboard_step.simps
        by (rule run_cases [where ready = ready and capture = capture and now = now]) (use Some in \<open>auto simp: film_ok_def export_ends\<close>)
    qed
  qed (use True in \<open>simp_all add: film_event_def\<close>)
qed

lemma film_ok_initial: "film_ok (initialDashboard hash node route packets)"
  by (simp add: film_ok_def initialDashboard_def)

section \<open>The pause is given back\<close>

text \<open>While a film is made: the session remembers the pause of before, and who touched it since.\<close>

definition owned_pause :: "bool \<Rightarrow> bool \<Rightarrow> Dashboard \<Rightarrow> bool" where
  "owned_pause before toggled s \<longleftrightarrow>
     db_gifStatus s = GifRendering \<and> db_gifRequest s \<noteq> None
     \<and> db_pauseSession s = Some \<lparr>op_restorePaused = before, op_userOverrodePause = toggled\<rparr>"

lemma owned_pause_step:
  assumes "owned_pause before toggled s" and "\<not> (case e of MapRuns ready capture now \<Rightarrow> True | _ \<Rightarrow> False)"
  shows "owned_pause before (toggled \<or> user_toggles e) (dashboard_step num lc s e)"
proof (cases "film_event e")
  case True
  then obtain now argument where e: "e = Export now argument" using assms(2) by (cases e) (auto simp: film_event_def)
  have "dashboard_step num lc s e = s" using assms(1) unfolding e dashboard_step.simps
    by (cases rule: export_cases [where num = num and now = now and argument = argument and s = s]) (simp_all add: owned_pause_def)
  then show ?thesis using assms(1) by (simp add: e)
next
  case False
  then show ?thesis using assms(1) film_frame [OF False, of num lc s] pause_frame [OF False, of num lc s]
    by (auto simp: owned_pause_def gif_view_def markOwnedPauseUserOverride_def)
qed

lemma owned_pause_run:
  "owned_pause before toggled s \<Longrightarrow> list_all (\<lambda>e. \<not> (case e of MapRuns ready capture now \<Rightarrow> True | _ \<Rightarrow> False)) events \<Longrightarrow>
     owned_pause before (toggled \<or> list_ex user_toggles events) (foldl (dashboard_step num lc) s events)"
proof (induction events arbitrary: s toggled)
  case (Cons e events)
  have "owned_pause before (toggled \<or> user_toggles e) (dashboard_step num lc s e)" using Cons.prems by (intro owned_pause_step) simp_all
  from Cons.IH [OF this] Cons.prems show ?case by (simp add: disj_assoc)
qed simp

lemma run_returns_pause:
  "owned_pause before toggled s \<Longrightarrow> db_paused (runGifExport ready capture now s) = (if toggled then db_paused s else before)"
proof -
  assume s: "owned_pause before toggled s"
  then obtain request where "db_gifRequest s = Some request" by (auto simp: owned_pause_def)
  then show ?thesis using s
    by (cases rule: run_cases [where ready = ready and capture = capture and now = now])
      (auto simp: export_ends owned_pause_def pausedAfterOwnedPause_def)
qed

text \<open>
  C36. Making a film pauses the feed, and gives the pause back however the film ends: if the user did not toggle the pause
  while it was made, the feed is paused afterwards exactly if it was before; if the user did, it stays as the user left
  it. Whatever else happens on the page meanwhile, refused exports included.
\<close>

theorem export_gives_pause_back:
  assumes "db_gifRequest s = None" and "db_gifRequest (exportSelectedPacketGif num t argument s) \<noteq> None"
    and "list_all (\<lambda>e. \<not> (case e of MapRuns ready capture now \<Rightarrow> True | _ \<Rightarrow> False)) events"
  shows "db_paused (exportSelectedPacketGif num t argument s)
    \<and> db_paused (runGifExport ready capture now (foldl (dashboard_step num lc) (exportSelectedPacketGif num t argument s) events))
      = (if list_ex user_toggles events then db_paused (foldl (dashboard_step num lc) (exportSelectedPacketGif num t argument s) events)
         else db_paused s)"
proof -
  let ?s = "exportSelectedPacketGif num t argument s"
  have "owned_pause (db_paused s) False ?s \<and> db_paused ?s"
    by (cases rule: export_cases [where num = num and now = t and argument = argument and s = s])
      (use assms in \<open>auto simp: owned_pause_def beginOwnedPause_def toast_def\<close>)
  then show ?thesis using run_returns_pause [OF owned_pause_run [OF _ assms(3)]] by fastforce
qed

section \<open>The button makes no film\<close>

text \<open>An export that comes from the button carries the event of the click.\<close>

fun from_button :: "dashboard_event \<Rightarrow> bool" where
  "from_button (Export now argument) = (argument = ClickEvent)"
| "from_button _ = True"

definition no_film :: "Dashboard \<Rightarrow> bool" where
  "no_film s \<longleftrightarrow> db_downloads s = []
     \<and> (case db_gifRequest s of None \<Rightarrow> True | Some request \<Rightarrow> gr_packet request = EventAsPacket)"

lemma no_film_step:
  assumes "no_film s" and "from_button e"
  shows "no_film (dashboard_step num lc s e)"
proof (cases "film_event e")
  case False
  then show ?thesis using assms(1) film_frame [OF False, of num lc s] by (simp add: no_film_def gif_view_def)
next
  case True
  show ?thesis
  proof (cases e)
    case (Export now argument)
    then have "argument = ClickEvent" using assms(2) by simp
    then show ?thesis using assms(1) unfolding Export dashboard_step.simps
      by (cases rule: export_cases [where num = num and now = now and argument = argument and s = s])
        (auto simp: no_film_def toast_def export_packet_def)
  next
    case (MapRuns ready capture now)
    show ?thesis
    proof (cases "db_gifRequest s")
      case None
      then show ?thesis using assms(1) by (simp add: MapRuns run_without_request)
    next
      case (Some request)
      then show ?thesis using assms(1) unfolding MapRuns dashboard_step.simps
        by (cases rule: run_cases [where ready = ready and capture = capture and now = now])
          (use Some in \<open>simp_all add: no_film_def export_ends\<close>)
    qed
  qed (use True in \<open>simp_all add: film_event_def\<close>)
qed


section \<open>Typing\<close>

text \<open>A key typed into a text: no modifier, no escape.\<close>

definition typed :: "KeyPress \<Rightarrow> bool" where
  "typed key \<longleftrightarrow> kp_editing key \<and> \<not> kp_ctrl key \<and> \<not> kp_meta key \<and> kp_key key \<noteq> ''Escape''"

lemma typed_no_toggle: "typed key \<Longrightarrow> \<not> key_toggles key"
  by (simp add: typed_def key_toggles_def)

lemma typed_key:
  "typed key \<Longrightarrow> db_followTraffic (handleKeyDown key s) = (db_followTraffic s \<noteq> (kp_code key = ''KeyL''))"
  by (auto simp: typed_def handleKeyDown_def key_toggles_def Let_def)

text \<open>
  The shortcut of the space bar is off while a text is typed, that of following the traffic is not: every \<open>l\<close> typed
  into the search switches following on or off, so after a text with an odd number of them it is switched.
\<close>

lemma typing_switches_following:
  assumes "list_all typed keys"
  shows "db_followTraffic (foldl (\<lambda>s key. handleKeyDown key s) s keys)
      = (db_followTraffic s \<noteq> odd (length (filter (\<lambda>key. kp_code key = ''KeyL'') keys)))
    \<and> db_paused (foldl (\<lambda>s key. handleKeyDown key s) s keys) = db_paused s"
  using assms
proof (induction keys arbitrary: s)
  case (Cons key keys)
  then show ?case by (cases "kp_code key = ''KeyL''"; cases "db_followTraffic s") (simp_all add: typed_key typed_no_toggle)
qed simp

section \<open>How many films\<close>

text \<open>
  The starts of the films which were made or are being made: a start is noted when an export is accepted and struck out
  when that export fails.
\<close>

fun event_time :: "dashboard_event \<Rightarrow> js_number option" where
  "event_time (Export now argument) = Some now"
| "event_time _ = None"

definition logged_step ::
  "(js_number \<Rightarrow> string) \<Rightarrow> (string \<Rightarrow> string \<Rightarrow> js_number) \<Rightarrow> Dashboard \<times> js_number list \<Rightarrow> dashboard_event \<Rightarrow> Dashboard \<times> js_number list"
  where
  "logged_step num lc sl e =
     (let s = fst sl; starts = snd sl; s' = dashboard_step num lc s e
      in (s', case (db_gifRequest s, db_gifRequest s') of
                (None, Some request) \<Rightarrow> starts @ [or_else (event_time e) 0]
              | (Some request, None) \<Rightarrow> if db_gifStatus s' = GifError then butlast starts else starts
              | _ \<Rightarrow> starts))"

definition well_spaced :: "js_number list \<Rightarrow> bool" where
  "well_spaced starts \<longleftrightarrow>
     sorted_wrt (\<lambda>a b. a + GIF_EXPORT_COOLDOWN_MS \<le> b) starts
     \<and> list_all (\<lambda>(a, b). a + GIF_EXPORT_WINDOW_MS \<le> b) (zip starts (drop GIF_EXPORT_MAX_PER_WINDOW starts))"

definition log_ok :: "js_number \<Rightarrow> Dashboard \<times> js_number list \<Rightarrow> bool" where
  "log_ok clock sl \<longleftrightarrow> (\<exists>old. snd sl = old @ db_gifTimestamps (fst sl) \<and> list_all (\<lambda>t. t \<le> clock - GIF_EXPORT_WINDOW_MS) old)
     \<and> well_spaced (snd sl) \<and> list_all (\<lambda>t. t + GIF_EXPORT_COOLDOWN_MS \<le> db_gifCooldownUntil (fst sl)) (snd sl)"

lemma zip_drop_snoc: "set (zip xs (drop n xs)) \<subseteq> set (zip (xs @ [x]) (drop n (xs @ [x])))"
proof (cases "n \<le> length xs")
    case True
    have "zip (xs @ [x]) (drop n xs @ [x]) = zip (take (length (drop n xs)) (xs @ [x])) (drop n xs)
        @ zip (drop (length (drop n xs)) (xs @ [x])) [x]"
      by (simp add: zip_append2)
    moreover have "zip (take (length (drop n xs)) (xs @ [x])) (drop n xs) = zip xs (drop n xs)"
    proof -
      have "take (length (drop n xs)) (xs @ [x]) = take (length (drop n xs)) xs" by simp
      moreover have "zip (take (length (drop n xs)) xs) (drop n xs) = zip xs (drop n xs)"
        using take_zip [of "length (drop n xs)" xs "drop n xs"] by simp
      ultimately show ?thesis by metis
    qed
    ultimately show ?thesis using True by (simp add: set_append)
qed simp

lemma spaced_take: "well_spaced (xs @ [x]) \<Longrightarrow> well_spaced xs"
  using zip_drop_snoc [of xs GIF_EXPORT_MAX_PER_WINDOW x]
  unfolding well_spaced_def list_all_iff sorted_wrt_append by blast

lemma spaced_snoc:
  assumes "well_spaced xs" and "list_all (\<lambda>t. t + GIF_EXPORT_COOLDOWN_MS \<le> now) xs"
    and "GIF_EXPORT_MAX_PER_WINDOW \<le> length xs \<Longrightarrow> xs ! (length xs - GIF_EXPORT_MAX_PER_WINDOW) + GIF_EXPORT_WINDOW_MS \<le> now"
  shows "well_spaced (xs @ [now])"
proof -
  have "list_all (\<lambda>(a, b). a + GIF_EXPORT_WINDOW_MS \<le> b) (zip (xs @ [now]) (drop GIF_EXPORT_MAX_PER_WINDOW (xs @ [now])))"
    unfolding list_all_length
  proof (intro allI impI)
    fix i
    assume i: "i < length (zip (xs @ [now]) (drop GIF_EXPORT_MAX_PER_WINDOW (xs @ [now])))"
    then have len: "GIF_EXPORT_MAX_PER_WINDOW + i \<le> length xs" by simp
    show "case (zip (xs @ [now]) (drop GIF_EXPORT_MAX_PER_WINDOW (xs @ [now]))) ! i of (a, b) \<Rightarrow> a + GIF_EXPORT_WINDOW_MS \<le> b"
    proof (cases "GIF_EXPORT_MAX_PER_WINDOW + i = length xs")
      case True
      then have "i = length xs - GIF_EXPORT_MAX_PER_WINDOW" "i < length xs" by (simp_all add: GIF_EXPORT_MAX_PER_WINDOW_def)
      then show ?thesis using assms(3) True i by (simp add: nth_append)
    next
      case False
      then have "i < length (zip xs (drop GIF_EXPORT_MAX_PER_WINDOW xs))" using len by simp
      moreover from this have "(zip xs (drop GIF_EXPORT_MAX_PER_WINDOW xs)) ! i = (zip (xs @ [now]) (drop GIF_EXPORT_MAX_PER_WINDOW (xs @ [now]))) ! i"
        using i False len by (simp add: nth_append)
      ultimately show ?thesis using assms(1) by (simp add: well_spaced_def list_all_length) (metis (mono_tags, lifting) case_prodD)
    qed
  qed
  then show ?thesis using assms by (simp add: well_spaced_def sorted_wrt_append list_all_iff)
qed

lemma recent_suffix:
  "sorted_wrt (\<lambda>a b. a + GIF_EXPORT_COOLDOWN_MS \<le> b) ts \<Longrightarrow>
     \<exists>dropped. ts = dropped @ gif_recent now ts \<and> list_all (\<lambda>t. t \<le> now - GIF_EXPORT_WINDOW_MS) dropped"
proof (induction ts)
  case (Cons t ts)
  show ?case
  proof (cases "now - GIF_EXPORT_WINDOW_MS < t")
    case True
    have "\<forall>u\<in>set ts. now - GIF_EXPORT_WINDOW_MS < u" using Cons.prems True by (force simp: GIF_EXPORT_COOLDOWN_MS_def)
    then have "gif_recent now (t # ts) = t # ts" using True by (simp add: gif_recent_def)
    then show ?thesis by simp
  next
    case False
    obtain dropped where "ts = dropped @ gif_recent now ts" "list_all (\<lambda>t. t \<le> now - GIF_EXPORT_WINDOW_MS) dropped"
      using Cons by auto
    with False show ?thesis by (intro exI [of _ "t # dropped"]) (simp add: gif_recent_def)
  qed
qed (simp add: gif_recent_def)

lemma log_ok_later: "log_ok clock sl \<Longrightarrow> clock \<le> clock' \<Longrightarrow> log_ok clock' sl"
  unfolding log_ok_def list_all_iff by (metis diff_right_mono order_trans)

lemma log_ok_recent:
  assumes "log_ok clock (s, starts)" and "clock \<le> now"
  obtains old where "starts = old @ gif_recent now (db_gifTimestamps s)" "list_all (\<lambda>t. t \<le> now - GIF_EXPORT_WINDOW_MS) old"
proof -
  from log_ok_later [OF assms] obtain old where old: "starts = old @ db_gifTimestamps s"
    "list_all (\<lambda>t. t \<le> now - GIF_EXPORT_WINDOW_MS) old" by (auto simp: log_ok_def)
  have "sorted_wrt (\<lambda>a b. a + GIF_EXPORT_COOLDOWN_MS \<le> b) (db_gifTimestamps s)"
    using assms(1) old(1) by (simp add: log_ok_def well_spaced_def sorted_wrt_append)
  from recent_suffix [OF this, of now] obtain dropped where
    "db_gifTimestamps s = dropped @ gif_recent now (db_gifTimestamps s)" "list_all (\<lambda>t. t \<le> now - GIF_EXPORT_WINDOW_MS) dropped" by blast
  with old show ?thesis by (intro that [of "old @ dropped"]) simp_all
qed

lemma log_ok_export:
  assumes ok: "log_ok clock (s, starts)" and film: "film_ok s" and now: "clock \<le> now"
  shows "log_ok now (logged_step num lc (s, starts) (Export now argument))"
proof -
  obtain old where old: "starts = old @ gif_recent now (db_gifTimestamps s)" "list_all (\<lambda>t. t \<le> now - GIF_EXPORT_WINDOW_MS) old"
    using log_ok_recent [OF ok now] .
  show ?thesis
  proof (cases rule: export_cases [where num = num and now = now and argument = argument and s = s])
    case refused
    then have "logged_step num lc (s, starts) (Export now argument) = (s, starts)"
      by (simp add: logged_step_def split: option.split)
    then show ?thesis using log_ok_later [OF ok now] by simp
  next
    case limited
    then have "db_gifRequest s = None" using film by (simp add: film_ok_def)
    then show ?thesis using ok old limited by (auto simp: logged_step_def log_ok_def toast_def)
  next
    case (accepted packet)
    let ?s = "exportSelectedPacketGif num now argument s"
    have none: "db_gifRequest s = None" using film accepted(2) by (simp add: film_ok_def)
    obtain request where "db_gifRequest ?s = Some request" using accepted(10) by auto
    then have step: "logged_step num lc (s, starts) (Export now argument) = (?s, starts @ [now])"
      by (simp add: logged_step_def none)
    have gap: "list_all (\<lambda>t. t + GIF_EXPORT_COOLDOWN_MS \<le> now) starts"
      using ok accepted(3) by (auto simp: log_ok_def list_all_iff)
    have "starts ! (length starts - GIF_EXPORT_MAX_PER_WINDOW) + GIF_EXPORT_WINDOW_MS \<le> now"
      if "GIF_EXPORT_MAX_PER_WINDOW \<le> length starts"
    proof -
      have "length starts - GIF_EXPORT_MAX_PER_WINDOW < length old" using accepted(1) that by (simp add: old(1))
      then have "starts ! (length starts - GIF_EXPORT_MAX_PER_WINDOW) \<in> set old" by (simp add: old(1) nth_append)
      then show ?thesis using old(2) by (auto simp: list_all_iff)
    qed
    then have "well_spaced (starts @ [now])" using ok gap by (intro spaced_snoc) (simp_all add: log_ok_def)
    moreover have "list_all (\<lambda>t. t + GIF_EXPORT_COOLDOWN_MS \<le> now + GIF_EXPORT_COOLDOWN_MS) (starts @ [now])"
      using gap by (auto simp: list_all_iff GIF_EXPORT_COOLDOWN_MS_def)
    moreover have "starts @ [now] = old @ db_gifTimestamps ?s" using old(1) accepted(5) by simp
    ultimately show ?thesis unfolding step log_ok_def fst_conv snd_conv accepted(6) using old(2) by blast
  qed
qed

lemma log_ok_other:
  assumes ok: "log_ok clock (s, starts)" and film: "film_ok s" and e: "event_time e = None"
  shows "log_ok clock (logged_step num lc (s, starts) e)"
proof (cases "film_event e")
  case False
  then have same: "gif_view (dashboard_step num lc s e) = gif_view s" by (rule film_frame)
  then have "logged_step num lc (s, starts) e = (dashboard_step num lc s e, starts)"
    by (cases "db_gifRequest s") (simp_all add: logged_step_def gif_view_def)
  then show ?thesis using ok same by (simp add: log_ok_def gif_view_def)
next
  case True
  then obtain ready capture now where run: "e = MapRuns ready capture now" using e by (cases e) (simp_all add: film_event_def)
  show ?thesis
  proof (cases "db_gifRequest s")
    case None
    then show ?thesis using ok by (simp add: run logged_step_def run_without_request)
  next
    case (Some request)
    from ok obtain old where old: "starts = old @ db_gifTimestamps s" "list_all (\<lambda>t. t \<le> clock - GIF_EXPORT_WINDOW_MS) old"
      by (auto simp: log_ok_def)
    show ?thesis
    proof (cases rule: run_cases [OF Some, where ready = ready and capture = capture and now = now])
      case (1 p)
      have ts: "db_gifTimestamps s \<noteq> []" using film Some by (simp add: film_ok_def)
      then have "butlast starts = old @ butlast (db_gifTimestamps s)" "starts = butlast starts @ [last starts]"
        by (simp_all add: old(1) butlast_append)
      moreover from this have "well_spaced (butlast starts)" using ok spaced_take by (metis log_ok_def snd_conv)
      moreover have "list_all (\<lambda>t. t + GIF_EXPORT_COOLDOWN_MS \<le> db_gifCooldownUntil s) (butlast starts)"
        using ok by (auto simp: log_ok_def list_all_iff dest: in_set_butlastD)
      moreover have "logged_step num lc (s, starts) e = (gifFailed now (s\<lparr>db_gifProgress := p\<rparr>), butlast starts)"
        using Some 1 by (simp add: run logged_step_def export_ends)
      moreover have "db_gifTimestamps (gifFailed now (s\<lparr>db_gifProgress := p\<rparr>)) = butlast (db_gifTimestamps s)"
        "db_gifCooldownUntil (gifFailed now (s\<lparr>db_gifProgress := p\<rparr>)) = db_gifCooldownUntil s"
        using Some by (simp_all add: export_ends)
      ultimately show ?thesis using old(2) unfolding log_ok_def by (metis fst_conv snd_conv)
    next
      case (2 p packet)
      then show ?thesis using ok old Some by (auto simp: run logged_step_def log_ok_def export_ends)
    qed
  qed
qed

lemma fst_logged [simp]: "fst (logged_step num lc sl e) = dashboard_step num lc (fst sl) e"
  by (simp add: logged_step_def Let_def)

lemma logged_run:
  "log_ok clock sl \<Longrightarrow> film_ok (fst sl) \<Longrightarrow> sorted (clock # List.map_filter event_time events) \<Longrightarrow>
     \<exists>clock'. log_ok clock' (foldl (logged_step num lc) sl events)"
proof (induction events arbitrary: clock sl)
  case (Cons e events)
  obtain s starts where sl: "sl = (s, starts)" by fastforce
  have film: "film_ok (fst (logged_step num lc sl e))" using Cons.prems(2) film_ok_step by simp
  show ?case
  proof (cases "event_time e")
    case None
    then have "sorted (clock # List.map_filter event_time events)" using Cons.prems(3) by (simp add: List.map_filter_simps)
    moreover have "log_ok clock (logged_step num lc sl e)" using log_ok_other [OF _ _ None] Cons.prems by (simp add: sl)
    ultimately show ?thesis using Cons.IH [OF _ film] by simp
  next
    case (Some now)
    then obtain argument where e: "e = Export now argument" by (cases e) simp_all
    have "clock \<le> now" and later: "sorted (now # List.map_filter event_time events)"
      using Cons.prems(3) by (auto simp: e List.map_filter_simps)
    then have "log_ok now (logged_step num lc sl e)" using log_ok_export Cons.prems by (simp add: e sl)
    from Cons.IH [OF this film later] show ?thesis by simp
  qed
qed auto

text \<open>
  C35. However often the user tries, films are limited: for exports asked for at rising times, the starts of the films
  which did not fail are at least 30 seconds apart, and between a start and the fifth after it there are at least ten
  minutes, so no ten minutes hold more than five of them.
\<close>

theorem films_are_limited:
  assumes "sorted (List.map_filter event_time events)"
  shows "well_spaced (snd (foldl (logged_step num lc) (initialDashboard hash node route packets, []) events))"
proof -
  let ?s = "initialDashboard hash node route packets"
  obtain clock where "sorted (clock # List.map_filter event_time events)"
    using assms by (cases "List.map_filter event_time events") auto
  moreover have "log_ok clock (?s, [])" by (simp add: log_ok_def well_spaced_def initialDashboard_def)
  ultimately show ?thesis using logged_run [of clock "(?s, [])" events num lc] film_ok_initial
    by (auto simp: log_ok_def)
qed

section \<open>Concrete runs\<close>

definition sample_dashboard :: Dashboard where
  "sample_dashboard = initialDashboard [] None None DEFAULT_PACKET_VISUAL_SETTINGS"

definition sample_num :: "js_number \<Rightarrow> string" where "sample_num x = []"
definition sample_lc :: "string \<Rightarrow> string \<Rightarrow> js_number" where "sample_lc a b = 0"

lemma sample_dashboard_fields:
  "db_gifRequest sample_dashboard = None" "db_gifStatus sample_dashboard = GifIdle" "db_gifTimestamps sample_dashboard = []"
  "db_gifCooldownUntil sample_dashboard = 0" "db_paused sample_dashboard = False" "db_downloads sample_dashboard = []"
  "db_followTraffic sample_dashboard = False"
  by (simp_all add: sample_dashboard_def initialDashboard_def)

lemmas export_eval =
  exportSelectedPacketGif_def export_packet_def gif_recent_def GIF_EXPORT_WINDOW_MS_def GIF_EXPORT_COOLDOWN_MS_def
  GIF_EXPORT_MAX_PER_WINDOW_def runGifExport_def gifStatusTimer_def export_ends gifProgressed_def beginOwnedPause_def
  pausedAfterOwnedPause_def markOwnedPauseUserOverride_def togglePausedByUser_def markPauseUserOverride_def
  sample_dashboard_fields

text \<open>An export fails, as the map is not ready, and is asked for again after 30 seconds: one start counts.\<close>

definition sample_exports :: "dashboard_event list" where
  "sample_exports =
     [Export 0 ClickEvent, Export 10 ClickEvent, MapRuns False (\<lambda>i p. None) 20, ErrorTimer, Export 29999 ClickEvent, Export 30000 ClickEvent]"

theorem films_are_limited_witness:
  "sorted (List.map_filter event_time sample_exports)
   \<and> snd (foldl (logged_step sample_num sample_lc) (sample_dashboard, []) sample_exports) = [30000]
   \<and> well_spaced (snd (foldl (logged_step sample_num sample_lc) (sample_dashboard, []) sample_exports))"
proof -
  have times: "sorted (List.map_filter event_time sample_exports)"
    by (simp add: sample_exports_def List.map_filter_simps)
  have "snd (foldl (logged_step sample_num sample_lc) (sample_dashboard, []) sample_exports) = [30000]"
    by (simp add: sample_exports_def logged_step_def export_eval)
  then show ?thesis using times films_are_limited [OF times] unfolding sample_dashboard_def by blast
qed

text \<open>The user resumes the feed while the film is made; then the film fails: the feed goes on.\<close>

theorem export_gives_pause_back_witness:
  "let s = exportSelectedPacketGif sample_num 0 ClickEvent sample_dashboard;
       s' = runGifExport False (\<lambda>i p. None) 20 (foldl (dashboard_step sample_num sample_lc) s [Export 10 ClickEvent, TogglePause])
   in db_paused s \<and> \<not> db_paused s' \<and> db_pauseSession s' = None"
proof -
  let ?s = "exportSelectedPacketGif sample_num 0 ClickEvent sample_dashboard"
  have "db_gifRequest ?s \<noteq> None" by (simp add: export_eval)
  from export_gives_pause_back [OF sample_dashboard_fields(1) this, of "[Export 10 ClickEvent, TogglePause]" False "\<lambda>i p. None" 20 sample_lc]
  have "db_paused ?s" by simp
  then show ?thesis by (simp add: export_eval)
qed

text \<open>A packet is selected and the map draws every frame; the button ends in the error.\<close>

definition sample_packet :: PublicPacketPath where
  "sample_packet =
     \<lparr>pp_id = ''p'', pp_at = 0, pp_iata = None, pp_region = None, pp_payloadTypeName = ''ADVERT'', pp_messageSender = None,
      pp_messageText = None, pp_hopCount = 1, pp_segmentCount = 1, pp_distanceKm = 10, pp_routeIds = [''r''],
      pp_endpointLabels = [''a'', ''b''], pp_segments = [sample_hop]\<rparr>"

definition sample_clicks :: "dashboard_event list" where
  "sample_clicks = [FocusPath sample_packet, Export 0 ClickEvent, MapRuns True (\<lambda>i p. Some (960, 540)) 20]"


text \<open>With the selected packet itself the same clicks would make the film.\<close>

lemma selected_packet_makes_film:
  assumes "createRouteMapGifBlob (pp_segments packet) capture gif_export_options = (Inr frames, heard)"
    and "film_ok s" "db_gifStatus s \<noteq> GifRendering" "db_gifCooldownUntil s \<le> now"
    and "length (gif_recent now (db_gifTimestamps s)) < GIF_EXPORT_MAX_PER_WINDOW" "sl_packet (db_selection s) = Some packet"
  shows "db_downloads (runGifExport True capture t (exportSelectedPacketGif num now NoArgument s)) = db_downloads s @ [RealPacket packet]"
proof -
  let ?s = "exportSelectedPacketGif num now NoArgument s"
  obtain request where request: "db_gifRequest ?s = Some request" "gr_packet request = RealPacket packet" "db_downloads ?s = db_downloads s"
    using assms by (simp add: exportSelectedPacketGif_def export_packet_def Let_def)
  let ?s1 = "gifProgressed (1 / 10) ?s"
  have "db_gifRequest ?s1 \<noteq> None" using request by (simp add: gifProgressed_def)
  then obtain p where "foldl (\<lambda>s progress. gifProgressed (1 / 10 + progress * (88 / 100)) s) ?s1 heard = ?s1\<lparr>db_gifProgress := p\<rparr>"
    using progress_fold [of ?s1 "\<lambda>progress. 1 / 10 + progress * (88 / 100)"] by blast
  then show ?thesis using request assms(1)
    by (simp add: runGifExport_def gifCompleted_def toast_def finishGifExportPause_def gifProgressed_def)
qed

definition key_of :: "string \<Rightarrow> string \<Rightarrow> KeyPress" where
  "key_of code text = \<lparr>kp_code = code, kp_key = text, kp_ctrl = False, kp_meta = False, kp_editing = True\<rparr>"

text \<open>Typing \<open>lake\<close> into the search.\<close>

lemma typing_switches_following_witness:
  "db_followTraffic (foldl (\<lambda>s key. handleKeyDown key s) sample_dashboard
     [key_of ''KeyL'' ''l'', key_of ''KeyA'' ''a'', key_of ''KeyK'' ''k'', key_of ''KeyE'' ''e''])"
proof -
  let ?keys = "[key_of ''KeyL'' ''l'', key_of ''KeyA'' ''a'', key_of ''KeyK'' ''k'', key_of ''KeyE'' ''e'']"
  have "list_all typed ?keys" by (simp add: typed_def key_of_def)
  from typing_switches_following [OF this, of sample_dashboard] show ?thesis
    by (simp add: key_of_def sample_dashboard_fields)
qed

section \<open>Tokens and plots\<close>

text \<open>An action of the map has a token of its own, so that the map sees it even if it repeats the last one.\<close>

definition fresh_action :: "Dashboard \<Rightarrow> Dashboard \<Rightarrow> bool" where
  "fresh_action s s' \<longleftrightarrow> (case db_mapAction s' of None \<Rightarrow> False | Some action \<Rightarrow>
     action_token action = db_actionToken s' \<and> db_actionToken s' = db_actionToken s + 1)"

lemma sent_action_fresh: "(\<And>token. action_token (action token) = token) \<Longrightarrow> fresh_action s (send_action action s)"
  by (simp add: fresh_action_def send_action_def Let_def)

lemma replay_is_fresh: "fresh_action s (replayPacketPath num now packet speed force s)"
  by (simp add: replayPacketPath_def fresh_action_def send_action_def stop_plot_def Let_def)

text \<open>The first choice of a plot is only kept while that plot is made.\<close>

definition plot_ok :: "Dashboard \<Rightarrow> bool" where
  "plot_ok s \<longleftrightarrow> (db_plotFirstNodeID s \<noteq> None \<longrightarrow> db_plotMode s = PlotNode) \<and> (db_plotAreaFirstPoint s \<noteq> None \<longrightarrow> db_plotMode s = PlotArea)"

lemma plot_ok_pick:
  "plot_ok s \<Longrightarrow> plot_ok (handlePlotNodePick lc nodes graph nodeID s)" "plot_ok s \<Longrightarrow> plot_ok (handlePlotMapPoint lc routes point s)"
  by (auto simp: plot_ok_def handlePlotNodePick_def handlePlotMapPoint_def Let_def split: option.split)

lemma plot_ok_key: "plot_ok s \<Longrightarrow> plot_ok (handleKeyDown key s)"
  by (auto simp: plot_ok_def handleKeyDown_def clearPlotRoutes_def togglePausedByUser_def markPauseUserOverride_def Let_def)

text \<open>The area between two points of the map, in whichever order they are picked.\<close>

lemma area_plot_order:
  "db_plotResult (handlePlotMapPoint lc routes q (handlePlotMapPoint lc routes p (startAreaPlot s)))
     = db_plotResult (handlePlotMapPoint lc routes p (handlePlotMapPoint lc routes q (startAreaPlot s)))"
  by (simp add: handlePlotMapPoint_def startAreaPlot_def boundsFromPoints_def Let_def max.commute min.commute)

end
