(* ===== verification/Route_Arcs_Correct.thy ===== *)
theory Route_Arcs_Correct
  imports Route_Arcs Carto_Samples
begin

text \<open>
  Arcs join their endpoints with the heights and sample counts they promise, a point on an arc is where its progress
  says, elevations sampled tile by tile are those of the points one by one in whatever order the tiles arrive, and the
  summary of a profile balances.
\<close>

section \<open>Samples of an arc\<close>

lemma sampleCount_between:
  assumes "lo \<le> hi"
  shows "lo \<le> routeArcSampleCount km lo hi" and "routeArcSampleCount km lo hi \<le> hi"
proof -
  let ?x = "clampRange (8 + sqrt (max 0 km) * (16 / 10)) (real lo) (real hi)"
  have "real lo \<le> ?x" "?x \<le> real hi" using clampRange_within [of "real lo" "real hi"] assms by auto
  then have "int lo \<le> \<lfloor>?x + 1 / 2\<rfloor>" "\<lfloor>?x + 1 / 2\<rfloor> \<le> int hi" by (simp_all add: le_floor_iff floor_le_iff)
  then show "lo \<le> routeArcSampleCount km lo hi" "routeArcSampleCount km lo hi \<le> hi"
    by (auto simp: routeArcSampleCount_def js_round_def Let_def nat_le_iff le_nat_iff)
qed

lemma arcHeight_between: "180 \<le> routeArcHeightMeters km scale" "routeArcHeightMeters km scale \<le> 18000"
proof -
  define x where "x = clampRange ((ARC_MIN_HEIGHT_M + sqrt (max 0 km) * 420 + max 0 km * 12) * clampRange scale (2 / 10) 2)
    ARC_MIN_HEIGHT_M ARC_MAX_HEIGHT_M"
  have "180 \<le> x" "x \<le> 18000"
    using clampRange_within [of 180 18000] by (auto simp: x_def ARC_MIN_HEIGHT_M_def ARC_MAX_HEIGHT_M_def)
  then have "180 \<le> \<lfloor>x + 1 / 2\<rfloor>" "\<lfloor>x + 1 / 2\<rfloor> \<le> 18000" by (simp_all add: le_floor_iff floor_le_iff)
  then have "180 \<le> js_round x" "js_round x \<le> 18000" by (simp_all add: js_round_def)
  then show "180 \<le> routeArcHeightMeters km scale" "routeArcHeightMeters km scale \<le> 18000"
    by (simp_all add: routeArcHeightMeters_def Let_def x_def)
qed

definition arc_samples_ok :: "ArcOptions \<Rightarrow> bool" where
  "arc_samples_ok options \<longleftrightarrow> 2 \<le> or_else (ao_minSamples options) ARC_DEFAULT_MIN_SAMPLES \<and>
     or_else (ao_minSamples options) ARC_DEFAULT_MIN_SAMPLES \<le> or_else (ao_maxSamples options) ARC_DEFAULT_MAX_SAMPLES"

lemma arc_samples_ok_distance [simp]: "arc_samples_ok (arcDistance km)"
  by (simp add: arc_samples_ok_def arcDistance_def ARC_DEFAULT_MIN_SAMPLES_def ARC_DEFAULT_MAX_SAMPLES_def)

lemma sampleRouteArc_as_map:
  assumes "arc_samples_ok options"
  obtains n h where "sampleRouteArc p q options = map (arcSample p q h n) [0..<n]" and "2 \<le> n" and "180 \<le> h" and "h \<le> 18000"
    and "or_else (ao_minSamples options) ARC_DEFAULT_MIN_SAMPLES \<le> n" and "n \<le> or_else (ao_maxSamples options) ARC_DEFAULT_MAX_SAMPLES"
proof -
  let ?lo = "or_else (ao_minSamples options) ARC_DEFAULT_MIN_SAMPLES"
  let ?hi = "or_else (ao_maxSamples options) ARC_DEFAULT_MAX_SAMPLES"
  let ?km = "or_else (ao_distanceKm options) (haversineKm p q)"
  have b: "2 \<le> ?lo" "?lo \<le> ?hi" using assms by (simp_all add: arc_samples_ok_def)
  show thesis
    using that [of "routeArcHeightMeters ?km (or_else (ao_heightScale options) 1)" "routeArcSampleCount ?km ?lo ?hi"]
      sampleCount_between [OF b(2), of ?km] b arcHeight_between
    by (simp add: sampleRouteArc_def Let_def)
qed

lemma interpolate_ends [simp]: "interpolate a b 0 = a" "interpolate a b 1 = b"
  by (simp_all add: interpolate_def)

lemma arcSample_facts:
  assumes "2 \<le> n" and "i < n" and "0 \<le> h"
  shows "0 \<le> ar_progress (arcSample p q h n i)" and "ar_progress (arcSample p q h n i) \<le> 1"
    and "0 \<le> ar_altitudeMeters (arcSample p q h n i)" and "ar_altitudeMeters (arcSample p q h n i) \<le> h"
proof -
  let ?t = "real i / (real n - 1)"
  have t: "0 \<le> ?t" "?t \<le> 1" using assms by (auto simp: divide_le_eq_1)
  have "0 \<le> sin (u * pi)" if "0 \<le> u" "u \<le> 1" for u using that by (intro sin_ge_zero) (auto simp: mult_left_le_one_le)
  then have "0 \<le> sin (?t * pi)" using t by blast
  then show "0 \<le> ar_progress (arcSample p q h n i)" "ar_progress (arcSample p q h n i) \<le> 1"
    "0 \<le> ar_altitudeMeters (arcSample p q h n i)" "ar_altitudeMeters (arcSample p q h n i) \<le> h"
    using t assms mult_left_le [of "sin (?t * pi)" h] by (auto simp: arcSample_def Let_def)
qed

lemma arc_joins_endpoints:
  fixes p q
  assumes "arc_samples_ok options"
  defines "arc \<equiv> routeArcCoordinates p q options"
  shows "2 \<le> length arc" and "hd arc = (ae_lng p, ae_lat p)" and "last arc = (ae_lng q, ae_lat q)"
proof -
  obtain n h where s: "sampleRouteArc p q options = map (arcSample p q h n) [0..<n]" and n: "2 \<le> n"
    by (rule sampleRouteArc_as_map [OF assms(1)])
  have arc: "arc = map (\<lambda>i. (ar_lng (arcSample p q h n i), ar_lat (arcSample p q h n i))) [0..<n]"
    by (simp add: arc_def routeArcCoordinates_def s)
  show "2 \<le> length arc" using n by (simp add: arc)
  show "hd arc = (ae_lng p, ae_lat p)" using n by (simp add: arc hd_map upt_conv_Cons arcSample_def)
  have "last [0..<n] = n - 1" using n by (simp add: last_conv_nth)
  moreover have "real (n - 1) / (real n - 1) = 1" using n by (simp add: of_nat_diff)
  ultimately show "last arc = (ae_lng q, ae_lat q)"
    using n by (simp add: arc last_map arcSample_def Let_def)
qed

section \<open>Points on an arc\<close>

lemma arcPointAt_exact:
  assumes "2 \<le> n" and "0 \<le> t" and "t \<le> 1"
  shows "\<exists>a. arcPointAt (map (arcSample p q h n) [0..<n]) t = Some a \<and> ar_progress a = t \<and>
    ar_lng a = interpolate (ae_lng p) (ae_lng q) t \<and> ar_lat a = interpolate (ae_lat p) (ae_lat q) t"
proof -
  define k where "k = min (n - 2) (nat \<lfloor>t * (real n - 1)\<rfloor>)"
  have k: "k < n - 1" using assms(1) by (simp add: k_def)
  have c: "clampRange t 0 1 = t" using assms(2,3) by simp
  let ?m = "real n - 1"
  have m: "?m \<noteq> 0" using assms(1) by simp
  have "interpolate (interpolate a b (real k / ?m)) (interpolate a b (real (k + 1) / ?m)) (t * ?m - real k) = interpolate a b t"
    for a b :: js_number
  proof -
    define u where "u = real k / ?m"
    have k1: "real (k + 1) / ?m = u + 1 / ?m" by (simp add: u_def add_divide_distrib)
    have line: "interpolate (interpolate a b u) (interpolate a b (u + 1 / ?m)) x = a + (b - a) * u + (b - a) * (x / ?m)" for x
      by (simp add: interpolate_def algebra_simps)
    have rest: "(t * ?m - real k) / ?m = t - u" using m by (simp add: u_def diff_divide_distrib)
    have "a + (b - a) * u + (b - a) * (t - u) = interpolate a b t" by (simp add: interpolate_def algebra_simps)
    then show ?thesis unfolding k1 u_def [symmetric] line rest .
  qed
  then show ?thesis
    using assms(1) k c by (simp add: arcPointAt_def Let_def k_def [symmetric] arcSample_def)
qed

section \<open>Elevations\<close>

lemma foldl_min_le: "foldl min a xs \<le> (a :: js_number) \<and> (\<forall>x \<in> set xs. foldl min a xs \<le> x)"
proof (induction xs arbitrary: a)
  case (Cons x xs)
  show ?case using Cons.IH [of "min a x"] by auto
qed simp

lemma foldl_plus: "foldl (+) a xs = a + sum_list (xs :: js_number list)"
  by (induction xs arbitrary: a) auto

lemma sum_list_between: "(\<And>x. x \<in> set xs \<Longrightarrow> lo \<le> x \<and> x \<le> hi) \<Longrightarrow> real (length xs) * lo \<le> sum_list xs \<and> sum_list xs \<le> real (length xs) * hi"
  by (induction xs) (force simp: algebra_simps)+

lemma gain_minus_loss:
  "foldl (\<lambda>gain diff. if 0 < diff then gain + diff else gain) g ds - foldl (\<lambda>loss diff. if 0 < diff then loss else loss - diff) l ds
   = g - l + sum_list (ds :: js_number list)"
  by (induction ds arbitrary: g l) auto

lemma gain_loss_nonneg:
  "0 \<le> (g :: js_number) \<Longrightarrow> 0 \<le> foldl (\<lambda>gain diff. if 0 < diff then gain + diff else gain) g ds"
  "0 \<le> (l :: js_number) \<Longrightarrow> 0 \<le> foldl (\<lambda>loss diff. if 0 < diff then loss else loss - diff) l ds"
  by (induction ds arbitrary: g l) auto

lemma sum_of_steps: "sum_list (map (\<lambda>(a, b). b - a) (zip (x # xs) xs)) = last (x # xs) - (x :: js_number)"
  by (induction xs arbitrary: x) auto

lemma elevation_summary_balances:
  assumes "elevations \<noteq> []"
  defines "s \<equiv> summarizeElevation elevations"
  shows "es_end s - es_start s = es_gain s - es_loss s" and "0 \<le> es_gain s" and "0 \<le> es_loss s"
    and "es_min s \<le> es_avg s" and "es_avg s \<le> es_max s"
    and "list_all (\<lambda>e. es_min s \<le> e \<and> e \<le> es_max s) elevations"
proof -
  obtain x xs where e: "elevations = x # xs" using assms(1) by (cases elevations) auto
  have b: "es_min s \<le> y \<and> y \<le> es_max s" if "y \<in> set (x # xs)" for y
    using that foldl_min_le [of x xs] foldl_max_ge [where a = x and xs = xs] by (auto simp: s_def e summarizeElevation_def Let_def)
  show "es_end s - es_start s = es_gain s - es_loss s"
    using gain_minus_loss [of 0 "map (\<lambda>(a, b). b - a) (zip (x # xs) xs)" 0] sum_of_steps [of x xs]
    by (simp add: s_def e summarizeElevation_def Let_def)
  show "0 \<le> es_gain s" "0 \<le> es_loss s"
    by (simp_all add: s_def e summarizeElevation_def Let_def gain_loss_nonneg)
  have avg: "es_avg s = sum_list (x # xs) / real (length (x # xs))"
    by (simp add: s_def e summarizeElevation_def Let_def foldl_plus)
  have "real (length (x # xs)) * es_min s \<le> sum_list (x # xs) \<and> sum_list (x # xs) \<le> real (length (x # xs)) * es_max s"
    using b by (intro sum_list_between)
  then show "es_min s \<le> es_avg s" "es_avg s \<le> es_max s"
    unfolding avg by (auto simp: field_simps)
  show "list_all (\<lambda>e. es_min s \<le> e \<and> e \<le> es_max s) elevations" using b by (simp add: list_all_iff e)
qed

text \<open>One write per sample, in the order of the groups.\<close>

definition writeSample :: "(int \<times> int \<Rightarrow> tile_image option) \<Rightarrow> js_number list \<Rightarrow> (int \<times> int) \<times> TileSample \<Rightarrow> js_number list" where
  "writeSample tiles es e = (case tiles (fst e) of None \<Rightarrow> es
     | Some pixels \<Rightarrow> es[ts_index (snd e) := elevationToMeters (pixels (ts_px (snd e)) (ts_py (snd e)))])"

definition ungroup :: "((int \<times> int) \<times> TileSample list) list \<Rightarrow> ((int \<times> int) \<times> TileSample) list" where
  "ungroup gs = concat (map (\<lambda>g. map (Pair (fst g)) (snd g)) gs)"

lemma ungroup_simps [simp]: "ungroup [] = []" "ungroup (g # gs) = map (Pair (fst g)) (snd g) @ ungroup gs"
  by (simp_all add: ungroup_def)

lemma readTile_writes: "readTile tiles es (k, ss) = foldl (writeSample tiles) es (map (Pair k) ss)"
proof (cases "tiles k")
  case None
  have "foldl (writeSample tiles) es (map (Pair k) ss) = es" by (induction ss) (simp_all add: writeSample_def None)
  then show ?thesis by (simp add: readTile_def None)
next
  case (Some pixels)
  have "foldl (writeSample tiles) es (map (Pair k) ss) = foldl (\<lambda>es s. es[ts_index s := elevationToMeters (pixels (ts_px s) (ts_py s))]) es ss" for es
    by (induction ss arbitrary: es) (simp_all add: writeSample_def Some)
  then show ?thesis by (simp add: readTile_def Some)
qed

lemma readTiles_writes: "foldl (readTile tiles) es gs = foldl (writeSample tiles) es (ungroup gs)"
  by (induction gs arbitrary: es) (auto simp: readTile_writes)

lemma mset_ungroup_set:
  "well_keyed m \<Longrightarrow> mset (ungroup (map_set k (or_else (map_get m k) [] @ [s]) m)) = add_mset (k, s) (mset (ungroup m))"
proof (induction m)
  case (Cons e m)
  then show ?case
    by (cases e) (auto simp: map_set_def well_keyed_def ungroup_def)
qed (simp add: map_set_def)

lemma mset_ungroup: "mset (ungroup (foldl groupTile [] xs)) = mset xs"
proof (induction xs rule: rev_induct)
  case (snoc x xs)
  have "well_keyed (foldl groupTile [] xs)" by (rule foldl_invariant) (auto simp: groupTile_def)
  then have "mset (ungroup (groupTile (foldl groupTile [] xs) x)) = add_mset x (mset (ungroup (foldl groupTile [] xs)))"
    using mset_ungroup_set [of "foldl groupTile [] xs" "fst x" "snd x"] by (simp add: groupTile_def [of _ x])
  then show ?case using snoc by simp
qed simp

lemma mset_ungroup_perm: "mset gs = mset hs \<Longrightarrow> mset (ungroup gs) = mset (ungroup hs)"
proof -
  have "mset (ungroup gs) = (\<Sum>\<^sub># (image_mset (\<lambda>g. mset (map (Pair (fst g)) (snd g))) (mset gs)))" for gs
    by (induction gs) auto
  then show "mset gs = mset hs \<Longrightarrow> ?thesis" by simp
qed

lemma length_writes [simp]: "length (foldl (writeSample tiles) es xs) = length es"
  by (induction xs arbitrary: es) (auto simp: writeSample_def split: option.split)

lemma write_other: "i \<notin> (ts_index \<circ> snd) ` set xs \<Longrightarrow> foldl (writeSample tiles) es xs ! i = es ! i"
  by (induction xs arbitrary: es) (auto simp: writeSample_def split: option.split)

lemma write_once:
  assumes "distinct (map (ts_index \<circ> snd) xs)" and "(k, s) \<in> set xs" and "ts_index s < length es"
  shows "foldl (writeSample tiles) es xs ! ts_index s =
    (case tiles k of None \<Rightarrow> es ! ts_index s | Some pixels \<Rightarrow> elevationToMeters (pixels (ts_px s) (ts_py s)))"
  using assms
proof (induction xs arbitrary: es)
  case (Cons x xs)
  have len: "length (writeSample tiles es x) = length es" by (simp add: writeSample_def split: option.split)
  show ?case
  proof (cases "x = (k, s)")
    case True
    then have "ts_index s \<notin> (ts_index \<circ> snd) ` set xs" using Cons.prems(1) by auto
    then have "foldl (writeSample tiles) (writeSample tiles es x) xs ! ts_index s = writeSample tiles es x ! ts_index s"
      by (rule write_other)
    moreover have "writeSample tiles es (k, s) ! ts_index s =
        (case tiles k of None \<Rightarrow> es ! ts_index s | Some pixels \<Rightarrow> elevationToMeters (pixels (ts_px s) (ts_py s)))"
      using Cons.prems(3) by (simp add: writeSample_def split: option.split)
    ultimately show ?thesis using True by simp
  next
    case False
    then have m: "(k, s) \<in> set xs" using Cons.prems(2) by auto
    then have "ts_index (snd x) \<noteq> ts_index s" using Cons.prems(1) by force
    then have "writeSample tiles es x ! ts_index s = es ! ts_index s" by (simp add: writeSample_def split: option.split)
    then show ?thesis using Cons.IH [of "writeSample tiles es x"] Cons.prems m len by (simp split: option.split)
  qed
qed simp

text \<open>What one point reads, without the grouping.\<close>

definition pointElevation :: "(int \<times> int \<Rightarrow> tile_image option) \<Rightarrow> js_number \<times> js_number \<Rightarrow> js_number" where
  "pointElevation tiles point =
     (case tileSample point 0 of (key, s) \<Rightarrow>
        case tiles key of None \<Rightarrow> 0 | Some pixels \<Rightarrow> elevationToMeters (pixels (ts_px s) (ts_py s)))"

text \<open>
  Sampling tile by tile gives every point its own elevation (zero where its tile fails), in whatever order the tiles
  arrive.
\<close>

lemma elevations_pointwise:
  assumes arrival: "\<And>gs. mset (arrival gs) = mset gs"
  shows "sampleElevationAlongRoute arrival tiles p q n = map (pointElevation tiles) (samplePoints p q (max 2 n))"
proof -
  define points where "points = samplePoints p q (max 2 n)"
  define entries where "entries = map (\<lambda>(i, point). tileSample point i) (List.enumerate 0 points)"
  define groups where "groups = foldl groupTile [] entries"
  have len: "length points = max 2 n" by (simp add: points_def samplePoints_def)
  have idx: "map (ts_index \<circ> snd) entries = [0..<length points]"
    by (rule nth_equalityI) (auto simp: entries_def nth_enumerate_eq tileSample_def Let_def)
  have perm: "mset (ungroup (arrival groups)) = mset entries"
    using mset_ungroup_perm [OF arrival [of groups]] mset_ungroup [of entries] by (simp add: groups_def)
  then have d: "distinct (map (ts_index \<circ> snd) (ungroup (arrival groups)))"
    by (metis distinct_upt idx mset_eq_imp_distinct_iff mset_map)
  have nn: "(if n < 2 then 2 else n) = max 2 n" by auto
  have result: "sampleElevationAlongRoute arrival tiles p q n = foldl (readTile tiles) (replicate (length points) 0) (arrival groups)"
    unfolding sampleElevationAlongRoute_def Let_def nn points_def [symmetric] entries_def [symmetric] groups_def [symmetric]
    by (simp add: len)
  show ?thesis
  proof (rule nth_equalityI)
    show "length (sampleElevationAlongRoute arrival tiles p q n) = length (map (pointElevation tiles) (samplePoints p q (max 2 n)))"
      by (simp add: result readTiles_writes points_def)
  next
    fix i
    assume "i < length (sampleElevationAlongRoute arrival tiles p q n)"
    then have i: "i < length points" by (simp add: result readTiles_writes)
    let ?e = "tileSample (points ! i) i"
    have "entries ! i = ?e" using i by (simp add: entries_def nth_enumerate_eq)
    then have "?e \<in> set entries" using i nth_mem [of i entries] by (simp add: entries_def)
    then have "(fst ?e, snd ?e) \<in> set (ungroup (arrival groups))" using mset_eq_setD [OF perm] by simp
    moreover have "ts_index (snd ?e) = i" by (simp add: tileSample_def Let_def)
    moreover have "fst ?e = fst (tileSample (points ! i) 0)" "ts_px (snd ?e) = ts_px (snd (tileSample (points ! i) 0))"
      "ts_py (snd ?e) = ts_py (snd (tileSample (points ! i) 0))"
      by (simp_all add: tileSample_def Let_def)
    ultimately have "foldl (writeSample tiles) (replicate (length points) 0) (ungroup (arrival groups)) ! i = pointElevation tiles (points ! i)"
      using write_once [OF d, of "fst ?e" "snd ?e" "replicate (length points) 0" tiles] i
      by (simp add: pointElevation_def case_prod_unfold split: option.split)
    then show "sampleElevationAlongRoute arrival tiles p q n ! i = map (pointElevation tiles) (samplePoints p q (max 2 n)) ! i"
      using i by (simp add: result readTiles_writes points_def [symmetric])
  qed
qed

end
