(* ===== verification/Replay_Chase.thy ===== *)
theory Replay_Chase
  imports Route_Arcs_Correct Carto_Samples
begin

text \<open>
  \<open>web/src/map/packetReplayChase.ts\<close>: the path of the camera that chases a replayed packet, the point at a share of
  its length, and the frame of the camera there. Numbers are finite. A point has no progress until the length of the
  whole path is known; before that it is 0. The lemmas show that the path is measured by distance from 0 to its
  length and that the camera is where its progress says.
\<close>

section \<open>The path\<close>

record ReplayChasePoint =
  rc_lng :: js_number
  rc_lat :: js_number
  rc_altitudeMeters :: js_number
  rc_distanceKm :: js_number
  rc_progress :: js_number

record ReplayChasePath =
  cp_points :: "ReplayChasePoint list"
  cp_totalDistanceKm :: js_number

record ReplayChaseCameraFrame =
  cf_center :: ReplayChasePoint
  cf_subject :: ReplayChasePoint
  cf_lookahead :: ReplayChasePoint
  cf_bearing :: js_number
  cf_pitch :: js_number
  cf_zoom :: js_number

definition MIN_SEGMENT_DISTANCE_KM :: js_number where "MIN_SEGMENT_DISTANCE_KM = 1 / 1000"
definition DEFAULT_LOOKAHEAD_PROGRESS :: js_number where "DEFAULT_LOOKAHEAD_PROGRESS = 1 / 100"

definition normalizeDeltaLng :: "js_number \<Rightarrow> js_number" where
  "normalizeDeltaLng deltaLng = js_rem (js_rem (deltaLng + 180) 360 + 360) 360 - 180"

definition routePointDistanceKm :: "ArcEndpoint \<Rightarrow> ArcEndpoint \<Rightarrow> js_number" where
  "routePointDistanceKm p q =
     (let dLat = degToRad (ae_lat q - ae_lat p); dLng = degToRad (normalizeDeltaLng (ae_lng q - ae_lng p));
          lat1 = degToRad (ae_lat p); lat2 = degToRad (ae_lat q);
          a = (sin (dLat / 2))\<^sup>2 + cos lat1 * cos lat2 * (sin (dLng / 2))\<^sup>2
      in 6371 * 2 * js_atan2 (sqrt a) (sqrt (1 - a)))"

definition safeSegmentDistanceKm :: "js_number \<Rightarrow> js_number \<Rightarrow> js_number" where
  "safeSegmentDistanceKm distanceKm fallbackDistanceKm =
     (if 0 < distanceKm then max MIN_SEGMENT_DISTANCE_KM distanceKm
      else if 0 < fallbackDistanceKm then max MIN_SEGMENT_DISTANCE_KM fallbackDistanceKm else 0)"

definition segmentDistance :: "PublicRouteSegment \<Rightarrow> js_number" where
  "segmentDistance segment =
     safeSegmentDistanceKm (sg_distanceKm segment) (routePointDistanceKm (arcEnd (sg_from segment)) (arcEnd (sg_to segment)))"

definition chasePointOf :: "js_number \<Rightarrow> js_number \<Rightarrow> ArcSample \<Rightarrow> ReplayChasePoint" where
  "chasePointOf before distanceKm s =
     \<lparr>rc_lng = ar_lng s, rc_lat = ar_lat s, rc_altitudeMeters = ar_altitudeMeters s,
      rc_distanceKm = before + ar_progress s * distanceKm, rc_progress = 0\<rparr>"

definition chaseSegment :: "ReplayChasePoint list \<times> js_number \<Rightarrow> PublicRouteSegment \<Rightarrow> ReplayChasePoint list \<times> js_number" where
  "chaseSegment acc segment =
     (let (pendingPoints, totalDistanceKm) = acc; distanceKm = segmentDistance segment
      in if distanceKm \<le> 0
         then ((if pendingPoints = []
                then [\<lparr>rc_lng = ep_lng (sg_from segment), rc_lat = ep_lat (sg_from segment), rc_altitudeMeters = 0,
                       rc_distanceKm = 0, rc_progress = 0\<rparr>] else pendingPoints), totalDistanceKm)
         else let samples = sampleRouteArc (arcEnd (sg_from segment)) (arcEnd (sg_to segment)) (arcDistance distanceKm);
                  startIndex = (if pendingPoints \<noteq> [] then 1 else 0)
              in (pendingPoints @ map (chasePointOf totalDistanceKm distanceKm) (drop startIndex samples), totalDistanceKm + distanceKm))"

definition buildPacketReplayChasePath :: "PublicRouteSegment list \<Rightarrow> ReplayChasePath" where
  "buildPacketReplayChasePath segments =
     (let (pendingPoints, totalDistanceKm) = foldl chaseSegment ([], 0) segments
      in \<lparr>cp_points = map (\<lambda>point. point\<lparr>rc_progress :=
              (if 0 < totalDistanceKm then clampRange (rc_distanceKm point / totalDistanceKm) 0 1 else 0)\<rparr>) pendingPoints,
          cp_totalDistanceKm = totalDistanceKm\<rparr>)"

section \<open>A point on the path\<close>

definition emptyReplayChasePoint :: ReplayChasePoint where
  "emptyReplayChasePoint = \<lparr>rc_lng = 0, rc_lat = 0, rc_altitudeMeters = 0, rc_distanceKm = 0, rc_progress = 0\<rparr>"

definition chaseBetween :: "js_number \<Rightarrow> js_number \<Rightarrow> ReplayChasePoint \<Rightarrow> ReplayChasePoint \<Rightarrow> ReplayChasePoint" where
  "chaseBetween totalDistanceKm targetDistanceKm previous next =
     (let spanKm = rc_distanceKm next - rc_distanceKm previous;
          localProgress = (if 0 < spanKm then (targetDistanceKm - rc_distanceKm previous) / spanKm else 0)
      in \<lparr>rc_lng = interpolate (rc_lng previous) (rc_lng next) localProgress,
          rc_lat = interpolate (rc_lat previous) (rc_lat next) localProgress,
          rc_altitudeMeters = interpolate (rc_altitudeMeters previous) (rc_altitudeMeters next) localProgress,
          rc_distanceKm = targetDistanceKm,
          rc_progress = (if 0 < totalDistanceKm then clampRange (targetDistanceKm / totalDistanceKm) 0 1 else 0)\<rparr>)"

text \<open>The loop from the second point on; after it the last point.\<close>

fun chaseSearch :: "js_number \<Rightarrow> js_number \<Rightarrow> ReplayChasePoint \<Rightarrow> ReplayChasePoint list \<Rightarrow> ReplayChasePoint" where
  "chaseSearch len target previous [] = previous"
| "chaseSearch len target previous (next # rest) =
     (if target \<le> rc_distanceKm next then chaseBetween len target previous next else chaseSearch len target next rest)"

definition pointAlongReplayChasePath :: "ReplayChasePath \<Rightarrow> js_number \<Rightarrow> ReplayChasePoint" where
  "pointAlongReplayChasePath path progress =
     (if cp_points path = [] \<or> cp_totalDistanceKm path \<le> 0 then emptyReplayChasePoint
      else if length (cp_points path) = 1 then hd (cp_points path)
      else chaseSearch (cp_totalDistanceKm path) (clampRange progress 0 1 * cp_totalDistanceKm path)
             (hd (cp_points path)) (tl (cp_points path)))"

section \<open>The camera\<close>

definition radToDeg :: "js_number \<Rightarrow> js_number" where
  "radToDeg value = value * 180 / pi"

definition replayChaseBearing :: "ReplayChasePoint \<Rightarrow> ReplayChasePoint \<Rightarrow> js_number" where
  "replayChaseBearing p q =
     (let fromLat = degToRad (rc_lat p); toLat = degToRad (rc_lat q);
          deltaLng = degToRad (normalizeDeltaLng (rc_lng q - rc_lng p));
          y = sin deltaLng * cos toLat; x = cos fromLat * sin toLat - sin fromLat * cos toLat * cos deltaLng
      in radToDeg (js_atan2 y x))"

definition replayChaseBearingAt :: "ReplayChasePath \<Rightarrow> js_number \<Rightarrow> js_number \<Rightarrow> js_number" where
  "replayChaseBearingAt path progress lookaheadProgress =
     (if length (cp_points path) \<le> 1 \<or> cp_totalDistanceKm path \<le> 0 then 0
      else let currentProgress = clampRange progress 0 1; lookahead = max (1 / 10000) lookaheadProgress;
               nextProgress = (if 1 \<le> currentProgress then currentProgress - lookahead else currentProgress + lookahead);
               current = pointAlongReplayChasePath path currentProgress;
               next = pointAlongReplayChasePath path (clampRange nextProgress 0 1)
           in if 1 \<le> currentProgress then replayChaseBearing next current else replayChaseBearing current next)"

definition replayChaseZoomForDistance :: "js_number \<Rightarrow> js_number \<Rightarrow> js_number" where
  "replayChaseZoomForDistance distanceKm currentZoom =
     (if 600 < distanceKm then clampRange (currentZoom + 7 / 10) (59 / 10) (82 / 10)
      else if 160 < distanceKm then clampRange (currentZoom + 1) (72 / 10) (94 / 10)
      else clampRange (currentZoom + 14 / 10) (92 / 10) (123 / 10))"

definition replayChaseFollowDistanceKm :: "js_number \<Rightarrow> js_number" where
  "replayChaseFollowDistanceKm totalDistanceKm =
     (let safeDistanceKm = max 0 totalDistanceKm
      in if safeDistanceKm \<le> 0 then 0
         else let baseDistanceKm = (if 600 < safeDistanceKm then 24 else if 160 < safeDistanceKm then 9 else 24 / 10)
              in clampRange baseDistanceKm (min (15 / 100) (safeDistanceKm * (12 / 1000))) (max (2 / 10) (safeDistanceKm * (8 / 100))))"

definition replayChaseLookaheadDistanceKm :: "js_number \<Rightarrow> js_number" where
  "replayChaseLookaheadDistanceKm totalDistanceKm =
     (let safeDistanceKm = max 0 totalDistanceKm
      in if safeDistanceKm \<le> 0 then 0
         else let baseDistanceKm = (if 600 < safeDistanceKm then 52 else if 160 < safeDistanceKm then 22 else 6)
              in clampRange baseDistanceKm (min (4 / 10) (safeDistanceKm * (2 / 100))) (max (8 / 10) (safeDistanceKm * (14 / 100))))"

definition replayChasePitchForDistance :: "js_number \<Rightarrow> js_number" where
  "replayChasePitchForDistance distanceKm =
     (let safeDistanceKm = max 0 distanceKm in if 600 < safeDistanceKm then 60 else if 160 < safeDistanceKm then 64 else 68)"

definition replayChaseCameraFrame :: "ReplayChasePath \<Rightarrow> js_number \<Rightarrow> js_number \<Rightarrow> ReplayChaseCameraFrame" where
  "replayChaseCameraFrame path progress currentZoom =
     (if length (cp_points path) \<le> 1 \<or> cp_totalDistanceKm path \<le> 0
      then \<lparr>cf_center = emptyReplayChasePoint, cf_subject = emptyReplayChasePoint, cf_lookahead = emptyReplayChasePoint,
            cf_bearing = 0, cf_pitch = 62, cf_zoom = replayChaseZoomForDistance 0 currentZoom\<rparr>
      else let len = cp_totalDistanceKm path; subjectProgress = clampRange progress 0 1;
               followProgress = replayChaseFollowDistanceKm len / len;
               lookaheadProgress = replayChaseLookaheadDistanceKm len / len;
               subject = pointAlongReplayChasePath path subjectProgress;
               center = pointAlongReplayChasePath path (max 0 (subjectProgress - followProgress));
               lookahead = pointAlongReplayChasePath path (min 1 (subjectProgress + lookaheadProgress))
           in \<lparr>cf_center = center, cf_subject = subject, cf_lookahead = lookahead, cf_bearing = replayChaseBearing center lookahead,
               cf_pitch = replayChasePitchForDistance len, cf_zoom = replayChaseZoomForDistance len currentZoom\<rparr>)"

section \<open>The path is measured by its distance\<close>

text \<open>Points in order of their distance, from 0 to the length so far.\<close>

definition measured :: "ReplayChasePoint list \<times> js_number \<Rightarrow> bool" where
  "measured acc \<longleftrightarrow> (case acc of (points, len) \<Rightarrow> 0 \<le> len \<and> sorted (map rc_distanceKm points) \<and>
     (points = [] \<longrightarrow> len = 0) \<and> (points \<noteq> [] \<longrightarrow> rc_distanceKm (hd points) = 0 \<and> rc_distanceKm (last points) = len) \<and>
     (0 < len \<longrightarrow> 2 \<le> length points))"

lemma segmentDistance_nonneg: "0 \<le> segmentDistance segment"
  by (auto simp: segmentDistance_def safeSegmentDistanceKm_def MIN_SEGMENT_DISTANCE_KM_def max_def)

lemma measured_step:
  assumes "measured acc"
  shows "measured (chaseSegment acc segment)"
proof -
  obtain points len where acc: "acc = (points, len)" by (cases acc)
  let ?d = "segmentDistance segment"
  show ?thesis
  proof (cases "?d \<le> 0")
    case True
    then show ?thesis using assms by (auto simp: acc chaseSegment_def measured_def Let_def)
  next
    case False
    let ?p = "arcEnd (sg_from segment)" and ?q = "arcEnd (sg_to segment)"
    obtain n h where s: "sampleRouteArc ?p ?q (arcDistance ?d) = map (arcSample ?p ?q h n) [0..<n]"
      and "8 \<le> n"
      using sampleRouteArc_as_map [OF arc_samples_ok_distance, of ?p ?q ?d thesis]
      by (auto simp: arcDistance_def ARC_DEFAULT_MIN_SAMPLES_def)
    then have n: "2 \<le> n" "3 \<le> n" by auto
    define k :: nat where "k = (if points \<noteq> [] then 1 else 0)"
    define new where "new = map (\<lambda>i. len + real i / (real n - 1) * ?d) [k..<n]"
    have new: "map rc_distanceKm (map (chasePointOf len ?d) (drop k (sampleRouteArc ?p ?q (arcDistance ?d)))) = new"
      using n by (simp add: s new_def chasePointOf_def arcSample_def drop_map o_def Let_def)
    have mono: "len + real i / (real n - 1) * ?d \<le> len + real j / (real n - 1) * ?d" if "i \<le> j" for i j
      using that n False by (intro add_left_mono mult_right_mono divide_right_mono) auto
    then have sorted_new: "sorted new"
      unfolding new_def by (simp only: sorted_wrt_map) (rule sorted_wrt_mono_rel [OF _ sorted_wrt_upt], simp add: mono)
    have least: "len \<le> x" if "x \<in> set new" for x
      using that mono [of 0] by (auto simp: new_def)
    have ln: "length new = n - k" "new \<noteq> []" using n by (auto simp: new_def k_def)
    have "last [k..<n] = n - 1" using n by (simp add: k_def last_conv_nth)
    then have last_new: "last new = len + ?d"
      using n ln(2) by (simp add: new_def last_map of_nat_diff)
    let ?points = "points @ map (chasePointOf len ?d) (drop k (sampleRouteArc ?p ?q (arcDistance ?d)))"
    have step: "chaseSegment acc segment = (?points, len + ?d)"
      using False by (simp add: acc chaseSegment_def Let_def k_def)
    have dist: "map rc_distanceKm ?points = map rc_distanceKm points @ new" by (simp only: map_append new)
    have below: "rc_distanceKm x \<le> len" if "x \<in> set points" for x
    proof -
      have "points \<noteq> []" using that by auto
      then have "rc_distanceKm (last points) = len" "sorted (map rc_distanceKm points)"
        using assms by (auto simp: acc measured_def)
      then show ?thesis using that sorted_le_last [of "map rc_distanceKm points" "rc_distanceKm x"] \<open>points \<noteq> []\<close>
        by (simp add: last_map)
    qed
    have ne: "?points \<noteq> []" using ln(2) new by auto
    have "rc_distanceKm (last ?points) = last (map rc_distanceKm ?points)" by (rule last_map [OF ne, symmetric])
    then have last: "rc_distanceKm (last ?points) = len + ?d" using last_new ln(2) dist by simp
    have "rc_distanceKm (hd ?points) = hd (map rc_distanceKm ?points)" by (rule list.map_sel(1) [OF ne, symmetric])
    also have "\<dots> = 0"
    proof (cases "points = []")
      case True
      then show ?thesis using dist n assms by (simp add: new_def k_def acc measured_def upt_conv_Cons)
    next
      case False
      then show ?thesis using assms by (simp add: acc measured_def hd_map)
    qed
    finally have first: "rc_distanceKm (hd ?points) = 0" .
    have "sorted (map rc_distanceKm ?points)"
      unfolding dist using assms sorted_new least below by (fastforce simp: sorted_append acc measured_def intro: order_trans)
    moreover have "2 \<le> length ?points" using arg_cong [OF dist, of length] ln n by (simp add: k_def split: if_splits)
    ultimately show ?thesis
      unfolding step measured_def using assms False ne first last by (simp add: acc measured_def)
  qed
qed

lemma pending_measured: "measured (foldl chaseSegment ([], 0) segments)"
  by (rule foldl_invariant [where P = measured]) (auto simp: measured_step, simp add: measured_def)

lemma path_measured:
  fixes segments
  defines "path \<equiv> buildPacketReplayChasePath segments"
  shows "measured (cp_points path, cp_totalDistanceKm path)"
proof -
  obtain points len where f: "foldl chaseSegment ([], 0) segments = (points, len)" by (cases "foldl chaseSegment ([], 0) segments")
  then have "measured (points, len)" using pending_measured [of segments] by simp
  moreover have "map rc_distanceKm (cp_points path) = map rc_distanceKm points" "cp_totalDistanceKm path = len"
    "length (cp_points path) = length points"
    by (simp_all add: path_def buildPacketReplayChasePath_def f)
  ultimately show ?thesis
    by (simp add: measured_def) (metis hd_map last_map length_0_conv)
qed

section \<open>A point is where its progress says\<close>

lemma clampRange_unit:
  "0 \<le> clampRange p 0 1" "clampRange p 0 1 \<le> 1" "0 \<le> p \<Longrightarrow> p \<le> 1 \<Longrightarrow> clampRange p 0 1 = p"
  by (auto simp: clampRange_def)

text \<open>The straight line between two neighbours of a path.\<close>

definition between :: "ReplayChasePoint list \<Rightarrow> ReplayChasePoint \<Rightarrow> bool" where
  "between points r \<longleftrightarrow> (\<exists>i t. i + 1 < length points \<and> 0 \<le> t \<and> t \<le> 1 \<and>
     rc_lng r = interpolate (rc_lng (points ! i)) (rc_lng (points ! (i + 1))) t \<and>
     rc_lat r = interpolate (rc_lat (points ! i)) (rc_lat (points ! (i + 1))) t \<and>
     rc_altitudeMeters r = interpolate (rc_altitudeMeters (points ! i)) (rc_altitudeMeters (points ! (i + 1))) t)"

lemma between_Cons: "between points r \<Longrightarrow> between (p # points) r"
  unfolding between_def by (elim exE, rule_tac x = "Suc i" in exI, rule_tac x = t in exI) simp

lemma chaseSearch_exact:
  assumes "sorted (map rc_distanceKm (previous # rest))" "rc_distanceKm previous \<le> target"
    "target \<le> rc_distanceKm (last (previous # rest))" "rest \<noteq> []" "0 < len"
  shows "rc_distanceKm (chaseSearch len target previous rest) = target \<and>
     rc_progress (chaseSearch len target previous rest) = clampRange (target / len) 0 1 \<and>
     between (previous # rest) (chaseSearch len target previous rest)"
  using assms
proof (induction rest arbitrary: previous)
  case (Cons nx rest)
  show ?case
  proof (cases "target \<le> rc_distanceKm nx")
    case True
    let ?t = "if 0 < rc_distanceKm nx - rc_distanceKm previous
              then (target - rc_distanceKm previous) / (rc_distanceKm nx - rc_distanceKm previous) else 0"
    have "0 \<le> ?t" "?t \<le> 1" using Cons.prems(2) True by (auto simp: divide_simps)
    then have "between (previous # nx # rest) (chaseBetween len target previous nx)"
      unfolding between_def by (intro exI [of _ 0] exI [of _ ?t]) (auto simp: chaseBetween_def Let_def)
    then show ?thesis using True Cons.prems(5) by (simp add: chaseBetween_def Let_def)
  next
    case False
    have "rest \<noteq> []" using False Cons.prems(3) by auto
    moreover have "sorted (map rc_distanceKm (nx # rest))" "target \<le> rc_distanceKm (last (nx # rest))"
      using Cons.prems(1,3) by simp_all
    ultimately show ?thesis using Cons.IH [of nx] False Cons.prems(5) by (simp add: between_Cons)
  qed
qed simp

lemma point_along_exact:
  fixes segments p
  defines "path \<equiv> buildPacketReplayChasePath segments"
  assumes "0 < cp_totalDistanceKm path"
  shows "rc_distanceKm (pointAlongReplayChasePath path p) = clampRange p 0 1 * cp_totalDistanceKm path"
    and "rc_progress (pointAlongReplayChasePath path p) = clampRange p 0 1"
    and "between (cp_points path) (pointAlongReplayChasePath path p)"
proof -
  have m: "measured (cp_points path, cp_totalDistanceKm path)" unfolding path_def by (rule path_measured)
  then have two: "2 \<le> length (cp_points path)" using assms(2) by (simp add: measured_def)
  then obtain first second more where points: "cp_points path = first # second # more"
    by (cases "cp_points path" rule: list.exhaust; cases "tl (cp_points path)") auto
  have t: "0 \<le> clampRange p 0 1 * cp_totalDistanceKm path"
    "clampRange p 0 1 * cp_totalDistanceKm path \<le> cp_totalDistanceKm path"
    using assms(2) clampRange_unit [of p] by (simp_all add: mult_left_le_one_le)
  have "rc_distanceKm first = 0" "rc_distanceKm (last (first # second # more)) = cp_totalDistanceKm path"
    "sorted (map rc_distanceKm (first # second # more))" using m by (auto simp: points measured_def)
  then have e: "rc_distanceKm (chaseSearch (cp_totalDistanceKm path) (clampRange p 0 1 * cp_totalDistanceKm path) first (second # more)) =
        clampRange p 0 1 * cp_totalDistanceKm path \<and>
      rc_progress (chaseSearch (cp_totalDistanceKm path) (clampRange p 0 1 * cp_totalDistanceKm path) first (second # more)) =
        clampRange (clampRange p 0 1 * cp_totalDistanceKm path / cp_totalDistanceKm path) 0 1 \<and>
      between (first # second # more) (chaseSearch (cp_totalDistanceKm path) (clampRange p 0 1 * cp_totalDistanceKm path) first (second # more))"
    using t assms(2) by (intro chaseSearch_exact) auto
  have s: "pointAlongReplayChasePath path p =
      chaseSearch (cp_totalDistanceKm path) (clampRange p 0 1 * cp_totalDistanceKm path) first (second # more)"
    using assms(2) by (simp add: pointAlongReplayChasePath_def points)
  show "rc_distanceKm (pointAlongReplayChasePath path p) = clampRange p 0 1 * cp_totalDistanceKm path"
    "between (cp_points path) (pointAlongReplayChasePath path p)"
    using e unfolding s points by blast+
  have "clampRange p 0 1 * cp_totalDistanceKm path / cp_totalDistanceKm path = clampRange p 0 1"
    using assms(2) by simp
  then show "rc_progress (pointAlongReplayChasePath path p) = clampRange p 0 1"
    using e clampRange_unit [of p] clampRange_unit(3) [of "clampRange p 0 1"] unfolding s by simp
qed

section \<open>The camera of the chase\<close>

lemma follow_distances_positive:
  "0 < km \<Longrightarrow> 0 < replayChaseFollowDistanceKm km" "0 < km \<Longrightarrow> 0 < replayChaseLookaheadDistanceKm km"
  by (auto simp: replayChaseFollowDistanceKm_def replayChaseLookaheadDistanceKm_def Let_def clampRange_def max_def min_def)

lemma clampRange_cut:
  "0 \<le> f \<Longrightarrow> clampRange (max 0 (clampRange p 0 1 - f)) 0 1 = max 0 (clampRange p 0 1 - f)"
  "0 \<le> f \<Longrightarrow> clampRange (min 1 (clampRange p 0 1 + f)) 0 1 = min 1 (clampRange p 0 1 + f)"
  by (auto simp: clampRange_def max_def min_def)

lemma camera_frame_exact:
  fixes segments p z
  defines "path \<equiv> buildPacketReplayChasePath segments"
  defines "frame \<equiv> replayChaseCameraFrame path p z"
  defines "km \<equiv> cp_totalDistanceKm path"
  assumes "0 < km"
  shows "rc_distanceKm (cf_subject frame) = clampRange p 0 1 * km"
    and "rc_distanceKm (cf_center frame) = max 0 (clampRange p 0 1 * km - replayChaseFollowDistanceKm km)"
    and "rc_distanceKm (cf_lookahead frame) = min km (clampRange p 0 1 * km + replayChaseLookaheadDistanceKm km)"
    and "rc_distanceKm (cf_center frame) < rc_distanceKm (cf_lookahead frame)"
    and "between (cp_points path) (cf_subject frame)"
proof -
  have m: "measured (cp_points path, km)" unfolding path_def km_def by (rule path_measured)
  then have "2 \<le> length (cp_points path)" using assms(4) by (simp add: measured_def)
  then have "\<not> (length (cp_points path) \<le> 1 \<or> cp_totalDistanceKm path \<le> 0)" using assms(4) by (simp add: km_def)
  then have f: "cf_subject frame = pointAlongReplayChasePath path (clampRange p 0 1)"
      "cf_center frame = pointAlongReplayChasePath path (max 0 (clampRange p 0 1 - replayChaseFollowDistanceKm km / km))"
      "cf_lookahead frame = pointAlongReplayChasePath path (min 1 (clampRange p 0 1 + replayChaseLookaheadDistanceKm km / km))"
    by (simp_all add: frame_def replayChaseCameraFrame_def Let_def km_def)
  have pos: "0 < replayChaseFollowDistanceKm km" "0 < replayChaseLookaheadDistanceKm km"
    using follow_distances_positive assms(4) by simp_all
  have at: "rc_distanceKm (pointAlongReplayChasePath path q) = clampRange q 0 1 * km" for q
    using point_along_exact(1) [of segments q] assms(4) by (simp add: path_def km_def)
  have c: "clampRange (max 0 (clampRange p 0 1 - replayChaseFollowDistanceKm km / km)) 0 1 =
      max 0 (clampRange p 0 1 - replayChaseFollowDistanceKm km / km)"
    "clampRange (min 1 (clampRange p 0 1 + replayChaseLookaheadDistanceKm km / km)) 0 1 =
      min 1 (clampRange p 0 1 + replayChaseLookaheadDistanceKm km / km)"
    "clampRange (clampRange p 0 1) 0 1 = clampRange p 0 1"
    using pos assms(4) clampRange_unit [of p] by (auto intro!: clampRange_cut clampRange_unit(3))
  show subject: "rc_distanceKm (cf_subject frame) = clampRange p 0 1 * km" by (simp only: f at c)
  show center: "rc_distanceKm (cf_center frame) = max 0 (clampRange p 0 1 * km - replayChaseFollowDistanceKm km)"
    using assms(4) by (simp only: f at c) (simp add: max_mult_distrib_right left_diff_distrib)
  show lookahead: "rc_distanceKm (cf_lookahead frame) = min km (clampRange p 0 1 * km + replayChaseLookaheadDistanceKm km)"
    using assms(4) by (simp only: f at c) (simp add: min_mult_distrib_right distrib_right)
  have "0 \<le> clampRange p 0 1 * km" "clampRange p 0 1 * km \<le> km"
    using assms(4) clampRange_unit [of p] by (simp_all add: mult_left_le_one_le)
  then show "rc_distanceKm (cf_center frame) < rc_distanceKm (cf_lookahead frame)"
    using pos assms(4) unfolding center lookahead by linarith
  show "between (cp_points path) (cf_subject frame)"
    unfolding f path_def using assms(4) by (intro point_along_exact(3)) (simp add: km_def path_def)
qed

text \<open>
  The camera that chases a replayed packet measures along the whole path by distance: the packet is on the path,
  at its share of the length; the camera stays behind it by the follow distance, not before the start, and looks ahead
  by the lookahead distance, not past the end, and the two points it takes its bearing from never coincide.
\<close>

lemma camera_follows_packet:
  assumes "0 < cp_totalDistanceKm (buildPacketReplayChasePath segments)"
  shows "case replayChaseCameraFrame (buildPacketReplayChasePath segments) p z of frame \<Rightarrow>
     case cp_totalDistanceKm (buildPacketReplayChasePath segments) of km \<Rightarrow>
       between (cp_points (buildPacketReplayChasePath segments)) (cf_subject frame) \<and>
       rc_distanceKm (cf_subject frame) = clampRange p 0 1 * km \<and>
       rc_distanceKm (cf_center frame) = max 0 (clampRange p 0 1 * km - replayChaseFollowDistanceKm km) \<and>
       rc_distanceKm (cf_lookahead frame) = min km (clampRange p 0 1 * km + replayChaseLookaheadDistanceKm km) \<and>
       rc_distanceKm (cf_center frame) < rc_distanceKm (cf_lookahead frame)"
  using camera_frame_exact [OF assms, of p z] by simp

lemma camera_follows_packet_witness:
  "rc_distanceKm (cf_subject (replayChaseCameraFrame
     (buildPacketReplayChasePath [sample_segment ''r1'' ''a'' ''b'', sample_segment ''r2'' ''b'' ''c'']) (1 / 4) 8)) = 5"
proof -
  have d: "segmentDistance (sample_segment r a b) = 10" for r a b
    by (simp add: segmentDistance_def safeSegmentDistanceKm_def sample_segment_def MIN_SEGMENT_DISTANCE_KM_def)
  have km: "cp_totalDistanceKm (buildPacketReplayChasePath [sample_segment ''r1'' ''a'' ''b'', sample_segment ''r2'' ''b'' ''c'']) = 20"
    by (simp add: buildPacketReplayChasePath_def chaseSegment_def d Let_def)
  have "0 < cp_totalDistanceKm (buildPacketReplayChasePath [sample_segment ''r1'' ''a'' ''b'', sample_segment ''r2'' ''b'' ''c''])"
    by (simp add: km)
  from camera_follows_packet [OF this, of "1 / 4" 8] show ?thesis by (simp add: km clampRange_def)
qed

end
