(* ===== verification/Map_Actions.thy ===== *)
theory Map_Actions
  imports Dashboard Map_Camera Replay_Chase
begin

text \<open>
  The other end of the actions of the dashboard: the effect of \<open>CanadaMap.tsx\<close> on a map action, the timer of a replay, and
  the camera that chases the replayed packet (\<open>startReplayChaseCamera\<close>, \<open>stopReplayChaseCamera\<close>). The state is what these
  share: the pending timer of the replay, the chase with its own timer and its two listeners, and what the camera, the
  analysis route and the animator were told. Whether the three-dimensional layer takes a pulse is an argument
  (\<open>in3D\<close>), as is the view of the map at an event. The chase has its timer exactly while \<open>ma_chase\<close> is there.
\<close>

section \<open>State\<close>

datatype ActionMove =
    PlainMove CameraMove
  | PoseMove "js_number \<times> js_number" js_number js_number js_number js_number
    \<comment> \<open>centre, zoom, pitch, bearing and duration\<close>

record PendingReplay =
  pd_segments :: "PublicRouteSegment list"
  pd_pulse :: PublicRoutePulse
  pd_travelDurationMs :: js_number
  pd_forceCanvas :: bool
  pd_delayMs :: js_number

record Chase =
  ch_path :: ReplayChasePath
  ch_steps :: js_number
  ch_stepMs :: js_number
  ch_zoomAtStart :: js_number
  ch_index :: js_number

record MapActions =
  ma_openFreeMap :: bool
  ma_liveComets :: bool
  ma_replay :: "PendingReplay option"
  ma_chase :: "Chase option"
  ma_listening :: bool
  ma_moves :: "ActionMove list"
  ma_analysis :: "PublicRouteSegment list"
  ma_playing :: "(bool \<times> PublicRoutePulse) list"

definition tell_camera :: "CameraMove list \<Rightarrow> MapActions \<Rightarrow> MapActions" where
  "tell_camera moves s = s\<lparr>ma_moves := ma_moves s @ map PlainMove moves\<rparr>"

section \<open>The chase\<close>

definition stopReplayChaseCamera :: "MapActions \<Rightarrow> MapActions" where
  "stopReplayChaseCamera s = s\<lparr>ma_chase := None, ma_listening := False\<rparr>"

definition chase_steps :: "js_number \<Rightarrow> js_number" where
  "chase_steps travelDurationMs = max 12 (min 34 (js_round (travelDurationMs / 260)))"

definition chase_stepMs :: "js_number \<Rightarrow> js_number" where
  "chase_stepMs travelDurationMs = max 170 (js_round (travelDurationMs / chase_steps travelDurationMs))"

definition chase_progress :: "Chase \<Rightarrow> js_number" where
  "chase_progress c = min (985 / 1000) (ch_index c / max 1 (ch_steps c))"

text \<open>\<open>step\<close>: a move of the camera, then another timer or the end.\<close>

definition chase_step :: "Chase \<Rightarrow> MapActions \<Rightarrow> MapActions" where
  "chase_step c s =
     (let frame = replayChaseCameraFrame (ch_path c) (chase_progress c) (ch_zoomAtStart c);
          index = ch_index c + 1;
          s1 = s\<lparr>ma_moves := ma_moves s @ [PoseMove (rc_lng (cf_center frame), rc_lat (cf_center frame)) (cf_zoom frame)
                   (cf_pitch frame) (cf_bearing frame) (ch_stepMs c + 60)]\<rparr>
      in if index \<le> ch_steps c then s1\<lparr>ma_chase := Some (c\<lparr>ch_index := index\<rparr>)\<rparr>
         else s1\<lparr>ma_chase := None, ma_listening := False\<rparr>)"

definition startReplayChaseCamera :: "MapHostView \<Rightarrow> PublicRouteSegment list \<Rightarrow> js_number \<Rightarrow> MapActions \<Rightarrow> MapActions" where
  "startReplayChaseCamera m segments travelDurationMs s =
     (let path = buildPacketReplayChasePath segments
      in if \<not> ma_openFreeMap s \<or> segments = [] \<or> cp_totalDistanceKm path \<le> 0 \<or> length (cp_points path) < 2 then s
         else chase_step
                \<lparr>ch_path = path, ch_steps = chase_steps travelDurationMs, ch_stepMs = chase_stepMs travelDurationMs,
                 ch_zoomAtStart = hv_zoom m, ch_index = 0\<rparr>
                ((stopReplayChaseCamera s)\<lparr>ma_listening := True\<rparr>))"

definition chaseTimerFires :: "MapActions \<Rightarrow> MapActions" where
  "chaseTimerFires s = (case ma_chase s of None \<Rightarrow> s | Some c \<Rightarrow> chase_step c s)"

text \<open>A pointer on the canvas, or its wheel.\<close>

definition userMovesMap :: "MapActions \<Rightarrow> MapActions" where
  "userMovesMap s = (if ma_listening s then stopReplayChaseCamera s else s)"

section \<open>An action\<close>

definition mapActionEffect :: "MapHostView \<Rightarrow> PublicNode list \<Rightarrow> PublicRoute list \<Rightarrow> MapAction option \<Rightarrow> MapActions \<Rightarrow> MapActions" where
  "mapActionEffect m nodes routes mapAction s =
     (case mapAction of
        None \<Rightarrow> s
      | Some action \<Rightarrow>
          let s0 = stopReplayChaseCamera (s\<lparr>ma_replay := None\<rparr>)
          in case action of
               ResetAction token \<Rightarrow> tell_camera (fitToNodes nodes 600) s0
             | LatestRouteAction token \<Rightarrow>
                 (case js_sort (by_desc rt_lastHeard) routes of
                    [] \<Rightarrow> s0
                  | latest # _ \<Rightarrow> tell_camera (fitToRoute latest 700) s0)
             | RouteAction token routeID \<Rightarrow>
                 (case find (\<lambda>route. rt_id route = routeID) routes of
                    None \<Rightarrow> s0
                  | Some route \<Rightarrow> tell_camera (fitToRoute route 700) s0)
             | PacketAction token segments \<Rightarrow> tell_camera (fitToSegments m segments 760 False) s0
             | PacketReplayAction token segments pulse settleMs travelDurationMs forceCanvas \<Rightarrow>
                 (tell_camera (fitToSegments m segments 900 True) ((tell_camera [StopMove] s0)\<lparr>ma_playing := [], ma_analysis := segments\<rparr>))
                   \<lparr>ma_replay := Some \<lparr>pd_segments = segments, pd_pulse = pulse, pd_travelDurationMs = travelDurationMs,
                                        pd_forceCanvas = forceCanvas, pd_delayMs = 900 + settleMs\<rparr>\<rparr>
             | NodeAction token nodeID \<Rightarrow>
                 (case find (\<lambda>node. pn_id node = nodeID) nodes of
                    None \<Rightarrow> s0
                  | Some node \<Rightarrow> tell_camera [EaseTo (pn_longitude node, pn_latitude node) (max (hv_zoom m) 8) 700] s0)
             | RegionAction token label latitude longitude \<Rightarrow>
                 s0\<lparr>ma_moves := ma_moves s0 @ [PoseMove (longitude, latitude) (max (45 / 10) (min (hv_zoom m) (625 / 100))) 0 0 700]\<rparr>)"

definition replayTimerFires :: "MapHostView \<Rightarrow> bool \<Rightarrow> MapActions \<Rightarrow> MapActions" where
  "replayTimerFires m in3D s =
     (case ma_replay s of
        None \<Rightarrow> s
      | Some replay \<Rightarrow>
          let s1 = s\<lparr>ma_replay := None\<rparr>
          in if \<not> ma_liveComets s1 then s1
             else let s2 = startReplayChaseCamera m (pd_segments replay) (pd_travelDurationMs replay) s1;
                      shown3D = (\<not> pd_forceCanvas replay \<and> in3D)
                  in s2\<lparr>ma_playing := ma_playing s2 @ [(shown3D, pd_pulse replay)]\<rparr>)"

text \<open>The effect of the button that clears the trails, and the end of the map.\<close>

definition clearTrails :: "MapActions \<Rightarrow> MapActions" where
  "clearTrails s = s\<lparr>ma_playing := [], ma_replay := None\<rparr>"

definition unmountMapActions :: "MapActions \<Rightarrow> MapActions" where
  "unmountMapActions s = stopReplayChaseCamera (s\<lparr>ma_replay := None\<rparr>)"

definition idleMapActions :: "bool \<Rightarrow> bool \<Rightarrow> MapActions" where
  "idleMapActions openFreeMap liveComets =
     \<lparr>ma_openFreeMap = openFreeMap, ma_liveComets = liveComets, ma_replay = None, ma_chase = None, ma_listening = False, ma_moves = [],
      ma_analysis = [], ma_playing = []\<rparr>"

section \<open>The chase comes to its end\<close>

lemma js_round_near: "\<bar>js_round x - x\<bar> \<le> 1 / 2"
  unfolding js_round_def by linarith

lemma js_round_mono: "x \<le> y \<Longrightarrow> js_round x \<le> js_round y"
  unfolding js_round_def by (simp add: floor_mono)

lemma chase_steps_nat: obtains n where "chase_steps travel = real n" "12 \<le> n" "n \<le> 34"
proof -
  obtain i where i: "js_round (travel / 260) = of_int i" by (simp add: js_round_def)
  have "chase_steps travel = real (nat (max 12 (min 34 i)))" by (simp add: chase_steps_def i)
  moreover have "12 \<le> nat (max 12 (min 34 i))" "nat (max 12 (min 34 i)) \<le> 34" by auto
  ultimately show ?thesis by (rule that)
qed

definition chase_pose :: "Chase \<Rightarrow> nat \<Rightarrow> ActionMove" where
  "chase_pose c i =
     (let frame = replayChaseCameraFrame (ch_path c) (chase_progress (c\<lparr>ch_index := real i\<rparr>)) (ch_zoomAtStart c)
      in PoseMove (rc_lng (cf_center frame), rc_lat (cf_center frame)) (cf_zoom frame) (cf_pitch frame) (cf_bearing frame)
           (ch_stepMs c + 60))"

lemma chase_step_at:
  "chase_step (c\<lparr>ch_index := real i\<rparr>) s =
     (if real i + 1 \<le> ch_steps c
      then s\<lparr>ma_moves := ma_moves s @ [chase_pose c i], ma_chase := Some (c\<lparr>ch_index := real (i + 1)\<rparr>)\<rparr>
      else s\<lparr>ma_moves := ma_moves s @ [chase_pose c i], ma_chase := None, ma_listening := False\<rparr>)"
  by (simp add: chase_step_def chase_pose_def chase_progress_def Let_def add.commute)

lemma chase_runs:
  "ch_steps c = real n \<Longrightarrow> i \<le> n \<Longrightarrow> ma_chase s = Some (c\<lparr>ch_index := real i\<rparr>) \<Longrightarrow>
     (chaseTimerFires ^^ (n + 1 - i)) s = s\<lparr>ma_moves := ma_moves s @ map (chase_pose c) [i..<n + 1], ma_chase := None, ma_listening := False\<rparr>"
proof (induction "n - i" arbitrary: i s)
  case 0
  then have "i = n" by simp
  then show ?case using 0 by (simp add: chaseTimerFires_def chase_step_at)
next
  case (Suc k)
  then have i: "i < n" "n + 1 - i = Suc (n + 1 - (i + 1))" "[i..<n + 1] = i # [i + 1..<n + 1]"
    by (auto simp: upt_conv_Cons)
  have first: "chaseTimerFires s = s\<lparr>ma_moves := ma_moves s @ [chase_pose c i], ma_chase := Some (c\<lparr>ch_index := real (i + 1)\<rparr>)\<rparr>"
    using Suc.prems i by (simp add: chaseTimerFires_def chase_step_at)
  have "(chaseTimerFires ^^ (n + 1 - (i + 1))) (chaseTimerFires s)
      = (chaseTimerFires s)\<lparr>ma_moves := ma_moves (chaseTimerFires s) @ map (chase_pose c) [i + 1..<n + 1], ma_chase := None, ma_listening := False\<rparr>"
    using Suc i by (intro Suc.hyps(1)) (simp_all add: first)
  moreover have "[i..<Suc n] = i # [Suc i..<Suc n]" using i(1) by (simp add: upt_conv_Cons)
  ultimately show ?case unfolding i(2) funpow_Suc_right comp_def by (simp add: first del: upt_Suc)
qed

definition chase_of :: "MapHostView \<Rightarrow> PublicRouteSegment list \<Rightarrow> js_number \<Rightarrow> Chase" where
  "chase_of m segments travel =
     \<lparr>ch_path = buildPacketReplayChasePath segments, ch_steps = chase_steps travel, ch_stepMs = chase_stepMs travel,
      ch_zoomAtStart = hv_zoom m, ch_index = 0\<rparr>"

lemma chase_path_ready:
  "0 < cp_totalDistanceKm (buildPacketReplayChasePath segments) \<Longrightarrow>
     2 \<le> length (cp_points (buildPacketReplayChasePath segments)) \<and> segments \<noteq> []"
  using path_measured [of segments] by (auto simp: measured_def buildPacketReplayChasePath_def)

lemma chase_progress_mono: "i \<le> j \<Longrightarrow> chase_progress (c\<lparr>ch_index := i\<rparr>) \<le> chase_progress (c\<lparr>ch_index := j\<rparr>)"
proof -
  assume "i \<le> j"
  then have "i / max 1 (ch_steps c) \<le> j / max 1 (ch_steps c)" by (intro divide_right_mono) simp_all
  from min.mono [OF order_refl this, of "985 / 1000"] show ?thesis by (simp add: chase_progress_def)
qed

text \<open>
  C38. A chase comes to its end: if nobody touches the map, the camera makes one move at once and one for each firing of
  the timer, 13 to 35 in all, along the path of the packet and never backwards; after that no timer and no listener of
  the chase is left.
\<close>

theorem replay_chase_ends:
  assumes "ma_openFreeMap s" and "0 < cp_totalDistanceKm (buildPacketReplayChasePath segments)"
  shows "\<exists>n. 12 \<le> n \<and> n \<le> 34
    \<and> (chaseTimerFires ^^ n) (startReplayChaseCamera m segments travel s)
        = s\<lparr>ma_moves := ma_moves s @ map (chase_pose (chase_of m segments travel)) [0..<n + 1], ma_chase := None, ma_listening := False\<rparr>
    \<and> sorted (map (\<lambda>i. chase_progress ((chase_of m segments travel)\<lparr>ch_index := real i\<rparr>)) [0..<n + 1])"
proof -
  obtain n where n: "chase_steps travel = real n" "12 \<le> n" "n \<le> 34" by (rule chase_steps_nat)
  let ?c = "chase_of m segments travel"
  let ?s = "(stopReplayChaseCamera s)\<lparr>ma_listening := True\<rparr>"
  have c: "?c\<lparr>ch_index := 0\<rparr> = ?c" "ch_steps ?c = real n" by (simp_all add: chase_of_def n)
  have "startReplayChaseCamera m segments travel s = chase_step ?c ?s"
    using assms chase_path_ready [OF assms(2)] by (simp add: startReplayChaseCamera_def chase_of_def Let_def)
  then have start: "startReplayChaseCamera m segments travel s
      = ?s\<lparr>ma_moves := ma_moves s @ [chase_pose ?c 0], ma_chase := Some (?c\<lparr>ch_index := real 1\<rparr>)\<rparr>"
    using chase_step_at [where c = ?c and i = 0 and s = ?s] n by (simp add: c stopReplayChaseCamera_def)
  have one: "[0..<n + 1] = 0 # [1..<n + 1]" by (simp add: upt_conv_Cons del: upt_Suc)
  have "(chaseTimerFires ^^ (n + 1 - 1)) (startReplayChaseCamera m segments travel s)
      = (startReplayChaseCamera m segments travel s)\<lparr>ma_moves := ma_moves (startReplayChaseCamera m segments travel s)
          @ map (chase_pose ?c) [1..<n + 1], ma_chase := None, ma_listening := False\<rparr>"
    using n by (intro chase_runs [OF c(2)]) (simp_all add: start)
  then have "(chaseTimerFires ^^ n) (startReplayChaseCamera m segments travel s)
      = s\<lparr>ma_moves := ma_moves s @ map (chase_pose ?c) [0..<n + 1], ma_chase := None, ma_listening := False\<rparr>"
    unfolding one by (simp add: start stopReplayChaseCamera_def del: upt_Suc)
  moreover have "sorted (map (\<lambda>i. chase_progress (?c\<lparr>ch_index := real i\<rparr>)) [0..<n + 1])"
    unfolding sorted_map by (rule sorted_wrt_mono_rel [OF _ sorted_upt]) (simp add: chase_progress_mono)
  ultimately show ?thesis using n by blast
qed

text \<open>A hop of 10 km.\<close>

theorem replay_chase_ends_witness:
  "\<exists>n. 12 \<le> n \<and> n \<le> 34
    \<and> ma_chase ((chaseTimerFires ^^ n) (startReplayChaseCamera sample_view [sample_segment ''r'' ''a'' ''b''] 6000 (idleMapActions True True))) = None
    \<and> length (ma_moves ((chaseTimerFires ^^ n) (startReplayChaseCamera sample_view [sample_segment ''r'' ''a'' ''b''] 6000 (idleMapActions True True))))
        = n + 1"
proof -
  have d: "segmentDistance (sample_segment r a b) = 10" for r a b
    by (simp add: segmentDistance_def safeSegmentDistanceKm_def sample_segment_def MIN_SEGMENT_DISTANCE_KM_def)
  have "ma_openFreeMap (idleMapActions True True)" by (simp add: idleMapActions_def)
  moreover have "0 < cp_totalDistanceKm (buildPacketReplayChasePath [sample_segment ''r'' ''a'' ''b''])"
    by (simp add: buildPacketReplayChasePath_def chaseSegment_def d Let_def)
  ultimately obtain n where "12 \<le> n" "n \<le> 34" and end_state:
    "(chaseTimerFires ^^ n) (startReplayChaseCamera sample_view [sample_segment ''r'' ''a'' ''b''] 6000 (idleMapActions True True))
       = (idleMapActions True True)\<lparr>ma_moves := ma_moves (idleMapActions True True)
           @ map (chase_pose (chase_of sample_view [sample_segment ''r'' ''a'' ''b''] 6000)) [0..<n + 1], ma_chase := None, ma_listening := False\<rparr>"
    using replay_chase_ends [of "idleMapActions True True" "[sample_segment ''r'' ''a'' ''b'']" sample_view 6000] by blast
  then show ?thesis by (intro exI [of _ n]) (simp only: end_state, simp add: idleMapActions_def)
qed

section \<open>The chase lasts as long as the packet\<close>

lemma replay_duration_bounds:
  "2000 \<le> cinematicPacketReplayDuration segmentCount speed" "cinematicPacketReplayDuration segmentCount speed \<le> 18000"
proof -
  define hop where "hop = min 3000 (max 0 (segmentCount - 4) * 420)"
  define safe where "safe = (case speed of Fin x \<Rightarrow> max (1 / 2) (min 3 x) | _ \<Rightarrow> 1)"
  have hop: "0 \<le> hop" "hop \<le> 3000" by (simp_all add: hop_def)
  have safe: "1 / 2 \<le> safe" "safe \<le> 3" by (auto simp: safe_def split: js_double.split)
  have d: "cinematicPacketReplayDuration segmentCount speed = js_round ((6000 + hop) / safe)"
    by (simp add: cinematicPacketReplayDuration.simps hop_def safe_def Let_def)
  have "2000 \<le> (6000 + hop) / safe" "(6000 + hop) / safe \<le> 18000" using hop safe by (simp_all add: le_divide_eq divide_le_eq)
  from this [THEN js_round_mono] show "2000 \<le> cinematicPacketReplayDuration segmentCount speed"
    "cinematicPacketReplayDuration segmentCount speed \<le> 18000"
    by (simp_all add: d js_round_def)
qed

lemma scaled_round: "0 < n \<Longrightarrow> \<bar>n * js_round (d / n) - d\<bar> \<le> n / 2"
proof -
  assume "0 < n"
  then have "n * js_round (d / n) - d = n * (js_round (d / n) - d / n)" by (simp add: right_diff_distrib)
  then have "\<bar>n * js_round (d / n) - d\<bar> = n * \<bar>js_round (d / n) - d / n\<bar>" using \<open>0 < n\<close> by (simp add: abs_mult)
  also have "\<dots> \<le> n * (1 / 2)" using js_round_near \<open>0 < n\<close> by (intro mult_left_mono) simp_all
  finally show ?thesis by simp
qed

text \<open>
  The chase and the packet end together: for every replay the dashboard can ask for, the timers of the chase add up to
  the time the packet travels, up to 40 milliseconds.
\<close>

lemma chase_lasts_as_long_as_packet:
  "\<bar>chase_steps (cinematicPacketReplayDuration segmentCount speed) * chase_stepMs (cinematicPacketReplayDuration segmentCount speed)
     - cinematicPacketReplayDuration segmentCount speed\<bar> \<le> 40"
proof -
  define d where "d = cinematicPacketReplayDuration segmentCount speed"
  have d: "2000 \<le> d" "d \<le> 18000" using replay_duration_bounds by (simp_all add: d_def)
  obtain n where n: "chase_steps d = real n" "12 \<le> n" "n \<le> 34" by (rule chase_steps_nat)
  have near: "\<bar>real n * js_round (d / real n) - d\<bar> \<le> real n / 2" using n by (intro scaled_round) simp
  have "\<bar>real n * chase_stepMs d - d\<bar> \<le> 40"
  proof (cases "170 \<le> js_round (d / real n)")
    case True
    then have "chase_stepMs d = js_round (d / real n)" by (simp add: chase_stepMs_def n(1))
    then show ?thesis using near n(3) by simp
  next
    case False
    then have step: "chase_stepMs d = 170" by (simp add: chase_stepMs_def n(1))
    have "d / real n < 170 + 1 / 2" using False js_round_near [of "d / real n"] by linarith
    then have below: "d < real n * (170 + 1 / 2)" using n(2) by (simp add: divide_less_eq mult.commute)
    have "n = 12"
    proof (rule ccontr)
      assume "n \<noteq> 12"
      then have "real n \<le> js_round (d / 260)" using n unfolding chase_steps_def by (simp add: max_def min_def split: if_splits)
      then have "real n - 1 / 2 \<le> d / 260" using js_round_near [of "d / 260"] by linarith
      then have "260 * (real n - 1 / 2) \<le> d" by (simp add: le_divide_eq)
      then show False using below n(2) \<open>n \<noteq> 12\<close> by simp
    qed
    then show ?thesis using step below d by (simp add: abs_le_iff)
  qed
  then show ?thesis by (simp only: d_def [symmetric] n(1))
qed

section \<open>The user takes the camera\<close>

datatype action_event =
    ActionArrives MapHostView "PublicNode list" "PublicRoute list" "MapAction option"
  | ReplayTimer MapHostView bool
  | ChaseTimer
  | UserMovesMap
  | ClearTrails
  | BaseChanges bool
  | CometsSwitched bool

fun action_step :: "MapActions \<Rightarrow> action_event \<Rightarrow> MapActions" where
  "action_step s (ActionArrives m nodes routes action) = mapActionEffect m nodes routes action s"
| "action_step s (ReplayTimer m in3D) = replayTimerFires m in3D s"
| "action_step s ChaseTimer = chaseTimerFires s"
| "action_step s UserMovesMap = userMovesMap s"
| "action_step s ClearTrails = clearTrails s"
| "action_step s (BaseChanges openFreeMap) = s\<lparr>ma_openFreeMap := openFreeMap\<rparr>"
| "action_step s (CometsSwitched on) = s\<lparr>ma_liveComets := on\<rparr>"

definition chase_heard :: "MapActions \<Rightarrow> bool" where
  "chase_heard s \<longleftrightarrow> (ma_chase s \<noteq> None) = ma_listening s"

lemma chase_heard_step: "ma_listening s \<Longrightarrow> chase_heard (chase_step c s)"
  by (simp add: chase_step_def chase_heard_def Let_def)

lemma tell_camera_frame [simp]:
  "ma_chase (tell_camera moves s) = ma_chase s" "ma_listening (tell_camera moves s) = ma_listening s"
  by (simp_all add: tell_camera_def)

lemma action_stops_chase: "chase_heard s \<Longrightarrow> chase_heard (mapActionEffect m nodes routes action s)"
  by (simp add: mapActionEffect_def chase_heard_def stopReplayChaseCamera_def Let_def split: option.split MapAction.split list.split)

lemma chase_heard_start: "chase_heard s \<Longrightarrow> chase_heard (startReplayChaseCamera m segments travel s)"
  by (simp add: startReplayChaseCamera_def chase_heard_step Let_def)

lemma chase_heard_keep: "chase_heard s \<Longrightarrow> ma_chase s' = ma_chase s \<Longrightarrow> ma_listening s' = ma_listening s \<Longrightarrow> chase_heard s'"
  by (simp add: chase_heard_def)

lemma chase_heard_event: "chase_heard s \<Longrightarrow> chase_heard (action_step s e)"
proof (cases e)
  case (ActionArrives m nodes routes action)
  assume "chase_heard s"
  then show ?thesis by (simp add: ActionArrives action_stops_chase)
next
  case (ReplayTimer m in3D)
  assume s: "chase_heard s"
  show ?thesis
  proof (cases "ma_replay s")
    case (Some replay)
    have "chase_heard (startReplayChaseCamera m (pd_segments replay) (pd_travelDurationMs replay) (s\<lparr>ma_replay := None\<rparr>))"
      using s by (intro chase_heard_start) (simp add: chase_heard_def)
    then show ?thesis using s Some by (auto simp: ReplayTimer replayTimerFires_def Let_def chase_heard_def)
  qed (use s in \<open>simp add: ReplayTimer replayTimerFires_def\<close>)
next
  case ChaseTimer
  assume "chase_heard s"
  then show ?thesis by (cases "ma_chase s") (simp_all add: ChaseTimer chaseTimerFires_def chase_heard_step chase_heard_def [of s])
qed (simp_all add: chase_heard_def userMovesMap_def stopReplayChaseCamera_def clearTrails_def)

lemma chase_heard_run: "chase_heard (foldl action_step (idleMapActions openFreeMap liveComets) events)"
  by (rule foldl_invariant) (simp_all add: chase_heard_event, simp add: chase_heard_def idleMapActions_def)

text \<open>
  The camera belongs to the user: after a pointer or the wheel touched the map, whatever replay was chased, the timers
  of the chase move nothing any more until another action or the timer of a replay.
\<close>

lemma user_takes_camera:
  "(chaseTimerFires ^^ n) (userMovesMap (foldl action_step (idleMapActions openFreeMap liveComets) events))
     = userMovesMap (foldl action_step (idleMapActions openFreeMap liveComets) events)"
proof -
  let ?s = "foldl action_step (idleMapActions openFreeMap liveComets) events"
  have "ma_chase (userMovesMap ?s) = None"
    using chase_heard_run [of openFreeMap liveComets events]
    by (auto simp: userMovesMap_def stopReplayChaseCamera_def chase_heard_def)
  then have "chaseTimerFires (userMovesMap ?s) = userMovesMap ?s" by (simp add: chaseTimerFires_def)
  then show ?thesis by (induction n) simp_all
qed

text \<open>Clearing the trails ends the pending replay, but a chase which runs goes on.\<close>

lemma clear_keeps_chase: "ma_replay (clearTrails s) = None \<and> ma_chase (clearTrails s) = ma_chase s"
  by (simp add: clearTrails_def)

end
