(* ===== verification/Panel_Chrome.thy ===== *)
theory Panel_Chrome
  imports Map_Geo
begin

text \<open>
  The floating panels: \<open>src/web/src/components/panelChrome.ts\<close> (where a panel may stand, which anchor is nearest, which
  panels are visible), the dragging of \<open>ChromePanel.tsx\<close> and the callbacks of \<open>App.tsx\<close> which connect them. The state is
  the record \<open>ChromeApp\<close>: which panels are visible and where each is anchored. What the browser measures (the rectangle
  of the panel, the window, the property of the shell) is an argument.
\<close>

section \<open>Panels and anchors\<close>

datatype ChromePanelID = Search | Legend | HotRoutes

datatype ChromePanelAnchor = TopLeft | TopLeftStack | TopRight | BottomLeft | BottomRight | LeftEdge | RightEdge

fun anchor_value :: "ChromePanelAnchor \<Rightarrow> string" where
  "anchor_value TopLeft = ''top-left''"
| "anchor_value TopLeftStack = ''top-left-stack''"
| "anchor_value TopRight = ''top-right''"
| "anchor_value BottomLeft = ''bottom-left''"
| "anchor_value BottomRight = ''bottom-right''"
| "anchor_value LeftEdge = ''left''"
| "anchor_value RightEdge = ''right''"

definition CHROME_PANEL_ANCHORS :: "(ChromePanelAnchor \<times> string) list" where
  "CHROME_PANEL_ANCHORS =
     [(TopLeft, ''Top left''), (TopLeftStack, ''Under search''), (TopRight, ''Top right''), (BottomLeft, ''Bottom left''),
      (BottomRight, ''Bottom right''), (LeftEdge, ''Left edge''), (RightEdge, ''Right edge'')]"

fun DEFAULT_CHROME_PANEL_ANCHORS :: "ChromePanelID \<Rightarrow> ChromePanelAnchor" where
  "DEFAULT_CHROME_PANEL_ANCHORS Search = TopLeft"
| "DEFAULT_CHROME_PANEL_ANCHORS Legend = TopLeftStack"
| "DEFAULT_CHROME_PANEL_ANCHORS HotRoutes = TopRight"

definition DEFAULT_CHROME_PANEL_VISIBILITY :: "ChromePanelID \<Rightarrow> bool" where
  "DEFAULT_CHROME_PANEL_VISIBILITY panel = True"

definition INITIAL_CHROME_PANEL_VISIBILITY :: "ChromePanelID \<Rightarrow> bool" where
  "INITIAL_CHROME_PANEL_VISIBILITY panel = (panel = Search)"

fun CHROME_PANEL_SNAP_KEYS :: "ChromePanelAnchor \<Rightarrow> string" where
  "CHROME_PANEL_SNAP_KEYS TopLeft = ''1''"
| "CHROME_PANEL_SNAP_KEYS TopLeftStack = ''2''"
| "CHROME_PANEL_SNAP_KEYS TopRight = ''3''"
| "CHROME_PANEL_SNAP_KEYS BottomLeft = ''4''"
| "CHROME_PANEL_SNAP_KEYS BottomRight = ''5''"
| "CHROME_PANEL_SNAP_KEYS LeftEdge = ''6''"
| "CHROME_PANEL_SNAP_KEYS RightEdge = ''7''"

record ViewportBounds =
  vb_width :: js_number
  vb_height :: js_number
  vb_margin :: "js_number option"
  vb_topInset :: "js_number option"
  vb_topStackOffset :: "js_number option"
  vb_bottomInset :: "js_number option"

record PanelSize =
  sz_width :: js_number
  sz_height :: js_number

record PanelPoint =
  pt_x :: js_number
  pt_y :: js_number

section \<open>Where a panel stands\<close>

text \<open>The defaults which the functions of the file share.\<close>

definition margin_of :: "ViewportBounds \<Rightarrow> js_number" where "margin_of v = or_else (vb_margin v) 10"
definition topInset_of :: "ViewportBounds \<Rightarrow> js_number" where "topInset_of v = or_else (vb_topInset v) (margin_of v)"
definition bottomInset_of :: "ViewportBounds \<Rightarrow> js_number" where "bottomInset_of v = or_else (vb_bottomInset v) (margin_of v)"
definition topStackOffset_of :: "ViewportBounds \<Rightarrow> js_number" where "topStackOffset_of v = or_else (vb_topStackOffset v) 76"

definition clampPanelPosition :: "PanelPoint \<Rightarrow> PanelSize \<Rightarrow> ViewportBounds \<Rightarrow> PanelPoint" where
  "clampPanelPosition position panel viewport =
     (let maxX = max (margin_of viewport) (vb_width viewport - sz_width panel - margin_of viewport);
          maxY = max (topInset_of viewport) (vb_height viewport - sz_height panel - bottomInset_of viewport)
      in \<lparr>pt_x = clamp (pt_x position) (margin_of viewport) maxX, pt_y = clamp (pt_y position) (topInset_of viewport) maxY\<rparr>)"

fun anchor_point :: "ChromePanelAnchor \<Rightarrow> PanelSize \<Rightarrow> ViewportBounds \<Rightarrow> PanelPoint" where
  "anchor_point anchor panel viewport =
     (let margin = margin_of viewport; topInset = topInset_of viewport; bottomInset = bottomInset_of viewport;
          centerY = max topInset (js_round ((vb_height viewport - sz_height panel - bottomInset + topInset) / 2));
          rightX = vb_width viewport - sz_width panel - margin;
          bottomY = vb_height viewport - sz_height panel - bottomInset
      in case anchor of
           TopLeft \<Rightarrow> \<lparr>pt_x = margin, pt_y = topInset\<rparr>
         | TopLeftStack \<Rightarrow> \<lparr>pt_x = margin, pt_y = topInset + topStackOffset_of viewport\<rparr>
         | TopRight \<Rightarrow> \<lparr>pt_x = rightX, pt_y = topInset\<rparr>
         | BottomLeft \<Rightarrow> \<lparr>pt_x = margin, pt_y = bottomY\<rparr>
         | BottomRight \<Rightarrow> \<lparr>pt_x = rightX, pt_y = bottomY\<rparr>
         | LeftEdge \<Rightarrow> \<lparr>pt_x = margin, pt_y = centerY\<rparr>
         | RightEdge \<Rightarrow> \<lparr>pt_x = rightX, pt_y = centerY\<rparr>)"

declare anchor_point.simps [simp del]

definition anchorPosition :: "ChromePanelAnchor \<Rightarrow> PanelSize \<Rightarrow> ViewportBounds \<Rightarrow> PanelPoint" where
  "anchorPosition anchor panel viewport = clampPanelPosition (anchor_point anchor panel viewport) panel viewport"

definition normalizePanelAnchor :: "ChromePanelID \<Rightarrow> ChromePanelAnchor \<Rightarrow> ChromePanelAnchor" where
  "normalizePanelAnchor panel anchor = (if panel = Legend \<and> anchor = TopLeft then TopLeftStack else anchor)"

definition panel_center :: "PanelPoint \<Rightarrow> PanelSize \<Rightarrow> PanelPoint" where
  "panel_center position panel = \<lparr>pt_x = pt_x position + sz_width panel / 2, pt_y = pt_y position + sz_height panel / 2\<rparr>"

definition point_distance :: "PanelPoint \<Rightarrow> PanelPoint \<Rightarrow> js_number" where
  "point_distance p q = sqrt ((pt_x p - pt_x q)\<^sup>2 + (pt_y p - pt_y q)\<^sup>2)"

text \<open>The distance is infinite (\<open>None\<close>) until the first anchor has been looked at.\<close>

definition nearest_step ::
  "PanelPoint \<Rightarrow> PanelSize \<Rightarrow> ViewportBounds \<Rightarrow> ChromePanelAnchor \<times> js_number option \<Rightarrow> ChromePanelAnchor
     \<Rightarrow> ChromePanelAnchor \<times> js_number option" where
  "nearest_step point panel viewport found option =
     (let distance = point_distance point (panel_center (anchorPosition option panel viewport) panel)
      in if (case snd found of None \<Rightarrow> True | Some nearestDistance \<Rightarrow> distance < nearestDistance)
         then (option, Some distance) else found)"

definition nearestPanelAnchor :: "PanelPoint \<Rightarrow> PanelSize \<Rightarrow> ViewportBounds \<Rightarrow> ChromePanelAnchor" where
  "nearestPanelAnchor point panel viewport =
     fst (foldl (nearest_step point panel viewport) (TopLeft, None) (map fst CHROME_PANEL_ANCHORS))"

section \<open>The menu of the anchors\<close>

record ChromePanelSnapMenuItem =
  mi_id :: string
  mi_value :: ChromePanelAnchor
  mi_label :: string
  mi_ariaLabel :: string
  mi_role :: string
  mi_checked :: bool
  mi_tabIndex :: int
  mi_key :: string
  mi_ariaKeyShortcuts :: string

definition chromePanelSnapMenuItems :: "ChromePanelAnchor \<Rightarrow> ChromePanelSnapMenuItem list" where
  "chromePanelSnapMenuItems currentAnchor =
     map (\<lambda>(value, label).
       \<lparr>mi_id = ''chrome-panel-snap-'' @ anchor_value value, mi_value = value, mi_label = label,
        mi_ariaLabel = ''Snap panel to '' @ js_lower label, mi_role = ''menuitemradio'',
        mi_checked = (value = currentAnchor), mi_tabIndex = (if value = currentAnchor then 0 else -1),
        mi_key = CHROME_PANEL_SNAP_KEYS value, mi_ariaKeyShortcuts = ''Alt+'' @ CHROME_PANEL_SNAP_KEYS value\<rparr>)
       CHROME_PANEL_ANCHORS"

section \<open>Which panels are visible\<close>

record ChromeVisibilityState =
  cv_chromeHidden :: bool
  cv_panels :: "ChromePanelID \<Rightarrow> bool"

datatype ChromeVisibilityAction = HideAll | ShowAll | ToggleAll | HidePanel ChromePanelID | ShowPanel ChromePanelID

definition allChromeVisible :: "ChromeVisibilityState \<Rightarrow> bool" where
  "allChromeVisible state \<longleftrightarrow> \<not> cv_chromeHidden state \<and> list_all (cv_panels state) [Search, Legend, HotRoutes]"

definition chromePanelVisible :: "ChromeVisibilityState \<Rightarrow> ChromePanelID \<Rightarrow> bool" where
  "chromePanelVisible state panel \<longleftrightarrow> \<not> cv_chromeHidden state \<and> cv_panels state panel"

fun reduceChromeVisibility :: "ChromeVisibilityState \<Rightarrow> ChromeVisibilityAction \<Rightarrow> ChromeVisibilityState" where
  "reduceChromeVisibility state HideAll = state\<lparr>cv_chromeHidden := True\<rparr>"
| "reduceChromeVisibility state ShowAll = \<lparr>cv_chromeHidden = False, cv_panels = DEFAULT_CHROME_PANEL_VISIBILITY\<rparr>"
| "reduceChromeVisibility state ToggleAll =
     (if allChromeVisible state then state\<lparr>cv_chromeHidden := True\<rparr>
      else \<lparr>cv_chromeHidden = False, cv_panels = DEFAULT_CHROME_PANEL_VISIBILITY\<rparr>)"
| "reduceChromeVisibility state (HidePanel panel) = state\<lparr>cv_panels := (cv_panels state)(panel := False)\<rparr>"
| "reduceChromeVisibility state (ShowPanel panel) =
     state\<lparr>cv_chromeHidden := False, cv_panels := (cv_panels state)(panel := True)\<rparr>"

text \<open>\<open>measure\<close> of \<open>useViewportBounds\<close>: the height of the bottom chrome is zero where there is no shell or no number.\<close>

definition measureViewport :: "js_number \<Rightarrow> js_number \<Rightarrow> js_number \<Rightarrow> ViewportBounds" where
  "measureViewport innerWidth innerHeight bottomChromeHeight =
     (let small = innerWidth \<le> 760
      in \<lparr>vb_width = innerWidth, vb_height = innerHeight, vb_margin = Some 10, vb_topInset = Some (if small then 48 else 92),
          vb_topStackOffset = Some (if small then 58 else 76), vb_bottomInset = Some (bottomChromeHeight + 18)\<rparr>)"

section \<open>The callbacks of the page\<close>

record ChromeApp =
  ca_visibility :: ChromeVisibilityState
  ca_anchors :: "ChromePanelID \<Rightarrow> ChromePanelAnchor"

definition initialChrome :: ChromeApp where
  "initialChrome =
     \<lparr>ca_visibility = \<lparr>cv_chromeHidden = False, cv_panels = INITIAL_CHROME_PANEL_VISIBILITY\<rparr>,
      ca_anchors = DEFAULT_CHROME_PANEL_ANCHORS\<rparr>"

definition toggleChromeVisibility :: "ChromeApp \<Rightarrow> ChromeApp" where
  "toggleChromeVisibility s =
     s\<lparr>ca_visibility := reduceChromeVisibility (ca_visibility s)
         (if cv_chromeHidden (ca_visibility s) then ShowAll else HideAll)\<rparr>"

definition hideChromePanel :: "ChromePanelID \<Rightarrow> ChromeApp \<Rightarrow> ChromeApp" where
  "hideChromePanel panel s = s\<lparr>ca_visibility := reduceChromeVisibility (ca_visibility s) (HidePanel panel)\<rparr>"

definition toggleChromePanel :: "ChromePanelID \<Rightarrow> ChromeApp \<Rightarrow> ChromeApp" where
  "toggleChromePanel panel s =
     s\<lparr>ca_visibility := reduceChromeVisibility (ca_visibility s)
         (if chromePanelVisible (ca_visibility s) panel then HidePanel panel else ShowPanel panel)\<rparr>"

definition setChromePanelAnchor :: "ChromePanelID \<Rightarrow> ChromePanelAnchor \<Rightarrow> ChromeApp \<Rightarrow> ChromeApp" where
  "setChromePanelAnchor panel anchor s =
     s\<lparr>ca_anchors := (ca_anchors s)(panel := normalizePanelAnchor panel anchor),
       ca_visibility := reduceChromeVisibility (ca_visibility s) (ShowPanel panel)\<rparr>"

section \<open>Dragging a panel\<close>

text \<open>
  A panel keeps its drag and the draft of its position. The rectangle of the frame is an argument (\<open>None\<close> when the frame
  is gone), as is the point of the pointer.
\<close>

record PanelRect =
  rc_left :: js_number
  rc_top :: js_number
  rc_size :: PanelSize

record DragState =
  ds_pointerId :: nat
  ds_offset :: PanelPoint
  ds_panel :: PanelSize

record PanelFrame =
  pf_drag :: "DragState option"
  pf_draftPosition :: "PanelPoint option"
  pf_panelSize :: PanelSize

definition measurePanel :: "PanelRect option \<Rightarrow> PanelFrame \<Rightarrow> PanelFrame" where
  "measurePanel rect f =
     (case rect of
        None \<Rightarrow> f
      | Some r \<Rightarrow> f\<lparr>pf_panelSize := \<lparr>sz_width = of_int \<lceil>sz_width (rc_size r)\<rceil>, sz_height = of_int \<lceil>sz_height (rc_size r)\<rceil>\<rparr>\<rparr>)"

definition startDrag :: "nat \<Rightarrow> nat \<Rightarrow> PanelPoint \<Rightarrow> PanelRect option \<Rightarrow> PanelFrame \<Rightarrow> PanelFrame" where
  "startDrag button pointerId client rect f =
     (if button \<noteq> 0 then f
      else case rect of
        None \<Rightarrow> f
      | Some r \<Rightarrow>
          f\<lparr>pf_drag := Some \<lparr>ds_pointerId = pointerId,
                              ds_offset = \<lparr>pt_x = pt_x client - rc_left r, pt_y = pt_y client - rc_top r\<rparr>,
                              ds_panel = rc_size r\<rparr>\<rparr>)"

definition updateDrag :: "nat \<Rightarrow> PanelPoint \<Rightarrow> ViewportBounds \<Rightarrow> PanelFrame \<Rightarrow> PanelFrame" where
  "updateDrag pointerId client viewport f =
     (case pf_drag f of
        None \<Rightarrow> f
      | Some drag \<Rightarrow>
          if ds_pointerId drag \<noteq> pointerId then f
          else f\<lparr>pf_draftPosition := Some (clampPanelPosition
                   \<lparr>pt_x = pt_x client - pt_x (ds_offset drag), pt_y = pt_y client - pt_y (ds_offset drag)\<rparr> (ds_panel drag) viewport)\<rparr>)"

text \<open>\<open>finishDrag\<close> answers the anchor it reports to \<open>onAnchorChange\<close>.\<close>

definition finishDrag ::
  "nat \<Rightarrow> PanelPoint \<Rightarrow> PanelRect option \<Rightarrow> ViewportBounds \<Rightarrow> PanelFrame \<Rightarrow> ChromePanelAnchor option \<times> PanelFrame" where
  "finishDrag pointerId client rect viewport f =
     (case pf_drag f of
        None \<Rightarrow> (None, f)
      | Some drag \<Rightarrow>
          if ds_pointerId drag \<noteq> pointerId then (None, f)
          else let panelSize = (case rect of Some r \<Rightarrow> rc_size r | None \<Rightarrow> ds_panel drag);
                   center = (case rect of
                       Some r \<Rightarrow> \<lparr>pt_x = rc_left r + sz_width (rc_size r) / 2, pt_y = rc_top r + sz_height (rc_size r) / 2\<rparr>
                     | None \<Rightarrow> client)
               in (Some (nearestPanelAnchor center panelSize viewport), f\<lparr>pf_drag := None, pf_draftPosition := None\<rparr>))"

definition snapWithKeyboard :: "ChromePanelAnchor \<Rightarrow> string \<Rightarrow> ChromePanelAnchor option" where
  "snapWithKeyboard anchor key =
     (let onRightSide = str_includes (anchor_value anchor) ''right''; atBottom = starts_with (anchor_value anchor) ''bottom''
      in if key = ''ArrowUp'' then Some (if onRightSide then TopRight else TopLeft)
         else if key = ''ArrowDown'' then Some (if onRightSide then BottomRight else BottomLeft)
         else if key = ''ArrowLeft'' then Some (if atBottom then BottomLeft else LeftEdge)
         else if key = ''ArrowRight'' then Some (if atBottom then BottomRight else RightEdge)
         else if key = ''Home'' then Some TopLeft
         else if key = ''End'' then Some BottomRight else None)"

definition anchoredPosition :: "ChromePanelAnchor \<Rightarrow> ViewportBounds \<Rightarrow> PanelFrame \<Rightarrow> PanelPoint" where
  "anchoredPosition anchor viewport f = or_else (pf_draftPosition f) (anchorPosition anchor (pf_panelSize f) viewport)"

section \<open>Panels stay on the screen\<close>

text \<open>What \<open>clampPanelPosition\<close> promises: the margins are kept at the left and the top, and where the panel fits also at the
  right and the bottom.\<close>

definition panel_fits :: "PanelSize \<Rightarrow> ViewportBounds \<Rightarrow> bool" where
  "panel_fits panel viewport \<longleftrightarrow>
     sz_width panel + 2 * margin_of viewport \<le> vb_width viewport
     \<and> sz_height panel + topInset_of viewport + bottomInset_of viewport \<le> vb_height viewport"

definition on_screen :: "PanelPoint \<Rightarrow> PanelSize \<Rightarrow> ViewportBounds \<Rightarrow> bool" where
  "on_screen position panel viewport \<longleftrightarrow>
     margin_of viewport \<le> pt_x position \<and> topInset_of viewport \<le> pt_y position
     \<and> pt_x position + sz_width panel \<le> vb_width viewport - margin_of viewport
     \<and> pt_y position + sz_height panel \<le> vb_height viewport - bottomInset_of viewport"

lemma clamp_on_screen: "panel_fits panel viewport \<Longrightarrow> on_screen (clampPanelPosition position panel viewport) panel viewport"
  by (auto simp: panel_fits_def on_screen_def clampPanelPosition_def clamp_def Let_def)

lemma clamp_keeps_corner:
  "margin_of viewport \<le> pt_x (clampPanelPosition position panel viewport)"
  "topInset_of viewport \<le> pt_y (clampPanelPosition position panel viewport)"
  by (auto simp: clampPanelPosition_def clamp_def Let_def)

lemma clamp_position_idem:
  "clampPanelPosition (clampPanelPosition position panel viewport) panel viewport = clampPanelPosition position panel viewport"
  by (auto simp: clampPanelPosition_def clamp_def Let_def)

lemma nearest_step_min:
  fixes point panel viewport
  defines "d \<equiv> \<lambda>a. point_distance point (panel_center (anchorPosition a panel viewport) panel)"
  shows "snd s = Some (d (fst s)) \<Longrightarrow> foldl (nearest_step point panel viewport) s xs = (a, r) \<Longrightarrow>
     r = Some (d a) \<and> d a \<le> d (fst s) \<and> list_all (\<lambda>x. d a \<le> d x) xs"
proof (induction xs arbitrary: s)
  case (Cons x xs)
  let ?t = "nearest_step point panel viewport s x"
  have t: "snd ?t = Some (d (fst ?t))" "d (fst ?t) \<le> d (fst s)" "d (fst ?t) \<le> d x"
    using Cons.prems(1) by (auto simp: nearest_step_def d_def Let_def)
  from Cons.IH [OF t(1)] Cons.prems(2) have "r = Some (d a) \<and> d a \<le> d (fst ?t) \<and> list_all (\<lambda>x. d a \<le> d x) xs" by simp
  then show ?case using t by auto
qed (auto simp: d_def)

lemma nearest_is_minimal:
  "list_all (\<lambda>x. point_distance point (panel_center (anchorPosition (nearestPanelAnchor point panel viewport) panel viewport) panel)
       \<le> point_distance point (panel_center (anchorPosition x panel viewport) panel)) (map fst CHROME_PANEL_ANCHORS)"
proof -
  let ?s = "nearest_step point panel viewport (TopLeft, None) TopLeft"
  let ?xs = "tl (map fst CHROME_PANEL_ANCHORS)"
  have s: "snd ?s = Some (point_distance point (panel_center (anchorPosition (fst ?s) panel viewport) panel))" "fst ?s = TopLeft"
    by (simp_all add: nearest_step_def Let_def)
  have all: "map fst CHROME_PANEL_ANCHORS = TopLeft # ?xs" by (simp add: CHROME_PANEL_ANCHORS_def)
  then have near: "nearestPanelAnchor point panel viewport = fst (foldl (nearest_step point panel viewport) ?s ?xs)"
    unfolding nearestPanelAnchor_def by (metis foldl_Cons)
  obtain a r where "foldl (nearest_step point panel viewport) ?s ?xs = (a, r)" by fastforce
  from nearest_step_min [OF s(1) this] this show ?thesis unfolding near by (subst all) (simp add: s(2))
qed

lemma anchor_listed: "anchor \<in> set (map fst CHROME_PANEL_ANCHORS)"
  by (cases anchor) (simp_all add: CHROME_PANEL_ANCHORS_def)

lemma distance_zero_iff: "point_distance p q = 0 \<longleftrightarrow> p = q"
  by (cases p, cases q) (auto simp: point_distance_def sum_power2_eq_zero_iff)

lemma panel_center_inject: "panel_center p panel = panel_center q panel \<Longrightarrow> p = q"
  by (cases p, cases q) (simp add: panel_center_def)

lemma nearest_of_own_position:
  "anchorPosition (nearestPanelAnchor (panel_center (anchorPosition anchor panel viewport) panel) panel viewport) panel viewport
     = anchorPosition anchor panel viewport"
proof -
  let ?c = "panel_center (anchorPosition anchor panel viewport) panel"
  let ?n = "panel_center (anchorPosition (nearestPanelAnchor ?c panel viewport) panel viewport) panel"
  have "point_distance ?c ?n \<le> point_distance ?c ?c"
    using nearest_is_minimal [of ?c panel viewport] anchor_listed [of anchor] unfolding list_all_iff by blast
  moreover have "0 \<le> point_distance ?c ?n" by (simp add: point_distance_def)
  ultimately have "point_distance ?c ?n = 0" by (simp add: distance_zero_iff [THEN iffD2, of ?c ?c, simplified])
  then show ?thesis by (metis distance_zero_iff panel_center_inject)
qed

text \<open>
  Taking a panel at its handle and letting it go again where it stands leaves it there, whatever the sizes of the panel
  and the window are: the anchor which \<open>finishDrag\<close> reports has the same position, even where several anchors coincide.
\<close>

lemma release_in_place_keeps_position:
  fixes f :: PanelFrame and panel viewport
  defines "rect \<equiv> \<lambda>anchor. \<lparr>rc_left = pt_x (anchorPosition anchor panel viewport), rc_top = pt_y (anchorPosition anchor panel viewport),
                             rc_size = panel\<rparr>"
  shows "map_option (\<lambda>a. anchorPosition a panel viewport)
           (fst (finishDrag pointerId client (Some (rect anchor)) viewport (startDrag 0 pointerId client (Some (rect anchor)) f)))
         = Some (anchorPosition anchor panel viewport)"
  using nearest_of_own_position [of anchor panel viewport]
  by (simp add: finishDrag_def startDrag_def rect_def panel_center_def Let_def)

definition drag_to :: "ViewportBounds \<Rightarrow> PanelFrame \<Rightarrow> nat \<times> PanelPoint \<Rightarrow> PanelFrame" where
  "drag_to viewport f move = updateDrag (fst move) (snd move) viewport f"

definition drag_ok :: "PanelSize \<Rightarrow> ViewportBounds \<Rightarrow> PanelFrame \<Rightarrow> bool" where
  "drag_ok panel viewport f \<longleftrightarrow>
     pf_panelSize f = panel \<and> (case pf_drag f of None \<Rightarrow> True | Some drag \<Rightarrow> ds_panel drag = panel)
     \<and> (case pf_draftPosition f of None \<Rightarrow> True | Some p \<Rightarrow> on_screen p panel viewport)"

lemma drag_ok_move: "panel_fits panel viewport \<Longrightarrow> drag_ok panel viewport f \<Longrightarrow> drag_ok panel viewport (drag_to viewport f move)"
  by (auto simp: drag_ok_def drag_to_def updateDrag_def clamp_on_screen split: option.splits)

text \<open>
  A panel that fits into the window is inside the margins, at rest at any anchor as during a drag, wherever the
  pointers move.
\<close>

lemma panel_stays_on_screen:
  assumes "panel_fits panel viewport"
  shows "on_screen (anchoredPosition anchor viewport
           (foldl (drag_to viewport) (startDrag button pointerId client (Some \<lparr>rc_left = x, rc_top = y, rc_size = panel\<rparr>)
              \<lparr>pf_drag = None, pf_draftPosition = None, pf_panelSize = panel\<rparr>) moves)) panel viewport"
    (is "on_screen (anchoredPosition anchor viewport ?f) _ _")
proof -
  have "drag_ok panel viewport ?f"
    by (rule foldl_invariant) (auto simp: drag_ok_move assms, auto simp: drag_ok_def startDrag_def)
  then show ?thesis
    by (auto simp: drag_ok_def anchoredPosition_def anchorPosition_def clamp_on_screen assms or_else_def split: option.split)
qed

text \<open>A panel of 200 by 100 in a window of 800 by 600, dragged out to the top left: it stops at the margins.\<close>

lemma panel_stays_on_screen_witness:
  "let panel = \<lparr>sz_width = 200, sz_height = 100\<rparr>; viewport = measureViewport 800 600 40;
       f = foldl (drag_to viewport) (startDrag 0 7 \<lparr>pt_x = 20, pt_y = 100\<rparr> (Some \<lparr>rc_left = 10, rc_top = 92, rc_size = panel\<rparr>)
             \<lparr>pf_drag = None, pf_draftPosition = None, pf_panelSize = panel\<rparr>) [(7, \<lparr>pt_x = - 500, pt_y = - 30\<rparr>)]
   in panel_fits panel viewport \<and> on_screen (anchoredPosition TopLeft viewport f) panel viewport
      \<and> pf_draftPosition f = Some \<lparr>pt_x = 10, pt_y = 92\<rparr>"
proof -
  have fits: "panel_fits \<lparr>sz_width = 200, sz_height = 100\<rparr> (measureViewport 800 600 40)"
    by (simp add: panel_fits_def measureViewport_def margin_of_def topInset_of_def bottomInset_of_def)
  show ?thesis unfolding Let_def
    by (intro conjI fits panel_stays_on_screen)
      (simp add: startDrag_def drag_to_def updateDrag_def clampPanelPosition_def clamp_def measureViewport_def margin_of_def
        topInset_of_def bottomInset_of_def Let_def)
qed

section \<open>Hiding and showing\<close>

text \<open>Showing everything again shows the panels which were closed, or never open, before the chrome was hidden.\<close>

lemma hide_and_show_opens_every_panel:
  "\<not> cv_chromeHidden (ca_visibility s) \<Longrightarrow> chromePanelVisible (ca_visibility (toggleChromeVisibility (toggleChromeVisibility s))) panel"
  by (simp add: toggleChromeVisibility_def chromePanelVisible_def DEFAULT_CHROME_PANEL_VISIBILITY_def)

lemma toggled_panel: "chromePanelVisible (ca_visibility (toggleChromePanel panel s)) panel \<longleftrightarrow> \<not> chromePanelVisible (ca_visibility s) panel"
  by (auto simp: toggleChromePanel_def chromePanelVisible_def)

text \<open>The legend never gets the anchor of the search.\<close>

lemma legend_not_at_search: "ca_anchors s Legend \<noteq> TopLeft \<Longrightarrow> ca_anchors (setChromePanelAnchor panel anchor s) Legend \<noteq> TopLeft"
  by (simp add: setChromePanelAnchor_def normalizePanelAnchor_def)

text \<open>One item of the menu is checked, and it is the one the keyboard reaches.\<close>

lemma one_menu_item_checked:
  "map mi_value (filter mi_checked (chromePanelSnapMenuItems currentAnchor)) = [currentAnchor]"
  "map mi_value (filter (\<lambda>item. mi_tabIndex item = 0) (chromePanelSnapMenuItems currentAnchor)) = [currentAnchor]"
  by (cases currentAnchor; simp add: chromePanelSnapMenuItems_def CHROME_PANEL_ANCHORS_def)+

end
