(* ===== verification/Perf_Diagnostics.thy ===== *)
theory Perf_Diagnostics
  imports Live_Visuals Js_Value Carto_Strings Js_Sort
begin

text \<open>
  The diagnostics of \<open>src/web/src/perfDiagnostics.ts\<close>: a record of counters on the window, kept only while the debug flag
  of the local storage (or a development build) asks for it. \<open>PerfWindow\<close> is what the functions share: the flag of
  the build, the storage and the counters. Every \<open>record...\<close> function is an operation on it; \<open>perf_call\<close> names them, so
  that a list of calls is a history of the page. A duration that the code passes on without a test is a
  \<^typ>\<open>js_number\<close>; where the code asks \<open>Number.isFinite\<close> the argument is a \<^typ>\<open>js_double\<close>.

  The lemmas of the second part are about the latency windows: what \<open>appendSample\<close> keeps, and that the percentiles
  which the panel shows are ordered and are measured values.
\<close>

section \<open>The counters\<close>

record LongTaskSample =
  lt_startTimeMs :: js_double
  lt_durationMs :: js_number
  lt_name :: string
  lt_attribution :: "string list"

record PerfCounters =
  pc_packetActiveComets :: nat
  pc_packetActiveCometIDs :: "string list"
  pc_packetActiveObserverBursts :: nat
  pc_packetFrameMs :: js_number
  pc_packetFrameP95Ms :: js_number
  pc_packetFrameSamplesMs :: "js_number list"
  pc_packetSkippedFrames :: nat
  pc_routeSourceUpdates :: nat
  pc_nodeSourceUpdates :: nat
  pc_otherSourceUpdates :: nat
  pc_skippedSourceUpdates :: nat
  pc_signatureSourceSkips :: nat
  pc_heatmapSourceUpdates :: nat
  pc_snapshotReplacements :: nat
  pc_snapshotSkips :: nat
  pc_routeReducerMs :: js_number
  pc_livePendingQueueSize :: js_number
  pc_liveStateLatencyP50Ms :: js_number
  pc_liveStateLatencyP95Ms :: js_number
  pc_liveStateLatencyMaxMs :: js_number
  pc_liveStateLatencySamplesMs :: "js_number list"
  pc_liveAnimationLatencyP50Ms :: js_number
  pc_liveAnimationLatencyP95Ms :: js_number
  pc_liveAnimationLatencyMaxMs :: js_number
  pc_liveAnimationLatencySamplesMs :: "js_number list"
  pc_liveVisualQueueDepth :: js_number
  pc_liveVisualQueueOldestAgeMs :: js_number
  pc_liveAnimationStarts :: nat
  pc_liveAnimationDegradedStarts :: nat
  pc_liveAnimationMinimalStarts :: nat
  pc_liveAnimationEmergencyStarts :: nat
  pc_longTasks :: nat
  pc_longestTaskMs :: js_number
  pc_longTaskWindowStartMs :: js_number
  pc_longTaskSamples :: "LongTaskSample list"
  pc_visibilityPauses :: nat
  pc_geoJSONWorkerTransforms :: nat
  pc_geoJSONWorkerFallbacks :: nat
  pc_geoJSONWorkerErrors :: nat
  pc_netGraphWorkerTransforms :: nat
  pc_netGraphWorkerFallbacks :: nat
  pc_netGraphWorkerErrors :: nat
  pc_netGraphPrepMs :: js_number
  pc_netGraphLayoutMs :: js_number
  pc_netGraphLayoutTicks :: js_number
  pc_netGraphDrawMs :: js_number
  pc_netGraphRenderedNodes :: js_number
  pc_netGraphRenderedEdges :: js_number
  pc_netGraphHitCandidates :: js_number

definition newCounters :: PerfCounters where
  "newCounters = \<lparr>
    pc_packetActiveComets = 0, pc_packetActiveCometIDs = [], pc_packetActiveObserverBursts = 0, pc_packetFrameMs = 0,
    pc_packetFrameP95Ms = 0, pc_packetFrameSamplesMs = [], pc_packetSkippedFrames = 0, pc_routeSourceUpdates = 0,
    pc_nodeSourceUpdates = 0, pc_otherSourceUpdates = 0, pc_skippedSourceUpdates = 0, pc_signatureSourceSkips = 0,
    pc_heatmapSourceUpdates = 0, pc_snapshotReplacements = 0, pc_snapshotSkips = 0, pc_routeReducerMs = 0,
    pc_livePendingQueueSize = 0, pc_liveStateLatencyP50Ms = 0, pc_liveStateLatencyP95Ms = 0, pc_liveStateLatencyMaxMs = 0,
    pc_liveStateLatencySamplesMs = [], pc_liveAnimationLatencyP50Ms = 0, pc_liveAnimationLatencyP95Ms = 0,
    pc_liveAnimationLatencyMaxMs = 0, pc_liveAnimationLatencySamplesMs = [], pc_liveVisualQueueDepth = 0,
    pc_liveVisualQueueOldestAgeMs = 0, pc_liveAnimationStarts = 0, pc_liveAnimationDegradedStarts = 0,
    pc_liveAnimationMinimalStarts = 0, pc_liveAnimationEmergencyStarts = 0, pc_longTasks = 0, pc_longestTaskMs = 0,
    pc_longTaskWindowStartMs = 0, pc_longTaskSamples = [], pc_visibilityPauses = 0, pc_geoJSONWorkerTransforms = 0,
    pc_geoJSONWorkerFallbacks = 0, pc_geoJSONWorkerErrors = 0, pc_netGraphWorkerTransforms = 0,
    pc_netGraphWorkerFallbacks = 0, pc_netGraphWorkerErrors = 0, pc_netGraphPrepMs = 0, pc_netGraphLayoutMs = 0,
    pc_netGraphLayoutTicks = 0, pc_netGraphDrawMs = 0, pc_netGraphRenderedNodes = 0, pc_netGraphRenderedEdges = 0,
    pc_netGraphHitCandidates = 0\<rparr>"

section \<open>The storage and the window\<close>

datatype LocalStorage = NoLocalStorage | BlockedLocalStorage | LocalItems "(string, string) js_map"

record PerfWindow =
  pw_dev :: bool
  pw_storage :: LocalStorage
  pw_counters :: "PerfCounters option"

definition STORAGE_KEY :: string where
  "STORAGE_KEY = ''mc-cartolive-debug-perf''"

definition perfDiagnosticsEnabled :: "PerfWindow \<Rightarrow> bool" where
  "perfDiagnosticsEnabled w \<longleftrightarrow>
     pw_dev w \<or> (case pw_storage w of LocalItems items \<Rightarrow> map_get items STORAGE_KEY = Some ''1'' | _ \<Rightarrow> False)"

definition setPerfDiagnosticsEnabled :: "bool \<Rightarrow> PerfWindow \<Rightarrow> PerfWindow" where
  "setPerfDiagnosticsEnabled enabled w =
     (case pw_storage w of
        LocalItems items \<Rightarrow>
          w\<lparr>pw_storage := LocalItems (if enabled then map_set STORAGE_KEY ''1'' items else map_del STORAGE_KEY items)\<rparr>
      | _ \<Rightarrow> w)"

definition ensurePerfDiagnostics :: "PerfWindow \<Rightarrow> PerfWindow" where
  "ensurePerfDiagnostics w =
     (if perfDiagnosticsEnabled w \<and> pw_counters w = None then w\<lparr>pw_counters := Some newCounters\<rparr> else w)"

definition perfDiagnosticsSnapshot :: "PerfWindow \<Rightarrow> PerfCounters option \<times> PerfWindow" where
  "perfDiagnosticsSnapshot w =
     (case pw_counters w of
        Some counters \<Rightarrow> (Some counters, w)
      | None \<Rightarrow> let w' = ensurePerfDiagnostics w in (pw_counters w', w'))"

text \<open>Every operation starts with \<open>const counters = ensurePerfDiagnostics(); if (!counters) return;\<close>.\<close>

definition with_counters :: "(PerfCounters \<Rightarrow> PerfCounters) \<Rightarrow> PerfWindow \<Rightarrow> PerfWindow" where
  "with_counters f w =
     (if perfDiagnosticsEnabled w
      then let w' = ensurePerfDiagnostics w in w'\<lparr>pw_counters := map_option f (pw_counters w')\<rparr> else w)"

section \<open>Samples\<close>

definition roundedMs :: "js_number \<Rightarrow> js_number" where
  "roundedMs ms = max 0 (js_round (ms * 10) / 10)"

fun roundedMsDouble :: "js_double \<Rightarrow> js_double" where
  "roundedMsDouble (Fin ms) = Fin (roundedMs ms)"
| "roundedMsDouble PosInf = PosInf"
| "roundedMsDouble NegInf = Fin 0"
| "roundedMsDouble NotANumber = NotANumber"

fun appendSample :: "js_number list \<Rightarrow> js_double \<Rightarrow> js_number list" where
  "appendSample samples (Fin x) = take_last 240 (samples @ [roundedMs x])"
| "appendSample samples _ = samples"

definition percentile :: "js_number list \<Rightarrow> js_number \<Rightarrow> js_number" where
  "percentile samples quantile =
     (if samples = [] then 0
      else let ordered = js_sort (by_asc (\<lambda>x. x)) samples;
               index = max 0 (min (int (length ordered) - 1) (\<lceil>real (length ordered) * quantile\<rceil> - 1))
           in roundedMs (ordered ! nat index))"

definition sample_max :: "js_number list \<Rightarrow> js_number" where
  "sample_max samples = foldl max 0 samples"

fun truthy_finite :: "js_double option \<Rightarrow> js_number option" where
  "truthy_finite (Some (Fin x)) = (if x = 0 then None else Some x)"
| "truthy_finite _ = None"

section \<open>The operations\<close>

definition recordSourceUpdate :: "string \<Rightarrow> PerfCounters \<Rightarrow> PerfCounters" where
  "recordSourceUpdate sourceID c =
     (if str_includes sourceID ''route'' \<and> \<not> str_includes sourceID ''payload''
      then c\<lparr>pc_routeSourceUpdates := pc_routeSourceUpdates c + 1\<rparr>
      else if str_includes sourceID ''node'' then c\<lparr>pc_nodeSourceUpdates := pc_nodeSourceUpdates c + 1\<rparr>
      else if str_includes sourceID ''heatmap'' then c\<lparr>pc_heatmapSourceUpdates := pc_heatmapSourceUpdates c + 1\<rparr>
      else c\<lparr>pc_otherSourceUpdates := pc_otherSourceUpdates c + 1\<rparr>)"

definition recordSkippedSourceUpdate :: "PerfCounters \<Rightarrow> PerfCounters" where
  "recordSkippedSourceUpdate c = c\<lparr>pc_skippedSourceUpdates := pc_skippedSourceUpdates c + 1\<rparr>"

definition recordSignatureSourceSkip :: "PerfCounters \<Rightarrow> PerfCounters" where
  "recordSignatureSourceSkip c = c\<lparr>pc_signatureSourceSkips := pc_signatureSourceSkips c + 1\<rparr>"

definition recordSnapshotReplacement :: "bool \<Rightarrow> PerfCounters \<Rightarrow> PerfCounters" where
  "recordSnapshotReplacement skipped c =
     (if skipped then c\<lparr>pc_snapshotSkips := pc_snapshotSkips c + 1\<rparr>
      else c\<lparr>pc_snapshotReplacements := pc_snapshotReplacements c + 1\<rparr>)"

definition recordRouteReducerDuration :: "js_number \<Rightarrow> PerfCounters \<Rightarrow> PerfCounters" where
  "recordRouteReducerDuration ms c = c\<lparr>pc_routeReducerMs := max 0 (js_round (ms * 10) / 10)\<rparr>"

definition recordPacketFrame :: "nat \<Rightarrow> nat \<Rightarrow> js_number \<Rightarrow> string list \<Rightarrow> PerfCounters \<Rightarrow> PerfCounters" where
  "recordPacketFrame activeComets activeObserverBursts frameMs activeCometIDs c =
     (let samples = appendSample (pc_packetFrameSamplesMs c) (Fin frameMs)
      in c\<lparr>pc_packetActiveComets := activeComets,
           pc_packetActiveCometIDs := take_last 240 (js_set (filter (\<lambda>i. i \<noteq> []) activeCometIDs)),
           pc_packetActiveObserverBursts := activeObserverBursts,
           pc_packetFrameMs := roundedMs frameMs,
           pc_packetFrameSamplesMs := samples,
           pc_packetFrameP95Ms := percentile samples (95 / 100)\<rparr>)"

definition recordPacketSkippedFrame :: "PerfCounters \<Rightarrow> PerfCounters" where
  "recordPacketSkippedFrame c = c\<lparr>pc_packetSkippedFrames := pc_packetSkippedFrames c + 1\<rparr>"

definition recordLivePendingQueueSize :: "js_number \<Rightarrow> PerfCounters \<Rightarrow> PerfCounters" where
  "recordLivePendingQueueSize depth c = c\<lparr>pc_livePendingQueueSize := max 0 (of_int \<lfloor>depth\<rfloor>)\<rparr>"

text \<open>A message carries an optional \<open>receivedAt\<close> and an optional \<open>serverTime\<close>.\<close>

definition latency_step :: "js_number \<Rightarrow> js_number list \<Rightarrow> js_double option \<times> js_double option \<Rightarrow> js_number list" where
  "latency_step now samples message =
     (case truthy_finite (or_opt (fst message) (snd message)) of
        None \<Rightarrow> samples
      | Some receivedAt \<Rightarrow> appendSample samples (Fin (max 0 (now - receivedAt))))"

definition recordLiveStateApplied ::
  "(js_double option \<times> js_double option) list \<Rightarrow> js_number \<Rightarrow> PerfCounters \<Rightarrow> PerfCounters" where
  "recordLiveStateApplied messages now c =
     (let samples = foldl (latency_step now) (pc_liveStateLatencySamplesMs c) messages
      in c\<lparr>pc_liveStateLatencySamplesMs := samples,
           pc_liveStateLatencyP50Ms := percentile samples (1 / 2),
           pc_liveStateLatencyP95Ms := percentile samples (95 / 100),
           pc_liveStateLatencyMaxMs := roundedMs (sample_max samples)\<rparr>)"

definition recordLiveVisualQueue :: "js_number \<Rightarrow> js_number \<Rightarrow> PerfCounters \<Rightarrow> PerfCounters" where
  "recordLiveVisualQueue depth oldestAgeMs c =
     c\<lparr>pc_liveVisualQueueDepth := max 0 (of_int \<lfloor>depth\<rfloor>), pc_liveVisualQueueOldestAgeMs := roundedMs oldestAgeMs\<rparr>"

definition count_start :: "LiveAnimationPressure \<Rightarrow> PerfCounters \<Rightarrow> PerfCounters" where
  "count_start load c =
     c\<lparr>pc_liveAnimationStarts := pc_liveAnimationStarts c + 1,
       pc_liveAnimationDegradedStarts := pc_liveAnimationDegradedStarts c + (if load = DegradedPressure then 1 else 0),
       pc_liveAnimationMinimalStarts := pc_liveAnimationMinimalStarts c + (if load = MinimalPressure then 1 else 0)\<rparr>"

definition recordLiveAnimationStart :: "js_double option \<Rightarrow> LiveAnimationPressure \<Rightarrow> js_number \<Rightarrow> PerfCounters \<Rightarrow> PerfCounters" where
  "recordLiveAnimationStart receivedAt load now c =
     (case truthy_finite receivedAt of
        None \<Rightarrow> count_start load c
      | Some received \<Rightarrow>
          let samples = appendSample (pc_liveAnimationLatencySamplesMs c) (Fin (max 0 (now - received)))
          in (count_start load c)\<lparr>
               pc_liveAnimationLatencySamplesMs := samples,
               pc_liveAnimationLatencyP50Ms := percentile samples (1 / 2),
               pc_liveAnimationLatencyP95Ms := percentile samples (95 / 100),
               pc_liveAnimationLatencyMaxMs := roundedMs (sample_max samples)\<rparr>)"

definition recordLiveAnimationEmergencyActivation :: "PerfCounters \<Rightarrow> PerfCounters" where
  "recordLiveAnimationEmergencyActivation c = c\<lparr>pc_liveAnimationEmergencyStarts := pc_liveAnimationEmergencyStarts c + 1\<rparr>"

definition recordLongTask :: "js_double \<Rightarrow> js_double \<Rightarrow> string \<Rightarrow> string list \<Rightarrow> PerfCounters \<Rightarrow> PerfCounters" where
  "recordLongTask durationMs startTimeMs name attribution c =
     (case durationMs of
        Fin duration \<Rightarrow>
          if duration < 50 then c
          else if (case startTimeMs of Fin start \<Rightarrow> start < pc_longTaskWindowStartMs c | _ \<Rightarrow> False) then c
          else c\<lparr>pc_longTasks := pc_longTasks c + 1,
                 pc_longestTaskMs := max (pc_longestTaskMs c) (roundedMs duration),
                 pc_longTaskSamples := take_last 64 (pc_longTaskSamples c @
                   [\<lparr>lt_startTimeMs = roundedMsDouble startTimeMs, lt_durationMs = roundedMs duration, lt_name = name,
                     lt_attribution = take 4 attribution\<rparr>])\<rparr>
      | _ \<Rightarrow> c)"

definition recordVisibilityPause :: "PerfCounters \<Rightarrow> PerfCounters" where
  "recordVisibilityPause c = c\<lparr>pc_visibilityPauses := pc_visibilityPauses c + 1\<rparr>"

definition recordGeoJSONWorkerTransform :: "PerfCounters \<Rightarrow> PerfCounters" where
  "recordGeoJSONWorkerTransform c = c\<lparr>pc_geoJSONWorkerTransforms := pc_geoJSONWorkerTransforms c + 1\<rparr>"

definition recordGeoJSONWorkerFallback :: "PerfCounters \<Rightarrow> PerfCounters" where
  "recordGeoJSONWorkerFallback c = c\<lparr>pc_geoJSONWorkerFallbacks := pc_geoJSONWorkerFallbacks c + 1\<rparr>"

definition recordGeoJSONWorkerError :: "PerfCounters \<Rightarrow> PerfCounters" where
  "recordGeoJSONWorkerError c = c\<lparr>pc_geoJSONWorkerErrors := pc_geoJSONWorkerErrors c + 1\<rparr>"

definition recordNetGraphWorkerTransform :: "bool \<Rightarrow> js_number \<Rightarrow> js_number \<Rightarrow> js_number \<Rightarrow> PerfCounters \<Rightarrow> PerfCounters" where
  "recordNetGraphWorkerTransform workerUsed prepMs layoutMs layoutTicks c =
     c\<lparr>pc_netGraphWorkerTransforms := pc_netGraphWorkerTransforms c + (if workerUsed then 1 else 0),
       pc_netGraphWorkerFallbacks := pc_netGraphWorkerFallbacks c + (if workerUsed then 0 else 1),
       pc_netGraphPrepMs := roundedMs prepMs,
       pc_netGraphLayoutMs := roundedMs layoutMs,
       pc_netGraphLayoutTicks := max 0 (of_int \<lfloor>layoutTicks\<rfloor>)\<rparr>"

definition recordNetGraphWorkerError :: "PerfCounters \<Rightarrow> PerfCounters" where
  "recordNetGraphWorkerError c = c\<lparr>pc_netGraphWorkerErrors := pc_netGraphWorkerErrors c + 1\<rparr>"

definition recordNetGraphDraw :: "js_number \<Rightarrow> js_number \<Rightarrow> js_number \<Rightarrow> PerfCounters \<Rightarrow> PerfCounters" where
  "recordNetGraphDraw frameMs renderedNodes renderedEdges c =
     c\<lparr>pc_netGraphDrawMs := roundedMs frameMs,
       pc_netGraphRenderedNodes := max 0 (of_int \<lfloor>renderedNodes\<rfloor>),
       pc_netGraphRenderedEdges := max 0 (of_int \<lfloor>renderedEdges\<rfloor>)\<rparr>"

definition recordNetGraphHitCandidates :: "js_number \<Rightarrow> PerfCounters \<Rightarrow> PerfCounters" where
  "recordNetGraphHitCandidates candidates c = c\<lparr>pc_netGraphHitCandidates := max 0 (of_int \<lfloor>candidates\<rfloor>)\<rparr>"

text \<open>The calls, by name.\<close>

datatype perf_call =
    SetEnabled bool
  | Snapshot
  | SourceUpdate string
  | SkippedSourceUpdate
  | SignatureSourceSkip
  | SnapshotReplacement bool
  | RouteReducerDuration js_number
  | PacketFrame nat nat js_number "string list"
  | PacketSkippedFrame
  | LivePendingQueueSize js_number
  | LiveStateApplied "(js_double option \<times> js_double option) list" js_number
  | LiveVisualQueue js_number js_number
  | LiveAnimationStart "js_double option" LiveAnimationPressure js_number
  | LiveAnimationEmergencyActivation
  | LongTask js_double js_double string "string list"
  | VisibilityPause
  | GeoJSONWorkerTransform
  | GeoJSONWorkerFallback
  | GeoJSONWorkerError
  | NetGraphWorkerTransform bool js_number js_number js_number
  | NetGraphWorkerError
  | NetGraphDraw js_number js_number js_number
  | NetGraphHitCandidates js_number

fun perf_record :: "perf_call \<Rightarrow> PerfCounters \<Rightarrow> PerfCounters" where
  "perf_record (SourceUpdate sourceID) = recordSourceUpdate sourceID"
| "perf_record SkippedSourceUpdate = recordSkippedSourceUpdate"
| "perf_record SignatureSourceSkip = recordSignatureSourceSkip"
| "perf_record (SnapshotReplacement skipped) = recordSnapshotReplacement skipped"
| "perf_record (RouteReducerDuration ms) = recordRouteReducerDuration ms"
| "perf_record (PacketFrame comets bursts ms ids) = recordPacketFrame comets bursts ms ids"
| "perf_record PacketSkippedFrame = recordPacketSkippedFrame"
| "perf_record (LivePendingQueueSize depth) = recordLivePendingQueueSize depth"
| "perf_record (LiveStateApplied messages now) = recordLiveStateApplied messages now"
| "perf_record (LiveVisualQueue depth age) = recordLiveVisualQueue depth age"
| "perf_record (LiveAnimationStart receivedAt load now) = recordLiveAnimationStart receivedAt load now"
| "perf_record LiveAnimationEmergencyActivation = recordLiveAnimationEmergencyActivation"
| "perf_record (LongTask duration start name attribution) = recordLongTask duration start name attribution"
| "perf_record VisibilityPause = recordVisibilityPause"
| "perf_record GeoJSONWorkerTransform = recordGeoJSONWorkerTransform"
| "perf_record GeoJSONWorkerFallback = recordGeoJSONWorkerFallback"
| "perf_record GeoJSONWorkerError = recordGeoJSONWorkerError"
| "perf_record (NetGraphWorkerTransform used prep layout ticks) = recordNetGraphWorkerTransform used prep layout ticks"
| "perf_record NetGraphWorkerError = recordNetGraphWorkerError"
| "perf_record (NetGraphDraw ms nodes edges) = recordNetGraphDraw ms nodes edges"
| "perf_record (NetGraphHitCandidates candidates) = recordNetGraphHitCandidates candidates"
| "perf_record (SetEnabled _) = (\<lambda>c. c)"
| "perf_record Snapshot = (\<lambda>c. c)"

fun perf_step :: "PerfWindow \<Rightarrow> perf_call \<Rightarrow> PerfWindow" where
  "perf_step w (SetEnabled enabled) = setPerfDiagnosticsEnabled enabled w"
| "perf_step w Snapshot = snd (perfDiagnosticsSnapshot w)"
| "perf_step w call = with_counters (perf_record call) w"

section \<open>The samples of a window\<close>

lemma roundedMs_nonneg [simp]: "0 \<le> roundedMs x"
  by (simp add: roundedMs_def)

lemma js_round_of_int [simp]: "js_round (of_int i) = of_int i"
proof -
  have "\<lfloor>of_int i + 1 / 2 :: real\<rfloor> = i" by linarith
  then show ?thesis by (simp add: js_round_def)
qed

lemma roundedMs_idem [simp]: "roundedMs (roundedMs x) = roundedMs x"
proof (cases "0 \<le> js_round (x * 10)")
  case True
  obtain i where "js_round (x * 10) = of_int i" by (simp add: js_round_def)
  then show ?thesis using True by (simp add: roundedMs_def)
next
  case False
  then show ?thesis by (simp add: roundedMs_def js_round_of_int [of 0, simplified])
qed

definition samples_ok :: "js_number list \<Rightarrow> bool" where
  "samples_ok samples \<longleftrightarrow> length samples \<le> 240 \<and> list_all (\<lambda>x. roundedMs x = x) samples"

lemma take_last_list_all: "list_all P xs \<Longrightarrow> P x \<Longrightarrow> list_all P (take_last n (xs @ [x]))"
  using set_take_last [of n "xs @ [x]"] by (auto simp: list_all_iff)

lemma samples_ok_append: "samples_ok samples \<Longrightarrow> samples_ok (appendSample samples x)"
  by (cases x) (auto simp: samples_ok_def intro: take_last_list_all)

lemma samples_ok_latency: "samples_ok samples \<Longrightarrow> samples_ok (foldl (latency_step now) samples messages)"
  by (rule foldl_invariant)
    (auto simp: latency_step_def simp del: appendSample.simps intro: samples_ok_append split: option.split)

lemma sample_max_upper: "x \<in> set samples \<Longrightarrow> x \<le> sample_max samples"
  by (simp add: sample_max_def foldl_max_ge)

lemma sample_max_nonneg: "0 \<le> sample_max samples"
  by (simp add: sample_max_def foldl_max_ge)

lemma foldl_max_member: "foldl max (a::js_number) xs \<in> insert a (set xs)"
proof (induction xs arbitrary: a)
  case (Cons x xs)
  then show ?case using Cons [of "max a x"] by (auto simp: max_def split: if_splits)
qed simp

lemma sample_max_member: "sample_max samples \<in> insert 0 (set samples)"
  unfolding sample_max_def by (rule foldl_max_member)

lemma sorted_by_value: "sorted (js_sort (by_asc (\<lambda>x. x)) samples)"
  using comparator.sorted_js_sort [OF comparator_by_asc, of "\<lambda>x. x" samples]
  by (simp add: by_asc_def)

definition rank :: "nat \<Rightarrow> js_number \<Rightarrow> nat" where
  "rank n quantile = nat (max 0 (min (int n - 1) (\<lceil>real n * quantile\<rceil> - 1)))"

lemma rank_less: "0 < n \<Longrightarrow> rank n quantile < n"
  by (auto simp: rank_def)

lemma rank_mono: "q \<le> r \<Longrightarrow> rank n q \<le> rank n r"
proof -
  assume "q \<le> r"
  then have "\<lceil>real n * q\<rceil> \<le> \<lceil>real n * r\<rceil>" by (intro ceiling_mono mult_left_mono) simp_all
  then show ?thesis by (simp add: rank_def)
qed

lemma percentile_sample: "samples_ok samples \<Longrightarrow> percentile samples q \<in> insert 0 (set samples)"
proof (cases "samples = []")
  case False
  let ?xs = "js_sort (by_asc (\<lambda>x. x)) samples"
  assume "samples_ok samples"
  have "?xs ! rank (length ?xs) q \<in> set ?xs" using False by (intro nth_mem rank_less) simp
  then have "?xs ! rank (length ?xs) q \<in> set samples" by simp
  moreover from this have "roundedMs (?xs ! rank (length ?xs) q) = ?xs ! rank (length ?xs) q"
    using \<open>samples_ok samples\<close> by (simp add: samples_ok_def list_all_iff)
  ultimately show ?thesis using False by (simp add: percentile_def rank_def Let_def)
qed (simp add: percentile_def)

lemma roundedMs_mono: "x \<le> y \<Longrightarrow> roundedMs x \<le> roundedMs y"
proof -
  assume "x \<le> y"
  then have "js_round (x * 10) \<le> js_round (y * 10)" unfolding js_round_def of_int_le_iff by (intro floor_mono) simp
  then show ?thesis by (auto simp: roundedMs_def)
qed

lemma percentile_mono: "q \<le> r \<Longrightarrow> percentile samples q \<le> percentile samples r"
proof (cases "samples = []")
  case False
  let ?xs = "js_sort (by_asc (\<lambda>x. x)) samples"
  assume "q \<le> r"
  then have "?xs ! rank (length ?xs) q \<le> ?xs ! rank (length ?xs) r"
    using False by (intro sorted_nth_mono sorted_by_value rank_mono rank_less) simp_all
  then show ?thesis using False by (simp add: percentile_def rank_def Let_def roundedMs_mono)
qed (simp add: percentile_def)

lemma percentile_le_max: "samples_ok samples \<Longrightarrow> percentile samples q \<le> sample_max samples"
  using percentile_sample [of samples q] sample_max_upper sample_max_nonneg by auto

text \<open>A latency window and the three numbers computed from it.\<close>

definition window_ok :: "js_number list \<Rightarrow> js_number \<Rightarrow> js_number \<Rightarrow> js_number \<Rightarrow> bool" where
  "window_ok samples p50 p95 highest \<longleftrightarrow>
     samples_ok samples \<and> 0 \<le> p50 \<and> p50 \<le> p95 \<and> p95 \<le> highest \<and> list_all (\<lambda>x. x \<le> highest) samples
     \<and> set [p50, p95, highest] \<subseteq> insert 0 (set samples)"

lemma sample_max_rounded: "samples_ok samples \<Longrightarrow> roundedMs (sample_max samples) = sample_max samples"
  using sample_max_member [of samples] by (auto simp: samples_ok_def list_all_iff roundedMs_def js_round_of_int [of 0, simplified])

lemma percentile_nonneg: "0 \<le> percentile samples q"
  by (simp add: percentile_def Let_def)

lemma window_ok_measured:
  "samples_ok samples \<Longrightarrow>
     window_ok samples (percentile samples (1 / 2)) (percentile samples (95 / 100)) (roundedMs (sample_max samples))"
  using percentile_sample percentile_le_max sample_max_member [of samples]
  by (simp add: window_ok_def sample_max_rounded percentile_nonneg percentile_mono list_all_iff sample_max_upper)

lemmas window_ok_measured_frac = window_ok_measured [simplified]

lemma window_ok_samples: "window_ok samples p50 p95 highest \<Longrightarrow> samples_ok samples"
  by (simp add: window_ok_def)

lemma window_ok_empty: "window_ok [] 0 0 0"
  by (simp add: window_ok_def samples_ok_def)

section \<open>The invariant of the counters\<close>

definition perf_ok :: "PerfCounters \<Rightarrow> bool" where
  "perf_ok c \<longleftrightarrow>
     window_ok (pc_liveStateLatencySamplesMs c) (pc_liveStateLatencyP50Ms c) (pc_liveStateLatencyP95Ms c) (pc_liveStateLatencyMaxMs c)
     \<and> window_ok (pc_liveAnimationLatencySamplesMs c) (pc_liveAnimationLatencyP50Ms c) (pc_liveAnimationLatencyP95Ms c)
         (pc_liveAnimationLatencyMaxMs c)
     \<and> samples_ok (pc_packetFrameSamplesMs c)
     \<and> length (pc_packetActiveCometIDs c) \<le> 240 \<and> distinct (pc_packetActiveCometIDs c)
     \<and> length (pc_longTaskSamples c) = min 64 (pc_longTasks c)
     \<and> list_all (\<lambda>t. 50 \<le> lt_durationMs t \<and> lt_durationMs t \<le> pc_longestTaskMs c) (pc_longTaskSamples c)
     \<and> pc_liveAnimationDegradedStarts c + pc_liveAnimationMinimalStarts c \<le> pc_liveAnimationStarts c"

lemma perf_ok_new: "perf_ok newCounters"
  by (simp add: perf_ok_def newCounters_def window_ok_empty samples_ok_def)

lemma roundedMs_int: "roundedMs 50 = 50"
  using js_round_of_int [of 500] by (simp add: roundedMs_def)

lemma perf_ok_frame:
  assumes "perf_ok c" and "recordPacketFrame comets bursts ms ids c = c'"
  shows "perf_ok c'"
  using assms samples_ok_append [of "pc_packetFrameSamplesMs c" "Fin ms"]
  by (auto simp: perf_ok_def recordPacketFrame_def Let_def distinct_take_last simp del: appendSample.simps)

lemma perf_ok_state: "perf_ok c \<Longrightarrow> perf_ok (recordLiveStateApplied messages now c)"
  by (auto simp: perf_ok_def recordLiveStateApplied_def Let_def
      intro!: window_ok_measured_frac samples_ok_latency elim: window_ok_samples)

lemma perf_ok_animation: "perf_ok c \<Longrightarrow> perf_ok (recordLiveAnimationStart receivedAt load now c)"
  by (auto simp: perf_ok_def recordLiveAnimationStart_def count_start_def Let_def simp del: appendSample.simps
      split: option.split intro!: window_ok_measured_frac samples_ok_append elim: window_ok_samples)

lemma perf_ok_task: "perf_ok c \<Longrightarrow> perf_ok (recordLongTask duration start name attribution c)"
proof (cases duration)
  case (Fin d)
  assume ok: "perf_ok c"
  show ?thesis
  proof (cases "d < 50")
    case False
    then have long: "50 \<le> roundedMs d" using roundedMs_mono [of 50 d] roundedMs_int by simp
    have "list_all (\<lambda>t. 50 \<le> lt_durationMs t \<and> lt_durationMs t \<le> max (pc_longestTaskMs c) (roundedMs d)) (pc_longTaskSamples c)"
      using ok by (auto simp: perf_ok_def list_all_iff)
    then show ?thesis using ok long
      by (auto simp: Fin perf_ok_def recordLongTask_def intro!: take_last_list_all)
  qed (use ok in \<open>simp add: Fin recordLongTask_def\<close>)
qed (simp_all add: recordLongTask_def)

text \<open>The other calls touch nothing the invariant speaks about.\<close>

lemmas plain_records =
  recordSourceUpdate_def recordSkippedSourceUpdate_def recordSignatureSourceSkip_def recordSnapshotReplacement_def
  recordRouteReducerDuration_def recordPacketSkippedFrame_def recordLivePendingQueueSize_def recordLiveVisualQueue_def
  recordLiveAnimationEmergencyActivation_def recordVisibilityPause_def recordGeoJSONWorkerTransform_def
  recordGeoJSONWorkerFallback_def recordGeoJSONWorkerError_def recordNetGraphWorkerTransform_def
  recordNetGraphWorkerError_def recordNetGraphDraw_def recordNetGraphHitCandidates_def

lemma perf_ok_record:
  assumes "perf_ok c"
  shows "perf_ok (perf_record call c)"
proof (cases call)
  case (PacketFrame comets bursts ms ids)
  then show ?thesis using assms perf_ok_frame by simp
next
  case (LiveStateApplied messages now)
  then show ?thesis using assms by (simp add: perf_ok_state)
next
  case (LiveAnimationStart receivedAt load now)
  then show ?thesis using assms by (simp add: perf_ok_animation)
next
  case (LongTask duration start name attribution)
  then show ?thesis using assms by (simp add: perf_ok_task)
qed (use assms in \<open>simp_all add: perf_ok_def plain_records\<close>)

definition perf_window_ok :: "PerfWindow \<Rightarrow> bool" where
  "perf_window_ok w \<longleftrightarrow> (case pw_counters w of None \<Rightarrow> True | Some c \<Rightarrow> perf_ok c)"

lemma perf_window_ensure: "perf_window_ok w \<Longrightarrow> perf_window_ok (ensurePerfDiagnostics w)"
  by (simp add: perf_window_ok_def ensurePerfDiagnostics_def perf_ok_new)

lemma perf_window_with:
  "perf_window_ok w \<Longrightarrow> (\<And>c. perf_ok c \<Longrightarrow> perf_ok (f c)) \<Longrightarrow> perf_window_ok (with_counters f w)"
  using perf_window_ensure [of w] by (auto simp: with_counters_def perf_window_ok_def Let_def split: option.splits)

lemma pw_counters_set_enabled [simp]: "pw_counters (setPerfDiagnosticsEnabled enabled w) = pw_counters w"
  by (simp add: setPerfDiagnosticsEnabled_def split: LocalStorage.split)

lemma perf_window_snapshot: "perf_window_ok w \<Longrightarrow> perf_window_ok (snd (perfDiagnosticsSnapshot w))"
  using perf_window_ensure by (simp add: perfDiagnosticsSnapshot_def Let_def split: option.split)

lemma perf_window_step:
  assumes "perf_window_ok w"
  shows "perf_window_ok (perf_step w call)"
proof (cases call)
  case (SetEnabled enabled)
  then show ?thesis using assms by (simp add: perf_window_ok_def)
next
  case Snapshot
  then show ?thesis using assms by (simp add: perf_window_snapshot)
qed (use assms in \<open>simp_all add: perf_window_with perf_ok_record del: perf_record.simps\<close>)

definition freshWindow :: "bool \<Rightarrow> LocalStorage \<Rightarrow> PerfWindow" where
  "freshWindow dev storage = \<lparr>pw_dev = dev, pw_storage = storage, pw_counters = None\<rparr>"

lemma perf_history_ok: "pw_counters (foldl perf_step (freshWindow dev storage) calls) = Some c \<Longrightarrow> perf_ok c"
proof -
  have "perf_window_ok (foldl perf_step (freshWindow dev storage) calls)"
    by (rule foldl_invariant) (simp_all add: perf_window_step, simp add: perf_window_ok_def freshWindow_def)
  then show "pw_counters (foldl perf_step (freshWindow dev storage) calls) = Some c \<Longrightarrow> perf_ok c"
    by (simp add: perf_window_ok_def)
qed

text \<open>
  Whatever is measured in whatever order, and however often the diagnostics are switched off and on: the latency
  window of the state keeps at most 240 samples, the median is at most the 95th percentile, that at most the maximum,
  every sample is at most the maximum, and each of the three is a sample of the window (or zero); of the long tasks the
  last 64 are kept, no more than were counted; the starts under load are among all starts.
\<close>

lemma perf_statistics_consistent:
  assumes "pw_counters (foldl perf_step (freshWindow dev storage) calls) = Some c"
  shows "length (pc_liveStateLatencySamplesMs c) \<le> 240
    \<and> 0 \<le> pc_liveStateLatencyP50Ms c \<and> pc_liveStateLatencyP50Ms c \<le> pc_liveStateLatencyP95Ms c
    \<and> pc_liveStateLatencyP95Ms c \<le> pc_liveStateLatencyMaxMs c
    \<and> list_all (\<lambda>x. x \<le> pc_liveStateLatencyMaxMs c) (pc_liveStateLatencySamplesMs c)
    \<and> set [pc_liveStateLatencyP50Ms c, pc_liveStateLatencyP95Ms c, pc_liveStateLatencyMaxMs c]
        \<subseteq> insert 0 (set (pc_liveStateLatencySamplesMs c))
    \<and> length (pc_longTaskSamples c) = min 64 (pc_longTasks c)
    \<and> pc_liveAnimationDegradedStarts c + pc_liveAnimationMinimalStarts c \<le> pc_liveAnimationStarts c"
  using perf_history_ok [OF assms] by (simp add: perf_ok_def window_ok_def samples_ok_def)

text \<open>The flag on, two messages 100 ms and 160 ms old, one without a time: both are samples, the maximum is the older one.\<close>

definition sample_calls :: "perf_call list" where
  "sample_calls =
     [SetEnabled True, LiveStateApplied [(Some (Fin 100), None), (None, Some (Fin 40)), (None, None)] 200,
      LiveAnimationStart (Some (Fin 0)) DegradedPressure 200]"

lemma sample_history:
  "map_option (\<lambda>c. (pc_liveStateLatencySamplesMs c, pc_liveStateLatencyP50Ms c, pc_liveStateLatencyMaxMs c, pc_liveAnimationStarts c))
     (pw_counters (foldl perf_step (freshWindow False (LocalItems [])) sample_calls)) = Some ([100, 160], 100, 160, 1)"
  by (simp add: sample_calls_def freshWindow_def setPerfDiagnosticsEnabled_def map_set_def map_has_def STORAGE_KEY_def
      with_counters_def ensurePerfDiagnostics_def perfDiagnosticsEnabled_def newCounters_def recordLiveStateApplied_def
      recordLiveAnimationStart_def count_start_def latency_step_def or_opt_def take_last_def percentile_def sample_max_def
      by_asc_def roundedMs_def js_round_def Let_def)

lemma perf_statistics_consistent_witness:
  "\<exists>c. pw_counters (foldl perf_step (freshWindow False (LocalItems [])) sample_calls) = Some c
     \<and> pc_liveStateLatencySamplesMs c = [100, 160] \<and> pc_liveStateLatencyP95Ms c \<le> pc_liveStateLatencyMaxMs c
     \<and> pc_liveStateLatencyP50Ms c = 100 \<and> pc_liveStateLatencyMaxMs c = 160"
proof -
  obtain c where c: "pw_counters (foldl perf_step (freshWindow False (LocalItems [])) sample_calls) = Some c"
    using sample_history by (auto simp: map_option_case split: option.splits)
  then show ?thesis using perf_statistics_consistent [OF c] sample_history by auto
qed

section \<open>Switching off, and the updates of the sources\<close>

text \<open>While the diagnostics are off nothing is counted.\<close>

lemma disabled_records_nothing:
  "\<not> perfDiagnosticsEnabled w \<Longrightarrow> pw_counters (perf_step w call) = pw_counters w"
  by (cases call)
    (simp_all add: with_counters_def perfDiagnosticsSnapshot_def ensurePerfDiagnostics_def split: option.split)

text \<open>An update of a source is counted exactly once, whatever the name of the source is.\<close>

definition source_updates :: "PerfCounters \<Rightarrow> nat" where
  "source_updates c = pc_routeSourceUpdates c + pc_nodeSourceUpdates c + pc_heatmapSourceUpdates c + pc_otherSourceUpdates c"

lemma source_update_counted_once: "source_updates (recordSourceUpdate sourceID c) = source_updates c + 1"
  by (simp add: source_updates_def recordSourceUpdate_def)

end
