(* ===== verification/Share_View.thy ===== *)
theory Share_View
  imports Js_Format
begin

text \<open>
  \<open>src/web/src/shareView.ts\<close>: the link to a view of the map. A link is modelled by its search parameters, decoded, in
  order; \<open>url_get\<close>, \<open>url_has\<close>, \<open>url_set\<close> and \<open>url_delete\<close> are the methods of \<open>URLSearchParams\<close> the file uses. A number is
  written with \<open>toFixed\<close> and then loses its trailing zeros (\<open>replace(/\.?0+$/, '')\<close>), and is read with \<open>Number\<close>.

  The lemmas show that the text of a number is read back as the rounded number, so that a link opens the view it was made
  from up to the rounding.
\<close>

type_synonym search_params = "(string \<times> string) list"

definition url_get :: "search_params \<Rightarrow> string \<Rightarrow> string option" where "url_get ps k = map_of ps k"
definition url_has :: "search_params \<Rightarrow> string \<Rightarrow> bool" where "url_has ps k \<longleftrightarrow> k \<in> fst ` set ps"
definition url_delete :: "string \<Rightarrow> search_params \<Rightarrow> search_params" where "url_delete k ps = filter (\<lambda>p. fst p \<noteq> k) ps"

text \<open>\<open>set\<close> keeps the place of the first occurrence and drops the others.\<close>

fun url_set :: "string \<Rightarrow> string \<Rightarrow> search_params \<Rightarrow> search_params" where
  "url_set k v [] = [(k, v)]"
| "url_set k v (p # ps) = (if fst p = k then (k, v) # url_delete k ps else p # url_set k v ps)"

record SharedViewState =
  sv_lat :: js_number
  sv_lng :: js_number
  sv_z :: js_number
  sv_pitch :: "js_number option"
  sv_bearing :: "js_number option"
  sv_route :: "string option"
  sv_node :: "string option"
  sv_q :: "string option"

record MapViewState =
  mv_lat :: js_number
  mv_lng :: js_number
  mv_z :: js_number
  mv_pitch :: "js_number option"
  mv_bearing :: "js_number option"

section \<open>Reading and writing\<close>

definition is_identifier_char :: "char \<Rightarrow> bool" where
  "is_identifier_char c \<longleftrightarrow>
     (let n = of_char c :: nat
      in 97 \<le> n \<and> n \<le> 122 \<or> 65 \<le> n \<and> n \<le> 90 \<or> 48 \<le> n \<and> n \<le> 57 \<or> c \<in> {CHR ''.'', CHR ''_'', CHR '':'', CHR ''-''})"

definition safePublicIdentifier :: "string option \<Rightarrow> string option" where
  "safePublicIdentifier value =
     (case value of
        None \<Rightarrow> None
      | Some text \<Rightarrow>
          let candidate = js_trim text
          in if candidate \<noteq> [] \<and> list_all is_identifier_char candidate \<and> length candidate \<le> 96 then Some candidate else None)"

definition strip_zeros :: "string \<Rightarrow> string" where
  "strip_zeros s =
     (let kept = rev (dropWhile (\<lambda>c. c = CHR ''0'') (rev s))
      in if length kept = length s then s else if kept \<noteq> [] \<and> last kept = CHR ''.'' then butlast kept else kept)"

definition fixedCoordinate :: "js_number \<Rightarrow> string" where "fixedCoordinate value = strip_zeros (to_fixed 5 value)"
definition fixedZoom :: "js_number \<Rightarrow> string" where "fixedZoom value = strip_zeros (to_fixed 2 value)"
definition fixedCameraAngle :: "js_number \<Rightarrow> string" where "fixedCameraAngle value = strip_zeros (to_fixed 1 value)"

definition number_param :: "search_params \<Rightarrow> string \<Rightarrow> js_double" where
  "number_param ps k = (case url_get ps k of None \<Rightarrow> Fin 0 | Some text \<Rightarrow> js_to_number text)"

definition optionalNumberParam :: "search_params \<Rightarrow> string \<Rightarrow> js_double option" where
  "optionalNumberParam ps k =
     (if \<not> url_has ps k then None
      else Some (case number_param ps k of Fin x \<Rightarrow> Fin x | _ \<Rightarrow> NotANumber))"

text \<open>\<open>None\<close>: the angle refuses the whole view; \<open>Some None\<close>: it is not there.\<close>

definition angle_within :: "js_number \<Rightarrow> js_number \<Rightarrow> js_double option \<Rightarrow> js_number option option" where
  "angle_within lo hi angle =
     (case angle of
        None \<Rightarrow> Some None
      | Some (Fin x) \<Rightarrow> if x < lo \<or> hi < x then None else Some (Some x)
      | Some _ \<Rightarrow> None)"

definition parseSharedView :: "search_params \<Rightarrow> SharedViewState option" where
  "parseSharedView ps =
     (if \<not> url_has ps ''lat'' \<or> \<not> url_has ps ''lng'' \<or> \<not> url_has ps ''z'' then None
      else case (number_param ps ''lat'', number_param ps ''lng'', number_param ps ''z'') of
        (Fin lat, Fin lng, Fin z) \<Rightarrow>
          if lat < -90 \<or> 90 < lat \<or> lng < -180 \<or> 180 < lng \<or> z < 0 \<or> 24 < z then None
          else (case (angle_within 0 85 (optionalNumberParam ps ''pitch''), angle_within (-180) 180 (optionalNumberParam ps ''bearing'')) of
                  (Some pitch, Some bearing) \<Rightarrow>
                    let route = safePublicIdentifier (url_get ps ''route'')
                    in Some \<lparr>sv_lat = lat, sv_lng = lng, sv_z = z, sv_pitch = pitch, sv_bearing = bearing, sv_route = route,
                             sv_node = (if route = None then safePublicIdentifier (url_get ps ''node'') else None), sv_q = None\<rparr>
                | _ \<Rightarrow> None)
      | _ \<Rightarrow> None)"

definition setOptionalNumberParam ::
  "string \<Rightarrow> js_number option \<Rightarrow> (js_number \<Rightarrow> string) \<Rightarrow> search_params \<Rightarrow> search_params" where
  "setOptionalNumberParam k value formatter ps = (case value of None \<Rightarrow> url_delete k ps | Some x \<Rightarrow> url_set k (formatter x) ps)"

definition buildSharedViewURL :: "search_params \<Rightarrow> MapViewState \<Rightarrow> string option \<Rightarrow> string option \<Rightarrow> search_params" where
  "buildSharedViewURL base view route node =
     (let ps = url_set ''lat'' (fixedCoordinate (mv_lat view)) base;
          ps = url_set ''lng'' (fixedCoordinate (mv_lng view)) ps;
          ps = url_set ''z'' (fixedZoom (mv_z view)) ps;
          ps = setOptionalNumberParam ''pitch'' (mv_pitch view) fixedCameraAngle ps;
          ps = setOptionalNumberParam ''bearing'' (mv_bearing view) fixedCameraAngle ps;
          ps = url_delete ''node'' (url_delete ''route'' ps);
          ps = (case safePublicIdentifier route of
                  Some routeID \<Rightarrow> url_set ''route'' routeID ps
                | None \<Rightarrow> (case safePublicIdentifier node of Some nodeID \<Rightarrow> url_set ''node'' nodeID ps | None \<Rightarrow> ps));
          ps = url_delete ''q'' ps
      in foldl (\<lambda>ps k. url_delete k ps) ps [''studio'', ''replayPacket'', ''replayRoute''])"

section \<open>Parameters\<close>

lemma get_delete [simp]: "url_get (url_delete k ps) j = (if j = k then None else url_get ps j)"
  by (induction ps) (auto simp: url_get_def url_delete_def)

lemma get_set [simp]: "url_get (url_set k v ps) j = (if j = k then Some v else url_get ps j)"
proof (induction ps)
  case (Cons p ps)
  then show ?case using get_delete [of k ps j] by (cases p) (auto simp: url_get_def)
qed (auto simp: url_get_def)

lemma has_get [simp]: "url_has ps k \<longleftrightarrow> url_get ps k \<noteq> None"
  by (simp add: url_has_def url_get_def map_of_eq_None_iff)

section \<open>The text of a number\<close>

lemma digits_val_append: "digits_val 10 (s @ t) = digits_val 10 s * 10 ^ length t + digits_val 10 t"
proof -
  have "foldl (\<lambda>a c. a * 10 + or_else (digit_val c) 0) (a * 10 ^ 0 + b) t
      = a * 10 ^ length t + foldl (\<lambda>a c. a * 10 + or_else (digit_val c) 0) b t" for a b :: nat
  proof (induction t arbitrary: a b)
    case (Cons c t)
    have "foldl (\<lambda>a c. a * 10 + or_else (digit_val c) 0) (a * 10 ^ 0 + b) (c # t)
        = foldl (\<lambda>a c. a * 10 + or_else (digit_val c) 0) ((a * 10) * 10 ^ 0 + (b * 10 + or_else (digit_val c) 0)) t"
      by (simp add: algebra_simps)
    then show ?case by (subst (asm) Cons) simp
  qed simp
  from this [of "digits_val 10 s" 0] show ?thesis by (simp add: digits_val_def)
qed

lemma digits_val_zeros: "digits_val 10 (replicate n CHR ''0'') = 0"
  by (induction n) (simp_all add: digits_val_def digit_val_def)

lemma split_zeros:
  obtains body n where "s = body @ replicate n CHR ''0''" "body = rev (dropWhile (\<lambda>c. c = CHR ''0'') (rev s))"
proof -
  let ?z = "takeWhile (\<lambda>c. c = CHR ''0'') (rev s)"
  have "?z = replicate (length ?z) CHR ''0''" by (rule replicate_length_same [symmetric]) (auto dest: set_takeWhileD)
  then have "s = rev (dropWhile (\<lambda>c. c = CHR ''0'') (rev s)) @ replicate (length ?z) CHR ''0''"
    by (metis rev_append rev_replicate rev_rev_ident takeWhile_dropWhile_id)
  then show ?thesis using that by blast
qed

lemma strip_fraction:
  assumes "digits \<noteq> []" and "CHR ''.'' \<notin> set digits"
  obtains body n where "digits = body @ replicate n CHR ''0''"
    "strip_zeros (front @ ''.'' @ digits) = front @ (if body = [] then [] else ''.'' @ body)"
proof -
  obtain body n where b: "digits = body @ replicate n CHR ''0''" "body = rev (dropWhile (\<lambda>c. c = CHR ''0'') (rev digits))"
    by (rule split_zeros)
  have kept: "rev (dropWhile (\<lambda>c. c = CHR ''0'') (rev (front @ ''.'' @ digits))) = front @ ''.'' @ body"
  proof (cases "body = []")
    case True
    then have "\<forall>c\<in>set (rev digits). c = CHR ''0''" using b(2) by (simp add: dropWhile_eq_Nil_conv)
    then have "dropWhile (\<lambda>c. c = CHR ''0'') (rev digits @ ''.'' @ rev front) = dropWhile (\<lambda>c. c = CHR ''0'') (''.'' @ rev front)"
      by (intro dropWhile_append2) simp
    then show ?thesis using True by simp
  next
    case False
    then have "dropWhile (\<lambda>c. c = CHR ''0'') (rev digits @ ''.'' @ rev front) = rev body @ ''.'' @ rev front"
      using b(2) by (subst dropWhile_append) (auto simp: dropWhile_eq_Nil_conv)
    then show ?thesis by simp
  qed
  have "last body \<noteq> CHR ''.''" if "body \<noteq> []" using assms(2) b(1) last_in_set [OF that] by auto
  then have "strip_zeros (front @ ''.'' @ digits) = front @ (if body = [] then [] else ''.'' @ body)"
    unfolding strip_zeros_def kept Let_def using b(1) assms(1) by (auto simp: butlast_append)
  with b(1) show ?thesis by (rule that)
qed

lemma digit_code: "is_digit 10 c \<Longrightarrow> 48 \<le> (of_char c :: nat) \<and> (of_char c :: nat) \<le> 57"
  by (auto simp: is_digit_def digit_val_def Let_def split: if_splits)

definition numeric :: "char \<Rightarrow> bool" where
  "numeric c \<longleftrightarrow> is_digit 10 c \<or> c = CHR ''.'' \<or> c = CHR ''-''"

lemma numeric_code: "numeric c \<Longrightarrow> 45 \<le> (of_char c :: nat) \<and> (of_char c :: nat) \<le> 57"
  using digit_code [of c] by (auto simp: numeric_def)

lemma numeric_plain: "numeric c \<Longrightarrow> \<not> is_space c" "numeric c \<Longrightarrow> lower_char c = c"
  "numeric c \<Longrightarrow> c \<notin> {CHR ''x'', CHR ''o'', CHR ''b'', CHR ''+'', CHR ''I''}"
  using numeric_code [of c] by (auto simp: is_space_def lower_char_def Let_def)

lemma trim_numeric: "list_all numeric s \<Longrightarrow> js_trim s = s"
proof -
  assume s: "list_all numeric s"
  have front: "trim_start t = t" if "list_all numeric t" for t
    using that by (cases t) (simp_all add: trim_start_def numeric_plain)
  have "list_all numeric (rev s)" using s by (simp add: list_all_iff)
  then have "dropWhile is_space (rev s) = rev s" using front by (simp add: trim_start_def)
  then show ?thesis by (simp add: js_trim_def trim_end_def front [OF s])
qed

text \<open>A decimal: digits, and perhaps a point and more digits.\<close>

lemma parse_plain:
  assumes "list_all (is_digit 10) whole" and "whole \<noteq> []" and "list_all (is_digit 10) body"
  shows "parse_decimal (whole @ (if body = [] then [] else ''.'' @ body))
      = double_of (real (digits_val 10 whole) + real (digits_val 10 body) / 10 ^ length body)"
proof -
  have dot: "\<not> is_digit 10 CHR ''.''" by (simp add: is_digit_def digit_val_def)
  let ?r = "if body = [] then [] else ''.'' @ body"
  have whole: "takeWhile (is_digit 10) (whole @ ?r) = whole" "dropWhile (is_digit 10) (whole @ ?r) = ?r"
    using assms(1) dot by (auto simp: list_all_iff takeWhile_append2 dropWhile_append2)
  have body: "takeWhile (is_digit 10) body = body" "dropWhile (is_digit 10) body = []"
    using assms(3) by (auto simp: list_all_iff takeWhile_eq_all_conv dropWhile_eq_Nil_conv)
  have "whole @ ?r \<noteq> ''Infinity''"
  proof
    assume "whole @ ?r = ''Infinity''"
    then have "hd whole = CHR ''I''" using assms(2) by (metis hd_append2 list.sel(1))
    moreover have "is_digit 10 (hd whole)" using assms(1,2) by (simp add: list_all_iff)
    ultimately show False by (simp add: is_digit_def digit_val_def)
  qed
  then show ?thesis unfolding parse_decimal_def whole Let_def using assms(2)
    by (simp add: body parse_exponent_def scale10_def digits_val_def [of 10 "[]"])
qed

lemma no_radix: "(\<And>c. c \<in> set t \<Longrightarrow> c \<notin> {CHR ''x'', CHR ''o'', CHR ''b''}) \<Longrightarrow> t \<noteq> ''0x'' \<and> t \<noteq> ''0o'' \<and> t \<noteq> ''0b''"
proof -
  assume "\<And>c. c \<in> set t \<Longrightarrow> c \<notin> {CHR ''x'', CHR ''o'', CHR ''b''}"
  then have "CHR ''x'' \<notin> set t" "CHR ''o'' \<notin> set t" "CHR ''b'' \<notin> set t" by blast+
  then show ?thesis by auto
qed

lemma power_gap: "n < m \<Longrightarrow> (2::real) ^ n \<le> 2 ^ m - 2 ^ n"
  using power_increasing [of "Suc n" m "2::real"] by simp

lemma double_of_small: "x < 10 ^ 12 \<Longrightarrow> double_of x = Fin x"
proof -
  assume "x < 10 ^ 12"
  also have "(10::real) ^ 12 \<le> 2 ^ 40" by simp
  also have "(2::real) ^ 40 \<le> 2 ^ 970" by (rule power_increasing) simp_all
  also have "(2::real) ^ 970 \<le> 2 ^ 1024 - 2 ^ 970" by (rule power_gap) simp
  finally show ?thesis by (simp only: double_of_def if_True)
qed

lemma to_number_plain:
  assumes "list_all (is_digit 10) whole" and "whole \<noteq> []" and "list_all (is_digit 10) body"
  shows "js_to_number ((if negative then ''-'' else []) @ whole @ (if body = [] then [] else ''.'' @ body))
      = (let d = double_of (real (digits_val 10 whole) + real (digits_val 10 body) / 10 ^ length body)
         in if negative then double_neg d else d)"
    (is "js_to_number ?s = _")
proof -
  have num: "list_all numeric ?s" using assms by (auto simp: list_all_iff numeric_def)
  have first: "is_digit 10 (hd whole)" using assms(1,2) by (simp add: list_all_iff)
  then have no_sign: "hd whole \<noteq> CHR ''-''" "hd whole \<noteq> CHR ''+''" by (auto simp: is_digit_def digit_val_def)
  have two: "list_all numeric (take 2 ?s)" using num unfolding list_all_iff by (blast dest: in_set_takeD)
  then have lower: "js_lower (take 2 ?s) = take 2 ?s"
    unfolding js_lower_def list_all_iff by (intro map_idI numeric_plain(2)) blast
  have "c \<in> set (take 2 ?s) \<Longrightarrow> c \<notin> {CHR ''x'', CHR ''o'', CHR ''b''}" for c
    using two numeric_plain(3) [of c] unfolding list_all_iff by blast
  then have radix: "take 2 ?s \<noteq> ''0x''" "take 2 ?s \<noteq> ''0o''" "take 2 ?s \<noteq> ''0b''"
    using no_radix [of "take 2 ?s"] by blast+
  show ?thesis
  proof (cases negative)
    case True
    then show ?thesis using trim_numeric [OF num] lower radix parse_plain [OF assms] by (simp add: js_to_number_def Let_def)
  next
    case False
    then show ?thesis using trim_numeric [OF num] lower radix parse_plain [OF assms] no_sign assms(2)
      by (simp add: js_to_number_def Let_def)
  qed
qed

text \<open>The number a text of \<open>toFixed\<close> without trailing zeros stands for.\<close>

definition rounded_to :: "nat \<Rightarrow> js_number \<Rightarrow> js_number" where
  "rounded_to k x = (if x < 0 then - 1 else 1) * (real (fixed_int k x) / 10 ^ k)"

lemma quotient_parts: "(a::real) = b * c + d \<Longrightarrow> c \<noteq> 0 \<Longrightarrow> b + d / c = a / c"
  by (simp add: add_divide_distrib)

lemma read_written:
  assumes "0 < k" and "real (fixed_int k x) < 10 ^ 12"
  shows "js_to_number (strip_zeros (to_fixed k x)) = Fin (rounded_to k x)"
proof -
  let ?n = "fixed_int k x"
  let ?digits = "frac_digits k ?n"
  have nodot: "CHR ''.'' \<notin> set ?digits"
    using frac_digits_are_digits [of k ?n] by (auto simp: list_all_iff is_digit_def digit_val_def)
  have ne: "?digits \<noteq> []" using assms(1) by (cases k) simp_all
  obtain body m where body: "?digits = body @ replicate m CHR ''0''"
    "strip_zeros (((if x < 0 then ''-'' else []) @ show_nat (?n div 10 ^ k)) @ ''.'' @ ?digits)
       = ((if x < 0 then ''-'' else []) @ show_nat (?n div 10 ^ k)) @ (if body = [] then [] else ''.'' @ body)"
    using strip_fraction [OF ne nodot] by metis
  have written: "strip_zeros (to_fixed k x) = (if x < 0 then ''-'' else []) @ show_nat (?n div 10 ^ k) @ (if body = [] then [] else ''.'' @ body)"
    using body(2) assms(1) by (simp add: to_fixed_def fixed_text_def)
  have digits: "list_all (is_digit 10) body" using frac_digits_are_digits [of k ?n] by (simp add: body(1))
  have len: "k = length body + m" using length_frac_digits [of k ?n] by (simp add: body(1))
  have "digits_val 10 ?digits = digits_val 10 body * 10 ^ m" by (simp add: body(1) digits_val_append digits_val_zeros)
  then have "real (?n mod 10 ^ k) = real (digits_val 10 body) * 10 ^ m" by simp
  then have "real (digits_val 10 body) / 10 ^ length body = real (?n mod 10 ^ k) / 10 ^ k"
    by (simp add: len power_add)
  moreover have "real (?n div 10 ^ k) + real (?n mod 10 ^ k) / 10 ^ k = real ?n / 10 ^ k"
  proof -
    have "real ?n = real (?n div 10 ^ k) * 10 ^ k + real (?n mod 10 ^ k)"
      using arg_cong [OF div_mult_mod_eq [of ?n "10 ^ k"], of real, symmetric] unfolding of_nat_add of_nat_mult of_nat_power by simp
    then show ?thesis by (rule quotient_parts) simp
  qed
  ultimately have val: "real (digits_val 10 (show_nat (?n div 10 ^ k))) + real (digits_val 10 body) / 10 ^ length body = real ?n / 10 ^ k"
    by (simp add: digits_val_show_nat)
  have "real ?n / 10 ^ k \<le> real ?n" by (simp add: divide_le_eq mult_le_cancel_left1)
  then have "real ?n / 10 ^ k < 10 ^ 12" using assms(2) by linarith
  moreover have "(10::real) ^ 300 < 2 ^ 1024 - 2 ^ 970" by simp
  ultimately have "double_of (real ?n / 10 ^ k) = Fin (real ?n / 10 ^ k)" by (simp add: double_of_def)
  moreover have "js_to_number (strip_zeros (to_fixed k x))
      = (let d = double_of (real (digits_val 10 (show_nat (?n div 10 ^ k))) + real (digits_val 10 body) / 10 ^ length body)
         in if x < 0 then double_neg d else d)"
    unfolding written by (rule to_number_plain [OF show_nat_digits show_nat_not_Nil digits])
  ultimately have "js_to_number (strip_zeros (to_fixed k x)) = (if x < 0 then double_neg (Fin (real ?n / 10 ^ k)) else Fin (real ?n / 10 ^ k))"
    by (simp only: val Let_def)
  then show ?thesis by (simp only: rounded_to_def double_neg.simps) (simp split: if_split)
qed

lemma rounded_near: "\<bar>rounded_to k x - x\<bar> \<le> 1 / (2 * 10 ^ k)"
  using fixed_int_error [of k x] by (auto simp: rounded_to_def abs_if split: if_splits)

lemma fixed_int_le: "\<bar>x\<bar> \<le> real b \<Longrightarrow> fixed_int k x \<le> b * 10 ^ k"
proof -
  assume "\<bar>x\<bar> \<le> real b"
  then have "\<bar>x\<bar> * 10 ^ k \<le> real b * 10 ^ k" by (rule mult_right_mono) simp
  moreover have "of_int (int (b * 10 ^ k)) = real b * 10 ^ k" by simp
  ultimately have "\<bar>x\<bar> * 10 ^ k + 1 / 2 < of_int (int (b * 10 ^ k)) + 1" by linarith
  then have "\<lfloor>\<bar>x\<bar> * 10 ^ k + 1 / 2\<rfloor> \<le> int (b * 10 ^ k)" by linarith
  then show ?thesis unfolding fixed_int_def by linarith
qed

lemma rounded_within: "\<bar>x\<bar> \<le> real b \<Longrightarrow> \<bar>rounded_to k x\<bar> \<le> real b"
proof -
  assume "\<bar>x\<bar> \<le> real b"
  then have "real (fixed_int k x) \<le> real (b * 10 ^ k)" using fixed_int_le of_nat_le_iff by blast
  then have "real (fixed_int k x) / 10 ^ k \<le> real b" by (simp add: divide_le_eq)
  then show ?thesis by (simp add: rounded_to_def abs_mult)
qed

lemma rounded_nonneg: "0 \<le> x \<Longrightarrow> 0 \<le> rounded_to k x"
  by (simp add: rounded_to_def)

lemma read_small:
  assumes "0 < k" and "k \<le> 5" and "\<bar>x\<bar> \<le> real b" and "b \<le> 180"
  shows "js_to_number (strip_zeros (to_fixed k x)) = Fin (rounded_to k x)"
proof (rule read_written [OF assms(1)])
  have "fixed_int k x \<le> b * 10 ^ k" by (rule fixed_int_le [OF assms(3)])
  also have "\<dots> \<le> 180 * 10 ^ 5" using assms(2,4) by (intro mult_le_mono power_increasing) simp_all
  finally have "real (fixed_int k x) \<le> real (180 * 10 ^ 5 :: nat)" by (simp only: of_nat_le_iff)
  then show "real (fixed_int k x) < 10 ^ 12" by simp
qed

section \<open>A link opens the view it was made from\<close>

lemma identifier_again: "safePublicIdentifier value = Some i \<Longrightarrow> safePublicIdentifier (Some i) = Some i"
  by (auto simp: safePublicIdentifier_def Let_def split: option.splits if_splits)

definition view_in_range :: "MapViewState \<Rightarrow> bool" where
  "view_in_range view \<longleftrightarrow>
     \<bar>mv_lat view\<bar> \<le> 90 \<and> \<bar>mv_lng view\<bar> \<le> 180 \<and> 0 \<le> mv_z view \<and> mv_z view \<le> 24
     \<and> (case mv_pitch view of None \<Rightarrow> True | Some p \<Rightarrow> 0 \<le> p \<and> p \<le> 85)
     \<and> (case mv_bearing view of None \<Rightarrow> True | Some b \<Rightarrow> \<bar>b\<bar> \<le> 180)"

lemma built_parameters:
  fixes base view route node
  defines "url \<equiv> buildSharedViewURL base view route node"
  shows "url_get url ''lat'' = Some (fixedCoordinate (mv_lat view))" "url_get url ''lng'' = Some (fixedCoordinate (mv_lng view))"
    "url_get url ''z'' = Some (fixedZoom (mv_z view))" "url_get url ''pitch'' = map_option fixedCameraAngle (mv_pitch view)"
    "url_get url ''bearing'' = map_option fixedCameraAngle (mv_bearing view)" "url_get url ''route'' = safePublicIdentifier route"
    "url_get url ''node'' = (if safePublicIdentifier route = None then safePublicIdentifier node else None)"
    "url_get url ''q'' = None"
  by (simp_all add: url_def buildSharedViewURL_def setOptionalNumberParam_def Let_def split: option.split)

lemma angle_read:
  assumes "case angle of None \<Rightarrow> True | Some x \<Rightarrow> \<bar>x\<bar> \<le> real b \<and> (lo = 0 \<longrightarrow> 0 \<le> x)" and "b \<le> 180" and "lo = 0 \<or> lo = - real b"
    and "url_get ps k = map_option fixedCameraAngle angle"
  shows "angle_within lo (real b) (optionalNumberParam ps k) = Some (map_option (rounded_to 1) angle)"
proof (cases angle)
  case None
  then show ?thesis using assms(4) by (simp add: optionalNumberParam_def angle_within_def)
next
  case (Some x)
  then have x: "\<bar>x\<bar> \<le> real b" "lo = 0 \<longrightarrow> 0 \<le> x" using assms(1) by simp_all
  have "js_to_number (strip_zeros (to_fixed 1 x)) = Fin (rounded_to 1 x)" using x(1) assms(2) by (intro read_small) simp_all
  then have "optionalNumberParam ps k = Some (Fin (rounded_to 1 x))"
    using assms(4) Some by (simp add: optionalNumberParam_def number_param_def fixedCameraAngle_def)
  moreover have "lo \<le> rounded_to 1 x" "rounded_to 1 x \<le> real b"
    using rounded_within [OF x(1), of 1] rounded_nonneg [of x 1] x(2) assms(3) by auto
  ultimately show ?thesis using Some by (simp add: angle_within_def)
qed

text \<open>
  C39. A shared link opens the view it was made from: whatever parameters the address had before, parsing what was built
  from a view in range gives back its position to five decimals, its zoom to two and its angles to one, the route if it
  has a public identifier and else the node; nothing of a search is in the link.
\<close>

theorem shared_view_round_trip:
  assumes "view_in_range view"
  shows "parseSharedView (buildSharedViewURL base view route node) =
      Some \<lparr>sv_lat = rounded_to 5 (mv_lat view), sv_lng = rounded_to 5 (mv_lng view), sv_z = rounded_to 2 (mv_z view),
            sv_pitch = map_option (rounded_to 1) (mv_pitch view), sv_bearing = map_option (rounded_to 1) (mv_bearing view),
            sv_route = safePublicIdentifier route,
            sv_node = (if safePublicIdentifier route = None then safePublicIdentifier node else None), sv_q = None\<rparr>
    \<and> \<bar>rounded_to 5 (mv_lat view) - mv_lat view\<bar> \<le> 1 / 200000 \<and> \<bar>rounded_to 5 (mv_lng view) - mv_lng view\<bar> \<le> 1 / 200000
    \<and> \<bar>rounded_to 2 (mv_z view) - mv_z view\<bar> \<le> 1 / 200"
proof -
  let ?url = "buildSharedViewURL base view route node"
  have range: "\<bar>mv_lat view\<bar> \<le> real 90" "\<bar>mv_lng view\<bar> \<le> real 180" "\<bar>mv_z view\<bar> \<le> real 24" "0 \<le> mv_z view"
    using assms by (simp_all add: view_in_range_def)
  have numbers: "number_param ?url ''lat'' = Fin (rounded_to 5 (mv_lat view))" "number_param ?url ''lng'' = Fin (rounded_to 5 (mv_lng view))"
    "number_param ?url ''z'' = Fin (rounded_to 2 (mv_z view))"
    using range by (simp_all add: number_param_def built_parameters fixedCoordinate_def fixedZoom_def read_small
        [where b = 90] read_small [where b = 180] read_small [where b = 24])
  have bounds: "\<bar>rounded_to 5 (mv_lat view)\<bar> \<le> 90" "\<bar>rounded_to 5 (mv_lng view)\<bar> \<le> 180" "\<bar>rounded_to 2 (mv_z view)\<bar> \<le> 24"
    "0 \<le> rounded_to 2 (mv_z view)"
    using range(1-3) [THEN rounded_within] rounded_nonneg [OF range(4)] by simp_all
  have angles: "angle_within 0 85 (optionalNumberParam ?url ''pitch'') = Some (map_option (rounded_to 1) (mv_pitch view))"
    "angle_within (-180) 180 (optionalNumberParam ?url ''bearing'') = Some (map_option (rounded_to 1) (mv_bearing view))"
    using angle_read [where angle = "mv_pitch view" and b = 85 and lo = 0 and ps = ?url and k = "''pitch''"]
      angle_read [where angle = "mv_bearing view" and b = 180 and lo = "- 180" and ps = ?url and k = "''bearing''"] assms
    by (simp_all add: view_in_range_def built_parameters split: option.splits)
  have ids: "safePublicIdentifier (safePublicIdentifier i) = safePublicIdentifier i" for i
    using identifier_again [of i] by (cases "safePublicIdentifier i") (simp_all add: safePublicIdentifier_def [of None])
  have "parseSharedView ?url =
      Some \<lparr>sv_lat = rounded_to 5 (mv_lat view), sv_lng = rounded_to 5 (mv_lng view), sv_z = rounded_to 2 (mv_z view),
            sv_pitch = map_option (rounded_to 1) (mv_pitch view), sv_bearing = map_option (rounded_to 1) (mv_bearing view),
            sv_route = safePublicIdentifier route,
            sv_node = (if safePublicIdentifier route = None then safePublicIdentifier node else None), sv_q = None\<rparr>"
    using bounds by (simp add: parseSharedView_def built_parameters numbers angles ids Let_def abs_le_iff)
  then show ?thesis using rounded_near [of 5 "mv_lat view"] rounded_near [of 5 "mv_lng view"] rounded_near [of 2 "mv_z view"] by simp
qed

text \<open>A view of Ottawa with a bearing, a route and an old link behind it.\<close>

theorem shared_view_round_trip_witness:
  "let view = \<lparr>mv_lat = 45 + 1 / 3, mv_lng = - 75, mv_z = 9, mv_pitch = None, mv_bearing = Some (- 30)\<rparr>;
       parsed = parseSharedView (buildSharedViewURL [(''node'', ''n''), (''lat'', ''1'')] view (Some ''r1'') None)
   in view_in_range view \<and> map_option sv_lat parsed = Some (rounded_to 5 (45 + 1 / 3)) \<and> map_option sv_route parsed = Some (Some ''r1'')
      \<and> map_option sv_node parsed = Some None \<and> rounded_to 5 (45 + 1 / 3) = 4533333 / 100000"
proof -
  let ?view = "\<lparr>mv_lat = 45 + 1 / 3, mv_lng = - 75, mv_z = 9, mv_pitch = None, mv_bearing = Some (- 30)\<rparr>"
  have view: "view_in_range ?view" by (simp add: view_in_range_def)
  have route: "safePublicIdentifier (Some ''r1'') = Some ''r1''"
    by (simp add: safePublicIdentifier_def js_trim_def trim_start_def trim_end_def is_space_def is_identifier_char_def)
  have "rounded_to 5 (45 + 1 / 3) = 4533333 / 100000" by (simp add: rounded_to_def fixed_int_def)
  then show ?thesis using shared_view_round_trip [OF view, of "[(''node'', ''n''), (''lat'', ''1'')]" "Some ''r1''" None] view route
    by (simp add: Let_def)
qed

text \<open>A link with a position outside of the map is no view.\<close>

lemma out_of_range_refused: "number_param ps ''lng'' = Fin x \<Longrightarrow> 180 < \<bar>x\<bar> \<Longrightarrow> parseSharedView ps = None"
  by (auto simp: parseSharedView_def abs_if split: js_double.split if_splits)

end
