(* ===== verification/Js_Regex.thy ===== *)
theory Js_Regex
  imports Carto_Strings
begin

text \<open>
  Regular expressions of JavaScript as far as the client uses them, with its matching order: a match is looked for from
  left to right, an alternative before the next one, a repetition as long as possible and then shorter. A position is the
  character before it, which a word boundary looks at, and the rest of the text. \<open>replace_all\<close> is \<open>replace\<close> with a global
  expression that matches no empty text.
\<close>

section \<open>Matching\<close>

type_synonym position = "char option \<times> string"

definition is_word :: "char \<Rightarrow> bool" where
  "is_word c = (let n = of_char c :: nat in 48 \<le> n \<and> n \<le> 57 \<or> 65 \<le> n \<and> n \<le> 90 \<or> 97 \<le> n \<and> n \<le> 122 \<or> n = 95)"

definition word_first :: "string \<Rightarrow> bool" where
  "word_first s \<longleftrightarrow> (case s of [] \<Rightarrow> False | c # cs \<Rightarrow> is_word c)"

definition word_before :: "char option \<Rightarrow> bool" where
  "word_before p \<longleftrightarrow> (case p of None \<Rightarrow> False | Some c \<Rightarrow> is_word c)"

definition at_edge :: "position \<Rightarrow> bool" where
  "at_edge pos \<longleftrightarrow> word_before (fst pos) \<noteq> word_first (snd pos)"

datatype regex =
    Run nat "nat option" "char \<Rightarrow> bool" \<comment> \<open>a class of characters, at least and at most so often\<close>
  | Seq regex regex
  | Either regex regex
  | Maybe regex
  | Edge
  | Repeat nat regex \<comment> \<open>a group, at least so often\<close>

fun advance :: "nat \<Rightarrow> position \<Rightarrow> position" where
  "advance 0 pos = pos"
| "advance (Suc n) (p, []) = (p, [])"
| "advance (Suc n) (p, c # cs) = advance n (Some c, cs)"

definition run_length :: "nat option \<Rightarrow> (char \<Rightarrow> bool) \<Rightarrow> string \<Rightarrow> nat" where
  "run_length most P s = (let n = length (takeWhile P s) in case most of None \<Rightarrow> n | Some m \<Rightarrow> min m n)"

text \<open>The iterations of a group each consume a character, so there are at most as many as there are characters left.\<close>

fun iterate :: "(position \<Rightarrow> position list) \<Rightarrow> nat \<Rightarrow> nat \<Rightarrow> position \<Rightarrow> position list" where
  "iterate m 0 least pos = (if least = 0 then [pos] else [])"
| "iterate m (Suc left) least pos =
     concat (map (iterate m left (least - 1)) (filter (\<lambda>q. length (snd q) < length (snd pos)) (m pos)))
     @ (if least = 0 then [pos] else [])"

primrec matches :: "regex \<Rightarrow> position \<Rightarrow> position list" where
  "matches (Run least most P) = (\<lambda>pos. map (\<lambda>n. advance n pos) (rev [least..<Suc (run_length most P (snd pos))]))"
| "matches (Seq a b) = (\<lambda>pos. concat (map (matches b) (matches a pos)))"
| "matches (Either a b) = (\<lambda>pos. matches a pos @ matches b pos)"
| "matches (Maybe a) = (\<lambda>pos. matches a pos @ [pos])"
| "matches Edge = (\<lambda>pos. if at_edge pos then [pos] else [])"
| "matches (Repeat least a) = (\<lambda>pos. iterate (matches a) (length (snd pos)) least pos)"

function replace_from :: "regex \<Rightarrow> string \<Rightarrow> char option \<Rightarrow> string \<Rightarrow> string" where
  "replace_from r w p [] = []"
| "replace_from r w p (c # cs) =
     (case matches r (p, c # cs) of
        [] \<Rightarrow> c # replace_from r w (Some c) cs
      | q # _ \<Rightarrow> if length (snd q) \<le> length cs then w @ replace_from r w (fst q) (snd q) else c # replace_from r w (Some c) cs)"
  by pat_completeness auto
termination by (relation "measure (\<lambda>(r, w, p, s). length s)") (auto simp: less_Suc_eq_le)

definition replace_all :: "regex \<Rightarrow> string \<Rightarrow> string \<Rightarrow> string" where
  "replace_all r w s = replace_from r w None s"

text \<open>Words of an expression: the letters of a word, in either case.\<close>

fun word_regex :: "string \<Rightarrow> regex" where
  "word_regex [] = Run 0 (Some 0) (\<lambda>c. False)"
| "word_regex (c # cs) = Seq (Run 1 (Some 1) (\<lambda>d. lower_char d = c)) (word_regex cs)"

section \<open>Where a match ends\<close>

lemma at_edge_simps [simp]:
  "word_first [] = False" "word_first (c # cs) = is_word c" "word_before None = False" "word_before (Some c) = is_word c"
  by (simp_all add: word_first_def word_before_def)

text \<open>A match from a position ends at a later one: its text \<open>t\<close> is a prefix of the rest.\<close>

definition reaches :: "position \<Rightarrow> string \<Rightarrow> position \<Rightarrow> bool" where
  "reaches pos t q \<longleftrightarrow> snd pos = t @ snd q \<and> fst q = (if t = [] then fst pos else Some (last t))"

lemma reaches_refl [simp]: "reaches pos [] pos"
  by (simp add: reaches_def)

lemma reaches_trans: "reaches p t q \<Longrightarrow> reaches q u r \<Longrightarrow> reaches p (t @ u) r"
  by (auto simp: reaches_def)

lemma reaches_advance: "n \<le> length (snd pos) \<Longrightarrow> reaches pos (take n (snd pos)) (advance n pos)"
proof (induction n pos rule: advance.induct)
  case (3 n p c cs)
  then have "reaches (Some c, cs) (take n cs) (advance n (Some c, cs))" by simp
  then show ?case by (auto simp: reaches_def)
qed (auto simp: reaches_def)

lemma run_length_le: "run_length most P s \<le> length (takeWhile P s)"
  by (simp add: run_length_def Let_def split: option.split)

lemma run_match:
  "q \<in> set (matches (Run least most P) pos) \<longleftrightarrow>
     (\<exists>n. least \<le> n \<and> n \<le> run_length most P (snd pos) \<and> q = advance n pos)"
  by (auto simp: image_iff)

lemma run_reaches:
  assumes "q \<in> set (matches (Run least most P) pos)"
  obtains t where "reaches pos t q" "list_all P t" "least \<le> length t"
proof -
  obtain n where n: "least \<le> n" "n \<le> run_length most P (snd pos)" "q = advance n pos" using assms unfolding run_match by blast
  have le: "n \<le> length (takeWhile P (snd pos))" using n(2) run_length_le order_trans by blast
  then have take: "take n (snd pos) = take n (takeWhile P (snd pos))"
    by (metis append_take_drop_id take_append takeWhile_eq_take diff_is_0_eq take0 append_Nil2 takeWhile_dropWhile_id)
  have "n \<le> length (snd pos)" using le length_takeWhile_le order_trans by blast
  then have "reaches pos (take n (snd pos)) q" unfolding n(3) by (rule reaches_advance)
  moreover have "list_all P (take n (snd pos))" unfolding take by (auto simp: list_all_iff dest: in_set_takeD set_takeWhileD)
  moreover have "least \<le> length (take n (snd pos))" using n(1) \<open>n \<le> length (snd pos)\<close> by simp
  ultimately show ?thesis by (rule that)
qed

lemma reaches_Seq:
  assumes "q \<in> set (matches (Seq a b) pos)"
  obtains x where "x \<in> set (matches a pos)" "q \<in> set (matches b x)"
  using assms by auto

lemma edge_match: "q \<in> set (matches Edge pos) \<longleftrightarrow> q = pos \<and> at_edge pos"
  by auto

lemma iterate_reaches:
  assumes "\<And>pos q. q \<in> set (m pos) \<Longrightarrow> \<exists>t. reaches pos t q"
  shows "q \<in> set (iterate m left least pos) \<Longrightarrow> \<exists>t. reaches pos t q \<and> (0 < least \<longrightarrow> t \<noteq> [])"
proof (induction left arbitrary: least pos)
  case 0
  then show ?case by (auto split: if_splits intro: exI [of _ "[]"])
next
  case (Suc left)
  show ?case
  proof (cases "least = 0 \<and> q = pos")
    case True
    then show ?thesis by (auto intro: exI [of _ "[]"])
  next
    case False
    then obtain x where x: "x \<in> set (m pos)" "length (snd x) < length (snd pos)" "q \<in> set (iterate m left (least - 1) x)"
      using Suc.prems by (auto split: if_splits)
    obtain t u where "reaches pos t x" "reaches x u q" using assms [OF x(1)] Suc.IH [OF x(3)] by blast
    moreover from this(1) x(2) have "t \<noteq> []" by (auto simp: reaches_def)
    ultimately show ?thesis using reaches_trans [of pos t x u q] by (intro exI [of _ "t @ u"]) simp
  qed
qed

lemma matches_reach: "q \<in> set (matches r pos) \<Longrightarrow> \<exists>t. reaches pos t q"
proof (induction r arbitrary: pos q)
  case (Run least most P)
  then show ?case by (blast elim: run_reaches)
next
  case (Seq a b)
  obtain x where "x \<in> set (matches a pos)" "q \<in> set (matches b x)" by (rule reaches_Seq [OF Seq.prems])
  then show ?case using Seq.IH reaches_trans by blast
next
  case (Repeat least a)
  then show ?case using iterate_reaches [of "matches a" q "length (snd pos)" least pos] by auto
qed (auto intro: exI [of _ "[]"] split: if_splits)

section \<open>Words\<close>

text \<open>The words of a text, in the sense of the boundaries; \<open>inside\<close> tells whether the text goes on within a word.\<close>

fun words :: "bool \<Rightarrow> string \<Rightarrow> string list" where
  "words inside [] = []"
| "words inside (c # cs) =
     (if is_word c then (if inside then words True cs else (c # takeWhile is_word cs) # words True cs) else words False cs)"

lemma words_inside: "\<not> word_first s \<Longrightarrow> words b s = words b' s"
  by (cases s) auto

lemma words_append:
  "u \<noteq> [] \<Longrightarrow> \<not> (is_word (last u) \<and> word_first v) \<Longrightarrow> words b (u @ v) = words b u @ words (is_word (last u)) v"
proof (induction u arbitrary: b)
  case (Cons c u)
  show ?case
  proof (cases "u = []")
    case True
    then show ?thesis using Cons.prems by (cases v) auto
  next
    case False
    have "takeWhile is_word (u @ v) = takeWhile is_word u"
    proof (cases "list_all is_word u")
      case True
      then have "is_word (last u)" using False by (simp add: list_all_iff)
      then have "\<not> word_first v" using Cons.prems(2) False by simp
      then have "takeWhile is_word v = []" by (cases v) auto
      moreover have "takeWhile is_word u = u" using True by (simp only: takeWhile_eq_all_conv list_all_iff)
      moreover have "takeWhile is_word (u @ v) = u @ takeWhile is_word v"
        using True by (intro takeWhile_append2) (simp add: list_all_iff)
      ultimately show ?thesis by (simp only: append_Nil2)
    next
      case no: False
      then show ?thesis by (auto simp: list_all_iff takeWhile_append)
    qed
    then show ?thesis using Cons.IH Cons.prems False by simp
  qed
qed simp

lemma word_run: "w \<noteq> [] \<Longrightarrow> list_all is_word w \<Longrightarrow> \<not> word_first v \<Longrightarrow> takeWhile is_word (w @ v) = w"
  by (cases v) (auto simp: takeWhile_append list_all_iff)

text \<open>
  A redaction replaces texts between two boundaries by a marker that no word touches. What is left of the words are words
  of the text before, whole; and when the expression matches each word with some property, none of these is left.
\<close>

locale redaction =
  fixes r :: regex and marker :: string and token :: "string \<Rightarrow> bool"
  assumes bounded: "q \<in> set (matches r pos) \<Longrightarrow> at_edge pos \<and> at_edge q \<and> (\<exists>t. t \<noteq> [] \<and> reaches pos t q)"
    and marker: "marker \<noteq> []" "\<not> word_first marker" "\<not> is_word (last marker)"
    and found: "token w \<Longrightarrow> w \<noteq> [] \<Longrightarrow> list_all is_word w \<Longrightarrow> \<not> word_before p \<Longrightarrow> \<not> word_first v \<Longrightarrow> matches r (p, w @ v) \<noteq> []"
begin

lemma match_shortens: "matches r (p, c # cs) = q # qs \<Longrightarrow> length (snd q) \<le> length cs"
  using bounded [of q "(p, c # cs)"] by (auto simp: reaches_def Cons_eq_append_conv)

lemma literal_step: "matches r (p, c # cs) = [] \<Longrightarrow> replace_from r marker p (c # cs) = c # replace_from r marker (Some c) cs"
  by simp

lemma marker_step:
  "matches r (p, c # cs) = q # qs \<Longrightarrow> replace_from r marker p (c # cs) = marker @ replace_from r marker (fst q) (snd q)"
  using match_shortens by simp

lemma word_goes_on: "word_before p \<Longrightarrow> takeWhile is_word (replace_from r marker p s) = takeWhile is_word s"
proof (induction s arbitrary: p)
  case (Cons c cs)
  show ?case
  proof (cases "matches r (p, c # cs)")
    case Nil
    then show ?thesis using Cons.IH [of "Some c"] by (simp add: literal_step)
  next
    case (Cons q qs)
    then have "at_edge (p, c # cs)" using bounded [of q] by auto
    then have "\<not> is_word c" using Cons.prems by (simp add: at_edge_def)
    moreover have "takeWhile is_word (marker @ s') = []" for s' using marker by (cases marker) auto
    ultimately show ?thesis unfolding marker_step [OF Cons] by simp
  qed
qed simp

lemma words_left:
  "(word_first s \<longrightarrow> inside = word_before p) \<Longrightarrow> w \<in> set (words inside (replace_from r marker p s)) \<Longrightarrow>
     w \<in> set (words False marker) \<or> w \<in> set (words (word_before p) s) \<and> \<not> token w"
proof (induction s arbitrary: p inside rule: length_induct)
  case (1 s)
  show ?case
  proof (cases s)
    case Nil
    then show ?thesis using 1(3) by simp
  next
    case s: (Cons c cs)
    show ?thesis
    proof (cases "matches r (p, c # cs)")
      case Nil
      have rest: "w \<in> set (words (is_word c) (replace_from r marker (Some c) cs)) \<Longrightarrow>
          w \<in> set (words False marker) \<or> w \<in> set (words (is_word c) cs) \<and> \<not> token w"
        using 1(1) [rule_format, of cs "is_word c" "Some c"] by (simp add: s)
      show ?thesis
      proof (cases "is_word c \<and> \<not> inside \<and> w = c # takeWhile is_word (replace_from r marker (Some c) cs)")
        case True
        then have w: "w = c # takeWhile is_word cs" "is_word c" "\<not> word_before p"
          using word_goes_on [of "Some c" cs] 1(2) by (auto simp: s)
        have "c # cs = w @ dropWhile is_word cs" by (simp add: w(1))
        moreover have "\<not> word_first (dropWhile is_word cs)" by (induction cs) auto
        ultimately have "\<not> token w" using found [of w p "dropWhile is_word cs"] Nil w
          by (auto simp: list_all_iff dest: set_takeWhileD)
        then show ?thesis using w by (simp add: s)
      next
        case False
        then have "w \<in> set (words (is_word c) (replace_from r marker (Some c) cs))"
          using 1(3) unfolding s literal_step [OF Nil] by (auto split: if_splits)
        then show ?thesis using rest 1(2) by (auto simp: s)
      qed
    next
      case (Cons q qs)
      obtain t where t: "t \<noteq> []" "reaches (p, c # cs) t q" "at_edge q" using bounded [of q "(p, c # cs)"] Cons by auto
      then have st: "c # cs = t @ snd q" "fst q = Some (last t)" by (auto simp: reaches_def)
      have edge: "\<not> (is_word (last t) \<and> word_first (snd q))" using t(3) by (simp add: at_edge_def st(2))
      have "words inside (replace_from r marker p s) = words False marker @ words False (replace_from r marker (fst q) (snd q))"
        using words_append [of marker "replace_from r marker (fst q) (snd q)" inside] marker words_inside [of marker inside False]
        unfolding s marker_step [OF Cons] by simp
      then consider "w \<in> set (words False marker)" | "w \<in> set (words False (replace_from r marker (fst q) (snd q)))"
        using 1(3) by auto
      then show ?thesis
      proof cases
        case 2
        have "length (snd q) < length s" using st(1) t(1) s by (metis append_Nil length_append length_greater_0_conv less_add_same_cancel2)
        moreover have "word_first (snd q) \<longrightarrow> False = word_before (fst q)" using edge st(2) by auto
        ultimately have "w \<in> set (words False marker) \<or> w \<in> set (words (word_before (fst q)) (snd q)) \<and> \<not> token w"
          using 1(1) 2 by blast
        then show ?thesis using words_append [OF t(1) edge, of "word_before p"] by (auto simp: s st)
      qed blast
    qed
  qed
qed

lemma redacted_words:
  "w \<in> set (words False (replace_all r marker s)) \<Longrightarrow> w \<in> set (words False marker) \<or> w \<in> set (words False s) \<and> \<not> token w"
  using words_left [of s False None w] by (simp add: replace_all_def)

end

end
