(* ===== verification/Chat_Messages.thy ===== *)
theory Chat_Messages
  imports Js_Regex Api_Panels Js_Sort
begin

text \<open>
  The messages of the chat (\<open>src/web/src/chat.ts\<close>): the redaction of what looks like a key, a path or an identifier, the
  filters, and the search for repeats. Normalising a text to NFKC leaves an ASCII text as it is.
\<close>

section \<open>Constants\<close>

definition CHAT_SCOPE_OPTIONS :: "(string \<times> js_number) list" where
  "CHAT_SCOPE_OPTIONS = [(''1h'', 60 * 60000), (''6h'', 6 * 60 * 60000), (''24h'', 24 * 60 * 60000)]"

definition CHAT_DISPLAY_DEDUPE_WINDOW_MS :: js_number where "CHAT_DISPLAY_DEDUPE_WINDOW_MS = 24 * 60 * 60000"
definition CHAT_TEXT_DEDUPE_WINDOW_MS :: js_number where "CHAT_TEXT_DEDUPE_WINDOW_MS = 10 * 60000"

record ChatFilters =
  cf_query :: string
  cf_region :: string
  cf_channel :: string

definition DEFAULT_CHAT_FILTERS :: ChatFilters where
  "DEFAULT_CHAT_FILTERS = \<lparr>cf_query = [], cf_region = [], cf_channel = []\<rparr>"

section \<open>The expressions\<close>

definition is_hex :: "char \<Rightarrow> bool" where
  "is_hex c = (let n = of_char (lower_char c) :: nat in 48 \<le> n \<and> n \<le> 57 \<or> 97 \<le> n \<and> n \<le> 102)"

definition is_alnum :: "char \<Rightarrow> bool" where
  "is_alnum c \<longleftrightarrow> is_word c \<and> c \<noteq> CHR ''_''"

definition HEX_TOKEN_RE :: regex where
  "HEX_TOKEN_RE = Seq Edge (Seq (Maybe (word_regex ''0x'')) (Seq (Run 16 None is_hex) Edge))"

definition BASE64_TOKEN_RE :: regex where
  "BASE64_TOKEN_RE =
     Seq Edge (Seq (Run 40 None (\<lambda>c. is_alnum c \<or> c = CHR ''+'' \<or> c = CHR ''/'')) (Seq (Run 0 (Some 2) (\<lambda>c. c = CHR ''='')) Edge))"

definition PATH_HEX_RE :: regex where
  "PATH_HEX_RE =
     Seq Edge (Seq (Repeat 5 (Seq (Run 2 (Some 2) is_hex) (Run 1 (Some 1) (\<lambda>c. c = CHR '':'' \<or> c = CHR ''-'' \<or> is_space c))))
       (Seq (Run 2 (Some 2) is_hex) Edge))"

definition SECRET_WORDS :: "string list" where
  "SECRET_WORDS = [''broker'', ''resolver'', ''debug'', ''secret'', ''token'', ''key'', ''hash'', ''payload'']"

definition SECRET_PAIR_RE :: regex where
  "SECRET_PAIR_RE =
     Seq Edge (Seq (foldr (\<lambda>w r. Either (word_regex w) r) SECRET_WORDS (word_regex ''path''))
       (Seq (Run 0 None (\<lambda>c. is_word c \<or> c = CHR ''.'' \<or> c = CHR ''-'')) (Seq (Run 0 None is_space)
         (Seq (Run 1 (Some 1) (\<lambda>c. c = CHR '':'' \<or> c = CHR ''='')) (Seq (Run 0 None is_space) (Run 1 None (\<lambda>c. \<not> is_space c)))))))"

section \<open>Texts\<close>

definition chatWindowForScope :: "js_number \<Rightarrow> js_number \<Rightarrow> js_number \<times> js_number" where
  "chatWindowForScope now scopeMs = (let upTo = max 0 (js_round now) in (max 0 (upTo - scopeMs), upTo))"

definition chatRegion :: "PublicChatMessage \<Rightarrow> string" where
  "chatRegion message = or_else (or_opt (cm_region message) (cm_iata message)) []"

definition normalizeChatFilter :: "string \<Rightarrow> string" where
  "normalizeChatFilter value =
     take 32 (filter (\<lambda>c. is_word c \<and> upper_char c = c \<or> c = CHR '' '' \<or> c = CHR ''-'') (js_upper (js_trim value)))"

definition single_spaces :: "string \<Rightarrow> string" where
  "single_spaces s = replace_all (Run 1 None is_space) '' '' s"

definition redact :: "string \<Rightarrow> string" where
  "redact text =
     replace_all BASE64_TOKEN_RE ''[redacted key]''
       (replace_all HEX_TOKEN_RE ''[redacted id]''
         (replace_all PATH_HEX_RE ''[redacted path]''
           (replace_all SECRET_PAIR_RE ''[redacted]'' text)))"

definition safeChatText :: "string option \<Rightarrow> string \<Rightarrow> string" where
  "safeChatText value fallback =
     (let shown = js_trim (single_spaces (or_else value fallback)) in if shown = [] then fallback else redact shown)"

definition safeChatMessage :: "PublicChatMessage \<Rightarrow> PublicChatMessage" where
  "safeChatMessage message =
     message\<lparr>cm_sender := Some (safeChatText (cm_sender message) ''Unknown''),
             cm_text := safeChatText (Some (cm_text message)) [],
             cm_channelLabel := Some (safeChatText (cm_channelLabel message) ''Public''),
             cm_payloadTypeName := safeChatText (Some (cm_payloadTypeName message)) ''Message'',
             cm_source := None, cm_routeIds := None\<rparr>"

definition chatSearchFields :: "PublicChatMessage \<Rightarrow> string list" where
  "chatSearchFields message =
     (let safe = safeChatMessage message
      in filter (\<lambda>s. s \<noteq> [])
           ([chatRegion safe, or_else (cm_sender safe) [], cm_text safe, or_else (cm_channelLabel safe) [], cm_payloadTypeName safe,
             (case cm_anchor safe of None \<Rightarrow> [] | Some anchor \<Rightarrow> ma_label anchor)] @ or_else (cm_endpointLabels safe) []))"

definition chatMatchesFilters :: "PublicChatMessage \<Rightarrow> ChatFilters \<Rightarrow> bool" where
  "chatMatchesFilters message filters =
     (let query = js_lower (js_trim (cf_query filters)); region = normalizeChatFilter (cf_region filters);
          channel = js_lower (js_trim (cf_channel filters))
      in if region \<noteq> [] \<and> js_upper (chatRegion message) \<noteq> region then False
         else if channel \<noteq> [] \<and> js_lower (or_else (cm_channelLabel message) []) \<noteq> channel then False
         else query = [] \<or> list_ex (\<lambda>field. str_includes (js_lower field) query) (chatSearchFields message))"

definition filterChatMessages :: "PublicChatMessage list \<Rightarrow> ChatFilters \<Rightarrow> PublicChatMessage list" where
  "filterChatMessages messages filters = filter (\<lambda>message. chatMatchesFilters message filters) messages"

definition chatChannelOptions :: "(string \<Rightarrow> string \<Rightarrow> js_number) \<Rightarrow> PublicChatMessage list \<Rightarrow> string list" where
  "chatChannelOptions lc messages =
     js_sort lc (js_set (filter (\<lambda>s. s \<noteq> []) (map (\<lambda>message. js_trim (safeChatText (cm_channelLabel message) [])) messages)))"

section \<open>Repeats\<close>

definition is_control :: "char \<Rightarrow> bool" where
  "is_control c = (let n = of_char c :: nat in n \<le> 31 \<or> 127 \<le> n \<and> n \<le> 159)"

definition normalizeDisplayToken :: "string option \<Rightarrow> string" where
  "normalizeDisplayToken value =
     (let cleaned = filter (\<lambda>c. \<not> is_control c) (safeChatText value []);
          alnumToken = js_trim (single_spaces (js_lower (replace_all (Run 1 None (\<lambda>c. \<not> is_alnum c)) '' '' cleaned)))
      in if alnumToken \<noteq> [] then alnumToken else js_trim (single_spaces (js_lower cleaned)))"

text \<open>The words of \<open>token.split(/\s+/)\<close> that are not empty.\<close>

fun split_spaces :: "string \<Rightarrow> string \<Rightarrow> string list" where
  "split_spaces word [] = (if word = [] then [] else [word])"
| "split_spaces word (c # cs) =
     (if is_space c then (if word = [] then split_spaces [] cs else word # split_spaces [] cs) else split_spaces (word @ [c]) cs)"

definition isLongEnoughForTextDedupe :: "string \<Rightarrow> bool" where
  "isLongEnoughForTextDedupe token \<longleftrightarrow>
     token \<noteq> [] \<and> (14 \<le> length (filter (\<lambda>c. \<not> is_space c) token) \<or> 3 \<le> length (split_spaces [] token))"

definition chatDisplayDedupeKey :: "PublicChatMessage \<Rightarrow> string" where
  "chatDisplayDedupeKey message =
     (let sender = normalizeDisplayToken (cm_sender message); text' = normalizeDisplayToken (Some (cm_text message))
      in if sender = [] \<or> text' = [] then [] else sender @ ''|'' @ text')"

definition chatTextDedupeKey :: "PublicChatMessage \<Rightarrow> string" where
  "chatTextDedupeKey message =
     (let text' = normalizeDisplayToken (Some (cm_text message))
      in if \<not> isLongEnoughForTextDedupe text' then []
         else let label = normalizeDisplayToken (cm_channelLabel message);
                  payload = normalizeDisplayToken (Some (cm_payloadTypeName message));
                  channel = (if label \<noteq> [] then label else if payload \<noteq> [] then payload else ''message'')
              in channel @ ''|'' @ text')"

definition chatWithinWindow :: "js_number \<Rightarrow> js_number \<Rightarrow> js_number \<Rightarrow> bool" where
  "chatWithinWindow a b windowMs \<longleftrightarrow> \<bar>a - b\<bar> \<le> windowMs"

definition chatWithinDedupeWindow :: "js_number \<Rightarrow> js_number \<Rightarrow> bool" where
  "chatWithinDedupeWindow a b = chatWithinWindow a b CHAT_DISPLAY_DEDUPE_WINDOW_MS"

record ChatDedupe =
  cd_seenIds :: "string list"
  cd_seenPublicMessages :: "(string, js_number) js_map"
  cd_seenTextMessages :: "(string, js_number) js_map"
  cd_out :: "PublicChatMessage list"

text \<open>A repeat within the window, and what is remembered of a key: nothing of an empty one.\<close>

definition repeats :: "(string, js_number) js_map \<Rightarrow> string \<Rightarrow> js_number \<Rightarrow> js_number \<Rightarrow> bool" where
  "repeats seen key at' windowMs \<longleftrightarrow>
     key \<noteq> [] \<and> (case map_get seen key of None \<Rightarrow> False | Some previousAt \<Rightarrow> chatWithinWindow previousAt at' windowMs)"

definition remember_key :: "string \<Rightarrow> js_number \<Rightarrow> (string, js_number) js_map \<Rightarrow> (string, js_number) js_map" where
  "remember_key key at' seen = (if key = [] then seen else map_set key at' seen)"

definition chatDedupeStep :: "ChatDedupe \<Rightarrow> PublicChatMessage \<Rightarrow> ChatDedupe" where
  "chatDedupeStep s message =
     (if cm_id message \<in> set (cd_seenIds s) then s
      else let safe = safeChatMessage message; displayKey = chatDisplayDedupeKey safe; textKey = chatTextDedupeKey safe
           in if repeats (cd_seenPublicMessages s) displayKey (cm_at safe) CHAT_DISPLAY_DEDUPE_WINDOW_MS then s
              else let s1 = s\<lparr>cd_seenPublicMessages := remember_key displayKey (cm_at safe) (cd_seenPublicMessages s)\<rparr>
                   in if repeats (cd_seenTextMessages s1) textKey (cm_at safe) CHAT_TEXT_DEDUPE_WINDOW_MS then s1
                      else s1\<lparr>cd_seenTextMessages := remember_key textKey (cm_at safe) (cd_seenTextMessages s1),
                              cd_seenIds := set_add (cm_id message) (cd_seenIds s1), cd_out := cd_out s1 @ [safe]\<rparr>)"

definition newChatDedupe :: ChatDedupe where
  "newChatDedupe = \<lparr>cd_seenIds = [], cd_seenPublicMessages = [], cd_seenTextMessages = [], cd_out = []\<rparr>"

definition dedupeChatMessages :: "PublicChatMessage list \<Rightarrow> PublicChatMessage list" where
  "dedupeChatMessages messages = cd_out (foldl chatDedupeStep newChatDedupe messages)"

section \<open>What redaction leaves\<close>

text \<open>An expression between two boundaries that consumes something is a redaction.\<close>

definition consumes :: "regex \<Rightarrow> bool" where
  "consumes r \<longleftrightarrow> (\<forall>pos q. q \<in> set (matches r pos) \<longrightarrow> length (snd q) < length (snd pos))"

lemma match_not_longer: "q \<in> set (matches r pos) \<Longrightarrow> length (snd q) \<le> length (snd pos)"
  using matches_reach [of q r pos] by (auto simp: reaches_def)

lemma consumes_run: "0 < least \<Longrightarrow> consumes (Run least most P)"
  unfolding consumes_def by (auto elim!: run_reaches simp: reaches_def simp del: matches.simps(1))

lemma consumes_Seq: "consumes a \<or> consumes b \<Longrightarrow> consumes (Seq a b)"
  unfolding consumes_def
proof (intro allI impI)
  fix pos q
  assume some: "(\<forall>pos q. q \<in> set (matches a pos) \<longrightarrow> length (snd q) < length (snd pos)) \<or>
      (\<forall>pos q. q \<in> set (matches b pos) \<longrightarrow> length (snd q) < length (snd pos))"
    and "q \<in> set (matches (Seq a b) pos)"
  then obtain x where x: "x \<in> set (matches a pos)" "q \<in> set (matches b x)" by (blast elim: reaches_Seq)
  from some show "length (snd q) < length (snd pos)"
    using x match_not_longer [OF x(1)] match_not_longer [OF x(2)] by (meson le_less_trans less_le_trans)
qed

lemma edges_bounded:
  assumes "consumes (Seq a b)" and "q \<in> set (matches (Seq Edge (Seq a (Seq b Edge))) pos)"
  shows "at_edge pos \<and> at_edge q \<and> (\<exists>t. t \<noteq> [] \<and> reaches pos t q)"
proof -
  have q: "at_edge pos" "at_edge q" "q \<in> set (matches (Seq a b) pos)" using assms(2) by (auto split: if_splits)
  obtain t where "reaches pos t q" using matches_reach [OF q(3)] by blast
  moreover have "length (snd q) < length (snd pos)" using assms(1) q(3) unfolding consumes_def by blast
  ultimately have "t \<noteq> []" by (auto simp: reaches_def)
  then show ?thesis using q \<open>reaches pos t q\<close> by blast
qed

definition hex_token :: "string \<Rightarrow> bool" where
  "hex_token w \<longleftrightarrow> 16 \<le> length w \<and> list_all is_hex w"

lemma is_hex_word: "is_hex c \<Longrightarrow> is_word c"
  by (auto simp: is_hex_def is_word_def lower_char_def Let_def split: if_splits)

lemma hex_run: "list_all is_hex w \<Longrightarrow> \<not> word_first v \<Longrightarrow> length (takeWhile is_hex (w @ v)) = length w"
proof -
  assume w: "list_all is_hex w" and v: "\<not> word_first v"
  have "takeWhile is_hex v = []" using v is_hex_word by (cases v) auto
  moreover have "takeWhile is_hex (w @ v) = w @ takeWhile is_hex v" using w by (intro takeWhile_append2) (simp add: list_all_iff)
  ultimately show ?thesis by simp
qed

lemma hex_found:
  assumes "hex_token w" and "\<not> word_before p" and "\<not> word_first v"
  shows "matches HEX_TOKEN_RE (p, w @ v) \<noteq> []"
proof -
  have w: "w \<noteq> []" "16 \<le> length w" "list_all is_hex w" using assms(1) by (auto simp: hex_token_def)
  then have first: "word_first (w @ v)" using is_hex_word by (cases w) auto
  have last: "is_word (last w)" using w is_hex_word by (auto simp: list_all_iff)
  have "length w \<le> run_length None is_hex (w @ v)" using hex_run [OF w(3) assms(3)] by (simp add: run_length_def)
  then have run: "advance (length w) (p, w @ v) \<in> set (matches (Run 16 None is_hex) (p, w @ v))"
    unfolding run_match using w(2) by (intro exI [of _ "length w"]) simp
  have "reaches (p, w @ v) w (advance (length w) (p, w @ v))" using reaches_advance [of "length w" "(p, w @ v)"] by simp
  then have end_edge: "at_edge (advance (length w) (p, w @ v))" using w(1) last assms(3) by (auto simp: reaches_def at_edge_def)
  have start_edge: "at_edge (p, w @ v)" using assms(2) first by (simp add: at_edge_def)
  have "advance (length w) (p, w @ v) \<in> set (matches (Seq (Run 16 None is_hex) Edge) (p, w @ v))"
    using run end_edge by (auto simp del: matches.simps(1))
  then have "advance (length w) (p, w @ v) \<in> set (matches HEX_TOKEN_RE (p, w @ v))"
    unfolding HEX_TOKEN_RE_def using start_edge by (auto simp del: matches.simps(1))
  then show ?thesis by auto
qed

interpretation hex: redaction HEX_TOKEN_RE "''[redacted id]''" hex_token
proof unfold_locales
  fix q pos
  assume "q \<in> set (matches HEX_TOKEN_RE pos)"
  then show "at_edge pos \<and> at_edge q \<and> (\<exists>t. t \<noteq> [] \<and> reaches pos t q)"
    unfolding HEX_TOKEN_RE_def by (rule edges_bounded [OF consumes_Seq [OF disjI2 [OF consumes_run]], rotated]) simp
qed (simp_all add: is_word_def hex_found)

interpretation base64: redaction BASE64_TOKEN_RE "''[redacted key]''" "\<lambda>w. False"
proof unfold_locales
  fix q pos
  assume "q \<in> set (matches BASE64_TOKEN_RE pos)"
  then show "at_edge pos \<and> at_edge q \<and> (\<exists>t. t \<noteq> [] \<and> reaches pos t q)"
    unfolding BASE64_TOKEN_RE_def by (rule edges_bounded [OF consumes_Seq [OF disjI1 [OF consumes_run]], rotated]) simp
qed (simp_all add: is_word_def)

lemma markers_no_token: "w \<in> set (words False ''[redacted id]'') \<union> set (words False ''[redacted key]'') \<Longrightarrow> \<not> hex_token w"
  by (auto simp: is_word_def hex_token_def)

lemma redact_hides_ids: "w \<in> set (words False (redact s)) \<Longrightarrow> \<not> hex_token w"
  unfolding redact_def using base64.redacted_words hex.redacted_words markers_no_token by blast

definition shows_no_id :: "string \<Rightarrow> bool" where
  "shows_no_id s \<longleftrightarrow> list_all (\<lambda>w. \<not> hex_token w) (words False s)"

lemma safe_text_hides_ids: "shows_no_id fallback \<Longrightarrow> shows_no_id (safeChatText value fallback)"
  by (auto simp: safeChatText_def Let_def shows_no_id_def list_all_iff redact_hides_ids)

section \<open>What is shown of repeats\<close>

text \<open>
  Two keys of a message, each with its window. \<open>tracks\<close>: what is remembered of a key comes from a message that was looked
  at, not after any shown one with that key; \<open>apart\<close>: shown messages with one key are further apart than the window.
\<close>

definition apart :: "(PublicChatMessage \<Rightarrow> string) \<Rightarrow> js_number \<Rightarrow> PublicChatMessage list \<Rightarrow> bool" where
  "apart key windowMs ms \<longleftrightarrow> sorted_wrt (\<lambda>a b. key a \<noteq> [] \<and> key a = key b \<longrightarrow> windowMs < cm_at a - cm_at b) ms"

definition tracks ::
  "(PublicChatMessage \<Rightarrow> string) \<Rightarrow> PublicChatMessage list \<Rightarrow> js_number \<Rightarrow> PublicChatMessage list \<Rightarrow> (string, js_number) js_map \<Rightarrow> bool" where
  "tracks key done now shown seen \<longleftrightarrow>
     (\<forall>k t. map_get seen k = Some t \<longrightarrow> now \<le> t \<and> (\<exists>m \<in> set done. key (safeChatMessage m) = k \<and> cm_at m = t)) \<and>
     (\<forall>m \<in> set shown. key m \<noteq> [] \<longrightarrow> (\<exists>t. map_get seen (key m) = Some t \<and> t \<le> cm_at m))"

lemma safe_fields [simp]: "cm_id (safeChatMessage m) = cm_id m" "cm_at (safeChatMessage m) = cm_at m"
  by (simp_all add: safeChatMessage_def)

lemma tracks_later: "tracks key done now shown seen \<Longrightarrow> later \<le> now \<Longrightarrow> tracks key (done @ [m]) later shown seen"
  unfolding tracks_def by (fastforce intro: order_trans)

lemma tracks_remember:
  assumes "tracks key done (cm_at m) shown seen" and "set shown' \<subseteq> insert (safeChatMessage m) (set shown)"
  shows "tracks key (done @ [m]) (cm_at m) shown' (remember_key (key (safeChatMessage m)) (cm_at m) seen)"
  using assms unfolding tracks_def remember_key_def
  by (cases "key (safeChatMessage m) = []") (fastforce split: if_splits)+

lemma apart_add:
  assumes "apart key windowMs shown" and "tracks key done (cm_at m) shown seen"
    and "\<not> repeats seen (key (safeChatMessage m)) (cm_at m) windowMs"
  shows "apart key windowMs (shown @ [safeChatMessage m])"
  using assms unfolding apart_def tracks_def repeats_def chatWithinWindow_def by (fastforce simp: sorted_wrt_append)

definition dedupe_ok :: "PublicChatMessage list \<Rightarrow> js_number \<Rightarrow> ChatDedupe \<Rightarrow> bool" where
  "dedupe_ok done now s \<longleftrightarrow>
     set (cd_seenIds s) = cm_id ` set (cd_out s) \<and> distinct (map cm_id (cd_out s)) \<and> set (cd_out s) \<subseteq> safeChatMessage ` set done
     \<and> apart chatDisplayDedupeKey CHAT_DISPLAY_DEDUPE_WINDOW_MS (cd_out s)
     \<and> apart chatTextDedupeKey CHAT_TEXT_DEDUPE_WINDOW_MS (cd_out s)
     \<and> tracks chatDisplayDedupeKey done now (cd_out s) (cd_seenPublicMessages s)
     \<and> tracks chatTextDedupeKey done now (cd_out s) (cd_seenTextMessages s)"

lemma dedupe_ok_step:
  assumes ok: "dedupe_ok done now s" and "cm_at m \<le> now"
  shows "dedupe_ok (done @ [m]) (cm_at m) (chatDedupeStep s m)"
proof -
  let ?safe = "safeChatMessage m"
  have tr: "tracks chatDisplayDedupeKey done (cm_at m) (cd_out s) (cd_seenPublicMessages s)"
      "tracks chatTextDedupeKey done (cm_at m) (cd_out s) (cd_seenTextMessages s)"
    using ok assms(2) unfolding dedupe_ok_def tracks_def by (fastforce intro: order_trans)+
  have later: "tracks chatDisplayDedupeKey (done @ [m]) (cm_at m) (cd_out s) (cd_seenPublicMessages s)"
      "tracks chatTextDedupeKey (done @ [m]) (cm_at m) (cd_out s) (cd_seenTextMessages s)"
    using tr by (auto intro: tracks_later)
  have sub: "set (cd_out s) \<subseteq> safeChatMessage ` set (done @ [m])" using ok by (auto simp: dedupe_ok_def)
  have kept: "tracks chatDisplayDedupeKey (done @ [m]) (cm_at m) (cd_out s)
      (remember_key (chatDisplayDedupeKey ?safe) (cm_at m) (cd_seenPublicMessages s))"
    by (rule tracks_remember [OF tr(1)]) blast
  note parts = ok [unfolded dedupe_ok_def]
  let ?id = "cm_id m \<in> set (cd_seenIds s)"
  let ?display = "repeats (cd_seenPublicMessages s) (chatDisplayDedupeKey ?safe) (cm_at m) CHAT_DISPLAY_DEDUPE_WINDOW_MS"
  let ?text = "repeats (cd_seenTextMessages s) (chatTextDedupeKey ?safe) (cm_at m) CHAT_TEXT_DEDUPE_WINDOW_MS"
  consider (skip) "?id \<or> ?display" | (seen) "\<not> ?id" "\<not> ?display" "?text" | (shown) "\<not> ?id" "\<not> ?display" "\<not> ?text" by blast
  then show ?thesis
  proof cases
    case skip
    have "chatDedupeStep s m = s" using skip by (auto simp: chatDedupeStep_def Let_def)
    then show ?thesis using parts later sub by (simp add: dedupe_ok_def)
  next
    case seen
    have "chatDedupeStep s m = s\<lparr>cd_seenPublicMessages := remember_key (chatDisplayDedupeKey ?safe) (cm_at m) (cd_seenPublicMessages s)\<rparr>"
      using seen by (simp add: chatDedupeStep_def Let_def)
    then show ?thesis using parts kept later sub by (simp add: dedupe_ok_def)
  next
    case shown
    have step: "chatDedupeStep s m = s\<lparr>cd_seenPublicMessages := remember_key (chatDisplayDedupeKey ?safe) (cm_at m) (cd_seenPublicMessages s),
        cd_seenTextMessages := remember_key (chatTextDedupeKey ?safe) (cm_at m) (cd_seenTextMessages s),
        cd_seenIds := set_add (cm_id m) (cd_seenIds s), cd_out := cd_out s @ [?safe]\<rparr>"
      using shown by (simp add: chatDedupeStep_def Let_def)
    have "cm_id m \<notin> cm_id ` set (cd_out s)" using shown(1) parts by simp
    moreover have "apart chatDisplayDedupeKey CHAT_DISPLAY_DEDUPE_WINDOW_MS (cd_out s @ [?safe])"
      by (rule apart_add [OF _ tr(1) shown(2)]) (use parts in blast)
    moreover have "apart chatTextDedupeKey CHAT_TEXT_DEDUPE_WINDOW_MS (cd_out s @ [?safe])"
      by (rule apart_add [OF _ tr(2) shown(3)]) (use parts in blast)
    moreover have "tracks chatDisplayDedupeKey (done @ [m]) (cm_at m) (cd_out s @ [?safe])
        (remember_key (chatDisplayDedupeKey ?safe) (cm_at m) (cd_seenPublicMessages s))"
      by (rule tracks_remember [OF tr(1)]) simp
    moreover have "tracks chatTextDedupeKey (done @ [m]) (cm_at m) (cd_out s @ [?safe])
        (remember_key (chatTextDedupeKey ?safe) (cm_at m) (cd_seenTextMessages s))"
      by (rule tracks_remember [OF tr(2)]) simp
    ultimately show ?thesis unfolding step using parts sub by (simp add: dedupe_ok_def)
  qed
qed

lemma dedupe_ok_new: "dedupe_ok [] now newChatDedupe"
  by (simp add: dedupe_ok_def newChatDedupe_def apart_def tracks_def)

lemma dedupe_ok_run:
  "sorted_wrt (\<lambda>a b. cm_at b \<le> cm_at a) ms \<Longrightarrow> ms \<noteq> [] \<Longrightarrow> dedupe_ok ms (cm_at (last ms)) (foldl chatDedupeStep newChatDedupe ms)"
proof (induction ms rule: rev_induct)
  case (snoc m ms)
  have "dedupe_ok ms (if ms = [] then cm_at m else cm_at (last ms)) (foldl chatDedupeStep newChatDedupe ms)"
    using snoc dedupe_ok_new by (simp add: sorted_wrt_append)
  moreover have "cm_at m \<le> (if ms = [] then cm_at m else cm_at (last ms))"
    using snoc.prems(1) by (auto simp: sorted_wrt_append)
  ultimately show ?case by (simp add: dedupe_ok_step)
qed simp

text \<open>What is not shown repeats a message before it.\<close>

lemma out_grows: "cm_id ` set (cd_out s) \<subseteq> cm_id ` set (cd_out (foldl chatDedupeStep s ms))"
proof (induction ms arbitrary: s)
  case (Cons m ms)
  have "cm_id ` set (cd_out s) \<subseteq> cm_id ` set (cd_out (chatDedupeStep s m))" by (auto simp: chatDedupeStep_def Let_def)
  then show ?case using Cons.IH [of "chatDedupeStep s m"] by simp
qed simp

definition repeats_message :: "PublicChatMessage \<Rightarrow> PublicChatMessage \<Rightarrow> bool" where
  "repeats_message m m' \<longleftrightarrow>
     chatDisplayDedupeKey (safeChatMessage m) = chatDisplayDedupeKey (safeChatMessage m') \<and>
       chatWithinWindow (cm_at m') (cm_at m) CHAT_DISPLAY_DEDUPE_WINDOW_MS
     \<or> chatTextDedupeKey (safeChatMessage m) = chatTextDedupeKey (safeChatMessage m') \<and>
       chatWithinWindow (cm_at m') (cm_at m) CHAT_TEXT_DEDUPE_WINDOW_MS"

lemma repeats_tracked:
  "tracks key done now shown seen \<Longrightarrow> repeats seen (key (safeChatMessage m)) at' windowMs \<Longrightarrow>
     \<exists>m' \<in> set done. key (safeChatMessage m) = key (safeChatMessage m') \<and> chatWithinWindow (cm_at m') at' windowMs"
proof -
  assume tracked: "tracks key done now shown seen" and rep: "repeats seen (key (safeChatMessage m)) at' windowMs"
  then obtain t where t: "map_get seen (key (safeChatMessage m)) = Some t" "chatWithinWindow t at' windowMs"
    by (auto simp: repeats_def split: option.splits)
  then obtain m' where "m' \<in> set done" "key (safeChatMessage m') = key (safeChatMessage m)" "cm_at m' = t"
    using tracked unfolding tracks_def by blast
  then show ?thesis using t(2) by (intro bexI [of _ m']) simp_all
qed

lemma step_shows_or_repeats:
  assumes "dedupe_ok done now s"
  shows "cm_id m \<in> cm_id ` set (cd_out (chatDedupeStep s m)) \<or> (\<exists>m' \<in> set done. repeats_message m m')"
proof -
  have tr: "tracks chatDisplayDedupeKey done now (cd_out s) (cd_seenPublicMessages s)"
      "tracks chatTextDedupeKey done now (cd_out s) (cd_seenTextMessages s)" and ids: "set (cd_seenIds s) = cm_id ` set (cd_out s)"
    using assms by (simp_all add: dedupe_ok_def)
  show ?thesis
  proof (cases "repeats (cd_seenPublicMessages s) (chatDisplayDedupeKey (safeChatMessage m)) (cm_at m) CHAT_DISPLAY_DEDUPE_WINDOW_MS
      \<or> repeats (cd_seenTextMessages s) (chatTextDedupeKey (safeChatMessage m)) (cm_at m) CHAT_TEXT_DEDUPE_WINDOW_MS")
    case True
    then show ?thesis using repeats_tracked [OF tr(1)] repeats_tracked [OF tr(2)] unfolding repeats_message_def by blast
  next
    case False
    then show ?thesis using ids by (auto simp: chatDedupeStep_def Let_def)
  qed
qed


definition sample_message :: "string \<Rightarrow> js_number \<Rightarrow> string \<Rightarrow> PublicChatMessage" where
  "sample_message i t body =
     \<lparr>cm_id = i, cm_at = t, cm_region = None, cm_iata = None, cm_sender = Some ''Ann'', cm_text = body, cm_channelLabel = None,
      cm_payloadTypeName = ''TXT'', cm_source = None, cm_anchor = None, cm_routeIds = None, cm_endpointLabels = None\<rparr>"


end
