(* ===== verification/Spec2Isabelle.thy ===== *)
theory Spec2Isabelle
  imports Live_Flow_Progress Public_Socket Resume_Recovery Connectivity_Correct Worker_Clients Worker_Updates
    Map_Sources_Correct Map_Effects_Correct Packet_Animator_Properties Net_Graph_Transform_Correct
    Dashboard_Correct Map_Actions Panel_Chrome Perf_Diagnostics Share_View
    Chat_Messages
begin

text \<open>
  Verification of the live client of MC-CartoLive, the TypeScript under \<open>web/src\<close>. The client shows the nodes, the
  routes and the packets of a radio mesh on a map. It starts from a snapshot of the server's state, keeps it current
  with a stream of durable events over a web socket, fetches the events it missed page by page, and derives from the
  resulting state what the map, the panels and the graph view draw.

  \<^bold>\<open>The parts and their theories\<close>

  \<^item> \<^emph>\<open>Language and data.\<close> \<open>Carto_Prelude\<close> (numbers, optional properties, \<open>slice\<close>, \<open>Set\<close> and \<open>Map\<close>), \<open>Carto_Strings\<close>,
    \<open>Js_Sort\<close> (\<open>sort\<close> and comparators), \<open>Js_Value\<close> and \<open>Js_Coerce\<close> (parsed JSON and its conversions), \<open>Carto_Types\<close>
    (the interfaces of \<open>types.ts\<close>), \<open>Carto_Samples\<close> (the values of the witnesses).
  \<^item> \<^emph>\<open>The stream.\<close> \<open>Live_Cursor\<close> (\<open>liveCursor.ts\<close>), \<open>Live_Pacing\<close> (\<open>livePacing.ts\<close>), \<open>Event_Recovery\<close> (\<open>eventRecovery.ts\<close>),
    \<open>Bootstrap_Hydration\<close> (\<open>bootstrapHydration.ts\<close>), \<open>Public_Socket\<close> (\<open>ws.ts\<close>), \<open>Resume_Recovery\<close> (\<open>resumeRecovery.ts\<close>).
    \<open>Live_Flow\<close> is the part of \<open>App.tsx\<close> that ties them together: the refs and closure variables are one record
    \<open>Flow\<close>, every callback of the browser an input of \<open>flow_step\<close>. \<open>Live_Flow_Safety\<close> and \<open>Live_Flow_Progress\<close> show
    what holds in every run.
  \<^item> \<^emph>\<open>The state.\<close> \<open>App_State\<close> is the reducer of \<open>state.ts\<close>; \<open>App_Traffic\<close> counts the traffic of its routes,
    \<open>App_Reducer\<close> proves the invariant of \<open>AppState\<close> and the effect of the operations.
  \<^item> \<^emph>\<open>The API client\<close> (\<open>api.ts\<close>). \<open>Api_Sanitize\<close> and \<open>Api_Panels\<close> are the sanitizers, \<open>Api_Requests\<close> the query strings
    and the requests with their timeouts, \<open>Api_Cache\<close> the copy of the last state in the storage. \<open>Api_Correct\<close> and
    \<open>Api_Properties\<close> show that sanitized values have the declared types and that the stored copy comes back.
  \<^item> \<^emph>\<open>Settings and styles.\<close> \<open>Map_Settings\<close> with \<open>Settings_Correct\<close> (\<open>mapSettings.ts\<close>), \<open>Style_Registry\<close>
    (\<open>map/styles/styleRegistry.ts\<close>).
  \<^item> \<^emph>\<open>Between the state and the map.\<close> \<open>Live_Visuals\<close> (\<open>map/animationSafety.ts\<close>, \<open>map/recentIdentityTracker.ts\<close>,
    \<open>map/liveVisualScheduler.ts\<close>, \<open>map/followTraffic.ts\<close>), \<open>Source_Queue\<close> (\<open>map/sourceDataQueue.ts\<close>), \<open>Worker_Clients\<close>
    (\<open>workers/geojsonWorkerClient.ts\<close> and \<open>workers/netgraphWorkerClient.ts\<close>).
  \<^item> \<^emph>\<open>What the map draws.\<close> \<open>Map_Geo\<close> (\<open>map/geo.ts\<close>, \<open>map/zoomMode.ts\<close>, \<open>map/routeStyles.ts\<close>, \<open>lib/clamp.ts\<close>),
    \<open>Route_Arcs\<close> with \<open>Route_Arcs_Correct\<close> (\<open>map/routeArcs.ts\<close>, \<open>map/terrainProfile.ts\<close>, \<open>map/elevationProfile.ts\<close>),
    \<open>Payload_Visuals\<close> (\<open>payloadVisuals.ts\<close>) and \<open>Js_Format\<close> (\<open>toFixed\<close>) are what the rest is made of. The features of the
    sources are in \<open>Route_Source\<close> (\<open>map/routeSource.ts\<close>, \<open>map/analysisRoutes.ts\<close>, \<open>map/nodeFocus.ts\<close>), \<open>Node_Source\<close>
    (\<open>map/nodeSource.ts\<close>, \<open>map/nodeLabels.ts\<close>, \<open>nodeVisuals.ts\<close>, \<open>map/rfEdges.ts\<close>) and \<open>Activity_Glow\<close>
    (\<open>map/activityHeatmap.ts\<close>, \<open>map/clusterActivity.ts\<close>); \<open>Map_Sources\<close> with \<open>Map_Sources_Correct\<close> is when
    \<open>CanadaMap.tsx\<close> hands them to the queue of sources.
  \<^item> \<^emph>\<open>What moves on the map.\<close> \<open>Packet_Canvas\<close> (every drawing routine of \<open>map/packetAnimator.ts\<close> as a list of canvas
    operations, and a machine that runs them), \<open>Packet_Animator\<close> (the class with its operations), \<open>Packet_Frame\<close> (a frame,
    and the step function of the animator), \<open>Packet_Animator_Correct\<close> and \<open>Packet_Animator_Properties\<close>. \<open>Map_Camera\<close>
    (\<open>map/mapCamera.ts\<close>, following the traffic and the message bubbles) and \<open>Replay_Chase\<close> (\<open>map/packetReplayChase.ts\<close>)
    compute the moves of the camera. \<open>Map_Effects\<close> with \<open>Map_Effects_Correct\<close> is the part of \<open>CanadaMap.tsx\<close> that
    reacts to a live packet: the refs of the component are one record \<open>MapFx\<close> with the animator, the glows, the bubbles,
    the activity of the nodes and their timers; every callback is an input of \<open>fx_step\<close>.
  \<^item> \<^emph>\<open>Panels.\<close> \<open>Packet_Lists\<close> (\<open>packets.ts\<close>, \<open>lib/dedupePackets.ts\<close>, \<open>routeTools.ts\<close>, \<open>routeQuality.ts\<close>,
    \<open>lib/formatRelative.ts\<close>), \<open>Map_Selection\<close> (\<open>selection.ts\<close>, \<open>hooks/useMapSelection.ts\<close>), \<open>Lab_Waterfall\<close> (\<open>lab.ts\<close>,
    \<open>labWaterfall.ts\<close> and the synthesizer of \<open>components/LabPanel.tsx\<close>), \<open>Chat_Messages\<close> (\<open>chat.ts\<close>) with the matcher for
    regular expressions in \<open>Js_Regex\<close>, whose locale \<open>redaction\<close> is interpreted on the expressions for identifiers and keys.
  \<^item> \<^emph>\<open>The dashboard.\<close> \<open>Workspace_Navigation\<close> (\<open>hooks/useWorkspaceNavigation.ts\<close>) is the routing by the hash of the address:
    one record \<open>Workspace\<close>, every event of the browser an input of \<open>navigation_step\<close>. \<open>Dashboard\<close> with \<open>Dashboard_Correct\<close> is
    what the callbacks of \<open>App.tsx\<close> between the feed and the map share: pausing (\<open>pauseOwnership.ts\<close>), the actions of the
    map, replays, plots, the keyboard and the export of films, whose frames are in \<open>Route_Gif\<close> (\<open>routeGifExport.ts\<close>).
    \<open>Map_Actions\<close> is the effect of \<open>CanadaMap.tsx\<close> on such an action, with the timer of a replay and the camera that
    chases it. \<open>Panel_Chrome\<close> (\<open>components/panelChrome.ts\<close>, \<open>components/ChromePanel.tsx\<close>) places and drags the panels,
    \<open>Share_View\<close> (\<open>shareView.ts\<close>) makes and reads the link to a view.
  \<^item> \<^emph>\<open>Around the page.\<close> \<open>Service_Worker\<close> (\<open>web/public/sw.js\<close>) with its caches, \<open>Worker_Updates\<close> (\<open>serviceWorker.ts\<close>,
    \<open>lazyWithReload.ts\<close>) with the reloads of a session, \<open>Perf_Diagnostics\<close> (\<open>perfDiagnostics.ts\<close>) with the counters.
  \<^item> \<^emph>\<open>Connectivity.\<close> \<open>Connectivity\<close> with \<open>Connectivity_Correct\<close> (\<open>connectivity.ts\<close>): paths and the phonebook.
  \<^item> \<^emph>\<open>The net graph.\<close> \<open>Net_Graph\<close> with \<open>Net_Graph_Correct\<close> (\<open>netgraph.ts\<close>) builds the graph, \<open>Net_Graph_Layout\<close> with
    \<open>Net_Graph_Layout_Correct\<close> (\<open>netgraphLayout.ts\<close>, \<open>lib/hash.ts\<close>) selects what is visible and places it,
    \<open>Net_Graph_Prepared\<close> with \<open>Net_Graph_Hits\<close> (\<open>netgraphPrepared.ts\<close>) has its curves, indexes and hit tests, and
    \<open>Net_Graph_Transform\<close> with \<open>Net_Graph_Transform_Correct\<close> (\<open>workers/netgraphTransforms.ts\<close>,
    \<open>workers/netgraph.worker.ts\<close>, \<open>netgraphVisualModel.ts\<close>) is the worker that does all of this.

  \<^bold>\<open>How they interact.\<close> The socket hands envelopes to \<open>enqueueMessage\<close>, which classifies their cursor and queues them;
  an animation frame takes what is due (\<open>takeDueLiveEnvelopes\<close>), drops what is not increasing
  (\<open>takeIncreasingLiveEnvelopes\<close>) and gives the rest to the reducer (\<open>applyPublicEnvelopes\<close>). A gap, an overflow or a
  resumed page asks for a recovery (\<open>backfillOrRefresh\<close>), whose pages come through the sanitizers and are applied
  above the applied cursor; a reset of the stream asks for a new snapshot. The net-graph view sends the nodes and the
  routes of the state to its worker and searches the answer for the node or edge under the pointer; the property
  below follows that chain from the routes to the hit test. A pulse or burst of the state becomes a visual of the
  scheduler (\<open>Live_Visuals\<close>), whose start callback is \<open>renderScheduledPulse\<close> or \<open>renderScheduledObserverBurst\<close>: it enters
  the animator and, a frame later, follows the traffic, shows its message and lights nodes, routes and clusters.

  \<^bold>\<open>What the lemmas show.\<close> For the stream: the events that reach the reducer are in the order of their sequences and
  above the cursor, the queue is bounded, and a wanted recovery is always under way. For the recovery: it applies
  exactly the missing events of an honest server, stays in order with any server and ends within a bounded number of
  requests. For the reducer: its invariant, exact counts of the traffic, and that redelivery changes nothing. For the
  other parts: the types of sanitized values, round trips of storage and settings, that no promise, visual or source
  update is lost, shortest paths, connected components, and hit tests equal to a search of everything. For the map: the
  animator draws as long as there is something to draw and then stops, leaves the canvas as it found it, and draws
  exact residue; no effect of a packet outlives its timers; the chase camera measures by distance; and the lab never plays
  more voices than its limit. For the dashboard: what is open follows the address, films are limited and give the pause
  back, a chase ends, a shared link opens its view, and the chat shows each message once and no identifier. For the
  service worker: an installed client starts offline, its runtime cache is bounded under every interleaving, and no
  reason reloads the page twice. The properties
  are the theorems with a number \<open>C\<close> in front; a lemma that exhibits a defect says so.

  \<^bold>\<open>Termination.\<close> There is no fuel, but for a bound on the iterations of a group of a regular expression, which is the
  length of the text, since each iteration consumes a character. The paging loop moves its cursor to a larger safe integer, the path search extends
  only to nodes a path has not visited, the search of a component marks a new node for each it queues, and the loop of
  \<open>recover\<close> clears its target; each is a terminating function by that measure.

  \<^bold>\<open>How the language is modelled\<close>

  \<^item> A number is a real, neither NaN nor infinite, without the rounding of doubles; where values of unknown type are read
    (\<open>Js_Value\<close>, \<open>Js_Coerce\<close>) it is a double that may be NaN or infinite, and the 32-bit hashes are words, with the
    rounding of their products written out. \<open>Math.log1p(x)\<close> is \<open>ln (1 + x)\<close>.
  \<^item> A \<open>Map\<close> and a plain object are insertion-ordered association lists, a \<open>Set\<close> a list without duplicates, a string a
    list of characters; changing case and trimming are right for ASCII.
  \<^item> \<open>localeCompare\<close> is a parameter \<open>lc\<close>, of which only consistency is assumed (locale \<open>collation\<close>); \<open>sort\<close> with a consistent
    comparator is a stable sort (locale \<open>comparator\<close>), and where the code's comparator is not consistent the sort is a
    parameter \<open>srt\<close> that permutes (locale \<open>host_sort\<close>). Both locales are interpreted on the orders the code uses.
  \<^item> The server, the worker, the callbacks and d3's force simulation are arbitrary functions; \<open>String\<close> of a number is a
    parameter \<open>num\<close>, of which only the absence of blanks is assumed (\<open>clean_numerals\<close>).
  \<^item> Asynchronous code is a step function: a callback and the microtasks it releases run before the next callback. A
    React updater is applied at once, and the effect after a render is an input of its own.
  \<^item> A thrown error is a value, of a sum type or \<open>None\<close>. The clock is an input, read once for a response.
  \<^item> One assumption is not about the environment: \<open>live_flow_no_lost_recovery\<close> holds of runs whose hydration does not
    move the cursor back (\<open>hydrates_forward\<close>).

  \<^item> The canvas is the list of operations it receives, the map its projection, its rendered features and the data of its
    sources. The tiles of the terrain, the sprites and the icons of the asset pack are parameters.

  \<^bold>\<open>Not modelled.\<close> The Go server is another language; the scripts and the deployment drive other programs. The React
  components, the layers and pointer events of \<open>CanadaMap.tsx\<close> and the 3D layer (\<open>map/openFreeMap3D.ts\<close>) draw with
  MapLibre, WebGL, the audio graph and the DOM; what they decide on is in the modules above. The GIF encoder and the pixels
  of a captured frame are parameters. Reports to the performance diagnostics and console output are left out where the
  modules make them.
\<close>

section \<open>From the routes to the pointer\<close>

text \<open>
  C21. The pointer over the answered graph: for routes with trimmed ids, unless an id is \<open>__proto__\<close>, the hit test on the
  graph that the worker answers finds no edge exactly when the curve of no edge is within the threshold, and otherwise
  an edge within the threshold such that no other is nearer.
\<close>

theorem answered_graph_hits:
  assumes "trimmed_routes (nr_payload request)" and "plain_ids (visible_of lc (nr_payload request))"
    and "na_graph (netGraphWorkerMessage lc sim request) = Some g"
  shows "case hr_item (preparedHitEdge (Some g) p scale) of
      None \<Rightarrow> \<forall>e \<in> set (gp_edges g). edgeThreshold scale < edge_distance g p e
    | Some e \<Rightarrow> e \<in> set (gp_edges g) \<and> edge_distance g p e \<le> edgeThreshold scale \<and>
        (\<forall>f \<in> set (gp_edges g). edge_distance g p e \<le> edge_distance g p f)"
proof -
  have g: "g = prepareNetGraph lc sim (nr_payload request)"
    using assms(3) by (simp add: netGraphWorkerMessage_def transformNetGraph_def split: if_splits)
  have "refreshPreparedEdgeGeometry g = g" unfolding g by (rule prepared_is_current [OF assms(1,2)])
  moreover have "ends_in g e" if "e \<in> set (gp_edges g)" for e
    using prepared_edge_ends [OF assms(1,2)] that unfolding g by blast
  ultimately show ?thesis
    using hit_edge_is_nearest [where g = g and p = p and scale = scale] by (simp split: option.splits)
qed

theorem answered_graph_hits_witness:
  "\<exists>g. na_graph (netGraphWorkerMessage code_unit_compare (\<lambda>s ticks i. \<lparr>px = real i, py = 0\<rparr>)
       \<lparr>nr_id = ''netgraph-1'', nr_type = ''prepare'', nr_payload = sample_input\<rparr>) = Some g \<and>
     (case hr_item (preparedHitEdge (Some g) \<lparr>px = 0, py = 0\<rparr> 1) of
        None \<Rightarrow> edgeThreshold 1 < edge_distance g \<lparr>px = 0, py = 0\<rparr> (hd (gp_edges g))
      | Some e \<Rightarrow> edge_distance g \<lparr>px = 0, py = 0\<rparr> e \<le> edgeThreshold 1)"
proof -
  let ?sim = "\<lambda>s ticks i. \<lparr>px = real i, py = 0\<rparr>"
  let ?r = "\<lparr>nr_id = ''netgraph-1'', nr_type = ''prepare'', nr_payload = sample_input\<rparr>"
  let ?g = "prepareNetGraph code_unit_compare ?sim sample_input"
  have a: "na_graph (netGraphWorkerMessage code_unit_compare ?sim ?r) = Some ?g"
    by (simp add: netGraphWorkerMessage_def transformNetGraph_def)
  have t: "trimmed_routes (nr_payload ?r)" "plain_ids (visible_of code_unit_compare (nr_payload ?r))"
    using sample_trimmed sample_plain by simp_all
  have "length (gp_edges ?g) = length (ng_edges (visible_of code_unit_compare sample_input))"
    using arg_cong [OF prepared_edges_visible [OF sample_trimmed sample_plain], of length] by simp
  then have "gp_edges ?g \<noteq> []" using sample_visible by auto
  then show ?thesis
    using a answered_graph_hits [OF t a, where p = "\<lparr>px = 0, py = 0\<rparr>" and scale = 1] by (auto split: option.splits)
qed

end
